(* ===== verification/Prelude.thy ===== *)
theory Prelude
  imports Main "HOL-Library.Word"
begin

text \<open>
  Shared vocabulary of the development: the machine integers of Go, byte strings, the error
  values a Go function returns, the reader type of the packet decoders and the generic record
  loop they are built from, together with the lemma collections the component theories use.
\<close>

unbundle bit_operations_syntax

section \<open>Machine integers, bytes and errors\<close>

type_synonym u8 = "8 word"
type_synonym u16 = "16 word"
type_synonym u32 = "32 word"
type_synonym u64 = "64 word"
type_synonym bytes = "u8 list"

text \<open>
  A Go error value. The sentinels of package io keep a constructor of their own because the code
  compares against them; \<open>Errorf\<close> keeps the format string and the integer arguments of
  \<^verbatim>\<open>fmt.Errorf\<close>, \<open>Wrapf\<close> an error formatted into another one with \<^verbatim>\<open>%v\<close> (the wrapped
  sentinel is no longer equal to the sentinel). \<open>Panic\<close> is a run-time panic: it is not a value in
  Go, and the theorems about it say that it is not reached.
\<close>

datatype go_error =
    EOF
  | UnexpectedEOF
  | ShortBuffer
  | Errorf string "int list"
  | Wrapf string "int list" go_error
  | Panic string

type_synonym 'a res = "go_error + 'a"

text \<open>A reader consumes a prefix of the unread bytes and hands back the rest.\<close>

type_synonym 'a rd = "bytes \<Rightarrow> go_error + 'a \<times> bytes"

definition rret :: "'a \<Rightarrow> 'a rd" where
  "rret x = (\<lambda>s. Inr (x, s))"

definition rfail :: "go_error \<Rightarrow> 'a rd" where
  "rfail e = (\<lambda>s. Inl e)"

definition rbind :: "'a rd \<Rightarrow> ('a \<Rightarrow> 'b rd) \<Rightarrow> 'b rd" where
  "rbind m f = (\<lambda>s. case m s of Inl e \<Rightarrow> Inl e | Inr (x, s') \<Rightarrow> f x s')"

text \<open>\<^verbatim>\<open>if err := m; err != nil { return fmt.Errorf(msg, err) }\<close>\<close>

definition rwrap :: "string \<Rightarrow> 'a rd \<Rightarrow> 'a rd" where
  "rwrap msg m = (\<lambda>s. case m s of Inl e \<Rightarrow> Inl (Wrapf msg [] e) | Inr r \<Rightarrow> Inr r)"

fun rseq :: "'a rd list \<Rightarrow> 'a list rd" where
  "rseq [] = rret []"
| "rseq (m # ms) = rbind m (\<lambda>x. rbind (rseq ms) (\<lambda>xs. rret (x # xs)))"

section \<open>Collections\<close>

named_theorems rd_defs \<open>unfolding of the reader combinators\<close>
named_theorems rd_run \<open>how the readers run on an input that starts with an encoding\<close>
named_theorems rd_shrink \<open>a successful read leaves no more bytes than it found\<close>

declare rret_def [rd_defs] rfail_def [rd_defs] rbind_def [rd_defs] rwrap_def [rd_defs]

lemma rret_run [simp]: "rret x s = Inr (x, s)"
  by (simp add: rret_def)

lemma rfail_run [simp]: "rfail e s = Inl e"
  by (simp add: rfail_def)

lemma rbind_run_Inr: "m s = Inr (x, s') \<Longrightarrow> rbind m f s = f x s'"
  by (simp add: rbind_def)

lemma rbind_run_Inl: "m s = Inl e \<Longrightarrow> rbind m f s = Inl e"
  by (simp add: rbind_def)

lemma rwrap_run_Inr: "m s = Inr r \<Longrightarrow> rwrap msg m s = Inr r"
  by (simp add: rwrap_def)

lemma rbind_InrE:
  assumes "rbind m f s = Inr (y, s'')"
  obtains x s' where "m s = Inr (x, s')" and "f x s' = Inr (y, s'')"
  using assms by (auto simp: rbind_def split: sum.splits prod.splits)

lemma rwrap_Inr_iff [simp]: "rwrap msg m s = Inr r \<longleftrightarrow> m s = Inr r"
  by (simp add: rwrap_def split: sum.splits)

section \<open>Readers that shrink their input, and codecs\<close>

text \<open>\<open>rd_within n m\<close>: a successful run of \<open>m\<close> consumes at least \<open>n\<close> bytes.\<close>

definition rd_within :: "nat \<Rightarrow> 'a rd \<Rightarrow> bool" where
  "rd_within n m \<longleftrightarrow> (\<forall>s x s'. m s = Inr (x, s') \<longrightarrow> length s' + n \<le> length s)"

lemma rd_withinI: "(\<And>s x s'. m s = Inr (x, s') \<Longrightarrow> length s' + n \<le> length s) \<Longrightarrow> rd_within n m"
  by (auto simp: rd_within_def)

lemma rd_withinD: "rd_within n m \<Longrightarrow> m s = Inr (x, s') \<Longrightarrow> length s' + n \<le> length s"
  by (auto simp: rd_within_def)

lemma rd_within_mono: "rd_within n m \<Longrightarrow> k \<le> n \<Longrightarrow> rd_within k m"
  by (fastforce simp: rd_within_def)

lemma rd_within_ret [rd_shrink]: "rd_within 0 (rret x)"
  by (simp add: rd_within_def)

lemma rd_within_fail [rd_shrink]: "rd_within n (rfail e)"
  by (simp add: rd_within_def)

lemma rd_within_bind:
  assumes "rd_within n m" and "\<And>x. rd_within k (f x)"
  shows "rd_within (n + k) (rbind m f)"
proof (rule rd_withinI)
  fix s y s''
  assume "rbind m f s = Inr (y, s'')"
  then obtain x s' where 1: "m s = Inr (x, s')" and 2: "f x s' = Inr (y, s'')"
    by (rule rbind_InrE)
  from rd_withinD [OF assms(1) 1] rd_withinD [OF assms(2) 2]
  show "length s'' + (n + k) \<le> length s" by simp
qed

lemma rd_within_bind_ret: "rd_within n m \<Longrightarrow> rd_within n (rbind m (\<lambda>x. rret (g x)))"
  using rd_within_bind [of n m 0 "\<lambda>x. rret (g x)"] by (simp add: rd_within_ret)

lemma rd_within_0: "rd_within n m \<Longrightarrow> rd_within 0 m"
  by (rule rd_within_mono) simp_all

lemma rd_within_wrap: "rd_within n m \<Longrightarrow> rd_within n (rwrap msg m)"
  by (simp add: rd_within_def)

lemma rd_within_seq:
  assumes "\<And>m. m \<in> set ms \<Longrightarrow> rd_within n m"
  shows "rd_within (n * length ms) (rseq ms)"
  using assms
proof (induction ms)
  case Nil
  show ?case by (simp add: rd_within_def)
next
  case (Cons m ms)
  have "rd_within (n + (n * length ms + 0)) (rseq (m # ms))"
    unfolding rseq.simps
    by (intro rd_within_bind rd_within_ret Cons.IH) (simp_all add: Cons.prems)
  then show ?case by simp
qed

lemma length_rseq: "rseq ms s = Inr (xs, s') \<Longrightarrow> length xs = length ms"
  by (induction ms arbitrary: s xs s') (auto elim!: rbind_InrE)

text \<open>
  \<open>rd_exact n m\<close>: the reader needs exactly \<open>n\<close> bytes. With fewer it fails, otherwise it takes the
  first \<open>n\<close> and leaves the rest.
\<close>

definition rd_exact :: "nat \<Rightarrow> 'a rd \<Rightarrow> bool" where
  "rd_exact n m \<longleftrightarrow>
     (\<forall>s. (n \<le> length s \<longrightarrow> (\<exists>x. m s = Inr (x, drop n s))) \<and> (length s < n \<longrightarrow> (\<exists>e. m s = Inl e)))"

lemma rd_exactI:
  assumes "\<And>s. n \<le> length s \<Longrightarrow> \<exists>x. m s = Inr (x, drop n s)"
    and "\<And>s. length s < n \<Longrightarrow> \<exists>e. m s = Inl e"
  shows "rd_exact n m"
  using assms by (auto simp: rd_exact_def)

lemma rd_exact_ok: "rd_exact n m \<Longrightarrow> n \<le> length s \<Longrightarrow> \<exists>x. m s = Inr (x, drop n s)"
  by (auto simp: rd_exact_def)

lemma rd_exact_short: "rd_exact n m \<Longrightarrow> length s < n \<Longrightarrow> \<exists>e. m s = Inl e"
  by (auto simp: rd_exact_def)

lemma rd_exact_ret: "rd_exact 0 (rret x)"
  by (simp add: rd_exact_def)

lemma rd_exact_bind:
  assumes "rd_exact n m" and "\<And>x. rd_exact k (f x)"
  shows "rd_exact (n + k) (rbind m f)"
proof (rule rd_exactI)
  fix s :: bytes
  assume len: "n + k \<le> length s"
  then obtain x where "m s = Inr (x, drop n s)"
    using rd_exact_ok [OF assms(1), of s] by auto
  moreover have "k \<le> length (drop n s)" using len by simp
  then obtain y where "f x (drop n s) = Inr (y, drop k (drop n s))"
    using rd_exact_ok [OF assms(2)] by blast
  ultimately show "\<exists>x. rbind m f s = Inr (x, drop (n + k) s)"
    by (auto simp: rbind_def add.commute)
next
  fix s :: bytes
  assume len: "length s < n + k"
  show "\<exists>e. rbind m f s = Inl e"
  proof (cases "n \<le> length s")
    case True
    then obtain x where "m s = Inr (x, drop n s)"
      using rd_exact_ok [OF assms(1), of s] by auto
    moreover have "length (drop n s) < k" using len True by simp
    then obtain e where "f x (drop n s) = Inl e"
      using rd_exact_short [OF assms(2)] by blast
    ultimately show ?thesis by (auto simp: rbind_def)
  next
    case False
    then show ?thesis
      using rd_exact_short [OF assms(1), of s] by (auto simp: rbind_def)
  qed
qed

lemma rd_exact_seq:
  "(\<And>m. m \<in> set ms \<Longrightarrow> rd_exact n m) \<Longrightarrow> rd_exact (length ms * n) (rseq ms)"
proof (induction ms)
  case Nil
  show ?case by (simp add: rd_exact_def)
next
  case (Cons m ms)
  have "rd_exact (n + (length ms * n + 0)) (rseq (m # ms))"
    unfolding rseq.simps
    by (intro rd_exact_bind rd_exact_ret Cons.IH) (simp_all add: Cons.prems)
  then show ?case by simp
qed

text \<open>
  The interface of a codec: decoding an encoding gives the value back and leaves what follows
  untouched, so codecs can be chained; every encoding has the same width.
\<close>

locale codec =
  fixes enc :: "'a \<Rightarrow> bytes"
    and dec :: "'a rd"
    and width :: nat
  assumes dec_enc: "dec (enc x @ s) = Inr (x, s)"
    and length_enc: "length (enc x) = width"
begin

lemma dec_enc_bind: "rbind dec f (enc x @ s) = f x s"
  by (simp add: rbind_def dec_enc)

lemma dec_enc_only: "dec (enc x) = Inr (x, [])"
  using dec_enc [of x "[]"] by simp

lemma rseq_replicate: "rseq (replicate (length xs) dec) (concat (map enc xs) @ s) = Inr (xs, s)"
  by (induction xs) (simp_all add: rbind_run_Inr dec_enc)

lemma length_concat_enc: "length (concat (map enc xs)) = width * length xs"
  by (induction xs) (simp_all add: length_enc)

end

section \<open>Panics\<close>

fun is_panic :: "go_error \<Rightarrow> bool" where
  "is_panic (Panic w) = True"
| "is_panic _ = False"

definition rd_nopanic :: "'a rd \<Rightarrow> bool" where
  "rd_nopanic m \<longleftrightarrow> (\<forall>s e. m s = Inl e \<longrightarrow> \<not> is_panic e)"

lemma rd_nopanicD: "rd_nopanic m \<Longrightarrow> m s = Inl e \<Longrightarrow> \<not> is_panic e"
  by (auto simp: rd_nopanic_def)

lemma rd_nopanic_ret: "rd_nopanic (rret x)"
  by (simp add: rd_nopanic_def)

lemma rd_nopanic_fail: "\<not> is_panic e \<Longrightarrow> rd_nopanic (rfail e)"
  by (simp add: rd_nopanic_def)

lemma rd_nopanic_bind: "rd_nopanic m \<Longrightarrow> (\<And>x. rd_nopanic (f x)) \<Longrightarrow> rd_nopanic (rbind m f)"
  by (auto simp: rd_nopanic_def rbind_def split: sum.splits)

lemma rd_nopanic_wrap: "rd_nopanic (rwrap msg m)"
  by (simp add: rd_nopanic_def rwrap_def split: sum.splits)

lemma rd_nopanic_seq: "(\<And>m. m \<in> set ms \<Longrightarrow> rd_nopanic m) \<Longrightarrow> rd_nopanic (rseq ms)"
proof (induction ms)
  case Nil
  show ?case by (simp add: rd_nopanic_def)
next
  case (Cons m ms)
  then show ?case
    unfolding rseq.simps by (intro rd_nopanic_bind rd_nopanic_ret) simp_all
qed

lemmas rd_nopanic_intros = rd_nopanic_ret rd_nopanic_bind rd_nopanic_wrap

section \<open>Record loops\<close>

text \<open>
  \<^verbatim>\<open>for more(buffer) { r, err := step(buffer); if err != nil { return err }; out = append(out, r) }\<close>.
  The result carries the records read so far and the error, if any; \<open>None\<close> is a loop that does
  not end.
\<close>

partial_function (option) unmarshal_loop ::
  "(bytes \<Rightarrow> bool) \<Rightarrow> 'r rd \<Rightarrow> bytes \<Rightarrow> 'r list \<Rightarrow> ('r list \<times> go_error option) option"
where
  "unmarshal_loop more step buf acc =
     (if more buf
      then (case step buf of
              Inl e \<Rightarrow> Some (acc, Some e)
            | Inr (r, buf') \<Rightarrow> unmarshal_loop more step buf' (acc @ [r]))
      else Some (acc, None))"

declare unmarshal_loop.simps [code]

lemma unmarshal_loop_stop: "\<not> more buf \<Longrightarrow> unmarshal_loop more step buf acc = Some (acc, None)"
  by (simp add: unmarshal_loop.simps)

lemma unmarshal_loop_step:
  "more buf \<Longrightarrow> step buf = Inr (r, buf') \<Longrightarrow>
   unmarshal_loop more step buf acc = unmarshal_loop more step buf' (acc @ [r])"
  by (subst unmarshal_loop.simps) simp

lemma unmarshal_loop_err:
  "more buf \<Longrightarrow> step buf = Inl e \<Longrightarrow> unmarshal_loop more step buf acc = Some (acc, Some e)"
  by (subst unmarshal_loop.simps) simp

lemma unmarshal_loop_returns:
  assumes "\<And>b r b'. more b \<Longrightarrow> step b = Inr (r, b') \<Longrightarrow> length b' < length b"
  shows "\<exists>out. unmarshal_loop more step buf acc = Some out"
proof (induction buf arbitrary: acc rule: length_induct)
  case (1 buf)
  show ?case
  proof (cases "more buf")
    case False
    then show ?thesis by (simp add: unmarshal_loop_stop)
  next
    case more: True
    show ?thesis
    proof (cases "step buf")
      case (Inl e)
      with more show ?thesis by (simp add: unmarshal_loop_err)
    next
      case (Inr p)
      then obtain r buf' where step: "step buf = Inr (r, buf')" by (cases p) auto
      with assms more 1 have "\<exists>out. unmarshal_loop more step buf' (acc @ [r]) = Some out" by blast
      with step more show ?thesis by (simp add: unmarshal_loop_step)
    qed
  qed
qed

lemma unmarshal_loop_diverges:
  assumes stuck: "more b" "step b = Inr (r, b)"
  shows "unmarshal_loop more step b acc = None"
proof (rule ccontr)
  assume "unmarshal_loop more step b acc \<noteq> None"
  then obtain out where ret: "unmarshal_loop more step b acc = Some out" by auto
  have "\<not> (more = more \<and> step = step \<and> b = b)"
    if "unmarshal_loop more step b acc = Some out" for out acc
  proof (rule unmarshal_loop.raw_induct
      [where P = "\<lambda>m st bf ac r. \<not> (m = more \<and> st = step \<and> bf = b)", OF _ that])
    fix f :: "(bytes \<Rightarrow> bool) \<Rightarrow> 'a rd \<Rightarrow> bytes \<Rightarrow> 'a list \<Rightarrow> ('a list \<times> go_error option) option"
    fix m st bf ac r'
    assume IH: "\<And>m st bf ac r'. f m st bf ac = Some r' \<Longrightarrow> \<not> (m = more \<and> st = step \<and> bf = b)"
      and eq: "(if m bf then (case st bf of Inl e \<Rightarrow> Some (ac, Some e)
                 | Inr (r, buf') \<Rightarrow> f m st buf' (ac @ [r])) else Some (ac, None)) = Some r'"
    show "\<not> (m = more \<and> st = step \<and> bf = b)"
    proof
      assume "m = more \<and> st = step \<and> bf = b"
      with eq stuck have "f more step b (ac @ [r]) = Some r'" by simp
      with IH show False by blast
    qed
  qed
  with ret show False by simp
qed

lemma unmarshal_loop_error_from_step:
  assumes "unmarshal_loop more step buf acc = Some out"
  shows "case snd out of None \<Rightarrow> True | Some e \<Rightarrow> \<exists>b. more b \<and> step b = Inl e"
proof (rule unmarshal_loop.raw_induct
    [where P = "\<lambda>m st bf ac r. case snd r of None \<Rightarrow> True | Some e \<Rightarrow> \<exists>b. m b \<and> st b = Inl e", OF _ assms])
  fix f :: "(bytes \<Rightarrow> bool) \<Rightarrow> 'a rd \<Rightarrow> bytes \<Rightarrow> 'a list \<Rightarrow> ('a list \<times> go_error option) option"
  fix m st bf ac r
  assume IH: "\<And>m st bf ac r. f m st bf ac = Some r \<Longrightarrow>
      case snd r of None \<Rightarrow> True | Some e \<Rightarrow> \<exists>b. m b \<and> st b = Inl e"
    and eq: "(if m bf then (case st bf of Inl e \<Rightarrow> Some (ac, Some e)
               | Inr (r, buf') \<Rightarrow> f m st buf' (ac @ [r])) else Some (ac, None)) = Some r"
  show "case snd r of None \<Rightarrow> True | Some e \<Rightarrow> \<exists>b. m b \<and> st b = Inl e"
    using eq IH by (auto split: if_splits sum.splits prod.splits)
qed

text \<open>
  What the four data loops of the decoders promise: a template is productive exactly when reading
  one record takes something off a buffer the loop would go on with. The loop returns in exactly
  the productive cases.
\<close>

locale record_loop =
  fixes more :: "bytes \<Rightarrow> bool"
    and step :: "'t \<Rightarrow> 'r rd"
    and productive :: "'t \<Rightarrow> bool"
  assumes productive_shrinks:
      "productive t \<Longrightarrow> more s \<Longrightarrow> step t s = Inr (r, s') \<Longrightarrow> length s' < length s"
    and unproductive_stuck: "\<not> productive t \<Longrightarrow> more s \<Longrightarrow> \<exists>r. step t s = Inr (r, s)"
begin

lemma loop_returns: "productive t \<Longrightarrow> \<exists>out. unmarshal_loop more (step t) buf acc = Some out"
  by (rule unmarshal_loop_returns) (rule productive_shrinks)

lemma loop_diverges:
  assumes "\<not> productive t" and "more buf"
  shows "unmarshal_loop more (step t) buf acc = None"
proof -
  obtain r where "step t buf = Inr (r, buf)"
    using unproductive_stuck assms by blast
  with assms(2) show ?thesis by (rule unmarshal_loop_diverges)
qed

lemma loop_returns_iff:
  "unmarshal_loop more (step t) buf acc \<noteq> None \<longleftrightarrow> productive t \<or> \<not> more buf"
  using loop_returns [of t buf acc] loop_diverges [of t buf acc]
    unmarshal_loop_stop [of more buf "step t" acc] by auto

end

text \<open>
  A loop over encoded records reads them back, and stops at the padding behind them.
\<close>

lemma unmarshal_loop_encoded:
  assumes "\<And>x s. x \<in> set xs \<Longrightarrow> step (enc x @ s) = Inr (x, s)"
    and "\<And>x s. x \<in> set xs \<Longrightarrow> more (enc x @ s)"
    and "\<not> more pad"
  shows "unmarshal_loop more step (concat (map enc xs) @ pad) acc = Some (acc @ xs, None)"
  using assms
proof (induction xs arbitrary: acc)
  case Nil
  then show ?case by (simp add: unmarshal_loop_stop)
next
  case (Cons x xs)
  have "unmarshal_loop more step (enc x @ concat (map enc xs) @ pad) acc =
      unmarshal_loop more step (concat (map enc xs) @ pad) (acc @ [x])"
    using Cons.prems by (intro unmarshal_loop_step) simp_all
  with Cons show ?case by simp
qed

text \<open>
  The fields of a data record, one after another: a specifier of length zero reads nothing, any
  other one takes something off the buffer or fails. A list of specifiers is productive when one
  of them is not of length zero.
\<close>

locale field_reader =
  fixes rdf :: "'fs \<Rightarrow> 'f rd"
    and flen :: "'fs \<Rightarrow> nat"
  assumes field_progress: "rdf fs s = Inr (f, s') \<Longrightarrow> flen fs \<noteq> 0 \<Longrightarrow> length s' < length s"
    and field_zero: "flen fs = 0 \<Longrightarrow> \<exists>f. rdf fs s = Inr (f, s)"
begin

lemma field_within: "rd_within 0 (rdf fs)"
proof (rule rd_withinI)
  fix s f s'
  assume run: "rdf fs s = Inr (f, s')"
  show "length s' + 0 \<le> length s"
  proof (cases "flen fs = 0")
    case True
    with field_zero [of fs s] run show ?thesis by auto
  next
    case False
    with field_progress [OF run] show ?thesis by simp
  qed
qed

lemma fields_within: "rd_within 0 (rseq (map rdf fss))"
  using rd_within_seq [of "map rdf fss" 0] field_within by auto

lemma fields_progress:
  "rseq (map rdf fss) s = Inr (flds, s') \<Longrightarrow> \<exists>fs \<in> set fss. flen fs \<noteq> 0 \<Longrightarrow> length s' < length s"
proof (induction fss arbitrary: s flds s')
  case Nil
  then show ?case by simp
next
  case (Cons fs fss)
  from Cons.prems(1) obtain f s1 flds' where f: "rdf fs s = Inr (f, s1)"
    and r: "rseq (map rdf fss) s1 = Inr (flds', s')"
    by (auto elim!: rbind_InrE)
  show ?case
  proof (cases "flen fs = 0")
    case True
    with field_zero [of fs s] f have "s1 = s" by auto
    then show ?thesis
      using Cons.IH [OF r] Cons.prems(2) True by auto
  next
    case False
    with f have "length s1 < length s" by (rule field_progress)
    with rd_withinD [OF fields_within r] show ?thesis by simp
  qed
qed

lemma fields_zero:
  "\<not> (\<exists>fs \<in> set fss. flen fs \<noteq> 0) \<Longrightarrow> \<exists>flds. rseq (map rdf fss) s = Inr (flds, s)"
proof (induction fss)
  case Nil
  then show ?case by simp
next
  case (Cons fs fss)
  then obtain flds where "rseq (map rdf fss) s = Inr (flds, s)" by auto
  moreover obtain f where "rdf fs s = Inr (f, s)" using field_zero [of fs s] Cons.prems by auto
  ultimately show ?case by (auto simp: rbind_def)
qed

end

section \<open>The machine integers of type int\<close>

text \<open>\<^verbatim>\<open>int\<close> has 64 bits: a result out of range wraps around.\<close>

definition wrap_int :: "int \<Rightarrow> int" where
  "wrap_int x = (x + 2 ^ 63) mod 2 ^ 64 - 2 ^ 63"

lemma wrap_int_id: "- (2 ^ 63) \<le> x \<Longrightarrow> x < 2 ^ 63 \<Longrightarrow> wrap_int x = x"
  by (simp add: wrap_int_def)

lemma map_sum_InrE: "map_sum id f x = Inr y \<Longrightarrow> (\<And>z. x = Inr z \<Longrightarrow> y = f z \<Longrightarrow> P) \<Longrightarrow> P"
  by (cases x) auto

section \<open>Word conversions\<close>

lemma ucast_ucast_take_bit:
  fixes w :: "'a::len word"
  shows "LENGTH('b) \<le> LENGTH('a) \<Longrightarrow> ucast (ucast w :: 'b::len word) = take_bit LENGTH('b) w"
  by (rule bit_word_eqI) (auto simp: bit_simps)

lemma ucast_up_down:
  fixes w :: "'a::len word"
  shows "LENGTH('a) \<le> LENGTH('b) \<Longrightarrow> ucast (ucast w :: 'b::len word) = w"
  by (rule bit_word_eqI) (auto simp: bit_simps)

lemma take_bit_small: "w < 2 ^ n \<Longrightarrow> take_bit n w = (w :: 'a::len word)"
proof -
  assume "w < 2 ^ n"
  then have "unat w < unat ((2 :: 'a word) ^ n)" by (simp add: word_less_nat_alt)
  also have "(2 :: 'a word) ^ n = of_nat (2 ^ n)" by simp
  also have "unat (of_nat (2 ^ n) :: 'a word) \<le> 2 ^ n"
    by (simp only: unsigned_of_nat take_bit_nat_less_eq_self of_nat_id)
  finally have "take_bit n (unat w) = unat w" by (simp add: take_bit_nat_eq_self)
  then show ?thesis by (simp add: word_unat_eq_iff unsigned_take_bit_eq)
qed

end
