(* ===== verification/Netflow_Read.thy ===== *)
theory Netflow_Read
  imports Prelude
begin

text \<open>
  Package \<^verbatim>\<open>pkg/util/netflow/read\<close> and what it uses of the Go library: \<^verbatim>\<open>bytes.Buffer.Read\<close>,
  \<^verbatim>\<open>io.ReadFull\<close> and \<^verbatim>\<open>encoding/binary.BigEndian\<close>. The readers of the program are buffers over a
  datagram (a \<^verbatim>\<open>bytes.Buffer\<close>, or the \<^verbatim>\<open>io.MultiReader\<close> that puts the two version bytes back in
  front of one), so a reader is the list of its unread bytes.
\<close>

section \<open>The Go library's part\<close>

text \<open>
  \<open>buf_read b\<close> is \<^verbatim>\<open>Read(b)\<close> of a buffer into the slice \<open>b\<close>: it fills at most \<open>length b\<close> bytes,
  keeps the tail of \<open>b\<close> when the buffer holds fewer, and reports EOF only when the buffer was
  empty and the slice is not.
\<close>

definition buf_read :: "bytes \<Rightarrow> bytes rd" where
  "buf_read b = (\<lambda>s.
     if s = [] then (if b = [] then Inr (b, s) else Inl EOF)
     else Inr (take (length b) s @ drop (length s) b, drop (length b) s))"

text \<open>\<^verbatim>\<open>make([]byte, n)\<close>\<close>

definition make_bytes :: "nat \<Rightarrow> bytes" where
  "make_bytes n = replicate n 0"

text \<open>\<^verbatim>\<open>io.ReadFull(r, make([]byte, n))\<close>\<close>

definition read_full :: "nat \<Rightarrow> bytes rd" where
  "read_full n = (\<lambda>s.
     if n = 0 then Inr ([], s)
     else if s = [] then Inl EOF
     else if length s < n then Inl UnexpectedEOF
     else Inr (take n s, drop n s))"

text \<open>\<^verbatim>\<open>binary.BigEndian.Uint16/32/64\<close> and \<^verbatim>\<open>PutUint16/32/64\<close>\<close>

definition BigEndian_Uint :: "bytes \<Rightarrow> 'a::len word" where
  "BigEndian_Uint bs = foldl (\<lambda>acc b. push_bit 8 acc OR ucast b) 0 bs"

definition BigEndian_Put :: "nat \<Rightarrow> 'a::len word \<Rightarrow> bytes" where
  "BigEndian_Put n w = map (\<lambda>i. ucast (drop_bit (8 * i) w)) (rev [0..<n])"

text \<open>\<^verbatim>\<open>time.Unix(sec, nsec)\<close>, as nanoseconds since the epoch.\<close>

definition time_Unix :: "int \<Rightarrow> int \<Rightarrow> int" where
  "time_Unix sec nsec = sec * 1000000000 + nsec"

section \<open>read.go\<close>

definition read_Uint8 :: "u8 rd" where
  "read_Uint8 = rbind (read_full 1) (\<lambda>b. rret (hd b))"

definition read_Uint16 :: "u16 rd" where
  "read_Uint16 = rbind (read_full 2) (\<lambda>b. rret (BigEndian_Uint b))"

definition read_Uint32 :: "u32 rd" where
  "read_Uint32 = rbind (read_full 4) (\<lambda>b. rret (BigEndian_Uint b))"

definition read_Uint64 :: "u64 rd" where
  "read_Uint64 = rbind (read_full 8) (\<lambda>b. rret (BigEndian_Uint b))"

type_synonym LongIPv4 = u32

definition read_Uint32IPv4 :: "LongIPv4 rd" where
  "read_Uint32IPv4 = rbind read_Uint32 rret"

text \<open>
  \<^verbatim>\<open>VariableLength(p, r)\<close>. The slice \<open>p\<close> comes with its capacity \<open>cp\<close> (\<open>length p \<le> cp\<close>): a
  fresh slice is made when the capacity is too small, \<open>p\<close> is grown with zero bytes when only its
  length is, and a longer \<open>p\<close> is used as it is.
\<close>

definition VariableLength :: "bytes \<Rightarrow> nat \<Rightarrow> bytes rd" where
  "VariableLength p cp =
     rbind read_Uint8 (\<lambda>l0.
     rbind (if l0 < 0xff then rret (unat l0) else rbind read_Uint16 (\<lambda>l1. rret (unat l1))) (\<lambda>l.
     let b = (if cp < l then make_bytes l
              else if length p < l then p @ replicate (l - length p) 0
              else p)
     in buf_read b))"

section \<open>string.go and type.go\<close>

definition tcpFlags :: string where
  "tcpFlags = ''NCEUAPRSF''"

text \<open>One turn of the loop of \<^verbatim>\<open>TCPFlags\<close>: a letter or a dot, then \<open>f >>= 1\<close>.\<close>

fun TCPFlags_loop :: "nat \<Rightarrow> nat \<Rightarrow> u8 \<Rightarrow> string" where
  "TCPFlags_loop 0 i f = []"
| "TCPFlags_loop (Suc n) i f =
     (if f AND 1 > 0 then tcpFlags ! (8 - i) else CHR ''.'') # TCPFlags_loop n (Suc i) (drop_bit 1 f)"

definition TCPFlags :: "u8 \<Rightarrow> string" where
  "TCPFlags f = ''['' @ TCPFlags_loop 8 0 f @ '']''"

text \<open>The four octets \<^verbatim>\<open>LongIPv4.String\<close> hands to \<^verbatim>\<open>net.IP.String\<close>.\<close>

definition LongIPv4_octets :: "LongIPv4 \<Rightarrow> bytes" where
  "LongIPv4_octets l = [ucast (drop_bit 24 l), ucast (drop_bit 16 l), ucast (drop_bit 8 l), ucast l]"

section \<open>Big-endian codecs\<close>

lemma BigEndian_acc:
  "foldl (\<lambda>acc b. push_bit 8 acc OR ucast b) (a :: 'a::len word) bs =
   push_bit (8 * length bs) a OR BigEndian_Uint bs"
proof (induction bs arbitrary: a)
  case Nil
  show ?case by (simp add: BigEndian_Uint_def)
next
  case (Cons b bs)
  have "BigEndian_Uint (b # bs) =
      (push_bit (8 * length bs) (ucast b) OR BigEndian_Uint bs :: 'a word)"
    using Cons.IH [of "ucast b"] by (simp add: BigEndian_Uint_def)
  then show ?case
    using Cons.IH [of "push_bit 8 a OR ucast b"]
    by (simp add: push_bit_or push_bit_push_bit or.assoc ac_simps)
qed

lemma BigEndian_Uint_Cons:
  "BigEndian_Uint (b # bs) = push_bit (8 * length bs) (ucast b) OR (BigEndian_Uint bs :: 'a::len word)"
  using BigEndian_acc [of "ucast b" bs] by (simp add: BigEndian_Uint_def)

lemma length_BigEndian_Put [simp]: "length (BigEndian_Put n w) = n"
  by (simp add: BigEndian_Put_def)

lemma BigEndian_Put_Suc: "BigEndian_Put (Suc n) w = ucast (drop_bit (8 * n) w) # BigEndian_Put n w"
  by (simp add: BigEndian_Put_def)

lemma BigEndian_Uint_Put: "BigEndian_Uint (BigEndian_Put n w) = (take_bit (8 * n) w :: 'a::len word)"
proof (induction n)
  case 0
  show ?case by (simp add: BigEndian_Put_def BigEndian_Uint_def)
next
  case (Suc n)
  show ?case
    by (rule bit_word_eqI)
      (auto simp: BigEndian_Put_Suc BigEndian_Uint_Cons Suc.IH bit_simps)
qed

lemma take_bit_full [simp]: "LENGTH('a) \<le> n \<Longrightarrow> take_bit n w = (w :: 'a::len word)"
  by (rule bit_word_eqI) (simp add: bit_simps)

lemma read_full_app [rd_run]: "length b = n \<Longrightarrow> read_full n (b @ s) = Inr (b, s)"
  by (auto simp: read_full_def)

lemma read_full_within [rd_shrink]: "rd_within n (read_full n)"
  by (auto simp: rd_within_def read_full_def split: if_splits)

lemma buf_read_app [rd_run]: "length b = length d \<Longrightarrow> buf_read b (d @ s) = Inr (d, s)"
  by (auto simp: buf_read_def)

lemma buf_read_within [rd_shrink]: "rd_within 0 (buf_read b)"
  by (auto simp: rd_within_def buf_read_def split: if_splits)

lemma length_make_bytes [simp]: "length (make_bytes n) = n"
  by (simp add: make_bytes_def)

lemma length_buf_read: "buf_read b s = Inr (d, s') \<Longrightarrow> length d = length b"
  by (auto simp: buf_read_def split: if_splits)

interpretation be8: codec "\<lambda>w :: u8. [w]" read_Uint8 1
  by unfold_locales (auto simp: read_Uint8_def rd_defs read_full_def)

interpretation be16: codec "BigEndian_Put 2 :: u16 \<Rightarrow> bytes" read_Uint16 2
  by unfold_locales (simp_all add: read_Uint16_def rbind_run_Inr read_full_app BigEndian_Uint_Put)

interpretation be32: codec "BigEndian_Put 4 :: u32 \<Rightarrow> bytes" read_Uint32 4
  by unfold_locales (simp_all add: read_Uint32_def rbind_run_Inr read_full_app BigEndian_Uint_Put)

interpretation be64: codec "BigEndian_Put 8 :: u64 \<Rightarrow> bytes" read_Uint64 8
  by unfold_locales (simp_all add: read_Uint64_def rbind_run_Inr read_full_app BigEndian_Uint_Put)

lemmas be_run [rd_run] = be8.dec_enc be16.dec_enc be32.dec_enc be64.dec_enc

lemma read_Uint8_within [rd_shrink]: "rd_within 1 read_Uint8"
  unfolding read_Uint8_def
  using rd_within_bind [OF read_full_within rd_within_ret, of 1] by simp

lemma read_Uint16_within [rd_shrink]: "rd_within 2 read_Uint16"
  unfolding read_Uint16_def
  using rd_within_bind [OF read_full_within rd_within_ret, of 2] by simp

lemma read_Uint32_within [rd_shrink]: "rd_within 4 read_Uint32"
  unfolding read_Uint32_def
  using rd_within_bind [OF read_full_within rd_within_ret, of 4] by simp

lemma read_Uint64_within [rd_shrink]: "rd_within 8 read_Uint64"
  unfolding read_Uint64_def
  using rd_within_bind [OF read_full_within rd_within_ret, of 8] by simp

lemmas read_within = read_Uint8_within read_Uint16_within read_Uint32_within read_Uint64_within

text \<open>How many bytes the readers take, and which they are.\<close>

definition bslice :: "nat \<Rightarrow> nat \<Rightarrow> bytes \<Rightarrow> bytes" where
  "bslice i n s = take n (drop i s)"

lemma length_bslice [simp]: "i + n \<le> length s \<Longrightarrow> length (bslice i n s) = n"
  by (simp add: bslice_def)

lemma read_full_long: "n \<le> length s \<Longrightarrow> read_full n s = Inr (take n s, drop n s)"
  by (auto simp: read_full_def)

lemma read_Uint8_long: "1 \<le> length s \<Longrightarrow> read_Uint8 s = Inr (s ! 0, drop 1 s)"
  by (cases s) (simp_all add: read_Uint8_def rbind_def read_full_long)

lemma read_Uint16_long: "2 \<le> length s \<Longrightarrow> read_Uint16 s = Inr (BigEndian_Uint (take 2 s), drop 2 s)"
  by (simp add: read_Uint16_def rbind_def read_full_long)

lemma read_Uint32_long: "4 \<le> length s \<Longrightarrow> read_Uint32 s = Inr (BigEndian_Uint (take 4 s), drop 4 s)"
  by (simp add: read_Uint32_def rbind_def read_full_long)

lemma read_Uint64_long: "8 \<le> length s \<Longrightarrow> read_Uint64 s = Inr (BigEndian_Uint (take 8 s), drop 8 s)"
  by (simp add: read_Uint64_def rbind_def read_full_long)

lemma buf_read_long: "n \<le> length s \<Longrightarrow> buf_read (make_bytes n) s = Inr (take n s, drop n s)"
  by (auto simp: buf_read_def make_bytes_def)

lemma read_bind_run:
  "1 \<le> length s \<Longrightarrow> rbind read_Uint8 f1 s = f1 (s ! 0) (drop 1 s)"
  "2 \<le> length s \<Longrightarrow> rbind read_Uint16 f2 s = f2 (BigEndian_Uint (take 2 s)) (drop 2 s)"
  "4 \<le> length s \<Longrightarrow> rbind read_Uint32 f4 s = f4 (BigEndian_Uint (take 4 s)) (drop 4 s)"
  "8 \<le> length s \<Longrightarrow> rbind read_Uint64 f8 s = f8 (BigEndian_Uint (take 8 s)) (drop 8 s)"
  "n \<le> length s \<Longrightarrow> rbind (buf_read (make_bytes n)) g s = g (take n s) (drop n s)"
  by (simp_all only: rbind_def read_Uint8_long read_Uint16_long read_Uint32_long read_Uint64_long
      buf_read_long sum.case prod.case)

lemma read_full_exact: "rd_exact n (read_full n)"
  by (auto simp: rd_exact_def read_full_def)

lemma read_exact:
  "rd_exact 1 read_Uint8" "rd_exact 2 read_Uint16" "rd_exact 4 read_Uint32" "rd_exact 8 read_Uint64"
  using rd_exact_bind [OF read_full_exact rd_exact_ret]
  by (simp_all add: read_Uint8_def read_Uint16_def read_Uint32_def read_Uint64_def)

text \<open>
  A plain \<^verbatim>\<open>Read\<close> does not notice a short buffer, but a later field that does need bytes then
  finds none.
\<close>

lemma buf_read_exact_bind:
  assumes "\<And>x. rd_exact k (f x)" and "0 < k"
  shows "rd_exact (n + k) (rbind (buf_read (make_bytes n)) f)"
proof (rule rd_exactI)
  fix s :: bytes
  assume "n + k \<le> length s"
  then show "\<exists>x. rbind (buf_read (make_bytes n)) f s = Inr (x, drop (n + k) s)"
    using rd_exact_ok [OF assms(1), of "drop n s" "take n s"]
    by (fastforce simp: read_bind_run add.commute)
next
  fix s :: bytes
  assume short: "length s < n + k"
  show "\<exists>e. rbind (buf_read (make_bytes n)) f s = Inl e"
  proof (cases "buf_read (make_bytes n) s")
    case (Inl e)
    then show ?thesis by (simp add: rbind_def)
  next
    case (Inr p)
    then have "length (snd p) < k"
      using short \<open>0 < k\<close> by (fastforce simp: buf_read_def split: if_splits)
    then show ?thesis
      using Inr rd_exact_short [OF assms(1), of "snd p" "fst p"] by (auto simp: rbind_def split: prod.splits)
  qed
qed

lemma read_nopanic:
  "rd_nopanic (read_full n)" "rd_nopanic (buf_read b)"
  "rd_nopanic read_Uint8" "rd_nopanic read_Uint16" "rd_nopanic read_Uint32" "rd_nopanic read_Uint64"
proof -
  show full: "rd_nopanic (read_full n)" for n
    by (auto simp: rd_nopanic_def read_full_def)
  show "rd_nopanic (buf_read b)"
    by (auto simp: rd_nopanic_def buf_read_def split: if_splits)
  show "rd_nopanic read_Uint8" "rd_nopanic read_Uint16" "rd_nopanic read_Uint32" "rd_nopanic read_Uint64"
    unfolding read_Uint8_def read_Uint16_def read_Uint32_def read_Uint64_def
    by (intro rd_nopanic_bind rd_nopanic_ret full)+
qed

lemma VariableLength_nopanic: "rd_nopanic (VariableLength p c)"
  unfolding VariableLength_def Let_def
  by (intro rd_nopanic_bind read_nopanic)
    (auto intro!: rd_nopanic_ret rd_nopanic_bind read_nopanic)

text \<open>Writing what was read gives the bytes back.\<close>

lemma bit_BigEndian_Uint: "bit (BigEndian_Uint bs :: 'a::len word) i \<Longrightarrow> i < 8 * length bs"
proof (induction bs)
  case Nil
  then show ?case by (simp add: BigEndian_Uint_def)
next
  case (Cons b bs)
  then show ?case by (auto simp: BigEndian_Uint_Cons bit_simps dest: bit_imp_le_length)
qed

lemma BigEndian_Put_low:
  "take_bit (8 * n) v = take_bit (8 * n) w \<Longrightarrow> BigEndian_Put n v = BigEndian_Put n (w :: 'a::len word)"
proof -
  assume "take_bit (8 * n) v = take_bit (8 * n) w"
  then have low: "bit v i = bit w i" if "i < 8 * n" for i
    using that by (metis bit_take_bit_iff)
  have "(ucast (drop_bit (8 * i) v) :: u8) = ucast (drop_bit (8 * i) w)" if "i < n" for i
  proof (rule bit_word_eqI)
    fix k
    assume "k < LENGTH(8)"
    with that have "k + 8 * i < 8 * n" by simp
    then show "bit (ucast (drop_bit (8 * i) v) :: u8) k = bit (ucast (drop_bit (8 * i) w) :: u8) k"
      by (auto simp: bit_simps low add.commute)
  qed
  then show ?thesis by (auto simp: BigEndian_Put_def)
qed

lemma BigEndian_Put_Uint:
  "8 * length bs \<le> LENGTH('a) \<Longrightarrow> BigEndian_Put (length bs) (BigEndian_Uint bs :: 'a::len word) = bs"
proof (induction bs)
  case Nil
  then show ?case by (simp add: BigEndian_Put_def)
next
  case (Cons b bs)
  let ?n = "length bs" and ?w = "BigEndian_Uint bs :: 'a word"
  have high: "\<not> bit ?w i" if "8 * ?n \<le> i" for i
    using bit_BigEndian_Uint [of bs i] that by auto
  have top: "ucast (drop_bit (8 * ?n) (push_bit (8 * ?n) (ucast b) OR ?w)) = b"
  proof (rule bit_word_eqI)
    fix k
    assume "k < LENGTH(8)"
    with Cons.prems have "8 * ?n + k < LENGTH('a)" by simp
    with \<open>k < LENGTH(8)\<close> show "bit (ucast (drop_bit (8 * ?n) (push_bit (8 * ?n) (ucast b) OR ?w)) :: u8) k = bit b k"
      by (simp add: bit_simps high)
  qed
  have "BigEndian_Put ?n (push_bit (8 * ?n) (ucast b) OR ?w) = BigEndian_Put ?n ?w"
    by (rule BigEndian_Put_low) (rule bit_word_eqI, auto simp: bit_simps)
  with Cons top show ?case by (simp add: BigEndian_Put_Suc BigEndian_Uint_Cons)
qed

lemma BigEndian_Put_zero: "BigEndian_Put n (0 :: 'a::len word) = replicate n 0"
  by (simp add: BigEndian_Put_def map_replicate_const)

end
