(* ===== verification/Netflow_Legacy.thy ===== *)
theory Netflow_Legacy
  imports Netflow_Read
begin

text \<open>
  The fixed-format decoders \<^verbatim>\<open>pkg/util/netflow/netflow1\<close>, \<^verbatim>\<open>netflow5\<close>, \<^verbatim>\<open>netflow6\<close> and
  \<^verbatim>\<open>netflow7\<close>: a header with a record count, then that many records of a fixed layout. A Go pair of
  a packet and a non-nil error is the error alone (the callers drop the packet); a duration is its
  nanoseconds. The offsets in the comments of the Go structs are the layout functions
  \<open>nf*_header_at\<close> and \<open>nf*_record_at\<close>, and the decoders are proved equal to them.
\<close>

text \<open>\<^verbatim>\<open>h.Count < 1 || h.Count > 32\<close> and its error, the same in the four packages.\<close>

definition count_out_of_bounds :: "u16 \<Rightarrow> bool" where
  "count_out_of_bounds c \<longleftrightarrow> c < 1 \<or> c > 32"

definition flows_out_of_bounds :: "u16 \<Rightarrow> go_error" where
  "flows_out_of_bounds c = Errorf ''protocol error: %d flows out of bounds'' [uint c]"

text \<open>\<^verbatim>\<open>time.Unix(int64(t>>32), int64(t&0xffffffff))\<close>\<close>

definition unix_of_u64 :: "u64 \<Rightarrow> int" where
  "unix_of_u64 t = time_Unix (uint (drop_bit 32 t)) (uint (t AND 0xffffffff))"

section \<open>NetFlow version 1\<close>

record nf1_PacketHeader =
  nf1_h_Version :: u16
  nf1_h_Count :: u16
  nf1_h_SysUptime :: int
  nf1_h_Unix :: int

definition nf1_PacketHeader_Unmarshal :: "nf1_PacketHeader rd" where
  "nf1_PacketHeader_Unmarshal =
     rbind read_Uint16 (\<lambda>Version.
     rbind read_Uint16 (\<lambda>Count.
     if count_out_of_bounds Count then rfail (flows_out_of_bounds Count) else
     rbind read_Uint32 (\<lambda>u.
     rbind read_Uint64 (\<lambda>t.
     rret \<lparr>nf1_h_Version = Version,
        nf1_h_Count = Count,
        nf1_h_SysUptime = uint u,
        nf1_h_Unix = unix_of_u64 t\<rparr>))))"

record nf1_FlowRecord =
  nf1_SrcAddr :: bytes
  nf1_DstAddr :: bytes
  nf1_NextHop :: bytes
  nf1_Input :: u16
  nf1_Output :: u16
  nf1_Packets :: u32
  nf1_Bytes :: u32
  nf1_First :: u32
  nf1_Last :: u32
  nf1_SrcPort :: u16
  nf1_DstPort :: u16
  nf1_Pad1 :: u16
  nf1_Protocol :: u8
  nf1_ToS :: u8
  nf1_Flags :: u8
  nf1_Pad2 :: u8
  nf1_Pad3 :: u16
  nf1_Reserved :: u32

definition nf1_FlowRecord_Unmarshal :: "nf1_FlowRecord rd" where
  "nf1_FlowRecord_Unmarshal =
     rbind (buf_read (make_bytes 4)) (\<lambda>SrcAddr.
     rbind (buf_read (make_bytes 4)) (\<lambda>DstAddr.
     rbind (buf_read (make_bytes 4)) (\<lambda>NextHop.
     rbind read_Uint16 (\<lambda>Input.
     rbind read_Uint16 (\<lambda>Output.
     rbind read_Uint32 (\<lambda>Packets.
     rbind read_Uint32 (\<lambda>Bytes.
     rbind read_Uint32 (\<lambda>First.
     rbind read_Uint32 (\<lambda>Last.
     rbind read_Uint16 (\<lambda>SrcPort.
     rbind read_Uint16 (\<lambda>DstPort.
     rbind read_Uint16 (\<lambda>Pad1.
     rbind read_Uint8 (\<lambda>Protocol.
     rbind read_Uint8 (\<lambda>ToS.
     rbind read_Uint8 (\<lambda>Flags.
     rbind read_Uint8 (\<lambda>Pad2.
     rbind read_Uint16 (\<lambda>Pad3.
     rbind read_Uint32 (\<lambda>Reserved.
     rret \<lparr>nf1_SrcAddr = SrcAddr, nf1_DstAddr = DstAddr, nf1_NextHop = NextHop,
       nf1_Input = Input, nf1_Output = Output, nf1_Packets = Packets, nf1_Bytes = Bytes,
       nf1_First = First, nf1_Last = Last, nf1_SrcPort = SrcPort, nf1_DstPort = DstPort,
       nf1_Pad1 = Pad1, nf1_Protocol = Protocol, nf1_ToS = ToS, nf1_Flags = Flags,
       nf1_Pad2 = Pad2, nf1_Pad3 = Pad3, nf1_Reserved = Reserved\<rparr>))))))))))))))))))"

record nf1_Packet =
  nf1_Header :: nf1_PacketHeader
  nf1_Records :: "nf1_FlowRecord list"

definition nf1_Packet_Unmarshal :: "nf1_Packet rd" where
  "nf1_Packet_Unmarshal =
     rbind nf1_PacketHeader_Unmarshal (\<lambda>h.
     rbind (rseq (replicate (unat (nf1_h_Count h)) nf1_FlowRecord_Unmarshal)) (\<lambda>rs.
     rret \<lparr>nf1_Header = h, nf1_Records = rs\<rparr>))"

definition nf1_Read :: "nf1_Packet rd" where
  "nf1_Read = nf1_Packet_Unmarshal"

section \<open>NetFlow version 5\<close>

record nf5_PacketHeader =
  nf5_h_Version :: u16
  nf5_h_Count :: u16
  nf5_h_SysUptime :: int
  nf5_h_Unix :: int
  nf5_h_FlowSequence :: u32
  nf5_h_EngineType :: u8
  nf5_h_EngineID :: u8
  nf5_h_SamplingInterval :: u16

definition nf5_PacketHeader_Unmarshal :: "nf5_PacketHeader rd" where
  "nf5_PacketHeader_Unmarshal =
     rbind read_Uint16 (\<lambda>Version.
     rbind read_Uint16 (\<lambda>Count.
     if count_out_of_bounds Count then rfail (flows_out_of_bounds Count) else
     rbind read_Uint32 (\<lambda>u.
     rbind read_Uint64 (\<lambda>t.
     rbind read_Uint32 (\<lambda>FlowSequence.
     rbind read_Uint8 (\<lambda>EngineType.
     rbind read_Uint8 (\<lambda>EngineID.
     rbind read_Uint16 (\<lambda>SamplingInterval.
     rret \<lparr>nf5_h_Version = Version,
        nf5_h_Count = Count,
        nf5_h_SysUptime = uint u * 1000000,
        nf5_h_Unix = unix_of_u64 t,
        nf5_h_FlowSequence = FlowSequence,
        nf5_h_EngineType = EngineType,
        nf5_h_EngineID = EngineID,
        nf5_h_SamplingInterval = SamplingInterval\<rparr>))))))))"

record nf5_FlowRecord =
  nf5_SrcAddr :: bytes
  nf5_DstAddr :: bytes
  nf5_NextHop :: bytes
  nf5_Input :: u16
  nf5_Output :: u16
  nf5_Packets :: u32
  nf5_Bytes :: u32
  nf5_First :: u32
  nf5_Last :: u32
  nf5_SrcPort :: u16
  nf5_DstPort :: u16
  nf5_Pad1 :: u8
  nf5_TCPFlags :: u8
  nf5_Protocol :: u8
  nf5_ToS :: u8
  nf5_SrcAS :: u16
  nf5_DstAS :: u16
  nf5_SrcMask :: u8
  nf5_DstMask :: u8
  nf5_Pad2 :: u16

definition nf5_FlowRecord_Unmarshal :: "nf5_FlowRecord rd" where
  "nf5_FlowRecord_Unmarshal =
     rbind (buf_read (make_bytes 4)) (\<lambda>SrcAddr.
     rbind (buf_read (make_bytes 4)) (\<lambda>DstAddr.
     rbind (buf_read (make_bytes 4)) (\<lambda>NextHop.
     rbind read_Uint16 (\<lambda>Input.
     rbind read_Uint16 (\<lambda>Output.
     rbind read_Uint32 (\<lambda>Packets.
     rbind read_Uint32 (\<lambda>Bytes.
     rbind read_Uint32 (\<lambda>First.
     rbind read_Uint32 (\<lambda>Last.
     rbind read_Uint16 (\<lambda>SrcPort.
     rbind read_Uint16 (\<lambda>DstPort.
     rbind read_Uint8 (\<lambda>Pad1.
     rbind read_Uint8 (\<lambda>TCPFlags.
     rbind read_Uint8 (\<lambda>Protocol.
     rbind read_Uint8 (\<lambda>ToS.
     rbind read_Uint16 (\<lambda>SrcAS.
     rbind read_Uint16 (\<lambda>DstAS.
     rbind read_Uint8 (\<lambda>SrcMask.
     rbind read_Uint8 (\<lambda>DstMask.
     rbind read_Uint16 (\<lambda>Pad2.
     rret \<lparr>nf5_SrcAddr = SrcAddr, nf5_DstAddr = DstAddr, nf5_NextHop = NextHop,
       nf5_Input = Input, nf5_Output = Output, nf5_Packets = Packets, nf5_Bytes = Bytes,
       nf5_First = First, nf5_Last = Last, nf5_SrcPort = SrcPort, nf5_DstPort = DstPort,
       nf5_Pad1 = Pad1, nf5_TCPFlags = TCPFlags, nf5_Protocol = Protocol, nf5_ToS = ToS,
       nf5_SrcAS = SrcAS, nf5_DstAS = DstAS, nf5_SrcMask = SrcMask, nf5_DstMask = DstMask,
       nf5_Pad2 = Pad2\<rparr>))))))))))))))))))))"

record nf5_Packet =
  nf5_Header :: nf5_PacketHeader
  nf5_Records :: "nf5_FlowRecord list"

definition nf5_Packet_Unmarshal :: "nf5_Packet rd" where
  "nf5_Packet_Unmarshal =
     rbind nf5_PacketHeader_Unmarshal (\<lambda>h.
     rbind (rseq (replicate (unat (nf5_h_Count h)) nf5_FlowRecord_Unmarshal)) (\<lambda>rs.
     rret \<lparr>nf5_Header = h, nf5_Records = rs\<rparr>))"

definition nf5_Read :: "nf5_Packet rd" where
  "nf5_Read = nf5_Packet_Unmarshal"

section \<open>NetFlow version 6\<close>

record nf6_PacketHeader =
  nf6_h_Version :: u16
  nf6_h_Count :: u16
  nf6_h_SysUptime :: int
  nf6_h_Unix :: int
  nf6_h_FlowSequence :: u32
  nf6_h_EngineType :: u8
  nf6_h_EngineID :: u8
  nf6_h_SamplingInterval :: u16

definition nf6_PacketHeader_Unmarshal :: "nf6_PacketHeader rd" where
  "nf6_PacketHeader_Unmarshal =
     rbind read_Uint16 (\<lambda>Version.
     rbind read_Uint16 (\<lambda>Count.
     if count_out_of_bounds Count then rfail (flows_out_of_bounds Count) else
     rbind read_Uint32 (\<lambda>u.
     rbind read_Uint64 (\<lambda>t.
     rbind read_Uint32 (\<lambda>FlowSequence.
     rbind read_Uint8 (\<lambda>EngineType.
     rbind read_Uint8 (\<lambda>EngineID.
     rbind read_Uint16 (\<lambda>SamplingInterval.
     rret \<lparr>nf6_h_Version = Version,
        nf6_h_Count = Count,
        nf6_h_SysUptime = uint u * 1000000,
        nf6_h_Unix = unix_of_u64 t,
        nf6_h_FlowSequence = FlowSequence,
        nf6_h_EngineType = EngineType,
        nf6_h_EngineID = EngineID,
        nf6_h_SamplingInterval = SamplingInterval\<rparr>))))))))"

record nf6_FlowRecord =
  nf6_SrcAddr :: bytes
  nf6_DstAddr :: bytes
  nf6_NextHop :: bytes
  nf6_Input :: u16
  nf6_Output :: u16
  nf6_Packets :: u32
  nf6_Bytes :: u32
  nf6_First :: u32
  nf6_Last :: u32
  nf6_SrcPort :: u16
  nf6_DstPort :: u16
  nf6_Pad1 :: u8
  nf6_TCPFlags :: u8
  nf6_Protocol :: u8
  nf6_ToS :: u8
  nf6_SrcAS :: u16
  nf6_DstAS :: u16
  nf6_SrcMask :: u8
  nf6_DstMask :: u8
  nf6_Pad2 :: u16
  nf6_Pad3 :: u32

definition nf6_FlowRecord_Unmarshal :: "nf6_FlowRecord rd" where
  "nf6_FlowRecord_Unmarshal =
     rbind (buf_read (make_bytes 4)) (\<lambda>SrcAddr.
     rbind (buf_read (make_bytes 4)) (\<lambda>DstAddr.
     rbind (buf_read (make_bytes 4)) (\<lambda>NextHop.
     rbind read_Uint16 (\<lambda>Input.
     rbind read_Uint16 (\<lambda>Output.
     rbind read_Uint32 (\<lambda>Packets.
     rbind read_Uint32 (\<lambda>Bytes.
     rbind read_Uint32 (\<lambda>First.
     rbind read_Uint32 (\<lambda>Last.
     rbind read_Uint16 (\<lambda>SrcPort.
     rbind read_Uint16 (\<lambda>DstPort.
     rbind read_Uint8 (\<lambda>Pad1.
     rbind read_Uint8 (\<lambda>TCPFlags.
     rbind read_Uint8 (\<lambda>Protocol.
     rbind read_Uint8 (\<lambda>ToS.
     rbind read_Uint16 (\<lambda>SrcAS.
     rbind read_Uint16 (\<lambda>DstAS.
     rbind read_Uint8 (\<lambda>SrcMask.
     rbind read_Uint8 (\<lambda>DstMask.
     rbind read_Uint16 (\<lambda>Pad2.
     rbind read_Uint32 (\<lambda>Pad3.
     rret \<lparr>nf6_SrcAddr = SrcAddr, nf6_DstAddr = DstAddr, nf6_NextHop = NextHop,
       nf6_Input = Input, nf6_Output = Output, nf6_Packets = Packets, nf6_Bytes = Bytes,
       nf6_First = First, nf6_Last = Last, nf6_SrcPort = SrcPort, nf6_DstPort = DstPort,
       nf6_Pad1 = Pad1, nf6_TCPFlags = TCPFlags, nf6_Protocol = Protocol, nf6_ToS = ToS,
       nf6_SrcAS = SrcAS, nf6_DstAS = DstAS, nf6_SrcMask = SrcMask, nf6_DstMask = DstMask,
       nf6_Pad2 = Pad2, nf6_Pad3 = Pad3\<rparr>)))))))))))))))))))))"

record nf6_Packet =
  nf6_Header :: nf6_PacketHeader
  nf6_Records :: "nf6_FlowRecord list"

definition nf6_Packet_Unmarshal :: "nf6_Packet rd" where
  "nf6_Packet_Unmarshal =
     rbind nf6_PacketHeader_Unmarshal (\<lambda>h.
     rbind (rseq (replicate (unat (nf6_h_Count h)) nf6_FlowRecord_Unmarshal)) (\<lambda>rs.
     rret \<lparr>nf6_Header = h, nf6_Records = rs\<rparr>))"

definition nf6_Read :: "nf6_Packet rd" where
  "nf6_Read = nf6_Packet_Unmarshal"

section \<open>NetFlow version 7\<close>

record nf7_PacketHeader =
  nf7_h_Version :: u16
  nf7_h_Count :: u16
  nf7_h_SysUptime :: int
  nf7_h_Unix :: int
  nf7_h_FlowSequence :: u32
  nf7_h_Reserved :: u32

definition nf7_PacketHeader_Unmarshal :: "nf7_PacketHeader rd" where
  "nf7_PacketHeader_Unmarshal =
     rbind read_Uint16 (\<lambda>Version.
     rbind read_Uint16 (\<lambda>Count.
     if count_out_of_bounds Count then rfail (flows_out_of_bounds Count) else
     rbind read_Uint32 (\<lambda>u.
     rbind read_Uint64 (\<lambda>t.
     rbind read_Uint32 (\<lambda>FlowSequence.
     rbind read_Uint32 (\<lambda>Reserved.
     rret \<lparr>nf7_h_Version = Version,
        nf7_h_Count = Count,
        nf7_h_SysUptime = uint u * 1000000,
        nf7_h_Unix = unix_of_u64 t,
        nf7_h_FlowSequence = FlowSequence,
        nf7_h_Reserved = Reserved\<rparr>))))))"

record nf7_FlowRecord =
  nf7_SrcAddr :: bytes
  nf7_DstAddr :: bytes
  nf7_NextHop :: bytes
  nf7_Input :: u16
  nf7_Output :: u16
  nf7_Packets :: u32
  nf7_Bytes :: u32
  nf7_First :: u32
  nf7_Last :: u32
  nf7_SrcPort :: u16
  nf7_DstPort :: u16
  nf7_Pad1 :: u8
  nf7_TCPFlags :: u8
  nf7_Protocol :: u8
  nf7_ToS :: u8
  nf7_SrcAS :: u16
  nf7_DstAS :: u16
  nf7_SrcMask :: u8
  nf7_DstMask :: u8
  nf7_Flags :: u16
  nf7_RouterSC :: bytes

definition nf7_FlowRecord_Unmarshal :: "nf7_FlowRecord rd" where
  "nf7_FlowRecord_Unmarshal =
     rbind (buf_read (make_bytes 4)) (\<lambda>SrcAddr.
     rbind (buf_read (make_bytes 4)) (\<lambda>DstAddr.
     rbind (buf_read (make_bytes 4)) (\<lambda>NextHop.
     rbind read_Uint16 (\<lambda>Input.
     rbind read_Uint16 (\<lambda>Output.
     rbind read_Uint32 (\<lambda>Packets.
     rbind read_Uint32 (\<lambda>Bytes.
     rbind read_Uint32 (\<lambda>First.
     rbind read_Uint32 (\<lambda>Last.
     rbind read_Uint16 (\<lambda>SrcPort.
     rbind read_Uint16 (\<lambda>DstPort.
     rbind read_Uint8 (\<lambda>Pad1.
     rbind read_Uint8 (\<lambda>TCPFlags.
     rbind read_Uint8 (\<lambda>Protocol.
     rbind read_Uint8 (\<lambda>ToS.
     rbind read_Uint16 (\<lambda>SrcAS.
     rbind read_Uint16 (\<lambda>DstAS.
     rbind read_Uint8 (\<lambda>SrcMask.
     rbind read_Uint8 (\<lambda>DstMask.
     rbind read_Uint16 (\<lambda>Flags.
     rbind (buf_read (make_bytes 4)) (\<lambda>RouterSC.
     rret \<lparr>nf7_SrcAddr = SrcAddr, nf7_DstAddr = DstAddr, nf7_NextHop = NextHop,
       nf7_Input = Input, nf7_Output = Output, nf7_Packets = Packets, nf7_Bytes = Bytes,
       nf7_First = First, nf7_Last = Last, nf7_SrcPort = SrcPort, nf7_DstPort = DstPort,
       nf7_Pad1 = Pad1, nf7_TCPFlags = TCPFlags, nf7_Protocol = Protocol, nf7_ToS = ToS,
       nf7_SrcAS = SrcAS, nf7_DstAS = DstAS, nf7_SrcMask = SrcMask, nf7_DstMask = DstMask,
       nf7_Flags = Flags, nf7_RouterSC = RouterSC\<rparr>)))))))))))))))))))))"

record nf7_Packet =
  nf7_Header :: nf7_PacketHeader
  nf7_Records :: "nf7_FlowRecord list"

definition nf7_Packet_Unmarshal :: "nf7_Packet rd" where
  "nf7_Packet_Unmarshal =
     rbind nf7_PacketHeader_Unmarshal (\<lambda>h.
     rbind (rseq (replicate (unat (nf7_h_Count h)) nf7_FlowRecord_Unmarshal)) (\<lambda>rs.
     rret \<lparr>nf7_Header = h, nf7_Records = rs\<rparr>))"

definition nf7_Read :: "nf7_Packet rd" where
  "nf7_Read = nf7_Packet_Unmarshal"

section \<open>Layouts\<close>

definition rd_upto :: "nat \<Rightarrow> 'a rd \<Rightarrow> bool" where
  "rd_upto n m \<longleftrightarrow> (\<forall>s. length s < n \<longrightarrow> (\<exists>e. m s = Inl e))"

lemma rd_uptoD: "rd_upto n m \<Longrightarrow> length s < n \<Longrightarrow> \<exists>e. m s = Inl e"
  by (simp add: rd_upto_def)

lemma rd_upto_bind:
  assumes "rd_exact n m" and "\<And>x. rd_upto k (f x)"
  shows "rd_upto (n + k) (rbind m f)"
  unfolding rd_upto_def
proof (intro allI impI)
  fix s :: bytes
  assume len: "length s < n + k"
  show "\<exists>e. rbind m f s = Inl e"
  proof (cases "n \<le> length s")
    case True
    then obtain x where "m s = Inr (x, drop n s)"
      using rd_exact_ok [OF assms(1)] by blast
    moreover have "length (drop n s) < k" using len True by simp
    ultimately show ?thesis
      using rd_uptoD [OF assms(2)] by (fastforce simp: rbind_def)
  next
    case False
    then show ?thesis
      using rd_exact_short [OF assms(1), of s] by (auto simp: rbind_def)
  qed
qed

lemma rd_upto_ret: "rd_upto 0 (rret x)"
  by (simp add: rd_upto_def)

lemma rd_upto_guard: "rd_upto n m \<Longrightarrow> rd_upto n (if b then rfail e else m)"
  by (simp add: rd_upto_def)

lemmas read_upto_intros = rd_upto_guard rd_upto_bind rd_upto_ret read_exact
lemmas read_exact_intros = buf_read_exact_bind rd_exact_bind rd_exact_ret read_exact

text \<open>
  What the packages share: a header of \<open>hlen\<close> bytes that carries the count, records of \<open>rlen\<close>
  bytes, and a packet decoder that reads as many records as the header says.
\<close>

locale counted_packet =
  fixes hdr :: "'h rd" and recd :: "'r rd" and unm :: "'p rd"
    and cnt :: "'h \<Rightarrow> u16" and mk :: "'h \<Rightarrow> 'r list \<Rightarrow> 'p"
    and hlen rlen :: nat and hdr_at :: "bytes \<Rightarrow> 'h" and rec_at :: "bytes \<Rightarrow> 'r"
  assumes unm_eq: "unm = rbind hdr (\<lambda>h. rbind (rseq (replicate (unat (cnt h)) recd)) (\<lambda>rs. rret (mk h rs)))"
    and hdr_long: "hlen \<le> length s \<Longrightarrow> hdr s =
      (if count_out_of_bounds (cnt (hdr_at s)) then Inl (flows_out_of_bounds (cnt (hdr_at s)))
       else Inr (hdr_at s, drop hlen s))"
    and hdr_short: "length s < hlen \<Longrightarrow> \<exists>e. hdr s = Inl e"
    and rec_long: "rlen \<le> length s \<Longrightarrow> recd s = Inr (rec_at s, drop rlen s)"
begin

lemma records_long:
  "n * rlen \<le> length s \<Longrightarrow>
   rseq (replicate n recd) s = Inr (map (\<lambda>i. rec_at (drop (i * rlen) s)) [0..<n], drop (n * rlen) s)"
proof (induction n arbitrary: s)
  case 0
  show ?case by simp
next
  case (Suc n)
  have shift: "map (\<lambda>i. rec_at (drop (i * rlen) s)) [0..<Suc n] =
      rec_at s # map (\<lambda>i. rec_at (drop (i * rlen) (drop rlen s))) [0..<n]"
    by (simp add: upt_conv_Cons map_Suc_upt [symmetric] add.commute del: upt_Suc)
  from Suc.prems have "rlen \<le> length s" "n * rlen \<le> length (drop rlen s)" by simp_all
  then show ?case
    using Suc.IH [of "drop rlen s"] unfolding shift
    by (simp add: rbind_def rec_long add.commute)
qed

lemma packet_long:
  assumes "\<not> count_out_of_bounds (cnt (hdr_at s))"
    and "hlen + unat (cnt (hdr_at s)) * rlen \<le> length s"
  shows "unm s = Inr (mk (hdr_at s)
      (map (\<lambda>i. rec_at (drop (hlen + i * rlen) s)) [0..<unat (cnt (hdr_at s))]),
      drop (hlen + unat (cnt (hdr_at s)) * rlen) s)"
proof -
  have "hlen \<le> length s" and r: "unat (cnt (hdr_at s)) * rlen \<le> length (drop hlen s)"
    using assms(2) by simp_all
  then have "hdr s = Inr (hdr_at s, drop hlen s)"
    using assms(1) by (simp add: hdr_long)
  then show ?thesis
    by (simp add: unm_eq rbind_def records_long [OF r] add.commute)
qed

lemma packet_bad_count:
  "hlen \<le> length s \<Longrightarrow> count_out_of_bounds (cnt (hdr_at s)) \<Longrightarrow>
   unm s = Inl (flows_out_of_bounds (cnt (hdr_at s)))"
  by (simp add: unm_eq rbind_def hdr_long)

end

text \<open>Where the record reader also notices a short record, short packets are refused.\<close>

locale counted_packet_strict = counted_packet +
  assumes rec_short: "length s < rlen \<Longrightarrow> \<exists>e. recd s = Inl e"
begin

lemma packet_ok_iff:
  "(\<exists>p s'. unm s = Inr (p, s')) \<longleftrightarrow>
   hlen \<le> length s \<and> \<not> count_out_of_bounds (cnt (hdr_at s)) \<and>
   hlen + unat (cnt (hdr_at s)) * rlen \<le> length s"
proof (cases "hlen \<le> length s \<and> \<not> count_out_of_bounds (cnt (hdr_at s))")
  case False
  then have "\<exists>e. hdr s = Inl e"
    using hdr_short [of s] by (cases "hlen \<le> length s") (auto simp: hdr_long)
  with False show ?thesis by (auto simp: unm_eq rbind_def)
next
  case True
  then have h: "hdr s = Inr (hdr_at s, drop hlen s)" by (simp add: hdr_long)
  have ex: "rd_exact rlen recd"
    using rec_long rec_short by (auto simp: rd_exact_def)
  show ?thesis
  proof (cases "hlen + unat (cnt (hdr_at s)) * rlen \<le> length s")
    case long: True
    with True show ?thesis using packet_long [of s] by auto
  next
    case short: False
    have "rd_exact (unat (cnt (hdr_at s)) * rlen) (rseq (replicate (unat (cnt (hdr_at s))) recd))"
      using rd_exact_seq [of "replicate (unat (cnt (hdr_at s))) recd" rlen] ex by simp
    moreover have "length s - hlen < unat (cnt (hdr_at s)) * rlen"
      using short True by linarith
    then have "length (drop hlen s) < unat (cnt (hdr_at s)) * rlen" by simp
    ultimately have "\<exists>e. rseq (replicate (unat (cnt (hdr_at s))) recd) (drop hlen s) = Inl e"
      by (rule rd_exact_short)
    then have "\<exists>e. unm s = Inl e" by (auto simp: unm_eq rbind_def h)
    with short show ?thesis by auto
  qed
qed

end

subsection \<open>Version 1\<close>

definition nf1_header_at :: "bytes \<Rightarrow> nf1_PacketHeader" where
  "nf1_header_at s =
     \<lparr>nf1_h_Version = BigEndian_Uint (bslice 0 2 s),
      nf1_h_Count = BigEndian_Uint (bslice 2 2 s),
      nf1_h_SysUptime = uint (BigEndian_Uint (bslice 4 4 s) :: u32),
      nf1_h_Unix = unix_of_u64 (BigEndian_Uint (bslice 8 8 s))\<rparr>"

definition nf1_record_at :: "bytes \<Rightarrow> nf1_FlowRecord" where
  "nf1_record_at s =
     \<lparr>nf1_SrcAddr = bslice 0 4 s,
      nf1_DstAddr = bslice 4 4 s,
      nf1_NextHop = bslice 8 4 s,
      nf1_Input = BigEndian_Uint (bslice 12 2 s),
      nf1_Output = BigEndian_Uint (bslice 14 2 s),
      nf1_Packets = BigEndian_Uint (bslice 16 4 s),
      nf1_Bytes = BigEndian_Uint (bslice 20 4 s),
      nf1_First = BigEndian_Uint (bslice 24 4 s),
      nf1_Last = BigEndian_Uint (bslice 28 4 s),
      nf1_SrcPort = BigEndian_Uint (bslice 32 2 s),
      nf1_DstPort = BigEndian_Uint (bslice 34 2 s),
      nf1_Pad1 = BigEndian_Uint (bslice 36 2 s),
      nf1_Protocol = s ! 38,
      nf1_ToS = s ! 39,
      nf1_Flags = s ! 40,
      nf1_Pad2 = s ! 41,
      nf1_Pad3 = BigEndian_Uint (bslice 42 2 s),
      nf1_Reserved = BigEndian_Uint (bslice 44 4 s)\<rparr>"

lemma nf1_record_long:
  "48 \<le> length s \<Longrightarrow> nf1_FlowRecord_Unmarshal s = Inr (nf1_record_at s, drop 48 s)"
  by (simp add: nf1_FlowRecord_Unmarshal_def nf1_record_at_def read_bind_run bslice_def)

lemma nf1_header_long:
  "16 \<le> length s \<Longrightarrow> nf1_PacketHeader_Unmarshal s =
     (if count_out_of_bounds (nf1_h_Count (nf1_header_at s))
      then Inl (flows_out_of_bounds (nf1_h_Count (nf1_header_at s)))
      else Inr (nf1_header_at s, drop 16 s))"
  by (simp add: nf1_PacketHeader_Unmarshal_def nf1_header_at_def read_bind_run bslice_def)

lemma nf1_record_short: "length s < 48 \<Longrightarrow> \<exists>e. nf1_FlowRecord_Unmarshal s = Inl e"
proof -
  have "rd_exact (4 + (4 + (4 + (2 + (2 + (4 + (4 + (4 + (4 + (2 + (2 + (2 + (1 + (1 + (1 + (1 + (2 + (4 + 0)))))))))))))))))) nf1_FlowRecord_Unmarshal"
    unfolding nf1_FlowRecord_Unmarshal_def
    by (intro read_exact_intros) simp_all
  then have "rd_exact 48 nf1_FlowRecord_Unmarshal" by simp
  then show "length s < 48 \<Longrightarrow> \<exists>e. nf1_FlowRecord_Unmarshal s = Inl e" by (rule rd_exact_short)
qed

lemma nf1_header_short: "length s < 16 \<Longrightarrow> \<exists>e. nf1_PacketHeader_Unmarshal s = Inl e"
proof -
  have "rd_upto (2 + (2 + (4 + (8 + 0)))) nf1_PacketHeader_Unmarshal"
    unfolding nf1_PacketHeader_Unmarshal_def
    by (intro read_upto_intros)
  then have "rd_upto 16 nf1_PacketHeader_Unmarshal" by simp
  then show "length s < 16 \<Longrightarrow> \<exists>e. nf1_PacketHeader_Unmarshal s = Inl e" by (rule rd_uptoD)
qed

subsection \<open>Version 5\<close>

definition nf5_header_at :: "bytes \<Rightarrow> nf5_PacketHeader" where
  "nf5_header_at s =
     \<lparr>nf5_h_Version = BigEndian_Uint (bslice 0 2 s),
      nf5_h_Count = BigEndian_Uint (bslice 2 2 s),
      nf5_h_SysUptime = uint (BigEndian_Uint (bslice 4 4 s) :: u32) * 1000000,
      nf5_h_Unix = unix_of_u64 (BigEndian_Uint (bslice 8 8 s)),
      nf5_h_FlowSequence = BigEndian_Uint (bslice 16 4 s),
      nf5_h_EngineType = s ! 20,
      nf5_h_EngineID = s ! 21,
      nf5_h_SamplingInterval = BigEndian_Uint (bslice 22 2 s)\<rparr>"

definition nf5_record_at :: "bytes \<Rightarrow> nf5_FlowRecord" where
  "nf5_record_at s =
     \<lparr>nf5_SrcAddr = bslice 0 4 s,
      nf5_DstAddr = bslice 4 4 s,
      nf5_NextHop = bslice 8 4 s,
      nf5_Input = BigEndian_Uint (bslice 12 2 s),
      nf5_Output = BigEndian_Uint (bslice 14 2 s),
      nf5_Packets = BigEndian_Uint (bslice 16 4 s),
      nf5_Bytes = BigEndian_Uint (bslice 20 4 s),
      nf5_First = BigEndian_Uint (bslice 24 4 s),
      nf5_Last = BigEndian_Uint (bslice 28 4 s),
      nf5_SrcPort = BigEndian_Uint (bslice 32 2 s),
      nf5_DstPort = BigEndian_Uint (bslice 34 2 s),
      nf5_Pad1 = s ! 36,
      nf5_TCPFlags = s ! 37,
      nf5_Protocol = s ! 38,
      nf5_ToS = s ! 39,
      nf5_SrcAS = BigEndian_Uint (bslice 40 2 s),
      nf5_DstAS = BigEndian_Uint (bslice 42 2 s),
      nf5_SrcMask = s ! 44,
      nf5_DstMask = s ! 45,
      nf5_Pad2 = BigEndian_Uint (bslice 46 2 s)\<rparr>"

lemma nf5_record_long:
  "48 \<le> length s \<Longrightarrow> nf5_FlowRecord_Unmarshal s = Inr (nf5_record_at s, drop 48 s)"
  by (simp add: nf5_FlowRecord_Unmarshal_def nf5_record_at_def read_bind_run bslice_def)

lemma nf5_header_long:
  "24 \<le> length s \<Longrightarrow> nf5_PacketHeader_Unmarshal s =
     (if count_out_of_bounds (nf5_h_Count (nf5_header_at s))
      then Inl (flows_out_of_bounds (nf5_h_Count (nf5_header_at s)))
      else Inr (nf5_header_at s, drop 24 s))"
  by (simp add: nf5_PacketHeader_Unmarshal_def nf5_header_at_def read_bind_run bslice_def)

lemma nf5_record_short: "length s < 48 \<Longrightarrow> \<exists>e. nf5_FlowRecord_Unmarshal s = Inl e"
proof -
  have "rd_exact (4 + (4 + (4 + (2 + (2 + (4 + (4 + (4 + (4 + (2 + (2 + (1 + (1 + (1 + (1 + (2 + (2 + (1 + (1 + (2 + 0)))))))))))))))))))) nf5_FlowRecord_Unmarshal"
    unfolding nf5_FlowRecord_Unmarshal_def
    by (intro read_exact_intros) simp_all
  then have "rd_exact 48 nf5_FlowRecord_Unmarshal" by simp
  then show "length s < 48 \<Longrightarrow> \<exists>e. nf5_FlowRecord_Unmarshal s = Inl e" by (rule rd_exact_short)
qed

lemma nf5_header_short: "length s < 24 \<Longrightarrow> \<exists>e. nf5_PacketHeader_Unmarshal s = Inl e"
proof -
  have "rd_upto (2 + (2 + (4 + (8 + (4 + (1 + (1 + (2 + 0)))))))) nf5_PacketHeader_Unmarshal"
    unfolding nf5_PacketHeader_Unmarshal_def
    by (intro read_upto_intros)
  then have "rd_upto 24 nf5_PacketHeader_Unmarshal" by simp
  then show "length s < 24 \<Longrightarrow> \<exists>e. nf5_PacketHeader_Unmarshal s = Inl e" by (rule rd_uptoD)
qed

subsection \<open>Version 6\<close>

definition nf6_header_at :: "bytes \<Rightarrow> nf6_PacketHeader" where
  "nf6_header_at s =
     \<lparr>nf6_h_Version = BigEndian_Uint (bslice 0 2 s),
      nf6_h_Count = BigEndian_Uint (bslice 2 2 s),
      nf6_h_SysUptime = uint (BigEndian_Uint (bslice 4 4 s) :: u32) * 1000000,
      nf6_h_Unix = unix_of_u64 (BigEndian_Uint (bslice 8 8 s)),
      nf6_h_FlowSequence = BigEndian_Uint (bslice 16 4 s),
      nf6_h_EngineType = s ! 20,
      nf6_h_EngineID = s ! 21,
      nf6_h_SamplingInterval = BigEndian_Uint (bslice 22 2 s)\<rparr>"

definition nf6_record_at :: "bytes \<Rightarrow> nf6_FlowRecord" where
  "nf6_record_at s =
     \<lparr>nf6_SrcAddr = bslice 0 4 s,
      nf6_DstAddr = bslice 4 4 s,
      nf6_NextHop = bslice 8 4 s,
      nf6_Input = BigEndian_Uint (bslice 12 2 s),
      nf6_Output = BigEndian_Uint (bslice 14 2 s),
      nf6_Packets = BigEndian_Uint (bslice 16 4 s),
      nf6_Bytes = BigEndian_Uint (bslice 20 4 s),
      nf6_First = BigEndian_Uint (bslice 24 4 s),
      nf6_Last = BigEndian_Uint (bslice 28 4 s),
      nf6_SrcPort = BigEndian_Uint (bslice 32 2 s),
      nf6_DstPort = BigEndian_Uint (bslice 34 2 s),
      nf6_Pad1 = s ! 36,
      nf6_TCPFlags = s ! 37,
      nf6_Protocol = s ! 38,
      nf6_ToS = s ! 39,
      nf6_SrcAS = BigEndian_Uint (bslice 40 2 s),
      nf6_DstAS = BigEndian_Uint (bslice 42 2 s),
      nf6_SrcMask = s ! 44,
      nf6_DstMask = s ! 45,
      nf6_Pad2 = BigEndian_Uint (bslice 46 2 s),
      nf6_Pad3 = BigEndian_Uint (bslice 48 4 s)\<rparr>"

lemma nf6_record_long:
  "52 \<le> length s \<Longrightarrow> nf6_FlowRecord_Unmarshal s = Inr (nf6_record_at s, drop 52 s)"
  by (simp add: nf6_FlowRecord_Unmarshal_def nf6_record_at_def read_bind_run bslice_def)

lemma nf6_header_long:
  "24 \<le> length s \<Longrightarrow> nf6_PacketHeader_Unmarshal s =
     (if count_out_of_bounds (nf6_h_Count (nf6_header_at s))
      then Inl (flows_out_of_bounds (nf6_h_Count (nf6_header_at s)))
      else Inr (nf6_header_at s, drop 24 s))"
  by (simp add: nf6_PacketHeader_Unmarshal_def nf6_header_at_def read_bind_run bslice_def)

lemma nf6_record_short: "length s < 52 \<Longrightarrow> \<exists>e. nf6_FlowRecord_Unmarshal s = Inl e"
proof -
  have "rd_exact (4 + (4 + (4 + (2 + (2 + (4 + (4 + (4 + (4 + (2 + (2 + (1 + (1 + (1 + (1 + (2 + (2 + (1 + (1 + (2 + (4 + 0))))))))))))))))))))) nf6_FlowRecord_Unmarshal"
    unfolding nf6_FlowRecord_Unmarshal_def
    by (intro read_exact_intros) simp_all
  then have "rd_exact 52 nf6_FlowRecord_Unmarshal" by simp
  then show "length s < 52 \<Longrightarrow> \<exists>e. nf6_FlowRecord_Unmarshal s = Inl e" by (rule rd_exact_short)
qed

lemma nf6_header_short: "length s < 24 \<Longrightarrow> \<exists>e. nf6_PacketHeader_Unmarshal s = Inl e"
proof -
  have "rd_upto (2 + (2 + (4 + (8 + (4 + (1 + (1 + (2 + 0)))))))) nf6_PacketHeader_Unmarshal"
    unfolding nf6_PacketHeader_Unmarshal_def
    by (intro read_upto_intros)
  then have "rd_upto 24 nf6_PacketHeader_Unmarshal" by simp
  then show "length s < 24 \<Longrightarrow> \<exists>e. nf6_PacketHeader_Unmarshal s = Inl e" by (rule rd_uptoD)
qed

subsection \<open>Version 7\<close>

definition nf7_header_at :: "bytes \<Rightarrow> nf7_PacketHeader" where
  "nf7_header_at s =
     \<lparr>nf7_h_Version = BigEndian_Uint (bslice 0 2 s),
      nf7_h_Count = BigEndian_Uint (bslice 2 2 s),
      nf7_h_SysUptime = uint (BigEndian_Uint (bslice 4 4 s) :: u32) * 1000000,
      nf7_h_Unix = unix_of_u64 (BigEndian_Uint (bslice 8 8 s)),
      nf7_h_FlowSequence = BigEndian_Uint (bslice 16 4 s),
      nf7_h_Reserved = BigEndian_Uint (bslice 20 4 s)\<rparr>"

definition nf7_record_at :: "bytes \<Rightarrow> nf7_FlowRecord" where
  "nf7_record_at s =
     \<lparr>nf7_SrcAddr = bslice 0 4 s,
      nf7_DstAddr = bslice 4 4 s,
      nf7_NextHop = bslice 8 4 s,
      nf7_Input = BigEndian_Uint (bslice 12 2 s),
      nf7_Output = BigEndian_Uint (bslice 14 2 s),
      nf7_Packets = BigEndian_Uint (bslice 16 4 s),
      nf7_Bytes = BigEndian_Uint (bslice 20 4 s),
      nf7_First = BigEndian_Uint (bslice 24 4 s),
      nf7_Last = BigEndian_Uint (bslice 28 4 s),
      nf7_SrcPort = BigEndian_Uint (bslice 32 2 s),
      nf7_DstPort = BigEndian_Uint (bslice 34 2 s),
      nf7_Pad1 = s ! 36,
      nf7_TCPFlags = s ! 37,
      nf7_Protocol = s ! 38,
      nf7_ToS = s ! 39,
      nf7_SrcAS = BigEndian_Uint (bslice 40 2 s),
      nf7_DstAS = BigEndian_Uint (bslice 42 2 s),
      nf7_SrcMask = s ! 44,
      nf7_DstMask = s ! 45,
      nf7_Flags = BigEndian_Uint (bslice 46 2 s),
      nf7_RouterSC = bslice 48 4 s\<rparr>"

lemma nf7_record_long:
  "52 \<le> length s \<Longrightarrow> nf7_FlowRecord_Unmarshal s = Inr (nf7_record_at s, drop 52 s)"
  by (simp add: nf7_FlowRecord_Unmarshal_def nf7_record_at_def read_bind_run bslice_def)

lemma nf7_header_long:
  "24 \<le> length s \<Longrightarrow> nf7_PacketHeader_Unmarshal s =
     (if count_out_of_bounds (nf7_h_Count (nf7_header_at s))
      then Inl (flows_out_of_bounds (nf7_h_Count (nf7_header_at s)))
      else Inr (nf7_header_at s, drop 24 s))"
  by (simp add: nf7_PacketHeader_Unmarshal_def nf7_header_at_def read_bind_run bslice_def)

lemma nf7_header_short: "length s < 24 \<Longrightarrow> \<exists>e. nf7_PacketHeader_Unmarshal s = Inl e"
proof -
  have "rd_upto (2 + (2 + (4 + (8 + (4 + (4 + 0)))))) nf7_PacketHeader_Unmarshal"
    unfolding nf7_PacketHeader_Unmarshal_def
    by (intro read_upto_intros)
  then have "rd_upto 24 nf7_PacketHeader_Unmarshal" by simp
  then show "length s < 24 \<Longrightarrow> \<exists>e. nf7_PacketHeader_Unmarshal s = Inl e" by (rule rd_uptoD)
qed

section \<open>The packages\<close>

interpretation nf1: counted_packet_strict nf1_PacketHeader_Unmarshal nf1_FlowRecord_Unmarshal nf1_Read
    nf1_h_Count "\<lambda>h rs. \<lparr>nf1_Header = h, nf1_Records = rs\<rparr>" 16 48 nf1_header_at nf1_record_at
  by unfold_locales
    (simp_all add: nf1_Read_def nf1_Packet_Unmarshal_def nf1_header_long nf1_header_short nf1_record_long nf1_record_short)

interpretation nf5: counted_packet_strict nf5_PacketHeader_Unmarshal nf5_FlowRecord_Unmarshal nf5_Read
    nf5_h_Count "\<lambda>h rs. \<lparr>nf5_Header = h, nf5_Records = rs\<rparr>" 24 48 nf5_header_at nf5_record_at
  by unfold_locales
    (simp_all add: nf5_Read_def nf5_Packet_Unmarshal_def nf5_header_long nf5_header_short nf5_record_long nf5_record_short)

interpretation nf6: counted_packet_strict nf6_PacketHeader_Unmarshal nf6_FlowRecord_Unmarshal nf6_Read
    nf6_h_Count "\<lambda>h rs. \<lparr>nf6_Header = h, nf6_Records = rs\<rparr>" 24 52 nf6_header_at nf6_record_at
  by unfold_locales
    (simp_all add: nf6_Read_def nf6_Packet_Unmarshal_def nf6_header_long nf6_header_short nf6_record_long nf6_record_short)

interpretation nf7: counted_packet nf7_PacketHeader_Unmarshal nf7_FlowRecord_Unmarshal nf7_Read
    nf7_h_Count "\<lambda>h rs. \<lparr>nf7_Header = h, nf7_Records = rs\<rparr>" 24 52 nf7_header_at nf7_record_at
  by unfold_locales
    (simp_all add: nf7_Read_def nf7_Packet_Unmarshal_def nf7_header_long nf7_header_short nf7_record_long)

section \<open>Properties\<close>

text \<open>
  NetFlow v5 packets are decoded exactly by their layout: a buffer is accepted exactly when it
  holds a 24-byte header with a count from 1 to 32 and at least 48 bytes for each of the records
  counted; the packet then has the header and the records that stand at the documented offsets, and
  the decoder stops after the last of them.
\<close>

lemma nf5_Read_layout:
  "nf5_Read s = Inr (p, rest) \<longleftrightarrow>
     24 \<le> length s \<and>
     (let n = unat (nf5_h_Count (nf5_header_at s)) in
        1 \<le> n \<and> n \<le> 32 \<and> 24 + n * 48 \<le> length s \<and>
        p = \<lparr>nf5_Header = nf5_header_at s,
             nf5_Records = map (\<lambda>i. nf5_record_at (drop (24 + i * 48) s)) [0..<n]\<rparr> \<and>
        rest = drop (24 + n * 48) s)"
proof -
  have b: "count_out_of_bounds c \<longleftrightarrow> \<not> (1 \<le> unat c \<and> unat c \<le> 32)" for c
    by (simp add: count_out_of_bounds_def word_less_nat_alt not_le)
  show ?thesis
    using nf5.packet_ok_iff [of s] nf5.packet_long [of s] by (auto simp: Let_def b)
qed

text \<open>
  The four fixed formats refuse a record count outside 1 to 32 with a protocol error before
  they read any record.
\<close>

lemma legacy_count_refused:
  assumes "24 \<le> length s" and "count_out_of_bounds (BigEndian_Uint (bslice 2 2 s))"
  shows "nf1_Read s = Inl (flows_out_of_bounds (BigEndian_Uint (bslice 2 2 s))) \<and>
         nf5_Read s = Inl (flows_out_of_bounds (BigEndian_Uint (bslice 2 2 s))) \<and>
         nf6_Read s = Inl (flows_out_of_bounds (BigEndian_Uint (bslice 2 2 s))) \<and>
         nf7_Read s = Inl (flows_out_of_bounds (BigEndian_Uint (bslice 2 2 s)))"
  using nf1.packet_bad_count [of s] nf5.packet_bad_count [of s] nf6.packet_bad_count [of s]
    nf7.packet_bad_count [of s] assms
  by (simp add: nf1_header_at_def nf5_header_at_def nf6_header_at_def nf7_header_at_def)

text \<open>
  A NetFlow v7 packet whose last record is cut by one to three bytes is still accepted: the
  address of the bypassed router is read last, with a plain read that does not notice the missing
  bytes and leaves them zero.
\<close>

lemma nf7_short_record_accepted:
  assumes "49 \<le> length s" and "length s < 52"
  shows "nf7_FlowRecord_Unmarshal s =
    Inr (nf7_record_at (s @ replicate (52 - length s) 0), [])"
proof -
  have tail: "buf_read (make_bytes 4) (drop 48 s) =
      Inr (bslice 48 4 (s @ replicate (52 - length s) 0), [])"
    using assms by (simp add: buf_read_def make_bytes_def bslice_def)
  then have run: "rbind (buf_read (make_bytes 4)) f (drop 48 s) =
      f (bslice 48 4 (s @ replicate (52 - length s) 0)) []" for f :: "bytes \<Rightarrow> nf7_FlowRecord rd"
    by (simp add: rbind_def)
  show ?thesis
    using assms
    by (simp add: nf7_FlowRecord_Unmarshal_def nf7_record_at_def read_bind_run bslice_def
        nth_append run)
qed

end
