(* ===== verification/Netflow_Session.thy ===== *)
theory Netflow_Session
  imports Prelude
begin

text \<open>
  Package \<^verbatim>\<open>pkg/util/netflow/session\<close>: the templates a decoder has seen, by source (or observation
  domain) and template id. The template type is a parameter here; its \<^verbatim>\<open>ID()\<close> method is the
  argument \<open>ID\<close>. The mutex of the Go type orders concurrent calls of \<^verbatim>\<open>AddTemplate\<close> and holds no
  data; a decoder runs its calls in sequence, which is what the model has.
\<close>

record templateKey =
  sourceID :: u32
  templateID :: u16

record 't basicSession =
  templates :: "templateKey \<Rightarrow> 't option"

definition session_New :: "'t basicSession" where
  "session_New = \<lparr>templates = Map.empty\<rparr>"

definition AddTemplate :: "('t \<Rightarrow> u16) \<Rightarrow> u32 \<Rightarrow> 't \<Rightarrow> 't basicSession \<Rightarrow> 't basicSession" where
  "AddTemplate ID src t s =
     s\<lparr>templates := (templates s)(\<lparr>sourceID = src, templateID = ID t\<rparr> \<mapsto> t)\<rparr>"

definition GetTemplate :: "u32 \<Rightarrow> u16 \<Rightarrow> 't basicSession \<Rightarrow> 't option" where
  "GetTemplate src tid s = templates s \<lparr>sourceID = src, templateID = tid\<rparr>"

text \<open>
  The contract the decoders use, and what follows from it for the loops that register the records
  of a template set one after another: the last record of an id is the one later found, and ids the
  set does not mention keep their templates.
\<close>

locale template_session =
  fixes add :: "u32 \<Rightarrow> 't \<Rightarrow> 's \<Rightarrow> 's"
    and get :: "u32 \<Rightarrow> u16 \<Rightarrow> 's \<Rightarrow> 't option"
    and ID :: "'t \<Rightarrow> u16"
  assumes get_add: "get src' tid (add src t s) =
    (if src' = src \<and> tid = ID t then Some t else get src' tid s)"
begin

lemma get_fold_add:
  "get src' tid (fold (add src) ts s) =
     (if src' = src \<and> (\<exists>t \<in> set ts. ID t = tid)
      then Some (last (filter (\<lambda>t. ID t = tid) ts)) else get src' tid s)"
  by (induction ts arbitrary: s) (auto simp: get_add filter_empty_conv)

lemma get_fold_other_source: "src' \<noteq> src \<Longrightarrow> get src' tid (fold (add src) ts s) = get src' tid s"
  by (simp add: get_fold_add)

lemma get_fold_unmentioned:
  "tid \<notin> ID ` set ts \<Longrightarrow> get src' tid (fold (add src) ts s) = get src' tid s"
  by (auto simp: get_fold_add)

lemma get_fold_cases:
  assumes "get src' tid (fold (add src) ts s) = Some t"
  shows "t \<in> set ts \<or> get src' tid s = Some t"
proof (cases "src' = src \<and> (\<exists>t \<in> set ts. ID t = tid)")
  case True
  then have "last (filter (\<lambda>t. ID t = tid) ts) \<in> set (filter (\<lambda>t. ID t = tid) ts)"
    by (intro last_in_set) (auto simp: filter_empty_conv)
  with True assms show ?thesis by (simp add: get_fold_add)
next
  case False
  with assms show ?thesis by (auto simp: get_fold_add)
qed

end

lemma GetTemplate_AddTemplate:
  "GetTemplate src' tid (AddTemplate ID src t s) =
     (if src' = src \<and> tid = ID t then Some t else GetTemplate src' tid s)"
  by (simp add: GetTemplate_def AddTemplate_def)

interpretation bs: template_session "AddTemplate ID" GetTemplate ID for ID :: "'t \<Rightarrow> u16"
  by unfold_locales (rule GetTemplate_AddTemplate)

end
