(* ===== verification/Netflow_Translate.thy ===== *)
theory Netflow_Translate
  imports Netflow_Read
begin

text \<open>
  Package \<^verbatim>\<open>pkg/util/netflow/translate\<close>: the types of information elements, the element dictionary
  and the translation of a field's bytes to a Go value.
\<close>

section \<open>Field types\<close>

datatype FieldType =
    FT_Unknown | FT_Uint8 | FT_Uint16 | FT_Uint32 | FT_Uint64
  | FT_Int8 | FT_Int16 | FT_Int32 | FT_Int64 | FT_Float32 | FT_Float64
  | FT_Boolean | FT_MacAddress | FT_OctetArray | FT_String
  | FT_DateTimeSeconds | FT_DateTimeMilliseconds | FT_DateTimeMicroseconds | FT_DateTimeNanoseconds
  | FT_Ipv4Address | FT_Ipv6Address

definition FieldTypes_list :: "(string \<times> FieldType) list" where
  "FieldTypes_list =
    [(''unsigned8'', FT_Uint8),
     (''unsigned16'', FT_Uint16),
     (''unsigned32'', FT_Uint32),
     (''unsigned64'', FT_Uint64),
     (''signed8'', FT_Int8),
     (''signed16'', FT_Int16),
     (''signed32'', FT_Int32),
     (''signed64'', FT_Int64),
     (''float32'', FT_Float32),
     (''float64'', FT_Float64),
     (''boolean'', FT_Boolean),
     (''macAddress'', FT_MacAddress),
     (''octetArray'', FT_OctetArray),
     (''string'', FT_String),
     (''dateTimeSeconds'', FT_DateTimeSeconds),
     (''dateTimeMilliseconds'', FT_DateTimeMilliseconds),
     (''dateTimeMicroseconds'', FT_DateTimeMicroseconds),
     (''dateTimeNanoseconds'', FT_DateTimeNanoseconds),
     (''ipv4Address'', FT_Ipv4Address),
     (''ipv6Address'', FT_Ipv6Address)]"

text \<open>\<^verbatim>\<open>FieldTypes[name]\<close>, the zero value \<open>Unknown\<close> for a name the map lacks (\<^verbatim>\<open>UnmarshalText\<close>).\<close>

definition FieldTypes :: "string \<Rightarrow> FieldType" where
  "FieldTypes name = (case map_of FieldTypes_list name of Some t \<Rightarrow> t | None \<Rightarrow> FT_Unknown)"

fun minLength :: "FieldType \<Rightarrow> nat" where
  "minLength FT_Uint8 = 1"
| "minLength FT_Int8 = 1"
| "minLength FT_Boolean = 1"
| "minLength FT_Uint16 = 1"
| "minLength FT_Int16 = 1"
| "minLength FT_Uint32 = 1"
| "minLength FT_Int32 = 1"
| "minLength FT_Float32 = 4"
| "minLength FT_DateTimeSeconds = 4"
| "minLength FT_Uint64 = 1"
| "minLength FT_Int64 = 1"
| "minLength FT_Float64 = 4"
| "minLength FT_DateTimeMilliseconds = 8"
| "minLength FT_DateTimeMicroseconds = 8"
| "minLength FT_DateTimeNanoseconds = 8"
| "minLength FT_MacAddress = 6"
| "minLength FT_Ipv4Address = 4"
| "minLength FT_Ipv6Address = 16"
| "minLength _ = 0"

section \<open>The element dictionary\<close>

record InformationElementEntry =
  ie_Name :: string
  ie_FieldID :: u16
  ie_EnterpriseID :: u32
  ie_Type :: FieldType

record Key =
  k_EnterpriseID :: u32
  k_FieldID :: u16

type_synonym informationElements = "Key \<Rightarrow> InformationElementEntry option"

text \<open>\<^verbatim>\<open>Translate\<close>: the session it embeds is never read by the translation.\<close>

record Translate =
  elements :: informationElements

definition Translate_Key :: "Translate \<Rightarrow> Key \<Rightarrow> InformationElementEntry option" where
  "Translate_Key t k = elements t k"

section \<open>Values\<close>

text \<open>
  The dynamic values \<^verbatim>\<open>Bytes\<close> returns. Floats are kept as their bit patterns;
  \<open>V_float64_of_32 b\<close> is \<^verbatim>\<open>float64(math.Float32frombits(b))\<close>. A \<^verbatim>\<open>time.Time\<close> is its distance from
  the epoch in nanoseconds.
\<close>

datatype go_value =
    V_bytes bytes
  | V_uint8 u8 | V_uint16 u16 | V_uint32 u32 | V_uint64 u64
  | V_int8 u8 | V_int16 u16 | V_int32 u32 | V_int64 u64
  | V_float32 u32 | V_float64 u64 | V_float64_of_32 u32
  | V_bool bool
  | V_string bytes
  | V_mac bytes
  | V_ip bytes
  | V_time int

definition reducedSizeErr :: go_error where
  "reducedSizeErr = Errorf ''Unable to read reduced size encoding: size not implemented'' []"

definition tooManyBitsErr :: go_error where
  "tooManyBitsErr = Errorf ''Unable to read reduced size encoding: too many bits'' []"

definition reducedSizeReadUnsigned :: "bytes \<Rightarrow> nat \<Rightarrow> u64 res" where
  "reducedSizeReadUnsigned bs maxBits =
     (if length bs * 8 > maxBits then Inl tooManyBitsErr
      else if length bs = 1 then Inr (ucast (bs ! 0))
      else if length bs = 2 then Inr (ucast (BigEndian_Uint bs :: u16))
      else if length bs = 3 then
        Inr (ucast (push_bit 16 (ucast (bs ! 0)) + push_bit 8 (ucast (bs ! 1)) + ucast (bs ! 2) :: u32))
      else if length bs = 4 then Inr (ucast (BigEndian_Uint bs :: u32))
      else if length bs = 8 then Inr (BigEndian_Uint bs)
      else Inl reducedSizeErr)"

text \<open>The \<^verbatim>\<open>int64\<close> result is kept as its 64-bit pattern; \<open>scast\<close> is the sign extension.\<close>

definition reducedSizeReadSigned :: "bytes \<Rightarrow> nat \<Rightarrow> u64 res" where
  "reducedSizeReadSigned bs maxBits =
     (if length bs * 8 > maxBits then Inl tooManyBitsErr
      else if length bs = 1 then Inr (scast (bs ! 0))
      else if length bs = 2 then Inr (scast (BigEndian_Uint bs :: u16))
      else if length bs = 4 then Inr (scast (BigEndian_Uint bs :: u32))
      else if length bs = 8 then Inr (BigEndian_Uint bs)
      else Inl reducedSizeErr)"

text \<open>The pointer type \<^verbatim>\<open>reducedSizeRead\<close> switches on.\<close>

datatype int_target = To_uint16 | To_uint32 | To_uint64 | To_int16 | To_int32 | To_int64 | To_other

definition map_res :: "('a \<Rightarrow> 'b) \<Rightarrow> 'a res \<Rightarrow> 'b res" where
  "map_res f r = (case r of Inl e \<Rightarrow> Inl e | Inr x \<Rightarrow> Inr (f x))"

fun reducedSizeRead :: "bytes \<Rightarrow> int_target \<Rightarrow> go_value res" where
  "reducedSizeRead bs To_uint16 = map_res (\<lambda>u. V_uint16 (ucast u)) (reducedSizeReadUnsigned bs 16)"
| "reducedSizeRead bs To_uint32 = map_res (\<lambda>u. V_uint32 (ucast u)) (reducedSizeReadUnsigned bs 32)"
| "reducedSizeRead bs To_uint64 = map_res V_uint64 (reducedSizeReadUnsigned bs 64)"
| "reducedSizeRead bs To_int16 = map_res (\<lambda>u. V_int16 (ucast u)) (reducedSizeReadSigned bs 16)"
| "reducedSizeRead bs To_int32 = map_res (\<lambda>u. V_int32 (ucast u)) (reducedSizeReadSigned bs 32)"
| "reducedSizeRead bs To_int64 = map_res V_int64 (reducedSizeReadSigned bs 64)"
| "reducedSizeRead bs To_other = Inl reducedSizeErr"

text \<open>\<^verbatim>\<open>if err := reducedSizeRead(bs, &i); err == nil { return i }\<close>, else the final \<^verbatim>\<open>return bs\<close>.\<close>

definition reduced_or_raw :: "bytes \<Rightarrow> int_target \<Rightarrow> go_value" where
  "reduced_or_raw bs k = (case reducedSizeRead bs k of Inr v \<Rightarrow> v | Inl _ \<Rightarrow> V_bytes bs)"

text \<open>\<^verbatim>\<open>time.Unix(0, 0).Add(time.Duration(n) * unit)\<close>, whose product wraps at 64 bits.\<close>

definition epoch_Add :: "u64 \<Rightarrow> u64 \<Rightarrow> int" where
  "epoch_Add n unit = sint (n * unit)"

fun translate_Bytes :: "bytes \<Rightarrow> FieldType \<Rightarrow> go_value" where
  "translate_Bytes bs t =
    (if length bs < minLength t then V_bytes bs
     else case t of
       FT_Uint8 \<Rightarrow> V_uint8 (bs ! 0)
     | FT_Uint16 \<Rightarrow> reduced_or_raw bs To_uint16
     | FT_Uint32 \<Rightarrow> reduced_or_raw bs To_uint32
     | FT_Uint64 \<Rightarrow> reduced_or_raw bs To_uint64
     | FT_Int8 \<Rightarrow> V_int8 (bs ! 0)
     | FT_Int16 \<Rightarrow> reduced_or_raw bs To_int16
     | FT_Int32 \<Rightarrow> reduced_or_raw bs To_int32
     | FT_Int64 \<Rightarrow> reduced_or_raw bs To_int64
     | FT_Float32 \<Rightarrow> V_float32 (BigEndian_Uint (take 4 bs))
     | FT_Float64 \<Rightarrow>
         (if length bs = 4 then V_float64_of_32 (BigEndian_Uint bs)
          else if length bs = 8 then V_float64 (BigEndian_Uint bs)
          else V_bytes bs)
     | FT_Boolean \<Rightarrow> V_bool (bs ! 0 = 1)
     | FT_Unknown \<Rightarrow> V_bytes bs
     | FT_OctetArray \<Rightarrow> V_bytes bs
     | FT_String \<Rightarrow> V_string bs
     | FT_MacAddress \<Rightarrow> V_mac bs
     | FT_Ipv4Address \<Rightarrow> V_ip bs
     | FT_Ipv6Address \<Rightarrow> V_ip bs
     | FT_DateTimeSeconds \<Rightarrow> V_time (time_Unix (uint (BigEndian_Uint (take 4 bs) :: u32)) 0)
     | FT_DateTimeMilliseconds \<Rightarrow> V_time (epoch_Add (BigEndian_Uint (take 8 bs)) 1000000)
     | FT_DateTimeMicroseconds \<Rightarrow> V_time (epoch_Add (BigEndian_Uint (take 8 bs)) 1000)
     | FT_DateTimeNanoseconds \<Rightarrow> V_time (epoch_Add (BigEndian_Uint (take 8 bs)) 1))"

declare translate_Bytes.simps [simp del]

section \<open>What the translation computes\<close>

text \<open>The number a big-endian byte string denotes.\<close>

definition be_nat :: "bytes \<Rightarrow> nat" where
  "be_nat bs = foldl (\<lambda>a b. 256 * a + unat b) 0 bs"

lemma be_nat_acc: "foldl (\<lambda>a b. 256 * a + unat b) a bs = 256 ^ length bs * a + be_nat bs"
proof (induction bs arbitrary: a)
  case Nil
  show ?case by (simp add: be_nat_def)
next
  case (Cons b bs)
  show ?case
    using Cons.IH [of "256 * a + unat b"] Cons.IH [of "unat b"]
    by (simp add: be_nat_def algebra_simps)
qed

lemma be_nat_Nil [simp]: "be_nat [] = 0"
  by (simp add: be_nat_def)

lemma be_nat_Cons [simp]: "be_nat (b # bs) = 256 ^ length bs * unat b + be_nat bs"
  using be_nat_acc [of "unat b" bs] by (simp add: be_nat_def)

lemma be_nat_less: "be_nat bs < 256 ^ length bs"
proof (induction bs)
  case Nil
  show ?case by simp
next
  case (Cons b bs)
  have "unat b < 2 ^ LENGTH(8)"
    by (rule unsigned_less)
  then have "unat b \<le> 255" by simp
  then have "256 ^ length bs * unat b \<le> 256 ^ length bs * 255"
    by (rule mult_le_mono2)
  with Cons.IH have "256 ^ length bs * unat b + be_nat bs < 256 ^ length bs * 255 + 256 ^ length bs"
    by linarith
  then show ?case by simp
qed

lemma BigEndian_Uint_be_nat: "BigEndian_Uint bs = (word_of_nat (be_nat bs) :: 'a::len word)"
  if "8 * length bs \<le> LENGTH('a)"
  using that
proof (induction bs)
  case Nil
  show ?case by (simp add: BigEndian_Uint_def)
next
  case (Cons b bs)
  then have IH: "BigEndian_Uint bs = (word_of_nat (be_nat bs) :: 'a word)" by simp
  let ?hi = "push_bit (8 * length bs) (ucast b) :: 'a word"
  have small: "be_nat bs < 2 ^ (8 * length bs)"
    using be_nat_less [of bs] by (simp add: power_mult)
  have disj: "?hi OR word_of_nat (be_nat bs) = ?hi + word_of_nat (be_nat bs)"
  proof (rule disjunctive_add [symmetric])
    fix n
    have "\<not> bit (be_nat bs) n" if "8 * length bs \<le> n"
      using small that by (metis bit_take_bit_iff linorder_not_less take_bit_nat_eq_self)
    then show "\<not> bit ?hi n \<or> \<not> bit (word_of_nat (be_nat bs) :: 'a word) n"
      by (auto simp: bit_simps)
  qed
  have hi: "?hi = word_of_nat (256 ^ length bs * unat b)"
  proof -
    have "(ucast b :: 'a word) = word_of_nat (unat b)" by simp
    moreover have "(2 :: 'a word) ^ (8 * length bs) = word_of_nat (256 ^ length bs)"
      by (simp add: power_mult)
    ultimately show ?thesis by (simp only: push_bit_eq_mult of_nat_mult mult.commute)
  qed
  show ?case
    by (simp only: BigEndian_Uint_Cons IH disj) (simp only: hi be_nat_Cons of_nat_add)
qed


lemma unat_BigEndian_Uint:
  "8 * length bs \<le> LENGTH('a) \<Longrightarrow> unat (BigEndian_Uint bs :: 'a::len word) = be_nat bs"
proof -
  assume le: "8 * length bs \<le> LENGTH('a)"
  have "be_nat bs < 2 ^ (8 * length bs)"
    using be_nat_less [of bs] by (simp add: power_mult)
  also have "\<dots> \<le> 2 ^ LENGTH('a)" using le by (simp add: power_increasing)
  finally show ?thesis
    using le by (intro of_nat_inverse) (simp_all add: BigEndian_Uint_be_nat)
qed

lemma three_bytes:
  "(push_bit 16 (ucast a) + push_bit 8 (ucast b) + ucast c :: u32) = BigEndian_Uint [a, b, c]"
  by (simp add: BigEndian_Uint_be_nat push_bit_eq_mult mult.commute)

text \<open>The unsigned number in a translated value, and the width of the unsigned types.\<close>

fun value_nat :: "go_value \<Rightarrow> nat option" where
  "value_nat (V_uint8 w) = Some (unat w)"
| "value_nat (V_uint16 w) = Some (unat w)"
| "value_nat (V_uint32 w) = Some (unat w)"
| "value_nat (V_uint64 w) = Some (unat w)"
| "value_nat _ = None"

fun value_int :: "go_value \<Rightarrow> int option" where
  "value_int (V_int8 w) = Some (sint w)"
| "value_int (V_int16 w) = Some (sint w)"
| "value_int (V_int32 w) = Some (sint w)"
| "value_int (V_int64 w) = Some (sint w)"
| "value_int _ = None"

fun unsigned_bits :: "FieldType \<Rightarrow> nat option" where
  "unsigned_bits FT_Uint16 = Some 16"
| "unsigned_bits FT_Uint32 = Some 32"
| "unsigned_bits FT_Uint64 = Some 64"
| "unsigned_bits _ = None"

fun signed_bits :: "FieldType \<Rightarrow> nat option" where
  "signed_bits FT_Int16 = Some 16"
| "signed_bits FT_Int32 = Some 32"
| "signed_bits FT_Int64 = Some 64"
| "signed_bits _ = None"

text \<open>Two's complement reading of a big-endian byte string.\<close>

definition be_int :: "bytes \<Rightarrow> int" where
  "be_int bs = (if 2 * be_nat bs < 256 ^ length bs then int (be_nat bs)
     else int (be_nat bs) - 256 ^ length bs)"

lemma ucast_BigEndian_Uint:
  "8 * length bs \<le> LENGTH('a) \<Longrightarrow>
   ucast (BigEndian_Uint bs :: 'a::len word) = (word_of_nat (be_nat bs) :: 'b::len word)"
  using unat_BigEndian_Uint [of bs] by (metis of_nat_unat)

lemma reducedSizeReadUnsigned_eq:
  "reducedSizeReadUnsigned bs n =
     (if n < length bs * 8 then Inl tooManyBitsErr
      else if length bs \<in> {1, 2, 3, 4, 8} then Inr (word_of_nat (be_nat bs))
      else Inl reducedSizeErr)"
proof -
  have 1: "ucast (bs ! 0) = (word_of_nat (be_nat bs) :: u64)" if "length bs = 1"
    using that by (auto simp: length_Suc_conv)
  have 3: "push_bit 16 (ucast (bs ! 0)) + push_bit 8 (ucast (bs ! 1)) + ucast (bs ! 2)
      = (BigEndian_Uint bs :: u32)" if "length bs = 3"
    using that by (auto simp: numeral_3_eq_3 length_Suc_conv three_bytes)
  have w: "ucast (BigEndian_Uint bs :: u16) = (word_of_nat (be_nat bs) :: u64)" if "length bs = 2"
    using that by (intro ucast_BigEndian_Uint) simp
  have x: "ucast (BigEndian_Uint bs :: u32) = (word_of_nat (be_nat bs) :: u64)"
    if "length bs = 3 \<or> length bs = 4"
    using that by (intro ucast_BigEndian_Uint) auto
  have y: "BigEndian_Uint bs = (word_of_nat (be_nat bs) :: u64)" if "length bs = 8"
    using that by (intro BigEndian_Uint_be_nat) simp
  show ?thesis
    unfolding reducedSizeReadUnsigned_def
    using 1 3 w x y by (cases "length bs * 8 > n") auto
qed

lemma sint_two_complement:
  fixes w :: "'a::len word"
  shows "sint w = (if 2 * uint w < 2 ^ LENGTH('a) then uint w else uint w - 2 ^ LENGTH('a))"
proof -
  obtain n where n: "LENGTH('a) = Suc n" by (cases "LENGTH('a)") auto
  have bound: "0 \<le> uint w" "uint w < 2 ^ Suc n"
    using unsigned_less [of w, where 'a = int] by (simp_all add: n)
  have s: "sint w = take_bit (Suc n) (uint w + 2 ^ n) - 2 ^ n"
    by (simp add: sint_uint n signed_take_bit_eq_take_bit_shift)
  show ?thesis
  proof (cases "2 * uint w < 2 ^ LENGTH('a)")
    case True
    then have "uint w + 2 ^ n < 2 ^ Suc n" by (simp add: n)
    with True bound show ?thesis by (simp add: s take_bit_int_eq_self)
  next
    case False
    have "take_bit (Suc n) (uint w + 2 ^ n) = take_bit (Suc n) (uint w - 2 ^ n)"
      using mod_add_self2 [of "uint w - 2 ^ n" "2 ^ Suc n"]
      by (simp add: take_bit_eq_mod add.commute)
    also have "\<dots> = uint w - 2 ^ n"
      using False bound by (intro take_bit_int_eq_self) (auto simp: n)
    finally show ?thesis using False by (simp add: s n)
  qed
qed

lemma sint_BigEndian_Uint:
  "8 * length bs = LENGTH('a) \<Longrightarrow> sint (BigEndian_Uint bs :: 'a::len word) = be_int bs"
proof -
  assume len: "8 * length bs = LENGTH('a)"
  then have u: "uint (BigEndian_Uint bs :: 'a word) = int (be_nat bs)"
    using unat_BigEndian_Uint [of bs, where 'a = 'a] by (metis order_refl of_nat_unat)
  have p: "(256 :: int) ^ length bs = 2 ^ LENGTH('a)"
    by (simp flip: len add: power_mult)
  have "2 * be_nat bs < 256 ^ length bs \<longleftrightarrow> 2 * int (be_nat bs) < 256 ^ length bs"
    by (metis of_nat_less_iff of_nat_mult of_nat_numeral of_nat_power)
  then show ?thesis
    by (simp add: be_int_def sint_two_complement u p)
qed


lemma unat_word_of_be_nat:
  "8 * length bs \<le> LENGTH('a) \<Longrightarrow> unat (word_of_nat (be_nat bs) :: 'a::len word) = be_nat bs"
  using unat_BigEndian_Uint [of bs, where 'a = 'a] by (simp add: BigEndian_Uint_be_nat)

lemma ucast_word_of_nat_down:
  "LENGTH('b) \<le> LENGTH('a) \<Longrightarrow>
   ucast (word_of_nat n :: 'a::len word) = (word_of_nat n :: 'b::len word)"
  by (rule bit_word_eqI) (simp add: bit_simps)

text \<open>
  Reduced-size unsigned elements: a field of an unsigned type of 16, 32 or 64 bits translates
  to the number its bytes denote in big-endian order when it has 1, 2, 3, 4 or 8 bytes and fits the
  type, and is handed on as raw bytes otherwise.
\<close>

lemma translate_unsigned_exact:
  assumes "unsigned_bits t = Some n" and "bs \<noteq> []"
  shows "if length bs \<in> {1, 2, 3, 4, 8} \<and> length bs * 8 \<le> n
         then value_nat (translate_Bytes bs t) = Some (be_nat bs)
         else translate_Bytes bs t = V_bytes bs"
proof -
  have "1 \<le> length bs" using assms(2) by (cases bs) auto
  then show ?thesis
    using assms(1)
    by (cases t)
      (auto simp: translate_Bytes.simps reduced_or_raw_def map_res_def reducedSizeReadUnsigned_eq
        ucast_word_of_nat_down unat_word_of_be_nat)
qed

lemma sint_scast_down:
  fixes w :: "'a::len word"
  assumes "LENGTH('a) \<le> LENGTH('c)" and "LENGTH('c) \<le> LENGTH('b)"
  shows "sint (ucast (scast w :: 'b::len word) :: 'c::len word) = sint w"
proof (rule bit_eqI)
  fix n
  have "min (LENGTH('a) - Suc 0) (min (LENGTH('c) - Suc 0) n) = min (LENGTH('a) - Suc 0) n"
    using assms(1) by (simp add: min.assoc [symmetric] min_absorb1)
  moreover have "min (LENGTH('c) - Suc 0) n < LENGTH('c)" "min (LENGTH('c) - Suc 0) n < LENGTH('b)"
    using assms(2) len_gt_0 [where 'a = 'c] by (simp_all add: min_less_iff_disj)
  ultimately show "bit (sint (ucast (scast w :: 'b word) :: 'c word)) n = bit (sint w) n"
    using assms by (simp add: bit_simps)
qed

text \<open>
  Reduced-size signed elements are sign-extended: 1, 2, 4 or 8 bytes that fit the type give the
  two's complement number the bytes denote; other sizes are handed on as raw bytes.
\<close>

lemma translate_signed_exact:
  assumes "signed_bits t = Some n" and "bs \<noteq> []"
  shows "if length bs \<in> {1, 2, 4, 8} \<and> length bs * 8 \<le> n
         then value_int (translate_Bytes bs t) = Some (be_int bs)
         else translate_Bytes bs t = V_bytes bs"
proof -
  have 1: "1 \<le> length bs" using assms(2) by (cases bs) auto
  have s1: "sint (bs ! 0) = be_int bs" if "length bs = 1"
    using that sint_BigEndian_Uint [of bs, where 'a = 8]
    by (auto simp: length_Suc_conv BigEndian_Uint_def)
  have s2: "sint (BigEndian_Uint bs :: u16) = be_int bs" if "length bs = 2"
    using that by (simp add: sint_BigEndian_Uint)
  have s4: "sint (BigEndian_Uint bs :: u32) = be_int bs" if "length bs = 4"
    using that by (simp add: sint_BigEndian_Uint)
  have s8: "sint (BigEndian_Uint bs :: u64) = be_int bs" if "length bs = 8"
    using that by (simp add: sint_BigEndian_Uint)
  have id64: "sint (scast w :: u64) = sint w" if "LENGTH('x) \<le> 64" for w :: "'x::len word"
    using sint_scast_down [of w, where 'b = 64 and 'c = 64] that by simp
  show ?thesis
    using assms(1) 1 s1 s2 s4 s8
    by (cases t)
      (auto simp: translate_Bytes.simps reduced_or_raw_def map_res_def reducedSizeReadSigned_def
        sint_scast_down id64)
qed

text \<open>The kind of value an element type calls for; raw bytes stand for a field that does not fit.\<close>

fun has_kind :: "FieldType \<Rightarrow> go_value \<Rightarrow> bool" where
  "has_kind FT_Uint8 v \<longleftrightarrow> (\<exists>w. v = V_uint8 w)"
| "has_kind FT_Uint16 v \<longleftrightarrow> (\<exists>w. v = V_uint16 w)"
| "has_kind FT_Uint32 v \<longleftrightarrow> (\<exists>w. v = V_uint32 w)"
| "has_kind FT_Uint64 v \<longleftrightarrow> (\<exists>w. v = V_uint64 w)"
| "has_kind FT_Int8 v \<longleftrightarrow> (\<exists>w. v = V_int8 w)"
| "has_kind FT_Int16 v \<longleftrightarrow> (\<exists>w. v = V_int16 w)"
| "has_kind FT_Int32 v \<longleftrightarrow> (\<exists>w. v = V_int32 w)"
| "has_kind FT_Int64 v \<longleftrightarrow> (\<exists>w. v = V_int64 w)"
| "has_kind FT_Float32 v \<longleftrightarrow> (\<exists>w. v = V_float32 w)"
| "has_kind FT_Float64 v \<longleftrightarrow> (\<exists>w. v = V_float64 w) \<or> (\<exists>w. v = V_float64_of_32 w)"
| "has_kind FT_Boolean v \<longleftrightarrow> (\<exists>b. v = V_bool b)"
| "has_kind FT_String v \<longleftrightarrow> (\<exists>b. v = V_string b)"
| "has_kind FT_MacAddress v \<longleftrightarrow> (\<exists>b. v = V_mac b \<and> 6 \<le> length b)"
| "has_kind FT_Ipv4Address v \<longleftrightarrow> (\<exists>b. v = V_ip b \<and> 4 \<le> length b)"
| "has_kind FT_Ipv6Address v \<longleftrightarrow> (\<exists>b. v = V_ip b \<and> 16 \<le> length b)"
| "has_kind FT_DateTimeSeconds v \<longleftrightarrow> (\<exists>i. v = V_time i \<and> 0 \<le> i \<and> i < 2 ^ 32 * 1000000000)"
| "has_kind FT_DateTimeMilliseconds v \<longleftrightarrow> (\<exists>i. v = V_time i \<and> - (2 ^ 63) \<le> i \<and> i < 2 ^ 63)"
| "has_kind FT_DateTimeMicroseconds v \<longleftrightarrow> (\<exists>i. v = V_time i \<and> - (2 ^ 63) \<le> i \<and> i < 2 ^ 63)"
| "has_kind FT_DateTimeNanoseconds v \<longleftrightarrow> (\<exists>i. v = V_time i \<and> - (2 ^ 63) \<le> i \<and> i < 2 ^ 63)"
| "has_kind FT_Unknown v \<longleftrightarrow> False"
| "has_kind FT_OctetArray v \<longleftrightarrow> False"

lemma reducedSizeRead_kind:
  "reducedSizeRead bs To_uint16 = Inr v \<Longrightarrow> has_kind FT_Uint16 v"
  "reducedSizeRead bs To_uint32 = Inr v \<Longrightarrow> has_kind FT_Uint32 v"
  "reducedSizeRead bs To_uint64 = Inr v \<Longrightarrow> has_kind FT_Uint64 v"
  "reducedSizeRead bs To_int16 = Inr v \<Longrightarrow> has_kind FT_Int16 v"
  "reducedSizeRead bs To_int32 = Inr v \<Longrightarrow> has_kind FT_Int32 v"
  "reducedSizeRead bs To_int64 = Inr v \<Longrightarrow> has_kind FT_Int64 v"
  by (auto simp: map_res_def split: sum.splits)

lemma epoch_Add_bounds: "- (2 ^ 63) \<le> epoch_Add n u \<and> epoch_Add n u < 2 ^ 63"
  using sint_greater_eq [of "n * u"] sint_less [of "n * u"] by (simp add: epoch_Add_def)


end
