(* ===== verification/Netflow_Types.thy ===== *)
theory Netflow_Types
  imports Netflow_Session Netflow_Translate
begin

text \<open>
  The template records of \<^verbatim>\<open>pkg/util/netflow/ipfix\<close> and \<^verbatim>\<open>pkg/util/netflow/netflow9\<close>. Both decoders
  keep them in one session, so the type of a stored template is the union of the four, and a data
  set may find a template of the other protocol (which its decoder rejects).
\<close>

record ipf_FieldSpecifier =
  fs_InformationElementID :: u16
  fs_Length :: u16
  fs_EnterpriseNumber :: u32
  fs_EnterpriseBitSet :: bool

record ipf_TemplateRecord =
  tr_TemplateID :: u16
  tr_FieldCount :: u16
  tr_Fields :: "ipf_FieldSpecifier list"

record ipf_OptionsTemplateRecord =
  otr_TemplateID :: u16
  otr_FieldCount :: u16
  otr_Fields :: "ipf_FieldSpecifier list"
  otr_ScopeFieldCount :: u16
  otr_ScopeFields :: "ipf_FieldSpecifier list"

record v9_FieldSpecifier =
  v9fs_Type :: u16
  v9fs_Length :: u16

record v9_TemplateRecord =
  v9tr_TemplateID :: u16
  v9tr_FieldCount :: u16
  v9tr_Fields :: "v9_FieldSpecifier list"

record v9_OptionsTemplateRecord =
  v9otr_TemplateID :: u16
  v9otr_ScopeFieldCount :: u16
  v9otr_ScopeFields :: "v9_FieldSpecifier list"
  v9otr_FieldCount :: u16
  v9otr_Fields :: "v9_FieldSpecifier list"

datatype Template =
    IpfixTemplate ipf_TemplateRecord
  | IpfixOptionsTemplate ipf_OptionsTemplateRecord
  | V9Template v9_TemplateRecord
  | V9OptionsTemplate v9_OptionsTemplateRecord

text \<open>The four \<^verbatim>\<open>ID()\<close> methods.\<close>

fun Template_ID :: "Template \<Rightarrow> u16" where
  "Template_ID (IpfixTemplate tr) = tr_TemplateID tr"
| "Template_ID (IpfixOptionsTemplate otr) = otr_TemplateID otr"
| "Template_ID (V9Template tr) = v9tr_TemplateID tr"
| "Template_ID (V9OptionsTemplate otr) = v9otr_TemplateID otr"

type_synonym nf_session = "Template basicSession"

text \<open>
  \<^verbatim>\<open>register\<close>, the same method on the four record types: nothing without a session, else
  \<^verbatim>\<open>AddTemplate\<close>.
\<close>

definition register :: "u32 \<Rightarrow> Template \<Rightarrow> nf_session option \<Rightarrow> nf_session option" where
  "register src t s = (case s of None \<Rightarrow> None | Some s \<Rightarrow> Some (AddTemplate Template_ID src t s))"

definition session_get :: "nf_session option \<Rightarrow> u32 \<Rightarrow> u16 \<Rightarrow> Template option" where
  "session_get s src tid = (case s of None \<Rightarrow> None | Some s \<Rightarrow> GetTemplate src tid s)"

lemma fold_register_None [simp]: "fold (register src) ts None = None"
  by (induction ts) (simp_all add: register_def)

lemma fold_register_Some:
  "fold (register src) ts (Some s) = Some (fold (AddTemplate Template_ID src) ts s)"
  by (induction ts arbitrary: s) (simp_all add: register_def)

lemma session_get_fold_register_other:
  "src' \<noteq> src \<Longrightarrow> session_get (fold (register src) ts s) src' tid = session_get s src' tid"
  by (cases s) (simp_all add: session_get_def fold_register_Some bs.get_fold_other_source)

lemma session_get_fold_register_cases:
  "session_get (fold (register src) ts s) src' tid = Some t \<Longrightarrow>
   t \<in> set ts \<or> session_get s src' tid = Some t"
  by (cases s) (auto simp: session_get_def fold_register_Some dest: bs.get_fold_cases)

lemma fold_register_is_None [simp]: "fold (register src) ts s = None \<longleftrightarrow> s = None"
  by (cases s) (simp_all add: fold_register_Some)

end
