(* ===== verification/Ipfix.thy ===== *)
theory Ipfix
  imports Netflow_Types
begin

text \<open>
  Package \<^verbatim>\<open>pkg/util/netflow/ipfix\<close>: message and set headers, templates, options templates, data
  sets and the decoder. The session and the translator are nil-able pointers, hence options; the
  package variable \<^verbatim>\<open>builtin\<close> of the translate package is the argument \<open>builtin\<close> of \<open>ipf_Read\<close>. The
  debug output is left out. A decoding result of \<open>None\<close> is a decoder that does not return.
\<close>

section \<open>Headers\<close>

definition ipf_Version :: u16 where
  "ipf_Version = 0x000a"

definition EnterpriseBit :: u16 where
  "EnterpriseBit = 0x8000"

definition ipf_VariableLength :: u16 where
  "ipf_VariableLength = 0xffff"

record MessageHeader =
  mh_Version :: u16
  mh_Length :: u16
  mh_ExportTime :: u32
  mh_SequenceNumber :: u32
  mh_ObservationDomainID :: u32

definition MessageHeader_Len :: int where
  "MessageHeader_Len = 16"

definition MessageHeader_Unmarshal :: "MessageHeader rd" where
  "MessageHeader_Unmarshal =
     rbind (rwrap ''ipfix header truncated while reading version field: %v'' read_Uint16) (\<lambda>version.
     rbind (rwrap ''ipfix header truncated while reading length field: %v'' read_Uint16) (\<lambda>len.
     rbind (rwrap ''ipfix header truncated while reading export-time field: %v'' read_Uint32) (\<lambda>et.
     rbind (rwrap ''ipfix header truncated while reading sequence-number field: %v'' read_Uint32) (\<lambda>seq.
     rbind (rwrap ''ipfix header truncated while reading observation-domain-id field: %v'' read_Uint32) (\<lambda>odid.
     rret \<lparr>mh_Version = version, mh_Length = len, mh_ExportTime = et, mh_SequenceNumber = seq,
           mh_ObservationDomainID = odid\<rparr>)))))"

record SetHeader =
  sh_ID :: u16
  sh_Length :: u16

definition SetHeader_Bytes :: "SetHeader \<Rightarrow> bytes" where
  "SetHeader_Bytes h = BigEndian_Put 2 (sh_ID h) @ BigEndian_Put 2 (sh_Length h)"

definition SetHeader_Len :: int where
  "SetHeader_Len = 4"

definition SetHeader_Unmarshal :: "SetHeader rd" where
  "SetHeader_Unmarshal =
     rbind read_Uint16 (\<lambda>id. rbind read_Uint16 (\<lambda>len. rret \<lparr>sh_ID = id, sh_Length = len\<rparr>))"

section \<open>Field specifiers and templates\<close>

definition IsEnterprise :: "ipf_FieldSpecifier \<Rightarrow> bool" where
  "IsEnterprise fs = fs_EnterpriseBitSet fs"

definition IsVariableLength :: "ipf_FieldSpecifier \<Rightarrow> bool" where
  "IsVariableLength fs \<longleftrightarrow> fs_InformationElementID fs = ipf_VariableLength"

definition FieldSpecifier_Len :: "ipf_FieldSpecifier \<Rightarrow> nat" where
  "FieldSpecifier_Len fs = (if fs_EnterpriseBitSet fs then 8 else 4)"

definition FieldSpecifier_Unmarshal :: "ipf_FieldSpecifier rd" where
  "FieldSpecifier_Unmarshal =
     rbind read_Uint16 (\<lambda>id.
     rbind read_Uint16 (\<lambda>len.
     if id AND EnterpriseBit > 0
     then rbind read_Uint32 (\<lambda>en.
       rret \<lparr>fs_InformationElementID = id XOR EnterpriseBit, fs_Length = len,
             fs_EnterpriseNumber = en, fs_EnterpriseBitSet = True\<rparr>)
     else rret \<lparr>fs_InformationElementID = id, fs_Length = len,
                fs_EnterpriseNumber = 0, fs_EnterpriseBitSet = False\<rparr>))"

definition FieldSpecifiers_Len :: "ipf_FieldSpecifier list \<Rightarrow> nat" where
  "FieldSpecifiers_Len fs = fold (\<lambda>f l. l + FieldSpecifier_Len f) fs 0"

text \<open>\<^verbatim>\<open>FieldSpecifiers.Unmarshal\<close> on a slice of \<open>n\<close> specifiers.\<close>

definition FieldSpecifiers_Unmarshal :: "nat \<Rightarrow> ipf_FieldSpecifier list rd" where
  "FieldSpecifiers_Unmarshal n = rseq (replicate n FieldSpecifier_Unmarshal)"

definition TemplateRecord_Bytes :: "ipf_TemplateRecord \<Rightarrow> bytes" where
  "TemplateRecord_Bytes tr = BigEndian_Put 2 (tr_TemplateID tr) @ BigEndian_Put 2 (tr_FieldCount tr)"

definition TemplateRecord_Len :: "ipf_TemplateRecord \<Rightarrow> nat" where
  "TemplateRecord_Len tr = 4 + FieldSpecifiers_Len (tr_Fields tr)"

definition TemplateRecord_Unmarshal :: "ipf_TemplateRecord rd" where
  "TemplateRecord_Unmarshal =
     rbind read_Uint16 (\<lambda>tid.
     rbind read_Uint16 (\<lambda>fc.
     rbind (FieldSpecifiers_Unmarshal (unat fc)) (\<lambda>fs.
     rret \<lparr>tr_TemplateID = tid, tr_FieldCount = fc, tr_Fields = fs\<rparr>)))"

record TemplateSet =
  ts_Header :: SetHeader
  ts_Records :: "ipf_TemplateRecord list"

definition TemplateSet_UnmarshalRecords :: "bytes \<Rightarrow> (ipf_TemplateRecord list \<times> go_error option) option" where
  "TemplateSet_UnmarshalRecords data =
     unmarshal_loop (\<lambda>b. 4 < length b) TemplateRecord_Unmarshal data []"

definition errProtocol :: "string \<Rightarrow> int list \<Rightarrow> go_error" where
  "errProtocol f args = Errorf (''protocol error: '' @ f) args"

text \<open>
  \<^verbatim>\<open>buffer.ReadFrom(r)\<close> moves everything that is left of the set into a fresh buffer; what the
  record does not use of it is gone, so the reader continues at the end of the set.
\<close>

definition OptionsTemplateRecord_Unmarshal :: "ipf_OptionsTemplateRecord rd" where
  "OptionsTemplateRecord_Unmarshal =
     rbind read_Uint16 (\<lambda>tid.
     rbind read_Uint16 (\<lambda>fc.
     rbind read_Uint16 (\<lambda>sfc.
     if sfc > fc
     then rfail (errProtocol ''scope field count %d higher than field count %d'' [uint sfc, uint fc])
     else (\<lambda>buffer.
       case rbind (FieldSpecifiers_Unmarshal (unat sfc)) (\<lambda>sfs.
            rbind (FieldSpecifiers_Unmarshal (unat (fc - sfc))) (\<lambda>fs.
            rret \<lparr>otr_TemplateID = tid, otr_FieldCount = fc, otr_Fields = fs,
                  otr_ScopeFieldCount = sfc, otr_ScopeFields = sfs\<rparr>)) buffer of
         Inl e \<Rightarrow> Inl e
       | Inr (otr, _) \<Rightarrow> Inr (otr, [])))))"

record OptionsTemplateSet =
  ots_Header :: SetHeader
  ots_Records :: "ipf_OptionsTemplateRecord list"

definition OptionsTemplateSet_UnmarshalRecords ::
  "bytes \<Rightarrow> (ipf_OptionsTemplateRecord list \<times> go_error option) option" where
  "OptionsTemplateSet_UnmarshalRecords data =
     unmarshal_loop (\<lambda>b. 4 < length b) OptionsTemplateRecord_Unmarshal data []"

section \<open>Fields and their translation\<close>

record TranslatedField =
  tf_Name :: string
  tf_InformationElementID :: u16
  tf_EnterpriseNumber :: u32
  tf_Value :: "go_value option"
  tf_Bytes :: bytes

record ipf_Field =
  f_Bytes :: bytes
  f_Translated :: "TranslatedField option"

definition Field_Unmarshal :: "ipf_FieldSpecifier \<Rightarrow> ipf_Field rd" where
  "Field_Unmarshal fs =
     rbind (if fs_Length fs = ipf_VariableLength then VariableLength [] 0
            else buf_read (make_bytes (unat (fs_Length fs)))) (\<lambda>b.
     rret \<lparr>f_Bytes = b, f_Translated = None\<rparr>)"

text \<open>What one turn of the loop of \<^verbatim>\<open>Translate.Record\<close> stores in a field.\<close>

definition translate_field :: "Translate \<Rightarrow> ipf_FieldSpecifier \<Rightarrow> ipf_Field \<Rightarrow> ipf_Field" where
  "translate_field t fs f =
     f\<lparr>f_Translated := Some
        (case Translate_Key t \<lparr>k_EnterpriseID = fs_EnterpriseNumber fs, k_FieldID = fs_InformationElementID fs\<rparr> of
           Some el \<Rightarrow> \<lparr>tf_Name = ie_Name el, tf_InformationElementID = fs_InformationElementID fs,
              tf_EnterpriseNumber = fs_EnterpriseNumber fs,
              tf_Value = Some (translate_Bytes (f_Bytes f) (ie_Type el)), tf_Bytes = []\<rparr>
         | None \<Rightarrow> \<lparr>tf_Name = '''', tf_InformationElementID = fs_InformationElementID fs,
              tf_EnterpriseNumber = fs_EnterpriseNumber fs, tf_Value = None, tf_Bytes = []\<rparr>)\<rparr>"

text \<open>
  The loop: \<^verbatim>\<open>if i > len(fields) { break }\<close>, then \<^verbatim>\<open>fields[i]\<close>, which panics at \<open>i = len(fields)\<close>.
\<close>

fun Record_loop :: "Translate \<Rightarrow> nat \<Rightarrow> ipf_FieldSpecifier list \<Rightarrow> ipf_Field list \<Rightarrow> ipf_Field list res" where
  "Record_loop t i [] flds = Inr flds"
| "Record_loop t i (fs # fss) flds =
     (if length flds < i then Inr flds
      else if length flds = i then Inl (Panic ''index out of range'')
      else Record_loop t (Suc i) fss (flds[i := translate_field t fs (flds ! i)]))"

definition Translate_Record :: "Translate \<Rightarrow> ipf_Field list \<Rightarrow> ipf_FieldSpecifier list \<Rightarrow> ipf_Field list res" where
  "Translate_Record t flds fss = Record_loop t 0 fss flds"

section \<open>Data sets\<close>

record DataRecord =
  dr_TemplateID :: u16
  dr_Fields :: "ipf_Field list"

definition lift_res :: "'a res \<Rightarrow> 'a rd" where
  "lift_res r = (case r of Inl e \<Rightarrow> rfail e | Inr x \<Rightarrow> rret x)"

definition DataRecord_Unmarshal :: "Translate option \<Rightarrow> ipf_TemplateRecord \<Rightarrow> DataRecord rd" where
  "DataRecord_Unmarshal t tr =
     rbind (rseq (map Field_Unmarshal (tr_Fields tr))) (\<lambda>flds.
     rbind (case t of
              Some t \<Rightarrow> if 0 < length flds then lift_res (Translate_Record t flds (tr_Fields tr))
                        else rret flds
            | None \<Rightarrow> rret flds) (\<lambda>flds.
     rret \<lparr>dr_TemplateID = tr_TemplateID tr, dr_Fields = flds\<rparr>))"

text \<open>\<^verbatim>\<open>if err == io.EOF { return nil } else { return err }\<close>\<close>

definition eof_is_end :: "('r list \<times> go_error option) option \<Rightarrow> ('r list \<times> go_error option) option" where
  "eof_is_end r =
     map_option (\<lambda>(rs, e). (rs, if e = Some EOF then None else e)) r"

record DataSet =
  ds_Header :: SetHeader
  ds_Bytes :: bytes
  ds_Records :: "DataRecord list"

definition DataSet_Unmarshal ::
  "bytes \<Rightarrow> ipf_TemplateRecord \<Rightarrow> Translate option \<Rightarrow> (DataRecord list \<times> go_error option) option" where
  "DataSet_Unmarshal data tr t =
     eof_is_end (unmarshal_loop (\<lambda>b. 0 < length b) (DataRecord_Unmarshal t tr) data [])"

record OptionsDataRecord =
  odr_TemplateID :: u16
  odr_ScopeFields :: "ipf_Field list"
  odr_Fields :: "ipf_Field list"

definition OptionsDataRecord_Unmarshal ::
  "Translate option \<Rightarrow> ipf_OptionsTemplateRecord \<Rightarrow> OptionsDataRecord rd" where
  "OptionsDataRecord_Unmarshal t otr =
     rbind (rseq (map Field_Unmarshal (otr_ScopeFields otr))) (\<lambda>sflds.
     rbind (rseq (map Field_Unmarshal (otr_Fields otr))) (\<lambda>flds.
     case t of
       Some t \<Rightarrow>
         if 0 < length sflds \<and> 0 < length flds
         then rbind (lift_res (Translate_Record t sflds (otr_ScopeFields otr))) (\<lambda>sflds.
              rbind (lift_res (Translate_Record t flds (otr_Fields otr))) (\<lambda>flds.
              rret \<lparr>odr_TemplateID = otr_TemplateID otr, odr_ScopeFields = sflds, odr_Fields = flds\<rparr>))
         else rret \<lparr>odr_TemplateID = otr_TemplateID otr, odr_ScopeFields = sflds, odr_Fields = flds\<rparr>
     | None \<Rightarrow> rret \<lparr>odr_TemplateID = otr_TemplateID otr, odr_ScopeFields = sflds, odr_Fields = flds\<rparr>))"

record OptionsDataSet =
  ods_Header :: SetHeader
  ods_Bytes :: bytes
  ods_Records :: "OptionsDataRecord list"

definition OptionsDataSet_Unmarshal ::
  "bytes \<Rightarrow> ipf_OptionsTemplateRecord \<Rightarrow> Translate option \<Rightarrow>
   (OptionsDataRecord list \<times> go_error option) option" where
  "OptionsDataSet_Unmarshal data otr t =
     eof_is_end (unmarshal_loop (\<lambda>b. 0 < length b) (OptionsDataRecord_Unmarshal t otr) data [])"

section \<open>Messages\<close>

record Message =
  m_Header :: MessageHeader
  m_TemplateSets :: "TemplateSet list"
  m_OptionsTemplateSets :: "OptionsTemplateSet list"
  m_DataSets :: "DataSet list"
  m_OptionsDataSets :: "OptionsDataSet list"

type_synonym ipf_state = "Message \<times> nf_session option"

text \<open>
  The \<^verbatim>\<open>switch\<close> of \<^verbatim>\<open>UnmarshalSets\<close> on one set with its body. The state is the message under
  construction and the session; an error leaves both as they are at that point.
\<close>

definition ipf_set :: "nat \<Rightarrow> SetHeader \<Rightarrow> bytes \<Rightarrow> Translate option \<Rightarrow> ipf_state \<Rightarrow>
    (ipf_state \<times> go_error option) option" where
  "ipf_set i header data t st = (case st of (m, s) \<Rightarrow>
     let odid = mh_ObservationDomainID (m_Header m) in
     if sh_ID header < 2 then Some ((m, s), Some (errProtocol ''received invalid set id'' []))
     else if sh_ID header = 2 then
       map_option (\<lambda>(rs, e). case e of
           Some e \<Rightarrow> ((m, s), Some e)
         | None \<Rightarrow>
             ((m\<lparr>m_TemplateSets := m_TemplateSets m @ [\<lparr>ts_Header = header, ts_Records = rs\<rparr>]\<rparr>,
               fold (register odid) (map IpfixTemplate rs) s), None))
         (TemplateSet_UnmarshalRecords data)
     else if sh_ID header = 3 then
       map_option (\<lambda>(rs, e). case e of
           Some e \<Rightarrow> ((m, s), Some e)
         | None \<Rightarrow>
             ((m\<lparr>m_OptionsTemplateSets := m_OptionsTemplateSets m @ [\<lparr>ots_Header = header, ots_Records = rs\<rparr>]\<rparr>,
               fold (register odid) (map IpfixOptionsTemplate rs) s), None))
         (OptionsTemplateSet_UnmarshalRecords data)
     else if sh_ID header \<ge> 4 \<and> sh_ID header \<le> 255 then Some ((m, s), None)
     else if Option.is_none s then Some ((m, s), None)
     else (case session_get s odid (sh_ID header) of
         None \<Rightarrow> Some ((m, s), None)
       | Some (IpfixTemplate tr) \<Rightarrow>
           map_option (\<lambda>(rs, e). case e of
               Some e \<Rightarrow> ((m, s), Some e)
             | None \<Rightarrow>
                 ((m\<lparr>m_DataSets := m_DataSets m @ [\<lparr>ds_Header = header, ds_Bytes = [], ds_Records = rs\<rparr>]\<rparr>, s), None))
             (DataSet_Unmarshal data tr t)
       | Some (IpfixOptionsTemplate otr) \<Rightarrow>
           map_option (\<lambda>(rs, e). case e of
               Some e \<Rightarrow> ((m, s), Some e)
             | None \<Rightarrow>
                 ((m\<lparr>m_OptionsDataSets := m_OptionsDataSets m @ [\<lparr>ods_Header = header, ods_Bytes = [], ods_Records = rs\<rparr>]\<rparr>, s), None))
             (OptionsDataSet_Unmarshal data otr t)
       | Some _ \<Rightarrow> Some ((m, s), Some (Errorf
             ''ipfix DataSet %d with observation-domain-id %d, template-id %d, retrieved template record of type %T; rejected''
             [int i, uint odid, uint (sh_ID header)]))))"

text \<open>The next set of the buffer: its header, its body and the unread rest.\<close>

definition ipf_next_set :: "nat \<Rightarrow> (SetHeader \<times> bytes) rd" where
  "ipf_next_set i =
     rbind SetHeader_Unmarshal (\<lambda>header.
     let readSize = uint (sh_Length header) - SetHeader_Len in
     if readSize \<le> 0
     then rfail (Errorf ''The %d IPFix message is too big: %d bytes.'' [int i, readSize])
     else (\<lambda>buffer.
       case buf_read (make_bytes (nat readSize)) buffer of
         Inl e \<Rightarrow> Inl e
       | Inr (data, rest) \<Rightarrow>
           if length buffer < nat readSize then Inl UnexpectedEOF
           else Inr ((header, data), rest)))"

lemma SetHeader_within: "rd_within 4 SetHeader_Unmarshal"
  unfolding SetHeader_Unmarshal_def
  using rd_within_bind [OF read_Uint16_within rd_within_bind [OF read_Uint16_within rd_within_ret]]
  by simp

lemma ipf_next_set_shrinks: "ipf_next_set i s = Inr (p, s') \<Longrightarrow> length s' < length s"
  unfolding ipf_next_set_def
  by (elim rbind_InrE)
    (auto simp: Let_def split: if_splits sum.splits
      dest!: rd_withinD [OF SetHeader_within] rd_withinD [OF buf_read_within])

text \<open>The loop \<^verbatim>\<open>for i := 0; buffer.Len() > 0; i++\<close>.\<close>

function ipf_sets :: "nat \<Rightarrow> bytes \<Rightarrow> Translate option \<Rightarrow> ipf_state \<Rightarrow>
    (ipf_state \<times> go_error option) option" where
  "ipf_sets i buffer t st =
     (if buffer = [] then Some (st, None)
      else case ipf_next_set i buffer of
          Inl e \<Rightarrow> Some (st, Some e)
        | Inr ((header, data), rest) \<Rightarrow>
            (case ipf_set i header data t st of
               None \<Rightarrow> None
             | Some (st', Some e) \<Rightarrow> Some (st', Some e)
             | Some (st', None) \<Rightarrow> ipf_sets (Suc i) rest t st'))"
  by pat_completeness auto
termination
  by (relation "measure (\<lambda>(i, buffer, t, st). length buffer)") (auto dest: ipf_next_set_shrinks)

declare ipf_sets.simps [simp del]

definition UnmarshalSets :: "bytes \<Rightarrow> Translate option \<Rightarrow> ipf_state \<Rightarrow>
    (ipf_state \<times> go_error option) option" where
  "UnmarshalSets r t st = (case st of (m, s) \<Rightarrow>
     let readSize = uint (mh_Length (m_Header m)) - MessageHeader_Len in
     if readSize \<le> 0
     then Some ((m, s), Some (Errorf ''The IPFix message is too big: %d bytes.'' [uint (mh_Length (m_Header m))]))
     else (case read_full (nat readSize) r of
         Inl e \<Rightarrow> Some ((m, s), Some (Wrapf
           ''ipfix message truncated; header says %d bytes, but message contains only %d: %v''
           [readSize, int (length r)] e))
       | Inr (data, _) \<Rightarrow> ipf_sets 0 data t (m, s)))"

definition new_Message :: "MessageHeader \<Rightarrow> Message" where
  "new_Message h = \<lparr>m_Header = h, m_TemplateSets = [], m_OptionsTemplateSets = [],
     m_DataSets = [], m_OptionsDataSets = []\<rparr>"

text \<open>
  \<^verbatim>\<open>Read\<close>: the message (absent where the code returns nil), the session afterwards and the error.
\<close>

definition ipf_Read :: "informationElements \<Rightarrow> bytes \<Rightarrow> nf_session option \<Rightarrow> Translate option \<Rightarrow>
    (Message option \<times> nf_session option \<times> go_error option) option" where
  "ipf_Read builtin r s t =
     (let t = (if Option.is_none t \<and> \<not> Option.is_none s then Some \<lparr>elements = builtin\<rparr> else t) in
      case MessageHeader_Unmarshal r of
        Inl e \<Rightarrow> Some (None, s, Some e)
      | Inr (h, rest) \<Rightarrow>
          if uint (mh_Length h) < MessageHeader_Len then Some (None, s, Some ShortBuffer)
          else if mh_Version h \<noteq> ipf_Version
          then Some (None, s, Some (Errorf ''You used an unsupported IPFix message version: %d.'' [uint (mh_Version h)]))
          else map_option (\<lambda>((m, s), e). (Some m, s, e)) (UnmarshalSets rest t (new_Message h, s)))"

end
