(* ===== verification/Ipfix_Correct.thy ===== *)
theory Ipfix_Correct
  imports Ipfix
begin

text \<open>
  Correctness of the IPFIX decoder: what fields and records consume, when the data loops return,
  that the translator never indexes past its fields, how templates reach the session, and the
  decoder as a fold over the sets of a message.
\<close>

section \<open>Fields\<close>

lemma VariableLength_within: "rd_within 1 (VariableLength p c)"
proof -
  have len: "rd_within 0 (if l0 < 0xff then rret (unat l0) else rbind read_Uint16 (\<lambda>l1. rret (unat l1)))"
    for l0 :: u8
    by (simp add: rd_within_ret rd_within_0 [OF rd_within_bind_ret [OF read_Uint16_within]])
  have "rd_within 0 (let b = g l in buf_read b)" for g :: "nat \<Rightarrow> bytes" and l
    by (simp add: buf_read_within)
  then have "rd_within (1 + (0 + 0)) (rbind read_Uint8 (\<lambda>l0.
     rbind (if l0 < 0xff then rret (unat l0) else rbind read_Uint16 (\<lambda>l1. rret (unat l1))) (\<lambda>l.
     let b = (if c < l then make_bytes l
              else if length p < l then p @ replicate (l - length p) 0
              else p)
     in buf_read b)))"
    by (intro rd_within_bind read_Uint8_within len)
  then show ?thesis unfolding VariableLength_def by simp
qed

lemma Field_Unmarshal_progress:
  assumes "Field_Unmarshal fs s = Inr (f, s')" and "fs_Length fs \<noteq> 0"
  shows "length s' < length s"
proof (cases "fs_Length fs = ipf_VariableLength")
  case True
  with assms(1) have "rbind (VariableLength [] 0) (\<lambda>b. rret \<lparr>f_Bytes = b, f_Translated = None\<rparr>) s = Inr (f, s')"
    by (simp add: Field_Unmarshal_def)
  then show ?thesis
    by (elim rbind_InrE) (auto dest: rd_withinD [OF VariableLength_within])
next
  case False
  have "0 < unat (fs_Length fs)" using assms(2) by (simp add: unat_gt_0)
  with False assms show ?thesis
    by (auto simp: Field_Unmarshal_def rbind_def buf_read_def make_bytes_def split: if_splits)
qed

lemma Field_Unmarshal_zero:
  "fs_Length fs = 0 \<Longrightarrow> Field_Unmarshal fs s = Inr (\<lparr>f_Bytes = [], f_Translated = None\<rparr>, s)"
  by (auto simp: Field_Unmarshal_def ipf_VariableLength_def rbind_def buf_read_def make_bytes_def)

definition productive :: "ipf_FieldSpecifier list \<Rightarrow> bool" where
  "productive fss \<longleftrightarrow> (\<exists>fs \<in> set fss. fs_Length fs \<noteq> 0)"

interpretation ipf_fields: field_reader Field_Unmarshal "\<lambda>fs. unat (fs_Length fs)"
  by unfold_locales (auto simp: Field_Unmarshal_zero unat_eq_0 dest: Field_Unmarshal_progress)

lemma productive_unat: "productive fss \<longleftrightarrow> (\<exists>fs \<in> set fss. unat (fs_Length fs) \<noteq> 0)"
  by (simp only: productive_def unat_eq_0)

lemmas Fields_within = ipf_fields.fields_within
lemmas Fields_progress = ipf_fields.fields_progress [folded productive_unat]
lemmas Fields_zero = ipf_fields.fields_zero [folded productive_unat]

section \<open>Translation\<close>

lemma Record_loop_eq:
  "length done + length fss = length flds \<Longrightarrow> take (length done) flds = done \<Longrightarrow>
   Record_loop t (length done) fss flds =
     Inr (done @ map2 (translate_field t) fss (drop (length done) flds))"
proof (induction fss arbitrary: "done" flds)
  case Nil
  then show ?case by simp
next
  case (Cons fs fss)
  let ?i = "length done" and ?g = "translate_field t fs (flds ! length done)"
  have lt: "?i < length flds" using Cons.prems(1) by simp
  let ?flds = "flds[?i := ?g]"
  have "take (Suc ?i) ?flds = done @ [?g]"
    using lt Cons.prems(2) by (simp add: take_Suc_conv_app_nth)
  then have "Record_loop t (Suc ?i) fss ?flds = Inr (done @ ?g # map2 (translate_field t) fss (drop (Suc ?i) flds))"
    using Cons.IH [of "done @ [?g]" ?flds] Cons.prems(1) by simp
  then show ?case
    using lt by (simp add: Cons_nth_drop_Suc [symmetric])
qed

lemma Translate_Record_eq:
  "length flds = length fss \<Longrightarrow> Translate_Record t flds fss = Inr (map2 (translate_field t) fss flds)"
  using Record_loop_eq [of "[]" fss flds t] by (simp add: Translate_Record_def)

text \<open>A data record read, in terms of the fields alone.\<close>

definition translate_all :: "Translate option \<Rightarrow> ipf_FieldSpecifier list \<Rightarrow> ipf_Field list \<Rightarrow> ipf_Field list" where
  "translate_all t fss flds =
     (case t of None \<Rightarrow> flds | Some t \<Rightarrow> map2 (translate_field t) fss flds)"

lemma DataRecord_Unmarshal_eq:
  "DataRecord_Unmarshal t tr s =
     (case rseq (map Field_Unmarshal (tr_Fields tr)) s of
        Inl e \<Rightarrow> Inl e
      | Inr (flds, s') \<Rightarrow>
          Inr (\<lparr>dr_TemplateID = tr_TemplateID tr, dr_Fields = translate_all t (tr_Fields tr) flds\<rparr>, s'))"
proof (cases "rseq (map Field_Unmarshal (tr_Fields tr)) s")
  case (Inl e)
  then show ?thesis by (simp add: DataRecord_Unmarshal_def rbind_def)
next
  case (Inr p)
  obtain flds s' where p: "p = (flds, s')" by fastforce
  have "length flds = length (tr_Fields tr)"
    using length_rseq [of "map Field_Unmarshal (tr_Fields tr)" s flds s'] Inr p by simp
  with Inr p show ?thesis
    by (auto simp: DataRecord_Unmarshal_def rbind_def lift_res_def Translate_Record_eq translate_all_def
        split: option.splits)
qed

lemma OptionsDataRecord_Unmarshal_eq:
  "OptionsDataRecord_Unmarshal t otr s =
     (case rseq (map Field_Unmarshal (otr_ScopeFields otr)) s of
        Inl e \<Rightarrow> Inl e
      | Inr (sflds, s') \<Rightarrow>
         (case rseq (map Field_Unmarshal (otr_Fields otr)) s' of
            Inl e \<Rightarrow> Inl e
          | Inr (flds, s'') \<Rightarrow>
              let t = (if otr_ScopeFields otr = [] \<or> otr_Fields otr = [] then None else t) in
              Inr (\<lparr>odr_TemplateID = otr_TemplateID otr,
                    odr_ScopeFields = translate_all t (otr_ScopeFields otr) sflds,
                    odr_Fields = translate_all t (otr_Fields otr) flds\<rparr>, s'')))"
proof -
  have len: "rseq (map Field_Unmarshal fss) b = Inr (fl, b') \<Longrightarrow> length fl = length fss" for fss b fl b'
    using length_rseq [of "map Field_Unmarshal fss" b fl b'] by simp
  show ?thesis
    by (auto simp: OptionsDataRecord_Unmarshal_def rbind_def lift_res_def Translate_Record_eq translate_all_def
        Let_def split: option.splits sum.splits dest!: len)
qed

section \<open>When the data loops return\<close>

interpretation ipf_data: record_loop "\<lambda>b. 0 < length b" "\<lambda>(t, tr). DataRecord_Unmarshal t tr"
    "\<lambda>(t, tr). productive (tr_Fields tr)"
proof unfold_locales
  fix tt :: "Translate option \<times> ipf_TemplateRecord" and s s' :: bytes and r
  obtain t tr where tt: "tt = (t, tr)" by fastforce
  { assume "case tt of (t, tr) \<Rightarrow> productive (tr_Fields tr)"
      and "(case tt of (t, tr) \<Rightarrow> DataRecord_Unmarshal t tr) s = Inr (r, s')"
    then show "length s' < length s"
      by (auto simp: tt DataRecord_Unmarshal_eq dest: Fields_progress split: sum.splits) }
  { assume "\<not> (case tt of (t, tr) \<Rightarrow> productive (tr_Fields tr))"
    then show "\<exists>r. (case tt of (t, tr) \<Rightarrow> DataRecord_Unmarshal t tr) s = Inr (r, s)"
      using Fields_zero [of "tr_Fields tr" s] by (auto simp: tt DataRecord_Unmarshal_eq) }
qed

interpretation ipf_options: record_loop "\<lambda>b. 0 < length b" "\<lambda>(t, otr). OptionsDataRecord_Unmarshal t otr"
    "\<lambda>(t, otr). productive (otr_ScopeFields otr @ otr_Fields otr)"
proof unfold_locales
  fix tt :: "Translate option \<times> ipf_OptionsTemplateRecord" and s s' :: bytes and r
  obtain t otr where tt: "tt = (t, otr)" by fastforce
  { assume pr: "case tt of (t, otr) \<Rightarrow> productive (otr_ScopeFields otr @ otr_Fields otr)"
      and run: "(case tt of (t, otr) \<Rightarrow> OptionsDataRecord_Unmarshal t otr) s = Inr (r, s')"
    from run obtain sflds s1 flds where
        1: "rseq (map Field_Unmarshal (otr_ScopeFields otr)) s = Inr (sflds, s1)"
      and 2: "rseq (map Field_Unmarshal (otr_Fields otr)) s1 = Inr (flds, s')"
      by (auto simp: tt OptionsDataRecord_Unmarshal_eq Let_def split: sum.splits)
    have "productive (otr_ScopeFields otr) \<or> productive (otr_Fields otr)"
      using pr by (auto simp: tt productive_def)
    then show "length s' < length s"
      using Fields_progress [OF 1] Fields_progress [OF 2]
        rd_withinD [OF Fields_within 1] rd_withinD [OF Fields_within 2] by auto }
  { assume "\<not> (case tt of (t, otr) \<Rightarrow> productive (otr_ScopeFields otr @ otr_Fields otr))"
    then have "\<not> productive (otr_ScopeFields otr)" "\<not> productive (otr_Fields otr)"
      by (auto simp: tt productive_def)
    then show "\<exists>r. (case tt of (t, otr) \<Rightarrow> OptionsDataRecord_Unmarshal t otr) s = Inr (r, s)"
      using Fields_zero [of "otr_ScopeFields otr" s] Fields_zero [of "otr_Fields otr" s]
      by (auto simp: tt OptionsDataRecord_Unmarshal_eq Let_def) }
qed

lemma eof_is_end_None [simp]: "eof_is_end r = None \<longleftrightarrow> r = None"
  by (simp add: eof_is_end_def)

text \<open>
  A data set is decoded in finitely many steps exactly when its template has a field of
  non-zero length, or the set is empty. A template without fields, or with zero-length fields only,
  makes the decoder append empty records forever.
\<close>

lemma DataSet_Unmarshal_returns_iff:
  "DataSet_Unmarshal data tr t \<noteq> None \<longleftrightarrow> data = [] \<or> (\<exists>fs \<in> set (tr_Fields tr). fs_Length fs \<noteq> 0)"
  using ipf_data.loop_returns_iff [of "(t, tr)" data "[]"]
  by (auto simp: DataSet_Unmarshal_def productive_def)

text \<open>
  The same for options data sets, over the scope fields and the option fields together.
\<close>

lemma OptionsDataSet_Unmarshal_returns_iff:
  "OptionsDataSet_Unmarshal data otr t \<noteq> None \<longleftrightarrow>
     data = [] \<or> (\<exists>fs \<in> set (otr_ScopeFields otr) \<union> set (otr_Fields otr). fs_Length fs \<noteq> 0)"
  using ipf_options.loop_returns_iff [of "(t, otr)" data "[]"]
  by (auto simp: OptionsDataSet_Unmarshal_def productive_def)

section \<open>Template sets\<close>

lemma FieldSpecifier_within: "rd_within 4 FieldSpecifier_Unmarshal"
proof (rule rd_withinI)
  fix s x s'
  assume "FieldSpecifier_Unmarshal s = Inr (x, s')"
  then show "length s' + 4 \<le> length s"
    unfolding FieldSpecifier_Unmarshal_def
    by (elim rbind_InrE)
      (auto split: if_splits elim!: rbind_InrE
        dest!: rd_withinD [OF read_Uint16_within] rd_withinD [OF read_Uint32_within])
qed

lemma TemplateRecord_within: "rd_within 4 TemplateRecord_Unmarshal"
proof -
  have "rd_within 0 (FieldSpecifiers_Unmarshal n)" for n
    unfolding FieldSpecifiers_Unmarshal_def
    by (rule rd_within_0 [OF rd_within_seq [where n = 4]]) (auto simp: FieldSpecifier_within)
  then have "rd_within (2 + (2 + (0 + 0))) TemplateRecord_Unmarshal"
    unfolding TemplateRecord_Unmarshal_def
    by (intro rd_within_bind read_Uint16_within rd_within_ret)
  then show ?thesis by simp
qed

lemma OptionsTemplateRecord_shrinks:
  "OptionsTemplateRecord_Unmarshal s = Inr (otr, s') \<Longrightarrow> s' = [] \<and> 6 \<le> length s"
  unfolding OptionsTemplateRecord_Unmarshal_def
  by (elim rbind_InrE)
    (auto split: if_splits sum.splits elim!: rbind_InrE dest!: rd_withinD [OF read_Uint16_within])

text \<open>
  Template sets and options template sets are always decoded in finitely many steps, whatever
  bytes they hold.
\<close>

lemma template_sets_return:
  "TemplateSet_UnmarshalRecords data \<noteq> None \<and> OptionsTemplateSet_UnmarshalRecords data \<noteq> None"
proof
  have "\<exists>out. unmarshal_loop (\<lambda>b. 4 < length b) TemplateRecord_Unmarshal data [] = Some out"
    by (rule unmarshal_loop_returns) (auto dest: rd_withinD [OF TemplateRecord_within])
  then show "TemplateSet_UnmarshalRecords data \<noteq> None"
    by (auto simp: TemplateSet_UnmarshalRecords_def)
  have "\<exists>out. unmarshal_loop (\<lambda>b. 4 < length b) OptionsTemplateRecord_Unmarshal data [] = Some out"
    by (rule unmarshal_loop_returns) (drule OptionsTemplateRecord_shrinks, auto)
  then show "OptionsTemplateSet_UnmarshalRecords data \<noteq> None"
    by (auto simp: OptionsTemplateSet_UnmarshalRecords_def)
qed

text \<open>
  An options template set yields at most one record, however many the exporter put into it: the
  first record takes the rest of the set with it.
\<close>

lemma options_template_set_single:
  assumes "OptionsTemplateSet_UnmarshalRecords data = Some (rs, e)"
  shows "length rs \<le> 1"
proof (cases "4 < length data")
  case False
  then show ?thesis
    using assms by (simp add: OptionsTemplateSet_UnmarshalRecords_def unmarshal_loop_stop)
next
  case True
  show ?thesis
  proof (cases "OptionsTemplateRecord_Unmarshal data")
    case (Inl e')
    with True assms show ?thesis
      by (simp add: OptionsTemplateSet_UnmarshalRecords_def unmarshal_loop_err)
  next
    case (Inr p)
    then obtain otr where "OptionsTemplateRecord_Unmarshal data = Inr (otr, [])"
      using OptionsTemplateRecord_shrinks by (cases p) auto
    with True assms show ?thesis
      by (auto simp: OptionsTemplateSet_UnmarshalRecords_def unmarshal_loop_step unmarshal_loop_stop)
  qed
qed

definition two_options_templates :: bytes where
  "two_options_templates = [1, 0, 0, 1, 0, 1, 0, 149, 0, 4,  1, 1, 0, 1, 0, 1, 0, 149, 0, 4]"

lemma two_options_templates_decoded:
  "OptionsTemplateSet_UnmarshalRecords two_options_templates =
     Some ([\<lparr>otr_TemplateID = 256, otr_FieldCount = 1, otr_Fields = [], otr_ScopeFieldCount = 1,
        otr_ScopeFields = [\<lparr>fs_InformationElementID = 149, fs_Length = 4,
          fs_EnterpriseNumber = 0, fs_EnterpriseBitSet = False\<rparr>]\<rparr>], None)"
  by code_simp

section \<open>Panics\<close>

lemma FieldSpecifiers_nopanic: "rd_nopanic (FieldSpecifiers_Unmarshal n)"
proof -
  have "rd_nopanic FieldSpecifier_Unmarshal"
    unfolding FieldSpecifier_Unmarshal_def
    by (intro rd_nopanic_bind read_nopanic) (auto intro!: rd_nopanic_ret rd_nopanic_bind read_nopanic)
  then show ?thesis
    unfolding FieldSpecifiers_Unmarshal_def by (auto intro!: rd_nopanic_seq)
qed

lemma template_readers_nopanic:
  "rd_nopanic TemplateRecord_Unmarshal" "rd_nopanic OptionsTemplateRecord_Unmarshal"
proof -
  show "rd_nopanic TemplateRecord_Unmarshal"
    unfolding TemplateRecord_Unmarshal_def
    by (intro rd_nopanic_bind rd_nopanic_ret read_nopanic FieldSpecifiers_nopanic)
  have inner: "rd_nopanic (rbind (FieldSpecifiers_Unmarshal n) (\<lambda>x.
        rbind (FieldSpecifiers_Unmarshal k) (\<lambda>y. rret (g x y))))"
    for n k and g :: "_ \<Rightarrow> _ \<Rightarrow> ipf_OptionsTemplateRecord"
    by (intro rd_nopanic_bind rd_nopanic_ret FieldSpecifiers_nopanic)
  have "rd_nopanic (\<lambda>b. case rbind (FieldSpecifiers_Unmarshal n) (\<lambda>x.
        rbind (FieldSpecifiers_Unmarshal k) (\<lambda>y. rret (g x y))) b of
          Inl e \<Rightarrow> Inl e | Inr (o', _) \<Rightarrow> Inr (o', []))"
    for n k and g :: "_ \<Rightarrow> _ \<Rightarrow> ipf_OptionsTemplateRecord"
    using inner [of n k g] by (auto simp: rd_nopanic_def split: sum.splits)
  then show "rd_nopanic OptionsTemplateRecord_Unmarshal"
    unfolding OptionsTemplateRecord_Unmarshal_def
    by (intro rd_nopanic_bind read_nopanic) (simp add: rd_nopanic_fail errProtocol_def)
qed

lemma Fields_nopanic: "rd_nopanic (rseq (map Field_Unmarshal fss))"
proof -
  have "rd_nopanic (Field_Unmarshal fs)" for fs
    unfolding Field_Unmarshal_def
    by (rule rd_nopanic_bind) (simp_all add: VariableLength_nopanic read_nopanic rd_nopanic_ret)
  then show ?thesis by (auto intro!: rd_nopanic_seq)
qed

lemma data_readers_nopanic:
  "rd_nopanic (DataRecord_Unmarshal t tr)" "rd_nopanic (OptionsDataRecord_Unmarshal t otr)"
  using rd_nopanicD [OF Fields_nopanic]
  by (auto simp: rd_nopanic_def DataRecord_Unmarshal_eq OptionsDataRecord_Unmarshal_eq Let_def split: sum.splits)

lemma loop_nopanic:
  "rd_nopanic step \<Longrightarrow> unmarshal_loop mr step buf acc = Some (rs, Some e) \<Longrightarrow> \<not> is_panic e"
  using unmarshal_loop_error_from_step [of mr step buf acc "(rs, Some e)"]
  by (auto dest: rd_nopanicD)

lemma ipf_set_nopanic: "ipf_set i h d t st = Some (st', Some e) \<Longrightarrow> \<not> is_panic e"
  using loop_nopanic [OF template_readers_nopanic(1)] loop_nopanic [OF template_readers_nopanic(2)]
    loop_nopanic [OF data_readers_nopanic(1)] loop_nopanic [OF data_readers_nopanic(2)]
  by (auto simp: ipf_set_def Let_def errProtocol_def TemplateSet_UnmarshalRecords_def
      OptionsTemplateSet_UnmarshalRecords_def DataSet_Unmarshal_def OptionsDataSet_Unmarshal_def eof_is_end_def
      split: if_splits option.splits prod.splits Template.splits)

lemma ipf_next_set_nopanic: "rd_nopanic (ipf_next_set i)"
proof -
  have "rd_nopanic SetHeader_Unmarshal"
    unfolding SetHeader_Unmarshal_def by (intro rd_nopanic_bind rd_nopanic_ret read_nopanic)
  moreover have "rd_nopanic (\<lambda>b. case buf_read x b of Inl e \<Rightarrow> Inl e
      | Inr (d, r) \<Rightarrow> if length b < n then Inl UnexpectedEOF else Inr ((h, d), r))" for x n and h :: SetHeader
    using read_nopanic(2) [of x] by (auto simp: rd_nopanic_def split: sum.splits if_splits)
  ultimately show ?thesis
    unfolding ipf_next_set_def Let_def by (intro rd_nopanic_bind) (auto intro: rd_nopanic_fail)
qed

lemma ipf_sets_nopanic: "ipf_sets i b t st = Some (st', Some e) \<Longrightarrow> \<not> is_panic e"
proof (induction i b t st rule: ipf_sets.induct)
  case (1 i b t st)
  from "1.prems" show ?case
    by (subst (asm) ipf_sets.simps)
      (auto split: if_splits sum.splits option.splits prod.splits
        dest: rd_nopanicD [OF ipf_next_set_nopanic] ipf_set_nopanic "1.IH")
qed

text \<open>
  C37. Decoding never panics: whatever the datagram, the session and the dictionary, an error that
  comes back is an ordinary error value. In particular the index \<^verbatim>\<open>fields[i]\<close> of the translator, which
  its guard \<^verbatim>\<open>i > len(fields)\<close> does not protect, is always in range.
\<close>

theorem ipf_Read_no_panic:
  assumes "ipf_Read builtin r s t = Some (m, s', Some e)"
  shows "\<not> is_panic e"
proof -
  have "rd_nopanic MessageHeader_Unmarshal"
    unfolding MessageHeader_Unmarshal_def
    by (intro rd_nopanic_bind rd_nopanic_ret rd_nopanic_wrap)
  then show ?thesis
    using assms
    by (auto simp: ipf_Read_def UnmarshalSets_def Let_def split: sum.splits if_splits prod.splits
        dest: rd_nopanicD ipf_sets_nopanic)
qed

theorem ipf_Read_no_panic_witness:
  "ipf_Read Map.empty [0, 10] None None =
     Some (None, None, Some (Wrapf ''ipfix header truncated while reading length field: %v'' [] EOF)) \<and>
   \<not> is_panic (Wrapf ''ipfix header truncated while reading length field: %v'' [] EOF)"
proof -
  have "ipf_Read Map.empty [0, 10] None None =
     Some (None, None, Some (Wrapf ''ipfix header truncated while reading length field: %v'' [] EOF))"
    by (simp add: ipf_Read_def MessageHeader_Unmarshal_def rd_defs read_Uint16_def read_full_def)
  then show ?thesis using ipf_Read_no_panic by blast
qed

section \<open>The session\<close>

lemma MessageHeader_layout:
  assumes "MessageHeader_Unmarshal r = Inr (h, rest)"
  shows "16 \<le> length r" and "rest = drop 16 r"
    and "mh_Version h = BigEndian_Uint (bslice 0 2 r)"
    and "mh_Length h = BigEndian_Uint (bslice 2 2 r)"
    and "mh_ObservationDomainID h = BigEndian_Uint (bslice 12 4 r)"
proof -
  show len: "16 \<le> length r"
    using assms unfolding MessageHeader_Unmarshal_def
    by (auto elim!: rbind_InrE dest!: rd_withinD [OF read_Uint16_within] rd_withinD [OF read_Uint32_within])
  show "rest = drop 16 r" "mh_Version h = BigEndian_Uint (bslice 0 2 r)"
    "mh_Length h = BigEndian_Uint (bslice 2 2 r)"
    "mh_ObservationDomainID h = BigEndian_Uint (bslice 12 4 r)"
    using assms len
    by (auto simp: MessageHeader_Unmarshal_def rbind_def rwrap_run_Inr [OF read_Uint16_long]
        rwrap_run_Inr [OF read_Uint32_long] bslice_def)
qed

text \<open>The message header is fixed before the sets are read.\<close>

lemma ipf_set_header: "ipf_set i h d t (m, s) = Some ((m', s'), e) \<Longrightarrow> m_Header m' = m_Header m"
  by (auto simp: ipf_set_def Let_def split: if_splits option.splits prod.splits Template.splits)

lemma ipf_set_register:
  "ipf_set i h d t (m, s) = Some ((m', s'), e) \<Longrightarrow>
   \<exists>ts. s' = fold (register (mh_ObservationDomainID (m_Header m))) ts s"
  by (auto simp: ipf_set_def Let_def split: if_splits option.splits prod.splits Template.splits
      intro: exI [of _ "[]"])

lemma ipf_sets_register:
  "ipf_sets i b t (m, s) = Some ((m', s'), e) \<Longrightarrow>
   \<exists>ts. s' = fold (register (mh_ObservationDomainID (m_Header m))) ts s"
proof (induction "length b" arbitrary: i b m s rule: less_induct)
  case less
  show ?case
  proof (cases "b = [] \<or> (\<exists>e. ipf_next_set i b = Inl e)")
    case True
    with less.prems show ?thesis
      by (auto simp: ipf_sets.simps [of i b] split: if_splits intro: exI [of _ "[]"])
  next
    case False
    then obtain h d rest where nx: "b \<noteq> []" "ipf_next_set i b = Inr ((h, d), rest)"
      by (metis old.prod.exhaust sum.exhaust)
    with less.prems obtain m1 s1 e1 where one: "ipf_set i h d t (m, s) = Some ((m1, s1), e1)"
      and rest: "e1 = None \<Longrightarrow> ipf_sets (Suc i) rest t (m1, s1) = Some ((m', s'), e)"
      and stop: "e1 \<noteq> None \<Longrightarrow> s1 = s'"
      by (subst (asm) ipf_sets.simps) (auto split: option.splits prod.splits)
    obtain ts where ts: "s1 = fold (register (mh_ObservationDomainID (m_Header m))) ts s"
      using ipf_set_register [OF one] by blast
    show ?thesis
    proof (cases e1)
      case None
      from less.hyps [OF ipf_next_set_shrinks [OF nx(2)] rest [OF None]] obtain ts' where
        "s' = fold (register (mh_ObservationDomainID (m_Header m))) ts' s1"
        using ipf_set_header [OF one] by auto
      then have "s' = fold (register (mh_ObservationDomainID (m_Header m))) (ts @ ts') s" using ts by simp
      then show ?thesis by blast
    next
      case Some
      with stop ts show ?thesis by auto
    qed
  qed
qed

text \<open>A message only registers templates, and only for the observation domain of its header.\<close>

lemma ipf_Read_session:
  assumes "ipf_Read builtin r s t = Some (m, s', e)"
  shows "\<exists>ts. s' = fold (register (BigEndian_Uint (bslice 12 4 r))) ts s"
proof (cases "MessageHeader_Unmarshal r")
  case (Inl e')
  with assms(1) show ?thesis by (auto simp: ipf_Read_def Let_def intro: exI [of _ "[]"])
next
  case (Inr p)
  then obtain h rest where h: "MessageHeader_Unmarshal r = Inr (h, rest)" by (cases p) auto
  have src: "mh_ObservationDomainID (m_Header (new_Message h)) = BigEndian_Uint (bslice 12 4 r)"
    using MessageHeader_layout [OF h] by (simp add: new_Message_def)
  show ?thesis
    using assms(1) h ipf_sets_register [of 0 _ _ "new_Message h" s, unfolded src]
    by (auto simp: ipf_Read_def UnmarshalSets_def Let_def split: if_splits sum.splits intro: exI [of _ "[]"])
qed

section \<open>Template sets on the wire\<close>

text \<open>The encoding of a field specifier and of a template record (RFC 7011, section 3.2 and 3.4.1).\<close>

definition ipf_specifier_ok :: "ipf_FieldSpecifier \<Rightarrow> bool" where
  "ipf_specifier_ok fs \<longleftrightarrow> fs_InformationElementID fs AND EnterpriseBit = 0 \<and>
     (fs_EnterpriseBitSet fs \<or> fs_EnterpriseNumber fs = 0)"

definition ipf_specifier_enc :: "ipf_FieldSpecifier \<Rightarrow> bytes" where
  "ipf_specifier_enc fs =
     (if fs_EnterpriseBitSet fs
      then BigEndian_Put 2 (fs_InformationElementID fs OR EnterpriseBit) @ BigEndian_Put 2 (fs_Length fs) @
           BigEndian_Put 4 (fs_EnterpriseNumber fs)
      else BigEndian_Put 2 (fs_InformationElementID fs) @ BigEndian_Put 2 (fs_Length fs))"

definition ipf_template_enc :: "ipf_TemplateRecord \<Rightarrow> bytes" where
  "ipf_template_enc tr = TemplateRecord_Bytes tr @ concat (map ipf_specifier_enc (tr_Fields tr))"

lemma EnterpriseBit_toggle:
  fixes w :: u16
  assumes "w AND EnterpriseBit = 0"
  shows "(w OR EnterpriseBit) AND EnterpriseBit > 0" and "(w OR EnterpriseBit) XOR EnterpriseBit = w"
proof -
  have absorb: "(w OR EnterpriseBit) AND EnterpriseBit = EnterpriseBit"
    by (rule bit_word_eqI) (auto simp: bit_simps)
  show "(w OR EnterpriseBit) AND EnterpriseBit > 0"
    unfolding absorb by (simp add: EnterpriseBit_def)
  show "(w OR EnterpriseBit) XOR EnterpriseBit = w"
  proof (rule bit_word_eqI)
    fix n
    assume "n < LENGTH(16)"
    have "\<not> bit (w AND EnterpriseBit) n" using assms by simp
    then show "bit ((w OR EnterpriseBit) XOR EnterpriseBit) n = bit w n"
      by (auto simp: bit_simps)
  qed
qed

lemma ipf_specifier_dec_enc:
  assumes "ipf_specifier_ok fs"
  shows "FieldSpecifier_Unmarshal (ipf_specifier_enc fs @ s) = Inr (fs, s)"
  using assms EnterpriseBit_toggle [of "fs_InformationElementID fs"]
  by (cases fs) (auto simp: ipf_specifier_ok_def ipf_specifier_enc_def FieldSpecifier_Unmarshal_def
      be16.dec_enc_bind be32.dec_enc_bind)

lemma ipf_specifiers_dec_enc:
  "\<forall>fs \<in> set fss. ipf_specifier_ok fs \<Longrightarrow>
   FieldSpecifiers_Unmarshal (length fss) (concat (map ipf_specifier_enc fss) @ s) = Inr (fss, s)"
  unfolding FieldSpecifiers_Unmarshal_def
  by (induction fss) (simp_all add: rbind_def ipf_specifier_dec_enc)

lemma ipf_template_dec_enc:
  "unat (tr_FieldCount tr) = length (tr_Fields tr) \<Longrightarrow> \<forall>fs \<in> set (tr_Fields tr). ipf_specifier_ok fs \<Longrightarrow>
   TemplateRecord_Unmarshal (ipf_template_enc tr @ s) = Inr (tr, s)"
  by (simp add: ipf_template_enc_def TemplateRecord_Bytes_def TemplateRecord_Unmarshal_def
      rbind_def be16.dec_enc ipf_specifiers_dec_enc)

lemma ipf_specifier_enc_length: "length (ipf_specifier_enc fs) = FieldSpecifier_Len fs"
  by (simp add: ipf_specifier_enc_def FieldSpecifier_Len_def)

lemma FieldSpecifiers_Len_sum: "FieldSpecifiers_Len fss = (\<Sum>fs\<leftarrow>fss. FieldSpecifier_Len fs)"
proof -
  have "fold (\<lambda>f l. l + FieldSpecifier_Len f) fss n = n + (\<Sum>fs\<leftarrow>fss. FieldSpecifier_Len fs)" for n
    by (induction fss arbitrary: n) simp_all
  then show ?thesis by (simp add: FieldSpecifiers_Len_def)
qed

lemma ipf_template_enc_length: "length (ipf_template_enc tr) = TemplateRecord_Len tr"
  by (simp add: ipf_template_enc_def TemplateRecord_Bytes_def TemplateRecord_Len_def FieldSpecifiers_Len_sum
      length_concat comp_def ipf_specifier_enc_length)

text \<open>
  A template set built from any list of template records (at least one field each, the right
  field count, element ids of 15 bits, an enterprise number only with the enterprise bit), followed by
  at most four bytes of padding, decodes to that list; and \<^verbatim>\<open>Len()\<close> is the number of bytes each
  record takes.
\<close>

lemma ipf_template_set_roundtrip:
  assumes "\<forall>tr \<in> set trs. unat (tr_FieldCount tr) = length (tr_Fields tr) \<and> tr_Fields tr \<noteq> [] \<and>
       (\<forall>fs \<in> set (tr_Fields tr). ipf_specifier_ok fs)"
    and "length pad \<le> 4"
  shows "TemplateSet_UnmarshalRecords (concat (map ipf_template_enc trs) @ pad) = Some (trs, None) \<and>
     map (length \<circ> ipf_template_enc) trs = map TemplateRecord_Len trs"
proof -
  have long: "4 < length (ipf_template_enc tr)" if "tr_Fields tr \<noteq> []" for tr
    using that by (cases "tr_Fields tr")
      (auto simp: ipf_template_enc_length TemplateRecord_Len_def FieldSpecifiers_Len_sum FieldSpecifier_Len_def)
  have "unmarshal_loop (\<lambda>b. 4 < length b) TemplateRecord_Unmarshal (concat (map ipf_template_enc trs) @ pad) [] =
      Some ([] @ trs, None)"
    using assms long
    by (intro unmarshal_loop_encoded) (auto simp: ipf_template_dec_enc trans_less_add1)
  then show ?thesis by (simp add: TemplateSet_UnmarshalRecords_def ipf_template_enc_length)
qed

definition ipf_demo_template :: ipf_TemplateRecord where
  "ipf_demo_template = \<lparr>tr_TemplateID = 300, tr_FieldCount = 2, tr_Fields =
     [\<lparr>fs_InformationElementID = 8, fs_Length = 4, fs_EnterpriseNumber = 0, fs_EnterpriseBitSet = False\<rparr>,
      \<lparr>fs_InformationElementID = 5, fs_Length = 65535, fs_EnterpriseNumber = 29305, fs_EnterpriseBitSet = True\<rparr>]\<rparr>"

section \<open>A message with a template\<close>

definition template_message :: bytes where
  "template_message =
     [0, 10, 0, 28, 0, 0, 0, 0, 0, 0, 0, 0, 0, 0, 0, 1,  0, 2, 0, 12, 1, 0, 0, 1, 0, 8, 0, 4]"

lemma template_message_decoded:
  "(case ipf_Read Map.empty template_message (Some session_New) None of
      Some (Some m, Some s, None) \<Rightarrow>
        GetTemplate 1 256 s = Some (IpfixTemplate \<lparr>tr_TemplateID = 256, tr_FieldCount = 1,
          tr_Fields = [\<lparr>fs_InformationElementID = 8, fs_Length = 4,
            fs_EnterpriseNumber = 0, fs_EnterpriseBitSet = False\<rparr>]\<rparr>)
    | _ \<Rightarrow> False)"
  by code_simp

section \<open>The decoder as a fold over the sets of a message\<close>

text \<open>
  The sets of a message body, cut without looking into them, and the error at which the cutting
  stops; \<open>ipf_fold\<close> then handles them one after another.
\<close>

function ipf_split :: "nat \<Rightarrow> bytes \<Rightarrow> (SetHeader \<times> bytes) list \<times> go_error option" where
  "ipf_split i b =
     (if b = [] then ([], None)
      else case ipf_next_set i b of
          Inl e \<Rightarrow> ([], Some e)
        | Inr (x, rest) \<Rightarrow> (case ipf_split (Suc i) rest of (hds, e) \<Rightarrow> (x # hds, e)))"
  by pat_completeness auto
termination
  by (relation "measure (\<lambda>(i, b). length b)") (auto dest: ipf_next_set_shrinks)

declare ipf_split.simps [simp del]

fun ipf_fold :: "nat \<Rightarrow> (SetHeader \<times> bytes) list \<Rightarrow> go_error option \<Rightarrow> Translate option \<Rightarrow> ipf_state \<Rightarrow>
    (ipf_state \<times> go_error option) option" where
  "ipf_fold i [] e0 t st = Some (st, e0)"
| "ipf_fold i ((h, d) # hds) e0 t st =
     (case ipf_set i h d t st of
        None \<Rightarrow> None
      | Some (st', Some e) \<Rightarrow> Some (st', Some e)
      | Some (st', None) \<Rightarrow> ipf_fold (Suc i) hds e0 t st')"

lemma ipf_sets_fold: "ipf_sets i b t st = (case ipf_split i b of (hds, e0) \<Rightarrow> ipf_fold i hds e0 t st)"
proof (induction i b t st rule: ipf_sets.induct)
  case (1 i b t st)
  show ?case
  proof (cases "b = []")
    case True
    then show ?thesis by (simp add: ipf_sets.simps ipf_split.simps)
  next
    case False
    show ?thesis
    proof (cases "ipf_next_set i b")
      case (Inl e)
      with False show ?thesis by (simp add: ipf_sets.simps [of i b] ipf_split.simps [of i b])
    next
      case (Inr p)
      obtain h d rest where p: "p = ((h, d), rest)" by (metis surj_pair)
      show ?thesis
        using False Inr p "1.IH" [OF False Inr [unfolded p] refl refl]
        by (simp add: ipf_sets.simps [of i b] ipf_split.simps [of i b] split: option.splits prod.splits)
    qed
  qed
qed

text \<open>The templates a set brings, and the ones a data set can be decoded with.\<close>

definition set_templates :: "SetHeader \<Rightarrow> bytes \<Rightarrow> Template list" where
  "set_templates h d =
     (if sh_ID h = 2 then (case TemplateSet_UnmarshalRecords d of Some (rs, _) \<Rightarrow> map IpfixTemplate rs | None \<Rightarrow> [])
      else if sh_ID h = 3
      then (case OptionsTemplateSet_UnmarshalRecords d of Some (rs, _) \<Rightarrow> map IpfixOptionsTemplate rs | None \<Rightarrow> [])
      else [])"

fun template_productive :: "Template \<Rightarrow> bool" where
  "template_productive (IpfixTemplate tr) = productive (tr_Fields tr)"
| "template_productive (IpfixOptionsTemplate otr) = productive (otr_ScopeFields otr @ otr_Fields otr)"
| "template_productive _ = True"

lemma ipf_set_returns:
  assumes "\<And>tid T. session_get s (mh_ObservationDomainID (m_Header m)) tid = Some T \<Longrightarrow> template_productive T"
  shows "\<exists>out. ipf_set i h d t (m, s) = Some out"
proof -
  have ts: "TemplateSet_UnmarshalRecords d \<noteq> None" "OptionsTemplateSet_UnmarshalRecords d \<noteq> None"
    using unmarshal_loop_returns [of "\<lambda>b. 4 < length b" TemplateRecord_Unmarshal d "[]"]
      unmarshal_loop_returns [of "\<lambda>b. 4 < length b" OptionsTemplateRecord_Unmarshal d "[]"]
      rd_withinD [OF TemplateRecord_within] OptionsTemplateRecord_shrinks
    by (fastforce simp: TemplateSet_UnmarshalRecords_def OptionsTemplateSet_UnmarshalRecords_def)+
  have dt: "productive (tr_Fields tr) \<Longrightarrow> DataSet_Unmarshal d tr t \<noteq> None" for tr
    using ipf_data.loop_returns [of "(t, tr)" d "[]"] by (auto simp: DataSet_Unmarshal_def)
  have ot: "productive (otr_ScopeFields otr @ otr_Fields otr) \<Longrightarrow> OptionsDataSet_Unmarshal d otr t \<noteq> None" for otr
    using ipf_options.loop_returns [of "(t, otr)" d "[]"] by (auto simp: OptionsDataSet_Unmarshal_def)
  let ?T = "session_get s (mh_ObservationDomainID (m_Header m)) (sh_ID h)"
  consider "?T = None" | tr where "?T = Some (IpfixTemplate tr)" | otr where "?T = Some (IpfixOptionsTemplate otr)"
    | tr where "?T = Some (V9Template tr)" | otr where "?T = Some (V9OptionsTemplate otr)"
    by (metis Template.exhaust not_None_eq)
  then have "ipf_set i h d t (m, s) \<noteq> None"
    by cases (use ts assms [of "sh_ID h"] dt ot in
      \<open>simp_all add: ipf_set_def Let_def del: not_None_eq\<close>)
  then show ?thesis by blast
qed

lemma ipf_set_session:
  assumes "ipf_set i h d t (m, s) = Some ((m', s'), e)"
    and "session_get s' src tid = Some T"
  shows "T \<in> set (set_templates h d) \<or> session_get s src tid = Some T"
proof -
  have "s' = s \<or> (\<exists>odid. s' = fold (register odid) (set_templates h d) s)"
    using assms(1)
    by (auto simp: ipf_set_def Let_def set_templates_def
        split: if_splits option.splits prod.splits Template.splits)
  with assms(2) show ?thesis
    using session_get_fold_register_cases by blast
qed

lemma ipf_fold_returns:
  assumes "\<And>tid T. session_get s (mh_ObservationDomainID (m_Header m)) tid = Some T \<Longrightarrow> template_productive T"
    and "\<And>h d T. (h, d) \<in> set hds \<Longrightarrow> T \<in> set (set_templates h d) \<Longrightarrow> template_productive T"
  shows "\<exists>out. ipf_fold i hds e0 t (m, s) = Some out"
  using assms
proof (induction hds arbitrary: i m s)
  case Nil
  then show ?case by simp
next
  case (Cons x hds)
  obtain h d where x: "x = (h, d)" by fastforce
  obtain m' s' e where one: "ipf_set i h d t (m, s) = Some ((m', s'), e)"
    using ipf_set_returns [of s m i h d t] Cons.prems(1) by auto
  have "\<exists>out. ipf_fold (Suc i) hds e0 t (m', s') = Some out"
  proof (rule Cons.IH)
    fix tid T
    assume "session_get s' (mh_ObservationDomainID (m_Header m')) tid = Some T"
    then have "session_get s' (mh_ObservationDomainID (m_Header m)) tid = Some T"
      using ipf_set_header [OF one] by simp
    from ipf_set_session [OF one this] show "template_productive T"
      using Cons.prems x by fastforce
  next
    fix h d T
    assume "(h, d) \<in> set hds" and "T \<in> set (set_templates h d)"
    with Cons.prems(2) show "template_productive T" by fastforce
  qed
  then show ?case by (cases e) (simp_all add: x one)
qed

text \<open>
  C4. Decoding of a whole message returns, with a message or an error, whenever every template the
  session holds for the domain and every template the message brings has a field of non-zero length
  (V9 templates are rejected and cannot stop it).
\<close>

theorem ipf_Read_returns:
  assumes "\<And>tid T. session_get s (BigEndian_Uint (bslice 12 4 r)) tid = Some T \<Longrightarrow> template_productive T"
    and "\<And>h d T. (h, d) \<in> set (fst (ipf_split 0 (bslice 16 (unat (BigEndian_Uint (bslice 2 2 r) :: u16) - 16) r))) \<Longrightarrow>
       T \<in> set (set_templates h d) \<Longrightarrow> template_productive T"
  shows "\<exists>out. ipf_Read builtin r s t = Some out"
proof (cases "MessageHeader_Unmarshal r")
  case (Inl e)
  then show ?thesis by (simp add: ipf_Read_def Let_def)
next
  case (Inr p)
  then obtain h rest where h: "MessageHeader_Unmarshal r = Inr (h, rest)" by (cases p) auto
  note hdr = MessageHeader_layout [OF h]
  show ?thesis
  proof (cases "read_full (nat (uint (mh_Length h) - MessageHeader_Len)) rest")
    case (Inl e)
    with h show ?thesis by (auto simp: ipf_Read_def UnmarshalSets_def new_Message_def Let_def)
  next
    case (Inr q)
    have data: "0 < uint (mh_Length h) - MessageHeader_Len \<Longrightarrow>
        fst q = bslice 16 (unat (BigEndian_Uint (bslice 2 2 r) :: u16) - 16) r"
      using Inr hdr
      by (auto simp: read_full_def bslice_def MessageHeader_Len_def nat_diff_distrib' split: if_splits)
    have fold: "\<exists>out. ipf_fold 0 (fst (ipf_split 0 (fst q))) (snd (ipf_split 0 (fst q))) t' (new_Message h, s) = Some out"
      if "0 < uint (mh_Length h) - MessageHeader_Len" for t'
      using assms hdr data [OF that] by (intro ipf_fold_returns) (auto simp: new_Message_def)
    have "UnmarshalSets rest t' (new_Message h, s) \<noteq> None" for t'
      using fold [of t'] Inr by (cases q) (auto simp: UnmarshalSets_def Let_def new_Message_def ipf_sets_fold
          split: prod.splits)
    then have "ipf_Read builtin r s t \<noteq> None"
      using h by (simp add: ipf_Read_def Let_def del: not_None_eq)
    then show ?thesis by blast
  qed
qed

lemma template_message_templates:
  "map (\<lambda>(h, d). set_templates h d) (fst (ipf_split 0 (bslice 16 (unat (BigEndian_Uint (bslice 2 2 template_message) :: u16) - 16) template_message)))
   = [[IpfixTemplate \<lparr>tr_TemplateID = 256, tr_FieldCount = 1,
        tr_Fields = [\<lparr>fs_InformationElementID = 8, fs_Length = 4,
          fs_EnterpriseNumber = 0, fs_EnterpriseBitSet = False\<rparr>]\<rparr>]]"
  by code_simp

theorem ipf_Read_returns_witness:
  "\<exists>out. ipf_Read Map.empty template_message (Some session_New) None = Some out"
proof (rule ipf_Read_returns)
  fix tid T
  assume "session_get (Some session_New) (BigEndian_Uint (bslice 12 4 template_message)) tid = Some T"
  then show "template_productive T" by (simp add: session_get_def GetTemplate_def session_New_def)
next
  fix h d T
  assume "(h, d) \<in> set (fst (ipf_split 0 (bslice 16 (unat (BigEndian_Uint (bslice 2 2 template_message) :: u16) - 16) template_message)))"
    and T: "T \<in> set (set_templates h d)"
  then have "set_templates h d \<in> set (map (\<lambda>(h, d). set_templates h d)
      (fst (ipf_split 0 (bslice 16 (unat (BigEndian_Uint (bslice 2 2 template_message) :: u16) - 16) template_message))))"
    by force
  with T show "template_productive T"
    unfolding template_message_templates by (auto simp: productive_def)
qed

end
