(* ===== verification/Netflow9.thy ===== *)
theory Netflow9
  imports Netflow_Types
begin

text \<open>
  Package \<^verbatim>\<open>pkg/util/netflow/netflow9\<close>: packet and flow set headers, templates, options templates,
  data flow sets and the decoder, with the correctness of its loops. As for IPFIX, session and
  translator are options and \<open>None\<close> is a decoder that does not return.
\<close>

section \<open>Headers\<close>

definition v9_Version :: u16 where
  "v9_Version = 0x0009"

record v9_PacketHeader =
  v9ph_Version :: u16
  v9ph_Count :: u16
  v9ph_SysUpTime :: u32
  v9ph_UnixSecs :: u32
  v9ph_SequenceNumber :: u32
  v9ph_SourceID :: u32

definition v9_PacketHeader_Len :: int where
  "v9_PacketHeader_Len = 20"

definition v9_PacketHeader_Unmarshal :: "v9_PacketHeader rd" where
  "v9_PacketHeader_Unmarshal =
     rbind (rwrap ''netflow9 header truncated while reading version field: %v'' read_Uint16) (\<lambda>version.
     rbind (rwrap ''netflow9 header truncated while reading count field: %v'' read_Uint16) (\<lambda>count.
     rbind (rwrap ''netflow9 header truncated while reading sysUpTime field: %v'' read_Uint32) (\<lambda>up.
     rbind (rwrap ''netflow9 header truncated while reading unix-secs field: %v'' read_Uint32) (\<lambda>secs.
     rbind (rwrap ''netflow9 header truncated while reading sequence-number field: %v'' read_Uint32) (\<lambda>seq.
     rbind (rwrap ''netflow9 header truncated while reading source-id field: %v'' read_Uint32) (\<lambda>src.
     rret \<lparr>v9ph_Version = version, v9ph_Count = count, v9ph_SysUpTime = up, v9ph_UnixSecs = secs,
           v9ph_SequenceNumber = seq, v9ph_SourceID = src\<rparr>))))))"

record FlowSetHeader =
  fsh_ID :: u16
  fsh_Length :: u16

definition FlowSetHeader_Len :: int where
  "FlowSetHeader_Len = 4"

definition FlowSetHeader_Unmarshal :: "FlowSetHeader rd" where
  "FlowSetHeader_Unmarshal =
     rbind read_Uint16 (\<lambda>id. rbind read_Uint16 (\<lambda>len. rret \<lparr>fsh_ID = id, fsh_Length = len\<rparr>))"

section \<open>Templates\<close>

definition v9_FieldSpecifier_Unmarshal :: "v9_FieldSpecifier rd" where
  "v9_FieldSpecifier_Unmarshal =
     rbind read_Uint16 (\<lambda>ty. rbind read_Uint16 (\<lambda>len. rret \<lparr>v9fs_Type = ty, v9fs_Length = len\<rparr>))"

definition v9_FieldSpecifiers_Unmarshal :: "nat \<Rightarrow> v9_FieldSpecifier list rd" where
  "v9_FieldSpecifiers_Unmarshal n = rseq (replicate n v9_FieldSpecifier_Unmarshal)"

text \<open>\<^verbatim>\<open>Size()\<close>; the sum of at most 65535 lengths of 16 bits fits the Go \<^verbatim>\<open>int\<close>.\<close>

definition v9_TemplateRecord_Size :: "v9_FieldSpecifier list \<Rightarrow> nat" where
  "v9_TemplateRecord_Size fss = fold (\<lambda>f size. size + unat (v9fs_Length f)) fss 0"

definition v9_TemplateRecord_Unmarshal :: "v9_TemplateRecord rd" where
  "v9_TemplateRecord_Unmarshal =
     rbind read_Uint16 (\<lambda>tid.
     rbind read_Uint16 (\<lambda>fc.
     rbind (v9_FieldSpecifiers_Unmarshal (unat fc)) (\<lambda>fs.
     rret \<lparr>v9tr_TemplateID = tid, v9tr_FieldCount = fc, v9tr_Fields = fs\<rparr>)))"

record TemplateFlowSet =
  tfs_Header :: FlowSetHeader
  tfs_Records :: "v9_TemplateRecord list"

definition TemplateFlowSet_UnmarshalRecords :: "bytes \<Rightarrow> (v9_TemplateRecord list \<times> go_error option) option" where
  "TemplateFlowSet_UnmarshalRecords data =
     unmarshal_loop (\<lambda>b. 4 < length b) v9_TemplateRecord_Unmarshal data []"

text \<open>
  The two counts of an options template are in bytes; the record moves the rest of the set into a
  buffer of its own, so nothing of it is left for the next record.
\<close>

definition v9_OptionsTemplateRecord_Unmarshal :: "v9_OptionsTemplateRecord rd" where
  "v9_OptionsTemplateRecord_Unmarshal =
     rbind read_Uint16 (\<lambda>tid.
     rbind read_Uint16 (\<lambda>sfc.
     rbind read_Uint16 (\<lambda>fc.
     let sfc = sfc div 4; fc = fc div 4 in
     (\<lambda>buffer.
       case rbind (v9_FieldSpecifiers_Unmarshal (unat sfc)) (\<lambda>sfs.
            rbind (v9_FieldSpecifiers_Unmarshal (unat fc)) (\<lambda>fs.
            rret \<lparr>v9otr_TemplateID = tid, v9otr_ScopeFieldCount = sfc, v9otr_ScopeFields = sfs,
                  v9otr_FieldCount = fc, v9otr_Fields = fs\<rparr>)) buffer of
         Inl e \<Rightarrow> Inl e
       | Inr (otr, _) \<Rightarrow> Inr (otr, [])))))"

record OptionsTemplateFlowSet =
  otfs_Header :: FlowSetHeader
  otfs_Records :: "v9_OptionsTemplateRecord list"

definition OptionsTemplateFlowSet_UnmarshalRecords ::
  "bytes \<Rightarrow> (v9_OptionsTemplateRecord list \<times> go_error option) option" where
  "OptionsTemplateFlowSet_UnmarshalRecords data =
     unmarshal_loop (\<lambda>b. 4 < length b) v9_OptionsTemplateRecord_Unmarshal data []"

section \<open>Fields and their translation\<close>

record v9_TranslatedField =
  v9tf_Name :: string
  v9tf_Type :: u16
  v9tf_Value :: "go_value option"
  v9tf_Bytes :: bytes

record v9_Field =
  v9f_Type :: u16
  v9f_Length :: u16
  v9f_Translated :: "v9_TranslatedField option"
  v9f_Bytes :: bytes

definition v9_Field_Unmarshal :: "v9_FieldSpecifier \<Rightarrow> v9_Field rd" where
  "v9_Field_Unmarshal fs =
     rbind (buf_read (make_bytes (unat (v9fs_Length fs)))) (\<lambda>b.
     rret \<lparr>v9f_Type = v9fs_Type fs, v9f_Length = v9fs_Length fs, v9f_Translated = None, v9f_Bytes = b\<rparr>)"

definition v9_translate_field :: "Translate \<Rightarrow> v9_FieldSpecifier \<Rightarrow> v9_Field \<Rightarrow> v9_Field" where
  "v9_translate_field t fs f =
     f\<lparr>v9f_Translated := Some
        (case Translate_Key t \<lparr>k_EnterpriseID = 0, k_FieldID = v9fs_Type fs\<rparr> of
           Some el \<Rightarrow> \<lparr>v9tf_Name = ie_Name el, v9tf_Type = v9fs_Type fs,
              v9tf_Value = Some (translate_Bytes (v9f_Bytes f) (ie_Type el)), v9tf_Bytes = []\<rparr>
         | None \<Rightarrow> \<lparr>v9tf_Name = '''', v9tf_Type = v9fs_Type fs, v9tf_Value = None, v9tf_Bytes = []\<rparr>)\<rparr>"

text \<open>\<^verbatim>\<open>Translate.Record\<close>: the loop stops at the end of the fields or of the specifiers.\<close>

fun v9_Record_loop :: "Translate \<Rightarrow> nat \<Rightarrow> v9_FieldSpecifier list \<Rightarrow> v9_Field list \<Rightarrow> v9_Field list" where
  "v9_Record_loop t i [] flds = flds"
| "v9_Record_loop t i (fs # fss) flds =
     (if length flds \<le> i then flds
      else v9_Record_loop t (Suc i) fss (flds[i := v9_translate_field t fs (flds ! i)]))"

definition v9_Translate_Record :: "Translate \<Rightarrow> v9_Field list \<Rightarrow> v9_FieldSpecifier list \<Rightarrow> v9_Field list" where
  "v9_Translate_Record t flds fss = v9_Record_loop t 0 fss flds"

section \<open>Data flow sets\<close>

record v9_DataRecord =
  v9dr_TemplateID :: u16
  v9dr_Fields :: "v9_Field list"

text \<open>The loop over the fields, which ends early when the record's bytes are used up.\<close>

fun v9_fields_loop :: "v9_FieldSpecifier list \<Rightarrow> v9_Field list rd" where
  "v9_fields_loop [] = rret []"
| "v9_fields_loop (fs # fss) = (\<lambda>buffer.
     if buffer = [] then Inr ([], buffer)
     else rbind (v9_Field_Unmarshal fs) (\<lambda>f. rbind (v9_fields_loop fss) (\<lambda>flds. rret (f # flds))) buffer)"

text \<open>\<^verbatim>\<open>DataRecord.Unmarshal\<close> gets a reader of its own, whose left-over bytes nobody reads.\<close>

definition v9_DataRecord_Unmarshal :: "Translate option \<Rightarrow> v9_TemplateRecord \<Rightarrow> bytes \<Rightarrow> v9_DataRecord res" where
  "v9_DataRecord_Unmarshal t tr r =
     (case v9_fields_loop (v9tr_Fields tr) r of
        Inl e \<Rightarrow> Inl e
      | Inr (flds, _) \<Rightarrow> Inr \<lparr>v9dr_TemplateID = v9tr_TemplateID tr,
          v9dr_Fields = (case t of
             Some t \<Rightarrow> if 0 < length flds then v9_Translate_Record t flds (v9tr_Fields tr) else flds
           | None \<Rightarrow> flds)\<rparr>)"

record DataFlowSet =
  dfs_Header :: FlowSetHeader
  dfs_Records :: "v9_DataRecord list"
  dfs_Bytes :: bytes

text \<open>One turn of the loop of \<^verbatim>\<open>DataFlowSet.Unmarshal\<close>: \<^verbatim>\<open>buffer.Next(tr.Size())\<close> as a record.\<close>

definition v9_data_step :: "Translate option \<Rightarrow> v9_TemplateRecord \<Rightarrow> v9_DataRecord rd" where
  "v9_data_step t tr = (\<lambda>buffer.
     let n = v9_TemplateRecord_Size (v9tr_Fields tr) in
     case v9_DataRecord_Unmarshal t tr (take n buffer) of
       Inl e \<Rightarrow> Inl e
     | Inr dr \<Rightarrow> Inr (dr, drop n buffer))"

definition DataFlowSet_Unmarshal ::
  "bytes \<Rightarrow> v9_TemplateRecord \<Rightarrow> Translate option \<Rightarrow> (v9_DataRecord list \<times> go_error option) option" where
  "DataFlowSet_Unmarshal data tr t = unmarshal_loop (\<lambda>b. 4 \<le> length b) (v9_data_step t tr) data []"

record v9_OptionsDataRecord =
  v9odr_TemplateID :: u16
  v9odr_ScopeFields :: "v9_Field list"
  v9odr_Fields :: "v9_Field list"

definition v9_OptionsDataRecord_Unmarshal ::
  "Translate option \<Rightarrow> v9_OptionsTemplateRecord \<Rightarrow> v9_OptionsDataRecord rd" where
  "v9_OptionsDataRecord_Unmarshal t otr =
     rbind (rseq (map v9_Field_Unmarshal (v9otr_ScopeFields otr))) (\<lambda>sflds.
     rbind (rseq (map v9_Field_Unmarshal (v9otr_Fields otr))) (\<lambda>flds.
     rret (case t of
         Some t \<Rightarrow> \<lparr>v9odr_TemplateID = v9otr_TemplateID otr,
           v9odr_ScopeFields = v9_Translate_Record t sflds (v9otr_ScopeFields otr),
           v9odr_Fields = v9_Translate_Record t flds (v9otr_Fields otr)\<rparr>
       | None \<Rightarrow> \<lparr>v9odr_TemplateID = v9otr_TemplateID otr, v9odr_ScopeFields = sflds, v9odr_Fields = flds\<rparr>)))"

record OptionsDataFlowSet =
  odfs_Header :: FlowSetHeader
  odfs_Bytes :: bytes
  odfs_Records :: "v9_OptionsDataRecord list"

definition OptionsDataFlowSet_Unmarshal ::
  "bytes \<Rightarrow> v9_OptionsTemplateRecord \<Rightarrow> Translate option \<Rightarrow> (v9_OptionsDataRecord list \<times> go_error option) option" where
  "OptionsDataFlowSet_Unmarshal data otr t =
     map_option (\<lambda>(rs, e). (rs, if e = Some EOF then None else e))
       (unmarshal_loop (\<lambda>b. 4 \<le> length b) (v9_OptionsDataRecord_Unmarshal t otr) data [])"

section \<open>Packets\<close>

record v9_Packet =
  v9p_Header :: v9_PacketHeader
  v9p_TemplateFlowSets :: "TemplateFlowSet list"
  v9p_OptionsTemplateFlowSets :: "OptionsTemplateFlowSet list"
  v9p_DataFlowSets :: "DataFlowSet list"
  v9p_OptionsDataFlowSets :: "OptionsDataFlowSet list"

type_synonym v9_state = "v9_Packet \<times> nf_session option"

text \<open>The \<^verbatim>\<open>switch\<close> on the id of a flow set.\<close>

definition v9_set :: "nat \<Rightarrow> FlowSetHeader \<Rightarrow> bytes \<Rightarrow> Translate option \<Rightarrow> v9_state \<Rightarrow>
    (v9_state \<times> go_error option) option" where
  "v9_set i header data t st = (case st of (p, s) \<Rightarrow>
     let src = v9ph_SourceID (v9p_Header p) in
     if fsh_ID header = 0 then
       map_option (\<lambda>(rs, e). case e of
           Some e \<Rightarrow> ((p, s), Some e)
         | None \<Rightarrow>
             ((p\<lparr>v9p_TemplateFlowSets := v9p_TemplateFlowSets p @ [\<lparr>tfs_Header = header, tfs_Records = rs\<rparr>]\<rparr>,
               fold (register src) (map V9Template rs) s), None))
         (TemplateFlowSet_UnmarshalRecords data)
     else if fsh_ID header = 1 then
       map_option (\<lambda>(rs, e). case e of
           Some e \<Rightarrow> ((p, s), Some e)
         | None \<Rightarrow>
             ((p\<lparr>v9p_OptionsTemplateFlowSets := v9p_OptionsTemplateFlowSets p @ [\<lparr>otfs_Header = header, otfs_Records = rs\<rparr>]\<rparr>,
               fold (register src) (map V9OptionsTemplate rs) s), None))
         (OptionsTemplateFlowSet_UnmarshalRecords data)
     else if Option.is_none s then Some ((p, s), None)
     else (case session_get s src (fsh_ID header) of
         None \<Rightarrow> Some ((p, s), None)
       | Some (V9Template tr) \<Rightarrow>
           map_option (\<lambda>(rs, e). case e of
               Some e \<Rightarrow> ((p, s), Some e)
             | None \<Rightarrow>
                 ((p\<lparr>v9p_DataFlowSets := v9p_DataFlowSets p @ [\<lparr>dfs_Header = header, dfs_Records = rs, dfs_Bytes = []\<rparr>]\<rparr>, s), None))
             (DataFlowSet_Unmarshal data tr t)
       | Some (V9OptionsTemplate otr) \<Rightarrow>
           map_option (\<lambda>(rs, e). case e of
               Some e \<Rightarrow> ((p, s), Some e)
             | None \<Rightarrow>
                 ((p\<lparr>v9p_OptionsDataFlowSets := v9p_OptionsDataFlowSets p @ [\<lparr>odfs_Header = header, odfs_Bytes = [], odfs_Records = rs\<rparr>]\<rparr>, s), None))
             (OptionsDataFlowSet_Unmarshal data otr t)
       | Some _ \<Rightarrow> Some ((p, s), Some (Errorf
             ''netflow9 DataFlowSet %d with source-id %d, template-id %d, retrieved template record of type %T; rejected''
             [int i, uint src, uint (fsh_ID header)]))))"

text \<open>The next flow set of the buffer.\<close>

definition v9_next_set :: "nat \<Rightarrow> (FlowSetHeader \<times> bytes) rd" where
  "v9_next_set i = (\<lambda>buffer.
     case FlowSetHeader_Unmarshal buffer of
       Inl e \<Rightarrow> Inl (Errorf ''netflow9 FlowSetHeader %d truncated'' [int i])
     | Inr (header, buffer) \<Rightarrow>
         let readSize = uint (fsh_Length header) - FlowSetHeader_Len in
         if readSize \<le> 0
         then Inl (Errorf ''netflow9 FlowSet %d has illegal size %d bytes'' [int i, readSize])
         else (case read_full (nat readSize) buffer of
             Inl e \<Rightarrow> Inl (Errorf
               ''netflow9 FlowSet %d truncated; header says %d bytes, but message contains only %d''
               [int i, readSize, int (length buffer)])
           | Inr (data, rest) \<Rightarrow> Inr ((header, data), rest)))"

text \<open>
  The loop \<^verbatim>\<open>for i := uint16(0); i < p.Header.Count && buffer.Len() > 0; i++\<close>; \<open>n\<close> is what is left of
  the count.
\<close>

fun v9_sets :: "nat \<Rightarrow> nat \<Rightarrow> bytes \<Rightarrow> Translate option \<Rightarrow> v9_state \<Rightarrow>
    (v9_state \<times> go_error option) option" where
  "v9_sets 0 i buffer t st = Some (st, None)"
| "v9_sets (Suc n) i buffer t st =
     (if buffer = [] then Some (st, None)
      else case v9_next_set i buffer of
          Inl e \<Rightarrow> Some (st, Some e)
        | Inr ((header, data), rest) \<Rightarrow>
            (case v9_set i header data t st of
               None \<Rightarrow> None
             | Some (st', Some e) \<Rightarrow> Some (st', Some e)
             | Some (st', None) \<Rightarrow> v9_sets n (Suc i) rest t st'))"

definition UnmarshalFlowSets :: "bytes \<Rightarrow> Translate option \<Rightarrow> v9_state \<Rightarrow>
    (v9_state \<times> go_error option) option" where
  "UnmarshalFlowSets r t st =
     (if r = [] then Some (st, Some (Errorf ''netflow9 message has zero-length body'' []))
      else v9_sets (unat (v9ph_Count (v9p_Header (fst st)))) 0 r t st)"

definition new_v9_Packet :: "v9_PacketHeader \<Rightarrow> v9_Packet" where
  "new_v9_Packet h = \<lparr>v9p_Header = h, v9p_TemplateFlowSets = [], v9p_OptionsTemplateFlowSets = [],
     v9p_DataFlowSets = [], v9p_OptionsDataFlowSets = []\<rparr>"

definition v9_Read :: "informationElements \<Rightarrow> bytes \<Rightarrow> nf_session option \<Rightarrow> Translate option \<Rightarrow>
    (v9_Packet option \<times> nf_session option \<times> go_error option) option" where
  "v9_Read builtin r s t =
     (let t = (if Option.is_none t \<and> \<not> Option.is_none s then Some \<lparr>elements = builtin\<rparr> else t) in
      case v9_PacketHeader_Unmarshal r of
        Inl e \<Rightarrow> Some (None, s, Some e)
      | Inr (h, rest) \<Rightarrow>
          if v9ph_Version h \<noteq> v9_Version
          then Some (None, s, Some (Errorf ''version %d is not a valid NetFlow packet version'' [uint (v9ph_Version h)]))
          else if v9_PacketHeader_Len < 4 then Some (None, s, Some ShortBuffer)
          else if v9ph_Count h = 0 then Some (Some (new_v9_Packet h), s, None)
          else map_option (\<lambda>((p, s), e). (Some p, s, e)) (UnmarshalFlowSets rest t (new_v9_Packet h, s)))"

end
