(* ===== verification/Netflow9_Correct.thy ===== *)
theory Netflow9_Correct
  imports Netflow9
begin

text \<open>
  Correctness of the NetFlow v9 decoder: the record count and the layout of data flow sets, when
  its loops return, panics and source isolation of the session.
\<close>

section \<open>Records and fields\<close>

lemma v9_Size_sum: "v9_TemplateRecord_Size fss = (\<Sum>fs\<leftarrow>fss. unat (v9fs_Length fs))"
proof -
  have "fold (\<lambda>f size. size + unat (v9fs_Length f)) fss n = n + (\<Sum>fs\<leftarrow>fss. unat (v9fs_Length fs))" for n
    by (induction fss arbitrary: n) simp_all
  then show ?thesis by (simp add: v9_TemplateRecord_Size_def)
qed

lemma v9_Size_0: "v9_TemplateRecord_Size fss \<noteq> 0 \<longleftrightarrow> (\<exists>fs \<in> set fss. v9fs_Length fs \<noteq> 0)"
  by (simp add: v9_Size_sum unat_eq_0)

lemma v9_Field_Unmarshal_progress:
  "v9_Field_Unmarshal fs s = Inr (f, s') \<Longrightarrow> v9fs_Length fs \<noteq> 0 \<Longrightarrow> length s' < length s"
  using unat_gt_0 [of "v9fs_Length fs"]
  by (auto simp: v9_Field_Unmarshal_def rbind_def buf_read_def make_bytes_def split: if_splits)

interpretation v9_fields: field_reader v9_Field_Unmarshal "\<lambda>fs. unat (v9fs_Length fs)"
proof
  show "unat (v9fs_Length fs) = 0 \<Longrightarrow> \<exists>f. v9_Field_Unmarshal fs s = Inr (f, s)" for fs s
    by (auto simp: v9_Field_Unmarshal_def rbind_def buf_read_def make_bytes_def unat_eq_0)
qed (auto simp: unat_eq_0 dest: v9_Field_Unmarshal_progress)

lemma v9_fields_loop_ok: "\<exists>flds s'. v9_fields_loop fss s = Inr (flds, s')"
proof (induction fss arbitrary: s)
  case Nil
  then show ?case by simp
next
  case (Cons fs fss)
  obtain f s1 where f: "s \<noteq> [] \<Longrightarrow> v9_Field_Unmarshal fs s = Inr (f, s1)"
    by (simp add: v9_Field_Unmarshal_def rbind_def buf_read_def)
  obtain flds s' where "v9_fields_loop fss s1 = Inr (flds, s')" using Cons.IH by blast
  with f show ?case by (cases "s = []") (auto simp: rbind_def)
qed

text \<open>
  On a whole record, the bytes of the fields are the bytes of the record in order; specifiers of
  length zero at the end have no field.
\<close>

lemma v9_fields_loop_bytes:
  assumes "v9_fields_loop fss s = Inr (flds, s')" and "length s = v9_TemplateRecord_Size fss"
  shows "concat (map v9f_Bytes flds) = s \<and> s' = [] \<and>
     (\<forall>i < length flds. length (v9f_Bytes (flds ! i)) = unat (v9fs_Length (fss ! i)) \<and>
        v9f_Type (flds ! i) = v9fs_Type (fss ! i))"
  using assms
proof (induction fss arbitrary: s flds s')
  case Nil
  then show ?case by (simp add: v9_Size_sum)
next
  case (Cons fs fss)
  show ?case
  proof (cases "s = []")
    case True
    with Cons.prems show ?thesis by simp
  next
    case False
    let ?n = "unat (v9fs_Length fs)"
    have le: "?n \<le> length s" using Cons.prems(2) by (simp add: v9_Size_sum)
    then have f: "v9_Field_Unmarshal fs s = Inr (\<lparr>v9f_Type = v9fs_Type fs, v9f_Length = v9fs_Length fs,
        v9f_Translated = None, v9f_Bytes = take ?n s\<rparr>, drop ?n s)"
      using False by (simp add: v9_Field_Unmarshal_def rbind_def buf_read_def make_bytes_def)
    obtain flds' where r: "v9_fields_loop fss (drop ?n s) = Inr (flds', s')"
      and flds: "flds = \<lparr>v9f_Type = v9fs_Type fs, v9f_Length = v9fs_Length fs,
        v9f_Translated = None, v9f_Bytes = take ?n s\<rparr> # flds'"
      using Cons.prems(1) False f by (auto simp: rbind_def split: sum.splits prod.splits)
    have "length (drop ?n s) = v9_TemplateRecord_Size fss"
      using Cons.prems(2) by (simp add: v9_Size_sum)
    from Cons.IH [OF r this] show ?thesis
      using le by (auto simp: flds nth_Cons split: nat.splits)
  qed
qed

section \<open>Translation\<close>

lemma v9_Record_loop_eq:
  "take (length done) flds = done \<Longrightarrow>
   v9_Record_loop t (length done) fss flds =
     done @ map2 (v9_translate_field t) fss (drop (length done) flds) @ drop (length done + length fss) flds"
proof (induction fss arbitrary: "done" flds)
  case Nil
  then show ?case by (metis append_take_drop_id add_0_right list.size(3) self_append_conv2 v9_Record_loop.simps(1) zip_Nil list.simps(8))
next
  case (Cons fs fss)
  let ?i = "length done" and ?g = "v9_translate_field t fs (flds ! length done)"
  show ?case
  proof (cases "length flds \<le> ?i")
    case True
    with Cons.prems have "flds = done" by simp
    then show ?thesis by simp
  next
    case False
    then have lt: "?i < length flds" by simp
    let ?flds = "flds[?i := ?g]"
    have "take (Suc ?i) ?flds = done @ [?g]"
      using lt Cons.prems by (simp add: take_Suc_conv_app_nth)
    then have "v9_Record_loop t (Suc ?i) fss ?flds = done @ ?g # map2 (v9_translate_field t) fss (drop (Suc ?i) flds)
        @ drop (Suc ?i + length fss) flds"
      using Cons.IH [of "done @ [?g]" ?flds] by simp
    then show ?thesis
      using lt by (simp add: Cons_nth_drop_Suc [symmetric])
  qed
qed

lemma v9_Translate_Record_eq:
  "v9_Translate_Record t flds fss = map2 (v9_translate_field t) fss flds @ drop (length fss) flds"
  using v9_Record_loop_eq [of "[]" flds t fss] by (simp add: v9_Translate_Record_def)

section \<open>When the data loops return\<close>

lemma v9_data_step_eq:
  "\<exists>r. v9_data_step t tr s = Inr (r, drop (v9_TemplateRecord_Size (v9tr_Fields tr)) s)"
  using v9_fields_loop_ok [of "v9tr_Fields tr" "take (v9_TemplateRecord_Size (v9tr_Fields tr)) s"]
  by (auto simp: v9_data_step_def v9_DataRecord_Unmarshal_def Let_def)

interpretation v9_data: record_loop "\<lambda>b. 4 \<le> length b" "\<lambda>(t, tr). v9_data_step t tr"
    "\<lambda>(t, tr). v9_TemplateRecord_Size (v9tr_Fields tr) \<noteq> 0"
proof
  fix tt :: "Translate option \<times> v9_TemplateRecord" and s s' :: bytes and r
  obtain t tr where tt: "tt = (t, tr)" by fastforce
  obtain r1 where step: "v9_data_step t tr s = Inr (r1, drop (v9_TemplateRecord_Size (v9tr_Fields tr)) s)"
    using v9_data_step_eq by blast
  { assume "case tt of (t, tr) \<Rightarrow> v9_TemplateRecord_Size (v9tr_Fields tr) \<noteq> 0"
      and "4 \<le> length s" and "(case tt of (t, tr) \<Rightarrow> v9_data_step t tr) s = Inr (r, s')"
    with step show "length s' < length s" by (auto simp: tt) }
  { assume "\<not> (case tt of (t, tr) \<Rightarrow> v9_TemplateRecord_Size (v9tr_Fields tr) \<noteq> 0)"
    with step show "\<exists>r. (case tt of (t, tr) \<Rightarrow> v9_data_step t tr) s = Inr (r, s)" by (simp add: tt) }
qed

interpretation v9_options: record_loop "\<lambda>b. 4 \<le> length b" "\<lambda>(t, otr). v9_OptionsDataRecord_Unmarshal t otr"
    "\<lambda>(t, otr). \<exists>fs \<in> set (v9otr_ScopeFields otr @ v9otr_Fields otr). unat (v9fs_Length fs) \<noteq> 0"
proof
  fix tt :: "Translate option \<times> v9_OptionsTemplateRecord" and s s' :: bytes and r
  obtain t otr where tt: "tt = (t, otr)" by fastforce
  let ?rd = "\<lambda>fss. rseq (map v9_Field_Unmarshal fss)"
  { assume pr: "case tt of (t, otr) \<Rightarrow> \<exists>fs \<in> set (v9otr_ScopeFields otr @ v9otr_Fields otr). unat (v9fs_Length fs) \<noteq> 0"
      and run: "(case tt of (t, otr) \<Rightarrow> v9_OptionsDataRecord_Unmarshal t otr) s = Inr (r, s')"
    from run obtain sflds s1 flds where 1: "?rd (v9otr_ScopeFields otr) s = Inr (sflds, s1)"
      and 2: "?rd (v9otr_Fields otr) s1 = Inr (flds, s')"
      by (auto simp: tt v9_OptionsDataRecord_Unmarshal_def elim!: rbind_InrE)
    have "(\<exists>fs \<in> set (v9otr_ScopeFields otr). unat (v9fs_Length fs) \<noteq> 0) \<or>
        (\<exists>fs \<in> set (v9otr_Fields otr). unat (v9fs_Length fs) \<noteq> 0)"
      using pr by (auto simp: tt)
    then show "length s' < length s"
      using v9_fields.fields_progress [OF 1] v9_fields.fields_progress [OF 2]
        rd_withinD [OF v9_fields.fields_within 1] rd_withinD [OF v9_fields.fields_within 2]
      by linarith }
  { assume "\<not> (case tt of (t, otr) \<Rightarrow> \<exists>fs \<in> set (v9otr_ScopeFields otr @ v9otr_Fields otr). unat (v9fs_Length fs) \<noteq> 0)"
    then obtain sflds flds where "?rd (v9otr_ScopeFields otr) s = Inr (sflds, s)" "?rd (v9otr_Fields otr) s = Inr (flds, s)"
      using v9_fields.fields_zero [of "v9otr_ScopeFields otr" s] v9_fields.fields_zero [of "v9otr_Fields otr" s]
      by (auto simp: tt)
    then show "\<exists>r. (case tt of (t, otr) \<Rightarrow> v9_OptionsDataRecord_Unmarshal t otr) s = Inr (r, s)"
      by (simp add: tt v9_OptionsDataRecord_Unmarshal_def rbind_def) }
qed

text \<open>
  A v9 data flow set is decoded in finitely many steps exactly when its template has a field of
  non-zero length or less than four bytes follow the header; an options data flow set likewise, over
  scope and option fields together.
\<close>

lemma v9_data_sets_return_iff:
  "(DataFlowSet_Unmarshal data tr t \<noteq> None \<longleftrightarrow>
      length data < 4 \<or> (\<exists>fs \<in> set (v9tr_Fields tr). v9fs_Length fs \<noteq> 0)) \<and>
   (OptionsDataFlowSet_Unmarshal data otr t \<noteq> None \<longleftrightarrow>
      length data < 4 \<or> (\<exists>fs \<in> set (v9otr_ScopeFields otr) \<union> set (v9otr_Fields otr). v9fs_Length fs \<noteq> 0))"
proof
  show "DataFlowSet_Unmarshal data tr t \<noteq> None \<longleftrightarrow>
      length data < 4 \<or> (\<exists>fs \<in> set (v9tr_Fields tr). v9fs_Length fs \<noteq> 0)"
    using v9_data.loop_returns_iff [of "(t, tr)" data "[]"]
    by (simp only: DataFlowSet_Unmarshal_def v9_Size_0 split_conv not_le) blast
  show "OptionsDataFlowSet_Unmarshal data otr t \<noteq> None \<longleftrightarrow>
      length data < 4 \<or> (\<exists>fs \<in> set (v9otr_ScopeFields otr) \<union> set (v9otr_Fields otr). v9fs_Length fs \<noteq> 0)"
    using v9_options.loop_returns_iff [of "(t, otr)" data "[]"]
    by (simp only: OptionsDataFlowSet_Unmarshal_def split_conv not_le unat_eq_0 set_append option.map_disc_iff) blast
qed

section \<open>The layout of a data flow set\<close>

definition v9_record_of :: "Translate option \<Rightarrow> v9_TemplateRecord \<Rightarrow> bytes \<Rightarrow> v9_DataRecord" where
  "v9_record_of t tr chunk = projr (v9_DataRecord_Unmarshal t tr chunk)"

definition v9_record_count :: "nat \<Rightarrow> nat \<Rightarrow> nat" where
  "v9_record_count n len = (if len < 4 then 0 else (len - 4) div n + 1)"

lemma v9_record_count_step:
  assumes "0 < n" and "4 \<le> len"
  shows "v9_record_count n len = Suc (v9_record_count n (len - n))"
proof (cases "len - n < 4")
  case True
  then have "(len - 4) div n = 0" using assms by (intro div_less) simp
  with True assms show ?thesis by (simp add: v9_record_count_def)
next
  case False
  then have "len - 4 = (len - n - 4) + n" using assms by simp
  then have "(len - 4) div n = (len - n - 4) div n + 1"
    using assms by (metis add.commute div_add_self1 less_numeral_extra(3) plus_1_eq_Suc Suc_eq_plus1)
  with False assms show ?thesis by (simp add: v9_record_count_def)
qed

lemma v9_data_step_run:
  "v9_data_step t tr s = (let n = v9_TemplateRecord_Size (v9tr_Fields tr) in Inr (v9_record_of t tr (take n s), drop n s))"
  using v9_fields_loop_ok [of "v9tr_Fields tr" "take (v9_TemplateRecord_Size (v9tr_Fields tr)) s"]
  by (auto simp: v9_data_step_def v9_record_of_def v9_DataRecord_Unmarshal_def Let_def)

lemma v9_data_loop:
  assumes "v9_TemplateRecord_Size (v9tr_Fields tr) = n" and "0 < n"
  shows "unmarshal_loop (\<lambda>b. 4 \<le> length b) (v9_data_step t tr) s acc =
     Some (acc @ map (\<lambda>k. v9_record_of t tr (take n (drop (k * n) s))) [0..<v9_record_count n (length s)], None)"
proof (induction s arbitrary: acc rule: length_induct)
  case (1 s)
  show ?case
  proof (cases "4 \<le> length s")
    case False
    then show ?thesis by (simp add: unmarshal_loop_stop v9_record_count_def)
  next
    case True
    let ?r = "\<lambda>k s. v9_record_of t tr (take n (drop (k * n) s))"
    have "length (drop n s) < length s" using True assms(2) by simp
    with 1 have IH: "unmarshal_loop (\<lambda>b. 4 \<le> length b) (v9_data_step t tr) (drop n s) (acc @ [?r 0 s]) =
        Some ((acc @ [?r 0 s]) @ map (\<lambda>k. ?r k (drop n s)) [0..<v9_record_count n (length s - n)], None)"
      by (metis length_drop)
    have "map (\<lambda>k. ?r k s) [0..<Suc m] = ?r 0 s # map (\<lambda>k. ?r k (drop n s)) [0..<m]" for m
      by (simp add: upt_conv_Cons map_Suc_upt [symmetric] add.commute del: upt_Suc)
    then show ?thesis
      using True assms IH
      by (subst unmarshal_loop.simps) (simp add: v9_data_step_run Let_def v9_record_count_step del: upt_Suc)
  qed
qed

lemma v9_translate_field_Bytes [simp]: "v9f_Bytes (v9_translate_field t fs f) = v9f_Bytes f"
  by (simp add: v9_translate_field_def)

lemma v9_Translate_Record_Bytes: "map v9f_Bytes (v9_Translate_Record t flds fss) = map v9f_Bytes flds"
proof -
  have "map v9f_Bytes (map2 (v9_translate_field t) fss flds) = map v9f_Bytes (take (length fss) flds)"
    by (induction fss flds rule: list_induct2') simp_all
  then show ?thesis
    by (simp add: v9_Translate_Record_eq) (metis append_take_drop_id map_append)
qed

lemma v9_record_of_bytes:
  assumes "length chunk = v9_TemplateRecord_Size (v9tr_Fields tr)"
  shows "concat (map v9f_Bytes (v9dr_Fields (v9_record_of t tr chunk))) = chunk"
proof -
  obtain flds s' where run: "v9_fields_loop (v9tr_Fields tr) chunk = Inr (flds, s')"
    using v9_fields_loop_ok by blast
  then show ?thesis
    using v9_fields_loop_bytes [OF run assms]
    by (auto simp: v9_record_of_def v9_DataRecord_Unmarshal_def v9_Translate_Record_Bytes split: option.split)
qed

text \<open>
  C23. The records of a v9 data flow set whose template has size \<open>n > 0\<close>: decoding returns without
  error, the number of records is fixed by the length of the body (what is left of less than four
  bytes is padding), and the fields of every whole record hold exactly its \<open>n\<close> bytes of the body, in
  order and without gap.
\<close>

theorem v9_data_set_layout:
  assumes "v9_TemplateRecord_Size (v9tr_Fields tr) = n" and "0 < n"
  shows "\<exists>rs. DataFlowSet_Unmarshal data tr t = Some (rs, None) \<and>
     length rs = (if length data < 4 then 0 else (length data - 4) div n + 1) \<and>
     (\<forall>k < length rs. (k + 1) * n \<le> length data \<longrightarrow>
        concat (map v9f_Bytes (v9dr_Fields (rs ! k))) = take n (drop (k * n) data))"
proof -
  let ?rs = "map (\<lambda>k. v9_record_of t tr (take n (drop (k * n) data))) [0..<v9_record_count n (length data)]"
  have "DataFlowSet_Unmarshal data tr t = Some (?rs, None)"
    using v9_data_loop [OF assms, of t data "[]"] by (simp add: DataFlowSet_Unmarshal_def)
  moreover have "length (take n (drop (k * n) data)) = n" if "(k + 1) * n \<le> length data" for k
    using that by (simp add: le_diff_conv2 min_absorb2)
  ultimately show ?thesis
    using assms(1) by (intro exI [of _ ?rs]) (auto simp: v9_record_count_def v9_record_of_bytes)
qed

definition v9_demo_template :: v9_TemplateRecord where
  "v9_demo_template = \<lparr>v9tr_TemplateID = 256, v9tr_FieldCount = 2, v9tr_Fields =
     [\<lparr>v9fs_Type = 8, v9fs_Length = 4\<rparr>, \<lparr>v9fs_Type = 7, v9fs_Length = 2\<rparr>]\<rparr>"

theorem v9_data_set_layout_witness:
  "\<exists>rs. DataFlowSet_Unmarshal [10, 0, 0, 1, 0, 80, 10, 0, 0, 2, 0, 81, 0, 0] v9_demo_template None = Some (rs, None) \<and>
     length rs = 2 \<and> concat (map v9f_Bytes (v9dr_Fields (rs ! 1))) = [10, 0, 0, 2, 0, 81]"
proof -
  have "v9_TemplateRecord_Size (v9tr_Fields v9_demo_template) = 6" by code_simp
  from v9_data_set_layout [OF this, of "[10, 0, 0, 1, 0, 80, 10, 0, 0, 2, 0, 81, 0, 0]" None]
  show ?thesis by (force simp: numeral_2_eq_2)
qed

section \<open>Template flow sets\<close>

text \<open>The encoding of a template record on the wire (RFC 3954, section 5.2).\<close>

definition v9_specifier_enc :: "v9_FieldSpecifier \<Rightarrow> bytes" where
  "v9_specifier_enc fs = BigEndian_Put 2 (v9fs_Type fs) @ BigEndian_Put 2 (v9fs_Length fs)"

definition v9_template_enc :: "v9_TemplateRecord \<Rightarrow> bytes" where
  "v9_template_enc tr = BigEndian_Put 2 (v9tr_TemplateID tr) @ BigEndian_Put 2 (v9tr_FieldCount tr) @
     concat (map v9_specifier_enc (v9tr_Fields tr))"

interpretation v9_spec: codec v9_specifier_enc v9_FieldSpecifier_Unmarshal 4
  by unfold_locales
    (simp_all add: v9_specifier_enc_def v9_FieldSpecifier_Unmarshal_def be16.dec_enc_bind)

lemma v9_template_dec_enc:
  assumes "unat (v9tr_FieldCount tr) = length (v9tr_Fields tr)"
  shows "v9_TemplateRecord_Unmarshal (v9_template_enc tr @ s) = Inr (tr, s)"
  using assms
  by (simp add: v9_template_enc_def v9_TemplateRecord_Unmarshal_def v9_FieldSpecifiers_Unmarshal_def
      rbind_def be16.dec_enc v9_spec.rseq_replicate)

text \<open>
  A template flow set built from any list of template records, each with at least one field and
  the right field count, and followed by at most four bytes of padding, decodes to that list.
\<close>

lemma v9_template_set_roundtrip:
  assumes "\<forall>tr \<in> set trs. unat (v9tr_FieldCount tr) = length (v9tr_Fields tr) \<and> v9tr_Fields tr \<noteq> []"
    and "length pad \<le> 4"
  shows "TemplateFlowSet_UnmarshalRecords (concat (map v9_template_enc trs) @ pad) = Some (trs, None)"
proof -
  have long: "4 < length (v9_template_enc tr)" if "v9tr_Fields tr \<noteq> []" for tr
    using that by (simp add: v9_template_enc_def v9_spec.length_concat_enc)
  have "unmarshal_loop (\<lambda>b. 4 < length b) v9_TemplateRecord_Unmarshal (concat (map v9_template_enc trs) @ pad) [] =
      Some ([] @ trs, None)"
    using assms long
    by (intro unmarshal_loop_encoded) (auto simp: v9_template_dec_enc trans_less_add1)
  then show ?thesis by (simp add: TemplateFlowSet_UnmarshalRecords_def)
qed

section \<open>The session\<close>

lemma v9_set_header: "v9_set i h d t (p, s) = Some ((p', s'), e) \<Longrightarrow> v9p_Header p' = v9p_Header p"
  by (auto simp: v9_set_def Let_def split: if_splits option.splits prod.splits Template.splits)

lemma v9_set_session:
  "v9_set i h d t (p, s) = Some ((p', s'), e) \<Longrightarrow> \<exists>ts. s' = fold (register (v9ph_SourceID (v9p_Header p))) ts s"
  by (auto simp: v9_set_def Let_def split: if_splits option.splits prod.splits Template.splits
      intro: exI [of _ "[]"])

lemma v9_sets_session:
  "v9_sets n i b t (p, s) = Some ((p', s'), e) \<Longrightarrow> \<exists>ts. s' = fold (register (v9ph_SourceID (v9p_Header p))) ts s"
proof (induction n arbitrary: i b p s)
  case 0
  then show ?case by (auto intro: exI [of _ "[]"])
next
  case (Suc n)
  show ?case
  proof (cases "b = [] \<or> (\<exists>e. v9_next_set i b = Inl e)")
    case True
    with Suc.prems show ?thesis by (auto split: if_splits intro: exI [of _ "[]"])
  next
    case False
    then obtain h d rest where nx: "b \<noteq> []" "v9_next_set i b = Inr ((h, d), rest)"
      by (metis old.prod.exhaust sum.exhaust)
    with Suc.prems obtain p1 s1 e1 where one: "v9_set i h d t (p, s) = Some ((p1, s1), e1)"
      and rest: "e1 = None \<Longrightarrow> v9_sets n (Suc i) rest t (p1, s1) = Some ((p', s'), e)"
      and stop: "e1 \<noteq> None \<Longrightarrow> s1 = s'"
      by (auto split: option.splits prod.splits)
    obtain ts where ts: "s1 = fold (register (v9ph_SourceID (v9p_Header p))) ts s"
      using v9_set_session [OF one] by blast
    show ?thesis
    proof (cases e1)
      case None
      from Suc.IH [OF rest [OF None]] obtain ts' where
        "s' = fold (register (v9ph_SourceID (v9p_Header p))) ts' s1"
        using v9_set_header [OF one] by auto
      then have "s' = fold (register (v9ph_SourceID (v9p_Header p))) (ts @ ts') s" using ts by simp
      then show ?thesis by blast
    next
      case Some
      with stop ts show ?thesis by auto
    qed
  qed
qed

lemma v9_PacketHeader_layout:
  assumes "v9_PacketHeader_Unmarshal r = Inr (h, rest)"
  shows "20 \<le> length r" and "rest = drop 20 r" and "v9ph_SourceID h = BigEndian_Uint (bslice 16 4 r)"
proof -
  show len: "20 \<le> length r"
    using assms unfolding v9_PacketHeader_Unmarshal_def
    by (auto elim!: rbind_InrE dest!: rd_withinD [OF read_Uint16_within] rd_withinD [OF read_Uint32_within])
  show "rest = drop 20 r" "v9ph_SourceID h = BigEndian_Uint (bslice 16 4 r)"
    using assms len
    by (auto simp: v9_PacketHeader_Unmarshal_def rbind_def rwrap_run_Inr [OF read_Uint16_long]
        rwrap_run_Inr [OF read_Uint32_long] bslice_def)
qed

lemma v9_Read_session:
  assumes "v9_Read builtin r s t = Some (p, s', e)"
  shows "\<exists>ts. s' = fold (register (BigEndian_Uint (bslice 16 4 r))) ts s"
proof (cases "v9_PacketHeader_Unmarshal r")
  case (Inl e)
  with assms show ?thesis by (auto simp: v9_Read_def Let_def intro: exI [of _ "[]"])
next
  case (Inr q)
  then obtain h rest where h: "v9_PacketHeader_Unmarshal r = Inr (h, rest)" by (cases q) auto
  have src: "v9ph_SourceID (v9p_Header (new_v9_Packet h)) = BigEndian_Uint (bslice 16 4 r)"
    using v9_PacketHeader_layout [OF h] by (simp add: new_v9_Packet_def)
  show ?thesis
    using assms h v9_sets_session [of _ 0 rest _ "new_v9_Packet h" s, unfolded src]
    by (auto simp: v9_Read_def UnmarshalFlowSets_def Let_def split: if_splits intro: exI [of _ "[]"])
qed

end
