(* ===== verification/Netflow_Decoder.thy ===== *)
theory Netflow_Decoder
  imports Netflow_Legacy Ipfix_Correct Netflow9_Correct
begin

text \<open>
  \<^verbatim>\<open>pkg/util/netflow/decoder.go\<close>: the dispatch of a datagram on its version word, and what holds
  for a whole sequence of datagrams decoded with one session.
\<close>

datatype nf_message =
    NF1 nf1_Packet
  | NF5 nf5_Packet
  | NF6 nf6_Packet
  | NF7 nf7_Packet
  | NF9 v9_Packet
  | NFIPFIX Message
  | NF_incomplete

text \<open>
  The decoder reads the version word and puts it back in front of the reader, so each decoder sees
  the datagram from its first byte. The result is the message (absent for nil), the session and the
  error; \<open>None\<close> is a decoder that does not return. Versions 1, 5, 6 and 7 hand out the packet they
  were filling together with an error; what it holds then is not modelled (\<open>NF_incomplete\<close>).
\<close>

type_synonym decode_result = "(nf_message option \<times> nf_session option \<times> go_error option) option"

definition plain_result :: "('p \<Rightarrow> nf_message) \<Rightarrow> nf_session option \<Rightarrow> go_error + 'p \<times> bytes \<Rightarrow> decode_result" where
  "plain_result f s r = (case r of
     Inl e \<Rightarrow> Some (Some NF_incomplete, s, Some e)
   | Inr (p, _) \<Rightarrow> Some (Some (f p), s, None))"

definition decoder_Read :: "informationElements \<Rightarrow> bytes \<Rightarrow> nf_session option \<Rightarrow> decode_result" where
  "decoder_Read builtin r s =
     (case read_full 2 r of
        Inl e \<Rightarrow> Some (None, s, Some (Wrapf ''failed to read netflow version number: %v'' [] e))
      | Inr (data, rest) \<Rightarrow>
          let version = BigEndian_Uint data :: u16; mr = data @ rest in
          if version = 1 then plain_result NF1 s (nf1_Read mr)
          else if version = 5 then plain_result NF5 s (nf5_Read mr)
          else if version = 6 then plain_result NF6 s (nf6_Read mr)
          else if version = 7 then plain_result NF7 s (nf7_Read mr)
          else if version = v9_Version
          then map_option (\<lambda>(p, s, e). (map_option NF9 p, s, e)) (v9_Read builtin mr s None)
          else if version = ipf_Version
          then map_option (\<lambda>(m, s, e). (map_option NFIPFIX m, s, e)) (ipf_Read builtin mr s None)
          else Some (None, s, Some (Errorf ''netflow: unsupported version %d'' [uint version])))"

section \<open>The session across datagrams\<close>

text \<open>The source (version 9) or observation domain (IPFIX) a datagram speaks for.\<close>

definition datagram_source :: "bytes \<Rightarrow> u32 option" where
  "datagram_source r =
     (if length r < 2 then None
      else if BigEndian_Uint (take 2 r) = (9 :: u16) then Some (BigEndian_Uint (bslice 16 4 r))
      else if BigEndian_Uint (take 2 r) = (10 :: u16) then Some (BigEndian_Uint (bslice 12 4 r))
      else None)"

lemma decoder_Read_session:
  assumes "decoder_Read builtin r s = Some (m, s', e)"
  shows "case datagram_source r of
      None \<Rightarrow> s' = s
    | Some src \<Rightarrow> \<exists>ts. s' = fold (register src) ts s"
proof (cases "length r < 2")
  case True
  then obtain e' where "read_full 2 r = Inl e'" by (cases "r = []") (auto simp: read_full_def)
  then show ?thesis
    using assms True by (auto simp: decoder_Read_def datagram_source_def)
next
  case False
  then have run: "read_full 2 r = Inr (take 2 r, drop 2 r)" by (simp add: read_full_long)
  show ?thesis
    using assms False
    by (auto simp: decoder_Read_def run Let_def datagram_source_def plain_result_def v9_Version_def ipf_Version_def
        split: if_splits sum.splits dest: v9_Read_session ipf_Read_session)
qed

text \<open>
  C31. Sources are isolated: decoding a datagram, of any version and with any outcome, changes no
  template of a source other than the one a version 9 or IPFIX header names; datagrams of the other
  versions leave the whole session as it is.
\<close>

theorem decoder_source_isolation:
  assumes "decoder_Read builtin r (Some s) = Some (m, s', e)"
    and "datagram_source r \<noteq> Some src"
  shows "session_get s' src tid = GetTemplate src tid s"
proof -
  have "session_get s' src tid = session_get (Some s) src tid"
    using decoder_Read_session [OF assms(1)] assms(2)
    by (cases "datagram_source r") (auto simp: session_get_fold_register_other)
  then show ?thesis by (simp add: session_get_def)
qed

theorem decoder_source_isolation_witness:
  "\<exists>m s' e. decoder_Read Map.empty template_message (Some session_New) = Some (m, s', e) \<and>
     session_get s' 7 256 = GetTemplate 7 256 session_New"
proof -
  have ret: "decoder_Read Map.empty template_message (Some session_New) \<noteq> None"
    using template_message_decoded
    by (auto simp: decoder_Read_def template_message_def read_full_def BigEndian_Uint_def v9_Version_def ipf_Version_def
        split: option.splits)
  then obtain m s' e where r: "decoder_Read Map.empty template_message (Some session_New) = Some (m, s', e)"
    by auto
  moreover have "datagram_source template_message \<noteq> Some 7" by code_simp
  ultimately show ?thesis using decoder_source_isolation [OF r] by blast
qed

text \<open>The sessions a decoder can come to hold, one datagram after another.\<close>

inductive decoder_reach :: "informationElements \<Rightarrow> nf_session \<Rightarrow> bool" for builtin where
  fresh: "decoder_reach builtin session_New"
| datagram: "decoder_reach builtin s \<Longrightarrow> decoder_Read builtin r (Some s) = Some (m, Some s', e) \<Longrightarrow>
    decoder_reach builtin s'"

definition session_keyed :: "nf_session \<Rightarrow> bool" where
  "session_keyed s \<longleftrightarrow> (\<forall>src tid T. GetTemplate src tid s = Some T \<longrightarrow> Template_ID T = tid)"

lemma session_keyed_New: "session_keyed session_New"
  by (simp add: session_keyed_def session_New_def GetTemplate_def)

lemma session_keyed_AddTemplate: "session_keyed s \<Longrightarrow> session_keyed (AddTemplate Template_ID src T s)"
  by (auto simp: session_keyed_def GetTemplate_AddTemplate split: if_splits)

lemma session_keyed_fold: "session_keyed s \<Longrightarrow> session_keyed (fold (AddTemplate Template_ID src) ts s)"
  by (induction ts arbitrary: s) (simp_all add: session_keyed_AddTemplate)

text \<open>
  C1. Whatever datagrams a decoder is fed, the session maps a template id only to a template that
  carries this id, so a data set is never decoded with the template of another id.
\<close>

theorem decoder_session_keyed:
  assumes "decoder_reach builtin s"
  shows "GetTemplate src tid s = Some T \<longrightarrow> Template_ID T = tid"
proof -
  from assms have "session_keyed s"
  proof (induction rule: decoder_reach.induct)
    case fresh
    show ?case by (rule session_keyed_New)
  next
    case (datagram s r m s' e)
    from decoder_Read_session [OF datagram.hyps(2)] datagram.IH show ?case
      by (auto simp: fold_register_Some session_keyed_fold split: option.splits)
  qed
  then show ?thesis by (simp add: session_keyed_def)
qed

lemma template_message_session:
  "\<exists>m s' e. decoder_Read Map.empty template_message (Some session_New) = Some (m, Some s', e) \<and>
     map_option Template_ID (GetTemplate 1 256 s') = Some 256"
  using template_message_decoded
  by (auto simp: decoder_Read_def template_message_def read_full_def BigEndian_Uint_def v9_Version_def ipf_Version_def
      split: option.splits)

theorem decoder_session_keyed_witness:
  "\<exists>s T. decoder_reach Map.empty s \<and> GetTemplate 1 256 s = Some T \<and> Template_ID T = 256"
proof -
  obtain m s' e where run: "decoder_Read Map.empty template_message (Some session_New) = Some (m, Some s', e)"
    and T: "GetTemplate 1 256 s' \<noteq> None"
    using template_message_session by auto
  have reach: "decoder_reach Map.empty s'"
    using decoder_reach.datagram [OF decoder_reach.fresh run] .
  from T obtain T where "GetTemplate 1 256 s' = Some T" by auto
  with reach decoder_session_keyed [OF reach, of 1 256 T] show ?thesis by blast
qed

end
