(* ===== verification/Go_Strings.thy ===== *)
theory Go_Strings
  imports Prelude
begin

text \<open>
  What the program uses of the Go packages strings and strconv, on strings as lists of bytes, with the
  round trips the configuration parsers rest on. \<open>strings_TrimSpace\<close> trims the ASCII white space.
\<close>

section \<open>strings\<close>

fun strings_Join :: "string list \<Rightarrow> string \<Rightarrow> string" where
  "strings_Join [] sep = []"
| "strings_Join [x] sep = x"
| "strings_Join (x # y # zs) sep = x @ sep @ strings_Join (y # zs) sep"

definition strings_HasPrefix :: "string \<Rightarrow> string \<Rightarrow> bool" where
  "strings_HasPrefix s p \<longleftrightarrow> take (length p) s = p"

text \<open>The text before and after the first occurrence of a separator.\<close>

fun str_cut :: "string \<Rightarrow> string \<Rightarrow> (string \<times> string) option" where
  "str_cut sep [] = (if sep = [] then Some ([], []) else None)"
| "str_cut sep (c # cs) =
     (if strings_HasPrefix (c # cs) sep then Some ([], drop (length sep) (c # cs))
      else map_option (\<lambda>(a, b). (c # a, b)) (str_cut sep cs))"

lemma str_cut_Some: "str_cut sep s = Some (a, b) \<Longrightarrow> s = a @ sep @ b"
proof (induction s arbitrary: a)
  case Nil
  then show ?case by (auto split: if_splits)
next
  case (Cons c cs)
  show ?case
  proof (cases "strings_HasPrefix (c # cs) sep")
    case True
    with Cons.prems have "a = []" "b = drop (length sep) (c # cs)" by auto
    with True show ?thesis by (metis append_Nil append_take_drop_id strings_HasPrefix_def)
  next
    case False
    with Cons show ?thesis by auto
  qed
qed

lemma str_cut_shorter: "str_cut sep s = Some (a, b) \<Longrightarrow> sep \<noteq> [] \<Longrightarrow> length b < length s"
  by (drule str_cut_Some) simp

function strings_Split :: "string \<Rightarrow> string \<Rightarrow> string list" where
  "strings_Split s sep =
     (if sep = [] then map (\<lambda>c. [c]) s
      else case str_cut sep s of None \<Rightarrow> [s] | Some (a, b) \<Rightarrow> a # strings_Split b sep)"
  by pat_completeness auto
termination
  by (relation "measure (\<lambda>(s, sep). length s)") (auto dest: str_cut_shorter)

declare strings_Split.simps [simp del]

text \<open>\<^verbatim>\<open>strings.SplitN(s, sep, n)\<close> for a non-empty separator and \<open>n > 0\<close>.\<close>

fun strings_SplitN :: "string \<Rightarrow> string \<Rightarrow> nat \<Rightarrow> string list" where
  "strings_SplitN s sep 0 = []"
| "strings_SplitN s sep (Suc 0) = [s]"
| "strings_SplitN s sep (Suc (Suc n)) =
     (case str_cut sep s of None \<Rightarrow> [s] | Some (a, b) \<Rightarrow> a # strings_SplitN b sep (Suc n))"

definition strings_Contains :: "string \<Rightarrow> string \<Rightarrow> bool" where
  "strings_Contains s sub \<longleftrightarrow> \<not> Option.is_none (str_cut sub s)"

text \<open>\<^verbatim>\<open>strings.Replace(s, old, new, 1)\<close> and \<^verbatim>\<open>strings.ReplaceAll\<close> for a non-empty \<open>old\<close>.\<close>

definition strings_Replace1 :: "string \<Rightarrow> string \<Rightarrow> string \<Rightarrow> string" where
  "strings_Replace1 s old new = (case str_cut old s of None \<Rightarrow> s | Some (a, b) \<Rightarrow> a @ new @ b)"

definition strings_ReplaceAll :: "string \<Rightarrow> string \<Rightarrow> string \<Rightarrow> string" where
  "strings_ReplaceAll s old new = strings_Join (strings_Split s old) new"

definition is_space :: "char \<Rightarrow> bool" where
  "is_space c \<longleftrightarrow> (of_char c :: nat) \<in> {9, 10, 11, 12, 13, 32}"

definition strings_TrimSpace :: "string \<Rightarrow> string" where
  "strings_TrimSpace s = rev (dropWhile is_space (rev (dropWhile is_space s)))"

section \<open>strconv\<close>

definition is_digit :: "char \<Rightarrow> bool" where
  "is_digit c \<longleftrightarrow> 48 \<le> (of_char c :: nat) \<and> (of_char c :: nat) \<le> 57"

definition digits_value :: "string \<Rightarrow> nat" where
  "digits_value ds = foldl (\<lambda>n c. 10 * n + (of_char c - 48)) 0 ds"

text \<open>\<^verbatim>\<open>strconv.Atoi\<close>: a sign, at least one digit, and a value that fits an \<^verbatim>\<open>int\<close> of 64 bits.\<close>

definition strconv_Atoi :: "string \<Rightarrow> int option" where
  "strconv_Atoi s =
     (let neg = (s \<noteq> [] \<and> hd s = CHR ''-'');
          ds = (if s \<noteq> [] \<and> (hd s = CHR ''-'' \<or> hd s = CHR ''+'') then tl s else s);
          n = int (digits_value ds)
      in if ds = [] \<or> \<not> list_all is_digit ds then None
         else if neg then (if n \<le> 2 ^ 63 then Some (- n) else None)
         else (if n < 2 ^ 63 then Some n else None))"

text \<open>\<^verbatim>\<open>v, _ := strconv.Atoi(s)\<close>: zero for what is no number, the nearest \<^verbatim>\<open>int\<close> for one that does not fit.\<close>

definition atoi_or :: "string \<Rightarrow> int" where
  "atoi_or s =
     (case strconv_Atoi s of
        Some n \<Rightarrow> n
      | None \<Rightarrow>
          let ds = (if s \<noteq> [] \<and> (hd s = CHR ''-'' \<or> hd s = CHR ''+'') then tl s else s) in
          if ds = [] \<or> \<not> list_all is_digit ds then 0
          else if hd s = CHR ''-'' then - (2 ^ 63) else 2 ^ 63 - 1)"

definition digit_char :: "nat \<Rightarrow> char" where
  "digit_char d = char_of (48 + d mod 10)"

function nat_Itoa :: "nat \<Rightarrow> string" where
  "nat_Itoa n = (if n < 10 then [digit_char n] else nat_Itoa (n div 10) @ [digit_char n])"
  by pat_completeness auto
termination
  by (relation "measure id") auto

declare nat_Itoa.simps [simp del]

definition strconv_Itoa :: "int \<Rightarrow> string" where
  "strconv_Itoa n = (if n < 0 then CHR ''-'' # nat_Itoa (nat (- n)) else nat_Itoa (nat n))"

section \<open>Lemmas\<close>

lemma strings_Split_not_Nil: "sep \<noteq> [] \<Longrightarrow> strings_Split s sep \<noteq> []"
  by (subst strings_Split.simps) (auto split: option.splits)

lemma strings_Join_Cons: "xs \<noteq> [] \<Longrightarrow> strings_Join (x # xs) sep = x @ sep @ strings_Join xs sep"
  by (cases xs) simp_all

lemma strings_Join_Split: "sep \<noteq> [] \<Longrightarrow> strings_Join (strings_Split s sep) sep = s"
proof (induction s sep rule: strings_Split.induct)
  case (1 s sep)
  show ?case
  proof (cases "str_cut sep s")
    case None
    with "1.prems" show ?thesis by (simp add: strings_Split.simps [of s])
  next
    case (Some p)
    then obtain a b where p: "str_cut sep s = Some (a, b)" by (cases p) auto
    have "strings_Join (strings_Split b sep) sep = b"
      using "1.IH" [OF "1.prems" p refl "1.prems"] .
    moreover have "strings_Split s sep = a # strings_Split b sep"
      using p "1.prems" by (simp add: strings_Split.simps [of s])
    ultimately show ?thesis
      using str_cut_Some [OF p] strings_Split_not_Nil [OF "1.prems", of b] by (simp add: strings_Join_Cons)
  qed
qed

lemma str_cut_first:
  assumes "sep \<noteq> []" and "hd sep \<notin> set a"
  shows "str_cut sep (a @ sep @ b) = Some (a, b)"
  using assms(2)
proof (induction a)
  case Nil
  show ?case using assms(1) by (cases sep) (simp_all add: strings_HasPrefix_def)
next
  case (Cons c a)
  then have "\<not> strings_HasPrefix (c # a @ sep @ b) sep"
    using assms(1) by (cases sep) (auto simp: strings_HasPrefix_def)
  with Cons show ?case by simp
qed

lemma str_cut_absent: "sep \<noteq> [] \<Longrightarrow> hd sep \<notin> set s \<Longrightarrow> str_cut sep s = None"
  using str_cut_Some [of sep s] by (cases "str_cut sep s") (auto simp: hd_append)

lemma strings_Split_Join:
  assumes "sep \<noteq> []" and "xs \<noteq> []" and "\<forall>x \<in> set xs. hd sep \<notin> set x"
  shows "strings_Split (strings_Join xs sep) sep = xs"
  using assms(2,3)
proof (induction xs rule: list_nonempty_induct)
  case (single x)
  then show ?case using assms(1) by (simp add: strings_Split.simps str_cut_absent)
next
  case (cons x xs)
  then show ?case
    using assms(1) by (subst strings_Split.simps) (simp add: strings_Join_Cons str_cut_first)
qed

lemma of_char_digit_char: "of_char (digit_char d) = (48 + d mod 10 :: nat)"
  by (simp add: digit_char_def)

lemma is_digit_digit_char: "is_digit (digit_char d)"
  by (simp add: is_digit_def of_char_digit_char)

lemma nat_Itoa_props: "list_all is_digit (nat_Itoa n) \<and> nat_Itoa n \<noteq> [] \<and> digits_value (nat_Itoa n) = n"
proof (induction n rule: nat_Itoa.induct)
  case (1 n)
  show ?case
  proof (cases "n < 10")
    case True
    then show ?thesis
      by (simp add: nat_Itoa.simps [of n] is_digit_digit_char digits_value_def of_char_digit_char)
  next
    case False
    with 1 show ?thesis
      by (subst (1 2 3) nat_Itoa.simps) (simp add: is_digit_digit_char digits_value_def of_char_digit_char)
  qed
qed

lemma digit_not_sign: "is_digit c \<Longrightarrow> c \<noteq> CHR ''-'' \<and> c \<noteq> CHR ''+''"
  by (auto simp: is_digit_def)

lemma strconv_Atoi_Itoa:
  assumes "- (2 ^ 63) \<le> n" and "n < 2 ^ 63"
  shows "strconv_Atoi (strconv_Itoa n) = Some n"
proof -
  have hd: "is_digit (hd (nat_Itoa m))" for m
    using nat_Itoa_props [of m] by (cases "nat_Itoa m") auto
  show ?thesis
    using assms nat_Itoa_props [of "nat n"] nat_Itoa_props [of "nat (- n)"] digit_not_sign [OF hd [of "nat n"]]
    by (auto simp: strconv_Atoi_def strconv_Itoa_def Let_def)
qed

section \<open>Lower case\<close>

text \<open>
  \<^verbatim>\<open>strings.ToLower\<close>: byte by byte for ASCII strings; for others \<open>uni\<close> stands for the mapping of the runes by the
  Unicode tables.
\<close>

definition is_ascii :: "string \<Rightarrow> bool" where
  "is_ascii s \<longleftrightarrow> list_all (\<lambda>c. (of_char c :: nat) < 128) s"

definition char_lower :: "char \<Rightarrow> char" where
  "char_lower c = (let n = of_char c :: nat in if 65 \<le> n \<and> n \<le> 90 then char_of (n + 32) else c)"

definition strings_ToLower :: "(string \<Rightarrow> string) \<Rightarrow> string \<Rightarrow> string" where
  "strings_ToLower uni s = (if is_ascii s then map char_lower s else uni s)"

definition strings_HasSuffix :: "string \<Rightarrow> string \<Rightarrow> bool" where
  "strings_HasSuffix s suf \<longleftrightarrow> length suf \<le> length s \<and> drop (length s - length suf) s = suf"

text \<open>\<^verbatim>\<open>strconv.ParseUint(s, 10, bits)\<close>: digits only, a value below \<open>2 ^ bits\<close>.\<close>

definition strconv_ParseUint :: "string \<Rightarrow> nat \<Rightarrow> nat option" where
  "strconv_ParseUint s bits =
     (if s = [] \<or> \<not> list_all is_digit s \<or> 2 ^ bits \<le> digits_value s then None else Some (digits_value s))"

lemma char_lower_char_lower [simp]: "char_lower (char_lower c) = char_lower c"
  by (simp add: char_lower_def Let_def)

lemma is_ascii_lower: "is_ascii s \<Longrightarrow> is_ascii (map char_lower s)"
  by (auto simp: is_ascii_def list_all_iff char_lower_def Let_def)

lemma ToLower_ToLower: "is_ascii s \<Longrightarrow> strings_ToLower uni (strings_ToLower uni s) = strings_ToLower uni s"
  by (simp add: strings_ToLower_def is_ascii_lower comp_def)

lemma strconv_ParseUint_Itoa: "n < 2 ^ bits \<Longrightarrow> strconv_ParseUint (nat_Itoa n) bits = Some n"
  using nat_Itoa_props [of n] by (simp add: strconv_ParseUint_def)

end
