(* ===== verification/Jchf.thy ===== *)
theory Jchf
  imports Go_Strings
begin

text \<open>
  \<^verbatim>\<open>pkg/kt/types.go\<close>: the flow record \<^verbatim>\<open>JCHF\<close> every input is turned into, its map view, its key for
  stitching, and the outputs handed to sinks. Go maps are nil-able (a nil map reads as empty, writing
  to it panics); \<^verbatim>\<open>int32\<close> and \<^verbatim>\<open>int64\<close> are words read with \<open>sint\<close>; a \<^verbatim>\<open>float32\<close> is its bit pattern. The
  SNMP decorations \<^verbatim>\<open>CustomMetrics\<close>, \<^verbatim>\<open>CustomTables\<close>, \<^verbatim>\<open>MatchAttr\<close> and the HAR attachment are left out.
\<close>

section \<open>Go maps\<close>

type_synonym i32 = "32 word"
type_synonym i64 = "64 word"
type_synonym float32 = "32 word"
type_synonym 'v gomap = "(string \<Rightarrow> 'v option) option"

definition gm_lookup :: "'v gomap \<Rightarrow> string \<Rightarrow> 'v option" where
  "gm_lookup m k = (case m of None \<Rightarrow> None | Some f \<Rightarrow> f k)"

text \<open>\<^verbatim>\<open>m[k]\<close> with the zero value for a missing key, and \<^verbatim>\<open>m[k] = v\<close>.\<close>

definition gm_get :: "'v \<Rightarrow> 'v gomap \<Rightarrow> string \<Rightarrow> 'v" where
  "gm_get zero m k = (case gm_lookup m k of None \<Rightarrow> zero | Some v \<Rightarrow> v)"

definition gm_set :: "'v gomap \<Rightarrow> string \<Rightarrow> 'v \<Rightarrow> 'v gomap res" where
  "gm_set m k v = (case m of
     None \<Rightarrow> Inl (Panic ''assignment to entry in nil map'')
   | Some f \<Rightarrow> Inr (Some (f(k \<mapsto> v))))"

section \<open>The flow record\<close>

type_synonym Provider = string

text \<open>
  The values of type \<^verbatim>\<open>interface{}\<close> in the maps of the program: those of \<^verbatim>\<open>ToMap\<close>, and those that other maps
  hold as well: an \<^verbatim>\<open>int\<close>, \<^verbatim>\<open>d.Seconds() + PollAdjustTime\<close> of a duration, a HAR file.
\<close>

datatype jval =
    JStr string
  | JInt64 i64
  | JProvider Provider
  | JMapStr "string gomap"
  | JMapI32 "i32 gomap"
  | JMapI64 "i64 gomap"
  | JMapF32 "float32 gomap"
  | JInt32 i32
  | JFloat32 float32
  | JInt i64
  | JSeconds i64
  | JHar

record JCHF =
  j_Timestamp :: "i64"
  j_DstAs :: "u32"
  j_DstGeo :: "string"
  j_HeaderLen :: "u32"
  j_InBytes :: "u64"
  j_InPkts :: "u64"
  j_InputPort :: "u64"
  j_IpSize :: "u32"
  j_DstAddr :: "string"
  j_SrcAddr :: "string"
  j_L4DstPort :: "u32"
  j_L4SrcPort :: "u32"
  j_OutputPort :: "u64"
  j_Protocol :: "string"
  j_SampledPacketSize :: "u32"
  j_SrcAs :: "u32"
  j_SrcGeo :: "string"
  j_TcpFlags :: "u32"
  j_Tos :: "u32"
  j_VlanIn :: "u32"
  j_VlanOut :: "u32"
  j_NextHop :: "string"
  j_MplsType :: "u32"
  j_OutBytes :: "u64"
  j_OutPkts :: "u64"
  j_TcpRetransmit :: "u32"
  j_SrcFlowTags :: "string"
  j_DstFlowTags :: "string"
  j_SampleRate :: "u32"
  j_DeviceId :: "u64"
  j_DeviceName :: "string"
  j_CompanyId :: "u64"
  j_DstBgpAsPath :: "string"
  j_DstBgpCommunity :: "string"
  j_SrcBgpAsPath :: "string"
  j_SrcBgpCommunity :: "string"
  j_SrcNextHopAs :: "u32"
  j_DstNextHopAs :: "u32"
  j_SrcGeoRegion :: "string"
  j_DstGeoRegion :: "string"
  j_SrcGeoCity :: "string"
  j_DstGeoCity :: "string"
  j_DstNextHop :: "string"
  j_SrcNextHop :: "string"
  j_SrcRoutePrefix :: "string"
  j_DstRoutePrefix :: "string"
  j_SrcSecondAsn :: "u32"
  j_DstSecondAsn :: "u32"
  j_SrcThirdAsn :: "u32"
  j_DstThirdAsn :: "u32"
  j_SrcEthMac :: "string"
  j_DstEthMac :: "string"
  j_InputIntDesc :: "string"
  j_OutputIntDesc :: "string"
  j_InputIntAlias :: "string"
  j_OutputIntAlias :: "string"
  j_InputInterfaceCapacity :: "i64"
  j_OutputInterfaceCapacity :: "i64"
  j_InputInterfaceIP :: "string"
  j_OutputInterfaceIP :: "string"
  j_CustomStr :: "string gomap"
  j_CustomInt :: "i32 gomap"
  j_CustomBigInt :: "i64 gomap"
  j_CustomFloat :: "float32 gomap"
  j_EventType :: "string"
  j_Provider :: "Provider"
  j_avroSet :: "jval gomap"
  j_hasSetAvro :: "bool"
  j_ApplySample :: "bool"

definition NewJCHF :: JCHF where
  "NewJCHF = \<lparr>j_Timestamp = 0, j_DstAs = 0, j_DstGeo = '''', j_HeaderLen = 0, j_InBytes = 0, j_InPkts = 0,
     j_InputPort = 0, j_IpSize = 0, j_DstAddr = '''', j_SrcAddr = '''', j_L4DstPort = 0, j_L4SrcPort
     = 0, j_OutputPort = 0, j_Protocol = '''', j_SampledPacketSize = 0, j_SrcAs = 0, j_SrcGeo =
     '''', j_TcpFlags = 0, j_Tos = 0, j_VlanIn = 0, j_VlanOut = 0, j_NextHop = '''', j_MplsType = 0,
     j_OutBytes = 0, j_OutPkts = 0, j_TcpRetransmit = 0, j_SrcFlowTags = '''', j_DstFlowTags = '''',
     j_SampleRate = 0, j_DeviceId = 0, j_DeviceName = '''', j_CompanyId = 0, j_DstBgpAsPath = '''',
     j_DstBgpCommunity = '''', j_SrcBgpAsPath = '''', j_SrcBgpCommunity = '''', j_SrcNextHopAs = 0,
     j_DstNextHopAs = 0, j_SrcGeoRegion = '''', j_DstGeoRegion = '''', j_SrcGeoCity = '''',
     j_DstGeoCity = '''', j_DstNextHop = '''', j_SrcNextHop = '''', j_SrcRoutePrefix = '''',
     j_DstRoutePrefix = '''', j_SrcSecondAsn = 0, j_DstSecondAsn = 0, j_SrcThirdAsn = 0,
     j_DstThirdAsn = 0, j_SrcEthMac = '''', j_DstEthMac = '''', j_InputIntDesc = '''',
     j_OutputIntDesc = '''', j_InputIntAlias = '''', j_OutputIntAlias = '''',
     j_InputInterfaceCapacity = 0, j_OutputInterfaceCapacity = 0, j_InputInterfaceIP = '''',
     j_OutputInterfaceIP = '''', j_CustomStr = None, j_CustomInt = None, j_CustomBigInt = None,
     j_CustomFloat = None, j_EventType = '''', j_Provider = '''', j_avroSet = Some Map.empty,
     j_hasSetAvro = False, j_ApplySample = False\<rparr>"

definition JCHF_Reset :: "JCHF \<Rightarrow> JCHF" where
  "JCHF_Reset j = j\<lparr>j_hasSetAvro := False\<rparr>"

text \<open>The assignments of \<^verbatim>\<open>ToMap\<close>, in their order.\<close>

definition ToMap_entries :: "JCHF \<Rightarrow> (string \<times> jval) list" where
  "ToMap_entries j =
     [(''timestamp'', JInt64 (j_Timestamp j)),
      (''dst_as'', JInt64 (ucast (j_DstAs j))),
      (''dst_geo'', JStr (j_DstGeo j)),
      (''header_len'', JInt64 (ucast (j_HeaderLen j))),
      (''in_bytes'', JInt64 (j_InBytes j)),
      (''in_pkts'', JInt64 (j_InPkts j)),
      (''input_port'', JInt64 (j_InputPort j)),
      (''dst_addr'', JStr (j_DstAddr j)),
      (''src_addr'', JStr (j_SrcAddr j)),
      (''l4_dst_port'', JInt64 (ucast (j_L4DstPort j))),
      (''l4_src_port'', JInt64 (ucast (j_L4SrcPort j))),
      (''output_port'', JInt64 (j_OutputPort j)),
      (''protocol'', JStr (j_Protocol j)),
      (''sampled_packet_size'', JInt64 (ucast (j_SampledPacketSize j))),
      (''src_as'', JInt64 (ucast (j_SrcAs j))),
      (''src_geo'', JStr (j_SrcGeo j)),
      (''tcp_flags'', JInt64 (ucast (j_TcpFlags j))),
      (''tos'', JInt64 (ucast (j_Tos j))),
      (''vlan_in'', JInt64 (ucast (j_VlanIn j))),
      (''vlan_out'', JInt64 (ucast (j_VlanOut j))),
      (''out_bytes'', JInt64 (j_OutBytes j)),
      (''out_pkts'', JInt64 (j_OutPkts j)),
      (''tcp_rx'', JInt64 (ucast (j_TcpRetransmit j))),
      (''src_flow_tags'', JStr (j_SrcFlowTags j)),
      (''dst_flow_tags'', JStr (j_DstFlowTags j)),
      (''sample_rate'', JInt64 (ucast (j_SampleRate j))),
      (''device_id'', JInt64 (j_DeviceId j)),
      (''device_name'', JStr (j_DeviceName j)),
      (''company_id'', JInt64 (j_CompanyId j)),
      (''dst_bgp_as_path'', JStr (j_DstBgpAsPath j)),
      (''dst_bgp_comm'', JStr (j_DstBgpCommunity j)),
      (''src_bpg_as_path'', JStr (j_SrcBgpAsPath j)),
      (''src_bgp_comm'', JStr (j_SrcBgpCommunity j)),
      (''src_nexthop_as'', JInt64 (ucast (j_SrcNextHopAs j))),
      (''dst_nexthop_as'', JInt64 (ucast (j_DstNextHopAs j))),
      (''src_geo_region'', JStr (j_SrcGeoRegion j)),
      (''dst_geo_region'', JStr (j_DstGeoRegion j)),
      (''src_geo_city'', JStr (j_SrcGeoCity j)),
      (''dst_geo_city'', JStr (j_DstGeoCity j)),
      (''dst_nexthop'', JStr (j_DstNextHop j)),
      (''src_nexthop'', JStr (j_SrcNextHop j)),
      (''src_route_prefix'', JStr (j_SrcRoutePrefix j)),
      (''dst_route_prefix'', JStr (j_DstRoutePrefix j)),
      (''src_second_asn'', JInt64 (ucast (j_SrcSecondAsn j))),
      (''dst_second_asn'', JInt64 (ucast (j_DstSecondAsn j))),
      (''src_third_asn'', JInt64 (ucast (j_SrcThirdAsn j))),
      (''dst_third_asn'', JInt64 (ucast (j_DstThirdAsn j))),
      (''src_eth_mac'', JStr (j_SrcEthMac j)),
      (''dst_eth_mac'', JStr (j_DstEthMac j)),
      (''input_int_desc'', JStr (j_InputIntDesc j)),
      (''output_int_desc'', JStr (j_OutputIntDesc j)),
      (''input_int_alias'', JStr (j_InputIntAlias j)),
      (''output_int_alias'', JStr (j_OutputIntAlias j)),
      (''input_interface_capacity'', JInt64 (j_InputInterfaceCapacity j)),
      (''output_interface_capacity'', JInt64 (j_OutputInterfaceCapacity j)),
      (''input_interface_ip'', JStr (j_InputInterfaceIP j)),
      (''output_interface_ip'', JStr (j_OutputInterfaceIP j)),
      (''custom_str'', JMapStr (j_CustomStr j)),
      (''custom_int'', JMapI32 (j_CustomInt j)),
      (''custom_bigint'', JMapI64 (j_CustomBigInt j)),
      (''custom_float'', JMapF32 (j_CustomFloat j)),
      (''eventType'', JStr (j_EventType j)),
      (''provider'', JProvider (j_Provider j))]"

definition ToMap :: "JCHF \<Rightarrow> (JCHF \<times> jval gomap) res" where
  "ToMap j =
     (if j_hasSetAvro j then Inr (j, j_avroSet j)
      else case j_avroSet j of
          None \<Rightarrow> Inl (Panic ''assignment to entry in nil map'')
        | Some m \<Rightarrow>
            let m' = Some (fold (\<lambda>(k, v) m. m(k \<mapsto> v)) (ToMap_entries j) m) in
            Inr (j\<lparr>j_avroSet := m', j_hasSetAvro := True\<rparr>, m'))"

definition SetMap :: "JCHF \<Rightarrow> JCHF" where
  "SetMap j = j\<lparr>j_avroSet := Some Map.empty, j_CustomStr := Some Map.empty, j_CustomInt := Some Map.empty,
     j_CustomBigInt := Some Map.empty, j_CustomFloat := Some Map.empty\<rparr>"

definition SetIFPorts :: "u64 \<Rightarrow> JCHF \<Rightarrow> JCHF" where
  "SetIFPorts p j = j\<lparr>j_OutputPort := p, j_InputPort := p\<rparr>"

definition GetKey :: "JCHF \<Rightarrow> string" where
  "GetKey j =
     (let src = gm_get [] (j_CustomStr j) ''src_endpoint''; dst = gm_get [] (j_CustomStr j) ''dst_endpoint'' in
      if j_L4SrcPort j < 32768 then strings_Join [src, dst, j_Protocol j] ''|''
      else strings_Join [dst, src, j_Protocol j] ''|'')"

section \<open>Outputs\<close>

record OutputContext =
  oc_Provider :: Provider
  oc_Type :: string
  oc_CompanyId :: u64
  oc_SenderId :: string

record Output =
  o_Body :: bytes
  o_Ctx :: OutputContext
  o_NoBuffer :: bool

definition zero_ctx :: OutputContext where
  "zero_ctx = \<lparr>oc_Provider = [], oc_Type = [], oc_CompanyId = 0, oc_SenderId = []\<rparr>"

definition NewOutput :: "bytes \<Rightarrow> Output" where
  "NewOutput b = \<lparr>o_Body = b, o_Ctx = zero_ctx, o_NoBuffer = False\<rparr>"

definition NewOutputWithProvider :: "bytes \<Rightarrow> Provider \<Rightarrow> string \<Rightarrow> Output" where
  "NewOutputWithProvider b prov ty =
     \<lparr>o_Body = b, o_Ctx = zero_ctx\<lparr>oc_Provider := prov, oc_Type := ty\<rparr>, o_NoBuffer = False\<rparr>"

definition NewOutputWithProviderAndCompanySender :: "bytes \<Rightarrow> Provider \<Rightarrow> u64 \<Rightarrow> string \<Rightarrow> string \<Rightarrow> Output" where
  "NewOutputWithProviderAndCompanySender b prov cid ty sender =
     \<lparr>o_Body = b, o_Ctx = \<lparr>oc_Provider = prov, oc_Type = ty, oc_CompanyId = cid, oc_SenderId = sender\<rparr>, o_NoBuffer = False\<rparr>"

definition NewOutputNoBuffer :: "bytes \<Rightarrow> Output" where
  "NewOutputNoBuffer b = \<lparr>o_Body = b, o_Ctx = zero_ctx, o_NoBuffer = True\<rparr>"

definition IsEvent :: "Output \<Rightarrow> bool" where
  "IsEvent out \<longleftrightarrow> oc_Type (o_Ctx out) = ''event''"

definition IsMetric :: "Output \<Rightarrow> bool" where
  "IsMetric out \<longleftrightarrow> oc_Type (o_Ctx out) = ''rollup'' \<or> oc_Type (o_Ctx out) = ''metric''"

definition GetDataType :: "Output option \<Rightarrow> string" where
  "GetDataType out = (case out of None \<Rightarrow> ''''
   | Some out \<Rightarrow>
       let p = oc_Provider (o_Ctx out) in
       if p = ''kentik-router'' then ''snmp''
       else if p = ''kentik-vpc'' then ''vpc-flows''
       else if p = ''kentik-network-synthetic'' then ''synthetics''
       else if p \<in> {''kentik-switch'', ''kentik-firewall'', ''kentik-ups'', ''kentik-pdu'', ''kentik-iot'',
                     ''kentik-host'', ''kentik-alert''} then ''snmp''
       else ''device-flows'')"

definition BodyLen :: "Output option \<Rightarrow> nat" where
  "BodyLen out = (case out of None \<Rightarrow> 0 | Some out \<Rightarrow> length (o_Body out))"

section \<open>Lemmas\<close>

lemma gm_get_Some [simp]: "gm_get z (Some f) k = (case f k of None \<Rightarrow> z | Some v \<Rightarrow> v)"
  by (simp add: gm_get_def gm_lookup_def)

lemma gm_lookup_simps [simp]: "gm_lookup None k = None" "gm_lookup (Some f) k = f k"
  by (simp_all add: gm_lookup_def)

lemma fold_map_upd: "fold (\<lambda>(k, v) m. m(k \<mapsto> v)) kvs m = m ++ map_of (rev kvs)"
  by (induction kvs arbitrary: m) (auto simp: map_add_def split: option.splits)

lemma map_of_rev_distinct:
  assumes "distinct (map fst kvs)"
  shows "map_of (rev kvs) = map_of kvs"
proof (rule ext)
  fix k
  have "map_of (rev kvs) k = Some v \<longleftrightarrow> map_of kvs k = Some v" for v
    using assms by (simp add: map_of_eq_Some_iff rev_map [symmetric])
  then show "map_of (rev kvs) k = map_of kvs k"
    by (metis not_None_eq)
qed

lemma distinct_ToMap_keys: "distinct (map fst (ToMap_entries j))"
  by (simp add: ToMap_entries_def)

text \<open>
  The map of a flow whose map was not built yet: every entry of \<open>ToMap_entries\<close> under its name, and
  nothing else changed.
\<close>

lemma ToMap_lookup:
  assumes "\<not> j_hasSetAvro j" and "j_avroSet j = Some m"
  shows "\<exists>j' m'. ToMap j = Inr (j', Some m') \<and> j_hasSetAvro j' \<and>
     (\<forall>k. m' k = (case map_of (ToMap_entries j) k of None \<Rightarrow> m k | Some v \<Rightarrow> Some v))"
  using assms
  by (auto simp: ToMap_def fold_map_upd map_add_def Let_def map_of_rev_distinct [OF distinct_ToMap_keys])

lemma ToMap_cached: "ToMap j = Inr (j', m) \<Longrightarrow> ToMap j' = Inr (j', m)"
  by (auto simp: ToMap_def Let_def split: if_splits option.splits)

end
