(* ===== verification/Flow_Filter.thy ===== *)
theory Flow_Filter
  imports Jchf
begin

text \<open>
  Package \<^verbatim>\<open>pkg/filter\<close>: the filter language, its three kinds of filters and the \<^verbatim>\<open>or\<close>/\<^verbatim>\<open>and\<close>
  combination. \<^verbatim>\<open>net.ParseCIDR\<close> with \<^verbatim>\<open>IPNet.Contains(net.ParseIP(s))\<close> is the argument \<open>cidr\<close>: the set of
  texts a network contains, or nothing for a text that is no network. Reading past the end of the
  dimension list is a panic.
\<close>

type_synonym net_cidr = "string \<Rightarrow> (string \<Rightarrow> bool) option"
type_synonym flow_map = "string \<Rightarrow> jval option"

section \<open>Definitions\<close>

record FilterDef =
  fd_Dimension :: string
  fd_Operator :: string
  fd_Value :: string
  fd_FType :: string
  fd_Name :: string

text \<open>The method stored in the field \<^verbatim>\<open>cf\<close> of each kind of filter.\<close>

datatype int_cf = intEquals | intNotEquals | intLessThan | intGreaterThan
datatype string_cf = stringEquals | stringNotEquals | stringContains | stringHas | stringNotHas
datatype addr_cf = addrEquals | addrNotEquals | addrContains

record IntFilter =
  if_cf :: int_cf
  if_dimension :: "string list"
  if_value :: i64
  if_name :: string

record StringFilter =
  sf_cf :: string_cf
  sf_dimension :: "string list"
  sf_value :: string
  sf_name :: string

record AddrFilter =
  af_cf :: addr_cf
  af_dimension :: "string list"
  af_value :: "string \<Rightarrow> bool"
  af_name :: string

datatype Filter = FInt IntFilter | FString StringFilter | FAddr AddrFilter

definition dim_at :: "string list \<Rightarrow> nat \<Rightarrow> string res" where
  "dim_at ds i = (if i < length ds then Inr (ds ! i) else Inl (Panic ''index out of range''))"

text \<open>\<^verbatim>\<open>f.dimension[0]\<close>; the list comes from \<^verbatim>\<open>strings.Split\<close> and is never empty.\<close>

abbreviation dim0 :: "string list \<Rightarrow> string" where
  "dim0 ds \<equiv> hd ds"

text \<open>
  The common shape of \<^verbatim>\<open>intEquals\<close>, \<^verbatim>\<open>intLessThan\<close> and \<^verbatim>\<open>intGreaterThan\<close>; \<open>cmp\<close> is the comparison.
\<close>

definition int_test :: "(int \<Rightarrow> int \<Rightarrow> bool) \<Rightarrow> IntFilter \<Rightarrow> flow_map \<Rightarrow> bool res" where
  "int_test cmp f chf =
     (case chf (dim0 (if_dimension f)) of
        Some dd \<Rightarrow>
          (case dd of
             JInt64 d \<Rightarrow> Inr (cmp (sint d) (sint (if_value f)))
           | JMapI32 m \<Rightarrow> map_sum id (\<lambda>d1. cmp (sint (gm_get 0 m d1)) (sint (ucast (if_value f) :: i32)))
               (dim_at (if_dimension f) 1)
           | JMapI64 m \<Rightarrow> map_sum id (\<lambda>d1. cmp (sint (gm_get 0 m d1)) (sint (if_value f))) (dim_at (if_dimension f) 1)
           | _ \<Rightarrow> Inr False)
      | None \<Rightarrow>
          (case chf ''custom_bigint'' of
             Some (JMapI64 m) \<Rightarrow>
               (case gm_lookup m (dim0 (if_dimension f)) of
                  Some d \<Rightarrow> Inr (cmp (sint d) (sint (if_value f)))
                | None \<Rightarrow> Inr False)
           | _ \<Rightarrow> Inr False))"

fun IntFilter_FilterMap :: "IntFilter \<Rightarrow> flow_map \<Rightarrow> bool res" where
  "IntFilter_FilterMap f chf =
     (case if_cf f of
        intEquals \<Rightarrow> int_test (=) f chf
      | intNotEquals \<Rightarrow> map_sum id Not (int_test (=) f chf)
      | intLessThan \<Rightarrow> int_test (<) f chf
      | intGreaterThan \<Rightarrow> int_test (>) f chf)"

text \<open>
  The common shape of the string and address tests: \<open>p\<close> on the string found, \<open>sub\<close> on the entry of a
  string map under the second part of the dimension.
\<close>

definition string_test :: "(string \<Rightarrow> bool) \<Rightarrow> (string gomap \<Rightarrow> string \<Rightarrow> bool) \<Rightarrow> string list \<Rightarrow> flow_map \<Rightarrow> bool res" where
  "string_test p sub ds chf =
     (case chf (dim0 ds) of
        Some dd \<Rightarrow>
          (case dd of
             JStr d \<Rightarrow> Inr (p d)
           | JMapStr m \<Rightarrow> map_sum id (sub m) (dim_at ds 1)
           | _ \<Rightarrow> Inr False)
      | None \<Rightarrow>
          (case chf ''custom_str'' of
             Some (JMapStr m) \<Rightarrow> Inr (case gm_lookup m (dim0 ds) of Some d \<Rightarrow> p d | None \<Rightarrow> False)
           | _ \<Rightarrow> Inr False))"

definition sub_get :: "(string \<Rightarrow> bool) \<Rightarrow> string gomap \<Rightarrow> string \<Rightarrow> bool" where
  "sub_get p m d = p (gm_get [] m d)"

definition sub_has :: "string gomap \<Rightarrow> string \<Rightarrow> bool" where
  "sub_has m d \<longleftrightarrow> \<not> Option.is_none (gm_lookup m d)"

fun StringFilter_FilterMap :: "StringFilter \<Rightarrow> flow_map \<Rightarrow> bool res" where
  "StringFilter_FilterMap f chf =
     (let eq = (\<lambda>d. d = sf_value f); cont = (\<lambda>d. strings_Contains d (sf_value f)); ds = sf_dimension f in
      case sf_cf f of
        stringEquals \<Rightarrow> string_test eq (sub_get eq) ds chf
      | stringNotEquals \<Rightarrow> map_sum id Not (string_test eq (sub_get eq) ds chf)
      | stringContains \<Rightarrow> string_test cont (sub_get cont) ds chf
      | stringHas \<Rightarrow> string_test (\<lambda>_. True) sub_has ds chf
      | stringNotHas \<Rightarrow> map_sum id Not (string_test (\<lambda>_. True) sub_has ds chf))"

fun AddrFilter_FilterMap :: "AddrFilter \<Rightarrow> flow_map \<Rightarrow> bool res" where
  "AddrFilter_FilterMap f chf =
     (let r = string_test (af_value f) (sub_get (af_value f)) (af_dimension f) chf in
      case af_cf f of addrNotEquals \<Rightarrow> map_sum id Not r | _ \<Rightarrow> r)"

fun Filter_FilterMap :: "Filter \<Rightarrow> flow_map \<Rightarrow> bool res" where
  "Filter_FilterMap (FInt f) chf = IntFilter_FilterMap f chf"
| "Filter_FilterMap (FString f) chf = StringFilter_FilterMap f chf"
| "Filter_FilterMap (FAddr f) chf = AddrFilter_FilterMap f chf"

text \<open>\<^verbatim>\<open>Filter(in)\<close>: the map view of the flow, which the flow keeps, and the test on it.\<close>

definition Filter_Filter :: "Filter \<Rightarrow> JCHF \<Rightarrow> (bool \<times> JCHF) res" where
  "Filter_Filter f chf =
     (case ToMap chf of
        Inl e \<Rightarrow> Inl e
      | Inr (chf', m) \<Rightarrow> map_sum id (\<lambda>b. (b, chf')) (Filter_FilterMap f (gm_lookup m)))"

fun Filter_GetName :: "Filter \<Rightarrow> string" where
  "Filter_GetName (FInt f) = if_name f"
| "Filter_GetName (FString f) = sf_name f"
| "Filter_GetName (FAddr f) = af_name f"

type_synonym FilterWrapper = "Filter list"

fun FilterWrapper_Filter :: "FilterWrapper \<Rightarrow> JCHF \<Rightarrow> (bool \<times> JCHF) res" where
  "FilterWrapper_Filter [] chf = Inr (False, chf)"
| "FilterWrapper_Filter (f # fs) chf =
     (case Filter_Filter f chf of
        Inl e \<Rightarrow> Inl e
      | Inr (b, chf') \<Rightarrow> if b then Inr (True, chf') else FilterWrapper_Filter fs chf')"

fun FilterWrapper_FilterMap :: "FilterWrapper \<Rightarrow> flow_map \<Rightarrow> bool res" where
  "FilterWrapper_FilterMap [] chf = Inr False"
| "FilterWrapper_FilterMap (f # fs) chf =
     (case Filter_FilterMap f chf of
        Inl e \<Rightarrow> Inl e
      | Inr b \<Rightarrow> if b then Inr True else FilterWrapper_FilterMap fs chf)"

definition FilterWrapper_GetName :: "FilterWrapper \<Rightarrow> string" where
  "FilterWrapper_GetName fs = (case fs of [] \<Rightarrow> '''' | f # _ \<Rightarrow> Filter_GetName f)"

section \<open>Parsing\<close>

definition newIntFilter :: "FilterDef \<Rightarrow> IntFilter res" where
  "newIntFilter fd =
     (case strconv_Atoi (fd_Value fd) of
        None \<Rightarrow> Inl (Errorf ''Invalid int value: %s'' [])
      | Some v \<Rightarrow>
          let mk = (\<lambda>cf. Inr \<lparr>if_cf = cf, if_dimension = strings_Split (fd_Dimension fd) ''.'',
                              if_value = word_of_int v, if_name = fd_Name fd\<rparr>) in
          if fd_Operator fd = ''=='' then mk intEquals
          else if fd_Operator fd = ''!='' then mk intNotEquals
          else if fd_Operator fd = ''<'' then mk intLessThan
          else if fd_Operator fd = ''>'' then mk intGreaterThan
          else Inl (Errorf ''Invalid operator for int: %s'' []))"

definition newStringFilter :: "FilterDef \<Rightarrow> StringFilter res" where
  "newStringFilter fd =
     (let mk = (\<lambda>cf. Inr \<lparr>sf_cf = cf, sf_dimension = strings_Split (fd_Dimension fd) ''.'',
                         sf_value = fd_Value fd, sf_name = fd_Name fd\<rparr>) in
      if fd_Operator fd = ''=='' then mk stringEquals
      else if fd_Operator fd = ''!='' then mk stringNotEquals
      else if fd_Operator fd = ''%'' then mk stringContains
      else if fd_Operator fd = ''=~'' then mk stringHas
      else if fd_Operator fd = ''!~'' then mk stringNotHas
      else Inl (Errorf ''Invalid operator for string: %s'' []))"

definition newAddrFilter :: "net_cidr \<Rightarrow> FilterDef \<Rightarrow> AddrFilter res" where
  "newAddrFilter cidr fd =
     (case cidr (fd_Value fd) of
        None \<Rightarrow> Inl (Errorf ''invalid CIDR address'' [])
      | Some net \<Rightarrow>
          let mk = (\<lambda>cf. Inr \<lparr>af_cf = cf, af_dimension = strings_Split (fd_Dimension fd) ''.'',
                              af_value = net, af_name = fd_Name fd\<rparr>) in
          if fd_Operator fd = ''=='' then mk addrEquals
          else if fd_Operator fd = ''!='' then mk addrNotEquals
          else if fd_Operator fd = ''%'' then mk addrContains
          else Inl (Errorf ''Invalid operator for addr: %s'' []))"

text \<open>One alternative of an \<^verbatim>\<open>or\<close> group: the body of the loop of \<^verbatim>\<open>FilterDefs.Set\<close>.\<close>

definition parse_def :: "net_cidr \<Rightarrow> string \<Rightarrow> FilterDef res" where
  "parse_def cidr orSet =
     (let pts = strings_Split orSet '','' in
      if length pts < 3 then Inl (Errorf ''Filter flag is defined by <type> dimension operator value'' [])
      else
        let ftype = (if strconv_Atoi (pts ! 2) \<noteq> None then ''int''
                     else if \<not> Option.is_none (cidr (pts ! 2)) then ''addr'' else ''string'');
            pts = (if length pts = 3 then ftype # pts else pts);
            name = (if length pts = 5 then pts ! 4 else '''');
            ptn = map strings_TrimSpace pts
        in Inr \<lparr>fd_Dimension = ptn ! 1, fd_Operator = ptn ! 2, fd_Value = ptn ! 3, fd_FType = ptn ! 0, fd_Name = name\<rparr>)"

fun res_all :: "'a res list \<Rightarrow> 'a list res" where
  "res_all [] = Inr []"
| "res_all (Inl e # rs) = Inl e"
| "res_all (Inr x # rs) = map_sum id (Cons x) (res_all rs)"

definition FilterDefs_Set :: "net_cidr \<Rightarrow> string \<Rightarrow> FilterDef list res" where
  "FilterDefs_Set cidr value =
     res_all (map (parse_def cidr) (strings_Split (strings_Replace1 value '' OR '' '' or '') '' or ''))"

definition new_filter :: "net_cidr \<Rightarrow> FilterDef \<Rightarrow> Filter res" where
  "new_filter cidr fd =
     (if fd_FType fd = ''string'' then map_sum id FString (newStringFilter fd)
      else if fd_FType fd = ''int'' then map_sum id FInt (newIntFilter fd)
      else if fd_FType fd = ''addr'' then map_sum id FAddr (newAddrFilter cidr fd)
      else Inl (Errorf ''Invalid type: %s. Valid Types: %s|%s|%s'' []))"

definition GetFilters :: "net_cidr \<Rightarrow> string list \<Rightarrow> FilterWrapper list res" where
  "GetFilters cidr filters =
     (case res_all (map (FilterDefs_Set cidr)
         (concat (map (\<lambda>f. strings_Split (strings_Replace1 f '' AND '' '' and '') '' and '') filters))) of
        Inl e \<Rightarrow> Inl e
      | Inr ff \<Rightarrow> res_all (map (\<lambda>fSet. res_all (map (new_filter cidr) fSet)) ff))"

section \<open>Evaluation\<close>

fun filter_dims :: "Filter \<Rightarrow> string list" where
  "filter_dims (FInt f) = if_dimension f"
| "filter_dims (FString f) = sf_dimension f"
| "filter_dims (FAddr f) = af_dimension f"

text \<open>The values on which a filter looks up the second part of its dimension.\<close>

fun wants_second :: "Filter \<Rightarrow> jval \<Rightarrow> bool" where
  "wants_second (FInt f) (JMapI32 m) = True"
| "wants_second (FInt f) (JMapI64 m) = True"
| "wants_second (FString f) (JMapStr m) = True"
| "wants_second (FAddr f) (JMapStr m) = True"
| "wants_second _ _ = False"

lemma map_sum_Inl_iff [simp]: "map_sum id f r = Inl e \<longleftrightarrow> r = Inl e"
  by (cases r) simp_all

lemma map_sum_Inr_iff [simp]: "map_sum id f r = Inr y \<longleftrightarrow> (\<exists>x. r = Inr x \<and> y = f x)"
  by (cases r) auto

lemma dim_at_Inl: "dim_at ds (Suc 0) = Inl e \<longleftrightarrow> length ds < 2 \<and> e = Panic ''index out of range''"
  by (auto simp: dim_at_def)

lemma int_test_Inl:
  "int_test cmp f chf = Inl e \<longleftrightarrow>
     e = Panic ''index out of range'' \<and> length (if_dimension f) < 2 \<and>
     (\<exists>v. chf (hd (if_dimension f)) = Some v \<and> wants_second (FInt f) v)"
  by (auto simp: int_test_def dim_at_Inl split: option.splits jval.splits)

lemma string_test_Inl:
  "string_test p sub ds chf = Inl e \<longleftrightarrow>
     e = Panic ''index out of range'' \<and> length ds < 2 \<and> (\<exists>m. chf (hd ds) = Some (JMapStr m))"
  by (auto simp: string_test_def dim_at_Inl split: option.splits jval.splits)

text \<open>
  C38. Evaluating a filter on a flow panics in exactly one situation: the dimension has no second part
  and its first part names one of the flow's maps of the filter's kind. In all other situations every
  filter returns true or false.
\<close>

theorem filter_panics_iff:
  "Filter_FilterMap f chf = Inl e \<longleftrightarrow>
     e = Panic ''index out of range'' \<and> length (filter_dims f) < 2 \<and>
     (\<exists>v. chf (hd (filter_dims f)) = Some v \<and> wants_second f v)"
proof (cases f)
  case (FInt g)
  then show ?thesis by (simp add: int_test_Inl split: int_cf.split)
next
  case (FString g)
  have "(\<exists>v. chf d = Some v \<and> wants_second (FString g) v) \<longleftrightarrow> (\<exists>m. chf d = Some (JMapStr m))" for d
    by (auto elim: wants_second.elims)
  with FString show ?thesis by (simp add: string_test_Inl Let_def split: string_cf.split)
next
  case (FAddr g)
  have "(\<exists>v. chf d = Some v \<and> wants_second (FAddr g) v) \<longleftrightarrow> (\<exists>m. chf d = Some (JMapStr m))" for d
    by (auto elim: wants_second.elims)
  with FAddr show ?thesis by (simp add: string_test_Inl Let_def split: addr_cf.split)
qed

lemma FilterWrapper_FilterMap_or:
  "\<forall>f \<in> set fs. \<exists>b. Filter_FilterMap f chf = Inr b \<Longrightarrow>
   FilterWrapper_FilterMap fs chf = Inr (\<exists>f \<in> set fs. Filter_FilterMap f chf = Inr True)"
  by (induction fs) auto

section \<open>The filter language\<close>

definition clean_text :: "string \<Rightarrow> bool" where
  "clean_text s \<longleftrightarrow> CHR '','' \<notin> set s \<and> (\<forall>c \<in> set s. \<not> is_space c)"

definition clean_def :: "FilterDef \<Rightarrow> bool" where
  "clean_def fd \<longleftrightarrow> clean_text (fd_FType fd) \<and> clean_text (fd_Dimension fd) \<and> clean_text (fd_Operator fd) \<and>
     clean_text (fd_Value fd) \<and> clean_text (fd_Name fd)"

definition print_def :: "FilterDef \<Rightarrow> string" where
  "print_def fd = strings_Join [fd_FType fd, fd_Dimension fd, fd_Operator fd, fd_Value fd, fd_Name fd] '',''"

lemma TrimSpace_clean: "\<forall>c \<in> set s. \<not> is_space c \<Longrightarrow> strings_TrimSpace s = s"
proof -
  have "dropWhile is_space xs = xs" if "\<forall>c \<in> set xs. \<not> is_space c" for xs
    using that by (cases xs) simp_all
  moreover assume "\<forall>c \<in> set s. \<not> is_space c"
  ultimately show ?thesis using \<open>\<forall>c \<in> set s. \<not> is_space c\<close> by (metis rev_rev_ident set_rev strings_TrimSpace_def)
qed

lemma parse_def_print:
  assumes "clean_def fd"
  shows "parse_def cidr (print_def fd) = Inr fd"
proof -
  have "strings_Split (print_def fd) '','' = [fd_FType fd, fd_Dimension fd, fd_Operator fd, fd_Value fd, fd_Name fd]"
    unfolding print_def_def
    using assms by (intro strings_Split_Join) (auto simp: clean_def_def clean_text_def)
  then show ?thesis
    using assms by (simp add: parse_def_def Let_def clean_def_def clean_text_def TrimSpace_clean)
qed

lemma space_is_space: "is_space CHR '' ''"
  by (simp add: is_space_def)

lemma no_space_print: "clean_def fd \<Longrightarrow> CHR '' '' \<notin> set (print_def fd)"
  using space_is_space by (auto simp: print_def_def clean_def_def clean_text_def)

text \<open>
  The parser of the filter language inverts its notation: a definition written as type, dimension,
  operator, value and name, separated by commas, is read back as that one definition.
\<close>

lemma filter_parse_print:
  assumes "clean_def fd"
  shows "FilterDefs_Set cidr (print_def fd) = Inr [fd]"
proof -
  have absent: "str_cut (CHR '' '' # sep) (print_def fd) = None" for sep
    using no_space_print [OF assms] by (intro str_cut_absent) simp_all
  then show ?thesis
    using parse_def_print [OF assms, of cidr]
    by (simp add: FilterDefs_Set_def strings_Replace1_def strings_Split.simps)
qed

definition demo_def :: FilterDef where
  "demo_def = \<lparr>fd_Dimension = ''custom_bigint.bytes'', fd_Operator = ''>'', fd_Value = ''1000'',
     fd_FType = ''int'', fd_Name = ''big''\<rparr>"

lemma str_cut_skip:
  "sep \<noteq> [] \<Longrightarrow> hd sep \<notin> set b \<Longrightarrow>
   str_cut sep (b @ t) = map_option (\<lambda>(x, y). (b @ x, y)) (str_cut sep t)"
proof (induction b)
  case Nil
  then show ?case by (cases "str_cut sep t") auto
next
  case (Cons c b)
  then have "\<not> strings_HasPrefix (c # b @ t) sep" by (cases sep) (auto simp: strings_HasPrefix_def)
  with Cons show ?case by (simp add: option.map_comp comp_def prod.case_eq_if)
qed

lemma str_cut_or_upper:
  assumes "CHR '' '' \<notin> set b" and "CHR '' '' \<notin> set c"
  shows "str_cut '' or '' (b @ '' OR '' @ c) = None"
proof -
  have "\<not> strings_HasPrefix (CHR '' '' # c) '' or ''"
  proof
    assume "strings_HasPrefix (CHR '' '' # c) '' or ''"
    then have "take 3 c = ''or ''" by (simp add: strings_HasPrefix_def numeral_3_eq_3)
    then have "CHR '' '' \<in> set (take 3 c)" by simp
    with assms(2) show False by (meson in_set_takeD)
  qed
  then have "str_cut '' or '' ('' OR '' @ c) = None"
    using assms(2) str_cut_absent [of "'' or ''" c] by (simp add: strings_HasPrefix_def)
  then show ?thesis using str_cut_skip [of "'' or ''" b] assms(1) by simp
qed

text \<open>
  The upper case \<^verbatim>\<open>OR\<close> is understood once per filter only: of three alternatives without spaces, the
  second and third stay one text that is read as a single definition.
\<close>

lemma filter_upper_or_once:
  assumes "CHR '' '' \<notin> set a" and "CHR '' '' \<notin> set b" and "CHR '' '' \<notin> set c"
  shows "FilterDefs_Set cidr (a @ '' OR '' @ b @ '' OR '' @ c) =
      res_all [parse_def cidr a, parse_def cidr (b @ '' OR '' @ c)]"
proof -
  have "strings_Replace1 (a @ '' OR '' @ b @ '' OR '' @ c) '' OR '' '' or '' = a @ '' or '' @ b @ '' OR '' @ c"
    using assms(1) str_cut_first [of "'' OR ''" a "b @ '' OR '' @ c"] by (simp add: strings_Replace1_def)
  moreover have "strings_Split (a @ '' or '' @ b @ '' OR '' @ c) '' or '' = [a, b @ '' OR '' @ c]"
    using assms str_cut_first [of "'' or ''" a "b @ '' OR '' @ c"] str_cut_or_upper [of b c]
    by (simp add: strings_Split.simps [of "a @ _"] strings_Split.simps [of "b @ _"])
  ultimately show ?thesis by (simp add: FilterDefs_Set_def)
qed

end
