(* ===== verification/Go_Net.thy ===== *)
theory Go_Net
  imports Prelude Go_Strings
begin

text \<open>
  What the agent uses of package \<^verbatim>\<open>net\<close>: parsing and printing of IP addresses and of hardware addresses. The
  definitions follow \<^verbatim>\<open>netip.ParseAddr\<close>, \<^verbatim>\<open>netip.Addr.String\<close> and \<^verbatim>\<open>net.ParseMAC\<close> of the Go library.
\<close>

section \<open>Hexadecimal digits\<close>

definition hex_value :: "char \<Rightarrow> nat option" where
  "hex_value c =
     (let n = of_char c :: nat in
      if 48 \<le> n \<and> n \<le> 57 then Some (n - 48)
      else if 97 \<le> n \<and> n \<le> 102 then Some (n - 87)
      else if 65 \<le> n \<and> n \<le> 70 then Some (n - 55)
      else None)"

definition hex_char :: "nat \<Rightarrow> char" where
  "hex_char n = char_of (if n < 10 then n + 48 else n + 87)"

text \<open>The longest prefix of hexadecimal digits with its value, and the rest.\<close>

fun hex_prefix :: "string \<Rightarrow> nat \<Rightarrow> nat \<times> nat \<times> string" where
  "hex_prefix [] acc = (acc, 0, [])"
| "hex_prefix (c # s) acc =
     (case hex_value c of
        None \<Rightarrow> (acc, 0, c # s)
      | Some d \<Rightarrow> (case hex_prefix s (16 * acc + d) of (v, n, r) \<Rightarrow> (v, Suc n, r)))"

section \<open>IPv4\<close>

text \<open>An octet: digits without a leading zero, at most 255.\<close>

definition parse_octet :: "string \<Rightarrow> u8 option" where
  "parse_octet s =
     (if s = [] \<or> \<not> list_all is_digit s \<or> (1 < length s \<and> hd s = CHR ''0'') \<or> 255 < digits_value s then None
      else Some (of_nat (digits_value s)))"

definition parseIPv4 :: "string \<Rightarrow> bytes option" where
  "parseIPv4 s =
     (case map parse_octet (strings_Split s ''.'') of
        [Some a, Some b, Some c, Some d] \<Rightarrow> Some [a, b, c, d]
      | _ \<Rightarrow> None)"

definition IPv4_String :: "bytes \<Rightarrow> string" where
  "IPv4_String bs = strings_Join (map (\<lambda>b. nat_Itoa (unat b)) bs) ''.''"

section \<open>IPv6\<close>

text \<open>
  The loop of \<^verbatim>\<open>parseIPv6\<close>: \<open>ip\<close> holds the bytes parsed so far and \<open>el\<close> the position of the ellipsis. The
  result is the bytes with the position of the ellipsis when the string is used up.
\<close>

function parse_groups :: "string \<Rightarrow> bytes \<Rightarrow> nat option \<Rightarrow> (bytes \<times> nat option) option" where
  "parse_groups s ip el =
     (if 16 \<le> length ip then (if s = [] then Some (ip, el) else None)
      else case hex_prefix s 0 of (acc, off, r) \<Rightarrow>
        if off = 0 \<or> 4 < off then None
        else if r \<noteq> [] \<and> hd r = CHR ''.'' then
          (if (el = None \<and> length ip \<noteq> 12) \<or> 16 < length ip + 4 then None
           else map_option (\<lambda>q. (ip @ q, el)) (parseIPv4 s))
        else
          let ip = ip @ [of_nat (acc div 256), of_nat (acc mod 256)] in
          if r = [] then Some (ip, el)
          else if hd r \<noteq> CHR '':'' \<or> length r = 1 then None
          else
            let r = tl r in
            if hd r = CHR '':'' then
              (if el \<noteq> None then None
               else if length r = 1 then Some (ip, Some (length ip))
               else parse_groups (tl r) ip (Some (length ip)))
            else parse_groups r ip el)"
  by auto
termination by (relation "measure (\<lambda>(s, ip, el). 16 - length ip)") (auto simp: Let_def)

declare parse_groups.simps [simp del]

definition parseIPv6 :: "string \<Rightarrow> bytes option" where
  "parseIPv6 s =
     (let leading = (strings_HasPrefix s ''::'') in
      if s = ''::'' then Some (replicate 16 0)
      else case parse_groups (if leading then drop 2 s else s) [] (if leading then Some 0 else None) of
          None \<Rightarrow> None
        | Some (ip, None) \<Rightarrow> if length ip = 16 then Some ip else None
        | Some (ip, Some e) \<Rightarrow>
            if length ip < 16 then Some (take e ip @ replicate (16 - length ip) 0 @ drop e ip) else None)"

text \<open>\<^verbatim>\<open>net.ParseIP\<close>: the sixteen byte form; an address with a zone is refused.\<close>

definition v4_prefix :: bytes where
  "v4_prefix = replicate 10 0 @ [255, 255]"

definition ParseIP :: "string \<Rightarrow> bytes option" where
  "ParseIP s =
     (if CHR ''%'' \<in> set s then None
      else case filter (\<lambda>c. c = CHR ''.'' \<or> c = CHR '':'') s of
          [] \<Rightarrow> None
        | c # _ \<Rightarrow> if c = CHR ''.'' then map_option (\<lambda>q. v4_prefix @ q) (parseIPv4 s) else parseIPv6 s)"

definition IP_To4 :: "bytes \<Rightarrow> bytes option" where
  "IP_To4 ip = (if length ip = 4 then Some ip
     else if length ip = 16 \<and> take 12 ip = v4_prefix then Some (drop 12 ip) else None)"

definition IP_To16 :: "bytes \<Rightarrow> bytes option" where
  "IP_To16 ip = (if length ip = 4 then Some (v4_prefix @ ip) else if length ip = 16 then Some ip else None)"

fun hex_digits :: "nat \<Rightarrow> nat \<Rightarrow> string" where
  "hex_digits 0 n = []"
| "hex_digits (Suc k) n = hex_digits k (n div 16) @ [hex_char (n mod 16)]"

text \<open>\<^verbatim>\<open>appendHex\<close>: no leading zeros.\<close>

definition group_String :: "nat \<Rightarrow> string" where
  "group_String n = hex_digits (if 4096 \<le> n then 4 else if 256 \<le> n then 3 else if 16 \<le> n then 2 else 1) n"

fun groups_of :: "bytes \<Rightarrow> nat list" where
  "groups_of (a # b # r) = (256 * unat a + unat b) # groups_of r"
| "groups_of _ = []"

definition zero_run :: "nat list \<Rightarrow> nat \<Rightarrow> nat" where
  "zero_run gs i = length (takeWhile (\<lambda>g. g = 0) (drop i gs))"

text \<open>The first longest run of at least two zero groups.\<close>

definition ellipsis :: "nat list \<Rightarrow> (nat \<times> nat) option" where
  "ellipsis gs = fold (\<lambda>i best.
     let l = zero_run gs i in
     if 2 \<le> l \<and> (case best of None \<Rightarrow> True | Some (s, e) \<Rightarrow> e - s < l) then Some (i, i + l) else best) [0..<8] None"

definition IPv6_String :: "bytes \<Rightarrow> string" where
  "IPv6_String ip =
     (let gs = groups_of ip in
      case ellipsis gs of
        None \<Rightarrow> strings_Join (map group_String gs) '':''
      | Some (s, e) \<Rightarrow> strings_Join (map group_String (take s gs)) '':'' @ ''::'' @ strings_Join (map group_String (drop e gs)) '':'')"

text \<open>\<^verbatim>\<open>net.IP.String\<close>; a slice of another length is printed in hexadecimal after a question mark.\<close>

definition IP_String :: "bytes \<Rightarrow> string" where
  "IP_String ip =
     (if ip = [] then ''<nil>''
      else case IP_To4 ip of
          Some q \<Rightarrow> IPv4_String q
        | None \<Rightarrow> if length ip = 16 then IPv6_String ip
                 else ''?'' @ concat (map (\<lambda>b. hex_digits 2 (unat b)) ip))"

section \<open>Hardware addresses\<close>

definition xtoi2 :: "string \<Rightarrow> char \<Rightarrow> u8 option" where
  "xtoi2 s e =
     (if 2 < length s \<and> s ! 2 \<noteq> e then None
      else case hex_prefix (take 2 s) 0 of (v, n, _) \<Rightarrow> if n = 2 then Some (of_nat v) else None)"

fun all_some :: "'a option list \<Rightarrow> 'a list option" where
  "all_some [] = Some []"
| "all_some (None # xs) = None"
| "all_some (Some x # xs) = map_option (Cons x) (all_some xs)"

definition ParseMAC :: "string \<Rightarrow> bytes option" where
  "ParseMAC s =
     (if length s < 14 then None
      else if s ! 2 = CHR '':'' \<or> s ! 2 = CHR ''-'' then
        (let n = (length s + 1) div 3 in
         if (length s + 1) mod 3 \<noteq> 0 \<or> n \<notin> {6, 8, 20} then None
         else all_some (map (\<lambda>i. xtoi2 (drop (3 * i) s) (s ! 2)) [0..<n]))
      else if s ! 4 = CHR ''.'' then
        (let n = 2 * (length s + 1) div 5 in
         if (length s + 1) mod 5 \<noteq> 0 \<or> n \<notin> {6, 8, 20} then None
         else all_some (concat (map (\<lambda>i. [xtoi2 (take 2 (drop (5 * i) s)) (CHR 0x00), xtoi2 (drop (5 * i + 2) s) (s ! 4)]) [0..<n div 2])))
      else None)"

definition HardwareAddr_String :: "bytes \<Rightarrow> string" where
  "HardwareAddr_String bs = strings_Join (map (\<lambda>b. hex_digits 2 (unat b)) bs) '':''"

section \<open>Printed addresses are parsed back\<close>

lemma nat_Itoa_no_zero: "10 \<le> n \<Longrightarrow> 1 < length (nat_Itoa n) \<and> hd (nat_Itoa n) \<noteq> CHR ''0''"
proof (induction n rule: nat_Itoa.induct)
  case (1 n)
  show ?case
  proof (cases "n div 10 < 10")
    case True
    have "of_char (digit_char (n div 10)) \<noteq> (of_char (CHR ''0'') :: nat)"
      using True 1 by (simp add: of_char_digit_char)
    then have "digit_char (n div 10) \<noteq> CHR ''0''" by metis
    with True 1 show ?thesis by (simp add: nat_Itoa.simps [of n] nat_Itoa.simps [of "n div 10"])
  next
    case False
    with 1 have "1 < length (nat_Itoa (n div 10)) \<and> hd (nat_Itoa (n div 10)) \<noteq> CHR ''0''" by simp
    with 1 show ?thesis by (auto simp: nat_Itoa.simps [of n] hd_append)
  qed
qed

lemma nat_Itoa_short: "n < 10 \<Longrightarrow> length (nat_Itoa n) = 1"
  by (simp add: nat_Itoa.simps)

lemma parse_octet_Itoa: "parse_octet (nat_Itoa (unat (b :: u8))) = Some b"
proof -
  have "unat b \<le> 255" using unsigned_less [where 'a = nat, of b] by simp
  then show ?thesis
    using nat_Itoa_props [of "unat b"] nat_Itoa_no_zero [of "unat b"] nat_Itoa_short [of "unat b"]
    by (cases "unat b < 10") (auto simp: parse_octet_def)
qed

lemma nat_Itoa_no_dot: "CHR ''.'' \<notin> set (nat_Itoa n)" "CHR ''%'' \<notin> set (nat_Itoa n)" "CHR '':'' \<notin> set (nat_Itoa n)"
  using nat_Itoa_props [of n] by (auto simp: list_all_iff is_digit_def dest!: bspec)

lemma ParseIP_IPv4_String: "ParseIP (IPv4_String [a, b, c, d]) = Some (v4_prefix @ [a, b, c, d])"
proof -
  let ?xs = "map (\<lambda>b. nat_Itoa (unat b)) [a, b, c, d]"
  have "strings_Split (strings_Join ?xs ''.'') ''.'' = ?xs"
    by (rule strings_Split_Join) (auto simp: nat_Itoa_no_dot)
  then have v4: "parseIPv4 (IPv4_String [a, b, c, d]) = Some [a, b, c, d]"
    by (simp add: parseIPv4_def IPv4_String_def parse_octet_Itoa)
  have "filter (\<lambda>c. c = CHR ''.'' \<or> c = CHR '':'') (nat_Itoa n) = []" for n
    using nat_Itoa_no_dot [of n] by (auto simp: filter_empty_conv)
  then have "filter (\<lambda>c. c = CHR ''.'' \<or> c = CHR '':'') (IPv4_String [a, b, c, d]) = ''...''"
    by (simp add: IPv4_String_def)
  moreover have "CHR ''%'' \<notin> set (IPv4_String [a, b, c, d])"
    by (simp add: IPv4_String_def nat_Itoa_no_dot)
  ultimately show ?thesis by (simp add: ParseIP_def v4)
qed

lemma hex_value_char: "n < 16 \<Longrightarrow> hex_value (hex_char n) = Some n"
  by (simp add: hex_value_def hex_char_def Let_def)

lemma hex_char_not: "n < 16 \<Longrightarrow> hex_char n \<noteq> CHR '':'' \<and> hex_char n \<noteq> CHR ''-'' \<and> hex_char n \<noteq> CHR ''.''"
proof -
  assume "n < 16"
  then have v: "hex_value (hex_char n) = Some n" by (rule hex_value_char)
  have "hex_value (CHR '':'') = None" "hex_value (CHR ''-'') = None" "hex_value (CHR ''.'') = None"
    by (simp_all add: hex_value_def)
  with v show ?thesis by (metis option.distinct(1))
qed

lemma xtoi2_hex: "xtoi2 (hex_char (unat (b :: u8) div 16 mod 16) # hex_char (unat b mod 16) # CHR '':'' # s) (CHR '':'') = Some b"
  "xtoi2 [hex_char (unat b div 16 mod 16), hex_char (unat b mod 16)] (CHR '':'') = Some b"
proof -
  have "unat b < 256" using unsigned_less [where 'a = nat, of b] by simp
  then have "16 * (unat b div 16 mod 16) + unat b mod 16 = unat b" by (simp add: div_less_iff_less_mult)
  then show "xtoi2 (hex_char (unat (b :: u8) div 16 mod 16) # hex_char (unat b mod 16) # CHR '':'' # s) (CHR '':'') = Some b"
    and "xtoi2 [hex_char (unat b div 16 mod 16), hex_char (unat b mod 16)] (CHR '':'') = Some b"
    by (simp_all add: xtoi2_def hex_value_char)
qed

lemma ParseMAC_String:
  assumes "length m = 6"
  shows "ParseMAC (HardwareAddr_String m) = Some m"
proof -
  obtain a b c d e f where m: "m = [a, b, c, d, e, f]"
    using assms by (auto simp: numeral_eq_Suc length_Suc_conv)
  have two: "hex_digits 2 n = [hex_char (n div 16 mod 16), hex_char (n mod 16)]" for n
    by (simp add: numeral_2_eq_2)
  have six: "[0..<6] = [0, 1, 2, 3, 4, 5 :: nat]" by code_simp
  show ?thesis
    by (simp add: m HardwareAddr_String_def two ParseMAC_def Let_def six xtoi2_hex)
qed

section \<open>Lengths, and the unspecified address\<close>

lemma parseIPv4_length: "parseIPv4 s = Some q \<Longrightarrow> length q = 4"
  by (auto simp: parseIPv4_def split: list.splits option.splits)

lemma ParseIP_length: "ParseIP s = Some ip \<Longrightarrow> length ip = 16"
  by (auto simp: ParseIP_def parseIPv6_def v4_prefix_def Let_def parseIPv4_length
      split: if_splits list.splits option.splits prod.splits)

lemma all_some_length: "all_some xs = Some ys \<Longrightarrow> length ys = length xs"
  by (induction xs arbitrary: ys rule: all_some.induct) auto

lemma ParseMAC_length:
  assumes "ParseMAC s = Some m"
  shows "6 \<le> length m"
proof -
  have pairs: "length (concat (map (\<lambda>i. [f i, g i]) [0..<n])) = 2 * n" for f g :: "nat \<Rightarrow> u8 option" and n
    by (induction n) auto
  show ?thesis
    using assms
    by (auto simp: ParseMAC_def Let_def pairs split: if_splits dest!: all_some_length)
qed

lemma IPv4_String_inj: "length p = 4 \<Longrightarrow> length q = 4 \<Longrightarrow> IPv4_String p = IPv4_String q \<longleftrightarrow> p = q"
proof -
  assume "length p = 4" and "length q = 4"
  then obtain a b c d a' b' c' d' where "p = [a, b, c, d]" "q = [a', b', c', d']"
    by (auto simp: numeral_eq_Suc length_Suc_conv)
  then show ?thesis
    using ParseIP_IPv4_String [of a b c d] ParseIP_IPv4_String [of a' b' c' d']
    by (metis option.inject same_append_eq)
qed

lemma IPv4_String_zero: "IPv4_String [0, 0, 0, 0] = ''0.0.0.0''"
  by code_simp

lemma IP_String_4: "length q = 4 \<Longrightarrow> IP_String q = IPv4_String q"
  by (auto simp: IP_String_def IP_To4_def)

lemma ellipsis_run: "ellipsis gs = Some (s, e) \<Longrightarrow> e = s + zero_run gs s"
proof -
  define f where "f = (\<lambda>i best. let l = zero_run gs i in
     if 2 \<le> l \<and> (case best of None \<Rightarrow> True | Some (s, e) \<Rightarrow> e - s < l) then Some (i, i + l) else best)"
  have step: "f i best = best \<or> f i best = Some (i, i + zero_run gs i)" for i best
    by (simp add: f_def Let_def)
  have "fold f js best = Some (s, e) \<Longrightarrow> best = Some (s, e) \<or> e = s + zero_run gs s" for js best
  proof (induction js arbitrary: best)
    case Nil
    then show ?case by simp
  next
    case (Cons j js)
    from Cons.IH [of "f j best"] Cons.prems step [of j best] show ?case by auto
  qed
  from this [of "[0..<8]" None] show "ellipsis gs = Some (s, e) \<Longrightarrow> e = s + zero_run gs s"
    by (simp only: ellipsis_def f_def option.distinct simp_thms)
qed

lemma group_String_not_Nil: "group_String n \<noteq> []"
proof -
  have "0 < k \<Longrightarrow> hex_digits k n \<noteq> []" for k by (cases k) simp_all
  then show ?thesis by (simp only: group_String_def split: if_split) simp
qed

lemma Join_groups_Nil: "strings_Join (map group_String gs) sep = [] \<longleftrightarrow> gs = []"
  by (induction gs rule: induct_list012) (auto simp: group_String_not_Nil)

lemma groups_of_length: "length (groups_of ip) = length ip div 2"
  by (induction ip rule: groups_of.induct) auto

lemma groups_of_zero: "even (length ip) \<Longrightarrow> (\<forall>g \<in> set (groups_of ip). g = 0) \<longleftrightarrow> (\<forall>b \<in> set ip. b = 0)"
  by (induction ip rule: groups_of.induct) (auto simp: unat_eq_0)

text \<open>Only the unspecified address is printed as two colons.\<close>

lemma IPv6_String_unspecified:
  assumes "length ip = 16"
  shows "IPv6_String ip = ''::'' \<longleftrightarrow> ip = replicate 16 0"
proof
  assume str: "IPv6_String ip = ''::''"
  let ?gs = "groups_of ip"
  have len: "length ?gs = 8" using assms by (simp add: groups_of_length)
  show "ip = replicate 16 0"
  proof (cases "ellipsis ?gs")
    case None
    obtain a b c d where "\<exists>r. ?gs = a # b # c # d # r"
      using len by (auto simp: numeral_eq_Suc length_Suc_conv)
    with None str show ?thesis
      by (auto simp: IPv6_String_def Let_def Cons_eq_append_conv append_eq_Cons_conv group_String_not_Nil)
  next
    case (Some p)
    then obtain s e where p: "ellipsis ?gs = Some (s, e)" by (cases p) auto
    let ?a = "strings_Join (map group_String (take s ?gs)) '':''" and ?b = "strings_Join (map group_String (drop e ?gs)) '':''"
    have "?a @ ''::'' @ ?b = ''::''" using str p by (simp add: IPv6_String_def Let_def)
    then have "length (?a @ ''::'' @ ?b) = 2" by simp
    then have "?a = []" "?b = []" by simp_all
    then have "take s ?gs = []" "drop e ?gs = []" by (simp_all only: Join_groups_Nil)
    with len have "s = 0" "8 \<le> e" by auto
    with ellipsis_run [OF p] len have "length (takeWhile (\<lambda>g. g = 0) ?gs) = length ?gs"
      using length_takeWhile_le [of "\<lambda>g. g = 0" ?gs] by (simp add: zero_run_def)
    then have "takeWhile (\<lambda>g. g = 0) ?gs = ?gs"
      by (metis takeWhile_eq_take take_all_iff order_refl)
    then have "\<forall>g \<in> set ?gs. g = 0" by (metis set_takeWhileD)
    with groups_of_zero [of ip] assms have "\<forall>b \<in> set ip. b = 0" by simp
    with assms show ?thesis by (simp add: list_eq_iff_nth_eq all_set_conv_all_nth)
  qed
next
  assume ip: "ip = replicate 16 0"
  have "IPv6_String [0, 0, 0, 0, 0, 0, 0, 0, 0, 0, 0, 0, 0, 0, 0, 0] = ''::''" by code_simp
  moreover have "replicate 16 0 = [0, 0, 0, 0, 0, 0, 0, 0, 0, 0, 0, 0, 0, 0, 0, (0 :: u8)]" by code_simp
  ultimately show "IPv6_String ip = ''::''" using ip by simp
qed

lemma replicate_zeros:
  "replicate 4 0 = [0, 0, 0, 0 :: u8]"
  by code_simp

lemma IP_To4_cases:
  assumes "length ip = 16"
  shows "(\<exists>q. length q = 4 \<and> ip = v4_prefix @ q \<and> IP_To4 ip = Some q) \<or>
     (take 12 ip \<noteq> v4_prefix \<and> IP_To4 ip = None)"
proof (cases "take 12 ip = v4_prefix")
  case True
  then have "ip = v4_prefix @ drop 12 ip" by (metis append_take_drop_id)
  with True assms show ?thesis
    by (intro disjI1 exI [of _ "drop 12 ip"]) (simp add: IP_To4_def)
qed (use assms in \<open>simp add: IP_To4_def\<close>)

lemma unspecified_not_4: "IP_To4 (replicate 16 0) = None"
  by code_simp

lemma mapped_not_unspecified: "length q = 4 \<Longrightarrow> v4_prefix @ q \<noteq> replicate 16 0"
proof -
  assume "length q = 4"
  then have "IP_To4 (v4_prefix @ q) = Some q" by (simp add: IP_To4_def v4_prefix_def)
  with unspecified_not_4 show ?thesis by auto
qed

end
