(* ===== verification/Proto.thy ===== *)
theory Proto
  imports Prelude "HOL-Library.Multiset"
begin

text \<open>
  \<^verbatim>\<open>pkg/util/ic/proto.go\<close>: the names of the IP protocols, and the inverse map, which is filled by iterating over the
  first one. Go iterates over a map in no fixed order, so the order is an argument.
\<close>

definition PROTO_NAMES_list :: "(u16 \<times> string) list" where
  "PROTO_NAMES_list = [
     (0, ''HOPOPT''),
     (1, ''ICMP''),
     (2, ''IGMP''),
     (3, ''GGP''),
     (4, ''IPv4''),
     (5, ''ST''),
     (6, ''TCP''),
     (7, ''CBT''),
     (8, ''EGP''),
     (9, ''IGP''),
     (10, ''BBN-RCC-MON''),
     (11, ''NVP-II''),
     (12, ''PUP''),
     (13, ''ARGUS''),
     (14, ''EMCON''),
     (15, ''XNET''),
     (16, ''CHAOS''),
     (17, ''UDP''),
     (18, ''MUX''),
     (19, ''DCN-MEAS''),
     (20, ''HMP''),
     (21, ''PRM''),
     (22, ''XNS-IDP''),
     (23, ''TRUNK-1''),
     (24, ''TRUNK-2''),
     (25, ''LEAF-1''),
     (26, ''LEAF-2''),
     (27, ''RDP''),
     (28, ''IRTP''),
     (29, ''ISO-TP4''),
     (30, ''NETBLT''),
     (31, ''MFE-NSP''),
     (32, ''MERIT-INP''),
     (33, ''DCCP''),
     (34, ''3PC''),
     (35, ''IDPR''),
     (36, ''XTP''),
     (37, ''DDP''),
     (38, ''IDPR-CMTP''),
     (39, ''TP++''),
     (40, ''IL''),
     (41, ''IPv6''),
     (42, ''SDRP''),
     (43, ''IPv6-Route''),
     (44, ''IPv6-Frag''),
     (45, ''IDRP''),
     (46, ''RSVP''),
     (47, ''GRE''),
     (48, ''DSR''),
     (49, ''BNA''),
     (50, ''ESP''),
     (51, ''AH''),
     (52, ''I-NLSP''),
     (53, ''SWIPE (deprecated)''),
     (54, ''NARP''),
     (55, ''MOBILE''),
     (56, ''TLSP''),
     (57, ''SKIP''),
     (58, ''IPv6-ICMP''),
     (59, ''IPv6-NoNxt''),
     (60, ''IPv6-Opts''),
     (61, ''''),
     (62, ''CFTP''),
     (63, ''''),
     (64, ''SAT-EXPAK''),
     (65, ''KRYPTOLAN''),
     (66, ''RVD''),
     (67, ''IPPC''),
     (68, ''''),
     (69, ''SAT-MON''),
     (70, ''VISA''),
     (71, ''IPCV''),
     (72, ''CPNX''),
     (73, ''CPHB''),
     (74, ''WSN''),
     (75, ''PVP''),
     (76, ''BR-SAT-MON''),
     (77, ''SUN-ND''),
     (78, ''WB-MON''),
     (79, ''WB-EXPAK''),
     (80, ''ISO-IP''),
     (81, ''VMTP''),
     (82, ''SECURE-VMTP''),
     (83, ''VINES''),
     (84, ''IPTM''),
     (85, ''NSFNET-IGP''),
     (86, ''DGP''),
     (87, ''TCF''),
     (88, ''EIGRP''),
     (89, ''OSPFIGP''),
     (90, ''Sprite-RPC''),
     (91, ''LARP''),
     (92, ''MTP''),
     (93, ''AX.25''),
     (94, ''IPIP''),
     (95, ''MICP (deprecated)''),
     (96, ''SCC-SP''),
     (97, ''ETHERIP''),
     (98, ''ENCAP''),
     (99, ''''),
     (100, ''GMTP''),
     (101, ''IFMP''),
     (102, ''PNNI''),
     (103, ''PIM''),
     (104, ''ARIS''),
     (105, ''SCPS''),
     (106, ''QNX''),
     (107, ''A/N''),
     (108, ''IPComp''),
     (109, ''SNP''),
     (110, ''Compaq-Peer''),
     (111, ''IPX-in-IP''),
     (112, ''VRRP''),
     (113, ''PGM''),
     (114, ''''),
     (115, ''L2TP''),
     (116, ''DDX''),
     (117, ''IATP''),
     (118, ''STP''),
     (119, ''SRP''),
     (120, ''UTI''),
     (121, ''SMP''),
     (122, ''SM (deprecated)''),
     (123, ''PTP''),
     (124, ''ISIS over IPv4''),
     (125, ''FIRE''),
     (126, ''CRTP''),
     (127, ''CRUDP''),
     (128, ''SSCOPMCE''),
     (129, ''IPLT''),
     (130, ''SPS''),
     (131, ''PIPE''),
     (132, ''SCTP''),
     (133, ''FC''),
     (134, ''RSVP-E2E-IGNORE''),
     (135, ''Mobility Header''),
     (136, ''UDPLite''),
     (137, ''MPLS-in-IP''),
     (138, ''manet''),
     (139, ''HIP''),
     (140, ''Shim6''),
     (141, ''WESP''),
     (142, ''ROHC''),
     (143, ''Ethernet''),
     (255, ''Reserved'')]"

text \<open>\<^verbatim>\<open>PROTO_NAMES[n]\<close> with the zero value for a missing key.\<close>

definition PROTO_NAMES :: "u16 \<Rightarrow> string" where
  "PROTO_NAMES n = (case map_of PROTO_NAMES_list n of Some s \<Rightarrow> s | None \<Rightarrow> '''')"

definition PROTO_NUMS :: "(u16 \<times> string) list \<Rightarrow> string \<Rightarrow> u8" where
  "PROTO_NUMS order s = (case map_of (rev (map (\<lambda>(k, v). (v, ucast k)) order)) s of Some n \<Rightarrow> n | None \<Rightarrow> 0)"

section \<open>Round trip\<close>

lemma proto_numbers_distinct: "distinct (map fst PROTO_NAMES_list)"
  by (simp add: PROTO_NAMES_list_def)

lemma proto_numbers_small: "list_all (\<lambda>(k, v). k < 256) PROTO_NAMES_list"
  by (simp add: PROTO_NAMES_list_def)

lemma proto_names_distinct: "distinct (filter (\<lambda>s. s \<noteq> '''') (map snd PROTO_NAMES_list))"
  by (simp add: PROTO_NAMES_list_def)

lemma ucast_u8: "n < 256 \<Longrightarrow> ucast (ucast n :: u8) = (n :: u16)"
proof -
  assume "n < 256"
  then have "unat n < 256" by (simp add: word_less_nat_alt)
  then have "unat (ucast (ucast n :: u8) :: u16) = unat n"
    by (simp add: unsigned_ucast_eq take_bit_eq_mod unat_mod)
  then show ?thesis by (simp add: word_unat_eq_iff)
qed

lemma distinct_values_unique:
  "distinct (filter P (map snd xs)) \<Longrightarrow> (a, s) \<in> set xs \<Longrightarrow> (b, s) \<in> set xs \<Longrightarrow> P s \<Longrightarrow> a = b"
  by (induction xs) (force split: if_splits)+

lemma map_of_unique:
  "(k, v) \<in> set xs \<Longrightarrow> (\<And>v'. (k, v') \<in> set xs \<Longrightarrow> v' = v) \<Longrightarrow> map_of xs k = Some v"
  by (metis map_of_SomeD map_of_eq_None_iff image_eqI fst_conv option.exhaust)

text \<open>
  The two protocol tables are inverse to each other on every protocol that has a name: the number of the
  name is the number, and the name of the number is the name, in whatever order the second table is
  filled.
\<close>

lemma proto_tables_inverse:
  assumes "mset order = mset PROTO_NAMES_list" and "(n, s) \<in> set PROTO_NAMES_list" and "s \<noteq> ''''"
  shows "PROTO_NAMES n = s \<and> PROTO_NUMS order s = ucast n \<and> PROTO_NAMES (ucast (PROTO_NUMS order s)) = s"
proof -
  have mem: "set order = set PROTO_NAMES_list" using assms(1) by (rule mset_eq_setD)
  have name: "PROTO_NAMES n = s"
    using map_of_is_SomeI [OF proto_numbers_distinct assms(2)] by (simp add: PROTO_NAMES_def)
  have "map_of (rev (map (\<lambda>(k, v). (v, ucast k :: u8)) order)) s = Some (ucast n)"
  proof (rule map_of_unique)
    show "(s, ucast n) \<in> set (rev (map (\<lambda>(k, v). (v, ucast k :: u8)) order))"
      using assms(2) mem by (auto intro!: image_eqI [of _ _ "(n, s)"])
  next
    fix v
    assume "(s, v) \<in> set (rev (map (\<lambda>(k, v). (v, ucast k :: u8)) order))"
    then obtain k where "(k, s) \<in> set PROTO_NAMES_list" "v = ucast k" using mem by auto
    with distinct_values_unique [OF proto_names_distinct assms(2) this(1) assms(3)] show "v = ucast n" by simp
  qed
  then have num: "PROTO_NUMS order s = ucast n" by (simp add: PROTO_NUMS_def)
  have "n < 256" using proto_numbers_small assms(2) by (auto simp: list_all_iff)
  then have "ucast (ucast n :: u8) = n" by (rule ucast_u8)
  with name num show ?thesis by simp
qed

end
