(* ===== verification/Element_Tables.thy ===== *)
theory Element_Tables
  imports Netflow_Translate
begin

text \<open>
  The tables of information elements of \<^verbatim>\<open>pkg/util/netflow/translate\<close>: one definition for each \<^verbatim>\<open>init\<close> function (cut
  into parts where it is long), entry by entry in the order of the source, and the loop that adds the
  reverse elements of RFC 5103. Go runs the \<^verbatim>\<open>init\<close> functions in the order of the file names, and a later
  assignment to a key replaces an earlier one.
\<close>

section \<open>The tables\<close>

definition element :: "u32 \<Rightarrow> u16 \<Rightarrow> u16 \<Rightarrow> string \<Rightarrow> string \<Rightarrow> Key \<times> InformationElementEntry" where
  "element en key fid name typ =
     (\<lparr>k_EnterpriseID = en, k_FieldID = key\<rparr>,
      \<lparr>ie_Name = name, ie_FieldID = fid, ie_EnterpriseID = 0, ie_Type = FieldTypes typ\<rparr>)"

definition builtin_a10 :: "(Key \<times> InformationElementEntry) list" where
  "builtin_a10 = [
     element 40842 258 258 ''a10Mystery258'' ''unsigned16'',
     element 40842 259 259 ''a10Mystery259'' ''unsigned16'']"

definition builtin_cert :: "(Key \<times> InformationElementEntry) list" where
  "builtin_cert = [
     element 6871 14 14 ''initialTCPFlags'' ''unsigned8'',
     element 6871 15 15 ''unionTCPFlags'' ''unsigned8'',
     element 6871 21 21 ''reverseFlowDeltaMilliseconds'' ''dateTimeMilliseconds'',
     element 6871 22 22 ''silkTCPState'' ''unsigned8'',
     element 6871 30 30 ''silkFlowType'' ''unsigned8'',
     element 6871 31 31 ''silkFlowSensor'' ''unsigned8'',
     element 6871 33 33 ''silkAppLabel'' ''unsigned8'',
     element 6871 40 40 ''flowAttributes'' ''unsigned16'']"

definition builtin_cisco_1 :: "(Key \<times> InformationElementEntry) list" where
  "builtin_cisco_1 = [
     element 0 33000 33002 ''firewallIngressACL'' ''octetArray'',
     element 0 33001 33002 ''firewallEgressACL'' ''octetArray'',
     element 0 33002 33002 ''firewallExtendedEventCode'' ''unsigned16'',
     element 0 40000 40000 ''firewallAAAUsername'' ''string'',
     element 0 35001 35001 ''extendedEventCode'' ''unsigned16'',
     element 9 8232 8232 ''PolicyQosClassificationHierarchy'' ''unsigned24'',
     element 9 9252 9252 ''waas optimizationSegment'' ''unsigned8'',
     element 9 9265 9265 ''artClient packets'' ''unsigned64'',
     element 9 9266 9266 ''artServer packets'' ''unsigned64'',
     element 9 9268 9268 ''artCountRetransmissions '' ''unsigned32'',
     element 9 9272 9272 ''artCountTransactions '' ''unsigned32'',
     element 9 9273 9273 ''artTotalTransactionTimeSum '' ''unsigned32'',
     element 9 9274 9274 ''artTotalTransactionTimeMaximum '' ''unsigned32'',
     element 9 9275 9275 ''artTotalTransactionTimeMinimum '' ''unsigned32'',
     element 9 9282 9282 ''artCountNewConnections '' ''unsigned32'',
     element 9 9292 9292 ''artCountResponses '' ''unsigned32'',
     element 9 9293 9293 ''artCountResponsesHistogramBucket1 '' ''unsigned32'',
     element 9 9294 9294 ''artCountResponsesHistogramBucket2 '' ''unsigned32'',
     element 9 9295 9295 ''artCountResponsesHistogramBucket3 '' ''unsigned32'',
     element 9 9296 9296 ''artCountResponsesHistogramBucket4 '' ''unsigned32'',
     element 9 9297 9297 ''artCountResponsesHistogramBucket5 '' ''unsigned32'',
     element 9 9298 9298 ''artCountResponsesHistogramBucket6 '' ''unsigned32'',
     element 9 9299 9299 ''artCountResponsesHistogramBucket7 '' ''unsigned32'',
     element 9 9300 9300 ''artCountLateResponses '' ''unsigned32'',
     element 9 9303 9303 ''artResponseTimeSum '' ''unsigned32'',
     element 9 9304 9304 ''artResponseTimeMaximum '' ''unsigned32'',
     element 9 9305 9305 ''artResponseTimeMinimum '' ''unsigned32'',
     element 9 9306 9306 ''artServerResponseTimeSum '' ''unsigned32'',
     element 9 9307 9307 ''artServerResponseTimeMaximum '' ''unsigned32'',
     element 9 9308 9308 ''artServerResponseTimeMinimum '' ''unsigned32'',
     element 9 9309 9309 ''artTotalResponseTimeSum '' ''unsigned32'',
     element 9 9310 9310 ''artTotalResponseTimeMaximum '' ''unsigned32'',
     element 9 9311 9311 ''artTotalResponseTimeMinimum '' ''unsigned32'',
     element 9 9313 9313 ''artNetworkTimeSum '' ''unsigned32'',
     element 9 9314 9314 ''artNetworkTimeMaximum '' ''unsigned32'',
     element 9 9315 9315 ''artNetworkTimeMinimum '' ''unsigned32'',
     element 9 9316 9316 ''artClientNetworkTimeSum '' ''unsigned32'',
     element 9 9317 9317 ''artClientNetworkTimeMaximum '' ''unsigned32'',
     element 9 9318 9318 ''artClientNetworkTimeMinimum '' ''unsigned32'',
     element 9 9319 9319 ''artServerNetworkTimeSum '' ''unsigned32'',
     element 9 9320 9320 ''artServerNetworkTimeMaximum '' ''unsigned32'',
     element 9 9321 9321 ''artServerNetworkTimeMinimum '' ''unsigned32'',
     element 9 9357 9357 ''applicationHttpUriStatistics'' ''octetArray'',
     element 9 9360 9360 ''PolicyQosQueue index'' ''unsigned32'',
     element 9 9360 9360 ''PolicyQosQueue INDEX'' ''unsigned32'',
     element 9 9361 9361 ''PolicyQosQueue drops'' ''unsigned64'',
     element 9 12232 12230 ''applicationFamilyName'' ''string'',
     element 9 12232 12231 ''applicationSetName'' ''string'',
     element 9 12232 12232 ''applicationCategoryName'' ''string'',
     element 9 12233 12233 ''applicationSubCategoryName'' ''string'',
     element 9 12234 12234 ''applicationGroupName'' ''string'',
     element 9 12235 12235 ''applicationHttpUser-agent'' ''octetArray'',
     element 9 12243 12243 ''applicationTraffic-class'' ''string'',
     element 9 12244 12244 ''applicationBusiness-relevance'' ''string'',
     element 9 32733 32733 ''timestampAbsoluteMonitoring-interval'' ''unsigned64'',
     element 5951 128 128 ''netscalerRoundTripTime'' ''unsigned32'',
     element 5951 129 129 ''netscalerTransactionId'' ''unsigned32'',
     element 5951 130 130 ''netscalerHttpReqUrl'' ''string'',
     element 5951 131 131 ''netscalerHttpReqCookie'' ''string'',
     element 5951 132 132 ''netscalerFlowFlags'' ''unsigned64'',
     element 5951 133 133 ''netscalerConnectionId'' ''unsigned32'',
     element 5951 134 134 ''netscalerSyslogPriority'' ''unsigned8'',
     element 5951 135 135 ''netscalerSyslogMessage'' ''string'',
     element 5951 136 136 ''netscalerSyslogTimestamp'' ''unsigned64'',
     element 5951 140 140 ''netscalerHttpReqReferer'' ''string'',
     element 5951 141 141 ''netscalerHttpReqMethod'' ''string'',
     element 5951 142 142 ''netscalerHttpReqHost'' ''string'',
     element 5951 143 143 ''netscalerHttpReqUserAgent'' ''string'',
     element 5951 144 144 ''netscalerHttpRspStatus'' ''unsigned16'',
     element 5951 145 145 ''netscalerHttpRspLen'' ''unsigned64'',
     element 5951 146 146 ''netscalerServerTTFB'' ''unsigned64'',
     element 5951 147 147 ''netscalerServerTTLB'' ''unsigned64'',
     element 5951 150 150 ''netscalerAppNameIncarnationNumber'' ''unsigned32'',
     element 5951 151 151 ''netscalerAppNameAppId'' ''unsigned32'',
     element 5951 152 152 ''netscalerAppName'' ''string'',
     element 5951 153 153 ''netscalerHttpReqRcvFB'' ''unsigned64'',
     element 5951 156 156 ''netscalerHttpReqForwFB'' ''unsigned64'',
     element 5951 157 157 ''netscalerHttpResRcvFB'' ''unsigned64'',
     element 5951 158 158 ''netscalerHttpResForwFB'' ''unsigned64'',
     element 5951 159 159 ''netscalerHttpReqRcvLB'' ''unsigned64'',
     element 5951 160 160 ''netscalerHttpReqForwLB'' ''unsigned64'',
     element 5951 161 161 ''netscalerMainPageId'' ''unsigned32'',
     element 5951 162 162 ''netscalerMainPageCoreId'' ''unsigned32'',
     element 5951 163 163 ''netscalerHttpClientInteractionStartTime'' ''string'',
     element 5951 164 164 ''netscalerHttpClientRenderEndTime'' ''string'',
     element 5951 165 165 ''netscalerHttpClientRenderStartTime'' ''string'',
     element 5951 167 167 ''netscalerAppTemplateName'' ''string'',
     element 5951 168 168 ''netscalerHttpClientInteractionEndTime'' ''string'',
     element 5951 169 169 ''netscalerHttpResRcvLB'' ''unsigned64'',
     element 5951 170 170 ''netscalerHttpResForwLB'' ''unsigned64'',
     element 5951 171 171 ''netscalerAppUnitNameAppId'' ''unsigned32'',
     element 5951 172 172 ''netscalerDbLoginFlags'' ''unsigned32'',
     element 5951 173 173 ''netscalerDbReqType'' ''unsigned8'',
     element 5951 174 174 ''netscalerDbProtocolName'' ''unsigned8'',
     element 5951 175 175 ''netscalerDbUserName'' ''string'',
     element 5951 176 176 ''netscalerDbDatabaseName'' ''string'',
     element 5951 177 177 ''netscalerDbCltHostName'' ''string'',
     element 5951 178 178 ''netscalerDbReqString'' ''string'',
     element 5951 179 179 ''netscalerDbRespStatusString'' ''string'',
     element 5951 180 180 ''netscalerDbRespStatus'' ''unsigned64'',
     element 5951 181 181 ''netscalerDbRespLength'' ''unsigned64'',
     element 5951 182 182 ''netscalerClientRTT'' ''unsigned32'',
     element 5951 183 183 ''netscalerHttpContentType'' ''string'',
     element 5951 185 185 ''netscalerHttpReqAuthorization'' ''string'',
     element 5951 186 186 ''netscalerHttpReqVia'' ''string'',
     element 5951 187 187 ''netscalerHttpResLocation'' ''string'',
     element 5951 188 188 ''netscalerHttpResSetCookie'' ''string'',
     element 5951 189 189 ''netscalerHttpResSetCookie2'' ''string'',
     element 5951 190 190 ''netscalerHttpReqXForwardedFor'' ''string'',
     element 5951 192 192 ''netscalerConnectionChainID'' ''octetarray'']"

definition builtin_cisco_2 :: "(Key \<times> InformationElementEntry) list" where
  "builtin_cisco_2 = [
     element 5951 193 193 ''netscalerConnectionChainHopCount'' ''unsigned64'',
     element 5951 200 200 ''netscalerICASessionGuid'' ''octetarray'',
     element 5951 201 201 ''netscaleIcaClientVersion'' ''string'',
     element 5951 202 202 ''netscalerIcaClientType'' ''unsigned16'',
     element 5951 203 203 ''netscalerIcaClientIP'' ''ip4_addr'',
     element 5951 204 204 ''netscalerIcaClientHostName'' ''string'',
     element 5951 205 205 ''netscalerAaaUsername'' ''string'',
     element 5951 207 207 ''netscalerIcaDomainName'' ''string'',
     element 5951 208 208 ''netscalerIcaClientLauncher'' ''unsigned16'',
     element 5951 209 209 ''netscalerIcaSessionSetupTime'' ''unsigned32'',
     element 5951 210 210 ''netscalerIcaServerName'' ''string'',
     element 5951 214 214 ''netscalerIcaSessionReconnects'' ''unsigned8'',
     element 5951 215 215 ''netscalerIcaRTT'' ''unsigned32'',
     element 5951 216 216 ''netscalerIcaClientsideRXBytes'' ''unsigned32'',
     element 5951 217 217 ''netscalerIcaClientsideTXBytes'' ''unsigned32'',
     element 5951 219 219 ''netscalerIcaClientsidePacketsRetransmit'' ''unsigned16'',
     element 5951 220 220 ''netscalerIcaServersidePacketsRetransmit'' ''unsigned16'',
     element 5951 221 221 ''netscalerIcaClientsideRTT'' ''unsigned32'',
     element 5951 222 222 ''netscalerIcaServersideRTT'' ''unsigned32'',
     element 5951 223 223 ''netscalerIcaSessionUpdateBeginSec'' ''unsigned32'',
     element 5951 224 224 ''netscalerIcaSessionUpdateEndSec'' ''unsigned32'',
     element 5951 225 225 ''netscalerIcaChannelId1'' ''unsigned32'',
     element 5951 226 226 ''netscalerIcaChannelId1Bytes'' ''unsigned32'',
     element 5951 227 227 ''netscalerIcaChannelId2'' ''unsigned32'',
     element 5951 228 228 ''netscalerIcaChannelId2Bytes'' ''unsigned32'',
     element 5951 229 229 ''netscalerIcaChannelId3'' ''unsigned32'',
     element 5951 230 230 ''netscalerIcaChannelId3Bytes'' ''unsigned32'',
     element 5951 231 231 ''netscalerIcaChannelId4'' ''unsigned32'',
     element 5951 232 232 ''netscalerIcaChannelId4Bytes'' ''unsigned32'',
     element 5951 233 233 ''netscalerIcaChannelId5'' ''unsigned32'',
     element 5951 234 234 ''netscalerIcaChannelId5Bytes'' ''unsigned32'',
     element 5951 235 235 ''netscalerIcaConnectionPriority'' ''unsigned16'',
     element 5951 236 236 ''netscalerApplicationStartupDuration'' ''unsigned32'',
     element 5951 237 237 ''netscalerIcaLaunchMechanism'' ''unsigned16'',
     element 5951 238 238 ''netscalerIcaApplicationName'' ''string'',
     element 5951 239 239 ''netscalerApplicationStartupTime'' ''unsigned32'',
     element 5951 240 240 ''netscalerIcaApplicationTerminationType'' ''unsigned16'',
     element 5951 241 241 ''netscalerIcaApplicationTerminationTime'' ''unsigned32'',
     element 5951 242 242 ''netscalerIcaSessionEndTime'' ''unsigned32'',
     element 5951 243 243 ''netscalerIcaClientsideJitter'' ''unsigned32'',
     element 5951 244 244 ''netscalerIcaServersideJitter'' ''unsigned32'',
     element 5951 245 245 ''netscalerIcaAppProcessID'' ''unsigned32'',
     element 5951 246 246 ''netscalerIcaAppModulePath'' ''string'',
     element 5951 247 247 ''netscalerIcaDeviceSerialNo'' ''unsigned32'',
     element 5951 248 248 ''netscalerMsiClientCookie'' ''octetarray'',
     element 5951 249 249 ''netscalerIcaFlags'' ''unsigned64'',
     element 5951 250 250 ''netscalerIcaUsername'' ''string'',
     element 5951 251 251 ''netscalerLicenseType'' ''unsigned8'',
     element 5951 252 252 ''netscalerMaxLicenseCount'' ''unsigned64'',
     element 5951 253 253 ''netscalerCurrentLicenseConsumed'' ''unsigned64'',
     element 5951 254 254 ''netscalerIcaNetworkUpdateStartTime'' ''unsigned32'',
     element 5951 255 255 ''netscalerIcaNetworkUpdateEndTime'' ''unsigned32'',
     element 5951 256 256 ''netscalerIcaClientsideSRTT'' ''unsigned32'',
     element 5951 257 257 ''netscalerIcaServersideSRTT'' ''unsigned32'',
     element 5951 258 258 ''netscalerIcaClientsideDelay'' ''unsigned32'',
     element 5951 259 259 ''netscalerIcaServersideDelay'' ''unsigned32'',
     element 5951 260 260 ''netscalerIcaHostDelay'' ''unsigned32'',
     element 5951 261 261 ''netscalerIcaClientSideWindowSize'' ''unsigned16'',
     element 5951 262 262 ''netscalerIcaServerSideWindowSize'' ''unsigned16'',
     element 5951 263 263 ''netscalerIcaClientSideRTOCount'' ''unsigned16'',
     element 5951 264 264 ''netscalerIcaServerSideRTOCount'' ''unsigned16'',
     element 5951 265 265 ''netscalerIcaL7ClientLatency'' ''unsigned32'',
     element 5951 266 266 ''netscalerIcaL7ServerLatency'' ''unsigned32'',
     element 5951 267 267 ''netscalerHttpDomainName'' ''string'',
     element 5951 268 268 ''netscalerCacheRedirClientConnectionCoreID'' ''unsigned32'',
     element 5951 269 269 ''netscalerCacheRedirClientConnectionTransactionID'' ''unsigned32'',
     element 5951 270 270 ''netscalerUnknown270'' ''unsigned32'',
     element 5951 271 271 ''netscalerUnknown271'' ''unsigned32'',
     element 5951 272 272 ''netscalerUnknown272'' ''unsigned32'',
     element 5951 273 273 ''netscalerUnknown273'' ''unsigned32'',
     element 5951 274 274 ''netscalerUnknown274'' ''unsigned32'',
     element 5951 275 275 ''netscalerUnknown275'' ''unsigned32'',
     element 5951 276 276 ''netscalerUnknown276'' ''unsigned32'',
     element 5951 277 277 ''netscalerUnknown277'' ''unsigned32'',
     element 5951 278 278 ''netscalerUnknown278'' ''unsigned32'',
     element 5951 279 279 ''netscalerUnknown279'' ''unsigned32'',
     element 5951 280 280 ''netscalerUnknown280'' ''unsigned32'',
     element 5951 281 281 ''netscalerUnknown281'' ''unsigned32'',
     element 5951 282 282 ''netscalerUnknown282'' ''unsigned32'',
     element 5951 283 283 ''netscalerUnknown283'' ''unsigned32'',
     element 5951 284 284 ''netscalerUnknown284'' ''unsigned32'',
     element 5951 285 285 ''netscalerUnknown285'' ''unsigned32'',
     element 5951 286 286 ''netscalerUnknown286'' ''unsigned32'',
     element 5951 287 287 ''netscalerUnknown287'' ''unsigned32'',
     element 5951 288 288 ''netscalerUnknown288'' ''unsigned32'',
     element 5951 289 289 ''netscalerUnknown289'' ''unsigned32'',
     element 5951 290 290 ''netscalerUnknown290'' ''unsigned32'',
     element 5951 291 291 ''netscalerUnknown291'' ''unsigned32'',
     element 5951 292 292 ''netscalerUnknown292'' ''unsigned32'',
     element 5951 293 293 ''netscalerUnknown293'' ''unsigned32'',
     element 5951 294 294 ''netscalerUnknown294'' ''unsigned32'',
     element 5951 295 295 ''netscalerUnknown295'' ''unsigned32'',
     element 5951 296 296 ''netscalerUnknown296'' ''unsigned32'',
     element 5951 297 297 ''netscalerUnknown297'' ''unsigned32'',
     element 5951 298 298 ''netscalerUnknown298'' ''unsigned32'',
     element 5951 299 299 ''netscalerUnknown299'' ''unsigned32'',
     element 5951 300 300 ''netscalerUnknown300'' ''unsigned32'',
     element 5951 301 301 ''netscalerUnknown301'' ''unsigned32'',
     element 5951 302 302 ''netscalerUnknown302'' ''unsigned32'',
     element 5951 303 303 ''netscalerUnknown303'' ''unsigned32'',
     element 5951 304 304 ''netscalerUnknown304'' ''unsigned32'',
     element 5951 305 305 ''netscalerUnknown305'' ''unsigned32'',
     element 5951 306 306 ''netscalerUnknown306'' ''unsigned32'',
     element 5951 307 307 ''netscalerUnknown307'' ''unsigned32'',
     element 5951 308 308 ''netscalerUnknown308'' ''unsigned32'',
     element 5951 309 309 ''netscalerUnknown309'' ''unsigned32'',
     element 5951 310 310 ''netscalerUnknown310'' ''unsigned32'',
     element 5951 311 311 ''netscalerUnknown311'' ''unsigned32'',
     element 5951 312 312 ''netscalerUnknown312'' ''unsigned32'',
     element 5951 313 313 ''netscalerUnknown313'' ''unsigned32'']"

definition builtin_cisco_3 :: "(Key \<times> InformationElementEntry) list" where
  "builtin_cisco_3 = [
     element 5951 314 314 ''netscalerUnknown314'' ''unsigned32'',
     element 5951 315 315 ''netscalerUnknown315'' ''unsigned32'',
     element 5951 316 316 ''netscalerUnknown316'' ''string'',
     element 5951 317 317 ''netscalerUnknown317'' ''unsigned32'',
     element 5951 318 318 ''netscalerUnknown318'' ''unsigned32'',
     element 5951 319 319 ''netscalerUnknown319'' ''string'',
     element 5951 320 320 ''netscalerUnknown320'' ''unsigned16'',
     element 5951 321 321 ''netscalerUnknown321'' ''unsigned32'',
     element 5951 322 322 ''netscalerUnknown322'' ''unsigned32'',
     element 5951 323 323 ''netscalerUnknown323'' ''unsigned16'',
     element 5951 324 324 ''netscalerUnknown324'' ''unsigned16'',
     element 5951 325 325 ''netscalerUnknown325'' ''unsigned16'',
     element 5951 326 326 ''netscalerUnknown326'' ''unsigned16'',
     element 5951 327 327 ''netscalerUnknown327'' ''unsigned32'',
     element 5951 328 328 ''netscalerUnknown328'' ''unsigned16'',
     element 5951 329 329 ''netscalerUnknown329'' ''unsigned16'',
     element 5951 330 330 ''netscalerUnknown330'' ''unsigned16'',
     element 5951 331 331 ''netscalerUnknown331'' ''unsigned16'',
     element 5951 332 332 ''netscalerUnknown332'' ''unsigned32'',
     element 5951 333 333 ''netscalerUnknown333'' ''string'',
     element 5951 334 334 ''netscalerUnknown334'' ''string'',
     element 5951 335 335 ''netscalerUnknown335'' ''unsigned32'',
     element 5951 336 336 ''netscalerUnknown336'' ''unsigned32'',
     element 5951 337 337 ''netscalerUnknown337'' ''unsigned32'',
     element 5951 338 338 ''netscalerUnknown338'' ''unsigned32'',
     element 5951 339 339 ''netscalerUnknown339'' ''unsigned32'',
     element 5951 340 340 ''netscalerUnknown340'' ''unsigned32'',
     element 5951 341 341 ''netscalerUnknown341'' ''unsigned32'',
     element 5951 342 342 ''netscalerUnknown342'' ''unsigned32'',
     element 5951 343 343 ''netscalerUnknown343'' ''unsigned32'',
     element 5951 344 344 ''netscalerUnknown344'' ''unsigned32'',
     element 5951 345 345 ''netscalerUnknown345'' ''unsigned32'',
     element 5951 346 346 ''netscalerUnknown346'' ''unsigned32'',
     element 5951 347 347 ''netscalerUnknown347'' ''unsigned32'',
     element 5951 348 348 ''netscalerUnknown348'' ''unsigned16'',
     element 5951 349 349 ''netscalerUnknown349'' ''string'',
     element 5951 350 350 ''netscalerUnknown350'' ''string'',
     element 5951 351 351 ''netscalerUnknown351'' ''string'',
     element 5951 352 352 ''netscalerUnknown352'' ''unsigned16'',
     element 5951 353 353 ''netscalerUnknown353'' ''unsigned32'',
     element 5951 354 354 ''netscalerUnknown354'' ''unsigned32'',
     element 5951 355 355 ''netscalerUnknown355'' ''unsigned32'',
     element 5951 356 356 ''netscalerUnknown356'' ''unsigned32'',
     element 5951 357 357 ''netscalerUnknown357'' ''unsigned32'',
     element 5951 363 363 ''netscalerUnknown363'' ''octetarray'',
     element 5951 383 383 ''netscalerUnknown383'' ''octetarray'',
     element 5951 391 391 ''netscalerUnknown391'' ''unsigned32'',
     element 5951 398 398 ''netscalerUnknown398'' ''unsigned32'',
     element 5951 404 404 ''netscalerUnknown404'' ''unsigned32'',
     element 5951 405 405 ''netscalerUnknown405'' ''unsigned32'',
     element 5951 427 427 ''netscalerUnknown427'' ''unsigned64'',
     element 5951 429 429 ''netscalerUnknown429'' ''unsigned8'',
     element 5951 432 432 ''netscalerUnknown432'' ''unsigned8'',
     element 5951 433 433 ''netscalerUnknown433'' ''unsigned8'',
     element 5951 453 453 ''netscalerUnknown453'' ''unsigned64'',
     element 5951 465 465 ''netscalerUnknown465'' ''unsigned32'']"

definition builtin_gigamon :: "(Key \<times> InformationElementEntry) list" where
  "builtin_gigamon = [
     element 26866 1 1 ''gigamonHttpReqUrl'' ''string'',
     element 26866 2 2 ''gigamonHttpRspStatus'' ''unsigned16'',
     element 26866 202 202 ''gigamonDnsOpCode'' ''unsigned8'',
     element 26866 212 212 ''dnsNsCount'' ''unsigned16'',
     element 26866 220 220 ''dnsAuthorityName'' ''string'',
     element 26866 221 221 ''dnsAuthorityType'' ''unsigned16'']"

definition builtin_nprobe :: "(Key \<times> InformationElementEntry) list" where
  "builtin_nprobe = [
     element 0 57581 57581 ''RETRANSMITTED_IN_PKTS'' ''unsigned32'',
     element 0 57582 57582 ''RETRANSMITTED_OUT_PKTS'' ''unsigned32'',
     element 0 57583 57583 ''OOORDER_IN_PKTS'' ''unsigned32'',
     element 0 57584 57584 ''OOORDER_OUT_PKTS'' ''unsigned32'',
     element 0 57552 57552 ''FRAGMENTS'' ''unsigned32'',
     element 0 57595 57595 ''CLIENT_NW_LATENCY_MS'' ''unsigned32'',
     element 0 57596 57596 ''SERVER_NW_LATENCY_MS'' ''unsigned32'',
     element 0 57597 57597 ''APPL_LATENCY_MS'' ''unsigned32'']"

definition builtin_paloalto :: "(Key \<times> InformationElementEntry) list" where
  "builtin_paloalto = [
     element 0 56701 56701 ''paloAltoApplicationID'' ''string'',
     element 0 56702 56701 ''paloAltoUserID'' ''string'']"

definition builtin_rfc5102_1 :: "(Key \<times> InformationElementEntry) list" where
  "builtin_rfc5102_1 = [
     element 0 1 1 ''octetDeltaCount'' ''unsigned64'',
     element 0 2 2 ''packetDeltaCount'' ''unsigned64'',
     element 0 3 3 ''deltaFlowCount'' ''unsigned64'',
     element 0 4 4 ''protocolIdentifier'' ''unsigned8'',
     element 0 5 5 ''ipClassOfService'' ''unsigned8'',
     element 0 6 6 ''tcpControlBits'' ''unsigned16'',
     element 0 7 7 ''sourceTransportPort'' ''unsigned16'',
     element 0 8 8 ''sourceIPv4Address'' ''ipv4Address'',
     element 0 9 9 ''sourceIPv4PrefixLength'' ''unsigned8'',
     element 0 10 10 ''ingressInterface'' ''unsigned32'',
     element 0 11 11 ''destinationTransportPort'' ''unsigned16'',
     element 0 12 12 ''destinationIPv4Address'' ''ipv4Address'',
     element 0 13 13 ''destinationIPv4PrefixLength'' ''unsigned8'',
     element 0 14 14 ''egressInterface'' ''unsigned32'',
     element 0 15 15 ''ipNextHopIPv4Address'' ''ipv4Address'',
     element 0 16 16 ''bgpSourceAsNumber'' ''unsigned32'',
     element 0 17 17 ''bgpDestinationAsNumber'' ''unsigned32'',
     element 0 18 18 ''bgpNextHopIPv4Address'' ''ipv4Address'',
     element 0 19 19 ''postMCastPacketDeltaCount'' ''unsigned64'',
     element 0 20 20 ''postMCastOctetDeltaCount'' ''unsigned64'',
     element 0 21 21 ''flowEndSysUpTime'' ''unsigned32'',
     element 0 22 22 ''flowStartSysUpTime'' ''unsigned32'',
     element 0 23 23 ''postOctetDeltaCount'' ''unsigned64'',
     element 0 24 24 ''postPacketDeltaCount'' ''unsigned64'',
     element 0 25 25 ''minimumIpTotalLength'' ''unsigned64'',
     element 0 26 26 ''maximumIpTotalLength'' ''unsigned64'',
     element 0 27 27 ''sourceIPv6Address'' ''ipv6Address'',
     element 0 28 28 ''destinationIPv6Address'' ''ipv6Address'',
     element 0 29 29 ''sourceIPv6PrefixLength'' ''unsigned8'',
     element 0 30 30 ''destinationIPv6PrefixLength'' ''unsigned8'',
     element 0 31 31 ''flowLabelIPv6'' ''unsigned32'',
     element 0 32 32 ''icmpTypeCodeIPv4'' ''unsigned16'',
     element 0 33 33 ''igmpType'' ''unsigned8'',
     element 0 34 34 ''samplingInterval'' ''unsigned32'',
     element 0 35 35 ''samplingAlgorithm'' ''unsigned8'',
     element 0 36 36 ''flowActiveTimeout'' ''unsigned16'',
     element 0 37 37 ''flowIdleTimeout'' ''unsigned16'',
     element 0 38 38 ''engineType'' ''unsigned8'',
     element 0 39 39 ''engineId'' ''unsigned8'',
     element 0 40 40 ''exportedOctetTotalCount'' ''unsigned64'',
     element 0 41 41 ''exportedMessageTotalCount'' ''unsigned64'',
     element 0 42 42 ''exportedFlowRecordTotalCount'' ''unsigned64'',
     element 0 43 43 ''ipv4RouterSc'' ''ipv4Address'',
     element 0 44 44 ''sourceIPv4Prefix'' ''ipv4Address'',
     element 0 45 45 ''destinationIPv4Prefix'' ''ipv4Address'',
     element 0 46 46 ''mplsTopLabelType'' ''unsigned8'',
     element 0 47 47 ''mplsTopLabelIPv4Address'' ''ipv4Address'',
     element 0 48 48 ''samplerId'' ''unsigned32'',
     element 0 49 49 ''samplerMode'' ''unsigned8'',
     element 0 50 50 ''samplerRandomInterval'' ''unsigned32'',
     element 0 51 51 ''classId'' ''unsigned8'',
     element 0 52 52 ''minimumTTL'' ''unsigned8'',
     element 0 53 53 ''maximumTTL'' ''unsigned8'',
     element 0 54 54 ''fragmentIdentification'' ''unsigned32'',
     element 0 55 55 ''postIpClassOfService'' ''unsigned8'',
     element 0 56 56 ''sourceMacAddress'' ''macAddress'',
     element 0 57 57 ''postDestinationMacAddress'' ''macAddress'',
     element 0 58 58 ''vlanId'' ''unsigned16'',
     element 0 59 59 ''postVlanId'' ''unsigned16'',
     element 0 60 60 ''ipVersion'' ''unsigned8'',
     element 0 61 61 ''flowDirection'' ''unsigned8'',
     element 0 62 62 ''ipNextHopIPv6Address'' ''ipv6Address'',
     element 0 63 63 ''bgpNextHopIPv6Address'' ''ipv6Address'',
     element 0 64 64 ''ipv6ExtensionHeaders'' ''unsigned32'',
     element 0 70 70 ''mplsTopLabelStackSection'' ''octetArray'',
     element 0 71 71 ''mplsLabelStackSection2'' ''octetArray'',
     element 0 72 72 ''mplsLabelStackSection3'' ''octetArray'',
     element 0 73 73 ''mplsLabelStackSection4'' ''octetArray'',
     element 0 74 74 ''mplsLabelStackSection5'' ''octetArray'',
     element 0 75 75 ''mplsLabelStackSection6'' ''octetArray'',
     element 0 76 76 ''mplsLabelStackSection7'' ''octetArray'',
     element 0 77 77 ''mplsLabelStackSection8'' ''octetArray'',
     element 0 78 78 ''mplsLabelStackSection9'' ''octetArray'',
     element 0 79 79 ''mplsLabelStackSection10'' ''octetArray'',
     element 0 80 80 ''destinationMacAddress'' ''macAddress'',
     element 0 81 81 ''postSourceMacAddress'' ''macAddress'',
     element 0 82 82 ''interfaceName'' ''string'',
     element 0 83 83 ''interfaceDescription'' ''string'',
     element 0 84 84 ''samplerName'' ''string'',
     element 0 85 85 ''octetTotalCount'' ''unsigned64'',
     element 0 86 86 ''packetTotalCount'' ''unsigned64'',
     element 0 87 87 ''flagsAndSamplerId'' ''unsigned32'',
     element 0 88 88 ''fragmentOffset'' ''unsigned16'',
     element 0 89 89 ''forwardingStatus'' ''unsigned32'',
     element 0 90 90 ''mplsVpnRouteDistinguisher'' ''octetArray'',
     element 0 91 91 ''mplsTopLabelPrefixLength'' ''unsigned8'',
     element 0 92 92 ''srcTrafficIndex'' ''unsigned32'',
     element 0 93 93 ''dstTrafficIndex'' ''unsigned32'',
     element 0 94 94 ''applicationDescription'' ''string'',
     element 0 95 95 ''applicationId'' ''octetArray'',
     element 0 96 96 ''applicationName'' ''string'',
     element 0 98 98 ''postIpDiffServCodePoint'' ''unsigned8'',
     element 0 99 99 ''multicastReplicationFactor'' ''unsigned32'',
     element 0 100 100 ''className'' ''string'',
     element 0 101 101 ''classificationEngineId'' ''unsigned8'',
     element 0 102 102 ''layer2packetSectionOffset'' ''unsigned16'',
     element 0 103 103 ''layer2packetSectionSize'' ''unsigned16'',
     element 0 104 104 ''layer2packetSectionData'' ''octetArray'',
     element 0 128 128 ''bgpNextAdjacentAsNumber'' ''unsigned32'',
     element 0 129 129 ''bgpPrevAdjacentAsNumber'' ''unsigned32'',
     element 0 130 130 ''exporterIPv4Address'' ''ipv4Address'',
     element 0 131 131 ''exporterIPv6Address'' ''ipv6Address'',
     element 0 132 132 ''droppedOctetDeltaCount'' ''unsigned64'',
     element 0 133 133 ''droppedPacketDeltaCount'' ''unsigned64'',
     element 0 134 134 ''droppedOctetTotalCount'' ''unsigned64'',
     element 0 135 135 ''droppedPacketTotalCount'' ''unsigned64'',
     element 0 136 136 ''flowEndReason'' ''unsigned8'',
     element 0 137 137 ''commonPropertiesId'' ''unsigned64'',
     element 0 138 138 ''observationPointId'' ''unsigned64'',
     element 0 139 139 ''icmpTypeCodeIPv6'' ''unsigned16'']"

definition builtin_rfc5102_2 :: "(Key \<times> InformationElementEntry) list" where
  "builtin_rfc5102_2 = [
     element 0 140 140 ''mplsTopLabelIPv6Address'' ''ipv6Address'',
     element 0 141 141 ''lineCardId'' ''unsigned32'',
     element 0 142 142 ''portId'' ''unsigned32'',
     element 0 143 143 ''meteringProcessId'' ''unsigned32'',
     element 0 144 144 ''exportingProcessId'' ''unsigned32'',
     element 0 145 145 ''templateId'' ''unsigned16'',
     element 0 146 146 ''wlanChannelId'' ''unsigned8'',
     element 0 147 147 ''wlanSSID'' ''string'',
     element 0 148 148 ''flowId'' ''unsigned64'',
     element 0 149 149 ''observationDomainId'' ''unsigned32'',
     element 0 150 150 ''flowStartSeconds'' ''dateTimeSeconds'',
     element 0 151 151 ''flowEndSeconds'' ''dateTimeSeconds'',
     element 0 152 152 ''flowStartMilliseconds'' ''dateTimeMilliseconds'',
     element 0 153 153 ''flowEndMilliseconds'' ''dateTimeMilliseconds'',
     element 0 154 154 ''flowStartMicroseconds'' ''dateTimeMicroseconds'',
     element 0 155 155 ''flowEndMicroseconds'' ''dateTimeMicroseconds'',
     element 0 156 156 ''flowStartNanoseconds'' ''dateTimeNanoseconds'',
     element 0 157 157 ''flowEndNanoseconds'' ''dateTimeNanoseconds'',
     element 0 158 158 ''flowStartDeltaMicroseconds'' ''unsigned32'',
     element 0 159 159 ''flowEndDeltaMicroseconds'' ''unsigned32'',
     element 0 160 160 ''systemInitTimeMilliseconds'' ''dateTimeMilliseconds'',
     element 0 161 161 ''flowDurationMilliseconds'' ''unsigned32'',
     element 0 162 162 ''flowDurationMicroseconds'' ''unsigned32'',
     element 0 163 163 ''observedFlowTotalCount'' ''unsigned64'',
     element 0 164 164 ''ignoredPacketTotalCount'' ''unsigned64'',
     element 0 165 165 ''ignoredOctetTotalCount'' ''unsigned64'',
     element 0 166 166 ''notSentFlowTotalCount'' ''unsigned64'',
     element 0 167 167 ''notSentPacketTotalCount'' ''unsigned64'',
     element 0 168 168 ''notSentOctetTotalCount'' ''unsigned64'',
     element 0 169 169 ''destinationIPv6Prefix'' ''ipv6Address'',
     element 0 170 170 ''sourceIPv6Prefix'' ''ipv6Address'',
     element 0 171 171 ''postOctetTotalCount'' ''unsigned64'',
     element 0 172 172 ''postPacketTotalCount'' ''unsigned64'',
     element 0 173 173 ''flowKeyIndicator'' ''unsigned64'',
     element 0 174 174 ''postMCastPacketTotalCount'' ''unsigned64'',
     element 0 175 175 ''postMCastOctetTotalCount'' ''unsigned64'',
     element 0 176 176 ''icmpTypeIPv4'' ''unsigned8'',
     element 0 177 177 ''icmpCodeIPv4'' ''unsigned8'',
     element 0 178 178 ''icmpTypeIPv6'' ''unsigned8'',
     element 0 179 179 ''icmpCodeIPv6'' ''unsigned8'',
     element 0 180 180 ''udpSourcePort'' ''unsigned16'',
     element 0 181 181 ''udpDestinationPort'' ''unsigned16'',
     element 0 182 182 ''tcpSourcePort'' ''unsigned16'',
     element 0 183 183 ''tcpDestinationPort'' ''unsigned16'',
     element 0 184 184 ''tcpSequenceNumber'' ''unsigned32'',
     element 0 185 185 ''tcpAcknowledgementNumber'' ''unsigned32'',
     element 0 186 186 ''tcpWindowSize'' ''unsigned16'',
     element 0 187 187 ''tcpUrgentPointer'' ''unsigned16'',
     element 0 188 188 ''tcpHeaderLength'' ''unsigned8'',
     element 0 189 189 ''ipHeaderLength'' ''unsigned8'',
     element 0 190 190 ''totalLengthIPv4'' ''unsigned16'',
     element 0 191 191 ''payloadLengthIPv6'' ''unsigned16'',
     element 0 192 192 ''ipTTL'' ''unsigned8'',
     element 0 193 193 ''nextHeaderIPv6'' ''unsigned8'',
     element 0 194 194 ''mplsPayloadLength'' ''unsigned32'',
     element 0 195 195 ''ipDiffServCodePoint'' ''unsigned8'',
     element 0 196 196 ''ipPrecedence'' ''unsigned8'',
     element 0 197 197 ''fragmentFlags'' ''unsigned8'',
     element 0 198 198 ''octetDeltaSumOfSquares'' ''unsigned64'',
     element 0 199 199 ''octetTotalSumOfSquares'' ''unsigned64'',
     element 0 200 200 ''mplsTopLabelTTL'' ''unsigned8'',
     element 0 201 201 ''mplsLabelStackLength'' ''unsigned32'',
     element 0 202 202 ''mplsLabelStackDepth'' ''unsigned32'',
     element 0 203 203 ''mplsTopLabelExp'' ''unsigned8'',
     element 0 204 204 ''ipPayloadLength'' ''unsigned32'',
     element 0 205 205 ''udpMessageLength'' ''unsigned16'',
     element 0 206 206 ''isMulticast'' ''unsigned8'',
     element 0 207 207 ''ipv4IHL'' ''unsigned8'',
     element 0 208 208 ''ipv4Options'' ''unsigned32'',
     element 0 209 209 ''tcpOptions'' ''unsigned64'',
     element 0 210 210 ''paddingOctets'' ''octetArray'',
     element 0 211 211 ''collectorIPv4Address'' ''ipv4Address'',
     element 0 212 212 ''collectorIPv6Address'' ''ipv6Address'',
     element 0 213 213 ''exportInterface'' ''unsigned32'',
     element 0 214 214 ''exportProtocolVersion'' ''unsigned8'',
     element 0 215 215 ''exportTransportProtocol'' ''unsigned8'',
     element 0 216 216 ''collectorTransportPort'' ''unsigned16'',
     element 0 217 217 ''exporterTransportPort'' ''unsigned16'',
     element 0 218 218 ''tcpSynTotalCount'' ''unsigned64'',
     element 0 219 219 ''tcpFinTotalCount'' ''unsigned64'',
     element 0 220 220 ''tcpRstTotalCount'' ''unsigned64'',
     element 0 221 221 ''tcpPshTotalCount'' ''unsigned64'',
     element 0 222 222 ''tcpAckTotalCount'' ''unsigned64'',
     element 0 223 223 ''tcpUrgTotalCount'' ''unsigned64'',
     element 0 224 224 ''ipTotalLength'' ''unsigned64'',
     element 0 225 225 ''postNATSourceIPv4Address'' ''ipv4Address'',
     element 0 226 226 ''postNATDestinationIPv4Address'' ''ipv4Address'',
     element 0 227 227 ''postNAPTSourceTransportPort'' ''unsigned16'',
     element 0 228 228 ''postNAPTDestinationTransportPort'' ''unsigned16'',
     element 0 229 229 ''natOriginatingAddressRealm'' ''unsigned8'',
     element 0 230 230 ''natEvent'' ''unsigned8'',
     element 0 231 231 ''initiatorOctets'' ''unsigned64'',
     element 0 232 232 ''responderOctets'' ''unsigned64'',
     element 0 233 233 ''firewallEvent'' ''unsigned8'',
     element 0 234 234 ''ingressVRFID'' ''unsigned32'',
     element 0 235 235 ''egressVRFID'' ''unsigned32'',
     element 0 236 236 ''VRFname'' ''string'',
     element 0 237 237 ''postMplsTopLabelExp'' ''unsigned8'',
     element 0 238 238 ''tcpWindowScale'' ''unsigned16'',
     element 0 239 239 ''biflowDirection'' ''unsigned8'',
     element 0 240 240 ''ethernetHeaderLength'' ''unsigned8'',
     element 0 241 241 ''ethernetPayloadLength'' ''unsigned16'',
     element 0 242 242 ''ethernetTotalLength'' ''unsigned16'',
     element 0 243 243 ''dot1qVlanId'' ''unsigned16'',
     element 0 244 244 ''dot1qPriority'' ''unsigned8'',
     element 0 245 245 ''dot1qCustomerVlanId'' ''unsigned16'',
     element 0 246 246 ''dot1qCustomerPriority'' ''unsigned8'',
     element 0 247 247 ''metroEvcId'' ''string'',
     element 0 248 248 ''metroEvcType'' ''unsigned8'',
     element 0 249 249 ''pseudoWireId'' ''unsigned32'']"

definition builtin_rfc5102_3 :: "(Key \<times> InformationElementEntry) list" where
  "builtin_rfc5102_3 = [
     element 0 250 250 ''pseudoWireType'' ''unsigned16'',
     element 0 251 251 ''pseudoWireControlWord'' ''unsigned32'',
     element 0 252 252 ''ingressPhysicalInterface'' ''unsigned32'',
     element 0 253 253 ''egressPhysicalInterface'' ''unsigned32'',
     element 0 254 254 ''postDot1qVlanId'' ''unsigned16'',
     element 0 255 255 ''postDot1qCustomerVlanId'' ''unsigned16'',
     element 0 256 256 ''ethernetType'' ''unsigned16'',
     element 0 257 257 ''postIpPrecedence'' ''unsigned8'',
     element 0 258 258 ''collectionTimeMilliseconds'' ''dateTimeMilliseconds'',
     element 0 259 259 ''exportSctpStreamId'' ''unsigned16'',
     element 0 260 260 ''maxExportSeconds'' ''dateTimeSeconds'',
     element 0 261 261 ''maxFlowEndSeconds'' ''dateTimeSeconds'',
     element 0 262 262 ''messageMD5Checksum'' ''octetArray'',
     element 0 263 263 ''messageScope'' ''unsigned8'',
     element 0 264 264 ''minExportSeconds'' ''dateTimeSeconds'',
     element 0 265 265 ''minFlowStartSeconds'' ''dateTimeSeconds'',
     element 0 266 266 ''opaqueOctets'' ''octetArray'',
     element 0 267 267 ''sessionScope'' ''unsigned8'',
     element 0 268 268 ''maxFlowEndMicroseconds'' ''dateTimeMicroseconds'',
     element 0 269 269 ''maxFlowEndMilliseconds'' ''dateTimeMilliseconds'',
     element 0 270 270 ''maxFlowEndNanoseconds'' ''dateTimeNanoseconds'',
     element 0 271 271 ''minFlowStartMicroseconds'' ''dateTimeMicroseconds'',
     element 0 272 272 ''minFlowStartMilliseconds'' ''dateTimeMilliseconds'',
     element 0 273 273 ''minFlowStartNanoseconds'' ''dateTimeNanoseconds'',
     element 0 274 274 ''collectorCertificate'' ''octetArray'',
     element 0 275 275 ''exporterCertificate'' ''octetArray'',
     element 0 276 276 ''dataRecordsReliability'' ''boolean'',
     element 0 277 277 ''observationPointType'' ''unsigned8'',
     element 0 278 278 ''newConnectionDeltaCount'' ''unsigned32'',
     element 0 279 279 ''connectionSumDurationSeconds'' ''unsigned64'',
     element 0 280 280 ''connectionTransactionId'' ''unsigned64'',
     element 0 281 281 ''postNATSourceIPv6Address'' ''ipv6Address'',
     element 0 282 282 ''postNATDestinationIPv6Address'' ''ipv6Address'',
     element 0 283 283 ''natPoolId'' ''unsigned32'',
     element 0 284 284 ''natPoolName'' ''string'',
     element 0 285 285 ''anonymizationFlags'' ''unsigned16'',
     element 0 286 286 ''anonymizationTechnique'' ''unsigned16'',
     element 0 287 287 ''informationElementIndex'' ''unsigned16'',
     element 0 288 288 ''p2pTechnology'' ''string'',
     element 0 289 289 ''tunnelTechnology'' ''string'',
     element 0 290 290 ''encryptedTechnology'' ''string'',
     element 0 291 291 ''basicList'' ''basicList'',
     element 0 292 292 ''subTemplateList'' ''subTemplateList'',
     element 0 293 293 ''subTemplateMultiList'' ''subTemplateMultiList'',
     element 0 294 294 ''bgpValidityState'' ''unsigned8'',
     element 0 295 295 ''IPSecSPI'' ''unsigned32'',
     element 0 296 296 ''greKey'' ''unsigned32'',
     element 0 297 297 ''natType'' ''unsigned8'',
     element 0 298 298 ''initiatorPackets'' ''unsigned64'',
     element 0 299 299 ''responderPackets'' ''unsigned64'',
     element 0 300 300 ''observationDomainName'' ''string'',
     element 0 301 301 ''selectionSequenceId'' ''unsigned64'',
     element 0 302 302 ''selectorId'' ''unsigned64'',
     element 0 303 303 ''informationElementId'' ''unsigned16'',
     element 0 304 304 ''selectorAlgorithm'' ''unsigned16'',
     element 0 305 305 ''samplingPacketInterval'' ''unsigned32'',
     element 0 306 306 ''samplingPacketSpace'' ''unsigned32'',
     element 0 307 307 ''samplingTimeInterval'' ''unsigned32'',
     element 0 308 308 ''samplingTimeSpace'' ''unsigned32'',
     element 0 309 309 ''samplingSize'' ''unsigned32'',
     element 0 310 310 ''samplingPopulation'' ''unsigned32'',
     element 0 311 311 ''samplingProbability'' ''float64'',
     element 0 312 312 ''dataLinkFrameSize'' ''unsigned16'',
     element 0 313 313 ''ipHeaderPacketSection'' ''octetArray'',
     element 0 314 314 ''ipPayloadPacketSection'' ''octetArray'',
     element 0 315 315 ''dataLinkFrameSection'' ''octetArray'',
     element 0 316 316 ''mplsLabelStackSection'' ''octetArray'',
     element 0 317 317 ''mplsPayloadPacketSection'' ''octetArray'',
     element 0 318 318 ''selectorIdTotalPktsObserved'' ''unsigned64'',
     element 0 319 319 ''selectorIdTotalPktsSelected'' ''unsigned64'',
     element 0 320 320 ''absoluteError'' ''float64'',
     element 0 321 321 ''relativeError'' ''float64'',
     element 0 322 322 ''observationTimeSeconds'' ''dateTimeSeconds'',
     element 0 323 323 ''observationTimeMilliseconds'' ''dateTimeMilliseconds'',
     element 0 324 324 ''observationTimeMicroseconds'' ''dateTimeMicroseconds'',
     element 0 325 325 ''observationTimeNanoseconds'' ''dateTimeNanoseconds'',
     element 0 326 326 ''digestHashValue'' ''unsigned64'',
     element 0 327 327 ''hashIPPayloadOffset'' ''unsigned64'',
     element 0 328 328 ''hashIPPayloadSize'' ''unsigned64'',
     element 0 329 329 ''hashOutputRangeMin'' ''unsigned64'',
     element 0 330 330 ''hashOutputRangeMax'' ''unsigned64'',
     element 0 331 331 ''hashSelectedRangeMin'' ''unsigned64'',
     element 0 332 332 ''hashSelectedRangeMax'' ''unsigned64'',
     element 0 333 333 ''hashDigestOutput'' ''boolean'',
     element 0 334 334 ''hashInitialiserValue'' ''unsigned64'',
     element 0 335 335 ''selectorName'' ''string'',
     element 0 336 336 ''upperCILimit'' ''float64'',
     element 0 337 337 ''lowerCILimit'' ''float64'',
     element 0 338 338 ''confidenceLevel'' ''float64'',
     element 0 339 339 ''informationElementDataType'' ''unsigned8'',
     element 0 340 340 ''informationElementDescription'' ''string'',
     element 0 341 341 ''informationElementName'' ''string'',
     element 0 342 342 ''informationElementRangeBegin'' ''unsigned64'',
     element 0 343 343 ''informationElementRangeEnd'' ''unsigned64'',
     element 0 344 344 ''informationElementSemantics'' ''unsigned8'',
     element 0 345 345 ''informationElementUnits'' ''unsigned16'',
     element 0 346 346 ''privateEnterpriseNumber'' ''unsigned32'',
     element 0 347 347 ''virtualStationInterfaceId'' ''octetArray'',
     element 0 348 348 ''virtualStationInterfaceName'' ''string'',
     element 0 349 349 ''virtualStationUUID'' ''octetArray'',
     element 0 350 350 ''virtualStationName'' ''string'',
     element 0 351 351 ''layer2SegmentId'' ''unsigned64'',
     element 0 352 352 ''layer2OctetDeltaCount'' ''unsigned64'',
     element 0 353 353 ''layer2OctetTotalCount'' ''unsigned64'',
     element 0 354 354 ''ingressUnicastPacketTotalCount'' ''unsigned64'',
     element 0 355 355 ''ingressMulticastPacketTotalCount'' ''unsigned64'',
     element 0 356 356 ''ingressBroadcastPacketTotalCount'' ''unsigned64'',
     element 0 357 357 ''egressUnicastPacketTotalCount'' ''unsigned64'',
     element 0 358 358 ''egressBroadcastPacketTotalCount'' ''unsigned64'',
     element 0 359 359 ''monitoringIntervalStartMilliSeconds'' ''dateTimeMilliseconds'']"

definition builtin_rfc5102_4 :: "(Key \<times> InformationElementEntry) list" where
  "builtin_rfc5102_4 = [
     element 0 360 360 ''monitoringIntervalEndMilliSeconds'' ''dateTimeMilliseconds'',
     element 0 361 361 ''portRangeStart'' ''unsigned16'',
     element 0 362 362 ''portRangeEnd'' ''unsigned16'',
     element 0 363 363 ''portRangeStepSize'' ''unsigned16'',
     element 0 364 364 ''portRangeNumPorts'' ''unsigned16'',
     element 0 365 365 ''staMacAddress'' ''macAddress'',
     element 0 366 366 ''staIPv4Address'' ''ipv4Address'',
     element 0 367 367 ''wtpMacAddress'' ''macAddress'',
     element 0 368 368 ''ingressInterfaceType'' ''unsigned32'',
     element 0 369 369 ''egressInterfaceType'' ''unsigned32'',
     element 0 370 370 ''rtpSequenceNumber'' ''unsigned16'',
     element 0 371 371 ''userName'' ''string'',
     element 0 372 372 ''applicationCategoryName'' ''string'',
     element 0 373 373 ''applicationSubCategoryName'' ''string'',
     element 0 374 374 ''applicationGroupName'' ''string'',
     element 0 375 375 ''originalFlowsPresent'' ''unsigned64'',
     element 0 376 376 ''originalFlowsInitiated'' ''unsigned64'',
     element 0 377 377 ''originalFlowsCompleted'' ''unsigned64'',
     element 0 378 378 ''distinctCountOfSourceIPAddress'' ''unsigned64'',
     element 0 379 379 ''distinctCountOfDestinationIPAddress'' ''unsigned64'',
     element 0 380 380 ''distinctCountOfSourceIPv4Address'' ''unsigned32'',
     element 0 381 381 ''distinctCountOfDestinationIPv4Address'' ''unsigned32'',
     element 0 382 382 ''distinctCountOfSourceIPv6Address'' ''unsigned64'',
     element 0 383 383 ''distinctCountOfDestinationIPv6Address'' ''unsigned64'',
     element 0 384 384 ''valueDistributionMethod'' ''unsigned8'',
     element 0 385 385 ''rfc3550JitterMilliseconds'' ''unsigned32'',
     element 0 386 386 ''rfc3550JitterMicroseconds'' ''unsigned32'',
     element 0 387 387 ''rfc3550JitterNanoseconds'' ''unsigned32'',
     element 0 388 388 ''dot1qDEI'' ''boolean'',
     element 0 389 389 ''dot1qCustomerDEI'' ''boolean'',
     element 0 390 390 ''flowSelectorAlgorithm'' ''unsigned16'',
     element 0 391 391 ''flowSelectedOctetDeltaCount'' ''unsigned64'',
     element 0 392 392 ''flowSelectedPacketDeltaCount'' ''unsigned64'',
     element 0 393 393 ''flowSelectedFlowDeltaCount'' ''unsigned64'',
     element 0 394 394 ''selectorIDTotalFlowsObserved'' ''unsigned64'',
     element 0 395 395 ''selectorIDTotalFlowsSelected'' ''unsigned64'',
     element 0 396 396 ''samplingFlowInterval'' ''unsigned64'',
     element 0 397 397 ''samplingFlowSpacing'' ''unsigned64'',
     element 0 398 398 ''flowSamplingTimeInterval'' ''unsigned64'',
     element 0 399 399 ''flowSamplingTimeSpacing'' ''unsigned64'',
     element 0 400 400 ''hashFlowDomain'' ''unsigned16'',
     element 0 401 401 ''transportOctetDeltaCount'' ''unsigned64'',
     element 0 402 402 ''transportPacketDeltaCount'' ''unsigned64'',
     element 0 403 403 ''originalExporterIPv4Address'' ''ipv4Address'',
     element 0 404 404 ''originalExporterIPv6Address'' ''ipv6Address'',
     element 0 405 405 ''originalObservationDomainId'' ''unsigned32'',
     element 0 406 406 ''intermediateProcessId'' ''unsigned32'',
     element 0 407 407 ''ignoredDataRecordTotalCount'' ''unsigned64'',
     element 0 408 408 ''dataLinkFrameType'' ''unsigned16'',
     element 0 409 409 ''sectionOffset'' ''unsigned16'',
     element 0 410 410 ''sectionExportedOctets'' ''unsigned16'',
     element 0 411 411 ''dot1qServiceInstanceTag'' ''octetArray'',
     element 0 412 412 ''dot1qServiceInstanceId'' ''unsigned32'',
     element 0 413 413 ''dot1qServiceInstancePriority'' ''unsigned8'',
     element 0 414 414 ''dot1qCustomerSourceMacAddress'' ''macAddress'',
     element 0 415 415 ''dot1qCustomerDestinationMacAddress'' ''macAddress'',
     element 0 417 417 ''postLayer2OctetDeltaCount'' ''unsigned64'',
     element 0 418 418 ''postMCastLayer2OctetDeltaCount'' ''unsigned64'',
     element 0 420 420 ''postLayer2OctetTotalCount'' ''unsigned64'',
     element 0 421 421 ''postMCastLayer2OctetTotalCount'' ''unsigned64'',
     element 0 422 422 ''minimumLayer2TotalLength'' ''unsigned64'',
     element 0 423 423 ''maximumLayer2TotalLength'' ''unsigned64'',
     element 0 424 424 ''droppedLayer2OctetDeltaCount'' ''unsigned64'',
     element 0 425 425 ''droppedLayer2OctetTotalCount'' ''unsigned64'',
     element 0 426 426 ''ignoredLayer2OctetTotalCount'' ''unsigned64'',
     element 0 427 427 ''notSentLayer2OctetTotalCount'' ''unsigned64'',
     element 0 428 428 ''layer2OctetDeltaSumOfSquares'' ''unsigned64'',
     element 0 429 429 ''layer2OctetTotalSumOfSquares'' ''unsigned64'',
     element 0 430 430 ''layer2FrameDeltaCount'' ''unsigned64'',
     element 0 431 431 ''layer2FrameTotalCount'' ''unsigned64'',
     element 0 432 432 ''pseudoWireDestinationIPv4Address'' ''ipv4Address'',
     element 0 433 433 ''ignoredLayer2FrameTotalCount'' ''unsigned64'',
     element 0 434 434 ''mibObjectValueInteger'' ''signed32'',
     element 0 435 435 ''mibObjectValueOctetString'' ''octetArray'',
     element 0 436 436 ''mibObjectValueOID'' ''octetArray'',
     element 0 437 437 ''mibObjectValueBits'' ''octetArray'',
     element 0 438 438 ''mibObjectValueIPAddress'' ''ipv4Address'',
     element 0 439 439 ''mibObjectValueCounter'' ''unsigned64'',
     element 0 440 440 ''mibObjectValueGauge'' ''unsigned32'',
     element 0 441 441 ''mibObjectValueTimeTicks'' ''unsigned32'',
     element 0 442 442 ''mibObjectValueUnsigned'' ''unsigned32'',
     element 0 443 443 ''mibObjectValueTable'' ''subTemplateList'',
     element 0 444 444 ''mibObjectValueRow'' ''subTemplateList'',
     element 0 445 445 ''mibObjectIdentifier'' ''octetArray'',
     element 0 446 446 ''mibSubIdentifier'' ''unsigned32'',
     element 0 447 447 ''mibIndexIndicator'' ''unsigned64'',
     element 0 448 448 ''mibCaptureTimeSemantics'' ''unsigned8'',
     element 0 449 449 ''mibContextEngineID'' ''octetArray'',
     element 0 450 450 ''mibContextName'' ''string'',
     element 0 451 451 ''mibObjectName'' ''string'',
     element 0 452 452 ''mibObjectDescription'' ''string'',
     element 0 453 453 ''mibObjectSyntax'' ''string'',
     element 0 454 454 ''mibModuleName'' ''string'',
     element 0 455 455 ''mobileIMSI'' ''string'',
     element 0 456 456 ''mobileMSISDN'' ''string'',
     element 0 457 457 ''httpStatusCode'' ''unsigned16'',
     element 0 458 458 ''sourceTransportPortsLimit'' ''unsigned16'',
     element 0 459 459 ''httpRequestMethod'' ''string'',
     element 0 460 460 ''httpRequestHost'' ''string'',
     element 0 461 461 ''httpRequestTarget'' ''string'',
     element 0 462 462 ''httpMessageVersion'' ''string'',
     element 0 463 463 ''natInstanceID'' ''unsigned32'',
     element 0 464 464 ''internalAddressRealm'' ''octetArray'',
     element 0 465 465 ''externalAddressRealm'' ''octetArray'',
     element 0 466 466 ''natQuotaExceededEvent'' ''unsigned32'',
     element 0 467 467 ''natThresholdEvent'' ''unsigned32'',
     element 0 468 468 ''httpUserAgent'' ''string'',
     element 0 469 469 ''httpContentType'' ''string'',
     element 0 470 470 ''httpReasonPhrase'' ''string'']"

definition builtin_silverpeak :: "(Key \<times> InformationElementEntry) list" where
  "builtin_silverpeak = [
     element 23867 1 1 ''silverpeakClientIpv4Address'' ''ipv4Address'',
     element 23867 2 2 ''silverpeakServerIpv4Address'' ''ipv4Address'',
     element 23867 3 3 ''silverpeakConnectionServerOctetDeltaCount'' ''unsigned64'',
     element 23867 4 4 ''silverpeakConnectionServerPacketDeltaCount'' ''unsigned64'',
     element 23867 5 5 ''silverpeakConnectionClientOctetDeltaCount'' ''unsigned64'',
     element 23867 6 6 ''silverpeakConnectionClientPacketDeltaCount'' ''unsigned64'',
     element 23867 7 7 ''silverpeakConnectionInitiator'' ''ipv4Address'',
     element 23867 8 8 ''silverpeakApplicationHttHost'' ''string'',
     element 23867 9 9 ''silverpeakConnectionNumberOfConnections'' ''unsigned8'',
     element 23867 10 10 ''silverpeakConnectionServerResponsesCount'' ''unsigned8'',
     element 23867 11 11 ''silverpeakConnectionServerResponseDelay'' ''unsigned32'',
     element 23867 12 12 ''silverpeakConnectionNetworkToServerDelay'' ''unsigned32'',
     element 23867 13 13 ''silverpeakConnectionNetworkToClientDelay'' ''unsigned32'',
     element 23867 14 14 ''silverpeakConnectionClientPacketRetransmissionCount'' ''unsigned32'',
     element 23867 15 15 ''silverpeakConnectionClientToServerNetworkDelay'' ''unsigned32'',
     element 23867 16 16 ''silverpeakConnectionApplicationDelay'' ''unsigned32'',
     element 23867 17 17 ''silverpeakConnectionClientToServerResponseDelay'' ''unsigned32'',
     element 23867 18 18 ''silverpeakConnectionTransactionDuration'' ''unsigned32'',
     element 23867 19 19 ''silverpeakConnectionTransactionDurationMin'' ''unsigned32'',
     element 23867 20 20 ''silverpeakConnectionTransactionDurationMax'' ''unsigned32'',
     element 23867 21 21 ''silverpeakConnectionTransactionCompleteCount'' ''unsigned8'',
     element 23867 22 22 ''silverpeakFromZone'' ''string'',
     element 23867 23 23 ''silverpeakToZone'' ''string'',
     element 23867 24 24 ''silverpeakTag'' ''string'',
     element 23867 25 25 ''silverpeakOverlay'' ''string'',
     element 23867 26 26 ''silverpeakDirection'' ''string'',
     element 23867 27 27 ''silverpeakApplicationCategory'' ''string'']"

definition builtin_versa :: "(Key \<times> InformationElementEntry) list" where
  "builtin_versa = [
     element 42359 519 519 ''versaAppID'' ''unsigned32'',
     element 42359 522 522 ''versaTenantID'' ''unsigned16'',
     element 42359 540 540 ''versaEventType'' ''unsigned16'',
     element 42359 574 574 ''versaApplianceID'' ''unsigned16'']"

definition builtin_viptela :: "(Key \<times> InformationElementEntry) list" where
  "builtin_viptela = [
     element 41916 4321 4321 ''viptelaVpnId'' ''unsigned64'',
     element 41916 4322 4321 ''viptelaMystery'' ''unsigned32'']"

text \<open>What is in the map when the reverse elements are added, and what is added later.\<close>

definition builtin_before :: "(Key \<times> InformationElementEntry) list" where
  "builtin_before = builtin_a10 @ builtin_cert @ builtin_cisco_1 @ builtin_cisco_2 @ builtin_cisco_3 @ builtin_gigamon @ builtin_nprobe @ builtin_paloalto @ builtin_rfc5102_1 @ builtin_rfc5102_2 @ builtin_rfc5102_3 @ builtin_rfc5102_4"

definition builtin_after :: "(Key \<times> InformationElementEntry) list" where
  "builtin_after = builtin_silverpeak @ builtin_versa @ builtin_viptela"

section \<open>Reverse elements\<close>

definition reversePEN :: u32 where
  "reversePEN = 29305"

definition not_reversible :: "u16 list" where
  "not_reversible = [148, 145, 149, 137, 130, 131, 217, 211, 212, 213, 214, 215, 216, 173,
     41, 40, 42, 163, 164, 165, 166, 167, 168, 210]"

definition to_upper :: "char \<Rightarrow> char" where
  "to_upper c = (let n = of_char c :: nat in if 97 \<le> n \<and> n \<le> 122 then char_of (n - 32) else c)"

definition reverse_entry :: "InformationElementEntry \<Rightarrow> InformationElementEntry" where
  "reverse_entry v = v\<lparr>ie_Name := ''reverse'' @ map to_upper (take 1 (ie_Name v)) @ drop 1 (ie_Name v),
     ie_EnterpriseID := reversePEN\<rparr>"

text \<open>
  The loop over the map: entries it adds have an enterprise number and are skipped, so that the order in
  which Go visits the keys does not matter.
\<close>

definition with_reverse :: "informationElements \<Rightarrow> informationElements" where
  "with_reverse m k =
     (if k_EnterpriseID k = reversePEN \<and> k_FieldID k \<notin> set not_reversible
      then (case m (k\<lparr>k_EnterpriseID := 0\<rparr>) of Some v \<Rightarrow> Some (reverse_entry v) | None \<Rightarrow> m k)
      else m k)"

definition builtin :: informationElements where
  "builtin k =
     (case map_of (rev builtin_after) k of
        Some v \<Rightarrow> Some v
      | None \<Rightarrow> with_reverse (map_of (rev builtin_before)) k)"


section \<open>What the tables hold\<close>

lemma builtin_a10_enterprises: "list_all (\<lambda>(k, e). k_EnterpriseID k \<noteq> 29305) builtin_a10"
  by (simp add: builtin_a10_def element_def)

lemma builtin_cert_enterprises: "list_all (\<lambda>(k, e). k_EnterpriseID k \<noteq> 29305) builtin_cert"
  by (simp add: builtin_cert_def element_def)

lemma builtin_cisco_1_enterprises: "list_all (\<lambda>(k, e). k_EnterpriseID k \<noteq> 29305) builtin_cisco_1"
  by (simp add: builtin_cisco_1_def element_def)

lemma builtin_cisco_2_enterprises: "list_all (\<lambda>(k, e). k_EnterpriseID k \<noteq> 29305) builtin_cisco_2"
  by (simp add: builtin_cisco_2_def element_def)

lemma builtin_cisco_3_enterprises: "list_all (\<lambda>(k, e). k_EnterpriseID k \<noteq> 29305) builtin_cisco_3"
  by (simp add: builtin_cisco_3_def element_def)

lemma builtin_gigamon_enterprises: "list_all (\<lambda>(k, e). k_EnterpriseID k \<noteq> 29305) builtin_gigamon"
  by (simp add: builtin_gigamon_def element_def)

lemma builtin_nprobe_enterprises: "list_all (\<lambda>(k, e). k_EnterpriseID k \<noteq> 29305) builtin_nprobe"
  by (simp add: builtin_nprobe_def element_def)

lemma builtin_paloalto_enterprises: "list_all (\<lambda>(k, e). k_EnterpriseID k \<noteq> 29305) builtin_paloalto"
  by (simp add: builtin_paloalto_def element_def)

lemma builtin_rfc5102_1_enterprises: "list_all (\<lambda>(k, e). k_EnterpriseID k \<noteq> 29305) builtin_rfc5102_1"
  by (simp add: builtin_rfc5102_1_def element_def)

lemma builtin_rfc5102_2_enterprises: "list_all (\<lambda>(k, e). k_EnterpriseID k \<noteq> 29305) builtin_rfc5102_2"
  by (simp add: builtin_rfc5102_2_def element_def)

lemma builtin_rfc5102_3_enterprises: "list_all (\<lambda>(k, e). k_EnterpriseID k \<noteq> 29305) builtin_rfc5102_3"
  by (simp add: builtin_rfc5102_3_def element_def)

lemma builtin_rfc5102_4_enterprises: "list_all (\<lambda>(k, e). k_EnterpriseID k \<noteq> 29305) builtin_rfc5102_4"
  by (simp add: builtin_rfc5102_4_def element_def)

lemma builtin_silverpeak_enterprises: "list_all (\<lambda>(k, e). k_EnterpriseID k \<noteq> 29305 \<and> k_EnterpriseID k \<noteq> 0) builtin_silverpeak"
  by (simp add: builtin_silverpeak_def element_def)

lemma builtin_versa_enterprises: "list_all (\<lambda>(k, e). k_EnterpriseID k \<noteq> 29305 \<and> k_EnterpriseID k \<noteq> 0) builtin_versa"
  by (simp add: builtin_versa_def element_def)

lemma builtin_viptela_enterprises: "list_all (\<lambda>(k, e). k_EnterpriseID k \<noteq> 29305 \<and> k_EnterpriseID k \<noteq> 0) builtin_viptela"
  by (simp add: builtin_viptela_def element_def)

lemma before_enterprises: "list_all (\<lambda>(k, e). k_EnterpriseID k \<noteq> 29305) builtin_before"
  by (simp add: builtin_before_def builtin_a10_enterprises builtin_cert_enterprises builtin_cisco_1_enterprises builtin_cisco_2_enterprises builtin_cisco_3_enterprises builtin_gigamon_enterprises builtin_nprobe_enterprises builtin_paloalto_enterprises builtin_rfc5102_1_enterprises builtin_rfc5102_2_enterprises builtin_rfc5102_3_enterprises builtin_rfc5102_4_enterprises)

lemma after_enterprises: "list_all (\<lambda>(k, e). k_EnterpriseID k \<noteq> 29305 \<and> k_EnterpriseID k \<noteq> 0) builtin_after"
  by (simp add: builtin_after_def builtin_silverpeak_enterprises builtin_versa_enterprises builtin_viptela_enterprises)

lemma field_type_names:
  "FieldTypes ''unsigned8'' = FT_Uint8"
  "FieldTypes ''unsigned16'' = FT_Uint16"
  "FieldTypes ''unsigned32'' = FT_Uint32"
  "FieldTypes ''unsigned64'' = FT_Uint64"
  "FieldTypes ''signed8'' = FT_Int8"
  "FieldTypes ''signed16'' = FT_Int16"
  "FieldTypes ''signed32'' = FT_Int32"
  "FieldTypes ''signed64'' = FT_Int64"
  "FieldTypes ''float32'' = FT_Float32"
  "FieldTypes ''float64'' = FT_Float64"
  "FieldTypes ''boolean'' = FT_Boolean"
  "FieldTypes ''macAddress'' = FT_MacAddress"
  "FieldTypes ''octetArray'' = FT_OctetArray"
  "FieldTypes ''string'' = FT_String"
  "FieldTypes ''dateTimeSeconds'' = FT_DateTimeSeconds"
  "FieldTypes ''dateTimeMilliseconds'' = FT_DateTimeMilliseconds"
  "FieldTypes ''dateTimeMicroseconds'' = FT_DateTimeMicroseconds"
  "FieldTypes ''dateTimeNanoseconds'' = FT_DateTimeNanoseconds"
  "FieldTypes ''ipv4Address'' = FT_Ipv4Address"
  "FieldTypes ''ipv6Address'' = FT_Ipv6Address"
  "FieldTypes ''basicList'' = FT_Unknown"
  "FieldTypes ''ip4_addr'' = FT_Unknown"
  "FieldTypes ''octetarray'' = FT_Unknown"
  "FieldTypes ''subTemplateList'' = FT_Unknown"
  "FieldTypes ''subTemplateMultiList'' = FT_Unknown"
  "FieldTypes ''unsigned24'' = FT_Unknown"
  by (simp_all add: FieldTypes_def FieldTypes_list_def)

definition unknown_of :: "(Key \<times> InformationElementEntry) list \<Rightarrow> (int \<times> int) list" where
  "unknown_of es = map (\<lambda>(k, e). (uint (k_EnterpriseID k), uint (k_FieldID k))) (filter (\<lambda>(k, e). ie_Type e = FT_Unknown) es)"

lemma unknown_of_simps [simp]:
  "unknown_of [] = []"
  "unknown_of (element en key fid name typ # es) =
     (if FieldTypes typ = FT_Unknown then (uint en, uint key) # unknown_of es else unknown_of es)"
  by (simp_all add: unknown_of_def element_def)

lemma unknown_of_append [simp]: "unknown_of (es @ fs) = unknown_of es @ unknown_of fs"
  by (simp add: unknown_of_def)

lemma builtin_a10_types: "unknown_of builtin_a10 = []"
  by (simp add: field_type_names builtin_a10_def)

lemma builtin_cert_types: "unknown_of builtin_cert = []"
  by (simp add: field_type_names builtin_cert_def)

lemma builtin_cisco_1_types: "unknown_of builtin_cisco_1 = [(9, 8232), (5951, 192)]"
  by (simp add: field_type_names builtin_cisco_1_def)

lemma builtin_cisco_2_types: "unknown_of builtin_cisco_2 = [(5951, 200), (5951, 203), (5951, 248)]"
  by (simp add: field_type_names builtin_cisco_2_def)

lemma builtin_cisco_3_types: "unknown_of builtin_cisco_3 = [(5951, 363), (5951, 383)]"
  by (simp add: field_type_names builtin_cisco_3_def)

lemma builtin_gigamon_types: "unknown_of builtin_gigamon = []"
  by (simp add: field_type_names builtin_gigamon_def)

lemma builtin_nprobe_types: "unknown_of builtin_nprobe = []"
  by (simp add: field_type_names builtin_nprobe_def)

lemma builtin_paloalto_types: "unknown_of builtin_paloalto = []"
  by (simp add: field_type_names builtin_paloalto_def)

lemma builtin_rfc5102_1_types: "unknown_of builtin_rfc5102_1 = []"
  by (simp add: field_type_names builtin_rfc5102_1_def)

lemma builtin_rfc5102_2_types: "unknown_of builtin_rfc5102_2 = []"
  by (simp add: field_type_names builtin_rfc5102_2_def)

lemma builtin_rfc5102_3_types: "unknown_of builtin_rfc5102_3 = [(0, 291), (0, 292), (0, 293)]"
  by (simp add: field_type_names builtin_rfc5102_3_def)

lemma builtin_rfc5102_4_types: "unknown_of builtin_rfc5102_4 = [(0, 443), (0, 444)]"
  by (simp add: field_type_names builtin_rfc5102_4_def)

lemma builtin_silverpeak_types: "unknown_of builtin_silverpeak = []"
  by (simp add: field_type_names builtin_silverpeak_def)

lemma builtin_versa_types: "unknown_of builtin_versa = []"
  by (simp add: field_type_names builtin_versa_def)

lemma builtin_viptela_types: "unknown_of builtin_viptela = []"
  by (simp add: field_type_names builtin_viptela_def)

lemmas chunk_types = builtin_a10_types builtin_cert_types builtin_cisco_1_types builtin_cisco_2_types builtin_cisco_3_types builtin_gigamon_types builtin_nprobe_types builtin_paloalto_types builtin_rfc5102_1_types builtin_rfc5102_2_types builtin_rfc5102_3_types builtin_rfc5102_4_types builtin_silverpeak_types builtin_versa_types builtin_viptela_types

lemma map_of_rev_None: "list_all (\<lambda>(k, e). k \<noteq> k') xs \<Longrightarrow> map_of (rev xs) k' = None"
  by (auto simp: map_of_eq_None_iff list_all_iff)

lemma before_reverse: "map_of (rev builtin_before) \<lparr>k_EnterpriseID = reversePEN, k_FieldID = f\<rparr> = None"
  using before_enterprises by (intro map_of_rev_None) (auto simp: list_all_iff reversePEN_def)

lemma after_other:
  "en = 0 \<or> en = reversePEN \<Longrightarrow> map_of (rev builtin_after) \<lparr>k_EnterpriseID = en, k_FieldID = f\<rparr> = None"
  using after_enterprises by (intro map_of_rev_None) (auto simp: list_all_iff reversePEN_def)

text \<open>
  Every element of the IANA registry in the tables has exactly one reverse element, under the enterprise
  number of RFC 5103, with the same id and the same type, except for the elements the RFC excludes, which
  have none.
\<close>

lemma builtin_reverse:
  "builtin \<lparr>k_EnterpriseID = reversePEN, k_FieldID = f\<rparr> =
     (if f \<in> set not_reversible then None
      else map_option (\<lambda>v. v\<lparr>ie_Name := ''reverse'' @ map to_upper (take 1 (ie_Name v)) @ drop 1 (ie_Name v),
             ie_EnterpriseID := reversePEN\<rparr>) (builtin \<lparr>k_EnterpriseID = 0, k_FieldID = f\<rparr>))"
proof -
  have pen: "reversePEN \<noteq> 0" by (simp add: reversePEN_def)
  then have "with_reverse m \<lparr>k_EnterpriseID = 0, k_FieldID = f\<rparr> = m \<lparr>k_EnterpriseID = 0, k_FieldID = f\<rparr>" for m
    by (simp add: with_reverse_def)
  with pen show ?thesis
    by (simp add: builtin_def after_other with_reverse_def before_reverse reverse_entry_def [abs_def] split: option.split)
qed

text \<open>
  The type of every table entry is one the translation knows, except for twelve entries: five of
  structured types of the registry, one of 24 bits, and the NetScaler entries whose type is misspelt
  (\<^verbatim>\<open>octetarray\<close> and \<^verbatim>\<open>ip4_addr\<close>). Values of these elements stay raw bytes.
\<close>

lemma builtin_types:
  "map (\<lambda>(k, e). (uint (k_EnterpriseID k), uint (k_FieldID k)))
     (filter (\<lambda>(k, e). ie_Type e = FT_Unknown) (builtin_before @ builtin_after)) =
   [(9, 8232), (5951, 192), (5951, 200), (5951, 203), (5951, 248), (5951, 363), (5951, 383), (0, 291), (0, 292), (0, 293), (0, 443), (0, 444)]"
  unfolding unknown_of_def [symmetric] by (simp add: builtin_before_def builtin_after_def chunk_types)

end
