(* ===== verification/Netflow_Format.thy ===== *)
theory Netflow_Format
  imports Netflow_Decoder Flow_Filter Go_Net Proto Element_Tables
begin

text \<open>
  Package \<^verbatim>\<open>pkg/formats/netflow\<close>: the serializer that sends flows on as IPFIX or NetFlow v9, and its reading side,
  which runs the decoder of \<^verbatim>\<open>util/netflow\<close> on the same bytes. The state of a format is the template session
  of its decoder and the tracker of the templates seen. The scratch buffer \<^verbatim>\<open>serBuf\<close> is reset before use and is
  left out, as are the log lines. The argument \<open>order\<close> is the order in which Go visits the protocol table
  (see \<^verbatim>\<open>Proto\<close>).
\<close>

section \<open>Field table and values\<close>

record nf_Field =
  nf_Type :: u16
  nf_Length :: u16

definition nf_fields :: "nf_Field list" where
  "nf_fields = [
     \<lparr>nf_Type = 4, nf_Length = 1\<rparr>,
     \<lparr>nf_Type = 5, nf_Length = 1\<rparr>,
     \<lparr>nf_Type = 6, nf_Length = 2\<rparr>,
     \<lparr>nf_Type = 56, nf_Length = 6\<rparr>,
     \<lparr>nf_Type = 80, nf_Length = 6\<rparr>,
     \<lparr>nf_Type = 8, nf_Length = 4\<rparr>,
     \<lparr>nf_Type = 12, nf_Length = 4\<rparr>,
     \<lparr>nf_Type = 7, nf_Length = 2\<rparr>,
     \<lparr>nf_Type = 11, nf_Length = 2\<rparr>,
     \<lparr>nf_Type = 27, nf_Length = 16\<rparr>,
     \<lparr>nf_Type = 28, nf_Length = 16\<rparr>,
     \<lparr>nf_Type = 16, nf_Length = 4\<rparr>,
     \<lparr>nf_Type = 17, nf_Length = 4\<rparr>,
     \<lparr>nf_Type = 10, nf_Length = 4\<rparr>,
     \<lparr>nf_Type = 14, nf_Length = 4\<rparr>,
     \<lparr>nf_Type = 1, nf_Length = 8\<rparr>,
     \<lparr>nf_Type = 23, nf_Length = 8\<rparr>,
     \<lparr>nf_Type = 2, nf_Length = 8\<rparr>,
     \<lparr>nf_Type = 24, nf_Length = 8\<rparr>,
     \<lparr>nf_Type = 138, nf_Length = 8\<rparr>,
     \<lparr>nf_Type = 150, nf_Length = 4\<rparr>,
     \<lparr>nf_Type = 151, nf_Length = 4\<rparr>]"

definition templateSet :: u16 where
  "templateSet = 2"

definition templateId :: u16 where
  "templateId = 256"

text \<open>The dynamic values \<^verbatim>\<open>encodeFlow\<close> hands to \<^verbatim>\<open>binary.Write\<close>; the absent value is an untyped nil.\<close>

datatype wire_value = W8 u8 | W16 u16 | W32 u32 | W64 u64 | WBytes bytes

fun binary_Write :: "wire_value option \<Rightarrow> bytes res" where
  "binary_Write (Some (W8 w)) = Inr [w]"
| "binary_Write (Some (W16 w)) = Inr (BigEndian_Put 2 w)"
| "binary_Write (Some (W32 w)) = Inr (BigEndian_Put 4 w)"
| "binary_Write (Some (W64 w)) = Inr (BigEndian_Put 8 w)"
| "binary_Write (Some (WBytes b)) = Inr b"
| "binary_Write None = Inl (Panic ''nil pointer dereference'')"

definition ip2int :: "bytes option \<Rightarrow> u32 \<times> bytes option" where
  "ip2int ip = (case ip of
     None \<Rightarrow> (0, None)
   | Some ip \<Rightarrow> (case IP_To4 ip of
       Some q \<Rightarrow> (BigEndian_Uint q, None)
     | None \<Rightarrow> (0, IP_To16 ip)))"

definition or_empty :: "nat \<Rightarrow> bytes option \<Rightarrow> bytes" where
  "or_empty n b = (case b of None \<Rightarrow> replicate n 0 | Some b \<Rightarrow> b)"

text \<open>The \<^verbatim>\<open>switch\<close> of \<^verbatim>\<open>encodeFlow\<close> on the type of a field.\<close>

definition field_value :: "(u16 \<times> string) list \<Rightarrow> JCHF \<Rightarrow> u16 \<Rightarrow> wire_value option" where
  "field_value order j ty =
     (let (src4, src6) = ip2int (ParseIP (j_SrcAddr j));
          (dst4, dst6) = ip2int (ParseIP (j_DstAddr j));
          smac = or_empty 6 (ParseMAC (j_SrcEthMac j));
          dmac = or_empty 6 (ParseMAC (j_DstEthMac j)) in
      if ty = 4 then Some (W8 (PROTO_NUMS order (j_Protocol j)))
      else if ty = 5 then Some (W8 (ucast (j_Tos j)))
      else if ty = 6 then Some (W16 (ucast (j_TcpFlags j)))
      else if ty = 56 then Some (WBytes (take 6 smac))
      else if ty = 80 then Some (WBytes (take 6 dmac))
      else if ty = 8 then Some (W32 src4)
      else if ty = 12 then Some (W32 dst4)
      else if ty = 7 then Some (W16 (ucast (j_L4SrcPort j)))
      else if ty = 11 then Some (W16 (ucast (j_L4DstPort j)))
      else if ty = 27 then Some (WBytes (or_empty 16 src6))
      else if ty = 28 then Some (WBytes (or_empty 16 dst6))
      else if ty = 16 then Some (W32 (j_SrcAs j))
      else if ty = 17 then Some (W32 (j_DstAs j))
      else if ty = 10 then Some (W32 (ucast (j_InputPort j)))
      else if ty = 14 then Some (W32 (ucast (j_OutputPort j)))
      else if ty = 1 then Some (W64 (j_InBytes j))
      else if ty = 23 then Some (W64 (j_OutBytes j))
      else if ty = 2 then Some (W64 (j_InPkts j))
      else if ty = 24 then Some (W64 (j_OutPkts j))
      else if ty = 138 then Some (W64 (push_bit 32 (j_CompanyId j AND 0xffff) + j_DeviceId j))
      else if ty = 150 then Some (W32 (ucast (j_Timestamp j)))
      else if ty = 151 then Some (W32 (ucast (j_Timestamp j + 60)))
      else None)"

definition encodeFlow :: "(u16 \<times> string) list \<Rightarrow> JCHF \<Rightarrow> bytes res" where
  "encodeFlow order j =
     map_sum id concat (res_all (map (\<lambda>fd. binary_Write (field_value order j (nf_Type fd))) nf_fields))"

definition encodeTemplate :: "u16 \<Rightarrow> bytes" where
  "encodeTemplate tempId = BigEndian_Put 2 tempId @ BigEndian_Put 2 (of_nat (length nf_fields) :: u16) @
     concat (map (\<lambda>fd. BigEndian_Put 2 (nf_Type fd) @ BigEndian_Put 2 (nf_Length fd)) nf_fields)"

section \<open>State and writing\<close>

type_synonym templateTracker = "u32 \<Rightarrow> (u16 \<Rightarrow> string option) option"

record NetflowFormat =
  nff_s :: nf_session
  nff_templateTracker :: templateTracker
  nff_version :: u16

definition newTemplateTracker :: templateTracker where
  "newTemplateTracker = Map.empty"

text \<open>\<^verbatim>\<open>NewFormat\<close>: the configuration is nil or carries the version name.\<close>

definition NetflowFormat_NewFormat :: "string \<Rightarrow> string option \<Rightarrow> NetflowFormat res" where
  "NetflowFormat_NewFormat compr cfg = (case cfg of
     None \<Rightarrow> Inl (Errorf ''netflow format cannot be nil'' [])
   | Some ver \<Rightarrow>
       let f = \<lambda>v. \<lparr>nff_s = session_New, nff_templateTracker = newTemplateTracker, nff_version = v\<rparr>;
           fin = \<lambda>v. if compr \<noteq> ''none'' then Inl (Errorf ''You cannot use compression on IPFix data.'' []) else Inr (f v) in
       if ver = ''ipfix'' then fin ipf_Version
       else if ver = ''netflow9'' then fin v9_Version
       else Inl (Errorf (''You used an unsupported netflow version: '' @ ver @ ''. Use netflow9 or ipfix.'') []))"

text \<open>The two packages have the same set header; for any other version nothing is written.\<close>

definition writeWithHeader :: "NetflowFormat \<Rightarrow> u16 \<Rightarrow> bytes \<Rightarrow> bytes" where
  "writeWithHeader f sid body =
     (if nff_version f = ipf_Version \<or> nff_version f = v9_Version
      then BigEndian_Put 2 sid @ BigEndian_Put 2 (of_nat (length body + 4) :: u16) @ body
      else [])"

definition write_padded :: "bytes \<Rightarrow> bytes" where
  "write_padded flow = flow @ (if length flow mod 4 > 0 then replicate (length flow mod 4) 0 else [])"

fun pack_flows :: "(u16 \<times> string) list \<Rightarrow> NetflowFormat \<Rightarrow> JCHF list \<Rightarrow> bytes \<Rightarrow> bytes res" where
  "pack_flows order f [] buf = Inr buf"
| "pack_flows order f (m # msgs) buf =
     (case encodeFlow order m of
        Inl e \<Rightarrow> Inl e
      | Inr flow \<Rightarrow> pack_flows order f msgs (buf @ writeWithHeader f templateId (write_padded flow)))"

definition packIpfix :: "(u16 \<times> string) list \<Rightarrow> NetflowFormat \<Rightarrow> JCHF list \<Rightarrow> Output option res" where
  "packIpfix order f msgs =
     (if msgs = [] then Inr None
      else
        let dataBuf = writeWithHeader f templateSet (encodeTemplate templateId) in
        case pack_flows order f msgs dataBuf of
          Inl e \<Rightarrow> Inl e
        | Inr dataBuf \<Rightarrow>
            Inr (Some (NewOutput
              (BigEndian_Put 2 (nff_version f) @ BigEndian_Put 2 (of_nat (length dataBuf + 16) :: u16) @
               BigEndian_Put 4 (0 :: u32) @ BigEndian_Put 4 (0 :: u32) @ BigEndian_Put 4 (0 :: u32) @ dataBuf))))"

definition pack9 :: "(u16 \<times> string) list \<Rightarrow> NetflowFormat \<Rightarrow> JCHF list \<Rightarrow> Output option res" where
  "pack9 order f flows =
     (let buf = BigEndian_Put 2 v9_Version @ BigEndian_Put 2 (of_nat (length flows + 1) :: u16) @
            BigEndian_Put 4 (0 :: u32) @ BigEndian_Put 4 (0 :: u32) @ BigEndian_Put 4 (0 :: u32) @ BigEndian_Put 4 (0 :: u32);
          buf = buf @ writeWithHeader f 0 (encodeTemplate templateId) in
      case pack_flows order f flows buf of
        Inl e \<Rightarrow> Inl e
      | Inr buf \<Rightarrow> Inr (Some (NewOutput buf)))"

definition NetflowFormat_To :: "(u16 \<times> string) list \<Rightarrow> NetflowFormat \<Rightarrow> JCHF list \<Rightarrow> Output option res" where
  "NetflowFormat_To order f msgs =
     (if nff_version f = v9_Version then pack9 order f msgs
      else if nff_version f = ipf_Version then packIpfix order f msgs
      else Inl (Errorf ''You used an unsupported version.'' []))"

section \<open>Template tracking\<close>

definition addTemplate :: "u32 \<Rightarrow> u16 \<Rightarrow> string \<Rightarrow> NetflowFormat \<Rightarrow> NetflowFormat" where
  "addTemplate srcId tid templateStr f =
     (let tt = nff_templateTracker f;
          tt = (if tt srcId = None then tt(srcId \<mapsto> Map.empty) else tt);
          m = the (tt srcId) in
      if templateStr \<noteq> (case m tid of None \<Rightarrow> '''' | Some s \<Rightarrow> s)
      then f\<lparr>nff_templateTracker := tt(srcId \<mapsto> m(tid \<mapsto> templateStr))\<rparr>
      else f\<lparr>nff_templateTracker := tt\<rparr>)"

definition ipfix_field_String :: "ipf_FieldSpecifier \<Rightarrow> string" where
  "ipfix_field_String fs = nat_Itoa (unat (fs_EnterpriseNumber fs)) @ '':'' @ nat_Itoa (unat (fs_InformationElementID fs)) @
     '' ('' @ nat_Itoa (unat (fs_Length fs)) @ ''), ''"

definition addIpfixTemplate :: "u32 \<Rightarrow> ipf_TemplateRecord \<Rightarrow> NetflowFormat \<Rightarrow> NetflowFormat" where
  "addIpfixTemplate srcId tr f =
     addTemplate srcId (tr_TemplateID tr) (concat (map ipfix_field_String (tr_Fields tr))) f"

definition addIpfixOptionsTemplate :: "u32 \<Rightarrow> ipf_OptionsTemplateRecord \<Rightarrow> NetflowFormat \<Rightarrow> NetflowFormat" where
  "addIpfixOptionsTemplate srcId otr f =
     addTemplate srcId (otr_TemplateID otr)
       (''options scope: '' @ concat (map ipfix_field_String (otr_ScopeFields otr)) @
        ''data: '' @ concat (map ipfix_field_String (otr_Fields otr))) f"

definition v9_field_String :: "v9_FieldSpecifier \<Rightarrow> string" where
  "v9_field_String fs = nat_Itoa (unat (v9fs_Type fs)) @ '' ('' @ nat_Itoa (unat (v9fs_Length fs)) @ ''), ''"

definition addV9Template :: "u32 \<Rightarrow> v9_TemplateRecord \<Rightarrow> NetflowFormat \<Rightarrow> NetflowFormat" where
  "addV9Template srcId tr f =
     addTemplate srcId (v9tr_TemplateID tr) (concat (map v9_field_String (v9tr_Fields tr))) f"

definition addV9OptionsTemplate :: "u32 \<Rightarrow> v9_OptionsTemplateRecord \<Rightarrow> NetflowFormat \<Rightarrow> NetflowFormat" where
  "addV9OptionsTemplate srcId otr f =
     addTemplate srcId (v9otr_TemplateID otr)
       (''options scope: '' @ concat (map v9_field_String (v9otr_ScopeFields otr)) @
        ''data: '' @ concat (map v9_field_String (v9otr_Fields otr))) f"

section \<open>Reading\<close>

text \<open>
  \<^verbatim>\<open>setCHFField\<close>: a failed type assertion returns false, here \<open>None\<close>. \<^verbatim>\<open>Time.Unix\<close> gives the seconds of a time.
\<close>

definition setCHFField :: "JCHF \<Rightarrow> u16 \<Rightarrow> go_value option \<Rightarrow> JCHF option" where
  "setCHFField j eid v =
     (if eid = 4 then (case v of Some (V_uint8 w) \<Rightarrow> Some (j\<lparr>j_Protocol := PROTO_NAMES (ucast w)\<rparr>) | _ \<Rightarrow> None)
      else if eid = 5 then (case v of Some (V_uint8 w) \<Rightarrow> Some (j\<lparr>j_Tos := ucast w\<rparr>) | _ \<Rightarrow> None)
      else if eid = 6 then (case v of Some (V_uint16 w) \<Rightarrow> Some (j\<lparr>j_TcpFlags := ucast w\<rparr>) | _ \<Rightarrow> None)
      else if eid = 7 then (case v of Some (V_uint16 w) \<Rightarrow> Some (j\<lparr>j_L4SrcPort := ucast w\<rparr>) | _ \<Rightarrow> None)
      else if eid = 11 then (case v of Some (V_uint16 w) \<Rightarrow> Some (j\<lparr>j_L4DstPort := ucast w\<rparr>) | _ \<Rightarrow> None)
      else if eid = 8 then (case v of Some (V_ip ip) \<Rightarrow>
             Some (if IP_String ip \<noteq> ''0.0.0.0'' then j\<lparr>j_SrcAddr := IP_String ip\<rparr> else j) | _ \<Rightarrow> None)
      else if eid = 12 then (case v of Some (V_ip ip) \<Rightarrow>
             Some (if IP_String ip \<noteq> ''0.0.0.0'' then j\<lparr>j_DstAddr := IP_String ip\<rparr> else j) | _ \<Rightarrow> None)
      else if eid = 27 then (case v of Some (V_ip ip) \<Rightarrow>
             Some (if IP_String ip \<noteq> ''::'' then j\<lparr>j_SrcAddr := IP_String ip\<rparr> else j) | _ \<Rightarrow> None)
      else if eid = 28 then (case v of Some (V_ip ip) \<Rightarrow>
             Some (if IP_String ip \<noteq> ''::'' then j\<lparr>j_DstAddr := IP_String ip\<rparr> else j) | _ \<Rightarrow> None)
      else if eid = 10 then (case v of Some (V_uint32 w) \<Rightarrow> Some (j\<lparr>j_InputPort := ucast w\<rparr>) | _ \<Rightarrow> None)
      else if eid = 14 then (case v of Some (V_uint32 w) \<Rightarrow> Some (j\<lparr>j_OutputPort := ucast w\<rparr>) | _ \<Rightarrow> None)
      else if eid = 16 then (case v of Some (V_uint32 w) \<Rightarrow> Some (j\<lparr>j_SrcAs := w\<rparr>) | _ \<Rightarrow> None)
      else if eid = 17 then (case v of Some (V_uint32 w) \<Rightarrow> Some (j\<lparr>j_DstAs := w\<rparr>) | _ \<Rightarrow> None)
      else if eid = 2 then (case v of Some (V_uint64 w) \<Rightarrow> Some (j\<lparr>j_InPkts := w\<rparr>) | _ \<Rightarrow> None)
      else if eid = 1 then (case v of Some (V_uint64 w) \<Rightarrow> Some (j\<lparr>j_InBytes := w\<rparr>) | _ \<Rightarrow> None)
      else if eid = 24 then (case v of Some (V_uint64 w) \<Rightarrow> Some (j\<lparr>j_OutPkts := w\<rparr>) | _ \<Rightarrow> None)
      else if eid = 23 then (case v of Some (V_uint64 w) \<Rightarrow> Some (j\<lparr>j_OutBytes := w\<rparr>) | _ \<Rightarrow> None)
      else if eid = 56 then (case v of Some (V_mac m) \<Rightarrow> Some (j\<lparr>j_SrcEthMac := HardwareAddr_String m\<rparr>) | _ \<Rightarrow> None)
      else if eid = 80 then (case v of Some (V_mac m) \<Rightarrow> Some (j\<lparr>j_DstEthMac := HardwareAddr_String m\<rparr>) | _ \<Rightarrow> None)
      else if eid = 150 then (case v of Some (V_time ns) \<Rightarrow> Some (j\<lparr>j_Timestamp := word_of_int (ns div 1000000000)\<rparr>) | _ \<Rightarrow> None)
      else Some j)"

fun setCHFFields :: "(u16 \<times> go_value option) option list \<Rightarrow> JCHF \<Rightarrow> JCHF option" where
  "setCHFFields [] res = Some res"
| "setCHFFields (None # fs) res = setCHFFields fs res"
| "setCHFFields (Some (eid, v) # fs) res =
     (case setCHFField res eid v of None \<Rightarrow> None | Some res \<Rightarrow> setCHFFields fs res)"

definition decodeIpfixRecord :: "DataRecord \<Rightarrow> JCHF option" where
  "decodeIpfixRecord dr =
     setCHFFields (map (\<lambda>f. map_option (\<lambda>tf. (tf_InformationElementID tf, tf_Value tf)) (f_Translated f)) (dr_Fields dr)) NewJCHF"

definition decodeIpfix :: "Message \<Rightarrow> NetflowFormat \<Rightarrow> NetflowFormat \<times> JCHF list" where
  "decodeIpfix msg f =
     (fold (\<lambda>dt. fold (addIpfixTemplate (mh_ObservationDomainID (m_Header msg))) (ts_Records dt)) (m_TemplateSets msg) f,
      concat (map (\<lambda>ds. List.map_filter decodeIpfixRecord (ds_Records ds)) (m_DataSets msg)))"

definition decodeV9Record :: "v9_DataRecord \<Rightarrow> JCHF option" where
  "decodeV9Record dr =
     setCHFFields (map (\<lambda>f. map_option (\<lambda>tf. (v9tf_Type tf, v9tf_Value tf)) (v9f_Translated f)) (v9dr_Fields dr)) NewJCHF"

definition decodeV9 :: "v9_Packet \<Rightarrow> NetflowFormat \<Rightarrow> NetflowFormat \<times> JCHF list" where
  "decodeV9 msg f =
     (fold (\<lambda>dt. fold (addV9Template (v9ph_SourceID (v9p_Header msg))) (tfs_Records dt)) (v9p_TemplateFlowSets msg) f,
      concat (map (\<lambda>ds. List.map_filter decodeV9Record (dfs_Records ds)) (v9p_DataFlowSets msg)))"

text \<open>\<^verbatim>\<open>From\<close>: the format afterwards with the maps of the flows or the error; \<open>None\<close> is a decoder that does not return.\<close>

definition NetflowFormat_From :: "NetflowFormat \<Rightarrow> Output \<Rightarrow> (NetflowFormat \<times> jval gomap list res) option" where
  "NetflowFormat_From f raw =
     (case decoder_Read builtin (o_Body raw) (Some (nff_s f)) of
        None \<Rightarrow> None
      | Some (m, s, err) \<Rightarrow>
          let f = f\<lparr>nff_s := the s\<rparr>;
              fin = \<lambda>(f, chfs). (f, map_sum id (map snd) (res_all (map ToMap chfs))) in
          (case err of
             Some e \<Rightarrow> Some (f, Inl e)
           | None \<Rightarrow>
               (case m of
                  Some (NF9 p) \<Rightarrow> Some (fin (decodeV9 p f))
                | Some (NFIPFIX p) \<Rightarrow> Some (fin (decodeIpfix p f))
                | _ \<Rightarrow> Some (f, Inl (Errorf ''ipfix parser failed to decode a message: %v: %v'' [])))))"

text \<open>\<^verbatim>\<open>Rollup\<close> is not implemented for this format.\<close>

definition NetflowFormat_Rollup :: "'r list \<Rightarrow> Output option res" where
  "NetflowFormat_Rollup rolls = Inr None"

end
