(* ===== verification/Netflow_Format_Correct.thy ===== *)
theory Netflow_Format_Correct
  imports Netflow_Format
begin

text \<open>
  What the reading side of the NetFlow format makes of what the writing side sent: the bytes of a flow, the
  messages they are put into, and the flows that come back.
\<close>

section \<open>The bytes of a flow\<close>

text \<open>The encoded fields of a flow, in the order of the field table.\<close>

definition flow_chunks :: "(u16 \<times> string) list \<Rightarrow> JCHF \<Rightarrow> bytes list" where
  "flow_chunks order j =
     (let (src4, src6) = ip2int (ParseIP (j_SrcAddr j)); (dst4, dst6) = ip2int (ParseIP (j_DstAddr j)) in
      [[PROTO_NUMS order (j_Protocol j)],
       [ucast (j_Tos j)],
       BigEndian_Put 2 (ucast (j_TcpFlags j) :: u16),
       take 6 (or_empty 6 (ParseMAC (j_SrcEthMac j))),
       take 6 (or_empty 6 (ParseMAC (j_DstEthMac j))),
       BigEndian_Put 4 src4,
       BigEndian_Put 4 dst4,
       BigEndian_Put 2 (ucast (j_L4SrcPort j) :: u16),
       BigEndian_Put 2 (ucast (j_L4DstPort j) :: u16),
       or_empty 16 src6,
       or_empty 16 dst6,
       BigEndian_Put 4 (j_SrcAs j),
       BigEndian_Put 4 (j_DstAs j),
       BigEndian_Put 4 (ucast (j_InputPort j) :: u32),
       BigEndian_Put 4 (ucast (j_OutputPort j) :: u32),
       BigEndian_Put 8 (j_InBytes j),
       BigEndian_Put 8 (j_OutBytes j),
       BigEndian_Put 8 (j_InPkts j),
       BigEndian_Put 8 (j_OutPkts j),
       BigEndian_Put 8 (push_bit 32 (j_CompanyId j AND 0xffff) + j_DeviceId j),
       BigEndian_Put 4 (ucast (j_Timestamp j) :: u32),
       BigEndian_Put 4 (ucast (j_Timestamp j + 60) :: u32)])"

lemma encodeFlow_chunks: "encodeFlow order j = Inr (concat (flow_chunks order j))"
  by (simp add: encodeFlow_def nf_fields_def field_value_def flow_chunks_def Let_def split: prod.split)

lemma length_or_empty:
  "length (take 6 (or_empty 6 (ParseMAC s))) = 6"
  "length (or_empty 16 (snd (ip2int (ParseIP s)))) = 16"
  using ParseMAC_length [of s] ParseIP_length [of s]
  by (auto simp: or_empty_def ip2int_def IP_To16_def split: option.split)

lemma flow_chunks_fields: "list_all2 (\<lambda>fd c. length c = unat (nf_Length fd)) nf_fields (flow_chunks order j)"
  using length_or_empty [of "j_SrcEthMac j"] length_or_empty [of "j_DstEthMac j"]
    length_or_empty [of "j_SrcAddr j"] length_or_empty [of "j_DstAddr j"]
  by (simp add: nf_fields_def flow_chunks_def Let_def case_prod_beta)

lemma flow_chunks_length: "length (concat (flow_chunks order j)) = 124"
proof -
  have "list_all2 (\<lambda>fd c. length c = unat (nf_Length fd)) fs cs \<Longrightarrow> length (concat cs) = (\<Sum>fd\<leftarrow>fs. unat (nf_Length fd))" for fs cs
    by (induction rule: list_all2_induct) auto
  from this [OF flow_chunks_fields] show ?thesis by (simp add: nf_fields_def)
qed

lemma pack_flows_eq:
  assumes "nff_version f = ipf_Version \<or> nff_version f = v9_Version"
  shows "pack_flows order f msgs buf =
     Inr (buf @ concat (map (\<lambda>m. BigEndian_Put 2 templateId @ BigEndian_Put 2 (128 :: u16) @ concat (flow_chunks order m)) msgs))"
  using assms
  by (induction msgs arbitrary: buf)
    (simp_all add: encodeFlow_chunks write_padded_def writeWithHeader_def flow_chunks_length)

section \<open>The types of the fields\<close>

text \<open>The elements of the registry are listed with ascending ids, so a lookup finds the entry that is listed.\<close>

lemma ascending_lookup:
  assumes "successively (<) (map (k_FieldID \<circ> fst) es)" and "(k, e) \<in> set es"
  shows "map_of (rev es) k = Some e"
proof -
  have "sorted_wrt (<) (map (k_FieldID \<circ> fst) es)"
    using assms(1) by (subst (asm) successively_conv_sorted_wrt) (auto simp: transp_def)
  then have "distinct (map (k_FieldID \<circ> fst) es)" by (simp add: strict_sorted_iff)
  then have "distinct (map fst es)" by (metis distinct_map list.map_comp)
  with assms(2) show ?thesis by (simp add: map_of_rev_distinct)
qed

lemma registry_ascending:
  "successively (<) (map (k_FieldID \<circ> fst) builtin_rfc5102_1)" "successively (<) (map (k_FieldID \<circ> fst) builtin_rfc5102_2)"
  by (simp_all add: builtin_rfc5102_1_def builtin_rfc5102_2_def element_def)

lemma high_ids:
  "list_all (\<lambda>(k, e). 138 < k_FieldID k) builtin_rfc5102_2" "list_all (\<lambda>(k, e). 151 < k_FieldID k) builtin_rfc5102_3" "list_all (\<lambda>(k, e). 151 < k_FieldID k) builtin_rfc5102_4"
  by (simp_all add: builtin_rfc5102_2_def builtin_rfc5102_3_def builtin_rfc5102_4_def element_def)

lemma builtin_low:
  assumes "f \<le> 151"
  shows "builtin \<lparr>k_EnterpriseID = 0, k_FieldID = f\<rparr> =
     map_of (rev (builtin_a10 @ builtin_cert @ builtin_cisco_1 @ builtin_cisco_2 @ builtin_cisco_3 @ builtin_gigamon @
       builtin_nprobe @ builtin_paloalto @ builtin_rfc5102_1 @ builtin_rfc5102_2)) \<lparr>k_EnterpriseID = 0, k_FieldID = f\<rparr>"
proof -
  have none: "list_all (\<lambda>(k, e). 151 < k_FieldID k) xs \<Longrightarrow> map_of (rev xs) \<lparr>k_EnterpriseID = 0, k_FieldID = f\<rparr> = None" for xs
    using assms by (intro map_of_rev_None) (auto simp: list_all_iff)
  show ?thesis
    by (simp add: builtin_def after_other with_reverse_def reversePEN_def builtin_before_def map_add_def
        none [OF high_ids(2)] none [OF high_ids(3)])
qed

lemma registry_listed_1:
  "element 0 1 1 ''octetDeltaCount'' ''unsigned64'' \<in> set builtin_rfc5102_1"
  "element 0 2 2 ''packetDeltaCount'' ''unsigned64'' \<in> set builtin_rfc5102_1"
  "element 0 4 4 ''protocolIdentifier'' ''unsigned8'' \<in> set builtin_rfc5102_1"
  "element 0 5 5 ''ipClassOfService'' ''unsigned8'' \<in> set builtin_rfc5102_1"
  "element 0 6 6 ''tcpControlBits'' ''unsigned16'' \<in> set builtin_rfc5102_1"
  "element 0 7 7 ''sourceTransportPort'' ''unsigned16'' \<in> set builtin_rfc5102_1"
  "element 0 8 8 ''sourceIPv4Address'' ''ipv4Address'' \<in> set builtin_rfc5102_1"
  "element 0 10 10 ''ingressInterface'' ''unsigned32'' \<in> set builtin_rfc5102_1"
  "element 0 11 11 ''destinationTransportPort'' ''unsigned16'' \<in> set builtin_rfc5102_1"
  "element 0 12 12 ''destinationIPv4Address'' ''ipv4Address'' \<in> set builtin_rfc5102_1"
  "element 0 14 14 ''egressInterface'' ''unsigned32'' \<in> set builtin_rfc5102_1"
  "element 0 16 16 ''bgpSourceAsNumber'' ''unsigned32'' \<in> set builtin_rfc5102_1"
  "element 0 17 17 ''bgpDestinationAsNumber'' ''unsigned32'' \<in> set builtin_rfc5102_1"
  "element 0 23 23 ''postOctetDeltaCount'' ''unsigned64'' \<in> set builtin_rfc5102_1"
  "element 0 24 24 ''postPacketDeltaCount'' ''unsigned64'' \<in> set builtin_rfc5102_1"
  "element 0 27 27 ''sourceIPv6Address'' ''ipv6Address'' \<in> set builtin_rfc5102_1"
  "element 0 28 28 ''destinationIPv6Address'' ''ipv6Address'' \<in> set builtin_rfc5102_1"
  "element 0 56 56 ''sourceMacAddress'' ''macAddress'' \<in> set builtin_rfc5102_1"
  "element 0 80 80 ''destinationMacAddress'' ''macAddress'' \<in> set builtin_rfc5102_1"
  "element 0 138 138 ''observationPointId'' ''unsigned64'' \<in> set builtin_rfc5102_1"
  by (simp_all add: builtin_rfc5102_1_def)

lemma registry_listed_2:
  "element 0 150 150 ''flowStartSeconds'' ''dateTimeSeconds'' \<in> set builtin_rfc5102_2"
  "element 0 151 151 ''flowEndSeconds'' ''dateTimeSeconds'' \<in> set builtin_rfc5102_2"
  by (simp_all add: builtin_rfc5102_2_def)

lemma listed_types:
  "element 0 f fid nm typ \<in> set builtin_rfc5102_1 \<Longrightarrow> f \<le> 138 \<Longrightarrow>
     map_option ie_Type (builtin \<lparr>k_EnterpriseID = 0, k_FieldID = f\<rparr>) = Some (FieldTypes typ)"
  "element 0 f fid nm typ \<in> set builtin_rfc5102_2 \<Longrightarrow> f \<le> 151 \<Longrightarrow>
     map_option ie_Type (builtin \<lparr>k_EnterpriseID = 0, k_FieldID = f\<rparr>) = Some (FieldTypes typ)"
proof -
  let ?k = "\<lparr>k_EnterpriseID = 0, k_FieldID = f\<rparr>" and ?e = "\<lparr>ie_Name = nm, ie_FieldID = fid, ie_EnterpriseID = 0, ie_Type = FieldTypes typ\<rparr>"
  { assume "element 0 f fid nm typ \<in> set builtin_rfc5102_1" and f: "f \<le> 138"
    then have "map_of (rev builtin_rfc5102_1) ?k = Some ?e"
      by (intro ascending_lookup [OF registry_ascending(1)]) (simp add: element_def)
    moreover have "map_of (rev builtin_rfc5102_2) ?k = None"
      using high_ids(1) f by (intro map_of_rev_None) (auto simp: list_all_iff)
    moreover have "f \<le> 151" using f by (rule order_trans) simp
    ultimately show "map_option ie_Type (builtin ?k) = Some (FieldTypes typ)"
      by (simp add: builtin_low map_add_def) }
  { assume "element 0 f fid nm typ \<in> set builtin_rfc5102_2" and f: "f \<le> 151"
    then have "map_of (rev builtin_rfc5102_2) ?k = Some ?e"
      by (intro ascending_lookup [OF registry_ascending(2)]) (simp add: element_def)
    then show "map_option ie_Type (builtin ?k) = Some (FieldTypes typ)"
      using f by (simp add: builtin_low map_add_def) }
qed

lemma format_element_types:
  "map (\<lambda>fd. map_option ie_Type (builtin \<lparr>k_EnterpriseID = 0, k_FieldID = nf_Type fd\<rparr>)) nf_fields =
   map Some [FT_Uint8, FT_Uint8, FT_Uint16, FT_MacAddress, FT_MacAddress, FT_Ipv4Address, FT_Ipv4Address,
     FT_Uint16, FT_Uint16, FT_Ipv6Address, FT_Ipv6Address, FT_Uint32, FT_Uint32, FT_Uint32, FT_Uint32,
     FT_Uint64, FT_Uint64, FT_Uint64, FT_Uint64, FT_Uint64, FT_DateTimeSeconds, FT_DateTimeSeconds]"
  by (simp add: nf_fields_def registry_listed_1 [THEN listed_types(1)] registry_listed_2 [THEN listed_types(2)] field_type_names
      del: option.map_disc_iff)

section \<open>What comes back of a flow\<close>

text \<open>
  An address comes back in its canonical spelling; one that is not an address, or is the unspecified address,
  comes back empty. A hardware address comes back as the spelling of its first six bytes.
\<close>

definition received_addr :: "string \<Rightarrow> string" where
  "received_addr s = (case ParseIP s of
     None \<Rightarrow> ''''
   | Some ip \<Rightarrow> if ip = replicate 16 0 \<or> ip = v4_prefix @ replicate 4 0 then '''' else IP_String ip)"

definition received_mac :: "string \<Rightarrow> string" where
  "received_mac s = HardwareAddr_String (case ParseMAC s of None \<Rightarrow> replicate 6 0 | Some m \<Rightarrow> take 6 m)"

definition received :: "(u16 \<times> string) list \<Rightarrow> JCHF \<Rightarrow> JCHF" where
  "received order j = NewJCHF\<lparr>
     j_Protocol := PROTO_NAMES (ucast (PROTO_NUMS order (j_Protocol j))),
     j_Tos := take_bit 8 (j_Tos j),
     j_TcpFlags := take_bit 16 (j_TcpFlags j),
     j_SrcEthMac := received_mac (j_SrcEthMac j),
     j_DstEthMac := received_mac (j_DstEthMac j),
     j_SrcAddr := received_addr (j_SrcAddr j),
     j_DstAddr := received_addr (j_DstAddr j),
     j_L4SrcPort := take_bit 16 (j_L4SrcPort j),
     j_L4DstPort := take_bit 16 (j_L4DstPort j),
     j_SrcAs := j_SrcAs j,
     j_DstAs := j_DstAs j,
     j_InputPort := take_bit 32 (j_InputPort j),
     j_OutputPort := take_bit 32 (j_OutputPort j),
     j_InBytes := j_InBytes j,
     j_OutBytes := j_OutBytes j,
     j_InPkts := j_InPkts j,
     j_OutPkts := j_OutPkts j,
     j_Timestamp := take_bit 32 (j_Timestamp j)\<rparr>"

text \<open>The two address fields together: version 4 first, version 6 second.\<close>

lemma received_addr_fields:
  fixes s :: string
  defines "s4 \<equiv> IP_String (BigEndian_Put 4 (fst (ip2int (ParseIP s))))"
    and "s6 \<equiv> IP_String (or_empty 16 (snd (ip2int (ParseIP s))))"
  shows "received_addr s = (if s6 = ''::'' then (if s4 = ''0.0.0.0'' then '''' else s4) else s6)"
proof -
  have z6: "IP_String (replicate 16 0) = ''::''"
    using IPv6_String_unspecified [of "replicate 16 0"] by (simp add: IP_String_def unspecified_not_4)
  have z4: "IP_String (BigEndian_Put 4 (0 :: u32)) = ''0.0.0.0''"
    by (simp add: BigEndian_Put_zero IP_String_4 replicate_zeros IPv4_String_zero)
  show ?thesis
  proof (cases "ParseIP s")
    case None
    then show ?thesis by (simp add: received_addr_def s4_def s6_def ip2int_def or_empty_def z4 z6)
  next
    case (Some ip)
    then have len: "length ip = 16" by (rule ParseIP_length)
    from IP_To4_cases [OF len] show ?thesis
    proof (elim disjE exE conjE)
      fix q
      assume q: "length q = 4" "ip = v4_prefix @ q" "IP_To4 ip = Some q"
      have s4: "s4 = IPv4_String q"
        using Some q BigEndian_Put_Uint [of q, where 'a = 32] by (simp add: s4_def ip2int_def IP_String_4)
      have s6: "s6 = ''::''"
        using Some q by (simp add: s6_def ip2int_def or_empty_def z6)
      have ip: "IP_String ip = IPv4_String q" "ip \<noteq> replicate 16 0"
        using q len unspecified_not_4 by (auto simp: IP_String_def)
      have "IPv4_String q = ''0.0.0.0'' \<longleftrightarrow> q = replicate 4 0"
        using q IPv4_String_inj [of q "replicate 4 0"] by (simp add: replicate_zeros IPv4_String_zero)
      with Some q ip show ?thesis by (simp add: received_addr_def s4 s6)
    next
      assume n: "take 12 ip \<noteq> v4_prefix" "IP_To4 ip = None"
      have s4: "s4 = ''0.0.0.0''"
        using Some n by (simp add: s4_def ip2int_def z4)
      have s6: "s6 = IPv6_String ip" "IP_String ip = IPv6_String ip"
        using Some n len by (auto simp: s6_def ip2int_def or_empty_def IP_To16_def IP_String_def)
      have "ip \<noteq> v4_prefix @ replicate 4 0"
        using n by (auto simp: v4_prefix_def)
      with Some s6 show ?thesis
        by (simp add: received_addr_def s4 IPv6_String_unspecified [OF len])
    qed
  qed
qed

lemma setCHFField_simps:
  "setCHFField r 4 (Some (V_uint8 w8)) = Some (r\<lparr>j_Protocol := PROTO_NAMES (ucast w8)\<rparr>)"
  "setCHFField r 5 (Some (V_uint8 w8)) = Some (r\<lparr>j_Tos := ucast w8\<rparr>)"
  "setCHFField r 6 (Some (V_uint16 w16)) = Some (r\<lparr>j_TcpFlags := ucast w16\<rparr>)"
  "setCHFField r 7 (Some (V_uint16 w16)) = Some (r\<lparr>j_L4SrcPort := ucast w16\<rparr>)"
  "setCHFField r 11 (Some (V_uint16 w16)) = Some (r\<lparr>j_L4DstPort := ucast w16\<rparr>)"
  "setCHFField r 8 (Some (V_ip ip)) = Some (r\<lparr>j_SrcAddr := if IP_String ip = ''0.0.0.0'' then j_SrcAddr r else IP_String ip\<rparr>)"
  "setCHFField r 12 (Some (V_ip ip)) = Some (r\<lparr>j_DstAddr := if IP_String ip = ''0.0.0.0'' then j_DstAddr r else IP_String ip\<rparr>)"
  "setCHFField r 27 (Some (V_ip ip)) = Some (r\<lparr>j_SrcAddr := if IP_String ip = ''::'' then j_SrcAddr r else IP_String ip\<rparr>)"
  "setCHFField r 28 (Some (V_ip ip)) = Some (r\<lparr>j_DstAddr := if IP_String ip = ''::'' then j_DstAddr r else IP_String ip\<rparr>)"
  "setCHFField r 10 (Some (V_uint32 w32)) = Some (r\<lparr>j_InputPort := ucast w32\<rparr>)"
  "setCHFField r 14 (Some (V_uint32 w32)) = Some (r\<lparr>j_OutputPort := ucast w32\<rparr>)"
  "setCHFField r 16 (Some (V_uint32 w32)) = Some (r\<lparr>j_SrcAs := w32\<rparr>)"
  "setCHFField r 17 (Some (V_uint32 w32)) = Some (r\<lparr>j_DstAs := w32\<rparr>)"
  "setCHFField r 2 (Some (V_uint64 w64)) = Some (r\<lparr>j_InPkts := w64\<rparr>)"
  "setCHFField r 1 (Some (V_uint64 w64)) = Some (r\<lparr>j_InBytes := w64\<rparr>)"
  "setCHFField r 24 (Some (V_uint64 w64)) = Some (r\<lparr>j_OutPkts := w64\<rparr>)"
  "setCHFField r 23 (Some (V_uint64 w64)) = Some (r\<lparr>j_OutBytes := w64\<rparr>)"
  "setCHFField r 56 (Some (V_mac m)) = Some (r\<lparr>j_SrcEthMac := HardwareAddr_String m\<rparr>)"
  "setCHFField r 80 (Some (V_mac m)) = Some (r\<lparr>j_DstEthMac := HardwareAddr_String m\<rparr>)"
  "setCHFField r 150 (Some (V_time ns)) = Some (r\<lparr>j_Timestamp := word_of_int (ns div 1000000000)\<rparr>)"
  "setCHFField r 138 v = Some r"
  "setCHFField r 151 v = Some r"
  by (simp_all add: setCHFField_def)

lemma translate_fixed:
  "translate_Bytes [w8] FT_Uint8 = V_uint8 w8"
  "translate_Bytes (BigEndian_Put 2 w16) FT_Uint16 = V_uint16 w16"
  "translate_Bytes (BigEndian_Put 4 w32) FT_Uint32 = V_uint32 w32"
  "translate_Bytes (BigEndian_Put 8 w64) FT_Uint64 = V_uint64 w64"
  "length b6 = 6 \<Longrightarrow> translate_Bytes b6 FT_MacAddress = V_mac b6"
  "length b4 = 4 \<Longrightarrow> translate_Bytes b4 FT_Ipv4Address = V_ip b4"
  "length b16 = 16 \<Longrightarrow> translate_Bytes b16 FT_Ipv6Address = V_ip b16"
  "translate_Bytes (BigEndian_Put 4 w32) FT_DateTimeSeconds = V_time (uint w32 * 1000000000)"
  by (simp_all add: translate_Bytes.simps reduced_or_raw_def reducedSizeReadUnsigned_def map_res_def
      BigEndian_Uint_Put time_Unix_def ucast_up_down)

definition field_type :: "nf_Field \<Rightarrow> FieldType" where
  "field_type fd = ie_Type (the (builtin \<lparr>k_EnterpriseID = 0, k_FieldID = nf_Type fd\<rparr>))"

lemma format_elements_known:
  assumes "fd \<in> set nf_fields"
  shows "\<exists>el. builtin \<lparr>k_EnterpriseID = 0, k_FieldID = nf_Type fd\<rparr> = Some el \<and> ie_Type el = field_type fd"
proof -
  have "map_option ie_Type (builtin \<lparr>k_EnterpriseID = 0, k_FieldID = nf_Type fd\<rparr>) \<in>
      set (map (\<lambda>fd. map_option ie_Type (builtin \<lparr>k_EnterpriseID = 0, k_FieldID = nf_Type fd\<rparr>)) nf_fields)"
    using assms by auto
  then have "map_option ie_Type (builtin \<lparr>k_EnterpriseID = 0, k_FieldID = nf_Type fd\<rparr>) \<noteq> None"
    unfolding format_element_types by auto
  then show ?thesis by (auto simp: field_type_def)
qed

lemma field_types:
  "map field_type nf_fields =
   [FT_Uint8, FT_Uint8, FT_Uint16, FT_MacAddress, FT_MacAddress, FT_Ipv4Address, FT_Ipv4Address,
     FT_Uint16, FT_Uint16, FT_Ipv6Address, FT_Ipv6Address, FT_Uint32, FT_Uint32, FT_Uint32, FT_Uint32,
     FT_Uint64, FT_Uint64, FT_Uint64, FT_Uint64, FT_Uint64, FT_DateTimeSeconds, FT_DateTimeSeconds]"
proof -
  have "map field_type fds = map (\<lambda>x. the x) (map (\<lambda>fd. map_option ie_Type (builtin \<lparr>k_EnterpriseID = 0, k_FieldID = nf_Type fd\<rparr>)) fds)"
    if "set fds \<subseteq> set nf_fields" for fds
    using that format_elements_known by (induction fds) force+
  from this [OF order_refl] show ?thesis unfolding format_element_types by simp
qed

definition flow_values :: "(u16 \<times> string) list \<Rightarrow> JCHF \<Rightarrow> (u16 \<times> go_value option) option list" where
  "flow_values order j =
     map2 (\<lambda>fd c. Some (nf_Type fd, Some (translate_Bytes c (field_type fd)))) nf_fields (flow_chunks order j)"

lemma setCHFFields_received: "setCHFFields (flow_values order j) NewJCHF = Some (received order j)"
proof -
  have mac: "received_mac s = HardwareAddr_String (take 6 (or_empty 6 (ParseMAC s)))" for s
    by (simp add: received_mac_def or_empty_def split: option.split)
  have time: "word_of_int (uint (ucast (w :: i64) :: u32)) = take_bit 32 w" for w
    using ucast_ucast_take_bit [of w, where 'b = 32] by simp
  have zero: "j_SrcAddr NewJCHF = []" "j_DstAddr NewJCHF = []" by (simp_all add: NewJCHF_def)
  note types = field_types [unfolded nf_fields_def, simplified]
  show ?thesis
    by (simp add: flow_values_def nf_fields_def flow_chunks_def Let_def case_prod_beta types translate_fixed length_or_empty length_or_empty(1) [simplified]
        setCHFField_simps received_def mac time received_addr_fields ucast_ucast_take_bit zero
        split del: if_split cong: if_cong)
qed

section \<open>IPFIX messages\<close>

abbreviation builtin_translate :: Translate where
  "builtin_translate \<equiv> \<lparr>elements = builtin\<rparr>"

definition ipf_field :: "nf_Field \<Rightarrow> ipf_FieldSpecifier" where
  "ipf_field fd = \<lparr>fs_InformationElementID = nf_Type fd, fs_Length = nf_Length fd, fs_EnterpriseNumber = 0,
     fs_EnterpriseBitSet = False\<rparr>"

definition ipf_format_template :: ipf_TemplateRecord where
  "ipf_format_template = \<lparr>tr_TemplateID = templateId, tr_FieldCount = 22, tr_Fields = map ipf_field nf_fields\<rparr>"

lemma encodeTemplate_ipfix: "encodeTemplate templateId = ipf_template_enc ipf_format_template"
  by (simp add: encodeTemplate_def ipf_template_enc_def ipf_format_template_def TemplateRecord_Bytes_def ipf_specifier_enc_def
      ipf_field_def nf_fields_def)

lemma length_encodeTemplate: "length (encodeTemplate templateId) = 92"
  by (simp add: encodeTemplate_def nf_fields_def)

lemma template_set_read: "TemplateSet_UnmarshalRecords (encodeTemplate templateId) = Some ([ipf_format_template], None)"
proof -
  have ok: "\<forall>fs \<in> set (tr_Fields ipf_format_template). ipf_specifier_ok fs"
    by (simp add: ipf_format_template_def ipf_specifier_ok_def ipf_field_def nf_fields_def EnterpriseBit_def)
  have "unat (tr_FieldCount ipf_format_template) = length (tr_Fields ipf_format_template)"
    by (simp add: ipf_format_template_def nf_fields_def)
  with ok have "TemplateRecord_Unmarshal (ipf_template_enc ipf_format_template @ []) = Inr (ipf_format_template, [])"
    by (intro ipf_template_dec_enc)
  then show ?thesis
    by (simp add: TemplateSet_UnmarshalRecords_def encodeTemplate_ipfix [symmetric] length_encodeTemplate
        unmarshal_loop_step unmarshal_loop_stop)
qed

lemma ipf_fields_run:
  assumes "list_all2 (\<lambda>fs c. fs_Length fs \<noteq> ipf_VariableLength \<and> length c = unat (fs_Length fs)) fss cs"
  shows "rseq (map Field_Unmarshal fss) (concat cs @ s) = Inr (map (\<lambda>c. \<lparr>f_Bytes = c, f_Translated = None\<rparr>) cs, s)"
  using assms
proof (induction rule: list_all2_induct)
  case Nil
  then show ?case by simp
next
  case (Cons fs fss c cs)
  have "buf_read (make_bytes (unat (fs_Length fs))) (c @ concat cs @ s) = Inr (c, concat cs @ s)"
    using Cons.hyps by (intro buf_read_app) simp
  with Cons show ?case by (simp add: Field_Unmarshal_def rbind_def)
qed

definition ipf_flow_record :: "(u16 \<times> string) list \<Rightarrow> JCHF \<Rightarrow> DataRecord" where
  "ipf_flow_record order j = \<lparr>dr_TemplateID = templateId,
     dr_Fields = map2 (translate_field builtin_translate) (map ipf_field nf_fields)
       (map (\<lambda>c. \<lparr>f_Bytes = c, f_Translated = None\<rparr>) (flow_chunks order j))\<rparr>"

lemma ipf_flow_decoded: "decodeIpfixRecord (ipf_flow_record order j) = Some (received order j)"
proof -
  have tr: "\<exists>z. f_Translated (translate_field builtin_translate (ipf_field fd) \<lparr>f_Bytes = c, f_Translated = None\<rparr>) = Some z \<and>
      tf_InformationElementID z = nf_Type fd \<and> tf_Value z = Some (translate_Bytes c (field_type fd))"
    if "fd \<in> set nf_fields" for fd c
    using format_elements_known [OF that] by (auto simp: translate_field_def ipf_field_def Translate_Key_def)
  have "map (\<lambda>f. map_option (\<lambda>tf. (tf_InformationElementID tf, tf_Value tf)) (f_Translated f))
      (dr_Fields (ipf_flow_record order j)) = flow_values order j"
    by (auto simp: ipf_flow_record_def flow_values_def zip_map1 zip_map2 intro!: tr dest: set_zip_leftD)
  then show ?thesis by (simp add: decodeIpfixRecord_def setCHFFields_received)
qed

lemma data_set_read:
  "DataSet_Unmarshal (concat (flow_chunks order j)) ipf_format_template (Some builtin_translate) =
     Some ([ipf_flow_record order j], None)"
proof -
  have fixed: "\<forall>fd \<in> set nf_fields. nf_Length fd \<noteq> ipf_VariableLength"
    by (simp add: nf_fields_def ipf_VariableLength_def)
  have "list_all2 (\<lambda>fs c. fs_Length fs \<noteq> ipf_VariableLength \<and> length c = unat (fs_Length fs))
      (map ipf_field nf_fields) (flow_chunks order j)"
    using flow_chunks_fields [of order j] fixed
    by (auto simp: list_all2_conv_all_nth ipf_field_def)
  from ipf_fields_run [OF this, of "[]"]
  have "DataRecord_Unmarshal (Some builtin_translate) ipf_format_template (concat (flow_chunks order j)) =
      Inr (ipf_flow_record order j, [])"
    by (simp add: DataRecord_Unmarshal_eq ipf_format_template_def ipf_flow_record_def translate_all_def)
  moreover have "0 < length (concat (flow_chunks order j))" by (simp only: flow_chunks_length)
  ultimately show ?thesis
    by (simp add: DataSet_Unmarshal_def eof_is_end_def unmarshal_loop_step unmarshal_loop_stop)
qed

definition flow_set :: "(u16 \<times> string) list \<Rightarrow> JCHF \<Rightarrow> bytes" where
  "flow_set order j = BigEndian_Put 2 templateId @ BigEndian_Put 2 (128 :: u16) @ concat (flow_chunks order j)"

lemma length_flow_set: "length (flow_set order j) = 128"
  by (simp add: flow_set_def flow_chunks_length del: length_concat)

lemma length_flow_sets: "length (concat (map (flow_set order) msgs)) = 128 * length msgs"
  by (induction msgs) (simp_all add: length_flow_set)

lemma take_flow_sets:
  "k \<le> length msgs \<Longrightarrow> take (128 * k) (concat (map (flow_set order) msgs)) = concat (map (flow_set order) (take k msgs))"
proof (induction msgs arbitrary: k)
  case (Cons m msgs)
  then show ?case by (cases k) (simp_all add: length_flow_set)
qed simp

lemma ipf_next_set_run:
  assumes "unat len = length body + 4" and "body \<noteq> []"
  shows "ipf_next_set i (BigEndian_Put 2 sid @ BigEndian_Put 2 len @ body @ rest) =
     Inr ((\<lparr>sh_ID = sid, sh_Length = len\<rparr>, body), rest)"
proof -
  have len: "uint len = int (length body) + 4"
    using assms(1) by (metis of_nat_add of_nat_numeral uint_nat)
  have "buf_read (make_bytes (length body)) (body @ rest) = Inr (body, rest)"
    by (intro buf_read_app) simp
  with len assms(2) show ?thesis
    by (simp add: ipf_next_set_def rbind_def SetHeader_Unmarshal_def be16.dec_enc SetHeader_Len_def)
qed

definition ipf_data_set :: "(u16 \<times> string) list \<Rightarrow> JCHF \<Rightarrow> DataSet" where
  "ipf_data_set order j = \<lparr>ds_Header = \<lparr>sh_ID = templateId, sh_Length = 128\<rparr>, ds_Bytes = [],
     ds_Records = [ipf_flow_record order j]\<rparr>"

lemma ipf_flow_set_run:
  assumes "session_get s (mh_ObservationDomainID (m_Header m)) templateId = Some (IpfixTemplate ipf_format_template)"
  shows "ipf_set i \<lparr>sh_ID = templateId, sh_Length = 128\<rparr> (concat (flow_chunks order j)) (Some builtin_translate) (m, s) =
     Some ((m\<lparr>m_DataSets := m_DataSets m @ [ipf_data_set order j]\<rparr>, s), None)"
proof -
  have "s \<noteq> None" using assms by (cases s) (simp_all add: session_get_def)
  with assms show ?thesis
    by (auto simp: ipf_set_def Let_def templateId_def data_set_read ipf_data_set_def Option.is_none_def)
qed

lemma ipf_sets_flows:
  assumes "session_get s (mh_ObservationDomainID (m_Header m)) templateId = Some (IpfixTemplate ipf_format_template)"
  shows "ipf_sets i (concat (map (flow_set order) js)) (Some builtin_translate) (m, s) =
     Some ((m\<lparr>m_DataSets := m_DataSets m @ map (ipf_data_set order) js\<rparr>, s), None)"
  using assms
proof (induction js arbitrary: i m)
  case Nil
  then show ?case by (simp add: ipf_sets.simps)
next
  case (Cons j js)
  let ?m = "m\<lparr>m_DataSets := m_DataSets m @ [ipf_data_set order j]\<rparr>"
  have ne: "concat (flow_chunks order j) \<noteq> []" using flow_chunks_length [of order j] by (metis list.size(3) zero_neq_numeral)
  have len: "unat (128 :: u16) = length (concat (flow_chunks order j)) + 4" by (simp only: flow_chunks_length) simp
  have "flow_set order j \<noteq> []" using length_flow_set [of order j] by auto
  moreover have "ipf_next_set i (flow_set order j @ concat (map (flow_set order) js)) =
      Inr ((\<lparr>sh_ID = templateId, sh_Length = 128\<rparr>, concat (flow_chunks order j)), concat (map (flow_set order) js))"
    using ipf_next_set_run [OF len ne] by (simp add: flow_set_def)
  moreover have "ipf_sets (Suc i) (concat (map (flow_set order) js)) (Some builtin_translate) (?m, s) =
      Some ((?m\<lparr>m_DataSets := m_DataSets ?m @ map (ipf_data_set order) js\<rparr>, s), None)"
    using Cons.prems by (intro Cons.IH) simp
  ultimately show ?case
    by (subst ipf_sets.simps) (simp add: ipf_flow_set_run [OF Cons.prems])
qed

lemma packIpfix_bytes:
  assumes "nff_version f = ipf_Version" and "msgs \<noteq> []"
  shows "packIpfix order f msgs = Inr (Some (NewOutput
     (BigEndian_Put 2 ipf_Version @ BigEndian_Put 2 (of_nat (112 + 128 * length msgs) :: u16) @
      BigEndian_Put 4 (0 :: u32) @ BigEndian_Put 4 (0 :: u32) @ BigEndian_Put 4 (0 :: u32) @
      BigEndian_Put 2 templateSet @ BigEndian_Put 2 (96 :: u16) @ encodeTemplate templateId @ concat (map (flow_set order) msgs))))"
proof -
  have "pack_flows order f msgs buf = Inr (buf @ concat (map (flow_set order) msgs))" for buf
    using pack_flows_eq [of f order msgs buf] assms(1) by (simp add: flow_set_def [abs_def])
  with assms show ?thesis
    by (simp add: packIpfix_def Let_def writeWithHeader_def length_encodeTemplate length_flow_sets add.commute
        del: length_concat)
qed

lemma wrapped_length: "unat (of_nat (112 + 128 * n) :: u16) = 112 + 128 * (n mod 512)"
proof -
  have "112 + 128 * n = 112 + 128 * (n mod 512) + 65536 * (n div 512)"
    using mult_div_mod_eq [of 512 n] by linarith
  then have "(112 + 128 * n) mod 65536 = (112 + 128 * (n mod 512)) mod 65536" by (metis mod_mult_self2)
  also have "\<dots> = 112 + 128 * (n mod 512)"
    using mod_less_divisor [of 512 n] by (intro mod_less) simp
  finally show ?thesis by (simp only: unsigned_of_nat take_bit_eq_mod) simp
qed

lemma MessageHeader_run:
  "MessageHeader_Unmarshal (BigEndian_Put 2 v @ BigEndian_Put 2 l @ BigEndian_Put 4 a @ BigEndian_Put 4 b @ BigEndian_Put 4 c @ s) =
     Inr (\<lparr>mh_Version = v, mh_Length = l, mh_ExportTime = a, mh_SequenceNumber = b, mh_ObservationDomainID = c\<rparr>, s)"
  by (simp add: MessageHeader_Unmarshal_def rbind_def rwrap_def be16.dec_enc be32.dec_enc)

lemma ToMap_received: "ToMap (received order j) =
    Inr ((received order j)\<lparr>j_avroSet := Some (map_of (ToMap_entries (received order j))), j_hasSetAvro := True\<rparr>,
      Some (map_of (ToMap_entries (received order j))))"
proof -
  have "\<not> j_hasSetAvro (received order j)" "j_avroSet (received order j) = Some Map.empty"
    by (simp_all add: received_def NewJCHF_def)
  then show ?thesis
    by (simp add: ToMap_def fold_map_upd map_of_rev_distinct [OF distinct_ToMap_keys] Let_def)
qed

lemma ToMaps_received:
  "map_sum id (map snd) (res_all (map ToMap (map (received order) js))) =
     Inr (map (\<lambda>j. Some (map_of (ToMap_entries (received order j)))) js)"
proof -
  have "res_all (map Inr xs) = Inr xs" for xs :: "(JCHF \<times> jval gomap) list"
    by (induction xs) simp_all
  from this [of "map (\<lambda>j. projr (ToMap (received order j))) js"] show ?thesis
    by (simp add: ToMap_received comp_def)
qed

lemma decoded_flows:
  "concat (map (\<lambda>ds. List.map_filter decodeIpfixRecord (ds_Records ds)) (map (ipf_data_set order) js)) = map (received order) js"
  by (induction js) (simp_all add: ipf_data_set_def List.map_filter_def ipf_flow_decoded)

lemma read_version:
  "decoder_Read b (BigEndian_Put 2 ipf_Version @ r) s =
     map_option (\<lambda>(m, s, e). (map_option NFIPFIX m, s, e)) (ipf_Read b (BigEndian_Put 2 ipf_Version @ r) s None)"
  "decoder_Read b (BigEndian_Put 2 v9_Version @ r) s =
     map_option (\<lambda>(m, s, e). (map_option NF9 m, s, e)) (v9_Read b (BigEndian_Put 2 v9_Version @ r) s None)"
  by (simp_all add: decoder_Read_def read_full_app BigEndian_Uint_Put Let_def ipf_Version_def v9_Version_def)

definition ipf_sent :: "(u16 \<times> string) list \<Rightarrow> JCHF list \<Rightarrow> bytes" where
  "ipf_sent order msgs = BigEndian_Put 2 ipf_Version @ BigEndian_Put 2 (of_nat (112 + 128 * length msgs) :: u16) @
      BigEndian_Put 4 (0 :: u32) @ BigEndian_Put 4 (0 :: u32) @ BigEndian_Put 4 (0 :: u32) @
      BigEndian_Put 2 templateSet @ BigEndian_Put 2 (96 :: u16) @ encodeTemplate templateId @ concat (map (flow_set order) msgs)"

text \<open>The first set registers the template the following sets are decoded with.\<close>

lemma ipf_sent_sets:
  assumes "mh_ObservationDomainID (m_Header m) = 0" and "m_DataSets m = []"
  shows "\<exists>m'. ipf_sets 0 (BigEndian_Put 2 templateSet @ BigEndian_Put 2 (96 :: u16) @ encodeTemplate templateId @
        concat (map (flow_set order) js)) (Some builtin_translate) (m, Some s) =
     Some ((m', Some (AddTemplate Template_ID 0 (IpfixTemplate ipf_format_template) s)), None) \<and>
     m_DataSets m' = map (ipf_data_set order) js"
proof -
  let ?b = "concat (map (flow_set order) js)"
  let ?m = "m\<lparr>m_TemplateSets := m_TemplateSets m @ [\<lparr>ts_Header = \<lparr>sh_ID = templateSet, sh_Length = 96\<rparr>, ts_Records = [ipf_format_template]\<rparr>]\<rparr>"
  let ?s = "AddTemplate Template_ID 0 (IpfixTemplate ipf_format_template) s"
  have ne: "encodeTemplate templateId \<noteq> []" using length_encodeTemplate by auto
  have len: "unat (96 :: u16) = length (encodeTemplate templateId) + 4" by (simp add: length_encodeTemplate)
  have one: "ipf_set 0 \<lparr>sh_ID = templateSet, sh_Length = 96\<rparr> (encodeTemplate templateId) (Some builtin_translate) (m, Some s) =
      Some ((?m, Some ?s), None)"
    using assms by (simp add: ipf_set_def Let_def templateSet_def template_set_read register_def)
  have "session_get (Some ?s) (mh_ObservationDomainID (m_Header ?m)) templateId = Some (IpfixTemplate ipf_format_template)"
    using assms by (simp add: session_get_def GetTemplate_AddTemplate ipf_format_template_def)
  from ipf_sets_flows [OF this, of "Suc 0" order js] show ?thesis
    using assms ne by (subst ipf_sets.simps) (simp add: ipf_next_set_run [OF len ne] one)
qed

lemma ipf_sent_decoded:
  "\<exists>m s'. ipf_Read builtin (ipf_sent order msgs) (Some s) None = Some (Some m, Some s', None) \<and>
     m_DataSets m = map (ipf_data_set order) (take (length msgs mod 512) msgs)"
proof -
  let ?k = "length msgs mod 512" and ?len = "of_nat (112 + 128 * length msgs) :: u16"
  let ?h = "\<lparr>mh_Version = ipf_Version, mh_Length = ?len, mh_ExportTime = 0, mh_SequenceNumber = 0, mh_ObservationDomainID = 0\<rparr>"
  let ?t = "BigEndian_Put 2 templateSet @ BigEndian_Put 2 (96 :: u16) @ encodeTemplate templateId"
  have size: "uint ?len = 112 + 128 * int ?k"
    using wrapped_length [of "length msgs"] by (metis (mono_tags, lifting) of_nat_add of_nat_mult of_nat_numeral uint_nat)
  then have read: "uint ?len - MessageHeader_Len = 96 + 128 * int ?k" by (simp add: MessageHeader_Len_def)
  have pos: "\<not> uint ?len \<le> MessageHeader_Len" using size by (simp add: MessageHeader_Len_def)
  have k: "?k \<le> length msgs" by simp
  have tk: "take (96 + 128 * ?k) (?t @ concat (map (flow_set order) msgs)) = ?t @ concat (map (flow_set order) (take ?k msgs))"
    by (simp add: take_flow_sets [OF k] length_encodeTemplate)
  have le: "96 + 128 * ?k \<le> length (?t @ concat (map (flow_set order) msgs))"
    using k by (simp add: length_encodeTemplate length_flow_sets del: length_concat)
  have "read_full (nat (96 + 128 * int ?k)) (?t @ concat (map (flow_set order) msgs)) =
      Inr (?t @ concat (map (flow_set order) (take ?k msgs)), drop (96 + 128 * ?k) (?t @ concat (map (flow_set order) msgs)))"
    using read_full_long [OF le] tk by (simp add: nat_add_distrib nat_mult_distrib)
  moreover obtain m' where "ipf_sets 0 (?t @ concat (map (flow_set order) (take ?k msgs))) (Some builtin_translate) (new_Message ?h, Some s) =
     Some ((m', Some (AddTemplate Template_ID 0 (IpfixTemplate ipf_format_template) s)), None)"
     "m_DataSets m' = map (ipf_data_set order) (take ?k msgs)"
    using ipf_sent_sets [of "new_Message ?h" order "take ?k msgs" s] by (auto simp: new_Message_def)
  ultimately have "UnmarshalSets (?t @ concat (map (flow_set order) msgs)) (Some builtin_translate) (new_Message ?h, Some s) =
     Some ((m', Some (AddTemplate Template_ID 0 (IpfixTemplate ipf_format_template) s)), None)"
    by (simp add: UnmarshalSets_def new_Message_def Let_def read pos del: of_nat_add of_nat_mult)
  with \<open>m_DataSets m' = _\<close> show ?thesis
    using size by (simp add: ipf_Read_def ipf_sent_def MessageHeader_run MessageHeader_Len_def Let_def Option.is_none_def
        del: of_nat_add of_nat_mult)
qed

text \<open>
  C3. What is sent as IPFIX is read back flow by flow, in order, each as \<open>received\<close> says: reading the bytes of a
  message with the same format gives the maps of the first \<open>n mod 512\<close> of its \<open>n\<close> flows, whatever templates
  were seen before. Up to 511 flows this is all of them; beyond, the 16 bits of the length in the header wrap
  around and the rest of the flows is lost without an error.
\<close>

theorem ipfix_format_roundtrip:
  assumes "nff_version f = ipf_Version" and "msgs \<noteq> []"
  shows "\<exists>out f'. NetflowFormat_To order f msgs = Inr (Some out) \<and>
     NetflowFormat_From f out = Some (f', Inr (map (\<lambda>j. Some (map_of (ToMap_entries (received order j))))
       (take (length msgs mod 512) msgs)))"
proof -
  obtain m s' where dec: "ipf_Read builtin (ipf_sent order msgs) (Some (nff_s f)) None = Some (Some m, Some s', None)"
    and ds: "m_DataSets m = map (ipf_data_set order) (take (length msgs mod 512) msgs)"
    using ipf_sent_decoded by blast
  have "NetflowFormat_To order f msgs = Inr (Some (NewOutput (ipf_sent order msgs)))"
    using assms packIpfix_bytes [OF assms, of order]
    by (simp add: NetflowFormat_To_def ipf_sent_def ipf_Version_def v9_Version_def)
  moreover have "decoder_Read builtin (ipf_sent order msgs) (Some (nff_s f)) = Some (Some (NFIPFIX m), Some s', None)"
    using dec by (simp add: ipf_sent_def read_version)
  then have "NetflowFormat_From f (NewOutput (ipf_sent order msgs)) =
      Some (fst (decodeIpfix m (f\<lparr>nff_s := s'\<rparr>)), Inr (map (\<lambda>j. Some (map_of (ToMap_entries (received order j))))
       (take (length msgs mod 512) msgs)))"
    by (simp add: NetflowFormat_From_def NewOutput_def decodeIpfix_def ds decoded_flows ToMaps_received
        del: map_map)
  ultimately show ?thesis by blast
qed

definition demo_flow :: JCHF where
  "demo_flow = NewJCHF\<lparr>j_SrcAddr := ''10.0.0.1'', j_DstAddr := ''2001:db8::1'', j_Protocol := ''TCP'', j_L4SrcPort := 443,
     j_InBytes := 1500, j_Timestamp := 1700000000\<rparr>"

definition demo_format :: "u16 \<Rightarrow> NetflowFormat" where
  "demo_format v = \<lparr>nff_s = session_New, nff_templateTracker = newTemplateTracker, nff_version = v\<rparr>"

theorem ipfix_format_roundtrip_witness:
  "(\<exists>out f'. NetflowFormat_To PROTO_NAMES_list (demo_format ipf_Version) [demo_flow] = Inr (Some out) \<and>
      NetflowFormat_From (demo_format ipf_Version) out = Some (f', Inr [Some (map_of (ToMap_entries (received PROTO_NAMES_list demo_flow)))])) \<and>
   (\<exists>out f'. NetflowFormat_To PROTO_NAMES_list (demo_format ipf_Version) (replicate 512 demo_flow) = Inr (Some out) \<and>
      NetflowFormat_From (demo_format ipf_Version) out = Some (f', Inr []))"
  using ipfix_format_roundtrip [of "demo_format ipf_Version" "[demo_flow]" PROTO_NAMES_list]
    ipfix_format_roundtrip [of "demo_format ipf_Version" "replicate 512 demo_flow" PROTO_NAMES_list]
  by (simp add: demo_format_def)

section \<open>NetFlow v9 packets\<close>

definition v9_field :: "nf_Field \<Rightarrow> v9_FieldSpecifier" where
  "v9_field fd = \<lparr>v9fs_Type = nf_Type fd, v9fs_Length = nf_Length fd\<rparr>"

definition v9_format_template :: v9_TemplateRecord where
  "v9_format_template = \<lparr>v9tr_TemplateID = templateId, v9tr_FieldCount = 22, v9tr_Fields = map v9_field nf_fields\<rparr>"

lemma encodeTemplate_v9: "encodeTemplate templateId = v9_template_enc v9_format_template"
  by (simp add: encodeTemplate_def v9_template_enc_def v9_format_template_def v9_specifier_enc_def v9_field_def nf_fields_def)

lemma v9_template_set_read: "TemplateFlowSet_UnmarshalRecords (encodeTemplate templateId) = Some ([v9_format_template], None)"
proof -
  have "unat (v9tr_FieldCount v9_format_template) = length (v9tr_Fields v9_format_template)"
    by (simp add: v9_format_template_def nf_fields_def)
  then have "v9_TemplateRecord_Unmarshal (v9_template_enc v9_format_template @ []) = Inr (v9_format_template, [])"
    by (rule v9_template_dec_enc)
  then show ?thesis
    by (simp add: TemplateFlowSet_UnmarshalRecords_def encodeTemplate_v9 [symmetric] length_encodeTemplate
        unmarshal_loop_step unmarshal_loop_stop)
qed

definition v9_raw_field :: "nf_Field \<Rightarrow> bytes \<Rightarrow> v9_Field" where
  "v9_raw_field fd c = \<lparr>v9f_Type = nf_Type fd, v9f_Length = nf_Length fd, v9f_Translated = None, v9f_Bytes = c\<rparr>"

lemma v9_fields_run:
  assumes "list_all2 (\<lambda>fd c. length c = unat (nf_Length fd) \<and> c \<noteq> []) fds cs"
  shows "v9_fields_loop (map v9_field fds) (concat cs) = Inr (map2 v9_raw_field fds cs, [])"
  using assms
proof (induction rule: list_all2_induct)
  case Nil
  then show ?case by simp
next
  case (Cons fd fds c cs)
  have "buf_read (make_bytes (unat (nf_Length fd))) (c @ concat cs) = Inr (c, concat cs)"
    using Cons.hyps by (intro buf_read_app) simp
  with Cons show ?case by (simp add: v9_Field_Unmarshal_def rbind_def v9_field_def v9_raw_field_def)
qed

definition v9_flow_record :: "(u16 \<times> string) list \<Rightarrow> JCHF \<Rightarrow> v9_DataRecord" where
  "v9_flow_record order j = \<lparr>v9dr_TemplateID = templateId,
     v9dr_Fields = map2 (v9_translate_field builtin_translate) (map v9_field nf_fields)
       (map2 v9_raw_field nf_fields (flow_chunks order j))\<rparr>"

lemma v9_flow_decoded: "decodeV9Record (v9_flow_record order j) = Some (received order j)"
proof -
  have tr: "\<exists>z. v9f_Translated (v9_translate_field builtin_translate (v9_field fd) (v9_raw_field fd c)) = Some z \<and>
      v9tf_Type z = nf_Type fd \<and> v9tf_Value z = Some (translate_Bytes c (field_type fd))"
    if "fd \<in> set nf_fields" for fd c
    using format_elements_known [OF that] by (auto simp: v9_translate_field_def v9_field_def v9_raw_field_def Translate_Key_def)
  have z: "map2 g (map h fds) (map2 k fds cs) = map2 (\<lambda>fd c. g (h fd) (k fd c)) fds cs"
    for g :: "v9_FieldSpecifier \<Rightarrow> v9_Field \<Rightarrow> v9_Field" and h k and fds :: "nf_Field list" and cs :: "bytes list"
    by (induction fds cs rule: list_induct2') simp_all
  have "map (\<lambda>f. map_option (\<lambda>tf. (v9tf_Type tf, v9tf_Value tf)) (v9f_Translated f))
      (v9dr_Fields (v9_flow_record order j)) = flow_values order j"
    by (auto simp: v9_flow_record_def flow_values_def z intro!: tr dest: set_zip_leftD)
  then show ?thesis by (simp add: decodeV9Record_def setCHFFields_received)
qed

lemma v9_data_set_read:
  "DataFlowSet_Unmarshal (concat (flow_chunks order j)) v9_format_template (Some builtin_translate) =
     Some ([v9_flow_record order j], None)"
proof -
  have "\<forall>fd \<in> set nf_fields. unat (nf_Length fd) \<noteq> 0" by (simp add: nf_fields_def)
  then have "list_all2 (\<lambda>fd c. length c = unat (nf_Length fd) \<and> c \<noteq> []) nf_fields (flow_chunks order j)"
    using flow_chunks_fields [of order j] unfolding list_all2_conv_all_nth by (metis list.size(3) nth_mem)
  from v9_fields_run [OF this]
  have rec: "v9_record_of (Some builtin_translate) v9_format_template (concat (flow_chunks order j)) = v9_flow_record order j"
    using flow_chunks_fields [of order j]
    by (auto simp: v9_record_of_def v9_DataRecord_Unmarshal_def v9_format_template_def v9_flow_record_def
        v9_Translate_Record_eq list_all2_lengthD nf_fields_def)
  have size: "v9_TemplateRecord_Size (v9tr_Fields v9_format_template) = 124"
    by (simp add: v9_format_template_def v9_Size_sum v9_field_def nf_fields_def)
  show ?thesis
    using v9_data_loop [OF size, of "Some builtin_translate" "concat (flow_chunks order j)" "[]"]
    by (simp add: DataFlowSet_Unmarshal_def flow_chunks_length v9_record_count_def rec del: length_concat)
qed

lemma v9_next_set_run:
  assumes "unat len = length body + 4" and "body \<noteq> []"
  shows "v9_next_set i (BigEndian_Put 2 sid @ BigEndian_Put 2 len @ body @ rest) =
     Inr ((\<lparr>fsh_ID = sid, fsh_Length = len\<rparr>, body), rest)"
proof -
  have len: "uint len = int (length body) + 4"
    using assms(1) by (metis of_nat_add of_nat_numeral uint_nat)
  have "read_full (length body) (body @ rest) = Inr (body, rest)"
    by (intro read_full_app) simp
  with len assms(2) show ?thesis
    by (simp add: v9_next_set_def rbind_def FlowSetHeader_Unmarshal_def be16.dec_enc FlowSetHeader_Len_def)
qed

definition v9_flow_set :: "(u16 \<times> string) list \<Rightarrow> JCHF \<Rightarrow> DataFlowSet" where
  "v9_flow_set order j = \<lparr>dfs_Header = \<lparr>fsh_ID = templateId, fsh_Length = 128\<rparr>,
     dfs_Records = [v9_flow_record order j], dfs_Bytes = []\<rparr>"

lemma v9_flow_set_run:
  assumes "session_get s (v9ph_SourceID (v9p_Header p)) templateId = Some (V9Template v9_format_template)"
  shows "v9_set i \<lparr>fsh_ID = templateId, fsh_Length = 128\<rparr> (concat (flow_chunks order j)) (Some builtin_translate) (p, s) =
     Some ((p\<lparr>v9p_DataFlowSets := v9p_DataFlowSets p @ [v9_flow_set order j]\<rparr>, s), None)"
proof -
  have "s \<noteq> None" using assms by (cases s) (simp_all add: session_get_def)
  with assms show ?thesis
    by (auto simp: v9_set_def Let_def templateId_def v9_data_set_read v9_flow_set_def Option.is_none_def)
qed

lemma v9_sets_flows:
  assumes "session_get s (v9ph_SourceID (v9p_Header p)) templateId = Some (V9Template v9_format_template)"
  shows "v9_sets n i (concat (map (flow_set order) js)) (Some builtin_translate) (p, s) =
     Some ((p\<lparr>v9p_DataFlowSets := v9p_DataFlowSets p @ map (v9_flow_set order) (take n js)\<rparr>, s), None)"
  using assms
proof (induction js arbitrary: n i p)
  case Nil
  then show ?case by (cases n) simp_all
next
  case (Cons j js)
  let ?p = "p\<lparr>v9p_DataFlowSets := v9p_DataFlowSets p @ [v9_flow_set order j]\<rparr>"
  have ne: "concat (flow_chunks order j) \<noteq> []" using flow_chunks_length [of order j] by (metis list.size(3) zero_neq_numeral)
  have len: "unat (128 :: u16) = length (concat (flow_chunks order j)) + 4" by (simp only: flow_chunks_length) simp
  have "flow_set order j \<noteq> []" using length_flow_set [of order j] by auto
  moreover have "v9_next_set i (flow_set order j @ concat (map (flow_set order) js)) =
      Inr ((\<lparr>fsh_ID = templateId, fsh_Length = 128\<rparr>, concat (flow_chunks order j)), concat (map (flow_set order) js))"
    using v9_next_set_run [OF len ne] by (simp add: flow_set_def)
  moreover have "v9_sets k (Suc i) (concat (map (flow_set order) js)) (Some builtin_translate) (?p, s) =
      Some ((?p\<lparr>v9p_DataFlowSets := v9p_DataFlowSets ?p @ map (v9_flow_set order) (take k js)\<rparr>, s), None)" for k
    using Cons.prems by (intro Cons.IH) simp
  ultimately show ?case
    by (cases n) (simp_all add: v9_flow_set_run [OF Cons.prems])
qed

definition v9_sent :: "(u16 \<times> string) list \<Rightarrow> JCHF list \<Rightarrow> bytes" where
  "v9_sent order msgs = BigEndian_Put 2 v9_Version @ BigEndian_Put 2 (of_nat (length msgs + 1) :: u16) @
      BigEndian_Put 4 (0 :: u32) @ BigEndian_Put 4 (0 :: u32) @ BigEndian_Put 4 (0 :: u32) @ BigEndian_Put 4 (0 :: u32) @
      BigEndian_Put 2 (0 :: u16) @ BigEndian_Put 2 (96 :: u16) @ encodeTemplate templateId @ concat (map (flow_set order) msgs)"

lemma pack9_bytes:
  assumes "nff_version f = v9_Version"
  shows "pack9 order f msgs = Inr (Some (NewOutput (v9_sent order msgs)))"
proof -
  have "pack_flows order f msgs buf = Inr (buf @ concat (map (flow_set order) msgs))" for buf
    using pack_flows_eq [of f order msgs buf] assms(1) by (simp add: flow_set_def [abs_def])
  with assms show ?thesis
    by (simp add: pack9_def Let_def writeWithHeader_def v9_sent_def length_encodeTemplate)
qed

lemma v9_sent_sets:
  assumes "v9ph_SourceID (v9p_Header p) = 0" and "v9p_DataFlowSets p = []"
  shows "\<exists>p'. v9_sets (Suc n) 0 (BigEndian_Put 2 (0 :: u16) @ BigEndian_Put 2 (96 :: u16) @ encodeTemplate templateId @
        concat (map (flow_set order) js)) (Some builtin_translate) (p, Some s) =
     Some ((p', Some (AddTemplate Template_ID 0 (V9Template v9_format_template) s)), None) \<and>
     v9p_DataFlowSets p' = map (v9_flow_set order) (take n js)"
proof -
  let ?p = "p\<lparr>v9p_TemplateFlowSets := v9p_TemplateFlowSets p @ [\<lparr>tfs_Header = \<lparr>fsh_ID = 0, fsh_Length = 96\<rparr>, tfs_Records = [v9_format_template]\<rparr>]\<rparr>"
  let ?s = "AddTemplate Template_ID 0 (V9Template v9_format_template) s"
  have ne: "encodeTemplate templateId \<noteq> []" using length_encodeTemplate by auto
  have len: "unat (96 :: u16) = length (encodeTemplate templateId) + 4" by (simp add: length_encodeTemplate)
  have one: "v9_set 0 \<lparr>fsh_ID = 0, fsh_Length = 96\<rparr> (encodeTemplate templateId) (Some builtin_translate) (p, Some s) =
      Some ((?p, Some ?s), None)"
    using assms by (simp add: v9_set_def Let_def v9_template_set_read register_def)
  have "session_get (Some ?s) (v9ph_SourceID (v9p_Header ?p)) templateId = Some (V9Template v9_format_template)"
    using assms by (simp add: session_get_def GetTemplate_AddTemplate v9_format_template_def)
  from v9_sets_flows [OF this, of n "Suc 0" order js] show ?thesis
    using assms ne by (simp add: v9_next_set_run [OF len ne] one)
qed

lemma v9_PacketHeader_run:
  "v9_PacketHeader_Unmarshal (BigEndian_Put 2 v @ BigEndian_Put 2 l @ BigEndian_Put 4 a @ BigEndian_Put 4 b @ BigEndian_Put 4 c @
       BigEndian_Put 4 d @ s) =
     Inr (\<lparr>v9ph_Version = v, v9ph_Count = l, v9ph_SysUpTime = a, v9ph_UnixSecs = b, v9ph_SequenceNumber = c, v9ph_SourceID = d\<rparr>, s)"
  by (simp add: v9_PacketHeader_Unmarshal_def rbind_def rwrap_def be16.dec_enc be32.dec_enc)

lemma v9_sent_decoded:
  "\<exists>p s'. v9_Read builtin (v9_sent order msgs) (Some s) None = Some (Some p, Some s', None) \<and>
     v9p_DataFlowSets p = map (v9_flow_set order) (take ((length msgs + 1) mod 65536 - 1) msgs)"
proof -
  let ?count = "of_nat (length msgs + 1) :: u16"
  let ?h = "\<lparr>v9ph_Version = v9_Version, v9ph_Count = ?count, v9ph_SysUpTime = 0, v9ph_UnixSecs = 0, v9ph_SequenceNumber = 0, v9ph_SourceID = 0\<rparr>"
  let ?body = "BigEndian_Put 2 (0 :: u16) @ BigEndian_Put 2 (96 :: u16) @ encodeTemplate templateId @ concat (map (flow_set order) msgs)"
  have count: "unat ?count = (length msgs + 1) mod 65536"
    by (simp only: unsigned_of_nat take_bit_eq_mod) simp
  have read: "v9_Read builtin (v9_sent order msgs) (Some s) None =
      (if ?count = 0 then Some (Some (new_v9_Packet ?h), Some s, None)
       else map_option (\<lambda>((p, s), e). (Some p, s, e)) (UnmarshalFlowSets ?body (Some builtin_translate) (new_v9_Packet ?h, Some s)))"
    by (simp add: v9_Read_def v9_sent_def v9_PacketHeader_run v9_PacketHeader_Len_def Let_def Option.is_none_def)
  show ?thesis
  proof (cases "(length msgs + 1) mod 65536")
    case 0
    then have "?count = 0" using count by (simp add: unat_eq_0 del: of_nat_add)
    with 0 show ?thesis by (simp add: read new_v9_Packet_def)
  next
    case (Suc n)
    then have "?count \<noteq> 0" using count by (metis nat.distinct(1) unat_0)
    moreover have "?body \<noteq> []" using length_encodeTemplate by auto
    moreover obtain p' where "v9_sets (Suc n) 0 ?body (Some builtin_translate) (new_v9_Packet ?h, Some s) =
       Some ((p', Some (AddTemplate Template_ID 0 (V9Template v9_format_template) s)), None)"
       "v9p_DataFlowSets p' = map (v9_flow_set order) (take n msgs)"
      using v9_sent_sets [of "new_v9_Packet ?h" n order msgs s] by (auto simp: new_v9_Packet_def)
    moreover have "unat (v9ph_Count (v9p_Header (new_v9_Packet ?h))) = Suc n" using count Suc by (simp add: new_v9_Packet_def del: of_nat_add)
    ultimately show ?thesis using Suc unfolding read UnmarshalFlowSets_def fst_conv by simp
  qed
qed

text \<open>
  The same for NetFlow v9, whose header counts the flow sets of a packet: with \<open>n\<close> flows and the template
  the count is \<open>n + 1\<close> in 16 bits, so that packets of up to 65534 flows are read back completely and in order.
\<close>

lemma v9_format_roundtrip:
  assumes "nff_version f = v9_Version"
  shows "\<exists>out f'. NetflowFormat_To order f msgs = Inr (Some out) \<and>
     NetflowFormat_From f out = Some (f', Inr (map (\<lambda>j. Some (map_of (ToMap_entries (received order j))))
       (take ((length msgs + 1) mod 65536 - 1) msgs)))"
proof -
  let ?js = "take ((length msgs + 1) mod 65536 - 1) msgs"
  obtain p s' where dec: "v9_Read builtin (v9_sent order msgs) (Some (nff_s f)) None = Some (Some p, Some s', None)"
    and ds: "v9p_DataFlowSets p = map (v9_flow_set order) ?js"
    using v9_sent_decoded by blast
  have flows: "concat (map (\<lambda>ds. List.map_filter decodeV9Record (dfs_Records ds)) (map (v9_flow_set order) js)) = map (received order) js" for js
    by (induction js) (simp_all add: v9_flow_set_def List.map_filter_def v9_flow_decoded)
  have "NetflowFormat_To order f msgs = Inr (Some (NewOutput (v9_sent order msgs)))"
    using assms by (simp add: NetflowFormat_To_def pack9_bytes)
  moreover have "decoder_Read builtin (v9_sent order msgs) (Some (nff_s f)) = Some (Some (NF9 p), Some s', None)"
    using dec by (simp add: v9_sent_def read_version)
  then have "NetflowFormat_From f (NewOutput (v9_sent order msgs)) =
      Some (fst (decodeV9 p (f\<lparr>nff_s := s'\<rparr>)), Inr (map (\<lambda>j. Some (map_of (ToMap_entries (received order j)))) ?js))"
    by (simp add: NetflowFormat_From_def NewOutput_def decodeV9_def ds flows ToMaps_received del: map_map)
  ultimately show ?thesis by blast
qed

section \<open>When nothing is lost\<close>

lemma received_addr_canonical:
  "ParseIP a = Some ip \<Longrightarrow> IP_String ip = a \<Longrightarrow> ip \<notin> {replicate 16 0, v4_prefix @ replicate 4 0} \<Longrightarrow> received_addr a = a"
  by (simp add: received_addr_def)

lemma received_mac_String: "length m = 6 \<Longrightarrow> received_mac (HardwareAddr_String m) = HardwareAddr_String m"
  by (simp add: received_mac_def ParseMAC_String)


definition demo_flow_4 :: JCHF where
  "demo_flow_4 = demo_flow\<lparr>j_SrcAddr := IPv4_String [10, 0, 0, 1], j_DstAddr := IPv4_String [192, 0, 2, 7],
     j_SrcEthMac := HardwareAddr_String [1, 2, 3, 4, 5, 6], j_DstEthMac := HardwareAddr_String [7, 8, 9, 10, 11, 12]\<rparr>"


end
