(* ===== verification/Ringbuffer.thy ===== *)
theory Ringbuffer
  imports Prelude
begin

text \<open>
  \<^verbatim>\<open>pkg/stitch/ringbuffer/ringbuffer.go\<close>: a bounded store of keyed values over a circular slice with
  an index map. The value type is a parameter, its zero value the argument of \<open>rb_New\<close>. Slice
  accesses outside the slice are panics. The abstract view is the list of slots from the oldest to
  the newest, each with a flag that says whether the index still points to it.
\<close>

section \<open>Definitions\<close>

record 'v rb_entry =
  re_key :: string
  re_value :: 'v

record 'v RingBuffer =
  rb_data :: "'v rb_entry list"
  rb_index :: "string \<Rightarrow> nat option"
  rb_head :: nat
  rb_tail :: nat
  rb_size :: nat
  rb_capacity :: nat

definition slice_at :: "'a list \<Rightarrow> nat \<Rightarrow> 'a res" where
  "slice_at xs i = (if i < length xs then Inr (xs ! i) else Inl (Panic ''index out of range''))"

definition rb_New :: "'v \<Rightarrow> int \<Rightarrow> 'v RingBuffer res" where
  "rb_New zero capacity =
     (if capacity < 1 then Inl (Panic ''ringbuffer: capacity must be at least 1'')
      else Inr \<lparr>rb_data = replicate (nat capacity) \<lparr>re_key = [], re_value = zero\<rparr>, rb_index = Map.empty,
        rb_head = 0, rb_tail = 0, rb_size = 0, rb_capacity = nat capacity\<rparr>)"

text \<open>The last three statements of \<^verbatim>\<open>Put\<close>.\<close>

definition rb_store :: "string \<Rightarrow> 'v \<Rightarrow> 'v RingBuffer \<Rightarrow> 'v RingBuffer res" where
  "rb_store key v r =
     (if rb_tail r < length (rb_data r)
      then Inr (r\<lparr>rb_data := (rb_data r)[rb_tail r := \<lparr>re_key = key, re_value = v\<rparr>],
                  rb_index := (rb_index r)(key \<mapsto> rb_tail r),
                  rb_tail := (rb_tail r + 1) mod rb_capacity r\<rparr>)
      else Inl (Panic ''index out of range''))"

definition rb_Put :: "string \<Rightarrow> 'v \<Rightarrow> 'v RingBuffer \<Rightarrow> 'v RingBuffer res" where
  "rb_Put key v r =
     (case rb_index r key of
        Some slot \<Rightarrow>
          (case slice_at (rb_data r) slot of
             Inl e \<Rightarrow> Inl e
           | Inr en \<Rightarrow> Inr (r\<lparr>rb_data := (rb_data r)[slot := en\<lparr>re_value := v\<rparr>]\<rparr>))
      | None \<Rightarrow>
          if rb_size r = rb_capacity r
          then (case slice_at (rb_data r) (rb_head r) of
             Inl e \<Rightarrow> Inl e
           | Inr en \<Rightarrow> rb_store key v (r\<lparr>rb_index := (rb_index r)(re_key en := None),
                                         rb_head := (rb_head r + 1) mod rb_capacity r\<rparr>))
          else rb_store key v (r\<lparr>rb_size := rb_size r + 1\<rparr>))"

definition rb_Get :: "string \<Rightarrow> 'v RingBuffer \<Rightarrow> 'v option res" where
  "rb_Get key r =
     (case rb_index r key of
        None \<Rightarrow> Inr None
      | Some slot \<Rightarrow> (case slice_at (rb_data r) slot of Inl e \<Rightarrow> Inl e | Inr en \<Rightarrow> Inr (Some (re_value en))))"

definition rb_GetAndDelete :: "string \<Rightarrow> 'v RingBuffer \<Rightarrow> ('v option \<times> 'v RingBuffer) res" where
  "rb_GetAndDelete key r =
     (case rb_index r key of
        None \<Rightarrow> Inr (None, r)
      | Some slot \<Rightarrow> (case slice_at (rb_data r) slot of
            Inl e \<Rightarrow> Inl e
          | Inr en \<Rightarrow> Inr (Some (re_value en), r\<lparr>rb_index := (rb_index r)(key := None)\<rparr>)))"

definition rb_Contains :: "string \<Rightarrow> 'v RingBuffer \<Rightarrow> bool" where
  "rb_Contains key r \<longleftrightarrow> \<not> Option.is_none (rb_index r key)"

definition rb_Oldest :: "'v RingBuffer \<Rightarrow> 'v rb_entry option res" where
  "rb_Oldest r = (if rb_size r = 0 then Inr None
     else case slice_at (rb_data r) (rb_head r) of Inl e \<Rightarrow> Inl e | Inr en \<Rightarrow> Inr (Some en))"

definition rb_Newest :: "'v RingBuffer \<Rightarrow> 'v rb_entry option res" where
  "rb_Newest r = (if rb_size r = 0 then Inr None
     else case slice_at (rb_data r) ((rb_tail r + rb_capacity r - 1) mod rb_capacity r) of
         Inl e \<Rightarrow> Inl e | Inr en \<Rightarrow> Inr (Some en))"

fun rb_collect :: "'v RingBuffer \<Rightarrow> nat list \<Rightarrow> 'v rb_entry list res" where
  "rb_collect r [] = Inr []"
| "rb_collect r (i # is) =
     (case slice_at (rb_data r) ((rb_head r + i) mod rb_capacity r) of
        Inl e \<Rightarrow> Inl e
      | Inr en \<Rightarrow> (case rb_collect r is of Inl e \<Rightarrow> Inl e | Inr ens \<Rightarrow> Inr (en # ens)))"

definition rb_Entries :: "'v RingBuffer \<Rightarrow> 'v rb_entry list res" where
  "rb_Entries r = rb_collect r [0..<rb_size r]"

definition rb_Keys :: "'v RingBuffer \<Rightarrow> string list res" where
  "rb_Keys r = (case rb_collect r [0..<rb_size r] of Inl e \<Rightarrow> Inl e | Inr ens \<Rightarrow> Inr (map re_key ens))"

definition rb_Len :: "'v RingBuffer \<Rightarrow> nat" where
  "rb_Len r = rb_size r"

definition rb_Cap :: "'v RingBuffer \<Rightarrow> nat" where
  "rb_Cap r = rb_capacity r"

definition rb_IsFull :: "'v RingBuffer \<Rightarrow> bool" where
  "rb_IsFull r \<longleftrightarrow> rb_size r = rb_capacity r"

section \<open>Invariant and abstract view\<close>

definition rb_slot :: "'v RingBuffer \<Rightarrow> nat \<Rightarrow> nat" where
  "rb_slot r i = (rb_head r + i) mod rb_capacity r"

definition rb_inv :: "'v RingBuffer \<Rightarrow> bool" where
  "rb_inv r \<longleftrightarrow> 0 < rb_capacity r \<and> length (rb_data r) = rb_capacity r \<and> rb_size r \<le> rb_capacity r \<and>
     rb_head r < rb_capacity r \<and> rb_tail r = rb_slot r (rb_size r) \<and>
     (\<forall>k s. rb_index r k = Some s \<longrightarrow> (\<exists>i < rb_size r. s = rb_slot r i) \<and> re_key (rb_data r ! s) = k)"

type_synonym 'v slot_view = "(string \<times> 'v \<times> bool)"

definition rb_view :: "'v RingBuffer \<Rightarrow> nat \<Rightarrow> 'v slot_view" where
  "rb_view r s = (re_key (rb_data r ! s), re_value (rb_data r ! s), rb_index r (re_key (rb_data r ! s)) = Some s)"

definition rb_slots :: "'v RingBuffer \<Rightarrow> 'v slot_view list" where
  "rb_slots r = map (\<lambda>i. rb_view r (rb_slot r i)) [0..<rb_size r]"

text \<open>
  The operations on the abstract view. Putting a new key into a full buffer drops the oldest slot
  and, with it, makes every slot of the dropped key dead.
\<close>

definition slots_kill :: "string \<Rightarrow> 'v slot_view list \<Rightarrow> 'v slot_view list" where
  "slots_kill k = map (\<lambda>(k', v, live). (k', v, live \<and> k' \<noteq> k))"

definition slots_put :: "nat \<Rightarrow> string \<Rightarrow> 'v \<Rightarrow> 'v slot_view list \<Rightarrow> 'v slot_view list" where
  "slots_put cap k v xs =
     (if \<exists>v'. (k, v', True) \<in> set xs
      then map (\<lambda>(k', v', live). (k', if live \<and> k' = k then v else v', live)) xs
      else (if length xs = cap then slots_kill (fst (hd xs)) (tl xs) else xs) @ [(k, v, True)])"

lemma slot_inj:
  assumes "(h + i) mod c = (h + j) mod c" and "i < c" and "j < (c :: nat)"
  shows "i = j"
proof -
  have "i = j" if "(h + i) mod c = (h + j) mod c" "i < c" "j < c" "i \<le> j" for i j
  proof -
    have "(h + j - (h + i)) mod c = 0"
      using that mod_eq_dvd_iff_nat [of "h + i" "h + j" c] by (simp add: dvd_eq_mod_eq_0)
    then show ?thesis using that by simp
  qed
  with assms show ?thesis by (metis nat_le_linear)
qed

lemma rb_slot_inj: "rb_slot r i = rb_slot r j \<Longrightarrow> i < rb_capacity r \<Longrightarrow> j < rb_capacity r \<Longrightarrow> i = j"
  unfolding rb_slot_def by (rule slot_inj)

lemma rb_slot_less: "rb_inv r \<Longrightarrow> rb_slot r i < length (rb_data r)"
  by (simp add: rb_inv_def rb_slot_def)

lemma rb_inv_index:
  assumes "rb_inv r" and "rb_index r k = Some s"
  obtains i where "i < rb_size r" and "s = rb_slot r i" and "re_key (rb_data r ! s) = k" and "s < length (rb_data r)"
  using assms rb_slot_less [OF assms(1)] unfolding rb_inv_def by blast

lemma length_rb_slots [simp]: "length (rb_slots r) = rb_size r"
  by (simp add: rb_slots_def)

lemma rb_slots_live:
  assumes "rb_inv r"
  shows "(k, v, True) \<in> set (rb_slots r) \<longleftrightarrow> (\<exists>s. rb_index r k = Some s \<and> re_value (rb_data r ! s) = v)"
proof
  assume "(k, v, True) \<in> set (rb_slots r)"
  then show "\<exists>s. rb_index r k = Some s \<and> re_value (rb_data r ! s) = v"
    by (auto simp: rb_slots_def rb_view_def)
next
  assume "\<exists>s. rb_index r k = Some s \<and> re_value (rb_data r ! s) = v"
  then obtain s where s: "rb_index r k = Some s" and v: "re_value (rb_data r ! s) = v" by blast
  from rb_inv_index [OF assms s] obtain i where "i < rb_size r" "s = rb_slot r i" "re_key (rb_data r ! s) = k" .
  with s v show "(k, v, True) \<in> set (rb_slots r)"
    unfolding rb_slots_def by (auto simp: rb_view_def intro!: image_eqI [of _ _ i])
qed

lemma rb_Get_slots: "rb_inv r \<Longrightarrow> rb_Get k r = Inr (Some v) \<longleftrightarrow> (k, v, True) \<in> set (rb_slots r)"
  by (auto simp: rb_slots_live rb_Get_def slice_at_def split: option.splits elim!: rb_inv_index)

lemma rb_New_inv: "1 \<le> capacity \<Longrightarrow> \<exists>r. rb_New zero capacity = Inr r \<and> rb_inv r \<and> rb_slots r = [] \<and> rb_capacity r = nat capacity"
  by (simp add: rb_New_def rb_inv_def rb_slots_def rb_slot_def)

section \<open>The operations refine their abstract counterparts\<close>

lemma rb_view_upd_other:
  "s \<noteq> s' \<Longrightarrow> s < length (rb_data r) \<Longrightarrow>
   rb_view (r\<lparr>rb_data := (rb_data r)[s' := en]\<rparr>) s = rb_view r s"
  by (simp add: rb_view_def)

lemma rb_GetAndDelete_refines:
  assumes "rb_inv r"
  shows "\<exists>r'. rb_GetAndDelete k r = Inr (projr (rb_Get k r), r') \<and> rb_inv r' \<and> rb_capacity r' = rb_capacity r \<and>
     rb_slots r' = slots_kill k (rb_slots r)"
proof (cases "rb_index r k")
  case None
  then have "slots_kill k (rb_slots r) = rb_slots r"
    by (auto simp: slots_kill_def rb_slots_def rb_view_def)
  with None assms show ?thesis by (simp add: rb_GetAndDelete_def rb_Get_def)
next
  case (Some s)
  from rb_inv_index [OF assms Some] have len: "s < length (rb_data r)" by blast
  let ?r = "r\<lparr>rb_index := (rb_index r)(k := None)\<rparr>"
  have "rb_inv ?r" using assms by (auto simp: rb_inv_def rb_slot_def)
  moreover have "rb_slots ?r = slots_kill k (rb_slots r)"
    by (auto simp: slots_kill_def rb_slots_def rb_view_def rb_slot_def)
  ultimately show ?thesis
    using Some len by (simp add: rb_GetAndDelete_def rb_Get_def slice_at_def)
qed

lemma rb_Put_update:
  assumes inv: "rb_inv r" and s: "rb_index r k = Some s"
  shows "\<exists>r'. rb_Put k v r = Inr r' \<and> rb_inv r' \<and> rb_capacity r' = rb_capacity r \<and>
     rb_slots r' = slots_put (rb_capacity r) k v (rb_slots r)"
proof -
  from rb_inv_index [OF inv s] obtain i where i: "i < rb_size r" "s = rb_slot r i"
    and key: "re_key (rb_data r ! s) = k" and len: "s < length (rb_data r)" .
  let ?r = "r\<lparr>rb_data := (rb_data r)[s := (rb_data r ! s)\<lparr>re_value := v\<rparr>]\<rparr>"
  have slot: "rb_slot ?r = rb_slot r" by (simp add: rb_slot_def fun_eq_iff)
  have "re_key (rb_data ?r ! s') = re_key (rb_data r ! s')" for s'
    using len by (cases "s' = s") simp_all
  with inv have "rb_inv ?r" by (simp add: rb_inv_def slot)
  moreover have "rb_view ?r s' = (case rb_view r s' of (k', v', live) \<Rightarrow> (k', if live \<and> k' = k then v else v', live))"
    for s'
    using key len s by (cases "s' = s") (auto simp: rb_view_def)
  then have "rb_slots ?r = map (\<lambda>(k', v', live). (k', if live \<and> k' = k then v else v', live)) (rb_slots r)"
    by (simp add: rb_slots_def slot)
  moreover have "\<exists>v'. (k, v', True) \<in> set (rb_slots r)"
    using s by (simp add: rb_slots_live [OF inv])
  ultimately show ?thesis
    using s len by (simp add: rb_Put_def slice_at_def slots_put_def)
qed

lemma rb_Put_append:
  assumes inv: "rb_inv r" and new: "rb_index r k = None" and room: "rb_size r < rb_capacity r"
  shows "\<exists>r'. rb_Put k v r = Inr r' \<and> rb_inv r' \<and> rb_capacity r' = rb_capacity r \<and>
     rb_slots r' = slots_put (rb_capacity r) k v (rb_slots r)"
proof -
  define t n where "t = rb_slot r (rb_size r)" and "n = rb_size r"
  define r' where "r' = r\<lparr>rb_data := (rb_data r)[t := \<lparr>re_key = k, re_value = v\<rparr>],
    rb_index := (rb_index r)(k \<mapsto> t), rb_tail := (t + 1) mod rb_capacity r, rb_size := n + 1\<rparr>"
  have r': "rb_data r' = (rb_data r)[t := \<lparr>re_key = k, re_value = v\<rparr>]" "rb_index r' = (rb_index r)(k \<mapsto> t)"
    "rb_head r' = rb_head r" "rb_tail r' = (t + 1) mod rb_capacity r" "rb_size r' = n + 1" "rb_capacity r' = rb_capacity r"
    by (simp_all add: r'_def)
  have t: "rb_tail r = t" "t < length (rb_data r)" and n: "rb_size r = n" "n < rb_capacity r"
    using inv rb_slot_less [OF inv] room by (simp_all add: rb_inv_def t_def n_def)
  have slot: "rb_slot r' = rb_slot r" by (simp add: rb_slot_def r' fun_eq_iff)
  have other: "rb_slot r i \<noteq> t" if "i < n" for i
    using rb_slot_inj [of r i n] that n by (auto simp: t_def)
  have "rb_view r' (rb_slot r i) = rb_view r (rb_slot r i)" if "i < n" for i
    using other [OF that] new by (auto simp: rb_view_def r')
  moreover have "rb_view r' t = (k, v, True)" using t by (simp add: rb_view_def r')
  ultimately have slots: "rb_slots r' = rb_slots r @ [(k, v, True)]"
    by (simp add: rb_slots_def slot r' n) (simp add: t_def n)
  have "(\<exists>i < n + 1. s = rb_slot r i) \<and> re_key (rb_data r' ! s) = k'" if "rb_index r' k' = Some s" for k' s
  proof (cases "k' = k")
    case True
    with that t show ?thesis by (auto simp: r' t_def n)
  next
    case False
    with that have "rb_index r k' = Some s" by (simp add: r')
    from rb_inv_index [OF inv this] obtain i where "i < n" "s = rb_slot r i" "re_key (rb_data r ! s) = k'"
      using n by metis
    with other [of i] show ?thesis by (auto simp: r' intro!: exI [of _ i])
  qed
  moreover have "(t + 1) mod rb_capacity r = rb_slot r (n + 1)"
    by (simp add: rb_slot_def t_def n mod_Suc_eq)
  ultimately have "rb_inv r'" using inv n by (simp add: rb_inv_def slot r')
  moreover have "\<not> (\<exists>v'. (k, v', True) \<in> set (rb_slots r))"
    using new by (simp add: rb_slots_live [OF inv])
  then have "rb_slots r' = slots_put (rb_capacity r) k v (rb_slots r)"
    using slots room by (simp add: slots_put_def)
  moreover have "rb_Put k v r = Inr r'"
    using new n t by (simp add: rb_Put_def rb_store_def r'_def)
  ultimately show ?thesis using r' by simp
qed

lemma rb_Put_evict:
  assumes inv: "rb_inv r" and new: "rb_index r k = None" and full: "rb_size r = rb_capacity r"
  shows "\<exists>r'. rb_Put k v r = Inr r' \<and> rb_inv r' \<and> rb_capacity r' = rb_capacity r \<and>
     rb_slots r' = slots_put (rb_capacity r) k v (rb_slots r)"
proof -
  define c h e where "c = rb_capacity r" and "h = rb_head r" and "e = re_key (rb_data r ! rb_head r)"
  define r' where "r' = r\<lparr>rb_data := (rb_data r)[h := \<lparr>re_key = k, re_value = v\<rparr>],
    rb_index := (rb_index r)(e := None, k \<mapsto> h), rb_head := (h + 1) mod c, rb_tail := (h + 1) mod c\<rparr>"
  have r': "rb_data r' = (rb_data r)[h := \<lparr>re_key = k, re_value = v\<rparr>]"
    "rb_index r' = (rb_index r)(e := None, k \<mapsto> h)" "rb_head r' = (h + 1) mod c" "rb_tail r' = (h + 1) mod c"
    "rb_size r' = c" "rb_capacity r' = c"
    by (simp_all add: r'_def full c_def)
  have c: "0 < c" "h < c" "length (rb_data r) = c" "rb_size r = c" and t: "rb_tail r = h"
    using inv full by (simp_all add: rb_inv_def rb_slot_def c_def h_def)
  have slot: "rb_slot r' i = rb_slot r (Suc i)" for i
    by (simp add: rb_slot_def r' c_def h_def mod_add_left_eq)
  have last: "rb_slot r c = h" and first: "rb_slot r 0 = h" using c by (simp_all add: rb_slot_def h_def c_def)
  have other: "rb_slot r (Suc i) \<noteq> h" if "Suc i < c" for i
    using rb_slot_inj [of r "Suc i" 0] first that c by (auto simp: c_def)
  have view: "rb_view r' (rb_slot r (Suc i)) = (case rb_view r (rb_slot r (Suc i)) of
      (k', v, live) \<Rightarrow> (k', v, live \<and> k' \<noteq> e))" if "Suc i < c" for i
    using other [OF that] new by (auto simp: rb_view_def r')
  have newest: "rb_view r' h = (k, v, True)" using c by (simp add: rb_view_def r')
  obtain n where n: "c = Suc n" using c by (cases c) simp_all
  have tl: "tl (rb_slots r) = map (\<lambda>i. rb_view r (rb_slot r (Suc i))) [0..<n]"
    by (simp add: rb_slots_def c n upt_conv_Cons map_Suc_upt [symmetric] comp_def del: upt_Suc)
  have oldest: "fst (hd (rb_slots r)) = e"
    by (simp add: rb_slots_def c n upt_conv_Cons first rb_view_def e_def h_def del: upt_Suc)
  have "rb_slots r' = map (\<lambda>i. rb_view r' (rb_slot r (Suc i))) [0..<n] @ [rb_view r' h]"
    using last by (simp add: rb_slots_def slot r' n)
  also have "\<dots> = slots_kill e (tl (rb_slots r)) @ [(k, v, True)]"
    using view by (simp add: tl slots_kill_def n newest)
  finally have slots: "rb_slots r' = slots_kill e (tl (rb_slots r)) @ [(k, v, True)]" .
  have index: "(\<exists>i < c. s = rb_slot r' i) \<and> re_key (rb_data r' ! s) = k'" if "rb_index r' k' = Some s" for k' s
  proof (cases "k' = k")
    case True
    with that last c show ?thesis by (auto simp: slot r' n)
  next
    case False
    with that have old: "rb_index r k' = Some s" "k' \<noteq> e" by (auto simp: r' split: if_splits)
    from rb_inv_index [OF inv old(1)] obtain i where i: "i < c" "s = rb_slot r i" "re_key (rb_data r ! s) = k'"
      using c by metis
    with old(2) have "s \<noteq> h" by (auto simp: e_def h_def)
    moreover from this i first obtain j where "i = Suc j" by (cases i) auto
    ultimately show ?thesis using i by (auto simp: slot r' intro!: exI [of _ j])
  qed
  moreover have "(h + 1) mod c = rb_slot r' c" "rb_slot r' c < c" using c by (simp_all add: rb_slot_def r')
  ultimately have "rb_inv r'" using c by (simp add: rb_inv_def r')
  moreover have "\<not> (\<exists>v'. (k, v', True) \<in> set (rb_slots r))"
    using new by (simp add: rb_slots_live [OF inv])
  then have "rb_slots r' = slots_put (rb_capacity r) k v (rb_slots r)"
    using slots oldest full by (simp add: slots_put_def)
  moreover have "rb_Put k v r = Inr r'"
    using new full t c by (simp add: rb_Put_def rb_store_def slice_at_def r'_def e_def h_def c_def)
  ultimately show ?thesis using r' by (simp add: c_def)
qed

lemma rb_Put_refines:
  assumes "rb_inv r"
  shows "\<exists>r'. rb_Put k v r = Inr r' \<and> rb_inv r' \<and> rb_capacity r' = rb_capacity r \<and>
     rb_slots r' = slots_put (rb_capacity r) k v (rb_slots r)"
proof (cases "rb_index r k")
  case (Some s)
  with assms show ?thesis by (rule rb_Put_update)
next
  case None
  moreover have "rb_size r \<le> rb_capacity r" using assms by (simp add: rb_inv_def)
  ultimately show ?thesis
    using rb_Put_append [OF assms None] rb_Put_evict [OF assms None] by (metis le_neq_implies_less)
qed

text \<open>
  C6. Every operation of the buffer refines its counterpart on the list of slots: in a well-formed
  buffer \<^verbatim>\<open>Put\<close>, \<^verbatim>\<open>Get\<close> and \<^verbatim>\<open>GetAndDelete\<close> never index out of range, keep the invariant and the
  capacity, and \<^verbatim>\<open>Get\<close> finds exactly the live slots. A fresh buffer is well formed and empty.
\<close>

theorem ring_refinement:
  "(1 \<le> capacity \<longrightarrow> (\<exists>r0. rb_New zero capacity = Inr r0 \<and> rb_inv r0 \<and> rb_slots r0 = [])) \<and>
   (rb_inv r \<longrightarrow>
      (\<exists>r'. rb_Put k v r = Inr r' \<and> rb_inv r' \<and> rb_capacity r' = rb_capacity r \<and>
         rb_slots r' = slots_put (rb_capacity r) k v (rb_slots r)) \<and>
      (\<exists>r'. rb_GetAndDelete k r = Inr (projr (rb_Get k r), r') \<and> rb_inv r' \<and> rb_capacity r' = rb_capacity r \<and>
         rb_slots r' = slots_kill k (rb_slots r)) \<and>
      (\<forall>v. rb_Get k r = Inr (Some v) \<longleftrightarrow> (k, v, True) \<in> set (rb_slots r)))"
  using rb_New_inv [of capacity zero] rb_Put_refines [of r k v] rb_GetAndDelete_refines [of r k] rb_Get_slots [of r k]
  by auto

definition ring3 :: "nat RingBuffer" where
  "ring3 = \<lparr>rb_data = [\<lparr>re_key = ''c'', re_value = 3\<rparr>, \<lparr>re_key = ''a'', re_value = 1\<rparr>, \<lparr>re_key = ''b'', re_value = 2\<rparr>],
     rb_index = [''a'' \<mapsto> 1, ''b'' \<mapsto> 2, ''c'' \<mapsto> 0], rb_head = 1, rb_tail = 1, rb_size = 3, rb_capacity = 3\<rparr>"

lemma ring3_inv: "rb_inv ring3"
proof -
  have "s \<in> {0, 1, 2} \<and> re_key (rb_data ring3 ! s) = k" if "rb_index ring3 k = Some s" for k s
    using that by (auto simp: ring3_def split: if_splits)
  moreover have "\<exists>i < 3. s = rb_slot ring3 i" if "s \<in> {0, 1, 2 :: nat}" for s
    using that by (auto simp: rb_slot_def ring3_def intro: exI [of _ 2] exI [of _ 0] exI [of _ 1])
  ultimately show ?thesis by (simp add: rb_inv_def ring3_def rb_slot_def)
qed

theorem ring_refinement_witness:
  "rb_slots ring3 = [(''a'', 1, True), (''b'', 2, True), (''c'', 3, True)] \<and>
   (\<exists>r'. rb_Put ''d'' 4 ring3 = Inr r' \<and> rb_slots r' = [(''b'', 2, True), (''c'', 3, True), (''d'', 4, True)])"
proof
  show slots: "rb_slots ring3 = [(''a'', 1, True), (''b'', 2, True), (''c'', 3, True)]"
    by (simp add: rb_slots_def rb_view_def rb_slot_def ring3_def upt_rec)
  have "rb_capacity ring3 = 3" by (simp add: ring3_def)
  then show "\<exists>r'. rb_Put ''d'' 4 ring3 = Inr r' \<and> rb_slots r' = [(''b'', 2, True), (''c'', 3, True), (''d'', 4, True)]"
    using ring_refinement [of 1 0 ring3 "''d''" 4] ring3_inv slots
    by (auto simp: slots_put_def slots_kill_def)
qed

section \<open>Stale slots\<close>

text \<open>
  The slot of a deleted key stays in the buffer. When the key has been put again since, evicting
  the stale slot removes the key from the index: a value that is neither the oldest nor overwritten
  can no longer be found, while \<^verbatim>\<open>Keys\<close> still lists it.
\<close>

lemma ring_stale_eviction:
  assumes "rb_inv r" and "rb_size r = rb_capacity r" and "rb_index r k = None"
    and "re_key (rb_data r ! rb_head r) = e" and "rb_index r e = Some s" and "s \<noteq> rb_head r"
  shows "\<exists>r'. rb_Put k v r = Inr r' \<and> rb_Get e r' = Inr None \<and> e \<in> fst ` set (rb_slots r')"
proof -
  have len: "rb_head r < length (rb_data r)" and cap: "0 < rb_capacity r" using assms(1) by (auto simp: rb_inv_def)
  obtain r' where put: "rb_Put k v r = Inr r'" and inv: "rb_inv r'"
    and slots: "rb_slots r' = slots_put (rb_capacity r) k v (rb_slots r)"
    using rb_Put_refines [OF assms(1)] by blast
  have ne: "k \<noteq> e" using assms(3,5) by auto
  have "rb_index r' e = None"
    using put assms(2-4) ne len by (auto simp: rb_Put_def rb_store_def slice_at_def split: if_splits)
  moreover have "e \<in> fst ` set (rb_slots r')"
  proof -
    from rb_inv_index [OF assms(1,5)] obtain i where i: "i < rb_size r" "s = rb_slot r i" "re_key (rb_data r ! s) = e" .
    with assms(6) cap obtain j where j: "i = Suc j" using assms(1) by (cases i) (auto simp: rb_slot_def rb_inv_def)
    have "\<not> (\<exists>v'. (k, v', True) \<in> set (rb_slots r))" using assms(3) by (simp add: rb_slots_live [OF assms(1)])
    moreover have "tl (rb_slots r) ! j = rb_view r s"
      using i j by (simp add: nth_tl rb_slots_def)
    then have "rb_view r s \<in> set (tl (rb_slots r))"
      using i j by (metis Suc_less_eq2 length_rb_slots length_tl nth_mem Suc_pred diff_Suc_1 less_Suc_eq_0_disj nat.inject)
    ultimately show ?thesis
      using slots assms(2) i(3) by (force simp: slots_put_def slots_kill_def rb_view_def image_iff)
  qed
  ultimately show ?thesis using put by (auto simp: rb_Get_def)
qed

definition stale_ring :: "nat RingBuffer" where
  "stale_ring = \<lparr>rb_data = [\<lparr>re_key = ''a'', re_value = 1\<rparr>, \<lparr>re_key = ''a'', re_value = 2\<rparr>],
     rb_index = [''a'' \<mapsto> 1], rb_head = 0, rb_tail = 0, rb_size = 2, rb_capacity = 2\<rparr>"

text \<open>This state is reached by \<^verbatim>\<open>Put a\<close>, \<^verbatim>\<open>GetAndDelete a\<close>, \<^verbatim>\<open>Put a\<close> on a buffer of capacity two.\<close>

lemma stale_ring_reached:
  "(case rb_New 0 2 of Inr r0 \<Rightarrow>
     (case rb_Put ''a'' 1 r0 of Inr r1 \<Rightarrow>
       (case rb_GetAndDelete ''a'' r1 of Inr (_, r2) \<Rightarrow> rb_Put ''a'' 2 r2))) = Inr stale_ring"
  by (simp add: rb_New_def rb_Put_def rb_store_def rb_GetAndDelete_def slice_at_def stale_ring_def
      numeral_2_eq_2 fun_eq_iff)

end
