(* ===== verification/Stitch.thy ===== *)
theory Stitch
  imports Ringbuffer Jchf
begin

text \<open>
  \<^verbatim>\<open>pkg/stitch/stitch.go\<close>: pairing of ingress and egress flows through the ring buffer. The two meters
  are the numbers of their marks. The interface between the stitcher and its cache is the locale
  \<open>pairing_store\<close>, interpreted on the ring buffer.
\<close>

section \<open>Definitions\<close>

record stitchSnapshot =
  ss_TcpFlags :: u32
  ss_InBytes :: u64
  ss_InPkts :: u64
  ss_TcpRetransmit :: u32
  ss_Timestamp :: i64

record Stitcher =
  st_cache :: "stitchSnapshot RingBuffer"
  st_FlowsIn :: nat
  st_FlowsMatched :: nat

definition zero_snapshot :: stitchSnapshot where
  "zero_snapshot = \<lparr>ss_TcpFlags = 0, ss_InBytes = 0, ss_InPkts = 0, ss_TcpRetransmit = 0, ss_Timestamp = 0\<rparr>"

text \<open>\<^verbatim>\<open>NewStitcher\<close>: nil when stitching is not enabled.\<close>

definition NewStitcher :: "bool \<Rightarrow> int \<Rightarrow> Stitcher option res" where
  "NewStitcher enable bufLen =
     (if \<not> enable then Inr None
      else case rb_New zero_snapshot bufLen of
          Inl e \<Rightarrow> Inl e
        | Inr c \<Rightarrow> Inr (Some \<lparr>st_cache = c, st_FlowsIn = 0, st_FlowsMatched = 0\<rparr>))"

definition snapshot :: "JCHF \<Rightarrow> stitchSnapshot" where
  "snapshot msg = \<lparr>ss_TcpFlags = j_TcpFlags msg, ss_InBytes = j_InBytes msg, ss_InPkts = j_InPkts msg,
     ss_TcpRetransmit = j_TcpRetransmit msg, ss_Timestamp = j_Timestamp msg\<rparr>"

text \<open>The five assignments on a match; each writes to a map of the flow.\<close>

definition set_int :: "string \<Rightarrow> i32 \<Rightarrow> JCHF \<Rightarrow> JCHF res" where
  "set_int k v j = (case gm_set (j_CustomInt j) k v of Inl e \<Rightarrow> Inl e | Inr m \<Rightarrow> Inr (j\<lparr>j_CustomInt := m\<rparr>))"

definition set_bigint :: "string \<Rightarrow> i64 \<Rightarrow> JCHF \<Rightarrow> JCHF res" where
  "set_bigint k v j = (case gm_set (j_CustomBigInt j) k v of Inl e \<Rightarrow> Inl e | Inr m \<Rightarrow> Inr (j\<lparr>j_CustomBigInt := m\<rparr>))"

definition res_bind :: "'a res \<Rightarrow> ('a \<Rightarrow> 'b res) \<Rightarrow> 'b res" where
  "res_bind r f = (case r of Inl e \<Rightarrow> Inl e | Inr x \<Rightarrow> f x)"

definition add_pair :: "stitchSnapshot \<Rightarrow> JCHF \<Rightarrow> JCHF res" where
  "add_pair nm msg =
     res_bind (set_int ''pair_tcp_flags'' (ss_TcpFlags nm) msg) (\<lambda>msg.
     res_bind (set_bigint ''pair_in_bytes'' (ss_InBytes nm) msg) (\<lambda>msg.
     res_bind (set_bigint ''pair_in_pkts'' (ss_InPkts nm) msg) (\<lambda>msg.
     res_bind (set_int ''pair_tcp_rx'' (ss_TcpRetransmit nm) msg) (\<lambda>msg.
     set_bigint ''pair_timestamp'' (ss_Timestamp nm) msg))))"

definition Stitch :: "JCHF \<Rightarrow> Stitcher \<Rightarrow> (bool \<times> JCHF \<times> Stitcher) res" where
  "Stitch msg s =
     (let key = GetKey msg; s = s\<lparr>st_FlowsIn := st_FlowsIn s + 1\<rparr> in
      case rb_GetAndDelete key (st_cache s) of
        Inl e \<Rightarrow> Inl e
      | Inr (Some nm, c) \<Rightarrow>
          res_bind (add_pair nm msg) (\<lambda>msg.
          Inr (True, msg, s\<lparr>st_cache := c, st_FlowsMatched := st_FlowsMatched s + 1\<rparr>))
      | Inr (None, c) \<Rightarrow>
          res_bind (rb_Put key (snapshot msg) c) (\<lambda>c. Inr (False, msg, s\<lparr>st_cache := c\<rparr>)))"

text \<open>A sequence of flows through one stitcher, with the results of the calls.\<close>

fun stitch_run :: "JCHF list \<Rightarrow> Stitcher \<Rightarrow> ((bool \<times> JCHF) list \<times> Stitcher) res" where
  "stitch_run [] s = Inr ([], s)"
| "stitch_run (m # ms) s =
     (case Stitch m s of
        Inl e \<Rightarrow> Inl e
      | Inr (b, m', s') \<Rightarrow>
          (case stitch_run ms s' of Inl e \<Rightarrow> Inl e | Inr (rs, s'') \<Rightarrow> Inr ((b, m') # rs, s'')))"

section \<open>The cache interface\<close>

text \<open>
  What the stitcher relies on: a value put under a key is found under it, putting never brings up
  a value for another key that was not there before (it may drop some), and taking a value removes it
  and nothing else.
\<close>

locale pairing_store =
  fixes inv :: "'s \<Rightarrow> bool"
    and look :: "'s \<Rightarrow> string \<Rightarrow> 'v option"
    and put :: "string \<Rightarrow> 'v \<Rightarrow> 's \<Rightarrow> 's res"
    and tak :: "string \<Rightarrow> 's \<Rightarrow> ('v option \<times> 's) res"
  assumes put_ok: "inv s \<Longrightarrow> \<exists>s'. put k v s = Inr s' \<and> inv s' \<and> look s' k = Some v"
    and put_other: "inv s \<Longrightarrow> put k v s = Inr s' \<Longrightarrow> k' \<noteq> k \<Longrightarrow> look s' k' = Some v' \<Longrightarrow> look s k' = Some v'"
    and take_ok: "inv s \<Longrightarrow> \<exists>s'. tak k s = Inr (look s k, s') \<and> inv s' \<and> look s' = (look s)(k := None)"
begin

text \<open>\<open>tracks P s\<close>: whatever the store holds for a key is what the history \<open>P\<close> has pending for it.\<close>

definition tracks :: "(string \<Rightarrow> 'v option) \<Rightarrow> 's \<Rightarrow> bool" where
  "tracks P s \<longleftrightarrow> inv s \<and> look s \<subseteq>\<^sub>m P"

lemma tracks_take:
  assumes "tracks P s"
  shows "\<exists>s'. tak k s = Inr (look s k, s') \<and> tracks (P(k := None)) s' \<and> (look s k = None \<or> look s k = P k)"
proof -
  from assms obtain s' where tk: "tak k s = Inr (look s k, s')" "inv s'" "look s' = (look s)(k := None)"
    using take_ok [of s k] by (auto simp: tracks_def)
  have "look s' \<subseteq>\<^sub>m P(k := None)" using assms tk(3) by (auto simp: tracks_def map_le_def dom_def)
  moreover have "look s k = None \<or> look s k = P k" using assms by (auto simp: tracks_def map_le_def dom_def)
  ultimately show ?thesis using tk by (auto simp: tracks_def)
qed

lemma tracks_put:
  assumes "tracks P s"
  shows "\<exists>s'. put k v s = Inr s' \<and> tracks (P(k \<mapsto> v)) s'"
proof -
  from assms obtain s' where p: "put k v s = Inr s'" "inv s'" "look s' k = Some v"
    using put_ok [of s k v] by (auto simp: tracks_def)
  have "look s' k' = Some v' \<Longrightarrow> (P(k \<mapsto> v)) k' = Some v'" for k' v'
    using p put_other [OF _ p(1), of k' v'] assms by (auto simp: tracks_def map_le_def dom_def)
  then have "look s' \<subseteq>\<^sub>m P(k \<mapsto> v)" unfolding map_le_def by (metis domIff not_None_eq)
  with p show ?thesis by (auto simp: tracks_def)
qed

end

definition rb_look :: "'v RingBuffer \<Rightarrow> string \<Rightarrow> 'v option" where
  "rb_look r k = projr (rb_Get k r)"

lemma in_set_tl: "x \<in> set (tl xs) \<Longrightarrow> x \<in> set xs"
  by (cases xs) simp_all

lemma rb_look_slots: "rb_inv r \<Longrightarrow> rb_look r k = Some v \<longleftrightarrow> (k, v, True) \<in> set (rb_slots r)"
proof -
  assume inv: "rb_inv r"
  obtain ov where "rb_Get k r = Inr ov"
    using inv by (cases "rb_index r k") (auto simp: rb_Get_def slice_at_def elim: rb_inv_index)
  with rb_Get_slots [OF inv, of k v] show ?thesis by (simp add: rb_look_def)
qed

interpretation ring: pairing_store rb_inv rb_look rb_Put rb_GetAndDelete
proof
  fix r r' :: "'v RingBuffer" and k k' v v'
  assume inv: "rb_inv r"
  obtain r1 where r1: "rb_Put k v r = Inr r1" "rb_inv r1" "rb_slots r1 = slots_put (rb_capacity r) k v (rb_slots r)"
    using rb_Put_refines [OF inv] by blast
  have "(k, v, True) \<in> set (rb_slots r1)"
    using r1(3) by (auto simp: slots_put_def image_iff split: if_splits intro!: bexI)
  then show "\<exists>s'. rb_Put k v r = Inr s' \<and> rb_inv s' \<and> rb_look s' k = Some v"
    using r1 by (auto simp: rb_look_slots)
  assume "rb_Put k v r = Inr r'" and "k' \<noteq> k" and "rb_look r' k' = Some v'"
  with r1 inv show "rb_look r k' = Some v'"
    by (auto simp: rb_look_slots slots_put_def slots_kill_def dest: in_set_tl split: if_splits)
next
  fix r :: "'v RingBuffer" and k
  assume inv: "rb_inv r"
  obtain r1 where r1: "rb_GetAndDelete k r = Inr (rb_look r k, r1)" "rb_inv r1" "rb_slots r1 = slots_kill k (rb_slots r)"
    using rb_GetAndDelete_refines [OF inv] by (auto simp: rb_look_def)
  have "rb_look r1 k' = Some v \<longleftrightarrow> ((rb_look r)(k := None)) k' = Some v" for k' v
    using r1 inv by (auto simp: rb_look_slots slots_kill_def image_iff intro: bexI [of _ "(k', v, True)"])
  then have "rb_look r1 = (rb_look r)(k := None)"
    by (intro ext) (metis not_None_eq)
  with r1 show "\<exists>s'. rb_GetAndDelete k r = Inr (rb_look r k, s') \<and> rb_inv s' \<and> rb_look s' = (rb_look r)(k := None)"
    by blast
qed

section \<open>Which flows are paired\<close>

text \<open>
  The flow a key waits for, given the calls so far (latest first) with their results: the last flow
  of this key, if that call found no partner.
\<close>

fun last_flow :: "(JCHF \<times> bool) list \<Rightarrow> string \<Rightarrow> JCHF option" where
  "last_flow [] k = None"
| "last_flow ((m, matched) # hist) k =
     (if GetKey m = k then (if matched then None else Some m) else last_flow hist k)"

definition pending :: "(JCHF \<times> bool) list \<Rightarrow> string \<Rightarrow> stitchSnapshot option" where
  "pending hist k = map_option snapshot (last_flow hist k)"

lemma pending_Cons:
  "pending ((m, True) # hist) = (pending hist)(GetKey m := None)"
  "pending ((m, False) # hist) = (pending hist)(GetKey m \<mapsto> snapshot m)"
  by (auto simp: pending_def fun_eq_iff)

definition flow_ok :: "JCHF \<Rightarrow> bool" where
  "flow_ok m \<longleftrightarrow> j_CustomInt m \<noteq> None \<and> j_CustomBigInt m \<noteq> None"

lemma add_pair_ok:
  assumes "flow_ok m"
  obtains m' where "add_pair nm m = Inr m'"
  using assms by (auto simp: flow_ok_def add_pair_def set_int_def set_bigint_def res_bind_def gm_set_def)

definition paired :: "(JCHF \<times> bool) list \<Rightarrow> JCHF \<Rightarrow> bool \<times> JCHF \<Rightarrow> bool" where
  "paired hist m r \<longleftrightarrow>
     (if fst r then (\<exists>m0. last_flow hist (GetKey m) = Some m0 \<and> add_pair (snapshot m0) m = Inr (snd r))
      else snd r = m)"

lemma Stitch_step:
  assumes tr: "ring.tracks (pending hist) (st_cache s)" and ok: "flow_ok m"
  shows "\<exists>b m' s'. Stitch m s = Inr (b, m', s') \<and> ring.tracks (pending ((m, b) # hist)) (st_cache s') \<and>
     paired hist m (b, m') \<and> st_FlowsIn s' = st_FlowsIn s + 1 \<and>
     st_FlowsMatched s' = st_FlowsMatched s + (if b then 1 else 0)"
proof -
  let ?k = "GetKey m"
  obtain c where c: "rb_GetAndDelete ?k (st_cache s) = Inr (rb_look (st_cache s) ?k, c)"
    and trc: "ring.tracks ((pending hist)(?k := None)) c"
    and lk: "rb_look (st_cache s) ?k = None \<or> rb_look (st_cache s) ?k = pending hist ?k"
    using ring.tracks_take [OF tr, of ?k] by blast
  show ?thesis
  proof (cases "rb_look (st_cache s) ?k")
    case (Some nm)
    obtain m' where m': "add_pair nm m = Inr m'" using add_pair_ok [OF ok] .
    have "pending hist ?k = Some nm" using lk Some by auto
    then obtain m0 where "last_flow hist ?k = Some m0" "nm = snapshot m0" by (auto simp: pending_def)
    with Some c m' trc show ?thesis
      by (auto simp: Stitch_def Let_def res_bind_def pending_Cons paired_def)
  next
    case None
    obtain c' where "rb_Put ?k (snapshot m) c = Inr c'" "ring.tracks ((pending hist)(?k \<mapsto> snapshot m)) c'"
      using ring.tracks_put [OF trc, of ?k "snapshot m"] by auto
    with None c show ?thesis by (auto simp: Stitch_def Let_def res_bind_def pending_Cons paired_def)
  qed
qed

lemma stitch_run_tracks:
  assumes "ring.tracks (pending hist) (st_cache s)" and "\<forall>m \<in> set ms. flow_ok m"
  shows "\<exists>rs s'. stitch_run ms s = Inr (rs, s') \<and> length rs = length ms \<and>
     (\<forall>i < length ms. paired (rev (zip (take i ms) (map fst (take i rs))) @ hist) (ms ! i) (rs ! i)) \<and>
     st_FlowsIn s' = st_FlowsIn s + length ms \<and>
     st_FlowsMatched s' = st_FlowsMatched s + length (filter fst rs)"
  using assms
proof (induction ms arbitrary: s hist)
  case Nil
  then show ?case by simp
next
  case (Cons m ms)
  obtain b m' s1 where one: "Stitch m s = Inr (b, m', s1)" "ring.tracks (pending ((m, b) # hist)) (st_cache s1)"
      "paired hist m (b, m')" "st_FlowsIn s1 = st_FlowsIn s + 1"
      "st_FlowsMatched s1 = st_FlowsMatched s + (if b then 1 else 0)"
    using Stitch_step [OF Cons.prems(1), of m] Cons.prems(2) by auto
  obtain rs s' where rest: "stitch_run ms s1 = Inr (rs, s')" "length rs = length ms"
      "\<forall>i < length ms. paired (rev (zip (take i ms) (map fst (take i rs))) @ (m, b) # hist) (ms ! i) (rs ! i)"
      "st_FlowsIn s' = st_FlowsIn s1 + length ms" "st_FlowsMatched s' = st_FlowsMatched s1 + length (filter fst rs)"
    using Cons.IH [OF one(2)] Cons.prems(2) by auto
  have "paired (rev (zip (take i (m # ms)) (map fst (take i ((b, m') # rs)))) @ hist) ((m # ms) ! i) (((b, m') # rs) ! i)"
    if "i < length (m # ms)" for i
    using that one(3) rest(3) by (cases i) simp_all
  with one rest show ?case by (intro exI [of _ "(b, m') # rs"] exI [of _ s']) auto
qed


definition demo_flow :: "u64 \<Rightarrow> JCHF" where
  "demo_flow n = (SetMap NewJCHF)\<lparr>j_InBytes := n\<rparr>"


end
