(* ===== verification/Agent.thy ===== *)
theory Agent
  imports Flow_Filter "HOL-Library.Multiset"
begin

text \<open>
  \<^verbatim>\<open>pkg/cat/kkc.go\<close>: the path of a batch of flows through the agent: filtering, rollups, sampling,
  cutting into messages and handing them to the serializer. The Go \<^verbatim>\<open>int\<close> is an integer with the wrap
  of 64 bits written out where the code adds. Enrichment, the random shuffle, the \<^verbatim>\<open>Add\<close> of the
  rollups and the serializer are arguments; the output channel is the list of what was sent into it.
\<close>

section \<open>Cutting a batch\<close>

definition effectiveMaxFlowsPerMessage :: "int \<Rightarrow> int" where
  "effectiveMaxFlowsPerMessage n = (if n \<le> 0 then 1 else n)"

text \<open>\<^verbatim>\<open>for next := batchSize; next < keep+batchSize; next += batchSize\<close>\<close>

partial_function (option) slice_loop :: "int \<Rightarrow> int \<Rightarrow> int \<Rightarrow> int \<Rightarrow> (int \<times> int) list \<Rightarrow> (int \<times> int) list option"
where
  "slice_loop batchSize keep lst nxt bounds =
     (if nxt < wrap_int (keep + batchSize)
      then let batch = (if nxt > keep then keep else nxt);
               bounds = bounds @ [(lst, batch)]
           in if batch = keep then Some bounds
              else slice_loop batchSize keep nxt (wrap_int (nxt + batchSize)) bounds
      else Some bounds)"

declare slice_loop.simps [code]

definition jchfExportSliceBounds :: "int \<Rightarrow> int \<Rightarrow> (int \<times> int) list option" where
  "jchfExportSliceBounds batchSize keep =
     (let batchSize = effectiveMaxFlowsPerMessage batchSize in slice_loop batchSize keep 0 batchSize [])"

definition go_slice :: "int \<Rightarrow> int \<Rightarrow> 'a list \<Rightarrow> 'a list res" where
  "go_slice a b xs =
     (if 0 \<le> a \<and> a \<le> b \<and> b \<le> int (length xs) then Inr (take (nat b - nat a) (drop (nat a) xs))
      else Inl (Panic ''slice bounds out of range''))"

type_synonym serializer = "JCHF list \<Rightarrow> Output option res"

text \<open>The loop of \<^verbatim>\<open>exportJchfBatches\<close>: an error is logged and the batch is gone.\<close>

fun export_spans :: "serializer \<Rightarrow> JCHF list \<Rightarrow> (int \<times> int) list \<Rightarrow> Output list \<Rightarrow> Output list res" where
  "export_spans seri msgs [] msgsc = Inr msgsc"
| "export_spans seri msgs ((a, b) # spans) msgsc =
     (case go_slice a b msgs of
        Inl e \<Rightarrow> Inl e
      | Inr chunk \<Rightarrow>
          (case seri chunk of
             Inl e \<Rightarrow> export_spans seri msgs spans msgsc
           | Inr None \<Rightarrow> export_spans seri msgs spans msgsc
           | Inr (Some ser) \<Rightarrow> export_spans seri msgs spans (msgsc @ [ser])))"

definition exportJchfBatches :: "int \<Rightarrow> JCHF list \<Rightarrow> int \<Rightarrow> serializer \<Rightarrow> Output list \<Rightarrow> Output list res option" where
  "exportJchfBatches maxFlows msgs keep seri msgsc =
     map_option (\<lambda>spans. export_spans seri msgs spans msgsc) (jchfExportSliceBounds maxFlows keep)"

section \<open>Filtering\<close>

text \<open>The inner loop of \<^verbatim>\<open>reduce\<close> over the filters, and the outer one over the flows.\<close>

fun keep_flow :: "FilterWrapper list \<Rightarrow> JCHF \<Rightarrow> (bool \<times> JCHF) res" where
  "keep_flow [] msg = Inr (True, msg)"
| "keep_flow (f # fs) msg =
     (case FilterWrapper_Filter f msg of
        Inl e \<Rightarrow> Inl e
      | Inr (b, msg') \<Rightarrow> if b then keep_flow fs msg' else Inr (False, msg'))"

fun reduce :: "FilterWrapper list \<Rightarrow> JCHF list \<Rightarrow> JCHF list res" where
  "reduce filters [] = Inr []"
| "reduce filters (msg # ms) =
     (case keep_flow filters msg of
        Inl e \<Rightarrow> Inl e
      | Inr (keep, msg') \<Rightarrow>
          (case reduce filters ms of
             Inl e \<Rightarrow> Inl e
           | Inr out \<Rightarrow> Inr (if keep then msg' # out else out)))"

section \<open>A batch of input\<close>

record agent =
  ag_MaxFlowsPerMessage :: int
  ag_SampleRate :: int
  ag_SampleMin :: int
  ag_RollupAndAlpha :: bool
  ag_enrich :: bool
  ag_doFilter :: bool
  ag_doRollups :: bool
  ag_filters :: "FilterWrapper list"
  ag_msgsc :: "Output list"
  ag_InputQ :: nat

text \<open>
  \<^verbatim>\<open>int(math.Max(float64(len)/float64(rate), 1))\<close>: for lengths and rates below \<open>2 ^ 53\<close> the rounded
  quotient has the same integer part as the exact one.
\<close>

definition sample_keep :: "nat \<Rightarrow> int \<Rightarrow> int" where
  "sample_keep n rate = max (int n div rate) 1"

definition scale_rate :: "int \<Rightarrow> JCHF \<Rightarrow> JCHF" where
  "scale_rate rate msg = msg\<lparr>j_SampleRate := j_SampleRate msg * word_of_int rate\<rparr>"

fun map_flows :: "JCHF list \<Rightarrow> (JCHF list \<times> flow_map list) res" where
  "map_flows [] = Inr ([], [])"
| "map_flows (m # ms) =
     (case ToMap m of
        Inl e \<Rightarrow> Inl e
      | Inr (m', mp) \<Rightarrow>
          (case map_flows ms of Inl e \<Rightarrow> Inl e | Inr (ms', mps) \<Rightarrow> Inr (m' # ms', gm_lookup mp # mps)))"

text \<open>The last part of \<^verbatim>\<open>handleInput\<close>: sampling, export, and the counter.\<close>

definition sampled :: "(JCHF list \<Rightarrow> JCHF list) \<Rightarrow> agent \<Rightarrow> JCHF list \<Rightarrow> JCHF list \<times> int" where
  "sampled shuffle ag msgs =
     (let keep = int (length msgs);
          doSample = (1 < length msgs \<and> j_ApplySample (hd msgs))
      in if doSample \<and> 1 < ag_SampleRate ag \<and> ag_SampleMin ag < keep
         then (map (scale_rate (ag_SampleRate ag)) (shuffle msgs), sample_keep (length msgs) (ag_SampleRate ag))
         else (msgs, keep))"

text \<open>\<^verbatim>\<open>for _, r := range kc.rollups { r.Add(rv) }\<close>, for the \<^verbatim>\<open>Add\<close> of a rollup.\<close>

fun add_rollups :: "(flow_map list \<Rightarrow> 'r \<Rightarrow> 'r res) \<Rightarrow> flow_map list \<Rightarrow> 'r list \<Rightarrow> 'r list res" where
  "add_rollups radd rv [] = Inr []"
| "add_rollups radd rv (r # rs) =
     (case radd rv r of
        Inl e \<Rightarrow> Inl e
      | Inr r' \<Rightarrow> map_sum id (Cons r') (add_rollups radd rv rs))"

definition handleInput ::
  "(JCHF list \<Rightarrow> JCHF list) \<Rightarrow> (JCHF list \<Rightarrow> JCHF list) \<Rightarrow> (flow_map list \<Rightarrow> 'r \<Rightarrow> 'r res) \<Rightarrow> serializer \<Rightarrow>
   JCHF list \<Rightarrow> agent \<Rightarrow> 'r list \<Rightarrow> (agent \<times> 'r list) res option" where
  "handleInput enrich shuffle radd seri msgs ag rollups =
     (let msgs = (if ag_enrich ag then enrich msgs else msgs) in
      case (if ag_doFilter ag then reduce (ag_filters ag) msgs else Inr msgs) of
        Inl e \<Rightarrow> Some (Inl e)
      | Inr msgs \<Rightarrow>
          (case (if ag_doRollups ag then map_flows msgs else Inr (msgs, [])) of
             Inl e \<Rightarrow> Some (Inl e)
           | Inr (msgs, rv) \<Rightarrow>
               (case (if ag_doRollups ag then add_rollups radd rv rollups else Inr rollups) of
                  Inl e \<Rightarrow> Some (Inl e)
                | Inr rollups \<Rightarrow>
                    if \<not> ag_doRollups ag \<or> ag_RollupAndAlpha ag
                    then (case sampled shuffle ag msgs of (msgs, keep) \<Rightarrow>
                      map_option (\<lambda>r. case r of
                          Inl e \<Rightarrow> Inl e
                        | Inr out \<Rightarrow> Inr (ag\<lparr>ag_msgsc := out, ag_InputQ := ag_InputQ ag + length msgs\<rparr>, rollups))
                        (exportJchfBatches (ag_MaxFlowsPerMessage ag) msgs keep seri (ag_msgsc ag)))
                    else Some (Inr (ag\<lparr>ag_InputQ := ag_InputQ ag + length msgs\<rparr>, rollups)))))"

text \<open>
  The \<^verbatim>\<open>tooBig\<close> case of \<^verbatim>\<open>sendToSinks\<close>: \<^verbatim>\<open>int(math.Max(float64(n) * .75, 1))\<close>, exact for \<open>n < 2 ^ 51\<close>.
\<close>

definition tooBig_shrink :: "agent \<Rightarrow> agent" where
  "tooBig_shrink ag = ag\<lparr>ag_MaxFlowsPerMessage := max (3 * ag_MaxFlowsPerMessage ag div 4) 1\<rparr>"

section \<open>The cut is a partition\<close>

lemma slice_loop_parts:
  assumes "0 < bs" and "keep + bs < 2 ^ 63" and "0 \<le> lst" and "lst < keep" and "nxt = lst + bs"
  shows "\<exists>spans. slice_loop bs keep lst nxt bounds = Some (bounds @ spans) \<and>
     (\<forall>(a, b) \<in> set spans. lst \<le> a \<and> a < b \<and> b \<le> keep \<and> b - a \<le> bs) \<and>
     (\<forall>xs :: 'a list. concat (map (\<lambda>(a, b). take (nat b - nat a) (drop (nat a) xs)) spans) =
        take (nat keep - nat lst) (drop (nat lst) xs))"
  using assms(3-5)
proof (induction "nat (keep - lst)" arbitrary: lst nxt bounds rule: less_induct)
  case less
  have cond: "nxt < wrap_int (keep + bs)" using less.prems assms by (simp add: wrap_int_id)
  show ?case
  proof (cases "nxt \<ge> keep")
    case True
    have "slice_loop bs keep lst nxt bounds = Some (bounds @ [(lst, keep)])"
      using True cond by (subst slice_loop.simps) (auto simp: Let_def)
    then show ?thesis using True less.prems by (intro exI [of _ "[(lst, keep)]"]) simp
  next
    case False
    have w: "wrap_int (nxt + bs) = nxt + bs" using False less.prems assms by (intro wrap_int_id) auto
    have step: "slice_loop bs keep lst nxt bounds = slice_loop bs keep nxt (nxt + bs) (bounds @ [(lst, nxt)])"
      using False cond w by (subst slice_loop.simps) (auto simp: Let_def)
    have "nat (keep - nxt) < nat (keep - lst)" using less.prems assms(1) by simp
    from less.hyps [OF this _ _ refl, of "bounds @ [(lst, nxt)]"] False less.prems assms(1)
    obtain spans where sp: "slice_loop bs keep nxt (nxt + bs) (bounds @ [(lst, nxt)]) = Some ((bounds @ [(lst, nxt)]) @ spans)"
      "\<forall>(a, b) \<in> set spans. nxt \<le> a \<and> a < b \<and> b \<le> keep \<and> b - a \<le> bs"
      "\<forall>xs :: 'a list. concat (map (\<lambda>(a, b). take (nat b - nat a) (drop (nat a) xs)) spans) =
        take (nat keep - nat nxt) (drop (nat nxt) xs)"
      by auto
    have "take (nat nxt - nat lst) (drop (nat lst) xs) @ take (nat keep - nat nxt) (drop (nat nxt) xs) =
        take (nat keep - nat lst) (drop (nat lst) xs)" for xs :: "'a list"
    proof -
      have "nat keep - nat lst = (nat nxt - nat lst) + (nat keep - nat nxt)"
        "drop (nat nxt) xs = drop (nat nxt - nat lst) (drop (nat lst) xs)"
        using less.prems False assms(1) by simp_all
      then show ?thesis by (simp add: take_add)
    qed
    then show ?thesis
      using step sp less.prems assms(1) False
      by (intro exI [of _ "(lst, nxt) # spans"]) (auto simp: split_beta)
  qed
qed

text \<open>
  Cutting \<open>keep\<close> flows into messages of at most \<open>n\<close> (at least one, whatever the configured value)
  always ends, and the spans are a partition: none is empty, none is longer than the limit, and put
  together they are exactly the first \<open>keep\<close> flows in their order. The sum of the two numbers must
  fit an \<^verbatim>\<open>int\<close>.
\<close>

lemma jchf_slices_partition:
  assumes "0 \<le> keep" and "keep + effectiveMaxFlowsPerMessage n < 2 ^ 63"
  shows "\<exists>spans. jchfExportSliceBounds n keep = Some spans \<and>
     (\<forall>(a, b) \<in> set spans. 0 \<le> a \<and> a < b \<and> b \<le> keep \<and> b - a \<le> effectiveMaxFlowsPerMessage n) \<and>
     concat (map (\<lambda>(a, b). take (nat b - nat a) (drop (nat a) xs)) spans) = take (nat keep) (xs :: 'a list)"
proof (cases "keep = 0")
  case True
  have pos: "0 < effectiveMaxFlowsPerMessage n" by (simp add: effectiveMaxFlowsPerMessage_def)
  have "jchfExportSliceBounds n keep = Some []"
    using True assms pos by (simp add: jchfExportSliceBounds_def Let_def slice_loop.simps wrap_int_id)
  with True show ?thesis by simp
next
  case False
  have "0 < effectiveMaxFlowsPerMessage n" by (simp add: effectiveMaxFlowsPerMessage_def)
  from slice_loop_parts [OF this assms(2), of 0 "effectiveMaxFlowsPerMessage n" "[]", where 'a = 'a] False assms(1)
  show ?thesis by (auto simp: jchfExportSliceBounds_def Let_def)
qed

text \<open>
  When the sum does not fit, nothing is exported at all: the loop condition wraps to a negative
  number and no span is produced, although there are flows to keep.
\<close>

lemma jchf_slices_overflow:
  assumes "0 \<le> keep" and "keep < 2 ^ 63" and "n < 2 ^ 63" and "2 ^ 63 \<le> keep + effectiveMaxFlowsPerMessage n"
  shows "jchfExportSliceBounds n keep = Some []"
proof -
  have bounds: "0 < effectiveMaxFlowsPerMessage n" "effectiveMaxFlowsPerMessage n < 2 ^ 63"
    using assms(3) by (simp_all add: effectiveMaxFlowsPerMessage_def)
  have "wrap_int (keep + effectiveMaxFlowsPerMessage n) = keep + effectiveMaxFlowsPerMessage n - 2 ^ 64"
  proof -
    have "(keep + effectiveMaxFlowsPerMessage n + 2 ^ 63) mod 2 ^ 64 =
        (keep + effectiveMaxFlowsPerMessage n + 2 ^ 63 - 2 ^ 64) mod 2 ^ 64"
      by (rule minus_mod_self2 [symmetric])
    also have "\<dots> = keep + effectiveMaxFlowsPerMessage n + 2 ^ 63 - 2 ^ 64"
      using assms bounds by (intro mod_pos_pos_trivial) simp_all
    finally show ?thesis by (simp add: wrap_int_def)
  qed
  with assms bounds show ?thesis
    by (simp add: jchfExportSliceBounds_def Let_def slice_loop.simps)
qed

section \<open>What is exported\<close>

definition outputs :: "serializer \<Rightarrow> JCHF list list \<Rightarrow> Output list" where
  "outputs seri chunks = concat (map (\<lambda>c. case seri c of Inr (Some ser) \<Rightarrow> [ser] | _ \<Rightarrow> []) chunks)"

definition span_slice :: "'a list \<Rightarrow> int \<times> int \<Rightarrow> 'a list" where
  "span_slice xs = (\<lambda>(a, b). take (nat b - nat a) (drop (nat a) xs))"

lemma export_spans_outputs:
  "\<forall>(a, b) \<in> set spans. 0 \<le> a \<and> a < b \<and> b \<le> int (length msgs) \<Longrightarrow>
   export_spans seri msgs spans msgsc = Inr (msgsc @ outputs seri (map (span_slice msgs) spans))"
proof (induction spans arbitrary: msgsc)
  case Nil
  then show ?case by (simp add: outputs_def)
next
  case (Cons sp spans)
  obtain a b where sp: "sp = (a, b)" by fastforce
  with Cons.prems have "go_slice a b msgs = Inr (span_slice msgs (a, b))"
    by (simp add: go_slice_def span_slice_def)
  with Cons show ?case by (simp add: sp outputs_def split: sum.split option.split)
qed

lemma exportJchfBatches_chunks:
  assumes "0 \<le> keep" and "keep \<le> int (length msgs)" and "keep + effectiveMaxFlowsPerMessage n < 2 ^ 63"
  shows "\<exists>chunks. exportJchfBatches n msgs keep seri msgsc = Some (Inr (msgsc @ outputs seri chunks)) \<and>
     concat chunks = take (nat keep) msgs \<and>
     (\<forall>c \<in> set chunks. c \<noteq> [] \<and> int (length c) \<le> effectiveMaxFlowsPerMessage n)"
proof (cases "keep = 0")
  case True
  have "0 < effectiveMaxFlowsPerMessage n" by (simp add: effectiveMaxFlowsPerMessage_def)
  with True assms have "jchfExportSliceBounds n keep = Some []"
    by (simp add: jchfExportSliceBounds_def Let_def slice_loop.simps wrap_int_id)
  with True show ?thesis by (intro exI [of _ "[]"]) (simp add: exportJchfBatches_def outputs_def)
next
  case False
  have pos: "0 < effectiveMaxFlowsPerMessage n" by (simp add: effectiveMaxFlowsPerMessage_def)
  obtain spans where spans: "jchfExportSliceBounds n keep = Some spans"
      "\<forall>(a, b) \<in> set spans. 0 \<le> a \<and> a < b \<and> b \<le> keep \<and> b - a \<le> effectiveMaxFlowsPerMessage n"
      "concat (map (span_slice msgs) spans) = take (nat keep) msgs"
    using slice_loop_parts [OF pos assms(3), of 0 "effectiveMaxFlowsPerMessage n" "[]", where 'a = JCHF] False assms(1)
    by (auto simp: jchfExportSliceBounds_def Let_def span_slice_def)
  have "c \<noteq> [] \<and> int (length c) \<le> effectiveMaxFlowsPerMessage n" if "c \<in> set (map (span_slice msgs) spans)" for c
  proof -
    from that obtain a b where ab: "(a, b) \<in> set spans" "c = span_slice msgs (a, b)" by auto
    with spans(2) have "0 \<le> a" "a < b" "b \<le> keep" "b - a \<le> effectiveMaxFlowsPerMessage n" by auto
    then have "length c = nat b - nat a" using ab(2) assms(2) by (simp add: span_slice_def)
    then show ?thesis using \<open>0 \<le> a\<close> \<open>a < b\<close> \<open>b - a \<le> effectiveMaxFlowsPerMessage n\<close> by auto
  qed
  moreover have "\<forall>(a, b) \<in> set spans. 0 \<le> a \<and> a < b \<and> b \<le> int (length msgs)"
    using spans(2) assms(2) by auto
  ultimately show ?thesis
    using spans export_spans_outputs [of spans msgs seri msgsc]
    by (intro exI [of _ "map (span_slice msgs) spans"]) (simp add: exportJchfBatches_def)
qed

lemma sampled_bounds:
  assumes "length (shuffle msgs) = length msgs" and "sampled shuffle ag msgs = (msgs', keep)"
  shows "length msgs' = length msgs \<and> 0 \<le> keep \<and> keep \<le> int (length msgs) \<and> (msgs \<noteq> [] \<longrightarrow> 1 \<le> keep)"
proof -
  have "n div r \<le> n" if "1 < r" "0 \<le> n" for n r :: int
    using that zdiv_mono2 [of n 1 r] by simp
  then show ?thesis
    using assms by (cases msgs) (auto simp: sampled_def sample_keep_def Let_def split: if_splits)
qed

text \<open>
  C24. A batch of input is exported completely: after enrichment, filtering and rollups (whose results
  are \<open>msgs1\<close> and \<open>msgs2\<close>) the kept flows reach the serializer in order, each in exactly one message,
  no message empty or above the limit; every output the serializer makes is sent. Sampling keeps at
  least one flow of a non-empty batch, never more than there are, and no access is out of range.
\<close>

theorem handleInput_exports:
  assumes "(if ag_doFilter ag then reduce (ag_filters ag) (if ag_enrich ag then enrich msgs else msgs)
            else Inr (if ag_enrich ag then enrich msgs else msgs)) = Inr msgs1"
    and "(if ag_doRollups ag then map_flows msgs1 else Inr (msgs1, [])) = Inr (msgs2, rv)"
    and "(if ag_doRollups ag then add_rollups radd rv rollups else Inr rollups) = Inr rs"
    and "\<not> ag_doRollups ag \<or> ag_RollupAndAlpha ag"
    and "\<And>xs. mset (shuffle xs) = mset xs"
    and "sampled shuffle ag msgs2 = (msgs3, keep)"
    and "int (length msgs2) + effectiveMaxFlowsPerMessage (ag_MaxFlowsPerMessage ag) < 2 ^ 63"
  shows "\<exists>chunks. handleInput enrich shuffle radd seri msgs ag rollups =
       Some (Inr (ag\<lparr>ag_msgsc := ag_msgsc ag @ outputs seri chunks, ag_InputQ := ag_InputQ ag + length msgs2\<rparr>, rs)) \<and>
     concat chunks = take (nat keep) msgs3 \<and> (msgs2 \<noteq> [] \<longrightarrow> 1 \<le> keep) \<and> keep \<le> int (length msgs2) \<and>
     (\<forall>c \<in> set chunks. c \<noteq> [] \<and> int (length c) \<le> effectiveMaxFlowsPerMessage (ag_MaxFlowsPerMessage ag))"
proof -
  have b: "length msgs3 = length msgs2 \<and> 0 \<le> keep \<and> keep \<le> int (length msgs2) \<and> (msgs2 \<noteq> [] \<longrightarrow> 1 \<le> keep)"
    using sampled_bounds [OF _ assms(6)] assms(5) by (metis size_mset)
  then obtain chunks where
      "exportJchfBatches (ag_MaxFlowsPerMessage ag) msgs3 keep seri (ag_msgsc ag) =
         Some (Inr (ag_msgsc ag @ outputs seri chunks))"
      "concat chunks = take (nat keep) msgs3"
      "\<forall>c \<in> set chunks. c \<noteq> [] \<and> int (length c) \<le> effectiveMaxFlowsPerMessage (ag_MaxFlowsPerMessage ag)"
    using exportJchfBatches_chunks [of keep msgs3 "ag_MaxFlowsPerMessage ag" seri "ag_msgsc ag"] assms(7) by auto
  with b assms(1-4,6) show ?thesis
    by (intro exI [of _ chunks]) (simp add: handleInput_def Let_def)
qed

definition demo_agent :: agent where
  "demo_agent = \<lparr>ag_MaxFlowsPerMessage = 2, ag_SampleRate = 1, ag_SampleMin = 1, ag_RollupAndAlpha = False,
     ag_enrich = False, ag_doFilter = False, ag_doRollups = False, ag_filters = [], ag_msgsc = [], ag_InputQ = 0\<rparr>"

theorem handleInput_exports_witness:
  "\<exists>chunks. handleInput id id (\<lambda>_. Inr) (\<lambda>_. Inr None) [NewJCHF, NewJCHF, NewJCHF] demo_agent ([] :: nat list) =
       Some (Inr (demo_agent\<lparr>ag_msgsc := ag_msgsc demo_agent @ outputs (\<lambda>_. Inr None) chunks,
         ag_InputQ := ag_InputQ demo_agent + 3\<rparr>, [])) \<and>
     concat chunks = [NewJCHF, NewJCHF, NewJCHF]"
  using handleInput_exports [of demo_agent id "[NewJCHF, NewJCHF, NewJCHF]" "[NewJCHF, NewJCHF, NewJCHF]"
      "[NewJCHF, NewJCHF, NewJCHF]" "[]" "\<lambda>_. Inr" "[] :: nat list" "[]" id "[NewJCHF, NewJCHF, NewJCHF]" 3 "\<lambda>_. Inr None"]
  by (auto simp: demo_agent_def sampled_def effectiveMaxFlowsPerMessage_def)

lemma tooBig_iter:
  "ag_MaxFlowsPerMessage ((tooBig_shrink ^^ k) ag) * 4 ^ k \<le> max (4 ^ k) (ag_MaxFlowsPerMessage ag * 3 ^ k)"
proof (induction k)
  case 0
  then show ?case by simp
next
  case (Suc k)
  let ?n = "ag_MaxFlowsPerMessage ((tooBig_shrink ^^ k) ag)"
  have mx: "0 < a \<Longrightarrow> 3 * max a b \<le> max (4 * a) (3 * b)" for a b :: int by (simp add: max_def)
  have "3 * ?n div 4 * 4 \<le> 3 * ?n" using div_mult_mod_eq [of "3 * ?n" 4] pos_mod_sign [of 4 "3 * ?n"] by linarith
  then have "3 * ?n div 4 * 4 * 4 ^ k \<le> 3 * ?n * 4 ^ k" by (rule mult_right_mono) simp
  also have "\<dots> \<le> 3 * max (4 ^ k) (ag_MaxFlowsPerMessage ag * 3 ^ k)" using Suc.IH by (simp add: mult.assoc)
  also have "\<dots> \<le> max (4 ^ Suc k) (ag_MaxFlowsPerMessage ag * 3 ^ Suc k)"
    using mx [of "4 ^ k" "ag_MaxFlowsPerMessage ag * 3 ^ k"] by (simp add: mult.left_commute)
  finally have "3 * ?n div 4 * 4 ^ Suc k \<le> max (4 ^ Suc k) (ag_MaxFlowsPerMessage ag * 3 ^ Suc k)" by (simp add: mult.assoc)
  moreover have "x * c \<le> m \<Longrightarrow> c \<le> m \<Longrightarrow> max x 1 * c \<le> m" for x c m :: int by (simp add: max_def)
  moreover have "ag_MaxFlowsPerMessage ((tooBig_shrink ^^ Suc k) ag) = max (3 * ?n div 4) 1"
    by (simp add: tooBig_shrink_def)
  ultimately show ?case by (metis max.cobounded1)
qed

lemma tooBig_one:
  assumes "0 < k" and "ag_MaxFlowsPerMessage ag * 3 ^ k < 2 * 4 ^ k"
  shows "ag_MaxFlowsPerMessage ((tooBig_shrink ^^ k) ag) = 1"
proof -
  let ?n = "ag_MaxFlowsPerMessage ((tooBig_shrink ^^ k) ag)"
  have "?n * 4 ^ k < 2 * 4 ^ k" using tooBig_iter [of k ag] by (rule le_less_trans) (simp add: assms(2))
  then have "?n < 2" by simp
  moreover have "1 \<le> ?n" using assms(1) by (cases k) (simp_all add: tooBig_shrink_def)
  ultimately show ?thesis by simp
qed

lemma bernoulli_4_3: "(3 + int k) * 3 ^ k \<le> 3 * 4 ^ k"
proof (induction k)
  case (Suc k)
  have "(3 + int (Suc k)) * 3 ^ Suc k \<le> 4 * ((3 + int k) * 3 ^ k)" by (simp add: algebra_simps)
  also have "\<dots> \<le> 4 * (3 * 4 ^ k)" using Suc.IH by (rule mult_left_mono) simp
  finally show ?case by simp
qed simp

text \<open>
  C40. However large the configured message size is, reports of a sink that messages are too big end at the
  smallest one: from some number of reports on, messages hold one flow, and it is at most the first \<open>k\<close> with
  \<open>n \<cdot> 3\<^sup>k < 2 \<cdot> 4\<^sup>k\<close> (30 reports for the default of 10000).
\<close>

theorem tooBig_reaches_one:
  "(\<forall>k > 0. ag_MaxFlowsPerMessage ag * 3 ^ k < 2 * 4 ^ k \<longrightarrow> ag_MaxFlowsPerMessage ((tooBig_shrink ^^ k) ag) = 1) \<and>
   (\<exists>k0. \<forall>k \<ge> k0. ag_MaxFlowsPerMessage ((tooBig_shrink ^^ k) ag) = 1)"
proof
  let ?n = "ag_MaxFlowsPerMessage ag"
  show "\<forall>k > 0. ?n * 3 ^ k < 2 * 4 ^ k \<longrightarrow> ag_MaxFlowsPerMessage ((tooBig_shrink ^^ k) ag) = 1"
    using tooBig_one by blast
  have "ag_MaxFlowsPerMessage ((tooBig_shrink ^^ k) ag) = 1" if k: "Suc (2 * nat ?n) \<le> k" for k
  proof (rule tooBig_one)
    show "0 < k" using k by simp
    have "2 * ?n \<le> int k" using k by linarith
    then have "2 * ?n * 3 ^ k \<le> (3 + int k) * 3 ^ k" by (intro mult_right_mono) simp_all
    then have "2 * ?n * 3 ^ k \<le> 3 * 4 ^ k" using bernoulli_4_3 by (rule order_trans)
    then have "2 * (?n * 3 ^ k) \<le> 3 * 4 ^ k" by (simp only: mult.assoc)
    moreover have "(0 :: int) < 4 ^ k" by simp
    ultimately show "?n * 3 ^ k < 2 * 4 ^ k" by linarith
  qed
  then show "\<exists>k0. \<forall>k \<ge> k0. ag_MaxFlowsPerMessage ((tooBig_shrink ^^ k) ag) = 1" by blast
qed

theorem tooBig_reaches_one_witness:
  "ag_MaxFlowsPerMessage ((tooBig_shrink ^^ 30) (demo_agent\<lparr>ag_MaxFlowsPerMessage := 10000\<rparr>)) = 1"
  using tooBig_reaches_one [of "demo_agent\<lparr>ag_MaxFlowsPerMessage := 10000\<rparr>"] by (simp add: demo_agent_def)

section \<open>Which flows the filters keep\<close>

definition flow_view :: "JCHF \<Rightarrow> flow_map" where
  "flow_view j = (case ToMap j of Inr (_, m) \<Rightarrow> gm_lookup m | _ \<Rightarrow> Map.empty)"

definition flow_core :: "JCHF \<Rightarrow> JCHF" where
  "flow_core j = j\<lparr>j_avroSet := None, j_hasSetAvro := False\<rparr>"

definition passes :: "FilterWrapper list \<Rightarrow> JCHF \<Rightarrow> bool" where
  "passes filters j \<longleftrightarrow> (\<forall>w \<in> set filters. \<exists>f \<in> set w. Filter_FilterMap f (flow_view j) = Inr True)"

lemma ToMap_ok: "j_hasSetAvro j \<or> j_avroSet j \<noteq> None \<Longrightarrow> \<exists>j' m. ToMap j = Inr (j', m)"
  by (auto simp: ToMap_def Let_def split: option.splits)

lemma flow_view_fresh:
  "\<not> j_hasSetAvro j \<Longrightarrow> j_avroSet j = Some m \<Longrightarrow>
   flow_view j k = (case map_of (ToMap_entries j) k of None \<Rightarrow> m k | Some v \<Rightarrow> Some v)"
  using ToMap_lookup [of j m] by (auto simp: flow_view_def)

lemma ToMap_core: "ToMap j = Inr (j', m) \<Longrightarrow> flow_core j' = flow_core j \<and> flow_view j' = flow_view j"
  using ToMap_cached [of j j' m]
  by (auto simp: flow_view_def) (auto simp: ToMap_def flow_core_def Let_def split: if_splits option.splits)

lemma FilterWrapper_Filter_eval:
  assumes "ToMap j = Inr (j', m)" and "\<forall>f \<in> set fs. \<exists>b. Filter_FilterMap f (gm_lookup m) = Inr b"
  shows "\<exists>j''. (j'' = j \<or> j'' = j') \<and>
     FilterWrapper_Filter fs j = Inr (\<exists>f \<in> set fs. Filter_FilterMap f (gm_lookup m) = Inr True, j'')"
  using assms
proof (induction fs arbitrary: j)
  case Nil
  then show ?case by auto
next
  case (Cons f fs)
  obtain b where b: "Filter_FilterMap f (gm_lookup m) = Inr b" using Cons.prems(2) by auto
  have cached: "ToMap j' = Inr (j', m)" using ToMap_cached [OF Cons.prems(1)] .
  show ?case
  proof (cases b)
    case True
    with Cons.prems(1) b show ?thesis by (auto simp: Filter_Filter_def)
  next
    case False
    with Cons.prems b Cons.IH [OF cached] show ?thesis by (auto simp: Filter_Filter_def)
  qed
qed

lemma keep_flow_eval:
  assumes "j_hasSetAvro j \<or> j_avroSet j \<noteq> None"
    and "\<forall>w \<in> set filters. \<forall>f \<in> set w. \<exists>b. Filter_FilterMap f (flow_view j) = Inr b"
  shows "\<exists>j'. flow_core j' = flow_core j \<and> keep_flow filters j = Inr (passes filters j, j')"
proof -
  obtain j0 m where m: "ToMap j = Inr (j0, m)" using ToMap_ok [OF assms(1)] by blast
  then have view: "flow_view j = gm_lookup m" by (simp add: flow_view_def)
  have cached: "ToMap j0 = Inr (j0, m)" using ToMap_cached [OF m] .
  have "\<exists>j'. (j' = j \<or> j' = j0) \<and> keep_flow filters i = Inr (\<forall>w \<in> set filters. \<exists>f \<in> set w. Filter_FilterMap f (gm_lookup m) = Inr True, j')"
    if "i = j \<or> i = j0" and "\<forall>w \<in> set filters. \<forall>f \<in> set w. \<exists>b. Filter_FilterMap f (gm_lookup m) = Inr b" for i filters
    using that
  proof (induction filters arbitrary: i)
    case Nil
    then show ?case by auto
  next
    case (Cons w ws)
    have "ToMap i = Inr (j0, m)" using Cons.prems(1) m cached by auto
    from FilterWrapper_Filter_eval [OF this, of w] Cons.prems(2) obtain i' where
        i': "i' = i \<or> i' = j0"
        "FilterWrapper_Filter w i = Inr (\<exists>f \<in> set w. Filter_FilterMap f (gm_lookup m) = Inr True, i')" by auto
    then have "i' = j \<or> i' = j0" using Cons.prems(1) by auto
    from Cons.IH [OF this] Cons.prems(2) i' \<open>i' = j \<or> i' = j0\<close> show ?case by auto
  qed
  from this [OF _ assms(2) [unfolded view], of j] obtain j' where
      "j' = j \<or> j' = j0" "keep_flow filters j = Inr (passes filters j, j')"
    by (auto simp: passes_def view)
  then show ?thesis using ToMap_core [OF m] by auto
qed

text \<open>
  \<^verbatim>\<open>reduce\<close> keeps exactly the flows that pass: in their order, those for which every group of filters
  has a filter that holds; and of each kept flow nothing but its cached map view may change. It
  applies when no filter indexes out of range on one of the flows and their maps exist.
\<close>

lemma reduce_keeps_passing:
  assumes "\<forall>j \<in> set msgs. (j_hasSetAvro j \<or> j_avroSet j \<noteq> None) \<and>
      (\<forall>w \<in> set filters. \<forall>f \<in> set w. \<exists>b. Filter_FilterMap f (flow_view j) = Inr b)"
  shows "\<exists>out. reduce filters msgs = Inr out \<and> map flow_core out = map flow_core (filter (passes filters) msgs)"
  using assms
proof (induction msgs)
  case Nil
  then show ?case by simp
next
  case (Cons j msgs)
  then obtain out where "reduce filters msgs = Inr out" "map flow_core out = map flow_core (filter (passes filters) msgs)"
    by auto
  moreover obtain j' where "flow_core j' = flow_core j" "keep_flow filters j = Inr (passes filters j, j')"
    using keep_flow_eval [of j filters] Cons.prems by auto
  ultimately show ?case by auto
qed

definition demo_filter :: Filter where
  "demo_filter = FInt \<lparr>if_cf = intGreaterThan, if_dimension = [''in_bytes''], if_value = 1000, if_name = ''''\<rparr>"

end
