(* ===== verification/Rollup.thy ===== *)
theory Rollup
  imports Flow_Filter "HOL-Library.Multiset"
begin

text \<open>
  Package \<^verbatim>\<open>pkg/rollup\<close>: the rollup definitions of the configuration, the key of a flow and the sum
  rollup with its accumulating goroutine. A Go map that is iterated is an association list with
  distinct keys (its order is one of the orders the iteration may take); sums are 64 bit words that
  wrap. \<^verbatim>\<open>sort.Sort\<close> is the argument \<open>srt\<close>; the clock readings only reach the field \<^verbatim>\<open>Interval\<close>, which is
  left out.
\<close>

section \<open>Definitions from the configuration\<close>

record RollupDef =
  rd_Sample :: bool
  rd_Method :: string
  rd_Metrics :: "string list"
  rd_Dimensions :: "string list"
  rd_NameSet :: "string list"

definition RollupDefs_Set :: "string \<Rightarrow> RollupDef res" where
  "RollupDefs_Set v =
     (let pts = strings_Split v '','' in
      if length pts < 3
      then Inl (Errorf ''Rollup flag is defined by type, name, metric, dimension 1, dimension 2, ..., dimension n'' [])
      else
        let ptn = map strings_TrimSpace pts;
            sampled = (2 < length (ptn ! 0) \<and> take 2 (ptn ! 0) = ''s_'')
        in Inr \<lparr>rd_Sample = sampled, rd_Method = (if sampled then drop 2 (ptn ! 0) else ptn ! 0),
             rd_Metrics = strings_Split (ptn ! 2) ''+'', rd_Dimensions = drop 3 ptn,
             rd_NameSet = strings_Split (ptn ! 1) '';''\<rparr>)"

record splitDim =
  sd_lhs :: "string list"
  sd_join :: string
  sd_rhs :: "string list"

record rollupBase =
  rl_metrics :: "string list"
  rl_multiMetrics :: "string list list"
  rl_multiDims :: "string list list"
  rl_splitDims :: "(nat \<times> splitDim) list"
  rl_keyJoin :: string
  rl_eventType :: string
  rl_sample :: bool
  rl_nameSet :: "string list"
  rl_filters :: "FilterWrapper list"
  rl_hasFilters :: bool
  rl_splitMetrics :: bool

text \<open>The two loops of \<^verbatim>\<open>init\<close>.\<close>

fun init_dims :: "nat \<Rightarrow> string list \<Rightarrow> (string list list \<times> (nat \<times> splitDim) list) res" where
  "init_dims i [] = Inr ([], [])"
| "init_dims i (d # ds) =
     (if strings_Contains d ''$$''
      then (let joins = strings_SplitN d ''$$'' 3 in
            if length joins = 3
            then map_sum id (\<lambda>(md, sd). ([d] # md,
                (i, \<lparr>sd_lhs = strings_Split (joins ! 0) ''.'', sd_join = joins ! 1,
                     sd_rhs = strings_Split (joins ! 2) ''.''\<rparr>) # sd)) (init_dims (Suc i) ds)
            else Inl (Errorf ''Invalid dimension grouping: %s'' []))
      else (let pts = strings_Split d ''.'' in
            if length pts = 1 \<or> length pts = 2
            then map_sum id (\<lambda>(md, sd). (pts # md, sd)) (init_dims (Suc i) ds)
            else Inl (Errorf ''Invalid dimension: %s'' [])))"

fun init_metrics :: "string list \<Rightarrow> (string list \<times> string list list \<times> bool) res" where
  "init_metrics [] = Inr ([], [], False)"
| "init_metrics (m # ms) =
     (let pts = strings_Split m ''.'' in
      if length pts = 1
      then (let splitSet = strings_Split m '';'' in
            if 1 < length splitSet
            then map_sum id (\<lambda>(mets, multi, sp). (splitSet @ mets, multi, True)) (init_metrics ms)
            else map_sum id (\<lambda>(mets, multi, sp). (m # mets, multi, sp)) (init_metrics ms))
      else if length pts = 2
      then map_sum id (\<lambda>(mets, multi, sp). (mets, pts # multi, sp)) (init_metrics ms)
      else Inl (Errorf ''Invalid metric: %s'' []))"

definition rollup_init :: "string \<Rightarrow> RollupDef \<Rightarrow> rollupBase res" where
  "rollup_init joinKey rd =
     (case init_dims 0 (rd_Dimensions rd) of
        Inl e \<Rightarrow> Inl e
      | Inr (md, sd) \<Rightarrow>
          (case init_metrics (rd_Metrics rd) of
             Inl e \<Rightarrow> Inl e
           | Inr (mets, multi, sp) \<Rightarrow>
               Inr \<lparr>rl_metrics = mets, rl_multiMetrics = multi, rl_multiDims = md, rl_splitDims = sd,
                 rl_keyJoin = joinKey,
                 rl_eventType = strings_ReplaceAll (''KFlow:'' @ strings_Join (rd_Metrics rd) ''_'' @ '':'' @
                    strings_Join (rd_Dimensions rd) '':'') ''.'' ''_'',
                 rl_sample = rd_Sample rd, rl_nameSet = rd_NameSet rd, rl_filters = [], rl_hasFilters = False,
                 rl_splitMetrics = sp\<rparr>))"

section \<open>The key of a flow\<close>

definition alt_endpoint :: "string gomap \<Rightarrow> string \<Rightarrow> string" where
  "alt_endpoint dd d1 =
     (let key = gm_get [] dd d1 in
      if key = [] then
        (if strings_HasPrefix d1 ''source_'' then gm_get [] dd (''dest_'' @ drop 7 d1)
         else if strings_HasPrefix d1 ''dest_'' then gm_get [] dd (''source_'' @ drop 5 d1)
         else [])
      else key)"

definition setKey :: "bool \<Rightarrow> flow_map \<Rightarrow> string list \<Rightarrow> string" where
  "setKey keepUndefined mapr d =
     (let key =
        (if length d = 1
         then (case mapr (hd d) of
                 Some (JStr v) \<Rightarrow> v
               | Some (JInt64 v) \<Rightarrow> strconv_Itoa (sint v)
               | _ \<Rightarrow> [])
         else (case mapr (hd d) of
                 Some (JMapStr dd) \<Rightarrow> alt_endpoint dd (d ! 1)
               | Some (JMapI32 dd) \<Rightarrow> strconv_Itoa (sint (gm_get 0 dd (d ! 1)))
               | Some (JMapI64 dd) \<Rightarrow> strconv_Itoa (sint (gm_get 0 dd (d ! 1)))
               | _ \<Rightarrow> []))
      in if keepUndefined \<and> key = [] then ''undefined'' else key)"

definition getKey :: "bool \<Rightarrow> rollupBase \<Rightarrow> flow_map \<Rightarrow> string" where
  "getKey keepUndefined r mapr =
     strings_Join (map (\<lambda>(i, d). case map_of (rl_splitDims r) i of
           None \<Rightarrow> setKey keepUndefined mapr d
         | Some md \<Rightarrow> setKey keepUndefined mapr (sd_lhs md) @ sd_join md @ setKey keepUndefined mapr (sd_rhs md))
         (enumerate 0 (rl_multiDims r))) (rl_keyJoin r)"

definition combo :: "string list list \<Rightarrow> string list" where
  "combo multiDims = map (\<lambda>d. if length d = 1 then hd d else d ! 1) multiDims"

text \<open>The loops of \<^verbatim>\<open>rollupBase.filter\<close> and \<^verbatim>\<open>SetFilter\<close>.\<close>

fun keep_map :: "FilterWrapper list \<Rightarrow> flow_map \<Rightarrow> bool res" where
  "keep_map [] m = Inr True"
| "keep_map (f # fs) m =
     (case FilterWrapper_FilterMap f m of Inl e \<Rightarrow> Inl e | Inr b \<Rightarrow> if b then keep_map fs m else Inr False)"

fun rollup_filter :: "FilterWrapper list \<Rightarrow> flow_map list \<Rightarrow> flow_map list res" where
  "rollup_filter fs [] = Inr []"
| "rollup_filter fs (m # ms) =
     (case keep_map fs m of
        Inl e \<Rightarrow> Inl e
      | Inr b \<Rightarrow> map_sum id (\<lambda>res. if b then m # res else res) (rollup_filter fs ms))"

definition SetFilter :: "FilterWrapper \<Rightarrow> rollupBase \<Rightarrow> rollupBase" where
  "SetFilter fw r = r\<lparr>rl_filters := rl_filters r @ [fw], rl_hasFilters := True\<rparr>"

definition rollup_GetName :: "rollupBase \<Rightarrow> string" where
  "rollup_GetName r = strings_Join (rl_nameSet r) '';''"

section \<open>Adding a batch\<close>

type_synonym sums = "(string \<times> u64 list) list"

record sumset =
  su_sum :: sums
  su_count :: u64
  su_min :: u64
  su_max :: u64
  su_prov :: Provider

definition empty_sumset :: sumset where
  "empty_sumset = \<lparr>su_sum = [], su_count = 0, su_min = - 1, su_max = 0, su_prov = ''''\<rparr>"

definition metric_value :: "flow_map \<Rightarrow> string \<Rightarrow> u64" where
  "metric_value m metric = (case m metric of Some (JInt64 v) \<Rightarrow> v | _ \<Rightarrow> 0)"

definition multi_value :: "flow_map \<Rightarrow> string list \<Rightarrow> u64" where
  "multi_value m mm = (case m (mm ! 0) of
     Some (JMapI32 v) \<Rightarrow> signed (gm_get 0 v (mm ! 1))
   | Some (JMapI64 v) \<Rightarrow> gm_get 0 v (mm ! 1)
   | _ \<Rightarrow> 0)"

definition sample_factor :: "rollupBase \<Rightarrow> u64 \<Rightarrow> u64" where
  "sample_factor r sr = (if rl_sample r \<and> 0 < sr then sr else 1)"

text \<open>
  What a flow adds to the sums of its key, one entry for each name; and the number that enters the
  minimum and the maximum. With split metrics there is an entry for every metric, and an index out
  of range when there are more metrics than names.
\<close>

definition flow_vec :: "rollupBase \<Rightarrow> flow_map \<Rightarrow> u64 \<Rightarrow> u64 list res" where
  "flow_vec r m sr =
     (let n = length (rl_nameSet r) in
      if rl_splitMetrics r
      then (if n < length (rl_metrics r) then Inl (Panic ''index out of range'')
            else Inr (map (\<lambda>metric. metric_value m metric * sample_factor r sr) (rl_metrics r) @
                      replicate (n - length (rl_metrics r)) 0))
      else if n = 0 then Inl (Panic ''index out of range'')
      else Inr ((sum_list (map (metric_value m) (rl_metrics r)) + sum_list (map (multi_value m) (rl_multiMetrics r)))
                 * sample_factor r sr # replicate (n - 1) 0))"

definition vec_add :: "u64 list \<Rightarrow> u64 list \<Rightarrow> u64 list res" where
  "vec_add u v =
     (if length v \<le> length u then Inr (map2 (+) u v @ drop (length v) u) else Inl (Panic ''index out of range''))"

text \<open>\<^verbatim>\<open>if sum[k] == nil { sum[k] = zeros }; sum[k][i] += v[i]\<close>\<close>

fun sum_add :: "string \<Rightarrow> u64 list \<Rightarrow> sums \<Rightarrow> sums res" where
  "sum_add k v [] = Inr [(k, v)]"
| "sum_add k v ((k', u) # s) =
     (if k' = k then map_sum id (\<lambda>w. (k', w) # s) (vec_add u v)
      else map_sum id (Cons (k', u)) (sum_add k v s))"

definition add_flow :: "bool \<Rightarrow> rollupBase \<Rightarrow> flow_map \<Rightarrow> sumset \<Rightarrow> sumset res" where
  "add_flow keepUndefined r m su =
     (case m ''sample_rate'' of
        Some (JInt64 sr) \<Rightarrow>
          (case flow_vec r m sr of
             Inl e \<Rightarrow> Inl e
           | Inr v \<Rightarrow>
               (case sum_add (getKey keepUndefined r m) v (su_sum su) of
                  Inl e \<Rightarrow> Inl e
                | Inr s \<Rightarrow>
                    (case m ''provider'' of
                       Some (JProvider p) \<Rightarrow>
                         let val = sum_list v in
                         Inr \<lparr>su_sum = s, su_count = su_count su + 1,
                           su_min = (if val < su_min su then val else su_min su),
                           su_max = (if su_max su < val then val else su_max su), su_prov = p\<rparr>
                     | _ \<Rightarrow> Inl (Panic ''interface conversion''))))
      | _ \<Rightarrow> Inl (Panic ''interface conversion''))"

fun addSum :: "bool \<Rightarrow> rollupBase \<Rightarrow> flow_map list \<Rightarrow> sumset \<Rightarrow> sumset res" where
  "addSum ku r [] su = Inr su"
| "addSum ku r (m # ms) su = (case add_flow ku r m su of Inl e \<Rightarrow> Inl e | Inr su' \<Rightarrow> addSum ku r ms su')"

section \<open>The accumulating goroutine\<close>

text \<open>The case of an item: its sums are added up, the other fields combined.\<close>

fun merge_sums :: "sums \<Rightarrow> sums \<Rightarrow> sums res" where
  "merge_sums acc [] = Inr acc"
| "merge_sums acc ((k, v) # s) = (case sum_add k v acc of Inl e \<Rightarrow> Inl e | Inr acc' \<Rightarrow> merge_sums acc' s)"

definition kvs_item :: "sumset \<Rightarrow> sumset \<Rightarrow> sumset res" where
  "kvs_item itm acc =
     (case merge_sums (su_sum acc) (su_sum itm) of
        Inl e \<Rightarrow> Inl e
      | Inr s \<Rightarrow> Inr \<lparr>su_sum = s, su_count = su_count acc + su_count itm,
           su_min = (if su_min itm < su_min acc then su_min itm else su_min acc),
           su_max = (if su_max acc < su_max itm then su_max itm else su_max acc), su_prov = su_prov itm\<rparr>)"

text \<open>The state after an export: everything starts again, the minimum at zero.\<close>

definition kvs_reset :: sumset where
  "kvs_reset = \<lparr>su_sum = [], su_count = 0, su_min = 0, su_max = 0, su_prov = ''''\<rparr>"

definition CHAN_SLACK :: nat where
  "CHAN_SLACK = 10000"

record sum_state =
  ks_kvs :: "sumset list"
  ks_acc :: sumset
  ks_accepted :: "sumset list"
  ks_exported :: "sumset list"

definition sum_start :: sum_state where
  "sum_start = \<lparr>ks_kvs = [], ks_acc = empty_sumset, ks_accepted = [], ks_exported = []\<rparr>"

text \<open>
  \<^verbatim>\<open>StatsRollup.Add\<close> of a sum rollup: the filters, the sums of the batch, and the send into the channel of
  \<^verbatim>\<open>CHAN_SLACK\<close> places, which drops the batch when the channel is full.
\<close>

definition sum_Add :: "bool \<Rightarrow> rollupBase \<Rightarrow> flow_map list \<Rightarrow> sum_state \<Rightarrow> sum_state res" where
  "sum_Add ku r ms st =
     (case (if rl_hasFilters r then rollup_filter (rl_filters r) ms else Inr ms) of
        Inl e \<Rightarrow> Inl e
      | Inr ms \<Rightarrow>
          (case addSum ku r ms empty_sumset of
             Inl e \<Rightarrow> Inl e
           | Inr itm \<Rightarrow>
               Inr (if length (ks_kvs st) < CHAN_SLACK
                    then st\<lparr>ks_kvs := ks_kvs st @ [itm], ks_accepted := ks_accepted st @ [itm]\<rparr>
                    else st)))"

text \<open>
  The steps of the rollup: a batch is added (and dropped when the channel is full), the goroutine
  receives an item, or it answers an export. The lists of accepted and of exported sums are the
  history of the run.
\<close>

inductive sum_step :: "bool \<Rightarrow> rollupBase \<Rightarrow> sum_state \<Rightarrow> sum_state \<Rightarrow> bool" for ku r where
  add: "sum_Add ku r ms st = Inr st' \<Longrightarrow> sum_step ku r st st'"
| recv: "ks_kvs st = itm # q \<Longrightarrow> kvs_item itm (ks_acc st) = Inr acc \<Longrightarrow>
    sum_step ku r st (st\<lparr>ks_kvs := q, ks_acc := acc\<rparr>)"
| export: "sum_step ku r st (st\<lparr>ks_acc := kvs_reset, ks_exported := ks_exported st @ [ks_acc st]\<rparr>)"

inductive sum_reach :: "bool \<Rightarrow> rollupBase \<Rightarrow> sum_state \<Rightarrow> bool" for ku r where
  start: "sum_reach ku r sum_start"
| step: "sum_reach ku r st \<Longrightarrow> sum_step ku r st st' \<Longrightarrow> sum_reach ku r st'"

section \<open>Export\<close>

text \<open>
  \<^verbatim>\<open>float64(v)\<close> of an unsigned word: the nearest integer with 53 significant bits, ties to even.
\<close>

definition f64_round :: "nat \<Rightarrow> nat \<Rightarrow> nat" where
  "f64_round n e =
     (let q = n div 2 ^ e; rm = 2 * (n mod 2 ^ e) in
      (if 2 ^ e < rm \<or> rm = 2 ^ e \<and> odd q then q + 1 else q) * 2 ^ e)"

definition float64_of :: "u64 \<Rightarrow> nat" where
  "float64_of w =
     (let n = unat w; es = filter (\<lambda>e. n < 2 ^ (53 + e)) [0..<12] in
      f64_round n (if es = [] then 11 else hd es))"

record 'm Rollup_out =
  ro_Name :: string
  ro_EventType :: string
  ro_Dimension :: string
  ro_Metric :: 'm
  ro_KeyJoin :: string
  ro_dims :: "string list"
  ro_Count :: u64
  ro_Min :: u64
  ro_Max :: u64
  ro_Provider :: Provider

definition sum_rows :: "rollupBase \<Rightarrow> sumset \<Rightarrow> nat \<Rightarrow> string \<Rightarrow> nat Rollup_out list" where
  "sum_rows r su i name =
     map (\<lambda>(k, v). \<lparr>ro_Name = name, ro_EventType = rl_eventType r, ro_Dimension = k, ro_Metric = float64_of (v ! i),
        ro_KeyJoin = rl_keyJoin r, ro_dims = combo (rl_multiDims r), ro_Count = su_count su, ro_Min = su_min su,
        ro_Max = su_max su, ro_Provider = su_prov su\<rparr>) (su_sum su)"

definition top_k :: "int \<Rightarrow> 'a list \<Rightarrow> 'a list" where
  "top_k k xs = (if 0 < k \<and> k < int (length xs) then take (nat k) xs else xs)"

definition exportSum :: "(nat Rollup_out list \<Rightarrow> nat Rollup_out list) \<Rightarrow> rollupBase \<Rightarrow> int \<Rightarrow> sumset \<Rightarrow> nat Rollup_out list" where
  "exportSum srt r topK su =
     (if su_sum su = [] then []
      else concat (map (\<lambda>(i, name). top_k topK (srt (sum_rows r su i name))) (enumerate 0 (rl_nameSet r))))"

end
