(* ===== verification/Cache_Rollup.thy ===== *)
theory Cache_Rollup
  imports Rollup
begin

text \<open>
  \<^verbatim>\<open>pkg/rollup/cache.go\<close>: the rollup that keeps one entry per key and, when configured, drops old entries
  in an emergency cleanup. Entries are shared by pointer: an entry that a cleanup has removed from the
  cache is still updated by the caller, and the update is lost. The clock is an argument: \<open>now\<close> is the
  time of the call of \<^verbatim>\<open>Add\<close>, \<open>clk i\<close> the time of a cleanup while its flow number \<open>i\<close> is handled.
\<close>

section \<open>Definitions\<close>

record CacheEntry =
  ce_Key :: string
  ce_Sum :: u64
  ce_Count :: u64
  ce_Min :: u64
  ce_Max :: u64
  ce_Provider :: Provider
  ce_UniqueVals :: "string list"
  ce_LastUpdated :: int

record CacheRollup =
  cr_base :: rollupBase
  cr_cache :: "(string \<times> CacheEntry) list"
  cr_isUnique :: bool
  cr_memoryUsage :: int
  cr_EmergencyCleanup :: bool
  cr_MaxMemoryMB :: int
  cr_MaxKeys :: int
  cr_TopK :: int

definition newCacheRollup :: "string \<Rightarrow> RollupDef \<Rightarrow> bool \<Rightarrow> bool \<Rightarrow> int \<Rightarrow> int \<Rightarrow> int \<Rightarrow> CacheRollup res" where
  "newCacheRollup joinKey rd isUnique cleanup maxMB maxKeys topK =
     map_sum id (\<lambda>b. \<lparr>cr_base = b, cr_cache = [], cr_isUnique = isUnique, cr_memoryUsage = 0,
        cr_EmergencyCleanup = cleanup, cr_MaxMemoryMB = maxMB, cr_MaxKeys = maxKeys, cr_TopK = topK\<rparr>)
       (rollup_init joinKey rd)"

definition estimateEntrySize :: "bool \<Rightarrow> CacheEntry \<Rightarrow> int" where
  "estimateEntrySize isUnique en =
     150 + int (length (ce_Key en)) +
     (if isUnique then int (length (ce_UniqueVals en)) * 20 + (\<Sum>k\<leftarrow>ce_UniqueVals en. int (length k)) else 0)"

definition shouldDoEmergencyCleanup :: "CacheRollup \<Rightarrow> bool" where
  "shouldDoEmergencyCleanup r \<longleftrightarrow>
     cr_EmergencyCleanup r \<and>
     (0 < cr_MaxMemoryMB r \<and> wrap_int (cr_MaxMemoryMB r * 1024 * 1024) < cr_memoryUsage r \<or>
      0 < cr_MaxKeys r \<and> cr_MaxKeys r < int (length (cr_cache r)))"

text \<open>\<^verbatim>\<open>int(float64(n) * 0.5)\<close>, at least one: the index into the ages, sorted from the oldest.\<close>

definition thresholdIndex :: "nat \<Rightarrow> nat" where
  "thresholdIndex n = (if n div 2 < 1 then 1 else n div 2)"

definition doEmergencyCleanup :: "int \<Rightarrow> CacheRollup \<Rightarrow> CacheRollup res" where
  "doEmergencyCleanup now r =
     (if cr_cache r = [] then Inr r
      else
        let ages = rev (sort (map (\<lambda>(k, en). now - ce_LastUpdated en) (cr_cache r)));
            i = thresholdIndex (length ages)
        in if length ages \<le> i then Inl (Panic ''index out of range'')
           else
             let old = (\<lambda>(k, en). ages ! i \<le> now - ce_LastUpdated en) in
             Inr (r\<lparr>cr_memoryUsage := cr_memoryUsage r -
                      (\<Sum>(k, en)\<leftarrow>filter old (cr_cache r). estimateEntrySize (cr_isUnique r) en),
                    cr_cache := filter (\<lambda>p. \<not> old p) (cr_cache r)\<rparr>))"

definition flow_value :: "rollupBase \<Rightarrow> flow_map \<Rightarrow> u64 \<Rightarrow> u64" where
  "flow_value b m sr =
     (sum_list (map (metric_value m) (rl_metrics b)) + sum_list (map (multi_value m) (rl_multiMetrics b))) * sample_factor b sr"

definition addStatValues :: "rollupBase \<Rightarrow> flow_map \<Rightarrow> CacheEntry \<Rightarrow> CacheEntry res" where
  "addStatValues b m en =
     (case m ''sample_rate'' of
        Some (JInt64 sr) \<Rightarrow>
          let val = flow_value b m sr in
          Inr (en\<lparr>ce_Sum := ce_Sum en + val,
                  ce_Min := (if val < ce_Min en then val else ce_Min en),
                  ce_Max := (if ce_Max en < val then val else ce_Max en)\<rparr>)
      | _ \<Rightarrow> Inl (Panic ''interface conversion''))"

definition unique_of_metric :: "flow_map \<Rightarrow> string \<Rightarrow> string list" where
  "unique_of_metric m metric = (case m metric of
     Some (JStr s) \<Rightarrow> [s] | Some (JInt64 v) \<Rightarrow> [strconv_Itoa (sint v)] | _ \<Rightarrow> [])"

definition unique_of_multi :: "flow_map \<Rightarrow> string list \<Rightarrow> string list" where
  "unique_of_multi m mm = (case m (mm ! 0) of
     Some (JMapStr v) \<Rightarrow> [gm_get [] v (mm ! 1)]
   | Some (JMapI32 v) \<Rightarrow> [strconv_Itoa (sint (gm_get 0 v (mm ! 1)))]
   | Some (JMapI64 v) \<Rightarrow> [strconv_Itoa (sint (gm_get 0 v (mm ! 1)))]
   | _ \<Rightarrow> [])"

definition addUniqueValues :: "rollupBase \<Rightarrow> flow_map \<Rightarrow> CacheEntry \<Rightarrow> CacheEntry" where
  "addUniqueValues b m en =
     en\<lparr>ce_UniqueVals := fold List.insert
         (concat (map (unique_of_metric m) (rl_metrics b)) @ concat (map (unique_of_multi m) (rl_multiMetrics b)))
         (ce_UniqueVals en)\<rparr>"

text \<open>The update of an entry after it was found or created.\<close>

definition touch_entry :: "CacheRollup \<Rightarrow> int \<Rightarrow> flow_map \<Rightarrow> CacheEntry \<Rightarrow> CacheEntry res" where
  "touch_entry r now m en =
     (let en = en\<lparr>ce_LastUpdated := now, ce_Count := ce_Count en + 1\<rparr> in
      if cr_isUnique r then Inr (addUniqueValues (cr_base r) m en) else addStatValues (cr_base r) m en)"

definition new_entry :: "string \<Rightarrow> Provider \<Rightarrow> int \<Rightarrow> CacheEntry" where
  "new_entry key p now = \<lparr>ce_Key = key, ce_Sum = 0, ce_Count = 0, ce_Min = - 1, ce_Max = 0, ce_Provider = p,
     ce_UniqueVals = [], ce_LastUpdated = now\<rparr>"

fun cache_put :: "string \<Rightarrow> CacheEntry \<Rightarrow> (string \<times> CacheEntry) list \<Rightarrow> (string \<times> CacheEntry) list" where
  "cache_put k en [] = []"
| "cache_put k en ((k', en') # c) = (if k' = k then (k, en) # c else (k', en') # cache_put k en c)"

text \<open>The lookup of a key; a missing entry is created, which may start a cleanup.\<close>

definition find_entry :: "int \<Rightarrow> int \<Rightarrow> string \<Rightarrow> flow_map \<Rightarrow> CacheRollup \<Rightarrow> (CacheEntry \<times> CacheRollup) res" where
  "find_entry now t key m r =
     (case map_of (cr_cache r) key of
        Some en \<Rightarrow> Inr (en, r)
      | None \<Rightarrow>
          (case m ''provider'' of
             Some (JProvider p) \<Rightarrow>
               let en = new_entry key p now;
                   r1 = r\<lparr>cr_cache := cr_cache r @ [(key, en)],
                         cr_memoryUsage := cr_memoryUsage r + estimateEntrySize (cr_isUnique r) en\<rparr>
               in if shouldDoEmergencyCleanup r1
                  then map_sum id (Pair en) (doEmergencyCleanup t r1)
                  else Inr (en, r1)
           | _ \<Rightarrow> Inl (Panic ''interface conversion'')))"

definition add_map :: "bool \<Rightarrow> int \<Rightarrow> int \<Rightarrow> flow_map \<Rightarrow> CacheRollup \<Rightarrow> CacheRollup res" where
  "add_map ku now t m r =
     (let key = getKey ku (cr_base r) m in
      if key = '''' then Inr r
      else
        case find_entry now t key m r of
          Inl e \<Rightarrow> Inl e
        | Inr (en, r2) \<Rightarrow>
            map_sum id (\<lambda>en'. r2\<lparr>cr_cache := cache_put key en' (cr_cache r2)\<rparr>) (touch_entry r2 now m en))"

fun add_maps :: "bool \<Rightarrow> int \<Rightarrow> (nat \<Rightarrow> int) \<Rightarrow> nat \<Rightarrow> flow_map list \<Rightarrow> CacheRollup \<Rightarrow> CacheRollup res" where
  "add_maps ku now clk i [] r = Inr r"
| "add_maps ku now clk i (m # ms) r =
     (case add_map ku now (clk i) m r of Inl e \<Rightarrow> Inl e | Inr r' \<Rightarrow> add_maps ku now clk (Suc i) ms r')"

definition cache_Add :: "bool \<Rightarrow> int \<Rightarrow> (nat \<Rightarrow> int) \<Rightarrow> flow_map list \<Rightarrow> CacheRollup \<Rightarrow> CacheRollup res" where
  "cache_Add ku now clk ms r =
     (case (if rl_hasFilters (cr_base r) then rollup_filter (rl_filters (cr_base r)) ms else Inr ms) of
        Inl e \<Rightarrow> Inl e
      | Inr ms \<Rightarrow> add_maps ku now clk 0 ms r)"

definition cache_rows :: "CacheRollup \<Rightarrow> nat Rollup_out list" where
  "cache_rows r =
     map (\<lambda>(k, en). \<lparr>ro_Name = strings_Join (rl_nameSet (cr_base r)) '';'', ro_EventType = rl_eventType (cr_base r),
        ro_Dimension = ce_Key en,
        ro_Metric = (if cr_isUnique r then length (ce_UniqueVals en) else float64_of (ce_Sum en)),
        ro_KeyJoin = rl_keyJoin (cr_base r), ro_dims = combo (rl_multiDims (cr_base r)), ro_Count = ce_Count en,
        ro_Min = ce_Min en, ro_Max = ce_Max en, ro_Provider = ce_Provider en\<rparr>) (cr_cache r)"

definition doExport :: "(nat Rollup_out list \<Rightarrow> nat Rollup_out list) \<Rightarrow> CacheRollup \<Rightarrow> nat Rollup_out list \<times> CacheRollup" where
  "doExport srt r =
     (if cr_cache r = [] then [] else top_k (cr_TopK r) (srt (cache_rows r)),
      r\<lparr>cr_cache := [], cr_memoryUsage := 0\<rparr>)"

section \<open>The cleanup\<close>

lemma sorted_rev_ge: "sorted xs \<Longrightarrow> i < length xs \<Longrightarrow> length (filter (\<lambda>x. x < rev xs ! i) xs) \<le> length xs - Suc i"
proof -
  assume s: "sorted xs" and i: "i < length xs"
  let ?t = "xs ! (length xs - Suc i)"
  have t: "rev xs ! i = ?t" using i by (simp add: rev_nth)
  have "filter (\<lambda>x. x < ?t) (drop (length xs - Suc i) xs) = []"
  proof -
    have "?t \<le> x" if "x \<in> set (drop (length xs - Suc i) xs)" for x
    proof -
      from that obtain j where "j < length xs - (length xs - Suc i)" "x = xs ! (length xs - Suc i + j)"
        by (auto simp: in_set_conv_nth)
      with s i show ?thesis by (auto intro!: sorted_nth_mono)
    qed
    then show ?thesis by (auto simp: filter_empty_conv not_less)
  qed
  then have "filter (\<lambda>x. x < ?t) xs = filter (\<lambda>x. x < ?t) (take (length xs - Suc i) xs)"
    by (metis append.right_neutral append_take_drop_id filter_append)
  then show ?thesis by (simp add: t) (metis length_filter_le length_take min.cobounded2 le_trans)
qed

lemma length_filter_map_mset: "mset xs = mset ys \<Longrightarrow> length (filter P xs) = length (filter P ys)"
  by (metis mset_filter size_mset)

definition entry_age :: "int \<Rightarrow> string \<times> CacheEntry \<Rightarrow> int" where
  "entry_age now = (\<lambda>(k, en). now - ce_LastUpdated en)"

definition age_limit :: "int \<Rightarrow> CacheRollup \<Rightarrow> int" where
  "age_limit now r = rev (sort (map (entry_age now) (cr_cache r))) ! (length (cr_cache r) div 2)"

lemma cleanup_eq:
  assumes "2 \<le> length (cr_cache r)"
  shows "doEmergencyCleanup now r =
     Inr (r\<lparr>cr_memoryUsage := cr_memoryUsage r -
            (\<Sum>(k, en)\<leftarrow>filter (\<lambda>p. age_limit now r \<le> entry_age now p) (cr_cache r). estimateEntrySize (cr_isUnique r) en),
          cr_cache := filter (\<lambda>p. entry_age now p < age_limit now r) (cr_cache r)\<rparr>)"
proof -
  have ne: "cr_cache r \<noteq> []" using assms by auto
  have i: "thresholdIndex (length (cr_cache r)) = length (cr_cache r) div 2"
    "\<not> length (cr_cache r) \<le> length (cr_cache r) div 2" using assms by (auto simp: thresholdIndex_def)
  show ?thesis
    using ne i by (simp add: doEmergencyCleanup_def Let_def age_limit_def entry_age_def case_prod_unfold not_le)
qed

lemma cleanup_length:
  assumes "2 \<le> length (cr_cache r)"
  shows "length (filter (\<lambda>p. entry_age now p < age_limit now r) (cr_cache r)) \<le>
     length (cr_cache r) - length (cr_cache r) div 2 - 1"
proof -
  let ?s = "sort (map (entry_age now) (cr_cache r))"
  have "length (filter (\<lambda>p. entry_age now p < age_limit now r) (cr_cache r)) =
      length (filter (\<lambda>x. x < age_limit now r) (map (entry_age now) (cr_cache r)))"
    by (simp add: filter_map comp_def)
  also have "\<dots> = length (filter (\<lambda>x. x < age_limit now r) ?s)"
    by (rule length_filter_map_mset) simp
  also have "\<dots> \<le> length ?s - Suc (length (cr_cache r) div 2)"
    using sorted_rev_ge [of ?s "length (cr_cache r) div 2"] assms by (simp add: age_limit_def)
  finally show ?thesis by simp
qed

text \<open>
  A cleanup of a cache with \<open>n \<ge> 2\<close> entries ends without panic, keeps entries only, leaves at most
  \<open>n - n/2 - 1\<close> of them, and what it keeps is younger than everything it removes.
\<close>

lemma emergency_cleanup_halves:
  assumes "2 \<le> length (cr_cache r)"
  shows "\<exists>r'. doEmergencyCleanup now r = Inr r' \<and> set (cr_cache r') \<subseteq> set (cr_cache r) \<and>
     length (cr_cache r') \<le> length (cr_cache r) - length (cr_cache r) div 2 - 1 \<and>
     (\<forall>(k, en) \<in> set (cr_cache r'). \<forall>(k', en') \<in> set (cr_cache r) - set (cr_cache r').
        ce_LastUpdated en' < ce_LastUpdated en)"
  using cleanup_eq [OF assms, of now] cleanup_length [OF assms, of now]
  by (auto simp: entry_age_def)

definition demo_entry :: "string \<Rightarrow> int \<Rightarrow> string \<times> CacheEntry" where
  "demo_entry k t = (k, new_entry k ''kentik-router'' t)"

definition demo_cache :: "(string \<times> CacheEntry) list \<Rightarrow> CacheRollup" where
  "demo_cache c = \<lparr>cr_base = \<lparr>rl_metrics = [''in_bytes''], rl_multiMetrics = [], rl_multiDims = [[''src_addr'']], rl_splitDims = [],
       rl_keyJoin = ''^'', rl_eventType = ''KFlow'', rl_sample = False, rl_nameSet = [''bytes''],
       rl_filters = [], rl_hasFilters = False, rl_splitMetrics = False\<rparr>,
     cr_cache = c, cr_isUnique = False, cr_memoryUsage = 0, cr_EmergencyCleanup = True, cr_MaxMemoryMB = 0,
     cr_MaxKeys = 2, cr_TopK = 0\<rparr>"

lemma cleanup_same_age:
  assumes "2 \<le> length (cr_cache r)" and "\<forall>(k, en) \<in> set (cr_cache r). ce_LastUpdated en = t"
  shows "doEmergencyCleanup now r = Inr (r\<lparr>cr_memoryUsage := cr_memoryUsage r -
      (\<Sum>(k, en)\<leftarrow>cr_cache r. estimateEntrySize (cr_isUnique r) en), cr_cache := []\<rparr>)"
proof -
  have age: "map (entry_age now) (cr_cache r) = map (\<lambda>_. now - t) (cr_cache r)"
    using assms(2) by (intro map_cong) (auto simp: entry_age_def)
  have "age_limit now r = now - t"
    using assms(1) by (simp add: age_limit_def age map_replicate_const sorted_sort_id)
  then have "filter (\<lambda>p. entry_age now p < age_limit now r) (cr_cache r) = []"
    and "filter (\<lambda>p. age_limit now r \<le> entry_age now p) (cr_cache r) = cr_cache r"
    using assms(2) by (auto simp: filter_empty_conv filter_id_conv entry_age_def)
  then show ?thesis by (simp add: cleanup_eq [OF assms(1)])
qed

text \<open>
  Entries that were last updated at the same time have the same age, and the cleanup removes them
  all: after a batch that touched every entry of the cache, a cleanup empties it.
\<close>

lemma emergency_cleanup_wipes:
  assumes "2 \<le> length (cr_cache r)" and "\<forall>(k, en) \<in> set (cr_cache r). ce_LastUpdated en = t"
  shows "\<exists>r'. doEmergencyCleanup now r = Inr r' \<and> cr_cache r' = []"
  by (simp add: cleanup_same_age [OF assms])

section \<open>The number of keys and the memory estimate\<close>

lemma length_cache_put [simp]: "length (cache_put k en c) = length c"
  by (induction c) auto

lemma cleanup_fields:
  "doEmergencyCleanup now r = Inr r' \<Longrightarrow> cr_base r' = cr_base r \<and> cr_isUnique r' = cr_isUnique r \<and>
     cr_EmergencyCleanup r' = cr_EmergencyCleanup r \<and> cr_MaxMemoryMB r' = cr_MaxMemoryMB r \<and>
     cr_MaxKeys r' = cr_MaxKeys r \<and> cr_TopK r' = cr_TopK r"
  by (auto simp: doEmergencyCleanup_def Let_def split: if_splits)

lemma cleanup_shorter:
  assumes "doEmergencyCleanup now r = Inr r'"
  shows "length (cr_cache r') \<le> length (cr_cache r) - 1"
proof (cases "2 \<le> length (cr_cache r)")
  case True
  with assms cleanup_length [OF True, of now] show ?thesis by (auto simp: cleanup_eq)
next
  case False
  then consider "cr_cache r = []" | p where "cr_cache r = [p]"
    by (cases "cr_cache r" rule: remdups_adj.cases) auto
  then show ?thesis using assms by cases (auto simp: doEmergencyCleanup_def Let_def thresholdIndex_def)
qed

definition bounded_cache :: "CacheRollup \<Rightarrow> bool" where
  "bounded_cache r \<longleftrightarrow> cr_EmergencyCleanup r \<and> 0 < cr_MaxKeys r \<and> int (length (cr_cache r)) \<le> cr_MaxKeys r"

lemma find_entry_bounded:
  assumes "find_entry now t key m r = Inr (en, r')" and "bounded_cache r"
  shows "bounded_cache r'"
proof (cases "map_of (cr_cache r) key")
  case (Some en0)
  with assms show ?thesis by (simp add: find_entry_def)
next
  case None
  from assms(1) None obtain p where p: "m ''provider'' = Some (JProvider p)"
    by (auto simp: find_entry_def split: option.splits jval.splits)
  let ?r1 = "r\<lparr>cr_cache := cr_cache r @ [(key, new_entry key p now)],
     cr_memoryUsage := cr_memoryUsage r + estimateEntrySize (cr_isUnique r) (new_entry key p now)\<rparr>"
  show ?thesis
  proof (cases "shouldDoEmergencyCleanup ?r1")
    case True
    with assms(1) None p have c: "doEmergencyCleanup t ?r1 = Inr r'"
      by (auto simp: find_entry_def Let_def elim!: map_sum_InrE)
    from cleanup_fields [OF c] cleanup_shorter [OF c] assms(2) show ?thesis by (auto simp: bounded_cache_def)
  next
    case False
    with assms None p show ?thesis
      by (auto simp: find_entry_def Let_def shouldDoEmergencyCleanup_def bounded_cache_def)
  qed
qed

lemma add_map_bounded:
  assumes "add_map ku now t m r = Inr r'" and "bounded_cache r"
  shows "bounded_cache r'"
  using assms find_entry_bounded
  by (fastforce simp: add_map_def Let_def bounded_cache_def split: if_splits sum.splits elim!: map_sum_InrE)

lemma add_maps_bounded:
  "add_maps ku now clk i ms r = Inr r' \<Longrightarrow> bounded_cache r \<Longrightarrow> bounded_cache r'"
  by (induction ku now clk i ms r rule: add_maps.induct) (auto split: sum.splits dest: add_map_bounded)

text \<open>
  With emergency cleanup on and a limit on the number of keys, a batch never leaves more entries than
  the limit, whatever flows it holds and however the clock runs during the cleanups.
\<close>

lemma cache_Add_bounded:
  assumes "cache_Add ku now clk ms r = Inr r'" and "cr_EmergencyCleanup r" and "0 < cr_MaxKeys r"
    and "int (length (cr_cache r)) \<le> cr_MaxKeys r"
  shows "int (length (cr_cache r')) \<le> cr_MaxKeys r'"
proof -
  from assms have "bounded_cache r'"
    by (auto simp: cache_Add_def bounded_cache_def [of r] split: sum.splits if_splits dest!: add_maps_bounded)
  then show ?thesis by (simp add: bounded_cache_def)
qed

definition demo_flow :: "string \<Rightarrow> flow_map" where
  "demo_flow a = [''src_addr'' \<mapsto> JStr a, ''provider'' \<mapsto> JProvider ''kentik-router'', ''sample_rate'' \<mapsto> JInt64 1,
     ''in_bytes'' \<mapsto> JInt64 7]"

lemma add_map_fields:
  "add_map ku now t m r = Inr r' \<Longrightarrow> cr_EmergencyCleanup r' = cr_EmergencyCleanup r \<and> cr_MaxKeys r' = cr_MaxKeys r \<and>
     cr_isUnique r' = cr_isUnique r"
  by (auto simp: add_map_def find_entry_def Let_def split: if_splits sum.splits option.splits jval.splits
      elim!: map_sum_InrE dest!: cleanup_fields)

lemma add_maps_fields:
  "add_maps ku now clk i ms r = Inr r' \<Longrightarrow> cr_EmergencyCleanup r' = cr_EmergencyCleanup r \<and> cr_MaxKeys r' = cr_MaxKeys r \<and>
     cr_isUnique r' = cr_isUnique r"
  by (induction ku now clk i ms r rule: add_maps.induct) (auto split: sum.splits dest!: add_map_fields)

lemma cache_Add_fields:
  "cache_Add ku now clk ms r = Inr r' \<Longrightarrow> cr_EmergencyCleanup r' = cr_EmergencyCleanup r \<and> cr_MaxKeys r' = cr_MaxKeys r \<and>
     cr_isUnique r' = cr_isUnique r"
  by (auto simp: cache_Add_def split: sum.splits dest!: add_maps_fields)

section \<open>The memory estimate\<close>

text \<open>The estimate of a sum rollup is exact: every entry carries its key, and the total is the sum over the cache.\<close>

definition entry_sizes :: "bool \<Rightarrow> (string \<times> CacheEntry) list \<Rightarrow> int" where
  "entry_sizes u c = (\<Sum>(k, en)\<leftarrow>c. estimateEntrySize u en)"

definition memory_exact :: "CacheRollup \<Rightarrow> bool" where
  "memory_exact r \<longleftrightarrow> \<not> cr_isUnique r \<and> (\<forall>(k, en) \<in> set (cr_cache r). ce_Key en = k) \<and>
     cr_memoryUsage r = entry_sizes False (cr_cache r)"

lemma entry_sizes_append [simp]: "entry_sizes u (c @ d) = entry_sizes u c + entry_sizes u d"
  by (simp add: entry_sizes_def)

lemma entry_sizes_split: "entry_sizes u c - entry_sizes u (filter P c) = entry_sizes u (filter (\<lambda>p. \<not> P p) c)"
  by (induction c) (auto simp: entry_sizes_def)

lemma entry_sizes_put:
  "\<forall>(k, en) \<in> set c. ce_Key en = k \<Longrightarrow> ce_Key en = k \<Longrightarrow> entry_sizes False (cache_put k en c) = entry_sizes False c"
  by (induction c) (auto simp: entry_sizes_def estimateEntrySize_def)

lemma cache_put_keys:
  "\<forall>(k, en) \<in> set c. ce_Key en = k \<Longrightarrow> ce_Key en = k \<Longrightarrow> \<forall>(k, en) \<in> set (cache_put k en c). ce_Key en = k"
  by (induction c) (auto split: if_splits)

lemma cleanup_memory:
  assumes "doEmergencyCleanup t r = Inr r'" and "memory_exact r"
  shows "memory_exact r'"
proof -
  have "\<forall>P. cr_memoryUsage r - (\<Sum>(k, en)\<leftarrow>filter P (cr_cache r). estimateEntrySize False en) =
      entry_sizes False (filter (\<lambda>p. \<not> P p) (cr_cache r))"
    using assms(2) entry_sizes_split [of False "cr_cache r"] by (simp add: memory_exact_def entry_sizes_def)
  with assms show ?thesis
    by (auto simp: doEmergencyCleanup_def memory_exact_def Let_def split: if_splits)
qed

lemma find_entry_memory:
  assumes "find_entry now t key m r = Inr (en, r')" and "memory_exact r"
  shows "memory_exact r' \<and> ce_Key en = key"
  using assms
  by (fastforce simp: find_entry_def Let_def memory_exact_def new_entry_def entry_sizes_def
      split: option.splits jval.splits if_splits elim!: map_sum_InrE
      dest: map_of_SomeD dest!: cleanup_memory)

lemma touch_entry_key: "touch_entry r now m en = Inr en' \<Longrightarrow> ce_Key en' = ce_Key en"
  by (auto simp: touch_entry_def addStatValues_def addUniqueValues_def Let_def split: if_splits option.splits jval.splits)

lemma add_map_memory:
  assumes "add_map ku now t m r = Inr r'" and "memory_exact r"
  shows "memory_exact r'"
proof (cases "getKey ku (cr_base r) m = ''''")
  case True
  with assms show ?thesis by (simp add: add_map_def)
next
  case False
  let ?k = "getKey ku (cr_base r) m"
  from assms(1) False obtain en r2 en' where f: "find_entry now t ?k m r = Inr (en, r2)"
    and tc: "touch_entry r2 now m en = Inr en'" and r': "r' = r2\<lparr>cr_cache := cache_put ?k en' (cr_cache r2)\<rparr>"
    by (auto simp: add_map_def Let_def split: sum.splits elim!: map_sum_InrE)
  from find_entry_memory [OF f assms(2)] touch_entry_key [OF tc] cache_put_keys [of "cr_cache r2" en' ?k]
  show ?thesis by (simp add: r' memory_exact_def entry_sizes_put)
qed

lemma add_maps_memory: "add_maps ku now clk i ms r = Inr r' \<Longrightarrow> memory_exact r \<Longrightarrow> memory_exact r'"
  by (induction ku now clk i ms r rule: add_maps.induct) (auto split: sum.splits dest: add_map_memory)

text \<open>What may happen to a rollup: batches and exports, in any order.\<close>

inductive cache_reach :: "bool \<Rightarrow> CacheRollup \<Rightarrow> CacheRollup \<Rightarrow> bool" for ku r0 where
  start: "cache_reach ku r0 r0"
| batch: "cache_reach ku r0 r \<Longrightarrow> cache_Add ku now clk ms r = Inr r' \<Longrightarrow> cache_reach ku r0 r'"
| export: "cache_reach ku r0 r \<Longrightarrow> doExport srt r = (out, r') \<Longrightarrow> cache_reach ku r0 r'"

lemma cache_reach_memory: "cache_reach ku r0 r \<Longrightarrow> memory_exact r0 \<Longrightarrow> memory_exact r"
proof (induction rule: cache_reach.induct)
  case (batch r now clk ms r')
  then show ?case by (auto simp: cache_Add_def split: if_splits sum.splits dest: add_maps_memory)
next
  case (export r srt out r')
  then show ?case by (auto simp: doExport_def memory_exact_def entry_sizes_def)
qed

text \<open>
  The memory estimate of a sum rollup never drifts: after any number of batches, cleanups and exports
  since its creation it is the sum of the estimates of the entries in the cache.
\<close>

lemma cache_memory_exact:
  assumes "newCacheRollup joinKey rd False cleanup maxMB maxKeys topK = Inr r0" and "cache_reach ku r0 r"
  shows "cr_memoryUsage r = (\<Sum>(k, en)\<leftarrow>cr_cache r. estimateEntrySize (cr_isUnique r) en)"
proof -
  from assms(1) have "memory_exact r0"
    by (auto simp: newCacheRollup_def memory_exact_def entry_sizes_def elim!: map_sum_InrE)
  from cache_reach_memory [OF assms(2) this] show ?thesis by (simp add: memory_exact_def entry_sizes_def)
qed

definition demo_def :: RollupDef where
  "demo_def = \<lparr>rd_Sample = False, rd_Method = ''sum'', rd_Metrics = [''in_bytes''], rd_Dimensions = [''src_addr''],
     rd_NameSet = [''bytes'']\<rparr>"

definition demo_run_cache :: "CacheRollup res" where
  "demo_run_cache =
     (case newCacheRollup ''^'' demo_def False True 0 2 0 of
        Inl e \<Rightarrow> Inl e
      | Inr r0 \<Rightarrow> cache_Add False 9 (\<lambda>_. 9) [demo_flow ''c'', demo_flow ''d''] r0)"

text \<open>
  A unique rollup's estimate drifts: an entry is charged when it is created, with no values, and
  credited with all its values when a cleanup removes it. Removing everything then leaves a negative
  estimate, so the memory limit no longer sees that much of what comes after.
\<close>

lemma unique_memory_drifts:
  assumes "2 \<le> length (cr_cache r)" and "\<forall>(k, en) \<in> set (cr_cache r). ce_LastUpdated en = t" and "cr_isUnique r"
    and "cr_memoryUsage r = (\<Sum>(k, en)\<leftarrow>cr_cache r. 150 + int (length (ce_Key en)))"
  shows "\<exists>r'. doEmergencyCleanup now r = Inr r' \<and> cr_cache r' = [] \<and>
     cr_memoryUsage r' = - (\<Sum>(k, en)\<leftarrow>cr_cache r. \<Sum>v\<leftarrow>ce_UniqueVals en. 20 + int (length v))"
proof -
  have "(\<Sum>(k, en)\<leftarrow>cr_cache r. estimateEntrySize True en) =
      (\<Sum>(k, en)\<leftarrow>cr_cache r. 150 + int (length (ce_Key en))) +
      (\<Sum>(k, en)\<leftarrow>cr_cache r. \<Sum>v\<leftarrow>ce_UniqueVals en. 20 + int (length v))"
    by (simp add: estimateEntrySize_def case_prod_unfold sum_list_addf sum_list_triv algebra_simps)
  with assms show ?thesis by (simp add: cleanup_same_age [OF assms(1,2)])
qed

definition demo_unique :: CacheRollup where
  "demo_unique = (demo_cache [(''a'', (new_entry ''a'' ''p'' 5)\<lparr>ce_UniqueVals := [''x'', ''yy'']\<rparr>),
     (''b'', new_entry ''b'' ''p'' 5)])\<lparr>cr_isUnique := True, cr_memoryUsage := 302\<rparr>"

end
