(* ===== verification/Rollup_Correct.thy ===== *)
theory Rollup_Correct
  imports Rollup
begin

text \<open>
  Correctness of the sum rollup: what a batch adds, that nothing is lost or counted twice between the
  channel, the accumulator and the exports, the bounds of the exported minimum and maximum, and the
  selection of the largest values.
\<close>

section \<open>Sums by key\<close>

definition vec_at :: "u64 list \<Rightarrow> nat \<Rightarrow> u64" where
  "vec_at v i = (if i < length v then v ! i else 0)"

definition tot :: "sums \<Rightarrow> string \<Rightarrow> nat \<Rightarrow> u64" where
  "tot s k i = (case map_of s k of None \<Rightarrow> 0 | Some v \<Rightarrow> vec_at v i)"

definition sums_wf :: "nat \<Rightarrow> sums \<Rightarrow> bool" where
  "sums_wf n s \<longleftrightarrow> distinct (map fst s) \<and> (\<forall>(k, v) \<in> set s. length v = n)"

lemma tot_Nil [simp]: "tot [] k i = 0"
  by (simp add: tot_def)

lemma tot_Cons: "tot ((k', v) # s) k i = (if k' = k then vec_at v i else tot s k i)"
  by (simp add: tot_def)

lemma vec_add_ok: "length u = length v \<Longrightarrow> \<exists>w. vec_add u v = Inr w \<and> length w = length v \<and> (\<forall>i. vec_at w i = vec_at u i + vec_at v i)"
  by (auto simp: vec_add_def vec_at_def)

lemma sum_add_keys: "sum_add k v s = Inr s' \<Longrightarrow> fst ` set s' = insert k (fst ` set s)"
proof (induction s arbitrary: s')
  case Nil
  then show ?case by auto
next
  case (Cons p s)
  obtain k' u where p: "p = (k', u)" by fastforce
  show ?case
  proof (cases "k' = k")
    case True
    with Cons.prems obtain w where "s' = (k, w) # s" by (auto simp: p)
    with True show ?thesis by (simp add: p)
  next
    case False
    with Cons.prems obtain x where x: "sum_add k v s = Inr x" "s' = (k', u) # x" by (auto simp: p)
    show ?thesis using Cons.IH [OF x(1)] by (simp add: p x(2) insert_commute)
  qed
qed

lemma sum_add_ok:
  assumes "sums_wf n s" and "length v = n"
  shows "\<exists>s'. sum_add k v s = Inr s' \<and> sums_wf n s' \<and>
     (\<forall>k' i. tot s' k' i = tot s k' i + (if k' = k then vec_at v i else 0))"
  using assms(1)
proof (induction s)
  case Nil
  then show ?case using assms(2) by (simp add: sums_wf_def tot_Cons)
next
  case (Cons p s)
  obtain k' u where p: "p = (k', u)" by fastforce
  have wf: "sums_wf n s" "length u = n" "k' \<notin> fst ` set s" using Cons.prems by (auto simp: sums_wf_def p)
  show ?case
  proof (cases "k' = k")
    case True
    obtain w where w: "vec_add u v = Inr w" "length w = n" "\<forall>i. vec_at w i = vec_at u i + vec_at v i"
      using vec_add_ok [of u v] wf(2) assms(2) by auto
    with True Cons.prems show ?thesis by (auto simp: p sums_wf_def tot_Cons)
  next
    case False
    from Cons.IH [OF wf(1)] obtain s' where s': "sum_add k v s = Inr s'" "sums_wf n s'"
        "\<forall>k' i. tot s' k' i = tot s k' i + (if k' = k then vec_at v i else 0)" by blast
    have "k' \<notin> fst ` set s'" using sum_add_keys [OF s'(1)] wf(3) False by auto
    with s' wf(2) False show ?thesis by (auto simp: p sums_wf_def tot_Cons)
  qed
qed

lemma merge_sums_ok:
  assumes "sums_wf n acc" and "sums_wf n s"
  shows "\<exists>s'. merge_sums acc s = Inr s' \<and> sums_wf n s' \<and> (\<forall>k i. tot s' k i = tot acc k i + tot s k i)"
  using assms
proof (induction s arbitrary: acc)
  case Nil
  then show ?case by simp
next
  case (Cons p s)
  obtain k v where p: "p = (k, v)" by fastforce
  have wf: "length v = n" "sums_wf n s" "k \<notin> fst ` set s" using Cons.prems(2) by (auto simp: sums_wf_def p)
  have fresh: "tot s k i = 0" for i
    using wf(3) by (simp add: tot_def map_of_eq_None_iff [THEN iffD2])
  obtain acc' where acc': "sum_add k v acc = Inr acc'" "sums_wf n acc'"
      "\<forall>k' i. tot acc' k' i = tot acc k' i + (if k' = k then vec_at v i else 0)"
    using sum_add_ok [OF Cons.prems(1) wf(1)] by blast
  from Cons.IH [OF acc'(2) wf(2)] acc' fresh show ?case by (auto simp: p tot_Cons)
qed

section \<open>What a batch adds\<close>

definition flow_sr :: "flow_map \<Rightarrow> u64" where
  "flow_sr m = (case m ''sample_rate'' of Some (JInt64 sr) \<Rightarrow> sr | _ \<Rightarrow> 0)"

definition flow_add :: "rollupBase \<Rightarrow> flow_map \<Rightarrow> u64 list" where
  "flow_add r m = projr (flow_vec r m (flow_sr m))"

text \<open>A flow and a rollup for which no index and no type assertion fails.\<close>

definition flow_fits :: "rollupBase \<Rightarrow> flow_map \<Rightarrow> bool" where
  "flow_fits r m \<longleftrightarrow> (\<exists>sr. m ''sample_rate'' = Some (JInt64 sr)) \<and> (\<exists>p. m ''provider'' = Some (JProvider p))"

definition rollup_fits :: "rollupBase \<Rightarrow> bool" where
  "rollup_fits r \<longleftrightarrow> rl_nameSet r \<noteq> [] \<and> (rl_splitMetrics r \<longrightarrow> length (rl_metrics r) \<le> length (rl_nameSet r))"

lemma flow_vec_ok:
  "rollup_fits r \<Longrightarrow> \<exists>v. flow_vec r m sr = Inr v \<and> length v = length (rl_nameSet r)"
  by (auto simp: rollup_fits_def flow_vec_def Let_def)

lemma flow_vec_Inr: "flow_vec r m sr = Inr v \<Longrightarrow> length v = length (rl_nameSet r)"
  by (auto simp: flow_vec_def Let_def split: if_splits)

lemma add_flow_Inr:
  assumes "sums_wf (length (rl_nameSet r)) (su_sum su)" and "add_flow ku r m su = Inr su'"
  shows "sums_wf (length (rl_nameSet r)) (su_sum su') \<and> su_count su' = su_count su + 1 \<and>
     (\<forall>k i. tot (su_sum su') k i = tot (su_sum su) k i + (if k = getKey ku r m then vec_at (flow_add r m) i else 0)) \<and>
     su_min su' = min (su_min su) (sum_list (flow_add r m)) \<and> su_max su' = max (su_max su) (sum_list (flow_add r m))"
proof -
  obtain sr where sr: "m ''sample_rate'' = Some (JInt64 sr)"
    using assms(2) by (auto simp: add_flow_def split: option.splits jval.splits)
  obtain v where v: "flow_vec r m sr = Inr v"
    using assms(2) sr by (auto simp: add_flow_def split: sum.splits)
  have "flow_add r m = v" using sr v by (simp add: flow_add_def flow_sr_def)
  moreover obtain s' where "sum_add (getKey ku r m) v (su_sum su) = Inr s'" "sums_wf (length (rl_nameSet r)) s'"
      "\<forall>k' i. tot s' k' i = tot (su_sum su) k' i + (if k' = getKey ku r m then vec_at v i else 0)"
    using sum_add_ok [OF assms(1) flow_vec_Inr [OF v]] by blast
  ultimately show ?thesis
    using assms(2) sr v
    by (auto simp: add_flow_def Let_def min_def max_def split: option.splits jval.splits)
qed

lemma addSum_Inr:
  assumes "sums_wf (length (rl_nameSet r)) (su_sum su)" and "addSum ku r ms su = Inr su'"
  shows "sums_wf (length (rl_nameSet r)) (su_sum su') \<and> su_count su' = su_count su + of_nat (length ms) \<and>
     (\<forall>k i. tot (su_sum su') k i = tot (su_sum su) k i +
        (\<Sum>m\<leftarrow>filter (\<lambda>m. getKey ku r m = k) ms. vec_at (flow_add r m) i)) \<and>
     su_min su' = foldl min (su_min su) (map (sum_list \<circ> flow_add r) ms) \<and>
     su_max su' = foldl max (su_max su) (map (sum_list \<circ> flow_add r) ms)"
  using assms
proof (induction ms arbitrary: su)
  case Nil
  then show ?case by simp
next
  case (Cons m ms)
  then obtain su1 where su1: "add_flow ku r m su = Inr su1" "addSum ku r ms su1 = Inr su'"
    by (auto split: sum.splits)
  note one = add_flow_Inr [OF Cons.prems(1) su1(1)]
  from Cons.IH [OF _ su1(2)] one show ?case by auto
qed

lemma add_flow_total:
  assumes "rollup_fits r" and "flow_fits r m" and "sums_wf (length (rl_nameSet r)) (su_sum su)"
  shows "\<exists>su'. add_flow ku r m su = Inr su'"
proof -
  obtain sr p where "m ''sample_rate'' = Some (JInt64 sr)" "m ''provider'' = Some (JProvider p)"
    using assms(2) by (auto simp: flow_fits_def)
  moreover obtain v where v: "flow_vec r m sr = Inr v" "length v = length (rl_nameSet r)"
    using flow_vec_ok [OF assms(1)] by blast
  moreover obtain s' where "sum_add (getKey ku r m) v (su_sum su) = Inr s'"
    using sum_add_ok [OF assms(3) v(2)] by blast
  ultimately show ?thesis by (simp add: add_flow_def Let_def)
qed

lemma addSum_total:
  assumes "rollup_fits r" and "\<forall>m \<in> set ms. flow_fits r m" and "sums_wf (length (rl_nameSet r)) (su_sum su)"
  shows "\<exists>su'. addSum ku r ms su = Inr su'"
  using assms(2,3)
proof (induction ms arbitrary: su)
  case Nil
  then show ?case by simp
next
  case (Cons m ms)
  then obtain su1 where "add_flow ku r m su = Inr su1" using add_flow_total [OF assms(1), of m su ku] by auto
  with Cons add_flow_Inr [OF Cons.prems(2)] show ?case by auto
qed

text \<open>
  A batch of flows, each with its sample rate and provider, is added without panic to a rollup that
  has a name for every split metric. For every key and every name the batch's sum is the sum, modulo
  \<open>2 ^ 64\<close>, of what the flows of that key add; the count is the number of flows; minimum and maximum
  are those of the flows' values.
\<close>

lemma addSum_sums:
  assumes "rollup_fits r" and "\<forall>m \<in> set ms. flow_fits r m"
  shows "\<exists>su. addSum ku r ms empty_sumset = Inr su \<and>
     (\<forall>k i. tot (su_sum su) k i = (\<Sum>m\<leftarrow>filter (\<lambda>m. getKey ku r m = k) ms. vec_at (flow_add r m) i)) \<and>
     su_count su = of_nat (length ms) \<and>
     su_min su = foldl min (- 1) (map (sum_list \<circ> flow_add r) ms) \<and>
     su_max su = foldl max 0 (map (sum_list \<circ> flow_add r) ms)"
proof -
  have wf: "sums_wf (length (rl_nameSet r)) (su_sum empty_sumset)" by (simp add: empty_sumset_def sums_wf_def)
  obtain su where su: "addSum ku r ms empty_sumset = Inr su" using addSum_total [OF assms wf] by blast
  from addSum_Inr [OF wf su] su show ?thesis by (auto simp: empty_sumset_def)
qed

definition demo_rollup :: rollupBase where
  "demo_rollup = \<lparr>rl_metrics = [''in_bytes''], rl_multiMetrics = [], rl_multiDims = [[''src_addr'']], rl_splitDims = [],
     rl_keyJoin = ''^'', rl_eventType = ''KFlow:in_bytes:src_addr'', rl_sample = True, rl_nameSet = [''bytes''],
     rl_filters = [], rl_hasFilters = False, rl_splitMetrics = False\<rparr>"

definition demo_map :: "u64 \<Rightarrow> flow_map" where
  "demo_map n = [''in_bytes'' \<mapsto> JInt64 n, ''sample_rate'' \<mapsto> JInt64 10, ''src_addr'' \<mapsto> JStr ''10.0.0.1'',
     ''provider'' \<mapsto> JProvider ''kentik-router'']"

section \<open>Nothing is lost between the channel and the exports\<close>

definition sums_of :: "sumset list \<Rightarrow> string \<Rightarrow> nat \<Rightarrow> u64" where
  "sums_of sus k i = (\<Sum>su\<leftarrow>sus. tot (su_sum su) k i)"

definition counts_of :: "sumset list \<Rightarrow> u64" where
  "counts_of sus = (\<Sum>su\<leftarrow>sus. su_count su)"

definition sum_inv :: "nat \<Rightarrow> sum_state \<Rightarrow> bool" where
  "sum_inv n st \<longleftrightarrow>
     (\<forall>su \<in> set (ks_kvs st). sums_wf n (su_sum su)) \<and> sums_wf n (su_sum (ks_acc st)) \<and>
     (\<forall>k i. sums_of (ks_exported st) k i + tot (su_sum (ks_acc st)) k i + sums_of (ks_kvs st) k i =
        sums_of (ks_accepted st) k i) \<and>
     counts_of (ks_exported st) + su_count (ks_acc st) + counts_of (ks_kvs st) = counts_of (ks_accepted st) \<and>
     (ks_exported st \<noteq> [] \<longrightarrow> su_min (ks_acc st) = 0) \<and> length (ks_kvs st) \<le> CHAN_SLACK"

lemma kvs_item_Inr:
  assumes "sums_wf n (su_sum acc)" and "sums_wf n (su_sum itm)"
  shows "\<exists>acc'. kvs_item itm acc = Inr acc' \<and> sums_wf n (su_sum acc') \<and>
     (\<forall>k i. tot (su_sum acc') k i = tot (su_sum acc) k i + tot (su_sum itm) k i) \<and>
     su_count acc' = su_count acc + su_count itm \<and> su_min acc' = min (su_min acc) (su_min itm) \<and>
     su_max acc' = max (su_max acc) (su_max itm)"
  using merge_sums_ok [OF assms] by (auto simp: kvs_item_def min_def max_def)

lemma sum_Add_inv:
  assumes "sum_inv (length (rl_nameSet r)) st" and "sum_Add ku r ms st = Inr st'"
  shows "sum_inv (length (rl_nameSet r)) st'"
proof -
  from assms(2) obtain ms' itm where batch: "addSum ku r ms' empty_sumset = Inr itm"
    and st': "st' = (if length (ks_kvs st) < CHAN_SLACK
       then st\<lparr>ks_kvs := ks_kvs st @ [itm], ks_accepted := ks_accepted st @ [itm]\<rparr> else st)"
    by (auto simp: sum_Add_def split: sum.splits)
  have wf: "sums_wf (length (rl_nameSet r)) (su_sum empty_sumset)" by (simp add: empty_sumset_def sums_wf_def)
  have "sums_wf (length (rl_nameSet r)) (su_sum itm)" using addSum_Inr [OF wf batch] by simp
  with assms(1) st' show ?thesis
    by (auto simp: sum_inv_def sums_of_def counts_of_def add.assoc [symmetric])
qed

lemma sum_step_inv:
  assumes "sum_inv (length (rl_nameSet r)) st" and "sum_step ku r st st'"
  shows "sum_inv (length (rl_nameSet r)) st'"
  using assms(2)
proof (cases rule: sum_step.cases)
  case (add ms)
  with assms(1) show ?thesis by (rule sum_Add_inv)
next
  case (recv itm q acc)
  have "sums_wf (length (rl_nameSet r)) (su_sum (ks_acc st))" "sums_wf (length (rl_nameSet r)) (su_sum itm)"
    using assms(1) recv by (auto simp: sum_inv_def)
  from kvs_item_Inr [OF this] recv assms(1) show ?thesis
    by (auto simp: sum_inv_def sums_of_def counts_of_def algebra_simps)
next
  case export
  with assms(1) show ?thesis
    by (auto simp: sum_inv_def sums_of_def counts_of_def kvs_reset_def sums_wf_def)
qed

lemma sum_reach_inv: "sum_reach ku r st \<Longrightarrow> sum_inv (length (rl_nameSet r)) st"
proof (induction rule: sum_reach.induct)
  case start
  show ?case by (simp add: sum_inv_def sum_start_def sums_of_def counts_of_def empty_sumset_def sums_wf_def CHAN_SLACK_def)
next
  case (step st st')
  from sum_step_inv [OF step.IH step.hyps(2)] show ?case .
qed

text \<open>
  C7. Conservation: in every state the rollup can reach, for every key and every name, what has been
  exported, what is accumulated and what waits in the channel add up to what the channel accepted
  (modulo \<open>2 ^ 64\<close>), and so do the counts. Whatever the goroutines interleave, no accepted batch is lost
  or counted twice, and the channel never holds more than its capacity.
\<close>

theorem sum_rollup_conserves:
  assumes "sum_reach ku r st"
  shows "sums_of (ks_exported st) k i + tot (su_sum (ks_acc st)) k i + sums_of (ks_kvs st) k i =
       sums_of (ks_accepted st) k i \<and>
     counts_of (ks_exported st) + su_count (ks_acc st) + counts_of (ks_kvs st) = counts_of (ks_accepted st) \<and>
     length (ks_kvs st) \<le> CHAN_SLACK"
  using sum_reach_inv [OF assms] by (simp add: sum_inv_def)

lemma demo_item:
  "\<exists>itm. addSum False demo_rollup [demo_map 7] empty_sumset = Inr itm \<and> tot (su_sum itm) ''10.0.0.1'' 0 = 70"
proof -
  have "\<exists>su. addSum False demo_rollup [demo_map 7] empty_sumset = Inr su"
    by (rule addSum_total) (auto simp: rollup_fits_def flow_fits_def demo_rollup_def demo_map_def sums_wf_def empty_sumset_def)
  then obtain su where su: "addSum False demo_rollup [demo_map 7] empty_sumset = Inr su" by blast
  have wf: "sums_wf (length (rl_nameSet demo_rollup)) (su_sum empty_sumset)" by (simp add: empty_sumset_def sums_wf_def)
  have "getKey False demo_rollup (demo_map 7) = ''10.0.0.1''"
    by (simp add: getKey_def demo_rollup_def demo_map_def setKey_def enumerate_eq_zip)
  moreover have "flow_add demo_rollup (demo_map 7) = [70]"
    by (simp add: flow_add_def flow_vec_def flow_sr_def demo_rollup_def demo_map_def metric_value_def sample_factor_def)
  ultimately show ?thesis using su addSum_Inr [OF wf su] by (auto simp: vec_at_def empty_sumset_def)
qed

text \<open>A run for the witnesses: one batch, received, then an export.\<close>

lemma demo_run:
  obtains st itm where "sum_reach False demo_rollup st" and "ks_accepted st = [itm]" and "ks_kvs st = []"
    and "length (ks_exported st) = 1" and "tot (su_sum itm) ''10.0.0.1'' 0 = 70"
proof -
  obtain itm where itm: "addSum False demo_rollup [demo_map 7] empty_sumset = Inr itm" "tot (su_sum itm) ''10.0.0.1'' 0 = 70"
    using demo_item by blast
  let ?s1 = "sum_start\<lparr>ks_kvs := ks_kvs sum_start @ [itm], ks_accepted := ks_accepted sum_start @ [itm]\<rparr>"
  have r1: "sum_reach False demo_rollup ?s1"
    by (rule sum_reach.step [OF sum_reach.start sum_step.add [of _ _ "[demo_map 7]"]])
      (simp add: sum_Add_def itm(1) demo_rollup_def [THEN arg_cong [of _ _ rl_hasFilters]] sum_start_def CHAN_SLACK_def del: addSum.simps)
  obtain acc where acc: "kvs_item itm (ks_acc ?s1) = Inr acc"
    using sum_reach_inv [OF r1] kvs_item_Inr [of "length (rl_nameSet demo_rollup)" "ks_acc ?s1" itm] by (auto simp: sum_inv_def sum_start_def)
  let ?s2 = "?s1\<lparr>ks_kvs := [], ks_acc := acc\<rparr>"
  have "sum_reach False demo_rollup ?s2"
    by (rule sum_reach.step [OF r1 sum_step.recv [OF _ acc]]) (simp add: sum_start_def)
  then have r3: "sum_reach False demo_rollup (?s2\<lparr>ks_acc := kvs_reset, ks_exported := ks_exported ?s2 @ [ks_acc ?s2]\<rparr>)"
    by (rule sum_reach.step) (rule sum_step.export)
  show ?thesis by (rule that [OF r3, of itm]) (simp_all add: sum_start_def itm)
qed

theorem sum_rollup_conserves_witness:
  "\<exists>st. sum_reach False demo_rollup st \<and> length (ks_exported st) = 1 \<and>
     sums_of (ks_exported st) ''10.0.0.1'' 0 + tot (su_sum (ks_acc st)) ''10.0.0.1'' 0 = 70"
proof -
  obtain st itm where st: "sum_reach False demo_rollup st" "ks_accepted st = [itm]" "ks_kvs st = []"
      "length (ks_exported st) = 1" "tot (su_sum itm) ''10.0.0.1'' 0 = 70"
    by (rule demo_run)
  from sum_rollup_conserves [OF st(1), of "''10.0.0.1''" 0] st show ?thesis by (auto simp: sums_of_def)
qed

text \<open>
  After the first export the accumulator's minimum is zero and stays so: every later export reports
  a minimum of zero whatever the flows were.
\<close>

lemma sum_rollup_min_zero:
  assumes "sum_reach ku r st" and "ks_exported st \<noteq> []"
  shows "su_min (ks_acc st) = 0"
  using sum_reach_inv [OF assms(1)] assms(2) by (simp add: sum_inv_def)

section \<open>The largest values\<close>

text \<open>
  What \<^verbatim>\<open>sort.Sort(byValue(keys))\<close> guarantees: a rearrangement in which no value is followed by a larger
  one.
\<close>

definition sorts_down :: "(nat Rollup_out list \<Rightarrow> nat Rollup_out list) \<Rightarrow> bool" where
  "sorts_down srt \<longleftrightarrow> (\<forall>xs. mset (srt xs) = mset xs \<and> sorted_wrt (\<lambda>a b. ro_Metric b \<le> ro_Metric a) (srt xs))"

lemma top_k_split: "\<exists>rest. xs = top_k k xs @ rest"
  by (metis append.right_neutral append_take_drop_id top_k_def)

text \<open>
  An export reports, for every name, rows of the accumulated keys with their sums (as a
  \<^verbatim>\<open>float64\<close>), largest first, and with a limit \<open>K\<close> set at most \<open>K\<close> of them; every row it leaves out has
  a value not above any row it reports.
\<close>

lemma exportSum_top:
  assumes "sorts_down srt" and "(i, name) \<in> set (enumerate 0 (rl_nameSet r))"
  shows "\<exists>rest. mset (top_k topK (srt (sum_rows r su i name)) @ rest) = mset (sum_rows r su i name) \<and>
     sorted_wrt (\<lambda>a b. ro_Metric b \<le> ro_Metric a) (top_k topK (srt (sum_rows r su i name))) \<and>
     (\<forall>a \<in> set (top_k topK (srt (sum_rows r su i name))). \<forall>b \<in> set rest. ro_Metric b \<le> ro_Metric a) \<and>
     (0 < topK \<longrightarrow> int (length (top_k topK (srt (sum_rows r su i name)))) \<le> topK) \<and>
     (su_sum su \<noteq> [] \<longrightarrow> set (top_k topK (srt (sum_rows r su i name))) \<subseteq> set (exportSum srt r topK su))"
proof -
  let ?xs = "srt (sum_rows r su i name)"
  obtain rest where rest: "?xs = top_k topK ?xs @ rest" using top_k_split by blast
  have "mset ?xs = mset (sum_rows r su i name)" and "sorted_wrt (\<lambda>a b. ro_Metric b \<le> ro_Metric a) ?xs"
    using assms(1) by (auto simp: sorts_down_def)
  then have "mset (top_k topK ?xs @ rest) = mset (sum_rows r su i name)"
    and "sorted_wrt (\<lambda>a b. ro_Metric b \<le> ro_Metric a) (top_k topK ?xs @ rest)"
    using rest by simp_all
  moreover have "0 < topK \<longrightarrow> int (length (top_k topK ?xs)) \<le> topK" by (simp add: top_k_def)
  moreover have "su_sum su \<noteq> [] \<longrightarrow> set (top_k topK ?xs) \<subseteq> set (exportSum srt r topK su)"
    using assms(2) by (auto simp: exportSum_def intro!: bexI [of _ "(i, name)"])
  ultimately show ?thesis by (intro exI [of _ rest]) (auto simp: sorted_wrt_append)
qed

definition sort_down :: "nat Rollup_out list \<Rightarrow> nat Rollup_out list" where
  "sort_down xs = rev (sort_key ro_Metric xs)"

lemma sort_down_sorts: "sorts_down sort_down"
proof -
  have "sorted_wrt (\<lambda>a b. ro_Metric b \<le> ro_Metric a) (rev ys)" if "sorted (map ro_Metric ys)" for ys
    using that by (simp add: sorted_wrt_rev sorted_map)
  from this [OF sorted_sort_key] show ?thesis by (auto simp: sorts_down_def sort_down_def)
qed

end
