(* ===== verification/Unique_Rollup.thy ===== *)
theory Unique_Rollup
  imports Rollup
begin

unbundle bit_operations_syntax

text \<open>
  \<^verbatim>\<open>pkg/rollup/unique.go\<close>: the rollup that counts distinct values with a HyperLogLog sketch for each key. The
  sketch (package \<^verbatim>\<open>go-hll\<close>) and the hash (package \<^verbatim>\<open>siphash\<close>) are libraries: arguments of the definitions. What
  the code relies on is that merging a sketch into another has the effect of adding its values.
\<close>

section \<open>Association lists updated by key\<close>

fun upd :: "string \<Rightarrow> ('v option \<Rightarrow> 'v) \<Rightarrow> (string \<times> 'v) list \<Rightarrow> (string \<times> 'v) list" where
  "upd k f [] = [(k, f None)]"
| "upd k f ((k', v) # c) = (if k' = k then (k, f (Some v)) # c else (k', v) # upd k f c)"

text \<open>\<^verbatim>\<open>for k, v := range itm { ... }\<close> with an update of the entry of each key.\<close>

fun merge_with :: "('v \<Rightarrow> 'v option \<Rightarrow> 'v) \<Rightarrow> (string \<times> 'v) list \<Rightarrow> (string \<times> 'v) list \<Rightarrow> (string \<times> 'v) list" where
  "merge_with f acc [] = acc"
| "merge_with f acc ((k, v) # itm) = merge_with f (upd k (f v) acc) itm"

section \<open>Definitions\<close>

record 'h hll_ops =
  hll_make :: 'h
  hll_Add :: "u64 \<Rightarrow> 'h \<Rightarrow> 'h"
  hll_Merge :: "'h \<Rightarrow> 'h \<Rightarrow> 'h"
  hll_EstimateCardinality :: "'h \<Rightarrow> u64"
  siphash_Hash :: "u64 \<Rightarrow> u64 \<Rightarrow> bytes \<Rightarrow> u64"

text \<open>\<^verbatim>\<open>binary.PutVarint\<close>: zig-zag encoding, then groups of seven bits, the lowest first.\<close>

function PutUvarint :: "u64 \<Rightarrow> bytes" where
  "PutUvarint x = (if x < 128 then [ucast x] else (ucast x OR 128) # PutUvarint (drop_bit 7 x))"
  by auto
termination
proof (relation "measure unat")
  fix x :: u64
  assume "\<not> x < 128"
  then have "128 \<le> unat x" by (simp add: word_less_nat_alt)
  then have "unat x div 128 < unat x" by simp
  then show "(drop_bit 7 x, x) \<in> measure unat" by (simp add: drop_bit_eq_div unat_div)
qed simp

declare PutUvarint.simps [simp del]

definition PutVarint :: "i64 \<Rightarrow> bytes" where
  "PutVarint x = PutUvarint (let ux = push_bit 1 x in if sint x < 0 then NOT ux else ux)"

definition string_bytes :: "string \<Rightarrow> bytes" where
  "string_bytes s = map of_char s"

definition metric_bytes :: "flow_map \<Rightarrow> string \<Rightarrow> bytes list" where
  "metric_bytes m metric = (case m metric of
     Some (JStr s) \<Rightarrow> [string_bytes s] | Some (JInt64 v) \<Rightarrow> [PutVarint v] | _ \<Rightarrow> [])"

definition multi_bytes :: "flow_map \<Rightarrow> string list \<Rightarrow> bytes list" where
  "multi_bytes m mm = (case m (mm ! 0) of
     Some (JMapStr v) \<Rightarrow> [string_bytes (gm_get [] v (mm ! 1))]
   | Some (JMapI32 v) \<Rightarrow> [PutVarint (signed (gm_get 0 v (mm ! 1)))]
   | Some (JMapI64 v) \<Rightarrow> [PutVarint (gm_get 0 v (mm ! 1))]
   | _ \<Rightarrow> [])"

definition flow_hashes :: "'h hll_ops \<Rightarrow> rollupBase \<Rightarrow> flow_map \<Rightarrow> u64 list" where
  "flow_hashes hl r m = map (siphash_Hash hl 0 0)
     (concat (map (metric_bytes m) (rl_metrics r)) @ concat (map (multi_bytes m) (rl_multiMetrics r)))"

record 'h uset =
  us_uniques :: "(string \<times> 'h) list"
  us_count :: "(string \<times> u64) list"
  us_prov :: "(string \<times> Provider) list"

definition empty_uset :: "'h uset" where
  "empty_uset = \<lparr>us_uniques = [], us_count = [], us_prov = []\<rparr>"

definition unique_flow :: "'h hll_ops \<Rightarrow> bool \<Rightarrow> rollupBase \<Rightarrow> flow_map \<Rightarrow> 'h uset \<Rightarrow> 'h uset res" where
  "unique_flow hl ku r m u =
     (let key = getKey ku r m in
      case m ''provider'' of
        Some (JProvider p) \<Rightarrow>
          Inr \<lparr>us_uniques = upd key (\<lambda>v. fold (hll_Add hl) (flow_hashes hl r m) (case v of None \<Rightarrow> hll_make hl | Some h \<Rightarrow> h)) (us_uniques u),
               us_count = upd key (\<lambda>v. case v of None \<Rightarrow> 1 | Some c \<Rightarrow> c + 1) (us_count u),
               us_prov = upd key (\<lambda>_. p) (us_prov u)\<rparr>
      | _ \<Rightarrow> Inl (Panic ''interface conversion''))"

fun unique_flows :: "'h hll_ops \<Rightarrow> bool \<Rightarrow> rollupBase \<Rightarrow> flow_map list \<Rightarrow> 'h uset \<Rightarrow> 'h uset res" where
  "unique_flows hl ku r [] u = Inr u"
| "unique_flows hl ku r (m # ms) u =
     (case unique_flow hl ku r m u of Inl e \<Rightarrow> Inl e | Inr u' \<Rightarrow> unique_flows hl ku r ms u')"

text \<open>
  The state of a rollup: the channel and the variables of the goroutine. With it goes the history that the
  statements below refer to: the flows of the batches in the channel, and the flows received since the
  last export.
\<close>

record 'h unique_state =
  uq_kvs :: "'h uset list"
  uq_acc :: "'h uset"
  uq_batches :: "flow_map list list"
  uq_since :: "flow_map list"

definition unique_start :: "'h unique_state" where
  "unique_start = \<lparr>uq_kvs = [], uq_acc = empty_uset, uq_batches = [], uq_since = []\<rparr>"

definition unique_Add :: "'h hll_ops \<Rightarrow> bool \<Rightarrow> rollupBase \<Rightarrow> flow_map list \<Rightarrow> 'h unique_state \<Rightarrow> 'h unique_state res" where
  "unique_Add hl ku r ms st =
     (case (if rl_hasFilters r then rollup_filter (rl_filters r) ms else Inr ms) of
        Inl e \<Rightarrow> Inl e
      | Inr ms \<Rightarrow>
          (case unique_flows hl ku r ms empty_uset of
             Inl e \<Rightarrow> Inl e
           | Inr itm \<Rightarrow>
               Inr (if length (uq_kvs st) < CHAN_SLACK
                    then st\<lparr>uq_kvs := uq_kvs st @ [itm], uq_batches := uq_batches st @ [ms]\<rparr>
                    else st)))"

text \<open>The two cases of \<^verbatim>\<open>uniqueKvs\<close>.\<close>

definition unique_item :: "'h hll_ops \<Rightarrow> 'h uset \<Rightarrow> 'h uset \<Rightarrow> 'h uset" where
  "unique_item hl itm acc =
     \<lparr>us_uniques = merge_with (\<lambda>v a. case a of None \<Rightarrow> v | Some h \<Rightarrow> hll_Merge hl h v) (us_uniques acc) (us_uniques itm),
      us_count = merge_with (\<lambda>v a. case a of None \<Rightarrow> v | Some c \<Rightarrow> c + v) (us_count acc) (us_count itm),
      us_prov = merge_with (\<lambda>v a. v) (us_prov acc) (us_prov itm)\<rparr>"

inductive unique_step :: "'h hll_ops \<Rightarrow> bool \<Rightarrow> rollupBase \<Rightarrow> 'h unique_state \<Rightarrow> 'h unique_state \<Rightarrow> bool" for hl ku r where
  add: "unique_Add hl ku r ms st = Inr st' \<Longrightarrow> unique_step hl ku r st st'"
| recv: "uq_kvs st = itm # q \<Longrightarrow> uq_batches st = ms # bs \<Longrightarrow>
    unique_step hl ku r st
      (st\<lparr>uq_kvs := q, uq_acc := unique_item hl itm (uq_acc st), uq_batches := bs, uq_since := uq_since st @ ms\<rparr>)"
| export: "unique_step hl ku r st (st\<lparr>uq_acc := empty_uset, uq_since := []\<rparr>)"

inductive unique_reach :: "'h hll_ops \<Rightarrow> bool \<Rightarrow> rollupBase \<Rightarrow> 'h unique_state \<Rightarrow> bool" for hl ku r where
  start: "unique_reach hl ku r unique_start"
| step: "unique_reach hl ku r st \<Longrightarrow> unique_step hl ku r st st' \<Longrightarrow> unique_reach hl ku r st'"

text \<open>\<^verbatim>\<open>exportUnique\<close>\<close>

definition unique_rows :: "'h hll_ops \<Rightarrow> rollupBase \<Rightarrow> 'h uset \<Rightarrow> nat Rollup_out list" where
  "unique_rows hl r u =
     map (\<lambda>(k, v). \<lparr>ro_Name = strings_Join (rl_nameSet r) '';'', ro_EventType = rl_eventType r, ro_Dimension = k,
        ro_Metric = float64_of (hll_EstimateCardinality hl v), ro_KeyJoin = rl_keyJoin r, ro_dims = combo (rl_multiDims r),
        ro_Count = (case map_of (us_count u) k of None \<Rightarrow> 0 | Some c \<Rightarrow> c), ro_Min = 0, ro_Max = 0,
        ro_Provider = (case map_of (us_prov u) k of None \<Rightarrow> [] | Some p \<Rightarrow> p)\<rparr>) (us_uniques u)"

definition exportUnique :: "(nat Rollup_out list \<Rightarrow> nat Rollup_out list) \<Rightarrow> 'h hll_ops \<Rightarrow> rollupBase \<Rightarrow> int \<Rightarrow> 'h uset \<Rightarrow> nat Rollup_out list" where
  "exportUnique srt hl r topK u = (if us_uniques u = [] then [] else top_k topK (srt (unique_rows hl r u)))"

section \<open>Lookups\<close>

lemma map_of_upd: "map_of (upd k f c) = (map_of c)(k \<mapsto> f (map_of c k))"
  by (induction c) (auto simp: fun_eq_iff)

lemma keys_upd: "fst ` set (upd k f c) = insert k (fst ` set c)"
  by (induction k f c rule: upd.induct) (simp_all add: insert_commute)

lemma distinct_upd: "distinct (map fst c) \<Longrightarrow> distinct (map fst (upd k f c))"
  by (induction c) (auto simp: keys_upd)

lemma distinct_merge_with: "distinct (map fst acc) \<Longrightarrow> distinct (map fst (merge_with f acc itm))"
  by (induction f acc itm rule: merge_with.induct) (auto simp: distinct_upd)

lemma map_of_merge_with:
  "distinct (map fst itm) \<Longrightarrow>
   map_of (merge_with f acc itm) k = (case map_of itm k of None \<Rightarrow> map_of acc k | Some v \<Rightarrow> Some (f v (map_of acc k)))"
proof (induction f acc itm rule: merge_with.induct)
  case (2 f acc k' v itm)
  then have "map_of itm k' = None" by (simp add: map_of_eq_None_iff)
  with 2 show ?case by (auto simp: map_of_upd split: option.splits)
qed simp

section \<open>One pass over the flows\<close>

definition same_uset :: "'h uset \<Rightarrow> 'h uset \<Rightarrow> bool" where
  "same_uset u v \<longleftrightarrow> map_of (us_uniques u) = map_of (us_uniques v) \<and> map_of (us_count u) = map_of (us_count v) \<and>
     map_of (us_prov u) = map_of (us_prov v)"

definition distinct_uset :: "'h uset \<Rightarrow> bool" where
  "distinct_uset u \<longleftrightarrow> distinct (map fst (us_uniques u)) \<and> distinct (map fst (us_count u)) \<and> distinct (map fst (us_prov u))"

text \<open>What the code relies on of the sketch: an empty sketch adds nothing, a merge adds the values of its argument.\<close>

definition sketch_laws :: "'h hll_ops \<Rightarrow> bool" where
  "sketch_laws hl \<longleftrightarrow>
     (\<forall>h. hll_Merge hl h (hll_make hl) = h) \<and>
     (\<forall>h g x. hll_Merge hl h (hll_Add hl x g) = hll_Add hl x (hll_Merge hl h g))"

lemma merge_adds:
  assumes "sketch_laws hl"
  shows "hll_Merge hl h (fold (hll_Add hl) xs g) = fold (hll_Add hl) xs (hll_Merge hl h g)"
  using assms by (induction xs arbitrary: g) (simp_all add: sketch_laws_def)

lemma merge_make: "sketch_laws hl \<Longrightarrow> hll_Merge hl h (hll_make hl) = h"
  by (simp add: sketch_laws_def)

lemma empty_uset_distinct [simp]: "distinct_uset empty_uset"
  by (simp add: distinct_uset_def empty_uset_def)

lemma unique_flow_distinct: "unique_flow hl ku r m u = Inr u' \<Longrightarrow> distinct_uset u \<Longrightarrow> distinct_uset u'"
  by (auto simp: unique_flow_def distinct_uset_def Let_def distinct_upd split: option.splits jval.splits)

lemma unique_flows_distinct: "unique_flows hl ku r ms u = Inr u' \<Longrightarrow> distinct_uset u \<Longrightarrow> distinct_uset u'"
  by (induction ms arbitrary: u) (auto split: sum.splits dest: unique_flow_distinct)

lemma unique_item_distinct: "distinct_uset acc \<Longrightarrow> distinct_uset (unique_item hl itm acc)"
  by (simp add: unique_item_def distinct_uset_def distinct_merge_with)

lemma unique_flow_same:
  "same_uset u v \<Longrightarrow> unique_flow hl ku r m u = Inr u' \<Longrightarrow> \<exists>v'. unique_flow hl ku r m v = Inr v' \<and> same_uset u' v'"
  by (auto simp: unique_flow_def same_uset_def Let_def map_of_upd split: option.splits jval.splits)

lemma unique_flows_same:
  "same_uset u v \<Longrightarrow> unique_flows hl ku r ms u = Inr u' \<Longrightarrow> \<exists>v'. unique_flows hl ku r ms v = Inr v' \<and> same_uset u' v'"
proof (induction ms arbitrary: u v)
  case (Cons m ms)
  then obtain u1 where u1: "unique_flow hl ku r m u = Inr u1" "unique_flows hl ku r ms u1 = Inr u'"
    by (auto split: sum.splits)
  with unique_flow_same [OF Cons.prems(1)] obtain v1 where "unique_flow hl ku r m v = Inr v1" "same_uset u1 v1" by blast
  with Cons.IH u1(2) show ?case by fastforce
qed auto

lemma unique_flows_append:
  "unique_flows hl ku r (ms @ ns) u = (case unique_flows hl ku r ms u of Inl e \<Rightarrow> Inl e | Inr v \<Rightarrow> unique_flows hl ku r ns v)"
  by (induction ms arbitrary: u) (auto split: sum.splits)

text \<open>A flow added to an item before the item is merged, or to the accumulator after.\<close>

lemma unique_item_flow:
  assumes laws: "sketch_laws hl" and d: "distinct_uset itm"
    and f: "unique_flow hl ku r m itm = Inr itm'"
  shows "\<exists>acc'. unique_flow hl ku r m (unique_item hl itm acc) = Inr acc' \<and> same_uset (unique_item hl itm' acc) acc'"
proof -
  have d': "distinct_uset itm'" using unique_flow_distinct [OF f d] .
  from f obtain p where p: "m ''provider'' = Some (JProvider p)"
    by (auto simp: unique_flow_def Let_def split: option.splits jval.splits)
  note flow = unique_flow_def [of hl ku r m, unfolded Let_def p option.case jval.case]
  note look = map_of_upd map_of_merge_with [OF d [unfolded distinct_uset_def, THEN conjunct1]]
    map_of_merge_with [OF d [unfolded distinct_uset_def, THEN conjunct2, THEN conjunct1]]
    map_of_merge_with [OF d [unfolded distinct_uset_def, THEN conjunct2, THEN conjunct2]]
    map_of_merge_with [OF d' [unfolded distinct_uset_def, THEN conjunct1]]
    map_of_merge_with [OF d' [unfolded distinct_uset_def, THEN conjunct2, THEN conjunct1]]
    map_of_merge_with [OF d' [unfolded distinct_uset_def, THEN conjunct2, THEN conjunct2]]
  from f have itm': "itm' = \<lparr>us_uniques = us_uniques itm', us_count = us_count itm', us_prov = us_prov itm'\<rparr>"
    and un: "map_of (us_uniques itm') = (map_of (us_uniques itm))(getKey ku r m \<mapsto> fold (hll_Add hl) (flow_hashes hl r m)
        (case map_of (us_uniques itm) (getKey ku r m) of None \<Rightarrow> hll_make hl | Some h \<Rightarrow> h))"
    and co: "map_of (us_count itm') = (map_of (us_count itm))(getKey ku r m \<mapsto>
        (case map_of (us_count itm) (getKey ku r m) of None \<Rightarrow> 1 | Some c \<Rightarrow> c + 1))"
    and pr: "map_of (us_prov itm') = (map_of (us_prov itm))(getKey ku r m \<mapsto> p)"
    by (auto simp: flow map_of_upd)
  have "map_of (us_uniques (unique_item hl itm' acc)) k =
      map_of (upd (getKey ku r m) (\<lambda>v. fold (hll_Add hl) (flow_hashes hl r m) (case v of None \<Rightarrow> hll_make hl | Some h \<Rightarrow> h))
        (us_uniques (unique_item hl itm acc))) k" for k
    by (auto simp: unique_item_def look un merge_adds [OF laws] merge_make [OF laws] split: option.splits)
  moreover have "map_of (us_count (unique_item hl itm' acc)) k =
      map_of (upd (getKey ku r m) (\<lambda>v. case v of None \<Rightarrow> 1 | Some c \<Rightarrow> c + 1) (us_count (unique_item hl itm acc))) k" for k
    by (auto simp: unique_item_def look co split: option.splits)
  moreover have "map_of (us_prov (unique_item hl itm' acc)) k =
      map_of (upd (getKey ku r m) (\<lambda>_. p) (us_prov (unique_item hl itm acc))) k" for k
    by (auto simp: unique_item_def look pr split: option.splits)
  ultimately show ?thesis by (simp add: flow same_uset_def fun_eq_iff)
qed

lemma unique_item_flows:
  assumes laws: "sketch_laws hl" and "distinct_uset itm" and "unique_flows hl ku r ms itm = Inr itm'"
  shows "\<exists>acc'. unique_flows hl ku r ms (unique_item hl itm acc) = Inr acc' \<and> same_uset (unique_item hl itm' acc) acc'"
  using assms(2,3)
proof (induction ms arbitrary: itm)
  case Nil
  then show ?case by (simp add: same_uset_def)
next
  case (Cons m ms)
  then obtain i1 where i1: "unique_flow hl ku r m itm = Inr i1" "unique_flows hl ku r ms i1 = Inr itm'"
    by (auto split: sum.splits)
  from unique_item_flow [OF laws Cons.prems(1) i1(1)] obtain a1 where
    a1: "unique_flow hl ku r m (unique_item hl itm acc) = Inr a1" "same_uset (unique_item hl i1 acc) a1" by blast
  from Cons.IH [OF unique_flow_distinct [OF i1(1) Cons.prems(1)] i1(2)] obtain b1 where
    b1: "unique_flows hl ku r ms (unique_item hl i1 acc) = Inr b1" "same_uset (unique_item hl itm' acc) b1" by blast
  from unique_flows_same [OF a1(2) b1(1)] obtain c1 where "unique_flows hl ku r ms a1 = Inr c1" "same_uset b1 c1" by blast
  with a1 b1 show ?case by (auto simp: same_uset_def)
qed

section \<open>The accumulator is one pass over the flows since the last export\<close>

definition unique_inv :: "'h hll_ops \<Rightarrow> bool \<Rightarrow> rollupBase \<Rightarrow> 'h unique_state \<Rightarrow> bool" where
  "unique_inv hl ku r st \<longleftrightarrow>
     list_all2 (\<lambda>ms itm. unique_flows hl ku r ms empty_uset = Inr itm) (uq_batches st) (uq_kvs st) \<and>
     (\<exists>u. unique_flows hl ku r (uq_since st) empty_uset = Inr u \<and> same_uset (uq_acc st) u) \<and>
     distinct_uset (uq_acc st) \<and> length (uq_kvs st) \<le> CHAN_SLACK"

lemma unique_start_inv: "unique_inv hl ku r unique_start"
  by (simp add: unique_inv_def unique_start_def same_uset_def)

lemma unique_Add_inv:
  "unique_inv hl ku r st \<Longrightarrow> unique_Add hl ku r ms st = Inr st' \<Longrightarrow> unique_inv hl ku r st'"
  by (auto simp: unique_Add_def unique_inv_def list_all2_append list_all2_lengthD split: sum.splits if_splits)

lemma unique_item_empty [simp]: "unique_item hl empty_uset acc = acc"
  by (simp add: unique_item_def empty_uset_def)

lemma unique_step_inv:
  assumes "sketch_laws hl" and "unique_inv hl ku r st" and "unique_step hl ku r st st'"
  shows "unique_inv hl ku r st'"
  using assms(3)
proof cases
  case (add ms)
  with assms(2) show ?thesis by (rule unique_Add_inv)
next
  case (recv itm q ms bs)
  from assms(2) obtain u where u: "unique_flows hl ku r (uq_since st) empty_uset = Inr u" "same_uset (uq_acc st) u"
    by (auto simp: unique_inv_def)
  have "unique_flows hl ku r ms empty_uset = Inr itm" using assms(2) recv by (simp add: unique_inv_def)
  from unique_item_flows [OF assms(1) empty_uset_distinct this, of "uq_acc st"] obtain a where
    a: "unique_flows hl ku r ms (uq_acc st) = Inr a" "same_uset (unique_item hl itm (uq_acc st)) a"
    by auto
  from unique_flows_same [OF u(2) a(1)] obtain b where "unique_flows hl ku r ms u = Inr b" "same_uset a b" by blast
  with a u assms(2) recv show ?thesis
    by (auto simp: unique_inv_def unique_flows_append same_uset_def unique_item_distinct)
next
  case export
  with assms(2) show ?thesis by (auto simp: unique_inv_def same_uset_def)
qed

lemma unique_reach_inv: "unique_reach hl ku r st \<Longrightarrow> sketch_laws hl \<Longrightarrow> unique_inv hl ku r st"
  by (induction rule: unique_reach.induct) (auto intro: unique_start_inv unique_step_inv)

text \<open>
  C29. However batches and exports interleave, the accumulator of a unique rollup holds for every key the
  sketch, the count and the provider that one pass over all flows received since the last export would
  give: splitting the flows into batches and merging the sketches loses and repeats nothing.
\<close>

theorem unique_rollup_one_pass:
  assumes "sketch_laws hl" and "unique_reach hl ku r st"
  shows "\<exists>u. unique_flows hl ku r (uq_since st) empty_uset = Inr u \<and>
     (\<forall>k. map_of (us_uniques (uq_acc st)) k = map_of (us_uniques u) k \<and>
          map_of (us_count (uq_acc st)) k = map_of (us_count u) k \<and>
          map_of (us_prov (uq_acc st)) k = map_of (us_prov u) k) \<and>
     length (uq_kvs st) \<le> CHAN_SLACK"
  using unique_reach_inv [OF assms(2,1)] by (auto simp: unique_inv_def same_uset_def)

text \<open>A sketch that satisfies the laws: the set of the values, for a run of two batches.\<close>

definition set_sketch :: "u64 set hll_ops" where
  "set_sketch = \<lparr>hll_make = {}, hll_Add = Set.insert, hll_Merge = (\<union>), hll_EstimateCardinality = (\<lambda>s. of_nat (card s)),
     siphash_Hash = (\<lambda>_ _ b. sum_list (map ucast b))\<rparr>"

definition unique_demo :: rollupBase where
  "unique_demo = \<lparr>rl_metrics = [''in_bytes''], rl_multiMetrics = [], rl_multiDims = [[''src_addr'']], rl_splitDims = [],
     rl_keyJoin = ''^'', rl_eventType = ''KFlow'', rl_sample = False, rl_nameSet = [''bytes''],
     rl_filters = [], rl_hasFilters = False, rl_splitMetrics = False\<rparr>"

definition unique_demo_flow :: "i64 \<Rightarrow> flow_map" where
  "unique_demo_flow n = [''src_addr'' \<mapsto> JStr ''a'', ''provider'' \<mapsto> JProvider ''p'', ''in_bytes'' \<mapsto> JInt64 n]"

lemma unique_demo_batch:
  assumes "unique_reach hl False unique_demo st" and "uq_kvs st = []" and "uq_batches st = []"
  shows "\<exists>st'. unique_reach hl False unique_demo st' \<and> uq_kvs st' = [] \<and> uq_batches st' = [] \<and>
     uq_since st' = uq_since st @ [unique_demo_flow n]"
proof -
  obtain itm where itm: "unique_flows hl False unique_demo [unique_demo_flow n] empty_uset = Inr itm"
    by (simp add: unique_flow_def unique_demo_flow_def Let_def)
  let ?s1 = "st\<lparr>uq_kvs := [itm], uq_batches := [[unique_demo_flow n]]\<rparr>"
  have "unique_Add hl False unique_demo [unique_demo_flow n] st = Inr ?s1"
    using itm assms(2,3) by (simp add: unique_Add_def unique_demo_def CHAN_SLACK_def del: unique_flows.simps)
  then have "unique_reach hl False unique_demo ?s1"
    by (rule unique_reach.step [OF assms(1) unique_step.add])
  from unique_reach.step [OF this unique_step.recv [of _ itm "[]" "[unique_demo_flow n]" "[]"]] show ?thesis
    by (intro exI conjI) (assumption | simp)+
qed

theorem unique_rollup_one_pass_witness:
  "\<exists>st. unique_reach set_sketch False unique_demo st \<and> length (uq_since st) = 2 \<and>
     map_of (us_count (uq_acc st)) ''a'' = Some 2 \<and> map_of (us_uniques (uq_acc st)) ''a'' = Some {10, 12}"
proof -
  have laws: "sketch_laws set_sketch" by (auto simp: sketch_laws_def set_sketch_def)
  obtain s1 where s1: "unique_reach set_sketch False unique_demo s1" "uq_kvs s1 = []" "uq_batches s1 = []"
      "uq_since s1 = [unique_demo_flow 5]"
    using unique_demo_batch [OF unique_reach.start, of set_sketch 5] by (auto simp: unique_start_def)
  obtain s2 where s2: "unique_reach set_sketch False unique_demo s2" "uq_since s2 = [unique_demo_flow 5, unique_demo_flow 6]"
    using unique_demo_batch [OF s1(1-3), of 6] s1(4) by auto
  have key: "getKey False unique_demo (unique_demo_flow n) = ''a''" for n
    by (simp add: getKey_def unique_demo_def unique_demo_flow_def setKey_def enumerate_eq_zip)
  have "flow_hashes set_sketch unique_demo (unique_demo_flow 5) = [10]" "flow_hashes set_sketch unique_demo (unique_demo_flow 6) = [12]"
    by (code_simp, code_simp)
  moreover have "unique_demo_flow n ''provider'' = Some (JProvider ''p'')" for n by (simp add: unique_demo_flow_def)
  moreover have "hll_make set_sketch = {}" "hll_Add set_sketch = Set.insert" by (simp_all add: set_sketch_def)
  ultimately show ?thesis
    using unique_rollup_one_pass [OF laws s2(1)] s2
    by (intro exI [of _ s2]) (auto simp: unique_flow_def key empty_uset_def Let_def)
qed

end
