(* ===== verification/Stats_Rollup.thy ===== *)
theory Stats_Rollup
  imports Rollup_Correct Unique_Rollup
begin

text \<open>
  \<^verbatim>\<open>pkg/rollup/stats.go\<close>: the statistics rollup as a whole. A sum rollup takes the fast path of \<^verbatim>\<open>Rollup\<close>; all other
  methods collect the values of each key and hand them to a function of package \<^verbatim>\<open>stats\<close> at export, which is
  an argument here. The collected values are \<^verbatim>\<open>float64\<close>, but all of them are integers: conversions of metrics
  and their products with sample rates. They are modelled as integers with the rounding to 53 bits.
\<close>

section \<open>Integers in float64\<close>

fun excess_bits :: "nat \<Rightarrow> nat" where
  "excess_bits n = (if n < 2 ^ 53 then 0 else Suc (excess_bits (n div 2)))"

declare excess_bits.simps [simp del]

definition fl :: "int \<Rightarrow> int" where
  "fl x = sgn x * int (f64_round (nat \<bar>x\<bar>) (excess_bits (nat \<bar>x\<bar>)))"

lemma fl_exact: "\<bar>x\<bar> < 2 ^ 53 \<Longrightarrow> fl x = x"
  by (simp add: fl_def excess_bits.simps f64_round_def nat_less_iff mult_sgn_abs)

section \<open>Definitions\<close>

datatype statr =
    stats_Sum | stats_Min | stats_Max | stats_Mean | stats_Median | stats_Entropy
  | stats_PercentileNearestRank int
  | stats_Percentile int

record StatsRollup =
  sr_base :: rollupBase
  sr_state :: "(string \<times> int list) list"
  sr_statr :: statr
  sr_isSum :: bool
  sr_sum :: sum_state
  sr_TopK :: int

definition unknown_rollup :: "'a res" where
  "unknown_rollup = Inl (Errorf ''Unknown rollup: %s'' [])"

definition stats_method :: "RollupDef \<Rightarrow> statr res" where
  "stats_method rd =
     (let m = rd_Method rd in
      if m = ''sum'' then Inr stats_Sum
      else if m = ''min'' then Inr stats_Min
      else if m = ''max'' then Inr stats_Max
      else if m = ''mean'' then Inr stats_Mean
      else if m = ''median'' then Inr stats_Median
      else if m = ''entropy'' then Inr stats_Entropy
      else if strings_HasPrefix m ''percentilerank'' then
        (case strconv_Atoi (drop 14 m) of
           None \<Rightarrow> unknown_rollup | Some v \<Rightarrow> Inr (stats_PercentileNearestRank (fl v)))
      else if strings_HasPrefix m ''percentile'' then
        (case strconv_Atoi (drop 10 m) of None \<Rightarrow> unknown_rollup | Some v \<Rightarrow> Inr (stats_Percentile (fl v)))
      else unknown_rollup)"

definition newStatsRollup :: "string \<Rightarrow> int \<Rightarrow> RollupDef \<Rightarrow> StatsRollup res" where
  "newStatsRollup joinKey topK rd =
     (case stats_method rd of
        Inl e \<Rightarrow> Inl e
      | Inr f \<Rightarrow>
          map_sum id (\<lambda>b. \<lparr>sr_base = b, sr_state = [], sr_statr = f, sr_isSum = (rd_Method rd = ''sum''),
             sr_sum = sum_start, sr_TopK = topK\<rparr>) (rollup_init joinKey rd))"

text \<open>The assignments to \<^verbatim>\<open>toAdd[key][i]\<close> for one flow: the last metric found wins.\<close>

definition slow_metric :: "flow_map \<Rightarrow> string \<Rightarrow> int \<Rightarrow> int" where
  "slow_metric m metric v = (case m metric of Some (JInt64 x) \<Rightarrow> fl (sint x) | _ \<Rightarrow> v)"

definition slow_multi :: "flow_map \<Rightarrow> string list \<Rightarrow> int \<Rightarrow> int" where
  "slow_multi m mm v = (case m (mm ! 0) of
     Some (JMapI32 x) \<Rightarrow> fl (sint (gm_get 0 x (mm ! 1)))
   | Some (JMapI64 x) \<Rightarrow> fl (sint (gm_get 0 x (mm ! 1)))
   | _ \<Rightarrow> v)"

definition slow_value :: "rollupBase \<Rightarrow> flow_map \<Rightarrow> i64 \<Rightarrow> int" where
  "slow_value r m sr =
     (let v = fold (slow_multi m) (rl_multiMetrics r) (fold (slow_metric m) (rl_metrics r) 0)
      in if rl_sample r \<and> 0 < sint sr then fl (v * fl (sint sr)) else v)"

text \<open>The loop over the batch of \<open>n\<close> flows: a key's slice has a place for every flow of the batch.\<close>

fun slow_loop :: "bool \<Rightarrow> rollupBase \<Rightarrow> nat \<Rightarrow> nat \<Rightarrow> flow_map list \<Rightarrow> (string \<times> int list) list \<Rightarrow> (string \<times> int list) list res" where
  "slow_loop ku r n i [] toAdd = Inr toAdd"
| "slow_loop ku r n i (m # ms) toAdd =
     (case m ''sample_rate'' of
        Some (JInt64 sr) \<Rightarrow>
          slow_loop ku r n (Suc i) ms
            (upd (getKey ku r m) (\<lambda>v. (case v of None \<Rightarrow> replicate n 0 | Some xs \<Rightarrow> xs)[i := slow_value r m sr]) toAdd)
      | _ \<Rightarrow> Inl (Panic ''interface conversion''))"

definition stats_Add :: "bool \<Rightarrow> flow_map list \<Rightarrow> StatsRollup \<Rightarrow> StatsRollup res" where
  "stats_Add ku ms s =
     (if sr_isSum s then map_sum id (\<lambda>st. s\<lparr>sr_sum := st\<rparr>) (sum_Add ku (sr_base s) ms (sr_sum s))
      else
        case (if rl_hasFilters (sr_base s) then rollup_filter (rl_filters (sr_base s)) ms else Inr ms) of
          Inl e \<Rightarrow> Inl e
        | Inr ms \<Rightarrow>
            map_sum id (\<lambda>toAdd. s\<lparr>sr_state := merge_with (\<lambda>v a. case a of None \<Rightarrow> v | Some xs \<Rightarrow> xs @ v) (sr_state s) toAdd\<rparr>)
              (slow_loop ku (sr_base s) (length ms) 0 ms []))"

text \<open>
  The export. The result slice has a place for every key; a key whose statistic fails leaves a place with
  a zero \<^verbatim>\<open>Rollup\<close> at the end of it.
\<close>

definition slow_row :: "rollupBase \<Rightarrow> string \<Rightarrow> 'm \<Rightarrow> 'm Rollup_out" where
  "slow_row r k v = \<lparr>ro_Name = strings_Join (rl_nameSet r) '';'', ro_EventType = rl_eventType r, ro_Dimension = k,
     ro_Metric = v, ro_KeyJoin = rl_keyJoin r, ro_dims = combo (rl_multiDims r), ro_Count = 0, ro_Min = 0, ro_Max = 0,
     ro_Provider = ''''\<rparr>"

definition zero_row :: "'m \<Rightarrow> 'm Rollup_out" where
  "zero_row z = \<lparr>ro_Name = '''', ro_EventType = '''', ro_Dimension = '''', ro_Metric = z, ro_KeyJoin = '''', ro_dims = [],
     ro_Count = 0, ro_Min = 0, ro_Max = 0, ro_Provider = ''''\<rparr>"

definition slow_rows :: "(statr \<Rightarrow> int list \<Rightarrow> 'm res) \<Rightarrow> 'm \<Rightarrow> StatsRollup \<Rightarrow> 'm Rollup_out list" where
  "slow_rows lib z s =
     (let keys = concat (map (\<lambda>(k, v). case lib (sr_statr s) v of Inl e \<Rightarrow> [] | Inr x \<Rightarrow> [slow_row (sr_base s) k x]) (sr_state s))
      in keys @ replicate (length (sr_state s) - length keys) (zero_row z))"

definition slow_Export ::
  "('m Rollup_out list \<Rightarrow> 'm Rollup_out list) \<Rightarrow> (statr \<Rightarrow> int list \<Rightarrow> 'm res) \<Rightarrow> 'm \<Rightarrow> StatsRollup \<Rightarrow>
   'm Rollup_out list \<times> StatsRollup" where
  "slow_Export srt lib z s = (top_k (sr_TopK s) (srt (slow_rows lib z s)), s\<lparr>sr_state := []\<rparr>)"

section \<open>What a batch adds\<close>

definition has_rate :: "flow_map \<Rightarrow> bool" where
  "has_rate m \<longleftrightarrow> (\<exists>sr. m ''sample_rate'' = Some (JInt64 sr))"

definition flow_rate :: "flow_map \<Rightarrow> i64" where
  "flow_rate m = (case m ''sample_rate'' of Some (JInt64 sr) \<Rightarrow> sr | _ \<Rightarrow> 0)"

definition slot_values :: "bool \<Rightarrow> rollupBase \<Rightarrow> nat \<Rightarrow> flow_map list \<Rightarrow> string \<Rightarrow> int list \<Rightarrow> int list" where
  "slot_values ku r i ms k base =
     map (\<lambda>j. if i \<le> j \<and> j < i + length ms \<and> getKey ku r (ms ! (j - i)) = k
              then slow_value r (ms ! (j - i)) (flow_rate (ms ! (j - i))) else base ! j) [0..<length base]"

lemma slot_values_Nil [simp]: "slot_values ku r i [] k base = base"
  by (intro nth_equalityI) (auto simp: slot_values_def)

lemma slot_values_Cons:
  assumes "i < length base"
  shows "slot_values ku r i (m # ms) k base =
     slot_values ku r (Suc i) ms k (if getKey ku r m = k then base[i := slow_value r m (flow_rate m)] else base)"
proof (rule nth_equalityI)
  fix j
  assume "j < length (slot_values ku r i (m # ms) k base)"
  with assms show "slot_values ku r i (m # ms) k base ! j = slot_values ku r (Suc i) ms k
       (if getKey ku r m = k then base[i := slow_value r m (flow_rate m)] else base) ! j"
    by (cases "j = i") (auto simp: slot_values_def nth_Cons' nth_list_update)
qed (simp add: slot_values_def)

lemma slow_loop_slots:
  assumes "\<forall>m \<in> set ms. has_rate m" and "i + length ms \<le> n" and "\<forall>xs \<in> ran (map_of toAdd). length xs = n"
  shows "\<exists>t. slow_loop ku r n i ms toAdd = Inr t \<and>
     (\<forall>k. map_of t k = (if k \<in> set (map (getKey ku r) ms)
        then Some (slot_values ku r i ms k (case map_of toAdd k of None \<Rightarrow> replicate n 0 | Some xs \<Rightarrow> xs))
        else map_of toAdd k))"
  using assms
proof (induction ms arbitrary: i toAdd)
  case Nil
  then show ?case by simp
next
  case (Cons m ms)
  let ?base = "\<lambda>v. case v of None \<Rightarrow> replicate n 0 | Some xs \<Rightarrow> xs"
  let ?t1 = "upd (getKey ku r m) (\<lambda>v. (?base v)[i := slow_value r m (flow_rate m)]) toAdd"
  from Cons.prems have sr: "m ''sample_rate'' = Some (JInt64 (flow_rate m))" by (auto simp: has_rate_def flow_rate_def)
  have len: "length (?base (map_of toAdd k)) = n" for k
    using Cons.prems(3) by (auto simp: ran_def split: option.splits)
  then have "\<forall>xs \<in> ran (map_of ?t1). length xs = n"
    using Cons.prems(3) by (auto simp: map_of_upd ran_def split: if_splits)
  with Cons.IH [of "Suc i" ?t1] Cons.prems obtain t where t: "slow_loop ku r n (Suc i) ms ?t1 = Inr t"
    "\<And>k. map_of t k = (if k \<in> set (map (getKey ku r) ms)
       then Some (slot_values ku r (Suc i) ms k (?base (map_of ?t1 k))) else map_of ?t1 k)" by auto
  have "slot_values ku r (Suc i) ms k b = b" if "k \<notin> set (map (getKey ku r) ms)" for k b
    using that by (intro nth_equalityI) (auto simp: slot_values_def)
  then show ?case
    using t sr len Cons.prems(2) by (auto simp: map_of_upd slot_values_Cons)
qed

lemma slow_loop_distinct: "slow_loop ku r n i ms toAdd = Inr t \<Longrightarrow> distinct (map fst toAdd) \<Longrightarrow> distinct (map fst t)"
  by (induction ku r n i ms toAdd rule: slow_loop.induct) (auto simp: distinct_upd split: option.splits jval.splits)

text \<open>
  A batch of \<open>n\<close> flows appends \<open>n\<close> values to every key that occurs in it: the values of the key's own flows in
  order, and a zero for every flow of another key. With more than one key in a batch a minimum is
  therefore never positive, and means, medians and percentiles are taken over the zeros as well.
\<close>

lemma stats_batch_padded:
  assumes "\<not> sr_isSum s" and "\<not> rl_hasFilters (sr_base s)" and "\<forall>m \<in> set ms. has_rate m"
  shows "\<exists>s'. stats_Add ku ms s = Inr s' \<and>
     (\<forall>k. map_of (sr_state s') k = (if k \<in> set (map (getKey ku (sr_base s)) ms)
        then Some ((case map_of (sr_state s) k of None \<Rightarrow> [] | Some xs \<Rightarrow> xs) @
          map (\<lambda>m. if getKey ku (sr_base s) m = k then slow_value (sr_base s) m (flow_rate m) else 0) ms)
        else map_of (sr_state s) k))"
proof -
  let ?r = "sr_base s"
  from slow_loop_slots [of ms 0 "length ms" "[]" ku ?r] assms(3) obtain t where
    t: "slow_loop ku ?r (length ms) 0 ms [] = Inr t"
    "\<And>k. map_of t k = (if k \<in> set (map (getKey ku ?r) ms)
       then Some (slot_values ku ?r 0 ms k (replicate (length ms) 0)) else None)" by auto
  have "slot_values ku ?r 0 ms k (replicate (length ms) 0) =
      map (\<lambda>m. if getKey ku ?r m = k then slow_value ?r m (flow_rate m) else 0) ms" for k
    by (intro nth_equalityI) (auto simp: slot_values_def)
  with t assms(1,2) slow_loop_distinct [OF t(1)] show ?thesis
    by (auto simp: stats_Add_def map_of_merge_with split: option.splits)
qed

definition min_rollup :: StatsRollup where
  "min_rollup = \<lparr>sr_base = unique_demo, sr_state = [], sr_statr = stats_Min, sr_isSum = False, sr_sum = sum_start, sr_TopK = 10\<rparr>"

definition min_flow :: "string \<Rightarrow> i64 \<Rightarrow> flow_map" where
  "min_flow a n = [''src_addr'' \<mapsto> JStr a, ''sample_rate'' \<mapsto> JInt64 1, ''in_bytes'' \<mapsto> JInt64 n]"

end
