(* ===== verification/Roller.thy ===== *)
theory Roller
  imports Complex_Main Agent Cache_Rollup Stats_Rollup
begin

text \<open>
  \<^verbatim>\<open>pkg/rollup/rollup.go\<close>: the interface \<^verbatim>\<open>Roller\<close>, its construction from the configuration, and the agent that feeds
  every rollup. What a rollup has to promise to the agent is a locale: an invariant that \<^verbatim>\<open>Add\<close> keeps. The
  statistics, unique and cache rollups are its instances.
\<close>

section \<open>Definitions\<close>

record RollupConfig =
  rc_JoinKey :: string
  rc_TopK :: int
  rc_Formats :: "string list"
  rc_KeepUndefined :: bool
  rc_MaxMemoryMB :: int
  rc_MaxKeys :: int
  rc_EmergencyCleanup :: bool

record 'h UniqueRollup =
  ur_base :: rollupBase
  ur_state :: "'h unique_state"
  ur_TopK :: int

definition newUniqueRollup :: "string \<Rightarrow> int \<Rightarrow> RollupDef \<Rightarrow> 'h UniqueRollup res" where
  "newUniqueRollup joinKey topK rd =
     map_sum id (\<lambda>b. \<lparr>ur_base = b, ur_state = unique_start, ur_TopK = topK\<rparr>) (rollup_init joinKey rd)"

datatype 'h Roller =
    StatsRoller StatsRollup
  | UniqueRoller "'h UniqueRollup"
  | CacheRoller CacheRollup

definition new_roller :: "RollupConfig \<Rightarrow> RollupDef \<Rightarrow> 'h Roller res" where
  "new_roller cfg rd =
     (let cache = (\<lambda>u. map_sum id CacheRoller (newCacheRollup (rc_JoinKey cfg) rd u (rc_EmergencyCleanup cfg)
          (rc_MaxMemoryMB cfg) (rc_MaxKeys cfg) (rc_TopK cfg)))
      in if rd_Method rd = ''unique'' then map_sum id UniqueRoller (newUniqueRollup (rc_JoinKey cfg) (rc_TopK cfg) rd)
         else if rd_Method rd = ''cache'' then cache False
         else if rd_Method rd = ''cache_unique'' then cache True
         else map_sum id StatsRoller (newStatsRollup (rc_JoinKey cfg) (rc_TopK cfg) rd))"

definition GetRollups :: "RollupConfig \<Rightarrow> 'h Roller list res" where
  "GetRollups cfg =
     (case res_all (map RollupDefs_Set (rc_Formats cfg)) of
        Inl e \<Rightarrow> Inl e
      | Inr rds \<Rightarrow> res_all (map (new_roller cfg) rds))"

text \<open>The time of the call and of the cleanups within it are arguments of \<^verbatim>\<open>Add\<close>.\<close>

fun Roller_Add :: "'h hll_ops \<Rightarrow> bool \<Rightarrow> int \<Rightarrow> (nat \<Rightarrow> int) \<Rightarrow> flow_map list \<Rightarrow> 'h Roller \<Rightarrow> 'h Roller res" where
  "Roller_Add hl ku now clk ms (StatsRoller s) = map_sum id StatsRoller (stats_Add ku ms s)"
| "Roller_Add hl ku now clk ms (UniqueRoller u) =
     map_sum id (\<lambda>st. UniqueRoller (u\<lparr>ur_state := st\<rparr>)) (unique_Add hl ku (ur_base u) ms (ur_state u))"
| "Roller_Add hl ku now clk ms (CacheRoller r) = map_sum id CacheRoller (cache_Add ku now clk ms r)"

fun Roller_base :: "'h Roller \<Rightarrow> rollupBase" where
  "Roller_base (StatsRoller s) = sr_base s"
| "Roller_base (UniqueRoller u) = ur_base u"
| "Roller_base (CacheRoller r) = cr_base r"

definition Roller_GetName :: "'h Roller \<Rightarrow> string" where
  "Roller_GetName r = rollup_GetName (Roller_base r)"

fun Roller_SetFilter :: "FilterWrapper \<Rightarrow> 'h Roller \<Rightarrow> 'h Roller" where
  "Roller_SetFilter fw (StatsRoller s) = StatsRoller (s\<lparr>sr_base := SetFilter fw (sr_base s)\<rparr>)"
| "Roller_SetFilter fw (UniqueRoller u) = UniqueRoller (u\<lparr>ur_base := SetFilter fw (ur_base u)\<rparr>)"
| "Roller_SetFilter fw (CacheRoller r) = CacheRoller (r\<lparr>cr_base := SetFilter fw (cr_base r)\<rparr>)"

text \<open>
  The part of \<^verbatim>\<open>NewNetworkAgent\<close> that makes the rollups and distributes the filters: a filter with a name goes
  to the rollups of that name, one without a name to the agent itself.
\<close>

fun assign_filters :: "FilterWrapper list \<Rightarrow> 'h Roller list \<Rightarrow> FilterWrapper list \<times> 'h Roller list" where
  "assign_filters [] rolls = ([], rolls)"
| "assign_filters (f # fs) rolls =
     (if FilterWrapper_GetName f = '''' then (case assign_filters fs rolls of (g, rolls') \<Rightarrow> (f # g, rolls'))
      else assign_filters fs (map (\<lambda>r. if FilterWrapper_GetName f = Roller_GetName r then Roller_SetFilter f r else r) rolls))"

definition setup_agent :: "net_cidr \<Rightarrow> RollupConfig \<Rightarrow> string list \<Rightarrow> agent \<Rightarrow> (agent \<times> 'h Roller list) res" where
  "setup_agent cidr cfg filters ag =
     (case GetRollups cfg of
        Inl e \<Rightarrow> Inl e
      | Inr rolls \<Rightarrow>
          (case GetFilters cidr filters of
             Inl e \<Rightarrow> Inl e
           | Inr fs \<Rightarrow>
               (case assign_filters fs rolls of (fullSet, rolls') \<Rightarrow>
                  Inr (ag\<lparr>ag_doRollups := rolls \<noteq> [], ag_filters := fullSet, ag_doFilter := fullSet \<noteq> []\<rparr>, rolls'))))"

section \<open>What the agent relies on\<close>

lemma case_sum_Inr: "case_sum Inl f z = Inr y \<longleftrightarrow> (\<exists>x. z = Inr x \<and> f x = Inr y)"
  by (cases z) auto

lemma handleInput_rollups:
  assumes "handleInput enrich shuffle radd seri msgs ag rs = Some (Inr (ag', rs'))"
  obtains rv where "add_rollups radd rv rs = Inr rs'" | "rs' = rs"
proof -
  let ?in = "if ag_enrich ag then enrich msgs else msgs"
  from assms obtain m1 where m1: "(if ag_doFilter ag then reduce (ag_filters ag) ?in else Inr ?in) = Inr m1"
    by (cases "if ag_doFilter ag then reduce (ag_filters ag) ?in else Inr ?in") (auto simp: handleInput_def Let_def)
  from assms m1 obtain m2 rv where m2: "(if ag_doRollups ag then map_flows m1 else Inr (m1, [])) = Inr (m2, rv)"
    by (cases "if ag_doRollups ag then map_flows m1 else Inr (m1, [])") (auto simp: handleInput_def Let_def)
  from assms m1 m2 obtain rs1 where rs1: "(if ag_doRollups ag then add_rollups radd rv rs else Inr rs) = Inr rs1"
    by (cases "if ag_doRollups ag then add_rollups radd rv rs else Inr rs") (auto simp: handleInput_def Let_def)
  obtain m3 keep where sm: "sampled shuffle ag m2 = (m3, keep)" by fastforce
  from assms have "rs' = rs1"
    by (simp add: handleInput_def Let_def m1 m2 rs1 sm split del: if_split)
      (auto simp: sm case_sum_Inr split: if_split_asm)
  then show thesis
    using rs1 by (cases "ag_doRollups ag") (simp_all add: that)
qed

locale rollup_contract =
  fixes radd :: "flow_map list \<Rightarrow> 'r \<Rightarrow> 'r res"
    and inv :: "'r \<Rightarrow> bool"
  assumes add_keeps: "radd rv r = Inr r' \<Longrightarrow> inv r \<Longrightarrow> inv r'"
begin

lemma add_rollups_keeps: "add_rollups radd rv rs = Inr rs' \<Longrightarrow> list_all inv rs \<Longrightarrow> list_all inv rs'"
  by (induction rs arbitrary: rs') (auto split: sum.splits elim!: map_sum_InrE intro: add_keeps)

lemma add_rollups_length: "add_rollups radd rv rs = Inr rs' \<Longrightarrow> length rs' = length rs"
  by (induction rs arbitrary: rs') (auto split: sum.splits elim!: map_sum_InrE)

lemma handleInput_keeps:
  assumes "handleInput enrich shuffle radd seri msgs ag rs = Some (Inr (ag', rs'))" and "list_all inv rs"
  shows "list_all inv rs' \<and> length rs' = length rs"
  using assms(1)
proof (rule handleInput_rollups)
  fix rv
  assume "add_rollups radd rv rs = Inr rs'"
  with assms(2) show ?thesis using add_rollups_keeps add_rollups_length by blast
next
  assume "rs' = rs"
  with assms(2) show ?thesis by simp
qed

end

text \<open>
  The invariant of each kind of rollup: conservation for sums, one pass over the flows for sketches, the
  bounds of a cache.
\<close>

fun roller_ok :: "'h hll_ops \<Rightarrow> bool \<Rightarrow> 'h Roller \<Rightarrow> bool" where
  "roller_ok hl ku (StatsRoller s) = sum_inv (length (rl_nameSet (sr_base s))) (sr_sum s)"
| "roller_ok hl ku (UniqueRoller u) = unique_inv hl ku (ur_base u) (ur_state u)"
| "roller_ok hl ku (CacheRoller r) =
     ((cr_EmergencyCleanup r \<and> 0 < cr_MaxKeys r \<longrightarrow> bounded_cache r) \<and> (\<not> cr_isUnique r \<longrightarrow> memory_exact r))"

lemma stats_Add_keeps:
  "stats_Add ku ms s = Inr s' \<Longrightarrow> sum_inv (length (rl_nameSet (sr_base s))) (sr_sum s) \<Longrightarrow>
   sum_inv (length (rl_nameSet (sr_base s'))) (sr_sum s')"
  by (auto simp: stats_Add_def split: if_splits sum.splits elim!: map_sum_InrE dest: sum_Add_inv)

lemma cache_Add_keeps:
  assumes "cache_Add ku now clk ms r = Inr r'" and "roller_ok hl ku (CacheRoller r)"
  shows "roller_ok hl ku (CacheRoller r')"
  using assms cache_Add_fields [OF assms(1)]
  by (auto simp: cache_Add_def split: sum.splits dest: add_maps_bounded add_maps_memory)

interpretation rollers: rollup_contract "Roller_Add hl ku now clk" "roller_ok hl ku" for hl ku now clk
proof
  fix rv r r'
  assume add: "Roller_Add hl ku now clk rv r = Inr r'" and ok: "roller_ok hl ku r"
  show "roller_ok hl ku r'"
  proof (cases r)
    case (StatsRoller s)
    with add ok show ?thesis by (auto elim!: map_sum_InrE dest: stats_Add_keeps)
  next
    case (UniqueRoller u)
    with add ok show ?thesis by (auto elim!: map_sum_InrE dest: unique_Add_inv)
  next
    case (CacheRoller c)
    with add obtain c' where "cache_Add ku now clk rv c = Inr c'" "r' = CacheRoller c'" by (auto elim!: map_sum_InrE)
    with cache_Add_keeps ok CacheRoller show ?thesis by blast
  qed
qed

section \<open>Filters for rollups\<close>

lemma SetFilter_name [simp]: "Roller_GetName (Roller_SetFilter f r) = Roller_GetName r"
  by (cases r) (simp_all add: Roller_GetName_def rollup_GetName_def SetFilter_def)

lemma SetFilter_base: "Roller_base (Roller_SetFilter f r) = SetFilter f (Roller_base r)"
  by (cases r) simp_all

lemma assign_filters_one:
  "snd (assign_filters fs rolls) = map (fold (\<lambda>f r. if FilterWrapper_GetName f \<noteq> '''' \<and> FilterWrapper_GetName f = Roller_GetName r
     then Roller_SetFilter f r else r) fs) rolls"
  by (induction fs rolls rule: assign_filters.induct) (auto simp: comp_def split: prod.splits)

lemma fold_SetFilter:
  "Roller_base (fold (\<lambda>f r. if FilterWrapper_GetName f \<noteq> '''' \<and> FilterWrapper_GetName f = Roller_GetName r
      then Roller_SetFilter f r else r) fs r) =
   fold SetFilter (filter (\<lambda>f. FilterWrapper_GetName f \<noteq> '''' \<and> FilterWrapper_GetName f = Roller_GetName r) fs) (Roller_base r)"
  by (induction fs arbitrary: r) (auto simp: SetFilter_base)

lemma fold_SetFilter_fields:
  "rl_filters (fold SetFilter fs b) = rl_filters b @ fs \<and> (rl_hasFilters (fold SetFilter fs b) \<longleftrightarrow> rl_hasFilters b \<or> fs \<noteq> [])"
  by (induction fs arbitrary: b) (auto simp: SetFilter_def)

text \<open>
  The set-up gives every filter without a name to the agent, and every rollup exactly the filters that
  carry its name, in the order of the configuration; a rollup filters exactly when it has been given one.
\<close>

lemma filters_assigned:
  assumes "assign_filters fs rolls = (fullSet, rolls')"
  shows "fullSet = filter (\<lambda>f. FilterWrapper_GetName f = '''') fs \<and> length rolls' = length rolls \<and>
     (\<forall>i < length rolls.
        let own = filter (\<lambda>f. FilterWrapper_GetName f \<noteq> '''' \<and> FilterWrapper_GetName f = Roller_GetName (rolls ! i)) fs in
        rl_filters (Roller_base (rolls' ! i)) = rl_filters (Roller_base (rolls ! i)) @ own \<and>
        (rl_hasFilters (Roller_base (rolls' ! i)) \<longleftrightarrow> rl_hasFilters (Roller_base (rolls ! i)) \<or> own \<noteq> []))"
proof -
  have "fst (assign_filters fs rolls) = filter (\<lambda>f. FilterWrapper_GetName f = '''') fs"
    by (induction fs rolls rule: assign_filters.induct) (auto split: prod.splits)
  moreover have "rolls' = map (fold (\<lambda>f r. if FilterWrapper_GetName f \<noteq> '''' \<and> FilterWrapper_GetName f = Roller_GetName r
       then Roller_SetFilter f r else r) fs) rolls"
    using assign_filters_one [of fs rolls] assms by simp
  ultimately show ?thesis using assms by (simp add: fold_SetFilter fold_SetFilter_fields Let_def)
qed

definition named_filter :: "string \<Rightarrow> FilterWrapper" where
  "named_filter n = [FString \<lparr>sf_cf = stringEquals, sf_dimension = [''src_addr''], sf_value = ''a'', sf_name = n\<rparr>]"

section \<open>Runs of the agent\<close>

text \<open>The steps a rollup takes on its own: those of the goroutines, and exports.\<close>

inductive roller_step :: "'h hll_ops \<Rightarrow> bool \<Rightarrow> 'h Roller \<Rightarrow> 'h Roller \<Rightarrow> bool" for hl ku where
  sum: "sr_isSum s \<Longrightarrow> sum_step ku (sr_base s) (sr_sum s) st' \<Longrightarrow>
    roller_step hl ku (StatsRoller s) (StatsRoller (s\<lparr>sr_sum := st'\<rparr>))"
| slow: "\<not> sr_isSum s \<Longrightarrow> slow_Export srt lib (0 :: rat) s = (out, s') \<Longrightarrow> roller_step hl ku (StatsRoller s) (StatsRoller s')"
| unique: "unique_step hl ku (ur_base u) (ur_state u) st' \<Longrightarrow>
    roller_step hl ku (UniqueRoller u) (UniqueRoller (u\<lparr>ur_state := st'\<rparr>))"
| cache: "doExport srt r = (out, r') \<Longrightarrow> roller_step hl ku (CacheRoller r) (CacheRoller r')"

text \<open>
  The agent takes batches from its input, a rollup takes a step of its own, or a sink reports that
  messages are too big, in any order.
\<close>

inductive agent_reach ::
  "'h hll_ops \<Rightarrow> bool \<Rightarrow> (JCHF list \<Rightarrow> JCHF list) \<Rightarrow> serializer \<Rightarrow> agent \<Rightarrow> 'h Roller list \<Rightarrow> agent \<Rightarrow> 'h Roller list \<Rightarrow> bool"
  for hl ku enrich seri ag0 rs0 where
  start: "agent_reach hl ku enrich seri ag0 rs0 ag0 rs0"
| input: "agent_reach hl ku enrich seri ag0 rs0 ag rs \<Longrightarrow>
    handleInput enrich shuffle (Roller_Add hl ku now clk) seri msgs ag rs = Some (Inr (ag', rs')) \<Longrightarrow>
    agent_reach hl ku enrich seri ag0 rs0 ag' rs'"
| own: "agent_reach hl ku enrich seri ag0 rs0 ag rs \<Longrightarrow> i < length rs \<Longrightarrow> roller_step hl ku (rs ! i) r' \<Longrightarrow>
    agent_reach hl ku enrich seri ag0 rs0 ag (rs[i := r'])"
| too_big: "agent_reach hl ku enrich seri ag0 rs0 ag rs \<Longrightarrow> agent_reach hl ku enrich seri ag0 rs0 (tooBig_shrink ag) rs"

lemma sum_start_inv: "sum_inv n sum_start"
  by (simp add: sum_inv_def sum_start_def sums_of_def counts_of_def empty_sumset_def sums_wf_def CHAN_SLACK_def)

lemma roller_step_ok:
  "roller_step hl ku r r' \<Longrightarrow> sketch_laws hl \<Longrightarrow> roller_ok hl ku r \<Longrightarrow> roller_ok hl ku r'"
proof (induction rule: roller_step.induct)
  case (sum s st')
  then show ?case by (auto dest: sum_step_inv)
next
  case (slow s srt lib out s')
  then show ?case by (auto simp: slow_Export_def)
next
  case (unique u st')
  then show ?case by (auto dest: unique_step_inv)
next
  case (cache srt r out r')
  then show ?case by (auto simp: doExport_def bounded_cache_def memory_exact_def entry_sizes_def)
qed

lemma agent_reach_ok:
  assumes "sketch_laws hl"
  shows "agent_reach hl ku enrich seri ag0 rs0 ag rs \<Longrightarrow> list_all (roller_ok hl ku) rs0 \<Longrightarrow>
     list_all (roller_ok hl ku) rs \<and> length rs = length rs0"
proof (induction rule: agent_reach.induct)
  case start
  then show ?case by simp
next
  case (input ag rs shuffle now clk msgs ag' rs')
  with rollers.handleInput_keeps [OF input.hyps(2)] show ?case by simp
next
  case (own ag rs i r')
  then show ?case using assms by (simp add: list_all_length nth_list_update roller_step_ok)
qed simp

text \<open>Every rollup of a set-up starts in its invariant.\<close>

lemma new_roller_ok: "new_roller cfg rd = Inr r \<Longrightarrow> roller_ok hl ku r"
  by (auto simp: new_roller_def Let_def newCacheRollup_def newUniqueRollup_def newStatsRollup_def sum_start_inv
      unique_start_inv bounded_cache_def memory_exact_def entry_sizes_def split: if_splits sum.splits elim!: map_sum_InrE)

lemma res_all_Inr: "res_all xs = Inr ys \<longleftrightarrow> xs = map Inr ys"
  by (induction xs arbitrary: ys rule: res_all.induct) (auto elim!: map_sum_InrE)

lemma GetRollups_ok: "GetRollups cfg = Inr rs \<Longrightarrow> list_all (roller_ok hl ku) rs"
  by (auto simp: GetRollups_def res_all_Inr map_eq_conv list_all_length new_roller_ok list_eq_iff_nth_eq split: sum.splits)

lemma SetFilter_keys [simp]:
  "getKey ku (SetFilter f b) m = getKey ku b m" "flow_hashes hl (SetFilter f b) m = flow_hashes hl b m"
  by (simp_all add: getKey_def flow_hashes_def SetFilter_def)

lemma unique_flows_SetFilter: "unique_flows hl ku (SetFilter f b) ms u = unique_flows hl ku b ms u"
proof (induction ms arbitrary: u)
  case (Cons m ms)
  have "unique_flow hl ku (SetFilter f b) m u = unique_flow hl ku b m u"
    by (auto simp: unique_flow_def Let_def split: option.splits jval.splits)
  with Cons show ?case by (simp split: sum.split)
qed simp

lemma SetFilter_ok: "roller_ok hl ku (Roller_SetFilter f r) = roller_ok hl ku r"
proof (cases r)
  case (CacheRoller c)
  then show ?thesis by (simp add: bounded_cache_def memory_exact_def)
qed (simp_all add: unique_inv_def unique_flows_SetFilter, simp add: SetFilter_def)

lemma assign_filters_ok:
  "assign_filters fs rolls = (g, rolls') \<Longrightarrow> list_all (roller_ok hl ku) rolls \<Longrightarrow> list_all (roller_ok hl ku) rolls'"
proof (induction fs rolls arbitrary: g rule: assign_filters.induct)
  case (2 f fs rolls)
  have "list_all (roller_ok hl ku) (map (\<lambda>r. if FilterWrapper_GetName f = Roller_GetName r then Roller_SetFilter f r else r) rolls)"
    using 2(4) by (auto simp: list_all_iff SetFilter_ok)
  with 2 show ?case by (auto split: if_splits prod.splits)
qed simp

lemma setup_agent_ok: "setup_agent cidr cfg filters ag = Inr (ag0, rs0) \<Longrightarrow> list_all (roller_ok hl ku) rs0"
  by (auto simp: setup_agent_def split: sum.splits prod.splits dest: GetRollups_ok assign_filters_ok)

text \<open>
  C2. However batches, the goroutines of the rollups, exports and feedback of the sinks interleave, in every
  run that starts from a set-up of the agent no rollup is lost, every sum rollup has exported, accumulated
  or queued exactly what its channel accepted, every unique rollup holds the sketches of one pass over the
  flows since its last export, and every cache rollup stays within its limit of keys (when it has one and
  may clean up) with an exact memory estimate (unless it counts unique values).
\<close>

theorem agent_rollups_sound:
  assumes "setup_agent cidr cfg filters ag = Inr (ag0, rs0)" and "sketch_laws hl"
    and "agent_reach hl ku enrich seri ag0 rs0 ag' rs"
  shows "length rs = length rs0 \<and>
     (\<forall>r \<in> set rs. case r of
        StatsRoller s \<Rightarrow>
          (\<forall>k i. sums_of (ks_exported (sr_sum s)) k i + tot (su_sum (ks_acc (sr_sum s))) k i + sums_of (ks_kvs (sr_sum s)) k i =
                 sums_of (ks_accepted (sr_sum s)) k i)
      | UniqueRoller u \<Rightarrow>
          (\<exists>p. unique_flows hl ku (ur_base u) (uq_since (ur_state u)) empty_uset = Inr p \<and>
               map_of (us_uniques (uq_acc (ur_state u))) = map_of (us_uniques p))
      | CacheRoller c \<Rightarrow>
          (cr_EmergencyCleanup c \<and> 0 < cr_MaxKeys c \<longrightarrow> int (length (cr_cache c)) \<le> cr_MaxKeys c) \<and>
          (\<not> cr_isUnique c \<longrightarrow> cr_memoryUsage c = (\<Sum>(k, en)\<leftarrow>cr_cache c. estimateEntrySize False en)))"
proof -
  from agent_reach_ok [OF assms(2,3) setup_agent_ok [OF assms(1)]]
  have ok: "\<forall>r \<in> set rs. roller_ok hl ku r" and len: "length rs = length rs0" by (simp_all add: list_all_iff)
  have "case r of
        StatsRoller s \<Rightarrow>
          (\<forall>k i. sums_of (ks_exported (sr_sum s)) k i + tot (su_sum (ks_acc (sr_sum s))) k i + sums_of (ks_kvs (sr_sum s)) k i =
                 sums_of (ks_accepted (sr_sum s)) k i)
      | UniqueRoller u \<Rightarrow>
          (\<exists>p. unique_flows hl ku (ur_base u) (uq_since (ur_state u)) empty_uset = Inr p \<and>
               map_of (us_uniques (uq_acc (ur_state u))) = map_of (us_uniques p))
      | CacheRoller c \<Rightarrow>
          (cr_EmergencyCleanup c \<and> 0 < cr_MaxKeys c \<longrightarrow> int (length (cr_cache c)) \<le> cr_MaxKeys c) \<and>
          (\<not> cr_isUnique c \<longrightarrow> cr_memoryUsage c = (\<Sum>(k, en)\<leftarrow>cr_cache c. estimateEntrySize False en))"
    if "roller_ok hl ku r" for r
    using that
    by (cases r) (auto simp: sum_inv_def unique_inv_def same_uset_def bounded_cache_def memory_exact_def entry_sizes_def)
  with ok len show ?thesis by blast
qed

text \<open>A set-up with one rollup of each kind, and a batch of one flow.\<close>

definition rollup_config :: RollupConfig where
  "rollup_config = \<lparr>rc_JoinKey = ''^'', rc_TopK = 10, rc_Formats = [''sum,bytes,in_bytes,src_addr'', ''unique,u,in_bytes,src_addr'', ''cache,c,in_bytes,src_addr''],
     rc_KeepUndefined = False, rc_MaxMemoryMB = 0, rc_MaxKeys = 2, rc_EmergencyCleanup = True\<rparr>"

definition rollup_flow :: JCHF where
  "rollup_flow = NewJCHF\<lparr>j_SrcAddr := ''10.0.0.1'', j_InBytes := 7, j_SampleRate := 1, j_avroSet := Some Map.empty\<rparr>"

definition list_sketch :: "u64 list hll_ops" where
  "list_sketch = \<lparr>hll_make = [], hll_Add = Cons, hll_Merge = (\<lambda>h g. g @ h), hll_EstimateCardinality = (\<lambda>h. of_nat (length h)),
     siphash_Hash = (\<lambda>_ _ b. sum_list (map ucast b))\<rparr>"

definition rollup_result :: "(agent \<times> u64 list Roller list) res option" where
  "rollup_result =
     (case setup_agent (\<lambda>_. None) rollup_config [] demo_agent of
        Inl e \<Rightarrow> None
      | Inr (ag0, rs0) \<Rightarrow>
          handleInput id id (Roller_Add list_sketch False 5 (\<lambda>_. 5)) (\<lambda>_. Inr None) [rollup_flow] ag0 rs0)"

theorem agent_rollups_sound_witness:
  "\<exists>ag rs c. rollup_result = Some (Inr (ag, rs)) \<and> CacheRoller c \<in> set rs \<and> length rs = 3 \<and>
     int (length (cr_cache c)) \<le> 2 \<and> cr_memoryUsage c = 158"
proof -
  have "case rollup_result of
      Some (Inr (ag, rs)) \<Rightarrow> length rs = 3 \<and> (case rs ! 2 of CacheRoller c \<Rightarrow> cr_EmergencyCleanup c \<and> \<not> cr_isUnique c \<and>
        cr_MaxKeys c = 2 \<and> map (ce_Key \<circ> snd) (cr_cache c) = [''10.0.0.1''] | _ \<Rightarrow> False)
    | _ \<Rightarrow> False" by code_simp
  then obtain ag rs c where run: "rollup_result = Some (Inr (ag, rs))" and len: "length rs = 3" and c: "rs ! 2 = CacheRoller c"
    "cr_EmergencyCleanup c" "\<not> cr_isUnique c" "cr_MaxKeys c = 2" "map (ce_Key \<circ> snd) (cr_cache c) = [''10.0.0.1'']"
    by (auto split: option.splits sum.splits prod.splits Roller.splits)
  from run obtain ag0 rs0 where s0: "setup_agent (\<lambda>_. None) rollup_config [] demo_agent = Inr (ag0, rs0)"
    and h: "handleInput id id (Roller_Add list_sketch False 5 (\<lambda>_. 5)) (\<lambda>_. Inr None) [rollup_flow] ag0 rs0 = Some (Inr (ag, rs))"
    by (auto simp: rollup_result_def split: sum.splits prod.splits)
  have laws: "sketch_laws list_sketch" by (simp add: sketch_laws_def list_sketch_def)
  have mem: "CacheRoller c \<in> set rs" using len c(1) by (metis nth_mem numeral_2_eq_2 numeral_3_eq_3 lessI)
  from agent_rollups_sound [OF s0 laws agent_reach.input [OF agent_reach.start h]] mem c
  have "int (length (cr_cache c)) \<le> 2" "cr_memoryUsage c = 158"
    by (auto simp: estimateEntrySize_def map_eq_Cons_conv dest!: bspec)
  with run mem len show ?thesis by (intro exI [of _ ag] exI [of _ rs] exI [of _ c]) simp
qed

end
