(* ===== verification/Format_Util.thy ===== *)
theory Format_Util
  imports Jchf "HOL-Library.AList" "HOL-Library.List_Lexorder" "HOL-Library.Char_ord"
begin

text \<open>
  \<^verbatim>\<open>pkg/formats/util\<close>, what the output formats share: the attributes of a flow (\<^verbatim>\<open>SetAttr\<close>, over \<^verbatim>\<open>JCHF.Flatten\<close>), the
  match filters of a device (\<^verbatim>\<open>DropOnFilter\<close>), the metadata a device sends of itself (\<^verbatim>\<open>SetMetadata\<close>) and the
  attributes of one SNMP metric (\<^verbatim>\<open>CopyAttrForSnmp\<close>). A Go map that is ranged over is an association list with
  distinct keys whose order is the order of the iteration, which Go leaves open; a map of a flow record is a
  function, and the order of its keys is an argument. A compiled regular expression is the predicate it tests,
  and a script is the change it makes to the attributes.
\<close>

section \<open>Metrics and metadata\<close>

type_synonym attrs = "(string \<times> jval) list"

record MetricInfo =
  mi_Oid :: string
  mi_Mib :: string
  mi_Name :: string
  mi_Profile :: string
  mi_Table :: string
  mi_Format :: string
  mi_Type :: string
  mi_PollDur :: i64
  mi_Tables :: "(string \<times> bool) list"

definition MetricInfo_GetType :: "MetricInfo \<Rightarrow> string" where
  "MetricInfo_GetType m = (if mi_Type m \<noteq> '''' then mi_Type m else ''snmp'')"

text \<open>\<^verbatim>\<open>EnrichMib(idx, k, attr, lastMetadata)\<close>\<close>

type_synonym Enricher = "string \<Rightarrow> string \<Rightarrow> attrs \<Rightarrow> attrs"

record MetaValue =
  mv_StringVal :: string
  mv_IntVal :: i64
  mv_Script :: "Enricher option"

definition MetaValue_GetValue :: "MetaValue \<Rightarrow> jval" where
  "MetaValue_GetValue mv = (if mv_IntVal mv \<noteq> 0 then JInt64 (mv_IntVal mv) else JStr (mv_StringVal mv))"

type_synonym table = "(string \<times> MetaValue) list"

record LastMetadata =
  lm_DeviceInfo :: attrs
  lm_InterfaceInfo :: "(u64 \<times> attrs) list"
  lm_Tables :: "(string \<times> table) list"
  lm_MatchAttr :: "(string \<times> (string \<Rightarrow> bool)) list option"
  lm_XtraInfo :: "(string \<times> MetricInfo) list"

definition LastMetadata_Size :: "LastMetadata option \<Rightarrow> nat" where
  "LastMetadata_Size lm = (case lm of None \<Rightarrow> 0 | Some lm \<Rightarrow> length (lm_DeviceInfo lm) + length (lm_InterfaceInfo lm))"

definition GetTableName :: "LastMetadata option \<Rightarrow> string \<Rightarrow> string \<times> (string \<times> bool) list \<times> bool" where
  "GetTableName lm key =
     (case lm of
        None \<Rightarrow> ('''', [], False)
      | Some lm \<Rightarrow> (case map_of (lm_XtraInfo lm) key of
            Some i \<Rightarrow> (mi_Table i, mi_Tables i, True)
          | None \<Rightarrow> ('''', [], False)))"

text \<open>The fields of a flow record that only these functions read.\<close>

record Decorations =
  d_CustomMetrics :: "(string \<times> MetricInfo) list"
  d_CustomTables :: "(string \<times> table) list"
  d_MatchAttr :: "(string \<times> (string \<Rightarrow> bool)) list option"
  d_Har :: bool

section \<open>Flattening a flow\<close>

text \<open>
  One turn of the loop of \<^verbatim>\<open>Flatten\<close>. The map is changed while it is ranged over: \<open>visits\<close> are the keys in the order
  the iteration produces them, and a key that is gone by then has no effect.
\<close>

definition spread :: "('v \<Rightarrow> jval) \<Rightarrow> 'v gomap \<Rightarrow> string \<Rightarrow> (string \<Rightarrow> jval option) \<Rightarrow> string \<Rightarrow> jval option" where
  "spread con mv k mapr = (mapr ++ (\<lambda>ki. map_option con (gm_lookup mv ki)))(k := None)"

definition flatten_at :: "string \<Rightarrow> (string \<Rightarrow> jval option) \<Rightarrow> string \<Rightarrow> jval option" where
  "flatten_at k mapr =
     (case mapr k of
        Some (JMapStr mv) \<Rightarrow> spread JStr mv k mapr
      | Some (JMapI32 mv) \<Rightarrow> spread JInt32 mv k mapr
      | Some (JMapI64 mv) \<Rightarrow> spread JInt64 mv k mapr
      | Some (JMapF32 mv) \<Rightarrow> spread JFloat32 mv k mapr
      | Some (JStr mv) \<Rightarrow> (if mv = ''<nil>'' then mapr(k \<mapsto> JStr '''') else mapr)
      | _ \<Rightarrow> mapr)"

text \<open>The map that is changed is the cached one of the record.\<close>

definition Flatten :: "string list \<Rightarrow> JCHF \<Rightarrow> (JCHF \<times> jval gomap) res" where
  "Flatten visits j =
     (case ToMap j of
        Inl e \<Rightarrow> Inl e
      | Inr (j, None) \<Rightarrow> Inr (j, None)
      | Inr (j, Some m) \<Rightarrow> let m = fold flatten_at visits m in Inr (j\<lparr>j_avroSet := Some m\<rparr>, Some m))"

section \<open>Attributes\<close>

definition DroppedAttrs :: "string list" where
  "DroppedAttrs = [''result_type'', ''timestamp'', ''sampled_packet_size'', ''lat/long_dest'', ''member_id'',
     ''dst_eth_mac'', ''src_eth_mac'', ''Manufacturer'', ''error_cause/trace_route'', ''hop_data'', ''str01'',
     ''ult_exit_port'', ''app_protocol'', ''kt_functional_testing'', ''client_nw_latency_ms'', ''appl_latency_ms'',
     ''server_nw_latency_ms'', ''connection_id'', ''service_name'']"

definition StringPrefix :: string where
  "StringPrefix = ''ks_''"

definition IndexVar :: string where
  "IndexVar = ''Index''"

definition AdminStatus :: string where
  "AdminStatus = ''if_AdminStatus''"

text \<open>\<^verbatim>\<open>vt > 0\<close> on a \<^verbatim>\<open>float32\<close>: the sign is clear, and the value is neither zero nor a NaN.\<close>

definition float32_positive :: "float32 \<Rightarrow> bool" where
  "float32_positive w \<longleftrightarrow> 0 < w \<and> w \<le> 0x7F800000"

text \<open>
  In \<^verbatim>\<open>case string, kt.Provider\<close> the value stays an interface, and a provider is never equal to a constant of
  type \<^verbatim>\<open>string\<close>.
\<close>

definition set_value :: "string \<Rightarrow> jval \<Rightarrow> attrs \<Rightarrow> attrs res" where
  "set_value k v attr =
     (case v of
        JStr vt \<Rightarrow> Inr (if vt \<noteq> '''' \<and> vt \<noteq> ''-'' \<and> vt \<noteq> ''--'' then AList.update k (JStr vt) attr else attr)
      | JProvider vt \<Rightarrow> Inr (AList.update k (JProvider vt) attr)
      | JInt64 vt \<Rightarrow> Inr (if sint vt > 0 then AList.update k (JInt vt) attr else attr)
      | JInt32 vt \<Rightarrow> Inr (if sint vt > 0 then AList.update k (JInt (scast vt)) attr else attr)
      | JFloat32 vt \<Rightarrow> Inr (if float32_positive vt then AList.update k (JFloat32 vt) attr else attr)
      | _ \<Rightarrow> Inl (Panic ''Unknown type for key''))"

definition skipped :: "(string \<times> MetricInfo) list \<Rightarrow> bool \<Rightarrow> string \<Rightarrow> bool" where
  "skipped metrics stripMetrics k \<longleftrightarrow>
     k \<in> set DroppedAttrs \<or> map_of metrics k \<noteq> None \<or>
     stripMetrics \<and> strings_HasPrefix k StringPrefix \<and> map_of metrics (drop (length StringPrefix) k) \<noteq> None"

fun set_flow_attrs :: "(string \<times> MetricInfo) list \<Rightarrow> bool \<Rightarrow> (string \<times> jval) list \<Rightarrow> attrs \<Rightarrow> attrs res" where
  "set_flow_attrs metrics stripMetrics [] attr = Inr attr"
| "set_flow_attrs metrics stripMetrics ((k, v) # mapr) attr =
     (if skipped metrics stripMetrics k then set_flow_attrs metrics stripMetrics mapr attr
      else case set_value k v attr of
          Inl e \<Rightarrow> Inl e
        | Inr attr \<Rightarrow> set_flow_attrs metrics stripMetrics mapr attr)"

definition set_all :: "attrs \<Rightarrow> attrs \<Rightarrow> attrs" where
  "set_all kvs attr = fold (\<lambda>(k, v). AList.update k v) kvs attr"

text \<open>The columns of a row of a table, and those of the row's parent when the index has more than one part.\<close>

definition parent_index :: "string \<Rightarrow> string option" where
  "parent_index idx =
     (let pts = strings_Split idx ''.'' in
      if length pts > 1 then Some (strings_Join (take (length pts - 1) pts) ''.'') else None)"

definition row :: "LastMetadata \<Rightarrow> string \<Rightarrow> table" where
  "row lm idx = (case map_of (lm_Tables lm) idx of Some t \<Rightarrow> t | None \<Rightarrow> [])"

definition parent_row :: "LastMetadata \<Rightarrow> string \<Rightarrow> table" where
  "parent_row lm idx = (case parent_index idx of Some parent \<Rightarrow> row lm parent | None \<Rightarrow> [])"

definition set_row :: "table \<Rightarrow> attrs \<Rightarrow> attrs" where
  "set_row t attr = set_all (map (\<lambda>(k, v). (k, MetaValue_GetValue v)) t) attr"

definition set_iface :: "string \<Rightarrow> LastMetadata \<Rightarrow> u64 \<Rightarrow> attrs \<Rightarrow> attrs" where
  "set_iface pre lm port attr =
     (case map_of (lm_InterfaceInfo lm) port of
        Some ii \<Rightarrow> set_all (map (\<lambda>(k, v). (pre @ k, v)) (filter (\<lambda>(k, v). v \<noteq> JStr '''') ii)) attr
      | None \<Rightarrow> attr)"

definition run_scripts :: "string \<Rightarrow> table \<Rightarrow> attrs \<Rightarrow> attrs" where
  "run_scripts idx t attr =
     fold (\<lambda>(k, v) attr. case mv_Script v of Some s \<Rightarrow> s idx k attr | None \<Rightarrow> attr) t attr"

definition set_metadata_attrs :: "LastMetadata \<Rightarrow> JCHF \<Rightarrow> attrs \<Rightarrow> attrs" where
  "set_metadata_attrs lm j attr =
     (let attr = set_all (lm_DeviceInfo lm) attr;
          idx0 = gm_get '''' (j_CustomStr j) IndexVar;
          idx = (if take 1 idx0 = ''.'' then drop 1 idx0 else idx0);
          attr = (if idx0 \<noteq> '''' then set_row (parent_row lm idx) (set_row (row lm idx) attr) else attr);
          attr = (if j_OutputPort j \<noteq> j_InputPort j
                  then set_iface ''output_if_'' lm (j_OutputPort j) (set_iface ''input_if_'' lm (j_InputPort j) attr)
                  else set_iface ''if_'' lm (j_OutputPort j) attr)
      in if idx \<noteq> '''' then run_scripts idx (parent_row lm idx) (run_scripts idx (row lm idx) attr) else attr)"

definition SetAttr :: "string list \<Rightarrow> string list \<Rightarrow> attrs \<Rightarrow> JCHF \<Rightarrow> bool \<Rightarrow> (string \<times> MetricInfo) list \<Rightarrow>
    LastMetadata option \<Rightarrow> bool \<Rightarrow> (JCHF \<times> attrs) res" where
  "SetAttr visits keys attr j har metrics lastMetadata stripMetrics =
     (case Flatten visits j of
        Inl e \<Rightarrow> Inl e
      | Inr (j', mapr) \<Rightarrow>
          (case set_flow_attrs metrics stripMetrics (List.map_filter (\<lambda>k. map_option (Pair k) (gm_lookup mapr k)) keys) attr of
             Inl e \<Rightarrow> Inl e
           | Inr attr \<Rightarrow>
               let attr = (if har then AList.update ''har_file'' JHar attr else attr) in
               Inr (j', case lastMetadata of None \<Rightarrow> attr | Some lm \<Rightarrow> set_metadata_attrs lm j attr)))"

section \<open>The match filters of a device\<close>

definition FORCE_MATCH_TOKEN :: string where "FORCE_MATCH_TOKEN = ''!''"
definition OR_TOKEN :: string where "OR_TOKEN = ''||''"
definition MAX_ATTR_FOR_SNMP :: nat where "MAX_ATTR_FOR_SNMP = 64"
definition NEGATE_MATCH_TOKEN :: string where "NEGATE_MATCH_TOKEN = ''DOES_NOT_MATCH''"

record match_state =
  dropOnAdminStatus :: bool
  keepForOtherMatch :: bool
  seenNonAdmin :: nat

definition is_interface_key :: "string \<Rightarrow> bool" where
  "is_interface_key k \<longleftrightarrow>
     k = AdminStatus \<or> strings_HasPrefix k ''if_'' \<or> strings_HasPrefix k ''input_if_'' \<or> strings_HasPrefix k ''output_if_''"

text \<open>The result is \<^verbatim>\<open>cont\<close>, \<^verbatim>\<open>br\<close> and the three variables the function is given pointers to.\<close>

definition checkFilter :: "attrs \<Rightarrow> string \<Rightarrow> (string \<Rightarrow> bool) \<Rightarrow> bool \<Rightarrow> bool \<Rightarrow> bool \<Rightarrow> match_state \<Rightarrow> bool \<times> bool \<times> match_state" where
  "checkFilter attr k re forceMatch seenAny isIfMetric st =
     (if \<not> isIfMetric \<and> is_interface_key k then (True, False, st)
      else case map_of attr k of
          Some v \<Rightarrow>
            (case v of
               JStr strv \<Rightarrow>
                 if k = AdminStatus
                 then (let st = st\<lparr>dropOnAdminStatus := \<not> re strv\<rparr> in (False, dropOnAdminStatus st, st))
                 else
                   let st = st\<lparr>seenNonAdmin := seenNonAdmin st + 1\<rparr> in
                   if \<not> keepForOtherMatch st
                   then (let st = st\<lparr>keepForOtherMatch := re strv\<rparr> in
                         (False, \<not> keepForOtherMatch st \<and> forceMatch \<and> \<not> seenAny, st))
                   else (False, False, st)
             | _ \<Rightarrow> (False, False, st))
        | None \<Rightarrow>
            if forceMatch \<and> \<not> seenAny
            then (False, True, st\<lparr>seenNonAdmin := seenNonAdmin st + 1, keepForOtherMatch := False\<rparr>)
            else (False, False, st))"

text \<open>Each key of an alternative overwrites \<^verbatim>\<open>cont\<close> and \<^verbatim>\<open>br\<close>.\<close>

fun check_keys :: "attrs \<Rightarrow> (string \<Rightarrow> bool) \<Rightarrow> bool \<Rightarrow> bool \<Rightarrow> bool \<Rightarrow> string list \<Rightarrow> bool \<times> bool \<times> match_state \<Rightarrow> bool \<times> bool \<times> match_state" where
  "check_keys attr re forceMatch seenAny isIfMetric [] r = r"
| "check_keys attr re forceMatch seenAny isIfMetric (k # ks) (cont, br, st) =
     check_keys attr re forceMatch seenAny isIfMetric ks (checkFilter attr k re forceMatch seenAny isIfMetric st)"

definition is_forced :: "string \<Rightarrow> bool" where
  "is_forced k = strings_HasPrefix k FORCE_MATCH_TOKEN"

definition unforced :: "string \<Rightarrow> string" where
  "unforced k = (if is_forced k then drop 1 k else k)"

definition key_alternatives :: "string \<Rightarrow> string list" where
  "key_alternatives k =
     strings_Split (if strings_HasPrefix k ''('' \<and> strings_HasPrefix (rev k) '')'' then drop 1 (butlast k) else k) OR_TOKEN"

fun match_loop :: "attrs \<Rightarrow> bool \<Rightarrow> (string \<times> (string \<Rightarrow> bool)) list \<Rightarrow> bool \<Rightarrow> match_state \<Rightarrow> bool \<times> match_state" where
  "match_loop attr isIfMetric [] negateMatch st = (negateMatch, st)"
| "match_loop attr isIfMetric ((k, re) # ms) negateMatch st =
     (let forceMatch = is_forced k; k = unforced k in
      if k = NEGATE_MATCH_TOKEN then match_loop attr isIfMetric ms True st
      else
        let keyCheck = key_alternatives k;
            seenAny = (forceMatch \<and> list_ex (\<lambda>key. map_of attr key \<noteq> None) keyCheck);
            (cont, br, st) = check_keys attr re forceMatch seenAny isIfMetric keyCheck (False, False, st) in
        if cont then match_loop attr isIfMetric ms negateMatch st
        else if br then (negateMatch, st)
        else match_loop attr isIfMetric ms negateMatch st)"

definition DropOnFilter :: "attrs \<Rightarrow> LastMetadata option \<Rightarrow> bool \<Rightarrow> bool" where
  "DropOnFilter attr lastMetadata isIfMetric =
     (case lastMetadata of
        None \<Rightarrow> False
      | Some lm \<Rightarrow>
          (case lm_MatchAttr lm of
             None \<Rightarrow> False
           | Some ms \<Rightarrow>
               let (negateMatch, st) = match_loop attr isIfMetric ms False
                     \<lparr>dropOnAdminStatus = False, keepForOtherMatch = False, seenNonAdmin = 0\<rparr> in
               if dropOnAdminStatus st then True
               else if seenNonAdmin st > 0 then (if negateMatch then keepForOtherMatch st else \<not> keepForOtherMatch st)
               else negateMatch))"

section \<open>The metadata of a device\<close>

definition iface_part :: "string \<Rightarrow> (u64 \<times> string) option" where
  "iface_part k =
     (let pts = strings_SplitN k ''.'' 3 in
      if length pts = 3
      then (case strconv_Atoi (pts ! 1) of Some ifint \<Rightarrow> Some (word_of_int ifint, pts ! 2) | None \<Rightarrow> None)
      else None)"

definition touch_iface :: "u64 \<Rightarrow> (u64 \<times> attrs) list \<Rightarrow> (u64 \<times> attrs) list" where
  "touch_iface i info = (if map_of info i = None then AList.update i [] info else info)"

definition set_iface_info :: "u64 \<Rightarrow> string \<Rightarrow> jval \<Rightarrow> (u64 \<times> attrs) list \<Rightarrow> (u64 \<times> attrs) list" where
  "set_iface_info i k v info = AList.update i (AList.update k v (the (map_of info i))) info"

definition add_custom_str :: "string \<Rightarrow> string \<Rightarrow> LastMetadata \<Rightarrow> LastMetadata" where
  "add_custom_str k v lm =
     (if k \<in> set DroppedAttrs then lm
      else if strings_HasPrefix k ''if.''
      then (case iface_part k of
              Some (i, nm) \<Rightarrow>
                lm\<lparr>lm_InterfaceInfo := (let info = touch_iface i (lm_InterfaceInfo lm) in
                     if v \<noteq> '''' then set_iface_info i nm (JStr v) info else info)\<rparr>
            | None \<Rightarrow> lm)
      else if v \<noteq> '''' then lm\<lparr>lm_DeviceInfo := AList.update k (JStr v) (lm_DeviceInfo lm)\<rparr>
      else lm)"

definition add_custom_int :: "string \<Rightarrow> i32 \<Rightarrow> LastMetadata \<Rightarrow> LastMetadata" where
  "add_custom_int k v lm =
     (if k \<in> set DroppedAttrs then lm
      else if strings_HasPrefix k ''if.''
      then (case iface_part k of
              Some (i, nm) \<Rightarrow>
                lm\<lparr>lm_InterfaceInfo := set_iface_info i nm (JInt32 v) (touch_iface i (lm_InterfaceInfo lm))\<rparr>
            | None \<Rightarrow> lm)
      else lm\<lparr>lm_DeviceInfo := AList.update k (JInt32 v) (lm_DeviceInfo lm)\<rparr>)"

text \<open>\<open>strs\<close> and \<open>ints\<close> are the keys of \<^verbatim>\<open>CustomStr\<close> and \<^verbatim>\<open>CustomInt\<close> in the order of the two loops.\<close>

definition SetMetadata :: "string list \<Rightarrow> string list \<Rightarrow> JCHF \<Rightarrow> Decorations \<Rightarrow> LastMetadata" where
  "SetMetadata strs ints j d =
     (let lm = \<lparr>lm_DeviceInfo = [], lm_InterfaceInfo = [], lm_Tables = [], lm_MatchAttr = None, lm_XtraInfo = []\<rparr>;
          lm = fold (\<lambda>k. case gm_lookup (j_CustomStr j) k of Some v \<Rightarrow> add_custom_str k v | None \<Rightarrow> (\<lambda>lm. lm)) strs lm;
          lm = fold (\<lambda>k. case gm_lookup (j_CustomInt j) k of Some v \<Rightarrow> add_custom_int k v | None \<Rightarrow> (\<lambda>lm. lm)) ints lm
      in lm\<lparr>lm_Tables := d_CustomTables d, lm_MatchAttr := d_MatchAttr d, lm_XtraInfo := d_CustomMetrics d\<rparr>)"

section \<open>Synthetic tests\<close>

definition synth_info :: "string \<Rightarrow> MetricInfo" where
  "synth_info nm = \<lparr>mi_Oid = '''', mi_Mib = '''', mi_Name = nm, mi_Profile = '''', mi_Table = '''', mi_Format = '''',
     mi_Type = '''', mi_PollDur = 0, mi_Tables = []\<rparr>"

definition synth_names :: "(string \<times> string) list \<Rightarrow> (string \<times> MetricInfo) list" where
  "synth_names = map (\<lambda>(k, nm). (k, synth_info nm))"

definition ping_names :: "(string \<times> string) list" where
  "ping_names = [(''fetch_status_|_ping_sent_|_trace_time'', ''sent''), (''fetch_ttlb_|_ping_lost'', ''lost''),
     (''fetch_size_|_ping_min_rtt'', ''min_rtt''), (''ping_max_rtt'', ''max_rtt''), (''ping_avg_rtt'', ''avg_rtt''),
     (''ping_std_rtt'', ''std_rtt''), (''ping_jit_rtt'', ''jit_rtt'')]"

definition synMetrics :: "(int \<times> (string \<times> MetricInfo) list) list" where
  "synMetrics = [
     (0, synth_names ((''error'', ''error'') # ping_names)),
     (1, synth_names ((''timeout'', ''timeout'') # ping_names)),
     (2, synth_names ping_names),
     (3, synth_names [(''fetch_status_|_ping_sent_|_trace_time'', ''status''), (''fetch_ttlb_|_ping_lost'', ''ttlb''),
        (''fetch_size_|_ping_min_rtt'', ''size'')]),
     (4, synth_names [(''fetch_status_|_ping_sent_|_trace_time'', ''time'')]),
     (5, synth_names ping_names),
     (6, synth_names [(''fetch_status_|_ping_sent_|_trace_time'', ''time''), (''fetch_ttlb_|_ping_lost'', ''code'')]),
     (7, synth_names [(''fetch_status_|_ping_sent_|_trace_time'', ''time''), (''lat/long_dest'', ''port'')]),
     (8, synth_names [(''fetch_status_|_ping_sent_|_trace_time'', ''status''), (''fetch_size_|_ping_min_rtt'', ''size''),
        (''fetch_ttlb_|_ping_lost'', ''ttlb'')]),
     (9, synth_names [(''fetch_status_|_ping_sent_|_trace_time'', ''status''), (''fetch_ttlb_|_ping_lost'', ''trx_time'')]),
     (10, synth_names [(''fetch_status_|_ping_sent_|_trace_time'', ''time''), (''fetch_ttlb_|_ping_lost'', ''validation'')])]"

definition GetSynMetricNameSet :: "i32 \<Rightarrow> (string \<times> MetricInfo) list" where
  "GetSynMetricNameSet rt = (case map_of synMetrics (sint rt) of Some ms \<Rightarrow> ms | None \<Rightarrow> [])"

definition GetSynthOutcome :: "i32 \<Rightarrow> i64 \<times> string" where
  "GetSynthOutcome rt = (if rt = 0 then (2, ''error'') else if rt = 1 then (1, ''timeout'') else (0, ''ok''))"

definition GetSyngestMetricNameSet :: "(string \<times> MetricInfo) list" where
  "GetSyngestMetricNameSet = synth_names (map (\<lambda>k. (k, k)) [''avg_jitter'', ''avg_latency'', ''rolling_avg_jitter'',
     ''rolling_avg_latency'', ''rolling_stddev_jitter'', ''rolling_stddev_latency'', ''size'', ''status''])"

section \<open>The attributes of an SNMP metric\<close>

definition removeAttrForSnmp :: "string list" where
  "removeAttrForSnmp = [''Uptime'', ''if_LastChange'', ''SysServices'', ''if_Mtu'', ''if_ConnectorPresent'',
     ''output_port'', ''input_port'', ''DropMetric'', ''sysoid_vendor'']"

definition keepAcrossTables :: "string list" where
  "keepAcrossTables = [''device_name'', ''eventType'', ''provider'', ''sysoid_profile'', IndexVar, ''if_Index'', ''src_addr'']"

definition allowSysAttr :: "string list" where
  "allowSysAttr = [''Uptime'', ''MinRttMs'', ''MaxRttMs'', ''AvgRttMs'', ''StdDevRtt'', ''PacketsSent'', ''PacketsRecv'',
     ''PacketLossPct'']"

definition DeviceTagTable :: string where
  "DeviceTagTable = ''KT_Device_Tag''"

definition in_table :: "(string \<times> bool) list \<Rightarrow> string \<Rightarrow> bool" where
  "in_table allNames t = (map_of allNames t = Some True)"

text \<open>One turn of the loop over the attributes.\<close>

definition copy_attr :: "string \<Rightarrow> MetricInfo \<Rightarrow> LastMetadata option \<Rightarrow> bool \<Rightarrow> string \<Rightarrow> jval \<Rightarrow> attrs \<Rightarrow> attrs" where
  "copy_attr metricName name lm dropSrcAddr k v attrNew =
     (if metricName \<notin> set allowSysAttr \<and> (strings_HasPrefix k ''Sys'' \<or> dropSrcAddr \<and> k = ''src_addr'') then attrNew
      else
        let newKey = (if strings_HasPrefix k StringPrefix then drop (length StringPrefix) k else k);
            (tableName, allNames, ok) = GetTableName lm newKey;
            limited = (mi_Table name \<noteq> '''' \<and> metricName \<noteq> newKey \<and> newKey \<notin> set keepAcrossTables);
            attrNew = (if limited then AList.update ''mib-table'' (JStr (mi_Table name)) attrNew else attrNew);
            foreign = (\<not> in_table allNames (mi_Table name) \<and> tableName \<noteq> DeviceTagTable) in
        if limited \<and> (if ok \<and> allNames \<noteq> [] then foreign else \<not> strings_HasPrefix newKey (mi_Table name) \<and> foreign) then attrNew
        else if mi_Table name = '''' \<and> ok \<and> tableName \<noteq> '''' \<and> tableName \<noteq> DeviceTagTable then attrNew
        else AList.update newKey v attrNew)"

definition force_attrs :: "MetricInfo \<Rightarrow> attrs \<Rightarrow> attrs" where
  "force_attrs name attrNew =
     AList.update ''instrumentation.name'' (JStr (mi_Profile name))
       (AList.update ''mib-name'' (JStr (mi_Mib name)) (AList.update ''objectIdentifier'' (JStr (mi_Oid name)) attrNew))"

text \<open>The pruning, for an API with a limit on the attributes of a metric.\<close>

definition prune_attrs :: "MetricInfo \<Rightarrow> attrs \<Rightarrow> attrs" where
  "prune_attrs name attrNew =
     (let attrNew = fold AList.delete removeAttrForSnmp attrNew in
      if length attrNew > MAX_ATTR_FOR_SNMP
      then force_attrs name (fold AList.delete (drop (MAX_ATTR_FOR_SNMP - 3) (sort (map fst attrNew))) attrNew)
      else attrNew)"

definition CopyAttrForSnmp :: "attrs \<Rightarrow> string \<Rightarrow> MetricInfo \<Rightarrow> LastMetadata option \<Rightarrow> bool \<Rightarrow> bool \<Rightarrow> attrs" where
  "CopyAttrForSnmp attr metricName name lm gentleCardinality dropSrcAddr =
     (let attrNew = force_attrs name [];
          attrNew = (if sint (mi_PollDur name) > 0 then AList.update ''poll_duration_sec'' (JSeconds (mi_PollDur name)) attrNew else attrNew);
          attrNew = fold (\<lambda>(k, v). copy_attr metricName name lm dropSrcAddr k v) attr attrNew;
          attrNew = (if gentleCardinality then prune_attrs name attrNew else attrNew)
      in if map_of attrNew ''mib-name'' = Some (JStr '''') then AList.delete ''mib-name'' attrNew else attrNew)"

end
