(* ===== verification/Utf8.thy ===== *)
theory Utf8
  imports Go_Net
begin

text \<open>
  \<^verbatim>\<open>pkg/kt/utf8.go\<close>, over what it uses of the Go packages \<^verbatim>\<open>unicode/utf8\<close> and \<^verbatim>\<open>encoding/hex\<close>. A string is a list of
  bytes, of type \<open>char\<close>.
\<close>

section \<open>Definitions\<close>

abbreviation byte_of :: "char \<Rightarrow> nat" where
  "byte_of \<equiv> of_char"

definition continuation :: "char \<Rightarrow> bool" where
  "continuation c \<longleftrightarrow> 0x80 \<le> byte_of c \<and> byte_of c \<le> 0xBF"

text \<open>
  The number of bytes a first byte announces, and the range of the second one: it excludes overlong forms,
  surrogates and values beyond the last code point.
\<close>

definition utf8_size :: "char \<Rightarrow> nat" where
  "utf8_size c =
     (let b = byte_of c in
      if b < 0x80 then 1
      else if 0xC2 \<le> b \<and> b \<le> 0xDF then 2
      else if 0xE0 \<le> b \<and> b \<le> 0xEF then 3
      else if 0xF0 \<le> b \<and> b \<le> 0xF4 then 4
      else 0)"

definition second_ok :: "char \<Rightarrow> char \<Rightarrow> bool" where
  "second_ok c d =
     (let b = byte_of c; e = byte_of d in
      continuation d \<and> (b = 0xE0 \<longrightarrow> 0xA0 \<le> e) \<and> (b = 0xED \<longrightarrow> e \<le> 0x9F) \<and> (b = 0xF0 \<longrightarrow> 0x90 \<le> e) \<and> (b = 0xF4 \<longrightarrow> e \<le> 0x8F))"

definition rune_ok :: "char \<Rightarrow> string \<Rightarrow> bool" where
  "rune_ok c s =
     (let n = utf8_size c in
      0 < n \<and> n - 1 \<le> length s \<and> (1 < n \<longrightarrow> second_ok c (hd s)) \<and> list_all continuation (take (n - 1) s))"

function utf8_ValidString :: "string \<Rightarrow> bool" where
  "utf8_ValidString [] = True"
| "utf8_ValidString (c # s) = (rune_ok c s \<and> utf8_ValidString (drop (utf8_size c - 1) s))"
  by pat_completeness auto
termination
  by (relation "measure length") auto

definition utf8_Valid :: "bytes \<Rightarrow> bool" where
  "utf8_Valid bs = utf8_ValidString (map (\<lambda>b. char_of (unat b)) bs)"

definition hex_EncodeToString :: "string \<Rightarrow> string" where
  "hex_EncodeToString s = concat (map (\<lambda>c. [hex_char (byte_of c div 16), hex_char (byte_of c mod 16)]) s)"

definition SanitizeUTF8 :: "string \<Rightarrow> string" where
  "SanitizeUTF8 s = (if s = '''' \<or> utf8_ValidString s then s else hex_EncodeToString s)"

definition SanitizeUTF8WithHint :: "string \<Rightarrow> string \<times> bool" where
  "SanitizeUTF8WithHint s = (if s = '''' \<or> utf8_ValidString s then (s, False) else (hex_EncodeToString s, True))"

section \<open>Lemmas\<close>

lemma ascii_valid: "list_all (\<lambda>c. byte_of c < 0x80) s \<Longrightarrow> utf8_ValidString s"
  by (induction s) (auto simp: rune_ok_def utf8_size_def Let_def)

lemma hex_char_byte: "d < 16 \<Longrightarrow> byte_of (hex_char d) = (if d < 10 then d + 48 else d + 87)"
  by (simp add: hex_char_def)

lemma high_digit: "byte_of c div 16 < 16"
  by (simp add: less_mult_imp_div_less)

lemma low_digit: "byte_of c mod 16 < 16"
  by simp

lemma hex_ascii: "list_all (\<lambda>c. byte_of c < 0x80) (hex_EncodeToString s)"
proof -
  have "byte_of (hex_char (byte_of c div 16)) < 0x80 \<and> byte_of (hex_char (byte_of c mod 16)) < 0x80" for c
    using hex_char_byte [OF high_digit [of c]] hex_char_byte [OF low_digit [of c]] high_digit [of c] low_digit [of c]
    by (auto simp del: of_char_of)
  then show ?thesis by (simp add: hex_EncodeToString_def list_all_iff)
qed

text \<open>Reading the digits back.\<close>

fun hex_decode :: "string \<Rightarrow> string" where
  "hex_decode (a # b # s) = char_of (16 * the (hex_value a) + the (hex_value b)) # hex_decode s"
| "hex_decode _ = []"

lemma hex_decode_Encode: "hex_decode (hex_EncodeToString s) = s"
proof (induction s)
  case (Cons c s)
  have "16 * the (hex_value (hex_char (byte_of c div 16))) + the (hex_value (hex_char (byte_of c mod 16))) = byte_of c"
    using hex_value_char [OF high_digit [of c]] hex_value_char [OF low_digit [of c]] by simp
  then show ?case using Cons by (simp add: hex_EncodeToString_def)
qed (simp add: hex_EncodeToString_def)

text \<open>
  A sanitized string is valid UTF-8, a valid string is not changed, and from a rewritten one the original bytes
  can be read back; the variant with a hint returns the same string and tells whether it was rewritten.
\<close>
lemma sanitize_utf8:
  "utf8_ValidString (SanitizeUTF8 s) \<and>
   (if utf8_ValidString s then SanitizeUTF8 s = s else hex_decode (SanitizeUTF8 s) = s) \<and>
   SanitizeUTF8WithHint s = (SanitizeUTF8 s, \<not> utf8_ValidString s)"
  using ascii_valid [OF hex_ascii] by (auto simp: SanitizeUTF8_def SanitizeUTF8WithHint_def hex_decode_Encode)

end
