(* ===== verification/Nrm_Format.thy ===== *)
theory Nrm_Format
  imports Format_Util Utf8 Rollup
begin

text \<open>
  \<^verbatim>\<open>pkg/formats/nrm\<close>: the metrics for New Relic, of flows, SNMP devices and interfaces, synthetic tests, the agent
  itself and rollups. Arguments: the encodings (\<^verbatim>\<open>json.Marshal\<close>, gzip), the time, the orders in which Go visits the maps
  of a flow, and the change of the demonstration mode. A \<^verbatim>\<open>float64\<close> is kept as the quotient the code computes. Log
  lines and the locks, under which each call runs alone, are left out. Metrics of one flow are listed in the order
  of the map they come from.
\<close>

section \<open>Data\<close>

datatype nval =
    NInt64 i64
  | NQuot int int
  | NSummary u64 u64 u64 u64
  | NStr string

record NRMetric =
  nr_Name :: string
  nr_Type :: string
  nr_Value :: nval
  nr_Interval :: i64
  nr_Attributes :: attrs

record NRCommon =
  nc_Timestamp :: int
  nc_Attributes :: "(string \<times> string) list"

record NRMetricSet =
  ns_Metrics :: "NRMetric list"
  ns_Common :: NRCommon

definition nr_metric :: "string \<Rightarrow> string \<Rightarrow> nval \<Rightarrow> attrs \<Rightarrow> NRMetric" where
  "nr_metric nm ty v attr = \<lparr>nr_Name = nm, nr_Type = ty, nr_Value = v, nr_Interval = 0, nr_Attributes = attr\<rparr>"

record NRMFormat =
  nf_doGz :: bool
  nf_lastMetadata :: "(string \<times> LastMetadata) list"
  nf_invalids :: "string list"
  nf_seenInvalid :: bool
  nf_demo :: "(u32 \<times> u32) option"
  nf_CustomAttributes :: "(string \<times> string) list"
  nf_EventChan :: "bytes list"

definition NR_GAUGE_TYPE :: string where "NR_GAUGE_TYPE = ''gauge''"
definition NR_SUMMARY_TYPE :: string where "NR_SUMMARY_TYPE = ''summary''"
definition InstNameVPCMetric :: string where "InstNameVPCMetric = ''vpc-logs-metrics''"
definition InstNameNetflowMetric :: string where "InstNameNetflowMetric = ''netflow-metrics''"
definition InstNameSynthetic :: string where "InstNameSynthetic = ''synthetic''"
definition InstNameKtranslate :: string where "InstNameKtranslate = ''heartbeat''"
definition AttrInstrumentationProvider :: string where "AttrInstrumentationProvider = ''instrumentation.provider''"
definition AttrCollectorName :: string where "AttrCollectorName = ''collector.name''"
definition InstProvider :: string where "InstProvider = ''kentik''"
definition CollectorName :: string where "CollectorName = ''network-agent''"

definition reservedNRAttributeKeys :: "string list" where
  "reservedNRAttributeKeys = [AttrInstrumentationProvider, AttrCollectorName]"

text \<open>A flow of the format, with the orders of the iterations over its maps.\<close>

record flow_in =
  fi_flow :: JCHF
  fi_deco :: Decorations
  fi_visits :: "string list"
  fi_keys :: "string list"
  fi_strs :: "string list"
  fi_ints :: "string list"

section \<open>Setting up\<close>

text \<open>\<open>dp\<close> and \<open>da\<close> are the two variables of the environment for the demonstration mode.\<close>

definition NewFormat :: "string \<Rightarrow> (string \<times> string) list option \<Rightarrow> string \<Rightarrow> string \<Rightarrow> NRMFormat res" where
  "NewFormat compression cfg dp da =
     (case cfg of
        None \<Rightarrow> Inl (Errorf ''new_relic_metric format cannot be nil'' [])
      | Some custom \<Rightarrow>
          let custom = fold AList.delete reservedNRAttributeKeys custom;
              jf = \<lparr>nf_doGz = False, nf_lastMetadata = [], nf_invalids = [], nf_seenInvalid = False, nf_demo = None,
                    nf_CustomAttributes = custom, nf_EventChan = []\<rparr>;
              demo = (case strconv_Atoi dp of
                  Some per \<Rightarrow> (case strconv_Atoi da of
                      None \<Rightarrow> Inl (Errorf ''You used an unsupported value for demo amplitude'' [])
                    | Some amp \<Rightarrow> Inr (jf\<lparr>nf_demo := Some (word_of_int per, word_of_int amp)\<rparr>))
                | None \<Rightarrow> Inr jf) in
          case demo of
            Inl e \<Rightarrow> Inl e
          | Inr jf \<Rightarrow>
              if compression = ''none'' then Inr (jf\<lparr>nf_doGz := False\<rparr>)
              else if compression = ''gzip'' then Inr (jf\<lparr>nf_doGz := True\<rparr>)
              else Inl (Errorf ''You used an unsupported compression format'' []))"

definition newNRCommon :: "NRMFormat \<Rightarrow> int \<Rightarrow> NRCommon" where
  "newNRCommon f now =
     \<lparr>nc_Timestamp = now,
      nc_Attributes = fold (\<lambda>(k, v). AList.update k v) (nf_CustomAttributes f)
        [(AttrInstrumentationProvider, InstProvider), (AttrCollectorName, CollectorName)]\<rparr>"

section \<open>Flows\<close>

definition device_metadata :: "NRMFormat \<Rightarrow> JCHF \<Rightarrow> LastMetadata option" where
  "device_metadata f j = map_of (nf_lastMetadata f) (j_DeviceName j)"

definition flow_attrs :: "NRMFormat \<Rightarrow> flow_in \<Rightarrow> (string \<times> MetricInfo) list \<Rightarrow> attrs res" where
  "flow_attrs f x metrics =
     map_sum id snd (SetAttr (fi_visits x) (fi_keys x) [] (fi_flow x) (d_Har (fi_deco x)) metrics (device_metadata f (fi_flow x)) False)"

definition kflow_metrics :: "string list" where
  "kflow_metrics = [''in_bytes'', ''out_bytes'', ''in_pkts'', ''out_pkts'', ''latency_ms'']"

definition kflow_value :: "JCHF \<Rightarrow> string \<Rightarrow> i64" where
  "kflow_value j m =
     (if m = ''in_bytes'' then j_InBytes j * ucast (j_SampleRate j)
      else if m = ''out_bytes'' then j_OutBytes j * ucast (j_SampleRate j)
      else if m = ''in_pkts'' then j_InPkts j * ucast (j_SampleRate j)
      else if m = ''out_pkts'' then j_OutPkts j * ucast (j_SampleRate j)
      else if m = ''latency_ms'' then scast (gm_get 0 (j_CustomInt j) ''appl_latency_ms'')
      else 0)"

definition fromKflow :: "NRMFormat \<Rightarrow> flow_in \<Rightarrow> NRMetric list res" where
  "fromKflow f x =
     (case flow_attrs f x (map (\<lambda>m. (m, synth_info '''')) kflow_metrics) of
        Inl e \<Rightarrow> Inl e
      | Inr attr \<Rightarrow>
          let attr = AList.update ''instrumentation.name'' (JStr InstNameNetflowMetric) attr in
          Inr (map (\<lambda>m. nr_metric (''kentik.flow.'' @ m) NR_GAUGE_TYPE (NInt64 (kflow_value (fi_flow x) m)) attr)
            (filter (\<lambda>m. sint (kflow_value (fi_flow x) m) > 0) kflow_metrics)))"

section \<open>Synthetic tests\<close>

definition synthWLAttr :: "string list" where
  "synthWLAttr = [''agent_id'', ''agent_name'', ''dst_addr'', ''dst_cdn_int'', ''dst_geo'', ''provider'', ''src_addr'',
     ''src_cdn_int'', ''src_as_name'', ''src_geo'', ''test_id'', ''test_name'', ''test_type'', ''test_url'',
     ''result_type_str'', ''src_host'', ''dst_host'', ''src_cloud_region'', ''src_cloud_provider'', ''src_site'',
     ''dst_cloud_region'', ''dst_cloud_provider'', ''dst_site'', ''https_validity'', ''https_expiry_timestamp'',
     ''dest_ip'', ''statusMessage'', ''statusEncoding'', ''connectEnd'', ''connectStart'', ''decodedBodySize'',
     ''domComplete'', ''domContentLoadedEventEnd'', ''domContentLoadedEventStart'', ''domInteractive'',
     ''domainLookupEnd'', ''domainLookupStart'', ''duration'', ''fetchStart'', ''loadEventEnd'', ''loadEventStart'',
     ''redirectCount'', ''requestStart'', ''responseEnd'', ''responseStart'', ''secureConnectionStart'',
     ''tlsProtocol'', ''har_file'']"

definition synth_instrumented :: "attrs \<Rightarrow> attrs" where
  "synth_instrumented attr =
     (let attr = AList.update ''instrumentation.name'' (JStr InstNameSynthetic) attr in
      case map_of attr ''test_type'' of Some tt \<Rightarrow> AList.update ''instrumentation.name'' tt attr | None \<Rightarrow> attr)"

text \<open>The loop that keeps the attributes of the white list and turns the test's number into a string.\<close>

definition synth_listed :: "attrs \<Rightarrow> attrs" where
  "synth_listed attr =
     map (\<lambda>(k, v). (k, if k = ''test_id'' then (case v of JInt vi \<Rightarrow> JStr (strconv_Itoa (sint vi)) | _ \<Rightarrow> v) else v))
       (filter (\<lambda>(k, v). k \<in> set synthWLAttr) attr)"

definition fromKSyngest :: "NRMFormat \<Rightarrow> flow_in \<Rightarrow> NRMetric list res" where
  "fromKSyngest f x =
     (case flow_attrs f x GetSyngestMetricNameSet of
        Inl e \<Rightarrow> Inl e
      | Inr attr \<Rightarrow>
          let attr = AList.delete ''har_file'' (synth_listed (synth_instrumented attr));
              ci = gm_get 0 (j_CustomInt (fi_flow x)) in
          Inr (map (\<lambda>(m, name). nr_metric (''kentik.syngest.'' @ mi_Name name) NR_GAUGE_TYPE (NInt64 (scast (ci m))) attr)
            (filter (\<lambda>(m, name). sint (ci m) > 0) GetSyngestMetricNameSet)))"

definition synth_gauges :: "string list" where
  "synth_gauges = [''avg_rtt'', ''jit_rtt'', ''time'', ''code'', ''port'', ''status'', ''ttlb'', ''size'', ''trx_time'', ''validation'']"

text \<open>The number under which a test reports a name; the conversion of a negative one to \<^verbatim>\<open>uint64\<close> is that of amd64.\<close>

definition synth_number :: "(string \<Rightarrow> i32) \<Rightarrow> (string \<times> MetricInfo) list \<Rightarrow> string \<Rightarrow> i32" where
  "synth_number ci metrics nm = fold (\<lambda>(m, name) acc. if mi_Name name = nm then ci m else acc) metrics 0"

definition fromKSynth :: "NRMFormat \<Rightarrow> flow_in \<Rightarrow> NRMetric list res" where
  "fromKSynth f x =
     (let ci = gm_get 0 (j_CustomInt (fi_flow x)); rt = ci ''result_type''; metrics = GetSynMetricNameSet rt in
      case flow_attrs f x metrics of
        Inl e \<Rightarrow> Inl e
      | Inr attr \<Rightarrow>
          let attr = synth_listed (synth_instrumented attr);
              lost = synth_number ci metrics ''lost'';
              sent = synth_number ci metrics ''sent'' in
          Inr (map (\<lambda>(m, name). nr_metric (''kentik.synth.'' @ mi_Name name) NR_GAUGE_TYPE (NInt64 (scast (ci m))) attr)
                 (filter (\<lambda>(m, name). mi_Name name \<in> set synth_gauges) metrics) @
               (if sint sent > 0
                then [(nr_metric ''kentik.synth.lost'' NR_SUMMARY_TYPE (NSummary (scast sent) (scast lost) (scast lost) (scast lost)) attr)
                        \<lparr>nr_Interval := 60 * 1000000\<rparr>]
                else []) @
               [nr_metric ''kentik.synth.outcome'' NR_GAUGE_TYPE (NInt64 (fst (GetSynthOutcome rt))) attr]))"

section \<open>SNMP\<close>

definition FloatMS :: string where "FloatMS = ''float_ms''"

definition fromSnmpMetadata :: "NRMFormat \<Rightarrow> flow_in \<Rightarrow> NRMFormat" where
  "fromSnmpMetadata f x =
     (let j = fi_flow x in
      if j_DeviceName j = '''' then f
      else
        let lm = SetMetadata (fi_strs x) (fi_ints x) j (fi_deco x); old = device_metadata f j in
        if Option.is_none old \<or> LastMetadata_Size (Some lm) \<ge> LastMetadata_Size old
        then f\<lparr>nf_lastMetadata := AList.update (j_DeviceName j) lm (nf_lastMetadata f)\<rparr>
        else f)"

definition device_metric :: "JCHF \<Rightarrow> attrs \<Rightarrow> LastMetadata option \<Rightarrow> string \<times> MetricInfo \<Rightarrow> NRMetric list" where
  "device_metric j attr lm = (\<lambda>(m, name).
     if m = '''' then []
     else case gm_lookup (j_CustomBigInt j) m of
         None \<Rightarrow> []
       | Some v \<Rightarrow>
           let attrNew = CopyAttrForSnmp attr m name lm True False in
           if DropOnFilter attrNew lm False then []
           else [nr_metric (''kentik.'' @ MetricInfo_GetType name @ ''.'' @ m) NR_GAUGE_TYPE
                   (if mi_Format name = FloatMS then NQuot (sint v) 1000 else NInt64 v) attrNew])"

definition fromSnmpDeviceMetric :: "NRMFormat \<Rightarrow> flow_in \<Rightarrow> NRMetric list res" where
  "fromSnmpDeviceMetric f x =
     (let metrics = d_CustomMetrics (fi_deco x) in
      map_sum id (\<lambda>attr. concat (map (device_metric (fi_flow x) attr (device_metadata f (fi_flow x))) metrics)) (flow_attrs f x metrics))"

text \<open>Metrics whose name is missing or ends in \<^verbatim>\<open>_counter\<close> are passed over.\<close>

definition interface_named :: "string \<Rightarrow> bool" where
  "interface_named m \<longleftrightarrow> m \<noteq> '''' \<and> \<not> strings_HasPrefix (rev m) (rev ''_counter'')"

definition interface_metric :: "JCHF \<Rightarrow> attrs \<Rightarrow> LastMetadata option \<Rightarrow> string \<times> MetricInfo \<Rightarrow> NRMetric list" where
  "interface_metric j attr lm = (\<lambda>(m, name).
     if \<not> interface_named m then []
     else case gm_lookup (j_CustomBigInt j) m of
         None \<Rightarrow> []
       | Some v \<Rightarrow>
           let attrNew = CopyAttrForSnmp attr m name lm True False in
           if DropOnFilter attrNew lm True then []
           else [(nr_metric (''kentik.snmp.'' @ m) NR_GAUGE_TYPE (NInt64 v) attrNew)
                   \<lparr>nr_Interval := gm_get 0 (j_CustomBigInt j) ''Uptime'' * 10\<rparr>])"

definition last_profile :: "(string \<times> MetricInfo) list \<Rightarrow> string" where
  "last_profile metrics = fold (\<lambda>(m, name) p. if interface_named m then mi_Profile name else p) metrics ''snmp''"

definition computed_info :: "string \<Rightarrow> MetricInfo" where
  "computed_info profile = \<lparr>mi_Oid = ''computed'', mi_Mib = ''computed'', mi_Name = '''', mi_Profile = profile, mi_Table = ''if'',
     mi_Format = '''', mi_Type = '''', mi_PollDur = 0, mi_Tables = []\<rparr>"

text \<open>The utilization of the interface in one direction, when its speed in megabits is known.\<close>

definition utilization :: "JCHF \<Rightarrow> attrs \<Rightarrow> LastMetadata option \<Rightarrow> string \<Rightarrow> u64 \<Rightarrow> string \<Rightarrow> string \<Rightarrow> NRMetric list" where
  "utilization j attr lm profile port metricName octets =
     (case lm of
        None \<Rightarrow> []
      | Some l \<Rightarrow>
          (case map_of (lm_InterfaceInfo l) port of
             None \<Rightarrow> []
           | Some ii \<Rightarrow>
               (case map_of ii ''Speed'' of
                  Some (JInt32 ispeed) \<Rightarrow>
                    let uptimeSpeed = gm_get 0 (j_CustomBigInt j) ''Uptime'' * (scast ispeed * 10000) in
                    if sint uptimeSpeed > 0
                    then (case gm_lookup (j_CustomBigInt j) octets of
                            None \<Rightarrow> []
                          | Some byts \<Rightarrow>
                              let attrNew = CopyAttrForSnmp attr metricName (computed_info profile) lm True False in
                              if DropOnFilter attrNew lm True then []
                              else [nr_metric (''kentik.snmp.'' @ metricName) NR_GAUGE_TYPE
                                      (NQuot (sint (byts * 8 * 100)) (sint uptimeSpeed)) attrNew])
                    else []
                | _ \<Rightarrow> [])))"

definition fromSnmpInterfaceMetric :: "NRMFormat \<Rightarrow> flow_in \<Rightarrow> NRMetric list res" where
  "fromSnmpInterfaceMetric f x =
     (let metrics = d_CustomMetrics (fi_deco x); j = fi_flow x; lm = device_metadata f j; profile = last_profile metrics in
      map_sum id (\<lambda>attr.
        concat (map (interface_metric j attr lm) metrics) @
        utilization j attr lm profile (j_InputPort j) ''IfInUtilization'' ''ifHCInOctets'' @
        utilization j attr lm profile (j_OutputPort j) ''IfOutUtilization'' ''ifHCOutOctets'') (flow_attrs f x metrics))"

section \<open>The agent's own metrics\<close>

definition ktranslate_metrics :: "string list" where
  "ktranslate_metrics = [''name'', ''value'', ''count'', ''one-minute'', ''95-percentile'', ''du'']"

definition ktranslate_field :: "string \<Rightarrow> string option" where
  "ktranslate_field ty =
     (if ty = ''counter'' then Some ''count''
      else if ty = ''gauge'' then Some ''value''
      else if ty = ''histogram'' then Some ''95-percentile''
      else if ty = ''meter'' then Some ''one-minute''
      else if ty = ''timer'' then Some ''95-percentile''
      else None)"

definition fromKtranslate :: "NRMFormat \<Rightarrow> flow_in \<Rightarrow> NRMetric list res" where
  "fromKtranslate f x =
     (case flow_attrs f x (map (\<lambda>m. (m, synth_info '''')) ktranslate_metrics) of
        Inl e \<Rightarrow> Inl e
      | Inr attr \<Rightarrow>
          let attr = AList.update ''instrumentation.name'' (JStr InstNameKtranslate) attr;
              cs = gm_get '''' (j_CustomStr (fi_flow x)); cb = gm_get 0 (j_CustomBigInt (fi_flow x)) in
          Inr (case ktranslate_field (cs ''type'') of
                 None \<Rightarrow> []
               | Some fld \<Rightarrow>
                   if cs ''force'' = ''true'' \<or> sint (cb fld) > 0
                   then [nr_metric (''kentik.ktranslate.'' @ cs ''name'') NR_GAUGE_TYPE (NQuot (sint (cb fld)) 100) attr]
                   else []))"

section \<open>Events\<close>

definition strip :: "(string \<Rightarrow> jval option) \<Rightarrow> string \<Rightarrow> jval option" where
  "strip m =
     (\<lambda>k. case m k of
        Some (JStr tv) \<Rightarrow> (if tv = '''' \<or> tv = ''-'' \<or> tv = ''--'' then None else Some (JStr tv))
      | Some (JInt32 tv) \<Rightarrow> (if tv = 0 then None else Some (JInt32 tv))
      | Some (JInt64 tv) \<Rightarrow> (if tv = 0 then None else Some (JInt64 tv))
      | v \<Rightarrow> v)
     (''instrumentation.provider'' \<mapsto> JStr InstProvider, ''instrumentation.name'' \<mapsto> JStr ''snmp-trap-events'',
      ''collector.name'' \<mapsto> JStr CollectorName)"

text \<open>The encodings: of one event, of a set of metrics, and gzip.\<close>

record encodings =
  en_event :: "(string \<Rightarrow> jval option) \<Rightarrow> bytes res"
  en_metrics :: "NRMetricSet \<Rightarrow> bytes res"
  en_gzip :: "bytes \<Rightarrow> bytes res"

definition toRawJson :: "encodings \<Rightarrow> string list \<Rightarrow> JCHF \<Rightarrow> bool \<Rightarrow> bytes res" where
  "toRawJson en visits j doGz =
     (case Flatten visits j of
        Inl e \<Rightarrow> Inl e
      | Inr (_, None) \<Rightarrow> Inl (Panic ''assignment to entry in nil map'')
      | Inr (_, Some m) \<Rightarrow>
          (case en_event en (strip m) of Inl e \<Rightarrow> Inl e | Inr t \<Rightarrow> if doGz then en_gzip en t else Inr t))"

text \<open>The channel holds a hundred events; when it is full the event is lost.\<close>

definition SendEvent :: "encodings \<Rightarrow> flow_in \<Rightarrow> NRMFormat \<Rightarrow> NRMFormat \<times> go_error option" where
  "SendEvent en x f =
     (case toRawJson en (fi_visits x) (fi_flow x) (nf_doGz f) of
        Inl e \<Rightarrow> (f, Some e)
      | Inr bs \<Rightarrow> (if length (nf_EventChan f) < 100 then f\<lparr>nf_EventChan := nf_EventChan f @ [bs]\<rparr> else f, None))"

section \<open>A batch of flows\<close>

definition toNRMetric :: "encodings \<Rightarrow> NRMFormat \<Rightarrow> flow_in \<Rightarrow> (NRMFormat \<times> NRMetric list) res" where
  "toNRMetric en f x =
     (let ty = j_EventType (fi_flow x) in
      if ty = ''KFlow'' then map_sum id (Pair f) (fromKflow f x)
      else if ty = ''KSnmpDeviceMetric'' then map_sum id (Pair f) (fromSnmpDeviceMetric f x)
      else if ty = ''KSnmpInterfaceMetric'' then map_sum id (Pair f) (fromSnmpInterfaceMetric f x)
      else if ty = ''KSynth'' then map_sum id (Pair f) (fromKSynth f x)
      else if ty = ''KSynthgest'' then map_sum id (Pair f) (fromKSyngest f x)
      else if ty = ''KSnmpInterfaceMetadata'' then Inr (fromSnmpMetadata f x, [])
      else if ty = ''KTranslateMetric'' then map_sum id (Pair f) (fromKtranslate f x)
      else if ty = ''KSnmpTrap'' \<or> ty = ''KExtEvent''
      then (case SendEvent en x f of
              (f, Some (Panic p)) \<Rightarrow> Inl (Panic p)
            | (f, _) \<Rightarrow> Inr (f, []))
      else Inr (f\<lparr>nf_invalids := List.insert ty (nf_invalids f)\<rparr>, []))"

fun toNRMetrics :: "encodings \<Rightarrow> NRMFormat \<Rightarrow> flow_in list \<Rightarrow> (NRMFormat \<times> NRMetric list) res" where
  "toNRMetrics en f [] = Inr (f, [])"
| "toNRMetrics en f (x # xs) =
     (case toNRMetric en f x of
        Inl e \<Rightarrow> Inl e
      | Inr (f, ms) \<Rightarrow> map_sum id (\<lambda>(f, ms'). (f, ms @ ms')) (toNRMetrics en f xs))"

definition sanitize_attr :: "string \<times> jval \<Rightarrow> string \<times> jval" where
  "sanitize_attr kv = (case kv of (k, JStr s) \<Rightarrow> (k, JStr (SanitizeUTF8 s)) | _ \<Rightarrow> kv)"

definition sanitizeMetricsUTF8 :: "NRMetric list \<Rightarrow> NRMetric list" where
  "sanitizeMetricsUTF8 ms =
     map (\<lambda>m. m\<lparr>nr_Value := (case nr_Value m of NStr s \<Rightarrow> NStr (SanitizeUTF8 s) | v \<Rightarrow> v),
                nr_Attributes := map sanitize_attr (nr_Attributes m)\<rparr>) ms"

text \<open>The message of the error is reduced to its fixed text.\<close>

definition handleInvalid :: "NRMFormat \<Rightarrow> NRMFormat \<times> Output option res" where
  "handleInvalid f = (f\<lparr>nf_seenInvalid := True\<rparr>, Inl (Errorf ''Invalid utf8 char found in new relic output.'' []))"

text \<open>A panic in one of the flows ends the process; the state is then of no interest.\<close>

definition NRM_To :: "encodings \<Rightarrow> int \<Rightarrow> NRMFormat \<Rightarrow> flow_in list \<Rightarrow> NRMFormat \<times> Output option res" where
  "NRM_To en now f msgs =
     (case toNRMetrics en f msgs of
        Inl e \<Rightarrow> (f, Inl e)
      | Inr (f, ms) \<Rightarrow>
          if ms = [] then (f, Inr None)
          else case en_metrics en \<lparr>ns_Metrics = sanitizeMetricsUTF8 ms, ns_Common = newNRCommon f now\<rparr> of
              Inl e \<Rightarrow> (f, Inl e)
            | Inr target \<Rightarrow>
                if \<not> utf8_Valid target then handleInvalid f
                else (f, map_sum id (\<lambda>body. Some (NewOutputWithProviderAndCompanySender body
                       (j_Provider (fi_flow (hd msgs))) (j_CompanyId (fi_flow (hd msgs))) ''metric'' ''''))
                     (if nf_doGz f then en_gzip en target else Inr target)))"

section \<open>Rollups\<close>

definition rollupMap :: "(string \<times> string) list" where
  "rollupMap = [(''source_account'', ''vpc_account''), (''source_region'', ''vpc_region''), (''source_vpc'', ''vpc_name''),
     (''src_addr'', ''ip_address''), (''src_as'', ''asn_name''), (''src_as_name'', ''asn_name''), (''src_geo'', ''country''),
     (''l4_src_port'', ''port''), (''dest_account'', ''vpc_account''), (''dest_region'', ''vpc_region''),
     (''dest_vpc'', ''vpc_name''), (''dst_addr'', ''ip_address''), (''dst_as'', ''asn_name''), (''dst_as_name'', ''asn_name''),
     (''dst_geo'', ''country''), (''l4_dst_port'', ''port'')]"

definition rollup_name :: "string \<Rightarrow> string" where
  "rollup_name d = (case map_of rollupMap d of Some n \<Rightarrow> n | None \<Rightarrow> d)"

definition toInstName :: "Provider \<Rightarrow> string" where
  "toInstName prov = (if strings_Contains prov ''vpc'' then InstNameVPCMetric else InstNameNetflowMetric)"

definition rollup_label :: "string \<Rightarrow> string \<Rightarrow> attrs \<Rightarrow> attrs" where
  "rollup_label aname pt attr =
     (let attr = AList.update aname (JStr pt) attr;
          attr = (if pt = ''0'' \<or> pt = '''' \<or> pt = ''-'' \<or> pt = ''--'' then AList.delete aname attr else attr) in
      if aname = ''port'' \<and> atoi_or pt > 32768 then AList.update aname (JInt 32768) attr else attr)"

fun rollup_labels :: "string list \<Rightarrow> string list \<Rightarrow> attrs \<Rightarrow> attrs res" where
  "rollup_labels dims [] attr = Inr attr"
| "rollup_labels [] (pt # pts) attr = Inl (Panic ''index out of range'')"
| "rollup_labels (d # dims) (pt # pts) attr = rollup_labels dims pts (rollup_label (rollup_name d) pt attr)"

definition text_attr :: "attrs \<Rightarrow> string \<Rightarrow> string" where
  "text_attr attr k = (case map_of attr k of Some (JStr s) \<Rightarrow> s | _ \<Rightarrow> '''')"

definition vpc_identified :: "attrs \<Rightarrow> attrs" where
  "vpc_identified attr =
     (let acct = text_attr attr ''vpc_account''; name = text_attr attr ''vpc_name'' in
      if acct \<noteq> '''' \<and> name \<noteq> '''' then AList.update ''vpc_identification'' (JStr (acct @ '':'' @ name)) attr else attr)"

definition rollup_attrs :: "nat Rollup_out \<Rightarrow> attrs res" where
  "rollup_attrs roll =
     map_sum id vpc_identified (rollup_labels (ro_dims roll) (strings_Split (ro_Dimension roll) (ro_KeyJoin roll))
       [(''provider'', JProvider (if ro_Provider roll = ''kentik-router'' then ''kentik-flow-device'' else ro_Provider roll)),
        (''instrumentation.name'', JStr (toInstName (ro_Provider roll)))])"

text \<open>Each rollup comes with its interval in nanoseconds.\<close>

definition rollup_metric :: "nat Rollup_out \<times> nat \<Rightarrow> NRMetric list res" where
  "rollup_metric = (\<lambda>(roll, ns).
     if ro_Metric roll = 0 then Inr []
     else map_sum id (\<lambda>attr.
       [(nr_metric (''kentik.rollup.'' @ ro_Name roll) NR_SUMMARY_TYPE
           (NSummary (ro_Count roll) (of_nat (ro_Metric roll)) (ro_Min roll) (ro_Max roll)) attr)
          \<lparr>nr_Interval := of_nat (ns div 1000)\<rparr>]) (rollup_attrs roll))"

fun rollup_metrics :: "(nat Rollup_out \<times> nat) list \<Rightarrow> NRMetric list res" where
  "rollup_metrics [] = Inr []"
| "rollup_metrics (r # rs) =
     (case rollup_metric r of Inl e \<Rightarrow> Inl e | Inr ms \<Rightarrow> map_sum id (\<lambda>ms'. ms @ ms') (rollup_metrics rs))"

definition toNRMetricRollup :: "(NRMetric list \<Rightarrow> NRMetric list) \<Rightarrow> NRMFormat \<Rightarrow> (nat Rollup_out \<times> nat) list \<Rightarrow> NRMetric list res" where
  "toNRMetricRollup demoize f rolls =
     map_sum id (\<lambda>ms. if nf_demo f \<noteq> None then demoize ms else ms) (rollup_metrics rolls)"

definition NRM_Rollup :: "encodings \<Rightarrow> int \<Rightarrow> (NRMetric list \<Rightarrow> NRMetric list) \<Rightarrow> NRMFormat \<Rightarrow> (nat Rollup_out \<times> nat) list \<Rightarrow> Output option res" where
  "NRM_Rollup en now demoize f rolls =
     (case toNRMetricRollup demoize f rolls of
        Inl e \<Rightarrow> Inl e
      | Inr ms \<Rightarrow>
          if ms = [] then Inr None
          else (case en_metrics en \<lparr>ns_Metrics = ms, ns_Common = newNRCommon f now\<rparr> of
              Inl e \<Rightarrow> Inl e
            | Inr target \<Rightarrow>
                map_sum id (\<lambda>body. Some (NewOutputWithProvider body (ro_Provider (fst (hd rolls))) ''rollup''))
                  (if nf_doGz f then en_gzip en target else Inr target)))"

end
