(* ===== verification/Format_Util_Correct.thy ===== *)
theory Format_Util_Correct
  imports Format_Util
begin

text \<open>
  What the shared functions of the formats guarantee: the attributes of a metric stay within the limit, flattening
  a flow yields its scalar fields whatever the order of the iteration, and the match filters decide by what they
  say, in any order.
\<close>

section \<open>The number of attributes\<close>

lemma length_update: "length (AList.update k v xs) \<le> Suc (length xs)"
  by (induction xs) auto

lemma fold_delete: "fold AList.delete ks xs = filter (\<lambda>(k, v). k \<notin> set ks) xs"
proof (induction ks arbitrary: xs)
  case (Cons k ks)
  have "fold AList.delete (k # ks) xs = filter (\<lambda>(k, v). k \<notin> set ks) (filter (\<lambda>(k', v). k \<noteq> k') xs)"
    by (simp add: Cons.IH AList.delete_eq)
  then show ?case by (auto intro!: filter_cong)
qed simp

lemma distinct_keys_filter: "distinct (map fst xs) \<Longrightarrow> distinct (map fst (filter P xs))"
  by (induction xs) auto

lemma distinct_force: "distinct (map fst xs) \<Longrightarrow> distinct (map fst (force_attrs name xs))"
  by (simp add: force_attrs_def distinct_update)

lemma length_force: "length (force_attrs name xs) \<le> length xs + 3"
  using length_update [of "''objectIdentifier''" "JStr (mi_Oid name)" xs]
    length_update [of "''mib-name''" "JStr (mi_Mib name)" "AList.update ''objectIdentifier'' (JStr (mi_Oid name)) xs"]
    length_update [of "''instrumentation.name''" "JStr (mi_Profile name)"
      "AList.update ''mib-name'' (JStr (mi_Mib name)) (AList.update ''objectIdentifier'' (JStr (mi_Oid name)) xs)"]
  by (simp add: force_attrs_def)

lemma distinct_copy: "distinct (map fst xs) \<Longrightarrow> distinct (map fst (copy_attr m name lm ds k v xs))"
  unfolding copy_attr_def Let_def by (cases "GetTableName lm (if strings_HasPrefix k StringPrefix then drop (length StringPrefix) k else k)")
    (simp add: distinct_update)

lemma distinct_copies: "distinct (map fst xs) \<Longrightarrow> distinct (map fst (fold (\<lambda>(k, v). copy_attr m name lm ds k v) attr xs))"
  by (induction attr arbitrary: xs) (auto simp: distinct_copy)

text \<open>The keys that are kept are the first ones in the order of the strings.\<close>

lemma kept_keys:
  assumes "distinct (map fst xs)"
  shows "length (fold AList.delete (drop n (sort (map fst xs))) xs) \<le> n"
proof -
  let ?ks = "sort (map fst xs)" and ?rest = "fold AList.delete (drop n (sort (map fst xs))) xs"
  have "set (map fst ?rest) \<subseteq> set (take n ?ks)"
  proof
    fix k
    assume "k \<in> set (map fst ?rest)"
    then have "k \<in> set ?ks" "k \<notin> set (drop n ?ks)" by (auto simp: fold_delete)
    then show "k \<in> set (take n ?ks)" by (metis Un_iff append_take_drop_id set_append)
  qed
  then have "card (set (map fst ?rest)) \<le> card (set (take n ?ks))" by (intro card_mono) auto
  also have "\<dots> \<le> n" by (rule le_trans [OF card_length]) simp
  finally have "card (set (map fst ?rest)) \<le> n" .
  moreover have "distinct (map fst ?rest)" using assms unfolding fold_delete by (rule distinct_keys_filter)
  ultimately show ?thesis by (metis distinct_card length_map)
qed

lemma prune_bound:
  assumes "distinct (map fst xs)"
  shows "distinct (map fst (prune_attrs name xs)) \<and> length (prune_attrs name xs) \<le> MAX_ATTR_FOR_SNMP"
proof -
  let ?ys = "fold AList.delete removeAttrForSnmp xs"
  have d: "distinct (map fst ?ys)" using assms by (simp add: fold_delete distinct_keys_filter)
  let ?zs = "fold AList.delete (drop 61 (sort (map fst ?ys))) ?ys"
  have "length (force_attrs name ?zs) \<le> 64" using length_force [of name ?zs] kept_keys [OF d, of 61] by simp
  moreover have "distinct (map fst (force_attrs name ?zs))" using d unfolding fold_delete [of "drop _ _"]
    by (intro distinct_force distinct_keys_filter)
  ultimately show ?thesis using d by (simp add: prune_attrs_def Let_def MAX_ATTR_FOR_SNMP_def)
qed

lemma distinct_delete_keys: "distinct (map fst xs) \<Longrightarrow> distinct (map fst (AList.delete k xs))"
  by (simp add: AList.delete_eq distinct_keys_filter)

text \<open>
  With \<^verbatim>\<open>gentleCardinality\<close> the attributes of an SNMP metric have different names and are never more than
  \<^verbatim>\<open>MAX_ATTR_FOR_SNMP\<close>, whatever the flow, the tables and the metadata of the device bring along.
\<close>
lemma snmp_attributes_bounded:
  "distinct (map fst (CopyAttrForSnmp attr metricName name lm True dropSrcAddr)) \<and>
   length (CopyAttrForSnmp attr metricName name lm True dropSrcAddr) \<le> MAX_ATTR_FOR_SNMP"
proof -
  define xs where "xs = fold (\<lambda>(k, v). copy_attr metricName name lm dropSrcAddr k v) attr
    (if sint (mi_PollDur name) > 0 then AList.update ''poll_duration_sec'' (JSeconds (mi_PollDur name)) (force_attrs name [])
     else force_attrs name [])"
  have "distinct (map fst xs)" by (simp add: xs_def distinct_copies distinct_update distinct_force)
  note b = prune_bound [OF this, of name]
  have "CopyAttrForSnmp attr metricName name lm True dropSrcAddr =
      (if map_of (prune_attrs name xs) ''mib-name'' = Some (JStr '''') then AList.delete ''mib-name'' (prune_attrs name xs)
       else prune_attrs name xs)"
    by (simp add: CopyAttrForSnmp_def xs_def Let_def)
  then show ?thesis
    using b length_delete_le [of "''mib-name''" "prune_attrs name xs"] by (auto simp: distinct_delete_keys)
qed

section \<open>Flattening\<close>

text \<open>The entries of a value that is a map, as values of the flattened map.\<close>

fun inner :: "jval \<Rightarrow> (string \<Rightarrow> jval option) option" where
  "inner (JMapStr mv) = Some (\<lambda>k. map_option JStr (gm_lookup mv k))"
| "inner (JMapI32 mv) = Some (\<lambda>k. map_option JInt32 (gm_lookup mv k))"
| "inner (JMapI64 mv) = Some (\<lambda>k. map_option JInt64 (gm_lookup mv k))"
| "inner (JMapF32 mv) = Some (\<lambda>k. map_option JFloat32 (gm_lookup mv k))"
| "inner _ = None"

definition un_nil :: "jval \<Rightarrow> jval" where
  "un_nil v = (if v = JStr ''<nil>'' then JStr '''' else v)"

definition inner_at :: "(string \<Rightarrow> jval option) \<Rightarrow> string \<Rightarrow> string \<Rightarrow> jval option" where
  "inner_at m n k = Option.bind (Option.bind (m n) inner) (\<lambda>src. src k)"

lemma flatten_at_eq:
  "flatten_at k m = (case m k of None \<Rightarrow> m
     | Some v \<Rightarrow> (case inner v of Some src \<Rightarrow> (m ++ src)(k := None) | None \<Rightarrow> m(k \<mapsto> un_nil v)))"
  by (auto simp: flatten_at_def spread_def un_nil_def fun_eq_iff split: option.splits jval.splits)

lemma inner_scalar: "inner v = Some src \<Longrightarrow> src k = Some w \<Longrightarrow> inner w = None"
  by (cases v) auto

text \<open>After the keys \<open>V\<close> were visited, starting from \<open>m0\<close>.\<close>

definition flattened :: "(string \<Rightarrow> jval option) \<Rightarrow> string set \<Rightarrow> (string \<Rightarrow> jval option) \<Rightarrow> bool" where
  "flattened m0 V m \<longleftrightarrow>
     (\<forall>k v. m0 k = Some v \<longrightarrow>
        m k = (if inner v = None then Some (if k \<in> V then un_nil v else v) else if k \<in> V then None else Some v)) \<and>
     (\<forall>k n v. inner_at m0 n k = Some v \<longrightarrow> n \<in> V \<longrightarrow> m k = Some v) \<and>
     (\<forall>k. m0 k = None \<longrightarrow> (\<forall>n \<in> V. inner_at m0 n k = None) \<longrightarrow> m k = None)"

text \<open>The names in the nested maps are no names of the map itself, and two nested maps agree where they overlap.\<close>

definition separate :: "(string \<Rightarrow> jval option) \<Rightarrow> bool" where
  "separate m0 \<longleftrightarrow>
     (\<forall>n k v. inner_at m0 n k = Some v \<longrightarrow> m0 k = None \<and> v \<noteq> JStr ''<nil>'' \<and>
        (\<forall>n' v'. inner_at m0 n' k = Some v' \<longrightarrow> v' = v))"

text \<open>A name in a nested map is not in the map itself.\<close>

lemma separate_inner: "separate m0 \<Longrightarrow> m0 k = Some v \<Longrightarrow> inner_at m0 n k = None"
  by (cases "inner_at m0 n k") (auto simp: separate_def)

text \<open>A key that was not in the map at first: it is absent, or a scalar that stays.\<close>

lemma flatten_at_new:
  assumes sep: "separate m0" and inv: "flattened m0 V m" and k: "m0 k = None"
  shows "flattened m0 (insert k V) (flatten_at k m)"
proof -
  have "flatten_at k m = m"
  proof (cases "\<exists>n \<in> V. \<exists>v. inner_at m0 n k = Some v")
    case True
    then obtain n v where n: "n \<in> V" "inner_at m0 n k = Some v" by blast
    then have "m k = Some v" using inv by (auto simp: flattened_def)
    moreover have "inner v = None" using n(2) inner_scalar by (auto simp: inner_at_def Option.bind_eq_Some_conv)
    moreover have "un_nil v = v" using sep n(2) by (auto simp: separate_def un_nil_def)
    ultimately show ?thesis by (auto simp: flatten_at_eq)
  next
    case False
    then have "m k = None" using inv k by (auto simp: flattened_def)
    then show ?thesis by (simp add: flatten_at_eq)
  qed
  moreover have "inner_at m0 k k' = None" for k' using k by (simp add: inner_at_def)
  ultimately show ?thesis using inv k unfolding flattened_def by auto
qed

lemma flatten_at_scalar:
  assumes sep: "separate m0" and inv: "flattened m0 V m" and k: "m0 k = Some v" "inner v = None"
  shows "flattened m0 (insert k V) (flatten_at k m)"
proof -
  have "m k = Some (if k \<in> V then un_nil v else v)" using inv k by (simp add: flattened_def)
  moreover have "un_nil (un_nil v) = un_nil v" "inner (un_nil v) = None" using k by (auto simp: un_nil_def)
  ultimately have "flatten_at k m = m(k \<mapsto> un_nil v)" using k by (auto simp: flatten_at_eq)
  moreover have "inner_at m0 k k' = None" for k' using k by (simp add: inner_at_def)
  moreover have "inner_at m0 n k = None" for n using separate_inner [OF sep k(1)] .
  ultimately show ?thesis using inv k unfolding flattened_def by auto
qed

lemma flatten_at_nested:
  assumes sep: "separate m0" and inv: "flattened m0 V m" and k: "m0 k = Some v" "inner v = Some src"
  shows "flattened m0 (insert k V) (flatten_at k m)"
proof -
  have src: "inner_at m0 k k' = src k'" for k' using k by (simp add: inner_at_def)
  have agree: "inner_at m0 n k' = Some w \<Longrightarrow> src k' = None \<or> src k' = Some w" for n k' w
    using sep src [of k'] by (cases "src k'") (auto simp: separate_def)
  have "m k = (if k \<in> V then None else Some v)" using inv k by (simp add: flattened_def)
  then have "flatten_at k m = (if k \<in> V then m else (m ++ src)(k := None))" using k by (auto simp: flatten_at_eq)
  moreover have "insert k V = V" if "k \<in> V" using that by blast
  moreover have "flattened m0 (insert k V) ((m ++ src)(k := None))" if "k \<notin> V"
    unfolding flattened_def
  proof (intro conjI allI impI)
    fix k' w
    assume "m0 k' = Some w"
    then show "((m ++ src)(k := None)) k' = (if inner w = None then Some (if k' \<in> insert k V then un_nil w else w)
        else if k' \<in> insert k V then None else Some w)"
      using inv that k separate_inner [OF sep, of k' w k] src [of k'] by (auto simp: flattened_def map_add_def)
  next
    fix k' n w
    assume "inner_at m0 n k' = Some w" "n \<in> insert k V"
    then show "((m ++ src)(k := None)) k' = Some w"
      using inv separate_inner [OF sep k(1), of n] src [of k'] agree [of n k' w]
      by (auto simp: flattened_def map_add_def split: option.splits)
  next
    fix k'
    assume "m0 k' = None" "\<forall>n \<in> insert k V. inner_at m0 n k' = None"
    then show "((m ++ src)(k := None)) k' = None"
      using inv src [of k'] by (auto simp: flattened_def map_add_def split: option.splits)
  qed
  ultimately show ?thesis using inv by auto
qed

lemma flatten_at_flattened: "separate m0 \<Longrightarrow> flattened m0 V m \<Longrightarrow> flattened m0 (insert k V) (flatten_at k m)"
  by (cases "m0 k"; cases "inner (the (m0 k))") (auto intro: flatten_at_new flatten_at_scalar flatten_at_nested)

lemma flatten_visits: "separate m0 \<Longrightarrow> flattened m0 V m \<Longrightarrow> flattened m0 (V \<union> set visits) (fold flatten_at visits m)"
proof (induction visits arbitrary: V m)
  case (Cons k visits)
  then show ?case using Cons.IH [of "insert k V" "flatten_at k m"] flatten_at_flattened by simp
qed simp

text \<open>What the flattened map of a flow holds: its scalar fields and its custom fields.\<close>

definition custom_value :: "JCHF \<Rightarrow> string \<Rightarrow> jval option" where
  "custom_value j k =
     (case gm_lookup (j_CustomStr j) k of Some v \<Rightarrow> Some (JStr v)
      | None \<Rightarrow> (case gm_lookup (j_CustomInt j) k of Some v \<Rightarrow> Some (JInt32 v)
      | None \<Rightarrow> (case gm_lookup (j_CustomBigInt j) k of Some v \<Rightarrow> Some (JInt64 v)
      | None \<Rightarrow> map_option JFloat32 (gm_lookup (j_CustomFloat j) k))))"

definition flat_view :: "JCHF \<Rightarrow> string \<Rightarrow> jval option" where
  "flat_view j k =
     (case map_of (ToMap_entries j) k of
        Some v \<Rightarrow> (if inner v = None then Some (un_nil v) else None)
      | None \<Rightarrow> custom_value j k)"

definition custom_maps :: "JCHF \<Rightarrow> (string \<times> jval) list" where
  "custom_maps j = [(''custom_str'', JMapStr (j_CustomStr j)), (''custom_int'', JMapI32 (j_CustomInt j)),
     (''custom_bigint'', JMapI64 (j_CustomBigInt j)), (''custom_float'', JMapF32 (j_CustomFloat j))]"

lemma nested_entries: "n \<in> set (ToMap_entries j) \<Longrightarrow> inner (snd n) \<noteq> None \<Longrightarrow> n \<in> set (custom_maps j)"
proof -
  have "list_all (\<lambda>n. inner (snd n) \<noteq> None \<longrightarrow> n \<in> set (custom_maps j)) (ToMap_entries j)"
    by (simp add: ToMap_entries_def custom_maps_def)
  then show "n \<in> set (ToMap_entries j) \<Longrightarrow> inner (snd n) \<noteq> None \<Longrightarrow> n \<in> set (custom_maps j)"
    by (simp add: list_all_iff)
qed

lemma custom_entries: "(n, v) \<in> set (custom_maps j) \<Longrightarrow> map_of (ToMap_entries j) n = Some v"
proof -
  have "custom_maps j = take 4 (drop 57 (ToMap_entries j))" by (simp add: ToMap_entries_def custom_maps_def)
  then have "set (custom_maps j) \<subseteq> set (ToMap_entries j)" using set_take_subset set_drop_subset by (metis subset_trans)
  then show "(n, v) \<in> set (custom_maps j) \<Longrightarrow> map_of (ToMap_entries j) n = Some v"
    by (intro map_of_is_SomeI [OF distinct_ToMap_keys]) blast
qed

lemma inner_at_custom:
  "inner_at (map_of (ToMap_entries j)) n k = Some w \<longleftrightarrow> (\<exists>v src. (n, v) \<in> set (custom_maps j) \<and> inner v = Some src \<and> src k = Some w)"
proof
  assume "inner_at (map_of (ToMap_entries j)) n k = Some w"
  then obtain v src where v: "map_of (ToMap_entries j) n = Some v" "inner v = Some src" "src k = Some w"
    by (auto simp: inner_at_def Option.bind_eq_Some_conv)
  from nested_entries [OF map_of_SomeD [OF v(1)]] v(2) have "(n, v) \<in> set (custom_maps j)" by simp
  with v show "\<exists>v src. (n, v) \<in> set (custom_maps j) \<and> inner v = Some src \<and> src k = Some w" by blast
next
  assume "\<exists>v src. (n, v) \<in> set (custom_maps j) \<and> inner v = Some src \<and> src k = Some w"
  then obtain v src where v: "(n, v) \<in> set (custom_maps j)" "inner v = Some src" "src k = Some w" by blast
  with custom_entries [OF v(1)] show "inner_at (map_of (ToMap_entries j)) n k = Some w" by (simp add: inner_at_def)
qed

lemma inner_at_maps:
  "inner_at (map_of (ToMap_entries j)) ''custom_str'' k = map_option JStr (gm_lookup (j_CustomStr j) k)"
  "inner_at (map_of (ToMap_entries j)) ''custom_int'' k = map_option JInt32 (gm_lookup (j_CustomInt j) k)"
  "inner_at (map_of (ToMap_entries j)) ''custom_bigint'' k = map_option JInt64 (gm_lookup (j_CustomBigInt j) k)"
  "inner_at (map_of (ToMap_entries j)) ''custom_float'' k = map_option JFloat32 (gm_lookup (j_CustomFloat j) k)"
  by (simp_all add: inner_at_def custom_entries custom_maps_def)

definition custom_entry :: "JCHF \<Rightarrow> string \<Rightarrow> jval \<Rightarrow> bool" where
  "custom_entry j k w \<longleftrightarrow>
     map_option JStr (gm_lookup (j_CustomStr j) k) = Some w \<or> map_option JInt32 (gm_lookup (j_CustomInt j) k) = Some w \<or>
     map_option JInt64 (gm_lookup (j_CustomBigInt j) k) = Some w \<or> map_option JFloat32 (gm_lookup (j_CustomFloat j) k) = Some w"

lemma separate_customI:
  assumes "\<And>k w. custom_entry j k w \<Longrightarrow> map_of (ToMap_entries j) k = None \<and> w \<noteq> JStr ''<nil>''"
    and "\<And>k w w'. custom_entry j k w \<Longrightarrow> custom_entry j k w' \<Longrightarrow> w' = w"
  shows "separate (map_of (ToMap_entries j))"
proof -
  have "custom_entry j k w" if "inner_at (map_of (ToMap_entries j)) n k = Some w" for n k w
    using that unfolding inner_at_custom custom_entry_def custom_maps_def by auto
  then show ?thesis using assms unfolding separate_def by meson
qed

lemma custom_value_source: "custom_value j k = Some w \<Longrightarrow> \<exists>n. inner_at (map_of (ToMap_entries j)) n k = Some w"
  using inner_at_maps [of j k] unfolding custom_value_def
  by (cases "gm_lookup (j_CustomStr j) k"; cases "gm_lookup (j_CustomInt j) k"; cases "gm_lookup (j_CustomBigInt j) k") auto

lemma custom_value_inner:
  assumes "separate (map_of (ToMap_entries j))"
  shows "custom_value j k = Some w \<longleftrightarrow> (\<exists>n. inner_at (map_of (ToMap_entries j)) n k = Some w)"
proof
  show "custom_value j k = Some w \<Longrightarrow> \<exists>n. inner_at (map_of (ToMap_entries j)) n k = Some w" by (rule custom_value_source)
next
  assume "\<exists>n. inner_at (map_of (ToMap_entries j)) n k = Some w"
  then obtain n where n: "inner_at (map_of (ToMap_entries j)) n k = Some w" by blast
  then have "custom_value j k \<noteq> None"
    by (auto simp: custom_value_def inner_at_custom custom_maps_def split: option.splits)
  then obtain v where v: "custom_value j k = Some v" by blast
  then obtain n' where "inner_at (map_of (ToMap_entries j)) n' k = Some v" using custom_value_source by blast
  with n assms have "v = w" unfolding separate_def by blast
  with v show "custom_value j k = Some w" by simp
qed

lemma Flatten_view:
  assumes "\<not> j_hasSetAvro j" "j_avroSet j = Some Map.empty" "separate (map_of (ToMap_entries j))"
    and "fst ` set (ToMap_entries j) \<subseteq> set visits"
  shows "\<exists>j'. Flatten visits j = Inr (j', Some (flat_view j))"
proof -
  let ?m0 = "map_of (ToMap_entries j)"
  have map: "ToMap j = Inr (j\<lparr>j_avroSet := Some ?m0, j_hasSetAvro := True\<rparr>, Some ?m0)"
    using assms by (simp add: ToMap_def fold_map_upd map_of_rev_distinct [OF distinct_ToMap_keys] Let_def)
  have "flattened ?m0 {} ?m0" by (auto simp: flattened_def)
  from flatten_visits [OF assms(3) this, of visits] have inv: "flattened ?m0 (set visits) (fold flatten_at visits ?m0)" by simp
  have names: "\<exists>v. ?m0 n = Some v \<Longrightarrow> n \<in> set visits" for n using assms(4) by (force dest: map_of_SomeD)
  have "fold flatten_at visits ?m0 k = flat_view j k" for k
  proof (cases "?m0 k")
    case None
    show ?thesis
    proof (cases "custom_value j k")
      case None
      then have "inner_at ?m0 n k = None" for n
        using custom_value_inner [OF assms(3), of k] by (metis option.exhaust)
      then show ?thesis using inv \<open>?m0 k = None\<close> None by (simp add: flattened_def flat_view_def)
    next
      case (Some v)
      then obtain n where n: "inner_at ?m0 n k = Some v" using custom_value_inner [OF assms(3)] by blast
      then have "n \<in> set visits" by (intro names) (auto simp: inner_at_def Option.bind_eq_Some_conv)
      then show ?thesis using inv n None Some by (auto simp: flattened_def flat_view_def)
    qed
  next
    case (Some v)
    then show ?thesis using inv names [of k] by (simp add: flattened_def flat_view_def)
  qed
  then have "fold flatten_at visits ?m0 = flat_view j" by (rule ext)
  then show ?thesis by (simp add: Flatten_def map Let_def)
qed

section \<open>The attributes of a flow\<close>

text \<open>What an attribute of a flow is shown as, when it is.\<close>

fun shown :: "jval \<Rightarrow> jval option" where
  "shown (JStr s) = (if s \<in> {'''', ''-'', ''--''} then None else Some (JStr s))"
| "shown (JProvider p) = Some (JProvider p)"
| "shown (JInt64 v) = (if sint v > 0 then Some (JInt v) else None)"
| "shown (JInt32 v) = (if sint v > 0 then Some (JInt (scast v)) else None)"
| "shown (JFloat32 v) = (if float32_positive v then Some (JFloat32 v) else None)"
| "shown _ = None"

definition is_scalar :: "jval \<Rightarrow> bool" where
  "is_scalar v \<longleftrightarrow> (case v of JStr _ \<Rightarrow> True | JProvider _ \<Rightarrow> True | JInt64 _ \<Rightarrow> True | JInt32 _ \<Rightarrow> True | JFloat32 _ \<Rightarrow> True | _ \<Rightarrow> False)"

lemma set_value_shown:
  "is_scalar v \<Longrightarrow> set_value k v attr = Inr (case shown v of Some w \<Rightarrow> AList.update k w attr | None \<Rightarrow> attr)"
  by (cases v) (auto simp: set_value_def is_scalar_def)

lemma set_flow_attrs_run:
  assumes "distinct (map fst kvs)" "\<forall>(k, v) \<in> set kvs. is_scalar v"
  shows "\<exists>attr'. set_flow_attrs metrics strip kvs attr = Inr attr' \<and>
     (\<forall>k. map_of attr' k = (if skipped metrics strip k then map_of attr k
        else case Option.bind (map_of kvs k) shown of Some w \<Rightarrow> Some w | None \<Rightarrow> map_of attr k))"
  using assms
proof (induction kvs arbitrary: attr)
  case (Cons kv kvs)
  obtain k v where kv: "kv = (k, v)" by (cases kv)
  have fresh: "map_of kvs k = None" using Cons.prems kv by (simp add: map_of_eq_None_iff)
  show ?case
  proof (cases "skipped metrics strip k")
    case True
    then show ?thesis using Cons.IH [of attr] Cons.prems kv by auto
  next
    case False
    define attr1 where "attr1 = (case shown v of Some w \<Rightarrow> AList.update k w attr | None \<Rightarrow> attr)"
    have "set_value k v attr = Inr attr1" using Cons.prems kv by (simp add: set_value_shown attr1_def)
    moreover obtain attr' where "set_flow_attrs metrics strip kvs attr1 = Inr attr'"
      "\<forall>k. map_of attr' k = (if skipped metrics strip k then map_of attr1 k
        else case Option.bind (map_of kvs k) shown of Some w \<Rightarrow> Some w | None \<Rightarrow> map_of attr1 k)"
      using Cons.IH [of attr1] Cons.prems kv by auto
    ultimately show ?thesis using False kv fresh
      by (auto simp: attr1_def update_conv split: option.splits)
  qed
qed simp

lemma flat_view_scalar: "flat_view j k = Some v \<Longrightarrow> is_scalar v"
proof -
  have "list_all (\<lambda>n. inner (snd n) = None \<longrightarrow> is_scalar (snd n)) (ToMap_entries j)"
    by (simp add: ToMap_entries_def is_scalar_def)
  then have base: "map_of (ToMap_entries j) k = Some v \<Longrightarrow> inner v = None \<Longrightarrow> is_scalar v" for v
    by (auto simp: list_all_iff dest!: map_of_SomeD)
  have nil: "is_scalar (un_nil v) = is_scalar v" for v by (simp add: un_nil_def is_scalar_def)
  have custom: "custom_value j k = Some v \<Longrightarrow> is_scalar v"
    by (auto simp: custom_value_def is_scalar_def split: option.splits)
  show "flat_view j k = Some v \<Longrightarrow> is_scalar v"
    using custom by (cases "map_of (ToMap_entries j) k") (auto simp: flat_view_def nil base split: if_splits)
qed

lemma map_filter_keys:
  assumes "distinct keys"
  shows "distinct (map fst (List.map_filter (\<lambda>k. map_option (Pair k) (f k)) keys)) \<and>
     map_of (List.map_filter (\<lambda>k. map_option (Pair k) (f k)) keys) k = (if k \<in> set keys then f k else None)"
  using assms
proof (induction keys)
  case (Cons a keys)
  have "fst ` set (List.map_filter (\<lambda>k. map_option (Pair k) (f k)) keys) \<subseteq> set keys"
    by (auto simp: List.map_filter_def)
  then show ?case using Cons by (cases "f a") auto
qed simp

lemma set_map_filter_keys:
  "(k, v) \<in> set (List.map_filter (\<lambda>k. map_option (Pair k) (f k)) keys) \<Longrightarrow> f k = Some v"
  by (auto simp: List.map_filter_def)

text \<open>
  Whatever the order in which Go visits the maps, the attributes of a flow are its scalar fields and its custom
  fields, each under its name, without the dropped ones, the metrics and the empty values; in particular the
  unknown type that would panic never occurs.
\<close>
lemma SetAttr_attributes:
  assumes "\<not> j_hasSetAvro j" "j_avroSet j = Some Map.empty" "separate (map_of (ToMap_entries j))"
    and "fst ` set (ToMap_entries j) \<subseteq> set visits"
    and "distinct keys" "\<forall>k. flat_view j k \<noteq> None \<longrightarrow> k \<in> set keys"
  shows "\<exists>j' attr. SetAttr visits keys [] j False metrics None strip = Inr (j', attr) \<and>
    (\<forall>k. map_of attr k = (if skipped metrics strip k then None else Option.bind (flat_view j k) shown))"
proof -
  let ?kvs = "List.map_filter (\<lambda>k. map_option (Pair k) (flat_view j k)) keys"
  obtain j' where flat: "Flatten visits j = Inr (j', Some (flat_view j))" using Flatten_view [OF assms(1-4)] by blast
  have kvs: "distinct (map fst ?kvs)" "map_of ?kvs k = flat_view j k" for k
    using map_filter_keys [OF assms(5), of "flat_view j" k] assms(6) [rule_format, of k] by (simp, cases "flat_view j k", auto)
  have "\<forall>(k, v) \<in> set ?kvs. is_scalar v" by (auto dest: set_map_filter_keys intro: flat_view_scalar)
  moreover have opt: "(case x of Some w \<Rightarrow> Some w | None \<Rightarrow> None) = x" for x :: "jval option" by (cases x) auto
  ultimately obtain attr where
    "set_flow_attrs metrics strip ?kvs [] = Inr attr"
    "\<forall>k. map_of attr k = (if skipped metrics strip k then None else Option.bind (flat_view j k) shown)"
    using set_flow_attrs_run [OF kvs(1), of metrics strip "[]"] by (auto simp: kvs(2) opt cong: if_cong option.case_cong)
  then show ?thesis using flat by (auto simp: SetAttr_def Let_def)
qed

definition demo_snmp_flow :: JCHF where
  "demo_snmp_flow = NewJCHF\<lparr>j_InBytes := 1500, j_SampleRate := 10, j_CustomStr := Some [''site'' \<mapsto> ''lab''], j_CustomInt := Some [''slot'' \<mapsto> 3]\<rparr>"

lemma demo_snmp_flow_ok:
  "\<not> j_hasSetAvro demo_snmp_flow" "j_avroSet demo_snmp_flow = Some Map.empty"
  "separate (map_of (ToMap_entries demo_snmp_flow))"
  "distinct (''site'' # ''slot'' # map fst (ToMap_entries demo_snmp_flow))"
  "\<forall>k. flat_view demo_snmp_flow k \<noteq> None \<longrightarrow> k \<in> set (''site'' # ''slot'' # map fst (ToMap_entries demo_snmp_flow))"
proof -
  have custom: "custom_entry demo_snmp_flow k w \<longleftrightarrow> k = ''site'' \<and> w = JStr ''lab'' \<or> k = ''slot'' \<and> w = JInt32 3" for k w
    by (auto simp: custom_entry_def demo_snmp_flow_def NewJCHF_def)
  have none: "map_of (ToMap_entries demo_snmp_flow) ''site'' = None" "map_of (ToMap_entries demo_snmp_flow) ''slot'' = None"
    by (simp_all add: ToMap_entries_def)
  show "separate (map_of (ToMap_entries demo_snmp_flow))"
    by (rule separate_customI) (auto simp: custom none)
  show "distinct (''site'' # ''slot'' # map fst (ToMap_entries demo_snmp_flow))"
    using none distinct_ToMap_keys by (simp add: map_of_eq_None_iff)
  show "\<forall>k. flat_view demo_snmp_flow k \<noteq> None \<longrightarrow> k \<in> set (''site'' # ''slot'' # map fst (ToMap_entries demo_snmp_flow))"
  proof (intro allI impI)
    fix k
    assume k: "flat_view demo_snmp_flow k \<noteq> None"
    show "k \<in> set (''site'' # ''slot'' # map fst (ToMap_entries demo_snmp_flow))"
    proof (cases "map_of (ToMap_entries demo_snmp_flow) k")
      case None
      then have "\<exists>w. custom_value demo_snmp_flow k = Some w" using k by (auto simp: flat_view_def)
      then show ?thesis by (auto simp: custom_value_def demo_snmp_flow_def NewJCHF_def split: if_splits)
    next
      case (Some v)
      then show ?thesis by (force dest: map_of_SomeD)
    qed
  qed
qed (simp_all add: demo_snmp_flow_def NewJCHF_def)

section \<open>The match filters\<close>

definition match_keys :: "string \<Rightarrow> string list" where
  "match_keys k = key_alternatives (unforced k)"

definition text_of :: "attrs \<Rightarrow> string \<Rightarrow> string option" where
  "text_of attr key = (case map_of attr key of Some (JStr s) \<Rightarrow> Some s | _ \<Rightarrow> None)"

text \<open>
  An entry without the token that negates the filter, in which the administrative status stands alone, and whose
  keys are all of interfaces or none is when interfaces do not count.
\<close>

definition plain_match :: "bool \<Rightarrow> string \<Rightarrow> bool" where
  "plain_match isIfMetric k \<longleftrightarrow>
     unforced k \<noteq> NEGATE_MATCH_TOKEN \<and> (AdminStatus \<in> set (match_keys k) \<longrightarrow> match_keys k = [AdminStatus]) \<and>
     (isIfMetric \<or> list_all is_interface_key (match_keys k) \<or> list_all (\<lambda>key. \<not> is_interface_key key) (match_keys k))"

definition counts :: "bool \<Rightarrow> string \<Rightarrow> bool" where
  "counts isIfMetric k \<longleftrightarrow> isIfMetric \<or> \<not> list_all is_interface_key (match_keys k)"

definition admin_refused :: "attrs \<Rightarrow> string \<times> (string \<Rightarrow> bool) \<Rightarrow> bool" where
  "admin_refused attr e \<longleftrightarrow>
     match_keys (fst e) = [AdminStatus] \<and> (case text_of attr AdminStatus of Some s \<Rightarrow> \<not> snd e s | None \<Rightarrow> False)"

definition forced_missing :: "attrs \<Rightarrow> string \<times> (string \<Rightarrow> bool) \<Rightarrow> bool" where
  "forced_missing attr e \<longleftrightarrow> is_forced (fst e) \<and> list_all (\<lambda>key. map_of attr key = None) (match_keys (fst e))"

definition other_keys :: "string \<times> (string \<Rightarrow> bool) \<Rightarrow> string list" where
  "other_keys e = filter (\<lambda>key. key \<noteq> AdminStatus) (match_keys (fst e))"

definition present :: "attrs \<Rightarrow> string \<times> (string \<Rightarrow> bool) \<Rightarrow> bool" where
  "present attr e \<longleftrightarrow> list_ex (\<lambda>key. text_of attr key \<noteq> None) (other_keys e)"

definition matches :: "attrs \<Rightarrow> string \<times> (string \<Rightarrow> bool) \<Rightarrow> bool" where
  "matches attr e \<longleftrightarrow> list_ex (\<lambda>key. case text_of attr key of Some s \<Rightarrow> snd e s | None \<Rightarrow> False) (other_keys e)"

lemma match_keys_not_Nil: "match_keys k \<noteq> []"
  by (simp add: match_keys_def key_alternatives_def OR_TOKEN_def strings_Split_not_Nil)

lemma check_keys_skip:
  "ks \<noteq> [] \<Longrightarrow> list_all is_interface_key ks \<Longrightarrow> check_keys attr re force seen False ks (c, b, st) = (True, False, st)"
proof (induction ks arbitrary: c b)
  case (Cons k ks)
  then show ?case by (cases "ks = []") (auto simp: checkFilter_def)
qed simp

lemma check_keys_missing:
  "ks \<noteq> [] \<Longrightarrow> list_all (\<lambda>key. map_of attr key = None) ks \<Longrightarrow> (isIf \<or> list_all (\<lambda>key. \<not> is_interface_key key) ks) \<Longrightarrow>
   \<exists>st'. check_keys attr re True False isIf ks (c, b, st) = (False, True, st') \<and> \<not> keepForOtherMatch st' \<and>
     0 < seenNonAdmin st' \<and> dropOnAdminStatus st' = dropOnAdminStatus st"
proof (induction ks arbitrary: c b st)
  case (Cons k ks)
  define st1 where "st1 = st\<lparr>seenNonAdmin := seenNonAdmin st + 1, keepForOtherMatch := False\<rparr>"
  have step: "checkFilter attr k re True False isIf st = (False, True, st1)"
    using Cons.prems by (auto simp: checkFilter_def st1_def)
  show ?case
  proof (cases "ks = []")
    case True
    then show ?thesis using step by (simp add: st1_def)
  next
    case False
    with Cons.IH [OF False, of False True st1] Cons.prems step show ?thesis by (auto simp: st1_def)
  qed
qed simp

lemma checkFilter_plain:
  assumes "k \<noteq> AdminStatus" "isIf \<or> \<not> is_interface_key k" "\<not> (force \<and> \<not> seen)"
  shows "checkFilter attr k re force seen isIf st = (False, False,
    st\<lparr>seenNonAdmin := seenNonAdmin st + (if text_of attr k = None then 0 else 1),
       keepForOtherMatch := keepForOtherMatch st \<or> (case text_of attr k of Some s \<Rightarrow> re s | None \<Rightarrow> False)\<rparr>)"
  using assms by (auto simp: checkFilter_def text_of_def Let_def split: option.splits jval.splits)

lemma check_keys_plain:
  "ks \<noteq> [] \<Longrightarrow> AdminStatus \<notin> set ks \<Longrightarrow> (isIf \<or> list_all (\<lambda>key. \<not> is_interface_key key) ks) \<Longrightarrow> \<not> (force \<and> \<not> seen) \<Longrightarrow>
   check_keys attr re force seen isIf ks (c, b, st) = (False, False,
     st\<lparr>seenNonAdmin := seenNonAdmin st + length (filter (\<lambda>key. text_of attr key \<noteq> None) ks),
        keepForOtherMatch := keepForOtherMatch st \<or> list_ex (\<lambda>key. case text_of attr key of Some s \<Rightarrow> re s | None \<Rightarrow> False) ks\<rparr>)"
proof (induction ks arbitrary: c b st)
  case (Cons k ks)
  have step: "checkFilter attr k re force seen isIf st = (False, False,
    st\<lparr>seenNonAdmin := seenNonAdmin st + (if text_of attr k = None then 0 else 1),
       keepForOtherMatch := keepForOtherMatch st \<or> (case text_of attr k of Some s \<Rightarrow> re s | None \<Rightarrow> False)\<rparr>)"
    using Cons.prems by (intro checkFilter_plain) auto
  show ?case
  proof (cases "ks = []")
    case True
    then show ?thesis using step by simp
  next
    case False
    have "AdminStatus \<notin> set ks" "isIf \<or> list_all (\<lambda>key. \<not> is_interface_key key) ks" using Cons.prems by auto
    from Cons.IH [OF False this Cons.prems(4)] step show ?thesis by (simp add: disj_assoc)
  qed
qed simp

definition verdict :: "bool \<times> match_state \<Rightarrow> bool" where
  "verdict = (\<lambda>(negateMatch, st).
     if dropOnAdminStatus st then True
     else if seenNonAdmin st > 0 then (if negateMatch then keepForOtherMatch st else \<not> keepForOtherMatch st)
     else negateMatch)"

definition refuses :: "attrs \<Rightarrow> (string \<times> (string \<Rightarrow> bool)) list \<Rightarrow> bool \<Rightarrow> bool \<Rightarrow> bool" where
  "refuses attr ms keep seen \<longleftrightarrow>
     list_ex (admin_refused attr) ms \<or> list_ex (forced_missing attr) ms \<or>
     (seen \<or> list_ex (present attr) ms) \<and> \<not> (keep \<or> list_ex (matches attr) ms)"

definition entry_step :: "attrs \<Rightarrow> bool \<Rightarrow> string \<Rightarrow> (string \<Rightarrow> bool) \<Rightarrow> match_state \<Rightarrow> bool \<times> bool \<times> match_state" where
  "entry_step attr isIf k re st =
     check_keys attr re (is_forced k) (is_forced k \<and> list_ex (\<lambda>key. map_of attr key \<noteq> None) (match_keys k)) isIf
       (match_keys k) (False, False, st)"

lemma match_loop_step:
  "unforced k \<noteq> NEGATE_MATCH_TOKEN \<Longrightarrow> match_loop attr isIf ((k, re) # ms) neg st =
     (case entry_step attr isIf k re st of (cont, br, st) \<Rightarrow> if \<not> cont \<and> br then (neg, st) else match_loop attr isIf ms neg st)"
  by (simp add: entry_step_def match_keys_def Let_def split: prod.splits)

lemma entry_missing:
  assumes "forced_missing attr (k, re)" "isIf \<or> list_all (\<lambda>key. \<not> is_interface_key key) (match_keys k)"
  shows "\<exists>st'. entry_step attr isIf k re st = (False, True, st') \<and> \<not> keepForOtherMatch st' \<and>
     0 < seenNonAdmin st' \<and> dropOnAdminStatus st' = dropOnAdminStatus st"
proof -
  have "\<not> list_ex (\<lambda>key. map_of attr key \<noteq> None) (match_keys k)"
    using assms(1) by (auto simp: forced_missing_def list_all_iff list_ex_iff)
  then show ?thesis
    using check_keys_missing [OF match_keys_not_Nil _ assms(2), of attr re False False st] assms(1)
    by (simp add: entry_step_def forced_missing_def)
qed

lemma entry_plain:
  assumes "\<not> forced_missing attr (k, re)" "AdminStatus \<notin> set (match_keys k)"
    and "isIf \<or> list_all (\<lambda>key. \<not> is_interface_key key) (match_keys k)"
  shows "\<exists>n. entry_step attr isIf k re st =
      (False, False, st\<lparr>seenNonAdmin := n, keepForOtherMatch := keepForOtherMatch st \<or> matches attr (k, re)\<rparr>) \<and>
    (0 < n \<longleftrightarrow> 0 < seenNonAdmin st \<or> present attr (k, re))"
proof -
  let ?ks = "match_keys k"
  have "\<not> (is_forced k \<and> \<not> (is_forced k \<and> list_ex (\<lambda>key. map_of attr key \<noteq> None) ?ks))"
    using assms(1) by (auto simp: forced_missing_def list_all_iff list_ex_iff)
  note run = check_keys_plain [OF match_keys_not_Nil assms(2,3) this, of attr re False False st]
  have others: "other_keys (k, re) = ?ks" using assms(2) by (auto simp: other_keys_def filter_id_conv)
  have "0 < length (filter (\<lambda>key. text_of attr key \<noteq> None) ?ks) \<longleftrightarrow> present attr (k, re)"
    by (auto simp: present_def others list_ex_iff filter_empty_conv)
  moreover have "matches attr (k, re) \<longleftrightarrow> list_ex (\<lambda>key. case text_of attr key of Some s \<Rightarrow> re s | None \<Rightarrow> False) ?ks"
    by (simp add: matches_def others cong: option.case_cong)
  ultimately show ?thesis
    using run by (intro exI [of _ "seenNonAdmin st + length (filter (\<lambda>key. text_of attr key \<noteq> None) ?ks)"])
      (simp add: entry_step_def)
qed

lemma entry_admin:
  assumes "\<not> forced_missing attr (k, re)" "match_keys k = [AdminStatus]" "isIf" "\<not> dropOnAdminStatus st"
  shows "entry_step attr isIf k re st =
    (if admin_refused attr (k, re) then (False, True, st\<lparr>dropOnAdminStatus := True\<rparr>) else (False, False, st))"
  using assms by (auto simp: entry_step_def checkFilter_def admin_refused_def forced_missing_def text_of_def split: option.splits jval.splits)

lemma match_loop_verdict:
  assumes "\<forall>(k, re) \<in> set ms. plain_match isIf k" "\<not> dropOnAdminStatus st"
  shows "verdict (match_loop attr isIf ms False st) =
    refuses attr (filter (\<lambda>e. counts isIf (fst e)) ms) (keepForOtherMatch st) (0 < seenNonAdmin st)"
  using assms
proof (induction ms arbitrary: st)
  case Nil
  then show ?case by (simp add: verdict_def refuses_def)
next
  case (Cons e ms)
  obtain k re where e: "e = (k, re)" by (cases e)
  have plain: "plain_match isIf k" and rest: "\<forall>(k, re) \<in> set ms. plain_match isIf k" using Cons.prems e by auto
  note loop = match_loop_step [of k attr isIf re ms False st]
  show ?case
  proof (cases "counts isIf k")
    case False
    then have "entry_step attr isIf k re st = (True, False, st)"
      using check_keys_skip [OF match_keys_not_Nil, of k] by (simp add: entry_step_def counts_def)
    then show ?thesis using Cons.IH [OF rest Cons.prems(2)] loop plain e False by (simp add: plain_match_def)
  next
    case True
    then have keys: "isIf \<or> list_all (\<lambda>key. \<not> is_interface_key key) (match_keys k)"
      using plain by (auto simp: counts_def plain_match_def)
    consider "forced_missing attr (k, re)" | "\<not> forced_missing attr (k, re)" "match_keys k = [AdminStatus]"
      | "\<not> forced_missing attr (k, re)" "AdminStatus \<notin> set (match_keys k)" using plain unfolding plain_match_def by blast
    then show ?thesis
    proof cases
      case 1
      then show ?thesis
        using entry_missing [OF 1 keys, of st] loop plain e True Cons.prems(2)
        by (auto simp: plain_match_def verdict_def refuses_def)
    next
      case 2
      have "isIf" using keys 2(2) by (auto simp: is_interface_key_def)
      moreover have "other_keys (k, re) = []" using 2(2) by (simp add: other_keys_def)
      ultimately show ?thesis
        using entry_admin [OF 2] Cons.IH [OF rest Cons.prems(2)] Cons.prems(2) loop plain e True 2(1)
        by (auto simp: plain_match_def verdict_def refuses_def present_def matches_def)
    next
      case 3
      obtain n where n: "entry_step attr isIf k re st =
          (False, False, st\<lparr>seenNonAdmin := n, keepForOtherMatch := keepForOtherMatch st \<or> matches attr (k, re)\<rparr>)"
        "0 < n \<longleftrightarrow> 0 < seenNonAdmin st \<or> present attr (k, re)"
        using entry_plain [OF 3 keys] by blast
      have "\<not> admin_refused attr (k, re)" using 3(2) by (auto simp: admin_refused_def)
      then show ?thesis
        using Cons.IH [OF rest, of "st\<lparr>seenNonAdmin := n, keepForOtherMatch := keepForOtherMatch st \<or> matches attr (k, re)\<rparr>"]
          n Cons.prems(2) loop plain e True 3(1)
        by (auto simp: plain_match_def refuses_def)
    qed
  qed
qed


definition demo_metadata :: "(string \<times> (string \<Rightarrow> bool)) list \<Rightarrow> LastMetadata" where
  "demo_metadata ms = \<lparr>lm_DeviceInfo = [], lm_InterfaceInfo = [], lm_Tables = [], lm_MatchAttr = Some ms, lm_XtraInfo = []\<rparr>"


text \<open>
  With the token that negates the filter the order matters: a forced entry that is missing ends the loop, and the
  token counts only when it was met before.
\<close>

lemma negated_match_order:
  "DropOnFilter [] (Some (demo_metadata [(''!site'', \<lambda>s. True), (''DOES_NOT_MATCH'', \<lambda>s. True)])) False \<and>
   \<not> DropOnFilter [] (Some (demo_metadata [(''DOES_NOT_MATCH'', \<lambda>s. True), (''!site'', \<lambda>s. True)])) False"
  by (simp add: DropOnFilter_def demo_metadata_def is_forced_def unforced_def FORCE_MATCH_TOKEN_def NEGATE_MATCH_TOKEN_def
    strings_HasPrefix_def key_alternatives_def OR_TOKEN_def strings_Split.simps checkFilter_def is_interface_key_def AdminStatus_def)

text \<open>A forced entry whose attribute is there and does not match does not end the loop.\<close>

lemma forced_mismatch_goes_on:
  assumes "is_forced k" "match_keys k = [key]" "key \<noteq> AdminStatus" "map_of attr key = Some (JStr s)" "isIf \<or> \<not> is_interface_key key"
  shows "\<exists>st'. entry_step attr isIf k re st = (False, False, st')"
  using entry_plain [of attr k re isIf st] assms by (auto simp: forced_missing_def)

end
