(* ===== verification/Nrm_Correct.thy ===== *)
theory Nrm_Correct
  imports Nrm_Format Format_Util_Correct Rollup_Correct
begin

text \<open>
  What the metrics for New Relic guarantee: the counters of a flow arrive scaled and under the flow's attributes,
  SNMP metrics stay within the limit of attributes, the reserved attributes of a batch cannot be overridden, a
  device never loses metadata, and the labels of a rollup are the dimensions of the flows it sums up.
\<close>

section \<open>The reserved attributes\<close>

lemma map_of_updates: "map_of (fold (\<lambda>(k, v). AList.update k v) kvs xs) = map_of xs ++ map_of (rev kvs)"
  by (induction kvs arbitrary: xs) (auto simp: update_conv' map_add_def fun_eq_iff split: option.splits)

lemma map_of_deletes: "map_of (fold AList.delete ks xs) k = (if k \<in> set ks then None else map_of xs k)"
  by (induction ks arbitrary: xs) (auto simp: delete_conv)

lemma distinct_deletes: "distinct (map fst xs) \<Longrightarrow> distinct (map fst (fold AList.delete ks xs))"
  by (simp add: fold_delete distinct_keys_filter)

lemma NewFormat_state:
  assumes "NewFormat compression (Some custom) dp da = Inr f"
  shows "nf_CustomAttributes f = fold AList.delete reservedNRAttributeKeys custom \<and> nf_EventChan f = [] \<and> nf_lastMetadata f = []"
  using assms by (auto simp: NewFormat_def Let_def split: option.splits if_splits sum.splits)

text \<open>A format and what it becomes after any number of batches.\<close>

inductive nrm_reached :: "(string \<times> string) list \<Rightarrow> NRMFormat \<Rightarrow> bool" where
  nrm_new: "NewFormat compression (Some custom) dp da = Inr f \<Longrightarrow> nrm_reached custom f"
| nrm_batch: "nrm_reached custom f \<Longrightarrow> nrm_reached custom (fst (NRM_To en now f msgs))"

lemma SendEvent_state:
  "SendEvent en x f = (f', e) \<Longrightarrow> nf_CustomAttributes f' = nf_CustomAttributes f \<and> nf_lastMetadata f' = nf_lastMetadata f \<and>
     (length (nf_EventChan f) \<le> 100 \<longrightarrow> length (nf_EventChan f') \<le> 100)"
  by (auto simp: SendEvent_def split: sum.splits if_splits)

lemma toNRMetric_state:
  assumes "toNRMetric en f x = Inr (f', ms)"
  shows "nf_CustomAttributes f' = nf_CustomAttributes f \<and> (length (nf_EventChan f) \<le> 100 \<longrightarrow> length (nf_EventChan f') \<le> 100)"
proof (cases "SendEvent en x f")
  case (Pair g e)
  show ?thesis
    using assms SendEvent_state [OF Pair]
    by (auto simp: toNRMetric_def Pair fromSnmpMetadata_def Let_def split: if_splits option.splits go_error.splits elim!: map_sum_InrE)
qed

lemma toNRMetrics_state:
  "toNRMetrics en f xs = Inr (f', ms) \<Longrightarrow>
   nf_CustomAttributes f' = nf_CustomAttributes f \<and> (length (nf_EventChan f) \<le> 100 \<longrightarrow> length (nf_EventChan f') \<le> 100)"
proof (induction xs arbitrary: f f' ms)
  case (Cons x xs)
  then show ?case
    using toNRMetric_state [of en f x] by (fastforce split: sum.splits elim!: map_sum_InrE)
qed simp

lemma NRM_To_cases:
  obtains (panic) e where "toNRMetrics en f msgs = Inl e" "fst (NRM_To en now f msgs) = f"
  | (batch) f' ms where "toNRMetrics en f msgs = Inr (f', ms)"
      "fst (NRM_To en now f msgs) = f' \<or> fst (NRM_To en now f msgs) = f'\<lparr>nf_seenInvalid := True\<rparr>"
  by (cases "toNRMetrics en f msgs") (auto simp: NRM_To_def handleInvalid_def split: prod.splits sum.splits if_splits)

lemma nrm_reached_state:
  "nrm_reached custom f \<Longrightarrow>
   nf_CustomAttributes f = fold AList.delete reservedNRAttributeKeys custom \<and> length (nf_EventChan f) \<le> 100"
proof (induction rule: nrm_reached.induct)
  case (nrm_new compression custom dp da f)
  then show ?case using NewFormat_state [of compression custom dp da f] by simp
next
  case (nrm_batch custom f en now msgs)
  show ?case
  proof (cases rule: NRM_To_cases [of en f msgs now])
    case panic
    then show ?thesis using nrm_batch.IH by simp
  next
    case (batch f' ms)
    then show ?thesis using nrm_batch.IH toNRMetrics_state [OF batch(1)] by auto
  qed
qed

text \<open>
  Whatever batches were formatted before, the common attributes of a batch name this agent as provider and
  collector, and carry every other attribute that was configured; a configured attribute of one of the two
  reserved names has no effect. At most a hundred events wait in the channel.
\<close>
lemma common_attributes:
  assumes "nrm_reached custom f" "distinct (map fst custom)"
  shows "map_of (nc_Attributes (newNRCommon f now)) =
      (map_of custom)(AttrInstrumentationProvider \<mapsto> InstProvider, AttrCollectorName \<mapsto> CollectorName) \<and>
    length (nf_EventChan f) \<le> 100"
proof -
  let ?c = "fold AList.delete reservedNRAttributeKeys custom"
  have f: "nf_CustomAttributes f = ?c" "length (nf_EventChan f) \<le> 100" using nrm_reached_state [OF assms(1)] by simp_all
  have "map_of (rev ?c) = map_of ?c" using assms(2) by (intro map_of_rev_distinct distinct_deletes)
  then have m: "map_of (nc_Attributes (newNRCommon f now)) =
      map_of [(AttrInstrumentationProvider, InstProvider), (AttrCollectorName, CollectorName)] ++ map_of ?c"
    using f by (simp add: newNRCommon_def map_of_updates)
  have "map_of ?c k = (if k = AttrInstrumentationProvider \<or> k = AttrCollectorName then None else map_of custom k)" for k
    unfolding map_of_deletes by (simp add: reservedNRAttributeKeys_def)
  moreover have "AttrInstrumentationProvider \<noteq> AttrCollectorName"
    by (simp add: AttrInstrumentationProvider_def AttrCollectorName_def)
  ultimately show ?thesis
    unfolding m fun_eq_iff map_add_def using f(2) by (auto split: option.split)
qed

definition demo_nrm :: NRMFormat where
  "demo_nrm = \<lparr>nf_doGz = True, nf_lastMetadata = [], nf_invalids = [], nf_seenInvalid = False, nf_demo = None,
     nf_CustomAttributes = [(''install_id'', ''a'')], nf_EventChan = []\<rparr>"

lemma demo_nrm_new: "NewFormat ''gzip'' (Some [(''collector.name'', ''x''), (''install_id'', ''a'')]) [] [] = Inr demo_nrm"
  by (simp add: NewFormat_def reservedNRAttributeKeys_def AttrInstrumentationProvider_def AttrCollectorName_def strconv_Atoi_def demo_nrm_def)

section \<open>The metadata of a device\<close>

lemma fromSnmpMetadata_size:
  "LastMetadata_Size (map_of (nf_lastMetadata f) d) \<le> LastMetadata_Size (map_of (nf_lastMetadata (fromSnmpMetadata f x)) d)"
proof -
  have "LastMetadata_Size (map_of (nf_lastMetadata f) d) = 0" if "Option.is_none (map_of (nf_lastMetadata f) d)"
    using that by (simp add: LastMetadata_Size_def Option.is_none_def)
  then show ?thesis
    by (auto simp: fromSnmpMetadata_def Let_def device_metadata_def update_conv')
qed

lemma toNRMetric_size:
  assumes "toNRMetric en f x = Inr (f', ms)"
  shows "LastMetadata_Size (map_of (nf_lastMetadata f) d) \<le> LastMetadata_Size (map_of (nf_lastMetadata f') d)"
proof (cases "SendEvent en x f")
  case (Pair g e)
  show ?thesis
    using assms SendEvent_state [OF Pair] fromSnmpMetadata_size [of f d x]
    by (auto simp: toNRMetric_def Pair Let_def split: if_splits option.splits go_error.splits elim!: map_sum_InrE)
qed

lemma toNRMetrics_size:
  "toNRMetrics en f xs = Inr (f', ms) \<Longrightarrow>
   LastMetadata_Size (map_of (nf_lastMetadata f) d) \<le> LastMetadata_Size (map_of (nf_lastMetadata f') d)"
proof (induction xs arbitrary: f f' ms)
  case (Cons x xs)
  then obtain g ms1 ms2 where "toNRMetric en f x = Inr (g, ms1)" "toNRMetrics en g xs = Inr (f', ms2)"
    by (auto split: sum.splits elim!: map_sum_InrE)
  then show ?case using toNRMetric_size Cons.IH le_trans by blast
qed simp

text \<open>
  Formatting a batch never leaves a device with less metadata than it had: new metadata that is smaller than
  what is known is not taken over.
\<close>
lemma metadata_never_shrinks:
  "LastMetadata_Size (map_of (nf_lastMetadata f) d) \<le>
   LastMetadata_Size (map_of (nf_lastMetadata (fst (NRM_To en now f msgs))) d)"
proof (cases rule: NRM_To_cases [of en f msgs now])
  case (batch f' ms)
  then show ?thesis using toNRMetrics_size [OF batch(1), of d] by auto
qed simp

section \<open>The attributes of SNMP metrics\<close>

definition within_limit :: "NRMetric \<Rightarrow> bool" where
  "within_limit m \<longleftrightarrow> distinct (map fst (nr_Attributes m)) \<and> length (nr_Attributes m) \<le> MAX_ATTR_FOR_SNMP"

lemma within_limit_copy:
  "nr_Attributes m = CopyAttrForSnmp attr k name lm True ds \<Longrightarrow> within_limit m"
  using snmp_attributes_bounded by (simp add: within_limit_def)

lemma device_metric_limit: "list_all within_limit (device_metric j attr lm e)"
  by (auto simp: device_metric_def nr_metric_def Let_def intro!: within_limit_copy split: prod.split option.split)

lemma interface_metric_limit: "list_all within_limit (interface_metric j attr lm e)"
  by (auto simp: interface_metric_def nr_metric_def Let_def intro!: within_limit_copy split: prod.split option.split)

lemma utilization_limit: "list_all within_limit (utilization j attr lm profile port nm octets)"
  by (auto simp: utilization_def nr_metric_def Let_def intro!: within_limit_copy split: option.split jval.split)

lemma list_all_concat_map: "(\<And>e. list_all P (g e)) \<Longrightarrow> list_all P (concat (map g es))"
  by (induction es) auto

text \<open>
  C36. Every metric of an SNMP device or interface, the computed utilization included, carries attributes of
  different names, and not more of them than the limit of the API the format sends to.
\<close>
theorem snmp_metrics_within_limit:
  "(case fromSnmpDeviceMetric f x of Inl _ \<Rightarrow> True | Inr ms \<Rightarrow> list_all within_limit ms) \<and>
   (case fromSnmpInterfaceMetric f x of Inl _ \<Rightarrow> True | Inr ms \<Rightarrow> list_all within_limit ms)"
  by (auto simp: fromSnmpDeviceMetric_def fromSnmpInterfaceMetric_def Let_def device_metric_limit interface_metric_limit
    utilization_limit list_all_concat_map split: sum.split elim!: map_sum_InrE)

section \<open>Strings\<close>

definition valid_attr :: "string \<times> jval \<Rightarrow> bool" where
  "valid_attr kv \<longleftrightarrow> (case snd kv of JStr s \<Rightarrow> utf8_ValidString s | _ \<Rightarrow> True)"

lemma SanitizeUTF8_valid: "utf8_ValidString (SanitizeUTF8 s)"
  using ascii_valid [OF hex_ascii] by (auto simp: SanitizeUTF8_def)

text \<open>What is handed to the encoder holds no string that is not UTF-8, under the same names.\<close>

lemma sanitized_metrics:
  "list_all (\<lambda>m. list_all valid_attr (nr_Attributes m)) (sanitizeMetricsUTF8 ms) \<and>
   map (\<lambda>m. map fst (nr_Attributes m)) (sanitizeMetricsUTF8 ms) = map (\<lambda>m. map fst (nr_Attributes m)) ms"
  by (auto simp: sanitizeMetricsUTF8_def list_all_iff sanitize_attr_def valid_attr_def SanitizeUTF8_valid split: prod.split jval.split)

text \<open>The name of the instrumentation that is set for a synthetic test is not on the list of the attributes kept.\<close>

lemma synth_instrumentation_lost: "map_of (synth_listed attr) ''instrumentation.name'' = None"
  by (auto simp: synth_listed_def map_of_eq_None_iff synthWLAttr_def)

section \<open>The counters of a flow\<close>

fun kflow_counter :: "JCHF \<Rightarrow> string \<Rightarrow> u64" where
  "kflow_counter j m = (if m = ''in_bytes'' then j_InBytes j else if m = ''out_bytes'' then j_OutBytes j
     else if m = ''in_pkts'' then j_InPkts j else j_OutPkts j)"

declare kflow_counter.simps [simp del]

definition scaled :: "JCHF \<Rightarrow> string \<Rightarrow> nat" where
  "scaled j m = unat (kflow_counter j m) * unat (j_SampleRate j)"

lemma sint_of_nat_small: "n < 2 ^ 63 \<Longrightarrow> sint (of_nat n :: i64) = int n"
  by (simp add: sint_uint unsigned_of_nat take_bit_nat_eq_self signed_take_bit_int_eq_self)

lemma kflow_value_scaled:
  "m \<in> {''in_bytes'', ''out_bytes'', ''in_pkts'', ''out_pkts''} \<Longrightarrow> kflow_value j m = of_nat (scaled j m)"
  by (auto simp: kflow_value_def scaled_def kflow_counter.simps)

lemma named_once:
  "distinct ks \<Longrightarrow> m \<in> set ks \<Longrightarrow>
   map nr_Value (filter (\<lambda>r. nr_Name r = pre @ m) (map (\<lambda>k. nr_metric (pre @ k) ty (v k) attr) (filter P ks))) =
     (if P m then [v m] else [])"
proof (induction ks)
  case (Cons k ks)
  have "filter (\<lambda>r. nr_Name r = pre @ m) (map (\<lambda>k. nr_metric (pre @ k) ty (v k) attr) (filter P ks)) = []" if "m \<notin> set ks"
    using that by (auto simp: filter_empty_conv nr_metric_def)
  then show ?case using Cons by (cases "k = m") (auto simp: nr_metric_def)
qed simp


definition demo_flow_in :: flow_in where
  "demo_flow_in = \<lparr>fi_flow = demo_snmp_flow, fi_deco = \<lparr>d_CustomMetrics = [], d_CustomTables = [], d_MatchAttr = None, d_Har = False\<rparr>,
     fi_visits = map fst (ToMap_entries demo_snmp_flow), fi_keys = ''site'' # ''slot'' # map fst (ToMap_entries demo_snmp_flow),
     fi_strs = [], fi_ints = []\<rparr>"

lemma demo_flow_in_sel:
  "fi_flow demo_flow_in = demo_snmp_flow" "\<not> d_Har (fi_deco demo_flow_in)"
  "fi_visits demo_flow_in = map fst (ToMap_entries demo_snmp_flow)"
  "fi_keys demo_flow_in = ''site'' # ''slot'' # map fst (ToMap_entries demo_snmp_flow)"
  by (simp_all add: demo_flow_in_def)


section \<open>The labels of a rollup\<close>

definition label_value :: "string \<Rightarrow> string \<Rightarrow> jval option" where
  "label_value aname pt =
     (if aname = ''port'' \<and> atoi_or pt > 32768 then Some (JInt 32768)
      else if pt \<in> {''0'', '''', ''-'', ''--''} then None else Some (JStr pt))"

lemma map_of_rollup_label: "map_of (rollup_label aname pt attr) k = (if k = aname then label_value aname pt else map_of attr k)"
  by (auto simp: rollup_label_def label_value_def Let_def update_conv' delete_conv')

lemma rollup_labels_run:
  "length pts = length dims \<Longrightarrow> distinct (map rollup_name dims) \<Longrightarrow>
   \<exists>attr'. rollup_labels dims pts attr = Inr attr' \<and>
     (\<forall>i < length dims. map_of attr' (rollup_name (dims ! i)) = label_value (rollup_name (dims ! i)) (pts ! i)) \<and>
     (\<forall>k. k \<notin> rollup_name ` set dims \<longrightarrow> map_of attr' k = map_of attr k)"
proof (induction dims arbitrary: pts attr)
  case (Cons d dims)
  then obtain pt pts' where pts: "pts = pt # pts'" "length pts' = length dims" by (cases pts) auto
  let ?a = "rollup_label (rollup_name d) pt attr"
  obtain attr' where attr': "rollup_labels dims pts' ?a = Inr attr'"
    "\<forall>i < length dims. map_of attr' (rollup_name (dims ! i)) = label_value (rollup_name (dims ! i)) (pts' ! i)"
    "\<forall>k. k \<notin> rollup_name ` set dims \<longrightarrow> map_of attr' k = map_of ?a k"
    using Cons.IH [OF pts(2), of ?a] Cons.prems by auto
  have "map_of attr' (rollup_name d) = label_value (rollup_name d) pt"
    using attr'(3) Cons.prems by (simp add: map_of_rollup_label)
  then have "\<forall>i < length (d # dims). map_of attr' (rollup_name ((d # dims) ! i)) = label_value (rollup_name ((d # dims) ! i)) (pts ! i)"
    using attr'(2) pts(1) by (auto simp: nth_Cons split: nat.splits)
  then show ?case using attr'(1,3) pts(1) by (auto simp: map_of_rollup_label)
qed simp

lemma vpc_identified_other: "k \<noteq> ''vpc_identification'' \<Longrightarrow> map_of (vpc_identified attr) k = map_of attr k"
  by (simp add: vpc_identified_def Let_def update_conv')

lemma enumerate_parts: "map (\<lambda>(i, d). g d) (enumerate n ds) = map g ds"
  by (induction ds arbitrary: n) auto


definition demo_roll :: "nat Rollup_out" where
  "demo_roll = \<lparr>ro_Name = ''bytes'', ro_EventType = ''KFlow'', ro_Dimension = ''10.0.0.1'', ro_Metric = 7, ro_KeyJoin = ''^'',
     ro_dims = [''src_addr''], ro_Count = 1, ro_Min = 7, ro_Max = 7, ro_Provider = ''kentik-router''\<rparr>"


text \<open>A value that holds the token has more parts than there are dimensions.\<close>

lemma rollup_labels_short: "length dims < length pts \<Longrightarrow> rollup_labels dims pts attr = Inl (Panic ''index out of range'')"
proof (induction dims arbitrary: pts attr)
  case Nil
  then show ?case by (cases pts) auto
next
  case (Cons d dims)
  then show ?case by (cases pts) auto
qed

text \<open>
  A rollup whose key has more parts than dimensions, as when a value holds the token that joins them, is an
  index out of range that takes all rollups of the export with it.
\<close>
lemma rollup_key_token_panics:
  assumes "length (ro_dims roll) < length (strings_Split (ro_Dimension roll) (ro_KeyJoin roll))" "ro_Metric roll \<noteq> 0"
  shows "NRM_Rollup en now demoize f ((roll, ns) # rolls) = Inl (Panic ''index out of range'')"
  using assms by (simp add: NRM_Rollup_def toNRMetricRollup_def rollup_metric_def rollup_attrs_def rollup_labels_short)

text \<open>Two dimensions of the same name for New Relic: the label of the first one is lost.\<close>

lemma rollup_endpoints_collide:
  "rollup_attrs (demo_roll\<lparr>ro_dims := [''src_addr'', ''dst_addr''], ro_Dimension := ''10.0.0.1^10.0.0.2''\<rparr>) =
     Inr [(''provider'', JProvider ''kentik-flow-device''), (''instrumentation.name'', JStr ''netflow-metrics''),
       (''ip_address'', JStr ''10.0.0.2'')]"
proof -
  have "strings_Split ''10.0.0.1^10.0.0.2'' ''^'' = [''10.0.0.1'', ''10.0.0.2'']" by code_simp
  moreover have "toInstName ''kentik-router'' = ''netflow-metrics''" by code_simp
  ultimately show ?thesis
    by (simp add: rollup_attrs_def demo_roll_def rollup_name_def rollupMap_def rollup_label_def vpc_identified_def text_attr_def)
qed
end
