(* ===== verification/Snmp_Conv.thy ===== *)
theory Snmp_Conv
  imports Go_Net Netflow_Read
begin

text \<open>
  \<^verbatim>\<open>pkg/inputs/snmp/util\<close>: the conversions of values polled from a device, the choice of polling times, and the
  retries of a walk; and \<^verbatim>\<open>vendor/powerset.go\<close>. A function that may panic returns the panic as an error value;
  \<^verbatim>\<open>GetFromConv\<close> recovers from it. The regular expression engine and the SNMP client are arguments. Log lines are
  left out.
\<close>

section \<open>Values\<close>

datatype snmp_value =
    S_nil
  | S_bytes bytes
  | S_string string
  | S_uint u64 | S_uint8 u8 | S_uint16 u16 | S_uint32 u32 | S_uint64 u64
  | S_int u64 | S_int8 u8 | S_int16 u16 | S_int32 u32 | S_int64 u64

text \<open>The types of gosnmp the code tells apart.\<close>

datatype asn1_type = OctetString | BitString | IPAddress | ObjectIdentifier | Integer
  | Counter32 | Gauge32 | TimeTicks | Counter64 | Uinteger32 | NoSuchObject | OtherType

record SnmpPDU =
  pdu_Value :: snmp_value
  pdu_Name :: string
  pdu_Type :: asn1_type

definition bytes_string :: "bytes \<Rightarrow> string" where
  "bytes_string bs = map (\<lambda>b. char_of (unat b)) bs"

text \<open>\<^verbatim>\<open>bytes.Trim(value, "\x00")\<close>\<close>

definition trim_zeros :: "bytes \<Rightarrow> bytes" where
  "trim_zeros bs = rev (dropWhile (\<lambda>b. b = 0) (rev (dropWhile (\<lambda>b. b = 0) bs)))"

definition MAX_SNMP_LEN :: nat where
  "MAX_SNMP_LEN = 128"

definition ReadOctetString :: "SnmpPDU \<Rightarrow> bool \<Rightarrow> (string \<times> bool) res" where
  "ReadOctetString pdu trunc =
     (if pdu_Type pdu \<noteq> OctetString then Inr ('''', False)
      else case pdu_Value pdu of
          S_bytes value \<Rightarrow>
            let value = trim_zeros value;
                value = (if trunc \<and> length value > MAX_SNMP_LEN then take MAX_SNMP_LEN value else value) in
            Inr (bytes_string value, True)
        | _ \<Rightarrow> Inl (Panic ''interface conversion''))"

text \<open>The 64-bit pattern of the \<^verbatim>\<open>int64\<close>; signed types are sign extended.\<close>

fun ToInt64 :: "snmp_value \<Rightarrow> u64" where
  "ToInt64 (S_uint v) = v"
| "ToInt64 (S_uint8 v) = ucast v"
| "ToInt64 (S_uint16 v) = ucast v"
| "ToInt64 (S_uint32 v) = ucast v"
| "ToInt64 (S_uint64 v) = v"
| "ToInt64 (S_int v) = v"
| "ToInt64 (S_int8 v) = scast v"
| "ToInt64 (S_int16 v) = scast v"
| "ToInt64 (S_int32 v) = scast v"
| "ToInt64 (S_int64 v) = v"
| "ToInt64 _ = 0"

definition ContainsAny :: "string \<Rightarrow> string list \<Rightarrow> bool" where
  "ContainsAny s substrs \<longleftrightarrow> list_ex (strings_Contains s) substrs"

text \<open>\<^verbatim>\<open>strings.Index\<close> is -1 for a string that does not occur.\<close>

definition strings_Index :: "string \<Rightarrow> string \<Rightarrow> int" where
  "strings_Index s sub = (case str_cut sub s of None \<Rightarrow> -1 | Some (a, b) \<Rightarrow> int (length a))"

definition GetIndex :: "string \<Rightarrow> string \<Rightarrow> string" where
  "GetIndex value prefix =
     (let posit = strings_Index value prefix + int (length prefix) in
      if int (length value) > posit then drop (nat posit) value else '''')"

section \<open>The status bits of an uninterruptible power supply\<close>

record UpsCode =
  uc_Severity :: nat
  uc_Index :: nat
  uc_Dependancy :: nat
  uc_Status :: string

definition ups_code :: "nat \<Rightarrow> nat \<Rightarrow> nat \<Rightarrow> string \<Rightarrow> UpsCode" where
  "ups_code sev i dep st = \<lparr>uc_Severity = sev, uc_Index = i, uc_Dependancy = dep, uc_Status = st\<rparr>"

definition severities :: "string list" where
  "severities = [''Informational'', ''Warning'', ''High'', ''Disaster'']"

definition upsCodes :: "UpsCode list" where
  "upsCodes = [
     ups_code 2 0 0 ''Abnormal Condition Present'',
     ups_code 3 1 28 ''On Battery'',
     ups_code 3 2 0 ''Low Battery'',
     ups_code 1 3 0 ''On Line'',
     ups_code 3 4 0 ''Replace Battery'',
     ups_code 1 5 0 ''Serial Communication Established'',
     ups_code 1 6 0 ''AVR Boost Active'',
     ups_code 1 7 0 ''AVR Trim Active'',
     ups_code 3 8 28 ''Overload'',
     ups_code 1 9 0 ''Runtime Calibration '',
     ups_code 3 10 28 ''Batteries Discharged'',
     ups_code 2 11 0 ''Manual Bypass'',
     ups_code 2 12 0 ''Software Bypass'',
     ups_code 3 13 0 ''In Bypass due to Internal Fault'',
     ups_code 3 14 0 ''In Bypass due to Supply Failure'',
     ups_code 3 15 0 ''In Bypass due to Fan Failure'',
     ups_code 1 16 0 ''Sleeping on a Timer'',
     ups_code 2 17 0 ''Sleeping until Utility Power Returns'',
     ups_code 1 18 0 ''Powered On'',
     ups_code 2 19 0 ''Rebooting'',
     ups_code 2 20 0 ''Battery Communication Lost'',
     ups_code 1 21 0 ''Graceful Shutdown Initiated'',
     ups_code 1 22 0 ''Smart Boost or Smart Trim Fault'',
     ups_code 3 23 28 ''Bad Output Voltage'',
     ups_code 3 24 0 ''Battery Charger Failure'',
     ups_code 2 25 28 ''High Battery Temperature'',
     ups_code 3 26 0 ''Warning Battery Temperature'',
     ups_code 4 27 0 ''Critical Battery Temperature'',
     ups_code 2 28 0 ''Self Test In Progress'',
     ups_code 3 29 28 ''Low Battery / On Battery'',
     ups_code 1 30 0 ''Graceful Shutdown Issued by Upstream Device'',
     ups_code 1 31 0 ''Graceful Shutdown Issued by Downstream Device'',
     ups_code 4 32 0 ''No Batteries Attached'',
     ups_code 1 33 0 ''Synchronized Command is in Progress'',
     ups_code 1 34 0 ''Synchronized Sleeping Command is in Progress'',
     ups_code 1 35 0 ''Synchronized Rebooting Command is in Progress '',
     ups_code 2 36 0 ''Inverter DC Imbalance '',
     ups_code 3 37 0 ''Transfer Relay Failure'',
     ups_code 3 38 0 ''Shutdown or Unable to Transfer'',
     ups_code 3 39 0 ''Low Battery Shutdown'',
     ups_code 3 40 0 ''Electronic Unit Fan Failure'',
     ups_code 3 41 0 ''Main Relay Failure'',
     ups_code 3 42 0 ''Bypass Relay Failure'',
     ups_code 2 43 0 ''Temporary Bypass'',
     ups_code 3 44 0 ''High Internal Temperature'',
     ups_code 3 45 0 ''Battery Temperature Sensor Fault'',
     ups_code 2 46 0 ''Input Out of Range for Bypass'',
     ups_code 3 47 0 ''DC Bus Overvoltage'',
     ups_code 2 48 0 ''PFC Failure'',
     ups_code 3 49 0 ''Critical Hardware Fault'',
     ups_code 1 50 0 ''Green Mode/ECO Mode'',
     ups_code 1 51 0 ''Hot Standby'',
     ups_code 3 52 0 ''Emergency Power Off (EPO) Activated'',
     ups_code 2 53 0 ''Load Alarm Violation'',
     ups_code 3 54 0 ''Bypass Phase Fault'',
     ups_code 2 55 0 ''UPS Internal Communication Failure'',
     ups_code 1 56 0 ''Efficiency Booster Mode'',
     ups_code 2 57 0 ''Off'',
     ups_code 2 58 0 ''Standby'',
     ups_code 1 59 0 ''Not Used'',
     ups_code 1 60 0 ''Not Used'',
     ups_code 1 61 0 ''Not Used'',
     ups_code 1 62 0 ''Not Used'',
     ups_code 1 63 0 ''Not Used'']"

text \<open>The first loop: a \<^verbatim>\<open>1\<close> at position \<open>i\<close> activates the code of that index.\<close>

fun set_actives :: "nat \<Rightarrow> bytes \<Rightarrow> UpsCode option list \<Rightarrow> UpsCode option list res" where
  "set_actives i [] actives = Inr actives"
| "set_actives i (v # bv) actives =
     (if v = 0x31
      then (if i < length actives then set_actives (Suc i) bv (actives[i := Some (upsCodes ! i)])
            else Inl (Panic ''index out of range''))
      else set_actives (Suc i) bv actives)"

definition add_status :: "UpsCode \<Rightarrow> (nat \<Rightarrow> string list) \<Rightarrow> nat \<Rightarrow> string list" where
  "add_status c severity = severity(uc_Severity c := severity (uc_Severity c) @ [uc_Status c])"

text \<open>The second loop: a code whose dependency is active is left out.\<close>

fun add_active :: "UpsCode option list \<Rightarrow> UpsCode option \<Rightarrow> (nat \<Rightarrow> string list) \<Rightarrow> nat \<Rightarrow> string list" where
  "add_active actives None severity = severity"
| "add_active actives (Some c) severity =
     (if uc_Dependancy c > 0
      then (if actives ! uc_Dependancy c \<noteq> None then severity else add_status c severity)
      else add_status c severity)"

text \<open>\<^verbatim>\<open>for i := len(severities); i > 0; i--\<close>\<close>

fun highest :: "nat \<Rightarrow> (nat \<Rightarrow> string list) \<Rightarrow> nat \<times> string" where
  "highest 0 severity = (0, '''')"
| "highest (Suc i) severity =
     (if length (severity (Suc i)) > 0
      then (Suc i, severities ! i @ '': '' @ strings_Join (severity (Suc i)) '','')
      else highest i severity)"

definition HandlePowersetStatus :: "bytes \<Rightarrow> (nat \<times> string) res" where
  "HandlePowersetStatus bv =
     (case set_actives 0 bv (replicate (length upsCodes) None) of
        Inl e \<Rightarrow> Inl e
      | Inr actives \<Rightarrow> Inr (highest (length severities) (fold (add_active actives) actives (\<lambda>_. []))))"

section \<open>Conversions\<close>

text \<open>The result: a number, a string and, for named groups, a map.\<close>

type_synonym conv_result = "u64 \<times> string \<times> (string \<Rightarrow> string option) option"

definition dotted :: "nat list \<Rightarrow> string" where
  "dotted ns = strings_Join (map nat_Itoa ns) ''.''"

definition hexToIP :: "bytes \<Rightarrow> conv_result" where
  "hexToIP bv =
     (if length bv = 16 then (0, IP_String bv, None)
      else if length bv = 8
      then (0, dotted [unat (BigEndian_Uint (bslice 0 2 bv) :: u16), unat (BigEndian_Uint (bslice 2 2 bv) :: u16),
               unat (BigEndian_Uint (bslice 4 2 bv) :: u16), unat (BigEndian_Uint (bslice 6 2 bv) :: u16)], None)
      else if length bv = 4
      then (let nv = [0, bv ! 0, 0, bv ! 1, 0, bv ! 2, 0, bv ! 3] in
            (0, dotted [unat (BigEndian_Uint (bslice 0 2 nv) :: u16), unat (BigEndian_Uint (bslice 2 2 nv) :: u16),
               unat (BigEndian_Uint (bslice 4 2 nv) :: u16), unat (BigEndian_Uint (bslice 6 2 nv) :: u16)], None))
      else (0, '''', None))"

definition hex_byte :: "nat \<Rightarrow> u8" where
  "hex_byte d = of_nat (if d < 10 then d + 48 else d + 87)"

text \<open>\<^verbatim>\<open>hex.Encode\<close>\<close>

definition hex_Encode :: "bytes \<Rightarrow> bytes" where
  "hex_Encode bv = concat (map (\<lambda>b. [hex_byte (unat b div 16), hex_byte (unat b mod 16)]) bv)"

definition store_at :: "nat \<Rightarrow> bytes \<Rightarrow> bytes \<Rightarrow> bytes" where
  "store_at l bs arr = take l arr @ bs @ drop (l + length bs) arr"

text \<open>
  \<^verbatim>\<open>EngineID\<close> works in one array: \<^verbatim>\<open>buf\<close> is its beginning, of length \<open>l\<close> and with the capacity of the whole array,
  and \<^verbatim>\<open>x\<close> its last two thirds, which start at \<open>n\<close>. The digits are read from \<^verbatim>\<open>x\<close> while \<^verbatim>\<open>append\<close> writes to \<^verbatim>\<open>buf\<close>. The
  capacity is three bytes for each of the \<open>n\<close> turns, so \<^verbatim>\<open>append\<close> always stores in place.
\<close>

fun EngineID_loop :: "nat \<Rightarrow> nat \<Rightarrow> nat \<Rightarrow> bytes \<Rightarrow> nat \<Rightarrow> bytes \<times> nat" where
  "EngineID_loop n 0 i arr l = (arr, l)"
| "EngineID_loop n (Suc k) i arr l =
     EngineID_loop n k (i + 2) (store_at l [arr ! (n + i), arr ! (n + i + 1), 0x3a] arr) (l + 3)"

definition EngineID :: "bytes \<Rightarrow> conv_result res" where
  "EngineID bv =
     (let n = length bv;
          arr = store_at n (hex_Encode bv) (make_bytes (3 * n));
          (arr, l) = EngineID_loop n n 0 arr 0 in
      if l = 0 then Inl (Panic ''slice bounds out of range'')
      else Inr (0, bytes_string (take (l - 1) arr), None))"

text \<open>
  The regular expression engine: compiling gives an error text or the names of the groups and the search, which
  returns the groups (none for no match, an unmatched group as an empty one). The cache of compiled expressions
  does not change results.
\<close>

type_synonym regexp_engine = "string \<Rightarrow> string + (string list \<times> (bytes \<Rightarrow> bytes list))"

fun regexp_groups :: "string list \<Rightarrow> bytes list \<Rightarrow> (string \<Rightarrow> string option) \<Rightarrow> conv_result" where
  "regexp_groups (nm # named) (m # res) matches =
     (if nm \<noteq> '''' then regexp_groups named res (matches(nm \<mapsto> bytes_string m))
      else case strconv_Atoi (bytes_string m) of
          None \<Rightarrow> (0, bytes_string m, None)
        | Some i \<Rightarrow> (word_of_int i, bytes_string m, None))"
| "regexp_groups _ _ matches = (0, '''', Some matches)"

definition fromRegexp :: "regexp_engine \<Rightarrow> bytes \<Rightarrow> string \<Rightarrow> conv_result" where
  "fromRegexp engine bv reg =
     (case engine reg of
        Inl e \<Rightarrow> (0, e, None)
      | Inr (named, find_groups) \<Rightarrow>
          let res = find_groups bv in
          if length res < 2 then (0, '''', None) else regexp_groups (tl named) (tl res) Map.empty)"

definition toOne :: "bytes \<Rightarrow> conv_result" where
  "toOne bv = (1, bytes_string bv, None)"

definition hexToDateTime :: "bytes \<Rightarrow> conv_result" where
  "hexToDateTime bv =
     (if length bv \<noteq> 8 \<and> length bv \<noteq> 11 then (0, '''', None)
      else
        let it = \<lambda>i. nat_Itoa (unat (bv ! i));
            dt = nat_Itoa (unat (BigEndian_Uint (bslice 0 2 bv) :: u16)) @ ''-'' @ it 2 @ ''-'' @ it 3 @ '','' @
              it 4 @ '':'' @ it 5 @ '':'' @ it 6 @ ''.'' @ it 7 in
        if length bv = 11 then (0, dt @ '','' @ bytes_string (bslice 8 1 bv) @ it 9 @ '':'' @ it 10, None)
        else (0, dt, None))"

definition LittleEndian_Uint :: "bytes \<Rightarrow> 'a::len word" where
  "LittleEndian_Uint bs = BigEndian_Uint (rev bs)"

text \<open>\<^verbatim>\<open>Uint64(bv)\<close> and the others: the first bytes, or a panic when there are fewer.\<close>

definition uint_of :: "string \<Rightarrow> nat \<Rightarrow> bytes \<Rightarrow> conv_result res" where
  "uint_of endian k bv =
     (if length bv < k then Inl (Panic ''index out of range'')
      else Inr (0, nat_Itoa (unat (if endian = ''LittleEndian'' then LittleEndian_Uint (take k bv) else BigEndian_Uint (take k bv) :: u64)), None))"

definition hextoint :: "string \<Rightarrow> string \<Rightarrow> bytes \<Rightarrow> conv_result res" where
  "hextoint endian bits bv =
     (if endian = ''LittleEndian'' \<or> endian = ''BigEndian''
      then (if bits = ''uint64'' then uint_of endian 8 bv
            else if bits = ''uint32'' then uint_of endian 4 bv
            else if bits = ''uint16'' then uint_of endian 2 bv
            else Inr (0, '''', None))
      else Inr (0, '''', None))"

definition convert :: "regexp_engine \<Rightarrow> bytes \<Rightarrow> string \<Rightarrow> conv_result res" where
  "convert engine bv conv =
     (if conv = ''hwaddr'' then Inr (0, HardwareAddr_String bv, None)
      else if conv = ''powerset_status'' then map_sum id (\<lambda>(i, s). (of_nat i, s, None)) (HandlePowersetStatus bv)
      else if conv = ''hextoip'' then Inr (hexToIP bv)
      else if conv = ''engine_id'' then EngineID bv
      else if conv = ''to_one'' then Inr (toOne bv)
      else if conv = ''hextodatetime'' then Inr (hexToDateTime bv)
      else
        let split = strings_Split conv '':'' in
        if hd split = ''hextoint'' \<and> length split = 3 then hextoint (split ! 1) (split ! 2) bv
        else if hd split = ''regexp'' \<and> length split \<ge> 2
        then Inr (fromRegexp engine bv (strings_Join (tl split) '':''))
        else Inr (0, bytes_string bv, None))"

text \<open>\<^verbatim>\<open>GetFromConv\<close>: after a recovered panic the unnamed results are zero values.\<close>

definition GetFromConv :: "regexp_engine \<Rightarrow> SnmpPDU \<Rightarrow> string \<Rightarrow> conv_result" where
  "GetFromConv engine pdu conv =
     (case pdu_Value pdu of
        S_bytes bv \<Rightarrow>
          if length bv = 0 then (0, '''', None)
          else (case convert engine bv conv of Inl _ \<Rightarrow> (0, '''', None) | Inr r \<Rightarrow> r)
      | _ \<Rightarrow> (0, '''', None))"

definition PrettyPrint :: "regexp_engine \<Rightarrow> SnmpPDU \<Rightarrow> string \<Rightarrow> string res" where
  "PrettyPrint engine pdu fmt =
     (if pdu_Type pdu = OctetString then (case GetFromConv engine pdu fmt of (_, s, _) \<Rightarrow> Inr s)
      else if pdu_Type pdu = IPAddress \<or> pdu_Type pdu = ObjectIdentifier
      then (case pdu_Value pdu of S_string s \<Rightarrow> Inr s | _ \<Rightarrow> Inl (Panic ''interface conversion''))
      else Inr (strconv_Itoa (sint (ToInt64 (pdu_Value pdu)))))"

section \<open>Polling\<close>

text \<open>The two configurations are nil-able; of each the configured seconds are read.\<close>

definition GetPollRate :: "int option \<Rightarrow> int option \<Rightarrow> int" where
  "GetPollRate gconf conf =
     (let counterTimeSec = (case conf of Some p \<Rightarrow> (if p > 0 then p else case gconf of Some g \<Rightarrow> (if g > 0 then g else 300) | None \<Rightarrow> 300)
        | None \<Rightarrow> (case gconf of Some g \<Rightarrow> (if g > 0 then g else 300) | None \<Rightarrow> 300)) in
      if counterTimeSec < 30 then 30 else counterTimeSec)"

definition GetPollTimeout :: "int option \<Rightarrow> int option \<Rightarrow> int \<Rightarrow> int" where
  "GetPollTimeout gconf conf counterTimeSec =
     (let pollTimeoutSec = (case conf of Some p \<Rightarrow> (if p > 0 then p else case gconf of Some g \<Rightarrow> (if g > 0 then g else 120) | None \<Rightarrow> 120)
        | None \<Rightarrow> (case gconf of Some g \<Rightarrow> (if g > 0 then g else 120) | None \<Rightarrow> 120));
          pollTimeoutSec = (if pollTimeoutSec > counterTimeSec then counterTimeSec else pollTimeoutSec) in
      wrap_int (pollTimeoutSec * 1000000000))"

text \<open>
  The loop over the tries: \<open>cancelled i\<close> is the error of the context when it ends before try \<open>i\<close>; the error kept
  is the one of the last try.
\<close>

fun try_walks :: "(nat \<Rightarrow> go_error option) \<Rightarrow> nat \<Rightarrow> SnmpPDU list res list \<Rightarrow> go_error option \<Rightarrow> (SnmpPDU list \<times> go_error option)" where
  "try_walks cancelled i [] err = ([], err)"
| "try_walks cancelled i (r # rs) err =
     (case cancelled i of
        Some e \<Rightarrow> ([], Some e)
      | None \<Rightarrow> (case r of Inr results \<Rightarrow> (results, None) | Inl e \<Rightarrow> try_walks cancelled (Suc i) rs (Some e)))"

definition ConstantOidPrefix :: string where
  "ConstantOidPrefix = ''1.3.6.1.6.3.1135.6169.''"

definition ConstantOidMetricPrefix :: string where
  "ConstantOidMetricPrefix = ''.1.3.6.1.6.3.1136.6169.''"

text \<open>
  \<^verbatim>\<open>WalkOID\<close>. The arguments are the answers of the client to the bulk walk and to the first and second plain walk,
  those of a test walker and of the canned responses where there are any, and the device's switch against bulk
  walks; \<open>ctx0\<close> is the error of a context that has ended before.
\<close>

definition WalkOID :: "go_error option \<Rightarrow> (nat \<Rightarrow> go_error option) \<Rightarrow> bool \<Rightarrow>
    (string \<Rightarrow> SnmpPDU list res) option \<Rightarrow> (string \<Rightarrow> SnmpPDU list res) option \<Rightarrow>
    (string \<Rightarrow> SnmpPDU list res) \<Rightarrow> (string \<Rightarrow> SnmpPDU list res) \<Rightarrow> (string \<Rightarrow> SnmpPDU list res) \<Rightarrow>
    string \<Rightarrow> SnmpPDU list \<times> go_error option" where
  "WalkOID ctx0 cancelled noBulk test cached bulk walk1 walk2 oid =
     (case ctx0 of
        Some e \<Rightarrow> ([], Some e)
      | None \<Rightarrow>
          if strings_HasPrefix oid ConstantOidPrefix
          then ([\<lparr>pdu_Value = S_string (drop (length ConstantOidPrefix) oid), pdu_Name = oid, pdu_Type = OtherType\<rparr>], None)
          else if strings_HasPrefix oid ConstantOidMetricPrefix
          then ([\<lparr>pdu_Value = S_int (word_of_int (atoi_or (drop (length ConstantOidMetricPrefix) oid))),
                  pdu_Name = oid, pdu_Type = OtherType\<rparr>], None)
          else
            let tries = (case test of
                Some w \<Rightarrow> [w oid]
              | None \<Rightarrow> if noBulk then [walk1 oid, walk2 oid]
                  else (case cached of Some c \<Rightarrow> [c oid, bulk oid, walk1 oid] | None \<Rightarrow> [bulk oid, walk1 oid, walk2 oid])) in
            try_walks cancelled 0 tries None)"

section \<open>The engine id, formatted in place\<close>

definition hex_triple :: "u8 \<Rightarrow> bytes" where
  "hex_triple b = [hex_byte (unat b div 16), hex_byte (unat b mod 16), 0x3a]"

lemma length_triples: "length (concat (map hex_triple bs)) = 3 * length bs"
  by (induction bs) (simp_all add: hex_triple_def)

lemma length_hex_Encode: "length (hex_Encode bs) = 2 * length bs"
  by (induction bs) (simp_all add: hex_Encode_def)

lemma length_store_at: "l + length bs \<le> length arr \<Longrightarrow> length (store_at l bs arr) = length arr"
  by (simp add: store_at_def)

lemma drop_store_at: "l + length bs \<le> m \<Longrightarrow> l \<le> length arr \<Longrightarrow> drop m (store_at l bs arr) = drop m arr"
  by (simp add: store_at_def min_absorb2)

text \<open>What is written never reaches what is still to be read.\<close>

lemma EngineID_loop_run:
  assumes "length bv = n"
  shows "k \<le> n \<Longrightarrow> length arr = 3 * n \<Longrightarrow>
    take (3 * (n - k)) arr = concat (map hex_triple (take (n - k) bv)) \<Longrightarrow>
    drop (n + 2 * (n - k)) arr = hex_Encode (drop (n - k) bv) \<Longrightarrow>
    EngineID_loop n k (2 * (n - k)) arr (3 * (n - k)) = (concat (map hex_triple bv), 3 * n)"
proof (induction k arbitrary: arr)
  case 0
  then show ?case using assms by simp
next
  case (Suc k)
  let ?j = "n - Suc k"
  have j: "?j < n" "n - k = Suc ?j" using Suc.prems(1) by auto
  let ?b = "bv ! ?j"
  have "drop ?j bv = ?b # drop (Suc ?j) bv" using j assms by (simp add: Cons_nth_drop_Suc)
  then have rest: "drop (n + 2 * ?j) arr = hex_byte (unat ?b div 16) # hex_byte (unat ?b mod 16) # hex_Encode (drop (Suc ?j) bv)"
    using Suc.prems(4) by (simp add: hex_Encode_def)
  then have hi: "arr ! (n + 2 * ?j) = hex_byte (unat ?b div 16)"
    by (rule nth_via_drop)
  have "drop (n + 2 * ?j + 1) arr = drop 1 (drop (n + 2 * ?j) arr)" by (simp add: add.commute)
  then have "drop (n + 2 * ?j + 1) arr = hex_byte (unat ?b mod 16) # hex_Encode (drop (Suc ?j) bv)" by (simp only: rest) simp
  then have lo: "arr ! (n + 2 * ?j + 1) = hex_byte (unat ?b mod 16)" by (rule nth_via_drop)
  let ?arr = "store_at (3 * ?j) (hex_triple ?b) arr"
  have len: "length ?arr = 3 * n" using Suc.prems(2) j by (simp add: length_store_at hex_triple_def)
  have "take (3 * (n - k)) ?arr = take (3 * ?j) arr @ hex_triple ?b"
    using Suc.prems(2) j by (simp add: store_at_def hex_triple_def)
  also have "\<dots> = concat (map hex_triple (take (n - k) bv))"
    using Suc.prems(3) j assms by (simp add: take_Suc_conv_app_nth)
  finally have tk: "take (3 * (n - k)) ?arr = concat (map hex_triple (take (n - k) bv))" .
  have "drop (n + 2 * (n - k)) ?arr = drop (n + 2 * (n - k)) arr"
    using Suc.prems(2) j by (intro drop_store_at) (simp_all add: hex_triple_def)
  also have "\<dots> = hex_Encode (drop (n - k) bv)"
  proof -
    have "n + 2 * (n - k) = 2 + (n + 2 * ?j)" using j(2) by simp
    then have "drop (n + 2 * (n - k)) arr = drop 2 (drop (n + 2 * ?j) arr)" by (simp only: drop_drop)
    then show ?thesis by (simp only: rest j(2)) simp
  qed
  finally have dr: "drop (n + 2 * (n - k)) ?arr = hex_Encode (drop (n - k) bv)" .
  have "EngineID_loop n k (2 * (n - k)) ?arr (3 * (n - k)) = (concat (map hex_triple bv), 3 * n)"
    using Suc.prems(1) len tk dr by (intro Suc.IH) simp_all
  moreover have "3 * (n - k) = 3 * ?j + 3" "2 * (n - k) = 2 * ?j + 2" using j(2) by simp_all
  ultimately show ?case by (simp only: EngineID_loop.simps hex_triple_def [of ?b] hi lo)
qed

lemma hex_byte_char: "d < 16 \<Longrightarrow> char_of (unat (hex_byte d)) = hex_char d"
  by (simp add: hex_byte_def hex_char_def unsigned_of_nat take_bit_eq_mod)

lemma triples_String:
  "bv \<noteq> [] \<Longrightarrow> bytes_string (butlast (concat (map hex_triple bv))) = HardwareAddr_String bv"
proof (induction bv)
  case (Cons b bv)
  have digits: "unat b div 16 < 16" "unat b mod 16 < 16"
    using unsigned_less [where 'a = nat, of b] by simp_all
  have two: "hex_digits 2 (unat b) = [hex_char (unat b div 16), hex_char (unat b mod 16)]"
    using digits(1) by (simp add: numeral_2_eq_2)
  have colon: "char_of (58 :: nat) = CHR '':''" by code_simp
  show ?case
  proof (cases "bv = []")
    case True
    then show ?thesis using digits
      by (simp add: hex_triple_def bytes_string_def HardwareAddr_String_def hex_byte_char two)
  next
    case False
    then have "concat (map hex_triple bv) \<noteq> []" by (cases bv) (simp_all add: hex_triple_def)
    with False Cons.IH digits show ?thesis
      by (simp add: hex_triple_def bytes_string_def HardwareAddr_String_def hex_byte_char two colon butlast_append strings_Join_Cons)
  qed
qed simp

text \<open>
  The engine id of a device is formatted correctly although the digits are read from the same array the
  result is written to: for every non-empty id the result is the plain formatting of its bytes, two digits each,
  joined with colons.
\<close>

lemma EngineID_in_place:
  assumes "bv \<noteq> []"
  shows "EngineID bv = Inr (0, strings_Join (map (\<lambda>b. hex_digits 2 (unat b)) bv) '':'', None)"
proof -
  let ?n = "length bv"
  let ?arr = "store_at ?n (hex_Encode bv) (make_bytes (3 * ?n))"
  have "EngineID_loop ?n ?n (2 * (?n - ?n)) ?arr (3 * (?n - ?n)) = (concat (map hex_triple bv), 3 * ?n)"
    by (rule EngineID_loop_run) (simp_all add: length_store_at length_hex_Encode store_at_def)
  then have "EngineID bv = Inr (0, bytes_string (take (3 * ?n - 1) (concat (map hex_triple bv))), None)"
    using assms by (simp add: EngineID_def Let_def)
  then show ?thesis
    using triples_String [OF assms] by (simp add: butlast_conv_take length_triples HardwareAddr_String_def del: length_concat)
qed

section \<open>The status of a power supply\<close>

definition is_set :: "bytes \<Rightarrow> nat \<Rightarrow> bool" where
  "is_set bv i \<longleftrightarrow> i < length bv \<and> bv ! i = 0x31"

text \<open>The codes whose bit is set, without those whose dependency is set, too.\<close>

definition raised_codes :: "bytes \<Rightarrow> UpsCode list" where
  "raised_codes bv = filter (\<lambda>c. is_set bv (uc_Index c) \<and> \<not> (0 < uc_Dependancy c \<and> is_set bv (uc_Dependancy c))) upsCodes"

lemma upsCodes_index: "map uc_Index upsCodes = [0..<64]"
  by (simp add: upsCodes_def ups_code_def upt_rec [of _ "numeral _"] upt_conv_Cons)

lemma upsCodes_length: "length upsCodes = 64"
  using arg_cong [OF upsCodes_index, of length] by simp

lemma upsCodes_bounds: "\<forall>c \<in> set upsCodes. uc_Severity c \<in> {1, 2, 3, 4} \<and> uc_Dependancy c < 64"
  by (simp add: upsCodes_def ups_code_def)

lemma set_actives_run:
  "set_actives i bv a =
     (if \<exists>k. is_set bv k \<and> length a \<le> i + k then Inl (Panic ''index out of range'')
      else Inr (map (\<lambda>m. if i \<le> m \<and> is_set bv (m - i) then Some (upsCodes ! m) else a ! m) [0..<length a]))"
proof (induction bv arbitrary: i a)
  case Nil
  then show ?case by (simp add: is_set_def map_nth)
next
  case (Cons v bv)
  have Suc_set: "is_set (v # bv) k \<longleftrightarrow> (k = 0 \<and> v = 0x31 \<or> (\<exists>k'. k = Suc k' \<and> is_set bv k'))" for k
    by (cases k) (auto simp: is_set_def)
  have ex: "(\<exists>k. is_set (v # bv) k \<and> length a \<le> i + k) \<longleftrightarrow>
      v = 0x31 \<and> length a \<le> i \<or> (\<exists>k. is_set bv k \<and> length a \<le> Suc i + k)"
    by (auto simp: Suc_set)
  have diff: "i \<le> m \<and> is_set (v # bv) (m - i) \<longleftrightarrow> m = i \<and> v = 0x31 \<or> Suc i \<le> m \<and> is_set bv (m - Suc i)" for m
  proof (cases "i < m")
    case True
    then obtain k where "m = i + Suc k" using less_imp_Suc_add by auto
    then show ?thesis by (simp add: Suc_set)
  next
    case False
    then show ?thesis by (cases "m = i") (auto simp: Suc_set)
  qed
  show ?case
    unfolding ex diff by (auto simp: Cons.IH nth_list_update)
qed

definition severity_of :: "UpsCode list \<Rightarrow> nat \<Rightarrow> string list" where
  "severity_of R = (\<lambda>s. map uc_Status (filter (\<lambda>c. uc_Severity c = s) R))"

lemma add_actives_run:
  "fold (add_active acts) xs sev =
     (\<lambda>s. sev s @ severity_of (filter (\<lambda>c. \<not> (0 < uc_Dependancy c \<and> acts ! uc_Dependancy c \<noteq> None)) (List.map_filter id xs)) s)"
proof (induction xs arbitrary: sev)
  case Nil
  then show ?case by (simp add: severity_of_def)
next
  case (Cons x xs)
  show ?case
    by (cases x) (auto simp: Cons.IH add_status_def severity_of_def fun_eq_iff)
qed

lemma highest_none: "(\<And>i. 0 < i \<Longrightarrow> i \<le> n \<Longrightarrow> sev i = []) \<Longrightarrow> highest n sev = (0, '''')"
  by (induction n) auto

lemma highest_some:
  "0 < m \<Longrightarrow> m \<le> n \<Longrightarrow> sev m \<noteq> [] \<Longrightarrow> (\<And>i. m < i \<Longrightarrow> i \<le> n \<Longrightarrow> sev i = []) \<Longrightarrow>
   highest n sev = (m, severities ! (m - 1) @ '': '' @ strings_Join (sev m) '','')"
proof (induction n)
  case (Suc n)
  then show ?case by (cases "m = Suc n") auto
qed simp

text \<open>What the status is to be: the highest severity raised, with its statuses in the order of the table.\<close>

definition worst_status :: "UpsCode list \<Rightarrow> nat \<times> string" where
  "worst_status R =
     (if R = [] then (0, '''')
      else let m = Max (uc_Severity ` set R) in
        (m, severities ! (m - 1) @ '': '' @ strings_Join (map uc_Status (filter (\<lambda>c. uc_Severity c = m) R)) '',''))"

lemma upsCodes_nth_index: "m < 64 \<Longrightarrow> uc_Index (upsCodes ! m) = m"
  using arg_cong [OF upsCodes_index, of "\<lambda>xs. xs ! m"] by (simp add: upsCodes_length del: upt_conv_Cons)

lemma actives_codes:
  "List.map_filter id (map (\<lambda>m. if is_set bv m then Some (upsCodes ! m) else None) [0..<64]) =
     filter (\<lambda>c. is_set bv (uc_Index c)) upsCodes"
proof -
  have "filter (\<lambda>c. is_set bv (uc_Index c)) upsCodes = filter (\<lambda>c. is_set bv (uc_Index c)) (map ((!) upsCodes) [0..<64])"
    by (simp add: map_nth [of upsCodes, unfolded upsCodes_length])
  also have "\<dots> = map ((!) upsCodes) (filter (is_set bv) [0..<64])"
    by (simp add: filter_map o_def) (intro arg_cong [where f = "map _"] filter_cong, auto simp: upsCodes_nth_index)
  also have "\<dots> = List.map_filter id (map (\<lambda>m. if is_set bv m then Some (upsCodes ! m) else None) [0..<64])"
    by (simp add: List.map_filter_def filter_map o_def cong: filter_cong)
  finally show ?thesis by simp
qed

lemma four_severities: "length severities = 4"
  by (simp add: severities_def)

lemma highest_worst:
  assumes "\<forall>c \<in> set R. uc_Severity c \<in> {1, 2, 3, 4}"
  shows "highest 4 (severity_of R) = worst_status R"
proof (cases "R = []")
  case True
  then show ?thesis by (simp add: highest_none severity_of_def worst_status_def)
next
  case False
  define m where "m = Max (uc_Severity ` set R)"
  have m: "m \<in> uc_Severity ` set R" "\<And>c. c \<in> set R \<Longrightarrow> uc_Severity c \<le> m"
    using False by (auto simp: m_def)
  have "highest 4 (severity_of R) = (m, severities ! (m - 1) @ '': '' @ strings_Join (severity_of R m) '','')"
    using m assms by (intro highest_some) (force simp: severity_of_def filter_empty_conv)+
  then show ?thesis using False by (simp add: worst_status_def severity_of_def m_def)
qed

text \<open>
  The status of a power supply is the highest severity among the flags that are set, without those whose
  dependency is set as well, with the texts of that severity in the order of the table; a flag set beyond the
  sixty-four of the table is an index out of range.
\<close>
lemma powerset_highest:
  "HandlePowersetStatus bv =
     (if \<exists>k. is_set bv k \<and> 64 \<le> k then Inl (Panic ''index out of range'')
      else Inr (worst_status (raised_codes bv)))"
proof -
  let ?acts = "map (\<lambda>m. if is_set bv m then Some (upsCodes ! m) else None) [0..<64]"
  have run: "set_actives 0 bv (replicate (length upsCodes) None) =
      (if \<exists>k. is_set bv k \<and> 64 \<le> k then Inl (Panic ''index out of range'') else Inr ?acts)"
    by (simp add: set_actives_run upsCodes_length cong: map_cong if_cong)
  have "filter (\<lambda>c. \<not> (0 < uc_Dependancy c \<and> ?acts ! uc_Dependancy c \<noteq> None))
      (filter (\<lambda>c. is_set bv (uc_Index c)) upsCodes) = raised_codes bv"
    using upsCodes_bounds by (auto simp: raised_codes_def filter_filter intro!: filter_cong)
  then have "fold (add_active ?acts) ?acts (\<lambda>_. []) = severity_of (raised_codes bv)"
    by (simp add: add_actives_run actives_codes)
  moreover have "highest 4 (severity_of (raised_codes bv)) = worst_status (raised_codes bv)"
    using upsCodes_bounds by (intro highest_worst) (auto simp: raised_codes_def)
  ultimately show ?thesis
    by (simp add: HandlePowersetStatus_def run four_severities del: highest.simps)
qed

section \<open>Addresses, walks and polling times\<close>

lemma unat_padded_byte: "unat (BigEndian_Uint [0, b] :: u16) = unat (b :: u8)"
  using unsigned_less [of b, where 'a = nat]
  by (simp add: BigEndian_Uint_def unsigned_ucast_eq take_bit_nat_eq_self)

text \<open>
  The four bytes of an IPv4 address, converted to text by \<^verbatim>\<open>hextoip\<close> from a value polled from a device, parse back to
  the same address.
\<close>
lemma hexToIP_parses_back:
  "hexToIP [a, b, c, d] = (0, IPv4_String [a, b, c, d], None) \<and>
   ParseIP (IPv4_String [a, b, c, d]) = Some (v4_prefix @ [a, b, c, d])"
  by (simp only: ParseIP_IPv4_String)
    (simp add: hexToIP_def bslice_def dotted_def IPv4_String_def unat_padded_byte numeral_3_eq_3 numeral_2_eq_2)

text \<open>The walk returns the answer of the first try that succeeds, and the error of the last one when none does.\<close>

lemma try_walks_first:
  "try_walks (\<lambda>_. None) i rs err =
     (case List.find (\<lambda>r. \<not> isl r) rs of
        Some r \<Rightarrow> (projr r, None)
      | None \<Rightarrow> ([], if rs = [] then err else Some (projl (last rs))))"
  by (induction rs arbitrary: i err) (auto split: sum.splits option.splits)

text \<open>
  A device is never polled more often than every thirty seconds, and the time given to one poll is positive and
  not longer than the interval, whatever is configured, as long as the interval fits a \<^verbatim>\<open>time.Duration\<close>.
\<close>
lemma poll_times_bounded:
  assumes "GetPollRate gconf conf \<le> 9223372036"
  shows "30 \<le> GetPollRate gconf conf \<and>
    0 < GetPollTimeout gtimeout timeout (GetPollRate gconf conf) \<and>
    GetPollTimeout gtimeout timeout (GetPollRate gconf conf) \<le> GetPollRate gconf conf * 1000000000"
proof -
  have rate: "30 \<le> GetPollRate gconf conf" by (simp add: GetPollRate_def Let_def)
  have exact: "wrap_int (t * 1000000000) = t * 1000000000" if "0 < t" "t \<le> 9223372036" for t
    using that by (simp add: wrap_int_def)
  show ?thesis
    using rate assms by (auto simp: GetPollTimeout_def Let_def exact split: option.splits)
qed

end
