(* ===== verification/Snmp_Interface.thy ===== *)
theory Snmp_Interface
  imports Snmp_Conv Format_Util
begin

text \<open>
  The interface counters of a device: \<^verbatim>\<open>pkg/kt/counters\<close>, \<^verbatim>\<open>kt.Mib\<close>, and
  \<^verbatim>\<open>pkg/inputs/snmp/metrics/interface_metrics.go\<close>. Go maps are association lists in the order of their iteration.
  Arguments: the time, the answers to the walks, gosnmp's reading of a value as a big integer, and the percentage
  the code computes in \<^verbatim>\<open>float64\<close>. The lock and the metrics about the poller are left out.
\<close>

section \<open>Counters\<close>

record CounterSet =
  cs_Values :: "(string \<times> u64) list"
  cs_IntId :: string

definition NewCounterSetWithId :: "string \<Rightarrow> CounterSet" where
  "NewCounterSetWithId i = \<lparr>cs_Values = [], cs_IntId = i\<rparr>"

definition NewCounterSet :: CounterSet where
  "NewCounterSet = NewCounterSetWithId ''''"

definition GetDelta :: "CounterSet option \<Rightarrow> string \<Rightarrow> u64 \<Rightarrow> u64" where
  "GetDelta cs counterName cur =
     (case cs of
        None \<Rightarrow> 0
      | Some cs \<Rightarrow>
          (case map_of (cs_Values cs) counterName of
             None \<Rightarrow> 0
           | Some prev \<Rightarrow> if prev \<le> cur then cur - prev else 0))"

definition SetValueAndReturnDelta :: "CounterSet \<Rightarrow> string \<Rightarrow> u64 \<Rightarrow> CounterSet \<times> u64" where
  "SetValueAndReturnDelta cs counterName cur =
     (cs\<lparr>cs_Values := AList.update counterName cur (cs_Values cs)\<rparr>, GetDelta (Some cs) counterName cur)"

definition SetValue :: "CounterSet \<Rightarrow> (string \<times> string) list \<Rightarrow> string \<Rightarrow> u64 \<Rightarrow> CounterSet" where
  "SetValue cs validate oid val =
     (case map_of validate oid of Some vName \<Rightarrow> cs\<lparr>cs_Values := AList.update vName val (cs_Values cs)\<rparr> | None \<Rightarrow> cs)"

section \<open>MIB entries\<close>

type_synonym metric_state = "(string \<times> i64) list \<times> (string \<times> string) list \<times> (string \<times> MetricInfo) list"

record MibCondition =
  mc_TargetName :: string
  mc_TargetValue :: i64
  mc_TargetString :: string

record Mib =
  mb_Oid :: string
  mb_Name :: string
  mb_Type :: int
  mb_Extra :: string
  mb_Tag :: string
  mb_Enum :: "(string \<times> i64) list option"
  mb_EnumRev :: "(int \<times> string) list option"
  mb_Conversion :: string
  mb_Mib :: string
  mb_Table :: string
  mb_PollDur :: int
  mb_MatchAttr :: "(string \<times> (string \<Rightarrow> bool)) list option"
  mb_lastPoll :: int
  mb_FromExtended :: bool
  mb_OtherTables :: "(string \<times> bool) list option"
  mb_Format :: string
  mb_AllowDup :: bool
  mb_Condition :: "MibCondition option"
  mb_Script :: "(string \<Rightarrow> string \<Rightarrow> metric_state \<Rightarrow> metric_state) option"
  mb_VarSet :: "(string \<times> int \<times> int) list"
  mb_XAttr :: "(string \<times> string) list"
  mb_WalkTable :: bool
  mb_TableOid :: string

definition Mib_GetName :: "Mib option \<Rightarrow> string" where
  "Mib_GetName mb = (case mb of None \<Rightarrow> ''missing_mib'' | Some mb \<Rightarrow> if mb_Tag mb \<noteq> '''' then mb_Tag mb else mb_Name mb)"

definition IsPollReady :: "int \<Rightarrow> Mib \<Rightarrow> bool \<times> Mib" where
  "IsPollReady now mb =
     (if mb_PollDur mb = 0 then (True, mb)
      else if mb_lastPoll mb + mb_PollDur mb < now then (True, mb\<lparr>mb_lastPoll := now\<rparr>)
      else (False, mb))"

section \<open>Polling\<close>

record InterfaceMetrics =
  im_Provider :: Provider
  im_DeviceName :: string
  im_DeviceIP :: string
  im_intValues :: "(string \<times> CounterSet) list"
  im_oidMap :: "(string \<times> string) list"
  im_nameOidMap :: "(string \<times> string) list"
  im_oidMibMap :: "(string \<times> Mib) list"
  im_profileName :: string
  im_tickDuration :: int

definition dotted_oid :: "string \<Rightarrow> string" where
  "dotted_oid oid = (if strings_HasPrefix oid ''.'' then oid else ''.'' @ oid)"

definition NewInterfaceMetrics :: "Provider \<Rightarrow> string \<Rightarrow> string \<Rightarrow> (string \<times> Mib) list \<Rightarrow> string \<Rightarrow> int \<Rightarrow> InterfaceMetrics" where
  "NewInterfaceMetrics prov nm ip profileMetrics profileName tickDurationSec =
     (let oidMap = fold (\<lambda>(oid, m). AList.update (dotted_oid oid) (Mib_GetName (Some m))) profileMetrics [];
          nameOidMap = fold (\<lambda>(k, v). AList.update v k) oidMap [] in
      \<lparr>im_Provider = prov, im_DeviceName = nm, im_DeviceIP = ip, im_intValues = [], im_oidMap = oidMap,
       im_nameOidMap = nameOidMap, im_oidMibMap = profileMetrics, im_profileName = profileName,
       im_tickDuration = tickDurationSec * 100\<rparr>)"

definition DiscardDeltaState :: "InterfaceMetrics \<Rightarrow> InterfaceMetrics" where
  "DiscardDeltaState im = im\<lparr>im_intValues := []\<rparr>"

definition GetNumberMibsTotal :: "InterfaceMetrics \<Rightarrow> nat" where
  "GetNumberMibsTotal im = length (im_oidMap im)"

type_synonym deltas = "(string \<times> (string \<times> u64) list) list"

definition touch_counters :: "string \<Rightarrow> (string \<times> CounterSet) list \<Rightarrow> (string \<times> CounterSet) list" where
  "touch_counters intId vals = (if map_of vals intId = None then AList.update intId (NewCounterSetWithId intId) vals else vals)"

definition touch_delta :: "string \<Rightarrow> deltas \<Rightarrow> deltas" where
  "touch_delta intId ds = (if map_of ds intId = None then AList.update intId [] ds else ds)"

definition put_delta :: "string \<Rightarrow> string \<Rightarrow> u64 \<Rightarrow> deltas \<Rightarrow> deltas" where
  "put_delta intId nm v ds = AList.update intId (AList.update nm v (the (map_of ds intId))) ds"

text \<open>The counter of an interface takes a value: its new state and the difference.\<close>

definition count_value :: "string \<Rightarrow> string \<Rightarrow> u64 \<Rightarrow> (string \<times> CounterSet) list \<Rightarrow> (string \<times> CounterSet) list \<times> u64" where
  "count_value intId nm v vals =
     (let (cs, d) = SetValueAndReturnDelta (the (map_of vals intId)) nm v in (AList.update intId cs vals, d))"

definition poll_variable :: "(snmp_value \<Rightarrow> u64) \<Rightarrow> Mib option \<Rightarrow> string \<Rightarrow> string \<Rightarrow> SnmpPDU \<Rightarrow>
    (string \<times> CounterSet) list \<times> deltas \<Rightarrow> (string \<times> CounterSet) list \<times> deltas" where
  "poll_variable to_uint64 omib oid varName pdu = (\<lambda>(vals, ds).
     let parts = strings_Split (pdu_Name pdu) oid in
     if length parts \<noteq> 2 \<or> parts ! 1 = '''' then (vals, ds)
     else
       let intId = drop 1 (parts ! 1);
           vals = touch_counters intId vals;
           value = to_uint64 (pdu_Value pdu);
           ds = touch_delta intId ds in
       if (case omib of Some m \<Rightarrow> mb_Format m = ''gauge'' | None \<Rightarrow> False) then (vals, put_delta intId varName value ds)
       else if pdu_Type pdu = Integer then (vals, put_delta intId varName value ds)
       else
         let ds = put_delta intId (varName @ ''_counter'') value ds;
             (vals, d) = count_value intId varName value vals in
         (vals, put_delta intId varName d ds))"

text \<open>The loop over the polled objects; an error ends the poll and leaves what was counted so far.\<close>

fun poll_oids :: "int \<Rightarrow> (snmp_value \<Rightarrow> u64) \<Rightarrow> (string \<Rightarrow> SnmpPDU list \<times> go_error option) \<Rightarrow> (string \<times> string) list \<Rightarrow>
    InterfaceMetrics \<Rightarrow> deltas \<Rightarrow> InterfaceMetrics \<times> deltas res" where
  "poll_oids now to_uint64 walk [] im ds = (im, Inr ds)"
| "poll_oids now to_uint64 walk ((oid, varName) # oids) im ds =
     (let omib = map_of (im_oidMibMap im) (drop 1 oid);
          ready = (case omib of Some mib \<Rightarrow> fst (IsPollReady now mib) | None \<Rightarrow> True);
          im = (case omib of Some mib \<Rightarrow> im\<lparr>im_oidMibMap := AList.update (drop 1 oid) (snd (IsPollReady now mib)) (im_oidMibMap im)\<rparr> | None \<Rightarrow> im) in
      if \<not> ready then poll_oids now to_uint64 walk oids im ds
      else case walk oid of
          (_, Some e) \<Rightarrow> (im, Inl e)
        | (results, None) \<Rightarrow>
            let (vals, ds) = fold (poll_variable to_uint64 omib oid varName) results (im_intValues im, ds) in
            poll_oids now to_uint64 walk oids (im\<lparr>im_intValues := vals\<rparr>) ds)"

definition AllDeviceInterface :: string where "AllDeviceInterface = ''device''"
definition Uptime :: string where "Uptime = ''Uptime''"

text \<open>The device's uptime is taken from the first of its last metrics that has one.\<close>

fun poll_uptime :: "i64 list \<Rightarrow> (string \<times> CounterSet) list \<times> deltas \<Rightarrow> (string \<times> CounterSet) list \<times> deltas" where
  "poll_uptime [] (vals, ds) = (vals, ds)"
| "poll_uptime (up # ups) (vals, ds) =
     (let vals = touch_counters AllDeviceInterface vals; ds = touch_delta AllDeviceInterface ds in
      if sint up > 0
      then (let (vals, d) = count_value AllDeviceInterface Uptime up vals in (vals, put_delta AllDeviceInterface Uptime d ds))
      else poll_uptime ups (vals, ds))"

section \<open>The flows of a poll\<close>

definition baseMetricName :: "string \<Rightarrow> string" where
  "baseMetricName n = (if strings_HasPrefix (rev n) (rev ''_counter'') then take (length n - 8) n else n)"

text \<open>\<^verbatim>\<open>im.nameOidMap[name][1:]\<close>, where an unknown name has an empty oid.\<close>

definition find_mib :: "InterfaceMetrics \<Rightarrow> string \<Rightarrow> (string \<times> Mib option) res" where
  "find_mib im k =
     (let oid = (case map_of (im_nameOidMap im) (baseMetricName k) of Some oid \<Rightarrow> oid | None \<Rightarrow> '''') in
      if oid = '''' then Inl (Panic ''slice bounds out of range'') else Inr (oid, map_of (im_oidMibMap im) (drop 1 oid)))"

definition add_metric :: "InterfaceMetrics \<Rightarrow> string \<Rightarrow> u64 \<Rightarrow> metric_state \<Rightarrow> metric_state res" where
  "add_metric im k v = (\<lambda>(bigs, strs, metrics).
     map_sum id (\<lambda>(oid, mib).
       let strs = (case Option.bind mib mb_EnumRev of
               Some en \<Rightarrow> AList.update (StringPrefix @ k) (case map_of en (sint v) of Some ev \<Rightarrow> ev | None \<Rightarrow> ''invalid enum'') strs
             | None \<Rightarrow> strs);
           bigs = AList.update k v bigs;
           info = (case mib of
               Some m \<Rightarrow> \<lparr>mi_Oid = oid, mi_Mib = mb_Mib m, mi_Name = '''', mi_Profile = im_profileName im, mi_Table = mb_Table m,
                   mi_Format = (if mb_Format m \<noteq> '''' then mb_Format m else ''count''), mi_Type = '''',
                   mi_PollDur = word_of_int (mb_PollDur m), mi_Tables = []\<rparr>
             | None \<Rightarrow> \<lparr>mi_Oid = oid, mi_Mib = '''', mi_Name = '''', mi_Profile = im_profileName im, mi_Table = '''', mi_Format = ''count'',
                   mi_Type = '''', mi_PollDur = 0, mi_Tables = []\<rparr>)
       in (bigs, strs, AList.update k info metrics)) (find_mib im k))"

fun add_metrics :: "InterfaceMetrics \<Rightarrow> (string \<times> u64) list \<Rightarrow> metric_state \<Rightarrow> metric_state res" where
  "add_metrics im [] st = Inr st"
| "add_metrics im ((k, v) # cs) st = (case add_metric im k v st of Inl e \<Rightarrow> Inl e | Inr st \<Rightarrow> add_metrics im cs st)"

fun run_metric_scripts :: "InterfaceMetrics \<Rightarrow> string \<Rightarrow> (string \<times> u64) list \<Rightarrow> metric_state \<Rightarrow> metric_state res" where
  "run_metric_scripts im strint [] st = Inr st"
| "run_metric_scripts im strint ((k, v) # cs) st =
     (case find_mib im k of
        Inl e \<Rightarrow> Inl e
      | Inr (_, mib) \<Rightarrow>
          run_metric_scripts im strint cs (case Option.bind mib mb_Script of Some s \<Rightarrow> s strint k st | None \<Rightarrow> st))"

text \<open>The share of errors in the packets of one direction, where both are known.\<close>

definition add_error_percent :: "(i64 \<Rightarrow> i64 \<Rightarrow> i64) \<Rightarrow> InterfaceMetrics \<Rightarrow> string \<Rightarrow> string \<Rightarrow> string \<Rightarrow> metric_state \<Rightarrow> metric_state" where
  "add_error_percent percent im pkts errs nm = (\<lambda>(bigs, strs, metrics).
     let at = \<lambda>k. (case map_of bigs k of Some v \<Rightarrow> v | None \<Rightarrow> 0) in
     if sint (at pkts) > 0
     then (case Option.bind (map_of (im_nameOidMap im) errs) (\<lambda>oid. map_of (im_oidMibMap im) (drop 1 oid)) of
             Some m \<Rightarrow>
               (AList.update nm (percent (at errs) (at pkts)) bigs, strs,
                AList.update nm \<lparr>mi_Oid = '''', mi_Mib = mb_Mib m, mi_Name = '''', mi_Profile = im_profileName im, mi_Table = mb_Table m,
                   mi_Format = ''gauge'', mi_Type = '''', mi_PollDur = word_of_int (mb_PollDur m), mi_Tables = []\<rparr> metrics)
           | None \<Rightarrow> (bigs, strs, metrics))
     else (bigs, strs, metrics))"

text \<open>What a flow of the poll carries: the interface, its strings and numbers, and the description of its metrics.\<close>

record interface_flow =
  if_Port :: u64
  if_Strs :: "(string \<times> string) list"
  if_BigInts :: "(string \<times> i64) list"
  if_Metrics :: "(string \<times> MetricInfo) list"

definition uptime_delta :: "deltas \<Rightarrow> u64" where
  "uptime_delta ds = (case map_of ds AllDeviceInterface of
     Some m \<Rightarrow> (case map_of m Uptime of Some v \<Rightarrow> v | None \<Rightarrow> 0) | None \<Rightarrow> 0)"

definition interface_flow_of :: "(i64 \<Rightarrow> i64 \<Rightarrow> i64) \<Rightarrow> InterfaceMetrics \<Rightarrow> u64 \<Rightarrow> string \<Rightarrow> (string \<times> u64) list \<Rightarrow> interface_flow res" where
  "interface_flow_of percent im uptimeDelta strint cs =
     (let strs = (if im_Provider im = ''kentik-default''
                  then [(''profile_message'', ''Missing matched profile. See overview page for details.'')] else []) in
      case add_metrics im cs ([], strs, []) of
        Inl e \<Rightarrow> Inl e
      | Inr st \<Rightarrow>
          map_sum id (\<lambda>st.
            let st = add_error_percent percent im ''ifHCInUcastPkts'' ''ifInErrors'' ''ifInErrorPercent'' st;
                (bigs, strs, metrics) = add_error_percent percent im ''ifHCOutUcastPkts'' ''ifOutErrors'' ''ifOutErrorPercent'' st in
            \<lparr>if_Port = word_of_int (atoi_or strint), if_Strs = strs,
             if_BigInts = AList.update Uptime (if uptimeDelta > 0 then uptimeDelta else word_of_int (im_tickDuration im)) bigs,
             if_Metrics = metrics\<rparr>) (run_metric_scripts im strint cs st))"

fun convertToCHF :: "(i64 \<Rightarrow> i64 \<Rightarrow> i64) \<Rightarrow> InterfaceMetrics \<Rightarrow> u64 \<Rightarrow> deltas \<Rightarrow> interface_flow list res" where
  "convertToCHF percent im uptimeDelta [] = Inr []"
| "convertToCHF percent im uptimeDelta ((strint, cs) # ds) =
     (if strint = AllDeviceInterface then convertToCHF percent im uptimeDelta ds
      else case interface_flow_of percent im uptimeDelta strint cs of
          Inl e \<Rightarrow> Inl e
        | Inr fl \<Rightarrow> map_sum id (\<lambda>fls. fl # fls) (convertToCHF percent im uptimeDelta ds))"

definition Poll :: "int \<Rightarrow> (snmp_value \<Rightarrow> u64) \<Rightarrow> (i64 \<Rightarrow> i64 \<Rightarrow> i64) \<Rightarrow> (string \<Rightarrow> SnmpPDU list \<times> go_error option) \<Rightarrow> i64 list \<Rightarrow>
    InterfaceMetrics \<Rightarrow> InterfaceMetrics \<times> interface_flow list res" where
  "Poll now to_uint64 percent walk ups im =
     (case poll_oids now to_uint64 walk (im_oidMap im) im [] of
        (im, Inl e) \<Rightarrow> (im, Inl e)
      | (im, Inr ds) \<Rightarrow>
          let (vals, ds) = poll_uptime ups (im_intValues im, ds);
              im = im\<lparr>im_intValues := vals\<rparr> in
          (im, convertToCHF percent im (uptime_delta ds) ds))"

section \<open>What a counter reports\<close>

text \<open>The increases between one value and the next; a value that is lower starts anew.\<close>

fun rises :: "u64 \<Rightarrow> u64 list \<Rightarrow> nat" where
  "rises prev [] = 0"
| "rises prev (v # vs) = (unat v - unat prev) + rises v vs"

lemma rises_sorted: "sorted_wrt (\<le>) (v # vs) \<Longrightarrow> rises v vs = unat (last (v # vs)) - unat v"
proof (induction vs arbitrary: v)
  case (Cons w vs)
  then have "v \<le> w" "w \<le> last (w # vs)" by auto
  then show ?case using Cons by (simp add: word_le_nat_alt)
qed simp

lemma GetDelta_rise: "map_of (cs_Values cs) nm = Some prev \<Longrightarrow> unat (GetDelta (Some cs) nm v) = unat v - unat prev"
  by (auto simp: GetDelta_def unat_sub word_le_nat_alt)

text \<open>One value of a counter, polled again and again, and the difference each poll reports.\<close>

definition counter_pdu :: "string \<Rightarrow> string \<Rightarrow> u64 \<Rightarrow> SnmpPDU" where
  "counter_pdu oid i v = \<lparr>pdu_Value = S_uint64 v, pdu_Name = oid @ ''.'' @ i, pdu_Type = OtherType\<rparr>"

fun polled :: "(snmp_value \<Rightarrow> u64) \<Rightarrow> string \<Rightarrow> string \<Rightarrow> string \<Rightarrow> (string \<times> CounterSet) list \<Rightarrow> u64 list \<Rightarrow> u64 list" where
  "polled to_uint64 oid nm i vals [] = []"
| "polled to_uint64 oid nm i vals (v # vs) =
     (let (vals, ds) = poll_variable to_uint64 None oid nm (counter_pdu oid i v) (vals, []) in
      the (map_of (the (map_of ds i)) nm) # polled to_uint64 oid nm i vals vs)"

lemma str_cut_long: "length s < length sep \<Longrightarrow> str_cut sep s = None"
  using str_cut_Some [of sep s] by (cases "str_cut sep s") auto

lemma split_index: "oid \<noteq> [] \<Longrightarrow> length i + 1 < length oid \<Longrightarrow> strings_Split (oid @ ''.'' @ i) oid = ['''', ''.'' @ i]"
proof -
  assume a: "oid \<noteq> []" "length i + 1 < length oid"
  have "str_cut oid (oid @ ''.'' @ i) = Some ('''', ''.'' @ i)"
    using a(1) by (cases oid) (auto simp: strings_HasPrefix_def)
  moreover have "str_cut oid (''.'' @ i) = None" using a(2) by (intro str_cut_long) simp
  ultimately show ?thesis using a(1) by (simp add: strings_Split.simps)
qed

lemma poll_counter:
  assumes "oid \<noteq> []" "length i + 1 < length oid" "\<And>v. to_uint64 (S_uint64 v) = v"
  shows "\<exists>vals' ds. poll_variable to_uint64 None oid nm (counter_pdu oid i v) (vals, []) = (vals', ds) \<and>
    map_of (the (map_of ds i)) nm = Some (GetDelta (Some (the (map_of (touch_counters i vals) i))) nm v) \<and>
    (\<exists>cs. map_of vals' i = Some cs \<and> map_of (cs_Values cs) nm = Some v)"
  using split_index [OF assms(1,2)] assms(3)
  by (simp add: poll_variable_def counter_pdu_def Let_def count_value_def SetValueAndReturnDelta_def put_delta_def update_conv')

lemma polled_again:
  assumes "oid \<noteq> []" "length i + 1 < length oid" "\<And>v. to_uint64 (S_uint64 v) = v"
  shows "map_of vals i = Some cs \<Longrightarrow> map_of (cs_Values cs) nm = Some prev \<Longrightarrow>
    sum_list (map unat (polled to_uint64 oid nm i vals vs)) = rises prev vs"
proof (induction vs arbitrary: vals cs prev)
  case (Cons v vs)
  obtain vals' ds cs' where poll: "poll_variable to_uint64 None oid nm (counter_pdu oid i v) (vals, []) = (vals', ds)"
    "map_of (the (map_of ds i)) nm = Some (GetDelta (Some (the (map_of (touch_counters i vals) i))) nm v)"
    "map_of vals' i = Some cs'" "map_of (cs_Values cs') nm = Some v"
    using poll_counter [OF assms, of nm v vals] by blast
  have "touch_counters i vals = vals" using Cons.prems by (simp add: touch_counters_def)
  then show ?case using poll Cons.IH [OF poll(3,4)] Cons.prems GetDelta_rise [of cs nm prev v] by simp
qed simp

text \<open>
  C35. The differences a counter of an interface reports over any number of polls add up to the increases of its
  value, from the first poll on: nothing is counted twice, a restart or a roll over counts as nothing, and for a
  counter that only grows the total is the last value less the first.
\<close>
theorem polled_counter_total:
  assumes "oid \<noteq> []" "length i + 1 < length oid" "\<And>v. to_uint64 (S_uint64 v) = v"
  shows "sum_list (map unat (polled to_uint64 oid nm i [] (v # vs))) =
    (if sorted_wrt (\<le>) (v # vs) then unat (last (v # vs)) - unat v else rises v vs)"
proof -
  obtain vals' ds cs' where poll: "poll_variable to_uint64 None oid nm (counter_pdu oid i v) ([], []) = (vals', ds)"
    "map_of (the (map_of ds i)) nm = Some (GetDelta (Some (the (map_of (touch_counters i []) i))) nm v)"
    "map_of vals' i = Some cs'" "map_of (cs_Values cs') nm = Some v"
    using poll_counter [OF assms, of nm v "[]"] by blast
  have "GetDelta (Some (the (map_of (touch_counters i []) i))) nm v = 0"
    by (simp add: touch_counters_def NewCounterSetWithId_def GetDelta_def)
  then have "sum_list (map unat (polled to_uint64 oid nm i [] (v # vs))) = rises v vs"
    using poll polled_again [OF assms poll(3,4)] by simp
  then show ?thesis using rises_sorted by simp
qed

theorem polled_counter_total_witness:
  "sum_list (map unat (polled ToInt64 ''.1.3.6.1.2.1.31.1.1.1.6'' ''ifHCInOctets'' ''219'' [] (100 # [150, 30, 70]))) =
    (if sorted_wrt (\<le>) (100 # [150, 30, 70 :: u64]) then unat (last (100 # [150, 30, 70 :: u64])) - unat (100 :: u64) else rises 100 [150, 30, 70])"
  by (rule polled_counter_total) simp_all

text \<open>A metric whose own name ends in \<^verbatim>\<open>_counter\<close> is looked up under a name that does not exist.\<close>

lemma counter_named_metric_panics:
  "map_of (im_nameOidMap im) nm = None \<Longrightarrow> find_mib im (nm @ ''_counter'') = Inl (Panic ''slice bounds out of range'')"
  by (simp add: find_mib_def baseMetricName_def strings_HasPrefix_def)

end
