(* ===== verification/Snmp_Profile.thy ===== *)
theory Snmp_Profile
  imports Snmp_Interface
begin

text \<open>
  The profiles of devices, \<^verbatim>\<open>pkg/inputs/snmp/mibs\<close>: \<^verbatim>\<open>profile.go\<close> (loading, extension, the choice of a profile and of the
  objects to poll), \<^verbatim>\<open>load.go\<close> (lookups in the database) and \<^verbatim>\<open>trap.go\<close>. A profile lives in a heap, because several maps
  point to it and extension changes it in place. Go maps are association lists in the order of their iteration.
  Arguments: the decoded files, lower case outside ASCII, regular expressions, scripts and the LevelDB database.
\<close>

section \<open>Profiles\<close>

record OID =
  o_Oid :: string
  o_Name :: string
  o_Enum :: "(string \<times> i64) list option"
  o_Tag :: string
  o_Conversion :: string
  o_PollTime :: int
  o_MatchAttr :: "string list"
  o_Format :: string
  o_AllowDup :: bool
  o_Condition :: string
  o_Script :: string

record Tag =
  tg_Column :: OID
  tg_Tag :: string
  tg_Symbol :: string

record MIB =
  mib_Mib :: string
  mib_Table :: OID
  mib_Symbols :: "OID list"
  mib_MetricTags :: "Tag list"
  mib_ForcedType :: string
  mib_Symbol :: OID
  mib_IsInterface :: bool
  mib_WalkTable :: bool
  mib_fromExtended :: bool

record Match =
  mt_Regex :: string
  mt_Target :: string

record Profile =
  pf_Metrics :: "MIB list"
  pf_Extends :: "string list"
  pf_Vendor :: string
  pf_MetricTags :: "Tag list"
  pf_Sysobjectid :: "string list"
  pf_From :: string
  pf_Matches :: "(string \<times> string) list"
  pf_MatchesList :: "Match list"
  pf_SysMap :: "(string \<times> string) list"
  pf_extended :: bool
  pf_cMib :: string
  pf_cOid :: string

record Trap =
  tr_Oid :: string
  tr_Name :: string
  tr_DropUndefined :: bool
  tr_Events :: "OID list"
  tr_Attributes :: "(string \<times> string) list"

record MibDB =
  db_heap :: "Profile list"
  db_profiles :: "(string \<times> nat) list"
  db_trapMibs :: "(string \<times> Mib) list"
  db_traps :: "(string \<times> Trap) list"
  db_validate :: bool

record profile_args =
  pa_uni :: "string \<Rightarrow> string"
  pa_regexp :: "string \<Rightarrow> (string \<Rightarrow> bool) option"
  pa_script :: "string \<Rightarrow> (string \<Rightarrow> string \<Rightarrow> metric_state \<Rightarrow> metric_state) option"
  pa_order :: "MIB list \<Rightarrow> MIB list"
  pa_visits :: "(string \<times> i64) list \<Rightarrow> (string \<times> i64) list"

fun find_computed :: "MIB list \<Rightarrow> OID option" where
  "find_computed [] = None"
| "find_computed (m # ms) = (if o_Oid (mib_Table m) = ''.1.2.3.3'' then Some (mib_Table m) else find_computed ms)"

text \<open>The result is remembered in the profile, unless its name is empty.\<close>

definition GetMibAndOid :: "Profile option \<Rightarrow> (string \<times> string) \<times> Profile option" where
  "GetMibAndOid p =
     (case p of
        None \<Rightarrow> ((''computed'', ''computed''), None)
      | Some p \<Rightarrow>
          if pf_cMib p \<noteq> [] then ((pf_cMib p, pf_cOid p), Some p)
          else case find_computed (pf_Metrics p) of
              Some t \<Rightarrow> ((o_Name t, o_Oid t), Some (p\<lparr>pf_cOid := o_Oid t, pf_cMib := o_Name t\<rparr>))
            | None \<Rightarrow> ((''computed'', ''computed''), Some p))"

definition GetProfileName :: "Profile option \<Rightarrow> string \<Rightarrow> string" where
  "GetProfileName p override =
     (if override \<noteq> [] then override
      else case p of
          None \<Rightarrow> ''snmp''
        | Some p \<Rightarrow> (let n = hd (strings_Split (pf_From p) ''.'') in if n \<noteq> [] then n else ''snmp''))"

section \<open>Extension\<close>

definition put_all :: "('k \<times> 'v) list \<Rightarrow> ('k \<times> 'v) list \<Rightarrow> ('k \<times> 'v) list" where
  "put_all kvs m = fold (\<lambda>(k, v). AList.update k v) kvs m"

definition merge_profile :: "Profile \<Rightarrow> Profile \<Rightarrow> Profile" where
  "merge_profile ep p = p\<lparr>pf_Metrics := pf_Metrics p @ map (\<lambda>m. m\<lparr>mib_fromExtended := True\<rparr>) (pf_Metrics ep),
     pf_MetricTags := pf_MetricTags p @ pf_MetricTags ep, pf_SysMap := put_all (pf_SysMap ep) (pf_SysMap p)\<rparr>"

definition merge_at :: "nat \<Rightarrow> nat \<Rightarrow> Profile list \<Rightarrow> Profile list" where
  "merge_at p ep hp = hp[p := merge_profile (hp ! ep) (hp ! p)]"

definition mark_extended :: "nat \<Rightarrow> Profile list \<Rightarrow> Profile list" where
  "mark_extended p hp = hp[p := (hp ! p)\<lparr>pf_extended := True\<rparr>]"

text \<open>
  The loop of \<^verbatim>\<open>extend\<close> over the names of a profile at address \<open>p\<close>. Without validation no error is returned, so that an error ends
  the loop in every case.
\<close>

partial_function (option) extend_names :: "bool \<Rightarrow> (string \<times> nat) list \<Rightarrow> nat \<Rightarrow> string list \<Rightarrow> Profile list \<Rightarrow> Profile list res option" where
  "extend_names validate extends p names hp =
     (case names of
        [] \<Rightarrow> Some (Inr hp)
      | nm # rest \<Rightarrow>
          (case map_of extends nm of
             None \<Rightarrow> if validate then Some (Inl (Errorf ''You must set the extended profile.'' [])) else extend_names validate extends p rest hp
           | Some ep \<Rightarrow>
               Option.bind (if pf_extended (hp ! ep) then Some (Inr hp)
                   else extend_names validate extends ep (pf_Extends (hp ! ep)) (mark_extended ep hp))
                 (\<lambda>r. case r of Inl e \<Rightarrow> Some (Inl e) | Inr hp \<Rightarrow> extend_names validate extends p rest (merge_at p ep hp))))"

definition extend_profile :: "bool \<Rightarrow> (string \<times> nat) list \<Rightarrow> nat \<Rightarrow> Profile list \<Rightarrow> Profile list res option" where
  "extend_profile validate extends p hp =
     (if pf_extended (hp ! p) then Some (Inr hp)
      else extend_names validate extends p (pf_Extends (hp ! p)) (mark_extended p hp))"

section \<open>Choosing a profile\<close>

text \<open>The walk up the tree of object ids: the longest prefix that is listed with a wildcard.\<close>

fun walk_up :: "(string \<Rightarrow> 'a option) \<Rightarrow> string list \<Rightarrow> nat \<Rightarrow> 'a option" where
  "walk_up m pts 0 = None"
| "walk_up m pts (Suc i) =
     (case m (strings_Join (take (Suc i) pts) ''.'' @ ''.*'') of Some v \<Rightarrow> Some v | None \<Rightarrow> walk_up m pts i)"

definition walk_oid :: "(string \<Rightarrow> 'a option) \<Rightarrow> string \<Rightarrow> 'a option" where
  "walk_oid m oid = (let pts = strings_Split oid ''.'' in walk_up m pts (length pts))"

definition no_dot :: "string \<Rightarrow> string" where
  "no_dot sysid = (if strings_HasPrefix sysid ''.'' then drop 1 sysid else sysid)"

definition from_file :: "MibDB \<Rightarrow> string \<Rightarrow> nat option" where
  "from_file db target = map_option snd (List.find (\<lambda>(k, p). pf_From (db_heap db ! p) = target) (db_profiles db))"

text \<open>The result of a list of matches: a profile, none after an expression that does not compile, or no match.\<close>

datatype matched = Found nat | Bad_expression | No_match

fun first_match :: "profile_args \<Rightarrow> MibDB \<Rightarrow> string \<Rightarrow> (string \<times> string) list \<Rightarrow> matched" where
  "first_match pa db sysdesc [] = No_match"
| "first_match pa db sysdesc ((regex, target) # ms) =
     (case pa_regexp pa regex of
        None \<Rightarrow> Bad_expression
      | Some re \<Rightarrow>
          if re (strings_ToLower (pa_uni pa) sysdesc)
          then (case from_file db target of Some p \<Rightarrow> Found p | None \<Rightarrow> first_match pa db sysdesc ms)
          else first_match pa db sysdesc ms)"

definition checkMatch :: "profile_args \<Rightarrow> MibDB \<Rightarrow> nat \<Rightarrow> string \<Rightarrow> nat option" where
  "checkMatch pa db pro sysdesc =
     (case first_match pa db sysdesc (map (\<lambda>m. (mt_Regex m, mt_Target m)) (pf_MatchesList (db_heap db ! pro))) of
        Found p \<Rightarrow> Some p
      | Bad_expression \<Rightarrow> None
      | No_match \<Rightarrow>
          (case first_match pa db sysdesc (pf_Matches (db_heap db ! pro)) of
             Found p \<Rightarrow> Some p | Bad_expression \<Rightarrow> None | No_match \<Rightarrow> Some pro))"

definition FindProfile :: "profile_args \<Rightarrow> MibDB \<Rightarrow> string \<Rightarrow> string \<Rightarrow> string \<Rightarrow> nat option" where
  "FindProfile pa db sysid sysdesc mibProfile =
     (case (if strings_HasPrefix mibProfile ''!'' then from_file db (drop 1 mibProfile) else None) of
        Some p \<Rightarrow> Some p
      | None \<Rightarrow>
          let sysid = no_dot sysid in
          (case map_of (db_profiles db) sysid of
             Some p \<Rightarrow> checkMatch pa db p sysdesc
           | None \<Rightarrow> Option.bind (walk_oid (map_of (db_profiles db)) sysid) (\<lambda>p. checkMatch pa db p sysdesc)))"

definition GetDeviceSysComment :: "Profile \<Rightarrow> string \<Rightarrow> string" where
  "GetDeviceSysComment p sysid =
     (let sysid = no_dot sysid in
      case map_of (pf_SysMap p) sysid of
        Some c \<Rightarrow> c
      | None \<Rightarrow> (case walk_oid (map_of (pf_SysMap p)) sysid of Some c \<Rightarrow> c | None \<Rightarrow> []))"

definition GetMibs :: "Profile \<Rightarrow> string list" where
  "GetMibs p = remdups (map mib_Mib (pf_Metrics p))"

text \<open>\<^verbatim>\<open>validate\<close> reports an error.\<close>

definition unnamed :: "OID \<Rightarrow> bool" where
  "unnamed oid \<longleftrightarrow> o_Oid oid \<noteq> [] \<and> o_Name oid = []"

definition profile_error :: "Profile \<Rightarrow> bool" where
  "profile_error p \<longleftrightarrow>
     list_ex (\<lambda>m. (o_Oid (mib_Symbol m) = [] \<and> mib_Symbols m = []) \<or> unnamed (mib_Symbol m) \<or> list_ex unnamed (mib_Symbols m)) (pf_Metrics p) \<or>
     list_ex (\<lambda>t. o_Oid (tg_Column t) = [] \<or> unnamed (tg_Column t)) (pf_MetricTags p) \<or>
     list_ex (\<lambda>m. list_ex (\<lambda>t. unnamed (tg_Column t)) (mib_MetricTags m)) (pf_Metrics p)"

section \<open>The objects of a profile\<close>

definition OID_GetTableName :: "profile_args \<Rightarrow> OID \<Rightarrow> string" where
  "OID_GetTableName pa oid =
     (let name = strings_ToLower (pa_uni pa) (o_Name oid) in
      if o_Name oid = [] then []
      else if strings_HasSuffix name ''xtable'' then take (length (o_Name oid) - 6) (o_Name oid)
      else if strings_HasSuffix name ''table'' then take (length (o_Name oid) - 5) (o_Name oid)
      else o_Name oid)"

definition strings_Trim :: "string \<Rightarrow> string \<Rightarrow> string" where
  "strings_Trim s cutset = rev (dropWhile (\<lambda>c. c \<in> set cutset) (rev (dropWhile (\<lambda>c. c \<in> set cutset) s)))"

definition GetCondition :: "OID \<Rightarrow> MibCondition option" where
  "GetCondition oid =
     (case strings_Split (o_Condition oid) ''='' of
        [l, r] \<Rightarrow>
          Some (case strconv_Atoi r of
             None \<Rightarrow> \<lparr>mc_TargetName = l, mc_TargetValue = 0, mc_TargetString = strings_Trim r [CHR '' '', CHR 0x22]\<rparr>
           | Some v \<Rightarrow> \<lparr>mc_TargetName = l, mc_TargetValue = word_of_int v, mc_TargetString = []\<rparr>)
      | _ \<Rightarrow> None)"

definition indexEnum :: "profile_args \<Rightarrow> Mib \<Rightarrow> Mib" where
  "indexEnum pa mib =
     (let enum = (case mb_Enum mib of None \<Rightarrow> [] | Some e \<Rightarrow> e) in
      mib\<lparr>mb_Enum := Some (fold (\<lambda>(k, v) m. AList.update (strings_ToLower (pa_uni pa) k) v (AList.update k v m)) enum []),
        mb_EnumRev := Some (fold (\<lambda>(k, v). AList.update (sint v) k) enum [])\<rparr>)"

definition index_enum :: "profile_args \<Rightarrow> Mib \<Rightarrow> Mib" where
  "index_enum pa mib = (if mb_Enum mib = None \<or> mb_Enum mib = Some [] then mib else indexEnum pa mib)"

definition zero_mib :: Mib where
  "zero_mib = \<lparr>mb_Oid = [], mb_Name = [], mb_Type = 0, mb_Extra = [], mb_Tag = [], mb_Enum = None, mb_EnumRev = None, mb_Conversion = [],
     mb_Mib = [], mb_Table = [], mb_PollDur = 0, mb_MatchAttr = None, mb_lastPoll = 0, mb_FromExtended = False, mb_OtherTables = None,
     mb_Format = [], mb_AllowDup = False, mb_Condition = None, mb_Script = None, mb_VarSet = [], mb_XAttr = [], mb_WalkTable = False,
     mb_TableOid = []\<rparr>"

definition Counter_type :: int where "Counter_type = 6"
definition String_type :: int where "String_type = 2"
definition EnableAllMibs :: string where "EnableAllMibs = ''USE_ALL_MIBS''"
definition PollAdjustTime :: int where "PollAdjustTime = 5"

text \<open>A \<^verbatim>\<open>time.Duration\<close> in nanoseconds.\<close>

definition poll_duration :: "int \<Rightarrow> int" where
  "poll_duration secs = wrap_int ((secs - PollAdjustTime) * 1000000000)"

record enabled =
  en_mibs :: "string list"
  en_tables :: "(string \<times> string) list"
  en_all :: bool

definition enabled_of :: "string list \<Rightarrow> enabled" where
  "enabled_of mibs = \<lparr>en_mibs = map (\<lambda>m. hd (strings_Split m ''.'')) mibs,
     en_tables = concat (map (\<lambda>m. case strings_Split m ''.'' of m0 # t # _ \<Rightarrow> [(m0, t)] | _ \<Rightarrow> []) mibs),
     en_all = (EnableAllMibs \<in> set mibs)\<rparr>"

definition is_enabled :: "enabled \<Rightarrow> MIB \<Rightarrow> bool" where
  "is_enabled en m \<longleftrightarrow> (en_all en \<or> mib_Mib m \<in> set (en_mibs en)) \<and>
     (mib_Mib m \<in> fst ` set (en_tables en) \<longrightarrow> (mib_Mib m, o_Name (mib_Table m)) \<in> set (en_tables en))"

definition is_metric :: "MIB \<Rightarrow> bool" where
  "is_metric m \<longleftrightarrow> mib_ForcedType m \<in> {[], ''monotonic_count'', ''monotonic_count_and_rate''}"

definition symbol_mib :: "profile_args \<Rightarrow> MIB \<Rightarrow> OID \<Rightarrow> Mib" where
  "symbol_mib pa m s = index_enum pa (zero_mib\<lparr>mb_Oid := o_Oid s, mb_Name := o_Name s, mb_Type := Counter_type, mb_Enum := o_Enum s,
     mb_Tag := o_Tag s, mb_Conversion := o_Conversion s, mb_Mib := mib_Mib m, mb_Table := OID_GetTableName pa (mib_Table m),
     mb_FromExtended := mib_fromExtended m, mb_Format := o_Format s, mb_AllowDup := o_AllowDup s, mb_Condition := GetCondition s,
     mb_WalkTable := mib_WalkTable m, mb_TableOid := o_Oid (mib_Table m)\<rparr>)"

definition poll_time :: "int \<Rightarrow> OID \<Rightarrow> Mib \<Rightarrow> int \<Rightarrow> Mib \<times> int" where
  "poll_time counterTimeSec s mib minCounterTime =
     (if o_PollTime s > 0 \<and> counterTimeSec > o_PollTime s then (mib\<lparr>mb_PollDur := poll_duration (o_PollTime s)\<rparr>, o_PollTime s)
      else if o_PollTime s > 0 \<and> counterTimeSec < o_PollTime s then (mib\<lparr>mb_PollDur := poll_duration (o_PollTime s)\<rparr>, minCounterTime)
      else (mib, minCounterTime))"

record selected =
  sel_device :: "(string \<times> Mib) list"
  sel_interface :: "(string \<times> Mib) list"
  sel_time :: int

text \<open>One symbol. The flag says whether it has a name.\<close>

definition add_symbol :: "profile_args \<Rightarrow> int \<Rightarrow> MIB \<Rightarrow> OID \<Rightarrow> selected \<Rightarrow> bool \<times> selected" where
  "add_symbol pa counterTimeSec m s sel =
     (case poll_time counterTimeSec s (symbol_mib pa m s) (sel_time sel) of (mib, t) \<Rightarrow>
        let sel = sel\<lparr>sel_time := t\<rparr>;
            mib = (if o_Script s \<noteq> [] then mib\<lparr>mb_Script := pa_script pa (o_Script s)\<rparr> else mib)
        in if mb_Name mib = [] then (False, sel)
           else if mib_IsInterface m \<or> strings_HasPrefix (o_Name s) ''if'' then (True, sel\<lparr>sel_interface := AList.update (o_Oid s) mib (sel_interface sel)\<rparr>)
           else (True, sel\<lparr>sel_device := AList.update (o_Oid s) mib (sel_device sel)\<rparr>))"

text \<open>A symbol without a name ends the treatment of its table when it is the single one.\<close>

definition add_table :: "profile_args \<Rightarrow> enabled \<Rightarrow> int \<Rightarrow> MIB \<Rightarrow> selected \<Rightarrow> selected" where
  "add_table pa en counterTimeSec m sel =
     (if \<not> is_enabled en m \<or> \<not> is_metric m then sel
      else case (if o_Oid (mib_Symbol m) \<noteq> [] then add_symbol pa counterTimeSec m (mib_Symbol m) sel else (True, sel)) of (named, sel) \<Rightarrow>
        if named then fold (\<lambda>s sel. snd (add_symbol pa counterTimeSec m s sel)) (mib_Symbols m) sel else sel)"

subsection \<open>Pruning\<close>

text \<open>For each name the object id to keep, and whether it comes from an extended profile.\<close>

definition see_mib :: "string \<times> Mib \<Rightarrow> (string \<times> string \<times> bool) list \<Rightarrow> (string \<times> string \<times> bool) list" where
  "see_mib om seen =
     (case om of (oid, mib) \<Rightarrow>
        let nm = Mib_GetName (Some mib) in
        (case map_of seen nm of
           None \<Rightarrow> AList.update nm (oid, mb_FromExtended mib) seen
         | Some (soid, sext) \<Rightarrow>
             if sext \<and> \<not> mb_FromExtended mib then AList.update nm (oid, mb_FromExtended mib) seen
             else if mb_FromExtended mib \<and> \<not> sext then seen
             else if length oid > length soid then AList.update nm (oid, sext) seen
             else seen))"

definition slow_down :: "int \<Rightarrow> int \<Rightarrow> Mib \<Rightarrow> Mib" where
  "slow_down counterTimeSec minCounterTime mib =
     (if mb_PollDur mib = 0 \<and> counterTimeSec \<noteq> minCounterTime then mib\<lparr>mb_PollDur := poll_duration counterTimeSec\<rparr> else mib)"

definition prune :: "(string \<times> Mib) list \<Rightarrow> int \<Rightarrow> int \<Rightarrow> (string \<times> Mib) list" where
  "prune mibs counterTimeSec minCounterTime =
     (let keep = (\<lambda>oid. oid \<in> (fst \<circ> snd) ` set (fold see_mib mibs []))
      in map (\<lambda>(oid, mib). (oid, slow_down counterTimeSec minCounterTime mib)) (filter (\<lambda>(oid, mib). keep oid \<or> mb_AllowDup mib) mibs))"

definition GetMetrics :: "profile_args \<Rightarrow> Profile \<Rightarrow> string list \<Rightarrow> int \<Rightarrow> (string \<times> Mib) list \<times> (string \<times> Mib) list \<times> int" where
  "GetMetrics pa p enabledMibs counterTimeSec =
     (let sel = fold (add_table pa (enabled_of enabledMibs) counterTimeSec) (pf_Metrics p)
            \<lparr>sel_device = [], sel_interface = [], sel_time = counterTimeSec\<rparr>
      in (prune (sel_device sel) counterTimeSec (sel_time sel), prune (sel_interface sel) counterTimeSec (sel_time sel), sel_time sel))"

subsection \<open>Metadata\<close>

text \<open>Every expression that compiles is stored under the name of the object, the last one stays.\<close>

definition match_attrs :: "profile_args \<Rightarrow> OID \<Rightarrow> Mib \<Rightarrow> Mib" where
  "match_attrs pa oid mib =
     (if o_MatchAttr oid = [] then mib
      else mib\<lparr>mb_MatchAttr := Some (fold (\<lambda>r m. case pa_regexp pa r of None \<Rightarrow> m | Some re \<Rightarrow> AList.update (Mib_GetName (Some mib)) re m) (o_MatchAttr oid) [])\<rparr>)"

definition tag_script :: "profile_args \<Rightarrow> OID \<Rightarrow> Mib \<Rightarrow> Mib" where
  "tag_script pa oid mib = (if o_Script oid \<noteq> [] then mib\<lparr>mb_Script := pa_script pa (o_Script oid)\<rparr> else mib)"

definition tag_mib :: "profile_args \<Rightarrow> Tag \<Rightarrow> Mib" where
  "tag_mib pa t = (let c = tg_Column t in
     tag_script pa c (match_attrs pa c (index_enum pa (zero_mib\<lparr>mb_Oid := o_Oid c, mb_Name := o_Name c, mb_Type := String_type, mb_Tag := tg_Tag t,
       mb_Conversion := o_Conversion c, mb_Enum := o_Enum c, mb_AllowDup := o_AllowDup c\<rparr>))))"

definition table_tag_mib :: "profile_args \<Rightarrow> MIB \<Rightarrow> Tag \<Rightarrow> Mib" where
  "table_tag_mib pa m t = (let c = tg_Column t; tn = OID_GetTableName pa (mib_Table m) in
     tag_script pa c (match_attrs pa c ((index_enum pa (zero_mib\<lparr>mb_Oid := o_Oid c, mb_Name := o_Name c, mb_Type := String_type, mb_Tag := tg_Tag t,
       mb_Conversion := o_Conversion c, mb_Mib := mib_Mib m, mb_Table := tn, mb_Enum := o_Enum c, mb_AllowDup := o_AllowDup c,
       mb_WalkTable := mib_WalkTable m, mb_TableOid := o_Oid (mib_Table m)\<rparr>))
         \<lparr>mb_OtherTables := if tn \<noteq> [] then Some [(tn, True)] else None\<rparr>)))"

definition Mib_Extend :: "Mib \<Rightarrow> Mib \<Rightarrow> Mib" where
  "Mib_Extend nm mb = mb\<lparr>mb_OtherTables :=
     Some (AList.update (mb_Table nm) True (case mb_OtherTables mb of None \<Rightarrow> [(mb_Table mb, True)] | Some ts \<Rightarrow> ts))\<rparr>"

definition add_or_extend :: "string \<Rightarrow> Mib \<Rightarrow> (string \<times> Mib) list \<Rightarrow> (string \<times> Mib) list" where
  "add_or_extend oid mib ms = AList.update oid (case map_of ms oid of Some em \<Rightarrow> Mib_Extend mib em | None \<Rightarrow> mib) ms"

definition add_table_tag :: "profile_args \<Rightarrow> MIB \<Rightarrow> Tag \<Rightarrow> (string \<times> Mib) list \<times> (string \<times> Mib) list \<Rightarrow> (string \<times> Mib) list \<times> (string \<times> Mib) list" where
  "add_table_tag pa m t s =
     (case s of (dev, ifs) \<Rightarrow>
        let oid = o_Oid (tg_Column t); mib = table_tag_mib pa m t in
        if oid = [] then (dev, ifs)
        else if mib_IsInterface m \<or> strings_HasPrefix (o_Name (tg_Column t)) ''if'' then (dev, add_or_extend oid mib ifs)
        else (add_or_extend oid mib dev, ifs))"

definition GetMetadata :: "profile_args \<Rightarrow> Profile \<Rightarrow> string list \<Rightarrow> (string \<times> Mib) list \<times> (string \<times> Mib) list" where
  "GetMetadata pa p enabledMibs =
     (let en = enabled_of enabledMibs;
          dev = fold (\<lambda>t ms. if o_Oid (tg_Column t) \<noteq> [] then AList.update (o_Oid (tg_Column t)) (tag_mib pa t) ms else ms) (pf_MetricTags p) []
      in case fold (\<lambda>m s. if is_enabled en m then fold (add_table_tag pa m) (mib_MetricTags m) s else s) (pf_Metrics p) (dev, []) of
          (dev, ifs) \<Rightarrow> (prune dev 0 0, prune ifs 0 0))"

section \<open>Loading\<close>

definition zero_oid :: OID where
  "zero_oid = \<lparr>o_Oid = [], o_Name = [], o_Enum = None, o_Tag = [], o_Conversion = [], o_PollTime = 0, o_MatchAttr = [], o_Format = [],
     o_AllowDup = False, o_Condition = [], o_Script = []\<rparr>"

text \<open>The parts of an APC description that the profile uses.\<close>

record apc_data =
  ad_Oid :: string
  ad_Field :: string
  ad_RuleId :: string
  ad_Id :: string

record apc_sensor =
  as_SensorSet :: string
  as_Oid :: string
  as_SensorId :: string

record apc_device =
  ap_Id :: string
  ap_OidMustExist :: "string list"
  ap_SetProductData :: "apc_data list"
  ap_SetLocationData :: "apc_data list"
  ap_NumSensors :: "apc_sensor list"

definition apc_tags :: "apc_data list \<Rightarrow> Tag list" where
  "apc_tags ds = map (\<lambda>d. \<lparr>tg_Column = zero_oid\<lparr>o_Oid := ad_Oid d, o_Name := ad_Field d\<rparr>, tg_Tag = ad_RuleId d, tg_Symbol = ad_Id d\<rparr>)
     (filter (\<lambda>d. ad_Oid d \<noteq> []) ds)"

definition add_sensor :: "apc_sensor \<Rightarrow> (string \<times> MIB) list \<Rightarrow> (string \<times> MIB) list" where
  "add_sensor s mibs =
     (let m = (case map_of mibs (as_SensorSet s) of
            Some m \<Rightarrow> m
          | None \<Rightarrow> \<lparr>mib_Mib = as_SensorSet s, mib_Table = zero_oid, mib_Symbols = [], mib_MetricTags = [], mib_ForcedType = [],
              mib_Symbol = zero_oid, mib_IsInterface = False, mib_WalkTable = False, mib_fromExtended = False\<rparr>)
      in AList.update (as_SensorSet s) (m\<lparr>mib_Symbols := mib_Symbols m @ [zero_oid\<lparr>o_Oid := as_Oid s, o_Name := as_SensorId s\<rparr>]\<rparr>) mibs)"

definition newProfileFromApc :: "profile_args \<Rightarrow> string \<Rightarrow> apc_device list \<Rightarrow> Profile list" where
  "newProfileFromApc pa file devices =
     map (\<lambda>d. \<lparr>pf_Metrics = pa_order pa (map snd (fold add_sensor (ap_NumSensors d) [])), pf_Extends = [], pf_Vendor = ap_Id d,
        pf_MetricTags = apc_tags (ap_SetProductData d) @ apc_tags (ap_SetLocationData d), pf_Sysobjectid = ap_OidMustExist d, pf_From = file,
        pf_Matches = [], pf_MatchesList = [], pf_SysMap = [], pf_extended = False, pf_cMib = [], pf_cOid = []\<rparr>) devices"

definition add_apc_profile :: "Profile \<Rightarrow> MibDB \<Rightarrow> MibDB" where
  "add_apc_profile t db =
     (let a = length (db_heap db) in
      db\<lparr>db_heap := db_heap db @ [t],
        db_profiles := fold (\<lambda>sysid ps. if no_dot sysid = [] then ps else AList.update (no_dot sysid) a ps) (pf_Sysobjectid t) (db_profiles db)\<rparr>)"

definition parseMibFromXml :: "profile_args \<Rightarrow> string \<Rightarrow> apc_device list \<Rightarrow> MibDB \<Rightarrow> MibDB" where
  "parseMibFromXml pa file devices db = fold add_apc_profile (newProfileFromApc pa file devices) db"

text \<open>A decoded profile with the comments of its file. The first file that lists an id keeps it.\<close>

definition parseMibFromYml :: "string \<Rightarrow> Profile \<Rightarrow> (string \<times> string) list \<Rightarrow> MibDB \<times> (string \<times> nat) list \<Rightarrow> MibDB \<times> (string \<times> nat) list" where
  "parseMibFromYml name t comments s =
     (case s of (db, extends) \<Rightarrow>
        let a = length (db_heap db) in
        (db\<lparr>db_heap := db_heap db @ [t\<lparr>pf_SysMap := comments\<rparr>],
           db_profiles := fold (\<lambda>sysid ps. if map_of ps (no_dot sysid) = None then AList.update (no_dot sysid) a ps else ps)
             (pf_Sysobjectid t) (db_profiles db)\<rparr>, AList.update name a extends))"

definition normalizeOid :: "string \<Rightarrow> string" where
  "normalizeOid oid = (if strings_HasPrefix oid ''.'' then oid else ''.'' @ oid)"

definition is_variable :: "string \<Rightarrow> bool" where
  "is_variable s \<longleftrightarrow> length s > 2 \<and> hd s = CHR 0x7B \<and> last s = CHR 0x7D"

fun trap_parts :: "string list \<Rightarrow> int \<Rightarrow> (string \<times> int \<times> int) list \<Rightarrow> string list \<Rightarrow> (string \<times> int \<times> int) list \<times> string list" where
  "trap_parts [] k kvs new = (kvs, new)"
| "trap_parts (p # pts) k kvs new =
     (if is_variable p then
        (case strings_Split (butlast (tl p)) '':'' of
           [v, l] \<Rightarrow>
             (case strconv_Atoi l of
                Some vlen \<Rightarrow> trap_parts pts (k + vlen) (AList.update v (k + 1, vlen) kvs) new
              | None \<Rightarrow> if l = ''*'' then (AList.update v (k + 1, 0) kvs, new) else trap_parts pts k kvs new)
         | _ \<Rightarrow> trap_parts pts k kvs new)
      else trap_parts pts (k + 1) kvs (new @ [p]))"

text \<open>
  The names of a trap's values. The loop adds lower case keys to the map it visits: \<^verbatim>\<open>pa_visits\<close> yields the entries it meets, all
  those of before and perhaps some of the added ones.
\<close>

definition trap_enum :: "profile_args \<Rightarrow> Mib \<Rightarrow> Mib" where
  "trap_enum pa mib =
     (case mb_Enum mib of
        None \<Rightarrow> mib
      | Some enum \<Rightarrow>
          if enum = [] then mib
          else mib\<lparr>mb_Enum := Some (fold (\<lambda>(k, v). AList.update (strings_ToLower (pa_uni pa) k) v) (pa_visits pa enum) enum),
            mb_EnumRev := Some (fold (\<lambda>(k, v). AList.update (sint v) k) (pa_visits pa enum) [])\<rparr>)"

definition trap_mib :: "profile_args \<Rightarrow> Trap \<Rightarrow> OID \<Rightarrow> Mib" where
  "trap_mib pa tr ev =
     (case trap_parts (strings_Split (o_Oid ev) ''.'') 0 [] [] of (kvs, new) \<Rightarrow>
        trap_enum pa (zero_mib\<lparr>mb_Oid := strings_Join (if kvs \<noteq> [] then new @ [''*''] else new) ''.'', mb_Name := o_Name ev, mb_Enum := o_Enum ev,
          mb_Tag := o_Tag ev, mb_Conversion := o_Conversion ev, mb_Extra := tr_Name tr, mb_Mib := tr_Oid tr, mb_VarSet := kvs,
          mb_XAttr := tr_Attributes tr\<rparr>))"

definition parseTrapsFromYml :: "profile_args \<Rightarrow> Trap list \<Rightarrow> MibDB \<Rightarrow> MibDB" where
  "parseTrapsFromYml pa traps db =
     fold (\<lambda>tr db. db\<lparr>db_trapMibs := fold (\<lambda>ev ms. let m = trap_mib pa tr ev in AList.update (normalizeOid (mb_Oid m)) m ms) (tr_Events tr) (db_trapMibs db),
         db_traps := AList.update (normalizeOid (tr_Oid tr)) tr (db_traps db)\<rparr>) traps db"

text \<open>
  The entries of a directory, with what the decoders make of a file: a profile with its comments, traps, or an APC description. A
  directory that cannot be read has no entries, and none of the decoders accepts a directory.
\<close>

datatype dir_entry =
    No_stat string
  | File string "(Profile \<times> (string \<times> string) list) option" "Trap list option" "apc_device list option"
  | Dir string "dir_entry list option"

fun entry_name :: "dir_entry \<Rightarrow> string" where
  "entry_name (No_stat n) = n"
| "entry_name (File n _ _ _) = n"
| "entry_name (Dir n _) = n"

definition file_ext :: "string \<Rightarrow> string" where
  "file_ext name = (if strings_Contains name ''.'' then last (strings_Split name ''.'') else [])"

type_synonym load_state = "MibDB \<times> (string \<times> nat) list"

definition load_error :: "bool \<Rightarrow> load_state \<Rightarrow> load_state res" where
  "load_error validate s = (if validate then Inl (Errorf ''There was an error when parsing'' []) else Inr s)"

text \<open>What \<^verbatim>\<open>loadProfileDir\<close> does with a name after the recursion.\<close>

definition load_file :: "profile_args \<Rightarrow> string \<Rightarrow> dir_entry \<Rightarrow> load_state \<Rightarrow> load_state res" where
  "load_file pa dir en s =
     (let name = entry_name en;
          yaml = (case en of File _ y _ _ \<Rightarrow> y | _ \<Rightarrow> None);
          traps = (case en of File _ _ t _ \<Rightarrow> t | _ \<Rightarrow> None);
          apc = (case en of File _ _ _ x \<Rightarrow> x | _ \<Rightarrow> None);
          v = db_validate (fst s)
      in if name \<in> {''traps.yaml'', ''traps.yml''} then (case traps of None \<Rightarrow> load_error v s | Some ts \<Rightarrow> Inr (parseTrapsFromYml pa ts (fst s), snd s))
         else if file_ext name = ''xml'' then (case apc of None \<Rightarrow> load_error v s | Some ds \<Rightarrow> Inr (parseMibFromXml pa (dir @ ''/'' @ name) ds (fst s), snd s))
         else if file_ext name \<in> {''yaml'', ''yml''} then (case yaml of None \<Rightarrow> load_error v s | Some (t, cs) \<Rightarrow> Inr (parseMibFromYml name t cs s))
         else Inr s)"

fun loadProfileDir :: "profile_args \<Rightarrow> string \<Rightarrow> dir_entry list \<Rightarrow> load_state \<Rightarrow> load_state res" where
  "loadProfileDir pa dir [] s = Inr s"
| "loadProfileDir pa dir (No_stat n # es) s =
     (if strings_HasPrefix n ''.'' then loadProfileDir pa dir es s
      else if db_validate (fst s) then Inl (Errorf ''There was an error with the folder'' []) else loadProfileDir pa dir es s)"
| "loadProfileDir pa dir (File n y t x # es) s =
     (if strings_HasPrefix n ''.'' then loadProfileDir pa dir es s
      else case load_file pa dir (File n y t x) s of Inl e \<Rightarrow> Inl e | Inr s \<Rightarrow> loadProfileDir pa dir es s)"
| "loadProfileDir pa dir (Dir n sub # es) s =
     (if strings_HasPrefix n ''.'' then loadProfileDir pa dir es s
      else case (case sub of None \<Rightarrow> Inl (Errorf ''readdir'' []) | Some ds \<Rightarrow> loadProfileDir pa (dir @ ''/'' @ n) ds s) of
          Inl e \<Rightarrow> if db_validate (fst s) then Inl e else loadProfileDir pa dir es s
        | Inr s \<Rightarrow> (case load_file pa dir (Dir n sub) s of Inl e \<Rightarrow> Inl e | Inr s \<Rightarrow> loadProfileDir pa dir es s))"

fun extend_all :: "(string \<times> nat) list \<Rightarrow> (string \<times> nat) list \<Rightarrow> MibDB \<Rightarrow> MibDB res option" where
  "extend_all extends [] db = Some (Inr db)"
| "extend_all extends ((sysid, p) # ps) db =
     Option.bind (extend_profile (db_validate db) extends p (db_heap db)) (\<lambda>r. case r of
        Inl e \<Rightarrow> Some (Inl e)
      | Inr hp \<Rightarrow>
          if db_validate db \<and> profile_error (hp ! p) then Some (Inl (Errorf ''Error in profile'' []))
          else extend_all extends ps (db\<lparr>db_heap := hp\<rparr>))"

definition LoadProfiles :: "profile_args \<Rightarrow> string \<Rightarrow> dir_entry list option \<Rightarrow> MibDB \<Rightarrow> (nat \<times> MibDB) res option" where
  "LoadProfiles pa dir es db =
     (case es of
        None \<Rightarrow> Some (Inl (Errorf ''readdir'' []))
      | Some es \<Rightarrow>
          (case loadProfileDir pa dir es (db, []) of
             Inl e \<Rightarrow> Some (Inl e)
           | Inr (db, extends) \<Rightarrow> map_option (map_sum id (\<lambda>db. (length (db_profiles db), db))) (extend_all extends (db_profiles db) db)))"

definition NewMibDB :: "profile_args \<Rightarrow> string \<Rightarrow> dir_entry list option \<Rightarrow> bool \<Rightarrow> MibDB res option" where
  "NewMibDB pa dir es validate =
     (let db = \<lparr>db_heap = [], db_profiles = [], db_trapMibs = [], db_traps = [], db_validate = validate\<rparr>
      in if dir = [] then Some (Inr db) else map_option (map_sum id snd) (LoadProfiles pa dir es db))"

section \<open>Lookups\<close>

definition GetTrap :: "MibDB \<Rightarrow> string \<Rightarrow> Trap option" where
  "GetTrap db oid = (case map_of (db_traps db) oid of Some t \<Rightarrow> Some t | None \<Rightarrow> walk_oid (map_of (db_traps db)) oid)"

definition DropUndefinedVars :: "Trap option \<Rightarrow> bool" where
  "DropUndefinedVars t = (case t of None \<Rightarrow> False | Some t \<Rightarrow> tr_DropUndefined t)"

text \<open>\<^verbatim>\<open>pts[a:b]\<close>\<close>

definition slice_checked :: "int \<Rightarrow> int \<Rightarrow> 'a list \<Rightarrow> 'a list res" where
  "slice_checked a b xs =
     (if 0 \<le> a \<and> a \<le> b \<and> b \<le> int (length xs) then Inr (take (nat (b - a)) (drop (nat a) xs)) else Inl (Panic ''slice bounds out of range''))"

fun fill_vars :: "string list \<Rightarrow> (string \<times> int \<times> int) list \<Rightarrow> (string \<times> string) list \<Rightarrow> (string \<times> string) list res" where
  "fill_vars pts [] attrs = Inr attrs"
| "fill_vars pts ((nm, p0, p1) # vs) attrs =
     (if int (length pts) < p0 + p1 then fill_vars pts vs attrs
      else case slice_checked p0 (if p1 = 0 then int (length pts) else p0 + p1) pts of
          Inl e \<Rightarrow> Inl e
        | Inr xs \<Rightarrow> fill_vars pts vs (AList.update nm (strings_Join xs ''.'') attrs))"

definition add_missing :: "('k \<times> 'v) list \<Rightarrow> ('k \<times> 'v) list \<Rightarrow> ('k \<times> 'v) list" where
  "add_missing kvs m = fold (\<lambda>(k, v) m. if map_of m k = None then AList.update k v m else m) kvs m"

text \<open>The number after \<^verbatim>\<open>type=\<close> at the first place where one stands.\<close>

fun find_type :: "string \<Rightarrow> string option" where
  "find_type [] = None"
| "find_type (c # s) =
     (let ds = takeWhile is_digit (drop 5 (c # s)) in
      if strings_HasPrefix (c # s) ''type='' \<and> ds \<noteq> [] then Some ds else find_type s)"

definition stored_mib :: "string \<Rightarrow> string \<Rightarrow> (Mib \<times> string) option" where
  "stored_mib oid data =
     (case strings_SplitN data '' '' 2 of
        nm # rest # _ \<Rightarrow>
          (case Option.bind (find_type rest) strconv_Atoi of
             Some dt \<Rightarrow> Some (zero_mib\<lparr>mb_Oid := oid, mb_Name := hd (strings_SplitN nm ''('' 2), mb_Type := dt\<rparr>, rest)
           | None \<Rightarrow> None)
      | _ \<Rightarrow> None)"

definition GetForKey :: "(string \<Rightarrow> string option res) option \<Rightarrow> MibDB \<Rightarrow> string \<Rightarrow> (Mib \<times> (string \<times> string) list) option res" where
  "GetForKey ldb db oid =
     (case map_of (db_trapMibs db) oid of
        Some m \<Rightarrow> Inr (Some (m, mb_XAttr m))
      | None \<Rightarrow>
          (case walk_oid (map_of (db_trapMibs db)) oid of
             Some m \<Rightarrow> map_sum id (\<lambda>attrs. Some (m, add_missing (mb_XAttr m) attrs)) (fill_vars (strings_Split oid ''.'') (mb_VarSet m) [])
           | None \<Rightarrow>
               (case ldb of
                  None \<Rightarrow> Inr None
                | Some get \<Rightarrow> map_sum id (\<lambda>d. map_option (\<lambda>(m, _). (m, [])) (Option.bind d (stored_mib oid))) (get oid))))"

definition has_any :: "string \<Rightarrow> string list \<Rightarrow> bool" where
  "has_any s subs \<longleftrightarrow> list_ex (strings_Contains s) subs"

definition checkForProvider :: "profile_args \<Rightarrow> string \<Rightarrow> string \<Rightarrow> string \<Rightarrow> Provider option" where
  "checkForProvider pa name profile description =
     (let profile = strings_ToLower (pa_uni pa) profile;
          combo = strings_ToLower (pa_uni pa) name @ ''^'' @ strings_ToLower (pa_uni pa) description
      in if strings_Contains profile ''base.yml'' then Some ''kentik-default''
         else if \<not> strings_Contains profile ''cisco-catalyst'' \<and> (has_any combo [''router'', ''ios xr'', ''freebsd''] \<or> strings_Contains profile ''cisco-asr'')
           then Some ''kentik-router''
         else if strings_Contains combo ''switch'' \<or> strings_Contains profile ''cisco-catalyst'' then Some ''kentik-switch''
         else if strings_Contains combo ''firewall'' then Some ''kentik-firewall''
         else if strings_Contains profile ''ups'' then Some ''kentik-ups''
         else if strings_Contains profile ''pdu'' then Some ''kentik-pdu''
         else if strings_Contains profile ''fc-switch'' then Some ''kentik-fibre-channel''
         else if strings_Contains combo ''iot'' then Some ''kentik-iot''
         else if strings_Contains combo ''printer'' then Some ''kentik-iot''
         else if strings_Contains combo ''nas'' then Some ''kentik-nas''
         else if strings_Contains combo ''san'' then Some ''kentik-san''
         else if strings_Contains combo ''wireless'' then Some ''kentik-wireless-controller''
         else None)"

definition validOids :: "int list" where
  "validOids = [1, 2, 3, 4, 5, 6, 7, 8, 11, 12, 15, 16]"

record oid_scan =
  os_mibs :: "(string \<times> Mib) list"
  os_provider :: Provider
  os_found :: bool

definition scan_entry :: "profile_args \<Rightarrow> string \<Rightarrow> string \<Rightarrow> string \<times> string \<Rightarrow> oid_scan \<Rightarrow> oid_scan" where
  "scan_entry pa profile description kv sc =
     (case kv of (key, val) \<Rightarrow>
        (case stored_mib key val of
           None \<Rightarrow> sc
         | Some (m, rest) \<Rightarrow>
             let extra = strings_SplitN rest '' '' 2;
                 sc = (if os_found sc then sc
                   else case checkForProvider pa (hd (strings_SplitN val '' '' 2)) profile description of
                       Some prov \<Rightarrow> sc\<lparr>os_provider := prov, os_found := True\<rparr>
                     | None \<Rightarrow> sc)
             in if mb_Type m \<in> set validOids
                then sc\<lparr>os_mibs := AList.update key (m\<lparr>mb_Extra := if length extra > 1 then extra ! 1 else []\<rparr>) (os_mibs sc)\<rparr> else sc))"

text \<open>The database lists the entries whose key starts with the id, or ends with an error.\<close>

definition GetForOid :: "profile_args \<Rightarrow> (string \<Rightarrow> (string \<times> string) list res) option \<Rightarrow> string \<Rightarrow> string \<Rightarrow> string \<Rightarrow> ((string \<times> Mib) list \<times> Provider) res" where
  "GetForOid pa ldb oid profile description =
     (case ldb of
        None \<Rightarrow> Inr ([], case checkForProvider pa oid profile description of Some prov \<Rightarrow> prov | None \<Rightarrow> [])
      | Some iter \<Rightarrow>
          map_sum id (\<lambda>kvs. let sc = fold (scan_entry pa profile description) kvs \<lparr>os_mibs = [], os_provider = ''kentik-default'', os_found = False\<rparr>
            in (os_mibs sc, os_provider sc)) (iter oid))"

fun recur_oid :: "profile_args \<Rightarrow> (string \<Rightarrow> (string \<times> string) list res) option \<Rightarrow> string list \<Rightarrow> string \<Rightarrow> string \<Rightarrow> nat \<Rightarrow>
    ((string \<times> Mib) list \<times> Provider \<times> bool) res" where
  "recur_oid pa ldb pts profile description 0 = Inr ([], ''kentik-default'', False)"
| "recur_oid pa ldb pts profile description (Suc i) =
     (if i = 0 then Inr ([], ''kentik-default'', False)
      else case GetForOid pa ldb (strings_Join (take (Suc i) pts) ''.'') profile description of
          Inl e \<Rightarrow> Inl e
        | Inr (mibs, prov) \<Rightarrow>
            if mibs \<noteq> [] \<or> (ldb = None \<and> prov \<noteq> []) then Inr (mibs, prov, Suc i = length pts)
            else recur_oid pa ldb pts profile description i)"

definition GetForOidRecur :: "profile_args \<Rightarrow> (string \<Rightarrow> (string \<times> string) list res) option \<Rightarrow> string \<Rightarrow> string \<Rightarrow> string \<Rightarrow>
    ((string \<times> Mib) list \<times> Provider \<times> bool) res" where
  "GetForOidRecur pa ldb oid profile description =
     (let pts = strings_Split oid ''.'' in recur_oid pa ldb pts profile description (length pts))"

section \<open>The longest prefix\<close>

definition wild :: "string list \<Rightarrow> nat \<Rightarrow> string" where
  "wild pts i = strings_Join (take i pts) ''.'' @ ''.*''"

lemma walk_up_longest:
  "walk_up m pts i = Some v \<longleftrightarrow> (\<exists>k. 0 < k \<and> k \<le> i \<and> m (wild pts k) = Some v \<and> (\<forall>j. k < j \<and> j \<le> i \<longrightarrow> m (wild pts j) = None))"
proof (induction i)
  case (Suc i)
  show ?case
  proof (cases "m (wild pts (Suc i))")
    case None
    have "(\<forall>j. k < j \<and> j \<le> Suc i \<longrightarrow> m (wild pts j) = None) \<longleftrightarrow> (\<forall>j. k < j \<and> j \<le> i \<longrightarrow> m (wild pts j) = None)" for k
      using None by (auto simp: le_Suc_eq)
    then show ?thesis using None Suc by (auto simp: wild_def le_Suc_eq)
  next
    case (Some w)
    then show ?thesis by (auto simp: wild_def) (metis le_Suc_eq lessI linorder_not_less option.distinct(1) option.inject wild_def zero_less_Suc nat_less_le not_less_eq_eq)+
  qed
qed simp

lemma walk_up_None: "walk_up m pts i = None \<longleftrightarrow> (\<forall>k. 0 < k \<and> k \<le> i \<longrightarrow> m (wild pts k) = None)"
  by (induction i) (auto simp: wild_def le_Suc_eq split: option.splits)

text \<open>
  C18. Without a forced profile, a device gets the profile that is listed for exactly its object id, or else the one listed with a
  wildcard for the longest prefix of the id, after the matches of this profile on the description of the device.
\<close>

theorem profile_of_longest_prefix:
  assumes "\<not> strings_HasPrefix mibProfile ''!''"
  shows "let oid = no_dot sysid; pts = strings_Split oid ''.''; m = map_of (db_profiles db) in
    FindProfile pa db sysid sysdesc mibProfile = Some q \<longleftrightarrow>
    (\<exists>p. checkMatch pa db p sysdesc = Some q \<and>
      (m oid = Some p \<or> m oid = None \<and>
        (\<exists>k. 0 < k \<and> k \<le> length pts \<and> m (strings_Join (take k pts) ''.'' @ ''.*'') = Some p \<and>
          (\<forall>j. k < j \<and> j \<le> length pts \<longrightarrow> m (strings_Join (take j pts) ''.'' @ ''.*'') = None))))"
proof -
  let ?m = "map_of (db_profiles db)" let ?oid = "no_dot sysid"
  have "FindProfile pa db sysid sysdesc mibProfile = Some q \<longleftrightarrow>
    (\<exists>p. checkMatch pa db p sysdesc = Some q \<and> (?m ?oid = Some p \<or> ?m ?oid = None \<and> walk_oid ?m ?oid = Some p))"
    using assms by (auto simp: FindProfile_def Let_def bind_eq_Some_conv split: option.splits)
  then show ?thesis by (simp only: Let_def walk_oid_def walk_up_longest wild_def)
qed

section \<open>Pruning keeps the best\<close>

definition better :: "string \<times> Mib \<Rightarrow> string \<times> Mib \<Rightarrow> bool" where
  "better a b \<longleftrightarrow> (mb_FromExtended (snd a) \<longrightarrow> mb_FromExtended (snd b)) \<and>
     (mb_FromExtended (snd a) = mb_FromExtended (snd b) \<longrightarrow> length (fst b) \<le> length (fst a))"

lemma better_refl: "better a a"
  by (simp add: better_def)

lemma better_trans: "better a b \<Longrightarrow> better b c \<Longrightarrow> better a c"
  by (auto simp: better_def)

lemma better_total: "better a b \<or> better b a"
  by (auto simp: better_def)

definition mib_name :: "string \<times> Mib \<Rightarrow> string" where
  "mib_name a = Mib_GetName (Some (snd a))"

text \<open>What has been seen of a list: the best entry of every name.\<close>

definition seen_best :: "(string \<times> Mib) list \<Rightarrow> (string \<times> string \<times> bool) list \<Rightarrow> bool" where
  "seen_best ms seen \<longleftrightarrow> (\<forall>nm. case map_of seen nm of
     None \<Rightarrow> \<forall>a \<in> set ms. mib_name a \<noteq> nm
   | Some (oid, ext) \<Rightarrow> \<exists>a \<in> set ms. mib_name a = nm \<and> fst a = oid \<and> mb_FromExtended (snd a) = ext \<and> (\<forall>b \<in> set ms. mib_name b = nm \<longrightarrow> better a b))"

lemma seen_best_step:
  assumes "seen_best ms seen"
  shows "seen_best (ms @ [om]) (see_mib om seen)"
  unfolding seen_best_def
proof
  fix nm
  obtain oid mib where om: "om = (oid, mib)" by (cases om)
  have old: "case map_of seen nm of
     None \<Rightarrow> \<forall>a \<in> set ms. mib_name a \<noteq> nm
   | Some (oid, ext) \<Rightarrow> \<exists>a \<in> set ms. mib_name a = nm \<and> fst a = oid \<and> mb_FromExtended (snd a) = ext \<and> (\<forall>b \<in> set ms. mib_name b = nm \<longrightarrow> better a b)"
    using assms by (simp add: seen_best_def)
  show "case map_of (see_mib om seen) nm of
     None \<Rightarrow> \<forall>a \<in> set (ms @ [om]). mib_name a \<noteq> nm
   | Some (oid, ext) \<Rightarrow> \<exists>a \<in> set (ms @ [om]). mib_name a = nm \<and> fst a = oid \<and> mb_FromExtended (snd a) = ext \<and>
       (\<forall>b \<in> set (ms @ [om]). mib_name b = nm \<longrightarrow> better a b)"
  proof (cases "mib_name om = nm")
    case False
    then have "map_of (see_mib om seen) nm = map_of seen nm"
      by (simp add: see_mib_def om mib_name_def Let_def update_conv' split: option.splits)
    with old False show ?thesis by (auto split: option.splits)
  next
    case True
    then have nm: "Mib_GetName (Some mib) = nm" by (simp add: om mib_name_def)
    show ?thesis
    proof (cases "map_of seen nm")
      case None
      with old nm True show ?thesis by (auto simp: see_mib_def om Let_def update_conv' better_refl)
    next
      case (Some e)
      then obtain a where a: "a \<in> set ms" "mib_name a = nm" "e = (fst a, mb_FromExtended (snd a))"
        "\<forall>b \<in> set ms. mib_name b = nm \<longrightarrow> better a b"
        using old by (cases e) auto
      show ?thesis
      proof (cases "better a om")
        case True
        then have "map_of (see_mib om seen) nm = Some e"
          using Some a(3) nm by (auto simp: see_mib_def om Let_def better_def)
        with a True show ?thesis by auto
      next
        case False
        then have "map_of (see_mib om seen) nm = Some (oid, mb_FromExtended mib)"
          using Some a(3) nm by (auto simp: see_mib_def om Let_def better_def update_conv')
        moreover have "better om a" using better_total False by blast
        then have "\<forall>b \<in> set (ms @ [om]). mib_name b = nm \<longrightarrow> better om b"
          using a(4) better_trans better_refl by auto
        ultimately show ?thesis using \<open>mib_name om = nm\<close> by (auto simp: om)
      qed
    qed
  qed
qed

lemma seen_best_fold: "seen_best ms (fold see_mib ms [])"
proof (induction ms rule: rev_induct)
  case Nil
  then show ?case by (simp add: seen_best_def)
next
  case (snoc m ms)
  then show ?case by (simp add: seen_best_step)
qed

lemma pruned_keys: "fst ` set (map (\<lambda>(oid, mib). (oid, g mib)) (filter (\<lambda>(oid, mib). P oid \<or> D mib) ms)) = {oid. \<exists>m. (oid, m) \<in> set ms \<and> (P oid \<or> D m)}"
  by force

lemma prune_domain:
  assumes "distinct (map fst mibs)" "(oid, mib) \<in> set mibs"
  shows "oid \<in> fst ` set (prune mibs t t') \<longleftrightarrow> mb_AllowDup mib \<or> oid \<in> (fst \<circ> snd) ` set (fold see_mib mibs [])"
proof -
  define K where "K = (fst \<circ> snd) ` set (fold see_mib mibs [])"
  have uniq: "(oid, m) \<in> set mibs \<longleftrightarrow> m = mib" for m using assms eq_key_imp_eq_value by metis
  have "fst ` set (prune mibs t t') = {o'. \<exists>m. (o', m) \<in> set mibs \<and> (o' \<in> K \<or> mb_AllowDup m)}"
    unfolding prune_def Let_def K_def by (rule pruned_keys)
  then have "oid \<in> fst ` set (prune mibs t t') \<longleftrightarrow> oid \<in> K \<or> mb_AllowDup mib" by (simp only: mem_Collect_eq uniq simp_thms)
  then show ?thesis unfolding K_def by (simp only: disj_commute)
qed

text \<open>
  C19. In whatever order the map of objects is visited, pruning keeps for every name one object that no other of this name beats,
  where one of the profile itself beats those of extended profiles and otherwise the longer id counts; all others go, except those
  that allow duplicates. So a name that was there before is there afterwards.
\<close>

theorem prune_keeps_best:
  assumes "distinct (map fst mibs)"
  shows "\<exists>choice. \<forall>(oid, mib) \<in> set mibs.
    (oid \<in> fst ` set (prune mibs t t') \<longleftrightarrow> mb_AllowDup mib \<or> oid = choice (Mib_GetName (Some mib))) \<and>
    (\<exists>best. (choice (Mib_GetName (Some mib)), best) \<in> set mibs \<and> Mib_GetName (Some best) = Mib_GetName (Some mib) \<and>
       (mb_FromExtended best \<longrightarrow> mb_FromExtended mib) \<and>
       (mb_FromExtended best = mb_FromExtended mib \<longrightarrow> length oid \<le> length (choice (Mib_GetName (Some mib)))))"
proof -
  define seen where "seen = fold see_mib mibs []"
  define choice where "choice nm = fst (the (map_of seen nm))" for nm
  have best: "seen_best mibs seen" unfolding seen_def by (rule seen_best_fold)
  have chosen: "\<exists>a ext. map_of seen (mib_name b) = Some (choice (mib_name b), ext) \<and> a \<in> set mibs \<and> mib_name a = mib_name b \<and>
      fst a = choice (mib_name b) \<and> better a b" if "b \<in> set mibs" for b
    using best [unfolded seen_best_def, rule_format, of "mib_name b"] that unfolding choice_def by (auto split: option.splits)
  have dist: "distinct (map fst seen)"
    unfolding seen_def by (rule fold_invariant [where Q = "\<lambda>_. True"]) (auto simp: see_mib_def Let_def distinct_update split: prod.splits option.splits)
  have kept: "oid \<in> (fst \<circ> snd) ` set seen \<longleftrightarrow> oid = choice (Mib_GetName (Some mib))" if m: "(oid, mib) \<in> set mibs" for oid mib
  proof
    assume "oid \<in> (fst \<circ> snd) ` set seen"
    then obtain nm ext where "(nm, oid, ext) \<in> set seen" by force
    then have "map_of seen nm = Some (oid, ext)" using dist by simp
    moreover from this obtain a where "a \<in> set mibs" "mib_name a = nm" "fst a = oid"
      using best [unfolded seen_best_def, rule_format, of nm] by auto
    moreover from this have "a = (oid, mib)" using m assms by (metis eq_key_imp_eq_value prod.collapse)
    ultimately show "oid = choice (Mib_GetName (Some mib))" by (auto simp: choice_def mib_name_def)
  next
    assume "oid = choice (Mib_GetName (Some mib))"
    with chosen [OF m] show "oid \<in> (fst \<circ> snd) ` set seen" by (force simp: mib_name_def dest: map_of_SomeD)
  qed
  have dom: "oid \<in> fst ` set (prune mibs t t') \<longleftrightarrow> mb_AllowDup mib \<or> oid = choice (Mib_GetName (Some mib))" if m: "(oid, mib) \<in> set mibs" for oid mib
    unfolding prune_domain [OF assms m] seen_def [symmetric] kept [OF m] by (rule refl)
  have ex: "\<exists>best. (choice (Mib_GetName (Some mib)), best) \<in> set mibs \<and> Mib_GetName (Some best) = Mib_GetName (Some mib) \<and>
       (mb_FromExtended best \<longrightarrow> mb_FromExtended mib) \<and>
       (mb_FromExtended best = mb_FromExtended mib \<longrightarrow> length oid \<le> length (choice (Mib_GetName (Some mib))))" if m: "(oid, mib) \<in> set mibs" for oid mib
  proof -
    obtain a where "a \<in> set mibs" "mib_name a = mib_name (oid, mib)" "fst a = choice (mib_name (oid, mib))" "better a (oid, mib)"
      using chosen [OF m] by blast
    then show ?thesis by (intro exI [of _ "snd a"]) (cases a, simp add: mib_name_def better_def)
  qed
  show ?thesis by (intro exI [of _ choice] ballI, clarify) (simp only: dom ex)
qed

section \<open>Extension ends\<close>

definition fresh :: "Profile list \<Rightarrow> nat set" where
  "fresh hp = {i. i < length hp \<and> \<not> pf_extended (hp ! i)}"

definition grown :: "Profile list \<Rightarrow> Profile list \<Rightarrow> bool" where
  "grown hp hp' \<longleftrightarrow> length hp' = length hp \<and> fresh hp' \<subseteq> fresh hp \<and>
     (\<forall>i < length hp. \<exists>more. pf_Metrics (hp' ! i) = pf_Metrics (hp ! i) @ more \<and> (\<forall>m \<in> set more. mib_fromExtended m))"

lemma finite_fresh [simp]: "finite (fresh hp)"
  by (simp add: fresh_def)

lemma grown_refl: "grown hp hp"
  by (simp add: grown_def)

lemma grown_trans: "grown a b \<Longrightarrow> grown b c \<Longrightarrow> grown a c"
  unfolding grown_def
proof (elim conjE, intro conjI allI impI)
  fix i assume a: "\<forall>i < length a. \<exists>more. pf_Metrics (b ! i) = pf_Metrics (a ! i) @ more \<and> (\<forall>m \<in> set more. mib_fromExtended m)"
    "\<forall>i < length b. \<exists>more. pf_Metrics (c ! i) = pf_Metrics (b ! i) @ more \<and> (\<forall>m \<in> set more. mib_fromExtended m)" "i < length a" "length b = length a"
  then obtain x y where "pf_Metrics (b ! i) = pf_Metrics (a ! i) @ x" "pf_Metrics (c ! i) = pf_Metrics (b ! i) @ y"
    "\<forall>m \<in> set x. mib_fromExtended m" "\<forall>m \<in> set y. mib_fromExtended m" by metis
  then show "\<exists>more. pf_Metrics (c ! i) = pf_Metrics (a ! i) @ more \<and> (\<forall>m \<in> set more. mib_fromExtended m)"
    by (intro exI [of _ "x @ y"]) auto
qed auto

lemma grown_update:
  assumes "pf_extended (hp ! p) \<Longrightarrow> pf_extended q" "pf_Metrics q = pf_Metrics (hp ! p) @ xs" "\<forall>m \<in> set xs. mib_fromExtended m"
  shows "grown hp (hp[p := q])"
proof (cases "p < length hp")
  case True
  then show ?thesis using assms by (auto simp: grown_def fresh_def nth_list_update)
next
  case False
  then show ?thesis by (simp add: list_update_beyond grown_refl)
qed

lemma grown_merge: "grown hp (merge_at p ep hp)"
  unfolding merge_at_def by (rule grown_update) (auto simp: merge_profile_def)

lemma grown_mark: "grown hp (mark_extended p hp)"
  unfolding mark_extended_def by (rule grown_update [where xs = "[]"]) auto

lemma fresh_mark: "fresh (mark_extended p hp) = fresh hp - {p}"
  by (cases "p < length hp") (auto simp: mark_extended_def fresh_def nth_list_update list_update_beyond)

lemma grown_card: "grown hp hp' \<Longrightarrow> card (fresh hp') \<le> card (fresh hp)"
  by (auto simp: grown_def intro: card_mono)

text \<open>What an extension ends with: a heap that has grown, and an error only with validation.\<close>

definition extension :: "bool \<Rightarrow> Profile list \<Rightarrow> Profile list res \<Rightarrow> bool" where
  "extension v hp r \<longleftrightarrow> (case r of Inl e \<Rightarrow> v | Inr hp' \<Rightarrow> grown hp hp')"

lemma extension_trans: "grown hp hp1 \<Longrightarrow> extension v hp1 r \<Longrightarrow> extension v hp r"
  using grown_trans by (auto simp: extension_def split: sum.splits)

lemma extend_names_returns:
  assumes "\<forall>ep \<in> snd ` set extends. ep < n"
  shows "card (fresh hp) \<le> c \<Longrightarrow> length hp = n \<Longrightarrow>
    \<exists>r. extend_names v extends p names hp = Some r \<and> extension v hp r"
proof (induction c arbitrary: p names hp)
  case outer: 0
  from outer.prems show ?case
  proof (induction names arbitrary: hp)
    case (Cons nm rest)
    show ?case
    proof (cases "map_of extends nm")
      case None
      then show ?thesis using Cons.IH [OF Cons.prems] by (cases v) (simp_all add: extend_names.simps [of _ extends p "nm # rest"] extension_def)
    next
      case (Some ep)
      then have "ep < length hp" using assms Cons.prems(2) by (force dest: map_of_SomeD)
      then have ext: "pf_extended (hp ! ep)" using Cons.prems(1) by (auto simp: fresh_def)
      have g: "grown hp (merge_at p ep hp)" by (rule grown_merge)
      obtain r where "extend_names v extends p rest (merge_at p ep hp) = Some r" "extension v (merge_at p ep hp) r"
        using Cons.IH [of "merge_at p ep hp"] Cons.prems grown_card [OF g] by (auto simp: merge_at_def)
      then show ?thesis using Some ext extension_trans [OF g] by (simp add: extend_names.simps [of v extends p "nm # rest"])
    qed
  qed (simp add: extend_names.simps extension_def grown_refl)
next
  case outer: (Suc c)
  from outer.prems show ?case
  proof (induction names arbitrary: hp)
    case (Cons nm rest)
    show ?case
    proof (cases "map_of extends nm")
      case None
      then show ?thesis using Cons.IH [OF Cons.prems] by (cases v) (simp_all add: extend_names.simps [of _ extends p "nm # rest"] extension_def)
    next
      case (Some ep)
      then have ep: "ep < length hp" using assms Cons.prems(2) by (force dest: map_of_SomeD)
      have rest: "\<exists>r. extend_names v extends p rest (merge_at p ep hp1) = Some r \<and> extension v hp r" if g: "grown hp hp1" for hp1
      proof -
        have g2: "grown hp (merge_at p ep hp1)" using grown_trans [OF g grown_merge] .
        then obtain r where "extend_names v extends p rest (merge_at p ep hp1) = Some r" "extension v (merge_at p ep hp1) r"
          using Cons.IH [of "merge_at p ep hp1"] Cons.prems grown_card [OF g2] by (auto simp: grown_def)
        then show ?thesis using extension_trans [OF g2] by blast
      qed
      show ?thesis
      proof (cases "pf_extended (hp ! ep)")
        case True
        then show ?thesis using Some rest [OF grown_refl] by (simp add: extend_names.simps [of v extends p "nm # rest"])
      next
        case False
        then have "ep \<in> fresh hp" using ep by (simp add: fresh_def)
        then have "card (fresh (mark_extended ep hp)) \<le> c" using Cons.prems(1) by (simp add: fresh_mark card_Diff_singleton)
        then obtain r1 where r1: "extend_names v extends ep (pf_Extends (hp ! ep)) (mark_extended ep hp) = Some r1"
          "extension v (mark_extended ep hp) r1"
          using outer.IH [of "mark_extended ep hp" ep "pf_Extends (hp ! ep)"] Cons.prems(2) by (auto simp: mark_extended_def)
        then show ?thesis
          using Some False rest grown_trans [OF grown_mark]
          by (cases r1) (auto simp: extend_names.simps [of _ extends p "nm # rest"] extension_def)
      qed
    qed
  qed (simp add: extend_names.simps extension_def grown_refl)
qed

lemma extend_profile_returns:
  assumes "\<forall>ep \<in> snd ` set extends. ep < length hp" "p < length hp"
  shows "\<exists>r. extend_profile v extends p hp = Some r \<and> extension v hp r \<and> (\<forall>hp'. r = Inr hp' \<longrightarrow> pf_extended (hp' ! p))"
proof (cases "pf_extended (hp ! p)")
  case True
  then show ?thesis by (simp add: extend_profile_def extension_def grown_refl)
next
  case False
  let ?hp = "mark_extended p hp"
  have "length ?hp = length hp" by (simp add: mark_extended_def)
  then obtain r where r: "extend_names v extends p (pf_Extends (hp ! p)) ?hp = Some r" "extension v ?hp r"
    using extend_names_returns [OF assms(1), of ?hp "card (fresh ?hp)" v p "pf_Extends (hp ! p)"] by auto
  have "pf_extended (hp' ! p)" if "r = Inr hp'" for hp'
  proof -
    have "fresh hp' \<subseteq> fresh hp - {p}" "length hp' = length ?hp" using r(2) that by (simp_all add: extension_def grown_def fresh_mark)
    then have "p \<notin> fresh hp'" "length hp' = length hp" by (auto simp: mark_extended_def)
    then show ?thesis using assms(2) by (simp add: fresh_def)
  qed
  with r False show ?thesis using extension_trans [OF grown_mark r(2)] by (simp add: extend_profile_def)
qed

text \<open>Every address in use lies in the heap.\<close>

definition load_ok :: "load_state \<Rightarrow> bool" where
  "load_ok s \<longleftrightarrow> (\<forall>a \<in> snd ` set (db_profiles (fst s)) \<union> snd ` set (snd s). a < length (db_heap (fst s)))"

lemma update_values: "snd ` set (AList.update k v kvs) \<subseteq> insert v (snd ` set kvs)"
  by (induction kvs) auto

lemma fold_values:
  assumes "\<And>x ps. snd ` set (f x ps) \<subseteq> insert a (snd ` set ps)"
  shows "snd ` set (fold f xs ps) \<subseteq> insert a (snd ` set ps)"
proof (induction xs arbitrary: ps)
  case (Cons x xs)
  from Cons [of "f x ps"] assms [of x ps] show ?case by auto
qed (simp add: subset_insertI)

lemma load_ok_add:
  assumes "load_ok (db, extends)" "snd ` set ps \<subseteq> insert (length (db_heap db)) (snd ` set (db_profiles db))"
    "snd ` set ex \<subseteq> insert (length (db_heap db)) (snd ` set extends)"
  shows "load_ok (db\<lparr>db_heap := db_heap db @ [t], db_profiles := ps\<rparr>, ex)"
proof -
  have "a < Suc (length (db_heap db))" if "a \<in> snd ` set ps \<union> snd ` set ex" for a
  proof -
    have "a = length (db_heap db) \<or> a \<in> snd ` set (db_profiles db) \<union> snd ` set extends" using that assms(2,3) by blast
    then show ?thesis using assms(1) [unfolded load_ok_def fst_conv snd_conv, THEN bspec, of a] by (elim disjE) simp_all
  qed
  then show ?thesis by (simp add: load_ok_def)
qed

lemma parseMibFromYml_ok: "load_ok s \<Longrightarrow> load_ok (parseMibFromYml name t cs s)"
proof -
  assume ok: "load_ok s"
  obtain db extends where s: "s = (db, extends)" by (cases s)
  let ?a = "length (db_heap db)"
  have "snd ` set (fold (\<lambda>sysid ps. if map_of ps (no_dot sysid) = None then AList.update (no_dot sysid) ?a ps else ps)
      (pf_Sysobjectid t) (db_profiles db)) \<subseteq> insert ?a (snd ` set (db_profiles db))"
    by (rule fold_values) (simp add: update_values subset_insertI)
  then show ?thesis using ok update_values [of name ?a extends] unfolding s parseMibFromYml_def Let_def prod.case by (intro load_ok_add)
qed

lemma add_apc_profile_ok: "load_ok (db, extends) \<Longrightarrow> load_ok (add_apc_profile t db, extends)"
proof -
  assume ok: "load_ok (db, extends)"
  let ?a = "length (db_heap db)"
  have "snd ` set (fold (\<lambda>sysid ps. if no_dot sysid = [] then ps else AList.update (no_dot sysid) ?a ps) (pf_Sysobjectid t) (db_profiles db))
      \<subseteq> insert ?a (snd ` set (db_profiles db))"
    by (rule fold_values) (simp add: update_values subset_insertI)
  then show ?thesis using ok unfolding add_apc_profile_def Let_def by (intro load_ok_add) (auto simp: subset_insertI)
qed

lemma parseMibFromXml_ok: "load_ok (db, extends) \<Longrightarrow> load_ok (parseMibFromXml pa file ds db, extends)"
  unfolding parseMibFromXml_def by (rule fold_invariant [where Q = "\<lambda>_. True"]) (simp_all add: add_apc_profile_ok)

lemma parseTraps_same: "db_heap (parseTrapsFromYml pa ts db) = db_heap db" "db_profiles (parseTrapsFromYml pa ts db) = db_profiles db"
  "db_validate (parseTrapsFromYml pa ts db) = db_validate db"
  unfolding parseTrapsFromYml_def by (induction ts arbitrary: db) simp_all

definition loaded :: "load_state \<Rightarrow> load_state res \<Rightarrow> bool" where
  "loaded s r \<longleftrightarrow> (case r of Inl e \<Rightarrow> db_validate (fst s)
     | Inr s' \<Rightarrow> (load_ok s \<longrightarrow> load_ok s') \<and> db_validate (fst s') = db_validate (fst s))"

lemma loaded_refl: "loaded s (Inr s)"
  by (simp add: loaded_def)

lemma loaded_bind: "loaded s r \<Longrightarrow> (\<And>s'. r = Inr s' \<Longrightarrow> loaded s' (f s')) \<Longrightarrow> loaded s (case r of Inl e \<Rightarrow> Inl e | Inr s' \<Rightarrow> f s')"
  unfolding loaded_def by (auto split: sum.splits)

lemma parse_validate: "db_validate (parseMibFromXml pa file ds db) = db_validate db"
  "db_validate (fst (parseMibFromYml name t cs s)) = db_validate (fst s)"
proof -
  show "db_validate (parseMibFromXml pa file ds db) = db_validate db"
    unfolding parseMibFromXml_def
    by (rule fold_invariant [where Q = "\<lambda>_. True"]) (simp_all add: add_apc_profile_def Let_def)
  show "db_validate (fst (parseMibFromYml name t cs s)) = db_validate (fst s)"
    by (simp add: parseMibFromYml_def Let_def split: prod.splits)
qed

lemma load_file_loaded: "loaded s (load_file pa dir en s)"
proof -
  have "loaded s (load_error (db_validate (fst s)) s)" by (simp add: load_error_def loaded_def)
  moreover have "loaded s (Inr (parseTrapsFromYml pa ts (fst s), snd s))" for ts
    by (simp add: loaded_def load_ok_def parseTraps_same)
  moreover have "loaded s (Inr (parseMibFromXml pa f ds (fst s), snd s))" for f ds
    using parseMibFromXml_ok [of "fst s" "snd s"] by (simp add: loaded_def parse_validate)
  moreover have "loaded s (Inr (parseMibFromYml n t cs s))" for n t cs
    using parseMibFromYml_ok [of s] by (simp add: loaded_def parse_validate)
  ultimately show ?thesis by (auto simp: load_file_def Let_def loaded_refl split: option.splits)
qed

lemma loadProfileDir_loaded: "loaded s (loadProfileDir pa dir es s)"
proof (induction pa dir es s rule: loadProfileDir.induct)
  case (3 pa dir n y t x es s)
  then show ?case by (simp add: loaded_bind load_file_loaded)
next
  case (4 pa dir n sub es s)
  show ?case
  proof (cases "strings_HasPrefix n ''.''")
    case True
    then show ?thesis using 4(1) by simp
  next
    case False
    let ?r = "case sub of None \<Rightarrow> Inl (Errorf ''readdir'' []) | Some ds \<Rightarrow> loadProfileDir pa (dir @ ''/'' @ n) ds s"
    show ?thesis
    proof (cases ?r)
      case (Inl e)
      then show ?thesis using False 4(3) by (cases "db_validate (fst s)") (simp_all add: loaded_def)
    next
      case (Inr s1)
      then have "loaded s ?r" using 4(2) [OF False] by (cases sub) auto
      then have s1: "loaded s (Inr s1)" using Inr by simp
      have "loaded s1 (case load_file pa dir (Dir n sub) s1 of Inl e \<Rightarrow> Inl e | Inr s \<Rightarrow> loadProfileDir pa dir es s)"
        using 4(4) [OF False Inr] by (intro loaded_bind load_file_loaded)
      then show ?thesis using False Inr loaded_bind [OF s1, of "\<lambda>s. case load_file pa dir (Dir n sub) s of Inl e \<Rightarrow> Inl e | Inr s \<Rightarrow> loadProfileDir pa dir es s"] by simp
    qed
  qed
qed (simp_all add: loaded_refl, simp add: loaded_def)

lemma extend_all_returns:
  assumes "\<forall>ep \<in> snd ` set extends. ep < length (db_heap db)" "\<forall>p \<in> snd ` set ps. p < length (db_heap db)"
  shows "\<exists>r. extend_all extends ps db = Some r \<and> (case r of Inl e \<Rightarrow> db_validate db | Inr db' \<Rightarrow>
    grown (db_heap db) (db_heap db') \<and> db_profiles db' = db_profiles db \<and> (\<forall>p \<in> snd ` set ps. pf_extended (db_heap db' ! p)))"
  using assms
proof (induction ps arbitrary: db)
  case Nil
  then show ?case by (simp add: grown_refl)
next
  case (Cons sp ps)
  obtain sysid p where sp: "sp = (sysid, p)" by (cases sp)
  obtain r where r: "extend_profile (db_validate db) extends p (db_heap db) = Some r" "extension (db_validate db) (db_heap db) r"
    "\<forall>hp'. r = Inr hp' \<longrightarrow> pf_extended (hp' ! p)"
    using extend_profile_returns [OF Cons.prems(1), of p "db_validate db"] Cons.prems(2) by (auto simp: sp)
  show ?case
  proof (cases r)
    case (Inl e)
    then show ?thesis using r by (simp add: sp extension_def)
  next
    case (Inr hp)
    then have g: "grown (db_heap db) hp" "pf_extended (hp ! p)" using r by (simp_all add: extension_def)
    then have len: "length hp = length (db_heap db)" by (simp add: grown_def)
    let ?db = "db\<lparr>db_heap := hp\<rparr>"
    obtain r2 where r2: "extend_all extends ps ?db = Some r2" "case r2 of Inl e \<Rightarrow> db_validate db | Inr db' \<Rightarrow>
      grown hp (db_heap db') \<and> db_profiles db' = db_profiles db \<and> (\<forall>p \<in> snd ` set ps. pf_extended (db_heap db' ! p))"
      using Cons.IH [of ?db] Cons.prems len by (auto cong: sum.case_cong)
    have "pf_extended (hp' ! p)" if "grown hp hp'" for hp'
      using that g(2) Cons.prems(2) len by (auto simp: grown_def fresh_def sp)
    with r r2 Inr g show ?thesis
      by (auto simp: sp split: sum.splits intro: grown_trans)
  qed
qed

text \<open>
  C17. Loading the profiles of a directory always ends, although profiles may extend each other in circles, and without validation it
  ends without an error. Then every profile that is listed for an object id lies in the heap and has been extended.
\<close>

theorem profile_loading_ends:
  "\<exists>r. NewMibDB pa dir (Some es) validate = Some r \<and>
    (\<not> validate \<longrightarrow> (\<exists>db. r = Inr db \<and> (\<forall>(sysid, p) \<in> set (db_profiles db). p < length (db_heap db) \<and> pf_extended (db_heap db ! p))))"
proof (cases "dir = []")
  case True
  then show ?thesis by (simp add: NewMibDB_def)
next
  case False
  let ?db = "\<lparr>db_heap = [], db_profiles = [], db_trapMibs = [], db_traps = [], db_validate = validate\<rparr>"
  have ok: "load_ok (?db, [])" by (simp add: load_ok_def)
  show ?thesis
  proof (cases "loadProfileDir pa dir es (?db, [])")
    case (Inl e)
    then have validate using loadProfileDir_loaded [of "(?db, [])" pa dir es] by (simp add: loaded_def)
    with Inl False show ?thesis by (simp add: NewMibDB_def LoadProfiles_def)
  next
    case (Inr s)
    obtain db extends where s: "s = (db, extends)" by (cases s)
    have db: "load_ok (db, extends)" "db_validate db = validate"
      using loadProfileDir_loaded [of "(?db, [])" pa dir es] ok Inr s by (simp_all add: loaded_def)
    obtain r where r: "extend_all extends (db_profiles db) db = Some r" "case r of Inl e \<Rightarrow> db_validate db | Inr db' \<Rightarrow>
      grown (db_heap db) (db_heap db') \<and> db_profiles db' = db_profiles db \<and> (\<forall>p \<in> snd ` set (db_profiles db). pf_extended (db_heap db' ! p))"
      using extend_all_returns [of extends db "db_profiles db"] db(1) by (auto simp: load_ok_def)
    have "NewMibDB pa dir (Some es) validate = Some (map_sum id snd (map_sum id (\<lambda>db. (length (db_profiles db), db)) r))"
      using False Inr s r(1) by (simp add: NewMibDB_def LoadProfiles_def)
    moreover have "p < length (db_heap db)" if "(sysid, p) \<in> set (db_profiles db)" for sysid p
      using db(1) [unfolded load_ok_def fst_conv snd_conv, THEN bspec, of p] imageI [OF that, of snd] by simp
    ultimately show ?thesis using r(2) db(2) by (cases r) (auto simp: grown_def)
  qed
qed

section \<open>Surprises\<close>

text \<open>The shortest polling time of a profile is not found: the last symbol that is polled more often than the device decides.\<close>

lemma last_poll_time_wins:
  "0 < o_PollTime s \<Longrightarrow> o_PollTime s < counterTimeSec \<Longrightarrow> sel_time (snd (add_symbol pa counterTimeSec m s sel)) = o_PollTime s"
  by (simp add: add_symbol_def poll_time_def Let_def)

text \<open>The variable of a trap event is found in the object id, unless the event is written with a leading dot.\<close>

lemma dotted_event_variable_lost:
  "fill_vars (strings_Split ''.1.2.7'' ''.'') (fst (trap_parts (strings_Split ''1.2.{v:1}'' ''.'') 0 [] [])) [] = Inr [(''v'', ''7'')]"
  "fill_vars (strings_Split ''.1.2.7'' ''.'') (fst (trap_parts (strings_Split ''.1.2.{v:1}'' ''.'') 0 [] [])) [] = Inr []"
  by (simp_all add: strings_Split.simps strings_HasPrefix_def is_variable_def strconv_Atoi_def is_digit_def digits_value_def slice_checked_def)

text \<open>Whether the name of a trap value is shown as written or in lower case depends on the iteration.\<close>

lemma trap_names_by_chance:
  assumes "pa_visits pa [(''Up'', 1)] = (if seen then [(''Up'', 1), (''up'', 1)] else [(''Up'', 1)])"
  shows "Option.bind (mb_EnumRev (trap_enum pa (zero_mib\<lparr>mb_Enum := Some [(''Up'', 1)]\<rparr>))) (\<lambda>m. map_of m 1) = Some (if seen then ''up'' else ''Up'')"
  using assms by (simp add: trap_enum_def)

section \<open>Witnesses of the profiles\<close>

definition demo_pa :: profile_args where
  "demo_pa = \<lparr>pa_uni = id, pa_regexp = (\<lambda>_. None), pa_script = (\<lambda>_. None), pa_order = id, pa_visits = id\<rparr>"

definition demo_profile :: "string \<Rightarrow> string \<Rightarrow> string \<Rightarrow> Profile" where
  "demo_profile sysid from ext = \<lparr>pf_Metrics = [], pf_Extends = [ext], pf_Vendor = ''v'', pf_MetricTags = [], pf_Sysobjectid = [sysid], pf_From = from,
     pf_Matches = [], pf_MatchesList = [], pf_SysMap = [], pf_extended = False, pf_cMib = [], pf_cOid = []\<rparr>"

definition demo_dir :: "dir_entry list" where
  "demo_dir = [File ''a.yml'' (Some (demo_profile ''1.3.*'' ''a.yml'' ''b.yml'', [])) None None,
     File ''b.yml'' (Some (demo_profile ''1.3.6.*'' ''b.yml'' ''a.yml'', [])) None None]"

theorem profile_loading_ends_witness:
  "\<exists>db. NewMibDB demo_pa ''profiles'' (Some demo_dir) False = Some (Inr db) \<and>
    (\<forall>(sysid, p) \<in> set (db_profiles db). p < length (db_heap db) \<and> pf_extended (db_heap db ! p))"
  using profile_loading_ends [of demo_pa "''profiles''" demo_dir False] by auto

definition demo_mibs :: MibDB where
  "demo_mibs = \<lparr>db_heap = [demo_profile ''1.3.*'' ''a.yml'' ''b.yml'', demo_profile ''1.3.6.*'' ''b.yml'' ''a.yml''],
     db_profiles = [(''1.3.*'', 0), (''1.3.6.*'', 1)], db_trapMibs = [], db_traps = [], db_validate = False\<rparr>"

theorem profile_of_longest_prefix_witness:
  "FindProfile demo_pa demo_mibs ''.1.3.6.1.4'' ''router'' ''a.yml'' = Some 1"
proof -
  have "\<not> strings_HasPrefix ''a.yml'' ''!''" by (simp add: strings_HasPrefix_def)
  note found = profile_of_longest_prefix [OF this, of "''.1.3.6.1.4''" demo_mibs demo_pa "''router''" 1, unfolded Let_def]
  have oid: "no_dot ''.1.3.6.1.4'' = ''1.3.6.1.4''" by (simp add: no_dot_def strings_HasPrefix_def)
  have pts: "strings_Split ''1.3.6.1.4'' ''.'' = [''1'', ''3'', ''6'', ''1'', ''4'']"
    by (simp add: strings_Split.simps strings_HasPrefix_def)
  have "checkMatch demo_pa demo_mibs 1 ''router'' = Some 1"
    by (simp add: checkMatch_def demo_mibs_def demo_profile_def)
  moreover have "map_of (db_profiles demo_mibs) (strings_Join (take j [''1'', ''3'', ''6'', ''1'', ''4'']) ''.'' @ ''.*'') = None" if "3 < j" "j \<le> 5" for j
  proof -
    have "j = 4 \<or> j = 5" using that by linarith
    then show ?thesis by (auto simp: demo_mibs_def)
  qed
  moreover have "map_of (db_profiles demo_mibs) (strings_Join (take 3 [''1'', ''3'', ''6'', ''1'', ''4'']) ''.'' @ ''.*'') = Some 1"
    "map_of (db_profiles demo_mibs) ''1.3.6.1.4'' = None"
    by (simp_all add: demo_mibs_def)
  ultimately show ?thesis unfolding found oid pts by (intro exI [of _ 1] conjI disjI2 exI [of _ 3]) simp_all
qed

definition demo_objects :: "(string \<times> Mib) list" where
  "demo_objects = [(''1.3.6.1'', zero_mib\<lparr>mb_Name := ''CPU'', mb_FromExtended := True\<rparr>), (''1.3.6'', zero_mib\<lparr>mb_Name := ''CPU''\<rparr>)]"

theorem prune_keeps_best_witness:
  "''1.3.6'' \<in> fst ` set (prune demo_objects 60 60) \<and> ''1.3.6.1'' \<notin> fst ` set (prune demo_objects 60 60)"
proof -
  have "distinct (map fst demo_objects)" by (simp add: demo_objects_def)
  from prune_keeps_best [OF this, of 60 60] obtain choice where
    c: "\<forall>(oid, mib) \<in> set demo_objects. (oid \<in> fst ` set (prune demo_objects 60 60) \<longleftrightarrow> mb_AllowDup mib \<or> oid = choice (Mib_GetName (Some mib))) \<and>
      (\<exists>best. (choice (Mib_GetName (Some mib)), best) \<in> set demo_objects \<and> Mib_GetName (Some best) = Mib_GetName (Some mib) \<and>
         (mb_FromExtended best \<longrightarrow> mb_FromExtended mib) \<and>
         (mb_FromExtended best = mb_FromExtended mib \<longrightarrow> length oid \<le> length (choice (Mib_GetName (Some mib)))))" by blast
  let ?a = "zero_mib\<lparr>mb_Name := ''CPU'', mb_FromExtended := True\<rparr>" and ?b = "zero_mib\<lparr>mb_Name := ''CPU''\<rparr>"
  have names: "Mib_GetName (Some ?a) = ''CPU''" "Mib_GetName (Some ?b) = ''CPU''" by (simp_all add: zero_mib_def Mib_GetName_def)
  have a: "(''1.3.6.1'', ?a) \<in> set demo_objects" and b: "(''1.3.6'', ?b) \<in> set demo_objects" by (simp_all add: demo_objects_def)
  note ca = c [THEN bspec, OF a, unfolded prod.case names] and cb = c [THEN bspec, OF b, unfolded prod.case names]
  obtain best where "(choice ''CPU'', best) \<in> set demo_objects" "mb_FromExtended best \<longrightarrow> mb_FromExtended ?b" using cb by blast
  then have choice: "choice ''CPU'' = ''1.3.6''" by (auto simp: demo_objects_def zero_mib_def)
  have "''1.3.6'' \<in> fst ` set (prune demo_objects 60 60)" using cb [THEN conjunct1] by (simp only: choice simp_thms)
  moreover have "''1.3.6.1'' \<notin> fst ` set (prune demo_objects 60 60)"
    using ca [THEN conjunct1] by (simp only: choice) (simp add: zero_mib_def)
  ultimately show ?thesis by (rule conjI)
qed

end
