(* ===== verification/Ic.thy ===== *)
theory Ic
  imports Go_Strings "HOL-Library.AList" "HOL-Library.Multiset"
begin

text \<open>
  \<^verbatim>\<open>pkg/util/ic/ic.go\<close>: the tables of interface classification (network boundary, connectivity type, network
  class, RPKI state) and the traffic profiles, which are given twice: as a table from the name of a profile to the
  pairs of origin and destination it stands for, and as the function from a pair to its name. Maps that are filled
  by iterating over another one take the order of the iteration as an argument.
\<close>

section \<open>The constants and tables\<close>

definition NONE_INT :: int where
  "NONE_INT = 0"

definition NONE_NAME :: string where
  "NONE_NAME = ''none''"

definition NETWORK_SRC_INTERNAL :: u32 where
  "NETWORK_SRC_INTERNAL = 10"

definition NETWORK_SRC_EXTERNAL :: u32 where
  "NETWORK_SRC_EXTERNAL = 20"

definition NETWORK_SRC_CLOUD_AWS :: u32 where
  "NETWORK_SRC_CLOUD_AWS = 80"

definition NETWORK_SRC_CLOUD_AZURE :: u32 where
  "NETWORK_SRC_CLOUD_AZURE = 90"

definition NETWORK_SRC_CLOUD_GCP :: u32 where
  "NETWORK_SRC_CLOUD_GCP = 100"

definition NETWORK_SRC_CLOUD_IBM :: u32 where
  "NETWORK_SRC_CLOUD_IBM = 110"

lemmas network_src_defs = NETWORK_SRC_INTERNAL_def NETWORK_SRC_EXTERNAL_def NETWORK_SRC_CLOUD_AWS_def
  NETWORK_SRC_CLOUD_AZURE_def NETWORK_SRC_CLOUD_GCP_def NETWORK_SRC_CLOUD_IBM_def

definition NETWORK_BOUNDARY_INT_TO_NAME :: "(int \<times> string) list" where
  "NETWORK_BOUNDARY_INT_TO_NAME = [(10, ''external''), (20, ''internal'')]"

definition NETWORK_CLASS_INT_TO_NAME :: "(u32 \<times> string) list" where
  "NETWORK_CLASS_INT_TO_NAME =
     [(NETWORK_SRC_EXTERNAL, ''outside''),
      (NETWORK_SRC_INTERNAL, ''inside''),
      (NETWORK_SRC_CLOUD_AWS, ''aws''),
      (NETWORK_SRC_CLOUD_AZURE, ''azure''),
      (NETWORK_SRC_CLOUD_GCP, ''gcp''),
      (NETWORK_SRC_CLOUD_IBM, ''ibm''),
      (40, ''in''),
      (50, ''out''),
      (60, ''not_a_host''),
      (70, ''error'')]"

definition CONNECTIVITY_TYPE_INT_TO_NAME :: "(int \<times> string) list" where
  "CONNECTIVITY_TYPE_INT_TO_NAME =
     [(5, ''free_pni''),
      (15, ''customer''),
      (25, ''host''),
      (35, ''backbone''),
      (45, ''paid_pni''),
      (55, ''other''),
      (65, ''transit''),
      (75, ''ix''),
      (85, ''reserved''),
      (95, ''available''),
      (105, ''datacenter_interconnect''),
      (115, ''aggregation_interconnect''),
      (125, ''embedded_cache''),
      (135, ''cloud_interconnect''),
      (145, ''datacenter_fabric'')]"

definition RPKI_INT_TO_NAME :: "(u32 \<times> string) list" where
  "RPKI_INT_TO_NAME =
     [(1, ''RPKI Unknown''),
      (2, ''RPKI Invalid: explicit ASN 0''),
      (3, ''RPKI Invalid: prefix length out of bounds''),
      (4, ''RPKI Invalid: incorrect Origin ASN (should be AS%d)''),
      (5, ''RPKI Valid''),
      (6, ''RPKI Invalid: valid covering prefix''),
      (7, ''RPKI Invalid: unknown covering prefix''),
      (8, ''RPKI Error''),
      (9, '''')]"

definition RPKI_INT_TO_MIN_NAME :: "(u32 \<times> string) list" where
  "RPKI_INT_TO_MIN_NAME =
     [(1, ''RPKI Unknown''),
      (2, ''RPKI Invalid - Will be dropped''),
      (3, ''RPKI Invalid - Will be dropped''),
      (4, ''RPKI Invalid - Will be dropped''),
      (5, ''RPKI Valid''),
      (6, ''RPKI Invalid - covering Valid/Unknown''),
      (7, ''RPKI Invalid - covering Valid/Unknown''),
      (8, ''RPKI Error''),
      (9, '''')]"

text \<open>\<^verbatim>\<open>for k, v := range t { m[v] = k }\<close>, over an order of the entries.\<close>

definition invert_table :: "('k \<times> string) list \<Rightarrow> string \<Rightarrow> 'k option" where
  "invert_table order = fold (\<lambda>(k, v) m. m(v \<mapsto> k)) order Map.empty"

text \<open>The map from the short RPKI names, which lists all the numbers of a name.\<close>

definition RPKI_MIN_NAME_TO_INT :: "(u32 \<times> string) list \<Rightarrow> string \<Rightarrow> u32 list option" where
  "RPKI_MIN_NAME_TO_INT order = fold (\<lambda>(k, v) m.
     case m v of None \<Rightarrow> m(v \<mapsto> [k]) | Some ks \<Rightarrow> m(v \<mapsto> ks @ [k])) order Map.empty"

text \<open>The two tables of connectivity types can be changed at run time.\<close>

record connectivity =
  int_to_name :: "int \<Rightarrow> string option"
  name_to_int :: "string \<Rightarrow> int option"

definition init_connectivity :: "(int \<times> string) list \<Rightarrow> connectivity" where
  "init_connectivity order =
     \<lparr>int_to_name = map_of CONNECTIVITY_TYPE_INT_TO_NAME, name_to_int = invert_table order\<rparr>"

definition NameFromCTInt :: "connectivity \<Rightarrow> int \<Rightarrow> string" where
  "NameFromCTInt ct i = (case int_to_name ct i of Some v \<Rightarrow> v | None \<Rightarrow> NONE_NAME)"

definition IntFromCTName :: "connectivity \<Rightarrow> string \<Rightarrow> int" where
  "IntFromCTName ct s = (case name_to_int ct s of Some v \<Rightarrow> v | None \<Rightarrow> NONE_INT)"

definition NameFromNBInt :: "int \<Rightarrow> string" where
  "NameFromNBInt i = (case map_of NETWORK_BOUNDARY_INT_TO_NAME i of Some v \<Rightarrow> v | None \<Rightarrow> NONE_NAME)"

definition IntFromNBName :: "(int \<times> string) list \<Rightarrow> string \<Rightarrow> int" where
  "IntFromNBName order s = (case invert_table order s of Some v \<Rightarrow> v | None \<Rightarrow> NONE_INT)"

text \<open>
  \<^verbatim>\<open>OverrideConnectivityType\<close>: the first loop reads the rules into a map, the second one iterates over that map;
  \<open>order\<close> arranges its entries.
\<close>

definition override_rules :: "string \<Rightarrow> (string \<times> string) list" where
  "override_rules newBase = fold (\<lambda>pt newC.
     case strings_Split pt '':'' of
       [a, b] \<Rightarrow> AList.update a b newC
     | _ \<Rightarrow> newC) (strings_Split newBase '','') []"

definition override_step :: "string \<times> string \<Rightarrow> connectivity \<times> nat \<Rightarrow> connectivity \<times> nat" where
  "override_step r s = (case (r, s) of ((old, new), (ct, found)) \<Rightarrow>
     case name_to_int ct old of
       Some v \<Rightarrow> (ct\<lparr>int_to_name := (int_to_name ct)(v \<mapsto> new), name_to_int := (name_to_int ct)(new \<mapsto> v)\<rparr>, Suc found)
     | None \<Rightarrow> (ct, found))"

definition OverrideConnectivityType ::
  "((string \<times> string) list \<Rightarrow> (string \<times> string) list) \<Rightarrow> string \<Rightarrow> connectivity \<Rightarrow> connectivity \<times> nat" where
  "OverrideConnectivityType order newBase ct = fold override_step (order (override_rules newBase)) (ct, 0)"

section \<open>Traffic profiles\<close>

record TrafficProfileNumbers =
  OriginationNumbers :: "u32 list"
  DestinationNumbers :: "u32 list"

definition tpn :: "u32 list \<Rightarrow> u32 list \<Rightarrow> TrafficProfileNumbers" where
  "tpn os ds = \<lparr>OriginationNumbers = os, DestinationNumbers = ds\<rparr>"

text \<open>The assignments of \<^verbatim>\<open>initializeTrafficProfileNumbersByName\<close>, in their order.\<close>

definition trafficProfileNumbersByName :: "(string \<times> TrafficProfileNumbers list) list" where
  "trafficProfileNumbersByName =
     [(''internal'', [tpn [NETWORK_SRC_INTERNAL] [NETWORK_SRC_INTERNAL]]),
      (''through'', [tpn [NETWORK_SRC_EXTERNAL] [NETWORK_SRC_EXTERNAL]]),
      (''from outside, terminated inside'', [tpn [NETWORK_SRC_EXTERNAL] [NETWORK_SRC_INTERNAL]]),
      (''originated inside, to outside'', [tpn [NETWORK_SRC_INTERNAL] [NETWORK_SRC_EXTERNAL]]),
      (''cloud internal'',
        [tpn [NETWORK_SRC_CLOUD_AWS] [NETWORK_SRC_CLOUD_AWS],
         tpn [NETWORK_SRC_CLOUD_AZURE] [NETWORK_SRC_CLOUD_AZURE],
         tpn [NETWORK_SRC_CLOUD_GCP] [NETWORK_SRC_CLOUD_GCP],
         tpn [NETWORK_SRC_CLOUD_IBM] [NETWORK_SRC_CLOUD_IBM]]),
      (''multi-cloud'',
        [tpn [NETWORK_SRC_CLOUD_AWS] [NETWORK_SRC_CLOUD_AZURE, NETWORK_SRC_CLOUD_GCP, NETWORK_SRC_CLOUD_IBM],
         tpn [NETWORK_SRC_CLOUD_AZURE] [NETWORK_SRC_CLOUD_AWS, NETWORK_SRC_CLOUD_GCP, NETWORK_SRC_CLOUD_IBM],
         tpn [NETWORK_SRC_CLOUD_GCP] [NETWORK_SRC_CLOUD_AWS, NETWORK_SRC_CLOUD_AZURE, NETWORK_SRC_CLOUD_IBM],
         tpn [NETWORK_SRC_CLOUD_IBM] [NETWORK_SRC_CLOUD_AWS, NETWORK_SRC_CLOUD_AZURE, NETWORK_SRC_CLOUD_GCP],
         tpn [NETWORK_SRC_CLOUD_AZURE, NETWORK_SRC_CLOUD_GCP, NETWORK_SRC_CLOUD_IBM] [NETWORK_SRC_CLOUD_AWS],
         tpn [NETWORK_SRC_CLOUD_AWS, NETWORK_SRC_CLOUD_GCP, NETWORK_SRC_CLOUD_IBM] [NETWORK_SRC_CLOUD_AZURE],
         tpn [NETWORK_SRC_CLOUD_AWS, NETWORK_SRC_CLOUD_AZURE, NETWORK_SRC_CLOUD_IBM] [NETWORK_SRC_CLOUD_GCP],
         tpn [NETWORK_SRC_CLOUD_AWS, NETWORK_SRC_CLOUD_AZURE, NETWORK_SRC_CLOUD_GCP] [NETWORK_SRC_CLOUD_IBM]]),
      (''from outside to cloud'',
        [tpn [NETWORK_SRC_EXTERNAL]
             [NETWORK_SRC_CLOUD_AWS, NETWORK_SRC_CLOUD_AZURE, NETWORK_SRC_CLOUD_GCP, NETWORK_SRC_CLOUD_IBM]]),
      (''from cloud to outside'',
        [tpn [NETWORK_SRC_CLOUD_AWS, NETWORK_SRC_CLOUD_AZURE, NETWORK_SRC_CLOUD_GCP, NETWORK_SRC_CLOUD_IBM]
             [NETWORK_SRC_EXTERNAL]]),
      (''from cloud to inside'',
        [tpn [NETWORK_SRC_CLOUD_AWS, NETWORK_SRC_CLOUD_AZURE, NETWORK_SRC_CLOUD_GCP, NETWORK_SRC_CLOUD_IBM]
             [NETWORK_SRC_INTERNAL]]),
      (''from inside to cloud'',
        [tpn [NETWORK_SRC_INTERNAL]
             [NETWORK_SRC_CLOUD_AWS, NETWORK_SRC_CLOUD_AZURE, NETWORK_SRC_CLOUD_GCP, NETWORK_SRC_CLOUD_IBM]]),
      ([], [])]"

definition TrafficProfileNumbersFromName :: "(string \<Rightarrow> string) \<Rightarrow> string \<Rightarrow> TrafficProfileNumbers list" where
  "TrafficProfileNumbersFromName uni profile =
     (case map_of trafficProfileNumbersByName (strings_ToLower uni profile) of
        None \<Rightarrow> (case map_of trafficProfileNumbersByName [] of Some r \<Rightarrow> r | None \<Rightarrow> [])
      | Some r \<Rightarrow> r)"

definition is_cloud :: "u32 \<Rightarrow> bool" where
  "is_cloud v \<longleftrightarrow> v = NETWORK_SRC_CLOUD_AWS \<or> v = NETWORK_SRC_CLOUD_AZURE \<or> v = NETWORK_SRC_CLOUD_GCP \<or> v = NETWORK_SRC_CLOUD_IBM"

definition TrafficNameFromNumbers :: "u32 \<Rightarrow> u32 \<Rightarrow> string" where
  "TrafficNameFromNumbers ov dv =
     (let fromCloud = is_cloud ov; fromOutside = (ov = NETWORK_SRC_EXTERNAL); fromInside = (ov = NETWORK_SRC_INTERNAL);
          toCloud = is_cloud dv; toOutside = (dv = NETWORK_SRC_EXTERNAL); toInside = (dv = NETWORK_SRC_INTERNAL)
      in if fromInside \<and> toOutside then ''originated inside, to outside''
         else if fromOutside \<and> toInside then ''from outside, terminated inside''
         else if fromOutside \<and> toOutside then ''through''
         else if fromInside \<and> toInside then ''internal''
         else if fromCloud \<and> ov = dv then ''cloud internal''
         else if fromCloud \<and> toCloud \<and> ov \<noteq> dv then ''multi-cloud''
         else if fromOutside \<and> toCloud then ''from outside to cloud''
         else if fromCloud \<and> toOutside then ''from cloud to outside''
         else if fromCloud \<and> toInside then ''from cloud to inside''
         else if fromInside \<and> toCloud then ''from inside to cloud''
         else [])"

text \<open>A pair matches a profile: one of its items has the origin and the destination, as the comment of the code says.\<close>

definition profile_matches :: "TrafficProfileNumbers list \<Rightarrow> u32 \<Rightarrow> u32 \<Rightarrow> bool" where
  "profile_matches ps ov dv \<longleftrightarrow> list_ex (\<lambda>p. ov \<in> set (OriginationNumbers p) \<and> dv \<in> set (DestinationNumbers p)) ps"

section \<open>The table and the function agree\<close>

definition network_values :: "u32 list" where
  "network_values = [10, 20, 80, 90, 100, 110]"

lemma name_outside_values:
  assumes "ov \<notin> set network_values \<or> dv \<notin> set network_values"
  shows "TrafficNameFromNumbers ov dv = []"
  using assms by (auto simp: network_values_def TrafficNameFromNumbers_def is_cloud_def network_src_defs Let_def)

lemma matches_outside_values:
  assumes "ov \<notin> set network_values \<or> dv \<notin> set network_values"
  shows "list_all (\<lambda>(n, ps). \<not> profile_matches ps ov dv) trafficProfileNumbersByName"
  using assms
  by (auto simp: network_values_def trafficProfileNumbersByName_def profile_matches_def tpn_def network_src_defs)

lemma name_values:
  "TrafficNameFromNumbers 10 10 = ''internal''"
  "TrafficNameFromNumbers 10 20 = ''originated inside, to outside''"
  "TrafficNameFromNumbers 10 80 = ''from inside to cloud''"
  "TrafficNameFromNumbers 10 90 = ''from inside to cloud''"
  "TrafficNameFromNumbers 10 100 = ''from inside to cloud''"
  "TrafficNameFromNumbers 10 110 = ''from inside to cloud''"
  "TrafficNameFromNumbers 20 10 = ''from outside, terminated inside''"
  "TrafficNameFromNumbers 20 20 = ''through''"
  "TrafficNameFromNumbers 20 80 = ''from outside to cloud''"
  "TrafficNameFromNumbers 20 90 = ''from outside to cloud''"
  "TrafficNameFromNumbers 20 100 = ''from outside to cloud''"
  "TrafficNameFromNumbers 20 110 = ''from outside to cloud''"
  "TrafficNameFromNumbers 80 10 = ''from cloud to inside''"
  "TrafficNameFromNumbers 80 20 = ''from cloud to outside''"
  "TrafficNameFromNumbers 80 80 = ''cloud internal''"
  "TrafficNameFromNumbers 80 90 = ''multi-cloud''"
  "TrafficNameFromNumbers 80 100 = ''multi-cloud''"
  "TrafficNameFromNumbers 80 110 = ''multi-cloud''"
  "TrafficNameFromNumbers 90 10 = ''from cloud to inside''"
  "TrafficNameFromNumbers 90 20 = ''from cloud to outside''"
  "TrafficNameFromNumbers 90 80 = ''multi-cloud''"
  "TrafficNameFromNumbers 90 90 = ''cloud internal''"
  "TrafficNameFromNumbers 90 100 = ''multi-cloud''"
  "TrafficNameFromNumbers 90 110 = ''multi-cloud''"
  "TrafficNameFromNumbers 100 10 = ''from cloud to inside''"
  "TrafficNameFromNumbers 100 20 = ''from cloud to outside''"
  "TrafficNameFromNumbers 100 80 = ''multi-cloud''"
  "TrafficNameFromNumbers 100 90 = ''multi-cloud''"
  "TrafficNameFromNumbers 100 100 = ''cloud internal''"
  "TrafficNameFromNumbers 100 110 = ''multi-cloud''"
  "TrafficNameFromNumbers 110 10 = ''from cloud to inside''"
  "TrafficNameFromNumbers 110 20 = ''from cloud to outside''"
  "TrafficNameFromNumbers 110 80 = ''multi-cloud''"
  "TrafficNameFromNumbers 110 90 = ''multi-cloud''"
  "TrafficNameFromNumbers 110 100 = ''multi-cloud''"
  "TrafficNameFromNumbers 110 110 = ''cloud internal''"
  by (simp_all add: TrafficNameFromNumbers_def is_cloud_def network_src_defs)

lemma name_matches_values:
  "list_all (\<lambda>ov. list_all (\<lambda>dv.
     list_all (\<lambda>(n, ps). profile_matches ps ov dv \<longleftrightarrow> n \<noteq> [] \<and> TrafficNameFromNumbers ov dv = n) trafficProfileNumbersByName \<and>
     TrafficNameFromNumbers ov dv \<in> fst ` set trafficProfileNumbersByName)
     network_values) network_values"
  by (simp add: network_values_def trafficProfileNumbersByName_def profile_matches_def tpn_def name_values network_src_defs)

lemma name_matches:
  assumes "(n, ps) \<in> set trafficProfileNumbersByName"
  shows "profile_matches ps ov dv \<longleftrightarrow> n \<noteq> [] \<and> TrafficNameFromNumbers ov dv = n"
proof (cases "ov \<in> set network_values \<and> dv \<in> set network_values")
  case True
  then have "\<forall>x \<in> set trafficProfileNumbersByName. case x of (n, ps) \<Rightarrow>
      profile_matches ps ov dv \<longleftrightarrow> n \<noteq> [] \<and> TrafficNameFromNumbers ov dv = n"
    using name_matches_values unfolding list_all_iff by blast
  from bspec [OF this assms] show ?thesis by simp
next
  case False
  then show ?thesis using matches_outside_values [of ov dv] name_outside_values [of ov dv] assms
    by (auto simp: list_all_iff)
qed

lemma profile_names_distinct: "distinct (map fst trafficProfileNumbersByName)"
  by (simp add: trafficProfileNumbersByName_def)

lemma name_in_table: "TrafficNameFromNumbers ov dv \<in> fst ` set trafficProfileNumbersByName"
proof (cases "ov \<in> set network_values \<and> dv \<in> set network_values")
  case True
  then show ?thesis using name_matches_values unfolding list_all_iff by blast
next
  case False
  then have "TrafficNameFromNumbers ov dv = []" using name_outside_values by auto
  then show ?thesis by (simp add: trafficProfileNumbersByName_def)
qed

lemma FromName_table:
  assumes "(strings_ToLower uni n, ps) \<in> set trafficProfileNumbersByName"
  shows "TrafficProfileNumbersFromName uni n = ps"
  using assms profile_names_distinct by (simp add: TrafficProfileNumbersFromName_def)

lemma FromName_absent:
  assumes "strings_ToLower uni n \<notin> fst ` set trafficProfileNumbersByName"
  shows "TrafficProfileNumbersFromName uni n = []"
proof -
  have "map_of trafficProfileNumbersByName (strings_ToLower uni n) = None"
    using assms by (simp add: map_of_eq_None_iff)
  moreover have "map_of trafficProfileNumbersByName [] = Some []"
    using profile_names_distinct by (intro map_of_is_SomeI) (simp_all add: trafficProfileNumbersByName_def)
  ultimately show ?thesis by (simp add: TrafficProfileNumbersFromName_def)
qed

text \<open>
  The two descriptions of traffic profiles agree: the numbers listed under a profile name contain a pair of
  origin and destination, for any spelling of the name in upper or lower case, exactly when the function from
  numbers to names gives that name for the pair; the empty name and unknown names match no pair.
\<close>

lemma traffic_profile_agrees:
  "profile_matches (TrafficProfileNumbersFromName uni profile) ov dv \<longleftrightarrow>
     strings_ToLower uni profile \<noteq> [] \<and> TrafficNameFromNumbers ov dv = strings_ToLower uni profile"
proof (cases "strings_ToLower uni profile \<in> fst ` set trafficProfileNumbersByName")
  case True
  then obtain ps where "(strings_ToLower uni profile, ps) \<in> set trafficProfileNumbersByName" by auto
  then show ?thesis using name_matches FromName_table by metis
next
  case False
  then have "TrafficNameFromNumbers ov dv \<noteq> strings_ToLower uni profile" using name_in_table by metis
  then show ?thesis using FromName_absent [OF False] by (simp add: profile_matches_def)
qed

section \<open>Inverted tables\<close>

lemma invert_fold: "fold (\<lambda>(k, v) m. m(v \<mapsto> k)) xs m0 = m0 ++ map_of (rev (map prod.swap xs))"
  by (induction xs arbitrary: m0) (auto simp: fun_eq_iff map_add_def split: option.splits)

lemma invert_table_map: "invert_table order = map_of (rev (map prod.swap order))"
  by (simp add: invert_table_def invert_fold)

lemma invert_table_iff:
  assumes "distinct (map snd t)" "mset order = mset t"
  shows "invert_table order v = Some k \<longleftrightarrow> (k, v) \<in> set t"
proof -
  have "mset (map snd order) = mset (map snd t)" using assms(2) by simp
  then have "distinct (map snd order)" using assms(1) by (metis mset_eq_imp_distinct_iff)
  then have "distinct (map fst (rev (map prod.swap order)))" by (simp add: rev_map [symmetric] comp_def)
  moreover have "set (rev (map prod.swap order)) = prod.swap ` set t" using assms(2) by (simp add: mset_eq_setD [OF assms(2)])
  ultimately show ?thesis unfolding invert_table_map by (subst map_of_eq_Some_iff) auto
qed

lemma connectivity_names: "distinct (map snd CONNECTIVITY_TYPE_INT_TO_NAME)" "distinct (map fst CONNECTIVITY_TYPE_INT_TO_NAME)"
    "list_all (\<lambda>(k, v). v \<noteq> NONE_NAME \<and> k \<noteq> NONE_INT) CONNECTIVITY_TYPE_INT_TO_NAME"
  by (simp_all add: CONNECTIVITY_TYPE_INT_TO_NAME_def NONE_NAME_def NONE_INT_def)

text \<open>The numbers and names of connectivity types are inverse to each other until they are overridden.\<close>

lemma connectivity_roundtrip:
  assumes "mset order = mset CONNECTIVITY_TYPE_INT_TO_NAME"
  shows "IntFromCTName (init_connectivity order) s = k \<and> k \<noteq> NONE_INT \<longleftrightarrow>
         NameFromCTInt (init_connectivity order) k = s \<and> s \<noteq> NONE_NAME"
proof -
  have "invert_table order s = Some k \<longleftrightarrow> map_of CONNECTIVITY_TYPE_INT_TO_NAME k = Some s" for k
    using invert_table_iff [OF connectivity_names(1) assms] connectivity_names(2) by simp
  moreover have "map_of CONNECTIVITY_TYPE_INT_TO_NAME k = Some s \<Longrightarrow> s \<noteq> NONE_NAME \<and> k \<noteq> NONE_INT" for k s
    using connectivity_names(3) by (auto simp: list_all_iff dest: map_of_SomeD)
  moreover from calculation(1) have "map_of CONNECTIVITY_TYPE_INT_TO_NAME k = Some s \<Longrightarrow>
      map_of CONNECTIVITY_TYPE_INT_TO_NAME k' = Some s \<Longrightarrow> k = k'" for k k'
    by (metis option.inject)
  ultimately show ?thesis
    by (auto simp: IntFromCTName_def NameFromCTInt_def init_connectivity_def split: option.splits)
qed

text \<open>
  A rename that takes the name of another type breaks the inverse: the number of the other type is lost, its name
  now leads to the renamed one.
\<close>

lemma override_shadows:
  assumes "mset order = mset CONNECTIVITY_TYPE_INT_TO_NAME"
  defines "ct \<equiv> fst (OverrideConnectivityType id ''host:customer'' (init_connectivity order))"
  shows "NameFromCTInt ct 15 = ''customer''" "IntFromCTName ct ''customer'' = 25" "IntFromCTName ct ''host'' = 25"
proof -
  have rules: "override_rules ''host:customer'' = [(''host'', ''customer'')]"
    by code_simp
  have "invert_table order ''host'' = Some 25"
    unfolding invert_table_iff [OF connectivity_names(1) assms(1)] by (simp add: CONNECTIVITY_TYPE_INT_TO_NAME_def)
  then have ct: "ct = \<lparr>int_to_name = (map_of CONNECTIVITY_TYPE_INT_TO_NAME)(25 \<mapsto> ''customer''),
      name_to_int = (invert_table order)(''customer'' \<mapsto> 25)\<rparr>"
    by (simp add: ct_def OverrideConnectivityType_def rules override_step_def init_connectivity_def)
  show "NameFromCTInt ct 15 = ''customer''"
    by (simp add: ct NameFromCTInt_def CONNECTIVITY_TYPE_INT_TO_NAME_def)
  show "IntFromCTName ct ''customer'' = 25" "IntFromCTName ct ''host'' = 25"
    using \<open>invert_table order ''host'' = Some 25\<close> by (simp_all add: ct IntFromCTName_def)
qed

end
