(* ===== verification/Device_Types.thy ===== *)
theory Device_Types
  imports Jchf Go_Net Ic
begin

text \<open>
  \<^verbatim>\<open>pkg/kt/device_types.go\<close>: a device of the Kentik API with its interfaces, and its conversion from the messages
  of the API. The messages are generated code of another repository; their fields, read through getters that give
  the zero value for a missing message, are records here, a repeated message field is a list of possibly nil
  messages, and a message that is only handed on is its address.
\<close>

section \<open>The data\<close>

record Interface =
  i_DeviceID :: u64
  i_Address :: string
  i_Netmask :: string
  i_Description :: string
  i_NetworkBoundary :: string
  i_ConnectivityType :: string
  i_Provider :: string
  i_SnmpID :: u64
  i_Alias :: string
  i_Type :: u64
  i_SnmpSpeedMbps :: i64
  i_Addrs :: "(string \<times> string) list"
  i_ExtraInfo :: "string gomap"

definition zero_Interface :: Interface where
  "zero_Interface = \<lparr>i_DeviceID = 0, i_Address = [], i_Netmask = [], i_Description = [], i_NetworkBoundary = [],
     i_ConnectivityType = [], i_Provider = [], i_SnmpID = 0, i_Alias = [], i_Type = 0, i_SnmpSpeedMbps = 0,
     i_Addrs = [], i_ExtraInfo = None\<rparr>"

record DeviceLabel =
  l_ID :: int
  l_Name :: string
  l_Desc :: string

record Plan =
  p_ID :: u64
  p_Name :: string

record Column =
  c_ID :: u32
  c_Name :: string
  c_Type :: string
  c_DeviceID :: string
  c_FieldID :: string
  c_Description :: string
  c_DeviceType :: string

record V3SNMPConfig =
  v3_UserName :: string
  v3_AuthenticationProtocol :: string
  v3_AuthenticationPassphrase :: string
  v3_PrivacyProtocol :: string
  v3_PrivacyPassphrase :: string

type_synonym address = nat

record Device =
  d_ID :: u64
  d_Name :: string
  d_CompanyID :: u64
  d_DeviceType :: string
  d_DeviceSubtype :: string
  d_Description :: string
  d_IP :: "bytes option"
  d_Interfaces :: "u64 \<Rightarrow> Interface option"
  d_SendingIps :: "bytes list"
  d_SampleRate :: u32
  d_BgpType :: string
  d_Plan :: Plan
  d_CdnAttr :: string
  d_MaxFlowRate :: int
  d_Customs :: "Column list"
  d_CustomStr :: string
  d_SnmpCommunity :: string
  d_SnmpIp :: string
  d_SnmpV3 :: "V3SNMPConfig option"
  d_Labels :: "DeviceLabel list"
  d_Site :: "address option"
  d_allUserTags :: "(string \<times> string) list option"
  d_FullSite :: "address option"
  d_IDStr :: string
  d_loadedCustoms :: bool
  d_loadedInts :: bool

section \<open>The messages of the API\<close>

record pb_Interface =
  GetSnmpId :: string
  GetDeviceId :: string
  GetInterfaceDescription :: string
  GetNetworkBoundary :: string
  GetConnectivityType :: string
  GetProvider :: string
  GetSnmpAlias :: string
  GetSnmpSpeed :: string

text \<open>The interface message of the interface service has numbers where that of the device service has strings.\<close>

record ipb_Interface =
  iGetSnmpId :: string
  iGetDeviceId :: string
  iGetInterfaceDescription :: string
  iGetNetworkBoundary :: int
  iGetConnectivityType :: int
  iGetProvider :: string
  iGetSnmpAlias :: string
  iGetSnmpSpeed :: int
  iGetInterfaceIp :: string

record pb_Column =
  cGetFieldId :: string
  cGetDeviceId :: string
  cGetColName :: string
  cGetDescription :: string
  cGetColType :: string
  cGetDeviceType :: string

record pb_Plan =
  plGetId :: string
  plGetName :: string

record DeviceDetailed =
  GetId :: string
  GetCompanyId :: string
  GetDeviceName :: string
  GetDeviceType :: string
  GetDeviceSubtype :: string
  GetDeviceDescription :: string
  GetDeviceSampleRate :: string
  GetDeviceSnmpIp :: string
  GetSendingIps :: "string list"
  GetAllInterfaces :: "pb_Interface option list"
  GetLabels :: "(string \<times> string \<times> string) list"
  GetPlan :: "pb_Plan option"
  GetCustomColumnData :: "pb_Column option list"
  GetDeviceSnmpV3Conf :: "V3SNMPConfig option"
  GetDeviceBgpType :: string
  GetCdnAttr :: string
  GetMaxFlowRate :: int
  GetCustomColumns :: string
  GetDeviceSnmpCommunity :: string
  GetSite :: "address option"

section \<open>The conversion\<close>

text \<open>\<^verbatim>\<open>strconv.ParseInt(s, 10, 64)\<close>, and the same with zero in place of an error.\<close>

definition parse_or_0 :: "string \<Rightarrow> int" where
  "parse_or_0 s = (case strconv_Atoi s of Some n \<Rightarrow> n | None \<Rightarrow> 0)"

definition mapInterfaces_step :: "int \<Rightarrow> pb_Interface option \<Rightarrow> (u64 \<Rightarrow> Interface option) \<Rightarrow> u64 \<Rightarrow> Interface option" where
  "mapInterfaces_step wantDevID p ifaceMap =
     (case p of
        None \<Rightarrow> ifaceMap
      | Some p \<Rightarrow>
          let snmpID = parse_or_0 (GetSnmpId p); devID = parse_or_0 (GetDeviceId p) in
          if devID \<noteq> wantDevID then ifaceMap
          else ifaceMap(of_int snmpID \<mapsto> zero_Interface\<lparr>i_DeviceID := of_int devID,
            i_Description := GetInterfaceDescription p, i_NetworkBoundary := GetNetworkBoundary p,
            i_ConnectivityType := GetConnectivityType p, i_Provider := GetProvider p, i_SnmpID := of_int snmpID,
            i_Alias := GetSnmpAlias p, i_SnmpSpeedMbps := of_int (parse_or_0 (GetSnmpSpeed p))\<rparr>))"

definition mapInterfaces :: "string \<Rightarrow> pb_Interface option list \<Rightarrow> u64 \<Rightarrow> Interface option" where
  "mapInterfaces deviceID protos = fold (mapInterfaces_step (parse_or_0 deviceID)) protos Map.empty"

definition mapPlan :: "pb_Plan option \<Rightarrow> Plan" where
  "mapPlan p = (case p of None \<Rightarrow> \<lparr>p_ID = 0, p_Name = []\<rparr>
     | Some p \<Rightarrow> \<lparr>p_ID = of_int (parse_or_0 (plGetId p)), p_Name = plGetName p\<rparr>)"

definition mapColumn :: "pb_Column \<Rightarrow> Column" where
  "mapColumn c = \<lparr>c_ID = (case strconv_ParseUint (cGetFieldId c) 32 of Some n \<Rightarrow> of_nat n | None \<Rightarrow> 0),
     c_Name = cGetColName c, c_Type = cGetColType c, c_DeviceID = cGetDeviceId c, c_FieldID = cGetFieldId c,
     c_Description = cGetDescription c, c_DeviceType = cGetDeviceType c\<rparr>"

definition mapCustomColumns :: "pb_Column option list \<Rightarrow> Column list" where
  "mapCustomColumns cols = map mapColumn (List.map_filter (\<lambda>c. c) cols)"

definition MapDeviceDetailedToDevice :: "DeviceDetailed option \<Rightarrow> Device res" where
  "MapDeviceDetailedToDevice dd =
     (case dd of
        None \<Rightarrow> Inl (Errorf ''DeviceDetailed is nil'' [])
      | Some dd \<Rightarrow>
          case strconv_Atoi (GetId dd) of
            None \<Rightarrow> Inl (Errorf ''parsing device ID'' [])
          | Some deviceID \<Rightarrow>
              case strconv_Atoi (GetCompanyId dd) of
                None \<Rightarrow> Inl (Errorf ''parsing company ID'' [])
              | Some companyID \<Rightarrow>
                  let sampleRate = (case strconv_ParseUint (GetDeviceSampleRate dd) 32 of Some n \<Rightarrow> n | None \<Rightarrow> 0);
                      ifaceMap = mapInterfaces (GetId dd) (GetAllInterfaces dd);
                      customs = mapCustomColumns (GetCustomColumnData dd)
                  in Inr \<lparr>d_ID = of_int deviceID, d_Name = GetDeviceName dd, d_CompanyID = of_int companyID,
                       d_DeviceType = GetDeviceType dd, d_DeviceSubtype = GetDeviceSubtype dd,
                       d_Description = GetDeviceDescription dd, d_IP = ParseIP (GetDeviceSnmpIp dd),
                       d_Interfaces = ifaceMap, d_SendingIps = List.map_filter ParseIP (GetSendingIps dd),
                       d_SampleRate = of_nat sampleRate, d_BgpType = GetDeviceBgpType dd, d_Plan = mapPlan (GetPlan dd),
                       d_CdnAttr = GetCdnAttr dd, d_MaxFlowRate = GetMaxFlowRate dd, d_Customs = customs,
                       d_CustomStr = GetCustomColumns dd, d_SnmpCommunity = GetDeviceSnmpCommunity dd,
                       d_SnmpIp = GetDeviceSnmpIp dd, d_SnmpV3 = GetDeviceSnmpV3Conf dd,
                       d_Labels = map (\<lambda>(i, n, t). \<lparr>l_ID = parse_or_0 i, l_Name = n, l_Desc = t\<rparr>) (GetLabels dd),
                       d_Site = GetSite dd, d_allUserTags = None, d_FullSite = None, d_IDStr = GetId dd,
                       d_loadedCustoms = (customs \<noteq> []), d_loadedInts = (ifaceMap \<noteq> Map.empty)\<rparr>)"

section \<open>Changes of a device\<close>

text \<open>A nil map of tags reads as empty; \<^verbatim>\<open>InitUserTags\<close> panics on one when it has a name to store.\<close>

definition InitUserTags :: "string \<Rightarrow> (string \<times> string) list option \<Rightarrow> Device \<Rightarrow> Device res" where
  "InitUserTags serviceName tags d =
     (let d = d\<lparr>d_allUserTags := tags\<rparr> in
      if serviceName \<noteq> ''ktranslate'' then
        (case tags of
           None \<Rightarrow> Inl (Panic ''assignment to entry in nil map'')
         | Some ts \<Rightarrow> Inr (d\<lparr>d_allUserTags := Some (AList.update ''tags.container_service'' serviceName ts)\<rparr>))
      else Inr d)"

definition user_tags :: "Device \<Rightarrow> (string \<times> string) list" where
  "user_tags d = (case d_allUserTags d of None \<Rightarrow> [] | Some ts \<Rightarrow> ts)"

definition SetUserTags :: "Device \<Rightarrow> (string \<Rightarrow> string option) \<Rightarrow> string \<Rightarrow> string option" where
  "SetUserTags d m = fold (\<lambda>(k, v) m. m(k \<mapsto> v)) (user_tags d) m"

definition AddCustoms :: "DeviceDetailed \<Rightarrow> Device \<Rightarrow> Device" where
  "AddCustoms dd d = d\<lparr>d_Customs := mapCustomColumns (GetCustomColumnData dd), d_CustomStr := GetCustomColumns dd,
     d_loadedCustoms := True\<rparr>"

definition LoadedCustoms :: "Device \<Rightarrow> bool \<times> Device" where
  "LoadedCustoms d = (d_loadedCustoms d, d\<lparr>d_loadedCustoms := True\<rparr>)"

definition LoadedInterfaces :: "Device \<Rightarrow> bool \<times> Device" where
  "LoadedInterfaces d = (d_loadedInts d, d\<lparr>d_loadedInts := True\<rparr>)"

definition AddInterfaces_step :: "connectivity \<Rightarrow> Device \<Rightarrow> ipb_Interface option \<Rightarrow> (u64 \<Rightarrow> Interface option) \<Rightarrow> u64 \<Rightarrow> Interface option" where
  "AddInterfaces_step ct d p ifacemap =
     (case p of
        None \<Rightarrow> ifacemap
      | Some p \<Rightarrow>
          let snmpID = parse_or_0 (iGetSnmpId p); devID = parse_or_0 (iGetDeviceId p) in
          if of_int devID \<noteq> d_ID d then ifacemap
          else ifacemap(of_int snmpID \<mapsto> zero_Interface\<lparr>i_DeviceID := of_int devID,
            i_Description := iGetInterfaceDescription p, i_NetworkBoundary := NameFromNBInt (iGetNetworkBoundary p),
            i_ConnectivityType := NameFromCTInt ct (iGetConnectivityType p), i_Provider := iGetProvider p,
            i_SnmpID := of_int snmpID, i_Alias := iGetSnmpAlias p, i_SnmpSpeedMbps := of_int (iGetSnmpSpeed p),
            i_Address := iGetInterfaceIp p\<rparr>))"

definition AddInterfaces :: "connectivity \<Rightarrow> ipb_Interface option list \<Rightarrow> Device \<Rightarrow> Device" where
  "AddInterfaces ct ints d = d\<lparr>d_Interfaces := fold (AddInterfaces_step ct d) ints Map.empty\<rparr>"

section \<open>The interfaces of a device are its own\<close>

definition own_interfaces :: "Device \<Rightarrow> bool" where
  "own_interfaces d \<longleftrightarrow> (\<forall>k i. d_Interfaces d k = Some i \<longrightarrow> i_SnmpID i = k \<and> i_DeviceID i = d_ID d)"

lemma fold_map_entries:
  assumes "\<And>k i. m k = Some i \<Longrightarrow> P k i"
    "\<And>p m. (\<And>k i. m k = Some i \<Longrightarrow> P k i) \<Longrightarrow> (\<And>k i. f p m k = Some i \<Longrightarrow> P k i)"
  shows "fold f ps m k = Some i \<Longrightarrow> P k i"
  using assms(1)
proof (induction ps arbitrary: m)
  case Nil
  then show ?case by simp
next
  case (Cons p ps)
  have "\<And>k i. f p m k = Some i \<Longrightarrow> P k i" using assms(2) [of m] Cons.prems(2) by blast
  with Cons.IH [of "f p m"] Cons.prems(1) show ?case by simp
qed

lemma mapInterfaces_own:
  assumes "mapInterfaces s ps k = Some i"
  shows "i_SnmpID i = k \<and> i_DeviceID i = of_int (parse_or_0 s)"
  using assms unfolding mapInterfaces_def
  by (rule fold_map_entries [where P = "\<lambda>k i. i_SnmpID i = k \<and> i_DeviceID i = of_int (parse_or_0 s)", rotated -1])
    (auto simp: mapInterfaces_step_def Let_def split: option.splits if_splits)

lemma MapDeviceDetailed_own:
  assumes "MapDeviceDetailedToDevice dd = Inr d"
  shows "own_interfaces d"
proof -
  obtain m where m: "dd = Some m" using assms by (cases dd) (simp_all add: MapDeviceDetailedToDevice_def)
  obtain n where n: "strconv_Atoi (GetId m) = Some n"
    using assms m by (auto simp: MapDeviceDetailedToDevice_def split: option.splits)
  have "d_Interfaces d = mapInterfaces (GetId m) (GetAllInterfaces m)" "d_ID d = of_int n"
    using assms m n by (auto simp: MapDeviceDetailedToDevice_def Let_def split: option.splits)
  with n show ?thesis using mapInterfaces_own by (fastforce simp: own_interfaces_def parse_or_0_def)
qed

lemma AddInterfaces_own: "own_interfaces (AddInterfaces ct ints d)"
proof -
  have "fold (AddInterfaces_step ct d) ints Map.empty k = Some i \<Longrightarrow> i_SnmpID i = k \<and> i_DeviceID i = d_ID d" for k i
    by (rule fold_map_entries [where P = "\<lambda>k i. i_SnmpID i = k \<and> i_DeviceID i = d_ID d", rotated -1])
      (auto simp: AddInterfaces_step_def Let_def split: option.splits if_splits)
  then show ?thesis by (simp add: own_interfaces_def AddInterfaces_def)
qed

lemma AddInterfaces_keeps [simp]:
  "d_ID (AddInterfaces ct ints d) = d_ID d" "d_CompanyID (AddInterfaces ct ints d) = d_CompanyID d"
  "d_Name (AddInterfaces ct ints d) = d_Name d" "d_SendingIps (AddInterfaces ct ints d) = d_SendingIps d"
  by (simp_all add: AddInterfaces_def)

lemma AddCustoms_keeps [simp]:
  "d_ID (AddCustoms dd d) = d_ID d" "d_CompanyID (AddCustoms dd d) = d_CompanyID d"
  "d_Name (AddCustoms dd d) = d_Name d" "d_SendingIps (AddCustoms dd d) = d_SendingIps d"
  "own_interfaces (AddCustoms dd d) = own_interfaces d"
  by (simp_all add: AddCustoms_def own_interfaces_def)

text \<open>Every interface of the message with an id of the device is found under its number, the last one of a number wins.\<close>

lemma mapInterfaces_last:
  assumes "parse_or_0 (GetDeviceId p) = parse_or_0 s"
    "\<And>q. Some q \<in> set qs \<Longrightarrow> parse_or_0 (GetDeviceId q) = parse_or_0 s \<Longrightarrow>
      (of_int (parse_or_0 (GetSnmpId q)) :: u64) \<noteq> of_int (parse_or_0 (GetSnmpId p))"
  shows "\<exists>i. mapInterfaces s (ps @ Some p # qs) (of_int (parse_or_0 (GetSnmpId p))) = Some i \<and>
    i_Description i = GetInterfaceDescription p \<and> i_Alias i = GetSnmpAlias p"
proof -
  have tail: "fold (mapInterfaces_step (parse_or_0 s)) qs m (of_int (parse_or_0 (GetSnmpId p))) =
      m (of_int (parse_or_0 (GetSnmpId p)))" for m
    using assms(2)
  proof (induction qs arbitrary: m)
    case (Cons q qs)
    have "fold (mapInterfaces_step (parse_or_0 s)) qs (mapInterfaces_step (parse_or_0 s) q m) (of_int (parse_or_0 (GetSnmpId p))) =
        mapInterfaces_step (parse_or_0 s) q m (of_int (parse_or_0 (GetSnmpId p)))"
      by (rule Cons.IH) (use Cons.prems in auto)
    also have "\<dots> = m (of_int (parse_or_0 (GetSnmpId p)))"
    proof (cases q)
      case (Some x)
      then show ?thesis using Cons.prems [of x] by (auto simp: mapInterfaces_step_def Let_def)
    qed (simp add: mapInterfaces_step_def)
    finally show ?case by simp
  qed simp
  show ?thesis unfolding mapInterfaces_def fold_append comp_def fold.simps(2) tail
    by (simp add: mapInterfaces_step_def Let_def assms(1))
qed

lemma SetUserTags_map: "SetUserTags d m = m ++ map_of (rev (user_tags d))"
proof -
  have "fold (\<lambda>(k, v) m. m(k \<mapsto> v)) ts m = m ++ map_of (rev ts)" for ts :: "(string \<times> string) list" and m
    by (induction ts arbitrary: m) (auto simp: fun_eq_iff map_add_def split: option.splits)
  then show ?thesis by (simp add: SetUserTags_def)
qed

end
