(* ===== verification/Snmp_Device.thy ===== *)
theory Snmp_Device
  imports Snmp_Profile Device_Types
begin

text \<open>
  The metrics of a device, \<^verbatim>\<open>pkg/inputs/snmp/metrics/device_metrics.go\<close>, and of \<^verbatim>\<open>pkg/kt/snmp.go\<close> the conditions of an object,
  the tags of a device and the status of polling. Go maps are association lists in the order of their iteration. Arguments: the
  time, the answers to the walks, the text of an error, the order of the groups of an expression, and the percentages that the code
  computes in \<^verbatim>\<open>float32\<close> and \<^verbatim>\<open>float64\<close>. Log lines are left out, of a device its vendor extensions and the walker of the tests,
  and of the configuration that of the discovery.
\<close>

section \<open>Configuration of a device\<close>

type_synonym tags = "(string \<times> string) list"

record SnmpDeviceConfig =
  sd_DeviceName :: string
  sd_DeviceIP :: string
  sd_Community :: string
  sd_UseV1 :: bool
  sd_V3 :: "V3SNMPConfig option"
  sd_Debug :: bool
  sd_SampleRate :: int
  sd_Port :: u16
  sd_OID :: string
  sd_Description :: string
  sd_Checked :: int
  sd_MibProfile :: string
  sd_Provider :: Provider
  sd_FlowOnly :: bool
  sd_PingOnly :: bool
  sd_UserTags :: "tags option"
  sd_ExpectedDevTags :: int
  sd_DiscoveredMibs :: "string list"
  sd_PollTimeSec :: int
  sd_PollTimeoutSec :: int
  sd_TimeoutMS :: int
  sd_Retries :: int
  sd_EngineID :: string
  sd_MatchAttr :: "tags option"
  sd_MonitorAdminShut :: bool
  sd_NoUseBulkWalkAll :: bool
  sd_InstrumentationName :: string
  sd_RunPing :: bool
  sd_PingSec :: int
  sd_PurgeDevice :: int
  sd_NoCheckIncreasing :: bool
  sd_allUserTags :: "tags option"

record SnmpTrapConfig =
  tc_Listen :: string
  tc_Community :: string
  tc_Version :: string
  tc_Transport :: string
  tc_V3 :: "V3SNMPConfig option"
  tc_TrapOnly :: bool
  tc_DropUndefined :: bool
  tc_Endpoint :: string
  tc_EndpointPort :: u16

record ProviderMap =
  pm_UserTags :: "tags option"
  pm_MatchAttr :: "tags option"

record SnmpGlobalConfig =
  sg_PollTimeSec :: int
  sg_PollTimeoutSec :: int
  sg_DropIfOutside :: bool
  sg_MibProfileDir :: string
  sg_MibDB :: string
  sg_MibsEnabled :: "string list"
  sg_TimeoutMS :: int
  sg_Retries :: int
  sg_GlobalV3 :: "V3SNMPConfig option"
  sg_RunPing :: bool
  sg_PingSec :: int
  sg_PingOnly :: bool
  sg_PurgeDevices :: int
  sg_NoDeviceHardcodedOids :: bool
  sg_UserTags :: "tags option"
  sg_MatchAttr :: "tags option"
  sg_ProviderMap :: "(string \<times> ProviderMap) list"
  sg_JitterTimeSec :: int
  sg_FastPoll :: bool
  sg_WatchProfileChanges :: bool
  sg_SaveCache :: bool
  sg_MibGitUrl :: string
  sg_MibGitHash :: string

record SnmpConfig =
  sc_Devices :: "(string \<times> SnmpDeviceConfig) list"
  sc_Trap :: "SnmpTrapConfig option"
  sc_Global :: "SnmpGlobalConfig option"
  sc_doneInit :: bool

text \<open>\<^verbatim>\<open>&SnmpGlobalConfig{}\<close>\<close>

definition zero_global :: SnmpGlobalConfig where
  "zero_global = \<lparr>sg_PollTimeSec = 0, sg_PollTimeoutSec = 0, sg_DropIfOutside = False, sg_MibProfileDir = [], sg_MibDB = [], sg_MibsEnabled = [],
     sg_TimeoutMS = 0, sg_Retries = 0, sg_GlobalV3 = None, sg_RunPing = False, sg_PingSec = 0, sg_PingOnly = False, sg_PurgeDevices = 0,
     sg_NoDeviceHardcodedOids = False, sg_UserTags = None, sg_MatchAttr = None, sg_ProviderMap = [], sg_JitterTimeSec = 0, sg_FastPoll = False,
     sg_WatchProfileChanges = False, sg_SaveCache = False, sg_MibGitUrl = [], sg_MibGitHash = []\<rparr>"

definition tags_of :: "tags option \<Rightarrow> tags" where
  "tags_of t = (case t of None \<Rightarrow> [] | Some t \<Rightarrow> t)"

text \<open>The tags of an earlier device that neither the new one nor the global configuration sets.\<close>

fun old_tags :: "tags option \<Rightarrow> tags \<Rightarrow> tags \<Rightarrow> tags res" where
  "old_tags global [] new = Inr new"
| "old_tags global ((k, v) # old) new =
     (if map_of new k \<noteq> None then old_tags global old new
      else case global of
          None \<Rightarrow> Inl (Panic ''nil pointer'')
        | Some g \<Rightarrow> old_tags global old (if map_of g k = None then AList.update k v new else new))"

definition update_tags :: "tags option \<Rightarrow> tags option \<Rightarrow> tags option \<Rightarrow> tags option res" where
  "update_tags global old new =
     map_sum id (\<lambda>t. if new = None \<and> old = None then None else Some t) (old_tags global (tags_of old) (tags_of new))"

definition keep_fixed :: "SnmpDeviceConfig \<Rightarrow> SnmpDeviceConfig \<Rightarrow> SnmpDeviceConfig" where
  "keep_fixed old d = d\<lparr>
     sd_MibProfile := if strings_HasPrefix (sd_MibProfile old) ''!'' then sd_MibProfile old else sd_MibProfile d,
     sd_SampleRate := if sd_SampleRate old > 0 then sd_SampleRate old else sd_SampleRate d,
     sd_FlowOnly := sd_FlowOnly old \<or> sd_FlowOnly d,
     sd_PingOnly := sd_PingOnly old \<or> sd_PingOnly d,
     sd_PollTimeSec := if sd_PollTimeSec old > 0 then sd_PollTimeSec old else sd_PollTimeSec d,
     sd_PollTimeoutSec := if sd_PollTimeoutSec old > 0 then sd_PollTimeoutSec old else sd_PollTimeoutSec d,
     sd_TimeoutMS := if sd_TimeoutMS old > 0 then sd_TimeoutMS old else sd_TimeoutMS d,
     sd_Retries := if sd_Retries old > 0 then sd_Retries old else sd_Retries d,
     sd_MonitorAdminShut := sd_MonitorAdminShut old \<or> sd_MonitorAdminShut d,
     sd_NoUseBulkWalkAll := sd_NoUseBulkWalkAll old \<or> sd_NoUseBulkWalkAll d,
     sd_RunPing := sd_RunPing old \<or> sd_RunPing d,
     sd_PurgeDevice := if sd_PurgeDevice old \<noteq> 0 then sd_PurgeDevice old else sd_PurgeDevice d,
     sd_ExpectedDevTags := if sd_ExpectedDevTags old \<noteq> 0 then sd_ExpectedDevTags old else sd_ExpectedDevTags d\<rparr>"

definition UpdateFrom :: "SnmpDeviceConfig option \<Rightarrow> SnmpConfig \<Rightarrow> SnmpDeviceConfig \<Rightarrow> SnmpDeviceConfig res" where
  "UpdateFrom old conf d =
     (case old of
        None \<Rightarrow> Inr d
      | Some old \<Rightarrow>
          let d = keep_fixed old d in
          (case update_tags (map_option (\<lambda>g. tags_of (sg_UserTags g)) (sc_Global conf)) (sd_UserTags old) (sd_UserTags d) of
             Inl e \<Rightarrow> Inl e
           | Inr ut \<Rightarrow>
               map_sum id (\<lambda>ma. d\<lparr>sd_UserTags := ut, sd_MatchAttr := ma\<rparr>)
                 (update_tags (map_option (\<lambda>g. tags_of (sg_MatchAttr g)) (sc_Global conf)) (sd_MatchAttr old) (sd_MatchAttr d))))"

definition UserTagPrefix :: string where "UserTagPrefix = ''tags.''"

definition tag_key :: "string \<Rightarrow> string" where
  "tag_key k = (if strings_HasPrefix k UserTagPrefix then k else UserTagPrefix @ k)"

definition AddUserTag :: "string \<Rightarrow> string \<Rightarrow> SnmpDeviceConfig \<Rightarrow> SnmpDeviceConfig" where
  "AddUserTag k v d = d\<lparr>sd_allUserTags := Some (AList.update (tag_key k) v (tags_of (sd_allUserTags d)))\<rparr>"

definition Config_InitUserTags :: "string \<Rightarrow> SnmpDeviceConfig \<Rightarrow> SnmpDeviceConfig res" where
  "Config_InitUserTags serviceName d =
     (if sd_ExpectedDevTags d > 0 \<and> int (length (tags_of (sd_UserTags d))) \<noteq> sd_ExpectedDevTags d then Inl (Panic ''Wrong number of user tags'')
      else
        let d = (if serviceName \<noteq> ''ktranslate''
              then d\<lparr>sd_UserTags := Some (AList.update ''container_service'' serviceName (tags_of (sd_UserTags d)))\<rparr> else d)
        in Inr (d\<lparr>sd_allUserTags := Some (fold (\<lambda>(k, v). AList.update (tag_key k) v) (tags_of (sd_UserTags d)) [])\<rparr>))"

definition Config_SetUserTags :: "SnmpDeviceConfig \<Rightarrow> tags \<Rightarrow> tags" where
  "Config_SetUserTags d strs = put_all (tags_of (sd_allUserTags d)) strs"

definition GetUserTags :: "SnmpDeviceConfig \<Rightarrow> tags option" where
  "GetUserTags d = map_option (\<lambda>t. put_all t []) (sd_allUserTags d)"

subsection \<open>Tags of a provider\<close>

definition ProviderPrefix :: string where "ProviderPrefix = ''provider:''"

definition provider_key :: "string \<Rightarrow> string \<Rightarrow> string" where
  "provider_key prov k = ProviderPrefix @ prov @ '':'' @ k"

text \<open>The keys that the loop adds carry the prefix, so it does not matter whether it visits them.\<close>

definition move_tag :: "string \<Rightarrow> string \<times> string \<Rightarrow> tags \<Rightarrow> tags" where
  "move_tag prov kv m = (if strings_HasPrefix (fst kv) ProviderPrefix then m else AList.update (provider_key prov (fst kv)) (snd kv) (AList.delete (fst kv) m))"

definition prefix_tags :: "string \<Rightarrow> tags option \<Rightarrow> tags option" where
  "prefix_tags prov t = map_option (\<lambda>m. fold (move_tag prov) m m) t"

definition prefix_device :: "SnmpDeviceConfig \<Rightarrow> SnmpDeviceConfig" where
  "prefix_device d = d\<lparr>sd_UserTags := prefix_tags ''device'' (sd_UserTags d), sd_MatchAttr := prefix_tags ''device'' (sd_MatchAttr d)\<rparr>"

definition copy_tags :: "string \<Rightarrow> tags option \<Rightarrow> tags option \<Rightarrow> tags option" where
  "copy_tags prov p g =
     (case p of
        None \<Rightarrow> g
      | Some p \<Rightarrow> Some (fold (\<lambda>(k, v) m. if strings_HasPrefix k ProviderPrefix then m else AList.update (provider_key prov k) v m) p (tags_of g)))"

definition ProviderMap_Init :: "string \<Rightarrow> tags option \<Rightarrow> tags option \<Rightarrow> SnmpConfig \<Rightarrow> SnmpConfig" where
  "ProviderMap_Init prov pu pm cfg =
     (let g = (case sc_Global cfg of None \<Rightarrow> zero_global | Some g \<Rightarrow> g);
          g = (if pu \<noteq> None \<and> sg_UserTags g = None then g\<lparr>sg_UserTags := Some []\<rparr> else g);
          g = (if pm \<noteq> None \<and> sg_MatchAttr g = None then g\<lparr>sg_MatchAttr := Some []\<rparr> else g);
          (g, devs) = (if sc_doneInit cfg then (g, sc_Devices cfg)
            else (g\<lparr>sg_UserTags := prefix_tags ''global'' (sg_UserTags g), sg_MatchAttr := prefix_tags ''global'' (sg_MatchAttr g)\<rparr>,
                  map (\<lambda>(n, d). (n, prefix_device d)) (sc_Devices cfg)));
          g = g\<lparr>sg_UserTags := copy_tags prov pu (sg_UserTags g), sg_MatchAttr := copy_tags prov pm (sg_MatchAttr g)\<rparr>
      in cfg\<lparr>sc_Devices := devs, sc_Global := Some g, sc_doneInit := True\<rparr>)"

section \<open>Polling\<close>

definition SNMP_GOOD :: int where "SNMP_GOOD = 1"

definition SNMP_STATUS_MAP :: "(int \<times> string) list" where
  "SNMP_STATUS_MAP = [(1, ''GOOD''), (3, ''BAD: No data''), (4, ''BAD: Device Error''), (5, ''BAD: Interface Error''), (6, ''BAD: Poll Timeout''),
     (7, ''BAD: Init Metadata''), (8, ''BAD: Init Metrics''), (9, ''BAD: Metrics Poll'')]"

record DeviceMetrics =
  dv_conf :: SnmpDeviceConfig
  dv_oids :: "(string \<times> Mib) list"
  dv_missing :: "string list"
  dv_profile :: "Profile option"
  dv_profileName :: string
  dv_Missing :: int
  dv_Errors :: nat
  dv_Fail :: int
  dv_polled :: nat

definition NewDeviceMetrics :: "SnmpDeviceConfig \<Rightarrow> (string \<times> Mib) list \<Rightarrow> Profile option \<Rightarrow> DeviceMetrics" where
  "NewDeviceMetrics conf profileMetrics profile =
     \<lparr>dv_conf = conf, dv_oids = fold (\<lambda>(oid, m). AList.update (dotted_oid oid) m) profileMetrics [], dv_missing = [], dv_profile = profile,
      dv_profileName = GetProfileName profile (sd_InstrumentationName conf), dv_Missing = 0, dv_Errors = 0, dv_Fail = SNMP_GOOD, dv_polled = 0\<rparr>"

definition GetNumberMibsFailed :: "DeviceMetrics \<Rightarrow> int" where
  "GetNumberMibsFailed dm = dv_Missing dm"

definition Device_GetNumberMibsTotal :: "DeviceMetrics \<Rightarrow> nat" where
  "Device_GetNumberMibsTotal dm = length (dv_oids dm)"

record deviceMetricRow =
  dr_Error :: string
  dr_Str :: tags
  dr_Big :: "(string \<times> i64) list"

record wrapper =
  w_variable :: SnmpPDU
  w_mib :: Mib
  w_oid :: string

record poll_args =
  da_now :: int
  da_ts :: i64
  da_walk :: "string \<Rightarrow> SnmpPDU list \<times> go_error option"
  da_text :: "go_error \<Rightarrow> string"
  da_uni :: "string \<Rightarrow> string"
  da_regexp :: regexp_engine
  da_keys :: "(string \<Rightarrow> string option) \<Rightarrow> string list"
  da_percent :: "i64 \<Rightarrow> i64 \<Rightarrow> i64"

definition new_row :: deviceMetricRow where
  "new_row = \<lparr>dr_Error = [], dr_Str = [], dr_Big = []\<rparr>"

definition assureDeviceMetrics :: "(string \<times> deviceMetricRow) list \<Rightarrow> string \<Rightarrow> (string \<times> deviceMetricRow) list" where
  "assureDeviceMetrics m index = (if map_of m index = None then AList.update index new_row m else m)"

definition sysUpTime :: string where "sysUpTime = ''1.3.6.1.2.1.1.3.0''"

record poll_state =
  ps_dm :: DeviceMetrics
  ps_results :: "wrapper list"
  ps_rows :: "(string \<times> deviceMetricRow) list"
  ps_missing :: int

definition walk_error :: "poll_args \<Rightarrow> string \<Rightarrow> go_error \<Rightarrow> deviceMetricRow" where
  "walk_error da oid e = new_row\<lparr>dr_Error := ''Walking '' @ oid @ '': '' @ da_text da e\<rparr>"

definition poll_oid :: "poll_args \<Rightarrow> string \<times> Mib \<Rightarrow> poll_state \<Rightarrow> poll_state" where
  "poll_oid da om st =
     (case om of (oid, mib) \<Rightarrow>
      case IsPollReady (da_now da) mib of (ready, mib) \<Rightarrow>
        let st = st\<lparr>ps_dm := (ps_dm st)\<lparr>dv_oids := AList.update oid mib (dv_oids (ps_dm st))\<rparr>\<rparr>;
            walkOid = (if mb_WalkTable mib then mb_TableOid mib else oid)
        in if \<not> ready then st
           else case da_walk da walkOid of
               (_, Some e) \<Rightarrow> st\<lparr>ps_rows := AList.update (''err-'' @ mb_Name mib) (walk_error da walkOid e) (ps_rows st),
                   ps_dm := (ps_dm st)\<lparr>dv_Errors := dv_Errors (ps_dm st) + 1\<rparr>\<rparr>
             | (rs, None) \<Rightarrow>
                 let st = (if rs = [] then st\<lparr>ps_missing := ps_missing st + 1, ps_dm := (ps_dm st)\<lparr>dv_missing := List.insert oid (dv_missing (ps_dm st))\<rparr>\<rparr> else st)
                 in st\<lparr>ps_results := ps_results st @
                      map (\<lambda>r. \<lparr>w_variable = r, w_mib = mib, w_oid = oid\<rparr>) (filter (\<lambda>r. mb_WalkTable mib \<longrightarrow> strings_HasPrefix (pdu_Name r) oid) rs)\<rparr>)"

section \<open>The values\<close>

fun MibCondition_Check :: "MibCondition \<Rightarrow> snmp_value \<Rightarrow> bool" where
  "MibCondition_Check mc (S_string s) \<longleftrightarrow> s = mc_TargetString mc"
| "MibCondition_Check mc S_nil \<longleftrightarrow> False"
| "MibCondition_Check mc (S_bytes _) \<longleftrightarrow> False"
| "MibCondition_Check mc v \<longleftrightarrow> ToInt64 v = mc_TargetValue mc"

text \<open>\<^verbatim>\<open>snmp_util.GetIndex(variable.Name[1:], oid)\<close>\<close>

definition w_index :: "wrapper \<Rightarrow> string res" where
  "w_index w = (case pdu_Name (w_variable w) of [] \<Rightarrow> Inl (Panic ''slice bounds out of range'') | _ # n \<Rightarrow> Inr (GetIndex n (w_oid w)))"

fun check_targets :: "MibCondition \<Rightarrow> string \<Rightarrow> wrapper list \<Rightarrow> bool res" where
  "check_targets mc idx [] = Inr True"
| "check_targets mc idx (wr # rs) =
     (case w_index wr of
        Inl e \<Rightarrow> Inl e
      | Inr idxw \<Rightarrow>
          if idxw = idx \<and> Mib_GetName (Some (w_mib wr)) = mc_TargetName mc then Inr (MibCondition_Check mc (pdu_Value (w_variable wr)))
          else check_targets mc idx rs)"

definition checkCondition :: "wrapper \<Rightarrow> string \<Rightarrow> wrapper list \<Rightarrow> bool res" where
  "checkCondition w idx results = (case mb_Condition (w_mib w) of None \<Rightarrow> Inr True | Some mc \<Rightarrow> check_targets mc idx results)"

text \<open>What a result adds to the row of its index and to the description of the metrics.\<close>

type_synonym row_state = "deviceMetricRow \<times> (string \<times> MetricInfo) list"

definition put_big :: "string \<Rightarrow> i64 \<Rightarrow> row_state \<Rightarrow> row_state" where
  "put_big k v s = (case s of (r, ms) \<Rightarrow> (r\<lparr>dr_Big := AList.update k v (dr_Big r)\<rparr>, ms))"

definition put_ks :: "string \<Rightarrow> string \<Rightarrow> row_state \<Rightarrow> row_state" where
  "put_ks k v s = (case s of (r, ms) \<Rightarrow> (r\<lparr>dr_Str := AList.update (StringPrefix @ k) v (dr_Str r)\<rparr>, ms))"

definition put_info :: "string \<Rightarrow> MetricInfo \<Rightarrow> row_state \<Rightarrow> row_state" where
  "put_info k i s = (case s of (r, ms) \<Rightarrow> (r, AList.update k i ms))"

definition metric_info :: "DeviceMetrics \<Rightarrow> Mib \<Rightarrow> MetricInfo" where
  "metric_info dm mib = \<lparr>mi_Oid = mb_Oid mib, mi_Mib = mb_Mib mib, mi_Name = [], mi_Profile = dv_profileName dm, mi_Table = mb_Table mib,
     mi_Format = [], mi_Type = [], mi_PollDur = word_of_int (mb_PollDur mib), mi_Tables = []\<rparr>"

definition group_value :: "MetricInfo \<Rightarrow> string \<times> string \<Rightarrow> row_state \<Rightarrow> row_state" where
  "group_value info kv s =
     (case kv of (k, v) \<Rightarrow> put_ks k v (put_big k (case strconv_Atoi v of Some n \<Rightarrow> word_of_int n | None \<Rightarrow> 0) (put_info k info s)))"

definition text_value :: "poll_args \<Rightarrow> Mib \<Rightarrow> string \<Rightarrow> string \<Rightarrow> row_state \<Rightarrow> row_state" where
  "text_value da mib nm value s =
     (case mb_Enum mib of
        Some en \<Rightarrow> put_big nm (case map_of en (strings_ToLower (da_uni da) value) of Some v \<Rightarrow> v | None \<Rightarrow> 0) (put_ks nm value s)
      | None \<Rightarrow>
          (case strconv_Atoi value of
             Some n \<Rightarrow> put_big nm (word_of_int n) s
           | None \<Rightarrow> put_big nm 0 (put_ks nm value s)))"

definition octet_value :: "poll_args \<Rightarrow> DeviceMetrics \<Rightarrow> wrapper \<Rightarrow> string \<Rightarrow> bytes \<Rightarrow> row_state \<Rightarrow> row_state" where
  "octet_value da dm w nm bs s =
     (let mib = w_mib w in
      if mb_Conversion mib = [] then text_value da mib nm (bytes_string bs) s
      else case GetFromConv (da_regexp da) (w_variable w) (mb_Conversion mib) of (ival, sval, mval) \<Rightarrow>
        if sint ival > 0 then put_ks nm sval (put_big nm ival s)
        else case mval of
            None \<Rightarrow> text_value da mib nm sval s
          | Some m \<Rightarrow>
              if da_keys da m = [] then text_value da mib nm sval s
              else fold (group_value (metric_info dm mib)) (map (\<lambda>k. (k, case m k of Some v \<Rightarrow> v | None \<Rightarrow> [])) (da_keys da m)) s)"

definition number_value :: "Mib \<Rightarrow> string \<Rightarrow> snmp_value \<Rightarrow> row_state \<Rightarrow> row_state" where
  "number_value mib nm v s =
     put_big nm (ToInt64 v) (case mb_EnumRev mib of
        None \<Rightarrow> s
      | Some en \<Rightarrow> put_ks nm (case map_of en (sint (ToInt64 v)) of Some t \<Rightarrow> t | None \<Rightarrow> ''invalid enum'') s)"

definition is_octets :: "wrapper \<Rightarrow> bool" where
  "is_octets w \<longleftrightarrow> pdu_Type (w_variable w) \<in> {OctetString, BitString}"

type_synonym rows_state = "(string \<times> deviceMetricRow) list \<times> (string \<times> MetricInfo) list"

text \<open>Runs a change of one row.\<close>

definition at_row :: "string \<Rightarrow> (row_state \<Rightarrow> row_state) \<Rightarrow> rows_state \<Rightarrow> rows_state" where
  "at_row idx f s =
     (case s of (rows, ms) \<Rightarrow>
        let rows = assureDeviceMetrics rows idx in
        (case f (the (map_of rows idx), ms) of (r, ms) \<Rightarrow> (AList.update idx r rows, ms)))"

definition take_result :: "poll_args \<Rightarrow> DeviceMetrics \<Rightarrow> wrapper list \<Rightarrow> wrapper \<Rightarrow> rows_state \<Rightarrow> rows_state res" where
  "take_result da dm results w s =
     (if pdu_Value (w_variable w) = S_nil then Inr s
      else case w_index w of
          Inl e \<Rightarrow> Inl e
        | Inr idx \<Rightarrow>
            (case checkCondition w idx results of
               Inl e \<Rightarrow> Inl e
             | Inr False \<Rightarrow> Inr s
             | Inr True \<Rightarrow>
                 let nm = Mib_GetName (Some (w_mib w)); info = put_info nm (metric_info dm (w_mib w)) in
                 if is_octets w then
                   (case pdu_Value (w_variable w) of
                      S_bytes bs \<Rightarrow> Inr (at_row idx (octet_value da dm w nm bs \<circ> info) s)
                    | _ \<Rightarrow> Inl (Panic ''interface conversion''))
                 else Inr (at_row idx (number_value (w_mib w) nm (pdu_Value (w_variable w)) \<circ> info) s)))"

definition run_script :: "wrapper list \<Rightarrow> wrapper \<Rightarrow> rows_state \<Rightarrow> rows_state res" where
  "run_script results w s =
     (if pdu_Value (w_variable w) = S_nil then Inr s
      else case w_index w of
          Inl e \<Rightarrow> Inl e
        | Inr idx \<Rightarrow>
            (case checkCondition w idx results of
               Inl e \<Rightarrow> Inl e
             | Inr False \<Rightarrow> Inr s
             | Inr True \<Rightarrow>
                 (case mb_Script (w_mib w) of
                    None \<Rightarrow> Inr s
                  | Some sc \<Rightarrow>
                      Inr (at_row idx (\<lambda>(r, ms). case sc idx (Mib_GetName (Some (w_mib w))) (dr_Big r, dr_Str r, ms) of
                        (big, str, ms) \<Rightarrow> (r\<lparr>dr_Big := big, dr_Str := str\<rparr>, ms)) s))))"

fun each_result :: "(wrapper \<Rightarrow> rows_state \<Rightarrow> rows_state res) \<Rightarrow> wrapper list \<Rightarrow> rows_state \<Rightarrow> rows_state res" where
  "each_result f [] s = Inr s"
| "each_result f (w # ws) s = (case f w s of Inl e \<Rightarrow> Inl e | Inr s \<Rightarrow> each_result f ws s)"

section \<open>The flows\<close>

definition DefaultProfileMessage :: string where
  "DefaultProfileMessage = ''Missing matched profile. See overview page for details.''"

definition zero_info :: MetricInfo where
  "zero_info = \<lparr>mi_Oid = [], mi_Mib = [], mi_Name = [], mi_Profile = [], mi_Table = [], mi_Format = [], mi_Type = [], mi_PollDur = 0, mi_Tables = []\<rparr>"

definition info_of :: "(string \<times> MetricInfo) list \<Rightarrow> string \<Rightarrow> MetricInfo" where
  "info_of ms k = (case map_of ms k of Some i \<Rightarrow> i | None \<Rightarrow> zero_info)"

text \<open>A flow of the device with its custom columns.\<close>

definition device_flow :: "SnmpDeviceConfig \<Rightarrow> i64 \<Rightarrow> tags \<Rightarrow> (string \<times> i64) list \<Rightarrow> JCHF" where
  "device_flow conf ts strs bigs =
     NewJCHF\<lparr>j_CustomStr := Some (map_of (if sd_Provider conf = ''kentik-default'' then AList.update ''profile_message'' DefaultProfileMessage strs else strs)),
       j_CustomInt := Some Map.empty, j_CustomBigInt := Some (map_of bigs), j_EventType := ''KSnmpDeviceMetric'', j_Provider := sd_Provider conf,
       j_DeviceName := sd_DeviceName conf, j_SrcAddr := sd_DeviceIP conf, j_Timestamp := ts\<rparr>"

text \<open>The description of a computed metric is copied from another one; that of \<^verbatim>\<open>CPU\<close> from itself.\<close>

definition add_cpu :: "(string \<times> i64) list \<times> (string \<times> MetricInfo) list \<Rightarrow> (string \<times> i64) list \<times> (string \<times> MetricInfo) list" where
  "add_cpu s =
     (case s of (bigs, ms) \<Rightarrow>
        (case map_of bigs ''CPUIdle'' of
           Some cpui \<Rightarrow> if sint cpui \<le> 100 then (AList.update ''CPU'' (100 - cpui) bigs, AList.update ''CPU'' (info_of ms ''CPU'') ms) else (bigs, ms)
         | None \<Rightarrow> (bigs, ms)))"

definition put_memory :: "poll_args \<Rightarrow> string \<Rightarrow> i64 \<Rightarrow> i64 \<Rightarrow> (string \<times> i64) list \<times> (string \<times> MetricInfo) list \<Rightarrow> (string \<times> i64) list \<times> (string \<times> MetricInfo) list" where
  "put_memory da src used tot s =
     (case s of (bigs, ms) \<Rightarrow>
        if sint tot > 0 then (AList.update ''MemoryUtilization'' (da_percent da used tot) bigs, AList.update ''MemoryUtilization'' (info_of ms src) ms)
        else (bigs, ms))"

definition add_memory :: "poll_args \<Rightarrow> (string \<times> i64) list \<times> (string \<times> MetricInfo) list \<Rightarrow> (string \<times> i64) list \<times> (string \<times> MetricInfo) list" where
  "add_memory da s =
     (let m = map_of (fst s) in
      if m ''MemoryUtilization'' \<noteq> None then s
      else case (m ''MemoryUsed'', m ''MemoryFree'', m ''MemoryTotal'', m ''MemoryBuffer'', m ''MemoryCache'') of
          (Some used, Some free, _) \<Rightarrow> put_memory da ''MemoryFree'' used (free + used) s
        | (_, Some free, Some tot, _) \<Rightarrow> put_memory da ''MemoryFree'' (tot - free) tot s
        | (Some used, _, Some tot, _) \<Rightarrow> put_memory da ''MemoryTotal'' used tot s
        | (_, _, Some tot, Some buffer, Some cache) \<Rightarrow> put_memory da ''MemoryTotal'' (tot - (buffer + cache)) tot s
        | _ \<Rightarrow> s)"

definition row_flow :: "poll_args \<Rightarrow> SnmpDeviceConfig \<Rightarrow> string \<times> deviceMetricRow \<Rightarrow> (string \<times> MetricInfo) list \<Rightarrow> JCHF \<times> (string \<times> MetricInfo) list" where
  "row_flow da conf ir ms =
     (case ir of (idx, r) \<Rightarrow>
        case add_memory da (add_cpu (dr_Big r, ms)) of (bigs, ms) \<Rightarrow>
          (device_flow conf (da_ts da) (AList.update ''Index'' (no_dot idx) (AList.update ''Error'' (dr_Error r) (dr_Str r))) bigs, ms))"

text \<open>The flows of the rows; all of them share one description of the metrics, which is the last one.\<close>

fun row_flows :: "poll_args \<Rightarrow> SnmpDeviceConfig \<Rightarrow> (string \<times> deviceMetricRow) list \<Rightarrow> (string \<times> MetricInfo) list \<Rightarrow> JCHF list \<times> (string \<times> MetricInfo) list" where
  "row_flows da conf [] ms = ([], ms)"
| "row_flows da conf (r # rs) ms =
     (case row_flow da conf r ms of (fl, ms) \<Rightarrow> case row_flows da conf rs ms of (fls, ms) \<Rightarrow> (fl # fls, ms))"

definition poll_device_uptime :: "poll_args \<Rightarrow> (string \<times> deviceMetricRow) list \<Rightarrow> i64 \<times> (string \<times> deviceMetricRow) list" where
  "poll_device_uptime da rows =
     (case da_walk da sysUpTime of
        (_, Some e) \<Rightarrow> (0, AList.update ''uptime'' (walk_error da sysUpTime e) rows)
      | (r # _, None) \<Rightarrow> (ToInt64 (pdu_Value r), rows)
      | ([], None) \<Rightarrow> (0, rows))"

definition pollFromConfig :: "poll_args \<Rightarrow> DeviceMetrics \<Rightarrow> (JCHF list \<times> (string \<times> MetricInfo) list \<times> DeviceMetrics) res" where
  "pollFromConfig da dm =
     (let st = fold (poll_oid da) (dv_oids dm) \<lparr>ps_dm = dm, ps_results = [], ps_rows = [], ps_missing = 0\<rparr>;
          dm = (ps_dm st)\<lparr>dv_Missing := ps_missing st\<rparr>
      in case poll_device_uptime da (ps_rows st) of (uptime, rows) \<Rightarrow>
         case GetMibAndOid (dv_profile dm) of ((mib, _), profile) \<Rightarrow>
         let dm = dm\<lparr>dv_profile := profile\<rparr>;
             ms = [(''Uptime'', zero_info\<lparr>mi_Oid := sysUpTime, mi_Mib := mib, mi_Profile := dv_profileName dm\<rparr>)]
         in case each_result (take_result da dm (ps_results st)) (ps_results st) (rows, ms) of
             Inl e \<Rightarrow> Inl e
           | Inr s \<Rightarrow>
               map_sum id (\<lambda>(rows, ms).
                 case row_flows da (dv_conf dm) rows ms of (fls, ms) \<Rightarrow>
                   let fls = fls @ [device_flow (dv_conf dm) (da_ts da) [] [(''Uptime'', uptime)]]
                   in (fls, ms, dm\<lparr>dv_polled := dv_polled dm + length fls\<rparr>))
                 (each_result (run_script (ps_results st)) (ps_results st) s))"

section \<open>Status and ping\<close>

definition GetStatusFlows :: "i64 \<Rightarrow> DeviceMetrics \<Rightarrow> (JCHF \<times> (string \<times> MetricInfo) list) \<times> DeviceMetrics" where
  "GetStatusFlows ts dm =
     (case GetMibAndOid (dv_profile dm) of ((mib, oid), profile) \<Rightarrow>
        let info = zero_info\<lparr>mi_Oid := oid, mi_Mib := mib, mi_Profile := dv_profileName dm\<rparr>;
            health = dv_Fail dm;
            reason = (case map_of SNMP_STATUS_MAP health of Some r \<Rightarrow> r | None \<Rightarrow> []);
            strs = Config_SetUserTags (dv_conf dm) [];
            fl = device_flow (dv_conf dm) ts strs [(''PollingHealth'', word_of_int health), (''PollingStatus'', if health = SNMP_GOOD then 1 else 0)];
            fl = fl\<lparr>j_CustomStr := map_option (\<lambda>m. case strings_Split reason '': '' of
                [a, b] \<Rightarrow> m(StringPrefix @ ''PollingHealth'' \<mapsto> a, StringPrefix @ ''PollingHealthReason'' \<mapsto> b)
              | _ \<Rightarrow> m(StringPrefix @ ''PollingHealth'' \<mapsto> reason)) (j_CustomStr fl)\<rparr>
        in ((fl, [(''PollingHealth'', info), (''PollingStatus'', info)]), dm\<lparr>dv_profile := profile\<rparr>))"

record ping_stats =
  pg_MinRtt :: i64
  pg_MaxRtt :: i64
  pg_AvgRtt :: i64
  pg_StdDevRtt :: i64
  pg_PacketsSent :: int
  pg_PacketsRecv :: int

text \<open>The pinger's answer: the times in microseconds, an error, or an error that says the program ends.\<close>

datatype ping_answer = Pinged ping_stats | Ping_error go_error | Ping_closed

text \<open>The share of lost packets as the program computes it: a thousandth of a percent as a whole number, near a hundred, and exactly a hundred.\<close>

record loss_args =
  la_milli :: "int \<Rightarrow> int \<Rightarrow> i64"
  la_near :: "int \<Rightarrow> int \<Rightarrow> bool"
  la_full :: "int \<Rightarrow> int \<Rightarrow> bool"

definition ping_info :: "string \<Rightarrow> string \<Rightarrow> string \<Rightarrow> MetricInfo" where
  "ping_info oid mib fmt = zero_info\<lparr>mi_Oid := oid, mi_Mib := mib, mi_Format := fmt, mi_Profile := ''ping'', mi_Type := ''ping''\<rparr>"

definition GetPingStats :: "loss_args \<Rightarrow> i64 \<Rightarrow> ping_answer option \<Rightarrow> DeviceMetrics \<Rightarrow>
    ((JCHF \<times> (string \<times> MetricInfo) list) option \<times> bool) res \<times> DeviceMetrics" where
  "GetPingStats la ts pinger dm =
     (case pinger of
        None \<Rightarrow> (Inr (None, False), dm)
      | Some answer \<Rightarrow>
          case GetMibAndOid (dv_profile dm) of ((mib, oid), profile) \<Rightarrow>
          let dm = dm\<lparr>dv_profile := profile\<rparr> in
          (case answer of
             Ping_closed \<Rightarrow> (Inr (None, False), dm)
           | Ping_error e \<Rightarrow> (Inl e, dm)
           | Pinged st \<Rightarrow>
               let sent = pg_PacketsSent st; recv = pg_PacketsRecv st;
                   conf = (dv_conf dm);
                   rtt = (\<lambda>v. if la_near la sent recv then 0 else v);
                   fl = (device_flow (conf\<lparr>sd_Provider := []\<rparr>) ts (Config_SetUserTags conf []) [(''MinRttMs'', rtt (pg_MinRtt st)), (''MaxRttMs'', rtt (pg_MaxRtt st)),
                     (''AvgRttMs'', rtt (pg_AvgRtt st)), (''StdDevRtt'', rtt (pg_StdDevRtt st)), (''PacketsSent'', word_of_int sent),
                     (''PacketsRecv'', word_of_int recv), (''PacketLossPct'', la_milli la sent recv)])\<lparr>j_Provider := sd_Provider conf\<rparr>;
                   ms = map (\<lambda>k. (k, ping_info oid mib ''float_ms'')) [''MinRttMs'', ''MaxRttMs'', ''AvgRttMs'', ''StdDevRtt''] @
                     [(''PacketsSent'', ping_info oid mib []), (''PacketsRecv'', ping_info oid mib []), (''PacketLossPct'', ping_info oid mib ''float_ms'')]
               in if sent > 0 \<and> recv \<le> sent then (Inr (Some (fl, ms), la_full la sent recv), dm) else (Inr (None, False), dm)))"

section \<open>Every number reaches its flow\<close>

definition holds :: "string \<Rightarrow> string \<Rightarrow> i64 \<Rightarrow> rows_state \<Rightarrow> bool" where
  "holds idx nm v s \<longleftrightarrow> (\<exists>r. map_of (fst s) idx = Some r \<and> map_of (dr_Big r) nm = Some v) \<and> nm \<in> dom (map_of (snd s))"

text \<open>A change of a row that leaves a number alone and forgets no description.\<close>

definition leaves :: "string \<Rightarrow> (row_state \<Rightarrow> row_state) \<Rightarrow> bool" where
  "leaves nm f \<longleftrightarrow> (\<forall>r ms. map_of (dr_Big (fst (f (r, ms)))) nm = map_of (dr_Big r) nm \<and> dom (map_of ms) \<subseteq> dom (map_of (snd (f (r, ms)))))"

definition keeps_infos :: "(row_state \<Rightarrow> row_state) \<Rightarrow> bool" where
  "keeps_infos f \<longleftrightarrow> (\<forall>r ms. dom (map_of ms) \<subseteq> dom (map_of (snd (f (r, ms)))))"

lemmas put_defs = put_big_def put_ks_def put_info_def

definition row_at :: "(string \<times> deviceMetricRow) list \<Rightarrow> string \<Rightarrow> deviceMetricRow" where
  "row_at rows i = (case map_of rows i of Some r \<Rightarrow> r | None \<Rightarrow> new_row)"

lemma at_row_eq: "map_of (fst (at_row i f s)) = (map_of (fst s))(i \<mapsto> fst (f (row_at (fst s) i, snd s)))"
  "snd (at_row i f s) = snd (f (row_at (fst s) i, snd s))"
  by (cases s; auto simp: at_row_def row_at_def assureDeviceMetrics_def Let_def update_conv' split: prod.splits option.splits)+

lemma at_row_other:
  assumes "leaves nm f" "holds idx nm v s"
  shows "holds idx nm v (at_row i f s)"
proof -
  obtain r where r: "map_of (fst s) idx = Some r" "map_of (dr_Big r) nm = Some v" "nm \<in> dom (map_of (snd s))" using assms(2) by (auto simp: holds_def)
  have "map_of (dr_Big (fst (f (r, snd s)))) nm = Some v" using assms(1) r(2) by (simp add: leaves_def)
  moreover have "nm \<in> dom (map_of (snd (f (q, snd s))))" for q using assms(1) r(3) unfolding leaves_def by blast
  ultimately show ?thesis using r unfolding holds_def at_row_eq by (cases "i = idx") (auto simp: row_at_def)
qed

lemma at_row_index:
  assumes "i \<noteq> idx" "keeps_infos f" "holds idx nm v s"
  shows "holds idx nm v (at_row i f s)"
proof -
  have "nm \<in> dom (map_of (snd (f (q, snd s))))" for q using assms(2,3) unfolding holds_def keeps_infos_def by blast
  then show ?thesis using assms(1,3) unfolding holds_def at_row_eq by simp
qed

lemma text_value_leaves: "k \<noteq> nm \<Longrightarrow> leaves nm (text_value da mib k t \<circ> put_info k i)"
  by (auto simp: leaves_def text_value_def put_defs update_conv' split: option.splits prod.splits)

lemma number_value_leaves: "k \<noteq> nm \<Longrightarrow> leaves nm (number_value mib k t \<circ> put_info k i)"
  by (auto simp: leaves_def number_value_def put_defs update_conv' split: option.splits prod.splits)

lemma value_infos: "keeps_infos (text_value da mib k t \<circ> put_info k i)" "keeps_infos (number_value mib k t' \<circ> put_info k i)"
  by (auto simp: keeps_infos_def text_value_def number_value_def put_defs update_conv' split: option.splits prod.splits)

lemma number_value_sets: "holds idx nm (ToInt64 t) (at_row idx (number_value mib nm t \<circ> put_info nm i) s)"
  unfolding holds_def at_row_eq by (auto simp: number_value_def put_defs update_conv' split: option.splits)

text \<open>Answers of a walk: every name starts with a dot, and octets come as bytes.\<close>

definition answer_ok :: "wrapper \<Rightarrow> bool" where
  "answer_ok w \<longleftrightarrow> pdu_Name (w_variable w) \<noteq> [] \<and> (is_octets w \<longrightarrow> (\<exists>bs. pdu_Value (w_variable w) = S_bytes bs) \<or> pdu_Value (w_variable w) = S_nil)"

lemma check_targets_returns: "\<forall>w \<in> set ws. answer_ok w \<Longrightarrow> \<exists>b. check_targets mc idx ws = Inr b"
  by (induction ws) (auto simp: w_index_def answer_ok_def split: list.splits)

lemma checkCondition_returns: "\<forall>w \<in> set ws. answer_ok w \<Longrightarrow> \<exists>b. checkCondition w idx ws = Inr b"
  using check_targets_returns by (auto simp: checkCondition_def split: option.splits)

text \<open>A result without a conversion: what it does.\<close>

definition plain_change :: "poll_args \<Rightarrow> DeviceMetrics \<Rightarrow> wrapper \<Rightarrow> row_state \<Rightarrow> row_state" where
  "plain_change da dm w =
     (let nm = Mib_GetName (Some (w_mib w)) in
      (case pdu_Value (w_variable w) of
         S_bytes bs \<Rightarrow> (if is_octets w then text_value da (w_mib w) nm (bytes_string bs) else number_value (w_mib w) nm (S_bytes bs))
       | v \<Rightarrow> number_value (w_mib w) nm v) \<circ> put_info nm (metric_info dm (w_mib w)))"

lemma take_result_plain:
  assumes "\<forall>w \<in> set ws. answer_ok w" "w \<in> set ws" "mb_Conversion (w_mib w) = []" "w_index w = Inr idx"
  shows "take_result da dm ws w s = Inr s \<or> take_result da dm ws w s = Inr (at_row idx (plain_change da dm w) s)"
proof (cases "pdu_Value (w_variable w) = S_nil")
  case True
  then show ?thesis by (simp add: take_result_def)
next
  case False
  obtain b where b: "checkCondition w idx ws = Inr b" using checkCondition_returns [OF assms(1)] by blast
  have "answer_ok w" using assms(1,2) by blast
  with False assms b show ?thesis
    by (cases b; cases "is_octets w"; cases "pdu_Value (w_variable w)")
       (auto simp: take_result_def answer_ok_def Let_def plain_change_def octet_value_def o_def)
qed

lemma plain_change_leaves: "Mib_GetName (Some (w_mib w)) \<noteq> nm \<Longrightarrow> leaves nm (plain_change da dm w)"
  unfolding plain_change_def Let_def by (cases "pdu_Value (w_variable w)") (simp_all add: text_value_leaves number_value_leaves)

lemma plain_change_infos: "keeps_infos (plain_change da dm w)"
  unfolding plain_change_def Let_def by (cases "pdu_Value (w_variable w)") (simp_all add: value_infos)

lemma w_index_returns: "answer_ok w \<Longrightarrow> \<exists>idx. w_index w = Inr idx"
  by (auto simp: answer_ok_def w_index_def split: list.splits)

lemma each_result_returns:
  assumes "\<And>w s. w \<in> set ws \<Longrightarrow> \<exists>s'. f w s = Inr s'"
  shows "\<exists>s'. each_result f ws s = Inr s'"
  using assms
proof (induction ws arbitrary: s)
  case (Cons w ws)
  then obtain s1 where "f w s = Inr s1" by fastforce
  with Cons.IH [of s1] Cons.prems show ?case by auto
qed simp

lemma each_result_keeps:
  assumes "\<And>w s s'. w \<in> set ws \<Longrightarrow> f w s = Inr s' \<Longrightarrow> P s \<Longrightarrow> P s'" "each_result f ws s = Inr s'" "P s"
  shows "P s'"
  using assms
proof (induction ws arbitrary: s)
  case (Cons w ws)
  then obtain s1 where "f w s = Inr s1" "each_result f ws s1 = Inr s'" by (auto split: sum.splits)
  with Cons show ?case by (metis list.set_intros)
qed simp

lemma each_result_append:
  "each_result f (xs @ ys) s = (case each_result f xs s of Inl e \<Rightarrow> Inl e | Inr s \<Rightarrow> each_result f ys s)"
  by (induction xs arbitrary: s) (auto split: sum.splits)

definition computed :: "string set" where
  "computed = {''CPU'', ''MemoryUtilization''}"

text \<open>A step of the computed metrics: it changes only them and forgets no description.\<close>

definition computes :: "(string \<times> i64) list \<times> (string \<times> MetricInfo) list \<Rightarrow> (string \<times> i64) list \<times> (string \<times> MetricInfo) list \<Rightarrow> bool" where
  "computes s s' \<longleftrightarrow> (\<forall>nm. nm \<notin> computed \<longrightarrow> map_of (fst s') nm = map_of (fst s) nm) \<and> dom (map_of (snd s)) \<subseteq> dom (map_of (snd s'))"

lemma computes_refl: "computes s s"
  by (simp add: computes_def)

lemma add_cpu_computes: "computes s (add_cpu s)"
  by (cases s) (auto simp: add_cpu_def computes_def computed_def update_conv' split: option.splits)

lemma put_memory_computes: "computes s (put_memory da src used tot s)"
  by (cases s) (auto simp: put_memory_def computes_def computed_def update_conv')

lemma add_memory_computes: "computes s (add_memory da s)"
  unfolding add_memory_def Let_def by (auto simp: computes_refl put_memory_computes split: option.splits)

lemma computes_trans: "computes a b \<Longrightarrow> computes b c \<Longrightarrow> computes a c"
  unfolding computes_def by (elim conjE, intro conjI) (simp, rule subset_trans)

lemma row_flow_keeps:
  assumes "row_flow da conf (idx, r) ms = (fl, ms')"
  shows "gm_lookup (j_CustomStr fl) ''Index'' = Some (no_dot idx)" "j_DeviceName fl = sd_DeviceName conf"
    "nm \<notin> computed \<Longrightarrow> gm_lookup (j_CustomBigInt fl) nm = map_of (dr_Big r) nm" "dom (map_of ms) \<subseteq> dom (map_of ms')"
proof -
  obtain bigs ms1 where run: "add_memory da (add_cpu (dr_Big r, ms)) = (bigs, ms1)" by (cases "add_memory da (add_cpu (dr_Big r, ms))")
  have c: "computes (dr_Big r, ms) (bigs, ms1)"
    using computes_trans [OF add_cpu_computes add_memory_computes] run by metis
  have fl: "fl = device_flow conf (da_ts da) (AList.update ''Index'' (no_dot idx) (AList.update ''Error'' (dr_Error r) (dr_Str r))) bigs" "ms' = ms1"
    using assms run by (simp_all add: row_flow_def)
  show "gm_lookup (j_CustomStr fl) ''Index'' = Some (no_dot idx)" "j_DeviceName fl = sd_DeviceName conf"
    by (simp_all add: fl device_flow_def gm_lookup_def update_conv')
  show "nm \<notin> computed \<Longrightarrow> gm_lookup (j_CustomBigInt fl) nm = map_of (dr_Big r) nm" "dom (map_of ms) \<subseteq> dom (map_of ms')"
    using c by (simp_all add: fl device_flow_def gm_lookup_def computes_def)
qed

lemma row_flows_keep:
  "row_flows da conf rows ms = (fls, ms') \<Longrightarrow> dom (map_of ms) \<subseteq> dom (map_of ms') \<and> length fls = length rows \<and>
    (\<forall>(idx, r) \<in> set rows. \<exists>fl \<in> set fls. gm_lookup (j_CustomStr fl) ''Index'' = Some (no_dot idx) \<and> j_DeviceName fl = sd_DeviceName conf \<and>
      (\<forall>nm. nm \<notin> computed \<longrightarrow> gm_lookup (j_CustomBigInt fl) nm = map_of (dr_Big r) nm))"
proof (induction rows arbitrary: ms fls ms')
  case (Cons ir rows)
  obtain idx r where ir: "ir = (idx, r)" by (cases ir)
  obtain fl ms1 where 1: "row_flow da conf ir ms = (fl, ms1)" by (cases "row_flow da conf ir ms")
  obtain fls2 ms2 where 2: "row_flows da conf rows ms1 = (fls2, ms2)" by (cases "row_flows da conf rows ms1")
  have res: "fls = fl # fls2" "ms' = ms2" using Cons.prems 1 2 by simp_all
  note keeps = row_flow_keeps [OF 1 [unfolded ir]] and rest = Cons.IH [OF 2]
  show ?case
  proof (intro conjI)
    show "dom (map_of ms) \<subseteq> dom (map_of ms')" using keeps(4) rest res by blast
    show "length fls = length (ir # rows)" using rest res by simp
    show "\<forall>(idx, r) \<in> set (ir # rows). \<exists>fl \<in> set fls. gm_lookup (j_CustomStr fl) ''Index'' = Some (no_dot idx) \<and> j_DeviceName fl = sd_DeviceName conf \<and>
      (\<forall>nm. nm \<notin> computed \<longrightarrow> gm_lookup (j_CustomBigInt fl) nm = map_of (dr_Big r) nm)"
      using keeps(1,2,3) rest unfolding res ir by fastforce
  qed
qed simp

definition poll_results :: "poll_args \<Rightarrow> DeviceMetrics \<Rightarrow> wrapper list" where
  "poll_results da dm = ps_results (fold (poll_oid da) (dv_oids dm) \<lparr>ps_dm = dm, ps_results = [], ps_rows = [], ps_missing = 0\<rparr>)"

lemma poll_oid_conf: "dv_conf (ps_dm (poll_oid da om st)) = dv_conf (ps_dm st)"
  by (auto simp: poll_oid_def Let_def split: prod.splits option.splits)

lemma poll_oids_conf: "dv_conf (ps_dm (fold (poll_oid da) oms st)) = dv_conf (ps_dm st)"
  by (induction oms arbitrary: st) (simp_all add: poll_oid_conf)

text \<open>A number that no other result of its index and name contradicts.\<close>

definition sole :: "wrapper list \<Rightarrow> wrapper \<Rightarrow> bool" where
  "sole ws w \<longleftrightarrow> (\<forall>w' \<in> set ws. w_index w' = w_index w \<and> Mib_GetName (Some (w_mib w')) = Mib_GetName (Some (w_mib w)) \<longrightarrow> w' = w)"

lemma results_hold:
  assumes "\<forall>w \<in> set ws. answer_ok w \<and> mb_Conversion (w_mib w) = []" "w \<in> set ws" "sole ws w" "w_index w = Inr idx"
    and "\<not> is_octets w" "pdu_Value (w_variable w) \<noteq> S_nil" "checkCondition w idx ws = Inr True"
    and run: "each_result (take_result da dm ws) ws s = Inr s'"
  shows "holds idx (Mib_GetName (Some (w_mib w))) (ToInt64 (pdu_Value (w_variable w))) s'"
proof -
  let ?nm = "Mib_GetName (Some (w_mib w))" and ?v = "ToInt64 (pdu_Value (w_variable w))" and ?f = "take_result da dm ws"
  have sets: "holds idx ?nm ?v s2" if "?f w s1 = Inr s2" for s1 s2
    using that assms(4,5,6,7) by (auto simp: take_result_def Let_def intro: number_value_sets)
  have keeps: "holds idx ?nm ?v s2" if w': "w' \<in> set ws" "?f w' s1 = Inr s2" "holds idx ?nm ?v s1" for w' s1 s2
  proof (cases "w' = w")
    case True
    then show ?thesis using sets w'(2) by blast
  next
    case False
    have ok: "\<forall>w \<in> set ws. answer_ok w" "mb_Conversion (w_mib w') = []" using assms(1) w'(1) by auto
    obtain i where i: "w_index w' = Inr i" using w_index_returns ok(1) w'(1) by blast
    have "i \<noteq> idx \<or> Mib_GetName (Some (w_mib w')) \<noteq> ?nm" using assms(3,4) w'(1) False i unfolding sole_def by metis
    then have "holds idx ?nm ?v (at_row i (plain_change da dm w') s1)"
      by (elim disjE) (simp_all add: at_row_index plain_change_infos at_row_other plain_change_leaves w'(3))
    then show ?thesis using take_result_plain [OF ok(1) w'(1) ok(2) i, of da dm s1] w'(2,3) by auto
  qed
  obtain xs ys where ws: "ws = xs @ w # ys" using assms(2) by (meson split_list)
  obtain s1 where s1: "each_result ?f (w # ys) s1 = Inr s'" using run ws each_result_append [of ?f xs "w # ys" s] by (auto split: sum.splits)
  then obtain s2 where s2: "?f w s1 = Inr s2" "each_result ?f ys s2 = Inr s'" by (auto split: sum.splits)
  have ys: "set ys \<subseteq> set ws" using ws by auto
  show ?thesis
  proof (rule each_result_keeps [where P = "holds idx ?nm ?v", OF _ s2(2) sets [OF s2(1)]])
    fix w' t t'
    assume "w' \<in> set ys" "?f w' t = Inr t'" "holds idx ?nm ?v t"
    then show "holds idx ?nm ?v t'" using keeps ys by blast
  qed
qed


section \<open>Tags of providers\<close>

definition prefixed :: "tags option \<Rightarrow> bool" where
  "prefixed t \<longleftrightarrow> (\<forall>k \<in> fst ` set (tags_of t). strings_HasPrefix k ProviderPrefix)"

lemma provider_key_prefix: "strings_HasPrefix (provider_key prov k) ProviderPrefix"
  by (simp add: provider_key_def strings_HasPrefix_def)

lemma provider_key_inj: "provider_key prov k = provider_key prov k' \<longleftrightarrow> k = k'"
  by (simp add: provider_key_def)

lemma update_keys: "fst ` set (AList.update k v m) = insert k (fst ` set m)"
  by (simp add: dom_update)

lemma delete_key_set: "fst ` set (AList.delete k m) = fst ` set m - {k}"
  by (induction m) auto

lemma move_tags_keys:
  "fst ` set (fold (move_tag prov) kvs m) \<subseteq>
    {k. strings_HasPrefix k ProviderPrefix} \<union> (fst ` set m - fst ` set kvs)"
proof (induction kvs arbitrary: m)
  case (Cons kv kvs)
  have "fst ` set (move_tag prov kv m) \<subseteq> {k. strings_HasPrefix k ProviderPrefix} \<union> (fst ` set m - {fst kv})"
    by (auto simp: move_tag_def update_keys provider_key_prefix delete_key_set)
  with Cons.IH [of "move_tag prov kv m"] show ?case unfolding list.set(2) image_insert fold_Cons o_apply by blast
qed auto

lemma prefix_tags_prefixed: "prefixed (prefix_tags prov t)"
  using move_tags_keys by (cases t) (fastforce simp: prefixed_def prefix_tags_def tags_of_def)+

lemma prefixed_update: "prefixed (Some m) \<Longrightarrow> prefixed (Some (AList.update (provider_key prov k) v m))"
  unfolding prefixed_def tags_of_def option.case update_keys using provider_key_prefix by blast

lemma copy_tags_prefixed: "prefixed g \<Longrightarrow> prefixed (copy_tags prov p g)"
proof (cases p)
  case (Some kvs)
  assume g: "prefixed g"
  let ?f = "\<lambda>(k, v) m. if strings_HasPrefix k ProviderPrefix then m else AList.update (provider_key prov k) v m"
  have "prefixed (Some (fold ?f kvs m))" if "prefixed (Some m)" for m
    using that
  proof (induction kvs arbitrary: m)
    case (Cons kv kvs)
    have "prefixed (Some (?f kv m))" using Cons.prems prefixed_update by (cases kv) simp
    from Cons.IH [OF this] show ?case by simp
  qed simp
  moreover have "prefixed (Some (tags_of g))" using g by (simp add: prefixed_def tags_of_def split: option.splits)
  ultimately show ?thesis using Some by (simp add: copy_tags_def)
qed (simp add: copy_tags_def)

text \<open>All tags of a configuration carry the prefix of a provider.\<close>

definition all_prefixed :: "SnmpConfig \<Rightarrow> bool" where
  "all_prefixed cfg \<longleftrightarrow> (\<forall>g. sc_Global cfg = Some g \<longrightarrow> prefixed (sg_UserTags g) \<and> prefixed (sg_MatchAttr g)) \<and>
     (\<forall>(n, d) \<in> set (sc_Devices cfg). prefixed (sd_UserTags d) \<and> prefixed (sd_MatchAttr d))"

lemma prefixed_empty: "prefixed None" "prefixed (Some [])"
  by (simp_all add: prefixed_def tags_of_def)

lemma zero_global_tags: "sg_UserTags zero_global = None" "sg_MatchAttr zero_global = None"
  by (simp_all add: zero_global_def)

lemma Init_prefixed: "sc_doneInit cfg \<longrightarrow> all_prefixed cfg \<Longrightarrow> all_prefixed (ProviderMap_Init prov pu pm cfg)"
  by (cases "sc_Global cfg")
     (auto simp: ProviderMap_Init_def all_prefixed_def Let_def prefix_device_def prefix_tags_prefixed prefixed_empty zero_global_tags intro!: copy_tags_prefixed)

lemma Init_done: "sc_doneInit (ProviderMap_Init prov pu pm cfg)"
  by (simp add: ProviderMap_Init_def Let_def split: prod.splits)

lemma Init_devices_once: "sc_doneInit cfg \<Longrightarrow> sc_Devices (ProviderMap_Init prov pu pm cfg) = sc_Devices cfg"
  by (simp add: ProviderMap_Init_def Let_def)

lemma Init_devices_first: "\<not> sc_doneInit cfg \<Longrightarrow> sc_Devices (ProviderMap_Init prov pu pm cfg) = map (\<lambda>(n, d). (n, prefix_device d)) (sc_Devices cfg)"
  by (simp add: ProviderMap_Init_def Let_def)

text \<open>A tag that has no prefix yet is found under its new name.\<close>

lemma move_tags_values:
  "distinct (map fst kvs) \<Longrightarrow> (k, v) \<in> set kvs \<Longrightarrow> \<not> strings_HasPrefix k ProviderPrefix \<Longrightarrow>
   map_of (fold (move_tag prov) kvs m) (provider_key prov k) = Some v"
proof (induction kvs arbitrary: m)
  case (Cons kv kvs)
  have keep: "map_of (fold (move_tag prov) xs n) (provider_key prov k) = map_of n (provider_key prov k)" if "k \<notin> fst ` set xs" for xs n
    using that
  proof (induction xs arbitrary: n)
    case (Cons x xs)
    have "fst x \<noteq> provider_key prov k" if "\<not> strings_HasPrefix (fst x) ProviderPrefix" using that provider_key_prefix by metis
    then have "map_of (move_tag prov x n) (provider_key prov k) = map_of n (provider_key prov k)"
      using Cons.prems by (auto simp: move_tag_def update_conv' delete_conv' provider_key_inj)
    with Cons show ?case by simp
  qed simp
  show ?case
  proof (cases "kv = (k, v)")
    case True
    then have "k \<notin> fst ` set kvs" using Cons.prems(1) by simp
    moreover have "map_of (move_tag prov (k, v) m) (provider_key prov k) = Some v"
      using Cons.prems(3) by (simp add: move_tag_def update_conv')
    ultimately show ?thesis using keep True by simp
  next
    case False
    with Cons show ?thesis by simp
  qed
qed simp


section \<open>Surprises of polling\<close>

text \<open>The description of the computed \<^verbatim>\<open>CPU\<close> is empty, when the device has no metric of this name.\<close>

lemma cpu_without_description:
  "map_of bigs ''CPUIdle'' = Some i \<Longrightarrow> sint i \<le> 100 \<Longrightarrow> map_of ms ''CPU'' = None \<Longrightarrow> map_of (snd (add_cpu (bigs, ms))) ''CPU'' = Some zero_info"
  by (simp add: add_cpu_def update_conv' info_of_def)

text \<open>A condition on a text blocks its object whenever the target answers with octets, whatever they are.\<close>

lemma text_condition_blocks:
  assumes "mb_Condition (w_mib w) = Some mc" "w_index wr = Inr idx" "Mib_GetName (Some (w_mib wr)) = mc_TargetName mc"
    "pdu_Value (w_variable wr) = S_bytes bs"
  shows "checkCondition w idx (wr # ws) = Inr False"
  using assms by (simp add: checkCondition_def)

section \<open>Witnesses of polling\<close>

definition demo_config :: SnmpDeviceConfig where
  "demo_config = \<lparr>sd_DeviceName = ''r1'', sd_DeviceIP = ''10.0.0.1'', sd_Community = [], sd_UseV1 = False, sd_V3 = None, sd_Debug = False,
     sd_SampleRate = 0, sd_Port = 161, sd_OID = [], sd_Description = [], sd_Checked = 0, sd_MibProfile = [], sd_Provider = ''kentik-router'',
     sd_FlowOnly = False, sd_PingOnly = False, sd_UserTags = Some [(''site'', ''east'')], sd_ExpectedDevTags = 0, sd_DiscoveredMibs = [],
     sd_PollTimeSec = 0, sd_PollTimeoutSec = 0, sd_TimeoutMS = 0, sd_Retries = 0, sd_EngineID = [], sd_MatchAttr = None,
     sd_MonitorAdminShut = False, sd_NoUseBulkWalkAll = False, sd_InstrumentationName = [], sd_RunPing = False, sd_PingSec = 0,
     sd_PurgeDevice = 0, sd_NoCheckIncreasing = False, sd_allUserTags = None\<rparr>"


definition demo_object :: Mib where
  "demo_object = zero_mib\<lparr>mb_Oid := ''1.3.6.1.9'', mb_Name := ''Temperature''\<rparr>"

definition demo_poll :: poll_args where
  "demo_poll = \<lparr>da_now = 0, da_ts = 0, da_walk = (\<lambda>oid. if oid = ''.1.3.6.1.9''
       then ([\<lparr>pdu_Value = S_int 21, pdu_Name = ''.1.3.6.1.9.4'', pdu_Type = Integer\<rparr>], None) else ([], None)),
     da_text = (\<lambda>_. []), da_uni = id, da_regexp = (\<lambda>_. Inl []), da_keys = (\<lambda>_. []), da_percent = (\<lambda>_ _. 0)\<rparr>"

definition demo_device_metrics :: DeviceMetrics where
  "demo_device_metrics = NewDeviceMetrics demo_config [(''1.3.6.1.9'', demo_object)] None"

lemma demo_poll_results: "poll_results demo_poll demo_device_metrics =
    [\<lparr>w_variable = \<lparr>pdu_Value = S_int 21, pdu_Name = ''.1.3.6.1.9.4'', pdu_Type = Integer\<rparr>, w_mib = demo_object, w_oid = ''.1.3.6.1.9''\<rparr>]"
  by (simp add: poll_results_def demo_device_metrics_def NewDeviceMetrics_def dotted_oid_def strings_HasPrefix_def poll_oid_def IsPollReady_def
      demo_object_def zero_mib_def demo_poll_def Let_def)


end
