(* ===== verification/Kentik_Api.thy ===== *)
theory Kentik_Api
  imports Device_Types
begin

text \<open>
  \<^verbatim>\<open>pkg/api/api.go\<close>: the tables of devices, synthetic tests and agents that the agent keeps from the Kentik API. The
  gRPC services are arguments: a function from a credential to the answer or to an error, of which the code tells
  \<^verbatim>\<open>Unimplemented\<close> from the others. A Go map is an association list with distinct keys whose order is the order of the
  iteration, which Go leaves open. A device is shared by its address in Go; here it is the entry of the table.
\<close>

section \<open>State and services\<close>

record KentikCred =
  APIEmail :: string
  APIToken :: string

datatype rpc_error = Unimplemented | Rpc_error string

type_synonym 'a rpc = "rpc_error + 'a"

record pb_Agent =
  a_GetId :: string
  a_GetIp :: string
  a_GetLocalIp :: string
  a_GetAlias :: string
  a_GetAsn :: u32
  a_GetRegion :: string
  a_GetCity :: string
  a_GetCountry :: string
  a_GetCloudRegion :: string
  a_GetCloudProvider :: string
  a_GetSiteName :: string

record pb_Test =
  t_GetId :: string
  t_GetName :: string
  t_GetType :: string

type_synonym device_table = "(u64 \<times> (u64 \<times> Device) list) list"

record KentikApi =
  k_devices :: device_table
  k_synAgents :: "u64 \<Rightarrow> pb_Agent option"
  k_synAgentsByIP :: "string \<Rightarrow> pb_Agent option"
  k_synTests :: "u64 \<Rightarrow> pb_Test option"
  k_KentikCreds :: "KentikCred list"
  k_KentikPlan :: int
  k_lazyLoadCustoms :: bool
  k_fullLoadCustoms :: bool
  k_lazyLoadInts :: bool

record services =
  ListTests :: "KentikCred \<Rightarrow> pb_Test list rpc"
  ListAgents :: "KentikCred \<Rightarrow> pb_Agent list rpc"
  ListDevices :: "bool \<Rightarrow> KentikCred \<Rightarrow> DeviceDetailed option list rpc"
  ListSites :: "KentikCred \<Rightarrow> (string \<times> address) list rpc"
  Site_GetId :: "address \<Rightarrow> string"
  GetDeviceDetailed :: "KentikCred \<Rightarrow> string \<Rightarrow> DeviceDetailed rpc"
  ListInterface :: "KentikCred \<Rightarrow> string \<Rightarrow> ipb_Interface option list rpc"
  FetchValuesByIds :: "KentikCred \<Rightarrow> string list \<Rightarrow> (string \<times> string) list rpc"

definition NewTestId :: "string \<Rightarrow> u64" where
  "NewTestId s = of_int (atoi_or s)"

definition NewAgentId :: "string \<Rightarrow> u64" where
  "NewAgentId s = of_int (atoi_or s)"

section \<open>Loading\<close>

definition company_devices :: "device_table \<Rightarrow> u64 \<Rightarrow> (u64 \<times> Device) list" where
  "company_devices t cid = (case map_of t cid of None \<Rightarrow> [] | Some ds \<Rightarrow> ds)"

definition add_device :: "Device \<Rightarrow> device_table \<Rightarrow> device_table" where
  "add_device dev resDev =
     AList.update (d_CompanyID dev) (AList.update (d_ID dev) dev (company_devices resDev (d_CompanyID dev))) resDev"

definition add_message :: "DeviceDetailed option \<Rightarrow> device_table \<Rightarrow> device_table" where
  "add_message dd resDev = (case MapDeviceDetailedToDevice dd of Inl _ \<Rightarrow> resDev | Inr dev \<Rightarrow> add_device dev resDev)"

fun load_devices :: "services \<Rightarrow> bool \<Rightarrow> KentikCred list \<Rightarrow> device_table \<Rightarrow> device_table rpc" where
  "load_devices svc full [] resDev = Inr resDev"
| "load_devices svc full (c # cs) resDev =
     (case ListDevices svc (\<not> full) c of
        Inl e \<Rightarrow> Inl e
      | Inr ms \<Rightarrow> load_devices svc full cs (fold add_message ms resDev))"

text \<open>The site endpoint: not implemented ends the mapping, any other error skips the credential.\<close>

fun load_sites :: "services \<Rightarrow> KentikCred list \<Rightarrow> (string \<Rightarrow> address option) \<Rightarrow> (string \<Rightarrow> address option) option" where
  "load_sites svc [] siteMap = Some siteMap"
| "load_sites svc (c # cs) siteMap =
     (case ListSites svc c of
        Inl Unimplemented \<Rightarrow> None
      | Inl (Rpc_error _) \<Rightarrow> load_sites svc cs siteMap
      | Inr ss \<Rightarrow> load_sites svc cs (fold (\<lambda>(k, a) m. m(k \<mapsto> a)) ss siteMap))"

definition set_site :: "services \<Rightarrow> (string \<Rightarrow> address option) \<Rightarrow> Device \<Rightarrow> Device" where
  "set_site svc siteMap d =
     (case d_Site d of
        None \<Rightarrow> d
      | Some a \<Rightarrow> (case siteMap (Site_GetId svc a) of None \<Rightarrow> d | Some ds \<Rightarrow> d\<lparr>d_FullSite := Some ds\<rparr>))"

definition map_devices :: "(Device \<Rightarrow> Device) \<Rightarrow> device_table \<Rightarrow> device_table" where
  "map_devices f t = map (\<lambda>(c, ds). (c, map (\<lambda>(k, d). (k, f d)) ds)) t"

definition getSites :: "services \<Rightarrow> KentikApi \<Rightarrow> KentikApi" where
  "getSites svc api =
     (case load_sites svc (k_KentikCreds api) Map.empty of
        None \<Rightarrow> api
      | Some siteMap \<Rightarrow> api\<lparr>k_devices := map_devices (set_site svc siteMap) (k_devices api)\<rparr>)"

definition getDeviceInfoNew :: "services \<Rightarrow> KentikApi \<Rightarrow> rpc_error option \<times> KentikApi" where
  "getDeviceInfoNew svc api =
     (case load_devices svc (k_fullLoadCustoms api) (k_KentikCreds api) [] of
        Inl Unimplemented \<Rightarrow> (None, api)
      | Inl e \<Rightarrow> (Some e, api)
      | Inr resDev \<Rightarrow> (None, getSites svc (api\<lparr>k_devices := resDev\<rparr>)))"

record synth_tables =
  s_Tests :: "u64 \<Rightarrow> pb_Test option"
  s_Agents :: "u64 \<Rightarrow> pb_Agent option"
  s_AgentsByIP :: "string \<Rightarrow> pb_Agent option"

definition add_test :: "pb_Test \<Rightarrow> synth_tables \<Rightarrow> synth_tables" where
  "add_test t s = s\<lparr>s_Tests := (s_Tests s)(NewTestId (t_GetId t) \<mapsto> t)\<rparr>"

definition add_agent :: "pb_Agent \<Rightarrow> synth_tables \<Rightarrow> synth_tables" where
  "add_agent a s =
     (let s = s\<lparr>s_Agents := (s_Agents s)(NewAgentId (a_GetId a) \<mapsto> a)\<rparr>;
          s = (if a_GetLocalIp a \<noteq> [] then s\<lparr>s_AgentsByIP := (s_AgentsByIP s)(a_GetLocalIp a \<mapsto> a)\<rparr> else s)
      in s\<lparr>s_AgentsByIP := (s_AgentsByIP s)(a_GetIp a \<mapsto> a)\<rparr>)"

text \<open>Not implemented is told apart only for the list of tests: \<open>None\<close> ends the load without an error.\<close>

fun load_synth :: "services \<Rightarrow> KentikCred list \<Rightarrow> synth_tables \<Rightarrow> synth_tables option rpc" where
  "load_synth svc [] s = Inr (Some s)"
| "load_synth svc (c # cs) s =
     (case ListTests svc c of
        Inl Unimplemented \<Rightarrow> Inr None
      | Inl e \<Rightarrow> Inl e
      | Inr ts \<Rightarrow>
          let s = fold add_test ts s in
          case ListAgents svc c of
            Inl e \<Rightarrow> Inl e
          | Inr as \<Rightarrow> load_synth svc cs (fold add_agent as s))"

definition getSynthAndDeviceInfo :: "services \<Rightarrow> KentikApi \<Rightarrow> rpc_error option \<times> KentikApi" where
  "getSynthAndDeviceInfo svc api =
     (case load_synth svc (k_KentikCreds api) \<lparr>s_Tests = Map.empty, s_Agents = Map.empty, s_AgentsByIP = Map.empty\<rparr> of
        Inl e \<Rightarrow> (Some e, api)
      | Inr None \<Rightarrow> (None, api)
      | Inr (Some s) \<Rightarrow> getDeviceInfoNew svc
          (api\<lparr>k_synAgents := s_Agents s, k_synAgentsByIP := s_AgentsByIP s, k_synTests := s_Tests s\<rparr>))"

text \<open>
  \<^verbatim>\<open>NewKentikApiFromLocalDevices\<close>: the interfaces of each device are replaced by an empty map before the loop that
  copies them ranges over that map; \<open>order\<close> lists the values of a map in the order of the iteration.
\<close>

definition local_device :: "((u64 \<Rightarrow> Interface option) \<Rightarrow> Interface list) \<Rightarrow> Device \<Rightarrow> Device" where
  "local_device order device =
     (let device = device\<lparr>d_Interfaces := Map.empty\<rparr> in
      fold (\<lambda>intf d. d\<lparr>d_Interfaces := (d_Interfaces d)(i_SnmpID intf \<mapsto> intf)\<rparr>) (order (d_Interfaces device)) device)"

definition empty_api :: KentikApi where
  "empty_api = \<lparr>k_devices = [], k_synAgents = Map.empty, k_synAgentsByIP = Map.empty, k_synTests = Map.empty,
     k_KentikCreds = [], k_KentikPlan = 0, k_lazyLoadCustoms = False, k_fullLoadCustoms = False, k_lazyLoadInts = False\<rparr>"

definition NewKentikApiFromLocalDevices ::
  "((u64 \<Rightarrow> Interface option) \<Rightarrow> Interface list) \<Rightarrow> (string \<times> Device) list option \<Rightarrow> KentikApi option" where
  "NewKentikApiFromLocalDevices order localDevices =
     map_option (\<lambda>ds. empty_api\<lparr>k_devices := fold (\<lambda>(_, d). add_device (local_device order d)) ds []\<rparr>) localDevices"

section \<open>Lookups\<close>

text \<open>All methods accept a nil receiver.\<close>

definition GetTest :: "KentikApi option \<Rightarrow> u64 \<Rightarrow> pb_Test option" where
  "GetTest api tid = (case api of None \<Rightarrow> None | Some api \<Rightarrow> k_synTests api tid)"

definition GetAgent :: "KentikApi option \<Rightarrow> u64 \<Rightarrow> pb_Agent option" where
  "GetAgent api aid = (case api of None \<Rightarrow> None | Some api \<Rightarrow> k_synAgents api aid)"

definition GetAgentByIP :: "KentikApi option \<Rightarrow> string \<Rightarrow> pb_Agent option" where
  "GetAgentByIP api ip = (case api of None \<Rightarrow> None | Some api \<Rightarrow> k_synAgentsByIP api ip)"

definition add_sending :: "Device \<Rightarrow> (string \<Rightarrow> Device option) \<Rightarrow> string \<Rightarrow> Device option" where
  "add_sending d res = fold (\<lambda>ip res. res(IP_String ip \<mapsto> d)) (d_SendingIps d) res"

definition GetDevicesAsMap :: "KentikApi option \<Rightarrow> u64 \<Rightarrow> string \<Rightarrow> Device option" where
  "GetDevicesAsMap api cid =
     (case api of
        None \<Rightarrow> Map.empty
      | Some api \<Rightarrow>
          if cid = 0 then fold (\<lambda>(_, cd). fold (\<lambda>(_, d). add_sending d) cd) (k_devices api) Map.empty
          else fold (\<lambda>(_, d). add_sending d) (company_devices (k_devices api) cid) Map.empty)"

definition update_device :: "u64 \<Rightarrow> u64 \<Rightarrow> (Device \<Rightarrow> Device) \<Rightarrow> KentikApi \<Rightarrow> KentikApi" where
  "update_device cid did f api = api\<lparr>k_devices := map (\<lambda>(c, ds).
     (c, map (\<lambda>(k, d). (k, if c = cid \<and> k = did then f d else d)) ds)) (k_devices api)\<rparr>"

text \<open>
  \<^verbatim>\<open>GetDevice\<close> and \<^verbatim>\<open>GetInterface\<close> start a goroutine that loads the missing part of a device at the first access; the
  flag in the result says that it was started. The device that \<^verbatim>\<open>GetInterface\<close> marks is the one it is given.
\<close>

definition GetDevice :: "KentikApi option \<Rightarrow> u64 \<Rightarrow> u64 \<Rightarrow> Device option \<times> KentikApi option \<times> bool" where
  "GetDevice api cid did =
     (case api of
        None \<Rightarrow> (None, None, False)
      | Some api \<Rightarrow>
          (case map_of (k_devices api) cid of
             None \<Rightarrow> (None, Some api, False)
           | Some c \<Rightarrow>
               case map_of c did of
                 None \<Rightarrow> (None, Some api, False)
               | Some dev \<Rightarrow>
                   if k_lazyLoadCustoms api then
                     (case LoadedCustoms dev of (lc, dev') \<Rightarrow>
                        (Some dev', Some (update_device cid did (\<lambda>d. snd (LoadedCustoms d)) api), \<not> lc))
                   else (Some dev, Some api, False)))"

definition GetInterface :: "KentikApi option \<Rightarrow> Device option \<Rightarrow> u64 \<Rightarrow> Interface option \<times> Device option \<times> bool" where
  "GetInterface api dev port =
     (case (api, dev) of
        (Some api, Some dev) \<Rightarrow>
          if k_lazyLoadInts api then
            (case LoadedInterfaces dev of (li, dev') \<Rightarrow> (d_Interfaces dev' port, Some dev', \<not> li))
          else (d_Interfaces dev port, Some dev, False)
      | _ \<Rightarrow> (None, dev, False))"

text \<open>The goroutines: the first credential whose request does not fail decides.\<close>

fun lazy_customs :: "services \<Rightarrow> KentikCred list \<Rightarrow> Device \<Rightarrow> Device" where
  "lazy_customs svc [] d = d"
| "lazy_customs svc (c # cs) d =
     (case GetDeviceDetailed svc c (d_IDStr d) of
        Inl Unimplemented \<Rightarrow> d
      | Inl (Rpc_error _) \<Rightarrow> lazy_customs svc cs d
      | Inr dd \<Rightarrow> AddCustoms dd d)"

fun lazy_interfaces :: "services \<Rightarrow> connectivity \<Rightarrow> KentikCred list \<Rightarrow> Device \<Rightarrow> Device" where
  "lazy_interfaces svc ct [] d = d"
| "lazy_interfaces svc ct (c # cs) d =
     (case ListInterface svc c (d_IDStr d) of
        Inl Unimplemented \<Rightarrow> d
      | Inl (Rpc_error _) \<Rightarrow> lazy_interfaces svc ct cs d
      | Inr ints \<Rightarrow> AddInterfaces ct ints d)"

section \<open>Creation of devices and enumerations\<close>

definition all_devices :: "device_table \<Rightarrow> Device list" where
  "all_devices t = concat (map (\<lambda>(_, cd). map snd cd) t)"

record deviceCreate =
  dc_Name :: string
  dc_Type :: string
  dc_Description :: string
  dc_SampleRate :: int
  dc_BgpType :: string
  dc_PlanID :: int
  dc_IPs :: "bytes option list"
  dc_Subtype :: string
  dc_MinSnmp :: bool

text \<open>The device that \<^verbatim>\<open>EnsureDevice\<close> sends to the API, or none: \<open>DeviceName\<close>, \<open>DeviceIP\<close> and \<open>Description\<close> of the configuration.\<close>

definition EnsureDevice ::
  "(string \<Rightarrow> string) \<Rightarrow> KentikApi option \<Rightarrow> string \<Rightarrow> string \<Rightarrow> string \<Rightarrow> deviceCreate option" where
  "EnsureDevice uni api name ip descr =
     (case api of
        None \<Rightarrow> None
      | Some api \<Rightarrow>
          if k_KentikCreds api = [] \<or> k_KentikPlan api = 0 then None
          else
            let dname = strings_ToLower uni (strings_ReplaceAll name ''.'' ''_'') in
            if list_ex (\<lambda>d. d_Name d = dname) (all_devices (k_devices api)) then None
            else
              let desc = (if 128 < length descr then take 127 descr else descr) in
              Some \<lparr>dc_Name = dname, dc_Type = ''router'', dc_Description = desc, dc_SampleRate = 1, dc_BgpType = ''none'',
                dc_PlanID = k_KentikPlan api, dc_IPs = [ParseIP ip], dc_Subtype = ''router'', dc_MinSnmp = False\<rparr>)"

definition add_value :: "string \<times> string \<Rightarrow> (u32 \<Rightarrow> string option) \<Rightarrow> u32 \<Rightarrow> string option" where
  "add_value e res = (case strconv_ParseUint (fst e) 32 of Some n \<Rightarrow> res(of_nat n \<mapsto> snd e) | None \<Rightarrow> res)"

fun LookupEnumerationValues_loop ::
  "services \<Rightarrow> KentikCred list \<Rightarrow> string list \<Rightarrow> (u32 \<Rightarrow> string option) \<Rightarrow> (u32 \<Rightarrow> string option) rpc" where
  "LookupEnumerationValues_loop svc [] ids res = Inr res"
| "LookupEnumerationValues_loop svc (c # cs) ids res =
     (case FetchValuesByIds svc c ids of
        Inl e \<Rightarrow> Inl e
      | Inr vs \<Rightarrow> LookupEnumerationValues_loop svc cs ids (fold add_value vs res))"

definition LookupEnumerationValues :: "services \<Rightarrow> KentikApi \<Rightarrow> u32 list \<Rightarrow> (u32 \<Rightarrow> string option) rpc" where
  "LookupEnumerationValues svc api enums =
     LookupEnumerationValues_loop svc (k_KentikCreds api) (map (\<lambda>e. nat_Itoa (unat e)) enums) Map.empty"

definition getAddressFromApiRoot :: "string \<Rightarrow> string" where
  "getAddressFromApiRoot apiRoot =
     (let address = (if strings_HasPrefix apiRoot ''https://'' then drop 8 apiRoot else apiRoot);
          address = (if strings_HasPrefix apiRoot ''http://'' then drop 7 address else address)
      in if strings_HasSuffix address '':443'' then address else address @ '':443'')"

section \<open>Invariant of the tables\<close>

definition table_ok :: "device_table \<Rightarrow> bool" where
  "table_ok t \<longleftrightarrow> distinct (map fst t) \<and> (\<forall>c ds. (c, ds) \<in> set t \<longrightarrow> distinct (map fst ds) \<and>
     (\<forall>k d. (k, d) \<in> set ds \<longrightarrow> d_CompanyID d = c \<and> d_ID d = k \<and> own_interfaces d))"

lemma table_okD:
  assumes "table_ok t" "(c, ds) \<in> set t" "(k, d) \<in> set ds"
  shows "d_CompanyID d = c" "d_ID d = k" "own_interfaces d"
  using assms by (auto simp: table_ok_def)

lemma table_ok_Nil [simp]: "table_ok []"
  by (simp add: table_ok_def)

lemma set_AList_update: "set (AList.update k v xs) \<subseteq> insert (k, v) (set xs)"
  by (induction xs) auto

lemma add_device_ok:
  assumes "table_ok t" "own_interfaces d"
  shows "table_ok (add_device d t)"
proof -
  let ?ds = "company_devices t (d_CompanyID d)"
  have old: "distinct (map fst ?ds) \<and> (\<forall>k e. (k, e) \<in> set ?ds \<longrightarrow> d_CompanyID e = d_CompanyID d \<and> d_ID e = k \<and> own_interfaces e)"
  proof (cases "map_of t (d_CompanyID d)")
    case (Some ds)
    then have "(d_CompanyID d, ds) \<in> set t" by (rule map_of_SomeD)
    with assms(1) Some show ?thesis by (auto simp: table_ok_def company_devices_def)
  qed (simp add: company_devices_def)
  let ?new = "AList.update (d_ID d) d ?ds"
  have new: "distinct (map fst ?new)" "\<forall>k e. (k, e) \<in> set ?new \<longrightarrow> d_CompanyID e = d_CompanyID d \<and> d_ID e = k \<and> own_interfaces e"
    using old assms(2) set_AList_update [of "d_ID d" d ?ds] by (auto simp: distinct_update)
  have "distinct (map fst (add_device d t))" using assms(1) by (simp add: add_device_def table_ok_def distinct_update)
  moreover have "set (add_device d t) \<subseteq> insert (d_CompanyID d, ?new) (set t)"
    unfolding add_device_def by (rule set_AList_update)
  moreover have "c = d_CompanyID d \<and> ds = ?new \<or> (c, ds) \<in> set t" if "(c, ds) \<in> set (add_device d t)" for c ds
    using calculation(2) that by auto
  ultimately show ?thesis using assms(1) new unfolding table_ok_def by metis
qed

lemma add_messages_ok: "table_ok t \<Longrightarrow> table_ok (fold add_message ms t)"
  by (induction ms arbitrary: t) (auto simp: add_message_def add_device_ok MapDeviceDetailed_own split: sum.splits)

lemma load_devices_ok: "load_devices svc full cs t = Inr t' \<Longrightarrow> table_ok t \<Longrightarrow> table_ok t'"
  by (induction svc full cs t rule: load_devices.induct) (auto simp: add_messages_ok split: sum.splits)

lemma map_entries_ok:
  assumes "table_ok t"
    "\<And>c k d. d_CompanyID (f c k d) = d_CompanyID d \<and> d_ID (f c k d) = d_ID d \<and> (own_interfaces d \<longrightarrow> own_interfaces (f c k d))"
  shows "table_ok (map (\<lambda>(c, ds). (c, map (\<lambda>(k, d). (k, f c k d)) ds)) t)"
proof -
  have "map fst (map (\<lambda>(k, d). (k, f c k d)) ds) = map fst ds" for c ds
    by (simp add: comp_def case_prod_beta)
  moreover have "map fst (map (\<lambda>(c, ds). (c, map (\<lambda>(k, d). (k, f c k d)) ds)) t) = map fst t"
    by (simp add: comp_def case_prod_beta)
  ultimately show ?thesis using assms unfolding table_ok_def by (auto simp del: map_map)
qed

lemma set_site_keeps: "d_CompanyID (set_site svc sm d) = d_CompanyID d" "d_ID (set_site svc sm d) = d_ID d"
    "own_interfaces (set_site svc sm d) = own_interfaces d" "d_SendingIps (set_site svc sm d) = d_SendingIps d"
    "d_Name (set_site svc sm d) = d_Name d"
  by (auto simp: set_site_def own_interfaces_def split: option.splits)

lemma getSites_ok: "table_ok (k_devices api) \<Longrightarrow> table_ok (k_devices (getSites svc api))"
  by (auto simp: getSites_def map_devices_def set_site_keeps intro!: map_entries_ok split: option.splits)

lemma getDeviceInfoNew_ok: "table_ok (k_devices api) \<Longrightarrow> table_ok (k_devices (snd (getDeviceInfoNew svc api)))"
  by (auto simp: getDeviceInfoNew_def intro!: getSites_ok dest: load_devices_ok split: sum.splits rpc_error.splits)

lemma refresh_ok: "table_ok (k_devices api) \<Longrightarrow> table_ok (k_devices (snd (getSynthAndDeviceInfo svc api)))"
  by (auto simp: getSynthAndDeviceInfo_def intro!: getDeviceInfoNew_ok split: sum.splits option.splits)

definition keeps_identity :: "(Device \<Rightarrow> Device) \<Rightarrow> bool" where
  "keeps_identity f \<longleftrightarrow>
     (\<forall>d. d_CompanyID (f d) = d_CompanyID d \<and> d_ID (f d) = d_ID d \<and> (own_interfaces d \<longrightarrow> own_interfaces (f d)))"

lemma update_device_ok:
  assumes "table_ok (k_devices api)" "keeps_identity f"
  shows "table_ok (k_devices (update_device cid did f api))"
  unfolding update_device_def using assms by (auto intro!: map_entries_ok simp: keeps_identity_def)

lemma lazy_customs_keeps: "keeps_identity (lazy_customs svc cs)"
  unfolding keeps_identity_def
  by (rule allI, induct_tac svc cs d rule: lazy_customs.induct) (auto split: sum.splits rpc_error.splits)

lemma lazy_interfaces_keeps: "keeps_identity (lazy_interfaces svc ct cs)"
  unfolding keeps_identity_def
  by (rule allI, induct_tac svc ct cs d rule: lazy_interfaces.induct)
    (auto simp: AddInterfaces_own split: sum.splits rpc_error.splits)

lemma LoadedCustoms_keeps: "keeps_identity (\<lambda>d. snd (LoadedCustoms d))"
  by (simp add: keeps_identity_def LoadedCustoms_def own_interfaces_def)

lemma LoadedInterfaces_keeps: "keeps_identity (\<lambda>d. snd (LoadedInterfaces d))"
  by (simp add: keeps_identity_def LoadedInterfaces_def own_interfaces_def)

text \<open>
  The changes of the tables while the agent runs: refreshes with whatever the services answer, marks set by the
  lookups, and the goroutines that load a part of a device later.
\<close>

inductive api_reach :: "connectivity \<Rightarrow> KentikApi \<Rightarrow> KentikApi \<Rightarrow> bool" for ct a0 where
  api_start: "api_reach ct a0 a0"
| api_refresh: "api_reach ct a0 a \<Longrightarrow> api_reach ct a0 (snd (getSynthAndDeviceInfo svc a))"
| api_get: "api_reach ct a0 a \<Longrightarrow> GetDevice (Some a) cid did = (r, Some a', started) \<Longrightarrow> api_reach ct a0 a'"
| api_mark: "api_reach ct a0 a \<Longrightarrow> api_reach ct a0 (update_device cid did (\<lambda>d. snd (LoadedInterfaces d)) a)"
| api_customs: "api_reach ct a0 a \<Longrightarrow> api_reach ct a0 (update_device cid did (lazy_customs svc (k_KentikCreds a)) a)"
| api_interfaces: "api_reach ct a0 a \<Longrightarrow> api_reach ct a0 (update_device cid did (lazy_interfaces svc ct (k_KentikCreds a)) a)"

lemma GetDevice_state:
  "GetDevice (Some a) cid did = (r, Some a', started) \<Longrightarrow> a' = a \<or> a' = update_device cid did (\<lambda>d. snd (LoadedCustoms d)) a"
  by (auto simp: GetDevice_def LoadedCustoms_def split: option.splits if_splits)

lemma api_reach_ok:
  assumes "api_reach ct a0 a" "table_ok (k_devices a0)"
  shows "table_ok (k_devices a)"
  using assms
proof (induction rule: api_reach.induct)
  case (api_get a cid did r a' started)
  then show ?case using GetDevice_state [OF api_get.hyps(2)] update_device_ok [OF _ LoadedCustoms_keeps] by auto
qed (simp_all add: refresh_ok update_device_ok LoadedInterfaces_keeps lazy_customs_keeps lazy_interfaces_keeps)

lemma GetDevice_entry:
  assumes "GetDevice (Some a) cid did = (Some d, st, go)"
  shows "\<exists>ds e. (cid, ds) \<in> set (k_devices a) \<and> (did, e) \<in> set ds \<and> (d = e \<or> d = snd (LoadedCustoms e))"
  using assms by (fastforce simp: GetDevice_def LoadedCustoms_def split: option.splits if_splits dest: map_of_SomeD)

lemma GetInterface_entry: "GetInterface (Some a) (Some d) port = (Some i, st, go) \<Longrightarrow> d_Interfaces d port = Some i"
  by (auto simp: GetInterface_def LoadedInterfaces_def split: if_splits)

text \<open>
  C21. However refreshes, lookups and late loads of customs and interfaces interleave, and whatever the services
  answer, a device found under a company and a device id carries these ids, and an interface found on it under an
  SNMP index carries that index and the id of the device.
\<close>

theorem api_lookup_identity:
  assumes "api_reach ct a0 a" "table_ok (k_devices a0)"
    "GetDevice (Some a) cid did = (Some d, st, go)"
  shows "d_CompanyID d = cid \<and> d_ID d = did \<and>
    (\<forall>port i d' go'. GetInterface (Some a) (Some d) port = (Some i, d', go') \<longrightarrow> i_SnmpID i = port \<and> i_DeviceID i = did)"
proof -
  obtain ds e where e: "(cid, ds) \<in> set (k_devices a)" "(did, e) \<in> set ds" "d = e \<or> d = snd (LoadedCustoms e)"
    using GetDevice_entry [OF assms(3)] by blast
  have "d_CompanyID e = cid" "d_ID e = did" "own_interfaces e"
    using table_okD [OF api_reach_ok [OF assms(1,2)] e(1,2)] by simp_all
  then have d: "d_CompanyID d = cid" "d_ID d = did" "own_interfaces d"
    using e(3) LoadedCustoms_keeps by (auto simp: keeps_identity_def)
  moreover have "i_SnmpID i = port \<and> i_DeviceID i = did" if "GetInterface (Some a) (Some d) port = (Some i, d', go')" for port i d' go'
    using GetInterface_entry [OF that] d(2,3) by (simp add: own_interfaces_def)
  ultimately show ?thesis by blast
qed

section \<open>What a refresh loads\<close>

definition table_lookup :: "device_table \<Rightarrow> u64 \<Rightarrow> u64 \<Rightarrow> Device option" where
  "table_lookup t cid did = map_of (company_devices t cid) did"

definition listed :: "DeviceDetailed option list \<Rightarrow> u64 \<Rightarrow> u64 \<Rightarrow> bool" where
  "listed ms cid did \<longleftrightarrow> (\<exists>m \<in> set ms. \<exists>d. MapDeviceDetailedToDevice m = Inr d \<and> d_CompanyID d = cid \<and> d_ID d = did)"

lemma lookup_add_device:
  "table_lookup (add_device d t) cid did =
     (if cid = d_CompanyID d \<and> did = d_ID d then Some d else table_lookup t cid did)"
  by (simp add: table_lookup_def add_device_def company_devices_def update_conv split: option.splits)

lemma lookup_add_messages:
  "table_lookup (fold add_message ms t) cid did \<noteq> None \<longleftrightarrow> table_lookup t cid did \<noteq> None \<or> listed ms cid did"
proof (induction ms arbitrary: t)
  case (Cons m ms)
  show ?case
    unfolding fold.simps(2) comp_def Cons.IH
    by (auto simp: add_message_def lookup_add_device listed_def split: sum.splits)
qed (simp add: listed_def)

lemma load_devices_lookup:
  assumes "load_devices svc full cs t = Inr t'"
  shows "table_lookup t' cid did \<noteq> None \<longleftrightarrow> table_lookup t cid did \<noteq> None \<or>
    (\<exists>c \<in> set cs. \<exists>ms. ListDevices svc (\<not> full) c = Inr ms \<and> listed ms cid did)"
  using assms
  by (induction svc full cs t rule: load_devices.induct) (auto simp: lookup_add_messages simp del: not_None_eq split: sum.splits)

lemma load_devices_fails: "load_devices svc full cs t = Inl e \<Longrightarrow> \<exists>c \<in> set cs. ListDevices svc (\<not> full) c = Inl e"
  by (induction svc full cs t rule: load_devices.induct) (auto split: sum.splits)

lemma lookup_map_devices: "table_lookup (map_devices f t) cid did = map_option f (table_lookup t cid did)"
  by (auto simp: table_lookup_def company_devices_def map_devices_def map_of_map [unfolded comp_def] split: option.splits)

lemma lookup_getSites: "table_lookup (k_devices (getSites svc api)) cid did = None \<longleftrightarrow> table_lookup (k_devices api) cid did = None"
  by (simp add: getSites_def lookup_map_devices split: option.splits)

lemma load_synth_answers:
  assumes "\<forall>c \<in> set cs. (\<exists>ts. ListTests svc c = Inr ts) \<and> (\<exists>as. ListAgents svc c = Inr as)"
  shows "\<exists>s'. load_synth svc cs s = Inr (Some s')"
  using assms by (induction svc cs s rule: load_synth.induct) (auto simp: Let_def split: sum.splits)


text \<open>An API without the synthetics service never gets a device, although only the tests are to be skipped.\<close>

lemma synth_unimplemented_no_devices:
  assumes "k_KentikCreds api = c # cs" "ListTests svc c = Inl Unimplemented"
  shows "getSynthAndDeviceInfo svc api = (None, api)"
  by (simp add: getSynthAndDeviceInfo_def assms)

text \<open>Devices loaded from a file lose their interfaces.\<close>

lemma local_devices_no_interfaces:
  assumes "\<And>m. set (order m) = ran m"
  shows "d_Interfaces (local_device order d) = Map.empty"
proof -
  have "order Map.empty = []" using assms [of Map.empty] by simp
  then show ?thesis by (simp add: local_device_def)
qed

section \<open>Devices by the addresses that send flows\<close>

definition sends_from :: "Device \<Rightarrow> string \<Rightarrow> bool" where
  "sends_from d ip \<longleftrightarrow> ip \<in> IP_String ` set (d_SendingIps d)"

lemma add_sending_lookup: "add_sending d res ip = (if sends_from d ip then Some d else res ip)"
proof -
  have "fold (\<lambda>ip res. res(IP_String ip \<mapsto> d)) ips res s = (if s \<in> IP_String ` set ips then Some d else res s)" for ips s
    by (induction ips arbitrary: res) auto
  then show ?thesis by (simp add: add_sending_def sends_from_def)
qed

lemma fold_add_sending_Some:
  "fold add_sending ds res ip = Some d \<Longrightarrow> d \<in> set ds \<and> sends_from d ip \<or> res ip = Some d"
proof (induction ds arbitrary: res)
  case (Cons e ds)
  from Cons.IH [of "add_sending e res"] Cons.prems show ?case by (auto simp: add_sending_lookup split: if_splits)
qed simp

lemma fold_add_sending_None:
  "fold add_sending ds res ip = None \<longleftrightarrow> (\<forall>d \<in> set ds. \<not> sends_from d ip) \<and> res ip = None"
  by (induction ds arbitrary: res) (auto simp: add_sending_lookup split: if_splits)

lemma GetDevicesAsMap_all: "GetDevicesAsMap (Some api) 0 = fold add_sending (all_devices (k_devices api)) Map.empty"
proof -
  have inner: "fold (\<lambda>(_, d). add_sending d) cd m = fold add_sending (map snd cd) m" for cd :: "(u64 \<times> Device) list" and m
    by (induction cd arbitrary: m) auto
  have "fold (\<lambda>(_, cd). fold (\<lambda>(_, d). add_sending d) cd) t m = fold add_sending (all_devices t) m"
    for t :: device_table and m
    by (induction t arbitrary: m) (auto simp: all_devices_def inner)
  then show ?thesis by (simp add: GetDevicesAsMap_def)
qed

text \<open>
  The map of senders: an address leads to a device that sends from it, and to none only if no device does. When two
  devices share an address the order of the iteration decides.
\<close>

lemma GetDevicesAsMap_finds:
  "GetDevicesAsMap (Some api) 0 ip = Some d \<Longrightarrow> d \<in> set (all_devices (k_devices api)) \<and> sends_from d ip"
  "GetDevicesAsMap (Some api) 0 ip = None \<longleftrightarrow> (\<forall>d \<in> set (all_devices (k_devices api)). \<not> sends_from d ip)"
  using fold_add_sending_Some [of "all_devices (k_devices api)" Map.empty ip d] fold_add_sending_None
  by (simp_all add: GetDevicesAsMap_all)

lemma GetDevicesAsMap_unique:
  assumes "d \<in> set (all_devices (k_devices api))" "sends_from d ip"
    "\<And>e. e \<in> set (all_devices (k_devices api)) \<Longrightarrow> sends_from e ip \<Longrightarrow> e = d"
  shows "GetDevicesAsMap (Some api) 0 ip = Some d"
  using GetDevicesAsMap_finds(1) [of api ip] GetDevicesAsMap_finds(2) [of api ip] assms
  by (cases "GetDevicesAsMap (Some api) 0 ip") blast+

lemma EnsureDevice_once:
  assumes "EnsureDevice uni (Some api) name ip descr = Some dc"
  shows "\<forall>d \<in> set (all_devices (k_devices api)). d_Name d \<noteq> dc_Name dc" "length (dc_Description dc) \<le> 128"
  using assms by (auto simp: EnsureDevice_def Let_def list_ex_iff split: if_splits)

lemma api_address_port: "strings_HasSuffix (getAddressFromApiRoot r) '':443''"
  by (simp add: getAddressFromApiRoot_def Let_def strings_HasSuffix_def)

text \<open>The values of enumerations that are asked for come back under their numbers.\<close>

lemma enumeration_roundtrip:
  assumes "k_KentikCreds api = [c]"
    "FetchValuesByIds svc c (map (\<lambda>e. nat_Itoa (unat e)) enums) = Inr (map (\<lambda>e. (nat_Itoa (unat e), value e)) enums)"
  shows "\<exists>m. LookupEnumerationValues svc api enums = Inr m \<and> (\<forall>e. m e = (if e \<in> set enums then Some (value e) else None))"
proof -
  have "unat (e :: u32) < 2 ^ 32" for e using unsigned_less [of e] by simp
  then have step: "add_value (nat_Itoa (unat e), value e) res = res(e \<mapsto> value e)" for e and res :: "u32 \<Rightarrow> string option"
    by (simp add: add_value_def strconv_ParseUint_Itoa)
  have "fold add_value (map (\<lambda>e. (nat_Itoa (unat e), value e)) es) res e = (if e \<in> set es then Some (value e) else res e)" for es res e
    by (induction es arbitrary: res) (auto simp: step)
  then show ?thesis by (simp add: LookupEnumerationValues_def assms)
qed

section \<open>Witness\<close>

definition demo_interface :: pb_Interface where
  "demo_interface = \<lparr>GetSnmpId = ''2'', GetDeviceId = ''7'', GetInterfaceDescription = ''uplink'', GetNetworkBoundary = ''external'',
     GetConnectivityType = ''transit'', GetProvider = [], GetSnmpAlias = ''eth0'', GetSnmpSpeed = ''1000''\<rparr>"

definition demo_message :: DeviceDetailed where
  "demo_message = \<lparr>GetId = ''7'', GetCompanyId = ''3'', GetDeviceName = ''edge'', GetDeviceType = ''router'',
     GetDeviceSubtype = ''router'', GetDeviceDescription = [], GetDeviceSampleRate = ''10'', GetDeviceSnmpIp = [],
     GetSendingIps = [''10.0.0.1''], GetAllInterfaces = [Some demo_interface, None], GetLabels = [], GetPlan = None,
     GetCustomColumnData = [], GetDeviceSnmpV3Conf = None, GetDeviceBgpType = [], GetCdnAttr = [], GetMaxFlowRate = 0,
     GetCustomColumns = [], GetDeviceSnmpCommunity = [], GetSite = None\<rparr>"

definition demo_services :: services where
  "demo_services = \<lparr>ListTests = (\<lambda>_. Inr []), ListAgents = (\<lambda>_. Inr []), ListDevices = (\<lambda>_ _. Inr [Some demo_message, None]),
     ListSites = (\<lambda>_. Inl Unimplemented), Site_GetId = (\<lambda>_. []), GetDeviceDetailed = (\<lambda>_ _. Inl Unimplemented),
     ListInterface = (\<lambda>_ _. Inl Unimplemented), FetchValuesByIds = (\<lambda>_ _. Inr [])\<rparr>"

definition demo_api :: KentikApi where
  "demo_api = empty_api\<lparr>k_KentikCreds := [\<lparr>APIEmail = ''a'', APIToken = ''t''\<rparr>]\<rparr>"

definition demo_device :: Device where
  "demo_device = projr (MapDeviceDetailedToDevice (Some demo_message))"

lemma demo_atoi: "strconv_Atoi ''7'' = Some 7" "strconv_Atoi ''3'' = Some 3" "strconv_Atoi ''2'' = Some 2"
  by code_simp+

lemma demo_mapped: "MapDeviceDetailedToDevice (Some demo_message) = Inr demo_device"
  by (simp add: demo_device_def MapDeviceDetailedToDevice_def demo_message_def demo_atoi Let_def)

lemma demo_device_fields:
  "d_ID demo_device = 7" "d_CompanyID demo_device = 3" "d_Name demo_device = ''edge''"
  "d_Interfaces demo_device 2 \<noteq> None"
  by (simp_all add: demo_device_def MapDeviceDetailedToDevice_def demo_message_def demo_atoi Let_def
      mapInterfaces_def mapInterfaces_step_def demo_interface_def parse_or_0_def)

lemma demo_refresh: "snd (getSynthAndDeviceInfo demo_services demo_api) = demo_api\<lparr>k_devices := [(3, [(7, demo_device)])]\<rparr>"
  by (simp add: getSynthAndDeviceInfo_def demo_services_def demo_api_def empty_api_def Let_def getDeviceInfoNew_def
      add_message_def demo_mapped MapDeviceDetailedToDevice_def [of None] add_device_def company_devices_def demo_device_fields
      getSites_def)

theorem api_lookup_identity_witness:
  "api_reach (init_connectivity []) demo_api (demo_api\<lparr>k_devices := [(3, [(7, demo_device)])]\<rparr>) \<and> d_ID demo_device = 7 \<and> d_CompanyID demo_device = 3"
proof -
  have reach: "api_reach (init_connectivity []) demo_api (demo_api\<lparr>k_devices := [(3, [(7, demo_device)])]\<rparr>)"
    using api_refresh [OF api_start, of "init_connectivity []" demo_api demo_services] by (simp add: demo_refresh)
  have "GetDevice (Some (demo_api\<lparr>k_devices := [(3, [(7, demo_device)])]\<rparr>)) 3 7 =
      (Some demo_device, Some (demo_api\<lparr>k_devices := [(3, [(7, demo_device)])]\<rparr>), False)"
    by (simp add: GetDevice_def demo_api_def empty_api_def)
  from api_lookup_identity [OF reach _ this] reach show ?thesis by (simp add: demo_api_def empty_api_def)
qed


end
