(* ===== verification/Flow_Driver.thy ===== *)
theory Flow_Driver
  imports Kentik_Api Proto
begin

text \<open>
  \<^verbatim>\<open>pkg/inputs/flow\<close>: the driver that turns the messages of the goflow2 library into flow records and sends them to
  the agent in batches, the configurations for special devices, and the resolver of \<^verbatim>\<open>pkg/util/resolv\<close> that names
  devices the API does not know. The wire format of protocol buffers (\<^verbatim>\<open>protowire\<close>) and the DNS lookup are arguments.
\<close>

section \<open>The resolver\<close>

record Resolver =
  r_cache :: "(string \<times> string) list"
  r_max :: int

text \<open>
  \<^verbatim>\<open>NewResolver\<close>: the size of the cache comes from the environment when it holds a number, negative ones included.
\<close>

definition NewResolver :: "string option \<Rightarrow> Resolver" where
  "NewResolver env =
     \<lparr>r_cache = [],
      r_max = (case env of Some v \<Rightarrow> (case strconv_Atoi v of Some n \<Rightarrow> n | None \<Rightarrow> 10000) | None \<Rightarrow> 10000)\<rparr>"

text \<open>
  \<^verbatim>\<open>Resolve\<close>: \<open>dns\<close> gives the names of an address or fails. The cache counts its entries before a lookup; a failed
  lookup is cached as the empty name.
\<close>

definition pick_name :: "(string \<Rightarrow> string) \<Rightarrow> string list option \<Rightarrow> string res" where
  "pick_name uni answer =
     (case answer of
        Some (a # _) \<Rightarrow>
          if a = [] then Inl (Panic ''slice bounds out of range'')
          else if last a = CHR ''.'' then Inr (strings_ToLower uni (butlast a))
          else Inr a
      | _ \<Rightarrow> Inr [])"

definition Resolve :: "(string \<Rightarrow> string) \<Rightarrow> (string \<Rightarrow> string list option) \<Rightarrow> string \<Rightarrow> Resolver \<Rightarrow> (string \<times> Resolver) res" where
  "Resolve uni dns ip r =
     (case map_of (r_cache r) ip of
        Some final \<Rightarrow> Inr (final, r)
      | None \<Rightarrow>
          if r_max r < int (length (r_cache r)) then Inr ([], r)
          else case pick_name uni (dns ip) of
              Inl e \<Rightarrow> Inl e
            | Inr final \<Rightarrow> Inr (final, r\<lparr>r_cache := AList.update ip final (r_cache r)\<rparr>))"

definition clearCache :: "Resolver \<Rightarrow> Resolver" where
  "clearCache r = r\<lparr>r_cache := []\<rparr>"

section \<open>The configurations\<close>

record ProtobufFormatterConfig =
  pf_Name :: string
  pf_Index :: i32
  pf_Type :: string

record NetFlowMapField =
  nm_Type :: u16
  nm_Destination :: string
  nm_Pen :: "u32 option"

record ProducerConfig =
  pc_Key :: "string list"
  pc_Protobuf :: "ProtobufFormatterConfig list"
  pc_IPFIX :: "NetFlowMapField list"
  pc_NetFlowV9 :: "NetFlowMapField list"

definition pbf :: "string \<Rightarrow> i32 \<Rightarrow> string \<Rightarrow> ProtobufFormatterConfig" where
  "pbf n i t = \<lparr>pf_Name = n, pf_Index = i, pf_Type = t\<rparr>"

definition nmf :: "u16 \<Rightarrow> string \<Rightarrow> NetFlowMapField" where
  "nmf t d = \<lparr>nm_Type = t, nm_Destination = d, nm_Pen = None\<rparr>"

definition nmp :: "u16 \<Rightarrow> string \<Rightarrow> u32 \<Rightarrow> NetFlowMapField" where
  "nmp t d pen = \<lparr>nm_Type = t, nm_Destination = d, nm_Pen = Some pen\<rparr>"

definition loadDefault :: ProducerConfig where
  "loadDefault = \<lparr>pc_Key = [''sampler_address''],
     pc_Protobuf =
       [pbf ''flow_direction'' 99 ''varint'',
        pbf ''ingressVRFID'' 100 ''varint'',
        pbf ''egressVRFID'' 101 ''varint''],
     pc_IPFIX = [nmf 61 ''flow_direction'', nmf 234 ''ingressVRFID'', nmf 235 ''egressVRFID''],
     pc_NetFlowV9 = [nmf 61 ''flow_direction'']\<rparr>"

definition loadASA :: ProducerConfig where
  "loadASA = \<lparr>pc_Key = [''sampler_address''],
     pc_Protobuf =
       [pbf ''flow_direction'' 99 ''varint'',
        pbf ''in_bytes'' 100 ''varint'',
        pbf ''out_bytes'' 101 ''varint'',
        pbf ''in_pkts'' 102 ''varint'',
        pbf ''put_pkts'' 103 ''varint'',
        pbf ''firewall_event'' 104 ''bytes''],
     pc_IPFIX =
       [nmf 61 ''flow_direction'', nmf 231 ''in_bytes'', nmf 232 ''out_bytes'', nmf 298 ''in_pkts'',
        nmf 299 ''out_pkts'', nmf 233 ''firewall_event''],
     pc_NetFlowV9 =
       [nmf 61 ''flow_direction'', nmf 231 ''in_bytes'', nmf 232 ''out_bytes'', nmf 298 ''in_pkts'',
        nmf 299 ''out_pkts'', nmf 233 ''firewall_event'']\<rparr>"

definition loadNBar :: ProducerConfig where
  "loadNBar = \<lparr>pc_Key = [''sampler_address''],
     pc_Protobuf =
       [pbf ''flow_direction'' 99 ''varint'',
        pbf ''application'' 100 ''bytes'',
        pbf ''application_category'' 101 ''bytes'',
        pbf ''application_subcategory'' 102 ''bytes'',
        pbf ''application_group'' 103 ''bytes'',
        pbf ''application_traffic_class'' 104 ''bytes''],
     pc_IPFIX =
       [nmf 61 ''flow_direction'', nmf 96 ''application'', nmp 12232 ''application_category'' 9,
        nmp 12233 ''application_subcategory'' 9, nmp 12234 ''application_group'' 9,
        nmp 12243 ''application_traffic_class'' 9],
     pc_NetFlowV9 = [nmf 61 ''flow_direction'', nmf 96 ''application'']\<rparr>"

definition loadPAN :: ProducerConfig where
  "loadPAN = \<lparr>pc_Key = [''sampler_address''],
     pc_Protobuf =
       [pbf ''flow_direction'' 99 ''varint'',
        pbf ''icmp_type'' 100 ''varint'',
        pbf ''flow_id'' 101 ''varint'',
        pbf ''firewall_event'' 102 ''varint'',
        pbf ''direction'' 103 ''varint'',
        pbf ''application_id'' 104 ''bytes'',
        pbf ''user_id'' 105 ''bytes''],
     pc_IPFIX =
       [nmf 61 ''flow_direction'', nmf 32 ''icmp_type'', nmf 148 ''flow_id'', nmf 233 ''firewall_event'',
        nmf 61 ''direction'', nmf 56701 ''application_id'', nmf 56702 ''user_id''],
     pc_NetFlowV9 = []\<rparr>"

text \<open>\<^verbatim>\<open>NewFlowSource\<close>: the configuration of a flow source, a mapping file replaces it, and the pipe that decodes it.\<close>

definition flow_config :: "string \<Rightarrow> ProducerConfig option \<Rightarrow> ProducerConfig" where
  "flow_config proto mapping =
     (case mapping of
        Some pc \<Rightarrow> pc
      | None \<Rightarrow>
          if proto = ''asa'' then loadASA else if proto = ''nbar'' then loadNBar
          else if proto = ''pan'' then loadPAN else loadDefault)"

datatype flow_pipe = NetFlowPipe | SFlowPipe | AutoPipe

definition select_pipe :: "string \<Rightarrow> flow_pipe res" where
  "select_pipe proto =
     (if proto \<in> {''ipfix'', ''netflow9'', ''asa'', ''nbar'', ''pan'', ''netflow5'', ''jflow'', ''cflow''} then Inr NetFlowPipe
      else if proto = ''sflow'' then Inr SFlowPipe
      else if proto = ''auto'' then Inr AutoPipe
      else Inl (Errorf ''Unknown flow format'' []))"

type_synonym pbInfo = "string \<times> string"

definition SetConfig :: "ProducerConfig \<Rightarrow> i32 \<Rightarrow> pbInfo option" where
  "SetConfig c = fold (\<lambda>pf m. m(pf_Index pf \<mapsto> (pf_Name pf, pf_Type pf))) (pc_Protobuf c) Map.empty"

section \<open>Messages and custom fields\<close>

text \<open>
  The fields of a message of goflow2 that the driver reads, at the width of the message; \<open>fm_Type\<close> is the name of the
  type, \<open>fm_unknown\<close> the bytes of the fields that are not part of the message, where the producer stores the custom ones.
\<close>

record FlowMessage =
  fm_Type :: string
  fm_TimeReceivedNs :: u64
  fm_SequenceNum :: u32
  fm_SamplingRate :: u64
  fm_SamplerAddress :: bytes
  fm_TimeFlowStartNs :: u64
  fm_TimeFlowEndNs :: u64
  fm_Bytes :: u64
  fm_Packets :: u64
  fm_SrcAddr :: bytes
  fm_DstAddr :: bytes
  fm_Etype :: u32
  fm_Proto :: u32
  fm_SrcPort :: u32
  fm_DstPort :: u32
  fm_InIf :: u32
  fm_OutIf :: u32
  fm_SrcMac :: u64
  fm_DstMac :: u64
  fm_SrcVlan :: u32
  fm_DstVlan :: u32
  fm_VlanId :: u32
  fm_IpTos :: u32
  fm_ForwardingStatus :: u32
  fm_IpTtl :: u32
  fm_TcpFlags :: u32
  fm_IcmpType :: u32
  fm_IcmpCode :: u32
  fm_Ipv6FlowLabel :: u32
  fm_FragmentId :: u32
  fm_FragmentOffset :: u32
  fm_SrcAs :: u32
  fm_DstAs :: u32
  fm_NextHop :: bytes
  fm_NextHopAs :: u32
  fm_SrcNet :: u32
  fm_DstNet :: u32
  fm_MplsTtl :: "u32 list"
  fm_unknown :: bytes

text \<open>The functions of \<^verbatim>\<open>protowire\<close>: a value and the number of bytes read, which is negative for an error.\<close>

record protowire =
  ConsumeTag :: "bytes \<Rightarrow> i32 \<times> int \<times> int"
  ConsumeFieldValue :: "i32 \<Rightarrow> int \<Rightarrow> bytes \<Rightarrow> int"
  ConsumeVarint :: "bytes \<Rightarrow> u64 \<times> int"
  ConsumeBytes :: "bytes \<Rightarrow> bytes \<times> int"

definition VarintType :: int where
  "VarintType = 0"

definition BytesType :: int where
  "BytesType = 2"

definition Int2ip :: "u32 \<Rightarrow> bytes" where
  "Int2ip nn = map (\<lambda>k. ucast (drop_bit k nn)) [24, 16, 8, 0]"

text \<open>Writes to the two maps of custom fields, which \<^verbatim>\<open>toJCHF\<close> has made.\<close>

definition set_str :: "string \<Rightarrow> string \<Rightarrow> JCHF \<Rightarrow> JCHF" where
  "set_str k v j = j\<lparr>j_CustomStr := map_option (\<lambda>m. m(k \<mapsto> v)) (j_CustomStr j)\<rparr>"

definition set_big :: "string \<Rightarrow> i64 \<Rightarrow> JCHF \<Rightarrow> JCHF" where
  "set_big k v j = j\<lparr>j_CustomBigInt := map_option (\<lambda>m. m(k \<mapsto> v)) (j_CustomBigInt j)\<rparr>"

definition bytes_string :: "bytes \<Rightarrow> string" where
  "bytes_string bs = map (\<lambda>b. char_of (unat b)) bs"

text \<open>What the body of the loop of \<^verbatim>\<open>mapCustoms\<close> stores for one field.\<close>

definition custom_field :: "protowire \<Rightarrow> (i32 \<Rightarrow> pbInfo option) \<Rightarrow> i32 \<Rightarrow> int \<Rightarrow> bytes \<Rightarrow> JCHF \<Rightarrow> JCHF" where
  "custom_field pw pb2ixd num dataType data inp =
     (case pb2ixd num of
        None \<Rightarrow> inp
      | Some (name, _) \<Rightarrow>
          if dataType = VarintType then
            (let v = fst (ConsumeVarint pw data) in
             if strings_HasPrefix name ''ip_'' then set_str name (IP_String (Int2ip (ucast v))) inp
             else set_big name v inp)
          else if dataType = BytesType then
            (let v = fst (ConsumeBytes pw data) in
             if strings_HasPrefix name ''ip_'' then
               set_str name (if length v = 4 then IPv4_String [v ! 3, v ! 2, v ! 1, v ! 0] else IP_String v) inp
             else set_str name (bytes_string v) inp)
          else inp)"

definition slice_panic :: "'a res" where
  "slice_panic = Inl (Panic ''slice bounds out of range'')"

partial_function (option) mapCustoms_loop ::
  "protowire \<Rightarrow> (i32 \<Rightarrow> pbInfo option) \<Rightarrow> bytes \<Rightarrow> int \<Rightarrow> JCHF \<Rightarrow> JCHF res option" where
  "mapCustoms_loop pw pb2ixd unk offset inp =
     (if offset < int (length unk) then
        (if offset < 0 then Some slice_panic
         else case ConsumeTag pw (drop (nat offset) unk) of (num, dataType, len1) \<Rightarrow>
           if offset + len1 < 0 \<or> int (length unk) < offset + len1 then Some slice_panic
           else
             let len2 = ConsumeFieldValue pw num dataType (drop (nat (offset + len1)) unk) in
             if len2 < 0 \<or> int (length unk) < offset + len1 + len2 then Some slice_panic
             else mapCustoms_loop pw pb2ixd unk (offset + len1 + len2)
               (custom_field pw pb2ixd num dataType (take (nat len2) (drop (nat (offset + len1)) unk)) inp))
      else Some (Inr inp))"

definition mapCustoms :: "protowire \<Rightarrow> (i32 \<Rightarrow> pbInfo option) option \<Rightarrow> FlowMessage \<Rightarrow> JCHF \<Rightarrow> JCHF res option" where
  "mapCustoms pw pb2ixd m inp =
     (case pb2ixd of None \<Rightarrow> Some (Inr inp) | Some pb \<Rightarrow> mapCustoms_loop pw pb (fm_unknown m) 0 inp)"

section \<open>From a message to a flow record\<close>

record Driver =
  dr_fields :: "string list"
  dr_devices :: "string \<Rightarrow> Device option"
  dr_maxBatchSize :: nat
  dr_resolv :: "Resolver option"
  dr_pb2ixd :: "(i32 \<Rightarrow> pbInfo option) option"
  dr_metrics :: "string \<Rightarrow> nat option"

definition big_endian8 :: "u64 \<Rightarrow> bytes" where
  "big_endian8 n = map (\<lambda>k. ucast (drop_bit k n)) [56, 48, 40, 32, 24, 16, 8, 0]"

definition mac_String :: "u64 \<Rightarrow> string" where
  "mac_String n = HardwareAddr_String (drop 2 (big_endian8 n))"

definition flow_direction_field :: "JCHF \<Rightarrow> JCHF" where
  "flow_direction_field j =
     (case gm_lookup (j_CustomBigInt j) ''flow_direction'' of
        None \<Rightarrow> j
      | Some v \<Rightarrow>
          set_str ''FlowDirection'' (if v = 1 then ''egress'' else ''ingress'')
            (j\<lparr>j_CustomBigInt := map_option (\<lambda>m. m(''flow_direction'' := None)) (j_CustomBigInt j)\<rparr>))"

text \<open>The cases of the switch over the configured fields.\<close>

definition field_cases :: "FlowMessage \<Rightarrow> i64 \<Rightarrow> (string \<times> (JCHF \<Rightarrow> JCHF)) list" where
  "field_cases m dir =
     [(''Type'', set_str ''Type'' (fm_Type m)),
      (''TimeReceived'', \<lambda>j. j\<lparr>j_Timestamp := fm_TimeReceivedNs m\<rparr>),
      (''SequenceNum'', set_big ''SequenceNum'' (ucast (fm_SequenceNum m))),
      (''SamplingRate'', \<lambda>j. if fm_SamplingRate m > 0 then j\<lparr>j_SampleRate := ucast (fm_SamplingRate m)\<rparr> else j),
      (''FlowDirection'', flow_direction_field),
      (''SamplerAddress'', set_str ''SamplerAddress'' (IP_String (fm_SamplerAddress m))),
      (''TimeFlowStart'', set_big ''TimeFlowStart'' (fm_TimeFlowStartNs m)),
      (''TimeFlowEnd'', set_big ''TimeFlowEnd'' (fm_TimeFlowEndNs m)),
      (''Bytes'', \<lambda>j. if dir = 1 then j\<lparr>j_OutBytes := fm_Bytes m\<rparr> else j\<lparr>j_InBytes := fm_Bytes m\<rparr>),
      (''Packets'', \<lambda>j. if dir = 1 then j\<lparr>j_OutPkts := fm_Packets m\<rparr> else j\<lparr>j_InPkts := fm_Packets m\<rparr>),
      (''SrcAddr'', \<lambda>j. j\<lparr>j_SrcAddr := IP_String (fm_SrcAddr m)\<rparr>),
      (''DstAddr'', \<lambda>j. j\<lparr>j_DstAddr := IP_String (fm_DstAddr m)\<rparr>),
      (''Etype'', set_big ''Etype'' (ucast (fm_Etype m))),
      (''Proto'', \<lambda>j. j\<lparr>j_Protocol := PROTO_NAMES (ucast (fm_Proto m))\<rparr>),
      (''SrcPort'', \<lambda>j. j\<lparr>j_L4SrcPort := fm_SrcPort m\<rparr>),
      (''DstPort'', \<lambda>j. j\<lparr>j_L4DstPort := fm_DstPort m\<rparr>),
      (''InIf'', \<lambda>j. j\<lparr>j_InputPort := ucast (fm_InIf m)\<rparr>),
      (''OutIf'', \<lambda>j. j\<lparr>j_OutputPort := ucast (fm_OutIf m)\<rparr>),
      (''SrcMac'', \<lambda>j. if fm_SrcMac m > 0 then j\<lparr>j_SrcEthMac := mac_String (fm_SrcMac m)\<rparr> else j),
      (''DstMac'', \<lambda>j. if fm_DstMac m > 0 then j\<lparr>j_DstEthMac := mac_String (fm_DstMac m)\<rparr> else j),
      (''SrcVlan'', \<lambda>j. j\<lparr>j_VlanIn := fm_SrcVlan m\<rparr>),
      (''DstVlan'', \<lambda>j. j\<lparr>j_VlanOut := fm_DstVlan m\<rparr>),
      (''VlanId'', set_big ''VlanId'' (ucast (fm_VlanId m))),
      (''IPTos'', \<lambda>j. j\<lparr>j_Tos := fm_IpTos m\<rparr>),
      (''ForwardingStatus'', set_big ''ForwardingStatus'' (ucast (fm_ForwardingStatus m))),
      (''IPTTL'', set_big ''IPTTL'' (ucast (fm_IpTtl m))),
      (''TCPFlags'', \<lambda>j. j\<lparr>j_TcpFlags := fm_TcpFlags m\<rparr>),
      (''IcmpType'', set_big ''IcmpType'' (ucast (fm_IcmpType m))),
      (''IcmpCode'', set_big ''IcmpCode'' (ucast (fm_IcmpCode m))),
      (''IPv6FlowLabel'', set_big ''IPv6FlowLabel'' (ucast (fm_Ipv6FlowLabel m))),
      (''FragmentId'', set_big ''FragmentId'' (ucast (fm_FragmentId m))),
      (''FragmentOffset'', set_big ''FragmentOffset'' (ucast (fm_FragmentOffset m))),
      (''SrcAS'', \<lambda>j. j\<lparr>j_SrcAs := fm_SrcAs m\<rparr>),
      (''DstAS'', \<lambda>j. j\<lparr>j_DstAs := fm_DstAs m\<rparr>),
      (''NextHop'', \<lambda>j. j\<lparr>j_NextHop := IP_String (fm_NextHop m)\<rparr>),
      (''NextHopAS'', \<lambda>j. j\<lparr>j_DstNextHopAs := fm_NextHopAs m\<rparr>),
      (''SrcNet'', set_big ''SrcNet'' (ucast (fm_SrcNet m))),
      (''DstNet'', set_big ''DstNet'' (ucast (fm_DstNet m))),
      (''MPLSCount'', set_big ''MPLSCount'' (of_nat (length (fm_MplsTtl m))))]"

definition set_field :: "FlowMessage \<Rightarrow> i64 \<Rightarrow> string \<Rightarrow> JCHF \<Rightarrow> JCHF" where
  "set_field m dir field j = (case map_of (field_cases m dir) field of Some f \<Rightarrow> f j | None \<Rightarrow> j)"

definition MissingDeviceIP :: string where
  "MissingDeviceIP = ''1.1.1.255''"

definition new_flow :: JCHF where
  "new_flow = NewJCHF\<lparr>j_CustomStr := Some Map.empty, j_CustomInt := Some Map.empty, j_CustomBigInt := Some Map.empty,
     j_EventType := ''KFlow'', j_Provider := ''kentik-flow-device'', j_ApplySample := True\<rparr>"

text \<open>The device of the sampler: known to the API, or named by its address or by the resolver.\<close>

definition flow_device ::
  "(string \<Rightarrow> string) \<Rightarrow> (string \<Rightarrow> string list option) \<Rightarrow> FlowMessage \<Rightarrow> Driver \<Rightarrow> JCHF \<Rightarrow> (JCHF \<times> Driver) res" where
  "flow_device uni dns m t inp =
     (let addr = IP_String (fm_SamplerAddress m) in
      case dr_devices t addr of
        Some dev \<Rightarrow> Inr (inp\<lparr>j_DeviceName := d_Name dev, j_DeviceId := d_ID dev, j_CompanyId := d_CompanyID dev,
          j_SampleRate := d_SampleRate dev, j_CustomStr := map_option (SetUserTags dev) (j_CustomStr inp)\<rparr>, t)
      | None \<Rightarrow>
          let tagged = (\<lambda>j. case dr_devices t MissingDeviceIP of
                None \<Rightarrow> j | Some mdev \<Rightarrow> j\<lparr>j_CustomStr := map_option (SetUserTags mdev) (j_CustomStr j)\<rparr>)
          in case dr_resolv t of
              None \<Rightarrow> Inr (tagged (inp\<lparr>j_DeviceName := addr\<rparr>), t)
            | Some r \<Rightarrow>
                case Resolve uni dns addr r of
                  Inl e \<Rightarrow> Inl e
                | Inr (dm, r) \<Rightarrow> Inr (tagged (inp\<lparr>j_DeviceName := if dm \<noteq> [] then dm else addr\<rparr>), t\<lparr>dr_resolv := Some r\<rparr>))"

definition mark_metric :: "string \<Rightarrow> Driver \<Rightarrow> Driver" where
  "mark_metric name t = t\<lparr>dr_metrics := (dr_metrics t)(name \<mapsto> (case dr_metrics t name of None \<Rightarrow> 1 | Some n \<Rightarrow> Suc n))\<rparr>"

definition endpoint :: "string \<Rightarrow> u32 \<Rightarrow> string" where
  "endpoint addr port = addr @ '':'' @ nat_Itoa (unat port)"

definition finish_flow :: "JCHF \<Rightarrow> JCHF" where
  "finish_flow j =
     (let j = (if gm_lookup (j_CustomStr j) ''FlowDirection'' = None then set_str ''FlowDirection'' ''ingress'' j else j);
          j = set_str ''src_endpoint'' (endpoint (j_SrcAddr j) (j_L4SrcPort j)) j
      in set_str ''dst_endpoint'' (endpoint (j_DstAddr j) (j_L4DstPort j)) j)"

definition toJCHF ::
  "protowire \<Rightarrow> (string \<Rightarrow> string) \<Rightarrow> (string \<Rightarrow> string list option) \<Rightarrow> FlowMessage \<Rightarrow> Driver \<Rightarrow> (JCHF \<times> Driver) res option" where
  "toJCHF pw uni dns m t =
     (case flow_device uni dns m t new_flow of
        Inl e \<Rightarrow> Some (Inl e)
      | Inr (j, t) \<Rightarrow>
          let t = mark_metric (j_DeviceName j) t;
              j = (if j_SampleRate j = 0 then j\<lparr>j_SampleRate := 1\<rparr> else j)
          in case mapCustoms pw (dr_pb2ixd t) m j of
              None \<Rightarrow> None
            | Some (Inl e) \<Rightarrow> Some (Inl e)
            | Some (Inr j) \<Rightarrow>
                let dir = gm_get 0 (j_CustomBigInt j) ''flow_direction''
                in Some (Inr (finish_flow (fold (set_field m dir) (dr_fields t) j), t)))"

section \<open>The loop over the custom fields\<close>

text \<open>A field of the wire format: its number, its type, and the bytes of its tag and of its value.\<close>

type_synonym wire_field = "i32 \<times> int \<times> bytes \<times> bytes"

fun wire_bytes :: "wire_field \<Rightarrow> bytes" where
  "wire_bytes (num, ty, tag, val) = tag @ val"

text \<open>
  What \<^verbatim>\<open>protowire\<close> promises for an encoded field: the tag is read from its own bytes, and the length of the value
  is found, whatever follows.
\<close>

fun reads_field :: "protowire \<Rightarrow> wire_field \<Rightarrow> bool" where
  "reads_field pw (num, ty, tag, val) \<longleftrightarrow> tag \<noteq> [] \<and>
     (\<forall>rest. ConsumeTag pw (tag @ rest) = (num, ty, int (length tag)) \<and>
             ConsumeFieldValue pw num ty (val @ rest) = int (length val))"

fun store_field :: "protowire \<Rightarrow> (i32 \<Rightarrow> pbInfo option) \<Rightarrow> wire_field \<Rightarrow> JCHF \<Rightarrow> JCHF" where
  "store_field pw pb (num, ty, tag, val) = custom_field pw pb num ty val"

lemma mapCustoms_loop_fields:
  assumes "\<forall>f \<in> set fs. reads_field pw f"
  shows "mapCustoms_loop pw pb (pre @ concat (map wire_bytes fs)) (int (length pre)) j = Some (Inr (fold (store_field pw pb) fs j))"
  using assms
proof (induction fs arbitrary: pre j)
  case Nil
  show ?case by (subst mapCustoms_loop.simps) simp
next
  case (Cons f fs)
  obtain num ty tag val where f: "f = (num, ty, tag, val)" by (metis prod_cases4)
  let ?rest = "concat (map wire_bytes fs)"
  let ?unk = "pre @ concat (map wire_bytes (f # fs))"
  have unk: "?unk = pre @ tag @ val @ ?rest" by (simp add: f)
  have reads: "reads_field pw f" using Cons.prems by simp
  then have tag: "tag \<noteq> []" "ConsumeTag pw (tag @ val @ ?rest) = (num, ty, int (length tag))"
    "ConsumeFieldValue pw num ty (val @ ?rest) = int (length val)"
    by (auto simp: f)
  have pos: "0 < int (length tag) + (int (length val) + int (length ?rest))" using tag(1) by (simp add: add_pos_nonneg)
  have "mapCustoms_loop pw pb ?unk (int (length pre)) j =
      mapCustoms_loop pw pb ?unk (int (length (pre @ tag @ val))) (custom_field pw pb num ty val j)"
    unfolding unk using tag pos
    by (subst mapCustoms_loop.simps) (simp add: nat_add_distrib Let_def add.commute add.left_commute)
  also have "?unk = (pre @ tag @ val) @ ?rest" by (simp add: f)
  also have "mapCustoms_loop pw pb ((pre @ tag @ val) @ ?rest) (int (length (pre @ tag @ val))) (custom_field pw pb num ty val j) =
      Some (Inr (fold (store_field pw pb) fs (custom_field pw pb num ty val j)))"
    using Cons.prems by (intro Cons.IH) simp
  finally show ?case by (simp add: f)
qed

lemma mapCustoms_fields:
  assumes "\<forall>f \<in> set fs. reads_field pw f" "fm_unknown m = concat (map wire_bytes fs)"
  shows "mapCustoms pw (Some pb) m j = Some (Inr (fold (store_field pw pb) fs j))"
  using mapCustoms_loop_fields [OF assms(1), of pb "[]" j] by (simp add: mapCustoms_def assms(2))

section \<open>What the steps of the conversion keep\<close>

text \<open>The parts of a record that neither custom fields nor tags touch.\<close>

lemma set_str_keeps [simp]:
  "j_SampleRate (set_str k v j) = j_SampleRate j" "j_InBytes (set_str k v j) = j_InBytes j" "j_OutBytes (set_str k v j) = j_OutBytes j"
  "j_InPkts (set_str k v j) = j_InPkts j" "j_OutPkts (set_str k v j) = j_OutPkts j" "j_DeviceName (set_str k v j) = j_DeviceName j"
  "j_DeviceId (set_str k v j) = j_DeviceId j" "j_CompanyId (set_str k v j) = j_CompanyId j"
  "j_CustomBigInt (set_str k v j) = j_CustomBigInt j" "j_CustomStr (set_str k v j) = map_option (\<lambda>m. m(k \<mapsto> v)) (j_CustomStr j)"
  "j_SrcAddr (set_str k v j) = j_SrcAddr j" "j_DstAddr (set_str k v j) = j_DstAddr j"
  "j_L4SrcPort (set_str k v j) = j_L4SrcPort j" "j_L4DstPort (set_str k v j) = j_L4DstPort j"
  by (simp_all add: set_str_def)

lemma set_big_keeps [simp]:
  "j_SampleRate (set_big k v j) = j_SampleRate j" "j_InBytes (set_big k v j) = j_InBytes j" "j_OutBytes (set_big k v j) = j_OutBytes j"
  "j_InPkts (set_big k v j) = j_InPkts j" "j_OutPkts (set_big k v j) = j_OutPkts j" "j_DeviceName (set_big k v j) = j_DeviceName j"
  "j_DeviceId (set_big k v j) = j_DeviceId j" "j_CompanyId (set_big k v j) = j_CompanyId j"
  "j_CustomStr (set_big k v j) = j_CustomStr j" "j_CustomBigInt (set_big k v j) = map_option (\<lambda>m. m(k \<mapsto> v)) (j_CustomBigInt j)"
  by (simp_all add: set_big_def)

definition same_core :: "JCHF \<Rightarrow> JCHF \<Rightarrow> bool" where
  "same_core j j' \<longleftrightarrow> j_SampleRate j' = j_SampleRate j \<and> j_InBytes j' = j_InBytes j \<and> j_OutBytes j' = j_OutBytes j \<and>
     j_InPkts j' = j_InPkts j \<and> j_OutPkts j' = j_OutPkts j \<and> j_DeviceName j' = j_DeviceName j \<and>
     j_DeviceId j' = j_DeviceId j \<and> j_CompanyId j' = j_CompanyId j \<and>
     (j_CustomStr j' = None \<longleftrightarrow> j_CustomStr j = None) \<and> (j_CustomBigInt j' = None \<longleftrightarrow> j_CustomBigInt j = None)"

lemma same_core_refl [simp]: "same_core j j"
  by (simp add: same_core_def)

lemma same_core_trans: "same_core i j \<Longrightarrow> same_core j k \<Longrightarrow> same_core i k"
  by (simp add: same_core_def)

lemma custom_field_core: "same_core j (custom_field pw pb num ty data j)"
  by (auto simp: custom_field_def same_core_def Let_def split: option.splits)

lemma store_fields_core: "same_core j (fold (store_field pw pb) fs j)"
proof (induction fs arbitrary: j)
  case (Cons f fs)
  obtain num ty tag val where f: "f = (num, ty, tag, val)" by (metis prod_cases4)
  show ?case using same_core_trans [OF custom_field_core Cons.IH] by (simp add: f)
qed simp

section \<open>The switch over the fields\<close>

lemma field_cases_distinct: "distinct (map fst (field_cases m dir))"
  by (simp add: field_cases_def)

lemma fold_set_field_all:
  assumes "list_all (\<lambda>(n, f). \<forall>j. P j \<longrightarrow> P (f j)) (field_cases m dir)" "P j"
  shows "P (fold (set_field m dir) ns j)"
  using assms(2)
proof (induction ns arbitrary: j)
  case (Cons n ns)
  have "P (set_field m dir n j)"
    using assms(1) Cons.prems by (auto simp: set_field_def list_all_iff split: option.splits dest!: map_of_SomeD)
  then show ?case using Cons.IH by simp
qed simp

text \<open>
  What only one case of the switch changes: \<open>h\<close> reads a part of the record, \<open>g\<close> is what the case of \<open>fld\<close> does to
  it. Since \<open>g\<close> is idempotent it does not matter how often the field is listed.
\<close>

lemma fold_set_field_one:
  assumes "list_all (\<lambda>(n, f). n \<noteq> fld \<longrightarrow> (\<forall>j. h (f j) = h j)) (field_cases m dir)"
    "\<And>j. h (set_field m dir fld j) = g (h j)" "\<And>x. g (g x) = g x"
  shows "h (fold (set_field m dir) ns j) = (if fld \<in> set ns then g (h j) else h j)"
proof (induction ns arbitrary: j)
  case (Cons n ns)
  have "h (set_field m dir n j) = h j" if "n \<noteq> fld"
    using assms(1) that by (fastforce simp: set_field_def list_all_iff split: option.splits dest!: map_of_SomeD)
  then show ?case using Cons.IH [of "set_field m dir n j"] assms(2) [of j] assms(3) by (cases "n = fld") auto
qed simp

definition on_side :: "i64 \<Rightarrow> JCHF \<Rightarrow> bool" where
  "on_side dir j \<longleftrightarrow> (if dir = 1 then j_InBytes j = 0 \<and> j_InPkts j = 0 else j_OutBytes j = 0 \<and> j_OutPkts j = 0)"

definition made :: "JCHF \<Rightarrow> bool" where
  "made j \<longleftrightarrow> j_CustomStr j \<noteq> None \<and> j_CustomBigInt j \<noteq> None"

lemma flow_direction_field_keeps [simp]:
  "j_SampleRate (flow_direction_field j) = j_SampleRate j" "j_InBytes (flow_direction_field j) = j_InBytes j"
  "j_OutBytes (flow_direction_field j) = j_OutBytes j" "j_InPkts (flow_direction_field j) = j_InPkts j"
  "j_OutPkts (flow_direction_field j) = j_OutPkts j" "j_DeviceName (flow_direction_field j) = j_DeviceName j"
  "j_DeviceId (flow_direction_field j) = j_DeviceId j" "j_CompanyId (flow_direction_field j) = j_CompanyId j"
  by (simp_all add: flow_direction_field_def split: option.splits)

lemma made_steps [simp]:
  "made (set_str k v j) = made j" "made (set_big k w j) = made j" "made (flow_direction_field j) = made j"
  by (auto simp: made_def flow_direction_field_def split: option.splits)

lemma ucast_rate:
  assumes "(r :: u64) < 2 ^ 32" "0 < r"
  shows "(ucast r :: u32) \<noteq> 0"
proof
  assume "(ucast r :: u32) = 0"
  then have "(ucast (ucast r :: u32) :: u64) = 0" by simp
  then have "take_bit 32 r = 0" by (simp add: ucast_ucast_take_bit)
  then show False using assms by (simp add: take_bit_small)
qed

lemma fields_rate:
  assumes "fm_SamplingRate m < 2 ^ 32" "j_SampleRate j \<noteq> 0"
  shows "j_SampleRate (fold (set_field m dir) ns j) \<noteq> 0"
  by (rule fold_set_field_all [where P = "\<lambda>j. j_SampleRate j \<noteq> 0"])
    (use assms in \<open>simp_all add: field_cases_def ucast_rate\<close>)

lemma fields_side: "on_side dir j \<Longrightarrow> on_side dir (fold (set_field m dir) ns j)"
  by (rule fold_set_field_all [where P = "on_side dir"]) (simp_all add: field_cases_def on_side_def)

lemma fields_made: "made j \<Longrightarrow> made (fold (set_field m dir) ns j)"
  by (rule fold_set_field_all [where P = made]) (simp_all add: field_cases_def, simp_all add: made_def)

lemma fields_device:
  "j_DeviceName (fold (set_field m dir) ns j) = j_DeviceName j" "j_DeviceId (fold (set_field m dir) ns j) = j_DeviceId j"
  "j_CompanyId (fold (set_field m dir) ns j) = j_CompanyId j"
  using fold_set_field_all [where P = "\<lambda>i. j_DeviceName i = j_DeviceName j \<and> j_DeviceId i = j_DeviceId j \<and> j_CompanyId i = j_CompanyId j"
      and m = m and dir = dir and ns = ns and j = j]
  by (simp_all add: field_cases_def)

definition counter_of :: "i64 \<Rightarrow> JCHF \<Rightarrow> u64 \<times> u64" where
  "counter_of dir j = (if dir = 1 then (j_OutBytes j, j_OutPkts j) else (j_InBytes j, j_InPkts j))"

lemma fields_bytes:
  "fst (counter_of dir (fold (set_field m dir) ns j)) = (if ''Bytes'' \<in> set ns then fm_Bytes m else fst (counter_of dir j))"
  by (rule fold_set_field_one [where h = "\<lambda>j. fst (counter_of dir j)" and g = "\<lambda>_. fm_Bytes m"])
    (simp_all add: field_cases_def counter_of_def set_field_def)

lemma fields_packets:
  "snd (counter_of dir (fold (set_field m dir) ns j)) = (if ''Packets'' \<in> set ns then fm_Packets m else snd (counter_of dir j))"
  by (rule fold_set_field_one [where h = "\<lambda>j. snd (counter_of dir j)" and g = "\<lambda>_. fm_Packets m"])
    (simp_all add: field_cases_def counter_of_def set_field_def)

definition direction_label :: "i64 \<Rightarrow> string" where
  "direction_label v = (if v = 1 then ''egress'' else ''ingress'')"

definition direction_state :: "JCHF \<Rightarrow> i64 option \<times> string option \<times> bool" where
  "direction_state j = (gm_lookup (j_CustomBigInt j) ''flow_direction'', gm_lookup (j_CustomStr j) ''FlowDirection'', j_CustomStr j = None)"

definition direction_step :: "i64 option \<times> string option \<times> bool \<Rightarrow> i64 option \<times> string option \<times> bool" where
  "direction_step s = (case s of
     (None, l, n) \<Rightarrow> (None, l, n)
   | (Some v, l, n) \<Rightarrow> (None, if n then l else Some (direction_label v), n))"

lemma direction_state_step: "direction_state (flow_direction_field j) = direction_step (direction_state j)"
  by (auto simp: direction_state_def direction_step_def flow_direction_field_def direction_label_def gm_lookup_def split: option.splits)

lemma direction_state_keeps:
  "k \<noteq> ''FlowDirection'' \<Longrightarrow> direction_state (set_str k v j) = direction_state j"
  "k' \<noteq> ''flow_direction'' \<Longrightarrow> direction_state (set_big k' w j) = direction_state j"
  by (auto simp: direction_state_def gm_lookup_def split: option.splits)

lemma fields_direction:
  "direction_state (fold (set_field m dir) ns j) =
     (if ''FlowDirection'' \<in> set ns then direction_step (direction_state j) else direction_state j)"
proof (rule fold_set_field_one)
  show "list_all (\<lambda>(n, f). n \<noteq> ''FlowDirection'' \<longrightarrow> (\<forall>j. direction_state (f j) = direction_state j)) (field_cases m dir)"
    by (simp add: field_cases_def direction_state_keeps) (simp add: direction_state_def)
  show "direction_state (set_field m dir ''FlowDirection'' j) = direction_step (direction_state j)" for j
    by (simp add: field_cases_def set_field_def direction_state_step)
  show "direction_step (direction_step x) = direction_step x" for x
    by (auto simp: direction_step_def split: prod.splits option.splits)
qed

section \<open>The conversion as a whole\<close>

definition named_answers :: "(string \<Rightarrow> string list option) \<Rightarrow> bool" where
  "named_answers dns \<longleftrightarrow> (\<forall>ip as. dns ip \<noteq> Some ([] # as))"

lemma pick_name_ok: "(\<forall>as. answer \<noteq> Some ([] # as)) \<Longrightarrow> \<exists>s. pick_name uni answer = Inr s"
  by (auto simp: pick_name_def split: option.splits list.splits)

lemma Resolve_ok: "named_answers dns \<Longrightarrow> \<exists>s r'. Resolve uni dns ip r = Inr (s, r')"
  using pick_name_ok [of "dns ip" uni] by (auto simp: Resolve_def named_answers_def split: option.splits sum.splits)

text \<open>The device part of a new record: counters are zero, the maps are there, a known device gives its identity.\<close>

lemma flow_device_ok:
  assumes "named_answers dns"
  shows "\<exists>j t'. flow_device uni dns m t new_flow = Inr (j, t') \<and> dr_fields t' = dr_fields t \<and> dr_pb2ixd t' = dr_pb2ixd t \<and>
    dr_metrics t' = dr_metrics t \<and> dr_devices t' = dr_devices t \<and> made j \<and> j_CustomBigInt j = j_CustomBigInt new_flow \<and>
    counter_of 1 j = (0, 0) \<and> counter_of 0 j = (0, 0) \<and>
    (\<forall>d. dr_devices t (IP_String (fm_SamplerAddress m)) = Some d \<longrightarrow>
       j_DeviceName j = d_Name d \<and> j_DeviceId j = d_ID d \<and> j_CompanyId j = d_CompanyID d)"
proof (cases "dr_devices t (IP_String (fm_SamplerAddress m))")
  case None
  have untagged: "\<exists>j t'. flow_device uni dns m t new_flow = Inr (j, t') \<and>
      j = (case dr_devices t MissingDeviceIP of None \<Rightarrow> new_flow\<lparr>j_DeviceName := s\<rparr>
        | Some d \<Rightarrow> new_flow\<lparr>j_DeviceName := s, j_CustomStr := map_option (SetUserTags d) (j_CustomStr new_flow)\<rparr>) \<and>
      t' = t\<lparr>dr_resolv := r\<rparr>" if "dr_resolv t = None \<and> r = None \<and> s = IP_String (fm_SamplerAddress m) \<or>
      (\<exists>r0 r1 dm. dr_resolv t = Some r0 \<and> Resolve uni dns (IP_String (fm_SamplerAddress m)) r0 = Inr (dm, r1) \<and> r = Some r1 \<and>
        s = (if dm \<noteq> [] then dm else IP_String (fm_SamplerAddress m)))" for r s
    using that None by (auto simp: flow_device_def Let_def split: option.splits)
  obtain r s where "dr_resolv t = None \<and> r = None \<and> s = IP_String (fm_SamplerAddress m) \<or>
      (\<exists>r0 r1 dm. dr_resolv t = Some r0 \<and> Resolve uni dns (IP_String (fm_SamplerAddress m)) r0 = Inr (dm, r1) \<and> r = Some r1 \<and>
        s = (if dm \<noteq> [] then dm else IP_String (fm_SamplerAddress m)))"
    using Resolve_ok [OF assms] by (cases "dr_resolv t") (auto, metis)
  from untagged [OF this] None show ?thesis
    by (auto simp: made_def new_flow_def counter_of_def NewJCHF_def split: option.splits)
next
  case (Some d)
  then show ?thesis
    by (simp add: flow_device_def Let_def made_def new_flow_def counter_of_def NewJCHF_def)
qed

text \<open>The direction a message carries in its custom fields.\<close>

definition decoded_direction :: "protowire \<Rightarrow> (i32 \<Rightarrow> pbInfo option) \<Rightarrow> wire_field list \<Rightarrow> i64 option" where
  "decoded_direction pw pb fs = gm_lookup (j_CustomBigInt (fold (store_field pw pb) fs new_flow)) ''flow_direction''"

lemma custom_field_big:
  "j_CustomBigInt j = j_CustomBigInt j' \<Longrightarrow> j_CustomBigInt (custom_field pw pb num ty data j) = j_CustomBigInt (custom_field pw pb num ty data j')"
  by (auto simp: custom_field_def Let_def split: option.splits)

lemma store_fields_big:
  "j_CustomBigInt j = j_CustomBigInt j' \<Longrightarrow>
     j_CustomBigInt (fold (store_field pw pb) fs j) = j_CustomBigInt (fold (store_field pw pb) fs j')"
proof (induction fs arbitrary: j j')
  case (Cons f fs)
  obtain num ty tag val where f: "f = (num, ty, tag, val)" by (metis prod_cases4)
  show ?case using Cons.IH [OF custom_field_big [OF Cons.prems]] by (simp add: f)
qed simp

lemma finish_flow_core: "same_core j (finish_flow j)"
  by (auto simp: finish_flow_def same_core_def Let_def)

lemma finish_flow_strings:
  assumes "made j"
  shows "gm_lookup (j_CustomStr (finish_flow j)) ''FlowDirection'' =
      Some (case gm_lookup (j_CustomStr j) ''FlowDirection'' of None \<Rightarrow> ''ingress'' | Some l \<Rightarrow> l)"
    "gm_lookup (j_CustomStr (finish_flow j)) ''src_endpoint'' = Some (endpoint (j_SrcAddr (finish_flow j)) (j_L4SrcPort (finish_flow j)))"
    "gm_lookup (j_CustomStr (finish_flow j)) ''dst_endpoint'' = Some (endpoint (j_DstAddr (finish_flow j)) (j_L4DstPort (finish_flow j)))"
  using assms by (auto simp: finish_flow_def made_def Let_def gm_lookup_def split: option.splits)


lemma strconv_Atoi_range: "strconv_Atoi s = Some n \<Longrightarrow> - (2 ^ 63) \<le> n \<and> n < 2 ^ 63"
  by (auto simp: strconv_Atoi_def Let_def split: if_splits)

lemma sint_atoi: "strconv_Atoi s = Some n \<Longrightarrow> sint (of_int n :: u64) = n"
  using strconv_Atoi_range [of s n] by (simp add: signed_of_int signed_take_bit_int_eq_self)

text \<open>Whatever the custom fields are, a conversion that returns a record has left the identity of the device alone.\<close>

lemma mapCustoms_loop_core:
  assumes "mapCustoms_loop pw pb unk offset j = Some r"
  shows "case r of Inl _ \<Rightarrow> True | Inr j' \<Rightarrow> same_core j j'"
proof (rule mapCustoms_loop.raw_induct [where P = "\<lambda>pw pb unk offset j r. case r of Inl _ \<Rightarrow> True | Inr j' \<Rightarrow> same_core j j'", OF _ assms])
  fix loop pw pb unk offset j r
  assume IH: "\<And>pw pb unk offset j r. loop pw pb unk offset j = Some r \<Longrightarrow> case r of Inl _ \<Rightarrow> True | Inr j' \<Rightarrow> same_core j j'"
    and body: "(if offset < int (length unk) then
        (if offset < 0 then Some slice_panic
         else case ConsumeTag pw (drop (nat offset) unk) of (num, dataType, len1) \<Rightarrow>
           if offset + len1 < 0 \<or> int (length unk) < offset + len1 then Some slice_panic
           else
             let len2 = ConsumeFieldValue pw num dataType (drop (nat (offset + len1)) unk) in
             if len2 < 0 \<or> int (length unk) < offset + len1 + len2 then Some slice_panic
             else loop pw pb unk (offset + len1 + len2)
               (custom_field pw pb num dataType (take (nat len2) (drop (nat (offset + len1)) unk)) j))
      else Some (Inr j)) = Some r"
  show "case r of Inl _ \<Rightarrow> True | Inr j' \<Rightarrow> same_core j j'"
  proof (cases r)
    case (Inr j')
    have "j' = j \<or> (\<exists>off num ty data. loop pw pb unk off (custom_field pw pb num ty data j) = Some r)"
      using body Inr unfolding Let_def slice_panic_def by (simp split: if_split_asm prod.split_asm) blast
    then consider "j' = j" | off num ty data where "loop pw pb unk off (custom_field pw pb num ty data j) = Some r"
      by blast
    then show ?thesis
    proof cases
      case 2
      have "same_core (custom_field pw pb num ty data j) j'" using IH [OF 2] Inr by simp
      with same_core_trans [OF custom_field_core] show ?thesis by (simp add: Inr)
    qed (simp add: Inr)
  qed simp
qed

lemma toJCHF_device:
  assumes "toJCHF pw uni dns m t = Some (Inr (j, t'))" "dr_devices t (IP_String (fm_SamplerAddress m)) = Some d"
  shows "j_DeviceName j = d_Name d \<and> j_DeviceId j = d_ID d \<and> j_CompanyId j = d_CompanyID d"
proof -
  define j0 where "j0 = new_flow\<lparr>j_DeviceName := d_Name d, j_DeviceId := d_ID d, j_CompanyId := d_CompanyID d,
    j_SampleRate := d_SampleRate d, j_CustomStr := map_option (SetUserTags d) (j_CustomStr new_flow)\<rparr>"
  define j1 where "j1 = (if j_SampleRate j0 = 0 then j0\<lparr>j_SampleRate := 1\<rparr> else j0)"
  have dev: "flow_device uni dns m t new_flow = Inr (j0, t)"
    using assms(2) by (simp add: flow_device_def Let_def j0_def)
  obtain j2 where j2: "mapCustoms pw (dr_pb2ixd t) m j1 = Some (Inr j2)"
    "j = finish_flow (fold (set_field m (gm_get 0 (j_CustomBigInt j2) ''flow_direction'')) (dr_fields t) j2)"
    using assms(1) by (auto simp: toJCHF_def dev Let_def mark_metric_def j1_def split: option.splits sum.splits)
  have "same_core j1 j2"
    using j2(1) mapCustoms_loop_core by (fastforce simp: mapCustoms_def split: option.splits)
  moreover have "j_DeviceName j1 = d_Name d" "j_DeviceId j1 = d_ID d" "j_CompanyId j1 = d_CompanyID d"
    by (simp_all add: j1_def j0_def)
  ultimately show ?thesis
    unfolding j2(2) using finish_flow_core [of "fold (set_field m (gm_get 0 (j_CustomBigInt j2) ''flow_direction'')) (dr_fields t) j2"]
    by (simp add: same_core_def fields_device)
qed

lemma IP_String_mapped: "length q = 4 \<Longrightarrow> IP_String (v4_prefix @ q) = IPv4_String q"
  by (simp add: IP_String_def IP_To4_def v4_prefix_def)

lemma sends_from_listed:
  assumes "MapDeviceDetailedToDevice (Some dd) = Inr d" "IPv4_String [a, b, c, e] \<in> set (GetSendingIps dd)"
  shows "sends_from d (IP_String [a, b, c, e])"
proof -
  have ips: "d_SendingIps d = List.map_filter ParseIP (GetSendingIps dd)"
    using assms(1) by (auto simp: MapDeviceDetailedToDevice_def Let_def split: option.splits)
  have "v4_prefix @ [a, b, c, e] \<in> set (d_SendingIps d)"
    unfolding ips using assms(2) ParseIP_IPv4_String [of a b c e] by (force simp: List.map_filter_def)
  then have "IP_String (v4_prefix @ [a, b, c, e]) \<in> IP_String ` set (d_SendingIps d)" by (rule imageI)
  then show ?thesis by (simp add: sends_from_def IP_String_mapped IP_String_4)
qed


section \<open>Batches\<close>

text \<open>
  The goroutine \<^verbatim>\<open>run\<close> and the calls of \<^verbatim>\<open>Format\<close> that feed it. \<open>rs_inputs\<close> is the channel, with room for
  \<open>maxBatchSize\<close> flows, \<open>rs_batch\<close> the batch, \<open>rs_sent\<close> the batches sent to the agent and \<open>rs_formatted\<close> all flows
  that \<^verbatim>\<open>Format\<close> has handed over so far. Without room in the channel a flow is handed over only to a waiting \<^verbatim>\<open>run\<close>.
\<close>

record run_state =
  rs_driver :: Driver
  rs_inputs :: "JCHF list"
  rs_batch :: "JCHF list"
  rs_sent :: "JCHF list list"
  rs_formatted :: "JCHF list"
  rs_done :: bool

definition start_run :: "Driver \<Rightarrow> run_state" where
  "start_run t = \<lparr>rs_driver = t, rs_inputs = [], rs_batch = [], rs_sent = [], rs_formatted = [], rs_done = False\<rparr>"

definition send_batch :: "run_state \<Rightarrow> run_state" where
  "send_batch s = s\<lparr>rs_sent := rs_sent s @ [rs_batch s], rs_batch := []\<rparr>"

text \<open>The case of the select that receives a flow, and the case of the send ticker.\<close>

definition take_flow :: "JCHF \<Rightarrow> run_state \<Rightarrow> run_state" where
  "take_flow x s =
     (let s = s\<lparr>rs_batch := rs_batch s @ [x]\<rparr> in
      if dr_maxBatchSize (rs_driver s) \<le> length (rs_batch s) then send_batch s else s)"

definition tick_run :: "run_state \<Rightarrow> run_state" where
  "tick_run s = (if 0 < length (rs_batch s) then send_batch s else s)"

inductive run_step ::
  "protowire \<Rightarrow> (string \<Rightarrow> string) \<Rightarrow> (string \<Rightarrow> string list option) \<Rightarrow> run_state \<Rightarrow> run_state \<Rightarrow> bool" for pw uni dns where
  run_format: "toJCHF pw uni dns m (rs_driver s) = Some (Inr (x, t)) \<Longrightarrow> length (rs_inputs s) < dr_maxBatchSize t \<Longrightarrow>
     run_step pw uni dns s (s\<lparr>rs_driver := t, rs_inputs := rs_inputs s @ [x], rs_formatted := rs_formatted s @ [x]\<rparr>)"
| run_handover: "toJCHF pw uni dns m (rs_driver s) = Some (Inr (x, t)) \<Longrightarrow> rs_inputs s = [] \<Longrightarrow> \<not> rs_done s \<Longrightarrow>
     run_step pw uni dns s (take_flow x (s\<lparr>rs_driver := t, rs_formatted := rs_formatted s @ [x]\<rparr>))"
| run_take: "rs_inputs s = x # xs \<Longrightarrow> \<not> rs_done s \<Longrightarrow> run_step pw uni dns s (take_flow x (s\<lparr>rs_inputs := xs\<rparr>))"
| run_tick: "\<not> rs_done s \<Longrightarrow> run_step pw uni dns s (tick_run s)"
| run_devices: "\<not> rs_done s \<Longrightarrow> run_step pw uni dns s (s\<lparr>rs_driver := (rs_driver s)\<lparr>dr_devices := devs\<rparr>\<rparr>)"
| run_stop: "run_step pw uni dns s (s\<lparr>rs_done := True\<rparr>)"

text \<open>The bound of a batch: at least one flow, since a flow is added before the size is compared.\<close>

definition batch_bound :: "run_state \<Rightarrow> nat" where
  "batch_bound s = max 1 (dr_maxBatchSize (rs_driver s))"

definition run_inv :: "run_state \<Rightarrow> bool" where
  "run_inv s \<longleftrightarrow> concat (rs_sent s) @ rs_batch s @ rs_inputs s = rs_formatted s \<and>
     (\<forall>b \<in> set (rs_sent s). 0 < length b \<and> length b \<le> batch_bound s) \<and>
     length (rs_batch s) < batch_bound s \<and> length (rs_inputs s) \<le> dr_maxBatchSize (rs_driver s)"

lemma toJCHF_batch_size: "toJCHF pw uni dns m t = Some (Inr (x, t')) \<Longrightarrow> dr_maxBatchSize t' = dr_maxBatchSize t"
  by (auto simp: toJCHF_def flow_device_def mark_metric_def Let_def split: sum.splits option.splits)

lemma take_flow_inv:
  assumes "concat (rs_sent s) @ rs_batch s @ x # rs_inputs s = rs_formatted s"
    "\<forall>b \<in> set (rs_sent s). 0 < length b \<and> length b \<le> batch_bound s" "length (rs_batch s) < batch_bound s"
    "length (rs_inputs s) \<le> dr_maxBatchSize (rs_driver s)"
  shows "run_inv (take_flow x s)"
  using assms by (auto simp: run_inv_def take_flow_def send_batch_def batch_bound_def Let_def)

lemma run_step_inv: "run_step pw uni dns s s' \<Longrightarrow> run_inv s \<Longrightarrow> run_inv s'"
proof (induction rule: run_step.induct)
  case (run_format m s x t)
  then show ?case using toJCHF_batch_size [OF run_format.hyps(1)] by (auto simp: run_inv_def batch_bound_def)
next
  case (run_handover m s x t)
  then show ?case using toJCHF_batch_size [OF run_handover.hyps(1)]
    by (intro take_flow_inv) (auto simp: run_inv_def batch_bound_def)
next
  case (run_take s x xs)
  then show ?case by (intro take_flow_inv) (auto simp: run_inv_def batch_bound_def)
qed (auto simp: run_inv_def tick_run_def send_batch_def batch_bound_def)

lemma run_steps_inv: "(run_step pw uni dns)\<^sup>*\<^sup>* s s' \<Longrightarrow> run_inv s \<Longrightarrow> run_inv s'"
  by (induction rule: rtranclp_induct) (auto intro: run_step_inv)

lemma start_run_inv: "run_inv (start_run t)"
  by (simp add: run_inv_def start_run_def batch_bound_def)

text \<open>
  C8. However messages, ticks and updates of the devices interleave, the batches sent to the agent, the batch being
  filled and the flows in the channel are together the flows handed over, each once and in their order; every batch
  sent has at least one flow and at most the batch size (one flow for a batch size of zero).
\<close>

theorem driver_batches_in_order:
  assumes "(run_step pw uni dns)\<^sup>*\<^sup>* (start_run t) s"
  shows "concat (rs_sent s) @ rs_batch s @ rs_inputs s = rs_formatted s \<and>
    (\<forall>b \<in> set (rs_sent s). 0 < length b \<and> length b \<le> max 1 (dr_maxBatchSize (rs_driver s))) \<and>
    length (rs_batch s) < max 1 (dr_maxBatchSize (rs_driver s))"
  using run_steps_inv [OF assms start_run_inv] by (simp add: run_inv_def batch_bound_def)

text \<open>A running driver gets rid of everything it holds: it takes what is in the channel, and the ticker sends the rest.\<close>

lemma take_flow_keeps:
  "rs_done (take_flow x s) = rs_done s" "rs_inputs (take_flow x s) = rs_inputs s"
  "rs_formatted (take_flow x s) = rs_formatted s"
  by (simp_all add: take_flow_def send_batch_def Let_def)

lemma driver_drains:
  assumes "\<not> rs_done s"
  shows "\<exists>s'. (run_step pw uni dns)\<^sup>*\<^sup>* s s' \<and> rs_inputs s' = [] \<and> rs_formatted s' = rs_formatted s \<and> \<not> rs_done s'"
  using assms
proof (induction "rs_inputs s" arbitrary: s)
  case Nil
  then show ?case by auto
next
  case (Cons x xs)
  let ?s = "take_flow x (s\<lparr>rs_inputs := xs\<rparr>)"
  have "run_step pw uni dns s ?s" using Cons.hyps(2) [symmetric] Cons.prems by (rule run_take)
  have "xs = rs_inputs ?s" "\<not> rs_done ?s" using Cons.prems by (simp_all add: take_flow_keeps)
  from Cons.hyps(1) [OF this] obtain s' where "(run_step pw uni dns)\<^sup>*\<^sup>* ?s s'" "rs_inputs s' = []"
    "rs_formatted s' = rs_formatted ?s" "\<not> rs_done s'" by blast
  with \<open>run_step pw uni dns s ?s\<close> have "(run_step pw uni dns)\<^sup>*\<^sup>* s s'" by (simp add: converse_rtranclp_into_rtranclp)
  moreover have "rs_formatted s' = rs_formatted s" using \<open>rs_formatted s' = rs_formatted ?s\<close> by (simp add: take_flow_keeps)
  ultimately show ?case using \<open>rs_inputs s' = []\<close> \<open>\<not> rs_done s'\<close> by blast
qed


section \<open>The presets\<close>

definition preset_names :: "ProducerConfig \<Rightarrow> string list" where
  "preset_names c = map pf_Name (pc_Protobuf c)"

lemma SetConfig_lookup:
  assumes "distinct (map pf_Index (pc_Protobuf c))" "pf \<in> set (pc_Protobuf c)"
  shows "SetConfig c (pf_Index pf) = Some (pf_Name pf, pf_Type pf)"
proof -
  have "fold (\<lambda>pf m. m(pf_Index pf \<mapsto> (pf_Name pf, pf_Type pf))) ps m0 (pf_Index pf) = Some (pf_Name pf, pf_Type pf)"
    if "distinct (map pf_Index ps)" "pf \<in> set ps" for ps and m0 :: "i32 \<Rightarrow> pbInfo option"
    using that
  proof (induction ps arbitrary: m0)
    case (Cons p ps)
    have keep: "fold (\<lambda>pf m. m(pf_Index pf \<mapsto> (pf_Name pf, pf_Type pf))) ps m k = m k" if "k \<notin> pf_Index ` set ps" for m :: "i32 \<Rightarrow> pbInfo option" and k
      using that by (induction ps arbitrary: m) auto
    show ?case
    proof (cases "pf \<in> set ps")
      case False
      then have p: "p = pf" and "pf_Index pf \<notin> pf_Index ` set ps" using Cons.prems by auto
      from keep [OF this(2)] show ?thesis unfolding p fold.simps(2) comp_apply by (rule trans) simp
    qed (use Cons in simp)
  qed simp
  then show ?thesis using assms by (simp add: SetConfig_def)
qed

lemma preset_indices: "list_all (\<lambda>c. distinct (map pf_Index (pc_Protobuf c)) \<and> distinct (preset_names c)) [loadDefault, loadASA, loadNBar, loadPAN]"
  by (simp add: loadDefault_def loadASA_def loadNBar_def loadPAN_def pbf_def preset_names_def)

lemmas preset_defs = loadDefault_def loadASA_def loadNBar_def loadPAN_def pbf_def nmf_def nmp_def preset_names_def

text \<open>
  Every destination of a mapping is declared as a field, except for one: the counter of packets sent by a firewall is
  mapped to a name that is not declared, since the declaration spells it differently.
\<close>

lemma preset_destinations_declared:
  "list_all (\<lambda>c. list_all (\<lambda>f. nm_Destination f \<in> set (preset_names c)) (pc_IPFIX c @ pc_NetFlowV9 c)) [loadDefault, loadNBar, loadPAN]"
  "map nm_Destination (filter (\<lambda>f. nm_Destination f \<notin> set (preset_names loadASA)) (pc_IPFIX loadASA)) = [''out_pkts'']"
  "map pf_Name (filter (\<lambda>p. pf_Name p \<notin> nm_Destination ` set (pc_IPFIX loadASA)) (pc_Protobuf loadASA)) = [''put_pkts'']"
  by (simp_all add: preset_defs)

text \<open>A sampling rate that is a multiple of \<open>2 ^ 32\<close> becomes a sample rate of zero.\<close>

lemma sampling_rate_wraps:
  "fm_SamplingRate m = 2 ^ 32 \<Longrightarrow> j_SampleRate (set_field m dir ''SamplingRate'' j) = 0"
  by (simp add: set_field_def field_cases_def)

section \<open>The resolver\<close>

definition resolver_ok :: "Resolver \<Rightarrow> bool" where
  "resolver_ok r \<longleftrightarrow> distinct (map fst (r_cache r)) \<and> int (length (r_cache r)) \<le> max 0 (r_max r + 1)"

text \<open>The cache never has more than one entry above its limit, and an answer is given again until the cache is cleared.\<close>

lemma NewResolver_ok: "resolver_ok (NewResolver env)"
  by (simp add: NewResolver_def resolver_ok_def)

lemma Resolve_cached:
  assumes "Resolve uni dns ip r = Inr (s, r')" "resolver_ok r"
  shows "resolver_ok r'" "r_max r' = r_max r"
    "map_of (r_cache r) k = Some n \<Longrightarrow> map_of (r_cache r') k = Some n"
    "int (length (r_cache r)) \<le> r_max r \<Longrightarrow> Resolve uni dns' ip r' = Inr (s, r')"
proof -
  have "int (length (AList.update ip v xs)) \<le> int (length xs) + 1" for v and xs :: "(string \<times> string) list"
    by (induction xs) auto
  then have len: "int (length xs) \<le> n \<Longrightarrow> int (length (AList.update ip v xs)) \<le> n + 1" for n v and xs :: "(string \<times> string) list"
    by (smt (verit, best))
  show "resolver_ok r'" "r_max r' = r_max r"
    using assms
    by (auto simp: Resolve_def resolver_ok_def distinct_update max_def not_less len
        split: option.splits if_splits sum.splits)
  show "map_of (r_cache r) k = Some n \<Longrightarrow> map_of (r_cache r') k = Some n"
    using assms(1) by (auto simp: Resolve_def update_conv split: option.splits if_splits sum.splits)
  show "int (length (r_cache r)) \<le> r_max r \<Longrightarrow> Resolve uni dns' ip r' = Inr (s, r')"
    using assms(1) by (auto simp: Resolve_def update_conv split: option.splits if_splits sum.splits)
qed

section \<open>Witnesses\<close>

fun varint :: "bytes \<Rightarrow> (u64 \<times> nat) option" where
  "varint [] = None"
| "varint (b # bs) =
     (if b < 128 then Some (ucast b, 1)
      else map_option (\<lambda>(v, n). (128 * v + ucast (b - 128), Suc n)) (varint bs))"

definition demo_wire :: protowire where
  "demo_wire = \<lparr>ConsumeTag = (\<lambda>b. case varint b of None \<Rightarrow> (0, 0, -1) | Some (v, n) \<Rightarrow> (ucast (v div 8), int (unat (v mod 8)), int n)),
     ConsumeFieldValue = (\<lambda>_ ty b. case varint b of None \<Rightarrow> -1 | Some (v, n) \<Rightarrow> if ty = 2 then int n + int (unat v) else int n),
     ConsumeVarint = (\<lambda>b. case varint b of None \<Rightarrow> (0, -1) | Some (v, n) \<Rightarrow> (v, int n)),
     ConsumeBytes = (\<lambda>b. case varint b of None \<Rightarrow> ([], -1) | Some (v, n) \<Rightarrow> (take (unat v) (drop n b), int n + int (unat v)))\<rparr>"

definition demo_flow_field :: wire_field where
  "demo_flow_field = (99, 0, [152, 6], [1])"

definition demo_flow_message :: FlowMessage where
  "demo_flow_message = \<lparr>fm_Type = ''IPFIX'', fm_TimeReceivedNs = 0, fm_SequenceNum = 0, fm_SamplingRate = 0, fm_SamplerAddress = [10, 0, 0, 1],
     fm_TimeFlowStartNs = 0, fm_TimeFlowEndNs = 0, fm_Bytes = 1000, fm_Packets = 3, fm_SrcAddr = [10, 1, 1, 1], fm_DstAddr = [10, 1, 1, 2],
     fm_Etype = 0, fm_Proto = 6, fm_SrcPort = 80, fm_DstPort = 5000, fm_InIf = 0, fm_OutIf = 0, fm_SrcMac = 0, fm_DstMac = 0, fm_SrcVlan = 0,
     fm_DstVlan = 0, fm_VlanId = 0, fm_IpTos = 0, fm_ForwardingStatus = 0, fm_IpTtl = 0, fm_TcpFlags = 0, fm_IcmpType = 0, fm_IcmpCode = 0,
     fm_Ipv6FlowLabel = 0, fm_FragmentId = 0, fm_FragmentOffset = 0, fm_SrcAs = 0, fm_DstAs = 0, fm_NextHop = [], fm_NextHopAs = 0,
     fm_SrcNet = 0, fm_DstNet = 0, fm_MplsTtl = [], fm_unknown = [152, 6, 1]\<rparr>"

definition demo_loaded :: KentikApi where
  "demo_loaded = demo_api\<lparr>k_devices := [(3, [(7, demo_device)])]\<rparr>"

definition demo_driver :: Driver where
  "demo_driver = \<lparr>dr_fields = [''Bytes'', ''Packets'', ''FlowDirection'', ''SrcAddr'', ''SrcPort''], dr_devices = GetDevicesAsMap (Some demo_loaded) 0,
     dr_maxBatchSize = 1, dr_resolv = None, dr_pb2ixd = Some (SetConfig loadDefault), dr_metrics = Map.empty\<rparr>"

definition no_dns :: "string \<Rightarrow> string list option" where
  "no_dns ip = None"

lemma demo_reads: "reads_field demo_wire demo_flow_field"
  by (simp add: demo_flow_field_def demo_wire_def)

lemma demo_direction: "decoded_direction demo_wire (SetConfig loadDefault) [demo_flow_field] = Some 1"
  by (simp add: decoded_direction_def demo_flow_field_def demo_wire_def custom_field_def SetConfig_def loadDefault_def pbf_def
      VarintType_def strings_HasPrefix_def new_flow_def gm_lookup_def)

lemma demo_unknown: "fm_unknown demo_flow_message = concat (map wire_bytes [demo_flow_field])"
  by (simp add: demo_flow_message_def demo_flow_field_def)


lemma demo_sends: "IPv4_String [10, 0, 0, 1] \<in> set (GetSendingIps demo_message)"
  by code_simp

lemma demo_converts: "\<exists>j t'. toJCHF demo_wire id no_dns demo_flow_message demo_driver = Some (Inr (j, t'))"
proof -
  have "\<forall>f \<in> set [demo_flow_field]. reads_field demo_wire f" using demo_reads by simp
  then have custom: "mapCustoms demo_wire (Some (SetConfig loadDefault)) demo_flow_message j =
      Some (Inr (fold (store_field demo_wire (SetConfig loadDefault)) [demo_flow_field] j))" for j
    by (rule mapCustoms_fields) (rule demo_unknown)
  then show ?thesis
    using flow_device_ok [of no_dns id demo_flow_message demo_driver]
    by (auto simp: toJCHF_def Let_def mark_metric_def named_answers_def no_dns_def demo_driver_def)
qed


lemma demo_driver_run:
  "\<exists>s. (run_step demo_wire id no_dns)\<^sup>*\<^sup>* (start_run demo_driver) s \<and> length (rs_formatted s) = 1 \<and> rs_inputs s = [] \<and> \<not> rs_done s \<and>
     dr_maxBatchSize (rs_driver s) = 1"
proof -
  obtain j t' where run: "toJCHF demo_wire id no_dns demo_flow_message demo_driver = Some (Inr (j, t'))"
    using demo_converts by blast
  then have "toJCHF demo_wire id no_dns demo_flow_message (rs_driver (start_run demo_driver)) = Some (Inr (j, t'))"
    by (simp add: start_run_def)
  note step = run_step.run_handover [OF this]
  let ?s = "take_flow j (start_run demo_driver\<lparr>rs_driver := t', rs_formatted := rs_formatted (start_run demo_driver) @ [j]\<rparr>)"
  have "(run_step demo_wire id no_dns)\<^sup>*\<^sup>* (start_run demo_driver) ?s"
    by (rule r_into_rtranclp, rule step) (simp_all add: start_run_def)
  moreover have "length (rs_formatted ?s) = 1 \<and> rs_inputs ?s = [] \<and> \<not> rs_done ?s"
    by (simp add: take_flow_keeps start_run_def)
  moreover have "dr_maxBatchSize (rs_driver ?s) = 1"
    using toJCHF_batch_size [OF run] by (simp add: take_flow_def send_batch_def start_run_def demo_driver_def Let_def)
  ultimately show ?thesis by blast
qed

theorem driver_batches_in_order_witness:
  "\<exists>s. (run_step demo_wire id no_dns)\<^sup>*\<^sup>* (start_run demo_driver) s \<and> length (concat (rs_sent s)) = 1 \<and> (\<forall>b \<in> set (rs_sent s). length b = 1)"
proof -
  obtain s where s: "(run_step demo_wire id no_dns)\<^sup>*\<^sup>* (start_run demo_driver) s" "length (rs_formatted s) = 1" "rs_inputs s = []"
    "dr_maxBatchSize (rs_driver s) = 1"
    using demo_driver_run by blast
  note inv = driver_batches_in_order [OF s(1), unfolded s(3,4)]
  then have "rs_batch s = []" by simp
  with inv have "concat (rs_sent s) = rs_formatted s" by simp
  moreover from inv have "\<forall>b \<in> set (rs_sent s). length b = 1" by (metis Suc_leI le_antisym max.idem One_nat_def)
  ultimately show ?thesis using s(1,2) by metis
qed


end
