(* ===== verification/Snmp_Trap.thy ===== *)
theory Snmp_Trap
  imports Snmp_Device Flow_Driver Utf8
begin

text \<open>
  \<^verbatim>\<open>pkg/inputs/snmp/traps/traps.go\<close>: the set-up of the listener for traps and the handler that turns a trap into a flow.
  Arguments are the answers of the name servers, regular expressions, the order of their groups, the number that the SNMP library
  makes of a value, and the key-value store of objects. Log lines and the meter of traps are left out.
\<close>

section \<open>The listener\<close>

definition snmpTrapOID :: string where "snmpTrapOID = ''.1.3.6.1.6.3.1.1.4.1''"
definition snmpTrapOID_0 :: string where "snmpTrapOID_0 = ''.1.3.6.1.6.3.1.1.4.1.0''"

text \<open>The last name has a ligature for two letters.\<close>

definition v1TrapEnum :: "(int \<times> string) list" where
  "v1TrapEnum = [(0, ''coldStart''), (1, ''warmStart''), (2, ''linkDown''), (3, ''linkUp''), (4, ''authenticationFailure''), (5, ''egpNeighborLoss''),
     (6, ''enterpriseSpeci'' @ [CHR 0xEF, CHR 0xAC, CHR 0x81] @ ''c'')]"

definition ProviderTrapUnknown :: Provider where "ProviderTrapUnknown = ''kentik-trap-device''"

datatype snmp_version = Version1 | Version2c | Version3

record SnmpTrap =
  st_listen :: string
  st_conf :: SnmpConfig
  st_trap :: SnmpTrapConfig
  st_mibdb :: MibDB
  st_resolv :: "Resolver option"
  st_deviceMap :: "(string \<times> SnmpDeviceConfig) list"
  st_baseTags :: tags
  st_version :: snmp_version

definition trap_defaults :: "SnmpTrapConfig \<Rightarrow> SnmpTrapConfig" where
  "trap_defaults t = t\<lparr>tc_Transport := if tc_Transport t = [] then ''udp'' else tc_Transport t,
     tc_Community := if tc_Community t = [] then ''hello'' else tc_Community t\<rparr>"

text \<open>\<open>v3_error\<close> is the error of the parameters of version 3, if there is one.\<close>

definition trap_version :: "go_error option \<Rightarrow> string \<Rightarrow> snmp_version res" where
  "trap_version v3_error v =
     (if v = ''v1'' then Inr Version1
      else if v = ''v2c'' \<or> v = [] then Inr Version2c
      else if v = ''v3'' then (case v3_error of Some e \<Rightarrow> Inl e | None \<Rightarrow> Inr Version3)
      else Inl (Errorf ''Invalid trap version'' []))"

definition base_tags :: "string \<Rightarrow> tags \<Rightarrow> tags" where
  "base_tags serviceName globalTags =
     fold (\<lambda>(k, v). AList.update (tag_key k) v) globalTags
       (if serviceName \<noteq> [] then [(UserTagPrefix @ ''container_service'', serviceName)] else [])"

definition NewSnmpTrapListener :: "go_error option \<Rightarrow> MibDB \<Rightarrow> Resolver option \<Rightarrow> string \<Rightarrow> tags \<Rightarrow> SnmpConfig \<Rightarrow> SnmpTrap res" where
  "NewSnmpTrapListener v3_error mibdb resolv serviceName globalTags conf =
     (case (sc_Trap conf, sc_Global conf) of
        (Some t, Some g) \<Rightarrow>
          let t' = trap_defaults t;
              conf = conf\<lparr>sc_Trap := Some t', sc_Global := Some (if sg_TimeoutMS g = 0 then g\<lparr>sg_TimeoutMS := 5000\<rparr> else g)\<rparr>
          in map_sum id (\<lambda>v.
             \<lparr>st_listen = tc_Listen t, st_conf = conf, st_trap = t', st_mibdb = mibdb, st_resolv = resolv,
              st_deviceMap = fold (\<lambda>(n, d). AList.update (sd_DeviceIP d) d) (sc_Devices conf) [],
              st_baseTags = base_tags serviceName globalTags, st_version = v\<rparr>) (trap_version v3_error (tc_Version t))
      | _ \<Rightarrow> Inl (Panic ''nil pointer''))"

section \<open>The handler\<close>

record SnmpPacket =
  sp_Version :: snmp_version
  sp_ContextEngineID :: bytes
  sp_Variables :: "SnmpPDU list"
  sp_GenericTrap :: int
  sp_SpecificTrap :: int
  sp_Enterprise :: string
  sp_Timestamp :: u64

record trap_args =
  ta_uni :: "string \<Rightarrow> string"
  ta_dns :: "string \<Rightarrow> string list option"
  ta_regexp :: regexp_engine
  ta_keys :: "(string \<Rightarrow> string option) \<Rightarrow> string list"
  ta_big :: "snmp_value \<Rightarrow> u64"
  ta_ldb :: "(string \<Rightarrow> string option res) option"

text \<open>The context engine id of a packet of version 3 as text.\<close>

definition packet_engine :: "SnmpPacket \<Rightarrow> string res" where
  "packet_engine pkt =
     (if sp_Version pkt = Version3 \<and> sp_ContextEngineID pkt \<noteq> [] then map_sum id (\<lambda>(_, s, _). s) (EngineID (sp_ContextEngineID pkt)) else Inr [])"

definition trap_sender :: "SnmpTrap \<Rightarrow> string \<Rightarrow> string \<Rightarrow> SnmpDeviceConfig option" where
  "trap_sender s addr engineID =
     (case map_of (st_deviceMap s) addr of
        Some d \<Rightarrow> Some d
      | None \<Rightarrow> if engineID = [] then None else List.find (\<lambda>d. sd_EngineID d = engineID) (map snd (st_deviceMap s)))"

record trap_flow =
  tf_DeviceName :: string
  tf_Provider :: Provider
  tf_Str :: tags
  tf_Int :: "(string \<times> i32) list"
  tf_Big :: "(string \<times> i64) list"

text \<open>The flow before the variables, and the listener with its resolver.\<close>

definition start_trap :: "trap_args \<Rightarrow> SnmpTrap \<Rightarrow> string \<Rightarrow> SnmpDeviceConfig option \<Rightarrow> (trap_flow \<times> SnmpTrap) res" where
  "start_trap ta s addr dev =
     (case dev of
        Some d \<Rightarrow> Inr (\<lparr>tf_DeviceName = sd_DeviceName d, tf_Provider = (if tc_TrapOnly (st_trap s) then ProviderTrapUnknown else sd_Provider d),
            tf_Str = Config_SetUserTags d [], tf_Int = [], tf_Big = []\<rparr>, s)
      | None \<Rightarrow>
          let fl = (\<lambda>nm. \<lparr>tf_DeviceName = nm, tf_Provider = ProviderTrapUnknown, tf_Str = put_all (st_baseTags s) [], tf_Int = [], tf_Big = []\<rparr>) in
          (case st_resolv s of
             None \<Rightarrow> Inr (fl addr, s)
           | Some r \<Rightarrow>
               map_sum id (\<lambda>(dm, r). (fl (if dm = [] then addr else dm), s\<lparr>st_resolv := Some r\<rparr>)) (Resolve (ta_uni ta) (ta_dns ta) addr r)))"

definition is_trap_id :: "SnmpPDU \<Rightarrow> bool" where
  "is_trap_id v \<longleftrightarrow> pdu_Name v = snmpTrapOID \<or> pdu_Name v = snmpTrapOID_0"

text \<open>The search for the id of the trap. The last one decides which trap it is; that one was found stays.\<close>

record trap_id =
  ti_trap :: "Trap option"
  ti_found :: bool
  ti_Str :: tags

definition see_trap_id :: "MibDB \<Rightarrow> SnmpPDU \<Rightarrow> trap_id \<Rightarrow> trap_id res" where
  "see_trap_id db v t =
     (if \<not> is_trap_id v \<or> pdu_Type v \<noteq> ObjectIdentifier then Inr t
      else case pdu_Value v of
          S_string toid \<Rightarrow>
            let strs = AList.update ''TrapOID'' toid (ti_Str t) in
            (case GetTrap db toid of
               None \<Rightarrow> Inr (t\<lparr>ti_trap := None, ti_Str := strs\<rparr>)
             | Some tr \<Rightarrow>
                 let strs = AList.update ''TrapName'' (tr_Name tr) strs; idx = GetIndex toid (tr_Oid tr) in
                 Inr \<lparr>ti_trap = Some tr, ti_found = True, ti_Str = if idx \<noteq> [] then AList.update ''Index'' idx strs else strs\<rparr>)
        | _ \<Rightarrow> Inl (Panic ''interface conversion''))"

fun fold_res :: "('a \<Rightarrow> 's \<Rightarrow> 's res) \<Rightarrow> 'a list \<Rightarrow> 's \<Rightarrow> 's res" where
  "fold_res f [] s = Inr s"
| "fold_res f (x # xs) s = (case f x s of Inl e \<Rightarrow> Inl e | Inr s \<Rightarrow> fold_res f xs s)"

text \<open>\<^verbatim>\<open>fmt.Sprintf("%s (%d)", v1TrapEnum[n], n)\<close> and the other fields of version 1.\<close>

definition v1_fields :: "SnmpPacket \<Rightarrow> trap_flow \<Rightarrow> trap_flow" where
  "v1_fields pkt fl =
     (if sp_Version pkt \<noteq> Version1 then fl
      else let n = sp_GenericTrap pkt in
        fl\<lparr>tf_Str := AList.update ''Enterprise'' (sp_Enterprise pkt)
             (AList.update ''GenericTrap'' ((case map_of v1TrapEnum n of Some t \<Rightarrow> t | None \<Rightarrow> []) @ '' ('' @ strconv_Itoa n @ '')'') (tf_Str fl)),
           tf_Int := AList.update ''SpecificTrap'' (word_of_int (sp_SpecificTrap pkt)) (tf_Int fl),
           tf_Big := AList.update ''Timestamp'' (sp_Timestamp pkt) (tf_Big fl)\<rparr>)"

text \<open>A variable by its type; its name is that of the object, or the object id.\<close>

definition variable_name :: "Mib option \<Rightarrow> SnmpPDU \<Rightarrow> string" where
  "variable_name m v = (case m of Some m \<Rightarrow> Mib_GetName (Some m) | None \<Rightarrow> pdu_Name v)"

definition conversion_of :: "Mib option \<Rightarrow> string" where
  "conversion_of m = (case m of Some m \<Rightarrow> mb_Conversion m | None \<Rightarrow> [])"

definition octets_variable :: "trap_args \<Rightarrow> Mib option \<Rightarrow> SnmpPDU \<Rightarrow> tags \<Rightarrow> tags res" where
  "octets_variable ta m v strs =
     map_sum id (\<lambda>(val, ok).
       if \<not> ok then strs
       else if conversion_of m = [] then AList.update (variable_name m v) (SanitizeUTF8 val) strs
       else case GetFromConv (ta_regexp ta) v (conversion_of m) of (_, sval, mval) \<Rightarrow>
         (case mval of
            Some g \<Rightarrow> if ta_keys ta g = [] then AList.update (variable_name m v) sval strs
              else fold (\<lambda>k. AList.update k (case g k of Some t \<Rightarrow> t | None \<Rightarrow> [])) (ta_keys ta g) strs
          | None \<Rightarrow> AList.update (variable_name m v) sval strs))
       (ReadOctetString v False)"

definition id_variable :: "trap_args \<Rightarrow> Mib option \<Rightarrow> SnmpPDU \<Rightarrow> tags \<Rightarrow> tags res" where
  "id_variable ta m v strs =
     (case pdu_Value v of
        S_string val \<Rightarrow>
          let val = (if conversion_of m = [] then val else fst (snd (GetFromConv (ta_regexp ta) v (conversion_of m))))
          in Inr (AList.update (variable_name m v) (SanitizeUTF8 val) strs)
      | _ \<Rightarrow> Inl (Panic ''interface conversion''))"

definition is_number :: "asn1_type \<Rightarrow> bool" where
  "is_number t \<longleftrightarrow> t \<in> {Counter64, Counter32, Gauge32, TimeTicks, Uinteger32, Integer}"

definition put_variable :: "trap_args \<Rightarrow> Mib option \<Rightarrow> SnmpPDU \<Rightarrow> trap_flow \<Rightarrow> trap_flow res" where
  "put_variable ta m v fl =
     (if pdu_Type v = OctetString then map_sum id (\<lambda>strs. fl\<lparr>tf_Str := strs\<rparr>) (octets_variable ta m v (tf_Str fl))
      else if is_number (pdu_Type v) then Inr (fl\<lparr>tf_Big := AList.update (variable_name m v) (ta_big ta (pdu_Value v)) (tf_Big fl)\<rparr>)
      else if pdu_Type v = ObjectIdentifier then map_sum id (\<lambda>strs. fl\<lparr>tf_Str := strs\<rparr>) (id_variable ta m v (tf_Str fl))
      else Inr fl)"

text \<open>The lookup of a variable; an error of the store is logged and the variable is unknown, a panic ends the handler.\<close>

definition lookup_variable :: "trap_args \<Rightarrow> MibDB \<Rightarrow> string \<Rightarrow> (Mib \<times> tags) option res" where
  "lookup_variable ta db nm =
     (case GetForKey (ta_ldb ta) db nm of
        Inl (Panic p) \<Rightarrow> Inl (Panic p)
      | Inl _ \<Rightarrow> Inr None
      | Inr r \<Rightarrow> Inr r)"

definition add_variable :: "trap_args \<Rightarrow> MibDB \<Rightarrow> bool \<Rightarrow> SnmpPDU \<Rightarrow> trap_flow \<Rightarrow> trap_flow res" where
  "add_variable ta db strict v fl =
     (if is_trap_id v then Inr fl
      else case lookup_variable ta db (pdu_Name v) of
          Inl e \<Rightarrow> Inl e
        | Inr None \<Rightarrow> if strict then Inr fl else put_variable ta None v fl
        | Inr (Some (m, vars)) \<Rightarrow> put_variable ta (Some m) v (fl\<lparr>tf_Str := put_all vars (tf_Str fl)\<rparr>))"

definition trap_jchf :: "string \<Rightarrow> trap_flow \<Rightarrow> JCHF" where
  "trap_jchf addr fl = NewJCHF\<lparr>j_CustomStr := Some (map_of (tf_Str fl)), j_CustomInt := Some (map_of (tf_Int fl)), j_CustomBigInt := Some (map_of (tf_Big fl)),
     j_EventType := ''KSnmpTrap'', j_SrcAddr := addr, j_DeviceName := tf_DeviceName fl, j_Provider := tf_Provider fl\<rparr>"

text \<open>\<^verbatim>\<open>handle\<close>: the flow that is sent, if any.\<close>

definition handle_trap :: "trap_args \<Rightarrow> SnmpPacket \<Rightarrow> string \<Rightarrow> SnmpTrap \<Rightarrow> (JCHF option \<times> SnmpTrap) res" where
  "handle_trap ta pkt addr s =
     (case packet_engine pkt of
        Inl e \<Rightarrow> Inl e
      | Inr engineID \<Rightarrow>
          (case start_trap ta s addr (trap_sender s addr engineID) of
             Inl e \<Rightarrow> Inl e
           | Inr (fl, s) \<Rightarrow>
               (case fold_res (see_trap_id (st_mibdb s)) (sp_Variables pkt) \<lparr>ti_trap = None, ti_found = False, ti_Str = tf_Str fl\<rparr> of
                  Inl e \<Rightarrow> Inl e
                | Inr t \<Rightarrow>
                    let strict = tc_DropUndefined (st_trap s) \<or> DropUndefinedVars (ti_trap t) in
                    map_sum id (\<lambda>fl. (if strict \<and> \<not> ti_found t then None else Some (trap_jchf addr fl), s))
                      (fold_res (add_variable ta (st_mibdb s) strict) (sp_Variables pkt) (v1_fields pkt (fl\<lparr>tf_Str := ti_Str t\<rparr>))))))"

section \<open>What a trap becomes\<close>

text \<open>The ids of traps in a packet.\<close>

definition trap_ids :: "SnmpPDU list \<Rightarrow> string list" where
  "trap_ids vs = concat (map (\<lambda>v. if is_trap_id v \<and> pdu_Type v = ObjectIdentifier then (case pdu_Value v of S_string i \<Rightarrow> [i] | _ \<Rightarrow> []) else []) vs)"

definition trap_of :: "MibDB \<Rightarrow> SnmpPDU list \<Rightarrow> Trap option" where
  "trap_of db vs = (if trap_ids vs = [] then None else GetTrap db (last (trap_ids vs)))"

text \<open>The name under which a variable is reported, if it is.\<close>

definition reported :: "trap_args \<Rightarrow> MibDB \<Rightarrow> bool \<Rightarrow> SnmpPDU \<Rightarrow> string option" where
  "reported ta db strict v =
     (case lookup_variable ta db (pdu_Name v) of
        Inr (Some (m, _)) \<Rightarrow> Some (Mib_GetName (Some m))
      | Inr None \<Rightarrow> if strict then None else Some (pdu_Name v)
      | Inl _ \<Rightarrow> None)"

definition number_items :: "trap_args \<Rightarrow> MibDB \<Rightarrow> bool \<Rightarrow> SnmpPDU \<Rightarrow> (string \<times> i64) list" where
  "number_items ta db strict v =
     (if is_trap_id v \<or> \<not> is_number (pdu_Type v) then []
      else case reported ta db strict v of Some nm \<Rightarrow> [(nm, ta_big ta (pdu_Value v))] | None \<Rightarrow> [])"

definition trap_numbers :: "trap_args \<Rightarrow> MibDB \<Rightarrow> bool \<Rightarrow> SnmpPDU list \<Rightarrow> (string \<times> i64) list" where
  "trap_numbers ta db strict vs = concat (map (number_items ta db strict) vs)"

text \<open>A value of the Go type that the SNMP library gives values of its kind.\<close>

definition typed_variable :: "SnmpPDU \<Rightarrow> bool" where
  "typed_variable v \<longleftrightarrow> (pdu_Type v = OctetString \<longrightarrow> (\<exists>bs. pdu_Value v = S_bytes bs)) \<and> (pdu_Type v = ObjectIdentifier \<longrightarrow> (\<exists>s. pdu_Value v = S_string s))"

definition lengths_ok :: "MibDB \<Rightarrow> bool" where
  "lengths_ok db \<longleftrightarrow> (\<forall>(oid, m) \<in> set (db_trapMibs db). \<forall>(nm, p0, p1) \<in> set (mb_VarSet m). 0 \<le> p0 \<and> 0 \<le> p1)"

definition store_ok :: "(string \<Rightarrow> string option res) option \<Rightarrow> bool" where
  "store_ok ldb \<longleftrightarrow> (\<forall>get k p. ldb = Some get \<longrightarrow> get k \<noteq> Inl (Panic p))"

lemma fill_vars_returns: "\<forall>(nm, p0, p1) \<in> set vs. 0 \<le> p0 \<and> 0 \<le> p1 \<Longrightarrow> \<exists>r. fill_vars pts vs attrs = Inr r"
  by (induction pts vs attrs rule: fill_vars.induct) (auto simp: slice_checked_def split: sum.splits)

lemma walk_up_from: "walk_up m pts i = Some v \<Longrightarrow> \<exists>k. m k = Some v"
  by (induction i) (auto split: option.splits)

lemma lookup_variable_returns:
  assumes "lengths_ok db" "store_ok (ta_ldb ta)"
  shows "\<exists>r. lookup_variable ta db nm = Inr r"
proof -
  have "GetForKey (ta_ldb ta) db nm \<noteq> Inl (Panic p)" for p
  proof (cases "map_of (db_trapMibs db) nm")
    case None
    show ?thesis
    proof (cases "walk_oid (map_of (db_trapMibs db)) nm")
      case (Some m)
      then obtain k where "map_of (db_trapMibs db) k = Some m" unfolding walk_oid_def Let_def using walk_up_from by metis
      then have "\<forall>(nm, p0, p1) \<in> set (mb_VarSet m). 0 \<le> p0 \<and> 0 \<le> p1" using assms(1) unfolding lengths_ok_def by (blast dest: map_of_SomeD)
      then obtain r where "fill_vars (strings_Split nm ''.'') (mb_VarSet m) [] = Inr r" using fill_vars_returns by metis
      with None Some show ?thesis by (simp add: GetForKey_def)
    next
      case no: None
      show ?thesis
      proof (cases "ta_ldb ta")
        case (Some get)
        with None no assms(2) show ?thesis by (cases "get nm") (auto simp: GetForKey_def store_ok_def)
      qed (simp add: GetForKey_def None no)
    qed
  qed (simp add: GetForKey_def)
  then show ?thesis unfolding lookup_variable_def by (auto split: sum.splits go_error.splits)
qed

lemma see_trap_ids:
  "\<forall>v \<in> set vs. typed_variable v \<Longrightarrow> \<exists>t'. fold_res (see_trap_id db) vs t = Inr t' \<and>
     ti_trap t' = (if trap_ids vs = [] then ti_trap t else trap_of db vs) \<and>
     (ti_found t' \<longleftrightarrow> ti_found t \<or> (\<exists>i \<in> set (trap_ids vs). GetTrap db i \<noteq> None))"
proof (induction vs arbitrary: t)
  case (Cons v vs)
  have vs: "\<forall>v \<in> set vs. typed_variable v" using Cons.prems by simp
  show ?case
  proof (cases "is_trap_id v \<and> pdu_Type v = ObjectIdentifier")
    case True
    then obtain i where i: "pdu_Value v = S_string i" using Cons.prems by (auto simp: typed_variable_def)
    have ids: "trap_ids (v # vs) = i # trap_ids vs" using True i by (simp add: trap_ids_def)
    obtain t1 where t1: "see_trap_id db v t = Inr t1" "ti_trap t1 = GetTrap db i" "ti_found t1 \<longleftrightarrow> ti_found t \<or> GetTrap db i \<noteq> None"
      using True i by (cases "GetTrap db i") (auto simp: see_trap_id_def Let_def)
    from Cons.IH [OF vs, of t1] show ?thesis using t1 by (auto simp: ids trap_of_def)
  next
    case False
    then have "see_trap_id db v t = Inr t" "trap_ids (v # vs) = trap_ids vs" by (auto simp: see_trap_id_def trap_ids_def)
    with Cons.IH [OF vs, of t] show ?thesis by (auto simp: trap_of_def)
  qed
qed (simp add: trap_ids_def)

lemma put_variable_ok:
  "typed_variable v \<Longrightarrow> \<exists>fl'. put_variable ta m v fl = Inr fl' \<and> tf_DeviceName fl' = tf_DeviceName fl \<and> tf_Provider fl' = tf_Provider fl \<and>
     tf_Big fl' = (if is_number (pdu_Type v) then AList.update (variable_name m v) (ta_big ta (pdu_Value v)) (tf_Big fl) else tf_Big fl)"
  by (cases "pdu_Type v") (auto simp: put_variable_def is_number_def typed_variable_def octets_variable_def ReadOctetString_def id_variable_def Let_def)

lemma add_variable_ok:
  assumes "typed_variable v" "lengths_ok db" "store_ok (ta_ldb ta)"
  shows "\<exists>fl'. add_variable ta db strict v fl = Inr fl' \<and> tf_DeviceName fl' = tf_DeviceName fl \<and> tf_Provider fl' = tf_Provider fl \<and>
     map_of (tf_Big fl') = map_of (tf_Big fl) ++ map_of (number_items ta db strict v)"
proof (cases "is_trap_id v")
  case False
  obtain r where r: "lookup_variable ta db (pdu_Name v) = Inr r" using lookup_variable_returns assms(2,3) by blast
  show ?thesis
  proof (cases r)
    case None
    then show ?thesis using False r put_variable_ok [OF assms(1), of ta None fl]
      by (auto simp: add_variable_def number_items_def reported_def variable_name_def update_conv')
  next
    case (Some mv)
    obtain m vars where mv: "mv = (m, vars)" by (cases mv)
    show ?thesis using False r Some mv put_variable_ok [OF assms(1), of ta "Some m" "fl\<lparr>tf_Str := put_all vars (tf_Str fl)\<rparr>"]
      by (auto simp: add_variable_def number_items_def reported_def variable_name_def update_conv')
  qed
qed (simp add: add_variable_def number_items_def)

lemma rev_number_items: "rev (number_items ta db strict v) = number_items ta db strict v"
  by (simp add: number_items_def split: option.splits)

lemma add_variables:
  "\<forall>v \<in> set vs. typed_variable v \<Longrightarrow> lengths_ok db \<Longrightarrow> store_ok (ta_ldb ta) \<Longrightarrow>
   \<exists>fl'. fold_res (add_variable ta db strict) vs fl = Inr fl' \<and> tf_DeviceName fl' = tf_DeviceName fl \<and> tf_Provider fl' = tf_Provider fl \<and>
     map_of (tf_Big fl') = map_of (tf_Big fl) ++ map_of (rev (trap_numbers ta db strict vs))"
proof (induction vs arbitrary: fl)
  case (Cons v vs)
  obtain f1 where f1: "add_variable ta db strict v fl = Inr f1" "tf_DeviceName f1 = tf_DeviceName fl" "tf_Provider f1 = tf_Provider fl"
    "map_of (tf_Big f1) = map_of (tf_Big fl) ++ map_of (number_items ta db strict v)"
    using add_variable_ok [of v db ta strict fl] Cons.prems by auto
  obtain f2 where f2: "fold_res (add_variable ta db strict) vs f1 = Inr f2" "tf_DeviceName f2 = tf_DeviceName f1" "tf_Provider f2 = tf_Provider f1"
    "map_of (tf_Big f2) = map_of (tf_Big f1) ++ map_of (rev (trap_numbers ta db strict vs))"
    using Cons.IH [of f1] Cons.prems by auto
  have nums: "rev (trap_numbers ta db strict (v # vs)) = rev (trap_numbers ta db strict vs) @ number_items ta db strict v"
    by (simp add: trap_numbers_def rev_number_items)
  show ?case unfolding nums map_of_append using f1 f2 by (simp add: map_add_assoc)
qed (simp add: trap_numbers_def)

lemma store_at_id: "snd (EngineID_loop n k i arr l) = l + 3 * k"
  by (induction n k i arr l rule: EngineID_loop.induct) simp_all

lemma packet_engine_returns: "\<exists>e. packet_engine pkt = Inr e"
proof (cases "sp_Version pkt = Version3 \<and> sp_ContextEngineID pkt \<noteq> []")
  case True
  let ?bv = "sp_ContextEngineID pkt"
  obtain arr l where loop: "EngineID_loop (length ?bv) (length ?bv) 0 (store_at (length ?bv) (hex_Encode ?bv) (make_bytes (3 * length ?bv))) 0 = (arr, l)"
    by (metis prod.exhaust)
  have "l \<noteq> 0" using store_at_id [of "length ?bv" "length ?bv" 0 "store_at (length ?bv) (hex_Encode ?bv) (make_bytes (3 * length ?bv))" 0] loop True by simp
  then show ?thesis using True loop by (simp add: packet_engine_def EngineID_def)
qed (auto simp: packet_engine_def)

lemma start_trap_ok:
  assumes "named_answers (ta_dns ta)"
  shows "\<exists>fl s'. start_trap ta s addr dev = Inr (fl, s') \<and> tf_Big fl = [] \<and> st_mibdb s' = st_mibdb s \<and> st_trap s' = st_trap s \<and>
    (\<forall>d. dev = Some d \<longrightarrow> tf_DeviceName fl = sd_DeviceName d) \<and>
    (tf_Provider fl = (case dev of Some d \<Rightarrow> if tc_TrapOnly (st_trap s) then ProviderTrapUnknown else sd_Provider d | None \<Rightarrow> ProviderTrapUnknown))"
proof (cases "dev = None \<and> st_resolv s \<noteq> None")
  case True
  then obtain r where r: "dev = None" "st_resolv s = Some r" by auto
  obtain nm r' where "Resolve (ta_uni ta) (ta_dns ta) addr r = Inr (nm, r')" using Resolve_ok [OF assms] by blast
  with r show ?thesis by (simp add: start_trap_def)
qed (auto simp: start_trap_def split: option.splits)

text \<open>
  C16. The handler returns for every packet whose values have the types of the SNMP library. It sends nothing exactly when unknown
  traps are to be dropped, by the configuration or by the last trap that the packet names, and no id in the packet is one of a known trap.
  Otherwise it sends one flow: it carries the device that sent the trap and exactly the numbers of the packet, each under the name of
  its object, the last one of a name; the numbers of unknown objects are left out when they are to be dropped and carry the object id
  as their name when not.
\<close>

theorem trap_forwarded:
  assumes "\<forall>v \<in> set (sp_Variables pkt). typed_variable v" "lengths_ok (st_mibdb s)" "store_ok (ta_ldb ta)" "named_answers (ta_dns ta)"
  shows "let vs = sp_Variables pkt; db = st_mibdb s; strict = tc_DropUndefined (st_trap s) \<or> DropUndefinedVars (trap_of db vs) in
    \<exists>r s' e. handle_trap ta pkt addr s = Inr (r, s') \<and> packet_engine pkt = Inr e \<and>
      (r = None \<longleftrightarrow> strict \<and> (\<forall>i \<in> set (trap_ids vs). GetTrap db i = None)) \<and>
      (\<forall>fl. r = Some fl \<longrightarrow>
         (\<forall>d. trap_sender s addr e = Some d \<longrightarrow> j_DeviceName fl = sd_DeviceName d) \<and>
         j_CustomBigInt fl = Some ((if sp_Version pkt = Version1 then [''Timestamp'' \<mapsto> sp_Timestamp pkt] else Map.empty) ++ map_of (rev (trap_numbers ta db strict vs))))"
proof -
  obtain e where e: "packet_engine pkt = Inr e" using packet_engine_returns by blast
  obtain fl s' where st: "start_trap ta s addr (trap_sender s addr e) = Inr (fl, s')" "tf_Big fl = []" "st_mibdb s' = st_mibdb s" "st_trap s' = st_trap s"
    "\<forall>d. trap_sender s addr e = Some d \<longrightarrow> tf_DeviceName fl = sd_DeviceName d"
    using start_trap_ok [OF assms(4)] by blast
  let ?vs = "sp_Variables pkt" and ?db = "st_mibdb s" and ?t0 = "\<lparr>ti_trap = None, ti_found = False, ti_Str = tf_Str fl\<rparr>"
  obtain t where t0: "fold_res (see_trap_id ?db) ?vs ?t0 = Inr t" "ti_trap t = (if trap_ids ?vs = [] then ti_trap ?t0 else trap_of ?db ?vs)"
    "ti_found t \<longleftrightarrow> ti_found ?t0 \<or> (\<exists>i \<in> set (trap_ids ?vs). GetTrap ?db i \<noteq> None)"
    using see_trap_ids [OF assms(1), of ?db ?t0] by blast
  have t: "fold_res (see_trap_id ?db) ?vs ?t0 = Inr t" "ti_trap t = trap_of ?db ?vs" "ti_found t \<longleftrightarrow> (\<exists>i \<in> set (trap_ids ?vs). GetTrap ?db i \<noteq> None)"
    using t0 by (simp_all add: trap_of_def)
  let ?strict = "tc_DropUndefined (st_trap s) \<or> DropUndefinedVars (trap_of ?db ?vs)" and ?f0 = "v1_fields pkt (fl\<lparr>tf_Str := ti_Str t\<rparr>)"
  obtain f where f: "fold_res (add_variable ta ?db ?strict) ?vs ?f0 = Inr f" "tf_DeviceName f = tf_DeviceName ?f0"
    "map_of (tf_Big f) = map_of (tf_Big ?f0) ++ map_of (rev (trap_numbers ta ?db ?strict ?vs))"
    using add_variables [OF assms(1,2,3), of ?strict ?f0] by blast
  have f0: "tf_DeviceName ?f0 = tf_DeviceName fl" "map_of (tf_Big ?f0) = (if sp_Version pkt = Version1 then [''Timestamp'' \<mapsto> sp_Timestamp pkt] else Map.empty)"
    using st(2) by (auto simp: v1_fields_def Let_def)
  let ?r = "if ?strict \<and> \<not> ti_found t then None else Some (trap_jchf addr f)"
  have run: "handle_trap ta pkt addr s = Inr (?r, s')"
    using e st t(1,2) f(1) by (simp add: handle_trap_def Let_def)
  have decided: "?r = None \<longleftrightarrow> ?strict \<and> (\<forall>i \<in> set (trap_ids ?vs). GetTrap ?db i = None)" using t(3) by simp
  have jchf: "fl' = trap_jchf addr f" if "?r = Some fl'" for fl' using that by (simp split: if_splits)
  have "j_DeviceName (trap_jchf addr f) = tf_DeviceName fl" "j_CustomBigInt (trap_jchf addr f) = Some (map_of (tf_Big f))"
    using f(2) f0(1) by (simp_all add: trap_jchf_def)
  note flow = this [unfolded f(3) f0(2)]
  show ?thesis unfolding Let_def
  proof (intro exI conjI allI impI)
    show "handle_trap ta pkt addr s = Inr (?r, s')" "packet_engine pkt = Inr e" by (rule run, rule e)
    show "?r = None \<longleftrightarrow> ?strict \<and> (\<forall>i \<in> set (trap_ids ?vs). GetTrap ?db i = None)" by (rule decided)
    show "j_DeviceName fl' = sd_DeviceName d" if "?r = Some fl'" "trap_sender s addr e = Some d" for fl' d
      using jchf [OF that(1)] flow(1) st(5) that(2) by simp
    show "j_CustomBigInt fl' = Some ((if sp_Version pkt = Version1 then [''Timestamp'' \<mapsto> sp_Timestamp pkt] else Map.empty) ++
        map_of (rev (trap_numbers ta ?db ?strict ?vs)))" if "?r = Some fl'" for fl'
      using jchf [OF that] flow(2) by (simp only:)
  qed
qed

text \<open>
  A trap of version 1 has its id in fields of the packet and not among the variables, so that all of them are dropped when unknown
  traps are.
\<close>

lemma v1_traps_dropped:
  "sp_Version pkt = Version1 \<Longrightarrow> \<forall>v \<in> set (sp_Variables pkt). \<not> is_trap_id v \<Longrightarrow> tc_DropUndefined (st_trap s) \<Longrightarrow>
   handle_trap ta pkt addr s = Inr (r, s') \<Longrightarrow> r = None"
proof -
  assume a: "sp_Version pkt = Version1" "\<forall>v \<in> set (sp_Variables pkt). \<not> is_trap_id v" "tc_DropUndefined (st_trap s)" "handle_trap ta pkt addr s = Inr (r, s')"
  have "fold_res (see_trap_id db) vs t = Inr t" if "\<forall>v \<in> set vs. \<not> is_trap_id v" for db vs t
    using that by (induction vs) (auto simp: see_trap_id_def)
  with a(2) have ids: "fold_res (see_trap_id db) (sp_Variables pkt) t = Inr t" for db t by blast
  have "st_trap s1 = st_trap s" if "start_trap ta s addr dev = Inr (fl, s1)" for dev fl s1
    using that by (cases "Resolve (ta_uni ta) (ta_dns ta) addr (the (st_resolv s))") (auto simp: start_trap_def Let_def split: option.splits)
  moreover have "r = None" if "map_sum id (\<lambda>fl. (None, b)) x = Inr (r, s')" for x :: "trap_flow res" and b
    using that by (cases x) auto
  ultimately show ?thesis using a by (auto simp: handle_trap_def ids Let_def split: sum.splits)
qed

text \<open>The length of a variable may be negative in the file; then the first trap that has it ends the program.\<close>

lemma negative_length_panics:
  "fill_vars (strings_Split ''.1.2.7'' ''.'') (fst (trap_parts (strings_Split ''1.2.{v:-1}'' ''.'') 0 [] [])) [] = Inl (Panic ''slice bounds out of range'')"
  by (simp add: strings_Split.simps strings_HasPrefix_def is_variable_def strconv_Atoi_def is_digit_def digits_value_def slice_checked_def)

section \<open>Witness of a trap\<close>

definition demo_trap_db :: MibDB where
  "demo_trap_db = parseTrapsFromYml demo_pa
     [\<lparr>tr_Oid = ''1.3.6.1.9'', tr_Name = ''fanFailed'', tr_DropUndefined = False, tr_Events = [zero_oid\<lparr>o_Oid := ''1.3.6.1.9.1'', o_Name := ''Fan''\<rparr>], tr_Attributes = []\<rparr>]
     \<lparr>db_heap = [], db_profiles = [], db_trapMibs = [], db_traps = [], db_validate = False\<rparr>"

definition demo_trap_config :: SnmpTrapConfig where
  "demo_trap_config = \<lparr>tc_Listen = ''0.0.0.0:162'', tc_Community = [], tc_Version = [], tc_Transport = [], tc_V3 = None, tc_TrapOnly = False,
     tc_DropUndefined = True, tc_Endpoint = [], tc_EndpointPort = 0\<rparr>"

definition demo_listener :: SnmpTrap where
  "demo_listener = \<lparr>st_listen = ''0.0.0.0:162'', st_conf = \<lparr>sc_Devices = [(''r1'', demo_config)], sc_Trap = Some demo_trap_config, sc_Global = Some zero_global, sc_doneInit = False\<rparr>,
     st_trap = demo_trap_config, st_mibdb = demo_trap_db, st_resolv = None, st_deviceMap = [(''10.0.0.1'', demo_config)], st_baseTags = [], st_version = Version2c\<rparr>"

definition demo_packet :: SnmpPacket where
  "demo_packet = \<lparr>sp_Version = Version2c, sp_ContextEngineID = [], sp_Variables = [
       \<lparr>pdu_Value = S_string ''.1.3.6.1.9'', pdu_Name = snmpTrapOID_0, pdu_Type = ObjectIdentifier\<rparr>,
       \<lparr>pdu_Value = S_int 3, pdu_Name = ''.1.3.6.1.9.1'', pdu_Type = Integer\<rparr>,
       \<lparr>pdu_Value = S_int 4, pdu_Name = ''.1.3.6.1.8'', pdu_Type = Integer\<rparr>],
     sp_GenericTrap = 0, sp_SpecificTrap = 0, sp_Enterprise = [], sp_Timestamp = 0\<rparr>"

definition demo_trap_args :: trap_args where
  "demo_trap_args = \<lparr>ta_uni = id, ta_dns = (\<lambda>_. None), ta_regexp = (\<lambda>_. Inl []), ta_keys = (\<lambda>_. []), ta_big = ToInt64, ta_ldb = None\<rparr>"

lemma demo_trap_db: "db_traps demo_trap_db = [(''.1.3.6.1.9'', \<lparr>tr_Oid = ''1.3.6.1.9'', tr_Name = ''fanFailed'', tr_DropUndefined = False,
     tr_Events = [zero_oid\<lparr>o_Oid := ''1.3.6.1.9.1'', o_Name := ''Fan''\<rparr>], tr_Attributes = []\<rparr>)]"
  "db_trapMibs demo_trap_db = [(''.1.3.6.1.9.1'', zero_mib\<lparr>mb_Oid := ''1.3.6.1.9.1'', mb_Name := ''Fan'', mb_Extra := ''fanFailed'', mb_Mib := ''1.3.6.1.9''\<rparr>)]"
  by (simp_all add: demo_trap_db_def parseTrapsFromYml_def trap_mib_def trap_enum_def zero_oid_def zero_mib_def normalizeOid_def strings_Split.simps
      strings_HasPrefix_def is_variable_def)

theorem trap_forwarded_witness:
  "\<exists>fl s'. handle_trap demo_trap_args demo_packet ''10.0.0.1'' demo_listener = Inr (Some fl, s') \<and> j_DeviceName fl = ''r1'' \<and>
     j_CustomBigInt fl = Some [''Fan'' \<mapsto> 3]"
proof -
  let ?ta = demo_trap_args and ?pkt = demo_packet and ?s = demo_listener and ?db = demo_trap_db
  have "\<forall>v \<in> set (sp_Variables ?pkt). typed_variable v" by (simp add: demo_packet_def typed_variable_def)
  moreover have "lengths_ok (st_mibdb ?s)" by (simp add: demo_listener_def lengths_ok_def demo_trap_db zero_mib_def)
  moreover have "store_ok (ta_ldb ?ta)" "named_answers (ta_dns ?ta)" by (simp_all add: demo_trap_args_def store_ok_def named_answers_def)
  ultimately obtain r s' e where run: "handle_trap ?ta ?pkt ''10.0.0.1'' ?s = Inr (r, s')"
    and drop: "r = None \<longleftrightarrow> (tc_DropUndefined (st_trap ?s) \<or> DropUndefinedVars (trap_of (st_mibdb ?s) (sp_Variables ?pkt))) \<and>
      (\<forall>i \<in> set (trap_ids (sp_Variables ?pkt)). GetTrap (st_mibdb ?s) i = None)"
    and sent: "\<forall>fl. r = Some fl \<longrightarrow> (\<forall>d. trap_sender ?s ''10.0.0.1'' e = Some d \<longrightarrow> j_DeviceName fl = sd_DeviceName d) \<and>
      j_CustomBigInt fl = Some ((if sp_Version ?pkt = Version1 then [''Timestamp'' \<mapsto> sp_Timestamp ?pkt] else Map.empty) ++
        map_of (rev (trap_numbers ?ta (st_mibdb ?s) (tc_DropUndefined (st_trap ?s) \<or> DropUndefinedVars (trap_of (st_mibdb ?s) (sp_Variables ?pkt))) (sp_Variables ?pkt))))"
    using trap_forwarded [of ?pkt ?s ?ta "''10.0.0.1''", unfolded Let_def] by blast
  have ids: "trap_ids (sp_Variables ?pkt) = [''.1.3.6.1.9'']"
    by (simp add: demo_packet_def trap_ids_def is_trap_id_def snmpTrapOID_def snmpTrapOID_0_def)
  have "GetTrap ?db ''.1.3.6.1.9'' \<noteq> None" by (simp add: GetTrap_def demo_trap_db)
  with drop ids obtain fl where fl: "r = Some fl" by (auto simp: demo_listener_def)
  have known: "lookup_variable ?ta ?db ''.1.3.6.1.9.1'' = Inr (Some (zero_mib\<lparr>mb_Oid := ''1.3.6.1.9.1'', mb_Name := ''Fan'', mb_Extra := ''fanFailed'', mb_Mib := ''1.3.6.1.9''\<rparr>, []))"
    by (simp add: lookup_variable_def GetForKey_def demo_trap_db zero_mib_def)
  have unknown: "lookup_variable ?ta ?db ''.1.3.6.1.8'' = Inr None"
    by (simp add: lookup_variable_def GetForKey_def demo_trap_db walk_oid_def strings_Split.simps strings_HasPrefix_def demo_trap_args_def numeral_eq_Suc)
  have numbers: "ta_big ?ta = ToInt64" by (simp add: demo_trap_args_def)
  have "trap_numbers ?ta ?db True (sp_Variables ?pkt) = [(''Fan'', 3)]"
    by (simp add: trap_numbers_def number_items_def demo_packet_def reported_def known unknown is_trap_id_def is_number_def snmpTrapOID_def snmpTrapOID_0_def
        Mib_GetName_def zero_mib_def numbers)
  then have "j_CustomBigInt fl = Some [''Fan'' \<mapsto> 3]" using sent fl by (simp add: demo_listener_def demo_trap_config_def demo_packet_def)
  moreover have "j_DeviceName fl = ''r1''" using sent fl by (simp add: demo_listener_def trap_sender_def demo_config_def)
  ultimately show ?thesis using run fl by blast
qed

end
