(* ===== verification/Tag_Map.thy ===== *)
theory Tag_Map
  imports Kentik_Api
begin

text \<open>
  \<^verbatim>\<open>pkg/maps\<close> and \<^verbatim>\<open>pkg/cat/mapping.go\<close>: the mappers that turn the numbers in flows into names. There are three
  implementations of the interface \<^verbatim>\<open>TagMapper\<close>: one that knows nothing, one read from a CSV file and one that asks
  the Kentik API in the background. A file is the list of its lines.
\<close>

section \<open>Names\<close>

definition FixupName :: "(string \<Rightarrow> string) \<Rightarrow> string \<Rightarrow> string" where
  "FixupName uni name = strings_ToLower uni (strings_ReplaceAll name '' '' ''_'')"

function nat_hex :: "nat \<Rightarrow> string" where
  "nat_hex n = (if n < 16 then [hex_char n] else nat_hex (n div 16) @ [hex_char (n mod 16)])"
  by pat_completeness auto
termination by (relation "measure id") auto

declare nat_hex.simps [simp del]

text \<open>\<^verbatim>\<open>strconv.FormatInt(v, 16)\<close>\<close>

definition FormatHex :: "int \<Rightarrow> string" where
  "FormatHex v = (if v < 0 then CHR ''-'' # nat_hex (nat (- v)) else nat_hex (nat v))"

section \<open>The mapper of a file\<close>

type_synonym tag = "string \<times> string"

text \<open>The only function a file can name is \<^verbatim>\<open>to_hex\<close>, so a function is the column it writes.\<close>

record FileTagMapper =
  ft_tags :: "u32 \<Rightarrow> (string \<Rightarrow> tag option) option"
  ft_funcs :: "string \<Rightarrow> string option"
  ft_kvs :: "u32 \<Rightarrow> string option"

definition empty_FileTagMapper :: FileTagMapper where
  "empty_FileTagMapper = \<lparr>ft_tags = Map.empty, ft_funcs = Map.empty, ft_kvs = Map.empty\<rparr>"

definition add_kv :: "string \<Rightarrow> string \<Rightarrow> FileTagMapper \<Rightarrow> FileTagMapper" where
  "add_kv ids v m =
     (case strconv_Atoi ids of None \<Rightarrow> m | Some ida \<Rightarrow> m\<lparr>ft_kvs := (ft_kvs m)(of_int ida \<mapsto> v)\<rparr>)"

definition add_tag :: "(string \<Rightarrow> string) \<Rightarrow> string \<Rightarrow> string \<Rightarrow> string \<Rightarrow> string \<Rightarrow> FileTagMapper \<Rightarrow> FileTagMapper" where
  "add_tag uni col name ids v m =
     (case strconv_Atoi ids of
        None \<Rightarrow> m
      | Some ida \<Rightarrow>
          let t = (case ft_tags m (of_int ida) of None \<Rightarrow> Map.empty | Some t \<Rightarrow> t)
          in m\<lparr>ft_tags := (ft_tags m)(of_int ida \<mapsto> t(FixupName uni col \<mapsto> (FixupName uni name, FixupName uni v)))\<rparr>)"

text \<open>One line of the file, split at commas into at most four parts.\<close>

definition load_line :: "(string \<Rightarrow> string) \<Rightarrow> string \<Rightarrow> FileTagMapper \<Rightarrow> FileTagMapper" where
  "load_line uni line m =
     (case strings_SplitN line '','' 4 of
        [a, b] \<Rightarrow> add_kv a b m
      | [a, b, c] \<Rightarrow>
          if c = ''to_hex'' then m\<lparr>ft_funcs := (ft_funcs m)(a \<mapsto> FixupName uni b)\<rparr>
          else add_kv a (strings_Join [b, c] '','') m
      | [a, b, c, d] \<Rightarrow> add_tag uni a b c d m
      | _ \<Rightarrow> m)"

definition loadPath :: "(string \<Rightarrow> string) \<Rightarrow> string list \<Rightarrow> FileTagMapper" where
  "loadPath uni ls = fold (load_line uni) ls empty_FileTagMapper"

definition file_LookupKV :: "FileTagMapper \<Rightarrow> u32 \<Rightarrow> string" where
  "file_LookupKV m k = (case ft_kvs m k of Some v \<Rightarrow> v | None \<Rightarrow> [])"

definition file_tag :: "FileTagMapper \<Rightarrow> u32 \<Rightarrow> string \<Rightarrow> tag option" where
  "file_tag m v col = (case ft_tags m v of None \<Rightarrow> None | Some tvv \<Rightarrow> tvv col)"

definition file_LookupTagValue :: "FileTagMapper \<Rightarrow> u64 \<Rightarrow> u32 \<Rightarrow> string \<Rightarrow> tag option" where
  "file_LookupTagValue m cid tagval col =
     (case ft_funcs m col of
        Some c \<Rightarrow> Some (c, FormatHex (uint tagval))
      | None \<Rightarrow> file_tag m tagval col)"

definition file_LookupTagValueBig :: "FileTagMapper \<Rightarrow> u64 \<Rightarrow> i64 \<Rightarrow> string \<Rightarrow> tag option" where
  "file_LookupTagValueBig m cid tagval col =
     (case ft_funcs m col of
        Some c \<Rightarrow> Some (c, FormatHex (sint tagval))
      | None \<Rightarrow> file_tag m (ucast tagval) col)"

section \<open>The mapper of the API\<close>

definition CHAN_SLACK :: nat where
  "CHAN_SLACK = 10000"

definition MAX_LOOKUP_SET :: nat where
  "MAX_LOOKUP_SET = 2000"

text \<open>\<open>at_lookups\<close> is the set of the background loop: values to ask for, without repetition.\<close>

record ApiTagMapper =
  at_tags :: "u32 \<Rightarrow> string option"
  at_check :: "u32 list"
  at_searched :: "u32 \<Rightarrow> bool"
  at_colNames :: "string \<Rightarrow> string option"
  at_lookups :: "u32 list"

definition add_col_name :: "(string \<Rightarrow> string) \<Rightarrow> string \<Rightarrow> (string \<Rightarrow> string option) \<Rightarrow> string \<Rightarrow> string option" where
  "add_col_name uni line m =
     (let line = strings_TrimSpace line in
      if line = [] then m
      else case strings_SplitN line '','' 2 of
          [a, b] \<Rightarrow> m(FixupName uni (strings_TrimSpace a) \<mapsto> FixupName uni (strings_TrimSpace b))
        | _ \<Rightarrow> m)"

definition NewApiTagMapper :: "(string \<Rightarrow> string) \<Rightarrow> string list option \<Rightarrow> ApiTagMapper" where
  "NewApiTagMapper uni colNameFile =
     \<lparr>at_tags = Map.empty, at_check = [], at_searched = (\<lambda>_. False),
      at_colNames = (case colNameFile of None \<Rightarrow> Map.empty | Some ls \<Rightarrow> fold (add_col_name uni) ls Map.empty),
      at_lookups = []\<rparr>"

definition api_LookupKV :: "ApiTagMapper \<Rightarrow> u32 \<Rightarrow> string" where
  "api_LookupKV m k = (case at_tags m k of Some v \<Rightarrow> v | None \<Rightarrow> [])"

text \<open>A value that is neither known nor searched is put on the channel, if there is room.\<close>

definition api_LookupTagValue :: "u64 \<Rightarrow> u32 \<Rightarrow> string \<Rightarrow> ApiTagMapper \<Rightarrow> tag option \<times> ApiTagMapper" where
  "api_LookupTagValue cid tagval col m =
     (case at_colNames m col of
        None \<Rightarrow> (None, m)
      | Some fullColName \<Rightarrow>
          if tagval = 0 then (None, m)
          else case at_tags m tagval of
              Some v \<Rightarrow> (Some (fullColName, v), m)
            | None \<Rightarrow>
                if at_searched m tagval then (None, m)
                else (None, if length (at_check m) < CHAN_SLACK then m\<lparr>at_check := at_check m @ [tagval]\<rparr> else m))"

definition api_LookupTagValueBig :: "u64 \<Rightarrow> i64 \<Rightarrow> string \<Rightarrow> ApiTagMapper \<Rightarrow> tag option \<times> ApiTagMapper" where
  "api_LookupTagValueBig cid tagval col = api_LookupTagValue cid (ucast tagval) col"

text \<open>What a background lookup writes back: nothing on an error.\<close>

definition doLookup :: "services \<Rightarrow> KentikApi \<Rightarrow> u32 list \<Rightarrow> ApiTagMapper \<Rightarrow> ApiTagMapper" where
  "doLookup svc api lookups m =
     (if lookups = [] then m
      else case LookupEnumerationValues svc api lookups of
          Inl _ \<Rightarrow> m
        | Inr vals \<Rightarrow> m\<lparr>at_searched := (\<lambda>v. at_searched m v \<or> v \<in> set lookups), at_tags := at_tags m ++ vals\<rparr>)"

text \<open>
  \<^verbatim>\<open>startCheckService\<close>: values taken from the channel are collected, and a tick or a full set starts a lookup with
  the set collected so far. The lookup runs in a goroutine of its own, so its write is a later step.
\<close>

definition check_receive :: "ApiTagMapper \<Rightarrow> (ApiTagMapper \<times> u32 list option) option" where
  "check_receive m =
     (case at_check m of
        [] \<Rightarrow> None
      | v # vs \<Rightarrow>
          let ls = List.insert v (at_lookups m) in
          if MAX_LOOKUP_SET \<le> length ls then Some (m\<lparr>at_check := vs, at_lookups := []\<rparr>, Some ls)
          else Some (m\<lparr>at_check := vs, at_lookups := ls\<rparr>, None))"

definition check_tick :: "ApiTagMapper \<Rightarrow> ApiTagMapper \<times> u32 list" where
  "check_tick m = (m\<lparr>at_lookups := []\<rparr>, at_lookups m)"

section \<open>The interface\<close>

datatype TagMapper = NullType | FileMapper FileTagMapper | ApiMapper ApiTagMapper

definition LoadMapper ::
  "(string \<Rightarrow> string) \<Rightarrow> string \<Rightarrow> string \<Rightarrow> string list \<Rightarrow> bool \<Rightarrow> string list option \<Rightarrow> TagMapper" where
  "LoadMapper uni mtype tagMapFilePath ls apic colNameFile =
     (if mtype = ''file'' then
        (if tagMapFilePath \<noteq> [] then FileMapper (loadPath uni ls)
         else if apic then ApiMapper (NewApiTagMapper uni colNameFile) else NullType)
      else if mtype = ''api'' then ApiMapper (NewApiTagMapper uni colNameFile)
      else NullType)"

fun LookupTagValue :: "u64 \<Rightarrow> u32 \<Rightarrow> string \<Rightarrow> TagMapper \<Rightarrow> tag option \<times> TagMapper" where
  "LookupTagValue cid v col NullType = (None, NullType)"
| "LookupTagValue cid v col (FileMapper m) = (file_LookupTagValue m cid v col, FileMapper m)"
| "LookupTagValue cid v col (ApiMapper m) = map_prod id ApiMapper (api_LookupTagValue cid v col m)"

fun LookupTagValueBig :: "u64 \<Rightarrow> i64 \<Rightarrow> string \<Rightarrow> TagMapper \<Rightarrow> tag option \<times> TagMapper" where
  "LookupTagValueBig cid v col NullType = (None, NullType)"
| "LookupTagValueBig cid v col (FileMapper m) = (file_LookupTagValueBig m cid v col, FileMapper m)"
| "LookupTagValueBig cid v col (ApiMapper m) = map_prod id ApiMapper (api_LookupTagValueBig cid v col m)"

fun LookupKV :: "TagMapper \<Rightarrow> u32 \<Rightarrow> string" where
  "LookupKV NullType k = []"
| "LookupKV (FileMapper m) k = file_LookupKV m k"
| "LookupKV (ApiMapper m) k = api_LookupKV m k"

section \<open>What a client may rely on\<close>

text \<open>
  The contract of the interface: a 64 bit value that fits 32 bits is looked up like the 32 bit value, and a lookup does
  not change what any lookup answers.
\<close>

locale tag_mapper =
  fixes lookup :: "u64 \<Rightarrow> u32 \<Rightarrow> string \<Rightarrow> 's \<Rightarrow> tag option \<times> 's"
    and lookup_big :: "u64 \<Rightarrow> i64 \<Rightarrow> string \<Rightarrow> 's \<Rightarrow> tag option \<times> 's"
    and kv :: "'s \<Rightarrow> u32 \<Rightarrow> string"
  assumes big_agrees: "lookup_big cid (ucast v) col s = lookup cid v col s"
    and lookup_stable: "fst (lookup cid' v' col' (snd (lookup cid v col s))) = fst (lookup cid' v' col' s)"
    and kv_stable: "kv (snd (lookup cid v col s)) = kv s"
begin

text \<open>Lookups of a list of values, one after the other as the conversion of a flow does them.\<close>

fun lookups :: "u64 \<Rightarrow> (u32 \<times> string) list \<Rightarrow> 's \<Rightarrow> tag option list \<times> 's" where
  "lookups cid [] s = ([], s)"
| "lookups cid ((v, col) # vs) s =
     (case lookup cid v col s of (t, s) \<Rightarrow> case lookups cid vs s of (ts, s) \<Rightarrow> (t # ts, s))"

lemma lookups_answers: "fst (lookups cid vs s) = map (\<lambda>(v, col). fst (lookup cid v col s)) vs"
proof (induction vs arbitrary: s)
  case (Cons p vs)
  obtain v col where p: "p = (v, col)" by (cases p)
  have "map (\<lambda>(v, col). fst (lookup cid v col (snd (lookup cid (fst p) (snd p) s)))) vs =
      map (\<lambda>(v, col). fst (lookup cid v col s)) vs"
    by (simp add: lookup_stable)
  then show ?case using Cons.IH [of "snd (lookup cid v col s)"] by (simp add: p case_prod_beta)
qed simp

lemma lookups_kv: "kv (snd (lookups cid vs s)) = kv s"
proof (induction vs arbitrary: s)
  case (Cons p vs)
  obtain v col where p: "p = (v, col)" by (cases p)
  show ?case using Cons.IH [of "snd (lookup cid v col s)"] kv_stable [of cid v col s] by (simp add: p case_prod_beta)
qed simp

lemma lookup_again: "fst (lookup cid v col (snd (lookup cid v col s))) = fst (lookup cid v col s)"
  by (rule lookup_stable)

end

lemma api_lookup_fields:
  "at_tags (snd (api_LookupTagValue cid v col m)) = at_tags m"
  "at_searched (snd (api_LookupTagValue cid v col m)) = at_searched m"
  "at_colNames (snd (api_LookupTagValue cid v col m)) = at_colNames m"
  "at_lookups (snd (api_LookupTagValue cid v col m)) = at_lookups m"
  by (simp_all add: api_LookupTagValue_def split: option.splits)

lemma api_lookup_answer:
  "fst (api_LookupTagValue cid v col m) =
     (case at_colNames m col of None \<Rightarrow> None
      | Some c \<Rightarrow> if v = 0 then None else map_option (\<lambda>t. (c, t)) (at_tags m v))"
  by (simp add: api_LookupTagValue_def split: option.splits)

lemma sint_ucast_u32: "sint (ucast (v :: u32) :: u64) = uint v"
proof -
  have "uint v < 2 ^ 32" using uint_lt2p [of v] by simp
  moreover have "- (2 ^ 63) \<le> uint v" by (rule order_trans [OF _ uint_ge_0]) simp
  ultimately have "take_bit 64 (uint v) = uint v" "signed_take_bit 63 (uint v) = uint v"
    by (simp_all add: take_bit_int_eq_self signed_take_bit_int_eq_self)
  then show ?thesis by (simp add: sint_uint uint_up_ucast is_up)
qed

interpretation tm: tag_mapper LookupTagValue LookupTagValueBig LookupKV
proof
  fix cid v col and s :: TagMapper
  show "LookupTagValueBig cid (ucast v) col s = LookupTagValue cid v col s"
    by (cases s) (simp_all add: file_LookupTagValue_def file_LookupTagValueBig_def api_LookupTagValueBig_def sint_ucast_u32
        ucast_up_down split: option.splits)
next
  fix cid cid' v v' col col' and s :: TagMapper
  show "fst (LookupTagValue cid' v' col' (snd (LookupTagValue cid v col s))) = fst (LookupTagValue cid' v' col' s)"
    by (cases s) (simp_all add: api_lookup_answer api_lookup_fields split: option.splits)
next
  fix cid v col and s :: TagMapper
  show "LookupKV (snd (LookupTagValue cid v col s)) = LookupKV s"
    by (cases s) (simp_all add: fun_eq_iff api_LookupKV_def api_lookup_fields)
qed

section \<open>Files\<close>

text \<open>A line of a file: the column, the name it is to get, the number and its text, as the comment in \<^verbatim>\<open>mapping.go\<close> selects them.\<close>

type_synonym tag_line = "string \<times> string \<times> u32 \<times> string"

fun print_tag :: "tag_line \<Rightarrow> string" where
  "print_tag (col, name, v, tx) = col @ '','' @ name @ '','' @ nat_Itoa (unat v) @ '','' @ tx"

fun plain_tag :: "tag_line \<Rightarrow> bool" where
  "plain_tag (col, name, v, tx) \<longleftrightarrow> CHR '','' \<notin> set col \<and> CHR '','' \<notin> set name"

lemma Itoa_no_comma: "CHR '','' \<notin> set (nat_Itoa n)"
proof
  assume "CHR '','' \<in> set (nat_Itoa n)"
  then have "is_digit (CHR '','')" using nat_Itoa_props [of n] by (auto simp: list_all_iff)
  then show False by (simp add: is_digit_def)
qed

lemma Atoi_u32: "strconv_Atoi (nat_Itoa (unat (v :: u32))) = Some (int (unat v))"
proof -
  have "int (unat v) < 2 ^ 32" using unsigned_less [of v] by simp
  moreover have "- (2 ^ 63) \<le> int (unat v)" by (rule order_trans [of _ 0]) simp_all
  ultimately show ?thesis using strconv_Atoi_Itoa [of "int (unat v)"] by (simp add: strconv_Itoa_def)
qed

lemma load_print_tag:
  assumes "plain_tag (col, name, v, tx)"
  shows "load_line uni (print_tag (col, name, v, tx)) m = add_tag uni col name (nat_Itoa (unat v)) tx m"
proof -
  have "strings_SplitN (print_tag (col, name, v, tx)) '','' (Suc (Suc (Suc (Suc 0)))) = [col, name, nat_Itoa (unat v), tx]"
    using assms Itoa_no_comma [of "unat v"] by (simp add: str_cut_first [where sep = "'',''", simplified])
  then show ?thesis by (simp add: load_line_def eval_nat_numeral)
qed

definition tag_cell :: "(string \<Rightarrow> string) \<Rightarrow> tag_line \<Rightarrow> u32 \<times> string" where
  "tag_cell uni l = (case l of (col, name, v, tx) \<Rightarrow> (v, FixupName uni col))"

lemma add_tag_lookup:
  "file_tag (add_tag uni col name (nat_Itoa (unat v)) tx m) w c =
     (if w = v \<and> c = FixupName uni col then Some (FixupName uni name, FixupName uni tx) else file_tag m w c)"
  by (auto simp: add_tag_def Atoi_u32 file_tag_def Let_def split: option.splits)

lemma add_tag_funcs: "ft_funcs (add_tag uni col name ids tx m) = ft_funcs m"
  by (simp add: add_tag_def Let_def split: option.splits)

lemma load_tags_lookup:
  assumes "\<forall>l \<in> set ls. plain_tag l"
  shows "file_tag (fold (load_line uni) (map print_tag ls) m) w c =
    (case List.find (\<lambda>l. tag_cell uni l = (w, c)) (rev ls) of
       None \<Rightarrow> file_tag m w c | Some (col, name, v, tx) \<Rightarrow> Some (FixupName uni name, FixupName uni tx))"
    "ft_funcs (fold (load_line uni) (map print_tag ls) m) = ft_funcs m"
  using assms
proof (induction ls rule: rev_induct)
  case Nil
  {
    case 1 show ?case by simp
  next
    case 2 show ?case by simp
  }
next
  case (snoc l ls)
  obtain col name v tx where l: "l = (col, name, v, tx)" by (metis prod_cases4)
  {
    case 1
    then have "plain_tag (col, name, v, tx)" by (simp add: l)
    with 1 snoc.IH(1) show ?case
      by (simp add: l load_print_tag add_tag_lookup tag_cell_def del: print_tag.simps plain_tag.simps)
  next
    case 2
    then have "plain_tag (col, name, v, tx)" by (simp add: l)
    with 2 snoc.IH(2) show ?case by (simp add: l load_print_tag add_tag_funcs del: print_tag.simps plain_tag.simps)
  }
qed

text \<open>
  A file of tags written with one line per tag is read back: looking up a number in a column gives the name and
  the text of the last line with that number and that column (spelled in lower case with underscores), for 32 bit and
  for 64 bit values alike, and nothing when there is no such line.
\<close>

lemma tag_file_roundtrip:
  assumes "\<forall>l \<in> set ls. plain_tag l"
  shows "fst (LookupTagValue cid w c (FileMapper (loadPath uni (map print_tag ls)))) =
      (case List.find (\<lambda>l. tag_cell uni l = (w, c)) (rev ls) of
         None \<Rightarrow> None | Some (col, name, v, tx) \<Rightarrow> Some (FixupName uni name, FixupName uni tx)) \<and>
    LookupTagValueBig cid (ucast w) c (FileMapper (loadPath uni (map print_tag ls))) =
      LookupTagValue cid w c (FileMapper (loadPath uni (map print_tag ls)))"
proof
  have "ft_funcs (loadPath uni (map print_tag ls)) c = None"
    using load_tags_lookup(2) [OF assms] by (simp add: loadPath_def empty_FileTagMapper_def)
  then show "fst (LookupTagValue cid w c (FileMapper (loadPath uni (map print_tag ls)))) =
      (case List.find (\<lambda>l. tag_cell uni l = (w, c)) (rev ls) of
         None \<Rightarrow> None | Some (col, name, v, tx) \<Rightarrow> Some (FixupName uni name, FixupName uni tx))"
    using load_tags_lookup(1) [OF assms, of uni empty_FileTagMapper w c]
    by (simp add: file_LookupTagValue_def loadPath_def file_tag_def empty_FileTagMapper_def split: option.splits)
qed (rule tm.big_agrees)

text \<open>A 64 bit value is cut to 32 bits before it is looked up, so different values get the same tag.\<close>

lemma big_tag_wraps:
  "ft_funcs m c = None \<Longrightarrow> file_LookupTagValueBig m cid 4294967303 c = file_LookupTagValueBig m cid 7 c"
proof -
  have "(4294967303 :: u32) = 7" by code_simp
  then have "file_tag m 4294967303 c = file_tag m 7 c" by (simp only:)
  then show "ft_funcs m c = None \<Longrightarrow> ?thesis" by (simp add: file_LookupTagValueBig_def)
qed

section \<open>The background lookups\<close>

text \<open>The mapper with the lookups its goroutines have in flight, and what the API has answered so far.\<close>

record tag_service =
  ts_mapper :: ApiTagMapper
  ts_inflight :: "u32 list list"
  ts_answered :: "(u32 \<times> string) set"

inductive tag_step :: "tag_service \<Rightarrow> tag_service \<Rightarrow> bool" where
  tag_ask: "tag_step s (s\<lparr>ts_mapper := snd (api_LookupTagValue cid v col (ts_mapper s))\<rparr>)"
| tag_receive: "check_receive (ts_mapper s) = Some (m, start) \<Longrightarrow>
     tag_step s (s\<lparr>ts_mapper := m, ts_inflight := ts_inflight s @ (case start of None \<Rightarrow> [] | Some ls \<Rightarrow> [ls])\<rparr>)"
| tag_tick: "check_tick (ts_mapper s) = (m, ls) \<Longrightarrow> tag_step s (s\<lparr>ts_mapper := m, ts_inflight := ts_inflight s @ [ls]\<rparr>)"
| tag_finish: "ts_inflight s = pre @ ls # post \<Longrightarrow>
     tag_step s (s\<lparr>ts_mapper := doLookup svc api ls (ts_mapper s), ts_inflight := pre @ post,
       ts_answered := ts_answered s \<union> (case LookupEnumerationValues svc api ls of Inl _ \<Rightarrow> {} | Inr vals \<Rightarrow> {(k, v). vals k = Some v})\<rparr>)"

definition tag_inv :: "tag_service \<Rightarrow> bool" where
  "tag_inv s \<longleftrightarrow> length (at_check (ts_mapper s)) \<le> CHAN_SLACK \<and> length (at_lookups (ts_mapper s)) < MAX_LOOKUP_SET \<and>
     distinct (at_lookups (ts_mapper s)) \<and> (\<forall>ls \<in> set (ts_inflight s). length ls \<le> MAX_LOOKUP_SET \<and> distinct ls) \<and>
     (\<forall>k v. at_tags (ts_mapper s) k = Some v \<longrightarrow> (k, v) \<in> ts_answered s)"

definition start_service :: "ApiTagMapper \<Rightarrow> tag_service" where
  "start_service m = \<lparr>ts_mapper = m, ts_inflight = [], ts_answered = {}\<rparr>"

lemma start_service_inv: "tag_inv (start_service (NewApiTagMapper uni f))"
  by (simp add: tag_inv_def start_service_def NewApiTagMapper_def MAX_LOOKUP_SET_def)

lemma ask_check: "length (at_check m) \<le> CHAN_SLACK \<Longrightarrow> length (at_check (snd (api_LookupTagValue cid v col m))) \<le> CHAN_SLACK"
  by (auto simp: api_LookupTagValue_def split: option.splits)

lemma tag_step_inv: "tag_step s s' \<Longrightarrow> tag_inv s \<Longrightarrow> tag_inv s'"
proof (induction rule: tag_step.induct)
  case (tag_ask s cid v col)
  then show ?case by (simp add: tag_inv_def api_lookup_fields ask_check)
next
  case (tag_receive s m start)
  then show ?case
    by (auto simp: tag_inv_def check_receive_def Let_def MAX_LOOKUP_SET_def List.insert_def split: list.splits if_splits)
next
  case (tag_tick s m ls)
  then show ?case by (auto simp: tag_inv_def check_tick_def MAX_LOOKUP_SET_def)
next
  case (tag_finish s pre ls post svc api)
  then show ?case
    by (auto simp: tag_inv_def doLookup_def map_add_Some_iff split: sum.splits)
qed

text \<open>
  C22. However lookups of flows, the background loop and its requests interleave: the channel and the set of values to
  ask for stay within their limits, no request asks for more than two thousand values or for a value twice, and every
  tag that is served was answered by the API under the same number.
\<close>

theorem tag_service_sound:
  assumes "tag_step\<^sup>*\<^sup>* (start_service (NewApiTagMapper uni f)) s"
  shows "length (at_check (ts_mapper s)) \<le> 10000 \<and>
    (\<forall>ls \<in> set (ts_inflight s). length ls \<le> 2000 \<and> distinct ls) \<and>
    (\<forall>cid v col name tx. fst (LookupTagValue cid v col (ApiMapper (ts_mapper s))) = Some (name, tx) \<longrightarrow>
       v \<noteq> 0 \<and> (v, tx) \<in> ts_answered s)"
proof -
  have "tag_inv s" using assms
    by (induction rule: rtranclp_induct) (auto simp: start_service_inv intro: tag_step_inv)
  then show ?thesis
    by (auto simp: tag_inv_def CHAN_SLACK_def MAX_LOOKUP_SET_def api_lookup_answer split: option.splits if_splits)
qed

definition demo_tag_services :: services where
  "demo_tag_services = demo_services\<lparr>FetchValuesByIds := (\<lambda>_ ids. Inr (map (\<lambda>i. (i, ''linux'')) ids))\<rparr>"

definition demo_mapper :: ApiTagMapper where
  "demo_mapper = NewApiTagMapper id (Some [''c_os,os''])"

lemma demo_mapper_columns: "at_colNames demo_mapper ''c_os'' = Some ''os''"
  by code_simp

lemma demo_tag_run:
  "\<exists>s. tag_step\<^sup>*\<^sup>* (start_service demo_mapper) s \<and> at_colNames (ts_mapper s) ''c_os'' = Some ''os'' \<and> at_tags (ts_mapper s) 7 = Some ''linux''"
proof -
  define m0 where "m0 = demo_mapper"
  define m1 where "m1 = snd (api_LookupTagValue 1 7 ''c_os'' m0)"
  define m2 where "m2 = m1\<lparr>at_check := [], at_lookups := [7]\<rparr>"
  define m3 where "m3 = m2\<lparr>at_lookups := []\<rparr>"
  have m0: "at_tags m0 = Map.empty" "at_check m0 = []" "at_lookups m0 = []" "\<not> at_searched m0 7" "at_colNames m0 ''c_os'' = Some ''os''"
    using demo_mapper_columns by (simp_all add: m0_def demo_mapper_def NewApiTagMapper_def)
  have m1: "m1 = m0\<lparr>at_check := [7]\<rparr>" by (simp add: m1_def api_LookupTagValue_def m0 CHAN_SLACK_def)
  have "tag_step (start_service m0) ((start_service m0)\<lparr>ts_mapper := m1\<rparr>)"
    using tag_ask [of "start_service m0" 1 7 "''c_os''"] by (simp add: start_service_def m1_def)
  moreover have "tag_step ((start_service m0)\<lparr>ts_mapper := m1\<rparr>) ((start_service m0)\<lparr>ts_mapper := m2\<rparr>)"
    using tag_receive [of "(start_service m0)\<lparr>ts_mapper := m1\<rparr>" m2 None]
    by (simp add: start_service_def check_receive_def m1 m2_def m0 MAX_LOOKUP_SET_def)
  moreover have "tag_step ((start_service m0)\<lparr>ts_mapper := m2\<rparr>) ((start_service m0)\<lparr>ts_mapper := m3, ts_inflight := [[7]]\<rparr>)"
    using tag_tick [of "(start_service m0)\<lparr>ts_mapper := m2\<rparr>" m3 "[7]"] by (simp add: start_service_def check_tick_def m2_def m3_def)
  moreover have "tag_step ((start_service m0)\<lparr>ts_mapper := m3, ts_inflight := [[7]]\<rparr>)
      ((start_service m0)\<lparr>ts_mapper := doLookup demo_tag_services demo_api [7] m3, ts_inflight := [],
        ts_answered := {} \<union> (case LookupEnumerationValues demo_tag_services demo_api [7] of Inl _ \<Rightarrow> {} | Inr vals \<Rightarrow> {(k, v). vals k = Some v})\<rparr>)"
    using tag_finish [of "(start_service m0)\<lparr>ts_mapper := m3, ts_inflight := [[7]]\<rparr>" "[]" "[7]" "[]" demo_tag_services demo_api]
    by (simp add: start_service_def)
  ultimately have run: "tag_step\<^sup>*\<^sup>* (start_service m0) ((start_service m0)\<lparr>ts_mapper := doLookup demo_tag_services demo_api [7] m3, ts_inflight := [],
        ts_answered := {} \<union> (case LookupEnumerationValues demo_tag_services demo_api [7] of Inl _ \<Rightarrow> {} | Inr vals \<Rightarrow> {(k, v). vals k = Some v})\<rparr>)"
    by (meson converse_rtranclp_into_rtranclp rtranclp.rtrancl_refl)
  obtain vals where vals: "LookupEnumerationValues demo_tag_services demo_api [7] = Inr vals" "vals 7 = Some ''linux''"
    using enumeration_roundtrip [of demo_api "\<lparr>APIEmail = ''a'', APIToken = ''t''\<rparr>" demo_tag_services "[7]" "\<lambda>_. ''linux''"]
    by (auto simp: demo_api_def demo_tag_services_def empty_api_def)
  have "at_tags (doLookup demo_tag_services demo_api [7] m3) 7 = Some ''linux''"
    "at_colNames (doLookup demo_tag_services demo_api [7] m3) ''c_os'' = Some ''os''"
    by (simp_all add: doLookup_def vals m3_def m2_def m1 m0 map_add_def)
  with run show ?thesis unfolding m0_def [symmetric] by (intro exI conjI) (assumption, simp_all)
qed

theorem tag_service_sound_witness:
  "\<exists>s. tag_step\<^sup>*\<^sup>* (start_service demo_mapper) s \<and> (7, ''linux'') \<in> ts_answered s"
proof -
  obtain s where s: "tag_step\<^sup>*\<^sup>* (start_service demo_mapper) s" "at_colNames (ts_mapper s) ''c_os'' = Some ''os''"
    "at_tags (ts_mapper s) 7 = Some ''linux''"
    using demo_tag_run by blast
  have "fst (LookupTagValue 1 7 ''c_os'' (ApiMapper (ts_mapper s))) = Some (''os'', ''linux'')"
    by (simp add: api_lookup_answer s)
  with tag_service_sound [OF s(1) [unfolded demo_mapper_def]] s(1) show ?thesis by blast
qed

text \<open>
  The comment \<^verbatim>\<open>Only hit api one time\<close> does not hold for values asked for twice before the first answer: the second
  copy waits in the channel and is sent again.
\<close>

lemma tag_asked_twice:
  assumes "at_colNames m col = Some c" "v \<noteq> 0" "at_tags m v = None" "\<not> at_searched m v" "at_check m = []"
  shows "at_check (snd (api_LookupTagValue cid v col (snd (api_LookupTagValue cid v col m)))) = [v, v]"
  using assms by (simp add: api_LookupTagValue_def CHAN_SLACK_def)

end
