(* ===== verification/Service_Base.thy ===== *)
theory Service_Base
  imports Prelude
begin

text \<open>
  \<^verbatim>\<open>pkg/util/service/service.go\<close>: the shape of the table of services, which gives the name of a service for a port and
  an IP protocol, and the order of its entries: ports ascend, and the protocols of a port differ. The entries are in
  the theories \<open>Service_Table1\<close> to \<open>Service_Table3\<close>.
\<close>

type_synonym service_entry = "u32 \<times> u8 \<times> string"

text \<open>The entries from port \<open>p\<close> up to \<open>hi\<close>: \<open>seen\<close> are the protocols of \<open>p\<close> met so far.\<close>

fun ascending :: "u32 \<Rightarrow> u32 \<Rightarrow> u8 list \<Rightarrow> service_entry list \<Rightarrow> bool" where
  "ascending hi p seen [] = (p \<le> hi)"
| "ascending hi p seen ((p', q, n) # xs) =
     (if p' = p then q \<notin> set seen \<and> ascending hi p (q # seen) xs else p < p' \<and> ascending hi p' [q] xs)"

definition port_range :: "u32 \<Rightarrow> u32 \<Rightarrow> service_entry list \<Rightarrow> bool" where
  "port_range lo hi xs \<longleftrightarrow> ascending hi lo [] xs"

text \<open>Rules that check a long list entry by entry.\<close>

lemma ascending_end: "p \<le> hi \<Longrightarrow> ascending hi p seen []"
  by simp

lemma ascending_same: "q \<notin> set seen \<Longrightarrow> ascending hi p (q # seen) xs \<Longrightarrow> ascending hi p seen ((p, q, n) # xs)"
  by simp

lemma ascending_next: "p < p' \<Longrightarrow> ascending hi p' [q] xs \<Longrightarrow> ascending hi p seen ((p', q, n) # xs)"
  by auto

definition service_key :: "service_entry \<Rightarrow> u32 \<times> u8" where
  "service_key e = (fst e, fst (snd e))"

lemma ascending_from: "ascending hi p seen xs \<Longrightarrow> e \<in> set xs \<Longrightarrow> p \<le> fst e"
proof (induction hi p seen xs rule: ascending.induct)
  case (2 hi p seen p' q n xs)
  then show ?case by (auto split: if_splits)
qed simp

lemma ascending_upto: "ascending hi p seen xs \<Longrightarrow> p \<le> hi \<and> (\<forall>e \<in> set xs. fst e \<le> hi)"
proof (induction hi p seen xs rule: ascending.induct)
  case (2 hi p seen p' q n xs)
  then show ?case by (cases "p' = p") auto
qed simp

lemma ascending_distinct: "ascending hi p seen xs \<Longrightarrow> distinct (map service_key xs) \<and> (\<forall>q \<in> set seen. (p, q) \<notin> service_key ` set xs)"
proof (induction hi p seen xs rule: ascending.induct)
  case (2 hi p seen p' q n xs)
  show ?case
  proof (cases "p' = p")
    case True
    then show ?thesis using 2 by (auto simp: service_key_def)
  next
    case False
    then have "p < p'" and rest: "ascending hi p' [q] xs" using "2.prems" by auto
    then have "(p, r) \<notin> service_key ` set xs" for r using ascending_from [OF rest] by (force simp: service_key_def)
    then show ?thesis using False 2 by (auto simp: service_key_def)
  qed
qed simp

lemma port_range_distinct: "port_range lo hi xs \<Longrightarrow> distinct (map service_key xs)"
  using ascending_distinct unfolding port_range_def by blast

lemma port_range_bounds: "port_range lo hi xs \<Longrightarrow> e \<in> set xs \<Longrightarrow> lo \<le> fst e \<and> fst e \<le> hi"
  unfolding port_range_def using ascending_from ascending_upto by blast

lemma port_range_le: "port_range lo hi xs \<Longrightarrow> lo \<le> hi"
  unfolding port_range_def using ascending_upto by blast

text \<open>Parts of the table with ranges of ports that follow each other.\<close>

fun ranges_ascend :: "(u32 \<times> u32) list \<Rightarrow> bool" where
  "ranges_ascend [] = True"
| "ranges_ascend [r] = True"
| "ranges_ascend ((a, b) # (c, d) # rs) = (b < c \<and> ranges_ascend ((c, d) # rs))"

lemma ranges_later:
  assumes "ranges_ascend ((a, b) # rs)" "list_all2 (\<lambda>(lo, hi) xs. port_range lo hi xs) rs xss" "e \<in> set (concat xss)"
  shows "b < fst e"
  using assms
proof (induction rs arbitrary: a b xss)
  case (Cons r rs)
  obtain c d where r: "r = (c, d)" by (cases r)
  obtain xs yss where xss: "xss = xs # yss" "port_range c d xs" "list_all2 (\<lambda>(lo, hi) xs. port_range lo hi xs) rs yss"
    using Cons.prems(2) by (auto simp: r list_all2_Cons1)
  have bc: "b < c" and rest: "ranges_ascend ((c, d) # rs)" using Cons.prems(1) by (auto simp: r)
  have "c \<le> fst e"
  proof (cases "e \<in> set xs")
    case True
    then show ?thesis using port_range_bounds [OF xss(2)] by blast
  next
    case False
    then have "d < fst e" using Cons.IH [OF rest xss(3)] Cons.prems(3) by (auto simp: xss(1))
    then show ?thesis using port_range_le [OF xss(2)] by simp
  qed
  then show ?case using bc by simp
qed simp

lemma ranges_distinct:
  assumes "ranges_ascend rs" "list_all2 (\<lambda>(lo, hi) xs. port_range lo hi xs) rs xss"
  shows "distinct (map service_key (concat xss))"
  using assms
proof (induction rs arbitrary: xss)
  case (Cons r rs)
  obtain a b where r: "r = (a, b)" by (cases r)
  obtain xs yss where xss: "xss = xs # yss" "port_range a b xs" "list_all2 (\<lambda>(lo, hi) xs. port_range lo hi xs) rs yss"
    using Cons.prems(2) by (auto simp: r list_all2_Cons1)
  have "ranges_ascend rs" using Cons.prems(1) by (cases rs) (auto simp: r)
  then have rest: "distinct (map service_key (concat yss))" using Cons.IH xss(3) by blast
  have "service_key e \<noteq> service_key f" if "e \<in> set xs" "f \<in> set (concat yss)" for e f
    using port_range_bounds [OF xss(2) that(1)] ranges_later [OF Cons.prems(1) [unfolded r] xss(3) that(2)]
    by (auto simp: service_key_def)
  then have "service_key ` set xs \<inter> service_key ` set (concat yss) = {}" by blast
  then show ?case using rest port_range_distinct [OF xss(2)] by (simp add: xss(1))
qed simp

end
