(* ===== verification/Service_Table1.thy ===== *)
theory Service_Table1
  imports Service_Base
begin

text \<open>
  The first part of the table \<^verbatim>\<open>Services\<close> of \<^verbatim>\<open>pkg/util/service/service.go\<close>, in groups of at most 149 entries that end
  where the port changes, each with the check that its ports ascend.
\<close>

definition Services_0 :: "service_entry list" where
  "Services_0 =
     [(1, 6, ''tcpmux''), (1, 17, ''tcpmux''), (2, 6, ''compressnet''), (2, 17, ''compressnet''),
      (3, 6, ''compressnet''), (3, 17, ''compressnet''), (5, 6, ''rje''), (5, 17, ''rje''),
      (7, 132, ''echo''), (7, 6, ''echo''), (7, 17, ''echo''), (9, 132, ''discard''),
      (9, 6, ''discard''), (9, 17, ''discard''), (11, 6, ''systat''), (11, 17, ''systat''),
      (13, 6, ''daytime''), (13, 17, ''daytime''), (15, 6, ''netstat''), (17, 6, ''qotd''),
      (17, 17, ''qotd''), (18, 6, ''msp''), (18, 17, ''msp''), (19, 6, ''chargen''),
      (19, 17, ''chargen''), (20, 132, ''ftp-data''), (20, 6, ''ftp-data''), (20, 17, ''ftp-data''),
      (21, 132, ''ftp''), (21, 6, ''ftp''), (21, 17, ''ftp''), (22, 132, ''ssh''),
      (22, 6, ''ssh''), (22, 17, ''ssh''), (23, 6, ''telnet''), (23, 17, ''telnet''),
      (24, 6, ''priv-mail''), (24, 17, ''priv-mail''), (25, 6, ''smtp''), (25, 17, ''smtp''),
      (26, 6, ''rsftp''), (27, 6, ''nsw-fe''), (27, 17, ''nsw-fe''), (29, 6, ''msg-icp''),
      (29, 17, ''msg-icp''), (31, 6, ''msg-auth''), (31, 17, ''msg-auth''), (33, 6, ''dsp''),
      (33, 17, ''dsp''), (35, 6, ''priv-print''), (35, 17, ''priv-print''), (37, 6, ''time''),
      (37, 17, ''time''), (38, 6, ''rap''), (38, 17, ''rap''), (39, 6, ''rlp''),
      (39, 17, ''rlp''), (41, 6, ''graphics''), (41, 17, ''graphics''), (42, 6, ''nameserver''),
      (42, 17, ''nameserver''), (43, 6, ''whois''), (43, 17, ''whois''), (44, 6, ''mpm-flags''),
      (44, 17, ''mpm-flags''), (45, 6, ''mpm''), (45, 17, ''mpm''), (46, 6, ''mpm-snd''),
      (46, 17, ''mpm-snd''), (47, 6, ''ni-ftp''), (47, 17, ''ni-ftp''), (48, 6, ''auditd''),
      (48, 17, ''auditd''), (49, 6, ''tacacs''), (49, 17, ''tacacs''), (50, 6, ''re-mail-ck''),
      (50, 17, ''re-mail-ck''), (51, 6, ''la-maint''), (51, 17, ''la-maint''), (52, 6, ''xns-time''),
      (52, 17, ''xns-time''), (53, 6, ''domain''), (53, 17, ''domain''), (54, 6, ''xns-ch''),
      (54, 17, ''xns-ch''), (55, 6, ''isi-gl''), (55, 17, ''isi-gl''), (56, 6, ''xns-auth''),
      (56, 17, ''xns-auth''), (57, 6, ''priv-term''), (57, 17, ''priv-term''), (58, 6, ''xns-mail''),
      (58, 17, ''xns-mail''), (59, 6, ''priv-file''), (59, 17, ''priv-file''), (61, 6, ''ni-mail''),
      (61, 17, ''ni-mail''), (62, 6, ''acas''), (62, 17, ''acas''), (63, 6, ''via-ftp''),
      (63, 17, ''via-ftp''), (64, 6, ''covia''), (64, 17, ''covia''), (65, 6, ''tacacs-ds''),
      (65, 17, ''tacacs-ds''), (66, 6, ''sqlnet''), (66, 17, ''sqlnet''), (67, 6, ''dhcps''),
      (67, 17, ''dhcps''), (68, 6, ''dhcpc''), (68, 17, ''dhcpc''), (69, 6, ''tftp''),
      (69, 17, ''tftp''), (70, 6, ''gopher''), (70, 17, ''gopher''), (71, 6, ''netrjs-1''),
      (71, 17, ''netrjs-1''), (72, 6, ''netrjs-2''), (72, 17, ''netrjs-2''), (73, 6, ''netrjs-3''),
      (73, 17, ''netrjs-3''), (74, 6, ''netrjs-4''), (74, 17, ''netrjs-4''), (75, 6, ''priv-dial''),
      (75, 17, ''priv-dial''), (76, 6, ''deos''), (76, 17, ''deos''), (77, 6, ''priv-rje''),
      (77, 17, ''priv-rje''), (78, 6, ''vettcp''), (78, 17, ''vettcp''), (79, 6, ''finger''),
      (79, 17, ''finger''), (80, 132, ''http''), (80, 6, ''http''), (80, 17, ''http''),
      (81, 6, ''hosts2-ns''), (81, 17, ''hosts2-ns''), (82, 6, ''xfer''), (82, 17, ''xfer''),
      (83, 6, ''mit-ml-dev''), (83, 17, ''mit-ml-dev''), (84, 6, ''ctf''), (84, 17, ''ctf''),
      (85, 6, ''mit-ml-dev''), (85, 17, ''mit-ml-dev''), (86, 6, ''mfcobol''), (86, 17, ''mfcobol''),
      (87, 6, ''priv-term-l'')]"

lemma Services_0_ascend: "port_range 1 87 Services_0"
  unfolding Services_0_def port_range_def
  by (rule ascending_end ascending_same ascending_next, simp)+

definition Services_1 :: "service_entry list" where
  "Services_1 =
     [(88, 6, ''kerberos-sec''), (88, 17, ''kerberos-sec''), (89, 6, ''su-mit-tg''), (89, 17, ''su-mit-tg''),
      (90, 6, ''dnsix''), (90, 17, ''dnsix''), (91, 6, ''mit-dov''), (91, 17, ''mit-dov''),
      (92, 6, ''npp''), (92, 17, ''npp''), (93, 6, ''dcp''), (93, 17, ''dcp''),
      (94, 6, ''objcall''), (94, 17, ''objcall''), (95, 6, ''supdup''), (95, 17, ''supdup''),
      (96, 6, ''dixie''), (96, 17, ''dixie''), (97, 6, ''swift-rvf''), (97, 17, ''swift-rvf''),
      (98, 6, ''linuxconf''), (98, 17, ''tacnews''), (99, 6, ''metagram''), (99, 17, ''metagram''),
      (100, 6, ''newacct''), (101, 6, ''hostname''), (101, 17, ''hostname''), (102, 6, ''iso-tsap''),
      (102, 17, ''iso-tsap''), (103, 6, ''gppitnp''), (103, 17, ''gppitnp''), (104, 6, ''acr-nema''),
      (104, 17, ''acr-nema''), (105, 6, ''csnet-ns''), (105, 17, ''csnet-ns''), (106, 6, ''pop3pw''),
      (106, 17, ''3com-tsmux''), (107, 6, ''rtelnet''), (107, 17, ''rtelnet''), (108, 6, ''snagas''),
      (108, 17, ''snagas''), (109, 6, ''pop2''), (109, 17, ''pop2''), (110, 6, ''pop3''),
      (110, 17, ''pop3''), (111, 6, ''rpcbind''), (111, 17, ''rpcbind''), (112, 6, ''mcidas''),
      (112, 17, ''mcidas''), (113, 6, ''ident''), (113, 17, ''auth''), (114, 6, ''audionews''),
      (114, 17, ''audionews''), (115, 6, ''sftp''), (115, 17, ''sftp''), (116, 6, ''ansanotify''),
      (116, 17, ''ansanotify''), (117, 6, ''uucp-path''), (117, 17, ''uucp-path''), (118, 6, ''sqlserv''),
      (118, 17, ''sqlserv''), (119, 6, ''nntp''), (119, 17, ''nntp''), (120, 6, ''cfdptkt''),
      (120, 17, ''cfdptkt''), (121, 6, ''erpc''), (121, 17, ''erpc''), (122, 6, ''smakynet''),
      (122, 17, ''smakynet''), (123, 6, ''ntp''), (123, 17, ''ntp''), (124, 6, ''ansatrader''),
      (124, 17, ''ansatrader''), (125, 6, ''locus-map''), (125, 17, ''locus-map''), (126, 6, ''unitary''),
      (126, 17, ''unitary''), (127, 6, ''locus-con''), (127, 17, ''locus-con''), (128, 6, ''gss-xlicen''),
      (128, 17, ''gss-xlicen''), (129, 6, ''pwdgen''), (129, 17, ''pwdgen''), (130, 6, ''cisco-fna''),
      (130, 17, ''cisco-fna''), (131, 6, ''cisco-tna''), (131, 17, ''cisco-tna''), (132, 6, ''cisco-sys''),
      (132, 17, ''cisco-sys''), (133, 6, ''statsrv''), (133, 17, ''statsrv''), (134, 6, ''ingres-net''),
      (134, 17, ''ingres-net''), (135, 6, ''msrpc''), (135, 17, ''msrpc''), (136, 6, ''profile''),
      (136, 17, ''profile''), (137, 6, ''netbios-ns''), (137, 17, ''netbios-ns''), (138, 6, ''netbios-dgm''),
      (138, 17, ''netbios-dgm''), (139, 6, ''netbios-ssn''), (139, 17, ''netbios-ssn''), (140, 6, ''emfis-data''),
      (140, 17, ''emfis-data''), (141, 6, ''emfis-cntl''), (141, 17, ''emfis-cntl''), (142, 6, ''bl-idm''),
      (142, 17, ''bl-idm''), (143, 6, ''imap''), (143, 17, ''imap''), (144, 6, ''news''),
      (144, 17, ''news''), (145, 6, ''uaac''), (145, 17, ''uaac''), (146, 6, ''iso-tp0''),
      (146, 17, ''iso-tp0''), (147, 6, ''iso-ip''), (147, 17, ''iso-ip''), (148, 6, ''cronus''),
      (148, 17, ''cronus''), (149, 6, ''aed-512''), (149, 17, ''aed-512''), (150, 6, ''sql-net''),
      (150, 17, ''sql-net''), (151, 6, ''hems''), (151, 17, ''hems''), (152, 6, ''bftp''),
      (152, 17, ''bftp''), (153, 6, ''sgmp''), (153, 17, ''sgmp''), (154, 6, ''netsc-prod''),
      (154, 17, ''netsc-prod''), (155, 6, ''netsc-dev''), (155, 17, ''netsc-dev''), (156, 6, ''sqlsrv''),
      (156, 17, ''sqlsrv''), (157, 6, ''knet-cmp''), (157, 17, ''knet-cmp''), (158, 6, ''pcmail-srv''),
      (158, 17, ''pcmail-srv''), (159, 6, ''nss-routing''), (159, 17, ''nss-routing''), (160, 6, ''sgmp-traps''),
      (160, 17, ''sgmp-traps''), (161, 6, ''snmp''), (161, 17, ''snmp''), (162, 6, ''snmptrap''),
      (162, 17, ''snmptrap'')]"

lemma Services_1_ascend: "port_range 88 162 Services_1"
  unfolding Services_1_def port_range_def
  by (rule ascending_end ascending_same ascending_next, simp)+

definition Services_2 :: "service_entry list" where
  "Services_2 =
     [(163, 6, ''cmip-man''), (163, 17, ''cmip-man''), (164, 6, ''cmip-agent''), (164, 17, ''smip-agent''),
      (165, 6, ''xns-courier''), (165, 17, ''xns-courier''), (166, 6, ''s-net''), (166, 17, ''s-net''),
      (167, 6, ''namp''), (167, 17, ''namp''), (168, 6, ''rsvd''), (168, 17, ''rsvd''),
      (169, 6, ''send''), (169, 17, ''send''), (170, 6, ''print-srv''), (170, 17, ''print-srv''),
      (171, 6, ''multiplex''), (171, 17, ''multiplex''), (172, 6, ''cl-1''), (172, 17, ''cl-1''),
      (173, 6, ''xyplex-mux''), (173, 17, ''xyplex-mux''), (174, 6, ''mailq''), (174, 17, ''mailq''),
      (175, 6, ''vmnet''), (175, 17, ''vmnet''), (176, 6, ''genrad-mux''), (176, 17, ''genrad-mux''),
      (177, 6, ''xdmcp''), (177, 17, ''xdmcp''), (178, 6, ''nextstep''), (178, 17, ''nextstep''),
      (179, 132, ''bgp''), (179, 6, ''bgp''), (179, 17, ''bgp''), (180, 6, ''ris''),
      (180, 17, ''ris''), (181, 6, ''unify''), (181, 17, ''unify''), (182, 6, ''audit''),
      (182, 17, ''audit''), (183, 6, ''ocbinder''), (183, 17, ''ocbinder''), (184, 6, ''ocserver''),
      (184, 17, ''ocserver''), (185, 6, ''remote-kis''), (185, 17, ''remote-kis''), (186, 6, ''kis''),
      (186, 17, ''kis''), (187, 6, ''aci''), (187, 17, ''aci''), (188, 6, ''mumps''),
      (188, 17, ''mumps''), (189, 6, ''qft''), (189, 17, ''qft''), (190, 6, ''gacp''),
      (190, 17, ''cacp''), (191, 6, ''prospero''), (191, 17, ''prospero''), (192, 6, ''osu-nms''),
      (192, 17, ''osu-nms''), (193, 6, ''srmp''), (193, 17, ''srmp''), (194, 6, ''irc''),
      (194, 17, ''irc''), (195, 6, ''dn6-nlm-aud''), (195, 17, ''dn6-nlm-aud''), (196, 6, ''dn6-smm-red''),
      (196, 17, ''dn6-smm-red''), (197, 6, ''dls''), (197, 17, ''dls''), (198, 6, ''dls-mon''),
      (198, 17, ''dls-mon''), (199, 6, ''smux''), (199, 17, ''smux''), (200, 6, ''src''),
      (200, 17, ''src''), (201, 6, ''at-rtmp''), (201, 17, ''at-rtmp''), (202, 6, ''at-nbp''),
      (202, 17, ''at-nbp''), (203, 6, ''at-3''), (203, 17, ''at-3''), (204, 6, ''at-echo''),
      (204, 17, ''at-echo''), (205, 6, ''at-5''), (205, 17, ''at-5''), (206, 6, ''at-zis''),
      (206, 17, ''at-zis''), (207, 6, ''at-7''), (207, 17, ''at-7''), (208, 6, ''at-8''),
      (208, 17, ''at-8''), (209, 6, ''tam''), (209, 17, ''tam''), (210, 6, ''z39.50''),
      (210, 17, ''z39.50''), (211, 6, ''914c-g''), (211, 17, ''914c-g''), (212, 6, ''anet''),
      (212, 17, ''anet''), (213, 6, ''ipx''), (213, 17, ''ipx''), (214, 6, ''vmpwscs''),
      (214, 17, ''vmpwscs''), (215, 6, ''softpc''), (215, 17, ''softpc''), (216, 6, ''atls''),
      (216, 17, ''atls''), (217, 6, ''dbase''), (217, 17, ''dbase''), (218, 6, ''mpp''),
      (218, 17, ''mpp''), (219, 6, ''uarps''), (219, 17, ''uarps''), (220, 6, ''imap3''),
      (220, 17, ''imap3''), (221, 6, ''fln-spx''), (221, 17, ''fln-spx''), (222, 6, ''rsh-spx''),
      (222, 17, ''rsh-spx''), (223, 6, ''cdc''), (223, 17, ''cdc''), (224, 6, ''masqdialer''),
      (224, 17, ''masqdialer''), (242, 6, ''direct''), (242, 17, ''direct''), (243, 6, ''sur-meas''),
      (243, 17, ''sur-meas''), (244, 6, ''dayna''), (244, 17, ''dayna''), (245, 6, ''link''),
      (245, 17, ''link''), (246, 6, ''dsp3270''), (246, 17, ''dsp3270''), (247, 6, ''subntbcst_tftp''),
      (247, 17, ''subntbcst_tftp''), (248, 6, ''bhfhs''), (248, 17, ''bhfhs''), (256, 6, ''fw1-secureremote''),
      (256, 17, ''rap''), (257, 6, ''fw1-mc-fwmodule''), (257, 17, ''set''), (258, 6, ''fw1-mc-gui''),
      (258, 17, ''yak-chat''), (259, 6, ''esro-gen''), (259, 17, ''firewall1-rdp''), (260, 6, ''openport''),
      (260, 17, ''openport'')]"

lemma Services_2_ascend: "port_range 163 260 Services_2"
  unfolding Services_2_def port_range_def
  by (rule ascending_end ascending_same ascending_next, simp)+

definition Services_3 :: "service_entry list" where
  "Services_3 =
     [(261, 6, ''nsiiops''), (261, 17, ''nsiiops''), (262, 6, ''arcisdms''), (262, 17, ''arcisdms''),
      (263, 6, ''hdap''), (263, 17, ''hdap''), (264, 6, ''bgmp''), (264, 17, ''fw1-or-bgmp''),
      (265, 6, ''maybe-fw1''), (265, 17, ''x-bone-ctl''), (266, 6, ''sst''), (266, 17, ''sst''),
      (267, 6, ''td-service''), (267, 17, ''td-service''), (268, 6, ''td-replica''), (268, 17, ''td-replica''),
      (269, 6, ''manet''), (269, 17, ''manet''), (270, 6, ''gist''), (270, 17, ''gist''),
      (271, 6, ''pt-tls''), (280, 6, ''http-mgmt''), (280, 17, ''http-mgmt''), (281, 6, ''personal-link''),
      (281, 17, ''personal-link''), (282, 6, ''cableport-ax''), (282, 17, ''cableport-ax''), (283, 6, ''rescap''),
      (283, 17, ''rescap''), (284, 6, ''corerjd''), (284, 17, ''corerjd''), (286, 6, ''fxp''),
      (286, 17, ''fxp''), (287, 6, ''k-block''), (287, 17, ''k-block''), (308, 6, ''novastorbakcup''),
      (308, 17, ''novastorbakcup''), (309, 6, ''entrusttime''), (309, 17, ''entrusttime''), (310, 6, ''bhmds''),
      (310, 17, ''bhmds''), (311, 6, ''asip-webadmin''), (311, 17, ''asip-webadmin''), (312, 6, ''vslmp''),
      (312, 17, ''vslmp''), (313, 6, ''magenta-logic''), (313, 17, ''magenta-logic''), (314, 6, ''opalis-robot''),
      (314, 17, ''opalis-robot''), (315, 6, ''dpsi''), (315, 17, ''dpsi''), (316, 6, ''decauth''),
      (316, 17, ''decauth''), (317, 6, ''zannet''), (317, 17, ''zannet''), (318, 6, ''pkix-timestamp''),
      (318, 17, ''pkix-timestamp''), (319, 6, ''ptp-event''), (319, 17, ''ptp-event''), (320, 6, ''ptp-general''),
      (320, 17, ''ptp-general''), (321, 6, ''pip''), (321, 17, ''pip''), (322, 6, ''rtsps''),
      (322, 17, ''rtsps''), (323, 6, ''rpki-rtr''), (324, 6, ''rpki-rtr-tls''), (333, 6, ''texar''),
      (333, 17, ''texar''), (344, 6, ''pdap''), (344, 17, ''pdap''), (345, 6, ''pawserv''),
      (345, 17, ''pawserv''), (346, 6, ''zserv''), (346, 17, ''zserv''), (347, 6, ''fatserv''),
      (347, 17, ''fatserv''), (348, 6, ''csi-sgwp''), (348, 17, ''csi-sgwp''), (349, 6, ''mftp''),
      (349, 17, ''mftp''), (350, 6, ''matip-type-a''), (350, 17, ''matip-type-a''), (351, 6, ''matip-type-b''),
      (351, 17, ''matip-type-b''), (352, 6, ''dtag-ste-sb''), (352, 17, ''dtag-ste-sb''), (353, 6, ''ndsauth''),
      (353, 17, ''ndsauth''), (354, 6, ''bh611''), (354, 17, ''bh611''), (355, 6, ''datex-asn''),
      (355, 17, ''datex-asn''), (356, 6, ''cloanto-net-1''), (356, 17, ''cloanto-net-1''), (357, 6, ''bhevent''),
      (357, 17, ''bhevent''), (358, 6, ''shrinkwrap''), (358, 17, ''shrinkwrap''), (359, 6, ''tenebris_nts''),
      (359, 17, ''tenebris_nts''), (360, 6, ''scoi2odialog''), (360, 17, ''scoi2odialog''), (361, 6, ''semantix''),
      (361, 17, ''semantix''), (362, 6, ''srssend''), (362, 17, ''srssend''), (363, 6, ''rsvp_tunnel''),
      (363, 17, ''rsvp_tunnel''), (364, 6, ''aurora-cmgr''), (364, 17, ''aurora-cmgr''), (365, 6, ''dtk''),
      (365, 17, ''dtk''), (366, 6, ''odmr''), (366, 17, ''odmr''), (367, 6, ''mortgageware''),
      (367, 17, ''mortgageware''), (368, 6, ''qbikgdp''), (368, 17, ''qbikgdp''), (369, 6, ''rpc2portmap''),
      (369, 17, ''rpc2portmap''), (370, 6, ''codaauth2''), (370, 17, ''codaauth2''), (371, 6, ''clearcase''),
      (371, 17, ''clearcase''), (372, 6, ''ulistserv''), (372, 17, ''ulistserv''), (373, 6, ''legent-1''),
      (373, 17, ''legent-1''), (374, 6, ''legent-2''), (374, 17, ''legent-2''), (375, 6, ''hassle''),
      (375, 17, ''hassle''), (376, 6, ''nip''), (376, 17, ''nip''), (377, 6, ''tnETOS''),
      (377, 17, ''tnETOS''), (378, 6, ''dsETOS''), (378, 17, ''dsETOS''), (379, 6, ''is99c''),
      (379, 17, ''is99c''), (380, 6, ''is99s''), (380, 17, ''is99s''), (381, 6, ''hp-collector''),
      (381, 17, ''hp-collector''), (382, 6, ''hp-managed-node''), (382, 17, ''hp-managed-node''), (383, 6, ''hp-alarm-mgr''),
      (383, 17, ''hp-alarm-mgr'')]"

lemma Services_3_ascend: "port_range 261 383 Services_3"
  unfolding Services_3_def port_range_def
  by (rule ascending_end ascending_same ascending_next, simp)+

definition Services_4 :: "service_entry list" where
  "Services_4 =
     [(384, 6, ''arns''), (384, 17, ''arns''), (385, 6, ''ibm-app''), (385, 17, ''ibm-app''),
      (386, 6, ''asa''), (386, 17, ''asa''), (387, 6, ''aurp''), (387, 17, ''aurp''),
      (388, 6, ''unidata-ldm''), (388, 17, ''unidata-ldm''), (389, 6, ''ldap''), (389, 17, ''ldap''),
      (390, 6, ''uis''), (390, 17, ''uis''), (391, 6, ''synotics-relay''), (391, 17, ''synotics-relay''),
      (392, 6, ''synotics-broker''), (392, 17, ''synotics-broker''), (393, 6, ''dis''), (393, 17, ''dis''),
      (394, 6, ''embl-ndt''), (394, 17, ''embl-ndt''), (395, 6, ''netcp''), (395, 17, ''netcp''),
      (396, 6, ''netware-ip''), (396, 17, ''netware-ip''), (397, 6, ''mptn''), (397, 17, ''mptn''),
      (398, 6, ''kryptolan''), (398, 17, ''kryptolan''), (399, 6, ''iso-tsap-c2''), (399, 17, ''iso-tsap-c2''),
      (400, 6, ''work-sol''), (400, 17, ''work-sol''), (401, 6, ''ups''), (401, 17, ''ups''),
      (402, 6, ''genie''), (402, 17, ''genie''), (403, 6, ''decap''), (403, 17, ''decap''),
      (404, 6, ''nced''), (404, 17, ''nced''), (405, 6, ''ncld''), (405, 17, ''ncld''),
      (406, 6, ''imsp''), (406, 17, ''imsp''), (407, 6, ''timbuktu''), (407, 17, ''timbuktu''),
      (408, 6, ''prm-sm''), (408, 17, ''prm-sm''), (409, 6, ''prm-nm''), (409, 17, ''prm-nm''),
      (410, 6, ''decladebug''), (410, 17, ''decladebug''), (411, 6, ''rmt''), (411, 17, ''rmt''),
      (412, 6, ''synoptics-trap''), (412, 17, ''synoptics-trap''), (413, 6, ''smsp''), (413, 17, ''smsp''),
      (414, 6, ''infoseek''), (414, 17, ''infoseek''), (415, 6, ''bnet''), (415, 17, ''bnet''),
      (416, 6, ''silverplatter''), (416, 17, ''silverplatter''), (417, 6, ''onmux''), (417, 17, ''onmux''),
      (418, 6, ''hyper-g''), (418, 17, ''hyper-g''), (419, 6, ''ariel1''), (419, 17, ''ariel1''),
      (420, 6, ''smpte''), (420, 17, ''smpte''), (421, 6, ''ariel2''), (421, 17, ''ariel2''),
      (422, 6, ''ariel3''), (422, 17, ''ariel3''), (423, 6, ''opc-job-start''), (423, 17, ''opc-job-start''),
      (424, 6, ''opc-job-track''), (424, 17, ''opc-job-track''), (425, 6, ''icad-el''), (425, 17, ''icad-el''),
      (426, 6, ''smartsdp''), (426, 17, ''smartsdp''), (427, 6, ''svrloc''), (427, 17, ''svrloc''),
      (428, 6, ''ocs_cmu''), (428, 17, ''ocs_cmu''), (429, 6, ''ocs_amu''), (429, 17, ''ocs_amu''),
      (430, 6, ''utmpsd''), (430, 17, ''utmpsd''), (431, 6, ''utmpcd''), (431, 17, ''utmpcd''),
      (432, 6, ''iasd''), (432, 17, ''iasd''), (433, 6, ''nnsp''), (433, 17, ''nnsp''),
      (434, 6, ''mobileip-agent''), (434, 17, ''mobileip-agent''), (435, 6, ''mobilip-mn''), (435, 17, ''mobilip-mn''),
      (436, 6, ''dna-cml''), (436, 17, ''dna-cml''), (437, 6, ''comscm''), (437, 17, ''comscm''),
      (438, 6, ''dsfgw''), (438, 17, ''dsfgw''), (439, 6, ''dasp''), (439, 17, ''dasp''),
      (440, 6, ''sgcp''), (440, 17, ''sgcp''), (441, 6, ''decvms-sysmgt''), (441, 17, ''decvms-sysmgt''),
      (442, 6, ''cvc_hostd''), (442, 17, ''cvc_hostd''), (443, 132, ''https''), (443, 6, ''https''),
      (443, 17, ''https''), (444, 6, ''snpp''), (444, 17, ''snpp''), (445, 6, ''microsoft-ds''),
      (445, 17, ''microsoft-ds''), (446, 6, ''ddm-rdb''), (446, 17, ''ddm-rdb''), (447, 6, ''ddm-dfm''),
      (447, 17, ''ddm-dfm''), (448, 6, ''ddm-ssl''), (448, 17, ''ddm-ssl''), (449, 6, ''as-servermap''),
      (449, 17, ''as-servermap''), (450, 6, ''tserver''), (450, 17, ''tserver''), (451, 6, ''sfs-smp-net''),
      (451, 17, ''sfs-smp-net''), (452, 6, ''sfs-config''), (452, 17, ''sfs-config''), (453, 6, ''creativeserver''),
      (453, 17, ''creativeserver''), (454, 6, ''contentserver''), (454, 17, ''contentserver''), (455, 6, ''creativepartnr''),
      (455, 17, ''creativepartnr''), (456, 6, ''macon''), (456, 17, ''macon''), (457, 6, ''scohelp''),
      (457, 17, ''scohelp'')]"

lemma Services_4_ascend: "port_range 384 457 Services_4"
  unfolding Services_4_def port_range_def
  by (rule ascending_end ascending_same ascending_next, simp)+

definition Services_5 :: "service_entry list" where
  "Services_5 =
     [(458, 6, ''appleqtc''), (458, 17, ''appleqtc''), (459, 6, ''ampr-rcmd''), (459, 17, ''ampr-rcmd''),
      (460, 6, ''skronk''), (460, 17, ''skronk''), (461, 6, ''datasurfsrv''), (461, 17, ''datasurfsrv''),
      (462, 6, ''datasurfsrvsec''), (462, 17, ''datasurfsrvsec''), (463, 6, ''alpes''), (463, 17, ''alpes''),
      (464, 6, ''kpasswd5''), (464, 17, ''kpasswd5''), (465, 6, ''smtps''), (465, 17, ''smtps''),
      (466, 6, ''digital-vrc''), (466, 17, ''digital-vrc''), (467, 6, ''mylex-mapd''), (467, 17, ''mylex-mapd''),
      (468, 6, ''photuris''), (468, 17, ''photuris''), (469, 6, ''rcp''), (469, 17, ''rcp''),
      (470, 6, ''scx-proxy''), (470, 17, ''scx-proxy''), (471, 6, ''mondex''), (471, 17, ''mondex''),
      (472, 6, ''ljk-login''), (472, 17, ''ljk-login''), (473, 6, ''hybrid-pop''), (473, 17, ''hybrid-pop''),
      (474, 6, ''tn-tl-w1''), (474, 17, ''tn-tl-w2''), (475, 6, ''tcpnethaspsrv''), (475, 17, ''tcpnethaspsrv''),
      (476, 6, ''tn-tl-fd1''), (476, 17, ''tn-tl-fd1''), (477, 6, ''ss7ns''), (477, 17, ''ss7ns''),
      (478, 6, ''spsc''), (478, 17, ''spsc''), (479, 6, ''iafserver''), (479, 17, ''iafserver''),
      (480, 6, ''loadsrv''), (480, 17, ''iafdbase''), (481, 6, ''dvs''), (481, 17, ''ph''),
      (482, 6, ''bgs-nsi''), (482, 17, ''xlog''), (483, 6, ''ulpnet''), (483, 17, ''ulpnet''),
      (484, 6, ''integra-sme''), (484, 17, ''integra-sme''), (485, 6, ''powerburst''), (485, 17, ''powerburst''),
      (486, 6, ''sstats''), (486, 17, ''avian''), (487, 6, ''saft''), (487, 17, ''saft''),
      (488, 6, ''gss-http''), (488, 17, ''gss-http''), (489, 6, ''nest-protocol''), (489, 17, ''nest-protocol''),
      (490, 6, ''micom-pfs''), (490, 17, ''micom-pfs''), (491, 6, ''go-login''), (491, 17, ''go-login''),
      (492, 6, ''ticf-1''), (492, 17, ''ticf-1''), (493, 6, ''ticf-2''), (493, 17, ''ticf-2''),
      (494, 6, ''pov-ray''), (494, 17, ''pov-ray''), (495, 6, ''intecourier''), (495, 17, ''intecourier''),
      (496, 6, ''pim-rp-disc''), (496, 17, ''pim-rp-disc''), (497, 6, ''retrospect''), (497, 17, ''retrospect''),
      (498, 6, ''siam''), (498, 17, ''siam''), (499, 6, ''iso-ill''), (499, 17, ''iso-ill''),
      (500, 6, ''isakmp''), (500, 17, ''isakmp''), (501, 6, ''stmf''), (501, 17, ''stmf''),
      (502, 6, ''mbap''), (502, 17, ''mbap''), (503, 6, ''intrinsa''), (503, 17, ''intrinsa''),
      (504, 6, ''citadel''), (504, 17, ''citadel''), (505, 6, ''mailbox-lm''), (505, 17, ''mailbox-lm''),
      (506, 6, ''ohimsrv''), (506, 17, ''ohimsrv''), (507, 6, ''crs''), (507, 17, ''crs''),
      (508, 6, ''xvttp''), (508, 17, ''xvttp''), (509, 6, ''snare''), (509, 17, ''snare''),
      (510, 6, ''fcp''), (510, 17, ''fcp''), (511, 6, ''passgo''), (511, 17, ''passgo''),
      (512, 6, ''exec''), (512, 17, ''biff''), (513, 6, ''login''), (513, 17, ''who''),
      (514, 6, ''shell''), (514, 17, ''syslog''), (515, 6, ''printer''), (515, 17, ''printer''),
      (516, 6, ''videotex''), (516, 17, ''videotex''), (517, 6, ''talk''), (517, 17, ''talk''),
      (518, 6, ''ntalk''), (518, 17, ''ntalk''), (519, 6, ''utime''), (519, 17, ''utime''),
      (520, 6, ''efs''), (520, 17, ''route''), (521, 6, ''ripng''), (521, 17, ''ripng''),
      (522, 6, ''ulp''), (522, 17, ''ulp''), (523, 6, ''ibm-db2''), (523, 17, ''ibm-db2''),
      (524, 6, ''ncp''), (524, 17, ''ncp''), (525, 6, ''timed''), (525, 17, ''timed''),
      (526, 6, ''tempo''), (526, 17, ''tempo''), (527, 6, ''stx''), (527, 17, ''stx''),
      (528, 6, ''custix''), (528, 17, ''custix''), (529, 6, ''irc''), (529, 17, ''irc''),
      (530, 6, ''courier''), (530, 17, ''courier''), (531, 6, ''conference''), (531, 17, ''conference'')]"

lemma Services_5_ascend: "port_range 458 531 Services_5"
  unfolding Services_5_def port_range_def
  by (rule ascending_end ascending_same ascending_next, simp)+

definition Services_6 :: "service_entry list" where
  "Services_6 =
     [(532, 6, ''netnews''), (532, 17, ''netnews''), (533, 6, ''netwall''), (533, 17, ''netwall''),
      (534, 6, ''mm-admin''), (534, 17, ''mm-admin''), (535, 6, ''iiop''), (535, 17, ''iiop''),
      (536, 6, ''opalis-rdv''), (536, 17, ''opalis-rdv''), (537, 6, ''nmsp''), (537, 17, ''nmsp''),
      (538, 6, ''gdomap''), (538, 17, ''gdomap''), (539, 6, ''apertus-ldp''), (539, 17, ''apertus-ldp''),
      (540, 6, ''uucp''), (540, 17, ''uucp''), (541, 6, ''uucp-rlogin''), (541, 17, ''uucp-rlogin''),
      (542, 6, ''commerce''), (542, 17, ''commerce''), (543, 6, ''klogin''), (543, 17, ''klogin''),
      (544, 6, ''kshell''), (544, 17, ''kshell''), (545, 6, ''ekshell''), (545, 17, ''appleqtcsrvr''),
      (546, 6, ''dhcpv6-client''), (546, 17, ''dhcpv6-client''), (547, 6, ''dhcpv6-server''), (547, 17, ''dhcpv6-server''),
      (548, 6, ''afp''), (548, 17, ''afp''), (549, 6, ''idfp''), (549, 17, ''idfp''),
      (550, 6, ''new-rwho''), (550, 17, ''new-rwho''), (551, 6, ''cybercash''), (551, 17, ''cybercash''),
      (552, 6, ''deviceshare''), (552, 17, ''deviceshare''), (553, 6, ''pirp''), (553, 17, ''pirp''),
      (554, 6, ''rtsp''), (554, 17, ''rtsp''), (555, 6, ''dsf''), (555, 17, ''dsf''),
      (556, 6, ''remotefs''), (556, 17, ''remotefs''), (557, 6, ''openvms-sysipc''), (557, 17, ''openvms-sysipc''),
      (558, 6, ''sdnskmp''), (558, 17, ''sdnskmp''), (559, 6, ''teedtap''), (559, 17, ''teedtap''),
      (560, 6, ''rmonitor''), (560, 17, ''rmonitor''), (561, 6, ''monitor''), (561, 17, ''monitor''),
      (562, 6, ''chshell''), (562, 17, ''chshell''), (563, 6, ''snews''), (563, 17, ''snews''),
      (564, 6, ''9pfs''), (564, 17, ''9pfs''), (565, 6, ''whoami''), (565, 17, ''whoami''),
      (566, 6, ''streettalk''), (566, 17, ''streettalk''), (567, 6, ''banyan-rpc''), (567, 17, ''banyan-rpc''),
      (568, 6, ''ms-shuttle''), (568, 17, ''ms-shuttle''), (569, 6, ''ms-rome''), (569, 17, ''ms-rome''),
      (570, 6, ''meter''), (570, 17, ''meter''), (571, 6, ''umeter''), (571, 17, ''umeter''),
      (572, 6, ''sonar''), (572, 17, ''sonar''), (573, 6, ''banyan-vip''), (573, 17, ''banyan-vip''),
      (574, 6, ''ftp-agent''), (574, 17, ''ftp-agent''), (575, 6, ''vemmi''), (575, 17, ''vemmi''),
      (576, 6, ''ipcd''), (576, 17, ''ipcd''), (577, 6, ''vnas''), (577, 17, ''vnas''),
      (578, 6, ''ipdd''), (578, 17, ''ipdd''), (579, 6, ''decbsrv''), (579, 17, ''decbsrv''),
      (580, 6, ''sntp-heartbeat''), (580, 17, ''sntp-heartbeat''), (581, 6, ''bdp''), (581, 17, ''bdp''),
      (582, 6, ''scc-security''), (582, 17, ''scc-security''), (583, 6, ''philips-vc''), (583, 17, ''philips-vc''),
      (584, 6, ''keyserver''), (584, 17, ''keyserver''), (585, 6, ''imap4-ssl''), (585, 17, ''imap4-ssl''),
      (586, 6, ''password-chg''), (586, 17, ''password-chg''), (587, 6, ''submission''), (587, 17, ''submission''),
      (588, 6, ''cal''), (588, 17, ''cal''), (589, 6, ''eyelink''), (589, 17, ''eyelink''),
      (590, 6, ''tns-cml''), (590, 17, ''tns-cml''), (591, 6, ''http-alt''), (591, 17, ''http-alt''),
      (592, 6, ''eudora-set''), (592, 17, ''eudora-set''), (593, 6, ''http-rpc-epmap''), (593, 17, ''http-rpc-epmap''),
      (594, 6, ''tpip''), (594, 17, ''tpip''), (595, 6, ''cab-protocol''), (595, 17, ''cab-protocol''),
      (596, 6, ''smsd''), (596, 17, ''smsd''), (597, 6, ''ptcnameservice''), (597, 17, ''ptcnameservice''),
      (598, 6, ''sco-websrvrmg3''), (598, 17, ''sco-websrvrmg3''), (599, 6, ''acp''), (599, 17, ''acp''),
      (600, 6, ''ipcserver''), (600, 17, ''ipcserver''), (601, 6, ''syslog-conn''), (601, 17, ''syslog-conn''),
      (602, 6, ''xmlrpc-beep''), (602, 17, ''xmlrpc-beep''), (603, 6, ''mnotes''), (603, 17, ''idxp''),
      (604, 6, ''tunnel''), (604, 17, ''tunnel''), (605, 6, ''soap-beep''), (605, 17, ''soap-beep'')]"

lemma Services_6_ascend: "port_range 532 605 Services_6"
  unfolding Services_6_def port_range_def
  by (rule ascending_end ascending_same ascending_next, simp)+

definition Services_7 :: "service_entry list" where
  "Services_7 =
     [(606, 6, ''urm''), (606, 17, ''urm''), (607, 6, ''nqs''), (607, 17, ''nqs''),
      (608, 6, ''sift-uft''), (608, 17, ''sift-uft''), (609, 6, ''npmp-trap''), (609, 17, ''npmp-trap''),
      (610, 6, ''npmp-local''), (610, 17, ''npmp-local''), (611, 6, ''npmp-gui''), (611, 17, ''npmp-gui''),
      (612, 6, ''hmmp-ind''), (612, 17, ''hmmp-ind''), (613, 6, ''hmmp-op''), (613, 17, ''hmmp-op''),
      (614, 6, ''sshell''), (614, 17, ''sshell''), (615, 6, ''sco-inetmgr''), (615, 17, ''sco-inetmgr''),
      (616, 6, ''sco-sysmgr''), (616, 17, ''sco-sysmgr''), (617, 6, ''sco-dtmgr''), (617, 17, ''sco-dtmgr''),
      (618, 6, ''dei-icda''), (618, 17, ''dei-icda''), (619, 6, ''compaq-evm''), (619, 17, ''compaq-evm''),
      (620, 6, ''sco-websrvrmgr''), (620, 17, ''sco-websrvrmgr''), (621, 6, ''escp-ip''), (621, 17, ''escp-ip''),
      (622, 6, ''collaborator''), (622, 17, ''collaborator''), (623, 6, ''oob-ws-http''), (623, 17, ''asf-rmcp''),
      (624, 6, ''cryptoadmin''), (624, 17, ''cryptoadmin''), (625, 6, ''apple-xsrvr-admin''), (625, 17, ''dec_dlm''),
      (626, 6, ''apple-imap-admin''), (626, 17, ''serialnumberd''), (627, 6, ''passgo-tivoli''), (627, 17, ''passgo-tivoli''),
      (628, 6, ''qmqp''), (628, 17, ''qmqp''), (629, 6, ''3com-amp3''), (629, 17, ''3com-amp3''),
      (630, 6, ''rda''), (630, 17, ''rda''), (631, 6, ''ipp''), (631, 17, ''ipp''),
      (632, 6, ''bmpp''), (632, 17, ''bmpp''), (633, 6, ''servstat''), (633, 17, ''servstat''),
      (634, 6, ''ginad''), (634, 17, ''ginad''), (635, 6, ''rlzdbase''), (635, 17, ''mount''),
      (636, 6, ''ldapssl''), (636, 17, ''ldaps''), (637, 6, ''lanserver''), (637, 17, ''lanserver''),
      (638, 6, ''mcns-sec''), (638, 17, ''mcns-sec''), (639, 6, ''msdp''), (639, 17, ''msdp''),
      (640, 6, ''entrust-sps''), (640, 17, ''pcnfs''), (641, 6, ''repcmd''), (641, 17, ''repcmd''),
      (642, 6, ''esro-emsdp''), (642, 17, ''esro-emsdp''), (643, 6, ''sanity''), (643, 17, ''sanity''),
      (644, 6, ''dwr''), (644, 17, ''dwr''), (645, 6, ''pssc''), (645, 17, ''pssc''),
      (646, 6, ''ldp''), (646, 17, ''ldp''), (647, 6, ''dhcp-failover''), (647, 17, ''dhcp-failover''),
      (648, 6, ''rrp''), (648, 17, ''rrp''), (649, 6, ''cadview-3d''), (649, 17, ''cadview-3d''),
      (650, 6, ''obex''), (650, 17, ''bwnfs''), (651, 6, ''ieee-mms''), (651, 17, ''ieee-mms''),
      (652, 6, ''hello-port''), (652, 17, ''hello-port''), (653, 6, ''repscmd''), (653, 17, ''repscmd''),
      (654, 6, ''aodv''), (654, 17, ''aodv''), (655, 6, ''tinc''), (655, 17, ''tinc''),
      (656, 6, ''spmp''), (656, 17, ''spmp''), (657, 6, ''rmc''), (657, 17, ''rmc''),
      (658, 6, ''tenfold''), (658, 17, ''tenfold''), (660, 6, ''mac-srvr-admin''), (660, 17, ''mac-srvr-admin''),
      (661, 6, ''hap''), (661, 17, ''hap''), (662, 6, ''pftp''), (662, 17, ''pftp''),
      (663, 6, ''purenoise''), (663, 17, ''purenoise''), (664, 6, ''secure-aux-bus''), (664, 17, ''secure-aux-bus''),
      (665, 6, ''sun-dr''), (665, 17, ''sun-dr''), (666, 6, ''doom''), (666, 17, ''doom''),
      (667, 6, ''disclose''), (667, 17, ''disclose''), (668, 6, ''mecomm''), (668, 17, ''mecomm''),
      (669, 6, ''meregister''), (669, 17, ''meregister''), (670, 6, ''vacdsm-sws''), (670, 17, ''vacdsm-sws''),
      (671, 6, ''vacdsm-app''), (671, 17, ''vacdsm-app''), (672, 6, ''vpps-qua''), (672, 17, ''vpps-qua''),
      (673, 6, ''cimplex''), (673, 17, ''cimplex''), (674, 6, ''acap''), (674, 17, ''acap''),
      (675, 6, ''dctp''), (675, 17, ''dctp''), (676, 6, ''vpps-via''), (676, 17, ''vpps-via''),
      (677, 6, ''vpp''), (677, 17, ''vpp''), (678, 6, ''ggf-ncp''), (678, 17, ''ggf-ncp''),
      (679, 6, ''mrm''), (679, 17, ''mrm''), (680, 6, ''entrust-aaas''), (680, 17, ''entrust-aaas'')]"

lemma Services_7_ascend: "port_range 606 680 Services_7"
  unfolding Services_7_def port_range_def
  by (rule ascending_end ascending_same ascending_next, simp)+

definition Services_8 :: "service_entry list" where
  "Services_8 =
     [(681, 6, ''entrust-aams''), (681, 17, ''entrust-aams''), (682, 6, ''xfr''), (682, 17, ''xfr''),
      (683, 6, ''corba-iiop''), (683, 17, ''corba-iiop''), (684, 6, ''corba-iiop-ssl''), (684, 17, ''corba-iiop-ssl''),
      (685, 6, ''mdc-portmapper''), (685, 17, ''mdc-portmapper''), (686, 6, ''hcp-wismar''), (686, 17, ''hcp-wismar''),
      (687, 6, ''asipregistry''), (687, 17, ''asipregistry''), (688, 6, ''realm-rusd''), (688, 17, ''realm-rusd''),
      (689, 6, ''nmap''), (689, 17, ''nmap''), (690, 6, ''vatp''), (690, 17, ''vatp''),
      (691, 6, ''resvc''), (691, 17, ''msexch-routing''), (692, 6, ''hyperwave-isp''), (692, 17, ''hyperwave-isp''),
      (693, 6, ''connendp''), (693, 17, ''connendp''), (694, 6, ''ha-cluster''), (694, 17, ''ha-cluster''),
      (695, 6, ''ieee-mms-ssl''), (695, 17, ''ieee-mms-ssl''), (696, 6, ''rushd''), (696, 17, ''rushd''),
      (697, 6, ''uuidgen''), (697, 17, ''uuidgen''), (698, 6, ''olsr''), (698, 17, ''olsr''),
      (699, 6, ''accessnetwork''), (699, 17, ''accessnetwork''), (700, 6, ''epp''), (700, 17, ''epp''),
      (701, 6, ''lmp''), (701, 17, ''lmp''), (702, 6, ''iris-beep''), (702, 17, ''iris-beep''),
      (704, 6, ''elcsd''), (704, 17, ''elcsd''), (705, 6, ''agentx''), (705, 17, ''agentx''),
      (706, 6, ''silc''), (706, 17, ''silc''), (707, 6, ''borland-dsj''), (707, 17, ''borland-dsj''),
      (709, 6, ''entrustmanager''), (709, 17, ''entrustmanager''), (710, 6, ''entrust-ash''), (710, 17, ''entrust-ash''),
      (711, 6, ''cisco-tdp''), (711, 17, ''cisco-tdp''), (712, 6, ''tbrpf''), (712, 17, ''tbrpf''),
      (713, 6, ''iris-xpc''), (713, 17, ''iris-xpc''), (714, 6, ''iris-xpcs''), (714, 17, ''iris-xpcs''),
      (715, 6, ''iris-lwz''), (715, 17, ''iris-lwz''), (716, 6, ''pana''), (716, 17, ''pana''),
      (723, 6, ''omfs''), (729, 6, ''netviewdm1''), (729, 17, ''netviewdm1''), (730, 6, ''netviewdm2''),
      (730, 17, ''netviewdm2''), (731, 6, ''netviewdm3''), (731, 17, ''netviewdm3''), (737, 17, ''sometimes-rpc2''),
      (740, 6, ''netcp''), (740, 17, ''netcp''), (741, 6, ''netgw''), (741, 17, ''netgw''),
      (742, 6, ''netrcs''), (742, 17, ''netrcs''), (744, 6, ''flexlm''), (744, 17, ''flexlm''),
      (747, 6, ''fujitsu-dev''), (747, 17, ''fujitsu-dev''), (748, 6, ''ris-cm''), (748, 17, ''ris-cm''),
      (749, 6, ''kerberos-adm''), (749, 17, ''kerberos-adm''), (750, 6, ''kerberos''), (750, 17, ''kerberos''),
      (751, 6, ''kerberos_master''), (751, 17, ''kerberos_master''), (752, 6, ''qrh''), (752, 17, ''qrh''),
      (753, 6, ''rrh''), (753, 17, ''rrh''), (754, 6, ''krb_prop''), (754, 17, ''tell''),
      (758, 6, ''nlogin''), (758, 17, ''nlogin''), (759, 6, ''con''), (759, 17, ''con''),
      (760, 6, ''krbupdate''), (760, 17, ''ns''), (761, 6, ''kpasswd''), (761, 17, ''rxe''),
      (762, 6, ''quotad''), (762, 17, ''quotad''), (763, 6, ''cycleserv''), (763, 17, ''cycleserv''),
      (764, 6, ''omserv''), (764, 17, ''omserv''), (765, 6, ''webster''), (765, 17, ''webster''),
      (767, 6, ''phonebook''), (767, 17, ''phonebook''), (769, 6, ''vid''), (769, 17, ''vid''),
      (770, 6, ''cadlock''), (770, 17, ''cadlock''), (771, 6, ''rtip''), (771, 17, ''rtip''),
      (772, 6, ''cycleserv2''), (772, 17, ''cycleserv2''), (773, 6, ''submit''), (773, 17, ''notify''),
      (774, 6, ''rpasswd''), (774, 17, ''acmaint_dbd''), (775, 6, ''entomb''), (775, 17, ''acmaint_transd''),
      (776, 6, ''wpages''), (776, 17, ''wpages''), (777, 6, ''multiling-http''), (777, 17, ''multiling-http''),
      (780, 6, ''wpgs''), (780, 17, ''wpgs''), (781, 6, ''hp-collector''), (781, 17, ''hp-collector''),
      (782, 6, ''hp-managed-node''), (782, 17, ''hp-managed-node''), (783, 6, ''spamassassin''), (786, 6, ''concert''),
      (786, 17, ''concert''), (787, 6, ''qsc''), (799, 6, ''controlit''), (800, 6, ''mdbs_daemon''),
      (800, 17, ''mdbs_daemon'')]"

lemma Services_8_ascend: "port_range 681 800 Services_8"
  unfolding Services_8_def port_range_def
  by (rule ascending_end ascending_same ascending_next, simp)+

definition Services_9 :: "service_entry list" where
  "Services_9 =
     [(801, 6, ''device''), (801, 17, ''device''), (802, 6, ''mbap-s''), (808, 6, ''ccproxy-http''),
      (810, 6, ''fcp-udp''), (810, 17, ''fcp-udp''), (828, 6, ''itm-mcell-s''), (828, 17, ''itm-mcell-s''),
      (829, 6, ''pkix-3-ca-ra''), (829, 17, ''pkix-3-ca-ra''), (830, 6, ''netconf-ssh''), (830, 17, ''netconf-ssh''),
      (831, 6, ''netconf-beep''), (831, 17, ''netconf-beep''), (832, 6, ''netconfsoaphttp''), (832, 17, ''netconfsoaphttp''),
      (833, 6, ''netconfsoapbeep''), (833, 17, ''netconfsoapbeep''), (847, 6, ''dhcp-failover2''), (847, 17, ''dhcp-failover2''),
      (848, 6, ''gdoi''), (848, 17, ''gdoi''), (853, 6, ''domain-s''), (854, 6, ''dlep''),
      (860, 6, ''iscsi''), (860, 17, ''iscsi''), (861, 6, ''owamp-control''), (861, 17, ''owamp-control''),
      (862, 6, ''twamp-control''), (862, 17, ''twamp-control''), (871, 6, ''supfilesrv''), (873, 6, ''rsync''),
      (873, 17, ''rsync''), (886, 6, ''iclcnet-locate''), (886, 17, ''iclcnet-locate''), (887, 6, ''iclcnet_svinfo''),
      (887, 17, ''iclcnet_svinfo''), (888, 6, ''accessbuilder''), (888, 17, ''accessbuilder''), (898, 6, ''sun-manageconsole''),
      (900, 6, ''omginitialrefs''), (900, 17, ''omginitialrefs''), (901, 6, ''samba-swat''), (901, 17, ''smpnameres''),
      (902, 6, ''iss-realsecure''), (902, 17, ''ideafarm-door''), (903, 6, ''iss-console-mgr''), (903, 17, ''ideafarm-panic''),
      (910, 6, ''kink''), (910, 17, ''kink''), (911, 6, ''xact-backup''), (911, 17, ''xact-backup''),
      (912, 6, ''apex-mesh''), (912, 17, ''apex-mesh''), (913, 6, ''apex-edge''), (913, 17, ''apex-edge''),
      (950, 6, ''oftep-rpc''), (953, 6, ''rndc''), (975, 6, ''securenetpro-sensor''), (989, 6, ''ftps-data''),
      (989, 17, ''ftps-data''), (990, 6, ''ftps''), (990, 17, ''ftps''), (991, 6, ''nas''),
      (991, 17, ''nas''), (992, 6, ''telnets''), (992, 17, ''telnets''), (993, 6, ''imaps''),
      (993, 17, ''imaps''), (994, 6, ''ircs''), (994, 17, ''ircs''), (995, 6, ''pop3s''),
      (995, 17, ''pop3s''), (996, 6, ''xtreelic''), (996, 17, ''vsinet''), (997, 6, ''maitrd''),
      (997, 17, ''maitrd''), (998, 6, ''busboy''), (998, 17, ''puparp''), (999, 6, ''garcon''),
      (999, 17, ''applix''), (1000, 6, ''cadlock''), (1000, 17, ''ock''), (1001, 6, ''webpush''),
      (1002, 6, ''windows-icfw''), (1008, 6, ''ufsd''), (1008, 17, ''ufsd''), (1010, 6, ''surf''),
      (1010, 17, ''surf''), (1012, 17, ''sometimes-rpc1''), (1021, 6, ''exp1''), (1021, 17, ''exp1''),
      (1022, 6, ''exp2''), (1022, 17, ''exp2''), (1023, 6, ''netvenuechat''), (1024, 6, ''kdm''),
      (1025, 6, ''NFS-or-IIS''), (1025, 17, ''blackjack''), (1026, 6, ''LSA-or-nterm''), (1026, 17, ''win-rpc''),
      (1027, 6, ''IIS''), (1028, 17, ''ms-lsa''), (1029, 6, ''ms-lsa''), (1029, 17, ''solid-mux''),
      (1030, 6, ''iad1''), (1030, 17, ''iad1''), (1031, 6, ''iad2''), (1031, 17, ''iad2''),
      (1032, 6, ''iad3''), (1032, 17, ''iad3''), (1033, 6, ''netinfo''), (1033, 17, ''netinfo-local''),
      (1034, 6, ''zincite-a''), (1034, 17, ''activesync-notify''), (1035, 6, ''multidropper''), (1035, 17, ''mxxrlogin''),
      (1036, 6, ''nsstp''), (1036, 17, ''nsstp''), (1037, 6, ''ams''), (1037, 17, ''ams''),
      (1038, 6, ''mtqp''), (1038, 17, ''mtqp''), (1039, 6, ''sbl''), (1039, 17, ''sbl''),
      (1040, 6, ''netsaint''), (1040, 17, ''netarx''), (1041, 6, ''danf-ak2''), (1041, 17, ''danf-ak2''),
      (1042, 6, ''afrog''), (1042, 17, ''afrog''), (1043, 6, ''boinc''), (1043, 17, ''boinc''),
      (1044, 6, ''dcutility''), (1044, 17, ''dcutility''), (1045, 6, ''fpitp''), (1045, 17, ''fpitp''),
      (1046, 6, ''wfremotertm''), (1046, 17, ''wfremotertm''), (1047, 6, ''neod1''), (1047, 17, ''neod1''),
      (1048, 6, ''neod2''), (1048, 17, ''neod2''), (1049, 6, ''td-postman''), (1049, 17, ''td-postman''),
      (1050, 6, ''java-or-OTGfileshare''), (1050, 17, ''cma''), (1051, 6, ''optima-vnet''), (1051, 17, ''optima-vnet'')]"

lemma Services_9_ascend: "port_range 801 1051 Services_9"
  unfolding Services_9_def port_range_def
  by (rule ascending_end ascending_same ascending_next, simp)+

definition Services_10 :: "service_entry list" where
  "Services_10 =
     [(1052, 6, ''ddt''), (1052, 17, ''ddt''), (1053, 6, ''remote-as''), (1053, 17, ''remote-as''),
      (1054, 6, ''brvread''), (1054, 17, ''brvread''), (1055, 6, ''ansyslmd''), (1055, 17, ''ansyslmd''),
      (1056, 6, ''vfo''), (1056, 17, ''vfo''), (1057, 6, ''startron''), (1057, 17, ''startron''),
      (1058, 6, ''nim''), (1058, 17, ''nim''), (1059, 6, ''nimreg''), (1059, 17, ''nimreg''),
      (1060, 6, ''polestar''), (1060, 17, ''polestar''), (1061, 6, ''kiosk''), (1061, 17, ''kiosk''),
      (1062, 6, ''veracity''), (1062, 17, ''veracity''), (1063, 6, ''kyoceranetdev''), (1063, 17, ''kyoceranetdev''),
      (1064, 6, ''jstel''), (1064, 17, ''jstel''), (1065, 6, ''syscomlan''), (1065, 17, ''syscomlan''),
      (1066, 6, ''fpo-fns''), (1066, 17, ''fpo-fns''), (1067, 6, ''instl_boots''), (1067, 17, ''instl_boots''),
      (1068, 6, ''instl_bootc''), (1068, 17, ''instl_bootc''), (1069, 6, ''cognex-insight''), (1069, 17, ''cognex-insight''),
      (1070, 6, ''gmrupdateserv''), (1070, 17, ''gmrupdateserv''), (1071, 6, ''bsquare-voip''), (1071, 17, ''bsquare-voip''),
      (1072, 6, ''cardax''), (1072, 17, ''cardax''), (1073, 6, ''bridgecontrol''), (1073, 17, ''bridgecontrol''),
      (1074, 6, ''warmspotMgmt''), (1074, 17, ''warmspotMgmt''), (1075, 6, ''rdrmshc''), (1075, 17, ''rdrmshc''),
      (1076, 6, ''sns_credit''), (1076, 17, ''dab-sti-c''), (1077, 6, ''imgames''), (1077, 17, ''imgames''),
      (1078, 6, ''avocent-proxy''), (1078, 17, ''avocent-proxy''), (1079, 6, ''asprovatalk''), (1079, 17, ''asprovatalk''),
      (1080, 6, ''socks''), (1080, 17, ''socks''), (1081, 6, ''pvuniwien''), (1081, 17, ''pvuniwien''),
      (1082, 6, ''amt-esd-prot''), (1082, 17, ''amt-esd-prot''), (1083, 6, ''ansoft-lm-1''), (1083, 17, ''ansoft-lm-1''),
      (1084, 6, ''ansoft-lm-2''), (1084, 17, ''ansoft-lm-2''), (1085, 6, ''webobjects''), (1085, 17, ''webobjects''),
      (1086, 6, ''cplscrambler-lg''), (1086, 17, ''cplscrambler-lg''), (1087, 6, ''cplscrambler-in''), (1087, 17, ''cplscrambler-in''),
      (1088, 6, ''cplscrambler-al''), (1088, 17, ''cplscrambler-al''), (1089, 6, ''ff-annunc''), (1089, 17, ''ff-annunc''),
      (1090, 6, ''ff-fms''), (1090, 17, ''ff-fms''), (1091, 6, ''ff-sm''), (1091, 17, ''ff-sm''),
      (1092, 6, ''obrpd''), (1092, 17, ''obrpd''), (1093, 6, ''proofd''), (1093, 17, ''proofd''),
      (1094, 6, ''rootd''), (1094, 17, ''rootd''), (1095, 6, ''nicelink''), (1095, 17, ''nicelink''),
      (1096, 6, ''cnrprotocol''), (1096, 17, ''cnrprotocol''), (1097, 6, ''sunclustermgr''), (1097, 17, ''sunclustermgr''),
      (1098, 6, ''rmiactivation''), (1098, 17, ''rmiactivation''), (1099, 6, ''rmiregistry''), (1099, 17, ''rmiregistry''),
      (1100, 6, ''mctp''), (1100, 17, ''mctp''), (1101, 6, ''pt2-discover''), (1101, 17, ''pt2-discover''),
      (1102, 6, ''adobeserver-1''), (1102, 17, ''adobeserver-1''), (1103, 6, ''xaudio''), (1103, 17, ''adobeserver-2''),
      (1104, 6, ''xrl''), (1104, 17, ''xrl''), (1105, 6, ''ftranhc''), (1105, 17, ''ftranhc''),
      (1106, 6, ''isoipsigport-1''), (1106, 17, ''isoipsigport-1''), (1107, 6, ''isoipsigport-2''), (1107, 17, ''isoipsigport-2''),
      (1108, 6, ''ratio-adp''), (1108, 17, ''ratio-adp''), (1109, 6, ''kpop''), (1110, 6, ''nfsd-status''),
      (1110, 17, ''nfsd-keepalive''), (1111, 6, ''lmsocialserver''), (1111, 17, ''lmsocialserver''), (1112, 6, ''msql''),
      (1112, 17, ''icp''), (1113, 6, ''ltp-deepspace''), (1113, 17, ''ltp-deepspace''), (1114, 6, ''mini-sql''),
      (1114, 17, ''mini-sql''), (1115, 6, ''ardus-trns''), (1115, 17, ''ardus-trns''), (1116, 6, ''ardus-cntl''),
      (1116, 17, ''ardus-cntl''), (1117, 6, ''ardus-mtrns''), (1117, 17, ''ardus-mtrns''), (1118, 6, ''sacred''),
      (1118, 17, ''sacred''), (1119, 6, ''bnetgame''), (1119, 17, ''bnetgame''), (1120, 6, ''bnetfile''),
      (1120, 17, ''bnetfile''), (1121, 6, ''rmpp''), (1121, 17, ''rmpp''), (1122, 6, ''availant-mgr''),
      (1122, 17, ''availant-mgr''), (1123, 6, ''murray''), (1123, 17, ''murray''), (1124, 6, ''hpvmmcontrol''),
      (1124, 17, ''hpvmmcontrol''), (1125, 6, ''hpvmmagent''), (1125, 17, ''hpvmmagent''), (1126, 6, ''hpvmmdata''),
      (1126, 17, ''hpvmmdata'')]"

lemma Services_10_ascend: "port_range 1052 1126 Services_10"
  unfolding Services_10_def port_range_def
  by (rule ascending_end ascending_same ascending_next, simp)+

definition Services_11 :: "service_entry list" where
  "Services_11 =
     [(1127, 6, ''supfiledbg''), (1127, 17, ''kwdb-commn''), (1128, 6, ''saphostctrl''), (1128, 17, ''saphostctrl''),
      (1129, 6, ''saphostctrls''), (1129, 17, ''saphostctrls''), (1130, 6, ''casp''), (1130, 17, ''casp''),
      (1131, 6, ''caspssl''), (1131, 17, ''caspssl''), (1132, 6, ''kvm-via-ip''), (1132, 17, ''kvm-via-ip''),
      (1133, 6, ''dfn''), (1133, 17, ''dfn''), (1134, 6, ''aplx''), (1134, 17, ''aplx''),
      (1135, 6, ''omnivision''), (1135, 17, ''omnivision''), (1136, 6, ''hhb-gateway''), (1136, 17, ''hhb-gateway''),
      (1137, 6, ''trim''), (1137, 17, ''trim''), (1138, 6, ''encrypted_admin''), (1138, 17, ''encrypted_admin''),
      (1139, 6, ''cce3x''), (1139, 17, ''evm''), (1140, 6, ''autonoc''), (1140, 17, ''autonoc''),
      (1141, 6, ''mxomss''), (1141, 17, ''mxomss''), (1142, 6, ''edtools''), (1142, 17, ''edtools''),
      (1143, 6, ''imyx''), (1143, 17, ''imyx''), (1144, 6, ''fuscript''), (1144, 17, ''fuscript''),
      (1145, 6, ''x9-icue''), (1145, 17, ''x9-icue''), (1146, 6, ''audit-transfer''), (1146, 17, ''audit-transfer''),
      (1147, 6, ''capioverlan''), (1147, 17, ''capioverlan''), (1148, 6, ''elfiq-repl''), (1148, 17, ''elfiq-repl''),
      (1149, 6, ''bvtsonar''), (1149, 17, ''bvtsonar''), (1150, 6, ''blaze''), (1150, 17, ''blaze''),
      (1151, 6, ''unizensus''), (1151, 17, ''unizensus''), (1152, 6, ''winpoplanmess''), (1152, 17, ''winpoplanmess''),
      (1153, 6, ''c1222-acse''), (1153, 17, ''c1222-acse''), (1154, 6, ''resacommunity''), (1154, 17, ''resacommunity''),
      (1155, 6, ''nfa''), (1155, 17, ''nfa''), (1156, 6, ''iascontrol-oms''), (1156, 17, ''iascontrol-oms''),
      (1157, 6, ''iascontrol''), (1157, 17, ''iascontrol''), (1158, 6, ''lsnr''), (1158, 17, ''dbcontrol-oms''),
      (1159, 6, ''oracle-oms''), (1159, 17, ''oracle-oms''), (1160, 6, ''olsv''), (1160, 17, ''olsv''),
      (1161, 6, ''health-polling''), (1161, 17, ''health-polling''), (1162, 6, ''health-trap''), (1162, 17, ''health-trap''),
      (1163, 6, ''sddp''), (1163, 17, ''sddp''), (1164, 6, ''qsm-proxy''), (1164, 17, ''qsm-proxy''),
      (1165, 6, ''qsm-gui''), (1165, 17, ''qsm-gui''), (1166, 6, ''qsm-remote''), (1166, 17, ''qsm-remote''),
      (1167, 132, ''cisco-ipsla''), (1167, 6, ''cisco-ipsla''), (1167, 17, ''cisco-ipsla''), (1168, 6, ''vchat''),
      (1168, 17, ''vchat''), (1169, 6, ''tripwire''), (1169, 17, ''tripwire''), (1170, 6, ''atc-lm''),
      (1170, 17, ''atc-lm''), (1171, 6, ''atc-appserver''), (1171, 17, ''atc-appserver''), (1172, 6, ''dnap''),
      (1172, 17, ''dnap''), (1173, 6, ''d-cinema-rrp''), (1173, 17, ''d-cinema-rrp''), (1174, 6, ''fnet-remote-ui''),
      (1174, 17, ''fnet-remote-ui''), (1175, 6, ''dossier''), (1175, 17, ''dossier''), (1176, 6, ''indigo-server''),
      (1176, 17, ''indigo-server''), (1177, 6, ''dkmessenger''), (1177, 17, ''dkmessenger''), (1178, 6, ''skkserv''),
      (1178, 17, ''sgi-storman''), (1179, 6, ''b2n''), (1179, 17, ''b2n''), (1180, 6, ''mc-client''),
      (1180, 17, ''mc-client''), (1181, 6, ''3comnetman''), (1181, 17, ''3comnetman''), (1182, 6, ''accelenet''),
      (1182, 17, ''accelenet-data''), (1183, 6, ''llsurfup-http''), (1183, 17, ''llsurfup-http''), (1184, 6, ''llsurfup-https''),
      (1184, 17, ''llsurfup-https''), (1185, 6, ''catchpole''), (1185, 17, ''catchpole''), (1186, 6, ''mysql-cluster''),
      (1186, 17, ''mysql-cluster''), (1187, 6, ''alias''), (1187, 17, ''alias''), (1188, 6, ''hp-webadmin''),
      (1188, 17, ''hp-webadmin''), (1189, 6, ''unet''), (1189, 17, ''unet''), (1190, 6, ''commlinx-avl''),
      (1190, 17, ''commlinx-avl''), (1191, 6, ''gpfs''), (1191, 17, ''gpfs''), (1192, 6, ''caids-sensor''),
      (1192, 17, ''caids-sensor''), (1193, 6, ''fiveacross''), (1193, 17, ''fiveacross''), (1194, 6, ''openvpn''),
      (1194, 17, ''openvpn''), (1195, 6, ''rsf-1''), (1195, 17, ''rsf-1''), (1196, 6, ''netmagic''),
      (1196, 17, ''netmagic''), (1197, 6, ''carrius-rshell''), (1197, 17, ''carrius-rshell''), (1198, 6, ''cajo-discovery''),
      (1198, 17, ''cajo-discovery''), (1199, 6, ''dmidi''), (1199, 17, ''dmidi''), (1200, 6, ''scol''),
      (1200, 17, ''scol'')]"

lemma Services_11_ascend: "port_range 1127 1200 Services_11"
  unfolding Services_11_def port_range_def
  by (rule ascending_end ascending_same ascending_next, simp)+

definition Services_12 :: "service_entry list" where
  "Services_12 =
     [(1201, 6, ''nucleus-sand''), (1201, 17, ''nucleus-sand''), (1202, 6, ''caiccipc''), (1202, 17, ''caiccipc''),
      (1203, 6, ''ssslic-mgr''), (1203, 17, ''ssslic-mgr''), (1204, 6, ''ssslog-mgr''), (1204, 17, ''ssslog-mgr''),
      (1205, 6, ''accord-mgc''), (1205, 17, ''accord-mgc''), (1206, 6, ''anthony-data''), (1206, 17, ''anthony-data''),
      (1207, 6, ''metasage''), (1207, 17, ''metasage''), (1208, 6, ''seagull-ais''), (1208, 17, ''seagull-ais''),
      (1209, 6, ''ipcd3''), (1209, 17, ''ipcd3''), (1210, 6, ''eoss''), (1210, 17, ''eoss''),
      (1211, 6, ''groove-dpp''), (1211, 17, ''groove-dpp''), (1212, 6, ''lupa''), (1212, 17, ''lupa''),
      (1213, 6, ''mpc-lifenet''), (1213, 17, ''mpc-lifenet''), (1214, 6, ''fasttrack''), (1214, 17, ''fasttrack''),
      (1215, 6, ''scanstat-1''), (1215, 17, ''scanstat-1''), (1216, 6, ''etebac5''), (1216, 17, ''etebac5''),
      (1217, 6, ''hpss-ndapi''), (1217, 17, ''hpss-ndapi''), (1218, 6, ''aeroflight-ads''), (1218, 17, ''aeroflight-ads''),
      (1219, 6, ''aeroflight-ret''), (1219, 17, ''aeroflight-ret''), (1220, 6, ''quicktime''), (1220, 17, ''qt-serveradmin''),
      (1221, 6, ''sweetware-apps''), (1221, 17, ''sweetware-apps''), (1222, 6, ''nerv''), (1222, 17, ''nerv''),
      (1223, 6, ''tgp''), (1223, 17, ''tgp''), (1224, 6, ''vpnz''), (1224, 17, ''vpnz''),
      (1225, 6, ''slinkysearch''), (1225, 17, ''slinkysearch''), (1226, 6, ''stgxfws''), (1226, 17, ''stgxfws''),
      (1227, 6, ''dns2go''), (1227, 17, ''dns2go''), (1228, 6, ''florence''), (1228, 17, ''florence''),
      (1229, 6, ''zented''), (1229, 17, ''zented''), (1230, 6, ''periscope''), (1230, 17, ''periscope''),
      (1231, 6, ''menandmice-lpm''), (1231, 17, ''menandmice-lpm''), (1232, 6, ''first-defense''), (1233, 6, ''univ-appserver''),
      (1233, 17, ''univ-appserver''), (1234, 6, ''hotline''), (1234, 17, ''search-agent''), (1235, 6, ''mosaicsyssvc1''),
      (1235, 17, ''mosaicsyssvc1''), (1236, 6, ''bvcontrol''), (1236, 17, ''bvcontrol''), (1237, 6, ''tsdos390''),
      (1237, 17, ''tsdos390''), (1238, 6, ''hacl-qs''), (1238, 17, ''hacl-qs''), (1239, 6, ''nmsd''),
      (1239, 17, ''nmsd''), (1240, 6, ''instantia''), (1240, 17, ''instantia''), (1241, 6, ''nessus''),
      (1241, 17, ''nessus''), (1242, 6, ''nmasoverip''), (1242, 17, ''nmasoverip''), (1243, 6, ''serialgateway''),
      (1243, 17, ''serialgateway''), (1244, 6, ''isbconference1''), (1244, 17, ''isbconference1''), (1245, 6, ''isbconference2''),
      (1245, 17, ''isbconference2''), (1246, 6, ''payrouter''), (1246, 17, ''payrouter''), (1247, 6, ''visionpyramid''),
      (1247, 17, ''visionpyramid''), (1248, 6, ''hermes''), (1248, 17, ''hermes''), (1249, 6, ''mesavistaco''),
      (1249, 17, ''mesavistaco''), (1250, 6, ''swldy-sias''), (1250, 17, ''swldy-sias''), (1251, 6, ''servergraph''),
      (1251, 17, ''servergraph''), (1252, 6, ''bspne-pcc''), (1252, 17, ''bspne-pcc''), (1253, 6, ''q55-pcc''),
      (1253, 17, ''q55-pcc''), (1254, 6, ''de-noc''), (1254, 17, ''de-noc''), (1255, 6, ''de-cache-query''),
      (1255, 17, ''de-cache-query''), (1256, 6, ''de-server''), (1256, 17, ''de-server''), (1257, 6, ''shockwave2''),
      (1257, 17, ''shockwave2''), (1258, 6, ''opennl''), (1258, 17, ''opennl''), (1259, 6, ''opennl-voice''),
      (1259, 17, ''opennl-voice''), (1260, 6, ''ibm-ssd''), (1260, 17, ''ibm-ssd''), (1261, 6, ''mpshrsv''),
      (1261, 17, ''mpshrsv''), (1262, 6, ''qnts-orb''), (1262, 17, ''qnts-orb''), (1263, 6, ''dka''),
      (1263, 17, ''dka''), (1264, 6, ''prat''), (1264, 17, ''prat''), (1265, 6, ''dssiapi''),
      (1265, 17, ''dssiapi''), (1266, 6, ''dellpwrappks''), (1266, 17, ''dellpwrappks''), (1267, 6, ''epc''),
      (1267, 17, ''epc''), (1268, 6, ''propel-msgsys''), (1268, 17, ''propel-msgsys''), (1269, 6, ''watilapp''),
      (1269, 17, ''watilapp''), (1270, 6, ''ssserver''), (1270, 17, ''opsmgr''), (1271, 6, ''excw''),
      (1271, 17, ''excw''), (1272, 6, ''cspmlockmgr''), (1272, 17, ''cspmlockmgr''), (1273, 6, ''emc-gateway''),
      (1273, 17, ''emc-gateway''), (1274, 6, ''t1distproc''), (1274, 17, ''t1distproc''), (1275, 6, ''ivcollector''),
      (1275, 17, ''ivcollector'')]"

lemma Services_12_ascend: "port_range 1201 1275 Services_12"
  unfolding Services_12_def port_range_def
  by (rule ascending_end ascending_same ascending_next, simp)+

definition Services_13 :: "service_entry list" where
  "Services_13 =
     [(1276, 6, ''ivmanager''), (1276, 17, ''ivmanager''), (1277, 6, ''miva-mqs''), (1277, 17, ''miva-mqs''),
      (1278, 6, ''dellwebadmin-1''), (1278, 17, ''dellwebadmin-1''), (1279, 6, ''dellwebadmin-2''), (1279, 17, ''dellwebadmin-2''),
      (1280, 6, ''pictrography''), (1280, 17, ''pictrography''), (1281, 6, ''healthd''), (1281, 17, ''healthd''),
      (1282, 6, ''emperion''), (1282, 17, ''emperion''), (1283, 6, ''productinfo''), (1283, 17, ''productinfo''),
      (1284, 6, ''iee-qfx''), (1284, 17, ''iee-qfx''), (1285, 6, ''neoiface''), (1285, 17, ''neoiface''),
      (1286, 6, ''netuitive''), (1286, 17, ''netuitive''), (1287, 6, ''routematch''), (1287, 17, ''routematch''),
      (1288, 6, ''navbuddy''), (1288, 17, ''navbuddy''), (1289, 6, ''jwalkserver''), (1289, 17, ''jwalkserver''),
      (1290, 6, ''winjaserver''), (1290, 17, ''winjaserver''), (1291, 6, ''seagulllms''), (1291, 17, ''seagulllms''),
      (1292, 6, ''dsdn''), (1292, 17, ''dsdn''), (1293, 6, ''pkt-krb-ipsec''), (1293, 17, ''pkt-krb-ipsec''),
      (1294, 6, ''cmmdriver''), (1294, 17, ''cmmdriver''), (1295, 6, ''ehtp''), (1295, 17, ''ehtp''),
      (1296, 6, ''dproxy''), (1296, 17, ''dproxy''), (1297, 6, ''sdproxy''), (1297, 17, ''sdproxy''),
      (1298, 6, ''lpcp''), (1298, 17, ''lpcp''), (1299, 6, ''hp-sci''), (1299, 17, ''hp-sci''),
      (1300, 6, ''h323hostcallsc''), (1300, 17, ''h323hostcallsc''), (1301, 6, ''ci3-software-1''), (1301, 17, ''ci3-software-1''),
      (1302, 6, ''ci3-software-2''), (1302, 17, ''ci3-software-2''), (1303, 6, ''sftsrv''), (1303, 17, ''sftsrv''),
      (1304, 6, ''boomerang''), (1304, 17, ''boomerang''), (1305, 6, ''pe-mike''), (1305, 17, ''pe-mike''),
      (1306, 6, ''re-conn-proto''), (1306, 17, ''re-conn-proto''), (1307, 6, ''pacmand''), (1307, 17, ''pacmand''),
      (1308, 6, ''odsi''), (1308, 17, ''odsi''), (1309, 6, ''jtag-server''), (1309, 17, ''jtag-server''),
      (1310, 6, ''husky''), (1310, 17, ''husky''), (1311, 6, ''rxmon''), (1311, 17, ''rxmon''),
      (1312, 6, ''sti-envision''), (1312, 17, ''sti-envision''), (1313, 6, ''bmc_patroldb''), (1313, 17, ''bmc_patroldb''),
      (1314, 6, ''pdps''), (1314, 17, ''pdps''), (1315, 6, ''els''), (1315, 17, ''els''),
      (1316, 6, ''exbit-escp''), (1316, 17, ''exbit-escp''), (1317, 6, ''vrts-ipcserver''), (1317, 17, ''vrts-ipcserver''),
      (1318, 6, ''krb5gatekeeper''), (1318, 17, ''krb5gatekeeper''), (1319, 6, ''amx-icsp''), (1319, 17, ''amx-icsp''),
      (1320, 6, ''amx-axbnet''), (1320, 17, ''amx-axbnet''), (1321, 6, ''pip''), (1321, 17, ''pip''),
      (1322, 6, ''novation''), (1322, 17, ''novation''), (1323, 6, ''brcd''), (1323, 17, ''brcd''),
      (1324, 6, ''delta-mcp''), (1324, 17, ''delta-mcp''), (1325, 6, ''dx-instrument''), (1325, 17, ''dx-instrument''),
      (1326, 6, ''wimsic''), (1326, 17, ''wimsic''), (1327, 6, ''ultrex''), (1327, 17, ''ultrex''),
      (1328, 6, ''ewall''), (1328, 17, ''ewall''), (1329, 6, ''netdb-export''), (1329, 17, ''netdb-export''),
      (1330, 6, ''streetperfect''), (1330, 17, ''streetperfect''), (1331, 6, ''intersan''), (1331, 17, ''intersan''),
      (1332, 6, ''pcia-rxp-b''), (1332, 17, ''pcia-rxp-b''), (1333, 6, ''passwrd-policy''), (1333, 17, ''passwrd-policy''),
      (1334, 6, ''writesrv''), (1334, 17, ''writesrv''), (1335, 6, ''digital-notary''), (1335, 17, ''digital-notary''),
      (1336, 6, ''ischat''), (1336, 17, ''ischat''), (1337, 6, ''waste''), (1337, 17, ''menandmice-dns''),
      (1338, 6, ''wmc-log-svc''), (1338, 17, ''wmc-log-svc''), (1339, 6, ''kjtsiteserver''), (1339, 17, ''kjtsiteserver''),
      (1340, 6, ''naap''), (1340, 17, ''naap''), (1341, 6, ''qubes''), (1341, 17, ''qubes''),
      (1342, 6, ''esbroker''), (1342, 17, ''esbroker''), (1343, 6, ''re101''), (1343, 17, ''re101''),
      (1344, 6, ''icap''), (1344, 17, ''icap''), (1345, 6, ''vpjp''), (1345, 17, ''vpjp''),
      (1346, 6, ''alta-ana-lm''), (1346, 17, ''alta-ana-lm''), (1347, 6, ''bbn-mmc''), (1347, 17, ''bbn-mmc''),
      (1348, 6, ''bbn-mmx''), (1348, 17, ''bbn-mmx''), (1349, 6, ''sbook''), (1349, 17, ''sbook'')]"

lemma Services_13_ascend: "port_range 1276 1349 Services_13"
  unfolding Services_13_def port_range_def
  by (rule ascending_end ascending_same ascending_next, simp)+

definition Services_14 :: "service_entry list" where
  "Services_14 =
     [(1350, 6, ''editbench''), (1350, 17, ''editbench''), (1351, 6, ''equationbuilder''), (1351, 17, ''equationbuilder''),
      (1352, 6, ''lotusnotes''), (1352, 17, ''lotusnotes''), (1353, 6, ''relief''), (1353, 17, ''relief''),
      (1354, 6, ''rightbrain''), (1354, 17, ''rightbrain''), (1355, 6, ''intuitive-edge''), (1355, 17, ''intuitive-edge''),
      (1356, 6, ''cuillamartin''), (1356, 17, ''cuillamartin''), (1357, 6, ''pegboard''), (1357, 17, ''pegboard''),
      (1358, 6, ''connlcli''), (1358, 17, ''connlcli''), (1359, 6, ''ftsrv''), (1359, 17, ''ftsrv''),
      (1360, 6, ''mimer''), (1360, 17, ''mimer''), (1361, 6, ''linx''), (1361, 17, ''linx''),
      (1362, 6, ''timeflies''), (1362, 17, ''timeflies''), (1363, 6, ''ndm-requester''), (1363, 17, ''ndm-requester''),
      (1364, 6, ''ndm-server''), (1364, 17, ''ndm-server''), (1365, 6, ''adapt-sna''), (1365, 17, ''adapt-sna''),
      (1366, 6, ''netware-csp''), (1366, 17, ''netware-csp''), (1367, 6, ''dcs''), (1367, 17, ''dcs''),
      (1368, 6, ''screencast''), (1368, 17, ''screencast''), (1369, 6, ''gv-us''), (1369, 17, ''gv-us''),
      (1370, 6, ''us-gv''), (1370, 17, ''us-gv''), (1371, 6, ''fc-cli''), (1371, 17, ''fc-cli''),
      (1372, 6, ''fc-ser''), (1372, 17, ''fc-ser''), (1373, 6, ''chromagrafx''), (1373, 17, ''chromagrafx''),
      (1374, 6, ''molly''), (1374, 17, ''molly''), (1375, 6, ''bytex''), (1375, 17, ''bytex''),
      (1376, 6, ''ibm-pps''), (1376, 17, ''ibm-pps''), (1377, 6, ''cichlid''), (1377, 17, ''cichlid''),
      (1378, 6, ''elan''), (1378, 17, ''elan''), (1379, 6, ''dbreporter''), (1379, 17, ''dbreporter''),
      (1380, 6, ''telesis-licman''), (1380, 17, ''telesis-licman''), (1381, 6, ''apple-licman''), (1381, 17, ''apple-licman''),
      (1382, 6, ''udt_os''), (1382, 17, ''udt_os''), (1383, 6, ''gwha''), (1383, 17, ''gwha''),
      (1384, 6, ''os-licman''), (1384, 17, ''os-licman''), (1385, 6, ''atex_elmd''), (1385, 17, ''atex_elmd''),
      (1386, 6, ''checksum''), (1386, 17, ''checksum''), (1387, 6, ''cadsi-lm''), (1387, 17, ''cadsi-lm''),
      (1388, 6, ''objective-dbc''), (1388, 17, ''objective-dbc''), (1389, 6, ''iclpv-dm''), (1389, 17, ''iclpv-dm''),
      (1390, 6, ''iclpv-sc''), (1390, 17, ''iclpv-sc''), (1391, 6, ''iclpv-sas''), (1391, 17, ''iclpv-sas''),
      (1392, 6, ''iclpv-pm''), (1392, 17, ''iclpv-pm''), (1393, 6, ''iclpv-nls''), (1393, 17, ''iclpv-nls''),
      (1394, 6, ''iclpv-nlc''), (1394, 17, ''iclpv-nlc''), (1395, 6, ''iclpv-wsm''), (1395, 17, ''iclpv-wsm''),
      (1396, 6, ''dvl-activemail''), (1396, 17, ''dvl-activemail''), (1397, 6, ''audio-activmail''), (1397, 17, ''audio-activmail''),
      (1398, 6, ''video-activmail''), (1398, 17, ''video-activmail''), (1399, 6, ''cadkey-licman''), (1399, 17, ''cadkey-licman''),
      (1400, 6, ''cadkey-tablet''), (1400, 17, ''cadkey-tablet''), (1401, 6, ''goldleaf-licman''), (1401, 17, ''goldleaf-licman''),
      (1402, 6, ''prm-sm-np''), (1402, 17, ''prm-sm-np''), (1403, 6, ''prm-nm-np''), (1403, 17, ''prm-nm-np''),
      (1404, 6, ''igi-lm''), (1404, 17, ''igi-lm''), (1405, 6, ''ibm-res''), (1405, 17, ''ibm-res''),
      (1406, 6, ''netlabs-lm''), (1406, 17, ''netlabs-lm''), (1407, 6, ''dbsa-lm''), (1407, 17, ''dbsa-lm''),
      (1408, 6, ''sophia-lm''), (1408, 17, ''sophia-lm''), (1409, 6, ''here-lm''), (1409, 17, ''here-lm''),
      (1410, 6, ''hiq''), (1410, 17, ''hiq''), (1411, 6, ''af''), (1411, 17, ''af''),
      (1412, 6, ''innosys''), (1412, 17, ''innosys''), (1413, 6, ''innosys-acl''), (1413, 17, ''innosys-acl''),
      (1414, 6, ''ibm-mqseries''), (1414, 17, ''ibm-mqseries''), (1415, 6, ''dbstar''), (1415, 17, ''dbstar''),
      (1416, 6, ''novell-lu6.2''), (1416, 17, ''novell-lu6.2''), (1417, 6, ''timbuktu-srv1''), (1417, 17, ''timbuktu-srv1''),
      (1418, 6, ''timbuktu-srv2''), (1418, 17, ''timbuktu-srv2''), (1419, 6, ''timbuktu-srv3''), (1419, 17, ''timbuktu-srv3''),
      (1420, 6, ''timbuktu-srv4''), (1420, 17, ''timbuktu-srv4''), (1421, 6, ''gandalf-lm''), (1421, 17, ''gandalf-lm''),
      (1422, 6, ''autodesk-lm''), (1422, 17, ''autodesk-lm''), (1423, 6, ''essbase''), (1423, 17, ''essbase'')]"

lemma Services_14_ascend: "port_range 1350 1423 Services_14"
  unfolding Services_14_def port_range_def
  by (rule ascending_end ascending_same ascending_next, simp)+

definition Services_15 :: "service_entry list" where
  "Services_15 =
     [(1424, 6, ''hybrid''), (1424, 17, ''hybrid''), (1425, 6, ''zion-lm''), (1425, 17, ''zion-lm''),
      (1426, 6, ''sas-1''), (1426, 17, ''sas-1''), (1427, 6, ''mloadd''), (1427, 17, ''mloadd''),
      (1428, 6, ''informatik-lm''), (1428, 17, ''informatik-lm''), (1429, 6, ''nms''), (1429, 17, ''nms''),
      (1430, 6, ''tpdu''), (1430, 17, ''tpdu''), (1431, 6, ''rgtp''), (1431, 17, ''rgtp''),
      (1432, 6, ''blueberry-lm''), (1432, 17, ''blueberry-lm''), (1433, 6, ''ms-sql-s''), (1433, 17, ''ms-sql-s''),
      (1434, 6, ''ms-sql-m''), (1434, 17, ''ms-sql-m''), (1435, 6, ''ibm-cics''), (1435, 17, ''ibm-cics''),
      (1436, 6, ''sas-2''), (1436, 17, ''sas-2''), (1437, 6, ''tabula''), (1437, 17, ''tabula''),
      (1438, 6, ''eicon-server''), (1438, 17, ''eicon-server''), (1439, 6, ''eicon-x25''), (1439, 17, ''eicon-x25''),
      (1440, 6, ''eicon-slp''), (1440, 17, ''eicon-slp''), (1441, 6, ''cadis-1''), (1441, 17, ''cadis-1''),
      (1442, 6, ''cadis-2''), (1442, 17, ''cadis-2''), (1443, 6, ''ies-lm''), (1443, 17, ''ies-lm''),
      (1444, 6, ''marcam-lm''), (1444, 17, ''marcam-lm''), (1445, 6, ''proxima-lm''), (1445, 17, ''proxima-lm''),
      (1446, 6, ''ora-lm''), (1446, 17, ''ora-lm''), (1447, 6, ''apri-lm''), (1447, 17, ''apri-lm''),
      (1448, 6, ''oc-lm''), (1448, 17, ''oc-lm''), (1449, 6, ''peport''), (1449, 17, ''peport''),
      (1450, 6, ''dwf''), (1450, 17, ''dwf''), (1451, 6, ''infoman''), (1451, 17, ''infoman''),
      (1452, 6, ''gtegsc-lm''), (1452, 17, ''gtegsc-lm''), (1453, 6, ''genie-lm''), (1453, 17, ''genie-lm''),
      (1454, 6, ''interhdl_elmd''), (1454, 17, ''interhdl_elmd''), (1455, 6, ''esl-lm''), (1455, 17, ''esl-lm''),
      (1456, 6, ''dca''), (1456, 17, ''dca''), (1457, 6, ''valisys-lm''), (1457, 17, ''valisys-lm''),
      (1458, 6, ''nrcabq-lm''), (1458, 17, ''nrcabq-lm''), (1459, 6, ''proshare1''), (1459, 17, ''proshare1''),
      (1460, 6, ''proshare2''), (1460, 17, ''proshare2''), (1461, 6, ''ibm_wrless_lan''), (1461, 17, ''ibm_wrless_lan''),
      (1462, 6, ''world-lm''), (1462, 17, ''world-lm''), (1463, 6, ''nucleus''), (1463, 17, ''nucleus''),
      (1464, 6, ''msl_lmd''), (1464, 17, ''msl_lmd''), (1465, 6, ''pipes''), (1465, 17, ''pipes''),
      (1466, 6, ''oceansoft-lm''), (1466, 17, ''oceansoft-lm''), (1467, 6, ''csdmbase''), (1467, 17, ''csdmbase''),
      (1468, 6, ''csdm''), (1468, 17, ''csdm''), (1469, 6, ''aal-lm''), (1469, 17, ''aal-lm''),
      (1470, 6, ''uaiact''), (1470, 17, ''uaiact''), (1471, 6, ''csdmbase''), (1471, 17, ''csdmbase''),
      (1472, 6, ''csdm''), (1472, 17, ''csdm''), (1473, 6, ''openmath''), (1473, 17, ''openmath''),
      (1474, 6, ''telefinder''), (1474, 17, ''telefinder''), (1475, 6, ''taligent-lm''), (1475, 17, ''taligent-lm''),
      (1476, 6, ''clvm-cfg''), (1476, 17, ''clvm-cfg''), (1477, 6, ''ms-sna-server''), (1477, 17, ''ms-sna-server''),
      (1478, 6, ''ms-sna-base''), (1478, 17, ''ms-sna-base''), (1479, 6, ''dberegister''), (1479, 17, ''dberegister''),
      (1480, 6, ''pacerforum''), (1480, 17, ''pacerforum''), (1481, 6, ''airs''), (1481, 17, ''airs''),
      (1482, 6, ''miteksys-lm''), (1482, 17, ''miteksys-lm''), (1483, 6, ''afs''), (1483, 17, ''afs''),
      (1484, 6, ''confluent''), (1484, 17, ''confluent''), (1485, 6, ''lansource''), (1485, 17, ''lansource''),
      (1486, 6, ''nms_topo_serv''), (1486, 17, ''nms_topo_serv''), (1487, 6, ''localinfosrvr''), (1487, 17, ''localinfosrvr''),
      (1488, 6, ''docstor''), (1488, 17, ''docstor''), (1489, 6, ''dmdocbroker''), (1489, 17, ''dmdocbroker''),
      (1490, 6, ''insitu-conf''), (1490, 17, ''insitu-conf''), (1491, 6, ''anynetgateway''), (1491, 17, ''anynetgateway''),
      (1492, 6, ''stone-design-1''), (1492, 17, ''stone-design-1''), (1493, 6, ''netmap_lm''), (1493, 17, ''netmap_lm''),
      (1494, 6, ''citrix-ica''), (1494, 17, ''citrix-ica''), (1495, 6, ''cvc''), (1495, 17, ''cvc''),
      (1496, 6, ''liberty-lm''), (1496, 17, ''liberty-lm''), (1497, 6, ''rfx-lm''), (1497, 17, ''rfx-lm'')]"

lemma Services_15_ascend: "port_range 1424 1497 Services_15"
  unfolding Services_15_def port_range_def
  by (rule ascending_end ascending_same ascending_next, simp)+

definition Services_16 :: "service_entry list" where
  "Services_16 =
     [(1498, 6, ''watcom-sql''), (1498, 17, ''watcom-sql''), (1499, 6, ''fhc''), (1499, 17, ''fhc''),
      (1500, 6, ''vlsi-lm''), (1500, 17, ''vlsi-lm''), (1501, 6, ''sas-3''), (1501, 17, ''sas-3''),
      (1502, 6, ''shivadiscovery''), (1502, 17, ''shivadiscovery''), (1503, 6, ''imtc-mcs''), (1503, 17, ''imtc-mcs''),
      (1504, 6, ''evb-elm''), (1504, 17, ''evb-elm''), (1505, 6, ''funkproxy''), (1505, 17, ''funkproxy''),
      (1506, 6, ''utcd''), (1506, 17, ''utcd''), (1507, 6, ''symplex''), (1507, 17, ''symplex''),
      (1508, 6, ''diagmond''), (1508, 17, ''diagmond''), (1509, 6, ''robcad-lm''), (1509, 17, ''robcad-lm''),
      (1510, 6, ''mvx-lm''), (1510, 17, ''mvx-lm''), (1511, 6, ''3l-l1''), (1511, 17, ''3l-l1''),
      (1512, 6, ''wins''), (1512, 17, ''wins''), (1513, 6, ''fujitsu-dtc''), (1513, 17, ''fujitsu-dtc''),
      (1514, 6, ''fujitsu-dtcns''), (1514, 17, ''fujitsu-dtcns''), (1515, 6, ''ifor-protocol''), (1515, 17, ''ifor-protocol''),
      (1516, 6, ''vpad''), (1516, 17, ''vpad''), (1517, 6, ''vpac''), (1517, 17, ''vpac''),
      (1518, 6, ''vpvd''), (1518, 17, ''vpvd''), (1519, 6, ''vpvc''), (1519, 17, ''vpvc''),
      (1520, 6, ''atm-zip-office''), (1520, 17, ''atm-zip-office''), (1521, 6, ''oracle''), (1521, 17, ''ncube-lm''),
      (1522, 6, ''rna-lm''), (1522, 17, ''rna-lm''), (1523, 6, ''cichild-lm''), (1523, 17, ''cichild-lm''),
      (1524, 6, ''ingreslock''), (1524, 17, ''ingreslock''), (1525, 6, ''orasrv''), (1525, 17, ''oracle''),
      (1526, 6, ''pdap-np''), (1526, 17, ''pdap-np''), (1527, 6, ''tlisrv''), (1527, 17, ''tlisrv''),
      (1528, 6, ''mciautoreg''), (1528, 17, ''mciautoreg''), (1529, 6, ''support''), (1529, 17, ''coauthor''),
      (1530, 6, ''rap-service''), (1530, 17, ''rap-service''), (1531, 6, ''rap-listen''), (1531, 17, ''rap-listen''),
      (1532, 6, ''miroconnect''), (1532, 17, ''miroconnect''), (1533, 6, ''virtual-places''), (1533, 17, ''virtual-places''),
      (1534, 6, ''micromuse-lm''), (1534, 17, ''micromuse-lm''), (1535, 6, ''ampr-info''), (1535, 17, ''ampr-info''),
      (1536, 6, ''ampr-inter''), (1536, 17, ''ampr-inter''), (1537, 6, ''sdsc-lm''), (1537, 17, ''sdsc-lm''),
      (1538, 6, ''3ds-lm''), (1538, 17, ''3ds-lm''), (1539, 6, ''intellistor-lm''), (1539, 17, ''intellistor-lm''),
      (1540, 6, ''rds''), (1540, 17, ''rds''), (1541, 6, ''rds2''), (1541, 17, ''rds2''),
      (1542, 6, ''gridgen-elmd''), (1542, 17, ''gridgen-elmd''), (1543, 6, ''simba-cs''), (1543, 17, ''simba-cs''),
      (1544, 6, ''aspeclmd''), (1544, 17, ''aspeclmd''), (1545, 6, ''vistium-share''), (1545, 17, ''vistium-share''),
      (1546, 6, ''abbaccuray''), (1546, 17, ''abbaccuray''), (1547, 6, ''laplink''), (1547, 17, ''laplink''),
      (1548, 6, ''axon-lm''), (1548, 17, ''axon-lm''), (1549, 6, ''shivahose''), (1549, 17, ''shivasound''),
      (1550, 6, ''3m-image-lm''), (1550, 17, ''3m-image-lm''), (1551, 6, ''hecmtl-db''), (1551, 17, ''hecmtl-db''),
      (1552, 6, ''pciarray''), (1552, 17, ''pciarray''), (1553, 6, ''sna-cs''), (1553, 17, ''sna-cs''),
      (1554, 6, ''caci-lm''), (1554, 17, ''caci-lm''), (1555, 6, ''livelan''), (1555, 17, ''livelan''),
      (1556, 6, ''veritas_pbx''), (1556, 17, ''veritas_pbx''), (1557, 6, ''arbortext-lm''), (1557, 17, ''arbortext-lm''),
      (1558, 6, ''xingmpeg''), (1558, 17, ''xingmpeg''), (1559, 6, ''web2host''), (1559, 17, ''web2host''),
      (1560, 6, ''asci-val''), (1560, 17, ''asci-val''), (1561, 6, ''facilityview''), (1561, 17, ''facilityview''),
      (1562, 6, ''pconnectmgr''), (1562, 17, ''pconnectmgr''), (1563, 6, ''cadabra-lm''), (1563, 17, ''cadabra-lm''),
      (1564, 6, ''pay-per-view''), (1564, 17, ''pay-per-view''), (1565, 6, ''winddlb''), (1565, 17, ''winddlb''),
      (1566, 6, ''corelvideo''), (1566, 17, ''corelvideo''), (1567, 6, ''jlicelmd''), (1567, 17, ''jlicelmd''),
      (1568, 6, ''tsspmap''), (1568, 17, ''tsspmap''), (1569, 6, ''ets''), (1569, 17, ''ets''),
      (1570, 6, ''orbixd''), (1570, 17, ''orbixd''), (1571, 6, ''rdb-dbs-disp''), (1571, 17, ''rdb-dbs-disp'')]"

lemma Services_16_ascend: "port_range 1498 1571 Services_16"
  unfolding Services_16_def port_range_def
  by (rule ascending_end ascending_same ascending_next, simp)+

definition Services_17 :: "service_entry list" where
  "Services_17 =
     [(1572, 6, ''chip-lm''), (1572, 17, ''chip-lm''), (1573, 6, ''itscomm-ns''), (1573, 17, ''itscomm-ns''),
      (1574, 6, ''mvel-lm''), (1574, 17, ''mvel-lm''), (1575, 6, ''oraclenames''), (1575, 17, ''oraclenames''),
      (1576, 6, ''moldflow-lm''), (1576, 17, ''moldflow-lm''), (1577, 6, ''hypercube-lm''), (1577, 17, ''hypercube-lm''),
      (1578, 6, ''jacobus-lm''), (1578, 17, ''jacobus-lm''), (1579, 6, ''ioc-sea-lm''), (1579, 17, ''ioc-sea-lm''),
      (1580, 6, ''tn-tl-r1''), (1580, 17, ''tn-tl-r2''), (1581, 6, ''mil-2045-47001''), (1581, 17, ''mil-2045-47001''),
      (1582, 6, ''msims''), (1582, 17, ''msims''), (1583, 6, ''simbaexpress''), (1583, 17, ''simbaexpress''),
      (1584, 6, ''tn-tl-fd2''), (1584, 17, ''tn-tl-fd2''), (1585, 6, ''intv''), (1585, 17, ''intv''),
      (1586, 6, ''ibm-abtact''), (1586, 17, ''ibm-abtact''), (1587, 6, ''pra_elmd''), (1587, 17, ''pra_elmd''),
      (1588, 6, ''triquest-lm''), (1588, 17, ''triquest-lm''), (1589, 6, ''vqp''), (1589, 17, ''vqp''),
      (1590, 6, ''gemini-lm''), (1590, 17, ''gemini-lm''), (1591, 6, ''ncpm-pm''), (1591, 17, ''ncpm-pm''),
      (1592, 6, ''commonspace''), (1592, 17, ''commonspace''), (1593, 6, ''mainsoft-lm''), (1593, 17, ''mainsoft-lm''),
      (1594, 6, ''sixtrak''), (1594, 17, ''sixtrak''), (1595, 6, ''radio''), (1595, 17, ''radio''),
      (1596, 6, ''radio-sm''), (1596, 17, ''radio-bc''), (1597, 6, ''orbplus-iiop''), (1597, 17, ''orbplus-iiop''),
      (1598, 6, ''picknfs''), (1598, 17, ''picknfs''), (1599, 6, ''simbaservices''), (1599, 17, ''simbaservices''),
      (1600, 6, ''issd''), (1600, 17, ''issd''), (1601, 6, ''aas''), (1601, 17, ''aas''),
      (1602, 6, ''inspect''), (1602, 17, ''inspect''), (1603, 6, ''picodbc''), (1603, 17, ''picodbc''),
      (1604, 6, ''icabrowser''), (1604, 17, ''icabrowser''), (1605, 6, ''slp''), (1605, 17, ''slp''),
      (1606, 6, ''slm-api''), (1606, 17, ''slm-api''), (1607, 6, ''stt''), (1607, 17, ''stt''),
      (1608, 6, ''smart-lm''), (1608, 17, ''smart-lm''), (1609, 6, ''isysg-lm''), (1609, 17, ''isysg-lm''),
      (1610, 6, ''taurus-wh''), (1610, 17, ''taurus-wh''), (1611, 6, ''ill''), (1611, 17, ''ill''),
      (1612, 6, ''netbill-trans''), (1612, 17, ''netbill-trans''), (1613, 6, ''netbill-keyrep''), (1613, 17, ''netbill-keyrep''),
      (1614, 6, ''netbill-cred''), (1614, 17, ''netbill-cred''), (1615, 6, ''netbill-auth''), (1615, 17, ''netbill-auth''),
      (1616, 6, ''netbill-prod''), (1616, 17, ''netbill-prod''), (1617, 6, ''nimrod-agent''), (1617, 17, ''nimrod-agent''),
      (1618, 6, ''skytelnet''), (1618, 17, ''skytelnet''), (1619, 6, ''xs-openstorage''), (1619, 17, ''xs-openstorage''),
      (1620, 6, ''faxportwinport''), (1620, 17, ''faxportwinport''), (1621, 6, ''softdataphone''), (1621, 17, ''softdataphone''),
      (1622, 6, ''ontime''), (1622, 17, ''ontime''), (1623, 6, ''jaleosnd''), (1623, 17, ''jaleosnd''),
      (1624, 6, ''udp-sr-port''), (1624, 17, ''udp-sr-port''), (1625, 6, ''svs-omagent''), (1625, 17, ''svs-omagent''),
      (1626, 6, ''shockwave''), (1626, 17, ''shockwave''), (1627, 6, ''t128-gateway''), (1627, 17, ''t128-gateway''),
      (1628, 6, ''lontalk-norm''), (1628, 17, ''lontalk-norm''), (1629, 6, ''lontalk-urgnt''), (1629, 17, ''lontalk-urgnt''),
      (1630, 6, ''oraclenet8cman''), (1630, 17, ''oraclenet8cman''), (1631, 6, ''visitview''), (1631, 17, ''visitview''),
      (1632, 6, ''pammratc''), (1632, 17, ''pammratc''), (1633, 6, ''pammrpc''), (1633, 17, ''pammrpc''),
      (1634, 6, ''loaprobe''), (1634, 17, ''loaprobe''), (1635, 6, ''edb-server1''), (1635, 17, ''edb-server1''),
      (1636, 6, ''isdc''), (1636, 17, ''isdc''), (1637, 6, ''islc''), (1637, 17, ''islc''),
      (1638, 6, ''ismc''), (1638, 17, ''ismc''), (1639, 6, ''cert-initiator''), (1639, 17, ''cert-initiator''),
      (1640, 6, ''cert-responder''), (1640, 17, ''cert-responder''), (1641, 6, ''invision''), (1641, 17, ''invision''),
      (1642, 6, ''isis-am''), (1642, 17, ''isis-am''), (1643, 6, ''isis-ambc''), (1643, 17, ''isis-ambc''),
      (1644, 6, ''saiseh''), (1645, 6, ''sightline''), (1645, 17, ''radius''), (1646, 6, ''sa-msg-port''),
      (1646, 17, ''radacct'')]"

lemma Services_17_ascend: "port_range 1572 1646 Services_17"
  unfolding Services_17_def port_range_def
  by (rule ascending_end ascending_same ascending_next, simp)+

definition Services_18 :: "service_entry list" where
  "Services_18 =
     [(1647, 6, ''rsap''), (1647, 17, ''rsap''), (1648, 6, ''concurrent-lm''), (1648, 17, ''concurrent-lm''),
      (1649, 6, ''kermit''), (1649, 17, ''kermit''), (1650, 6, ''nkd''), (1650, 17, ''nkd''),
      (1651, 6, ''shiva_confsrvr''), (1651, 17, ''shiva_confsrvr''), (1652, 6, ''xnmp''), (1652, 17, ''xnmp''),
      (1653, 6, ''alphatech-lm''), (1653, 17, ''alphatech-lm''), (1654, 6, ''stargatealerts''), (1654, 17, ''stargatealerts''),
      (1655, 6, ''dec-mbadmin''), (1655, 17, ''dec-mbadmin''), (1656, 6, ''dec-mbadmin-h''), (1656, 17, ''dec-mbadmin-h''),
      (1657, 6, ''fujitsu-mmpdc''), (1657, 17, ''fujitsu-mmpdc''), (1658, 6, ''sixnetudr''), (1658, 17, ''sixnetudr''),
      (1659, 6, ''sg-lm''), (1659, 17, ''sg-lm''), (1660, 6, ''skip-mc-gikreq''), (1660, 17, ''skip-mc-gikreq''),
      (1661, 6, ''netview-aix-1''), (1661, 17, ''netview-aix-1''), (1662, 6, ''netview-aix-2''), (1662, 17, ''netview-aix-2''),
      (1663, 6, ''netview-aix-3''), (1663, 17, ''netview-aix-3''), (1664, 6, ''netview-aix-4''), (1664, 17, ''netview-aix-4''),
      (1665, 6, ''netview-aix-5''), (1665, 17, ''netview-aix-5''), (1666, 6, ''netview-aix-6''), (1666, 17, ''netview-aix-6''),
      (1667, 6, ''netview-aix-7''), (1667, 17, ''netview-aix-7''), (1668, 6, ''netview-aix-8''), (1668, 17, ''netview-aix-8''),
      (1669, 6, ''netview-aix-9''), (1669, 17, ''netview-aix-9''), (1670, 6, ''netview-aix-10''), (1670, 17, ''netview-aix-10''),
      (1671, 6, ''netview-aix-11''), (1671, 17, ''netview-aix-11''), (1672, 6, ''netview-aix-12''), (1672, 17, ''netview-aix-12''),
      (1673, 6, ''proshare-mc-1''), (1673, 17, ''proshare-mc-1''), (1674, 6, ''proshare-mc-2''), (1674, 17, ''proshare-mc-2''),
      (1675, 6, ''pdp''), (1675, 17, ''pdp''), (1676, 6, ''netcomm1''), (1676, 17, ''netcomm2''),
      (1677, 6, ''groupwise''), (1677, 17, ''groupwise''), (1678, 6, ''prolink''), (1678, 17, ''prolink''),
      (1679, 6, ''darcorp-lm''), (1679, 17, ''darcorp-lm''), (1680, 6, ''CarbonCopy''), (1680, 17, ''microcom-sbp''),
      (1681, 6, ''sd-elmd''), (1681, 17, ''sd-elmd''), (1682, 6, ''lanyon-lantern''), (1682, 17, ''lanyon-lantern''),
      (1683, 6, ''ncpm-hip''), (1683, 17, ''ncpm-hip''), (1684, 6, ''snaresecure''), (1684, 17, ''snaresecure''),
      (1685, 6, ''n2nremote''), (1685, 17, ''n2nremote''), (1686, 6, ''cvmon''), (1686, 17, ''cvmon''),
      (1687, 6, ''nsjtp-ctrl''), (1687, 17, ''nsjtp-ctrl''), (1688, 6, ''nsjtp-data''), (1688, 17, ''nsjtp-data''),
      (1689, 6, ''firefox''), (1689, 17, ''firefox''), (1690, 6, ''ng-umds''), (1690, 17, ''ng-umds''),
      (1691, 6, ''empire-empuma''), (1691, 17, ''empire-empuma''), (1692, 6, ''sstsys-lm''), (1692, 17, ''sstsys-lm''),
      (1693, 6, ''rrirtr''), (1693, 17, ''rrirtr''), (1694, 6, ''rrimwm''), (1694, 17, ''rrimwm''),
      (1695, 6, ''rrilwm''), (1695, 17, ''rrilwm''), (1696, 6, ''rrifmm''), (1696, 17, ''rrifmm''),
      (1697, 6, ''rrisat''), (1697, 17, ''rrisat''), (1698, 6, ''rsvp-encap-1''), (1698, 17, ''rsvp-encap-1''),
      (1699, 6, ''rsvp-encap-2''), (1699, 17, ''rsvp-encap-2''), (1700, 6, ''mps-raft''), (1700, 17, ''mps-raft''),
      (1701, 6, ''l2f''), (1701, 17, ''L2TP''), (1702, 6, ''deskshare''), (1702, 17, ''deskshare''),
      (1703, 6, ''hb-engine''), (1703, 17, ''hb-engine''), (1704, 6, ''bcs-broker''), (1704, 17, ''bcs-broker''),
      (1705, 6, ''slingshot''), (1705, 17, ''slingshot''), (1706, 6, ''jetform''), (1706, 17, ''jetform''),
      (1707, 6, ''vdmplay''), (1707, 17, ''vdmplay''), (1708, 6, ''gat-lmd''), (1708, 17, ''gat-lmd''),
      (1709, 6, ''centra''), (1709, 17, ''centra''), (1710, 6, ''impera''), (1710, 17, ''impera''),
      (1711, 6, ''pptconference''), (1711, 17, ''pptconference''), (1712, 6, ''registrar''), (1712, 17, ''registrar''),
      (1713, 6, ''conferencetalk''), (1713, 17, ''conferencetalk''), (1714, 6, ''sesi-lm''), (1714, 17, ''sesi-lm''),
      (1715, 6, ''houdini-lm''), (1715, 17, ''houdini-lm''), (1716, 6, ''xmsg''), (1716, 17, ''xmsg''),
      (1717, 6, ''fj-hdnet''), (1717, 17, ''fj-hdnet''), (1718, 6, ''h323gatedisc''), (1718, 17, ''h225gatedisc''),
      (1719, 6, ''h323gatestat''), (1719, 17, ''h323gatestat''), (1720, 6, ''h323q931''), (1720, 17, ''h323hostcall'')]"

lemma Services_18_ascend: "port_range 1647 1720 Services_18"
  unfolding Services_18_def port_range_def
  by (rule ascending_end ascending_same ascending_next, simp)+

definition Services_19 :: "service_entry list" where
  "Services_19 =
     [(1721, 6, ''caicci''), (1721, 17, ''caicci''), (1722, 6, ''hks-lm''), (1722, 17, ''hks-lm''),
      (1723, 6, ''pptp''), (1723, 17, ''pptp''), (1724, 6, ''csbphonemaster''), (1724, 17, ''csbphonemaster''),
      (1725, 6, ''iden-ralp''), (1725, 17, ''iden-ralp''), (1726, 6, ''iberiagames''), (1726, 17, ''iberiagames''),
      (1727, 6, ''winddx''), (1727, 17, ''winddx''), (1728, 6, ''telindus''), (1728, 17, ''telindus''),
      (1729, 6, ''citynl''), (1729, 17, ''citynl''), (1730, 6, ''roketz''), (1730, 17, ''roketz''),
      (1731, 6, ''msiccp''), (1731, 17, ''msiccp''), (1732, 6, ''proxim''), (1732, 17, ''proxim''),
      (1733, 6, ''siipat''), (1733, 17, ''siipat''), (1734, 6, ''cambertx-lm''), (1734, 17, ''cambertx-lm''),
      (1735, 6, ''privatechat''), (1735, 17, ''privatechat''), (1736, 6, ''street-stream''), (1736, 17, ''street-stream''),
      (1737, 6, ''ultimad''), (1737, 17, ''ultimad''), (1738, 6, ''gamegen1''), (1738, 17, ''gamegen1''),
      (1739, 6, ''webaccess''), (1739, 17, ''webaccess''), (1740, 6, ''encore''), (1740, 17, ''encore''),
      (1741, 6, ''cisco-net-mgmt''), (1741, 17, ''cisco-net-mgmt''), (1742, 6, ''3Com-nsd''), (1742, 17, ''3Com-nsd''),
      (1743, 6, ''cinegrfx-lm''), (1743, 17, ''cinegrfx-lm''), (1744, 6, ''ncpm-ft''), (1744, 17, ''ncpm-ft''),
      (1745, 6, ''remote-winsock''), (1745, 17, ''remote-winsock''), (1746, 6, ''ftrapid-1''), (1746, 17, ''ftrapid-1''),
      (1747, 6, ''ftrapid-2''), (1747, 17, ''ftrapid-2''), (1748, 6, ''oracle-em1''), (1748, 17, ''oracle-em1''),
      (1749, 6, ''aspen-services''), (1749, 17, ''aspen-services''), (1750, 6, ''sslp''), (1750, 17, ''sslp''),
      (1751, 6, ''swiftnet''), (1751, 17, ''swiftnet''), (1752, 6, ''lofr-lm''), (1752, 17, ''lofr-lm''),
      (1753, 6, ''predatar-comms''), (1754, 6, ''oracle-em2''), (1754, 17, ''oracle-em2''), (1755, 6, ''wms''),
      (1755, 17, ''ms-streaming''), (1756, 6, ''capfast-lmd''), (1756, 17, ''capfast-lmd''), (1757, 6, ''cnhrp''),
      (1757, 17, ''cnhrp''), (1758, 6, ''tftp-mcast''), (1758, 17, ''tftp-mcast''), (1759, 6, ''spss-lm''),
      (1759, 17, ''spss-lm''), (1760, 6, ''www-ldap-gw''), (1760, 17, ''www-ldap-gw''), (1761, 6, ''landesk-rc''),
      (1761, 17, ''cft-0''), (1762, 6, ''landesk-rc''), (1762, 17, ''cft-1''), (1763, 6, ''landesk-rc''),
      (1763, 17, ''cft-2''), (1764, 6, ''landesk-rc''), (1764, 17, ''cft-3''), (1765, 6, ''cft-4''),
      (1765, 17, ''cft-4''), (1766, 6, ''cft-5''), (1766, 17, ''cft-5''), (1767, 6, ''cft-6''),
      (1767, 17, ''cft-6''), (1768, 6, ''cft-7''), (1768, 17, ''cft-7''), (1769, 6, ''bmc-net-adm''),
      (1769, 17, ''bmc-net-adm''), (1770, 6, ''bmc-net-svc''), (1770, 17, ''bmc-net-svc''), (1771, 6, ''vaultbase''),
      (1771, 17, ''vaultbase''), (1772, 6, ''essweb-gw''), (1772, 17, ''essweb-gw''), (1773, 6, ''kmscontrol''),
      (1773, 17, ''kmscontrol''), (1774, 6, ''global-dtserv''), (1774, 17, ''global-dtserv''), (1775, 6, ''vdab''),
      (1776, 6, ''femis''), (1776, 17, ''femis''), (1777, 6, ''powerguardian''), (1777, 17, ''powerguardian''),
      (1778, 6, ''prodigy-intrnet''), (1778, 17, ''prodigy-intrnet''), (1779, 6, ''pharmasoft''), (1779, 17, ''pharmasoft''),
      (1780, 6, ''dpkeyserv''), (1780, 17, ''dpkeyserv''), (1781, 6, ''answersoft-lm''), (1781, 17, ''answersoft-lm''),
      (1782, 6, ''hp-hcip''), (1782, 17, ''hp-hcip''), (1784, 6, ''finle-lm''), (1784, 17, ''finle-lm''),
      (1785, 6, ''windlm''), (1785, 17, ''windlm''), (1786, 6, ''funk-logger''), (1786, 17, ''funk-logger''),
      (1787, 6, ''funk-license''), (1787, 17, ''funk-license''), (1788, 6, ''psmond''), (1788, 17, ''psmond''),
      (1789, 6, ''hello''), (1789, 17, ''hello''), (1790, 6, ''nmsp''), (1790, 17, ''nmsp''),
      (1791, 6, ''ea1''), (1791, 17, ''ea1''), (1792, 6, ''ibm-dt-2''), (1792, 17, ''ibm-dt-2''),
      (1793, 6, ''rsc-robot''), (1793, 17, ''rsc-robot''), (1794, 6, ''cera-bcm''), (1794, 17, ''cera-bcm''),
      (1795, 6, ''dpi-proxy''), (1795, 17, ''dpi-proxy''), (1796, 6, ''vocaltec-admin''), (1796, 17, ''vocaltec-admin'')]"

lemma Services_19_ascend: "port_range 1721 1796 Services_19"
  unfolding Services_19_def port_range_def
  by (rule ascending_end ascending_same ascending_next, simp)+

definition Services_20 :: "service_entry list" where
  "Services_20 =
     [(1797, 6, ''uma''), (1797, 17, ''uma''), (1798, 6, ''etp''), (1798, 17, ''etp''),
      (1799, 6, ''netrisk''), (1799, 17, ''netrisk''), (1800, 6, ''ansys-lm''), (1800, 17, ''ansys-lm''),
      (1801, 6, ''msmq''), (1801, 17, ''msmq''), (1802, 6, ''concomp1''), (1802, 17, ''concomp1''),
      (1803, 6, ''hp-hcip-gwy''), (1803, 17, ''hp-hcip-gwy''), (1804, 6, ''enl''), (1804, 17, ''enl''),
      (1805, 6, ''enl-name''), (1805, 17, ''enl-name''), (1806, 6, ''musiconline''), (1806, 17, ''musiconline''),
      (1807, 6, ''fhsp''), (1807, 17, ''fhsp''), (1808, 6, ''oracle-vp2''), (1808, 17, ''oracle-vp2''),
      (1809, 6, ''oracle-vp1''), (1809, 17, ''oracle-vp1''), (1810, 6, ''jerand-lm''), (1810, 17, ''jerand-lm''),
      (1811, 6, ''scientia-sdb''), (1811, 17, ''scientia-sdb''), (1812, 132, ''radius''), (1812, 6, ''radius''),
      (1812, 17, ''radius''), (1813, 132, ''radacct''), (1813, 6, ''radius-acct''), (1813, 17, ''radacct''),
      (1814, 6, ''tdp-suite''), (1814, 17, ''tdp-suite''), (1815, 6, ''mmpft''), (1815, 17, ''mmpft''),
      (1816, 6, ''harp''), (1816, 17, ''harp''), (1817, 6, ''rkb-oscs''), (1817, 17, ''rkb-oscs''),
      (1818, 6, ''etftp''), (1818, 17, ''etftp''), (1819, 6, ''plato-lm''), (1819, 17, ''plato-lm''),
      (1820, 6, ''mcagent''), (1820, 17, ''mcagent''), (1821, 6, ''donnyworld''), (1821, 17, ''donnyworld''),
      (1822, 6, ''es-elmd''), (1822, 17, ''es-elmd''), (1823, 6, ''unisys-lm''), (1823, 17, ''unisys-lm''),
      (1824, 6, ''metrics-pas''), (1824, 17, ''metrics-pas''), (1825, 6, ''direcpc-video''), (1825, 17, ''direcpc-video''),
      (1826, 6, ''ardt''), (1826, 17, ''ardt''), (1827, 6, ''pcm''), (1827, 17, ''asi''),
      (1828, 6, ''itm-mcell-u''), (1828, 17, ''itm-mcell-u''), (1829, 6, ''optika-emedia''), (1829, 17, ''optika-emedia''),
      (1830, 6, ''net8-cman''), (1830, 17, ''net8-cman''), (1831, 6, ''myrtle''), (1831, 17, ''myrtle''),
      (1832, 6, ''tht-treasure''), (1832, 17, ''tht-treasure''), (1833, 6, ''udpradio''), (1833, 17, ''udpradio''),
      (1834, 6, ''ardusuni''), (1834, 17, ''ardusuni''), (1835, 6, ''ardusmul''), (1835, 17, ''ardusmul''),
      (1836, 6, ''ste-smsc''), (1836, 17, ''ste-smsc''), (1837, 6, ''csoft1''), (1837, 17, ''csoft1''),
      (1838, 6, ''talnet''), (1838, 17, ''talnet''), (1839, 6, ''netopia-vo1''), (1839, 17, ''netopia-vo1''),
      (1840, 6, ''netopia-vo2''), (1840, 17, ''netopia-vo2''), (1841, 6, ''netopia-vo3''), (1841, 17, ''netopia-vo3''),
      (1842, 6, ''netopia-vo4''), (1842, 17, ''netopia-vo4''), (1843, 6, ''netopia-vo5''), (1843, 17, ''netopia-vo5''),
      (1844, 6, ''direcpc-dll''), (1844, 17, ''direcpc-dll''), (1845, 6, ''altalink''), (1845, 17, ''altalink''),
      (1846, 6, ''tunstall-pnc''), (1846, 17, ''tunstall-pnc''), (1847, 6, ''slp-notify''), (1847, 17, ''slp-notify''),
      (1848, 6, ''fjdocdist''), (1848, 17, ''fjdocdist''), (1849, 6, ''alpha-sms''), (1849, 17, ''alpha-sms''),
      (1850, 6, ''gsi''), (1850, 17, ''gsi''), (1851, 6, ''ctcd''), (1851, 17, ''ctcd''),
      (1852, 6, ''virtual-time''), (1852, 17, ''virtual-time''), (1853, 6, ''vids-avtp''), (1853, 17, ''vids-avtp''),
      (1854, 6, ''buddy-draw''), (1854, 17, ''buddy-draw''), (1855, 6, ''fiorano-rtrsvc''), (1855, 17, ''fiorano-rtrsvc''),
      (1856, 6, ''fiorano-msgsvc''), (1856, 17, ''fiorano-msgsvc''), (1857, 6, ''datacaptor''), (1857, 17, ''datacaptor''),
      (1858, 6, ''privateark''), (1858, 17, ''privateark''), (1859, 6, ''gammafetchsvr''), (1859, 17, ''gammafetchsvr''),
      (1860, 6, ''sunscalar-svc''), (1860, 17, ''sunscalar-svc''), (1861, 6, ''lecroy-vicp''), (1861, 17, ''lecroy-vicp''),
      (1862, 6, ''mysql-cm-agent''), (1862, 17, ''mysql-cm-agent''), (1863, 6, ''msnp''), (1863, 17, ''msnp''),
      (1864, 6, ''paradym-31''), (1864, 17, ''paradym-31''), (1865, 6, ''entp''), (1865, 17, ''entp''),
      (1866, 6, ''swrmi''), (1866, 17, ''swrmi''), (1867, 6, ''udrive''), (1867, 17, ''udrive''),
      (1868, 6, ''viziblebrowser''), (1868, 17, ''viziblebrowser''), (1869, 6, ''transact''), (1869, 17, ''transact'')]"

lemma Services_20_ascend: "port_range 1797 1869 Services_20"
  unfolding Services_20_def port_range_def
  by (rule ascending_end ascending_same ascending_next, simp)+

definition Services_21 :: "service_entry list" where
  "Services_21 =
     [(1870, 6, ''sunscalar-dns''), (1870, 17, ''sunscalar-dns''), (1871, 6, ''canocentral0''), (1871, 17, ''canocentral0''),
      (1872, 6, ''canocentral1''), (1872, 17, ''canocentral1''), (1873, 6, ''fjmpjps''), (1873, 17, ''fjmpjps''),
      (1874, 6, ''fjswapsnp''), (1874, 17, ''fjswapsnp''), (1875, 6, ''westell-stats''), (1875, 17, ''westell-stats''),
      (1876, 6, ''ewcappsrv''), (1876, 17, ''ewcappsrv''), (1877, 6, ''hp-webqosdb''), (1877, 17, ''hp-webqosdb''),
      (1878, 6, ''drmsmc''), (1878, 17, ''drmsmc''), (1879, 6, ''nettgain-nms''), (1879, 17, ''nettgain-nms''),
      (1880, 6, ''vsat-control''), (1880, 17, ''vsat-control''), (1881, 6, ''ibm-mqseries2''), (1881, 17, ''ibm-mqseries2''),
      (1882, 6, ''ecsqdmn''), (1882, 17, ''ecsqdmn''), (1883, 6, ''mqtt''), (1883, 17, ''ibm-mqisdp''),
      (1884, 6, ''idmaps''), (1884, 17, ''idmaps''), (1885, 6, ''vrtstrapserver''), (1885, 17, ''vrtstrapserver''),
      (1886, 6, ''leoip''), (1886, 17, ''leoip''), (1887, 6, ''filex-lport''), (1887, 17, ''filex-lport''),
      (1888, 6, ''ncconfig''), (1888, 17, ''ncconfig''), (1889, 6, ''unify-adapter''), (1889, 17, ''unify-adapter''),
      (1890, 6, ''wilkenlistener''), (1890, 17, ''wilkenlistener''), (1891, 6, ''childkey-notif''), (1891, 17, ''childkey-notif''),
      (1892, 6, ''childkey-ctrl''), (1892, 17, ''childkey-ctrl''), (1893, 6, ''elad''), (1893, 17, ''elad''),
      (1894, 6, ''o2server-port''), (1894, 17, ''o2server-port''), (1896, 6, ''b-novative-ls''), (1896, 17, ''b-novative-ls''),
      (1897, 6, ''metaagent''), (1897, 17, ''metaagent''), (1898, 6, ''cymtec-port''), (1898, 17, ''cymtec-port''),
      (1899, 6, ''mc2studios''), (1899, 17, ''mc2studios''), (1900, 6, ''upnp''), (1900, 17, ''upnp''),
      (1901, 6, ''fjicl-tep-a''), (1901, 17, ''fjicl-tep-a''), (1902, 6, ''fjicl-tep-b''), (1902, 17, ''fjicl-tep-b''),
      (1903, 6, ''linkname''), (1903, 17, ''linkname''), (1904, 6, ''fjicl-tep-c''), (1904, 17, ''fjicl-tep-c''),
      (1905, 6, ''sugp''), (1905, 17, ''sugp''), (1906, 6, ''tpmd''), (1906, 17, ''tpmd''),
      (1907, 6, ''intrastar''), (1907, 17, ''intrastar''), (1908, 6, ''dawn''), (1908, 17, ''dawn''),
      (1909, 6, ''global-wlink''), (1909, 17, ''global-wlink''), (1910, 6, ''ultrabac''), (1910, 17, ''ultrabac''),
      (1911, 6, ''mtp''), (1911, 17, ''mtp''), (1912, 6, ''rhp-iibp''), (1912, 17, ''rhp-iibp''),
      (1913, 6, ''armadp''), (1913, 17, ''armadp''), (1914, 6, ''elm-momentum''), (1914, 17, ''elm-momentum''),
      (1915, 6, ''facelink''), (1915, 17, ''facelink''), (1916, 6, ''persona''), (1916, 17, ''persona''),
      (1917, 6, ''noagent''), (1917, 17, ''noagent''), (1918, 6, ''can-nds''), (1918, 17, ''can-nds''),
      (1919, 6, ''can-dch''), (1919, 17, ''can-dch''), (1920, 6, ''can-ferret''), (1920, 17, ''can-ferret''),
      (1921, 6, ''noadmin''), (1921, 17, ''noadmin''), (1922, 6, ''tapestry''), (1922, 17, ''tapestry''),
      (1923, 6, ''spice''), (1923, 17, ''spice''), (1924, 6, ''xiip''), (1924, 17, ''xiip''),
      (1925, 6, ''discovery-port''), (1925, 17, ''discovery-port''), (1926, 6, ''egs''), (1926, 17, ''egs''),
      (1927, 6, ''videte-cipc''), (1927, 17, ''videte-cipc''), (1928, 6, ''emsd-port''), (1928, 17, ''emsd-port''),
      (1929, 6, ''bandwiz-system''), (1929, 17, ''bandwiz-system''), (1930, 6, ''driveappserver''), (1930, 17, ''driveappserver''),
      (1931, 6, ''amdsched''), (1931, 17, ''amdsched''), (1932, 6, ''ctt-broker''), (1932, 17, ''ctt-broker''),
      (1933, 6, ''xmapi''), (1933, 17, ''xmapi''), (1934, 6, ''xaapi''), (1934, 17, ''xaapi''),
      (1935, 6, ''rtmp''), (1935, 17, ''macromedia-fcs''), (1936, 6, ''jetcmeserver''), (1936, 17, ''jetcmeserver''),
      (1937, 6, ''jwserver''), (1937, 17, ''jwserver''), (1938, 6, ''jwclient''), (1938, 17, ''jwclient''),
      (1939, 6, ''jvserver''), (1939, 17, ''jvserver''), (1940, 6, ''jvclient''), (1940, 17, ''jvclient''),
      (1941, 6, ''dic-aida''), (1941, 17, ''dic-aida''), (1942, 6, ''res''), (1942, 17, ''res''),
      (1943, 6, ''beeyond-media''), (1943, 17, ''beeyond-media''), (1944, 6, ''close-combat''), (1944, 17, ''close-combat'')]"

lemma Services_21_ascend: "port_range 1870 1944 Services_21"
  unfolding Services_21_def port_range_def
  by (rule ascending_end ascending_same ascending_next, simp)+

definition Services_22 :: "service_entry list" where
  "Services_22 =
     [(1945, 6, ''dialogic-elmd''), (1945, 17, ''dialogic-elmd''), (1946, 6, ''tekpls''), (1946, 17, ''tekpls''),
      (1947, 6, ''sentinelsrm''), (1947, 17, ''sentinelsrm''), (1948, 6, ''eye2eye''), (1948, 17, ''eye2eye''),
      (1949, 6, ''ismaeasdaqlive''), (1949, 17, ''ismaeasdaqlive''), (1950, 6, ''ismaeasdaqtest''), (1950, 17, ''ismaeasdaqtest''),
      (1951, 6, ''bcs-lmserver''), (1951, 17, ''bcs-lmserver''), (1952, 6, ''mpnjsc''), (1952, 17, ''mpnjsc''),
      (1953, 6, ''rapidbase''), (1953, 17, ''rapidbase''), (1954, 6, ''abr-api''), (1954, 17, ''abr-api''),
      (1955, 6, ''abr-secure''), (1955, 17, ''abr-secure''), (1956, 6, ''vrtl-vmf-ds''), (1956, 17, ''vrtl-vmf-ds''),
      (1957, 6, ''unix-status''), (1957, 17, ''unix-status''), (1958, 6, ''dxadmind''), (1958, 17, ''dxadmind''),
      (1959, 6, ''simp-all''), (1959, 17, ''simp-all''), (1960, 6, ''nasmanager''), (1960, 17, ''nasmanager''),
      (1961, 6, ''bts-appserver''), (1961, 17, ''bts-appserver''), (1962, 6, ''biap-mp''), (1962, 17, ''biap-mp''),
      (1963, 6, ''webmachine''), (1963, 17, ''webmachine''), (1964, 6, ''solid-e-engine''), (1964, 17, ''solid-e-engine''),
      (1965, 6, ''tivoli-npm''), (1965, 17, ''tivoli-npm''), (1966, 6, ''slush''), (1966, 17, ''slush''),
      (1967, 6, ''sns-quote''), (1967, 17, ''sns-quote''), (1968, 6, ''lipsinc''), (1968, 17, ''lipsinc''),
      (1969, 6, ''lipsinc1''), (1969, 17, ''lipsinc1''), (1970, 6, ''netop-rc''), (1970, 17, ''netop-rc''),
      (1971, 6, ''netop-school''), (1971, 17, ''netop-school''), (1972, 6, ''intersys-cache''), (1972, 17, ''intersys-cache''),
      (1973, 6, ''dlsrap''), (1973, 17, ''dlsrap''), (1974, 6, ''drp''), (1974, 17, ''drp''),
      (1975, 6, ''tcoflashagent''), (1975, 17, ''tcoflashagent''), (1976, 6, ''tcoregagent''), (1976, 17, ''tcoregagent''),
      (1977, 6, ''tcoaddressbook''), (1977, 17, ''tcoaddressbook''), (1978, 6, ''unisql''), (1978, 17, ''unisql''),
      (1979, 6, ''unisql-java''), (1979, 17, ''unisql-java''), (1980, 6, ''pearldoc-xact''), (1980, 17, ''pearldoc-xact''),
      (1981, 6, ''p2pq''), (1981, 17, ''p2pq''), (1982, 6, ''estamp''), (1982, 17, ''estamp''),
      (1983, 6, ''lhtp''), (1983, 17, ''lhtp''), (1984, 6, ''bigbrother''), (1984, 17, ''bb''),
      (1985, 6, ''hsrp''), (1985, 17, ''hsrp''), (1986, 6, ''licensedaemon''), (1986, 17, ''licensedaemon''),
      (1987, 6, ''tr-rsrb-p1''), (1987, 17, ''tr-rsrb-p1''), (1988, 6, ''tr-rsrb-p2''), (1988, 17, ''tr-rsrb-p2''),
      (1989, 6, ''tr-rsrb-p3''), (1989, 17, ''tr-rsrb-p3''), (1990, 6, ''stun-p1''), (1990, 17, ''stun-p1''),
      (1991, 6, ''stun-p2''), (1991, 17, ''stun-p2''), (1992, 6, ''stun-p3''), (1992, 17, ''stun-p3''),
      (1993, 6, ''snmp-tcp-port''), (1993, 17, ''snmp-tcp-port''), (1994, 6, ''stun-port''), (1994, 17, ''stun-port''),
      (1995, 6, ''perf-port''), (1995, 17, ''perf-port''), (1996, 6, ''tr-rsrb-port''), (1996, 17, ''tr-rsrb-port''),
      (1997, 6, ''gdp-port''), (1997, 17, ''gdp-port''), (1998, 6, ''x25-svc-port''), (1998, 17, ''x25-svc-port''),
      (1999, 6, ''tcp-id-port''), (1999, 17, ''tcp-id-port''), (2000, 6, ''cisco-sccp''), (2000, 17, ''cisco-sccp''),
      (2001, 6, ''dc''), (2001, 17, ''wizard''), (2002, 6, ''globe''), (2002, 17, ''globe''),
      (2003, 6, ''finger''), (2003, 17, ''brutus''), (2004, 6, ''mailbox''), (2004, 17, ''emce''),
      (2005, 6, ''deslogin''), (2005, 17, ''oracle''), (2006, 6, ''invokator''), (2006, 17, ''raid-cc''),
      (2007, 6, ''dectalk''), (2007, 17, ''raid-am''), (2008, 6, ''conf''), (2008, 17, ''terminaldb''),
      (2009, 6, ''news''), (2009, 17, ''whosockami''), (2010, 6, ''search''), (2010, 17, ''pipe_server''),
      (2011, 6, ''raid-cc''), (2011, 17, ''servserv''), (2012, 6, ''ttyinfo''), (2012, 17, ''raid-ac''),
      (2013, 6, ''raid-am''), (2013, 17, ''raid-cd''), (2014, 6, ''troff''), (2014, 17, ''raid-sf''),
      (2015, 6, ''cypress''), (2015, 17, ''raid-cs''), (2016, 6, ''bootserver''), (2016, 17, ''bootserver''),
      (2017, 6, ''cypress-stat''), (2017, 17, ''bootclient''), (2018, 6, ''terminaldb''), (2018, 17, ''rellpack'')]"

lemma Services_22_ascend: "port_range 1945 2018 Services_22"
  unfolding Services_22_def port_range_def
  by (rule ascending_end ascending_same ascending_next, simp)+

definition Services_23 :: "service_entry list" where
  "Services_23 =
     [(2019, 6, ''whosockami''), (2019, 17, ''about''), (2020, 6, ''xinupageserver''), (2020, 17, ''xinupageserver''),
      (2021, 6, ''servexec''), (2021, 17, ''xinuexpansion1''), (2022, 6, ''down''), (2022, 17, ''xinuexpansion2''),
      (2023, 6, ''xinuexpansion3''), (2023, 17, ''xinuexpansion3''), (2024, 6, ''xinuexpansion4''), (2024, 17, ''xinuexpansion4''),
      (2025, 6, ''ellpack''), (2025, 17, ''xribs''), (2026, 6, ''scrabble''), (2026, 17, ''scrabble''),
      (2027, 6, ''shadowserver''), (2027, 17, ''shadowserver''), (2028, 6, ''submitserver''), (2028, 17, ''submitserver''),
      (2029, 6, ''hsrpv6''), (2029, 17, ''hsrpv6''), (2030, 6, ''device2''), (2030, 17, ''device2''),
      (2031, 6, ''mobrien-chat''), (2031, 17, ''mobrien-chat''), (2032, 6, ''blackboard''), (2032, 17, ''blackboard''),
      (2033, 6, ''glogger''), (2033, 17, ''glogger''), (2034, 6, ''scoremgr''), (2034, 17, ''scoremgr''),
      (2035, 6, ''imsldoc''), (2035, 17, ''imsldoc''), (2036, 6, ''e-dpnet''), (2036, 17, ''e-dpnet''),
      (2037, 6, ''applus''), (2037, 17, ''applus''), (2038, 6, ''objectmanager''), (2038, 17, ''objectmanager''),
      (2039, 6, ''prizma''), (2039, 17, ''prizma''), (2040, 6, ''lam''), (2040, 17, ''lam''),
      (2041, 6, ''interbase''), (2041, 17, ''interbase''), (2042, 6, ''isis''), (2042, 17, ''isis''),
      (2043, 6, ''isis-bcast''), (2043, 17, ''isis-bcast''), (2044, 6, ''rimsl''), (2044, 17, ''rimsl''),
      (2045, 6, ''cdfunc''), (2045, 17, ''cdfunc''), (2046, 6, ''sdfunc''), (2046, 17, ''sdfunc''),
      (2047, 6, ''dls''), (2047, 17, ''dls''), (2048, 6, ''dls-monitor''), (2048, 17, ''dls-monitor''),
      (2049, 132, ''nfs''), (2049, 6, ''nfs''), (2049, 17, ''nfs''), (2050, 6, ''av-emb-config''),
      (2050, 17, ''av-emb-config''), (2051, 6, ''epnsdp''), (2051, 17, ''epnsdp''), (2052, 6, ''clearvisn''),
      (2052, 17, ''clearvisn''), (2053, 6, ''knetd''), (2053, 17, ''lot105-ds-upd''), (2054, 6, ''weblogin''),
      (2054, 17, ''weblogin''), (2055, 6, ''iop''), (2055, 17, ''iop''), (2056, 6, ''omnisky''),
      (2056, 17, ''omnisky''), (2057, 6, ''rich-cp''), (2057, 17, ''rich-cp''), (2058, 6, ''newwavesearch''),
      (2058, 17, ''newwavesearch''), (2059, 6, ''bmc-messaging''), (2059, 17, ''bmc-messaging''), (2060, 6, ''teleniumdaemon''),
      (2060, 17, ''teleniumdaemon''), (2061, 6, ''netmount''), (2061, 17, ''netmount''), (2062, 6, ''icg-swp''),
      (2062, 17, ''icg-swp''), (2063, 6, ''icg-bridge''), (2063, 17, ''icg-bridge''), (2064, 6, ''dnet-keyproxy''),
      (2064, 17, ''icg-iprelay''), (2065, 6, ''dlsrpn''), (2065, 17, ''dlsrpn''), (2066, 6, ''aura''),
      (2066, 17, ''aura''), (2067, 6, ''dlswpn''), (2067, 17, ''dlswpn''), (2068, 6, ''avocentkvm''),
      (2068, 17, ''avauthsrvprtcl''), (2069, 6, ''event-port''), (2069, 17, ''event-port''), (2070, 6, ''ah-esp-encap''),
      (2070, 17, ''ah-esp-encap''), (2071, 6, ''acp-port''), (2071, 17, ''acp-port''), (2072, 6, ''msync''),
      (2072, 17, ''msync''), (2073, 6, ''gxs-data-port''), (2073, 17, ''gxs-data-port''), (2074, 6, ''vrtl-vmf-sa''),
      (2074, 17, ''vrtl-vmf-sa''), (2075, 6, ''newlixengine''), (2075, 17, ''newlixengine''), (2076, 6, ''newlixconfig''),
      (2076, 17, ''newlixconfig''), (2077, 6, ''tsrmagt''), (2077, 17, ''tsrmagt''), (2078, 6, ''tpcsrvr''),
      (2078, 17, ''tpcsrvr''), (2079, 6, ''idware-router''), (2079, 17, ''idware-router''), (2080, 6, ''autodesk-nlm''),
      (2080, 17, ''autodesk-nlm''), (2081, 6, ''kme-trap-port''), (2081, 17, ''kme-trap-port''), (2082, 6, ''infowave''),
      (2082, 17, ''infowave''), (2083, 6, ''radsec''), (2083, 17, ''radsec''), (2084, 6, ''sunclustergeo''),
      (2084, 17, ''sunclustergeo''), (2085, 6, ''ada-cip''), (2085, 17, ''ada-cip''), (2086, 6, ''gnunet''),
      (2086, 17, ''gnunet''), (2087, 6, ''eli''), (2087, 17, ''eli''), (2088, 6, ''ip-blf''),
      (2088, 17, ''ip-blf''), (2089, 6, ''sep''), (2089, 17, ''sep''), (2090, 6, ''lrp''),
      (2090, 17, ''lrp''), (2091, 6, ''prp''), (2091, 17, ''prp''), (2092, 6, ''descent3''),
      (2092, 17, ''descent3'')]"

lemma Services_23_ascend: "port_range 2019 2092 Services_23"
  unfolding Services_23_def port_range_def
  by (rule ascending_end ascending_same ascending_next, simp)+

definition Services_24 :: "service_entry list" where
  "Services_24 =
     [(2093, 6, ''nbx-cc''), (2093, 17, ''nbx-cc''), (2094, 6, ''nbx-au''), (2094, 17, ''nbx-au''),
      (2095, 6, ''nbx-ser''), (2095, 17, ''nbx-ser''), (2096, 6, ''nbx-dir''), (2096, 17, ''nbx-dir''),
      (2097, 6, ''jetformpreview''), (2097, 17, ''jetformpreview''), (2098, 6, ''dialog-port''), (2098, 17, ''dialog-port''),
      (2099, 6, ''h2250-annex-g''), (2099, 17, ''h2250-annex-g''), (2100, 6, ''amiganetfs''), (2100, 17, ''amiganetfs''),
      (2101, 6, ''rtcm-sc104''), (2101, 17, ''rtcm-sc104''), (2102, 6, ''zephyr-srv''), (2102, 17, ''zephyr-srv''),
      (2103, 6, ''zephyr-clt''), (2103, 17, ''zephyr-clt''), (2104, 6, ''zephyr-hm''), (2104, 17, ''zephyr-hm''),
      (2105, 6, ''eklogin''), (2105, 17, ''eklogin''), (2106, 6, ''ekshell''), (2106, 17, ''ekshell''),
      (2107, 6, ''msmq-mgmt''), (2107, 17, ''bintec-admin''), (2108, 6, ''rkinit''), (2108, 17, ''rkinit''),
      (2109, 6, ''ergolight''), (2109, 17, ''ergolight''), (2110, 6, ''umsp''), (2110, 17, ''umsp''),
      (2111, 6, ''kx''), (2111, 17, ''dsatp''), (2112, 6, ''kip''), (2112, 17, ''idonix-metanet''),
      (2113, 6, ''hsl-storm''), (2113, 17, ''hsl-storm''), (2114, 6, ''newheights''), (2114, 17, ''newheights''),
      (2115, 6, ''kdm''), (2115, 17, ''kdm''), (2116, 6, ''ccowcmr''), (2116, 17, ''ccowcmr''),
      (2117, 6, ''mentaclient''), (2117, 17, ''mentaclient''), (2118, 6, ''mentaserver''), (2118, 17, ''mentaserver''),
      (2119, 6, ''gsigatekeeper''), (2119, 17, ''gsigatekeeper''), (2120, 6, ''kauth''), (2120, 17, ''qencp''),
      (2121, 6, ''ccproxy-ftp''), (2121, 17, ''scientia-ssdb''), (2122, 6, ''caupc-remote''), (2122, 17, ''caupc-remote''),
      (2123, 6, ''gtp-control''), (2123, 17, ''gtp-control''), (2124, 6, ''elatelink''), (2124, 17, ''elatelink''),
      (2125, 6, ''lockstep''), (2125, 17, ''lockstep''), (2126, 6, ''pktcable-cops''), (2126, 17, ''pktcable-cops''),
      (2127, 6, ''index-pc-wb''), (2127, 17, ''index-pc-wb''), (2128, 6, ''net-steward''), (2128, 17, ''net-steward''),
      (2129, 6, ''cs-live''), (2129, 17, ''cs-live''), (2130, 6, ''xds''), (2130, 17, ''xds''),
      (2131, 6, ''avantageb2b''), (2131, 17, ''avantageb2b''), (2132, 6, ''solera-epmap''), (2132, 17, ''solera-epmap''),
      (2133, 6, ''zymed-zpp''), (2133, 17, ''zymed-zpp''), (2134, 6, ''avenue''), (2134, 17, ''avenue''),
      (2135, 6, ''gris''), (2135, 17, ''gris''), (2136, 6, ''appworxsrv''), (2136, 17, ''appworxsrv''),
      (2137, 6, ''connect''), (2137, 17, ''connect''), (2138, 6, ''unbind-cluster''), (2138, 17, ''unbind-cluster''),
      (2139, 6, ''ias-auth''), (2139, 17, ''ias-auth''), (2140, 6, ''ias-reg''), (2140, 17, ''ias-reg''),
      (2141, 6, ''ias-admind''), (2141, 17, ''ias-admind''), (2142, 6, ''tdmoip''), (2142, 17, ''tdmoip''),
      (2143, 6, ''lv-jc''), (2143, 17, ''lv-jc''), (2144, 6, ''lv-ffx''), (2144, 17, ''lv-ffx''),
      (2145, 6, ''lv-pici''), (2145, 17, ''lv-pici''), (2146, 6, ''lv-not''), (2146, 17, ''lv-not''),
      (2147, 6, ''lv-auth''), (2147, 17, ''lv-auth''), (2148, 6, ''veritas-ucl''), (2148, 17, ''veritas-ucl''),
      (2149, 6, ''acptsys''), (2149, 17, ''acptsys''), (2150, 6, ''dynamic3d''), (2150, 17, ''dynamic3d''),
      (2151, 6, ''docent''), (2151, 17, ''docent''), (2152, 6, ''gtp-user''), (2152, 17, ''gtp-user''),
      (2153, 6, ''ctlptc''), (2153, 17, ''ctlptc''), (2154, 6, ''stdptc''), (2154, 17, ''stdptc''),
      (2155, 6, ''brdptc''), (2155, 17, ''brdptc''), (2156, 6, ''trp''), (2156, 17, ''trp''),
      (2157, 6, ''xnds''), (2157, 17, ''xnds''), (2158, 6, ''touchnetplus''), (2158, 17, ''touchnetplus''),
      (2159, 6, ''gdbremote''), (2159, 17, ''gdbremote''), (2160, 6, ''apc-2160''), (2160, 17, ''apc-2160''),
      (2161, 6, ''apc-agent''), (2161, 17, ''apc-2161''), (2162, 6, ''navisphere''), (2162, 17, ''navisphere''),
      (2163, 6, ''navisphere-sec''), (2163, 17, ''navisphere-sec''), (2164, 6, ''ddns-v3''), (2164, 17, ''ddns-v3''),
      (2165, 6, ''x-bone-api''), (2165, 17, ''x-bone-api''), (2166, 6, ''iwserver''), (2166, 17, ''iwserver'')]"

lemma Services_24_ascend: "port_range 2093 2166 Services_24"
  unfolding Services_24_def port_range_def
  by (rule ascending_end ascending_same ascending_next, simp)+

definition Services_25 :: "service_entry list" where
  "Services_25 =
     [(2167, 6, ''raw-serial''), (2167, 17, ''raw-serial''), (2168, 6, ''easy-soft-mux''), (2168, 17, ''easy-soft-mux''),
      (2169, 6, ''brain''), (2169, 17, ''brain''), (2170, 6, ''eyetv''), (2170, 17, ''eyetv''),
      (2171, 6, ''msfw-storage''), (2171, 17, ''msfw-storage''), (2172, 6, ''msfw-s-storage''), (2172, 17, ''msfw-s-storage''),
      (2173, 6, ''msfw-replica''), (2173, 17, ''msfw-replica''), (2174, 6, ''msfw-array''), (2174, 17, ''msfw-array''),
      (2175, 6, ''airsync''), (2175, 17, ''airsync''), (2176, 6, ''rapi''), (2176, 17, ''rapi''),
      (2177, 6, ''qwave''), (2177, 17, ''qwave''), (2178, 6, ''bitspeer''), (2178, 17, ''bitspeer''),
      (2179, 6, ''vmrdp''), (2179, 17, ''vmrdp''), (2180, 6, ''mc-gt-srv''), (2180, 17, ''mc-gt-srv''),
      (2181, 6, ''eforward''), (2181, 17, ''eforward''), (2182, 6, ''cgn-stat''), (2182, 17, ''cgn-stat''),
      (2183, 6, ''cgn-config''), (2183, 17, ''cgn-config''), (2184, 6, ''nvd''), (2184, 17, ''nvd''),
      (2185, 6, ''onbase-dds''), (2185, 17, ''onbase-dds''), (2186, 6, ''gtaua''), (2186, 17, ''gtaua''),
      (2187, 6, ''ssmc''), (2187, 17, ''ssmd''), (2188, 6, ''radware-rpm''), (2189, 6, ''radware-rpm-s''),
      (2190, 6, ''tivoconnect''), (2190, 17, ''tivoconnect''), (2191, 6, ''tvbus''), (2191, 17, ''tvbus''),
      (2192, 6, ''asdis''), (2192, 17, ''asdis''), (2193, 6, ''drwcs''), (2193, 17, ''drwcs''),
      (2197, 6, ''mnp-exchange''), (2197, 17, ''mnp-exchange''), (2198, 6, ''onehome-remote''), (2198, 17, ''onehome-remote''),
      (2199, 6, ''onehome-help''), (2199, 17, ''onehome-help''), (2200, 6, ''ici''), (2200, 17, ''ici''),
      (2201, 6, ''ats''), (2201, 17, ''ats''), (2202, 6, ''imtc-map''), (2202, 17, ''imtc-map''),
      (2203, 6, ''b2-runtime''), (2203, 17, ''b2-runtime''), (2204, 6, ''b2-license''), (2204, 17, ''b2-license''),
      (2205, 6, ''jps''), (2205, 17, ''jps''), (2206, 6, ''hpocbus''), (2206, 17, ''hpocbus''),
      (2207, 6, ''hpssd''), (2207, 17, ''hpssd''), (2208, 6, ''hpiod''), (2208, 17, ''hpiod''),
      (2209, 6, ''rimf-ps''), (2209, 17, ''rimf-ps''), (2210, 6, ''noaaport''), (2210, 17, ''noaaport''),
      (2211, 6, ''emwin''), (2211, 17, ''emwin''), (2212, 6, ''leecoposserver''), (2212, 17, ''leecoposserver''),
      (2213, 6, ''kali''), (2213, 17, ''kali''), (2214, 6, ''rpi''), (2214, 17, ''rpi''),
      (2215, 6, ''ipcore''), (2215, 17, ''ipcore''), (2216, 6, ''vtu-comms''), (2216, 17, ''vtu-comms''),
      (2217, 6, ''gotodevice''), (2217, 17, ''gotodevice''), (2218, 6, ''bounzza''), (2218, 17, ''bounzza''),
      (2219, 6, ''netiq-ncap''), (2219, 17, ''netiq-ncap''), (2220, 6, ''netiq''), (2220, 17, ''netiq''),
      (2221, 6, ''rockwell-csp1''), (2221, 17, ''rockwell-csp1''), (2222, 6, ''EtherNetIP-1''), (2222, 17, ''msantipiracy''),
      (2223, 6, ''rockwell-csp2''), (2223, 17, ''rockwell-csp2''), (2224, 6, ''efi-mg''), (2224, 17, ''efi-mg''),
      (2225, 132, ''rcip-itu''), (2225, 6, ''rcip-itu''), (2225, 17, ''rcip-itu''), (2226, 6, ''di-drm''),
      (2226, 17, ''di-drm''), (2227, 6, ''di-msg''), (2227, 17, ''di-msg''), (2228, 6, ''ehome-ms''),
      (2228, 17, ''ehome-ms''), (2229, 6, ''datalens''), (2229, 17, ''datalens''), (2230, 6, ''queueadm''),
      (2230, 17, ''queueadm''), (2231, 6, ''wimaxasncp''), (2231, 17, ''wimaxasncp''), (2232, 6, ''ivs-video''),
      (2232, 17, ''ivs-video''), (2233, 6, ''infocrypt''), (2233, 17, ''infocrypt''), (2234, 6, ''directplay''),
      (2234, 17, ''directplay''), (2235, 6, ''sercomm-wlink''), (2235, 17, ''sercomm-wlink''), (2236, 6, ''nani''),
      (2236, 17, ''nani''), (2237, 6, ''optech-port1-lm''), (2237, 17, ''optech-port1-lm''), (2238, 6, ''aviva-sna''),
      (2238, 17, ''aviva-sna''), (2239, 6, ''imagequery''), (2239, 17, ''imagequery''), (2240, 6, ''recipe''),
      (2240, 17, ''recipe''), (2241, 6, ''ivsd''), (2241, 17, ''ivsd''), (2242, 6, ''foliocorp''),
      (2242, 17, ''foliocorp''), (2243, 6, ''magicom''), (2243, 17, ''magicom''), (2244, 6, ''nmsserver''),
      (2244, 17, ''nmsserver'')]"

lemma Services_25_ascend: "port_range 2167 2244 Services_25"
  unfolding Services_25_def port_range_def
  by (rule ascending_end ascending_same ascending_next, simp)+

definition Services_26 :: "service_entry list" where
  "Services_26 =
     [(2245, 6, ''hao''), (2245, 17, ''hao''), (2246, 6, ''pc-mta-addrmap''), (2246, 17, ''pc-mta-addrmap''),
      (2247, 6, ''antidotemgrsvr''), (2247, 17, ''antidotemgrsvr''), (2248, 6, ''ums''), (2248, 17, ''ums''),
      (2249, 6, ''rfmp''), (2249, 17, ''rfmp''), (2250, 6, ''remote-collab''), (2250, 17, ''remote-collab''),
      (2251, 6, ''dif-port''), (2251, 17, ''dif-port''), (2252, 6, ''njenet-ssl''), (2252, 17, ''njenet-ssl''),
      (2253, 6, ''dtv-chan-req''), (2253, 17, ''dtv-chan-req''), (2254, 6, ''seispoc''), (2254, 17, ''seispoc''),
      (2255, 6, ''vrtp''), (2255, 17, ''vrtp''), (2256, 6, ''pcc-mfp''), (2256, 17, ''pcc-mfp''),
      (2257, 6, ''simple-tx-rx''), (2257, 17, ''simple-tx-rx''), (2258, 6, ''rcts''), (2258, 17, ''rcts''),
      (2259, 6, ''acd-pm''), (2259, 17, ''acd-pm''), (2260, 6, ''apc-2260''), (2260, 17, ''apc-2260''),
      (2261, 6, ''comotionmaster''), (2261, 17, ''comotionmaster''), (2262, 6, ''comotionback''), (2262, 17, ''comotionback''),
      (2263, 6, ''ecwcfg''), (2263, 17, ''ecwcfg''), (2264, 6, ''apx500api-1''), (2264, 17, ''apx500api-1''),
      (2265, 6, ''apx500api-2''), (2265, 17, ''apx500api-2''), (2266, 6, ''mfserver''), (2266, 17, ''mfserver''),
      (2267, 6, ''ontobroker''), (2267, 17, ''ontobroker''), (2268, 6, ''amt''), (2268, 17, ''amt''),
      (2269, 6, ''mikey''), (2269, 17, ''mikey''), (2270, 6, ''starschool''), (2270, 17, ''starschool''),
      (2271, 6, ''mmcals''), (2271, 17, ''mmcals''), (2272, 6, ''mmcal''), (2272, 17, ''mmcal''),
      (2273, 6, ''mysql-im''), (2273, 17, ''mysql-im''), (2274, 6, ''pcttunnell''), (2274, 17, ''pcttunnell''),
      (2275, 6, ''ibridge-data''), (2275, 17, ''ibridge-data''), (2276, 6, ''ibridge-mgmt''), (2276, 17, ''ibridge-mgmt''),
      (2277, 6, ''bluectrlproxy''), (2277, 17, ''bluectrlproxy''), (2278, 6, ''s3db''), (2278, 17, ''s3db''),
      (2279, 6, ''xmquery''), (2279, 17, ''xmquery''), (2280, 6, ''lnvpoller''), (2280, 17, ''lnvpoller''),
      (2281, 6, ''lnvconsole''), (2281, 17, ''lnvconsole''), (2282, 6, ''lnvalarm''), (2282, 17, ''lnvalarm''),
      (2283, 6, ''lnvstatus''), (2283, 17, ''lnvstatus''), (2284, 6, ''lnvmaps''), (2284, 17, ''lnvmaps''),
      (2285, 6, ''lnvmailmon''), (2285, 17, ''lnvmailmon''), (2286, 6, ''nas-metering''), (2286, 17, ''nas-metering''),
      (2287, 6, ''dna''), (2287, 17, ''dna''), (2288, 6, ''netml''), (2288, 17, ''netml''),
      (2289, 6, ''dict-lookup''), (2289, 17, ''dict-lookup''), (2290, 6, ''sonus-logging''), (2290, 17, ''sonus-logging''),
      (2291, 6, ''eapsp''), (2291, 17, ''eapsp''), (2292, 6, ''mib-streaming''), (2292, 17, ''mib-streaming''),
      (2293, 6, ''npdbgmngr''), (2293, 17, ''npdbgmngr''), (2294, 6, ''konshus-lm''), (2294, 17, ''konshus-lm''),
      (2295, 6, ''advant-lm''), (2295, 17, ''advant-lm''), (2296, 6, ''theta-lm''), (2296, 17, ''theta-lm''),
      (2297, 6, ''d2k-datamover1''), (2297, 17, ''d2k-datamover1''), (2298, 6, ''d2k-datamover2''), (2298, 17, ''d2k-datamover2''),
      (2299, 6, ''pc-telecommute''), (2299, 17, ''pc-telecommute''), (2300, 6, ''cvmmon''), (2300, 17, ''cvmmon''),
      (2301, 6, ''compaqdiag''), (2301, 17, ''cpq-wbem''), (2302, 6, ''binderysupport''), (2302, 17, ''binderysupport''),
      (2303, 6, ''proxy-gateway''), (2303, 17, ''proxy-gateway''), (2304, 6, ''attachmate-uts''), (2304, 17, ''attachmate-uts''),
      (2305, 6, ''mt-scaleserver''), (2305, 17, ''mt-scaleserver''), (2306, 6, ''tappi-boxnet''), (2306, 17, ''tappi-boxnet''),
      (2307, 6, ''pehelp''), (2307, 17, ''pehelp''), (2308, 6, ''sdhelp''), (2308, 17, ''sdhelp''),
      (2309, 6, ''sdserver''), (2309, 17, ''sdserver''), (2310, 6, ''sdclient''), (2310, 17, ''sdclient''),
      (2311, 6, ''messageservice''), (2311, 17, ''messageservice''), (2312, 6, ''wanscaler''), (2312, 17, ''wanscaler''),
      (2313, 6, ''iapp''), (2313, 17, ''iapp''), (2314, 6, ''cr-websystems''), (2314, 17, ''cr-websystems''),
      (2315, 6, ''precise-sft''), (2315, 17, ''precise-sft''), (2316, 6, ''sent-lm''), (2316, 17, ''sent-lm''),
      (2317, 6, ''attachmate-g32''), (2317, 17, ''attachmate-g32''), (2318, 6, ''cadencecontrol''), (2318, 17, ''cadencecontrol'')]"

lemma Services_26_ascend: "port_range 2245 2318 Services_26"
  unfolding Services_26_def port_range_def
  by (rule ascending_end ascending_same ascending_next, simp)+

definition Services_27 :: "service_entry list" where
  "Services_27 =
     [(2319, 6, ''infolibria''), (2319, 17, ''infolibria''), (2320, 6, ''siebel-ns''), (2320, 17, ''siebel-ns''),
      (2321, 6, ''rdlap''), (2321, 17, ''rdlap''), (2322, 6, ''ofsd''), (2322, 17, ''ofsd''),
      (2323, 6, ''3d-nfsd''), (2323, 17, ''3d-nfsd''), (2324, 6, ''cosmocall''), (2324, 17, ''cosmocall''),
      (2325, 6, ''ansysli''), (2325, 17, ''ansysli''), (2326, 6, ''idcp''), (2326, 17, ''idcp''),
      (2327, 6, ''xingcsm''), (2327, 17, ''xingcsm''), (2328, 6, ''netrix-sftm''), (2328, 17, ''netrix-sftm''),
      (2329, 6, ''nvd''), (2329, 17, ''nvd''), (2330, 6, ''tscchat''), (2330, 17, ''tscchat''),
      (2331, 6, ''agentview''), (2331, 17, ''agentview''), (2332, 6, ''rcc-host''), (2332, 17, ''rcc-host''),
      (2333, 6, ''snapp''), (2333, 17, ''snapp''), (2334, 6, ''ace-client''), (2334, 17, ''ace-client''),
      (2335, 6, ''ace-proxy''), (2335, 17, ''ace-proxy''), (2336, 6, ''appleugcontrol''), (2336, 17, ''appleugcontrol''),
      (2337, 6, ''ideesrv''), (2337, 17, ''ideesrv''), (2338, 6, ''norton-lambert''), (2338, 17, ''norton-lambert''),
      (2339, 6, ''3com-webview''), (2339, 17, ''3com-webview''), (2340, 6, ''wrs_registry''), (2340, 17, ''wrs_registry''),
      (2341, 6, ''xiostatus''), (2341, 17, ''xiostatus''), (2342, 6, ''manage-exec''), (2342, 17, ''manage-exec''),
      (2343, 6, ''nati-logos''), (2343, 17, ''nati-logos''), (2344, 6, ''fcmsys''), (2344, 17, ''fcmsys''),
      (2345, 6, ''dbm''), (2345, 17, ''dbm''), (2346, 6, ''redstorm_join''), (2346, 17, ''redstorm_join''),
      (2347, 6, ''redstorm_find''), (2347, 17, ''redstorm_find''), (2348, 6, ''redstorm_info''), (2348, 17, ''redstorm_info''),
      (2349, 6, ''redstorm_diag''), (2349, 17, ''redstorm_diag''), (2350, 6, ''psbserver''), (2350, 17, ''psbserver''),
      (2351, 6, ''psrserver''), (2351, 17, ''psrserver''), (2352, 6, ''pslserver''), (2352, 17, ''pslserver''),
      (2353, 6, ''pspserver''), (2353, 17, ''pspserver''), (2354, 6, ''psprserver''), (2354, 17, ''psprserver''),
      (2355, 6, ''psdbserver''), (2355, 17, ''psdbserver''), (2356, 6, ''gxtelmd''), (2356, 17, ''gxtelmd''),
      (2357, 6, ''unihub-server''), (2357, 17, ''unihub-server''), (2358, 6, ''futrix''), (2358, 17, ''futrix''),
      (2359, 6, ''flukeserver''), (2359, 17, ''flukeserver''), (2360, 6, ''nexstorindltd''), (2360, 17, ''nexstorindltd''),
      (2361, 6, ''tl1''), (2361, 17, ''tl1''), (2362, 6, ''digiman''), (2362, 17, ''digiman''),
      (2363, 6, ''mediacntrlnfsd''), (2363, 17, ''mediacntrlnfsd''), (2364, 6, ''oi-2000''), (2364, 17, ''oi-2000''),
      (2365, 6, ''dbref''), (2365, 17, ''dbref''), (2366, 6, ''qip-login''), (2366, 17, ''qip-login''),
      (2367, 6, ''service-ctrl''), (2367, 17, ''service-ctrl''), (2368, 6, ''opentable''), (2368, 17, ''opentable''),
      (2370, 6, ''l3-hbmon''), (2370, 17, ''l3-hbmon''), (2371, 6, ''worldwire''), (2371, 17, ''worldwire''),
      (2372, 6, ''lanmessenger''), (2372, 17, ''lanmessenger''), (2373, 6, ''remographlm''), (2374, 6, ''hydra''),
      (2375, 6, ''docker''), (2376, 6, ''docker''), (2377, 6, ''swarm''), (2379, 6, ''etcd-client''),
      (2380, 6, ''etcd-server''), (2381, 6, ''compaq-https''), (2381, 17, ''compaq-https''), (2382, 6, ''ms-olap3''),
      (2382, 17, ''ms-olap3''), (2383, 6, ''ms-olap4''), (2383, 17, ''ms-olap4''), (2384, 6, ''sd-request''),
      (2384, 17, ''sd-capacity''), (2385, 6, ''sd-data''), (2385, 17, ''sd-data''), (2386, 6, ''virtualtape''),
      (2386, 17, ''virtualtape''), (2387, 6, ''vsamredirector''), (2387, 17, ''vsamredirector''), (2388, 6, ''mynahautostart''),
      (2388, 17, ''mynahautostart''), (2389, 6, ''ovsessionmgr''), (2389, 17, ''ovsessionmgr''), (2390, 6, ''rsmtp''),
      (2390, 17, ''rsmtp''), (2391, 6, ''3com-net-mgmt''), (2391, 17, ''3com-net-mgmt''), (2392, 6, ''tacticalauth''),
      (2392, 17, ''tacticalauth''), (2393, 6, ''ms-olap1''), (2393, 17, ''ms-olap1''), (2394, 6, ''ms-olap2''),
      (2394, 17, ''ms-olap2''), (2395, 6, ''lan900_remote''), (2395, 17, ''lan900_remote''), (2396, 6, ''wusage''),
      (2396, 17, ''wusage''), (2397, 6, ''ncl''), (2397, 17, ''ncl''), (2398, 6, ''orbiter''),
      (2398, 17, ''orbiter'')]"

lemma Services_27_ascend: "port_range 2319 2398 Services_27"
  unfolding Services_27_def port_range_def
  by (rule ascending_end ascending_same ascending_next, simp)+

end
