(* ===== verification/Service_Table2.thy ===== *)
theory Service_Table2
  imports Service_Base
begin

text \<open>
  The second part of the table \<^verbatim>\<open>Services\<close> of \<^verbatim>\<open>pkg/util/service/service.go\<close>, in groups of at most 149 entries that end
  where the port changes, each with the check that its ports ascend.
\<close>

definition Services_28 :: "service_entry list" where
  "Services_28 =
     [(2399, 6, ''fmpro-fdal''), (2399, 17, ''fmpro-fdal''), (2400, 6, ''opequus-server''), (2400, 17, ''opequus-server''),
      (2401, 6, ''cvspserver''), (2401, 17, ''cvspserver''), (2402, 6, ''taskmaster2000''), (2402, 17, ''taskmaster2000''),
      (2403, 6, ''taskmaster2000''), (2403, 17, ''taskmaster2000''), (2404, 6, ''iec-104''), (2404, 17, ''iec-104''),
      (2405, 6, ''trc-netpoll''), (2405, 17, ''trc-netpoll''), (2406, 6, ''jediserver''), (2406, 17, ''jediserver''),
      (2407, 6, ''orion''), (2407, 17, ''orion''), (2408, 6, ''optimanet''), (2408, 17, ''optimanet''),
      (2409, 6, ''sns-protocol''), (2409, 17, ''sns-protocol''), (2410, 6, ''vrts-registry''), (2410, 17, ''vrts-registry''),
      (2411, 6, ''netwave-ap-mgmt''), (2411, 17, ''netwave-ap-mgmt''), (2412, 6, ''cdn''), (2412, 17, ''cdn''),
      (2413, 6, ''orion-rmi-reg''), (2413, 17, ''orion-rmi-reg''), (2414, 6, ''beeyond''), (2414, 17, ''beeyond''),
      (2415, 6, ''codima-rtp''), (2415, 17, ''codima-rtp''), (2416, 6, ''rmtserver''), (2416, 17, ''rmtserver''),
      (2417, 6, ''composit-server''), (2417, 17, ''composit-server''), (2418, 6, ''cas''), (2418, 17, ''cas''),
      (2419, 6, ''attachmate-s2s''), (2419, 17, ''attachmate-s2s''), (2420, 6, ''dslremote-mgmt''), (2420, 17, ''dslremote-mgmt''),
      (2421, 6, ''g-talk''), (2421, 17, ''g-talk''), (2422, 6, ''crmsbits''), (2422, 17, ''crmsbits''),
      (2423, 6, ''rnrp''), (2423, 17, ''rnrp''), (2424, 6, ''kofax-svr''), (2424, 17, ''kofax-svr''),
      (2425, 6, ''fjitsuappmgr''), (2425, 17, ''fjitsuappmgr''), (2426, 6, ''vcmp''), (2427, 132, ''mgcp-gateway''),
      (2427, 6, ''mgcp-gateway''), (2427, 17, ''mgcp-gateway''), (2428, 6, ''ott''), (2428, 17, ''ott''),
      (2429, 6, ''ft-role''), (2429, 17, ''ft-role''), (2430, 6, ''venus''), (2430, 17, ''venus''),
      (2431, 6, ''venus-se''), (2431, 17, ''venus-se''), (2432, 6, ''codasrv''), (2432, 17, ''codasrv''),
      (2433, 6, ''codasrv-se''), (2433, 17, ''codasrv-se''), (2434, 6, ''pxc-epmap''), (2434, 17, ''pxc-epmap''),
      (2435, 6, ''optilogic''), (2435, 17, ''optilogic''), (2436, 6, ''topx''), (2436, 17, ''topx''),
      (2437, 6, ''unicontrol''), (2437, 17, ''unicontrol''), (2438, 6, ''msp''), (2438, 17, ''msp''),
      (2439, 6, ''sybasedbsynch''), (2439, 17, ''sybasedbsynch''), (2440, 6, ''spearway''), (2440, 17, ''spearway''),
      (2441, 6, ''pvsw-inet''), (2441, 17, ''pvsw-inet''), (2442, 6, ''netangel''), (2442, 17, ''netangel''),
      (2443, 6, ''powerclientcsf''), (2443, 17, ''powerclientcsf''), (2444, 6, ''btpp2sectrans''), (2444, 17, ''btpp2sectrans''),
      (2445, 6, ''dtn1''), (2445, 17, ''dtn1''), (2446, 6, ''bues_service''), (2446, 17, ''bues_service''),
      (2447, 6, ''ovwdb''), (2447, 17, ''ovwdb''), (2448, 6, ''hpppssvr''), (2448, 17, ''hpppssvr''),
      (2449, 6, ''ratl''), (2449, 17, ''ratl''), (2450, 6, ''netadmin''), (2450, 17, ''netadmin''),
      (2451, 6, ''netchat''), (2451, 17, ''netchat''), (2452, 6, ''snifferclient''), (2452, 17, ''snifferclient''),
      (2453, 6, ''madge-ltd''), (2453, 17, ''madge-ltd''), (2454, 6, ''indx-dds''), (2454, 17, ''indx-dds''),
      (2455, 6, ''wago-io-system''), (2455, 17, ''wago-io-system''), (2456, 6, ''altav-remmgt''), (2456, 17, ''altav-remmgt''),
      (2457, 6, ''rapido-ip''), (2457, 17, ''rapido-ip''), (2458, 6, ''griffin''), (2458, 17, ''griffin''),
      (2459, 6, ''community''), (2459, 17, ''community''), (2460, 6, ''ms-theater''), (2460, 17, ''ms-theater''),
      (2461, 6, ''qadmifoper''), (2461, 17, ''qadmifoper''), (2462, 6, ''qadmifevent''), (2462, 17, ''qadmifevent''),
      (2463, 6, ''lsi-raid-mgmt''), (2463, 17, ''lsi-raid-mgmt''), (2464, 6, ''direcpc-si''), (2464, 17, ''direcpc-si''),
      (2465, 6, ''lbm''), (2465, 17, ''lbm''), (2466, 6, ''lbf''), (2466, 17, ''lbf''),
      (2467, 6, ''high-criteria''), (2467, 17, ''high-criteria''), (2468, 6, ''qip-msgd''), (2468, 17, ''qip-msgd''),
      (2469, 6, ''mti-tcs-comm''), (2469, 17, ''mti-tcs-comm''), (2470, 6, ''taskman-port''), (2470, 17, ''taskman-port''),
      (2471, 6, ''seaodbc''), (2471, 17, ''seaodbc''), (2472, 6, ''c3''), (2472, 17, ''c3'')]"

lemma Services_28_ascend: "port_range 2399 2472 Services_28"
  unfolding Services_28_def port_range_def
  by (rule ascending_end ascending_same ascending_next, simp)+

definition Services_29 :: "service_entry list" where
  "Services_29 =
     [(2473, 6, ''aker-cdp''), (2473, 17, ''aker-cdp''), (2474, 6, ''vitalanalysis''), (2474, 17, ''vitalanalysis''),
      (2475, 6, ''ace-server''), (2475, 17, ''ace-server''), (2476, 6, ''ace-svr-prop''), (2476, 17, ''ace-svr-prop''),
      (2477, 6, ''ssm-cvs''), (2477, 17, ''ssm-cvs''), (2478, 6, ''ssm-cssps''), (2478, 17, ''ssm-cssps''),
      (2479, 6, ''ssm-els''), (2479, 17, ''ssm-els''), (2480, 6, ''powerexchange''), (2480, 17, ''powerexchange''),
      (2481, 6, ''giop''), (2481, 17, ''giop''), (2482, 6, ''giop-ssl''), (2482, 17, ''giop-ssl''),
      (2483, 6, ''ttc''), (2483, 17, ''ttc''), (2484, 6, ''ttc-ssl''), (2484, 17, ''ttc-ssl''),
      (2485, 6, ''netobjects1''), (2485, 17, ''netobjects1''), (2486, 6, ''netobjects2''), (2486, 17, ''netobjects2''),
      (2487, 6, ''pns''), (2487, 17, ''pns''), (2488, 6, ''moy-corp''), (2488, 17, ''moy-corp''),
      (2489, 6, ''tsilb''), (2489, 17, ''tsilb''), (2490, 6, ''qip-qdhcp''), (2490, 17, ''qip-qdhcp''),
      (2491, 6, ''conclave-cpp''), (2491, 17, ''conclave-cpp''), (2492, 6, ''groove''), (2492, 17, ''groove''),
      (2493, 6, ''talarian-mqs''), (2493, 17, ''talarian-mqs''), (2494, 6, ''bmc-ar''), (2494, 17, ''bmc-ar''),
      (2495, 6, ''fast-rem-serv''), (2495, 17, ''fast-rem-serv''), (2496, 6, ''dirgis''), (2496, 17, ''dirgis''),
      (2497, 6, ''quaddb''), (2497, 17, ''quaddb''), (2498, 6, ''odn-castraq''), (2498, 17, ''odn-castraq''),
      (2499, 6, ''unicontrol''), (2499, 17, ''unicontrol''), (2500, 6, ''rtsserv''), (2500, 17, ''rtsserv''),
      (2501, 6, ''rtsclient''), (2501, 17, ''rtsclient''), (2502, 6, ''kentrox-prot''), (2502, 17, ''kentrox-prot''),
      (2503, 6, ''nms-dpnss''), (2503, 17, ''nms-dpnss''), (2504, 6, ''wlbs''), (2504, 17, ''wlbs''),
      (2505, 6, ''ppcontrol''), (2505, 17, ''ppcontrol''), (2506, 6, ''jbroker''), (2506, 17, ''jbroker''),
      (2507, 6, ''spock''), (2507, 17, ''spock''), (2508, 6, ''jdatastore''), (2508, 17, ''jdatastore''),
      (2509, 6, ''fjmpss''), (2509, 17, ''fjmpss''), (2510, 6, ''fjappmgrbulk''), (2510, 17, ''fjappmgrbulk''),
      (2511, 6, ''metastorm''), (2511, 17, ''metastorm''), (2512, 6, ''citrixima''), (2512, 17, ''citrixima''),
      (2513, 6, ''citrixadmin''), (2513, 17, ''citrixadmin''), (2514, 6, ''facsys-ntp''), (2514, 17, ''facsys-ntp''),
      (2515, 6, ''facsys-router''), (2515, 17, ''facsys-router''), (2516, 6, ''maincontrol''), (2516, 17, ''maincontrol''),
      (2517, 6, ''call-sig-trans''), (2517, 17, ''call-sig-trans''), (2518, 6, ''willy''), (2518, 17, ''willy''),
      (2519, 6, ''globmsgsvc''), (2519, 17, ''globmsgsvc''), (2520, 6, ''pvsw''), (2520, 17, ''pvsw''),
      (2521, 6, ''adaptecmgr''), (2521, 17, ''adaptecmgr''), (2522, 6, ''windb''), (2522, 17, ''windb''),
      (2523, 6, ''qke-llc-v3''), (2523, 17, ''qke-llc-v3''), (2524, 6, ''optiwave-lm''), (2524, 17, ''optiwave-lm''),
      (2525, 6, ''ms-v-worlds''), (2525, 17, ''ms-v-worlds''), (2526, 6, ''ema-sent-lm''), (2526, 17, ''ema-sent-lm''),
      (2527, 6, ''iqserver''), (2527, 17, ''iqserver''), (2528, 6, ''ncr_ccl''), (2528, 17, ''ncr_ccl''),
      (2529, 6, ''utsftp''), (2529, 17, ''utsftp''), (2530, 6, ''vrcommerce''), (2530, 17, ''vrcommerce''),
      (2531, 6, ''ito-e-gui''), (2531, 17, ''ito-e-gui''), (2532, 6, ''ovtopmd''), (2532, 17, ''ovtopmd''),
      (2533, 6, ''snifferserver''), (2533, 17, ''snifferserver''), (2534, 6, ''combox-web-acc''), (2534, 17, ''combox-web-acc''),
      (2535, 6, ''madcap''), (2535, 17, ''madcap''), (2536, 6, ''btpp2audctr1''), (2536, 17, ''btpp2audctr1''),
      (2537, 6, ''upgrade''), (2537, 17, ''upgrade''), (2538, 6, ''vnwk-prapi''), (2538, 17, ''vnwk-prapi''),
      (2539, 6, ''vsiadmin''), (2539, 17, ''vsiadmin''), (2540, 6, ''lonworks''), (2540, 17, ''lonworks''),
      (2541, 6, ''lonworks2''), (2541, 17, ''lonworks2''), (2542, 6, ''udrawgraph''), (2542, 17, ''udrawgraph''),
      (2543, 6, ''reftek''), (2543, 17, ''reftek''), (2544, 6, ''novell-zen''), (2544, 17, ''novell-zen''),
      (2545, 6, ''sis-emt''), (2545, 17, ''sis-emt''), (2546, 6, ''vytalvaultbrtp''), (2546, 17, ''vytalvaultbrtp'')]"

lemma Services_29_ascend: "port_range 2473 2546 Services_29"
  unfolding Services_29_def port_range_def
  by (rule ascending_end ascending_same ascending_next, simp)+

definition Services_30 :: "service_entry list" where
  "Services_30 =
     [(2547, 6, ''vytalvaultvsmp''), (2547, 17, ''vytalvaultvsmp''), (2548, 6, ''vytalvaultpipe''), (2548, 17, ''vytalvaultpipe''),
      (2549, 6, ''ipass''), (2549, 17, ''ipass''), (2550, 6, ''ads''), (2550, 17, ''ads''),
      (2551, 6, ''isg-uda-server''), (2551, 17, ''isg-uda-server''), (2552, 6, ''call-logging''), (2552, 17, ''call-logging''),
      (2553, 6, ''efidiningport''), (2553, 17, ''efidiningport''), (2554, 6, ''vcnet-link-v10''), (2554, 17, ''vcnet-link-v10''),
      (2555, 6, ''compaq-wcp''), (2555, 17, ''compaq-wcp''), (2556, 6, ''nicetec-nmsvc''), (2556, 17, ''nicetec-nmsvc''),
      (2557, 6, ''nicetec-mgmt''), (2557, 17, ''nicetec-mgmt''), (2558, 6, ''pclemultimedia''), (2558, 17, ''pclemultimedia''),
      (2559, 6, ''lstp''), (2559, 17, ''lstp''), (2560, 6, ''labrat''), (2560, 17, ''labrat''),
      (2561, 6, ''mosaixcc''), (2561, 17, ''mosaixcc''), (2562, 6, ''delibo''), (2562, 17, ''delibo''),
      (2563, 6, ''cti-redwood''), (2563, 17, ''cti-redwood''), (2564, 6, ''hp-3000-telnet''), (2565, 6, ''coord-svr''),
      (2565, 17, ''coord-svr''), (2566, 6, ''pcs-pcw''), (2566, 17, ''pcs-pcw''), (2567, 6, ''clp''),
      (2567, 17, ''clp''), (2568, 6, ''spamtrap''), (2568, 17, ''spamtrap''), (2569, 6, ''sonuscallsig''),
      (2569, 17, ''sonuscallsig''), (2570, 6, ''hs-port''), (2570, 17, ''hs-port''), (2571, 6, ''cecsvc''),
      (2571, 17, ''cecsvc''), (2572, 6, ''ibp''), (2572, 17, ''ibp''), (2573, 6, ''trustestablish''),
      (2573, 17, ''trustestablish''), (2574, 6, ''blockade-bpsp''), (2574, 17, ''blockade-bpsp''), (2575, 6, ''hl7''),
      (2575, 17, ''hl7''), (2576, 6, ''tclprodebugger''), (2576, 17, ''tclprodebugger''), (2577, 6, ''scipticslsrvr''),
      (2577, 17, ''scipticslsrvr''), (2578, 6, ''rvs-isdn-dcp''), (2578, 17, ''rvs-isdn-dcp''), (2579, 6, ''mpfoncl''),
      (2579, 17, ''mpfoncl''), (2580, 6, ''tributary''), (2580, 17, ''tributary''), (2581, 6, ''argis-te''),
      (2581, 17, ''argis-te''), (2582, 6, ''argis-ds''), (2582, 17, ''argis-ds''), (2583, 6, ''mon''),
      (2583, 17, ''mon''), (2584, 6, ''cyaserv''), (2584, 17, ''cyaserv''), (2585, 6, ''netx-server''),
      (2585, 17, ''netx-server''), (2586, 6, ''netx-agent''), (2586, 17, ''netx-agent''), (2587, 6, ''masc''),
      (2587, 17, ''masc''), (2588, 6, ''privilege''), (2588, 17, ''privilege''), (2589, 6, ''quartus-tcl''),
      (2589, 17, ''quartus-tcl''), (2590, 6, ''idotdist''), (2590, 17, ''idotdist''), (2591, 6, ''maytagshuffle''),
      (2591, 17, ''maytagshuffle''), (2592, 6, ''netrek''), (2592, 17, ''netrek''), (2593, 6, ''mns-mail''),
      (2593, 17, ''mns-mail''), (2594, 6, ''dts''), (2594, 17, ''dts''), (2595, 6, ''worldfusion1''),
      (2595, 17, ''worldfusion1''), (2596, 6, ''worldfusion2''), (2596, 17, ''worldfusion2''), (2597, 6, ''homesteadglory''),
      (2597, 17, ''homesteadglory''), (2598, 6, ''citriximaclient''), (2598, 17, ''citriximaclient''), (2599, 6, ''snapd''),
      (2599, 17, ''snapd''), (2600, 6, ''zebrasrv''), (2600, 17, ''hpstgmgr''), (2601, 6, ''zebra''),
      (2601, 17, ''discp-client''), (2602, 6, ''ripd''), (2602, 17, ''discp-server''), (2603, 6, ''ripngd''),
      (2603, 17, ''servicemeter''), (2604, 6, ''ospfd''), (2604, 17, ''nsc-ccs''), (2605, 6, ''bgpd''),
      (2605, 17, ''nsc-posa''), (2606, 6, ''netmon''), (2606, 17, ''netmon''), (2607, 6, ''connection''),
      (2607, 17, ''connection''), (2608, 6, ''wag-service''), (2608, 17, ''wag-service''), (2609, 6, ''system-monitor''),
      (2609, 17, ''system-monitor''), (2610, 6, ''versa-tek''), (2610, 17, ''versa-tek''), (2611, 6, ''lionhead''),
      (2611, 17, ''lionhead''), (2612, 6, ''qpasa-agent''), (2612, 17, ''qpasa-agent''), (2613, 6, ''smntubootstrap''),
      (2613, 17, ''smntubootstrap''), (2614, 6, ''neveroffline''), (2614, 17, ''neveroffline''), (2615, 6, ''firepower''),
      (2615, 17, ''firepower''), (2616, 6, ''appswitch-emp''), (2616, 17, ''appswitch-emp''), (2617, 6, ''cmadmin''),
      (2617, 17, ''cmadmin''), (2618, 6, ''priority-e-com''), (2618, 17, ''priority-e-com''), (2619, 6, ''bruce''),
      (2619, 17, ''bruce''), (2620, 6, ''lpsrecommender''), (2620, 17, ''lpsrecommender''), (2621, 6, ''miles-apart''),
      (2621, 17, ''miles-apart'')]"

lemma Services_30_ascend: "port_range 2547 2621 Services_30"
  unfolding Services_30_def port_range_def
  by (rule ascending_end ascending_same ascending_next, simp)+

definition Services_31 :: "service_entry list" where
  "Services_31 =
     [(2622, 6, ''metricadbc''), (2622, 17, ''metricadbc''), (2623, 6, ''lmdp''), (2623, 17, ''lmdp''),
      (2624, 6, ''aria''), (2624, 17, ''aria''), (2625, 6, ''blwnkl-port''), (2625, 17, ''blwnkl-port''),
      (2626, 6, ''gbjd816''), (2626, 17, ''gbjd816''), (2627, 6, ''webster''), (2627, 17, ''webster''),
      (2628, 6, ''dict''), (2628, 17, ''dict''), (2629, 6, ''sitaraserver''), (2629, 17, ''sitaraserver''),
      (2630, 6, ''sitaramgmt''), (2630, 17, ''sitaramgmt''), (2631, 6, ''sitaradir''), (2631, 17, ''sitaradir''),
      (2632, 6, ''irdg-post''), (2632, 17, ''irdg-post''), (2633, 6, ''interintelli''), (2633, 17, ''interintelli''),
      (2634, 6, ''pk-electronics''), (2634, 17, ''pk-electronics''), (2635, 6, ''backburner''), (2635, 17, ''backburner''),
      (2636, 6, ''solve''), (2636, 17, ''solve''), (2637, 6, ''imdocsvc''), (2637, 17, ''imdocsvc''),
      (2638, 6, ''sybase''), (2638, 17, ''sybaseanywhere''), (2639, 6, ''aminet''), (2639, 17, ''aminet''),
      (2640, 6, ''sai_sentlm''), (2640, 17, ''sai_sentlm''), (2641, 6, ''hdl-srv''), (2641, 17, ''hdl-srv''),
      (2642, 6, ''tragic''), (2642, 17, ''tragic''), (2643, 6, ''gte-samp''), (2643, 17, ''gte-samp''),
      (2644, 6, ''travsoft-ipx-t''), (2644, 17, ''travsoft-ipx-t''), (2645, 6, ''novell-ipx-cmd''), (2645, 17, ''novell-ipx-cmd''),
      (2646, 6, ''and-lm''), (2646, 17, ''and-lm''), (2647, 6, ''syncserver''), (2647, 17, ''syncserver''),
      (2648, 6, ''upsnotifyprot''), (2648, 17, ''upsnotifyprot''), (2649, 6, ''vpsipport''), (2649, 17, ''vpsipport''),
      (2650, 6, ''eristwoguns''), (2650, 17, ''eristwoguns''), (2651, 6, ''ebinsite''), (2651, 17, ''ebinsite''),
      (2652, 6, ''interpathpanel''), (2652, 17, ''interpathpanel''), (2653, 6, ''sonus''), (2653, 17, ''sonus''),
      (2654, 6, ''corel_vncadmin''), (2654, 17, ''corel_vncadmin''), (2655, 6, ''unglue''), (2655, 17, ''unglue''),
      (2656, 6, ''kana''), (2656, 17, ''kana''), (2657, 6, ''sns-dispatcher''), (2657, 17, ''sns-dispatcher''),
      (2658, 6, ''sns-admin''), (2658, 17, ''sns-admin''), (2659, 6, ''sns-query''), (2659, 17, ''sns-query''),
      (2660, 6, ''gcmonitor''), (2660, 17, ''gcmonitor''), (2661, 6, ''olhost''), (2661, 17, ''olhost''),
      (2662, 6, ''bintec-capi''), (2662, 17, ''bintec-capi''), (2663, 6, ''bintec-tapi''), (2663, 17, ''bintec-tapi''),
      (2664, 6, ''patrol-mq-gm''), (2664, 17, ''patrol-mq-gm''), (2665, 6, ''patrol-mq-nm''), (2665, 17, ''patrol-mq-nm''),
      (2666, 6, ''extensis''), (2666, 17, ''extensis''), (2667, 6, ''alarm-clock-s''), (2667, 17, ''alarm-clock-s''),
      (2668, 6, ''alarm-clock-c''), (2668, 17, ''alarm-clock-c''), (2669, 6, ''toad''), (2669, 17, ''toad''),
      (2670, 6, ''tve-announce''), (2670, 17, ''tve-announce''), (2671, 6, ''newlixreg''), (2671, 17, ''newlixreg''),
      (2672, 6, ''nhserver''), (2672, 17, ''nhserver''), (2673, 6, ''firstcall42''), (2673, 17, ''firstcall42''),
      (2674, 6, ''ewnn''), (2674, 17, ''ewnn''), (2675, 6, ''ttc-etap''), (2675, 17, ''ttc-etap''),
      (2676, 6, ''simslink''), (2676, 17, ''simslink''), (2677, 6, ''gadgetgate1way''), (2677, 17, ''gadgetgate1way''),
      (2678, 6, ''gadgetgate2way''), (2678, 17, ''gadgetgate2way''), (2679, 6, ''syncserverssl''), (2679, 17, ''syncserverssl''),
      (2680, 6, ''pxc-sapxom''), (2680, 17, ''pxc-sapxom''), (2681, 6, ''mpnjsomb''), (2681, 17, ''mpnjsomb''),
      (2683, 6, ''ncdloadbalance''), (2683, 17, ''ncdloadbalance''), (2684, 6, ''mpnjsosv''), (2684, 17, ''mpnjsosv''),
      (2685, 6, ''mpnjsocl''), (2685, 17, ''mpnjsocl''), (2686, 6, ''mpnjsomg''), (2686, 17, ''mpnjsomg''),
      (2687, 6, ''pq-lic-mgmt''), (2687, 17, ''pq-lic-mgmt''), (2688, 6, ''md-cg-http''), (2688, 17, ''md-cg-http''),
      (2689, 6, ''fastlynx''), (2689, 17, ''fastlynx''), (2690, 6, ''hp-nnm-data''), (2690, 17, ''hp-nnm-data''),
      (2691, 6, ''itinternet''), (2691, 17, ''itinternet''), (2692, 6, ''admins-lms''), (2692, 17, ''admins-lms''),
      (2694, 6, ''pwrsevent''), (2694, 17, ''pwrsevent''), (2695, 6, ''vspread''), (2695, 17, ''vspread''),
      (2696, 6, ''unifyadmin''), (2696, 17, ''unifyadmin''), (2697, 6, ''oce-snmp-trap''), (2697, 17, ''oce-snmp-trap'')]"

lemma Services_31_ascend: "port_range 2622 2697 Services_31"
  unfolding Services_31_def port_range_def
  by (rule ascending_end ascending_same ascending_next, simp)+

definition Services_32 :: "service_entry list" where
  "Services_32 =
     [(2698, 6, ''mck-ivpip''), (2698, 17, ''mck-ivpip''), (2699, 6, ''csoft-plusclnt''), (2699, 17, ''csoft-plusclnt''),
      (2700, 6, ''tqdata''), (2700, 17, ''tqdata''), (2701, 6, ''sms-rcinfo''), (2701, 17, ''sms-rcinfo''),
      (2702, 6, ''sms-xfer''), (2702, 17, ''sms-xfer''), (2703, 6, ''sms-chat''), (2703, 17, ''sms-chat''),
      (2704, 6, ''sms-remctrl''), (2704, 17, ''sms-remctrl''), (2705, 6, ''sds-admin''), (2705, 17, ''sds-admin''),
      (2706, 6, ''ncdmirroring''), (2706, 17, ''ncdmirroring''), (2707, 6, ''emcsymapiport''), (2707, 17, ''emcsymapiport''),
      (2708, 6, ''banyan-net''), (2708, 17, ''banyan-net''), (2709, 6, ''supermon''), (2709, 17, ''supermon''),
      (2710, 6, ''sso-service''), (2710, 17, ''sso-service''), (2711, 6, ''sso-control''), (2711, 17, ''sso-control''),
      (2712, 6, ''aocp''), (2712, 17, ''aocp''), (2713, 6, ''raventbs''), (2713, 17, ''raventbs''),
      (2714, 6, ''raventdm''), (2714, 17, ''raventdm''), (2715, 6, ''hpstgmgr2''), (2715, 17, ''hpstgmgr2''),
      (2716, 6, ''inova-ip-disco''), (2716, 17, ''inova-ip-disco''), (2717, 6, ''pn-requester''), (2717, 17, ''pn-requester''),
      (2718, 6, ''pn-requester2''), (2718, 17, ''pn-requester2''), (2719, 6, ''scan-change''), (2719, 17, ''scan-change''),
      (2720, 6, ''wkars''), (2720, 17, ''wkars''), (2721, 6, ''smart-diagnose''), (2721, 17, ''smart-diagnose''),
      (2722, 6, ''proactivesrvr''), (2722, 17, ''proactivesrvr''), (2723, 6, ''watchdog-nt''), (2723, 17, ''watchdog-nt''),
      (2724, 6, ''qotps''), (2724, 17, ''qotps''), (2725, 6, ''msolap-ptp2''), (2725, 17, ''msolap-ptp2''),
      (2726, 6, ''tams''), (2726, 17, ''tams''), (2727, 6, ''mgcp-callagent''), (2727, 17, ''mgcp-callagent''),
      (2728, 6, ''sqdr''), (2728, 17, ''sqdr''), (2729, 6, ''tcim-control''), (2729, 17, ''tcim-control''),
      (2730, 6, ''nec-raidplus''), (2730, 17, ''nec-raidplus''), (2731, 6, ''fyre-messanger''), (2731, 17, ''fyre-messanger''),
      (2732, 6, ''g5m''), (2732, 17, ''g5m''), (2733, 6, ''signet-ctf''), (2733, 17, ''signet-ctf''),
      (2734, 6, ''ccs-software''), (2734, 17, ''ccs-software''), (2735, 6, ''netiq-mc''), (2735, 17, ''netiq-mc''),
      (2736, 6, ''radwiz-nms-srv''), (2736, 17, ''radwiz-nms-srv''), (2737, 6, ''srp-feedback''), (2737, 17, ''srp-feedback''),
      (2738, 6, ''ndl-tcp-ois-gw''), (2738, 17, ''ndl-tcp-ois-gw''), (2739, 6, ''tn-timing''), (2739, 17, ''tn-timing''),
      (2740, 6, ''alarm''), (2740, 17, ''alarm''), (2741, 6, ''tsb''), (2741, 17, ''tsb''),
      (2742, 6, ''tsb2''), (2742, 17, ''tsb2''), (2743, 6, ''murx''), (2743, 17, ''murx''),
      (2744, 6, ''honyaku''), (2744, 17, ''honyaku''), (2745, 6, ''urbisnet''), (2745, 17, ''urbisnet''),
      (2746, 6, ''cpudpencap''), (2746, 17, ''cpudpencap''), (2747, 6, ''fjippol-swrly''), (2747, 17, ''fjippol-swrly''),
      (2748, 6, ''fjippol-polsvr''), (2748, 17, ''fjippol-polsvr''), (2749, 6, ''fjippol-cnsl''), (2749, 17, ''fjippol-cnsl''),
      (2750, 6, ''fjippol-port1''), (2750, 17, ''fjippol-port1''), (2751, 6, ''fjippol-port2''), (2751, 17, ''fjippol-port2''),
      (2752, 6, ''rsisysaccess''), (2752, 17, ''rsisysaccess''), (2753, 6, ''de-spot''), (2753, 17, ''de-spot''),
      (2754, 6, ''apollo-cc''), (2754, 17, ''apollo-cc''), (2755, 6, ''expresspay''), (2755, 17, ''expresspay''),
      (2756, 6, ''simplement-tie''), (2756, 17, ''simplement-tie''), (2757, 6, ''cnrp''), (2757, 17, ''cnrp''),
      (2758, 6, ''apollo-status''), (2758, 17, ''apollo-status''), (2759, 6, ''apollo-gms''), (2759, 17, ''apollo-gms''),
      (2760, 6, ''sabams''), (2760, 17, ''sabams''), (2761, 6, ''dicom-iscl''), (2761, 17, ''dicom-iscl''),
      (2762, 6, ''dicom-tls''), (2762, 17, ''dicom-tls''), (2763, 6, ''desktop-dna''), (2763, 17, ''desktop-dna''),
      (2764, 6, ''data-insurance''), (2764, 17, ''data-insurance''), (2765, 6, ''qip-audup''), (2765, 17, ''qip-audup''),
      (2766, 6, ''listen''), (2766, 17, ''compaq-scp''), (2767, 6, ''uadtc''), (2767, 17, ''uadtc''),
      (2768, 6, ''uacs''), (2768, 17, ''uacs''), (2769, 6, ''exce''), (2769, 17, ''exce''),
      (2770, 6, ''veronica''), (2770, 17, ''veronica''), (2771, 6, ''vergencecm''), (2771, 17, ''vergencecm'')]"

lemma Services_32_ascend: "port_range 2698 2771 Services_32"
  unfolding Services_32_def port_range_def
  by (rule ascending_end ascending_same ascending_next, simp)+

definition Services_33 :: "service_entry list" where
  "Services_33 =
     [(2772, 6, ''auris''), (2772, 17, ''auris''), (2773, 6, ''rbakcup1''), (2773, 17, ''rbakcup1''),
      (2774, 6, ''rbakcup2''), (2774, 17, ''rbakcup2''), (2775, 6, ''smpp''), (2775, 17, ''smpp''),
      (2776, 6, ''ridgeway1''), (2776, 17, ''ridgeway1''), (2777, 6, ''ridgeway2''), (2777, 17, ''ridgeway2''),
      (2778, 6, ''gwen-sonya''), (2778, 17, ''gwen-sonya''), (2779, 6, ''lbc-sync''), (2779, 17, ''lbc-sync''),
      (2780, 6, ''lbc-control''), (2780, 17, ''lbc-control''), (2781, 6, ''whosells''), (2781, 17, ''whosells''),
      (2782, 6, ''everydayrc''), (2782, 17, ''everydayrc''), (2783, 6, ''aises''), (2783, 17, ''aises''),
      (2784, 6, ''www-dev''), (2784, 17, ''www-dev''), (2785, 6, ''aic-np''), (2785, 17, ''aic-np''),
      (2786, 6, ''aic-oncrpc''), (2786, 17, ''aic-oncrpc''), (2787, 6, ''piccolo''), (2787, 17, ''piccolo''),
      (2788, 6, ''fryeserv''), (2788, 17, ''fryeserv''), (2789, 6, ''media-agent''), (2789, 17, ''media-agent''),
      (2790, 6, ''plgproxy''), (2790, 17, ''plgproxy''), (2791, 6, ''mtport-regist''), (2791, 17, ''mtport-regist''),
      (2792, 6, ''f5-globalsite''), (2792, 17, ''f5-globalsite''), (2793, 6, ''initlsmsad''), (2793, 17, ''initlsmsad''),
      (2795, 6, ''livestats''), (2795, 17, ''livestats''), (2796, 6, ''ac-tech''), (2796, 17, ''ac-tech''),
      (2797, 6, ''esp-encap''), (2797, 17, ''esp-encap''), (2798, 6, ''tmesis-upshot''), (2798, 17, ''tmesis-upshot''),
      (2799, 6, ''icon-discover''), (2799, 17, ''icon-discover''), (2800, 6, ''acc-raid''), (2800, 17, ''acc-raid''),
      (2801, 6, ''igcp''), (2801, 17, ''igcp''), (2802, 6, ''veritas-tcp1''), (2802, 17, ''veritas-udp1''),
      (2803, 6, ''btprjctrl''), (2803, 17, ''btprjctrl''), (2804, 6, ''dvr-esm''), (2804, 17, ''dvr-esm''),
      (2805, 6, ''wta-wsp-s''), (2805, 17, ''wta-wsp-s''), (2806, 6, ''cspuni''), (2806, 17, ''cspuni''),
      (2807, 6, ''cspmulti''), (2807, 17, ''cspmulti''), (2808, 6, ''j-lan-p''), (2808, 17, ''j-lan-p''),
      (2809, 6, ''corbaloc''), (2809, 17, ''corbaloc''), (2810, 6, ''netsteward''), (2810, 17, ''netsteward''),
      (2811, 6, ''gsiftp''), (2811, 17, ''gsiftp''), (2812, 6, ''atmtcp''), (2812, 17, ''atmtcp''),
      (2813, 6, ''llm-pass''), (2813, 17, ''llm-pass''), (2814, 6, ''llm-csv''), (2814, 17, ''llm-csv''),
      (2815, 6, ''lbc-measure''), (2815, 17, ''lbc-measure''), (2816, 6, ''lbc-watchdog''), (2816, 17, ''lbc-watchdog''),
      (2817, 6, ''nmsigport''), (2817, 17, ''nmsigport''), (2818, 6, ''rmlnk''), (2818, 17, ''rmlnk''),
      (2819, 6, ''fc-faultnotify''), (2819, 17, ''fc-faultnotify''), (2820, 6, ''univision''), (2820, 17, ''univision''),
      (2821, 6, ''vrts-at-port''), (2821, 17, ''vrts-at-port''), (2822, 6, ''ka0wuc''), (2822, 17, ''ka0wuc''),
      (2823, 6, ''cqg-netlan''), (2823, 17, ''cqg-netlan''), (2824, 6, ''cqg-netlan-1''), (2824, 17, ''cqg-netlan-1''),
      (2826, 6, ''slc-systemlog''), (2826, 17, ''slc-systemlog''), (2827, 6, ''slc-ctrlrloops''), (2827, 17, ''slc-ctrlrloops''),
      (2828, 6, ''itm-lm''), (2828, 17, ''itm-lm''), (2829, 6, ''silkp1''), (2829, 17, ''silkp1''),
      (2830, 6, ''silkp2''), (2830, 17, ''silkp2''), (2831, 6, ''silkp3''), (2831, 17, ''silkp3''),
      (2832, 6, ''silkp4''), (2832, 17, ''silkp4''), (2833, 6, ''glishd''), (2833, 17, ''glishd''),
      (2834, 6, ''evtp''), (2834, 17, ''evtp''), (2835, 6, ''evtp-data''), (2835, 17, ''evtp-data''),
      (2836, 6, ''catalyst''), (2836, 17, ''catalyst''), (2837, 6, ''repliweb''), (2837, 17, ''repliweb''),
      (2838, 6, ''starbot''), (2838, 17, ''starbot''), (2839, 6, ''nmsigport''), (2839, 17, ''nmsigport''),
      (2840, 6, ''l3-exprt''), (2840, 17, ''l3-exprt''), (2841, 6, ''l3-ranger''), (2841, 17, ''l3-ranger''),
      (2842, 6, ''l3-hawk''), (2842, 17, ''l3-hawk''), (2843, 6, ''pdnet''), (2843, 17, ''pdnet''),
      (2844, 6, ''bpcp-poll''), (2844, 17, ''bpcp-poll''), (2845, 6, ''bpcp-trap''), (2845, 17, ''bpcp-trap''),
      (2846, 6, ''aimpp-hello''), (2846, 17, ''aimpp-hello''), (2847, 6, ''aimpp-port-req''), (2847, 17, ''aimpp-port-req'')]"

lemma Services_33_ascend: "port_range 2772 2847 Services_33"
  unfolding Services_33_def port_range_def
  by (rule ascending_end ascending_same ascending_next, simp)+

definition Services_34 :: "service_entry list" where
  "Services_34 =
     [(2848, 6, ''amt-blc-port''), (2848, 17, ''amt-blc-port''), (2849, 6, ''fxp''), (2849, 17, ''fxp''),
      (2850, 6, ''metaconsole''), (2850, 17, ''metaconsole''), (2851, 6, ''webemshttp''), (2851, 17, ''webemshttp''),
      (2852, 6, ''bears-01''), (2852, 17, ''bears-01''), (2853, 6, ''ispipes''), (2853, 17, ''ispipes''),
      (2854, 6, ''infomover''), (2854, 17, ''infomover''), (2855, 6, ''msrp''), (2855, 17, ''msrp''),
      (2856, 6, ''cesdinv''), (2856, 17, ''cesdinv''), (2857, 6, ''simctlp''), (2857, 17, ''simctlp''),
      (2858, 6, ''ecnp''), (2858, 17, ''ecnp''), (2859, 6, ''activememory''), (2859, 17, ''activememory''),
      (2860, 6, ''dialpad-voice1''), (2860, 17, ''dialpad-voice1''), (2861, 6, ''dialpad-voice2''), (2861, 17, ''dialpad-voice2''),
      (2862, 6, ''ttg-protocol''), (2862, 17, ''ttg-protocol''), (2863, 6, ''sonardata''), (2863, 17, ''sonardata''),
      (2864, 6, ''astromed-main''), (2864, 17, ''astromed-main''), (2865, 6, ''pit-vpn''), (2865, 17, ''pit-vpn''),
      (2866, 6, ''iwlistener''), (2866, 17, ''iwlistener''), (2867, 6, ''esps-portal''), (2867, 17, ''esps-portal''),
      (2868, 6, ''npep-messaging''), (2868, 17, ''npep-messaging''), (2869, 6, ''icslap''), (2869, 17, ''icslap''),
      (2870, 6, ''daishi''), (2870, 17, ''daishi''), (2871, 6, ''msi-selectplay''), (2871, 17, ''msi-selectplay''),
      (2872, 6, ''radix''), (2872, 17, ''radix''), (2874, 6, ''dxmessagebase1''), (2874, 17, ''dxmessagebase1''),
      (2875, 6, ''dxmessagebase2''), (2875, 17, ''dxmessagebase2''), (2876, 6, ''sps-tunnel''), (2876, 17, ''sps-tunnel''),
      (2877, 6, ''bluelance''), (2877, 17, ''bluelance''), (2878, 6, ''aap''), (2878, 17, ''aap''),
      (2879, 6, ''ucentric-ds''), (2879, 17, ''ucentric-ds''), (2880, 6, ''synapse''), (2880, 17, ''synapse''),
      (2881, 6, ''ndsp''), (2881, 17, ''ndsp''), (2882, 6, ''ndtp''), (2882, 17, ''ndtp''),
      (2883, 6, ''ndnp''), (2883, 17, ''ndnp''), (2884, 6, ''flashmsg''), (2884, 17, ''flashmsg''),
      (2885, 6, ''topflow''), (2885, 17, ''topflow''), (2886, 6, ''responselogic''), (2886, 17, ''responselogic''),
      (2887, 6, ''aironetddp''), (2887, 17, ''aironetddp''), (2888, 6, ''spcsdlobby''), (2888, 17, ''spcsdlobby''),
      (2889, 6, ''rsom''), (2889, 17, ''rsom''), (2890, 6, ''cspclmulti''), (2890, 17, ''cspclmulti''),
      (2891, 6, ''cinegrfx-elmd''), (2891, 17, ''cinegrfx-elmd''), (2892, 6, ''snifferdata''), (2892, 17, ''snifferdata''),
      (2893, 6, ''vseconnector''), (2893, 17, ''vseconnector''), (2894, 6, ''abacus-remote''), (2894, 17, ''abacus-remote''),
      (2895, 6, ''natuslink''), (2895, 17, ''natuslink''), (2896, 6, ''ecovisiong6-1''), (2896, 17, ''ecovisiong6-1''),
      (2897, 6, ''citrix-rtmp''), (2897, 17, ''citrix-rtmp''), (2898, 6, ''appliance-cfg''), (2898, 17, ''appliance-cfg''),
      (2899, 6, ''powergemplus''), (2899, 17, ''powergemplus''), (2900, 6, ''quicksuite''), (2900, 17, ''quicksuite''),
      (2901, 6, ''allstorcns''), (2901, 17, ''allstorcns''), (2902, 6, ''netaspi''), (2902, 17, ''netaspi''),
      (2903, 6, ''extensisportfolio''), (2903, 17, ''suitcase''), (2904, 132, ''m2ua''), (2904, 6, ''m2ua''),
      (2904, 17, ''m2ua''), (2905, 132, ''m3ua''), (2905, 6, ''m3ua''), (2905, 17, ''m3ua''),
      (2906, 6, ''caller9''), (2906, 17, ''caller9''), (2907, 6, ''webmethods-b2b''), (2907, 17, ''webmethods-b2b''),
      (2908, 6, ''mao''), (2908, 17, ''mao''), (2909, 6, ''funk-dialout''), (2909, 17, ''funk-dialout''),
      (2910, 6, ''tdaccess''), (2910, 17, ''tdaccess''), (2911, 6, ''blockade''), (2911, 17, ''blockade''),
      (2912, 6, ''epicon''), (2912, 17, ''epicon''), (2913, 6, ''boosterware''), (2913, 17, ''boosterware''),
      (2914, 6, ''gamelobby''), (2914, 17, ''gamelobby''), (2915, 6, ''tksocket''), (2915, 17, ''tksocket''),
      (2916, 6, ''elvin_server''), (2916, 17, ''elvin_server''), (2917, 6, ''elvin_client''), (2917, 17, ''elvin_client''),
      (2918, 6, ''kastenchasepad''), (2918, 17, ''kastenchasepad''), (2919, 6, ''roboer''), (2919, 17, ''roboer''),
      (2920, 6, ''roboeda''), (2920, 17, ''roboeda''), (2921, 6, ''cesdcdman''), (2921, 17, ''cesdcdman'')]"

lemma Services_34_ascend: "port_range 2848 2921 Services_34"
  unfolding Services_34_def port_range_def
  by (rule ascending_end ascending_same ascending_next, simp)+

definition Services_35 :: "service_entry list" where
  "Services_35 =
     [(2922, 6, ''cesdcdtrn''), (2922, 17, ''cesdcdtrn''), (2923, 6, ''wta-wsp-wtp-s''), (2923, 17, ''wta-wsp-wtp-s''),
      (2924, 6, ''precise-vip''), (2924, 17, ''precise-vip''), (2926, 6, ''mobile-file-dl''), (2926, 17, ''mobile-file-dl''),
      (2927, 6, ''unimobilectrl''), (2927, 17, ''unimobilectrl''), (2928, 6, ''redstone-cpss''), (2928, 17, ''redstone-cpss''),
      (2929, 6, ''amx-webadmin''), (2929, 17, ''amx-webadmin''), (2930, 6, ''amx-weblinx''), (2930, 17, ''amx-weblinx''),
      (2931, 6, ''circle-x''), (2931, 17, ''circle-x''), (2932, 6, ''incp''), (2932, 17, ''incp''),
      (2933, 6, ''4-tieropmgw''), (2933, 17, ''4-tieropmgw''), (2934, 6, ''4-tieropmcli''), (2934, 17, ''4-tieropmcli''),
      (2935, 6, ''qtp''), (2935, 17, ''qtp''), (2936, 6, ''otpatch''), (2936, 17, ''otpatch''),
      (2937, 6, ''pnaconsult-lm''), (2937, 17, ''pnaconsult-lm''), (2938, 6, ''sm-pas-1''), (2938, 17, ''sm-pas-1''),
      (2939, 6, ''sm-pas-2''), (2939, 17, ''sm-pas-2''), (2940, 6, ''sm-pas-3''), (2940, 17, ''sm-pas-3''),
      (2941, 6, ''sm-pas-4''), (2941, 17, ''sm-pas-4''), (2942, 6, ''sm-pas-5''), (2942, 17, ''sm-pas-5''),
      (2943, 6, ''ttnrepository''), (2943, 17, ''ttnrepository''), (2944, 132, ''megaco-h248''), (2944, 6, ''megaco-h248''),
      (2944, 17, ''megaco-h248''), (2945, 132, ''h248-binary''), (2945, 6, ''h248-binary''), (2945, 17, ''h248-binary''),
      (2946, 6, ''fjsvmpor''), (2946, 17, ''fjsvmpor''), (2947, 6, ''gpsd''), (2947, 17, ''gpsd''),
      (2948, 6, ''wap-push''), (2948, 17, ''wap-push''), (2949, 6, ''wap-pushsecure''), (2949, 17, ''wap-pushsecure''),
      (2950, 6, ''esip''), (2950, 17, ''esip''), (2951, 6, ''ottp''), (2951, 17, ''ottp''),
      (2952, 6, ''mpfwsas''), (2952, 17, ''mpfwsas''), (2953, 6, ''ovalarmsrv''), (2953, 17, ''ovalarmsrv''),
      (2954, 6, ''ovalarmsrv-cmd''), (2954, 17, ''ovalarmsrv-cmd''), (2955, 6, ''csnotify''), (2955, 17, ''csnotify''),
      (2956, 6, ''ovrimosdbman''), (2956, 17, ''ovrimosdbman''), (2957, 6, ''jmact5''), (2957, 17, ''jmact5''),
      (2958, 6, ''jmact6''), (2958, 17, ''jmact6''), (2959, 6, ''rmopagt''), (2959, 17, ''rmopagt''),
      (2960, 6, ''dfoxserver''), (2960, 17, ''dfoxserver''), (2961, 6, ''boldsoft-lm''), (2961, 17, ''boldsoft-lm''),
      (2962, 6, ''iph-policy-cli''), (2962, 17, ''iph-policy-cli''), (2963, 6, ''iph-policy-adm''), (2963, 17, ''iph-policy-adm''),
      (2964, 6, ''bullant-srap''), (2964, 17, ''bullant-srap''), (2965, 6, ''bullant-rap''), (2965, 17, ''bullant-rap''),
      (2966, 6, ''idp-infotrieve''), (2966, 17, ''idp-infotrieve''), (2967, 6, ''symantec-av''), (2967, 17, ''symantec-av''),
      (2968, 6, ''enpp''), (2968, 17, ''enpp''), (2969, 6, ''essp''), (2969, 17, ''essp''),
      (2970, 6, ''index-net''), (2970, 17, ''index-net''), (2971, 6, ''netclip''), (2971, 17, ''netclip''),
      (2972, 6, ''pmsm-webrctl''), (2972, 17, ''pmsm-webrctl''), (2973, 6, ''svnetworks''), (2973, 17, ''svnetworks''),
      (2974, 6, ''signal''), (2974, 17, ''signal''), (2975, 6, ''fjmpcm''), (2975, 17, ''fjmpcm''),
      (2976, 6, ''cns-srv-port''), (2976, 17, ''cns-srv-port''), (2977, 6, ''ttc-etap-ns''), (2977, 17, ''ttc-etap-ns''),
      (2978, 6, ''ttc-etap-ds''), (2978, 17, ''ttc-etap-ds''), (2979, 6, ''h263-video''), (2979, 17, ''h263-video''),
      (2980, 6, ''wimd''), (2980, 17, ''wimd''), (2981, 6, ''mylxamport''), (2981, 17, ''mylxamport''),
      (2982, 6, ''iwb-whiteboard''), (2982, 17, ''iwb-whiteboard''), (2983, 6, ''netplan''), (2983, 17, ''netplan''),
      (2984, 6, ''hpidsadmin''), (2984, 17, ''hpidsadmin''), (2985, 6, ''hpidsagent''), (2985, 17, ''hpidsagent''),
      (2986, 6, ''stonefalls''), (2986, 17, ''stonefalls''), (2987, 6, ''identify''), (2987, 17, ''identify''),
      (2988, 6, ''hippad''), (2988, 17, ''hippad''), (2989, 6, ''zarkov''), (2989, 17, ''zarkov''),
      (2990, 6, ''boscap''), (2990, 17, ''boscap''), (2991, 6, ''wkstn-mon''), (2991, 17, ''wkstn-mon''),
      (2992, 6, ''avenyo''), (2992, 17, ''avenyo''), (2993, 6, ''veritas-vis1''), (2993, 17, ''veritas-vis1''),
      (2994, 6, ''veritas-vis2''), (2994, 17, ''veritas-vis2''), (2995, 6, ''idrs''), (2995, 17, ''idrs'')]"

lemma Services_35_ascend: "port_range 2922 2995 Services_35"
  unfolding Services_35_def port_range_def
  by (rule ascending_end ascending_same ascending_next, simp)+

definition Services_36 :: "service_entry list" where
  "Services_36 =
     [(2996, 6, ''vsixml''), (2996, 17, ''vsixml''), (2997, 6, ''rebol''), (2997, 17, ''rebol''),
      (2998, 6, ''iss-realsec''), (2998, 17, ''realsecure''), (2999, 6, ''remoteware-un''), (2999, 17, ''remoteware-un''),
      (3000, 6, ''ppp''), (3000, 17, ''hbci''), (3001, 6, ''nessus''), (3002, 6, ''exlm-agent''),
      (3002, 17, ''exlm-agent''), (3003, 6, ''cgms''), (3003, 17, ''cgms''), (3004, 6, ''csoftragent''),
      (3004, 17, ''csoftragent''), (3005, 6, ''deslogin''), (3005, 17, ''geniuslm''), (3006, 6, ''deslogind''),
      (3006, 17, ''ii-admin''), (3007, 6, ''lotusmtap''), (3007, 17, ''lotusmtap''), (3008, 6, ''midnight-tech''),
      (3008, 17, ''midnight-tech''), (3009, 6, ''pxc-ntfy''), (3009, 17, ''pxc-ntfy''), (3010, 6, ''gw''),
      (3010, 17, ''ping-pong''), (3011, 6, ''trusted-web''), (3011, 17, ''trusted-web''), (3012, 6, ''twsdss''),
      (3012, 17, ''twsdss''), (3013, 6, ''gilatskysurfer''), (3013, 17, ''gilatskysurfer''), (3014, 6, ''broker_service''),
      (3014, 17, ''broker_service''), (3015, 6, ''nati-dstp''), (3015, 17, ''nati-dstp''), (3016, 6, ''notify_srvr''),
      (3016, 17, ''notify_srvr''), (3017, 6, ''event_listener''), (3017, 17, ''event_listener''), (3018, 6, ''srvc_registry''),
      (3018, 17, ''srvc_registry''), (3019, 6, ''resource_mgr''), (3019, 17, ''resource_mgr''), (3020, 6, ''cifs''),
      (3020, 17, ''cifs''), (3021, 6, ''agriserver''), (3021, 17, ''agriserver''), (3022, 6, ''csregagent''),
      (3022, 17, ''csregagent''), (3023, 6, ''magicnotes''), (3023, 17, ''magicnotes''), (3024, 6, ''nds_sso''),
      (3024, 17, ''nds_sso''), (3025, 6, ''slnp''), (3025, 17, ''arepa-raft''), (3026, 6, ''agri-gateway''),
      (3026, 17, ''agri-gateway''), (3027, 6, ''LiebDevMgmt_C''), (3027, 17, ''LiebDevMgmt_C''), (3028, 6, ''LiebDevMgmt_DM''),
      (3028, 17, ''LiebDevMgmt_DM''), (3029, 6, ''LiebDevMgmt_A''), (3029, 17, ''LiebDevMgmt_A''), (3030, 6, ''arepa-cas''),
      (3030, 17, ''arepa-cas''), (3031, 6, ''eppc''), (3031, 17, ''eppc''), (3032, 6, ''redwood-chat''),
      (3032, 17, ''redwood-chat''), (3033, 6, ''pdb''), (3033, 17, ''pdb''), (3034, 6, ''osmosis-aeea''),
      (3034, 17, ''osmosis-aeea''), (3035, 6, ''fjsv-gssagt''), (3035, 17, ''fjsv-gssagt''), (3036, 6, ''hagel-dump''),
      (3036, 17, ''hagel-dump''), (3037, 6, ''hp-san-mgmt''), (3037, 17, ''hp-san-mgmt''), (3038, 6, ''santak-ups''),
      (3038, 17, ''santak-ups''), (3039, 6, ''cogitate''), (3039, 17, ''cogitate''), (3040, 6, ''tomato-springs''),
      (3040, 17, ''tomato-springs''), (3041, 6, ''di-traceware''), (3041, 17, ''di-traceware''), (3042, 6, ''journee''),
      (3042, 17, ''journee''), (3043, 6, ''brp''), (3043, 17, ''brp''), (3044, 6, ''epp''),
      (3044, 17, ''epp''), (3045, 6, ''slnp''), (3045, 17, ''responsenet''), (3046, 6, ''di-ase''),
      (3046, 17, ''di-ase''), (3047, 6, ''hlserver''), (3047, 17, ''hlserver''), (3048, 6, ''pctrader''),
      (3048, 17, ''pctrader''), (3049, 6, ''cfs''), (3049, 17, ''cfs''), (3050, 6, ''gds_db''),
      (3050, 17, ''gds_db''), (3051, 6, ''galaxy-server''), (3051, 17, ''galaxy-server''), (3052, 6, ''powerchute''),
      (3052, 17, ''apc-3052''), (3053, 6, ''dsom-server''), (3053, 17, ''dsom-server''), (3054, 6, ''amt-cnf-prot''),
      (3054, 17, ''amt-cnf-prot''), (3055, 6, ''policyserver''), (3055, 17, ''policyserver''), (3056, 6, ''cdl-server''),
      (3056, 17, ''cdl-server''), (3057, 6, ''goahead-fldup''), (3057, 17, ''goahead-fldup''), (3058, 6, ''videobeans''),
      (3058, 17, ''videobeans''), (3059, 6, ''qsoft''), (3059, 17, ''qsoft''), (3060, 6, ''interserver''),
      (3060, 17, ''interserver''), (3061, 6, ''cautcpd''), (3061, 17, ''cautcpd''), (3062, 6, ''ncacn-ip-tcp''),
      (3062, 17, ''ncacn-ip-tcp''), (3063, 6, ''ncadg-ip-udp''), (3063, 17, ''ncadg-ip-udp''), (3064, 6, ''dnet-tstproxy''),
      (3064, 17, ''rprt''), (3065, 6, ''slinterbase''), (3065, 17, ''slinterbase''), (3066, 6, ''netattachsdmp''),
      (3066, 17, ''netattachsdmp''), (3067, 6, ''fjhpjp''), (3067, 17, ''fjhpjp''), (3068, 6, ''ls3bcast''),
      (3068, 17, ''ls3bcast''), (3069, 6, ''ls3''), (3069, 17, ''ls3''), (3070, 6, ''mgxswitch''),
      (3070, 17, ''mgxswitch'')]"

lemma Services_36_ascend: "port_range 2996 3070 Services_36"
  unfolding Services_36_def port_range_def
  by (rule ascending_end ascending_same ascending_next, simp)+

definition Services_37 :: "service_entry list" where
  "Services_37 =
     [(3071, 6, ''csd-mgmt-port''), (3071, 17, ''csd-mgmt-port''), (3072, 6, ''csd-monitor''), (3072, 17, ''csd-monitor''),
      (3073, 6, ''vcrp''), (3073, 17, ''vcrp''), (3074, 6, ''xbox''), (3074, 17, ''xbox''),
      (3075, 6, ''orbix-locator''), (3075, 17, ''orbix-locator''), (3076, 6, ''orbix-config''), (3076, 17, ''orbix-config''),
      (3077, 6, ''orbix-loc-ssl''), (3077, 17, ''orbix-loc-ssl''), (3078, 6, ''orbix-cfg-ssl''), (3078, 17, ''orbix-cfg-ssl''),
      (3079, 6, ''lv-frontpanel''), (3079, 17, ''lv-frontpanel''), (3080, 6, ''stm_pproc''), (3080, 17, ''stm_pproc''),
      (3081, 6, ''tl1-lv''), (3081, 17, ''tl1-lv''), (3082, 6, ''tl1-raw''), (3082, 17, ''tl1-raw''),
      (3083, 6, ''tl1-telnet''), (3083, 17, ''tl1-telnet''), (3084, 6, ''itm-mccs''), (3084, 17, ''itm-mccs''),
      (3085, 6, ''pcihreq''), (3085, 17, ''pcihreq''), (3086, 6, ''sj3''), (3086, 17, ''jdl-dbkitchen''),
      (3087, 6, ''asoki-sma''), (3087, 17, ''asoki-sma''), (3088, 6, ''xdtp''), (3088, 17, ''xdtp''),
      (3089, 6, ''ptk-alink''), (3089, 17, ''ptk-alink''), (3090, 6, ''stss''), (3090, 17, ''stss''),
      (3091, 6, ''1ci-smcs''), (3091, 17, ''1ci-smcs''), (3093, 6, ''rapidmq-center''), (3093, 17, ''rapidmq-center''),
      (3094, 6, ''rapidmq-reg''), (3094, 17, ''rapidmq-reg''), (3095, 6, ''panasas''), (3095, 17, ''panasas''),
      (3096, 6, ''ndl-aps''), (3096, 17, ''ndl-aps''), (3097, 132, ''itu-bicc-stc''), (3098, 6, ''umm-port''),
      (3098, 17, ''umm-port''), (3099, 6, ''chmd''), (3099, 17, ''chmd''), (3100, 6, ''opcon-xps''),
      (3100, 17, ''opcon-xps''), (3101, 6, ''hp-pxpib''), (3101, 17, ''hp-pxpib''), (3102, 6, ''slslavemon''),
      (3102, 17, ''slslavemon''), (3103, 6, ''autocuesmi''), (3103, 17, ''autocuesmi''), (3104, 6, ''autocuelog''),
      (3104, 17, ''autocuetime''), (3105, 6, ''cardbox''), (3105, 17, ''cardbox''), (3106, 6, ''cardbox-http''),
      (3106, 17, ''cardbox-http''), (3107, 6, ''business''), (3107, 17, ''business''), (3108, 6, ''geolocate''),
      (3108, 17, ''geolocate''), (3109, 6, ''personnel''), (3109, 17, ''personnel''), (3110, 6, ''sim-control''),
      (3110, 17, ''sim-control''), (3111, 6, ''wsynch''), (3111, 17, ''wsynch''), (3112, 6, ''ksysguard''),
      (3112, 17, ''ksysguard''), (3113, 6, ''cs-auth-svr''), (3113, 17, ''cs-auth-svr''), (3114, 6, ''ccmad''),
      (3114, 17, ''ccmad''), (3115, 6, ''mctet-master''), (3115, 17, ''mctet-master''), (3116, 6, ''mctet-gateway''),
      (3116, 17, ''mctet-gateway''), (3117, 6, ''mctet-jserv''), (3117, 17, ''mctet-jserv''), (3118, 6, ''pkagent''),
      (3118, 17, ''pkagent''), (3119, 6, ''d2000kernel''), (3119, 17, ''d2000kernel''), (3120, 6, ''d2000webserver''),
      (3120, 17, ''d2000webserver''), (3121, 6, ''pcmk-remote''), (3122, 6, ''vtr-emulator''), (3122, 17, ''vtr-emulator''),
      (3123, 6, ''edix''), (3123, 17, ''edix''), (3124, 6, ''beacon-port''), (3124, 17, ''beacon-port''),
      (3125, 6, ''a13-an''), (3125, 17, ''a13-an''), (3127, 6, ''ctx-bridge''), (3127, 17, ''ctx-bridge''),
      (3128, 6, ''squid-http''), (3128, 17, ''ndl-aas''), (3129, 6, ''netport-id''), (3129, 17, ''netport-id''),
      (3130, 6, ''icpv2''), (3130, 17, ''squid-ipc''), (3131, 6, ''netbookmark''), (3131, 17, ''netbookmark''),
      (3132, 6, ''ms-rule-engine''), (3132, 17, ''ms-rule-engine''), (3133, 6, ''prism-deploy''), (3133, 17, ''prism-deploy''),
      (3134, 6, ''ecp''), (3134, 17, ''ecp''), (3135, 6, ''peerbook-port''), (3135, 17, ''peerbook-port''),
      (3136, 6, ''grubd''), (3136, 17, ''grubd''), (3137, 6, ''rtnt-1''), (3137, 17, ''rtnt-1''),
      (3138, 6, ''rtnt-2''), (3138, 17, ''rtnt-2''), (3139, 6, ''incognitorv''), (3139, 17, ''incognitorv''),
      (3140, 6, ''ariliamulti''), (3140, 17, ''ariliamulti''), (3141, 6, ''vmodem''), (3141, 17, ''vmodem''),
      (3142, 6, ''apt-cacher''), (3142, 17, ''rdc-wh-eos''), (3143, 6, ''seaview''), (3143, 17, ''seaview''),
      (3144, 6, ''tarantella''), (3144, 17, ''tarantella''), (3145, 6, ''csi-lfap''), (3145, 17, ''csi-lfap''),
      (3146, 6, ''bears-02''), (3146, 17, ''bears-02''), (3147, 6, ''rfio''), (3147, 17, ''rfio'')]"

lemma Services_37_ascend: "port_range 3071 3147 Services_37"
  unfolding Services_37_def port_range_def
  by (rule ascending_end ascending_same ascending_next, simp)+

definition Services_38 :: "service_entry list" where
  "Services_38 =
     [(3148, 6, ''nm-game-admin''), (3148, 17, ''nm-game-admin''), (3149, 6, ''nm-game-server''), (3149, 17, ''nm-game-server''),
      (3150, 6, ''nm-asses-admin''), (3150, 17, ''nm-asses-admin''), (3151, 6, ''nm-assessor''), (3151, 17, ''nm-assessor''),
      (3152, 6, ''feitianrockey''), (3152, 17, ''feitianrockey''), (3153, 6, ''s8-client-port''), (3153, 17, ''s8-client-port''),
      (3154, 6, ''ccmrmi''), (3154, 17, ''ccmrmi''), (3155, 6, ''jpegmpeg''), (3155, 17, ''jpegmpeg''),
      (3156, 6, ''indura''), (3156, 17, ''indura''), (3157, 6, ''e3consultants''), (3157, 17, ''e3consultants''),
      (3158, 6, ''stvp''), (3158, 17, ''stvp''), (3159, 6, ''navegaweb-port''), (3159, 17, ''navegaweb-port''),
      (3160, 6, ''tip-app-server''), (3160, 17, ''tip-app-server''), (3161, 6, ''doc1lm''), (3161, 17, ''doc1lm''),
      (3162, 6, ''sflm''), (3162, 17, ''sflm''), (3163, 6, ''res-sap''), (3163, 17, ''res-sap''),
      (3164, 6, ''imprs''), (3164, 17, ''imprs''), (3165, 6, ''newgenpay''), (3165, 17, ''newgenpay''),
      (3166, 6, ''sossecollector''), (3166, 17, ''sossecollector''), (3167, 6, ''nowcontact''), (3167, 17, ''nowcontact''),
      (3168, 6, ''poweronnud''), (3168, 17, ''poweronnud''), (3169, 6, ''serverview-as''), (3169, 17, ''serverview-as''),
      (3170, 6, ''serverview-asn''), (3170, 17, ''serverview-asn''), (3171, 6, ''serverview-gf''), (3171, 17, ''serverview-gf''),
      (3172, 6, ''serverview-rm''), (3172, 17, ''serverview-rm''), (3173, 6, ''serverview-icc''), (3173, 17, ''serverview-icc''),
      (3174, 6, ''armi-server''), (3174, 17, ''armi-server''), (3175, 6, ''t1-e1-over-ip''), (3175, 17, ''t1-e1-over-ip''),
      (3176, 6, ''ars-master''), (3176, 17, ''ars-master''), (3177, 6, ''phonex-port''), (3177, 17, ''phonex-port''),
      (3178, 6, ''radclientport''), (3178, 17, ''radclientport''), (3179, 6, ''h2gf-w-2m''), (3179, 17, ''h2gf-w-2m''),
      (3180, 6, ''mc-brk-srv''), (3180, 17, ''mc-brk-srv''), (3181, 6, ''bmcpatrolagent''), (3181, 17, ''bmcpatrolagent''),
      (3182, 6, ''bmcpatrolrnvu''), (3182, 17, ''bmcpatrolrnvu''), (3183, 6, ''cops-tls''), (3183, 17, ''cops-tls''),
      (3184, 6, ''apogeex-port''), (3184, 17, ''apogeex-port''), (3185, 6, ''smpppd''), (3185, 17, ''smpppd''),
      (3186, 6, ''iiw-port''), (3186, 17, ''iiw-port''), (3187, 6, ''odi-port''), (3187, 17, ''odi-port''),
      (3188, 6, ''brcm-comm-port''), (3188, 17, ''brcm-comm-port''), (3189, 6, ''pcle-infex''), (3189, 17, ''pcle-infex''),
      (3190, 6, ''csvr-proxy''), (3190, 17, ''csvr-proxy''), (3191, 6, ''csvr-sslproxy''), (3191, 17, ''csvr-sslproxy''),
      (3192, 6, ''firemonrcc''), (3192, 17, ''firemonrcc''), (3193, 6, ''spandataport''), (3193, 17, ''spandataport''),
      (3194, 6, ''magbind''), (3194, 17, ''magbind''), (3195, 6, ''ncu-1''), (3195, 17, ''ncu-1''),
      (3196, 6, ''ncu-2''), (3196, 17, ''ncu-2''), (3197, 6, ''embrace-dp-s''), (3197, 17, ''embrace-dp-s''),
      (3198, 6, ''embrace-dp-c''), (3198, 17, ''embrace-dp-c''), (3199, 6, ''dmod-workspace''), (3199, 17, ''dmod-workspace''),
      (3200, 6, ''tick-port''), (3200, 17, ''tick-port''), (3201, 6, ''cpq-tasksmart''), (3201, 17, ''cpq-tasksmart''),
      (3202, 6, ''intraintra''), (3202, 17, ''intraintra''), (3203, 6, ''netwatcher-mon''), (3203, 17, ''netwatcher-mon''),
      (3204, 6, ''netwatcher-db''), (3204, 17, ''netwatcher-db''), (3205, 6, ''isns''), (3205, 17, ''isns''),
      (3206, 6, ''ironmail''), (3206, 17, ''ironmail''), (3207, 6, ''vx-auth-port''), (3207, 17, ''vx-auth-port''),
      (3208, 6, ''pfu-prcallback''), (3208, 17, ''pfu-prcallback''), (3209, 6, ''netwkpathengine''), (3209, 17, ''netwkpathengine''),
      (3210, 6, ''flamenco-proxy''), (3210, 17, ''flamenco-proxy''), (3211, 6, ''avsecuremgmt''), (3211, 17, ''avsecuremgmt''),
      (3212, 6, ''surveyinst''), (3212, 17, ''surveyinst''), (3213, 6, ''neon24x7''), (3213, 17, ''neon24x7''),
      (3214, 6, ''jmq-daemon-1''), (3214, 17, ''jmq-daemon-1''), (3215, 6, ''jmq-daemon-2''), (3215, 17, ''jmq-daemon-2''),
      (3216, 6, ''ferrari-foam''), (3216, 17, ''ferrari-foam''), (3217, 6, ''unite''), (3217, 17, ''unite''),
      (3218, 6, ''smartpackets''), (3218, 17, ''smartpackets''), (3219, 6, ''wms-messenger''), (3219, 17, ''wms-messenger''),
      (3220, 6, ''xnm-ssl''), (3220, 17, ''xnm-ssl''), (3221, 6, ''xnm-clear-text''), (3221, 17, ''xnm-clear-text'')]"

lemma Services_38_ascend: "port_range 3148 3221 Services_38"
  unfolding Services_38_def port_range_def
  by (rule ascending_end ascending_same ascending_next, simp)+

definition Services_39 :: "service_entry list" where
  "Services_39 =
     [(3222, 6, ''glbp''), (3222, 17, ''glbp''), (3223, 6, ''digivote''), (3223, 17, ''digivote''),
      (3224, 6, ''aes-discovery''), (3224, 17, ''aes-discovery''), (3225, 6, ''fcip-port''), (3225, 17, ''fcip-port''),
      (3226, 6, ''isi-irp''), (3226, 17, ''isi-irp''), (3227, 6, ''dwnmshttp''), (3227, 17, ''dwnmshttp''),
      (3228, 6, ''dwmsgserver''), (3228, 17, ''dwmsgserver''), (3229, 6, ''global-cd-port''), (3229, 17, ''global-cd-port''),
      (3230, 6, ''sftdst-port''), (3230, 17, ''sftdst-port''), (3231, 6, ''vidigo''), (3231, 17, ''vidigo''),
      (3232, 6, ''mdtp''), (3232, 17, ''mdtp''), (3233, 6, ''whisker''), (3233, 17, ''whisker''),
      (3234, 6, ''alchemy''), (3234, 17, ''alchemy''), (3235, 6, ''mdap-port''), (3235, 17, ''mdap-port''),
      (3236, 6, ''apparenet-ts''), (3236, 17, ''apparenet-ts''), (3237, 6, ''apparenet-tps''), (3237, 17, ''apparenet-tps''),
      (3238, 6, ''apparenet-as''), (3238, 17, ''apparenet-as''), (3239, 6, ''apparenet-ui''), (3239, 17, ''apparenet-ui''),
      (3240, 6, ''triomotion''), (3240, 17, ''triomotion''), (3241, 6, ''sysorb''), (3241, 17, ''sysorb''),
      (3242, 6, ''sdp-id-port''), (3242, 17, ''sdp-id-port''), (3243, 6, ''timelot''), (3243, 17, ''timelot''),
      (3244, 6, ''onesaf''), (3244, 17, ''onesaf''), (3245, 6, ''vieo-fe''), (3245, 17, ''vieo-fe''),
      (3246, 6, ''dvt-system''), (3246, 17, ''kademlia''), (3247, 6, ''dvt-data''), (3247, 17, ''dvt-data''),
      (3248, 6, ''procos-lm''), (3248, 17, ''procos-lm''), (3249, 6, ''ssp''), (3249, 17, ''ssp''),
      (3250, 6, ''hicp''), (3250, 17, ''hicp''), (3251, 6, ''sysscanner''), (3251, 17, ''sysscanner''),
      (3252, 6, ''dhe''), (3252, 17, ''dhe''), (3253, 6, ''pda-data''), (3253, 17, ''pda-data''),
      (3254, 6, ''pda-sys''), (3254, 17, ''pda-sys''), (3255, 6, ''semaphore''), (3255, 17, ''semaphore''),
      (3256, 6, ''cpqrpm-agent''), (3256, 17, ''cpqrpm-agent''), (3257, 6, ''cpqrpm-server''), (3257, 17, ''cpqrpm-server''),
      (3258, 6, ''ivecon-port''), (3258, 17, ''ivecon-port''), (3259, 6, ''epncdp2''), (3259, 17, ''epncdp2''),
      (3260, 6, ''iscsi''), (3260, 17, ''iscsi''), (3261, 6, ''winshadow''), (3261, 17, ''winshadow''),
      (3262, 6, ''necp''), (3262, 17, ''necp''), (3263, 6, ''ecolor-imager''), (3263, 17, ''ecolor-imager''),
      (3264, 6, ''ccmail''), (3264, 17, ''ccmail''), (3265, 6, ''altav-tunnel''), (3265, 17, ''altav-tunnel''),
      (3266, 6, ''ns-cfg-server''), (3266, 17, ''ns-cfg-server''), (3267, 6, ''ibm-dial-out''), (3267, 17, ''ibm-dial-out''),
      (3268, 6, ''globalcatLDAP''), (3268, 17, ''msft-gc''), (3269, 6, ''globalcatLDAPssl''), (3269, 17, ''msft-gc-ssl''),
      (3270, 6, ''verismart''), (3270, 17, ''verismart''), (3271, 6, ''csoft-prev''), (3271, 17, ''csoft-prev''),
      (3272, 6, ''user-manager''), (3272, 17, ''user-manager''), (3273, 6, ''sxmp''), (3273, 17, ''sxmp''),
      (3274, 6, ''ordinox-server''), (3274, 17, ''ordinox-server''), (3275, 6, ''samd''), (3275, 17, ''samd''),
      (3276, 6, ''maxim-asics''), (3276, 17, ''maxim-asics''), (3277, 6, ''awg-proxy''), (3277, 17, ''awg-proxy''),
      (3278, 6, ''lkcmserver''), (3278, 17, ''lkcmserver''), (3279, 6, ''admind''), (3279, 17, ''admind''),
      (3280, 6, ''vs-server''), (3280, 17, ''vs-server''), (3281, 6, ''sysopt''), (3281, 17, ''sysopt''),
      (3282, 6, ''datusorb''), (3282, 17, ''datusorb''), (3283, 6, ''netassistant''), (3283, 17, ''netassistant''),
      (3284, 6, ''4talk''), (3284, 17, ''4talk''), (3285, 6, ''plato''), (3285, 17, ''plato''),
      (3286, 6, ''e-net''), (3286, 17, ''e-net''), (3287, 6, ''directvdata''), (3287, 17, ''directvdata''),
      (3288, 6, ''cops''), (3288, 17, ''cops''), (3289, 6, ''enpc''), (3289, 17, ''enpc''),
      (3290, 6, ''caps-lm''), (3290, 17, ''caps-lm''), (3291, 6, ''sah-lm''), (3291, 17, ''sah-lm''),
      (3292, 6, ''meetingmaker''), (3292, 17, ''cart-o-rama''), (3293, 6, ''fg-fps''), (3293, 17, ''fg-fps''),
      (3294, 6, ''fg-gip''), (3294, 17, ''fg-gip''), (3295, 6, ''dyniplookup''), (3295, 17, ''dyniplookup'')]"

lemma Services_39_ascend: "port_range 3222 3295 Services_39"
  unfolding Services_39_def port_range_def
  by (rule ascending_end ascending_same ascending_next, simp)+

definition Services_40 :: "service_entry list" where
  "Services_40 =
     [(3296, 6, ''rib-slm''), (3296, 17, ''rib-slm''), (3297, 6, ''cytel-lm''), (3297, 17, ''cytel-lm''),
      (3298, 6, ''deskview''), (3298, 17, ''deskview''), (3299, 6, ''saprouter''), (3299, 17, ''pdrncs''),
      (3300, 6, ''ceph''), (3302, 6, ''mcs-fastmail''), (3302, 17, ''mcs-fastmail''), (3303, 6, ''opsession-clnt''),
      (3303, 17, ''opsession-clnt''), (3304, 6, ''opsession-srvr''), (3304, 17, ''opsession-srvr''), (3305, 6, ''odette-ftp''),
      (3305, 17, ''odette-ftp''), (3306, 6, ''mysql''), (3306, 17, ''mysql''), (3307, 6, ''opsession-prxy''),
      (3307, 17, ''opsession-prxy''), (3308, 6, ''tns-server''), (3308, 17, ''tns-server''), (3309, 6, ''tns-adv''),
      (3309, 17, ''tns-adv''), (3310, 6, ''dyna-access''), (3310, 17, ''dyna-access''), (3311, 6, ''mcns-tel-ret''),
      (3311, 17, ''mcns-tel-ret''), (3312, 6, ''appman-server''), (3312, 17, ''appman-server''), (3313, 6, ''uorb''),
      (3313, 17, ''uorb''), (3314, 6, ''uohost''), (3314, 17, ''uohost''), (3315, 6, ''cdid''),
      (3315, 17, ''cdid''), (3316, 6, ''aicc-cmi''), (3316, 17, ''aicc-cmi''), (3317, 6, ''vsaiport''),
      (3317, 17, ''vsaiport''), (3318, 6, ''ssrip''), (3318, 17, ''ssrip''), (3319, 6, ''sdt-lmd''),
      (3319, 17, ''sdt-lmd''), (3320, 6, ''officelink2000''), (3320, 17, ''officelink2000''), (3321, 6, ''vnsstr''),
      (3321, 17, ''vnsstr''), (3322, 6, ''active-net''), (3322, 17, ''active-net''), (3323, 6, ''active-net''),
      (3323, 17, ''active-net''), (3324, 6, ''active-net''), (3324, 17, ''active-net''), (3325, 6, ''active-net''),
      (3325, 17, ''active-net''), (3326, 6, ''sftu''), (3326, 17, ''sftu''), (3327, 6, ''bbars''),
      (3327, 17, ''bbars''), (3328, 6, ''egptlm''), (3328, 17, ''egptlm''), (3329, 6, ''hp-device-disc''),
      (3329, 17, ''hp-device-disc''), (3330, 6, ''mcs-calypsoicf''), (3330, 17, ''mcs-calypsoicf''), (3331, 6, ''mcs-messaging''),
      (3331, 17, ''mcs-messaging''), (3332, 6, ''mcs-mailsvr''), (3332, 17, ''mcs-mailsvr''), (3333, 6, ''dec-notes''),
      (3333, 17, ''dec-notes''), (3334, 6, ''directv-web''), (3334, 17, ''directv-web''), (3335, 6, ''directv-soft''),
      (3335, 17, ''directv-soft''), (3336, 6, ''directv-tick''), (3336, 17, ''directv-tick''), (3337, 6, ''directv-catlg''),
      (3337, 17, ''directv-catlg''), (3338, 6, ''anet-b''), (3338, 17, ''anet-b''), (3339, 6, ''anet-l''),
      (3339, 17, ''anet-l''), (3340, 6, ''anet-m''), (3340, 17, ''anet-m''), (3341, 6, ''anet-h''),
      (3341, 17, ''anet-h''), (3342, 6, ''webtie''), (3342, 17, ''webtie''), (3343, 6, ''ms-cluster-net''),
      (3343, 17, ''ms-cluster-net''), (3344, 6, ''bnt-manager''), (3344, 17, ''bnt-manager''), (3345, 6, ''influence''),
      (3345, 17, ''influence''), (3346, 6, ''trnsprntproxy''), (3346, 17, ''trnsprntproxy''), (3347, 6, ''phoenix-rpc''),
      (3347, 17, ''phoenix-rpc''), (3348, 6, ''pangolin-laser''), (3348, 17, ''pangolin-laser''), (3349, 6, ''chevinservices''),
      (3349, 17, ''chevinservices''), (3350, 6, ''findviatv''), (3350, 17, ''findviatv''), (3351, 6, ''btrieve''),
      (3351, 17, ''btrieve''), (3352, 6, ''ssql''), (3352, 17, ''ssql''), (3353, 6, ''fatpipe''),
      (3353, 17, ''fatpipe''), (3354, 6, ''suitjd''), (3354, 17, ''suitjd''), (3355, 6, ''ordinox-dbase''),
      (3355, 17, ''ordinox-dbase''), (3356, 6, ''upnotifyps''), (3356, 17, ''upnotifyps''), (3357, 6, ''adtech-test''),
      (3357, 17, ''adtech-test''), (3358, 6, ''mpsysrmsvr''), (3358, 17, ''mpsysrmsvr''), (3359, 6, ''wg-netforce''),
      (3359, 17, ''wg-netforce''), (3360, 6, ''kv-server''), (3360, 17, ''kv-server''), (3361, 6, ''kv-agent''),
      (3361, 17, ''kv-agent''), (3362, 6, ''dj-ilm''), (3362, 17, ''dj-ilm''), (3363, 6, ''nati-vi-server''),
      (3363, 17, ''nati-vi-server''), (3364, 6, ''creativeserver''), (3364, 17, ''creativeserver''), (3365, 6, ''contentserver''),
      (3365, 17, ''contentserver''), (3366, 6, ''creativepartnr''), (3366, 17, ''creativepartnr''), (3367, 6, ''satvid-datalnk''),
      (3367, 17, ''satvid-datalnk''), (3368, 6, ''satvid-datalnk''), (3368, 17, ''satvid-datalnk''), (3369, 6, ''satvid-datalnk''),
      (3369, 17, ''satvid-datalnk''), (3370, 6, ''satvid-datalnk''), (3370, 17, ''satvid-datalnk''), (3371, 6, ''satvid-datalnk''),
      (3371, 17, ''satvid-datalnk'')]"

lemma Services_40_ascend: "port_range 3296 3371 Services_40"
  unfolding Services_40_def port_range_def
  by (rule ascending_end ascending_same ascending_next, simp)+

definition Services_41 :: "service_entry list" where
  "Services_41 =
     [(3372, 6, ''msdtc''), (3372, 17, ''tip2''), (3373, 6, ''lavenir-lm''), (3373, 17, ''lavenir-lm''),
      (3374, 6, ''cluster-disc''), (3374, 17, ''cluster-disc''), (3375, 6, ''vsnm-agent''), (3375, 17, ''vsnm-agent''),
      (3376, 6, ''cdbroker''), (3376, 17, ''cdbroker''), (3377, 6, ''cogsys-lm''), (3377, 17, ''cogsys-lm''),
      (3378, 6, ''wsicopy''), (3378, 17, ''wsicopy''), (3379, 6, ''socorfs''), (3379, 17, ''socorfs''),
      (3380, 6, ''sns-channels''), (3380, 17, ''sns-channels''), (3381, 6, ''geneous''), (3381, 17, ''geneous''),
      (3382, 6, ''fujitsu-neat''), (3382, 17, ''fujitsu-neat''), (3383, 6, ''esp-lm''), (3383, 17, ''esp-lm''),
      (3384, 6, ''hp-clic''), (3384, 17, ''hp-clic''), (3385, 6, ''qnxnetman''), (3385, 17, ''qnxnetman''),
      (3386, 6, ''gprs-data''), (3386, 17, ''gprs-sig''), (3387, 6, ''backroomnet''), (3387, 17, ''backroomnet''),
      (3388, 6, ''cbserver''), (3388, 17, ''cbserver''), (3389, 6, ''ms-wbt-server''), (3389, 17, ''ms-wbt-server''),
      (3390, 6, ''dsc''), (3390, 17, ''dsc''), (3391, 6, ''savant''), (3391, 17, ''savant''),
      (3392, 6, ''efi-lm''), (3392, 17, ''efi-lm''), (3393, 6, ''d2k-tapestry1''), (3393, 17, ''d2k-tapestry1''),
      (3394, 6, ''d2k-tapestry2''), (3394, 17, ''d2k-tapestry2''), (3395, 6, ''dyna-lm''), (3395, 17, ''dyna-lm''),
      (3396, 6, ''printer_agent''), (3396, 17, ''printer_agent''), (3397, 6, ''saposs''), (3397, 17, ''cloanto-lm''),
      (3398, 6, ''sapcomm''), (3398, 17, ''mercantile''), (3399, 6, ''sapeps''), (3399, 17, ''csms''),
      (3400, 6, ''csms2''), (3400, 17, ''csms2''), (3401, 6, ''filecast''), (3401, 17, ''squid-snmp''),
      (3402, 6, ''fxaengine-net''), (3402, 17, ''fxaengine-net''), (3405, 6, ''nokia-ann-ch1''), (3405, 17, ''nokia-ann-ch1''),
      (3406, 6, ''nokia-ann-ch2''), (3406, 17, ''nokia-ann-ch2''), (3407, 6, ''ldap-admin''), (3407, 17, ''ldap-admin''),
      (3408, 6, ''BESApi''), (3408, 17, ''BESApi''), (3409, 6, ''networklens''), (3409, 17, ''networklens''),
      (3410, 6, ''networklenss''), (3410, 17, ''networklenss''), (3411, 6, ''biolink-auth''), (3411, 17, ''biolink-auth''),
      (3412, 6, ''xmlblaster''), (3412, 17, ''xmlblaster''), (3413, 6, ''svnet''), (3413, 17, ''svnet''),
      (3414, 6, ''wip-port''), (3414, 17, ''wip-port''), (3415, 6, ''bcinameservice''), (3415, 17, ''bcinameservice''),
      (3416, 6, ''commandport''), (3416, 17, ''commandport''), (3417, 6, ''csvr''), (3417, 17, ''csvr''),
      (3418, 6, ''rnmap''), (3418, 17, ''rnmap''), (3419, 6, ''softaudit''), (3419, 17, ''softaudit''),
      (3420, 6, ''ifcp-port''), (3420, 17, ''ifcp-port''), (3421, 6, ''bmap''), (3421, 17, ''bmap''),
      (3422, 6, ''rusb-sys-port''), (3422, 17, ''rusb-sys-port''), (3423, 6, ''xtrm''), (3423, 17, ''xtrm''),
      (3424, 6, ''xtrms''), (3424, 17, ''xtrms''), (3425, 6, ''agps-port''), (3425, 17, ''agps-port''),
      (3426, 6, ''arkivio''), (3426, 17, ''arkivio''), (3427, 6, ''websphere-snmp''), (3427, 17, ''websphere-snmp''),
      (3428, 6, ''twcss''), (3428, 17, ''twcss''), (3429, 6, ''gcsp''), (3429, 17, ''gcsp''),
      (3430, 6, ''ssdispatch''), (3430, 17, ''ssdispatch''), (3431, 6, ''ndl-als''), (3431, 17, ''ndl-als''),
      (3432, 6, ''osdcp''), (3432, 17, ''osdcp''), (3433, 6, ''alta-smp''), (3433, 17, ''alta-smp''),
      (3434, 6, ''opencm''), (3434, 17, ''opencm''), (3435, 6, ''pacom''), (3435, 17, ''pacom''),
      (3436, 6, ''gc-config''), (3436, 17, ''gc-config''), (3437, 6, ''autocueds''), (3437, 17, ''autocueds''),
      (3438, 6, ''spiral-admin''), (3438, 17, ''spiral-admin''), (3439, 6, ''hri-port''), (3439, 17, ''hri-port''),
      (3440, 6, ''ans-console''), (3440, 17, ''ans-console''), (3441, 6, ''connect-client''), (3441, 17, ''connect-client''),
      (3442, 6, ''connect-server''), (3442, 17, ''connect-server''), (3443, 6, ''ov-nnm-websrv''), (3443, 17, ''ov-nnm-websrv''),
      (3444, 6, ''denali-server''), (3444, 17, ''denali-server''), (3445, 6, ''monp''), (3445, 17, ''monp''),
      (3446, 6, ''3comfaxrpc''), (3446, 17, ''3comfaxrpc''), (3447, 6, ''directnet''), (3447, 17, ''directnet'')]"

lemma Services_41_ascend: "port_range 3372 3447 Services_41"
  unfolding Services_41_def port_range_def
  by (rule ascending_end ascending_same ascending_next, simp)+

definition Services_42 :: "service_entry list" where
  "Services_42 =
     [(3448, 6, ''dnc-port''), (3448, 17, ''dnc-port''), (3449, 6, ''hotu-chat''), (3449, 17, ''hotu-chat''),
      (3450, 6, ''castorproxy''), (3450, 17, ''castorproxy''), (3451, 6, ''asam''), (3451, 17, ''asam''),
      (3452, 6, ''sabp-signal''), (3452, 17, ''sabp-signal''), (3453, 6, ''pscupd''), (3453, 17, ''pscupd''),
      (3454, 6, ''mira''), (3455, 6, ''prsvp''), (3455, 17, ''prsvp''), (3456, 6, ''vat''),
      (3456, 17, ''IISrpc-or-vat''), (3457, 6, ''vat-control''), (3457, 17, ''vat-control''), (3458, 6, ''d3winosfi''),
      (3458, 17, ''d3winosfi''), (3459, 6, ''integral''), (3459, 17, ''integral''), (3460, 6, ''edm-manager''),
      (3460, 17, ''edm-manager''), (3461, 6, ''edm-stager''), (3461, 17, ''edm-stager''), (3462, 6, ''track''),
      (3462, 17, ''edm-std-notify''), (3463, 6, ''edm-adm-notify''), (3463, 17, ''edm-adm-notify''), (3464, 6, ''edm-mgr-sync''),
      (3464, 17, ''edm-mgr-sync''), (3465, 6, ''edm-mgr-cntrl''), (3465, 17, ''edm-mgr-cntrl''), (3466, 6, ''workflow''),
      (3466, 17, ''workflow''), (3467, 6, ''rcst''), (3467, 17, ''rcst''), (3468, 6, ''ttcmremotectrl''),
      (3468, 17, ''ttcmremotectrl''), (3469, 6, ''pluribus''), (3469, 17, ''pluribus''), (3470, 6, ''jt400''),
      (3470, 17, ''jt400''), (3471, 6, ''jt400-ssl''), (3471, 17, ''jt400-ssl''), (3472, 6, ''jaugsremotec-1''),
      (3472, 17, ''jaugsremotec-1''), (3473, 6, ''jaugsremotec-2''), (3473, 17, ''jaugsremotec-2''), (3474, 6, ''ttntspauto''),
      (3474, 17, ''ttntspauto''), (3475, 6, ''genisar-port''), (3475, 17, ''genisar-port''), (3476, 6, ''nppmp''),
      (3476, 17, ''nppmp''), (3477, 6, ''ecomm''), (3477, 17, ''ecomm''), (3478, 6, ''stun''),
      (3478, 17, ''stun''), (3479, 6, ''twrpc''), (3479, 17, ''twrpc''), (3480, 6, ''plethora''),
      (3480, 17, ''plethora''), (3481, 6, ''cleanerliverc''), (3481, 17, ''cleanerliverc''), (3482, 6, ''vulture''),
      (3482, 17, ''vulture''), (3483, 6, ''slim-devices''), (3483, 17, ''slim-devices''), (3484, 6, ''gbs-stp''),
      (3484, 17, ''gbs-stp''), (3485, 6, ''celatalk''), (3485, 17, ''celatalk''), (3486, 6, ''ifsf-hb-port''),
      (3486, 17, ''ifsf-hb-port''), (3487, 6, ''ltctcp''), (3487, 17, ''ltcudp''), (3488, 6, ''fs-rh-srv''),
      (3488, 17, ''fs-rh-srv''), (3489, 6, ''dtp-dia''), (3489, 17, ''dtp-dia''), (3490, 6, ''colubris''),
      (3490, 17, ''colubris''), (3491, 6, ''swr-port''), (3491, 17, ''swr-port''), (3492, 6, ''tvdumtray-port''),
      (3492, 17, ''tvdumtray-port''), (3493, 6, ''nut''), (3493, 17, ''nut''), (3494, 6, ''ibm3494''),
      (3494, 17, ''ibm3494''), (3495, 6, ''seclayer-tcp''), (3495, 17, ''seclayer-tcp''), (3496, 6, ''seclayer-tls''),
      (3496, 17, ''seclayer-tls''), (3497, 6, ''ipether232port''), (3497, 17, ''ipether232port''), (3498, 6, ''dashpas-port''),
      (3498, 17, ''dashpas-port''), (3499, 6, ''sccip-media''), (3499, 17, ''sccip-media''), (3500, 6, ''rtmp-port''),
      (3500, 17, ''rtmp-port''), (3501, 6, ''isoft-p2p''), (3501, 17, ''isoft-p2p''), (3502, 6, ''avinstalldisc''),
      (3502, 17, ''avinstalldisc''), (3503, 6, ''lsp-ping''), (3503, 17, ''lsp-ping''), (3504, 6, ''ironstorm''),
      (3504, 17, ''ironstorm''), (3505, 6, ''ccmcomm''), (3505, 17, ''ccmcomm''), (3506, 6, ''apc-3506''),
      (3506, 17, ''apc-3506''), (3507, 6, ''nesh-broker''), (3507, 17, ''nesh-broker''), (3508, 6, ''interactionweb''),
      (3508, 17, ''interactionweb''), (3509, 6, ''vt-ssl''), (3509, 17, ''vt-ssl''), (3510, 6, ''xss-port''),
      (3510, 17, ''xss-port''), (3511, 6, ''webmail-2''), (3511, 17, ''webmail-2''), (3512, 6, ''aztec''),
      (3512, 17, ''aztec''), (3513, 6, ''arcpd''), (3513, 17, ''arcpd''), (3514, 6, ''must-p2p''),
      (3514, 17, ''must-p2p''), (3515, 6, ''must-backplane''), (3515, 17, ''must-backplane''), (3516, 6, ''smartcard-port''),
      (3516, 17, ''smartcard-port''), (3517, 6, ''802-11-iapp''), (3517, 17, ''802-11-iapp''), (3518, 6, ''artifact-msg''),
      (3518, 17, ''artifact-msg''), (3519, 6, ''nvmsgd''), (3519, 17, ''galileo''), (3520, 6, ''galileolog''),
      (3520, 17, ''galileolog''), (3521, 6, ''mc3ss''), (3521, 17, ''mc3ss''), (3522, 6, ''nssocketport''),
      (3522, 17, ''nssocketport'')]"

lemma Services_42_ascend: "port_range 3448 3522 Services_42"
  unfolding Services_42_def port_range_def
  by (rule ascending_end ascending_same ascending_next, simp)+

definition Services_43 :: "service_entry list" where
  "Services_43 =
     [(3523, 6, ''odeumservlink''), (3523, 17, ''odeumservlink''), (3524, 6, ''ecmport''), (3524, 17, ''ecmport''),
      (3525, 6, ''eisport''), (3525, 17, ''eisport''), (3526, 6, ''starquiz-port''), (3526, 17, ''starquiz-port''),
      (3527, 6, ''beserver-msg-q''), (3527, 17, ''beserver-msg-q''), (3528, 6, ''jboss-iiop''), (3528, 17, ''jboss-iiop''),
      (3529, 6, ''jboss-iiop-ssl''), (3529, 17, ''jboss-iiop-ssl''), (3530, 6, ''gf''), (3530, 17, ''gf''),
      (3531, 6, ''peerenabler''), (3531, 17, ''peerenabler''), (3532, 6, ''raven-rmp''), (3532, 17, ''raven-rmp''),
      (3533, 6, ''raven-rdp''), (3533, 17, ''raven-rdp''), (3534, 6, ''urld-port''), (3534, 17, ''urld-port''),
      (3535, 6, ''ms-la''), (3535, 17, ''ms-la''), (3536, 6, ''snac''), (3536, 17, ''snac''),
      (3537, 6, ''ni-visa-remote''), (3537, 17, ''ni-visa-remote''), (3538, 6, ''ibm-diradm''), (3538, 17, ''ibm-diradm''),
      (3539, 6, ''ibm-diradm-ssl''), (3539, 17, ''ibm-diradm-ssl''), (3540, 6, ''pnrp-port''), (3540, 17, ''pnrp-port''),
      (3541, 6, ''voispeed-port''), (3541, 17, ''voispeed-port''), (3542, 6, ''hacl-monitor''), (3542, 17, ''hacl-monitor''),
      (3543, 6, ''qftest-lookup''), (3543, 17, ''qftest-lookup''), (3544, 6, ''teredo''), (3544, 17, ''teredo''),
      (3545, 6, ''camac''), (3545, 17, ''camac''), (3547, 6, ''symantec-sim''), (3547, 17, ''symantec-sim''),
      (3548, 6, ''interworld''), (3548, 17, ''interworld''), (3549, 6, ''tellumat-nms''), (3549, 17, ''tellumat-nms''),
      (3550, 6, ''ssmpp''), (3550, 17, ''ssmpp''), (3551, 6, ''apcupsd''), (3551, 17, ''apcupsd''),
      (3552, 6, ''taserver''), (3552, 17, ''taserver''), (3553, 6, ''rbr-discovery''), (3553, 17, ''rbr-discovery''),
      (3554, 6, ''questnotify''), (3554, 17, ''questnotify''), (3555, 6, ''razor''), (3555, 17, ''razor''),
      (3556, 6, ''sky-transport''), (3556, 17, ''sky-transport''), (3557, 6, ''personalos-001''), (3557, 17, ''personalos-001''),
      (3558, 6, ''mcp-port''), (3558, 17, ''mcp-port''), (3559, 6, ''cctv-port''), (3559, 17, ''cctv-port''),
      (3560, 6, ''iniserve-port''), (3560, 17, ''iniserve-port''), (3561, 6, ''bmc-onekey''), (3561, 17, ''bmc-onekey''),
      (3562, 6, ''sdbproxy''), (3562, 17, ''sdbproxy''), (3563, 6, ''watcomdebug''), (3563, 17, ''watcomdebug''),
      (3564, 6, ''esimport''), (3564, 17, ''esimport''), (3565, 132, ''m2pa''), (3565, 6, ''m2pa''),
      (3566, 6, ''quest-data-hub''), (3567, 6, ''oap''), (3567, 17, ''oap''), (3568, 6, ''oap-s''),
      (3568, 17, ''oap-s''), (3569, 6, ''mbg-ctrl''), (3569, 17, ''mbg-ctrl''), (3570, 6, ''mccwebsvr-port''),
      (3570, 17, ''mccwebsvr-port''), (3571, 6, ''megardsvr-port''), (3571, 17, ''megardsvr-port''), (3572, 6, ''megaregsvrport''),
      (3572, 17, ''megaregsvrport''), (3573, 6, ''tag-ups-1''), (3573, 17, ''tag-ups-1''), (3574, 6, ''dmaf-server''),
      (3574, 17, ''dmaf-caster''), (3575, 6, ''ccm-port''), (3575, 17, ''ccm-port''), (3576, 6, ''cmc-port''),
      (3576, 17, ''cmc-port''), (3577, 6, ''config-port''), (3577, 17, ''config-port''), (3578, 6, ''data-port''),
      (3578, 17, ''data-port''), (3579, 6, ''ttat3lb''), (3579, 17, ''ttat3lb''), (3580, 6, ''nati-svrloc''),
      (3580, 17, ''nati-svrloc''), (3581, 6, ''kfxaclicensing''), (3581, 17, ''kfxaclicensing''), (3582, 6, ''press''),
      (3582, 17, ''press''), (3583, 6, ''canex-watch''), (3583, 17, ''canex-watch''), (3584, 6, ''u-dbap''),
      (3584, 17, ''u-dbap''), (3585, 6, ''emprise-lls''), (3585, 17, ''emprise-lls''), (3586, 6, ''emprise-lsc''),
      (3586, 17, ''emprise-lsc''), (3587, 6, ''p2pgroup''), (3587, 17, ''p2pgroup''), (3588, 6, ''sentinel''),
      (3588, 17, ''sentinel''), (3589, 6, ''isomair''), (3589, 17, ''isomair''), (3590, 6, ''wv-csp-sms''),
      (3590, 17, ''wv-csp-sms''), (3591, 6, ''gtrack-server''), (3591, 17, ''gtrack-server''), (3592, 6, ''gtrack-ne''),
      (3592, 17, ''gtrack-ne''), (3593, 6, ''bpmd''), (3593, 17, ''bpmd''), (3594, 6, ''mediaspace''),
      (3594, 17, ''mediaspace''), (3595, 6, ''shareapp''), (3595, 17, ''shareapp''), (3596, 6, ''iw-mmogame''),
      (3596, 17, ''iw-mmogame''), (3597, 6, ''a14''), (3597, 17, ''a14''), (3598, 6, ''a15''),
      (3598, 17, ''a15'')]"

lemma Services_43_ascend: "port_range 3523 3598 Services_43"
  unfolding Services_43_def port_range_def
  by (rule ascending_end ascending_same ascending_next, simp)+

definition Services_44 :: "service_entry list" where
  "Services_44 =
     [(3599, 6, ''quasar-server''), (3599, 17, ''quasar-server''), (3600, 6, ''trap-daemon''), (3600, 17, ''trap-daemon''),
      (3601, 6, ''visinet-gui''), (3601, 17, ''visinet-gui''), (3602, 6, ''infiniswitchcl''), (3602, 17, ''infiniswitchcl''),
      (3603, 6, ''int-rcv-cntrl''), (3603, 17, ''int-rcv-cntrl''), (3604, 6, ''bmc-jmx-port''), (3604, 17, ''bmc-jmx-port''),
      (3605, 6, ''comcam-io''), (3605, 17, ''comcam-io''), (3606, 6, ''splitlock''), (3606, 17, ''splitlock''),
      (3607, 6, ''precise-i3''), (3607, 17, ''precise-i3''), (3608, 6, ''trendchip-dcp''), (3608, 17, ''trendchip-dcp''),
      (3609, 6, ''cpdi-pidas-cm''), (3609, 17, ''cpdi-pidas-cm''), (3610, 6, ''echonet''), (3610, 17, ''echonet''),
      (3611, 6, ''six-degrees''), (3611, 17, ''six-degrees''), (3612, 6, ''hp-dataprotect''), (3612, 17, ''hp-dataprotect''),
      (3613, 6, ''alaris-disc''), (3613, 17, ''alaris-disc''), (3614, 6, ''sigma-port''), (3614, 17, ''sigma-port''),
      (3615, 6, ''start-network''), (3615, 17, ''start-network''), (3616, 6, ''cd3o-protocol''), (3616, 17, ''cd3o-protocol''),
      (3617, 6, ''sharp-server''), (3617, 17, ''sharp-server''), (3618, 6, ''aairnet-1''), (3618, 17, ''aairnet-1''),
      (3619, 6, ''aairnet-2''), (3619, 17, ''aairnet-2''), (3620, 6, ''ep-pcp''), (3620, 17, ''ep-pcp''),
      (3621, 6, ''ep-nsp''), (3621, 17, ''ep-nsp''), (3622, 6, ''ff-lr-port''), (3622, 17, ''ff-lr-port''),
      (3623, 6, ''haipe-discover''), (3623, 17, ''haipe-discover''), (3624, 6, ''dist-upgrade''), (3624, 17, ''dist-upgrade''),
      (3625, 6, ''volley''), (3625, 17, ''volley''), (3626, 6, ''bvcdaemon-port''), (3626, 17, ''bvcdaemon-port''),
      (3627, 6, ''jamserverport''), (3627, 17, ''jamserverport''), (3628, 6, ''ept-machine''), (3628, 17, ''ept-machine''),
      (3629, 6, ''escvpnet''), (3629, 17, ''escvpnet''), (3630, 6, ''cs-remote-db''), (3630, 17, ''cs-remote-db''),
      (3631, 6, ''cs-services''), (3631, 17, ''cs-services''), (3632, 6, ''distccd''), (3632, 17, ''distcc''),
      (3633, 6, ''wacp''), (3633, 17, ''wacp''), (3634, 6, ''hlibmgr''), (3634, 17, ''hlibmgr''),
      (3635, 6, ''sdo''), (3635, 17, ''sdo''), (3636, 6, ''servistaitsm''), (3636, 17, ''servistaitsm''),
      (3637, 6, ''scservp''), (3637, 17, ''scservp''), (3638, 6, ''ehp-backup''), (3638, 17, ''ehp-backup''),
      (3639, 6, ''xap-ha''), (3639, 17, ''xap-ha''), (3640, 6, ''netplay-port1''), (3640, 17, ''netplay-port1''),
      (3641, 6, ''netplay-port2''), (3641, 17, ''netplay-port2''), (3642, 6, ''juxml-port''), (3642, 17, ''juxml-port''),
      (3643, 6, ''audiojuggler''), (3643, 17, ''audiojuggler''), (3644, 6, ''ssowatch''), (3644, 17, ''ssowatch''),
      (3645, 6, ''cyc''), (3645, 17, ''cyc''), (3646, 6, ''xss-srv-port''), (3646, 17, ''xss-srv-port''),
      (3647, 6, ''splitlock-gw''), (3647, 17, ''splitlock-gw''), (3648, 6, ''fjcp''), (3648, 17, ''fjcp''),
      (3649, 6, ''nmmp''), (3649, 17, ''nmmp''), (3650, 6, ''prismiq-plugin''), (3650, 17, ''prismiq-plugin''),
      (3651, 6, ''xrpc-registry''), (3651, 17, ''xrpc-registry''), (3652, 6, ''vxcrnbuport''), (3652, 17, ''vxcrnbuport''),
      (3653, 6, ''tsp''), (3653, 17, ''tsp''), (3654, 6, ''vaprtm''), (3654, 17, ''vaprtm''),
      (3655, 6, ''abatemgr''), (3655, 17, ''abatemgr''), (3656, 6, ''abatjss''), (3656, 17, ''abatjss''),
      (3657, 6, ''immedianet-bcn''), (3657, 17, ''immedianet-bcn''), (3658, 6, ''ps-ams''), (3658, 17, ''ps-ams''),
      (3659, 6, ''apple-sasl''), (3659, 17, ''apple-sasl''), (3660, 6, ''can-nds-ssl''), (3660, 17, ''can-nds-ssl''),
      (3661, 6, ''can-ferret-ssl''), (3661, 17, ''can-ferret-ssl''), (3662, 6, ''pserver''), (3662, 17, ''pserver''),
      (3663, 6, ''dtp''), (3663, 17, ''dtp''), (3664, 6, ''ups-engine''), (3664, 17, ''ups-engine''),
      (3665, 6, ''ent-engine''), (3665, 17, ''ent-engine''), (3666, 6, ''eserver-pap''), (3666, 17, ''eserver-pap''),
      (3667, 6, ''infoexch''), (3667, 17, ''infoexch''), (3668, 6, ''dell-rm-port''), (3668, 17, ''dell-rm-port''),
      (3669, 6, ''casanswmgmt''), (3669, 17, ''casanswmgmt''), (3670, 6, ''smile''), (3670, 17, ''smile''),
      (3671, 6, ''efcp''), (3671, 17, ''efcp''), (3672, 6, ''lispworks-orb''), (3672, 17, ''lispworks-orb'')]"

lemma Services_44_ascend: "port_range 3599 3672 Services_44"
  unfolding Services_44_def port_range_def
  by (rule ascending_end ascending_same ascending_next, simp)+

definition Services_45 :: "service_entry list" where
  "Services_45 =
     [(3673, 6, ''mediavault-gui''), (3673, 17, ''mediavault-gui''), (3674, 6, ''wininstall-ipc''), (3674, 17, ''wininstall-ipc''),
      (3675, 6, ''calltrax''), (3675, 17, ''calltrax''), (3676, 6, ''va-pacbase''), (3676, 17, ''va-pacbase''),
      (3677, 6, ''roverlog''), (3677, 17, ''roverlog''), (3678, 6, ''ipr-dglt''), (3678, 17, ''ipr-dglt''),
      (3679, 6, ''newton-dock''), (3679, 17, ''newton-dock''), (3680, 6, ''npds-tracker''), (3680, 17, ''npds-tracker''),
      (3681, 6, ''bts-x73''), (3681, 17, ''bts-x73''), (3682, 6, ''cas-mapi''), (3682, 17, ''cas-mapi''),
      (3683, 6, ''bmc-ea''), (3683, 17, ''bmc-ea''), (3684, 6, ''faxstfx-port''), (3684, 17, ''faxstfx-port''),
      (3685, 6, ''dsx-agent''), (3685, 17, ''dsx-agent''), (3686, 6, ''tnmpv2''), (3686, 17, ''tnmpv2''),
      (3687, 6, ''simple-push''), (3687, 17, ''simple-push''), (3688, 6, ''simple-push-s''), (3688, 17, ''simple-push-s''),
      (3689, 6, ''rendezvous''), (3689, 17, ''daap''), (3690, 6, ''svn''), (3690, 17, ''svn''),
      (3691, 6, ''magaya-network''), (3691, 17, ''magaya-network''), (3692, 6, ''intelsync''), (3692, 17, ''intelsync''),
      (3693, 6, ''easl''), (3695, 6, ''bmc-data-coll''), (3695, 17, ''bmc-data-coll''), (3696, 6, ''telnetcpcd''),
      (3696, 17, ''telnetcpcd''), (3697, 6, ''nw-license''), (3697, 17, ''nw-license''), (3698, 6, ''sagectlpanel''),
      (3698, 17, ''sagectlpanel''), (3699, 6, ''kpn-icw''), (3699, 17, ''kpn-icw''), (3700, 6, ''lrs-paging''),
      (3700, 17, ''lrs-paging''), (3701, 6, ''netcelera''), (3701, 17, ''netcelera''), (3702, 6, ''ws-discovery''),
      (3702, 17, ''ws-discovery''), (3703, 6, ''adobeserver-3''), (3703, 17, ''adobeserver-3''), (3704, 6, ''adobeserver-4''),
      (3704, 17, ''adobeserver-4''), (3705, 6, ''adobeserver-5''), (3705, 17, ''adobeserver-5''), (3706, 6, ''rt-event''),
      (3706, 17, ''rt-event''), (3707, 6, ''rt-event-s''), (3707, 17, ''rt-event-s''), (3708, 6, ''sun-as-iiops''),
      (3708, 17, ''sun-as-iiops''), (3709, 6, ''ca-idms''), (3709, 17, ''ca-idms''), (3710, 6, ''portgate-auth''),
      (3710, 17, ''portgate-auth''), (3711, 6, ''edb-server2''), (3711, 17, ''edb-server2''), (3712, 6, ''sentinel-ent''),
      (3712, 17, ''sentinel-ent''), (3713, 6, ''tftps''), (3713, 17, ''tftps''), (3714, 6, ''delos-dms''),
      (3714, 17, ''delos-dms''), (3715, 6, ''anoto-rendezv''), (3715, 17, ''anoto-rendezv''), (3716, 6, ''wv-csp-sms-cir''),
      (3716, 17, ''wv-csp-sms-cir''), (3717, 6, ''wv-csp-udp-cir''), (3717, 17, ''wv-csp-udp-cir''), (3718, 6, ''opus-services''),
      (3718, 17, ''opus-services''), (3719, 6, ''itelserverport''), (3719, 17, ''itelserverport''), (3720, 6, ''ufastro-instr''),
      (3720, 17, ''ufastro-instr''), (3721, 6, ''xsync''), (3721, 17, ''xsync''), (3722, 6, ''xserveraid''),
      (3722, 17, ''xserveraid''), (3723, 6, ''sychrond''), (3723, 17, ''sychrond''), (3724, 6, ''blizwow''),
      (3724, 17, ''blizwow''), (3725, 6, ''na-er-tip''), (3725, 17, ''na-er-tip''), (3726, 6, ''array-manager''),
      (3726, 17, ''array-manager''), (3727, 6, ''e-mdu''), (3727, 17, ''e-mdu''), (3728, 6, ''e-woa''),
      (3728, 17, ''e-woa''), (3729, 6, ''fksp-audit''), (3729, 17, ''fksp-audit''), (3730, 6, ''client-ctrl''),
      (3730, 17, ''client-ctrl''), (3731, 6, ''smap''), (3731, 17, ''smap''), (3732, 6, ''m-wnn''),
      (3732, 17, ''m-wnn''), (3733, 6, ''multip-msg''), (3733, 17, ''multip-msg''), (3734, 6, ''synel-data''),
      (3734, 17, ''synel-data''), (3735, 6, ''pwdis''), (3735, 17, ''pwdis''), (3736, 6, ''rs-rmi''),
      (3736, 17, ''rs-rmi''), (3737, 6, ''xpanel''), (3738, 6, ''versatalk''), (3738, 17, ''versatalk''),
      (3739, 6, ''launchbird-lm''), (3739, 17, ''launchbird-lm''), (3740, 6, ''heartbeat''), (3740, 17, ''heartbeat''),
      (3741, 6, ''wysdma''), (3741, 17, ''wysdma''), (3742, 6, ''cst-port''), (3742, 17, ''cst-port''),
      (3743, 6, ''ipcs-command''), (3743, 17, ''ipcs-command''), (3744, 6, ''sasg''), (3744, 17, ''sasg''),
      (3745, 6, ''gw-call-port''), (3745, 17, ''gw-call-port''), (3746, 6, ''linktest''), (3746, 17, ''linktest''),
      (3747, 6, ''linktest-s''), (3747, 17, ''linktest-s''), (3748, 6, ''webdata''), (3748, 17, ''webdata'')]"

lemma Services_45_ascend: "port_range 3673 3748 Services_45"
  unfolding Services_45_def port_range_def
  by (rule ascending_end ascending_same ascending_next, simp)+

definition Services_46 :: "service_entry list" where
  "Services_46 =
     [(3749, 6, ''cimtrak''), (3749, 17, ''cimtrak''), (3750, 6, ''cbos-ip-port''), (3750, 17, ''cbos-ip-port''),
      (3751, 6, ''gprs-cube''), (3751, 17, ''gprs-cube''), (3752, 6, ''vipremoteagent''), (3752, 17, ''vipremoteagent''),
      (3753, 6, ''nattyserver''), (3753, 17, ''nattyserver''), (3754, 6, ''timestenbroker''), (3754, 17, ''timestenbroker''),
      (3755, 6, ''sas-remote-hlp''), (3755, 17, ''sas-remote-hlp''), (3756, 6, ''canon-capt''), (3756, 17, ''canon-capt''),
      (3757, 6, ''grf-port''), (3757, 17, ''grf-port''), (3758, 6, ''apw-registry''), (3758, 17, ''apw-registry''),
      (3759, 6, ''exapt-lmgr''), (3759, 17, ''exapt-lmgr''), (3760, 6, ''adtempusclient''), (3760, 17, ''adtempusclient''),
      (3761, 6, ''gsakmp''), (3761, 17, ''gsakmp''), (3762, 6, ''gbs-smp''), (3762, 17, ''gbs-smp''),
      (3763, 6, ''xo-wave''), (3763, 17, ''xo-wave''), (3764, 6, ''mni-prot-rout''), (3764, 17, ''mni-prot-rout''),
      (3765, 6, ''rtraceroute''), (3765, 17, ''rtraceroute''), (3766, 6, ''sitewatch-s''), (3767, 6, ''listmgr-port''),
      (3767, 17, ''listmgr-port''), (3768, 6, ''rblcheckd''), (3768, 17, ''rblcheckd''), (3769, 6, ''haipe-otnk''),
      (3769, 17, ''haipe-otnk''), (3770, 6, ''cindycollab''), (3770, 17, ''cindycollab''), (3771, 6, ''paging-port''),
      (3771, 17, ''paging-port''), (3772, 6, ''ctp''), (3772, 17, ''ctp''), (3773, 6, ''ctdhercules''),
      (3773, 17, ''ctdhercules''), (3774, 6, ''zicom''), (3774, 17, ''zicom''), (3775, 6, ''ispmmgr''),
      (3775, 17, ''ispmmgr''), (3776, 6, ''dvcprov-port''), (3776, 17, ''dvcprov-port''), (3777, 6, ''jibe-eb''),
      (3777, 17, ''jibe-eb''), (3778, 6, ''c-h-it-port''), (3778, 17, ''c-h-it-port''), (3779, 6, ''cognima''),
      (3779, 17, ''cognima''), (3780, 6, ''nnp''), (3780, 17, ''nnp''), (3781, 6, ''abcvoice-port''),
      (3781, 17, ''abcvoice-port''), (3782, 6, ''iso-tp0s''), (3782, 17, ''iso-tp0s''), (3783, 6, ''bim-pem''),
      (3783, 17, ''bim-pem''), (3784, 6, ''bfd-control''), (3784, 17, ''bfd-control''), (3785, 6, ''bfd-echo''),
      (3785, 17, ''bfd-echo''), (3786, 6, ''upstriggervsw''), (3786, 17, ''upstriggervsw''), (3787, 6, ''fintrx''),
      (3787, 17, ''fintrx''), (3788, 6, ''isrp-port''), (3788, 17, ''isrp-port''), (3789, 6, ''remotedeploy''),
      (3789, 17, ''remotedeploy''), (3790, 6, ''quickbooksrds''), (3790, 17, ''quickbooksrds''), (3791, 6, ''tvnetworkvideo''),
      (3791, 17, ''tvnetworkvideo''), (3792, 6, ''sitewatch''), (3792, 17, ''sitewatch''), (3793, 6, ''dcsoftware''),
      (3793, 17, ''dcsoftware''), (3794, 6, ''jaus''), (3794, 17, ''jaus''), (3795, 6, ''myblast''),
      (3795, 17, ''myblast''), (3796, 6, ''spw-dialer''), (3796, 17, ''spw-dialer''), (3797, 6, ''idps''),
      (3797, 17, ''idps''), (3798, 6, ''minilock''), (3798, 17, ''minilock''), (3799, 6, ''radius-dynauth''),
      (3799, 17, ''radius-dynauth''), (3800, 6, ''pwgpsi''), (3800, 17, ''pwgpsi''), (3801, 6, ''ibm-mgr''),
      (3801, 17, ''ibm-mgr''), (3802, 6, ''vhd''), (3802, 17, ''vhd''), (3803, 6, ''soniqsync''),
      (3803, 17, ''soniqsync''), (3804, 6, ''iqnet-port''), (3804, 17, ''iqnet-port''), (3805, 6, ''tcpdataserver''),
      (3805, 17, ''tcpdataserver''), (3806, 6, ''wsmlb''), (3806, 17, ''wsmlb''), (3807, 6, ''spugna''),
      (3807, 17, ''spugna''), (3808, 6, ''sun-as-iiops-ca''), (3808, 17, ''sun-as-iiops-ca''), (3809, 6, ''apocd''),
      (3809, 17, ''apocd''), (3810, 6, ''wlanauth''), (3810, 17, ''wlanauth''), (3811, 6, ''amp''),
      (3811, 17, ''amp''), (3812, 6, ''neto-wol-server''), (3812, 17, ''neto-wol-server''), (3813, 6, ''rap-ip''),
      (3813, 17, ''rap-ip''), (3814, 6, ''neto-dcs''), (3814, 17, ''neto-dcs''), (3815, 6, ''lansurveyorxml''),
      (3815, 17, ''lansurveyorxml''), (3816, 6, ''sunlps-http''), (3816, 17, ''sunlps-http''), (3817, 6, ''tapeware''),
      (3817, 17, ''tapeware''), (3818, 6, ''crinis-hb''), (3818, 17, ''crinis-hb''), (3819, 6, ''epl-slp''),
      (3819, 17, ''epl-slp''), (3820, 6, ''scp''), (3820, 17, ''scp''), (3821, 6, ''pmcp''),
      (3821, 17, ''pmcp''), (3822, 6, ''acp-discovery''), (3822, 17, ''acp-discovery''), (3823, 6, ''acp-conduit''),
      (3823, 17, ''acp-conduit'')]"

lemma Services_46_ascend: "port_range 3749 3823 Services_46"
  unfolding Services_46_def port_range_def
  by (rule ascending_end ascending_same ascending_next, simp)+

definition Services_47 :: "service_entry list" where
  "Services_47 =
     [(3824, 6, ''acp-policy''), (3824, 17, ''acp-policy''), (3825, 6, ''ffserver''), (3825, 17, ''ffserver''),
      (3826, 6, ''wormux''), (3826, 17, ''wormux''), (3827, 6, ''netmpi''), (3827, 17, ''netmpi''),
      (3828, 6, ''neteh''), (3828, 17, ''neteh''), (3829, 6, ''neteh-ext''), (3829, 17, ''neteh-ext''),
      (3830, 6, ''cernsysmgmtagt''), (3830, 17, ''cernsysmgmtagt''), (3831, 6, ''dvapps''), (3831, 17, ''dvapps''),
      (3832, 6, ''xxnetserver''), (3832, 17, ''xxnetserver''), (3833, 6, ''aipn-auth''), (3833, 17, ''aipn-auth''),
      (3834, 6, ''spectardata''), (3834, 17, ''spectardata''), (3835, 6, ''spectardb''), (3835, 17, ''spectardb''),
      (3836, 6, ''markem-dcp''), (3836, 17, ''markem-dcp''), (3837, 6, ''mkm-discovery''), (3837, 17, ''mkm-discovery''),
      (3838, 6, ''sos''), (3838, 17, ''sos''), (3839, 6, ''amx-rms''), (3839, 17, ''amx-rms''),
      (3840, 6, ''flirtmitmir''), (3840, 17, ''flirtmitmir''), (3841, 6, ''zfirm-shiprush3''), (3841, 17, ''zfirm-shiprush3''),
      (3842, 6, ''nhci''), (3842, 17, ''nhci''), (3843, 6, ''quest-agent''), (3843, 17, ''quest-agent''),
      (3844, 6, ''rnm''), (3844, 17, ''rnm''), (3845, 6, ''v-one-spp''), (3845, 17, ''v-one-spp''),
      (3846, 6, ''an-pcp''), (3846, 17, ''an-pcp''), (3847, 6, ''msfw-control''), (3847, 17, ''msfw-control''),
      (3848, 6, ''item''), (3848, 17, ''item''), (3849, 6, ''spw-dnspreload''), (3849, 17, ''spw-dnspreload''),
      (3850, 6, ''qtms-bootstrap''), (3850, 17, ''qtms-bootstrap''), (3851, 6, ''spectraport''), (3851, 17, ''spectraport''),
      (3852, 6, ''sse-app-config''), (3852, 17, ''sse-app-config''), (3853, 6, ''sscan''), (3853, 17, ''sscan''),
      (3854, 6, ''stryker-com''), (3854, 17, ''stryker-com''), (3855, 6, ''opentrac''), (3855, 17, ''opentrac''),
      (3856, 6, ''informer''), (3856, 17, ''informer''), (3857, 6, ''trap-port''), (3857, 17, ''trap-port''),
      (3858, 6, ''trap-port-mom''), (3858, 17, ''trap-port-mom''), (3859, 6, ''nav-port''), (3859, 17, ''nav-port''),
      (3860, 6, ''sasp''), (3860, 17, ''sasp''), (3861, 6, ''winshadow-hd''), (3861, 17, ''winshadow-hd''),
      (3862, 6, ''giga-pocket''), (3862, 17, ''giga-pocket''), (3863, 132, ''asap-sctp''), (3863, 6, ''asap-tcp''),
      (3863, 17, ''asap-tcp''), (3864, 132, ''asap-sctp-tls''), (3864, 6, ''asap-tcp-tls''), (3865, 6, ''xpl''),
      (3865, 17, ''xpl''), (3866, 6, ''dzdaemon''), (3866, 17, ''dzdaemon''), (3867, 6, ''dzoglserver''),
      (3867, 17, ''dzoglserver''), (3868, 132, ''diameter''), (3868, 6, ''diameter''), (3869, 6, ''ovsam-mgmt''),
      (3869, 17, ''ovsam-mgmt''), (3870, 6, ''ovsam-d-agent''), (3870, 17, ''ovsam-d-agent''), (3871, 6, ''avocent-adsap''),
      (3871, 17, ''avocent-adsap''), (3872, 6, ''oem-agent''), (3872, 17, ''oem-agent''), (3873, 6, ''fagordnc''),
      (3873, 17, ''fagordnc''), (3874, 6, ''sixxsconfig''), (3874, 17, ''sixxsconfig''), (3875, 6, ''pnbscada''),
      (3875, 17, ''pnbscada''), (3876, 6, ''dl_agent''), (3876, 17, ''dl_agent''), (3877, 6, ''xmpcr-interface''),
      (3877, 17, ''xmpcr-interface''), (3878, 6, ''fotogcad''), (3878, 17, ''fotogcad''), (3879, 6, ''appss-lm''),
      (3879, 17, ''appss-lm''), (3880, 6, ''igrs''), (3880, 17, ''igrs''), (3881, 6, ''idac''),
      (3881, 17, ''idac''), (3882, 6, ''msdts1''), (3882, 17, ''msdts1''), (3883, 6, ''vrpn''),
      (3883, 17, ''vrpn''), (3884, 6, ''softrack-meter''), (3884, 17, ''softrack-meter''), (3885, 6, ''topflow-ssl''),
      (3885, 17, ''topflow-ssl''), (3886, 6, ''nei-management''), (3886, 17, ''nei-management''), (3887, 6, ''ciphire-data''),
      (3887, 17, ''ciphire-data''), (3888, 6, ''ciphire-serv''), (3888, 17, ''ciphire-serv''), (3889, 6, ''dandv-tester''),
      (3889, 17, ''dandv-tester''), (3890, 6, ''ndsconnect''), (3890, 17, ''ndsconnect''), (3891, 6, ''rtc-pm-port''),
      (3891, 17, ''rtc-pm-port''), (3892, 6, ''pcc-image-port''), (3892, 17, ''pcc-image-port''), (3893, 6, ''cgi-starapi''),
      (3893, 17, ''cgi-starapi''), (3894, 6, ''syam-agent''), (3894, 17, ''syam-agent''), (3895, 6, ''syam-smc''),
      (3895, 17, ''syam-smc''), (3896, 6, ''sdo-tls''), (3896, 17, ''sdo-tls''), (3897, 6, ''sdo-ssh''),
      (3897, 17, ''sdo-ssh'')]"

lemma Services_47_ascend: "port_range 3824 3897 Services_47"
  unfolding Services_47_def port_range_def
  by (rule ascending_end ascending_same ascending_next, simp)+

definition Services_48 :: "service_entry list" where
  "Services_48 =
     [(3898, 6, ''senip''), (3898, 17, ''senip''), (3899, 6, ''itv-control''), (3899, 17, ''itv-control''),
      (3900, 6, ''udt_os''), (3900, 17, ''udt_os''), (3901, 6, ''nimsh''), (3901, 17, ''nimsh''),
      (3902, 6, ''nimaux''), (3902, 17, ''nimaux''), (3903, 6, ''charsetmgr''), (3903, 17, ''charsetmgr''),
      (3904, 6, ''omnilink-port''), (3904, 17, ''omnilink-port''), (3905, 6, ''mupdate''), (3905, 17, ''mupdate''),
      (3906, 6, ''topovista-data''), (3906, 17, ''topovista-data''), (3907, 6, ''imoguia-port''), (3907, 17, ''imoguia-port''),
      (3908, 6, ''hppronetman''), (3908, 17, ''hppronetman''), (3909, 6, ''surfcontrolcpa''), (3909, 17, ''surfcontrolcpa''),
      (3910, 6, ''prnrequest''), (3910, 17, ''prnrequest''), (3911, 6, ''prnstatus''), (3911, 17, ''prnstatus''),
      (3912, 6, ''gbmt-stars''), (3912, 17, ''gbmt-stars''), (3913, 6, ''listcrt-port''), (3913, 17, ''listcrt-port''),
      (3914, 6, ''listcrt-port-2''), (3914, 17, ''listcrt-port-2''), (3915, 6, ''agcat''), (3915, 17, ''agcat''),
      (3916, 6, ''wysdmc''), (3916, 17, ''wysdmc''), (3917, 6, ''aftmux''), (3917, 17, ''aftmux''),
      (3918, 6, ''pktcablemmcops''), (3918, 17, ''pktcablemmcops''), (3919, 6, ''hyperip''), (3919, 17, ''hyperip''),
      (3920, 6, ''exasoftport1''), (3920, 17, ''exasoftport1''), (3921, 6, ''herodotus-net''), (3921, 17, ''herodotus-net''),
      (3922, 6, ''sor-update''), (3922, 17, ''sor-update''), (3923, 6, ''symb-sb-port''), (3923, 17, ''symb-sb-port''),
      (3924, 6, ''mpl-gprs-port''), (3924, 17, ''mpl-gprs-port''), (3925, 6, ''zmp''), (3925, 17, ''zmp''),
      (3926, 6, ''winport''), (3926, 17, ''winport''), (3927, 6, ''natdataservice''), (3927, 17, ''natdataservice''),
      (3928, 6, ''netboot-pxe''), (3928, 17, ''netboot-pxe''), (3929, 6, ''smauth-port''), (3929, 17, ''smauth-port''),
      (3930, 6, ''syam-webserver''), (3930, 17, ''syam-webserver''), (3931, 6, ''msr-plugin-port''), (3931, 17, ''msr-plugin-port''),
      (3932, 6, ''dyn-site''), (3932, 17, ''dyn-site''), (3933, 6, ''plbserve-port''), (3933, 17, ''plbserve-port''),
      (3934, 6, ''sunfm-port''), (3934, 17, ''sunfm-port''), (3935, 6, ''sdp-portmapper''), (3935, 17, ''sdp-portmapper''),
      (3936, 6, ''mailprox''), (3936, 17, ''mailprox''), (3937, 6, ''dvbservdsc''), (3937, 17, ''dvbservdsc''),
      (3938, 6, ''dbcontrol_agent''), (3938, 17, ''dbcontrol_agent''), (3939, 6, ''aamp''), (3939, 17, ''aamp''),
      (3940, 6, ''xecp-node''), (3940, 17, ''xecp-node''), (3941, 6, ''homeportal-web''), (3941, 17, ''homeportal-web''),
      (3942, 6, ''srdp''), (3942, 17, ''srdp''), (3943, 6, ''tig''), (3943, 17, ''tig''),
      (3944, 6, ''sops''), (3944, 17, ''sops''), (3945, 6, ''emcads''), (3945, 17, ''emcads''),
      (3946, 6, ''backupedge''), (3946, 17, ''backupedge''), (3947, 6, ''ccp''), (3947, 17, ''ccp''),
      (3948, 6, ''apdap''), (3948, 17, ''apdap''), (3949, 6, ''drip''), (3949, 17, ''drip''),
      (3950, 6, ''namemunge''), (3950, 17, ''namemunge''), (3951, 6, ''pwgippfax''), (3951, 17, ''pwgippfax''),
      (3952, 6, ''i3-sessionmgr''), (3952, 17, ''i3-sessionmgr''), (3953, 6, ''xmlink-connect''), (3953, 17, ''xmlink-connect''),
      (3954, 6, ''adrep''), (3954, 17, ''adrep''), (3955, 6, ''p2pcommunity''), (3955, 17, ''p2pcommunity''),
      (3956, 6, ''gvcp''), (3956, 17, ''gvcp''), (3957, 6, ''mqe-broker''), (3957, 17, ''mqe-broker''),
      (3958, 6, ''mqe-agent''), (3958, 17, ''mqe-agent''), (3959, 6, ''treehopper''), (3959, 17, ''treehopper''),
      (3960, 6, ''bess''), (3960, 17, ''bess''), (3961, 6, ''proaxess''), (3961, 17, ''proaxess''),
      (3962, 6, ''sbi-agent''), (3962, 17, ''sbi-agent''), (3963, 6, ''thrp''), (3963, 17, ''thrp''),
      (3964, 6, ''sasggprs''), (3964, 17, ''sasggprs''), (3965, 6, ''ati-ip-to-ncpe''), (3965, 17, ''ati-ip-to-ncpe''),
      (3966, 6, ''bflckmgr''), (3966, 17, ''bflckmgr''), (3967, 6, ''ppsms''), (3967, 17, ''ppsms''),
      (3968, 6, ''ianywhere-dbns''), (3968, 17, ''ianywhere-dbns''), (3969, 6, ''landmarks''), (3969, 17, ''landmarks''),
      (3970, 6, ''lanrevagent''), (3970, 17, ''lanrevagent''), (3971, 6, ''lanrevserver''), (3971, 17, ''lanrevserver'')]"

lemma Services_48_ascend: "port_range 3898 3971 Services_48"
  unfolding Services_48_def port_range_def
  by (rule ascending_end ascending_same ascending_next, simp)+

definition Services_49 :: "service_entry list" where
  "Services_49 =
     [(3972, 6, ''iconp''), (3972, 17, ''iconp''), (3973, 6, ''progistics''), (3973, 17, ''progistics''),
      (3974, 6, ''citysearch''), (3974, 17, ''citysearch''), (3975, 6, ''airshot''), (3975, 17, ''airshot''),
      (3976, 6, ''opswagent''), (3976, 17, ''opswagent''), (3977, 6, ''opswmanager''), (3977, 17, ''opswmanager''),
      (3978, 6, ''secure-cfg-svr''), (3978, 17, ''secure-cfg-svr''), (3979, 6, ''smwan''), (3979, 17, ''smwan''),
      (3980, 6, ''acms''), (3980, 17, ''acms''), (3981, 6, ''starfish''), (3981, 17, ''starfish''),
      (3982, 6, ''eis''), (3982, 17, ''eis''), (3983, 6, ''eisp''), (3983, 17, ''eisp''),
      (3984, 6, ''mapper-nodemgr''), (3984, 17, ''mapper-nodemgr''), (3985, 6, ''mapper-mapethd''), (3985, 17, ''mapper-mapethd''),
      (3986, 6, ''mapper-ws_ethd''), (3986, 17, ''mapper-ws_ethd''), (3987, 6, ''centerline''), (3987, 17, ''centerline''),
      (3988, 6, ''dcs-config''), (3988, 17, ''dcs-config''), (3989, 6, ''bv-queryengine''), (3989, 17, ''bv-queryengine''),
      (3990, 6, ''bv-is''), (3990, 17, ''bv-is''), (3991, 6, ''bv-smcsrv''), (3991, 17, ''bv-smcsrv''),
      (3992, 6, ''bv-ds''), (3992, 17, ''bv-ds''), (3993, 6, ''bv-agent''), (3993, 17, ''bv-agent''),
      (3995, 6, ''iss-mgmt-ssl''), (3995, 17, ''iss-mgmt-ssl''), (3996, 6, ''abcsoftware''), (3996, 17, ''remoteanything''),
      (3997, 6, ''agentsease-db''), (3997, 17, ''remoteanything''), (3998, 6, ''dnx''), (3998, 17, ''remoteanything''),
      (3999, 6, ''remoteanything''), (3999, 17, ''nvcnet''), (4000, 6, ''remoteanything''), (4000, 17, ''icq''),
      (4001, 6, ''newoak''), (4001, 17, ''newoak''), (4002, 6, ''mlchat-proxy''), (4002, 17, ''pxc-spvr-ft''),
      (4003, 6, ''pxc-splr-ft''), (4003, 17, ''pxc-splr-ft''), (4004, 6, ''pxc-roid''), (4004, 17, ''pxc-roid''),
      (4005, 6, ''pxc-pin''), (4005, 17, ''pxc-pin''), (4006, 6, ''pxc-spvr''), (4006, 17, ''pxc-spvr''),
      (4007, 6, ''pxc-splr''), (4007, 17, ''pxc-splr''), (4008, 6, ''netcheque''), (4008, 17, ''netcheque''),
      (4009, 6, ''chimera-hwm''), (4009, 17, ''chimera-hwm''), (4010, 6, ''samsung-unidex''), (4010, 17, ''samsung-unidex''),
      (4011, 6, ''altserviceboot''), (4011, 17, ''altserviceboot''), (4012, 6, ''pda-gate''), (4012, 17, ''pda-gate''),
      (4013, 6, ''acl-manager''), (4013, 17, ''acl-manager''), (4014, 6, ''taiclock''), (4014, 17, ''taiclock''),
      (4015, 6, ''talarian-mcast1''), (4015, 17, ''talarian-mcast1''), (4016, 6, ''talarian-mcast2''), (4016, 17, ''talarian-mcast2''),
      (4017, 6, ''talarian-mcast3''), (4017, 17, ''talarian-mcast3''), (4018, 6, ''talarian-mcast4''), (4018, 17, ''talarian-mcast4''),
      (4019, 6, ''talarian-mcast5''), (4019, 17, ''talarian-mcast5''), (4020, 6, ''trap''), (4020, 17, ''trap''),
      (4021, 6, ''nexus-portal''), (4021, 17, ''nexus-portal''), (4022, 6, ''dnox''), (4022, 17, ''dnox''),
      (4023, 6, ''esnm-zoning''), (4023, 17, ''esnm-zoning''), (4024, 6, ''tnp1-port''), (4024, 17, ''tnp1-port''),
      (4025, 6, ''partimage''), (4025, 17, ''partimage''), (4026, 6, ''as-debug''), (4026, 17, ''as-debug''),
      (4027, 6, ''bxp''), (4027, 17, ''bxp''), (4028, 6, ''dtserver-port''), (4028, 17, ''dtserver-port''),
      (4029, 6, ''ip-qsig''), (4029, 17, ''ip-qsig''), (4030, 6, ''jdmn-port''), (4030, 17, ''jdmn-port''),
      (4031, 6, ''suucp''), (4031, 17, ''suucp''), (4032, 6, ''vrts-auth-port''), (4032, 17, ''vrts-auth-port''),
      (4033, 6, ''sanavigator''), (4033, 17, ''sanavigator''), (4034, 6, ''ubxd''), (4034, 17, ''ubxd''),
      (4035, 6, ''wap-push-http''), (4035, 17, ''wap-push-http''), (4036, 6, ''wap-push-https''), (4036, 17, ''wap-push-https''),
      (4037, 6, ''ravehd''), (4037, 17, ''ravehd''), (4038, 6, ''fazzt-ptp''), (4038, 17, ''fazzt-ptp''),
      (4039, 6, ''fazzt-admin''), (4039, 17, ''fazzt-admin''), (4040, 6, ''yo-main''), (4040, 17, ''yo-main''),
      (4041, 6, ''houston''), (4041, 17, ''houston''), (4042, 6, ''ldxp''), (4042, 17, ''ldxp''),
      (4043, 6, ''nirp''), (4043, 17, ''nirp''), (4044, 6, ''ltp''), (4044, 17, ''ltp''),
      (4045, 6, ''lockd''), (4045, 17, ''lockd''), (4046, 6, ''acp-proto''), (4046, 17, ''acp-proto'')]"

lemma Services_49_ascend: "port_range 3972 4046 Services_49"
  unfolding Services_49_def port_range_def
  by (rule ascending_end ascending_same ascending_next, simp)+

definition Services_50 :: "service_entry list" where
  "Services_50 =
     [(4047, 6, ''ctp-state''), (4047, 17, ''ctp-state''), (4049, 6, ''wafs''), (4049, 17, ''wafs''),
      (4050, 6, ''cisco-wafs''), (4050, 17, ''cisco-wafs''), (4051, 6, ''cppdp''), (4051, 17, ''cppdp''),
      (4052, 6, ''interact''), (4052, 17, ''interact''), (4053, 6, ''ccu-comm-1''), (4053, 17, ''ccu-comm-1''),
      (4054, 6, ''ccu-comm-2''), (4054, 17, ''ccu-comm-2''), (4055, 6, ''ccu-comm-3''), (4055, 17, ''ccu-comm-3''),
      (4056, 6, ''lms''), (4056, 17, ''lms''), (4057, 6, ''wfm''), (4057, 17, ''wfm''),
      (4058, 6, ''kingfisher''), (4058, 17, ''kingfisher''), (4059, 6, ''dlms-cosem''), (4059, 17, ''dlms-cosem''),
      (4060, 6, ''dsmeter_iatc''), (4060, 17, ''dsmeter_iatc''), (4061, 6, ''ice-location''), (4061, 17, ''ice-location''),
      (4062, 6, ''ice-slocation''), (4062, 17, ''ice-slocation''), (4063, 6, ''ice-router''), (4063, 17, ''ice-router''),
      (4064, 6, ''ice-srouter''), (4064, 17, ''ice-srouter''), (4065, 6, ''avanti_cdp''), (4065, 17, ''avanti_cdp''),
      (4066, 6, ''pmas''), (4066, 17, ''pmas''), (4067, 6, ''idp''), (4067, 17, ''idp''),
      (4068, 6, ''ipfltbcst''), (4068, 17, ''ipfltbcst''), (4069, 6, ''minger''), (4069, 17, ''minger''),
      (4070, 6, ''tripe''), (4070, 17, ''tripe''), (4071, 6, ''aibkup''), (4071, 17, ''aibkup''),
      (4072, 6, ''zieto-sock''), (4072, 17, ''zieto-sock''), (4073, 6, ''iRAPP''), (4073, 17, ''iRAPP''),
      (4074, 6, ''cequint-cityid''), (4074, 17, ''cequint-cityid''), (4075, 6, ''perimlan''), (4075, 17, ''perimlan''),
      (4076, 6, ''seraph''), (4076, 17, ''seraph''), (4077, 6, ''ascomalarm''), (4077, 17, ''ascomalarm''),
      (4078, 6, ''cssp''), (4079, 6, ''santools''), (4079, 17, ''santools''), (4080, 6, ''lorica-in''),
      (4080, 17, ''lorica-in''), (4081, 6, ''lorica-in-sec''), (4081, 17, ''lorica-in-sec''), (4082, 6, ''lorica-out''),
      (4082, 17, ''lorica-out''), (4083, 6, ''lorica-out-sec''), (4083, 17, ''lorica-out-sec''), (4084, 6, ''fortisphere-vm''),
      (4084, 17, ''fortisphere-vm''), (4085, 6, ''ezmessagesrv''), (4086, 6, ''ftsync''), (4086, 17, ''ftsync''),
      (4087, 6, ''applusservice''), (4088, 6, ''npsp''), (4089, 6, ''opencore''), (4089, 17, ''opencore''),
      (4090, 6, ''omasgport''), (4090, 17, ''omasgport''), (4091, 6, ''ewinstaller''), (4091, 17, ''ewinstaller''),
      (4092, 6, ''ewdgs''), (4092, 17, ''ewdgs''), (4093, 6, ''pvxpluscs''), (4093, 17, ''pvxpluscs''),
      (4094, 6, ''sysrqd''), (4094, 17, ''sysrqd''), (4095, 6, ''xtgui''), (4095, 17, ''xtgui''),
      (4096, 6, ''bre''), (4096, 17, ''bre''), (4097, 6, ''patrolview''), (4097, 17, ''patrolview''),
      (4098, 6, ''drmsfsd''), (4098, 17, ''drmsfsd''), (4099, 6, ''dpcp''), (4099, 17, ''dpcp''),
      (4100, 6, ''igo-incognito''), (4100, 17, ''igo-incognito''), (4101, 6, ''brlp-0''), (4101, 17, ''brlp-0''),
      (4102, 6, ''brlp-1''), (4102, 17, ''brlp-1''), (4103, 6, ''brlp-2''), (4103, 17, ''brlp-2''),
      (4104, 6, ''brlp-3''), (4104, 17, ''brlp-3''), (4105, 6, ''shofarplayer''), (4105, 17, ''shofarplayer''),
      (4106, 6, ''synchronite''), (4106, 17, ''synchronite''), (4107, 6, ''j-ac''), (4107, 17, ''j-ac''),
      (4108, 6, ''accel''), (4108, 17, ''accel''), (4109, 6, ''izm''), (4109, 17, ''izm''),
      (4110, 6, ''g2tag''), (4110, 17, ''g2tag''), (4111, 6, ''xgrid''), (4111, 17, ''xgrid''),
      (4112, 6, ''apple-vpns-rp''), (4112, 17, ''apple-vpns-rp''), (4113, 6, ''aipn-reg''), (4113, 17, ''aipn-reg''),
      (4114, 6, ''jomamqmonitor''), (4114, 17, ''jomamqmonitor''), (4115, 6, ''cds''), (4115, 17, ''cds''),
      (4116, 6, ''smartcard-tls''), (4116, 17, ''smartcard-tls''), (4117, 6, ''hillrserv''), (4117, 17, ''hillrserv''),
      (4118, 6, ''netscript''), (4118, 17, ''netscript''), (4119, 6, ''assuria-slm''), (4119, 17, ''assuria-slm''),
      (4120, 6, ''minirem''), (4121, 6, ''e-builder''), (4121, 17, ''e-builder''), (4122, 6, ''fprams''),
      (4122, 17, ''fprams''), (4123, 6, ''z-wave''), (4123, 17, ''z-wave''), (4124, 6, ''tigv2''),
      (4124, 17, ''tigv2'')]"

lemma Services_50_ascend: "port_range 4047 4124 Services_50"
  unfolding Services_50_def port_range_def
  by (rule ascending_end ascending_same ascending_next, simp)+

definition Services_51 :: "service_entry list" where
  "Services_51 =
     [(4125, 6, ''rww''), (4125, 17, ''opsview-envoy''), (4126, 6, ''ddrepl''), (4126, 17, ''ddrepl''),
      (4127, 6, ''unikeypro''), (4127, 17, ''unikeypro''), (4128, 6, ''nufw''), (4128, 17, ''nufw''),
      (4129, 6, ''nuauth''), (4129, 17, ''nuauth''), (4130, 6, ''fronet''), (4130, 17, ''fronet''),
      (4131, 6, ''stars''), (4131, 17, ''stars''), (4132, 6, ''nuts_dem''), (4132, 17, ''nuts_dem''),
      (4133, 6, ''nuts_bootp''), (4133, 17, ''nuts_bootp''), (4134, 6, ''nifty-hmi''), (4134, 17, ''nifty-hmi''),
      (4135, 6, ''cl-db-attach''), (4135, 17, ''cl-db-attach''), (4136, 6, ''cl-db-request''), (4136, 17, ''cl-db-request''),
      (4137, 6, ''cl-db-remote''), (4137, 17, ''cl-db-remote''), (4138, 6, ''nettest''), (4138, 17, ''nettest''),
      (4139, 6, ''thrtx''), (4139, 17, ''thrtx''), (4140, 6, ''cedros_fds''), (4140, 17, ''cedros_fds''),
      (4141, 6, ''oirtgsvc''), (4141, 17, ''oirtgsvc''), (4142, 6, ''oidocsvc''), (4142, 17, ''oidocsvc''),
      (4143, 6, ''oidsr''), (4143, 17, ''oidsr''), (4144, 6, ''wincim''), (4145, 6, ''vvr-control''),
      (4145, 17, ''vvr-control''), (4146, 6, ''tgcconnect''), (4146, 17, ''tgcconnect''), (4147, 6, ''vrxpservman''),
      (4147, 17, ''vrxpservman''), (4148, 6, ''hhb-handheld''), (4148, 17, ''hhb-handheld''), (4149, 6, ''agslb''),
      (4149, 17, ''agslb''), (4150, 6, ''PowerAlert-nsa''), (4150, 17, ''PowerAlert-nsa''), (4151, 6, ''menandmice_noh''),
      (4151, 17, ''menandmice_noh''), (4152, 6, ''idig_mux''), (4152, 17, ''idig_mux''), (4153, 6, ''mbl-battd''),
      (4153, 17, ''mbl-battd''), (4154, 6, ''atlinks''), (4154, 17, ''atlinks''), (4155, 6, ''bzr''),
      (4155, 17, ''bzr''), (4156, 6, ''stat-results''), (4156, 17, ''stat-results''), (4157, 6, ''stat-scanner''),
      (4157, 17, ''stat-scanner''), (4158, 6, ''stat-cc''), (4158, 17, ''stat-cc''), (4159, 6, ''nss''),
      (4159, 17, ''nss''), (4160, 6, ''jini-discovery''), (4160, 17, ''jini-discovery''), (4161, 6, ''omscontact''),
      (4161, 17, ''omscontact''), (4162, 6, ''omstopology''), (4162, 17, ''omstopology''), (4163, 6, ''silverpeakpeer''),
      (4163, 17, ''silverpeakpeer''), (4164, 6, ''silverpeakcomm''), (4164, 17, ''silverpeakcomm''), (4165, 6, ''altcp''),
      (4165, 17, ''altcp''), (4166, 6, ''joost''), (4166, 17, ''joost''), (4167, 6, ''ddgn''),
      (4167, 17, ''ddgn''), (4168, 6, ''pslicser''), (4168, 17, ''pslicser''), (4169, 6, ''iadt''),
      (4169, 17, ''iadt-disc''), (4170, 6, ''d-cinema-csp''), (4171, 6, ''ml-svnet''), (4172, 6, ''pcoip''),
      (4172, 17, ''pcoip''), (4173, 6, ''mma-discovery''), (4174, 6, ''smcluster''), (4175, 6, ''bccp''),
      (4176, 6, ''tl-ipcproxy''), (4177, 6, ''wello''), (4177, 17, ''wello''), (4178, 6, ''storman''),
      (4178, 17, ''storman''), (4179, 6, ''MaxumSP''), (4179, 17, ''MaxumSP''), (4180, 6, ''httpx''),
      (4180, 17, ''httpx''), (4181, 6, ''macbak''), (4181, 17, ''macbak''), (4182, 6, ''pcptcpservice''),
      (4182, 17, ''pcptcpservice''), (4183, 6, ''gmmp''), (4183, 17, ''gmmp''), (4184, 6, ''universe_suite''),
      (4184, 17, ''universe_suite''), (4185, 6, ''wcpp''), (4185, 17, ''wcpp''), (4186, 6, ''boxbackupstore''),
      (4187, 6, ''csc_proxy''), (4188, 6, ''vatata''), (4188, 17, ''vatata''), (4189, 6, ''pcep''),
      (4190, 6, ''sieve''), (4191, 6, ''dsmipv6''), (4191, 17, ''dsmipv6''), (4192, 6, ''azeti''),
      (4192, 17, ''azeti-bd''), (4193, 6, ''pvxplusio''), (4197, 6, ''hctl''), (4199, 6, ''eims-admin''),
      (4199, 17, ''eims-admin''), (4200, 6, ''vrml-multi-use''), (4200, 17, ''vrml-multi-use''), (4201, 6, ''vrml-multi-use''),
      (4201, 17, ''vrml-multi-use''), (4202, 6, ''vrml-multi-use''), (4202, 17, ''vrml-multi-use''), (4203, 6, ''vrml-multi-use''),
      (4203, 17, ''vrml-multi-use''), (4204, 6, ''vrml-multi-use''), (4204, 17, ''vrml-multi-use''), (4205, 6, ''vrml-multi-use''),
      (4205, 17, ''vrml-multi-use''), (4206, 6, ''vrml-multi-use''), (4206, 17, ''vrml-multi-use''), (4207, 6, ''vrml-multi-use''),
      (4207, 17, ''vrml-multi-use''), (4208, 6, ''vrml-multi-use''), (4208, 17, ''vrml-multi-use''), (4209, 6, ''vrml-multi-use''),
      (4209, 17, ''vrml-multi-use'')]"

lemma Services_51_ascend: "port_range 4125 4209 Services_51"
  unfolding Services_51_def port_range_def
  by (rule ascending_end ascending_same ascending_next, simp)+

definition Services_52 :: "service_entry list" where
  "Services_52 =
     [(4210, 6, ''vrml-multi-use''), (4210, 17, ''vrml-multi-use''), (4211, 6, ''vrml-multi-use''), (4211, 17, ''vrml-multi-use''),
      (4212, 6, ''vrml-multi-use''), (4212, 17, ''vrml-multi-use''), (4213, 6, ''vrml-multi-use''), (4213, 17, ''vrml-multi-use''),
      (4214, 6, ''vrml-multi-use''), (4214, 17, ''vrml-multi-use''), (4215, 6, ''vrml-multi-use''), (4215, 17, ''vrml-multi-use''),
      (4216, 6, ''vrml-multi-use''), (4216, 17, ''vrml-multi-use''), (4217, 6, ''vrml-multi-use''), (4217, 17, ''vrml-multi-use''),
      (4218, 6, ''vrml-multi-use''), (4218, 17, ''vrml-multi-use''), (4219, 6, ''vrml-multi-use''), (4219, 17, ''vrml-multi-use''),
      (4220, 6, ''vrml-multi-use''), (4220, 17, ''vrml-multi-use''), (4221, 6, ''vrml-multi-use''), (4221, 17, ''vrml-multi-use''),
      (4222, 6, ''vrml-multi-use''), (4222, 17, ''vrml-multi-use''), (4223, 6, ''vrml-multi-use''), (4223, 17, ''vrml-multi-use''),
      (4224, 6, ''xtell''), (4224, 17, ''vrml-multi-use''), (4225, 6, ''vrml-multi-use''), (4225, 17, ''vrml-multi-use''),
      (4226, 6, ''vrml-multi-use''), (4226, 17, ''vrml-multi-use''), (4227, 6, ''vrml-multi-use''), (4227, 17, ''vrml-multi-use''),
      (4228, 6, ''vrml-multi-use''), (4228, 17, ''vrml-multi-use''), (4229, 6, ''vrml-multi-use''), (4229, 17, ''vrml-multi-use''),
      (4230, 6, ''vrml-multi-use''), (4230, 17, ''vrml-multi-use''), (4231, 6, ''vrml-multi-use''), (4231, 17, ''vrml-multi-use''),
      (4232, 6, ''vrml-multi-use''), (4232, 17, ''vrml-multi-use''), (4233, 6, ''vrml-multi-use''), (4233, 17, ''vrml-multi-use''),
      (4234, 6, ''vrml-multi-use''), (4234, 17, ''vrml-multi-use''), (4235, 6, ''vrml-multi-use''), (4235, 17, ''vrml-multi-use''),
      (4236, 6, ''vrml-multi-use''), (4236, 17, ''vrml-multi-use''), (4237, 6, ''vrml-multi-use''), (4237, 17, ''vrml-multi-use''),
      (4238, 6, ''vrml-multi-use''), (4238, 17, ''vrml-multi-use''), (4239, 6, ''vrml-multi-use''), (4239, 17, ''vrml-multi-use''),
      (4240, 6, ''vrml-multi-use''), (4240, 17, ''vrml-multi-use''), (4241, 6, ''vrml-multi-use''), (4241, 17, ''vrml-multi-use''),
      (4242, 6, ''vrml-multi-use''), (4242, 17, ''vrml-multi-use''), (4243, 6, ''vrml-multi-use''), (4243, 17, ''vrml-multi-use''),
      (4244, 6, ''vrml-multi-use''), (4244, 17, ''vrml-multi-use''), (4245, 6, ''vrml-multi-use''), (4245, 17, ''vrml-multi-use''),
      (4246, 6, ''vrml-multi-use''), (4246, 17, ''vrml-multi-use''), (4247, 6, ''vrml-multi-use''), (4247, 17, ''vrml-multi-use''),
      (4248, 6, ''vrml-multi-use''), (4248, 17, ''vrml-multi-use''), (4249, 6, ''vrml-multi-use''), (4249, 17, ''vrml-multi-use''),
      (4250, 6, ''vrml-multi-use''), (4250, 17, ''vrml-multi-use''), (4251, 6, ''vrml-multi-use''), (4251, 17, ''vrml-multi-use''),
      (4252, 6, ''vrml-multi-use''), (4252, 17, ''vrml-multi-use''), (4253, 6, ''vrml-multi-use''), (4253, 17, ''vrml-multi-use''),
      (4254, 6, ''vrml-multi-use''), (4254, 17, ''vrml-multi-use''), (4255, 6, ''vrml-multi-use''), (4255, 17, ''vrml-multi-use''),
      (4256, 6, ''vrml-multi-use''), (4256, 17, ''vrml-multi-use''), (4257, 6, ''vrml-multi-use''), (4257, 17, ''vrml-multi-use''),
      (4258, 6, ''vrml-multi-use''), (4258, 17, ''vrml-multi-use''), (4259, 6, ''vrml-multi-use''), (4259, 17, ''vrml-multi-use''),
      (4260, 6, ''vrml-multi-use''), (4260, 17, ''vrml-multi-use''), (4261, 6, ''vrml-multi-use''), (4261, 17, ''vrml-multi-use''),
      (4262, 6, ''vrml-multi-use''), (4262, 17, ''vrml-multi-use''), (4263, 6, ''vrml-multi-use''), (4263, 17, ''vrml-multi-use''),
      (4264, 6, ''vrml-multi-use''), (4264, 17, ''vrml-multi-use''), (4265, 6, ''vrml-multi-use''), (4265, 17, ''vrml-multi-use''),
      (4266, 6, ''vrml-multi-use''), (4266, 17, ''vrml-multi-use''), (4267, 6, ''vrml-multi-use''), (4267, 17, ''vrml-multi-use''),
      (4268, 6, ''vrml-multi-use''), (4268, 17, ''vrml-multi-use''), (4269, 6, ''vrml-multi-use''), (4269, 17, ''vrml-multi-use''),
      (4270, 6, ''vrml-multi-use''), (4270, 17, ''vrml-multi-use''), (4271, 6, ''vrml-multi-use''), (4271, 17, ''vrml-multi-use''),
      (4272, 6, ''vrml-multi-use''), (4272, 17, ''vrml-multi-use''), (4273, 6, ''vrml-multi-use''), (4273, 17, ''vrml-multi-use''),
      (4274, 6, ''vrml-multi-use''), (4274, 17, ''vrml-multi-use''), (4275, 6, ''vrml-multi-use''), (4275, 17, ''vrml-multi-use''),
      (4276, 6, ''vrml-multi-use''), (4276, 17, ''vrml-multi-use''), (4277, 6, ''vrml-multi-use''), (4277, 17, ''vrml-multi-use''),
      (4278, 6, ''vrml-multi-use''), (4278, 17, ''vrml-multi-use''), (4279, 6, ''vrml-multi-use''), (4279, 17, ''vrml-multi-use''),
      (4280, 6, ''vrml-multi-use''), (4280, 17, ''vrml-multi-use''), (4281, 6, ''vrml-multi-use''), (4281, 17, ''vrml-multi-use''),
      (4282, 6, ''vrml-multi-use''), (4282, 17, ''vrml-multi-use''), (4283, 6, ''vrml-multi-use''), (4283, 17, ''vrml-multi-use'')]"

lemma Services_52_ascend: "port_range 4210 4283 Services_52"
  unfolding Services_52_def port_range_def
  by (rule ascending_end ascending_same ascending_next, simp)+

definition Services_53 :: "service_entry list" where
  "Services_53 =
     [(4284, 6, ''vrml-multi-use''), (4284, 17, ''vrml-multi-use''), (4285, 6, ''vrml-multi-use''), (4285, 17, ''vrml-multi-use''),
      (4286, 6, ''vrml-multi-use''), (4286, 17, ''vrml-multi-use''), (4287, 6, ''vrml-multi-use''), (4287, 17, ''vrml-multi-use''),
      (4288, 6, ''vrml-multi-use''), (4288, 17, ''vrml-multi-use''), (4289, 6, ''vrml-multi-use''), (4289, 17, ''vrml-multi-use''),
      (4290, 6, ''vrml-multi-use''), (4290, 17, ''vrml-multi-use''), (4291, 6, ''vrml-multi-use''), (4291, 17, ''vrml-multi-use''),
      (4292, 6, ''vrml-multi-use''), (4292, 17, ''vrml-multi-use''), (4293, 6, ''vrml-multi-use''), (4293, 17, ''vrml-multi-use''),
      (4294, 6, ''vrml-multi-use''), (4294, 17, ''vrml-multi-use''), (4295, 6, ''vrml-multi-use''), (4295, 17, ''vrml-multi-use''),
      (4296, 6, ''vrml-multi-use''), (4296, 17, ''vrml-multi-use''), (4297, 6, ''vrml-multi-use''), (4297, 17, ''vrml-multi-use''),
      (4298, 6, ''vrml-multi-use''), (4298, 17, ''vrml-multi-use''), (4299, 6, ''vrml-multi-use''), (4299, 17, ''vrml-multi-use''),
      (4300, 6, ''corelccam''), (4300, 17, ''corelccam''), (4301, 6, ''d-data''), (4301, 17, ''d-data''),
      (4302, 6, ''d-data-control''), (4302, 17, ''d-data-control''), (4303, 6, ''srcp''), (4303, 17, ''srcp''),
      (4304, 6, ''owserver''), (4304, 17, ''owserver''), (4305, 6, ''batman''), (4305, 17, ''batman''),
      (4306, 6, ''pinghgl''), (4306, 17, ''pinghgl''), (4307, 6, ''visicron-vs''), (4307, 17, ''visicron-vs''),
      (4308, 6, ''compx-lockview''), (4308, 17, ''compx-lockview''), (4309, 6, ''dserver''), (4309, 17, ''dserver''),
      (4310, 6, ''mirrtex''), (4310, 17, ''mirrtex''), (4311, 6, ''p6ssmc''), (4312, 6, ''pscl-mgt''),
      (4313, 6, ''perrla''), (4314, 6, ''choiceview-agt''), (4316, 6, ''choiceview-clt''), (4320, 6, ''fdt-rcatp''),
      (4320, 17, ''fdt-rcatp''), (4321, 6, ''rwhois''), (4321, 17, ''rwhois''), (4322, 6, ''trim-event''),
      (4322, 17, ''trim-event''), (4323, 6, ''trim-ice''), (4323, 17, ''trim-ice''), (4324, 6, ''balour''),
      (4324, 17, ''balour''), (4325, 6, ''geognosisman''), (4325, 17, ''geognosisman''), (4326, 6, ''geognosis''),
      (4326, 17, ''geognosis''), (4327, 6, ''jaxer-web''), (4327, 17, ''jaxer-web''), (4328, 6, ''jaxer-manager''),
      (4328, 17, ''jaxer-manager''), (4329, 6, ''publiqare-sync''), (4330, 6, ''dey-sapi''), (4331, 6, ''ktickets-rest''),
      (4333, 6, ''msql''), (4334, 6, ''netconf-ch-ssh''), (4335, 6, ''netconf-ch-tls''), (4336, 6, ''restconf-ch-tls''),
      (4340, 6, ''gaia''), (4340, 17, ''gaia''), (4341, 6, ''lisp-data''), (4341, 17, ''lisp-data''),
      (4342, 6, ''lisp-cons''), (4342, 17, ''lisp-control''), (4343, 6, ''unicall''), (4343, 17, ''unicall''),
      (4344, 6, ''vinainstall''), (4344, 17, ''vinainstall''), (4345, 6, ''m4-network-as''), (4345, 17, ''m4-network-as''),
      (4346, 6, ''elanlm''), (4346, 17, ''elanlm''), (4347, 6, ''lansurveyor''), (4347, 17, ''lansurveyor''),
      (4348, 6, ''itose''), (4348, 17, ''itose''), (4349, 6, ''fsportmap''), (4349, 17, ''fsportmap''),
      (4350, 6, ''net-device''), (4350, 17, ''net-device''), (4351, 6, ''plcy-net-svcs''), (4351, 17, ''plcy-net-svcs''),
      (4352, 6, ''pjlink''), (4352, 17, ''pjlink''), (4353, 6, ''f5-iquery''), (4353, 17, ''f5-iquery''),
      (4354, 6, ''qsnet-trans''), (4354, 17, ''qsnet-trans''), (4355, 6, ''qsnet-workst''), (4355, 17, ''qsnet-workst''),
      (4356, 6, ''qsnet-assist''), (4356, 17, ''qsnet-assist''), (4357, 6, ''qsnet-cond''), (4357, 17, ''qsnet-cond''),
      (4358, 6, ''qsnet-nucl''), (4358, 17, ''qsnet-nucl''), (4359, 6, ''omabcastltkm''), (4359, 17, ''omabcastltkm''),
      (4360, 6, ''matrix_vnet''), (4361, 6, ''nacnl''), (4361, 17, ''nacnl''), (4362, 6, ''afore-vdp-disc''),
      (4366, 6, ''shadowstream''), (4368, 6, ''wxbrief''), (4368, 17, ''wxbrief''), (4369, 6, ''epmd''),
      (4369, 17, ''epmd''), (4370, 6, ''elpro_tunnel''), (4370, 17, ''elpro_tunnel''), (4371, 6, ''l2c-control''),
      (4371, 17, ''l2c-disc''), (4372, 6, ''l2c-data''), (4372, 17, ''l2c-data''), (4373, 6, ''remctl''),
      (4373, 17, ''remctl''), (4374, 6, ''psi-ptt''), (4375, 6, ''tolteces''), (4375, 17, ''tolteces''),
      (4376, 6, ''bip''), (4376, 17, ''bip''), (4377, 6, ''cp-spxsvr''), (4377, 17, ''cp-spxsvr'')]"

lemma Services_53_ascend: "port_range 4284 4377 Services_53"
  unfolding Services_53_def port_range_def
  by (rule ascending_end ascending_same ascending_next, simp)+

definition Services_54 :: "service_entry list" where
  "Services_54 =
     [(4378, 6, ''cp-spxdpy''), (4378, 17, ''cp-spxdpy''), (4379, 6, ''ctdb''), (4379, 17, ''ctdb''),
      (4389, 6, ''xandros-cms''), (4389, 17, ''xandros-cms''), (4390, 6, ''wiegand''), (4390, 17, ''wiegand''),
      (4391, 6, ''apwi-imserver''), (4392, 6, ''apwi-rxserver''), (4393, 6, ''apwi-rxspooler''), (4394, 6, ''apwi-disc''),
      (4394, 17, ''apwi-disc''), (4395, 6, ''omnivisionesx''), (4395, 17, ''omnivisionesx''), (4396, 6, ''fly''),
      (4400, 6, ''ds-srv''), (4400, 17, ''ds-srv''), (4401, 6, ''ds-srvr''), (4401, 17, ''ds-srvr''),
      (4402, 6, ''ds-clnt''), (4402, 17, ''ds-clnt''), (4403, 6, ''ds-user''), (4403, 17, ''ds-user''),
      (4404, 6, ''ds-admin''), (4404, 17, ''ds-admin''), (4405, 6, ''ds-mail''), (4405, 17, ''ds-mail''),
      (4406, 6, ''ds-slp''), (4406, 17, ''ds-slp''), (4407, 6, ''nacagent''), (4408, 6, ''slscc''),
      (4409, 6, ''netcabinet-com''), (4410, 6, ''itwo-server''), (4411, 6, ''found''), (4412, 6, ''smallchat''),
      (4413, 6, ''avi-nms''), (4414, 6, ''updog''), (4415, 6, ''brcd-vr-req''), (4416, 6, ''pjj-player''),
      (4417, 6, ''workflowdir''), (4418, 6, ''axysbridge''), (4419, 6, ''cbp''), (4420, 6, ''nvm-express''),
      (4421, 6, ''scaleft''), (4422, 6, ''tsepisp''), (4423, 6, ''thingkit''), (4425, 6, ''netrockey6''),
      (4425, 17, ''netrockey6''), (4426, 6, ''beacon-port-2''), (4426, 17, ''beacon-port-2''), (4427, 6, ''drizzle''),
      (4428, 6, ''omviserver''), (4429, 6, ''omviagent''), (4430, 6, ''rsqlserver''), (4430, 17, ''rsqlserver''),
      (4431, 6, ''wspipe''), (4432, 6, ''l-acoustics''), (4433, 6, ''vop''), (4441, 6, ''netblox''),
      (4441, 17, ''netblox''), (4442, 6, ''saris''), (4442, 17, ''saris''), (4443, 6, ''pharos''),
      (4443, 17, ''pharos''), (4444, 6, ''krb524''), (4444, 17, ''krb524''), (4445, 6, ''upnotifyp''),
      (4445, 17, ''upnotifyp''), (4446, 6, ''n1-fwp''), (4446, 17, ''n1-fwp''), (4447, 6, ''n1-rmgmt''),
      (4447, 17, ''n1-rmgmt''), (4448, 6, ''asc-slmd''), (4448, 17, ''asc-slmd''), (4449, 6, ''privatewire''),
      (4449, 17, ''privatewire''), (4450, 6, ''camp''), (4450, 17, ''camp''), (4451, 6, ''ctisystemmsg''),
      (4451, 17, ''ctisystemmsg''), (4452, 6, ''ctiprogramload''), (4452, 17, ''ctiprogramload''), (4453, 6, ''nssalertmgr''),
      (4453, 17, ''nssalertmgr''), (4454, 6, ''nssagentmgr''), (4454, 17, ''nssagentmgr''), (4455, 6, ''prchat-user''),
      (4455, 17, ''prchat-user''), (4456, 6, ''prchat-server''), (4456, 17, ''prchat-server''), (4457, 6, ''prRegister''),
      (4457, 17, ''prRegister''), (4458, 6, ''mcp''), (4458, 17, ''mcp''), (4480, 6, ''proxy-plus''),
      (4484, 6, ''hpssmgmt''), (4484, 17, ''hpssmgmt''), (4485, 6, ''assyst-dr''), (4486, 6, ''icms''),
      (4486, 17, ''icms''), (4487, 6, ''prex-tcp''), (4488, 6, ''awacs-ice''), (4488, 17, ''awacs-ice''),
      (4500, 6, ''sae-urn''), (4500, 17, ''nat-t-ike''), (4502, 6, ''a25-fap-fgw''), (4534, 6, ''armagetronad''),
      (4535, 6, ''ehs''), (4535, 17, ''ehs''), (4536, 6, ''ehs-ssl''), (4536, 17, ''ehs-ssl''),
      (4537, 6, ''wssauthsvc''), (4537, 17, ''wssauthsvc''), (4538, 6, ''swx-gate''), (4538, 17, ''swx-gate''),
      (4545, 6, ''worldscores''), (4545, 17, ''worldscores''), (4546, 6, ''sf-lm''), (4546, 17, ''sf-lm''),
      (4547, 6, ''lanner-lm''), (4547, 17, ''lanner-lm''), (4548, 6, ''synchromesh''), (4548, 17, ''synchromesh''),
      (4549, 6, ''aegate''), (4549, 17, ''aegate''), (4550, 6, ''gds-adppiw-db''), (4550, 17, ''gds-adppiw-db''),
      (4551, 6, ''ieee-mih''), (4551, 17, ''ieee-mih''), (4552, 6, ''menandmice-mon''), (4552, 17, ''menandmice-mon''),
      (4553, 6, ''icshostsvc''), (4554, 6, ''msfrs''), (4554, 17, ''msfrs''), (4555, 6, ''rsip''),
      (4555, 17, ''rsip''), (4556, 6, ''dtn-bundle-tcp''), (4556, 17, ''dtn-bundle-udp''), (4557, 6, ''fax''),
      (4557, 17, ''mtcevrunqss''), (4558, 6, ''mtcevrunqman''), (4558, 17, ''mtcevrunqman''), (4559, 6, ''hylafax''),
      (4559, 17, ''hylafax''), (4563, 6, ''amahi-anywhere''), (4566, 6, ''kwtc''), (4566, 17, ''kwtc'')]"

lemma Services_54_ascend: "port_range 4378 4566 Services_54"
  unfolding Services_54_def port_range_def
  by (rule ascending_end ascending_same ascending_next, simp)+

definition Services_55 :: "service_entry list" where
  "Services_55 =
     [(4567, 6, ''tram''), (4567, 17, ''tram''), (4568, 6, ''bmc-reporting''), (4568, 17, ''bmc-reporting''),
      (4569, 6, ''iax''), (4569, 17, ''iax''), (4570, 6, ''deploymentmap''), (4573, 6, ''cardifftec-back''),
      (4590, 6, ''rid''), (4591, 6, ''l3t-at-an''), (4591, 17, ''l3t-at-an''), (4592, 6, ''hrpd-ith-at-an''),
      (4592, 17, ''hrpd-ith-at-an''), (4593, 6, ''ipt-anri-anri''), (4593, 17, ''ipt-anri-anri''), (4594, 6, ''ias-session''),
      (4594, 17, ''ias-session''), (4595, 6, ''ias-paging''), (4595, 17, ''ias-paging''), (4596, 6, ''ias-neighbor''),
      (4596, 17, ''ias-neighbor''), (4597, 6, ''a21-an-1xbs''), (4597, 17, ''a21-an-1xbs''), (4598, 6, ''a16-an-an''),
      (4598, 17, ''a16-an-an''), (4599, 6, ''a17-an-an''), (4599, 17, ''a17-an-an''), (4600, 6, ''piranha1''),
      (4600, 17, ''piranha1''), (4601, 6, ''piranha2''), (4601, 17, ''piranha2''), (4602, 6, ''mtsserver''),
      (4603, 6, ''menandmice-upg''), (4604, 6, ''irp''), (4605, 6, ''sixchat''), (4621, 6, ''ventoso''),
      (4658, 6, ''playsta2-app''), (4658, 17, ''playsta2-app''), (4659, 6, ''playsta2-lob''), (4659, 17, ''playsta2-lob''),
      (4660, 6, ''mosmig''), (4660, 17, ''smaclmgr''), (4661, 6, ''kar2ouche''), (4661, 17, ''kar2ouche''),
      (4662, 6, ''edonkey''), (4662, 17, ''oms''), (4663, 6, ''noteit''), (4663, 17, ''noteit''),
      (4664, 6, ''ems''), (4664, 17, ''ems''), (4665, 6, ''contclientms''), (4665, 17, ''contclientms''),
      (4666, 6, ''eportcomm''), (4666, 17, ''edonkey''), (4667, 6, ''mmacomm''), (4667, 17, ''mmacomm''),
      (4668, 6, ''mmaeds''), (4668, 17, ''mmaeds''), (4669, 6, ''eportcommdata''), (4669, 17, ''eportcommdata''),
      (4670, 6, ''light''), (4670, 17, ''light''), (4671, 6, ''acter''), (4671, 17, ''acter''),
      (4672, 6, ''rfa''), (4672, 17, ''rfa''), (4673, 6, ''cxws''), (4673, 17, ''cxws''),
      (4674, 6, ''appiq-mgmt''), (4674, 17, ''appiq-mgmt''), (4675, 6, ''dhct-status''), (4675, 17, ''dhct-status''),
      (4676, 6, ''dhct-alerts''), (4676, 17, ''dhct-alerts''), (4677, 6, ''bcs''), (4677, 17, ''bcs''),
      (4678, 6, ''traversal''), (4678, 17, ''traversal''), (4679, 6, ''mgesupervision''), (4679, 17, ''mgesupervision''),
      (4680, 6, ''mgemanagement''), (4680, 17, ''mgemanagement''), (4681, 6, ''parliant''), (4681, 17, ''parliant''),
      (4682, 6, ''finisar''), (4682, 17, ''finisar''), (4683, 6, ''spike''), (4683, 17, ''spike''),
      (4684, 6, ''rfid-rp1''), (4684, 17, ''rfid-rp1''), (4685, 6, ''autopac''), (4685, 17, ''autopac''),
      (4686, 6, ''msp-os''), (4686, 17, ''msp-os''), (4687, 6, ''nst''), (4687, 17, ''nst''),
      (4688, 6, ''mobile-p2p''), (4688, 17, ''mobile-p2p''), (4689, 6, ''altovacentral''), (4689, 17, ''altovacentral''),
      (4690, 6, ''prelude''), (4690, 17, ''prelude''), (4691, 6, ''mtn''), (4691, 17, ''mtn''),
      (4692, 6, ''conspiracy''), (4692, 17, ''conspiracy''), (4700, 6, ''netxms-agent''), (4700, 17, ''netxms-agent''),
      (4701, 6, ''netxms-mgmt''), (4701, 17, ''netxms-mgmt''), (4702, 6, ''netxms-sync''), (4702, 17, ''netxms-sync''),
      (4703, 6, ''npqes-test''), (4704, 6, ''assuria-ins''), (4711, 6, ''trinity-dist''), (4713, 6, ''pulseaudio''),
      (4725, 6, ''truckstar''), (4725, 17, ''truckstar''), (4726, 6, ''a26-fap-fgw''), (4726, 17, ''a26-fap-fgw''),
      (4727, 6, ''fcis''), (4727, 17, ''fcis-disc''), (4728, 6, ''capmux''), (4728, 17, ''capmux''),
      (4729, 6, ''gsmtap''), (4729, 17, ''gsmtap''), (4730, 6, ''gearman''), (4730, 17, ''gearman''),
      (4731, 6, ''remcap''), (4732, 6, ''ohmtrigger''), (4732, 17, ''ohmtrigger''), (4733, 6, ''resorcs''),
      (4737, 6, ''ipdr-sp''), (4737, 17, ''ipdr-sp''), (4738, 6, ''solera-lpn''), (4738, 17, ''solera-lpn''),
      (4739, 132, ''ipfix''), (4739, 6, ''ipfix''), (4739, 17, ''ipfix''), (4740, 132, ''ipfixs''),
      (4740, 6, ''ipfixs''), (4740, 17, ''ipfixs''), (4741, 6, ''lumimgrd''), (4741, 17, ''lumimgrd''),
      (4742, 6, ''sicct''), (4742, 17, ''sicct-sdp''), (4743, 6, ''openhpid''), (4743, 17, ''openhpid'')]"

lemma Services_55_ascend: "port_range 4567 4743 Services_55"
  unfolding Services_55_def port_range_def
  by (rule ascending_end ascending_same ascending_next, simp)+

end
