(* ===== verification/Service_Table3.thy ===== *)
theory Service_Table3
  imports Service_Base
begin

text \<open>
  The last part of the table \<^verbatim>\<open>Services\<close> of \<^verbatim>\<open>pkg/util/service/service.go\<close>, in groups of at most 149 entries that end
  where the port changes, each with the check that its ports ascend.
\<close>

definition Services_56 :: "service_entry list" where
  "Services_56 =
     [(4744, 6, ''ifsp''), (4744, 17, ''ifsp''), (4745, 6, ''fmp''), (4745, 17, ''fmp''),
      (4746, 6, ''intelliadm-disc''), (4747, 6, ''buschtrommel''), (4749, 6, ''profilemac''), (4749, 17, ''profilemac''),
      (4750, 6, ''ssad''), (4750, 17, ''ssad''), (4751, 6, ''spocp''), (4751, 17, ''spocp''),
      (4752, 6, ''snap''), (4752, 17, ''snap''), (4753, 6, ''simon''), (4754, 6, ''gre-in-udp''),
      (4755, 6, ''gre-udp-dtls''), (4756, 6, ''RDCenter''), (4774, 6, ''converge''), (4784, 6, ''bfd-multi-ctl''),
      (4784, 17, ''bfd-multi-ctl''), (4785, 6, ''cncp''), (4785, 17, ''cncp''), (4786, 6, ''smart-install''),
      (4787, 6, ''sia-ctrl-plane''), (4788, 6, ''xmcp''), (4789, 6, ''vxlan''), (4790, 6, ''vxlan-gpe''),
      (4791, 6, ''roce''), (4800, 6, ''iims''), (4800, 17, ''iims''), (4801, 6, ''iwec''),
      (4801, 17, ''iwec''), (4802, 6, ''ilss''), (4802, 17, ''ilss''), (4803, 6, ''notateit''),
      (4803, 17, ''notateit-disc''), (4804, 6, ''aja-ntv4-disc''), (4804, 17, ''aja-ntv4-disc''), (4827, 6, ''htcp''),
      (4827, 17, ''squid-htcp''), (4837, 6, ''varadero-0''), (4837, 17, ''varadero-0''), (4838, 6, ''varadero-1''),
      (4838, 17, ''varadero-1''), (4839, 6, ''varadero-2''), (4839, 17, ''varadero-2''), (4840, 6, ''opcua-tcp''),
      (4840, 17, ''opcua-udp''), (4841, 6, ''quosa''), (4841, 17, ''quosa''), (4842, 6, ''gw-asv''),
      (4842, 17, ''gw-asv''), (4843, 6, ''opcua-tls''), (4843, 17, ''opcua-tls''), (4844, 6, ''gw-log''),
      (4844, 17, ''gw-log''), (4845, 6, ''wcr-remlib''), (4845, 17, ''wcr-remlib''), (4846, 6, ''contamac_icm''),
      (4846, 17, ''contamac_icm''), (4847, 6, ''wfc''), (4847, 17, ''wfc''), (4848, 6, ''appserv-http''),
      (4848, 17, ''appserv-http''), (4849, 6, ''appserv-https''), (4849, 17, ''appserv-https''), (4850, 6, ''sun-as-nodeagt''),
      (4850, 17, ''sun-as-nodeagt''), (4851, 6, ''derby-repli''), (4851, 17, ''derby-repli''), (4867, 6, ''unify-debug''),
      (4867, 17, ''unify-debug''), (4868, 6, ''phrelay''), (4868, 17, ''phrelay''), (4869, 6, ''phrelaydbg''),
      (4869, 17, ''phrelaydbg''), (4870, 6, ''cc-tracking''), (4870, 17, ''cc-tracking''), (4871, 6, ''wired''),
      (4871, 17, ''wired''), (4876, 6, ''tritium-can''), (4877, 6, ''lmcs''), (4878, 6, ''inst-discovery''),
      (4879, 6, ''wsdl-event''), (4880, 6, ''hislip''), (4881, 6, ''socp-t''), (4881, 17, ''socp-t''),
      (4882, 6, ''socp-c''), (4882, 17, ''socp-c''), (4883, 6, ''wmlserver''), (4884, 6, ''hivestor''),
      (4884, 17, ''hivestor''), (4885, 6, ''abbs''), (4885, 17, ''abbs''), (4894, 6, ''lyskom''),
      (4894, 17, ''lyskom''), (4899, 6, ''radmin''), (4899, 17, ''radmin-port''), (4900, 6, ''hfcs''),
      (4900, 17, ''hfcs''), (4901, 6, ''flr_agent''), (4902, 6, ''magiccontrol''), (4912, 6, ''lutap''),
      (4913, 6, ''lutcp''), (4914, 6, ''bones''), (4914, 17, ''bones''), (4915, 6, ''frcs''),
      (4936, 6, ''an-signaling''), (4937, 6, ''atsc-mh-ssc''), (4937, 17, ''atsc-mh-ssc''), (4940, 6, ''eq-office-4940''),
      (4940, 17, ''eq-office-4940''), (4941, 6, ''eq-office-4941''), (4941, 17, ''eq-office-4941''), (4942, 6, ''eq-office-4942''),
      (4942, 17, ''eq-office-4942''), (4949, 6, ''munin''), (4949, 17, ''munin''), (4950, 6, ''sybasesrvmon''),
      (4950, 17, ''sybasesrvmon''), (4951, 6, ''pwgwims''), (4951, 17, ''pwgwims''), (4952, 6, ''sagxtsds''),
      (4952, 17, ''sagxtsds''), (4953, 6, ''dbsyncarbiter''), (4969, 6, ''ccss-qmm''), (4969, 17, ''ccss-qmm''),
      (4970, 6, ''ccss-qsm''), (4970, 17, ''ccss-qsm''), (4971, 6, ''burp''), (4980, 6, ''ctxs-vpp''),
      (4984, 6, ''webyast''), (4985, 6, ''gerhcs''), (4986, 6, ''mrip''), (4986, 17, ''mrip''),
      (4987, 6, ''maybe-veritas''), (4987, 17, ''smar-se-port1''), (4988, 6, ''smar-se-port2''), (4988, 17, ''smar-se-port2''),
      (4989, 6, ''parallel''), (4989, 17, ''parallel''), (4990, 6, ''busycal''), (4990, 17, ''busycal''),
      (4991, 6, ''vrt''), (4991, 17, ''vrt''), (4998, 6, ''maybe-veritas''), (4999, 6, ''hfcs-manager''),
      (4999, 17, ''hfcs-manager'')]"

lemma Services_56_ascend: "port_range 4744 4999 Services_56"
  unfolding Services_56_def port_range_def
  by (rule ascending_end ascending_same ascending_next, simp)+

definition Services_57 :: "service_entry list" where
  "Services_57 =
     [(5000, 6, ''upnp''), (5000, 17, ''upnp''), (5001, 6, ''commplex-link''), (5001, 17, ''commplex-link''),
      (5002, 6, ''rfe''), (5002, 17, ''rfe''), (5003, 6, ''filemaker''), (5003, 17, ''filemaker''),
      (5004, 6, ''avt-profile-1''), (5004, 17, ''avt-profile-1''), (5005, 6, ''avt-profile-2''), (5005, 17, ''avt-profile-2''),
      (5006, 6, ''wsm-server''), (5006, 17, ''wsm-server''), (5007, 6, ''wsm-server-ssl''), (5007, 17, ''wsm-server-ssl''),
      (5008, 6, ''synapsis-edge''), (5008, 17, ''synapsis-edge''), (5009, 6, ''airport-admin''), (5009, 17, ''winfs''),
      (5010, 6, ''telelpathstart''), (5010, 17, ''telelpathstart''), (5011, 6, ''telelpathattack''), (5011, 17, ''telelpathattack''),
      (5012, 6, ''nsp''), (5012, 17, ''nsp''), (5013, 6, ''fmpro-v6''), (5013, 17, ''fmpro-v6''),
      (5014, 6, ''onpsocket''), (5014, 17, ''onpsocket''), (5015, 6, ''fmwp''), (5020, 6, ''zenginkyo-1''),
      (5020, 17, ''zenginkyo-1''), (5021, 6, ''zenginkyo-2''), (5021, 17, ''zenginkyo-2''), (5022, 6, ''mice''),
      (5022, 17, ''mice''), (5023, 6, ''htuilsrv''), (5023, 17, ''htuilsrv''), (5024, 6, ''scpi-telnet''),
      (5024, 17, ''scpi-telnet''), (5025, 6, ''scpi-raw''), (5025, 17, ''scpi-raw''), (5026, 6, ''strexec-d''),
      (5026, 17, ''strexec-d''), (5027, 6, ''strexec-s''), (5027, 17, ''strexec-s''), (5028, 6, ''qvr''),
      (5029, 6, ''infobright''), (5029, 17, ''infobright''), (5030, 6, ''surfpass''), (5030, 17, ''surfpass''),
      (5031, 6, ''dmp''), (5031, 17, ''dmp''), (5032, 6, ''signacert-agent''), (5033, 6, ''jtnetd-server''),
      (5034, 6, ''jtnetd-status''), (5042, 6, ''asnaacceler8db''), (5042, 17, ''asnaacceler8db''), (5043, 6, ''swxadmin''),
      (5043, 17, ''swxadmin''), (5044, 6, ''lxi-evntsvc''), (5044, 17, ''lxi-evntsvc''), (5045, 6, ''osp''),
      (5046, 6, ''vpm-udp''), (5046, 17, ''vpm-udp''), (5047, 6, ''iscape''), (5047, 17, ''iscape''),
      (5048, 6, ''texai''), (5049, 6, ''ivocalize''), (5049, 17, ''ivocalize''), (5050, 6, ''mmcc''),
      (5050, 17, ''mmcc''), (5051, 6, ''ida-agent''), (5051, 17, ''ita-agent''), (5052, 6, ''ita-manager''),
      (5052, 17, ''ita-manager''), (5053, 6, ''rlm''), (5054, 6, ''rlm-admin''), (5055, 6, ''unot''),
      (5055, 17, ''unot''), (5056, 6, ''intecom-ps1''), (5056, 17, ''intecom-ps1''), (5057, 6, ''intecom-ps2''),
      (5057, 17, ''intecom-ps2''), (5058, 6, ''locus-disc''), (5058, 17, ''locus-disc''), (5059, 6, ''sds''),
      (5059, 17, ''sds''), (5060, 132, ''sip''), (5060, 6, ''sip''), (5060, 17, ''sip''),
      (5061, 132, ''sip-tls''), (5061, 6, ''sip-tls''), (5061, 17, ''sip-tls''), (5062, 6, ''na-localise''),
      (5062, 17, ''na-localise''), (5063, 6, ''csrpc''), (5064, 6, ''ca-1''), (5064, 17, ''ca-1''),
      (5065, 6, ''ca-2''), (5065, 17, ''ca-2''), (5066, 6, ''stanag-5066''), (5066, 17, ''stanag-5066''),
      (5067, 6, ''authentx''), (5067, 17, ''authentx''), (5068, 6, ''bitforestsrv''), (5069, 6, ''i-net-2000-npr''),
      (5069, 17, ''i-net-2000-npr''), (5070, 6, ''vtsas''), (5070, 17, ''vtsas''), (5071, 6, ''powerschool''),
      (5071, 17, ''powerschool''), (5072, 6, ''ayiya''), (5072, 17, ''ayiya''), (5073, 6, ''tag-pm''),
      (5073, 17, ''tag-pm''), (5074, 6, ''alesquery''), (5074, 17, ''alesquery''), (5075, 6, ''pvaccess''),
      (5078, 6, ''pixelpusher''), (5079, 6, ''cp-spxrpts''), (5079, 17, ''cp-spxrpts''), (5080, 6, ''onscreen''),
      (5080, 17, ''onscreen''), (5081, 6, ''sdl-ets''), (5081, 17, ''sdl-ets''), (5082, 6, ''qcp''),
      (5082, 17, ''qcp''), (5083, 6, ''qfp''), (5083, 17, ''qfp''), (5084, 6, ''llrp''),
      (5084, 17, ''llrp''), (5085, 6, ''encrypted-llrp''), (5085, 17, ''encrypted-llrp''), (5086, 6, ''aprigo-cs''),
      (5087, 6, ''biotic''), (5090, 132, ''car''), (5091, 132, ''cxtp''), (5092, 6, ''magpie''),
      (5092, 17, ''magpie''), (5093, 6, ''sentinel-lm''), (5093, 17, ''sentinel-lm''), (5094, 6, ''hart-ip''),
      (5094, 17, ''hart-ip''), (5099, 6, ''sentlm-srv2srv''), (5099, 17, ''sentlm-srv2srv''), (5100, 6, ''admd''),
      (5100, 17, ''socalia'')]"

lemma Services_57_ascend: "port_range 5000 5100 Services_57"
  unfolding Services_57_def port_range_def
  by (rule ascending_end ascending_same ascending_next, simp)+

definition Services_58 :: "service_entry list" where
  "Services_58 =
     [(5101, 6, ''admdog''), (5101, 17, ''talarian-udp''), (5102, 6, ''admeng''), (5102, 17, ''oms-nonsecure''),
      (5103, 6, ''actifio-c2c''), (5104, 6, ''tinymessage''), (5104, 17, ''tinymessage''), (5105, 6, ''hughes-ap''),
      (5105, 17, ''hughes-ap''), (5106, 6, ''actifioudsagent''), (5107, 6, ''actifioreplic''), (5111, 6, ''taep-as-svc''),
      (5111, 17, ''taep-as-svc''), (5112, 6, ''pm-cmdsvr''), (5112, 17, ''pm-cmdsvr''), (5114, 6, ''ev-services''),
      (5115, 6, ''autobuild''), (5116, 6, ''emb-proj-cmd''), (5116, 17, ''emb-proj-cmd''), (5117, 6, ''gradecam''),
      (5120, 6, ''barracuda-bbs''), (5133, 6, ''nbt-pc''), (5133, 17, ''nbt-pc''), (5134, 6, ''ppactivation''),
      (5135, 6, ''erp-scale''), (5136, 6, ''minotaur-sa''), (5136, 17, ''minotaur-sa''), (5137, 6, ''ctsd''),
      (5137, 17, ''ctsd''), (5145, 6, ''rmonitor_secure''), (5145, 17, ''rmonitor_secure''), (5146, 6, ''social-alarm''),
      (5150, 6, ''atmp''), (5150, 17, ''atmp''), (5151, 6, ''esri_sde''), (5151, 17, ''esri_sde''),
      (5152, 6, ''sde-discovery''), (5152, 17, ''sde-discovery''), (5153, 6, ''toruxserver''), (5154, 6, ''bzflag''),
      (5154, 17, ''bzflag''), (5155, 6, ''asctrl-agent''), (5155, 17, ''asctrl-agent''), (5156, 6, ''rugameonline''),
      (5157, 6, ''mediat''), (5161, 6, ''snmpssh''), (5162, 6, ''snmpssh-trap''), (5163, 6, ''sbackup''),
      (5164, 6, ''vpa''), (5164, 17, ''vpa-disc''), (5165, 6, ''ife_icorp''), (5165, 17, ''ife_icorp''),
      (5166, 6, ''winpcs''), (5166, 17, ''winpcs''), (5167, 6, ''scte104''), (5167, 17, ''scte104''),
      (5168, 6, ''scte30''), (5168, 17, ''scte30''), (5172, 6, ''pcoip-mgmt''), (5190, 6, ''aol''),
      (5190, 17, ''aol''), (5191, 6, ''aol-1''), (5191, 17, ''aol-1''), (5192, 6, ''aol-2''),
      (5192, 17, ''aol-2''), (5193, 6, ''aol-3''), (5193, 17, ''aol-3''), (5194, 6, ''cpscomm''),
      (5195, 6, ''ampl-lic''), (5196, 6, ''ampl-tableproxy''), (5197, 6, ''tunstall-lwp''), (5200, 6, ''targus-getdata''),
      (5200, 17, ''targus-getdata''), (5201, 6, ''targus-getdata1''), (5201, 17, ''targus-getdata1''), (5202, 6, ''targus-getdata2''),
      (5202, 17, ''targus-getdata2''), (5203, 6, ''targus-getdata3''), (5203, 17, ''targus-getdata3''), (5209, 6, ''nomad''),
      (5215, 6, ''noteza''), (5221, 6, ''3exmp''), (5222, 6, ''xmpp-client''), (5222, 17, ''xmpp-client''),
      (5223, 6, ''hpvirtgrp''), (5223, 17, ''hpvirtgrp''), (5224, 6, ''hpvirtctrl''), (5224, 17, ''hpvirtctrl''),
      (5225, 6, ''hp-server''), (5225, 17, ''hp-server''), (5226, 6, ''hp-status''), (5226, 17, ''hp-status''),
      (5227, 6, ''perfd''), (5227, 17, ''perfd''), (5228, 6, ''hpvroom''), (5229, 6, ''jaxflow''),
      (5230, 6, ''jaxflow-data''), (5231, 6, ''crusecontrol''), (5232, 6, ''sgi-dgl''), (5233, 6, ''enfs''),
      (5234, 6, ''eenet''), (5234, 17, ''eenet''), (5235, 6, ''galaxy-network''), (5235, 17, ''galaxy-network''),
      (5236, 6, ''padl2sim''), (5236, 17, ''padl2sim''), (5237, 6, ''mnet-discovery''), (5237, 17, ''mnet-discovery''),
      (5245, 6, ''downtools''), (5245, 17, ''downtools-disc''), (5246, 6, ''capwap-control''), (5246, 17, ''capwap-control''),
      (5247, 6, ''capwap-data''), (5247, 17, ''capwap-data''), (5248, 6, ''caacws''), (5248, 17, ''caacws''),
      (5249, 6, ''caaclang2''), (5249, 17, ''caaclang2''), (5250, 6, ''soagateway''), (5250, 17, ''soagateway''),
      (5251, 6, ''caevms''), (5251, 17, ''caevms''), (5252, 6, ''movaz-ssc''), (5252, 17, ''movaz-ssc''),
      (5253, 6, ''kpdp''), (5254, 6, ''logcabin''), (5264, 6, ''3com-njack-1''), (5264, 17, ''3com-njack-1''),
      (5265, 6, ''3com-njack-2''), (5265, 17, ''3com-njack-2''), (5269, 6, ''xmpp-server''), (5269, 17, ''xmpp-server''),
      (5270, 6, ''xmp''), (5270, 17, ''xmp''), (5271, 6, ''cuelink''), (5271, 17, ''cuelink-disc''),
      (5272, 6, ''pk''), (5272, 17, ''pk''), (5280, 6, ''xmpp-bosh''), (5281, 6, ''undo-lm''),
      (5282, 6, ''transmit-port''), (5282, 17, ''transmit-port''), (5298, 6, ''presence''), (5298, 17, ''presence''),
      (5299, 6, ''nlg-data''), (5299, 17, ''nlg-data''), (5300, 6, ''hacl-hb''), (5300, 17, ''hacl-hb'')]"

lemma Services_58_ascend: "port_range 5101 5300 Services_58"
  unfolding Services_58_def port_range_def
  by (rule ascending_end ascending_same ascending_next, simp)+

definition Services_59 :: "service_entry list" where
  "Services_59 =
     [(5301, 6, ''hacl-gs''), (5301, 17, ''hacl-gs''), (5302, 6, ''hacl-cfg''), (5302, 17, ''hacl-cfg''),
      (5303, 6, ''hacl-probe''), (5303, 17, ''hacl-probe''), (5304, 6, ''hacl-local''), (5304, 17, ''hacl-local''),
      (5305, 6, ''hacl-test''), (5305, 17, ''hacl-test''), (5306, 6, ''sun-mc-grp''), (5306, 17, ''sun-mc-grp''),
      (5307, 6, ''sco-aip''), (5307, 17, ''sco-aip''), (5308, 6, ''cfengine''), (5308, 17, ''cfengine''),
      (5309, 6, ''jprinter''), (5309, 17, ''jprinter''), (5310, 6, ''outlaws''), (5310, 17, ''outlaws''),
      (5312, 6, ''permabit-cs''), (5312, 17, ''permabit-cs''), (5313, 6, ''rrdp''), (5313, 17, ''rrdp''),
      (5314, 6, ''opalis-rbt-ipc''), (5314, 17, ''opalis-rbt-ipc''), (5315, 6, ''hacl-poll''), (5315, 17, ''hacl-poll''),
      (5316, 6, ''hpdevms''), (5316, 17, ''hpdevms''), (5317, 6, ''hpdevms''), (5318, 6, ''pkix-cmc''),
      (5320, 6, ''bsfserver-zn''), (5321, 6, ''bsfsvr-zn-ssl''), (5343, 6, ''kfserver''), (5343, 17, ''kfserver''),
      (5344, 6, ''xkotodrcp''), (5344, 17, ''xkotodrcp''), (5349, 6, ''stuns''), (5349, 17, ''stuns''),
      (5350, 6, ''nat-pmp-status''), (5350, 17, ''nat-pmp-status''), (5351, 6, ''nat-pmp''), (5351, 17, ''nat-pmp''),
      (5352, 6, ''dns-llq''), (5352, 17, ''dns-llq''), (5353, 6, ''mdns''), (5353, 17, ''zeroconf''),
      (5354, 6, ''mdnsresponder''), (5354, 17, ''mdnsresponder''), (5355, 6, ''llmnr''), (5355, 17, ''llmnr''),
      (5356, 6, ''ms-smlbiz''), (5356, 17, ''ms-smlbiz''), (5357, 6, ''wsdapi''), (5357, 17, ''wsdapi''),
      (5358, 6, ''wsdapi-s''), (5358, 17, ''wsdapi-s''), (5359, 6, ''ms-alerter''), (5359, 17, ''ms-alerter''),
      (5360, 6, ''ms-sideshow''), (5360, 17, ''ms-sideshow''), (5361, 6, ''ms-s-sideshow''), (5361, 17, ''ms-s-sideshow''),
      (5362, 6, ''serverwsd2''), (5362, 17, ''serverwsd2''), (5363, 6, ''net-projection''), (5363, 17, ''net-projection''),
      (5364, 6, ''kdnet''), (5397, 6, ''stresstester''), (5397, 17, ''stresstester''), (5398, 6, ''elektron-admin''),
      (5398, 17, ''elektron-admin''), (5399, 6, ''securitychase''), (5399, 17, ''securitychase''), (5400, 6, ''pcduo-old''),
      (5400, 17, ''excerpt''), (5401, 6, ''excerpts''), (5401, 17, ''excerpts''), (5402, 6, ''mftp''),
      (5402, 17, ''mftp''), (5403, 6, ''hpoms-ci-lstn''), (5403, 17, ''hpoms-ci-lstn''), (5404, 6, ''hpoms-dps-lstn''),
      (5404, 17, ''hpoms-dps-lstn''), (5405, 6, ''pcduo''), (5405, 17, ''netsupport''), (5406, 6, ''systemics-sox''),
      (5406, 17, ''systemics-sox''), (5407, 6, ''foresyte-clear''), (5407, 17, ''foresyte-clear''), (5408, 6, ''foresyte-sec''),
      (5408, 17, ''foresyte-sec''), (5409, 6, ''salient-dtasrv''), (5409, 17, ''salient-dtasrv''), (5410, 6, ''salient-usrmgr''),
      (5410, 17, ''salient-usrmgr''), (5411, 6, ''actnet''), (5411, 17, ''actnet''), (5412, 6, ''continuus''),
      (5412, 17, ''continuus''), (5413, 6, ''wwiotalk''), (5413, 17, ''wwiotalk''), (5414, 6, ''statusd''),
      (5414, 17, ''statusd''), (5415, 6, ''ns-server''), (5415, 17, ''ns-server''), (5416, 6, ''sns-gateway''),
      (5416, 17, ''sns-gateway''), (5417, 6, ''sns-agent''), (5417, 17, ''sns-agent''), (5418, 6, ''mcntp''),
      (5418, 17, ''mcntp''), (5419, 6, ''dj-ice''), (5419, 17, ''dj-ice''), (5420, 6, ''cylink-c''),
      (5420, 17, ''cylink-c''), (5421, 6, ''netsupport2''), (5421, 17, ''netsupport2''), (5422, 6, ''salient-mux''),
      (5422, 17, ''salient-mux''), (5423, 6, ''virtualuser''), (5423, 17, ''virtualuser''), (5424, 6, ''beyond-remote''),
      (5424, 17, ''beyond-remote''), (5425, 6, ''br-channel''), (5425, 17, ''br-channel''), (5426, 6, ''devbasic''),
      (5426, 17, ''devbasic''), (5427, 6, ''sco-peer-tta''), (5427, 17, ''sco-peer-tta''), (5428, 6, ''telaconsole''),
      (5428, 17, ''omid''), (5429, 6, ''base''), (5429, 17, ''base''), (5430, 6, ''radec-corp''),
      (5430, 17, ''radec-corp''), (5431, 6, ''park-agent''), (5431, 17, ''park-agent''), (5432, 6, ''postgresql''),
      (5432, 17, ''postgresql''), (5433, 6, ''pyrrho''), (5433, 17, ''pyrrho''), (5434, 6, ''sgi-arrayd''),
      (5434, 17, ''sgi-arrayd''), (5435, 6, ''sceanics''), (5435, 17, ''sceanics''), (5436, 6, ''pmip6-cntl''),
      (5436, 17, ''pmip6-cntl'')]"

lemma Services_59_ascend: "port_range 5301 5436 Services_59"
  unfolding Services_59_def port_range_def
  by (rule ascending_end ascending_same ascending_next, simp)+

definition Services_60 :: "service_entry list" where
  "Services_60 =
     [(5437, 6, ''pmip6-data''), (5437, 17, ''pmip6-data''), (5443, 6, ''spss''), (5443, 17, ''spss''),
      (5445, 6, ''smbdirect''), (5450, 6, ''tiepie''), (5453, 6, ''surebox''), (5453, 17, ''surebox''),
      (5454, 6, ''apc-5454''), (5454, 17, ''apc-5454''), (5455, 6, ''apc-5455''), (5455, 17, ''apc-5455''),
      (5456, 6, ''apc-5456''), (5456, 17, ''apc-5456''), (5461, 6, ''silkmeter''), (5461, 17, ''silkmeter''),
      (5462, 6, ''ttl-publisher''), (5462, 17, ''ttl-publisher''), (5463, 6, ''ttlpriceproxy''), (5463, 17, ''ttlpriceproxy''),
      (5464, 6, ''quailnet''), (5464, 17, ''quailnet''), (5465, 6, ''netops-broker''), (5465, 17, ''netops-broker''),
      (5470, 6, ''apsolab-col''), (5471, 6, ''apsolab-cols''), (5472, 6, ''apsolab-tag''), (5473, 6, ''apsolab-tags''),
      (5474, 6, ''apsolab-rpc''), (5475, 6, ''apsolab-data''), (5490, 6, ''connect-proxy''), (5500, 6, ''hotline''),
      (5500, 17, ''securid''), (5501, 6, ''fcp-addr-srvr2''), (5501, 17, ''fcp-addr-srvr2''), (5502, 6, ''fcp-srvr-inst1''),
      (5502, 17, ''fcp-srvr-inst1''), (5503, 6, ''fcp-srvr-inst2''), (5503, 17, ''fcp-srvr-inst2''), (5504, 6, ''fcp-cics-gw1''),
      (5504, 17, ''fcp-cics-gw1''), (5505, 6, ''checkoutdb''), (5505, 17, ''checkoutdb''), (5506, 6, ''amc''),
      (5506, 17, ''amc''), (5507, 6, ''psl-management''), (5510, 6, ''secureidprop''), (5520, 6, ''sdlog''),
      (5530, 6, ''sdserv''), (5540, 6, ''sdreport''), (5540, 17, ''sdxauthd''), (5550, 6, ''sdadmind''),
      (5553, 6, ''sgi-eventmond''), (5553, 17, ''sgi-eventmond''), (5554, 6, ''sgi-esphttp''), (5554, 17, ''sgi-esphttp''),
      (5555, 6, ''freeciv''), (5555, 17, ''rplay''), (5556, 6, ''freeciv''), (5556, 17, ''freeciv''),
      (5557, 6, ''farenet''), (5560, 6, ''isqlplus''), (5565, 6, ''hpe-dp-bura''), (5566, 6, ''westec-connect''),
      (5567, 6, ''m-oap''), (5567, 17, ''m-oap''), (5568, 6, ''sdt''), (5568, 17, ''sdt''),
      (5569, 6, ''rdmnet-ctrl''), (5573, 6, ''sdmmp''), (5573, 17, ''sdmmp''), (5574, 6, ''lsi-bobcat''),
      (5575, 6, ''ora-oap''), (5579, 6, ''fdtracks''), (5580, 6, ''tmosms0''), (5580, 17, ''tmosms0''),
      (5581, 6, ''tmosms1''), (5581, 17, ''tmosms1''), (5582, 6, ''fac-restore''), (5582, 17, ''fac-restore''),
      (5583, 6, ''tmo-icon-sync''), (5583, 17, ''tmo-icon-sync''), (5584, 6, ''bis-web''), (5584, 17, ''bis-web''),
      (5585, 6, ''bis-sync''), (5585, 17, ''bis-sync''), (5586, 6, ''att-mt-sms''), (5597, 6, ''ininmessaging''),
      (5597, 17, ''ininmessaging''), (5598, 6, ''mctfeed''), (5598, 17, ''mctfeed''), (5599, 6, ''esinstall''),
      (5599, 17, ''esinstall''), (5600, 6, ''esmmanager''), (5600, 17, ''esmmanager''), (5601, 6, ''esmagent''),
      (5601, 17, ''esmagent''), (5602, 6, ''a1-msc''), (5602, 17, ''a1-msc''), (5603, 6, ''a1-bs''),
      (5603, 17, ''a1-bs''), (5604, 6, ''a3-sdunode''), (5604, 17, ''a3-sdunode''), (5605, 6, ''a4-sdunode''),
      (5605, 17, ''a4-sdunode''), (5618, 6, ''efr''), (5627, 6, ''ninaf''), (5627, 17, ''ninaf''),
      (5628, 6, ''htrust''), (5628, 17, ''htrust''), (5629, 6, ''symantec-sfdb''), (5629, 17, ''symantec-sfdb''),
      (5630, 6, ''precise-comm''), (5630, 17, ''precise-comm''), (5631, 6, ''pcanywheredata''), (5631, 17, ''pcanywheredata''),
      (5632, 6, ''pcanywherestat''), (5632, 17, ''pcanywherestat''), (5633, 6, ''beorl''), (5633, 17, ''beorl''),
      (5634, 6, ''xprtld''), (5634, 17, ''xprtld''), (5635, 6, ''sfmsso''), (5636, 6, ''sfm-db-server''),
      (5637, 6, ''cssc''), (5638, 6, ''flcrs''), (5639, 6, ''ics''), (5646, 6, ''vfmobile''),
      (5666, 6, ''nrpe''), (5670, 6, ''filemq''), (5671, 6, ''amqps''), (5671, 17, ''amqps''),
      (5672, 132, ''amqp''), (5672, 6, ''amqp''), (5672, 17, ''amqp''), (5673, 6, ''jms''),
      (5673, 17, ''jms''), (5674, 6, ''hyperscsi-port''), (5674, 17, ''hyperscsi-port''), (5675, 132, ''v5ua''),
      (5675, 6, ''v5ua''), (5675, 17, ''v5ua''), (5676, 6, ''raadmin''), (5676, 17, ''raadmin''),
      (5677, 6, ''questdb2-lnchr''), (5677, 17, ''questdb2-lnchr''), (5678, 6, ''rrac''), (5678, 17, ''rrac'')]"

lemma Services_60_ascend: "port_range 5437 5678 Services_60"
  unfolding Services_60_def port_range_def
  by (rule ascending_end ascending_same ascending_next, simp)+

definition Services_61 :: "service_entry list" where
  "Services_61 =
     [(5679, 6, ''activesync''), (5679, 17, ''dccm''), (5680, 6, ''canna''), (5680, 17, ''auriga-router''),
      (5681, 6, ''ncxcp''), (5681, 17, ''ncxcp''), (5682, 6, ''brightcore''), (5682, 17, ''brightcore''),
      (5683, 6, ''coap''), (5683, 17, ''coap''), (5684, 6, ''coaps''), (5684, 17, ''coaps''),
      (5687, 6, ''gog-multiplayer''), (5688, 6, ''ggz''), (5688, 17, ''ggz''), (5689, 6, ''qmvideo''),
      (5689, 17, ''qmvideo''), (5693, 6, ''rbsystem''), (5696, 6, ''kmip''), (5700, 6, ''supportassist''),
      (5705, 6, ''storageos''), (5713, 6, ''proshareaudio''), (5713, 17, ''proshareaudio''), (5714, 6, ''prosharevideo''),
      (5714, 17, ''prosharevideo''), (5715, 6, ''prosharedata''), (5715, 17, ''prosharedata''), (5716, 6, ''prosharerequest''),
      (5716, 17, ''prosharerequest''), (5717, 6, ''prosharenotify''), (5717, 17, ''prosharenotify''), (5718, 6, ''dpm''),
      (5718, 17, ''dpm''), (5719, 6, ''dpm-agent''), (5719, 17, ''dpm-agent''), (5720, 6, ''ms-licensing''),
      (5720, 17, ''ms-licensing''), (5721, 6, ''dtpt''), (5721, 17, ''dtpt''), (5722, 6, ''msdfsr''),
      (5722, 17, ''msdfsr''), (5723, 6, ''omhs''), (5723, 17, ''omhs''), (5724, 6, ''omsdk''),
      (5724, 17, ''omsdk''), (5725, 6, ''ms-ilm''), (5726, 6, ''ms-ilm-sts''), (5727, 6, ''asgenf''),
      (5728, 6, ''io-dist-data''), (5728, 17, ''io-dist-group''), (5729, 6, ''openmail''), (5729, 17, ''openmail''),
      (5730, 6, ''unieng''), (5730, 17, ''unieng''), (5741, 6, ''ida-discover1''), (5741, 17, ''ida-discover1''),
      (5742, 6, ''ida-discover2''), (5742, 17, ''ida-discover2''), (5743, 6, ''watchdoc-pod''), (5743, 17, ''watchdoc-pod''),
      (5744, 6, ''watchdoc''), (5744, 17, ''watchdoc''), (5745, 6, ''fcopy-server''), (5745, 17, ''fcopy-server''),
      (5746, 6, ''fcopys-server''), (5746, 17, ''fcopys-server''), (5747, 6, ''tunatic''), (5747, 17, ''tunatic''),
      (5748, 6, ''tunalyzer''), (5748, 17, ''tunalyzer''), (5750, 6, ''rscd''), (5750, 17, ''rscd''),
      (5755, 6, ''openmailg''), (5755, 17, ''openmailg''), (5757, 6, ''x500ms''), (5757, 17, ''x500ms''),
      (5766, 6, ''openmailns''), (5766, 17, ''openmailns''), (5767, 6, ''s-openmail''), (5767, 17, ''s-openmail''),
      (5768, 6, ''openmailpxy''), (5768, 17, ''openmailpxy''), (5769, 6, ''spramsca''), (5769, 17, ''spramsca''),
      (5770, 6, ''spramsd''), (5770, 17, ''spramsd''), (5771, 6, ''netagent''), (5771, 17, ''netagent''),
      (5777, 6, ''dali-port''), (5777, 17, ''dali-port''), (5780, 6, ''vts-rpc''), (5781, 6, ''3par-evts''),
      (5781, 17, ''3par-evts''), (5782, 6, ''3par-mgmt''), (5782, 17, ''3par-mgmt''), (5783, 6, ''3par-mgmt-ssl''),
      (5783, 17, ''3par-mgmt-ssl''), (5784, 6, ''ibar''), (5784, 17, ''ibar''), (5785, 6, ''3par-rcopy''),
      (5785, 17, ''3par-rcopy''), (5786, 6, ''cisco-redu''), (5786, 17, ''cisco-redu''), (5787, 6, ''waascluster''),
      (5793, 6, ''xtreamx''), (5793, 17, ''xtreamx''), (5794, 6, ''spdp''), (5794, 17, ''spdp''),
      (5800, 6, ''vnc-http''), (5801, 6, ''vnc-http-1''), (5802, 6, ''vnc-http-2''), (5803, 6, ''vnc-http-3''),
      (5813, 6, ''icmpd''), (5813, 17, ''icmpd''), (5814, 6, ''spt-automation''), (5814, 17, ''spt-automation''),
      (5841, 6, ''shiprush-d-ch''), (5842, 6, ''reversion''), (5859, 6, ''wherehoo''), (5859, 17, ''wherehoo''),
      (5863, 6, ''ppsuitemsg''), (5863, 17, ''ppsuitemsg''), (5868, 6, ''diameters''), (5883, 6, ''jute''),
      (5900, 6, ''vnc''), (5900, 17, ''rfb''), (5901, 6, ''vnc-1''), (5902, 6, ''vnc-2''),
      (5903, 6, ''vnc-3''), (5910, 6, ''cm''), (5910, 17, ''cm''), (5911, 6, ''cpdlc''),
      (5911, 17, ''cpdlc''), (5912, 6, ''fis''), (5912, 17, ''fis''), (5913, 6, ''ads-c''),
      (5913, 17, ''ads-c''), (5938, 6, ''teamviewer''), (5963, 6, ''indy''), (5963, 17, ''indy''),
      (5968, 6, ''mppolicy-v5''), (5968, 17, ''mppolicy-v5''), (5969, 6, ''mppolicy-mgr''), (5969, 17, ''mppolicy-mgr''),
      (5977, 6, ''ncd-pref-tcp''), (5978, 6, ''ncd-diag-tcp''), (5979, 6, ''ncd-conf-tcp''), (5984, 6, ''couchdb''),
      (5984, 17, ''couchdb'')]"

lemma Services_61_ascend: "port_range 5679 5984 Services_61"
  unfolding Services_61_def port_range_def
  by (rule ascending_end ascending_same ascending_next, simp)+

definition Services_62 :: "service_entry list" where
  "Services_62 =
     [(5985, 6, ''wsman''), (5985, 17, ''wsman''), (5986, 6, ''wsmans''), (5986, 17, ''wsmans''),
      (5987, 6, ''wbem-rmi''), (5987, 17, ''wbem-rmi''), (5988, 6, ''wbem-http''), (5988, 17, ''wbem-http''),
      (5989, 6, ''wbem-https''), (5989, 17, ''wbem-https''), (5990, 6, ''wbem-exp-https''), (5990, 17, ''wbem-exp-https''),
      (5991, 6, ''nuxsl''), (5991, 17, ''nuxsl''), (5992, 6, ''consul-insight''), (5992, 17, ''consul-insight''),
      (5993, 6, ''cim-rs''), (5997, 6, ''ncd-pref''), (5998, 6, ''ncd-diag''), (5999, 6, ''ncd-conf''),
      (5999, 17, ''cvsup''), (6000, 6, ''X11''), (6000, 17, ''X11''), (6001, 6, ''X11:1''),
      (6001, 17, ''X11:1''), (6002, 6, ''X11:2''), (6002, 17, ''X11:2''), (6003, 6, ''X11:3''),
      (6003, 17, ''X11:3''), (6004, 6, ''X11:4''), (6004, 17, ''X11:4''), (6005, 6, ''X11:5''),
      (6005, 17, ''X11:5''), (6006, 6, ''X11:6''), (6006, 17, ''X11:6''), (6007, 6, ''X11:7''),
      (6007, 17, ''X11:7''), (6008, 6, ''X11:8''), (6008, 17, ''X11:8''), (6009, 6, ''X11:9''),
      (6009, 17, ''X11:9''), (6010, 6, ''x11''), (6010, 17, ''x11''), (6011, 6, ''x11''),
      (6011, 17, ''x11''), (6012, 6, ''x11''), (6012, 17, ''x11''), (6013, 6, ''x11''),
      (6013, 17, ''x11''), (6014, 6, ''x11''), (6014, 17, ''x11''), (6015, 6, ''x11''),
      (6015, 17, ''x11''), (6016, 6, ''x11''), (6016, 17, ''x11''), (6017, 6, ''xmail-ctrl''),
      (6017, 17, ''x11''), (6018, 6, ''x11''), (6018, 17, ''x11''), (6019, 6, ''x11''),
      (6019, 17, ''x11''), (6020, 6, ''x11''), (6020, 17, ''x11''), (6021, 6, ''x11''),
      (6021, 17, ''x11''), (6022, 6, ''x11''), (6022, 17, ''x11''), (6023, 6, ''x11''),
      (6023, 17, ''x11''), (6024, 6, ''x11''), (6024, 17, ''x11''), (6025, 6, ''x11''),
      (6025, 17, ''x11''), (6026, 6, ''x11''), (6026, 17, ''x11''), (6027, 6, ''x11''),
      (6027, 17, ''x11''), (6028, 6, ''x11''), (6028, 17, ''x11''), (6029, 6, ''x11''),
      (6029, 17, ''x11''), (6030, 6, ''x11''), (6030, 17, ''x11''), (6031, 6, ''x11''),
      (6031, 17, ''x11''), (6032, 6, ''x11''), (6032, 17, ''x11''), (6033, 6, ''x11''),
      (6033, 17, ''x11''), (6034, 6, ''x11''), (6034, 17, ''x11''), (6035, 6, ''x11''),
      (6035, 17, ''x11''), (6036, 6, ''x11''), (6036, 17, ''x11''), (6037, 6, ''x11''),
      (6037, 17, ''x11''), (6038, 6, ''x11''), (6038, 17, ''x11''), (6039, 6, ''x11''),
      (6039, 17, ''x11''), (6040, 6, ''x11''), (6040, 17, ''x11''), (6041, 6, ''x11''),
      (6041, 17, ''x11''), (6042, 6, ''x11''), (6042, 17, ''x11''), (6043, 6, ''x11''),
      (6043, 17, ''x11''), (6044, 6, ''x11''), (6044, 17, ''x11''), (6045, 6, ''x11''),
      (6045, 17, ''x11''), (6046, 6, ''x11''), (6046, 17, ''x11''), (6047, 6, ''x11''),
      (6047, 17, ''x11''), (6048, 6, ''x11''), (6048, 17, ''x11''), (6049, 6, ''x11''),
      (6049, 17, ''x11''), (6050, 6, ''arcserve''), (6050, 17, ''x11''), (6051, 6, ''x11''),
      (6051, 17, ''x11''), (6052, 6, ''x11''), (6052, 17, ''x11''), (6053, 6, ''x11''),
      (6053, 17, ''x11''), (6054, 6, ''x11''), (6054, 17, ''x11''), (6055, 6, ''x11''),
      (6055, 17, ''x11''), (6056, 6, ''x11''), (6056, 17, ''x11''), (6057, 6, ''x11''),
      (6057, 17, ''x11''), (6058, 6, ''x11''), (6058, 17, ''x11''), (6059, 6, ''X11:59''),
      (6059, 17, ''X11:59''), (6060, 6, ''x11''), (6060, 17, ''x11''), (6061, 6, ''x11''),
      (6061, 17, ''x11''), (6062, 6, ''x11''), (6062, 17, ''x11''), (6063, 6, ''x11''),
      (6063, 17, ''x11'')]"

lemma Services_62_ascend: "port_range 5985 6063 Services_62"
  unfolding Services_62_def port_range_def
  by (rule ascending_end ascending_same ascending_next, simp)+

definition Services_63 :: "service_entry list" where
  "Services_63 =
     [(6064, 6, ''ndl-ahp-svc''), (6064, 17, ''ndl-ahp-svc''), (6065, 6, ''winpharaoh''), (6065, 17, ''winpharaoh''),
      (6066, 6, ''ewctsp''), (6066, 17, ''ewctsp''), (6068, 6, ''gsmp''), (6068, 17, ''gsmp''),
      (6069, 6, ''trip''), (6069, 17, ''trip''), (6070, 6, ''messageasap''), (6070, 17, ''messageasap''),
      (6071, 6, ''ssdtp''), (6071, 17, ''ssdtp''), (6072, 6, ''diagnose-proc''), (6072, 17, ''diagnose-proc''),
      (6073, 6, ''directplay8''), (6073, 17, ''directplay8''), (6074, 6, ''max''), (6074, 17, ''max''),
      (6075, 6, ''dpm-acm''), (6076, 6, ''msft-dpm-cert''), (6077, 6, ''iconstructsrv''), (6080, 6, ''gue''),
      (6081, 6, ''geneve''), (6082, 6, ''p25cai''), (6083, 6, ''miami-bcast''), (6084, 6, ''p2p-sip''),
      (6085, 6, ''konspire2b''), (6085, 17, ''konspire2b''), (6086, 6, ''pdtp''), (6086, 17, ''pdtp''),
      (6087, 6, ''ldss''), (6087, 17, ''ldss''), (6088, 6, ''doglms''), (6099, 6, ''raxa-mgmt''),
      (6100, 6, ''synchronet-db''), (6100, 17, ''synchronet-db''), (6101, 6, ''backupexec''), (6101, 17, ''synchronet-rtc''),
      (6102, 6, ''synchronet-upd''), (6102, 17, ''synchronet-upd''), (6103, 6, ''RETS-or-BackupExec''), (6103, 17, ''rets''),
      (6104, 6, ''dbdb''), (6104, 17, ''dbdb''), (6105, 6, ''isdninfo''), (6105, 17, ''primaserver''),
      (6106, 6, ''isdninfo''), (6106, 17, ''mpsserver''), (6107, 6, ''etc-control''), (6107, 17, ''etc-control''),
      (6108, 6, ''sercomm-scadmin''), (6108, 17, ''sercomm-scadmin''), (6109, 6, ''globecast-id''), (6109, 17, ''globecast-id''),
      (6110, 6, ''softcm''), (6110, 17, ''softcm''), (6111, 6, ''spc''), (6111, 17, ''spc''),
      (6112, 6, ''dtspc''), (6112, 17, ''dtspcd''), (6113, 6, ''dayliteserver''), (6114, 6, ''wrspice''),
      (6115, 6, ''xic''), (6116, 6, ''xtlserv''), (6117, 6, ''daylitetouch''), (6118, 6, ''tipc''),
      (6121, 6, ''spdy''), (6122, 6, ''bex-webadmin''), (6122, 17, ''bex-webadmin''), (6123, 6, ''backup-express''),
      (6123, 17, ''backup-express''), (6124, 6, ''pnbs''), (6124, 17, ''pnbs''), (6130, 6, ''damewaremobgtwy''),
      (6133, 6, ''nbt-wol''), (6133, 17, ''nbt-wol''), (6140, 6, ''pulsonixnls''), (6140, 17, ''pulsonixnls''),
      (6141, 6, ''meta-corp''), (6141, 17, ''meta-corp''), (6142, 6, ''aspentec-lm''), (6142, 17, ''aspentec-lm''),
      (6143, 6, ''watershed-lm''), (6143, 17, ''watershed-lm''), (6144, 6, ''statsci1-lm''), (6144, 17, ''statsci1-lm''),
      (6145, 6, ''statsci2-lm''), (6145, 17, ''statsci2-lm''), (6146, 6, ''lonewolf-lm''), (6146, 17, ''lonewolf-lm''),
      (6147, 6, ''montage-lm''), (6147, 17, ''montage-lm''), (6148, 6, ''ricardo-lm''), (6148, 17, ''ricardo-lm''),
      (6149, 6, ''tal-pod''), (6149, 17, ''tal-pod''), (6159, 6, ''efb-aci''), (6160, 6, ''ecmp''),
      (6161, 6, ''patrol-ism''), (6161, 17, ''patrol-ism''), (6162, 6, ''patrol-coll''), (6162, 17, ''patrol-coll''),
      (6163, 6, ''pscribe''), (6163, 17, ''pscribe''), (6200, 6, ''lm-x''), (6200, 17, ''lm-x''),
      (6201, 6, ''thermo-calc''), (6209, 6, ''qmtps''), (6222, 6, ''radmind''), (6222, 17, ''radmind''),
      (6241, 6, ''jeol-nsdtp-1''), (6241, 17, ''jeol-nsddp-1''), (6242, 6, ''jeol-nsdtp-2''), (6242, 17, ''jeol-nsddp-2''),
      (6243, 6, ''jeol-nsdtp-3''), (6243, 17, ''jeol-nsddp-3''), (6244, 6, ''jeol-nsdtp-4''), (6244, 17, ''jeol-nsddp-4''),
      (6251, 6, ''tl1-raw-ssl''), (6251, 17, ''tl1-raw-ssl''), (6252, 6, ''tl1-ssh''), (6252, 17, ''tl1-ssh''),
      (6253, 6, ''crip''), (6253, 17, ''crip''), (6267, 6, ''gld''), (6268, 6, ''grid''),
      (6268, 17, ''grid''), (6269, 6, ''grid-alt''), (6269, 17, ''grid-alt''), (6300, 6, ''bmc-grx''),
      (6300, 17, ''bmc-grx''), (6301, 6, ''bmc_ctd_ldap''), (6301, 17, ''bmc_ctd_ldap''), (6306, 6, ''ufmp''),
      (6306, 17, ''ufmp''), (6315, 6, ''scup''), (6315, 17, ''scup-disc''), (6316, 6, ''abb-escp''),
      (6316, 17, ''abb-escp''), (6317, 6, ''nav-data-cmd''), (6320, 6, ''repsvc''), (6320, 17, ''repsvc''),
      (6321, 6, ''emp-server1''), (6321, 17, ''emp-server1''), (6322, 6, ''emp-server2''), (6322, 17, ''emp-server2''),
      (6324, 6, ''hrd-ncs'')]"

lemma Services_63_ascend: "port_range 6064 6324 Services_63"
  unfolding Services_63_def port_range_def
  by (rule ascending_end ascending_same ascending_next, simp)+

definition Services_64 :: "service_entry list" where
  "Services_64 =
     [(6325, 6, ''dt-mgmtsvc''), (6326, 6, ''dt-vra''), (6343, 6, ''sflow''), (6343, 17, ''sflow''),
      (6344, 6, ''streletz''), (6346, 6, ''gnutella''), (6346, 17, ''gnutella''), (6347, 6, ''gnutella2''),
      (6347, 17, ''gnutella2''), (6350, 6, ''adap''), (6350, 17, ''adap''), (6355, 6, ''pmcs''),
      (6355, 17, ''pmcs''), (6360, 6, ''metaedit-mu''), (6360, 17, ''metaedit-mu''), (6363, 6, ''ndn''),
      (6370, 6, ''metaedit-se''), (6370, 17, ''metaedit-se''), (6379, 6, ''redis''), (6382, 6, ''metatude-mds''),
      (6382, 17, ''metatude-mds''), (6389, 6, ''clariion-evr01''), (6389, 17, ''clariion-evr01''), (6390, 6, ''metaedit-ws''),
      (6390, 17, ''metaedit-ws''), (6400, 6, ''crystalreports''), (6400, 17, ''boe-cms''), (6401, 6, ''crystalenterprise''),
      (6401, 17, ''boe-was''), (6402, 6, ''boe-eventsrv''), (6402, 17, ''boe-eventsrv''), (6403, 6, ''boe-cachesvr''),
      (6403, 17, ''boe-cachesvr''), (6404, 6, ''boe-filesvr''), (6404, 17, ''boe-filesvr''), (6405, 6, ''boe-pagesvr''),
      (6405, 17, ''boe-pagesvr''), (6406, 6, ''boe-processsvr''), (6406, 17, ''boe-processsvr''), (6407, 6, ''boe-resssvr1''),
      (6407, 17, ''boe-resssvr1''), (6408, 6, ''boe-resssvr2''), (6408, 17, ''boe-resssvr2''), (6409, 6, ''boe-resssvr3''),
      (6409, 17, ''boe-resssvr3''), (6410, 6, ''boe-resssvr4''), (6410, 17, ''boe-resssvr4''), (6417, 6, ''faxcomservice''),
      (6417, 17, ''faxcomservice''), (6418, 6, ''syserverremote''), (6419, 6, ''svdrp''), (6420, 6, ''nim-vdrshell''),
      (6420, 17, ''nim-vdrshell''), (6421, 6, ''nim-wan''), (6421, 17, ''nim-wan''), (6432, 6, ''pgbouncer''),
      (6442, 6, ''tarp''), (6443, 6, ''sun-sr-https''), (6443, 17, ''sun-sr-https''), (6444, 6, ''sge_qmaster''),
      (6444, 17, ''sge_qmaster''), (6445, 6, ''sge_execd''), (6445, 17, ''sge_execd''), (6446, 6, ''mysql-proxy''),
      (6446, 17, ''mysql-proxy''), (6455, 6, ''skip-cert-recv''), (6456, 6, ''skip-cert-send''), (6456, 17, ''skip-cert-send''),
      (6464, 6, ''ieee11073-20701''), (6471, 6, ''lvision-lm''), (6471, 17, ''lvision-lm''), (6480, 6, ''sun-sr-http''),
      (6480, 17, ''sun-sr-http''), (6481, 6, ''servicetags''), (6481, 17, ''servicetags''), (6482, 6, ''ldoms-mgmt''),
      (6482, 17, ''ldoms-mgmt''), (6483, 6, ''SunVTS-RMI''), (6483, 17, ''SunVTS-RMI''), (6484, 6, ''sun-sr-jms''),
      (6484, 17, ''sun-sr-jms''), (6485, 6, ''sun-sr-iiop''), (6485, 17, ''sun-sr-iiop''), (6486, 6, ''sun-sr-iiops''),
      (6486, 17, ''sun-sr-iiops''), (6487, 6, ''sun-sr-iiop-aut''), (6487, 17, ''sun-sr-iiop-aut''), (6488, 6, ''sun-sr-jmx''),
      (6488, 17, ''sun-sr-jmx''), (6489, 6, ''sun-sr-admin''), (6489, 17, ''sun-sr-admin''), (6500, 6, ''boks''),
      (6500, 17, ''boks''), (6501, 6, ''boks_servc''), (6501, 17, ''boks_servc''), (6502, 6, ''netop-rc''),
      (6502, 17, ''netop-rc''), (6503, 6, ''boks_clntd''), (6503, 17, ''boks_clntd''), (6505, 6, ''badm_priv''),
      (6505, 17, ''badm_priv''), (6506, 6, ''badm_pub''), (6506, 17, ''badm_pub''), (6507, 6, ''bdir_priv''),
      (6507, 17, ''bdir_priv''), (6508, 6, ''bdir_pub''), (6508, 17, ''bdir_pub''), (6509, 6, ''mgcs-mfp-port''),
      (6509, 17, ''mgcs-mfp-port''), (6510, 6, ''mcer-port''), (6510, 17, ''mcer-port''), (6511, 6, ''dccp-udp''),
      (6513, 6, ''netconf-tls''), (6514, 6, ''syslog-tls''), (6514, 17, ''syslog-tls''), (6515, 6, ''elipse-rec''),
      (6515, 17, ''elipse-rec''), (6543, 6, ''mythtv''), (6543, 17, ''lds-distrib''), (6544, 6, ''mythtv''),
      (6544, 17, ''lds-dump''), (6547, 6, ''powerchuteplus''), (6547, 17, ''apc-6547''), (6548, 6, ''powerchuteplus''),
      (6548, 17, ''apc-6548''), (6549, 6, ''apc-6549''), (6549, 17, ''powerchuteplus''), (6550, 6, ''fg-sysupdate''),
      (6550, 17, ''fg-sysupdate''), (6551, 6, ''sum''), (6551, 17, ''sum''), (6558, 6, ''xdsxdm''),
      (6558, 17, ''xdsxdm''), (6566, 6, ''sane-port''), (6566, 17, ''sane-port''), (6567, 6, ''esp''),
      (6567, 17, ''esp''), (6568, 6, ''canit_store''), (6568, 17, ''rp-reputation''), (6579, 6, ''affiliate''),
      (6579, 17, ''affiliate''), (6580, 6, ''parsec-master''), (6580, 17, ''parsec-master''), (6581, 6, ''parsec-peer''),
      (6581, 17, ''parsec-peer''), (6582, 6, ''parsec-game''), (6582, 17, ''parsec-game''), (6583, 6, ''joaJewelSuite''),
      (6583, 17, ''joaJewelSuite'')]"

lemma Services_64_ascend: "port_range 6325 6583 Services_64"
  unfolding Services_64_def port_range_def
  by (rule ascending_end ascending_same ascending_next, simp)+

definition Services_65 :: "service_entry list" where
  "Services_65 =
     [(6588, 6, ''analogx''), (6600, 6, ''mshvlm''), (6601, 6, ''mstmg-sstp''), (6602, 6, ''wsscomfrmwk''),
      (6619, 6, ''odette-ftps''), (6619, 17, ''odette-ftps''), (6620, 6, ''kftp-data''), (6620, 17, ''kftp-data''),
      (6621, 6, ''kftp''), (6621, 17, ''kftp''), (6622, 6, ''mcftp''), (6622, 17, ''mcftp''),
      (6623, 6, ''ktelnet''), (6623, 17, ''ktelnet''), (6624, 6, ''datascaler-db''), (6625, 6, ''datascaler-ctl''),
      (6626, 6, ''wago-service''), (6626, 17, ''wago-service''), (6627, 6, ''nexgen''), (6627, 17, ''nexgen''),
      (6628, 6, ''afesc-mc''), (6628, 17, ''afesc-mc''), (6629, 6, ''nexgen-aux''), (6632, 6, ''mxodbc-connect''),
      (6633, 6, ''cisco-vpath-tun''), (6634, 6, ''mpls-pm''), (6635, 6, ''mpls-udp''), (6636, 6, ''mpls-udp-dtls''),
      (6640, 6, ''ovsdb''), (6653, 6, ''openflow''), (6655, 6, ''pcs-sf-ui-man''), (6656, 6, ''emgmsg''),
      (6657, 6, ''palcom-disc''), (6657, 17, ''palcom-disc''), (6662, 6, ''radmind''), (6665, 6, ''irc''),
      (6665, 17, ''ircu''), (6666, 6, ''irc''), (6666, 17, ''ircu''), (6667, 6, ''irc''),
      (6667, 17, ''ircu''), (6668, 6, ''irc''), (6668, 17, ''ircu''), (6669, 6, ''irc''),
      (6669, 17, ''ircu''), (6670, 6, ''irc''), (6670, 17, ''vocaltec-gold''), (6671, 6, ''p4p-portal''),
      (6671, 17, ''p4p-portal''), (6672, 6, ''vision_server''), (6672, 17, ''vision_server''), (6673, 6, ''vision_elmd''),
      (6673, 17, ''vision_elmd''), (6678, 6, ''vfbp''), (6679, 6, ''osaut''), (6687, 6, ''clever-ctrace''),
      (6688, 6, ''clever-tcpip''), (6689, 6, ''tsa''), (6689, 17, ''tsa''), (6690, 6, ''cleverdetect''),
      (6696, 6, ''babel''), (6697, 6, ''ircs-u''), (6697, 17, ''babel''), (6699, 6, ''napster''),
      (6700, 6, ''carracho''), (6701, 6, ''carracho''), (6701, 17, ''kti-icad-srvr''), (6702, 6, ''e-design-net''),
      (6702, 17, ''e-design-net''), (6703, 6, ''e-design-web''), (6703, 17, ''e-design-web''), (6704, 132, ''frc-hp''),
      (6705, 132, ''frc-mp''), (6706, 132, ''frc-lp''), (6714, 6, ''ibprotocol''), (6714, 17, ''ibprotocol''),
      (6715, 6, ''fibotrader-com''), (6715, 17, ''fibotrader-com''), (6716, 6, ''princity-agent''), (6767, 6, ''bmc-perf-agent''),
      (6767, 17, ''bmc-perf-agent''), (6768, 6, ''bmc-perf-mgrd''), (6768, 17, ''bmc-perf-mgrd''), (6769, 6, ''adi-gxp-srvprt''),
      (6769, 17, ''adi-gxp-srvprt''), (6770, 6, ''plysrv-http''), (6770, 17, ''plysrv-http''), (6771, 6, ''plysrv-https''),
      (6771, 17, ''plysrv-https''), (6777, 6, ''ntz-tracker''), (6778, 6, ''ntz-p2p-storage''), (6784, 6, ''bfd-lag''),
      (6785, 6, ''dgpf-exchg''), (6785, 17, ''dgpf-exchg''), (6786, 6, ''smc-jmx''), (6786, 17, ''smc-jmx''),
      (6787, 6, ''smc-admin''), (6787, 17, ''smc-admin''), (6788, 6, ''smc-http''), (6788, 17, ''smc-http''),
      (6789, 6, ''ibm-db2-admin''), (6789, 17, ''smc-https''), (6790, 6, ''hnmp''), (6790, 17, ''hnmp''),
      (6791, 6, ''hnm''), (6791, 17, ''hnm''), (6801, 6, ''acnet''), (6801, 17, ''acnet''),
      (6817, 6, ''pentbox-sim''), (6831, 6, ''ambit-lm''), (6831, 17, ''ambit-lm''), (6841, 6, ''netmo-default''),
      (6841, 17, ''netmo-default''), (6842, 6, ''netmo-http''), (6842, 17, ''netmo-http''), (6850, 6, ''iccrushmore''),
      (6850, 17, ''iccrushmore''), (6868, 6, ''acctopus-cc''), (6868, 17, ''acctopus-st''), (6881, 6, ''bittorrent-tracker''),
      (6888, 6, ''muse''), (6888, 17, ''muse''), (6900, 6, ''rtimeviewer''), (6901, 6, ''jetstream''),
      (6935, 6, ''ethoscan''), (6936, 6, ''xsmsvc''), (6936, 17, ''xsmsvc''), (6946, 6, ''bioserver''),
      (6946, 17, ''bioserver''), (6951, 6, ''otlp''), (6951, 17, ''otlp''), (6961, 6, ''jmact3''),
      (6961, 17, ''jmact3''), (6962, 6, ''jmevt2''), (6962, 17, ''jmevt2''), (6963, 6, ''swismgr1''),
      (6963, 17, ''swismgr1''), (6964, 6, ''swismgr2''), (6964, 17, ''swismgr2''), (6965, 6, ''swistrap''),
      (6965, 17, ''swistrap''), (6966, 6, ''swispol''), (6966, 17, ''swispol''), (6969, 6, ''acmsoda''),
      (6969, 17, ''acmsoda''), (6970, 6, ''conductor''), (6997, 6, ''MobilitySrv''), (6997, 17, ''MobilitySrv'')]"

lemma Services_65_ascend: "port_range 6588 6997 Services_65"
  unfolding Services_65_def port_range_def
  by (rule ascending_end ascending_same ascending_next, simp)+

definition Services_66 :: "service_entry list" where
  "Services_66 =
     [(6998, 6, ''iatp-highpri''), (6998, 17, ''iatp-highpri''), (6999, 6, ''iatp-normalpri''), (6999, 17, ''iatp-normalpri''),
      (7000, 6, ''afs3-fileserver''), (7000, 17, ''afs3-fileserver''), (7001, 6, ''afs3-callback''), (7001, 17, ''afs3-callback''),
      (7002, 6, ''afs3-prserver''), (7002, 17, ''afs3-prserver''), (7003, 6, ''afs3-vlserver''), (7003, 17, ''afs3-vlserver''),
      (7004, 6, ''afs3-kaserver''), (7004, 17, ''afs3-kaserver''), (7005, 6, ''afs3-volser''), (7005, 17, ''afs3-volser''),
      (7006, 6, ''afs3-errors''), (7006, 17, ''afs3-errors''), (7007, 6, ''afs3-bos''), (7007, 17, ''afs3-bos''),
      (7008, 6, ''afs3-update''), (7008, 17, ''afs3-update''), (7009, 6, ''afs3-rmtsys''), (7009, 17, ''afs3-rmtsys''),
      (7010, 6, ''ups-onlinet''), (7010, 17, ''ups-onlinet''), (7011, 6, ''talon-disc''), (7011, 17, ''talon-disc''),
      (7012, 6, ''talon-engine''), (7012, 17, ''talon-engine''), (7013, 6, ''microtalon-dis''), (7013, 17, ''microtalon-dis''),
      (7014, 6, ''microtalon-com''), (7014, 17, ''microtalon-com''), (7015, 6, ''talon-webserver''), (7015, 17, ''talon-webserver''),
      (7016, 6, ''spg''), (7017, 6, ''grasp''), (7018, 6, ''fisa-svc''), (7019, 6, ''doceri-ctl''),
      (7020, 6, ''dpserve''), (7020, 17, ''dpserve''), (7021, 6, ''dpserveadmin''), (7021, 17, ''dpserveadmin''),
      (7022, 6, ''ctdp''), (7022, 17, ''ctdp''), (7023, 6, ''ct2nmcs''), (7023, 17, ''ct2nmcs''),
      (7024, 6, ''vmsvc''), (7024, 17, ''vmsvc''), (7025, 6, ''vmsvc-2''), (7025, 17, ''vmsvc-2''),
      (7030, 6, ''op-probe''), (7030, 17, ''op-probe''), (7031, 6, ''iposplanet''), (7040, 6, ''quest-disc''),
      (7070, 6, ''realserver''), (7070, 17, ''arcp''), (7071, 6, ''iwg1''), (7071, 17, ''iwg1''),
      (7073, 6, ''martalk''), (7080, 6, ''empowerid''), (7080, 17, ''empowerid''), (7088, 6, ''zixi-transport''),
      (7095, 6, ''jdp-disc''), (7099, 6, ''lazy-ptop''), (7099, 17, ''lazy-ptop''), (7100, 6, ''font-service''),
      (7100, 17, ''font-service''), (7101, 6, ''elcn''), (7101, 17, ''elcn''), (7107, 6, ''aes-x170''),
      (7117, 6, ''rothaga''), (7121, 6, ''virprot-lm''), (7121, 17, ''virprot-lm''), (7128, 6, ''scenidm''),
      (7128, 17, ''scenidm''), (7129, 6, ''scenccs''), (7129, 17, ''scenccs''), (7161, 6, ''cabsm-comm''),
      (7161, 17, ''cabsm-comm''), (7162, 6, ''caistoragemgr''), (7162, 17, ''caistoragemgr''), (7163, 6, ''cacsambroker''),
      (7163, 17, ''cacsambroker''), (7164, 6, ''fsr''), (7164, 17, ''fsr''), (7165, 6, ''doc-server''),
      (7165, 17, ''doc-server''), (7166, 6, ''aruba-server''), (7166, 17, ''aruba-server''), (7167, 6, ''casrmagent''),
      (7168, 6, ''cnckadserver''), (7169, 6, ''ccag-pib''), (7169, 17, ''ccag-pib''), (7170, 6, ''nsrp''),
      (7170, 17, ''nsrp''), (7171, 6, ''drm-production''), (7171, 17, ''drm-production''), (7172, 6, ''metalbend''),
      (7173, 6, ''zsecure''), (7174, 6, ''clutild''), (7174, 17, ''clutild''), (7181, 6, ''janus-disc''),
      (7200, 6, ''fodms''), (7200, 17, ''fodms''), (7201, 6, ''dlip''), (7201, 17, ''dlip''),
      (7202, 6, ''pon-ictp''), (7215, 6, ''PS-Server''), (7216, 6, ''PS-Capture-Pro''), (7227, 6, ''ramp''),
      (7227, 17, ''ramp''), (7228, 6, ''citrixupp''), (7229, 6, ''citrixuppg''), (7235, 6, ''aspcoordination''),
      (7236, 6, ''display''), (7237, 6, ''pads''), (7244, 6, ''frc-hicp''), (7262, 6, ''cnap''),
      (7262, 17, ''cnap''), (7272, 6, ''watchme-7272''), (7272, 17, ''watchme-7272''), (7273, 6, ''openmanage''),
      (7273, 17, ''oma-rlp''), (7274, 6, ''oma-rlp-s''), (7274, 17, ''oma-rlp-s''), (7275, 6, ''oma-ulp''),
      (7275, 17, ''oma-ulp''), (7276, 6, ''oma-ilp''), (7276, 17, ''oma-ilp''), (7277, 6, ''oma-ilp-s''),
      (7277, 17, ''oma-ilp-s''), (7278, 6, ''oma-dcdocbs''), (7278, 17, ''oma-dcdocbs''), (7279, 6, ''ctxlic''),
      (7279, 17, ''ctxlic''), (7280, 6, ''itactionserver1''), (7280, 17, ''itactionserver1''), (7281, 6, ''itactionserver2''),
      (7281, 17, ''itactionserver2''), (7282, 6, ''mzca-action''), (7282, 17, ''mzca-alert''), (7283, 6, ''genstat''),
      (7300, 6, ''swx''), (7300, 17, ''swx''), (7301, 6, ''swx''), (7301, 17, ''swx'')]"

lemma Services_66_ascend: "port_range 6998 7301 Services_66"
  unfolding Services_66_def port_range_def
  by (rule ascending_end ascending_same ascending_next, simp)+

definition Services_67 :: "service_entry list" where
  "Services_67 =
     [(7302, 6, ''swx''), (7302, 17, ''swx''), (7303, 6, ''swx''), (7303, 17, ''swx''),
      (7304, 6, ''swx''), (7304, 17, ''swx''), (7305, 6, ''swx''), (7305, 17, ''swx''),
      (7306, 6, ''swx''), (7306, 17, ''swx''), (7307, 6, ''swx''), (7307, 17, ''swx''),
      (7308, 6, ''swx''), (7308, 17, ''swx''), (7309, 6, ''swx''), (7309, 17, ''swx''),
      (7310, 6, ''swx''), (7310, 17, ''swx''), (7311, 6, ''swx''), (7311, 17, ''swx''),
      (7312, 6, ''swx''), (7312, 17, ''swx''), (7313, 6, ''swx''), (7313, 17, ''swx''),
      (7314, 6, ''swx''), (7314, 17, ''swx''), (7315, 6, ''swx''), (7315, 17, ''swx''),
      (7316, 6, ''swx''), (7316, 17, ''swx''), (7317, 6, ''swx''), (7317, 17, ''swx''),
      (7318, 6, ''swx''), (7318, 17, ''swx''), (7319, 6, ''swx''), (7319, 17, ''swx''),
      (7320, 6, ''swx''), (7320, 17, ''swx''), (7321, 6, ''swx''), (7321, 17, ''swx''),
      (7322, 6, ''swx''), (7322, 17, ''swx''), (7323, 6, ''swx''), (7323, 17, ''swx''),
      (7324, 6, ''swx''), (7324, 17, ''swx''), (7325, 6, ''swx''), (7325, 17, ''swx''),
      (7326, 6, ''icb''), (7326, 17, ''swx''), (7327, 6, ''swx''), (7327, 17, ''swx''),
      (7328, 6, ''swx''), (7328, 17, ''swx''), (7329, 6, ''swx''), (7329, 17, ''swx''),
      (7330, 6, ''swx''), (7330, 17, ''swx''), (7331, 6, ''swx''), (7331, 17, ''swx''),
      (7332, 6, ''swx''), (7332, 17, ''swx''), (7333, 6, ''swx''), (7333, 17, ''swx''),
      (7334, 6, ''swx''), (7334, 17, ''swx''), (7335, 6, ''swx''), (7335, 17, ''swx''),
      (7336, 6, ''swx''), (7336, 17, ''swx''), (7337, 6, ''swx''), (7337, 17, ''swx''),
      (7338, 6, ''swx''), (7338, 17, ''swx''), (7339, 6, ''swx''), (7339, 17, ''swx''),
      (7340, 6, ''swx''), (7340, 17, ''swx''), (7341, 6, ''swx''), (7341, 17, ''swx''),
      (7342, 6, ''swx''), (7342, 17, ''swx''), (7343, 6, ''swx''), (7343, 17, ''swx''),
      (7344, 6, ''swx''), (7344, 17, ''swx''), (7345, 6, ''swx''), (7345, 17, ''swx''),
      (7346, 6, ''swx''), (7346, 17, ''swx''), (7347, 6, ''swx''), (7347, 17, ''swx''),
      (7348, 6, ''swx''), (7348, 17, ''swx''), (7349, 6, ''swx''), (7349, 17, ''swx''),
      (7350, 6, ''swx''), (7350, 17, ''swx''), (7351, 6, ''swx''), (7351, 17, ''swx''),
      (7352, 6, ''swx''), (7352, 17, ''swx''), (7353, 6, ''swx''), (7353, 17, ''swx''),
      (7354, 6, ''swx''), (7354, 17, ''swx''), (7355, 6, ''swx''), (7355, 17, ''swx''),
      (7356, 6, ''swx''), (7356, 17, ''swx''), (7357, 6, ''swx''), (7357, 17, ''swx''),
      (7358, 6, ''swx''), (7358, 17, ''swx''), (7359, 6, ''swx''), (7359, 17, ''swx''),
      (7365, 6, ''lcm-server''), (7365, 17, ''lcm-server''), (7391, 6, ''mindfilesys''), (7391, 17, ''mindfilesys''),
      (7392, 6, ''mrssrendezvous''), (7392, 17, ''mrssrendezvous''), (7393, 6, ''nfoldman''), (7393, 17, ''nfoldman''),
      (7394, 6, ''fse''), (7394, 17, ''fse''), (7395, 6, ''winqedit''), (7395, 17, ''winqedit''),
      (7397, 6, ''hexarc''), (7397, 17, ''hexarc''), (7400, 6, ''rtps-discovery''), (7400, 17, ''rtps-discovery''),
      (7401, 6, ''rtps-dd-ut''), (7401, 17, ''rtps-dd-ut''), (7402, 6, ''rtps-dd-mt''), (7402, 17, ''rtps-dd-mt''),
      (7410, 6, ''ionixnetmon''), (7410, 17, ''ionixnetmon''), (7411, 6, ''daqstream''), (7420, 6, ''ipluminary''),
      (7421, 6, ''mtportmon''), (7421, 17, ''mtportmon''), (7426, 6, ''pmdmgr''), (7426, 17, ''pmdmgr''),
      (7427, 6, ''oveadmgr''), (7427, 17, ''oveadmgr''), (7428, 6, ''ovladmgr''), (7428, 17, ''ovladmgr'')]"

lemma Services_67_ascend: "port_range 7302 7428 Services_67"
  unfolding Services_67_def port_range_def
  by (rule ascending_end ascending_same ascending_next, simp)+

definition Services_68 :: "service_entry list" where
  "Services_68 =
     [(7429, 6, ''opi-sock''), (7429, 17, ''opi-sock''), (7430, 6, ''xmpv7''), (7430, 17, ''xmpv7''),
      (7431, 6, ''pmd''), (7431, 17, ''pmd''), (7437, 6, ''faximum''), (7437, 17, ''faximum''),
      (7443, 6, ''oracleas-https''), (7443, 17, ''oracleas-https''), (7464, 6, ''pythonds''), (7471, 6, ''sttunnel''),
      (7473, 6, ''rise''), (7473, 17, ''rise''), (7474, 6, ''neo4j''), (7478, 6, ''openit''),
      (7491, 6, ''telops-lmd''), (7491, 17, ''telops-lmd''), (7500, 6, ''silhouette''), (7500, 17, ''silhouette''),
      (7501, 6, ''ovbus''), (7501, 17, ''ovbus''), (7508, 6, ''adcp''), (7509, 6, ''acplt''),
      (7510, 6, ''ovhpas''), (7510, 17, ''ovhpas''), (7511, 6, ''pafec-lm''), (7511, 17, ''pafec-lm''),
      (7542, 6, ''saratoga''), (7542, 17, ''saratoga''), (7543, 6, ''atul''), (7543, 17, ''atul''),
      (7544, 6, ''nta-ds''), (7544, 17, ''nta-ds''), (7545, 6, ''nta-us''), (7545, 17, ''nta-us''),
      (7546, 6, ''cfs''), (7546, 17, ''cfs''), (7547, 6, ''cwmp''), (7547, 17, ''cwmp''),
      (7548, 6, ''tidp''), (7548, 17, ''tidp''), (7549, 6, ''nls-tl''), (7549, 17, ''nls-tl''),
      (7550, 6, ''cloudsignaling''), (7551, 6, ''controlone-con''), (7560, 6, ''sncp''), (7560, 17, ''sncp''),
      (7563, 6, ''cfw''), (7566, 6, ''vsi-omega''), (7566, 17, ''vsi-omega''), (7569, 6, ''dell-eql-asm''),
      (7570, 6, ''aries-kfinder''), (7570, 17, ''aries-kfinder''), (7574, 6, ''coherence''), (7588, 6, ''sun-lm''),
      (7588, 17, ''sun-lm''), (7597, 6, ''qaz''), (7606, 6, ''mipi-debug''), (7624, 6, ''indi''),
      (7624, 17, ''indi''), (7626, 132, ''simco''), (7626, 6, ''simco''), (7627, 6, ''soap-http''),
      (7627, 17, ''soap-http''), (7628, 6, ''zen-pawn''), (7628, 17, ''zen-pawn''), (7629, 6, ''xdas''),
      (7629, 17, ''xdas''), (7630, 6, ''hawk''), (7631, 6, ''tesla-sys-msg''), (7633, 6, ''pmdfmgt''),
      (7633, 17, ''pmdfmgt''), (7634, 6, ''hddtemp''), (7648, 6, ''cuseeme''), (7648, 17, ''cucme-1''),
      (7649, 17, ''cucme-2''), (7650, 17, ''cucme-3''), (7651, 17, ''cucme-4''), (7663, 6, ''rome''),
      (7672, 6, ''imqstomp''), (7673, 6, ''imqstomps''), (7674, 6, ''imqtunnels''), (7674, 17, ''imqtunnels''),
      (7675, 6, ''imqtunnel''), (7675, 17, ''imqtunnel''), (7676, 6, ''imqbrokerd''), (7676, 17, ''imqbrokerd''),
      (7677, 6, ''sun-user-https''), (7677, 17, ''sun-user-https''), (7680, 6, ''pando-pub''), (7680, 17, ''pando-pub''),
      (7683, 6, ''dmt''), (7687, 6, ''bolt''), (7689, 6, ''collaber''), (7689, 17, ''collaber''),
      (7697, 6, ''klio''), (7697, 17, ''klio''), (7700, 6, ''em7-secom''), (7701, 6, ''nfapi''),
      (7707, 6, ''sync-em7''), (7707, 17, ''sync-em7''), (7708, 6, ''scinet''), (7708, 17, ''scinet''),
      (7720, 6, ''medimageportal''), (7720, 17, ''medimageportal''), (7724, 6, ''nsdeepfreezectl''), (7724, 17, ''nsdeepfreezectl''),
      (7725, 6, ''nitrogen''), (7725, 17, ''nitrogen''), (7726, 6, ''freezexservice''), (7726, 17, ''freezexservice''),
      (7727, 6, ''trident-data''), (7727, 17, ''trident-data''), (7728, 6, ''osvr''), (7734, 6, ''smip''),
      (7734, 17, ''smip''), (7738, 6, ''aiagent''), (7738, 17, ''aiagent''), (7741, 6, ''scriptview''),
      (7741, 17, ''scriptview''), (7742, 6, ''msss''), (7743, 6, ''sstp-1''), (7743, 17, ''sstp-1''),
      (7744, 6, ''raqmon-pdu''), (7744, 17, ''raqmon-pdu''), (7747, 6, ''prgp''), (7747, 17, ''prgp''),
      (7775, 6, ''inetfs''), (7777, 6, ''cbt''), (7777, 17, ''cbt''), (7778, 6, ''interwise''),
      (7778, 17, ''interwise''), (7779, 6, ''vstat''), (7779, 17, ''vstat''), (7781, 6, ''accu-lmgr''),
      (7781, 17, ''accu-lmgr''), (7784, 6, ''s-bfd''), (7786, 6, ''minivend''), (7786, 17, ''minivend''),
      (7787, 6, ''popup-reminders''), (7787, 17, ''popup-reminders''), (7789, 6, ''office-tools''), (7789, 17, ''office-tools''),
      (7794, 6, ''q3ade''), (7794, 17, ''q3ade''), (7797, 6, ''pnet-conn''), (7797, 17, ''pnet-conn'')]"

lemma Services_68_ascend: "port_range 7429 7797 Services_68"
  unfolding Services_68_def port_range_def
  by (rule ascending_end ascending_same ascending_next, simp)+

definition Services_69 :: "service_entry list" where
  "Services_69 =
     [(7798, 6, ''pnet-enc''), (7798, 17, ''pnet-enc''), (7799, 6, ''altbsdp''), (7799, 17, ''altbsdp''),
      (7800, 6, ''asr''), (7800, 17, ''asr''), (7801, 6, ''ssp-client''), (7801, 17, ''ssp-client''),
      (7802, 6, ''vns-tp''), (7810, 6, ''rbt-wanopt''), (7810, 17, ''rbt-wanopt''), (7845, 6, ''apc-7845''),
      (7845, 17, ''apc-7845''), (7846, 6, ''apc-7846''), (7846, 17, ''apc-7846''), (7847, 6, ''csoauth''),
      (7869, 6, ''mobileanalyzer''), (7870, 6, ''rbt-smc''), (7871, 6, ''mdm''), (7872, 6, ''mipv6tls''),
      (7878, 6, ''owms''), (7880, 6, ''pss''), (7880, 17, ''pss''), (7887, 6, ''ubroker''),
      (7887, 17, ''ubroker''), (7900, 6, ''mevent''), (7900, 17, ''mevent''), (7901, 6, ''tnos-sp''),
      (7901, 17, ''tnos-sp''), (7902, 6, ''tnos-dp''), (7902, 17, ''tnos-dp''), (7903, 6, ''tnos-dps''),
      (7903, 17, ''tnos-dps''), (7913, 6, ''qo-secure''), (7913, 17, ''qo-secure''), (7932, 6, ''t2-drm''),
      (7932, 17, ''t2-drm''), (7933, 6, ''t2-brm''), (7933, 17, ''t2-brm''), (7937, 6, ''nsrexecd''),
      (7938, 6, ''lgtomapper''), (7962, 6, ''generalsync''), (7967, 6, ''supercell''), (7967, 17, ''supercell''),
      (7979, 6, ''micromuse-ncps''), (7979, 17, ''micromuse-ncps''), (7980, 6, ''quest-vista''), (7980, 17, ''quest-vista''),
      (7981, 6, ''sossd-collect''), (7982, 6, ''sossd-agent''), (7982, 17, ''sossd-disc''), (7997, 6, ''pushns''),
      (7998, 6, ''usicontentpush''), (7998, 17, ''usicontentpush''), (7999, 6, ''irdmi2''), (7999, 17, ''irdmi2''),
      (8000, 6, ''http-alt''), (8000, 17, ''irdmi''), (8001, 6, ''vcom-tunnel''), (8001, 17, ''vcom-tunnel''),
      (8002, 6, ''teradataordbms''), (8002, 17, ''teradataordbms''), (8003, 6, ''mcreport''), (8003, 17, ''mcreport''),
      (8004, 6, ''p2pevolvenet''), (8005, 6, ''mxi''), (8005, 17, ''mxi''), (8006, 6, ''wpl-analytics''),
      (8007, 6, ''ajp12''), (8008, 6, ''http''), (8008, 17, ''http-alt''), (8009, 6, ''ajp13''),
      (8010, 6, ''xmpp''), (8019, 6, ''qbdb''), (8019, 17, ''qbdb''), (8020, 6, ''intu-ec-svcdisc''),
      (8020, 17, ''intu-ec-svcdisc''), (8021, 6, ''ftp-proxy''), (8021, 17, ''intu-ec-client''), (8022, 6, ''oa-system''),
      (8022, 17, ''oa-system''), (8025, 6, ''ca-audit-da''), (8025, 17, ''ca-audit-da''), (8026, 6, ''ca-audit-ds''),
      (8026, 17, ''ca-audit-ds''), (8032, 6, ''pro-ed''), (8032, 17, ''pro-ed''), (8033, 6, ''mindprint''),
      (8033, 17, ''mindprint''), (8034, 6, ''vantronix-mgmt''), (8034, 17, ''vantronix-mgmt''), (8040, 6, ''ampify''),
      (8040, 17, ''ampify''), (8041, 6, ''enguity-xccetp''), (8042, 6, ''fs-agent''), (8043, 6, ''fs-server''),
      (8044, 6, ''fs-mgmt''), (8051, 6, ''rocrail''), (8052, 6, ''senomix01''), (8052, 17, ''senomix01''),
      (8053, 6, ''senomix02''), (8053, 17, ''senomix02''), (8054, 6, ''senomix03''), (8054, 17, ''senomix03''),
      (8055, 6, ''senomix04''), (8055, 17, ''senomix04''), (8056, 6, ''senomix05''), (8056, 17, ''senomix05''),
      (8057, 6, ''senomix06''), (8057, 17, ''senomix06''), (8058, 6, ''senomix07''), (8058, 17, ''senomix07''),
      (8059, 6, ''senomix08''), (8059, 17, ''senomix08''), (8060, 6, ''aero''), (8066, 6, ''toad-bi-appsrvr''),
      (8067, 6, ''infi-async''), (8070, 6, ''ucs-isc''), (8074, 6, ''gadugadu''), (8074, 17, ''gadugadu''),
      (8076, 6, ''slnp''), (8077, 6, ''mles''), (8080, 6, ''http-proxy''), (8080, 17, ''http-alt''),
      (8081, 6, ''blackice-icecap''), (8081, 17, ''sunproxyadmin''), (8082, 6, ''blackice-alerts''), (8082, 17, ''us-cli''),
      (8083, 6, ''us-srv''), (8083, 17, ''us-srv''), (8086, 6, ''d-s-n''), (8086, 17, ''d-s-n''),
      (8087, 6, ''simplifymedia''), (8087, 17, ''simplifymedia''), (8088, 6, ''radan-http''), (8088, 17, ''radan-http''),
      (8090, 6, ''opsmessaging''), (8091, 6, ''jamlink''), (8097, 6, ''sac''), (8097, 17, ''sac''),
      (8100, 6, ''xprint-server''), (8100, 17, ''xprint-server''), (8101, 6, ''ldoms-migr''), (8102, 6, ''kz-migr''),
      (8115, 6, ''mtl8000-matrix''), (8115, 17, ''mtl8000-matrix''), (8116, 6, ''cp-cluster''), (8116, 17, ''cp-cluster''),
      (8117, 6, ''purityrpc'')]"

lemma Services_69_ascend: "port_range 7798 8117 Services_69"
  unfolding Services_69_def port_range_def
  by (rule ascending_end ascending_same ascending_next, simp)+

definition Services_70 :: "service_entry list" where
  "Services_70 =
     [(8118, 6, ''privoxy''), (8118, 17, ''privoxy''), (8121, 6, ''apollo-data''), (8121, 17, ''apollo-data''),
      (8122, 6, ''apollo-admin''), (8122, 17, ''apollo-admin''), (8123, 6, ''polipo''), (8128, 6, ''paycash-online''),
      (8128, 17, ''paycash-online''), (8129, 6, ''paycash-wbp''), (8129, 17, ''paycash-wbp''), (8130, 6, ''indigo-vrmi''),
      (8130, 17, ''indigo-vrmi''), (8131, 6, ''indigo-vbcp''), (8131, 17, ''indigo-vbcp''), (8132, 6, ''dbabble''),
      (8132, 17, ''dbabble''), (8140, 6, ''puppet''), (8148, 6, ''isdd''), (8148, 17, ''isdd''),
      (8149, 6, ''eor-game''), (8153, 6, ''quantastor''), (8160, 6, ''patrol''), (8160, 17, ''patrol''),
      (8161, 6, ''patrol-snmp''), (8161, 17, ''patrol-snmp''), (8162, 6, ''lpar2rrd''), (8181, 6, ''intermapper''),
      (8182, 6, ''vmware-fdm''), (8182, 17, ''vmware-fdm''), (8183, 6, ''proremote''), (8184, 6, ''itach''),
      (8184, 17, ''itach''), (8190, 6, ''gcp-rphy''), (8191, 6, ''limnerpressure''), (8192, 6, ''sophos''),
      (8192, 17, ''sophos''), (8193, 6, ''sophos''), (8193, 17, ''sophos''), (8194, 6, ''sophos''),
      (8194, 17, ''sophos''), (8195, 6, ''blp2''), (8195, 17, ''blp2''), (8199, 6, ''vvr-data''),
      (8199, 17, ''vvr-data''), (8200, 6, ''trivnet1''), (8200, 17, ''trivnet1''), (8201, 6, ''trivnet2''),
      (8201, 17, ''trivnet2''), (8202, 6, ''aesop''), (8204, 6, ''lm-perfworks''), (8204, 17, ''lm-perfworks''),
      (8205, 6, ''lm-instmgr''), (8205, 17, ''lm-instmgr''), (8206, 6, ''lm-dta''), (8206, 17, ''lm-dta''),
      (8207, 6, ''lm-sserver''), (8207, 17, ''lm-sserver''), (8208, 6, ''lm-webwatcher''), (8208, 17, ''lm-webwatcher''),
      (8230, 6, ''rexecj''), (8230, 17, ''rexecj''), (8231, 6, ''hncp-udp-port''), (8232, 6, ''hncp-dtls-port''),
      (8243, 6, ''synapse-nhttps''), (8243, 17, ''synapse-nhttps''), (8270, 6, ''robot-remote''), (8276, 6, ''pando-sec''),
      (8276, 17, ''pando-sec''), (8280, 6, ''synapse-nhttp''), (8280, 17, ''synapse-nhttp''), (8282, 6, ''libelle''),
      (8292, 6, ''blp3''), (8292, 17, ''blp3''), (8293, 6, ''hiperscan-id''), (8294, 6, ''blp4''),
      (8294, 17, ''blp4''), (8300, 6, ''tmi''), (8300, 17, ''tmi''), (8301, 6, ''amberon''),
      (8301, 17, ''amberon''), (8313, 6, ''hub-open-net''), (8320, 6, ''tnp-discover''), (8320, 17, ''tnp-discover''),
      (8321, 6, ''tnp''), (8321, 17, ''tnp''), (8322, 6, ''garmin-marine''), (8333, 6, ''bitcoin''),
      (8351, 6, ''server-find''), (8351, 17, ''server-find''), (8376, 6, ''cruise-enum''), (8376, 17, ''cruise-enum''),
      (8377, 6, ''cruise-swroute''), (8377, 17, ''cruise-swroute''), (8378, 6, ''cruise-config''), (8378, 17, ''cruise-config''),
      (8379, 6, ''cruise-diags''), (8379, 17, ''cruise-diags''), (8380, 6, ''cruise-update''), (8380, 17, ''cruise-update''),
      (8383, 6, ''m2mservices''), (8383, 17, ''m2mservices''), (8384, 6, ''marathontp''), (8400, 6, ''cvd''),
      (8400, 17, ''cvd''), (8401, 6, ''sabarsd''), (8401, 17, ''sabarsd''), (8402, 6, ''abarsd''),
      (8402, 17, ''abarsd''), (8403, 6, ''admind''), (8403, 17, ''admind''), (8404, 6, ''svcloud''),
      (8405, 6, ''svbackup''), (8415, 6, ''dlpx-sp''), (8416, 6, ''espeech''), (8416, 17, ''espeech''),
      (8417, 6, ''espeech-rtp''), (8417, 17, ''espeech-rtp''), (8423, 6, ''aritts''), (8442, 6, ''cybro-a-bus''),
      (8442, 17, ''cybro-a-bus''), (8443, 6, ''https-alt''), (8443, 17, ''pcsync-https''), (8444, 6, ''pcsync-http''),
      (8444, 17, ''pcsync-http''), (8445, 6, ''copy''), (8450, 6, ''npmp''), (8450, 17, ''npmp''),
      (8457, 6, ''nexentamv''), (8470, 6, ''cisco-avp''), (8471, 132, ''pim-port''), (8471, 6, ''pim-port''),
      (8471, 17, ''pim-port''), (8472, 6, ''otv''), (8472, 17, ''otv''), (8473, 6, ''vp2p''),
      (8473, 17, ''vp2p''), (8474, 6, ''noteshare''), (8474, 17, ''noteshare''), (8500, 6, ''fmtp''),
      (8500, 17, ''fmtp''), (8501, 6, ''cmtp-mgt''), (8502, 6, ''ftnmtp''), (8503, 6, ''lsp-self-ping''),
      (8554, 6, ''rtsp-alt''), (8554, 17, ''rtsp-alt''), (8555, 6, ''d-fence''), (8555, 17, ''d-fence'')]"

lemma Services_70_ascend: "port_range 8118 8555 Services_70"
  unfolding Services_70_def port_range_def
  by (rule ascending_end ascending_same ascending_next, simp)+

definition Services_71 :: "service_entry list" where
  "Services_71 =
     [(8567, 6, ''oap-admin''), (8567, 17, ''oap-admin''), (8600, 6, ''asterix''), (8600, 17, ''asterix''),
      (8609, 6, ''canon-cpp-disc''), (8610, 6, ''canon-mfnp''), (8610, 17, ''canon-mfnp''), (8611, 6, ''canon-bjnp1''),
      (8611, 17, ''canon-bjnp1''), (8612, 6, ''canon-bjnp2''), (8612, 17, ''canon-bjnp2''), (8613, 6, ''canon-bjnp3''),
      (8613, 17, ''canon-bjnp3''), (8614, 6, ''canon-bjnp4''), (8614, 17, ''canon-bjnp4''), (8615, 6, ''imink''),
      (8665, 6, ''monetra''), (8666, 6, ''monetra-admin''), (8675, 6, ''msi-cps-rm''), (8686, 6, ''sun-as-jmxrmi''),
      (8686, 17, ''sun-as-jmxrmi''), (8688, 6, ''openremote-ctrl''), (8699, 6, ''vnyx''), (8699, 17, ''vnyx''),
      (8711, 6, ''nvc''), (8732, 6, ''dtp-net''), (8732, 17, ''dtp-net''), (8733, 6, ''ibus''),
      (8733, 17, ''ibus''), (8750, 6, ''dey-keyneg''), (8763, 6, ''mc-appserver''), (8763, 17, ''mc-appserver''),
      (8764, 6, ''openqueue''), (8764, 17, ''openqueue''), (8765, 6, ''ultraseek-http''), (8765, 17, ''ultraseek-http''),
      (8766, 6, ''amcs''), (8770, 6, ''apple-iphoto''), (8770, 17, ''dpap''), (8778, 6, ''uec''),
      (8786, 6, ''msgclnt''), (8786, 17, ''msgclnt''), (8787, 6, ''msgsrvr''), (8787, 17, ''msgsrvr''),
      (8793, 6, ''acd-pm''), (8800, 6, ''sunwebadmin''), (8800, 17, ''sunwebadmin''), (8804, 6, ''truecm''),
      (8804, 17, ''truecm''), (8805, 6, ''pfcp''), (8808, 6, ''ssports-bcast''), (8834, 6, ''nessus-xmlrpc''),
      (8873, 6, ''dxspider''), (8873, 17, ''dxspider''), (8880, 6, ''cddbp-alt''), (8880, 17, ''cddbp-alt''),
      (8881, 6, ''galaxy4d''), (8883, 6, ''secure-mqtt''), (8883, 17, ''secure-mqtt''), (8888, 6, ''sun-answerbook''),
      (8888, 17, ''ddi-udp-1''), (8889, 6, ''ddi-tcp-2''), (8889, 17, ''ddi-udp-2''), (8890, 6, ''ddi-tcp-3''),
      (8890, 17, ''ddi-udp-3''), (8891, 6, ''ddi-tcp-4''), (8891, 17, ''ddi-udp-4''), (8892, 6, ''seosload''),
      (8892, 17, ''ddi-udp-5''), (8893, 6, ''ddi-tcp-6''), (8893, 17, ''ddi-udp-6''), (8894, 6, ''ddi-tcp-7''),
      (8894, 17, ''ddi-udp-7''), (8899, 6, ''ospf-lite''), (8899, 17, ''ospf-lite''), (8900, 6, ''jmb-cds1''),
      (8900, 17, ''jmb-cds1''), (8901, 6, ''jmb-cds2''), (8901, 17, ''jmb-cds2''), (8910, 6, ''manyone-http''),
      (8910, 17, ''manyone-http''), (8911, 6, ''manyone-xml''), (8911, 17, ''manyone-xml''), (8912, 6, ''wcbackup''),
      (8912, 17, ''wcbackup''), (8913, 6, ''dragonfly''), (8913, 17, ''dragonfly''), (8937, 6, ''twds''),
      (8953, 6, ''ub-dns-control''), (8954, 6, ''cumulus-admin''), (8954, 17, ''cumulus-admin''), (8980, 6, ''nod-provider''),
      (8981, 6, ''nod-client''), (8989, 6, ''sunwebadmins''), (8989, 17, ''sunwebadmins''), (8990, 6, ''http-wmap''),
      (8990, 17, ''http-wmap''), (8991, 6, ''https-wmap''), (8991, 17, ''https-wmap''), (8997, 6, ''oracle-ms-ens''),
      (8998, 6, ''canto-roboflow''), (8999, 6, ''bctp''), (8999, 17, ''bctp''), (9000, 6, ''cslistener''),
      (9000, 17, ''cslistener''), (9001, 6, ''tor-orport''), (9001, 17, ''etlservicemgr''), (9002, 6, ''dynamid''),
      (9002, 17, ''dynamid''), (9005, 6, ''golem''), (9007, 6, ''ogs-client''), (9007, 17, ''ogs-client''),
      (9008, 6, ''ogs-server''), (9009, 6, ''pichat''), (9009, 17, ''pichat''), (9010, 6, ''sdr''),
      (9020, 6, ''tambora''), (9020, 17, ''tambora''), (9021, 6, ''panagolin-ident''), (9021, 17, ''panagolin-ident''),
      (9022, 6, ''paragent''), (9022, 17, ''paragent''), (9023, 6, ''swa-1''), (9023, 17, ''swa-1''),
      (9024, 6, ''swa-2''), (9024, 17, ''swa-2''), (9025, 6, ''swa-3''), (9025, 17, ''swa-3''),
      (9026, 6, ''swa-4''), (9026, 17, ''swa-4''), (9040, 6, ''tor-trans''), (9050, 6, ''tor-socks''),
      (9051, 6, ''tor-control''), (9060, 6, ''CardWeb-IO''), (9080, 6, ''glrpc''), (9080, 17, ''glrpc''),
      (9081, 6, ''cisco-aqos''), (9082, 132, ''lcs-ap''), (9083, 6, ''emc-pp-mgmtsvc''), (9084, 132, ''aurora''),
      (9084, 6, ''aurora''), (9084, 17, ''aurora''), (9085, 6, ''ibm-rsyscon''), (9085, 17, ''ibm-rsyscon''),
      (9086, 6, ''net2display''), (9086, 17, ''net2display''), (9087, 6, ''classic''), (9087, 17, ''classic'')]"

lemma Services_71_ascend: "port_range 8567 9087 Services_71"
  unfolding Services_71_def port_range_def
  by (rule ascending_end ascending_same ascending_next, simp)+

definition Services_72 :: "service_entry list" where
  "Services_72 =
     [(9088, 6, ''sqlexec''), (9088, 17, ''sqlexec''), (9089, 6, ''sqlexec-ssl''), (9089, 17, ''sqlexec-ssl''),
      (9090, 6, ''zeus-admin''), (9090, 17, ''websm''), (9091, 6, ''xmltec-xmlmail''), (9091, 17, ''xmltec-xmlmail''),
      (9092, 6, ''XmlIpcRegSvc''), (9092, 17, ''XmlIpcRegSvc''), (9093, 6, ''copycat''), (9100, 6, ''jetdirect''),
      (9100, 17, ''hp-pdl-datastr''), (9101, 6, ''jetdirect''), (9101, 17, ''bacula-dir''), (9102, 6, ''jetdirect''),
      (9102, 17, ''bacula-fd''), (9103, 6, ''jetdirect''), (9103, 17, ''bacula-sd''), (9104, 6, ''jetdirect''),
      (9104, 17, ''peerwire''), (9105, 6, ''jetdirect''), (9105, 17, ''xadmin''), (9106, 6, ''jetdirect''),
      (9106, 17, ''astergate-disc''), (9107, 6, ''jetdirect''), (9111, 6, ''DragonIDSConsole''), (9119, 6, ''mxit''),
      (9119, 17, ''mxit''), (9122, 6, ''grcmp''), (9123, 6, ''grcp''), (9131, 6, ''dddp''),
      (9131, 17, ''dddp''), (9152, 6, ''ms-sql2000''), (9160, 6, ''apani1''), (9160, 17, ''apani1''),
      (9161, 6, ''apani2''), (9161, 17, ''apani2''), (9162, 6, ''apani3''), (9162, 17, ''apani3''),
      (9163, 6, ''apani4''), (9163, 17, ''apani4''), (9164, 6, ''apani5''), (9164, 17, ''apani5''),
      (9191, 6, ''sun-as-jpda''), (9191, 17, ''sun-as-jpda''), (9200, 6, ''wap-wsp''), (9200, 17, ''wap-wsp''),
      (9201, 6, ''wap-wsp-wtp''), (9201, 17, ''wap-wsp-wtp''), (9202, 6, ''wap-wsp-s''), (9202, 17, ''wap-wsp-s''),
      (9203, 6, ''wap-wsp-wtp-s''), (9203, 17, ''wap-wsp-wtp-s''), (9204, 6, ''wap-vcard''), (9204, 17, ''wap-vcard''),
      (9205, 6, ''wap-vcal''), (9205, 17, ''wap-vcal''), (9206, 6, ''wap-vcard-s''), (9206, 17, ''wap-vcard-s''),
      (9207, 6, ''wap-vcal-s''), (9207, 17, ''wap-vcal-s''), (9208, 6, ''rjcdb-vcards''), (9208, 17, ''rjcdb-vcards''),
      (9209, 6, ''almobile-system''), (9209, 17, ''almobile-system''), (9210, 6, ''oma-mlp''), (9210, 17, ''oma-mlp''),
      (9211, 6, ''oma-mlp-s''), (9211, 17, ''oma-mlp-s''), (9212, 6, ''serverviewdbms''), (9212, 17, ''serverviewdbms''),
      (9213, 6, ''serverstart''), (9213, 17, ''serverstart''), (9214, 6, ''ipdcesgbs''), (9214, 17, ''ipdcesgbs''),
      (9215, 6, ''insis''), (9215, 17, ''insis''), (9216, 6, ''acme''), (9216, 17, ''acme''),
      (9217, 6, ''fsc-port''), (9217, 17, ''fsc-port''), (9222, 6, ''teamcoherence''), (9222, 17, ''teamcoherence''),
      (9255, 6, ''mon''), (9255, 17, ''mon''), (9277, 6, ''traingpsdata''), (9278, 6, ''pegasus''),
      (9278, 17, ''pegasus''), (9279, 6, ''pegasus-ctl''), (9279, 17, ''pegasus-ctl''), (9280, 6, ''pgps''),
      (9280, 17, ''pgps''), (9281, 6, ''swtp-port1''), (9281, 17, ''swtp-port1''), (9282, 6, ''swtp-port2''),
      (9282, 17, ''swtp-port2''), (9283, 6, ''callwaveiam''), (9283, 17, ''callwaveiam''), (9284, 6, ''visd''),
      (9284, 17, ''visd''), (9285, 6, ''n2h2server''), (9285, 17, ''n2h2server''), (9286, 6, ''n2receive''),
      (9287, 6, ''cumulus''), (9287, 17, ''cumulus''), (9292, 6, ''armtechdaemon''), (9292, 17, ''armtechdaemon''),
      (9293, 6, ''storview''), (9293, 17, ''storview''), (9294, 6, ''armcenterhttp''), (9294, 17, ''armcenterhttp''),
      (9295, 6, ''armcenterhttps''), (9295, 17, ''armcenterhttps''), (9300, 6, ''vrace''), (9300, 17, ''vrace''),
      (9306, 6, ''sphinxql''), (9312, 6, ''sphinxapi''), (9318, 6, ''secure-ts''), (9318, 17, ''secure-ts''),
      (9321, 6, ''guibase''), (9321, 17, ''guibase''), (9333, 6, ''litecoin''), (9343, 6, ''mpidcmgr''),
      (9343, 17, ''mpidcmgr''), (9344, 6, ''mphlpdmc''), (9344, 17, ''mphlpdmc''), (9345, 6, ''rancher''),
      (9346, 6, ''ctechlicensing''), (9346, 17, ''ctechlicensing''), (9374, 6, ''fjdmimgr''), (9374, 17, ''fjdmimgr''),
      (9380, 6, ''boxp''), (9380, 17, ''boxp''), (9387, 6, ''d2dconfig''), (9388, 6, ''d2ddatatrans''),
      (9389, 6, ''adws''), (9390, 6, ''otp''), (9396, 6, ''fjinvmgr''), (9396, 17, ''fjinvmgr''),
      (9397, 6, ''mpidcagt''), (9397, 17, ''mpidcagt''), (9400, 6, ''sec-t4net-srv''), (9400, 17, ''sec-t4net-srv''),
      (9401, 6, ''sec-t4net-clt''), (9401, 17, ''sec-t4net-clt''), (9402, 6, ''sec-pc2fax-srv''), (9402, 17, ''sec-pc2fax-srv'')]"

lemma Services_72_ascend: "port_range 9088 9402 Services_72"
  unfolding Services_72_def port_range_def
  by (rule ascending_end ascending_same ascending_next, simp)+

definition Services_73 :: "service_entry list" where
  "Services_73 =
     [(9418, 6, ''git''), (9418, 17, ''git''), (9443, 6, ''tungsten-https''), (9443, 17, ''tungsten-https''),
      (9444, 6, ''wso2esb-console''), (9444, 17, ''wso2esb-console''), (9445, 6, ''mindarray-ca''), (9450, 6, ''sntlkeyssrvr''),
      (9450, 17, ''sntlkeyssrvr''), (9500, 6, ''ismserver''), (9500, 17, ''ismserver''), (9522, 6, ''sma-spw''),
      (9535, 6, ''man''), (9535, 17, ''man''), (9536, 6, ''laes-bf''), (9536, 17, ''laes-bf''),
      (9555, 6, ''trispen-sra''), (9555, 17, ''trispen-sra''), (9592, 6, ''ldgateway''), (9592, 17, ''ldgateway''),
      (9593, 6, ''cba8''), (9593, 17, ''cba8''), (9594, 6, ''msgsys''), (9594, 17, ''msgsys''),
      (9595, 6, ''pds''), (9595, 17, ''pds''), (9596, 6, ''mercury-disc''), (9596, 17, ''mercury-disc''),
      (9597, 6, ''pd-admin''), (9597, 17, ''pd-admin''), (9598, 6, ''vscp''), (9598, 17, ''vscp''),
      (9599, 6, ''robix''), (9599, 17, ''robix''), (9600, 6, ''micromuse-ncpw''), (9600, 17, ''micromuse-ncpw''),
      (9612, 6, ''streamcomm-ds''), (9612, 17, ''streamcomm-ds''), (9614, 6, ''iadt-tls''), (9616, 6, ''erunbook_agent''),
      (9617, 6, ''erunbook_server''), (9618, 6, ''condor''), (9618, 17, ''condor''), (9628, 6, ''odbcpathway''),
      (9628, 17, ''odbcpathway''), (9629, 6, ''uniport''), (9629, 17, ''uniport''), (9630, 6, ''peoctlr''),
      (9631, 6, ''peocoll''), (9632, 6, ''mc-comm''), (9632, 17, ''mc-comm''), (9640, 6, ''pqsflows''),
      (9666, 6, ''zoomcp''), (9667, 6, ''xmms2''), (9667, 17, ''xmms2''), (9668, 6, ''tec5-sdctp''),
      (9668, 17, ''tec5-sdctp''), (9694, 6, ''client-wakeup''), (9694, 17, ''client-wakeup''), (9695, 6, ''ccnx''),
      (9695, 17, ''ccnx''), (9700, 6, ''board-roar''), (9700, 17, ''board-roar''), (9747, 6, ''l5nas-parchan''),
      (9747, 17, ''l5nas-parchan''), (9750, 6, ''board-voip''), (9750, 17, ''board-voip''), (9753, 6, ''rasadv''),
      (9753, 17, ''rasadv''), (9762, 6, ''tungsten-http''), (9762, 17, ''tungsten-http''), (9800, 6, ''davsrc''),
      (9800, 17, ''davsrc''), (9801, 6, ''sstp-2''), (9801, 17, ''sstp-2''), (9802, 6, ''davsrcs''),
      (9802, 17, ''davsrcs''), (9875, 6, ''sapv1''), (9875, 17, ''sapv1''), (9876, 6, ''sd''),
      (9876, 17, ''sd''), (9878, 6, ''kca-service''), (9888, 6, ''cyborg-systems''), (9888, 17, ''cyborg-systems''),
      (9889, 6, ''gt-proxy''), (9889, 17, ''gt-proxy''), (9898, 6, ''monkeycom''), (9898, 17, ''monkeycom''),
      (9899, 132, ''sctp-tunneling''), (9899, 6, ''sctp-tunneling''), (9899, 17, ''sctp-tunneling''), (9900, 132, ''iua''),
      (9900, 6, ''iua''), (9900, 17, ''iua''), (9901, 132, ''enrp-sctp''), (9901, 17, ''enrp''),
      (9902, 132, ''enrp-sctp-tls''), (9903, 6, ''multicast-ping''), (9909, 6, ''domaintime''), (9909, 17, ''domaintime''),
      (9911, 6, ''sype-transport''), (9911, 17, ''sype-transport''), (9925, 6, ''xybrid-cloud''), (9929, 6, ''nping-echo''),
      (9950, 6, ''apc-9950''), (9950, 17, ''apc-9950''), (9951, 6, ''apc-9951''), (9951, 17, ''apc-9951''),
      (9952, 6, ''apc-9952''), (9952, 17, ''apc-9952''), (9953, 6, ''acis''), (9953, 17, ''acis''),
      (9954, 6, ''hinp''), (9955, 6, ''alljoyn-stm''), (9956, 6, ''alljoyn''), (9966, 6, ''odnsp''),
      (9966, 17, ''odnsp''), (9978, 6, ''xybrid-rt''), (9979, 6, ''visweather''), (9981, 6, ''pumpkindb''),
      (9987, 6, ''dsm-scm-target''), (9987, 17, ''dsm-scm-target''), (9988, 6, ''nsesrvr''), (9990, 6, ''osm-appsrvr''),
      (9990, 17, ''osm-appsrvr''), (9991, 6, ''issa''), (9991, 17, ''osm-oev''), (9992, 6, ''issc''),
      (9992, 17, ''palace-1''), (9993, 6, ''palace-2''), (9993, 17, ''palace-2''), (9994, 6, ''palace-3''),
      (9994, 17, ''palace-3''), (9995, 6, ''palace-4''), (9995, 17, ''palace-4''), (9996, 6, ''palace-5''),
      (9996, 17, ''palace-5''), (9997, 6, ''palace-6''), (9997, 17, ''palace-6''), (9998, 6, ''distinct32''),
      (9998, 17, ''distinct32''), (9999, 6, ''abyss''), (9999, 17, ''distinct''), (10000, 6, ''snet-sensor-mgmt''),
      (10000, 17, ''ndmp''), (10001, 6, ''scp-config''), (10001, 17, ''scp-config''), (10002, 6, ''documentum''),
      (10002, 17, ''documentum'')]"

lemma Services_73_ascend: "port_range 9418 10002 Services_73"
  unfolding Services_73_def port_range_def
  by (rule ascending_end ascending_same ascending_next, simp)+

definition Services_74 :: "service_entry list" where
  "Services_74 =
     [(10003, 6, ''documentum_s''), (10003, 17, ''documentum_s''), (10004, 6, ''emcrmirccd''), (10005, 6, ''stel''),
      (10006, 6, ''netapp-sync''), (10007, 6, ''mvs-capacity''), (10007, 17, ''mvs-capacity''), (10008, 6, ''octopus''),
      (10008, 17, ''octopus''), (10009, 6, ''swdtp-sv''), (10009, 17, ''swdtp-sv''), (10010, 6, ''rxapi''),
      (10020, 6, ''abb-hw''), (10023, 6, ''cefd-vmp''), (10050, 6, ''zabbix-agent''), (10050, 17, ''zabbix-agent''),
      (10051, 6, ''zabbix-trapper''), (10051, 17, ''zabbix-trapper''), (10055, 6, ''qptlmd''), (10080, 6, ''amanda''),
      (10080, 17, ''amanda''), (10081, 6, ''famdc''), (10081, 17, ''famdc''), (10082, 6, ''amandaidx''),
      (10083, 6, ''amidxtape''), (10100, 6, ''itap-ddtp''), (10100, 17, ''itap-ddtp''), (10101, 6, ''ezmeeting-2''),
      (10101, 17, ''ezmeeting-2''), (10102, 6, ''ezproxy-2''), (10102, 17, ''ezproxy-2''), (10103, 6, ''ezrelay''),
      (10103, 17, ''ezrelay''), (10104, 6, ''swdtp''), (10104, 17, ''swdtp''), (10107, 6, ''bctp-server''),
      (10107, 17, ''bctp-server''), (10110, 6, ''nmea-0183''), (10110, 17, ''nmea-0183''), (10111, 6, ''nmea-onenet''),
      (10113, 6, ''netiq-endpoint''), (10113, 17, ''netiq-endpoint''), (10114, 6, ''netiq-qcheck''), (10114, 17, ''netiq-qcheck''),
      (10115, 6, ''netiq-endpt''), (10115, 17, ''netiq-endpt''), (10116, 6, ''netiq-voipa''), (10116, 17, ''netiq-voipa''),
      (10117, 6, ''iqrm''), (10117, 17, ''iqrm''), (10125, 6, ''cimple''), (10128, 6, ''bmc-perf-sd''),
      (10128, 17, ''bmc-perf-sd''), (10129, 6, ''bmc-gms''), (10160, 6, ''qb-db-server''), (10160, 17, ''qb-db-server''),
      (10161, 6, ''snmptls''), (10161, 17, ''snmpdtls''), (10162, 6, ''snmptls-trap''), (10162, 17, ''snmpdtls-trap''),
      (10200, 6, ''trisoap''), (10200, 17, ''trisoap''), (10201, 6, ''rsms''), (10201, 17, ''rscs''),
      (10252, 6, ''apollo-relay''), (10252, 17, ''apollo-relay''), (10253, 6, ''eapol-relay''), (10260, 6, ''axis-wimp-port''),
      (10260, 17, ''axis-wimp-port''), (10261, 6, ''tile-ml''), (10288, 6, ''blocks''), (10288, 17, ''blocks''),
      (10321, 6, ''cosir''), (10439, 6, ''bngsync''), (10500, 6, ''hip-nat-t''), (10500, 17, ''hip-nat-t''),
      (10540, 6, ''MOS-lower''), (10540, 17, ''MOS-lower''), (10541, 6, ''MOS-upper''), (10541, 17, ''MOS-upper''),
      (10542, 6, ''MOS-aux''), (10542, 17, ''MOS-aux''), (10543, 6, ''MOS-soap''), (10543, 17, ''MOS-soap''),
      (10544, 6, ''MOS-soap-opt''), (10544, 17, ''MOS-soap-opt''), (10548, 6, ''serverdocs''), (10631, 6, ''printopia''),
      (10800, 6, ''gap''), (10800, 17, ''gap''), (10805, 6, ''lpdg''), (10805, 17, ''lpdg''),
      (10809, 6, ''nbd''), (10810, 6, ''nmc-disc''), (10810, 17, ''nmc-disc''), (10860, 6, ''helix''),
      (10860, 17, ''helix''), (10880, 6, ''bveapi''), (10933, 6, ''octopustentacle''), (10990, 6, ''rmiaux''),
      (10990, 17, ''rmiaux''), (11000, 6, ''irisa''), (11000, 17, ''irisa''), (11001, 6, ''metasys''),
      (11001, 17, ''metasys''), (11095, 6, ''weave''), (11103, 6, ''origo-sync''), (11104, 6, ''netapp-icmgmt''),
      (11105, 6, ''netapp-icdata''), (11106, 6, ''sgi-lk''), (11106, 17, ''sgi-lk''), (11108, 6, ''myq-termlink''),
      (11109, 6, ''sgi-dmfmgr''), (11110, 6, ''sgi-soap''), (11111, 6, ''vce''), (11111, 17, ''vce''),
      (11112, 6, ''dicom''), (11112, 17, ''dicom''), (11161, 6, ''suncacao-snmp''), (11161, 17, ''suncacao-snmp''),
      (11162, 6, ''suncacao-jmxmp''), (11162, 17, ''suncacao-jmxmp''), (11163, 6, ''suncacao-rmi''), (11163, 17, ''suncacao-rmi''),
      (11164, 6, ''suncacao-csa''), (11164, 17, ''suncacao-csa''), (11165, 6, ''suncacao-websvc''), (11165, 17, ''suncacao-websvc''),
      (11171, 6, ''snss''), (11171, 17, ''snss''), (11172, 6, ''oemcacao-jmxmp''), (11173, 6, ''t5-straton''),
      (11174, 6, ''oemcacao-rmi''), (11175, 6, ''oemcacao-websvc''), (11201, 6, ''smsqp''), (11201, 17, ''smsqp''),
      (11202, 6, ''dcsl-backup''), (11208, 6, ''wifree''), (11208, 17, ''wifree''), (11211, 6, ''memcache''),
      (11211, 17, ''memcache''), (11319, 6, ''imip''), (11319, 17, ''imip''), (11320, 6, ''imip-channels''),
      (11320, 17, ''imip-channels''), (11321, 6, ''arena-server''), (11321, 17, ''arena-server''), (11367, 6, ''atm-uhas''),
      (11367, 17, ''atm-uhas'')]"

lemma Services_74_ascend: "port_range 10003 11367 Services_74"
  unfolding Services_74_def port_range_def
  by (rule ascending_end ascending_same ascending_next, simp)+

definition Services_75 :: "service_entry list" where
  "Services_75 =
     [(11371, 6, ''pksd''), (11371, 17, ''hkp''), (11430, 6, ''lsdp''), (11489, 6, ''asgcypresstcps''),
      (11600, 6, ''tempest-port''), (11600, 17, ''tempest-port''), (11623, 6, ''emc-xsw-dconfig''), (11720, 6, ''h323callsigalt''),
      (11720, 17, ''h323callsigalt''), (11723, 6, ''emc-xsw-dcache''), (11751, 6, ''intrepid-ssl''), (11751, 17, ''intrepid-ssl''),
      (11796, 6, ''lanschool''), (11876, 6, ''xoraya''), (11876, 17, ''xoraya''), (11877, 6, ''x2e-disc''),
      (11877, 17, ''x2e-disc''), (11967, 6, ''sysinfo-sp''), (11967, 17, ''sysinfo-sp''), (11997, 132, ''wmereceiving''),
      (11998, 132, ''wmedistribution''), (11999, 132, ''wmereporting''), (12000, 6, ''cce4x''), (12000, 17, ''entextxid''),
      (12001, 6, ''entextnetwk''), (12001, 17, ''entextnetwk''), (12002, 6, ''entexthigh''), (12002, 17, ''entexthigh''),
      (12003, 6, ''entextmed''), (12003, 17, ''entextmed''), (12004, 6, ''entextlow''), (12004, 17, ''entextlow''),
      (12005, 6, ''dbisamserver1''), (12005, 17, ''dbisamserver1''), (12006, 6, ''dbisamserver2''), (12006, 17, ''dbisamserver2''),
      (12007, 6, ''accuracer''), (12007, 17, ''accuracer''), (12008, 6, ''accuracer-dbms''), (12008, 17, ''accuracer-dbms''),
      (12009, 6, ''ghvpn''), (12010, 6, ''edbsrvr''), (12012, 6, ''vipera''), (12012, 17, ''vipera''),
      (12013, 6, ''vipera-ssl''), (12013, 17, ''vipera-ssl''), (12109, 6, ''rets-ssl''), (12109, 17, ''rets-ssl''),
      (12121, 6, ''nupaper-ss''), (12121, 17, ''nupaper-ss''), (12168, 6, ''cawas''), (12168, 17, ''cawas''),
      (12172, 6, ''hivep''), (12172, 17, ''hivep''), (12300, 6, ''linogridengine''), (12300, 17, ''linogridengine''),
      (12302, 6, ''rads''), (12321, 6, ''warehouse-sss''), (12321, 17, ''warehouse-sss''), (12322, 6, ''warehouse''),
      (12322, 17, ''warehouse''), (12345, 6, ''netbus''), (12345, 17, ''italk''), (12346, 6, ''netbus''),
      (12753, 6, ''tsaf''), (12753, 17, ''tsaf''), (12865, 6, ''netperf''), (13160, 6, ''i-zipqd''),
      (13160, 17, ''i-zipqd''), (13216, 6, ''bcslogc''), (13216, 17, ''bcslogc''), (13217, 6, ''rs-pias''),
      (13217, 17, ''rs-pias''), (13218, 6, ''emc-vcas-tcp''), (13218, 17, ''emc-vcas-udp''), (13223, 6, ''powwow-client''),
      (13223, 17, ''powwow-client''), (13224, 6, ''powwow-server''), (13224, 17, ''powwow-server''), (13400, 6, ''doip-data''),
      (13701, 6, ''netbackup''), (13702, 6, ''netbackup''), (13705, 6, ''netbackup''), (13706, 6, ''netbackup''),
      (13708, 6, ''netbackup''), (13709, 6, ''netbackup''), (13710, 6, ''netbackup''), (13711, 6, ''netbackup''),
      (13712, 6, ''netbackup''), (13713, 6, ''netbackup''), (13714, 6, ''netbackup''), (13715, 6, ''netbackup''),
      (13716, 6, ''netbackup''), (13717, 6, ''netbackup''), (13718, 6, ''netbackup''), (13720, 6, ''netbackup''),
      (13720, 17, ''bprd''), (13721, 6, ''netbackup''), (13721, 17, ''bpdbm''), (13722, 6, ''netbackup''),
      (13722, 17, ''bpjava-msvc''), (13724, 6, ''vnetd''), (13724, 17, ''vnetd''), (13782, 6, ''netbackup''),
      (13782, 17, ''bpcd''), (13783, 6, ''netbackup''), (13783, 17, ''vopied''), (13785, 6, ''nbdb''),
      (13785, 17, ''nbdb''), (13786, 6, ''nomdb''), (13786, 17, ''nomdb''), (13818, 6, ''dsmcc-config''),
      (13818, 17, ''dsmcc-config''), (13819, 6, ''dsmcc-session''), (13819, 17, ''dsmcc-session''), (13820, 6, ''dsmcc-passthru''),
      (13820, 17, ''dsmcc-passthru''), (13821, 6, ''dsmcc-download''), (13821, 17, ''dsmcc-download''), (13822, 6, ''dsmcc-ccp''),
      (13822, 17, ''dsmcc-ccp''), (13823, 6, ''bmdss''), (13882, 6, ''vunknown''), (13894, 6, ''ucontrol''),
      (13929, 6, ''dta-systems''), (13929, 17, ''dta-systems''), (13930, 6, ''medevolve''), (14000, 6, ''scotty-ft''),
      (14000, 17, ''scotty-ft''), (14001, 132, ''sua''), (14001, 6, ''sua''), (14001, 17, ''sua''),
      (14002, 6, ''scotty-disc''), (14033, 6, ''sage-best-com1''), (14033, 17, ''sage-best-com1''), (14034, 6, ''sage-best-com2''),
      (14034, 17, ''sage-best-com2''), (14141, 6, ''bo2k''), (14141, 17, ''vcs-app''), (14142, 6, ''icpp''),
      (14142, 17, ''icpp''), (14143, 6, ''icpps''), (14145, 6, ''gcm-app''), (14145, 17, ''gcm-app''),
      (14149, 6, ''vrts-tdd''), (14149, 17, ''vrts-tdd''), (14150, 6, ''vcscmd''), (14154, 6, ''vad''),
      (14154, 17, ''vad'')]"

lemma Services_75_ascend: "port_range 11371 14154 Services_75"
  unfolding Services_75_def port_range_def
  by (rule ascending_end ascending_same ascending_next, simp)+

definition Services_76 :: "service_entry list" where
  "Services_76 =
     [(14250, 6, ''cps''), (14250, 17, ''cps''), (14414, 6, ''ca-web-update''), (14414, 17, ''ca-web-update''),
      (14500, 6, ''xpra''), (14936, 6, ''hde-lcesrvr-1''), (14936, 17, ''hde-lcesrvr-1''), (14937, 6, ''hde-lcesrvr-2''),
      (14937, 17, ''hde-lcesrvr-2''), (15000, 6, ''hydap''), (15000, 17, ''hydap''), (15002, 6, ''onep-tls''),
      (15118, 6, ''v2g-secc''), (15126, 6, ''swgps''), (15151, 6, ''bo2k''), (15345, 6, ''xpilot''),
      (15345, 17, ''xpilot''), (15363, 6, ''3link''), (15363, 17, ''3link''), (15555, 6, ''cisco-snat''),
      (15555, 17, ''cisco-snat''), (15660, 6, ''bex-xr''), (15660, 17, ''bex-xr''), (15740, 6, ''ptp''),
      (15740, 17, ''ptp''), (15998, 6, ''2ping''), (15998, 17, ''2ping''), (15999, 6, ''programmar''),
      (16000, 6, ''fmsas''), (16001, 6, ''fmsascon''), (16002, 6, ''gsms''), (16003, 6, ''alfin''),
      (16003, 17, ''alfin''), (16020, 6, ''jwpc''), (16021, 6, ''jwpc-bin''), (16080, 6, ''osxwebadmin''),
      (16161, 6, ''sun-sea-port''), (16161, 17, ''sun-sea-port''), (16162, 6, ''solaris-audit''), (16309, 6, ''etb4j''),
      (16309, 17, ''etb4j''), (16310, 6, ''pduncs''), (16310, 17, ''pduncs''), (16311, 6, ''pdefmns''),
      (16311, 17, ''pdefmns''), (16360, 6, ''netserialext1''), (16360, 17, ''netserialext1''), (16361, 6, ''netserialext2''),
      (16361, 17, ''netserialext2''), (16367, 6, ''netserialext3''), (16367, 17, ''netserialext3''), (16368, 6, ''netserialext4''),
      (16368, 17, ''netserialext4''), (16384, 6, ''connected''), (16384, 17, ''connected''), (16385, 6, ''rdgs''),
      (16444, 6, ''overnet''), (16444, 17, ''overnet''), (16619, 6, ''xoms''), (16665, 6, ''axon-tunnel''),
      (16666, 6, ''vtp''), (16789, 6, ''cadsisvr''), (16900, 6, ''newbay-snc-mc''), (16900, 17, ''newbay-snc-mc''),
      (16950, 6, ''sgcip''), (16950, 17, ''sgcip''), (16959, 6, ''subseven''), (16991, 6, ''intel-rci-mp''),
      (16991, 17, ''intel-rci-mp''), (16992, 6, ''amt-soap-http''), (16992, 17, ''amt-soap-http''), (16993, 6, ''amt-soap-https''),
      (16993, 17, ''amt-soap-https''), (16994, 6, ''amt-redir-tcp''), (16994, 17, ''amt-redir-tcp''), (16995, 6, ''amt-redir-tls''),
      (16995, 17, ''amt-redir-tls''), (17007, 6, ''isode-dua''), (17007, 17, ''isode-dua''), (17184, 6, ''vestasdlp''),
      (17185, 6, ''soundsvirtual''), (17185, 17, ''wdbrpc''), (17219, 6, ''chipper''), (17219, 17, ''chipper''),
      (17220, 6, ''avtp''), (17221, 6, ''avdecc''), (17222, 6, ''cpsp''), (17223, 6, ''isa100-gci''),
      (17224, 6, ''trdp-pd''), (17225, 6, ''trdp-md''), (17234, 6, ''integrius-stp''), (17234, 17, ''integrius-stp''),
      (17235, 6, ''ssh-mgmt''), (17235, 17, ''ssh-mgmt''), (17300, 6, ''kuang2''), (17500, 6, ''db-lsp''),
      (17500, 17, ''db-lsp-disc''), (17555, 6, ''ailith''), (17729, 6, ''ea''), (17729, 17, ''ea''),
      (17754, 6, ''zep''), (17754, 17, ''zep''), (17755, 6, ''zigbee-ip''), (17755, 17, ''zigbee-ip''),
      (17756, 6, ''zigbee-ips''), (17756, 17, ''zigbee-ips''), (17777, 6, ''sw-orion''), (18000, 6, ''biimenu''),
      (18000, 17, ''biimenu''), (18104, 6, ''radpdf''), (18136, 6, ''racf''), (18181, 6, ''opsec-cvp''),
      (18181, 17, ''opsec-cvp''), (18182, 6, ''opsec-ufp''), (18182, 17, ''opsec-ufp''), (18183, 6, ''opsec-sam''),
      (18183, 17, ''opsec-sam''), (18184, 6, ''opsec-lea''), (18184, 17, ''opsec-lea''), (18185, 6, ''opsec-omi''),
      (18185, 17, ''opsec-omi''), (18186, 6, ''ohsc''), (18186, 17, ''ohsc''), (18187, 6, ''opsec-ela''),
      (18187, 17, ''opsec-ela''), (18241, 6, ''checkpoint-rtm''), (18241, 17, ''checkpoint-rtm''), (18242, 6, ''iclid''),
      (18243, 6, ''clusterxl''), (18262, 6, ''gv-pf''), (18262, 17, ''gv-pf''), (18333, 6, ''bitcoin''),
      (18463, 6, ''ac-cluster''), (18463, 17, ''ac-cluster''), (18634, 6, ''rds-ib''), (18634, 17, ''rds-ib''),
      (18635, 6, ''rds-ip''), (18635, 17, ''rds-ip''), (18668, 6, ''vdmmesh''), (18769, 6, ''ique''),
      (18769, 17, ''ique''), (18881, 6, ''infotos''), (18881, 17, ''infotos''), (18888, 6, ''apc-necmp''),
      (18888, 17, ''apc-necmp''), (19000, 6, ''igrid''), (19000, 17, ''igrid''), (19007, 6, ''scintilla''),
      (19020, 6, ''j-link'')]"

lemma Services_76_ascend: "port_range 14250 19020 Services_76"
  unfolding Services_76_def port_range_def
  by (rule ascending_end ascending_same ascending_next, simp)+

definition Services_77 :: "service_entry list" where
  "Services_77 =
     [(19150, 6, ''gkrellm''), (19191, 6, ''opsec-uaa''), (19191, 17, ''opsec-uaa''), (19194, 6, ''ua-secureagent''),
      (19194, 17, ''ua-secureagent''), (19220, 6, ''cora''), (19283, 6, ''keysrvr''), (19283, 17, ''keysrvr''),
      (19315, 6, ''keyshadow''), (19315, 17, ''keyshadow''), (19333, 6, ''litecoin''), (19398, 6, ''mtrgtrans''),
      (19398, 17, ''mtrgtrans''), (19410, 6, ''hp-sco''), (19410, 17, ''hp-sco''), (19411, 6, ''hp-sca''),
      (19411, 17, ''hp-sca''), (19412, 6, ''hp-sessmon''), (19412, 17, ''hp-sessmon''), (19539, 6, ''fxuptp''),
      (19539, 17, ''fxuptp''), (19540, 6, ''sxuptp''), (19540, 17, ''sxuptp''), (19541, 6, ''jcp''),
      (19541, 17, ''jcp''), (19788, 6, ''mle''), (19998, 6, ''iec-104-sec''), (19999, 6, ''dnp-sec''),
      (19999, 17, ''dnp-sec''), (20000, 6, ''dnp''), (20000, 17, ''dnp''), (20001, 6, ''microsan''),
      (20001, 17, ''microsan''), (20002, 6, ''commtact-http''), (20002, 17, ''commtact-http''), (20003, 6, ''commtact-https''),
      (20003, 17, ''commtact-https''), (20005, 6, ''btx''), (20005, 17, ''openwebnet''), (20012, 6, ''ss-idi-disc''),
      (20012, 17, ''ss-idi-disc''), (20013, 6, ''ss-idi''), (20014, 6, ''opendeploy''), (20014, 17, ''opendeploy''),
      (20031, 17, ''bakbonenetvault''), (20034, 6, ''nburn_id''), (20034, 17, ''nburn_id''), (20046, 6, ''tmophl7mts''),
      (20046, 17, ''tmophl7mts''), (20048, 6, ''mountd''), (20048, 17, ''mountd''), (20049, 132, ''nfsrdma''),
      (20049, 6, ''nfsrdma''), (20049, 17, ''nfsrdma''), (20057, 6, ''avesterra''), (20167, 6, ''tolfab''),
      (20167, 17, ''tolfab''), (20202, 6, ''ipdtp-port''), (20202, 17, ''ipdtp-port''), (20222, 6, ''ipulse-ics''),
      (20222, 17, ''ipulse-ics''), (20480, 6, ''emwavemsg''), (20480, 17, ''emwavemsg''), (20670, 6, ''track''),
      (20670, 17, ''track''), (20999, 6, ''athand-mmp''), (20999, 17, ''athand-mmp''), (21000, 6, ''irtrans''),
      (21000, 17, ''irtrans''), (21010, 6, ''notezilla-lan''), (21201, 6, ''memcachedb''), (21212, 6, ''trinket-agent''),
      (21221, 6, ''aigairserver''), (21553, 6, ''rdm-tfs''), (21554, 6, ''dfserver''), (21554, 17, ''dfserver''),
      (21590, 6, ''vofr-gateway''), (21590, 17, ''vofr-gateway''), (21800, 6, ''tvpm''), (21800, 17, ''tvpm''),
      (21845, 6, ''webphone''), (21845, 17, ''webphone''), (21846, 6, ''netspeak-is''), (21846, 17, ''netspeak-is''),
      (21847, 6, ''netspeak-cs''), (21847, 17, ''netspeak-cs''), (21848, 6, ''netspeak-acd''), (21848, 17, ''netspeak-acd''),
      (21849, 6, ''netspeak-cps''), (21849, 17, ''netspeak-cps''), (22000, 6, ''snapenetio''), (22000, 17, ''snapenetio''),
      (22001, 6, ''optocontrol''), (22001, 17, ''optocontrol''), (22002, 6, ''optohost002''), (22002, 17, ''optohost002''),
      (22003, 6, ''optohost003''), (22003, 17, ''optohost003''), (22004, 6, ''optohost004''), (22004, 17, ''optohost004''),
      (22005, 6, ''optohost004''), (22005, 17, ''optohost004''), (22125, 6, ''dcap''), (22128, 6, ''gsidcap''),
      (22222, 6, ''easyengine''), (22273, 6, ''wnn6''), (22273, 17, ''wnn6''), (22289, 6, ''wnn6_Cn''),
      (22305, 6, ''wnn6_Kr''), (22305, 17, ''cis''), (22321, 6, ''wnn6_Tw''), (22335, 6, ''shrewd-control''),
      (22343, 6, ''cis-secure''), (22343, 17, ''cis-secure''), (22347, 6, ''WibuKey''), (22347, 17, ''WibuKey''),
      (22350, 6, ''CodeMeter''), (22350, 17, ''CodeMeter''), (22351, 6, ''codemeter-cmwan''), (22370, 6, ''hpnpd''),
      (22370, 17, ''hpnpd''), (22537, 6, ''caldsoft-backup''), (22555, 6, ''vocaltec-wconf''), (22555, 17, ''vocaltec-phone''),
      (22763, 6, ''talikaserver''), (22763, 17, ''talikaserver''), (22800, 6, ''aws-brf''), (22800, 17, ''aws-brf''),
      (22951, 6, ''brf-gw''), (22951, 17, ''brf-gw''), (23000, 6, ''inovaport1''), (23000, 17, ''inovaport1''),
      (23001, 6, ''inovaport2''), (23001, 17, ''inovaport2''), (23002, 6, ''inovaport3''), (23002, 17, ''inovaport3''),
      (23003, 6, ''inovaport4''), (23003, 17, ''inovaport4''), (23004, 6, ''inovaport5''), (23004, 17, ''inovaport5''),
      (23005, 6, ''inovaport6''), (23005, 17, ''inovaport6''), (23053, 6, ''gntp''), (23272, 6, ''s102''),
      (23272, 17, ''s102''), (23294, 6, ''5afe-dir''), (23333, 6, ''elxmgmt''), (23333, 17, ''elxmgmt'')]"

lemma Services_77_ascend: "port_range 19150 23333 Services_77"
  unfolding Services_77_def port_range_def
  by (rule ascending_end ascending_same ascending_next, simp)+

definition Services_78 :: "service_entry list" where
  "Services_78 =
     [(23400, 6, ''novar-dbase''), (23400, 17, ''novar-dbase''), (23401, 6, ''novar-alarm''), (23401, 17, ''novar-alarm''),
      (23402, 6, ''novar-global''), (23402, 17, ''novar-global''), (23456, 6, ''aequus''), (23457, 6, ''aequus-alt''),
      (23546, 6, ''areaguard-neo''), (24000, 6, ''med-ltp''), (24000, 17, ''med-ltp''), (24001, 6, ''med-fsp-rx''),
      (24001, 17, ''med-fsp-rx''), (24002, 6, ''med-fsp-tx''), (24002, 17, ''med-fsp-tx''), (24003, 6, ''med-supp''),
      (24003, 17, ''med-supp''), (24004, 6, ''med-ovw''), (24004, 17, ''med-ovw''), (24005, 6, ''med-ci''),
      (24005, 17, ''med-ci''), (24006, 6, ''med-net-svc''), (24006, 17, ''med-net-svc''), (24242, 6, ''filesphere''),
      (24242, 17, ''filesphere''), (24249, 6, ''vista-4gl''), (24249, 17, ''vista-4gl''), (24321, 6, ''ild''),
      (24321, 17, ''ild''), (24322, 6, ''hid''), (24386, 6, ''intel_rci''), (24386, 17, ''intel_rci''),
      (24465, 6, ''tonidods''), (24465, 17, ''tonidods''), (24554, 6, ''binkp''), (24554, 17, ''binkp''),
      (24577, 6, ''bilobit''), (24666, 6, ''sdtvwcam''), (24676, 6, ''canditv''), (24676, 17, ''canditv''),
      (24677, 6, ''flashfiler''), (24677, 17, ''flashfiler''), (24678, 6, ''proactivate''), (24678, 17, ''proactivate''),
      (24680, 6, ''tcc-http''), (24680, 17, ''tcc-http''), (24754, 6, ''cslg''), (24850, 6, ''assoc-disc''),
      (24922, 6, ''find''), (24922, 17, ''find''), (25000, 6, ''icl-twobase1''), (25000, 17, ''icl-twobase1''),
      (25001, 6, ''icl-twobase2''), (25001, 17, ''icl-twobase2''), (25002, 6, ''icl-twobase3''), (25002, 17, ''icl-twobase3''),
      (25003, 6, ''icl-twobase4''), (25003, 17, ''icl-twobase4''), (25004, 6, ''icl-twobase5''), (25004, 17, ''icl-twobase5''),
      (25005, 6, ''icl-twobase6''), (25005, 17, ''icl-twobase6''), (25006, 6, ''icl-twobase7''), (25006, 17, ''icl-twobase7''),
      (25007, 6, ''icl-twobase8''), (25007, 17, ''icl-twobase8''), (25008, 6, ''icl-twobase9''), (25008, 17, ''icl-twobase9''),
      (25009, 6, ''icl-twobase10''), (25009, 17, ''icl-twobase10''), (25471, 6, ''rna''), (25565, 6, ''minecraft''),
      (25576, 6, ''sauterdongle''), (25604, 6, ''idtp''), (25793, 6, ''vocaltec-hos''), (25793, 17, ''vocaltec-hos''),
      (25900, 6, ''tasp-net''), (25900, 17, ''tasp-net''), (25901, 6, ''niobserver''), (25901, 17, ''niobserver''),
      (25902, 6, ''nilinkanalyst''), (25902, 17, ''nilinkanalyst''), (25903, 6, ''niprobe''), (25903, 17, ''niprobe''),
      (25954, 6, ''bf-game''), (25955, 6, ''bf-master''), (26000, 6, ''quake''), (26000, 17, ''quake''),
      (26133, 6, ''scscp''), (26133, 17, ''scscp''), (26208, 6, ''wnn6_DS''), (26208, 17, ''wnn6-ds''),
      (26257, 6, ''cockroach''), (26260, 6, ''ezproxy''), (26260, 17, ''ezproxy''), (26261, 6, ''ezmeeting''),
      (26261, 17, ''ezmeeting''), (26262, 6, ''k3software-svr''), (26262, 17, ''k3software-svr''), (26263, 6, ''k3software-cli''),
      (26263, 17, ''k3software-cli''), (26486, 6, ''exoline-tcp''), (26486, 17, ''exoline-udp''), (26487, 6, ''exoconfig''),
      (26487, 17, ''exoconfig''), (26489, 6, ''exonet''), (26489, 17, ''exonet''), (26900, 17, ''hexen2''),
      (27000, 6, ''flexlm0''), (27000, 17, ''flex-lm''), (27001, 6, ''flexlm1''), (27001, 17, ''flex-lm''),
      (27002, 6, ''flexlm2''), (27002, 17, ''flex-lm''), (27003, 6, ''flexlm3''), (27003, 17, ''flex-lm''),
      (27004, 6, ''flexlm4''), (27004, 17, ''flex-lm''), (27005, 6, ''flexlm5''), (27005, 17, ''flex-lm''),
      (27006, 6, ''flexlm6''), (27006, 17, ''flex-lm''), (27007, 6, ''flexlm7''), (27007, 17, ''flex-lm''),
      (27008, 6, ''flexlm8''), (27008, 17, ''flex-lm''), (27009, 6, ''flexlm9''), (27009, 17, ''flex-lm''),
      (27010, 6, ''flexlm10''), (27015, 17, ''halflife''), (27017, 6, ''mongod''), (27018, 6, ''mongod''),
      (27019, 6, ''mongod''), (27345, 6, ''imagepump''), (27345, 17, ''imagepump''), (27374, 6, ''subseven''),
      (27442, 6, ''jesmsjc''), (27442, 17, ''jesmsjc''), (27444, 17, ''Trinoo_Bcast''), (27500, 17, ''quakeworld''),
      (27504, 6, ''kopek-httphead''), (27504, 17, ''kopek-httphead''), (27665, 6, ''Trinoo_Master''), (27782, 6, ''ars-vista''),
      (27782, 17, ''ars-vista''), (27876, 6, ''astrolink''), (27910, 17, ''quake2''), (27960, 17, ''quake3'')]"

lemma Services_78_ascend: "port_range 23400 27960 Services_78"
  unfolding Services_78_def port_range_def
  by (rule ascending_end ascending_same ascending_next, simp)+

definition Services_79 :: "service_entry list" where
  "Services_79 =
     [(27999, 6, ''tw-auth-key''), (27999, 17, ''tw-auth-key''), (28000, 6, ''nxlmd''), (28000, 17, ''nxlmd''),
      (28001, 6, ''pqsp''), (28017, 6, ''mongod''), (28119, 6, ''a27-ran-ran''), (28200, 6, ''voxelstorm''),
      (28240, 6, ''siemensgsm''), (28240, 17, ''siemensgsm''), (28589, 6, ''bosswave''), (28910, 17, ''heretic2''),
      (29118, 132, ''sgsap''), (29167, 6, ''otmp''), (29167, 17, ''otmp''), (29168, 132, ''sbcap''),
      (29169, 132, ''iuhsctpassoc''), (29999, 6, ''bingbang''), (30000, 6, ''ndmps''), (30001, 6, ''pago-services1''),
      (30001, 17, ''pago-services1''), (30002, 6, ''pago-services2''), (30002, 17, ''pago-services2''), (30003, 6, ''amicon-fpsu-ra''),
      (30004, 6, ''amicon-fpsu-s''), (30100, 6, ''rwp''), (30260, 6, ''kingdomsonline''), (30260, 17, ''kingdomsonline''),
      (30400, 6, ''gs-realtime''), (30832, 6, ''samsung-disc''), (30999, 6, ''ovobs''), (30999, 17, ''ovobs''),
      (31016, 6, ''ka-sddp''), (31020, 6, ''autotrac-acp''), (31029, 6, ''yawn''), (31029, 17, ''yawn''),
      (31335, 17, ''Trinoo_Register''), (31337, 6, ''Elite''), (31337, 17, ''BackOrifice''), (31400, 6, ''pace-licensed''),
      (31416, 6, ''boinc''), (31416, 17, ''xqosd''), (31457, 6, ''tetrinet''), (31457, 17, ''tetrinet''),
      (31620, 6, ''lm-mon''), (31620, 17, ''lm-mon''), (31685, 6, ''dsx_monitor''), (31727, 6, ''diagd''),
      (31765, 6, ''gamesmith-port''), (31765, 17, ''gamesmith-port''), (31948, 6, ''iceedcp_tx''), (31948, 17, ''iceedcp_tx''),
      (31949, 6, ''iceedcp_rx''), (31949, 17, ''iceedcp_rx''), (32034, 6, ''iracinghelper''), (32034, 17, ''iracinghelper''),
      (32249, 6, ''t1distproc60''), (32249, 17, ''t1distproc60''), (32400, 6, ''plex''), (32483, 6, ''apm-link''),
      (32483, 17, ''apm-link''), (32635, 6, ''sec-ntb-clnt''), (32635, 17, ''sec-ntb-clnt''), (32636, 6, ''DMExpress''),
      (32636, 17, ''DMExpress''), (32767, 6, ''filenet-powsrm''), (32767, 17, ''filenet-powsrm''), (32768, 6, ''filenet-tms''),
      (32768, 17, ''omad''), (32769, 6, ''filenet-rpc''), (32769, 17, ''filenet-rpc''), (32770, 6, ''sometimes-rpc3''),
      (32770, 17, ''sometimes-rpc4''), (32771, 6, ''sometimes-rpc5''), (32771, 17, ''sometimes-rpc6''), (32772, 6, ''sometimes-rpc7''),
      (32772, 17, ''sometimes-rpc8''), (32773, 6, ''sometimes-rpc9''), (32773, 17, ''sometimes-rpc10''), (32774, 6, ''sometimes-rpc11''),
      (32774, 17, ''sometimes-rpc12''), (32775, 6, ''sometimes-rpc13''), (32775, 17, ''sometimes-rpc14''), (32776, 6, ''sometimes-rpc15''),
      (32776, 17, ''sometimes-rpc16''), (32777, 6, ''sometimes-rpc17''), (32777, 17, ''sometimes-rpc18''), (32778, 6, ''sometimes-rpc19''),
      (32778, 17, ''sometimes-rpc20''), (32779, 6, ''sometimes-rpc21''), (32779, 17, ''sometimes-rpc22''), (32780, 6, ''sometimes-rpc23''),
      (32780, 17, ''sometimes-rpc24''), (32786, 6, ''sometimes-rpc25''), (32786, 17, ''sometimes-rpc26''), (32787, 6, ''sometimes-rpc27''),
      (32787, 17, ''sometimes-rpc28''), (32801, 6, ''mlsn''), (32801, 17, ''mlsn''), (32811, 6, ''retp''),
      (32896, 6, ''idmgratm''), (32896, 17, ''idmgratm''), (33060, 6, ''mysqlx''), (33123, 6, ''aurora-balaena''),
      (33123, 17, ''aurora-balaena''), (33331, 6, ''diamondport''), (33331, 17, ''diamondport''), (33333, 6, ''dgi-serv''),
      (33334, 6, ''speedtrace''), (33434, 6, ''traceroute''), (33434, 17, ''traceroute''), (33435, 6, ''mtrace''),
      (33656, 6, ''snip-slave''), (33656, 17, ''snip-slave''), (34249, 6, ''turbonote-2''), (34249, 17, ''turbonote-2''),
      (34378, 6, ''p-net-local''), (34378, 17, ''p-net-local''), (34379, 6, ''p-net-remote''), (34379, 17, ''p-net-remote''),
      (34567, 6, ''dhanalakshmi''), (34962, 6, ''profinet-rt''), (34962, 17, ''profinet-rt''), (34963, 6, ''profinet-rtm''),
      (34963, 17, ''profinet-rtm''), (34964, 6, ''profinet-cm''), (34964, 17, ''profinet-cm''), (34980, 6, ''ethercat''),
      (34980, 17, ''ethercat''), (35000, 6, ''heathview''), (35001, 6, ''rt-viewer''), (35002, 6, ''rt-sound''),
      (35003, 6, ''rt-devicemapper''), (35004, 6, ''rt-classmanager''), (35005, 6, ''rt-labtracker''), (35006, 6, ''rt-helper''),
      (35100, 6, ''axio-disc''), (35354, 6, ''kitim''), (35355, 6, ''altova-lm''), (35356, 6, ''guttersnex''),
      (35357, 6, ''openstack-id''), (36001, 6, ''allpeers''), (36001, 17, ''allpeers''), (36411, 6, ''wlcp''),
      (36412, 132, ''s1-control''), (36422, 132, ''x2-control''), (36423, 6, ''slmap''), (36424, 6, ''nq-ap''),
      (36443, 6, ''m2ap'')]"

lemma Services_79_ascend: "port_range 27999 36443 Services_79"
  unfolding Services_79_def port_range_def
  by (rule ascending_end ascending_same ascending_next, simp)+

definition Services_80 :: "service_entry list" where
  "Services_80 =
     [(36444, 6, ''m3ap''), (36462, 6, ''xw-control''), (36524, 6, ''febooti-aw''), (36602, 6, ''observium-agent''),
      (36700, 6, ''mapx''), (36865, 6, ''kastenxpipe''), (36865, 17, ''kastenxpipe''), (37475, 6, ''neckar''),
      (37475, 17, ''neckar''), (37483, 6, ''gdrive-sync''), (37601, 6, ''eftp''), (37654, 6, ''unisys-eportal''),
      (37654, 17, ''unisys-eportal''), (38000, 6, ''ivs-database''), (38001, 6, ''ivs-insertion''), (38002, 6, ''cresco-control''),
      (38037, 6, ''landesk-cba''), (38037, 17, ''landesk-cba''), (38201, 6, ''galaxy7-data''), (38201, 17, ''galaxy7-data''),
      (38202, 6, ''fairview''), (38202, 17, ''fairview''), (38203, 6, ''agpolicy''), (38203, 17, ''agpolicy''),
      (38292, 6, ''landesk-cba''), (38293, 17, ''landesk-cba''), (38412, 6, ''ng-control''), (38422, 6, ''xn-control''),
      (38472, 6, ''f1-control''), (38800, 6, ''sruth''), (38865, 6, ''secrmmsafecopya''), (39213, 17, ''sygatefw''),
      (39681, 6, ''turbonote-1''), (39681, 17, ''turbonote-1''), (40000, 6, ''safetynetp''), (40000, 17, ''safetynetp''),
      (40023, 6, ''k-patentssensor''), (40404, 6, ''sptx''), (40841, 6, ''cscp''), (40841, 17, ''cscp''),
      (40842, 6, ''csccredir''), (40842, 17, ''csccredir''), (40843, 6, ''csccfirewall''), (40843, 17, ''csccfirewall''),
      (40853, 6, ''ortec-disc''), (40853, 17, ''ortec-disc''), (41111, 6, ''fs-qos''), (41111, 17, ''fs-qos''),
      (41121, 6, ''tentacle''), (41230, 6, ''z-wave-s''), (41794, 6, ''crestron-cip''), (41794, 17, ''crestron-cip''),
      (41795, 6, ''crestron-ctp''), (41795, 17, ''crestron-ctp''), (41796, 6, ''crestron-cips''), (41797, 6, ''crestron-ctps''),
      (42508, 6, ''candp''), (42508, 17, ''candp''), (42509, 6, ''candrp''), (42509, 17, ''candrp''),
      (42510, 6, ''caerpc''), (42510, 17, ''caerpc''), (43000, 6, ''recvr-rc''), (43188, 6, ''reachout''),
      (43188, 17, ''reachout''), (43189, 6, ''ndm-agent-port''), (43189, 17, ''ndm-agent-port''), (43190, 6, ''ip-provision''),
      (43190, 17, ''ip-provision''), (43191, 6, ''noit-transport''), (43210, 6, ''shaperai''), (43439, 6, ''eq3-update''),
      (43440, 6, ''ew-mgmt''), (43440, 17, ''ew-disc-cmd''), (43441, 6, ''ciscocsdb''), (43441, 17, ''ciscocsdb''),
      (44123, 6, ''z-wave-tunnel''), (44321, 6, ''pmcd''), (44321, 17, ''pmcd''), (44322, 6, ''pmcdproxy''),
      (44322, 17, ''pmcdproxy''), (44323, 6, ''pmwebapi''), (44334, 6, ''tinyfw''), (44442, 6, ''coldfusion-auth''),
      (44443, 6, ''coldfusion-auth''), (44444, 6, ''cognex-dataman''), (44544, 6, ''domiq''), (44553, 6, ''rbr-debug''),
      (44553, 17, ''rbr-debug''), (44600, 6, ''asihpi''), (44818, 6, ''EtherNetIP-2''), (44818, 17, ''EtherNetIP-2''),
      (44900, 6, ''m3da''), (45000, 6, ''asmp''), (45000, 17, ''ciscopop''), (45001, 6, ''asmps''),
      (45002, 6, ''rs-status''), (45045, 6, ''synctest''), (45054, 6, ''invision-ag''), (45054, 17, ''invision-ag''),
      (45514, 6, ''cloudcheck''), (45678, 6, ''eba''), (45678, 17, ''eba''), (45824, 6, ''dai-shell''),
      (45825, 6, ''qdb2service''), (45825, 17, ''qdb2service''), (45966, 6, ''ssr-servermgr''), (45966, 17, ''ssr-servermgr''),
      (46336, 6, ''inedo''), (46998, 6, ''spremotetablet''), (46999, 6, ''mediabox''), (46999, 17, ''mediabox''),
      (47000, 6, ''mbus''), (47000, 17, ''mbus''), (47001, 6, ''winrm''), (47100, 6, ''jvl-mactalk''),
      (47557, 6, ''dbbrowse''), (47557, 17, ''dbbrowse''), (47624, 6, ''directplaysrvr''), (47624, 17, ''directplaysrvr''),
      (47806, 6, ''ap''), (47806, 17, ''ap''), (47808, 6, ''bacnet''), (47808, 17, ''bacnet''),
      (47809, 6, ''presonus-ucnet''), (48000, 6, ''nimcontroller''), (48000, 17, ''nimcontroller''), (48001, 6, ''nimspooler''),
      (48001, 17, ''nimspooler''), (48002, 6, ''nimhub''), (48002, 17, ''nimhub''), (48003, 6, ''nimgtw''),
      (48003, 17, ''nimgtw''), (48004, 6, ''nimbusdb''), (48005, 6, ''nimbusdbctrl''), (48049, 6, ''3gpp-cbsp''),
      (48050, 6, ''weandsf''), (48128, 6, ''isnetserv''), (48128, 17, ''isnetserv''), (48129, 6, ''blp5''),
      (48129, 17, ''blp5''), (48556, 6, ''com-bardac-dw''), (48556, 17, ''com-bardac-dw''), (48619, 6, ''iqobject''),
      (48619, 17, ''iqobject''), (48653, 6, ''robotraconteur''), (49000, 6, ''matahari''), (49001, 6, ''nusrp''),
      (49150, 6, ''inspider'')]"

lemma Services_80_ascend: "port_range 36444 49150 Services_80"
  unfolding Services_80_def port_range_def
  by (rule ascending_end ascending_same ascending_next, simp)+

definition Services_81 :: "service_entry list" where
  "Services_81 =
     [(49400, 6, ''compaqdiag''), (50000, 6, ''ibm-db2''), (50002, 6, ''iiimsf''), (54320, 6, ''bo2k''),
      (54321, 17, ''bo2k''), (61439, 6, ''netprowler-manager''), (61440, 6, ''netprowler-manager2''), (61441, 6, ''netprowler-sensor''),
      (62078, 6, ''iphone-sync''), (64738, 17, ''murmur''), (65301, 6, ''pcanywhere'')]"

lemma Services_81_ascend: "port_range 49400 65301 Services_81"
  unfolding Services_81_def port_range_def
  by (rule ascending_end ascending_same ascending_next, simp)+

definition Services_82 :: "service_entry list" where
  "Services_82 =
     [(0, 0, ''HOPOPT''), (0, 1, ''ICMP''), (0, 2, ''IGMP''), (0, 4, ''IPc4''),
      (0, 8, ''EGP''), (0, 9, ''IGP''), (0, 20, ''HMP''), (0, 31, ''MFE-NSP''),
      (0, 40, ''IL''), (0, 41, ''IPv6''), (0, 46, ''RSVP''), (0, 47, ''GRE''),
      (0, 50, ''ESP''), (0, 51, ''AH''), (0, 58, ''IPv6-ICMP''), (0, 97, ''ETHERIP''),
      (0, 103, ''PIM''), (0, 104, ''ARIS''), (0, 105, ''SCPS''), (0, 112, ''VRRP''),
      (0, 115, ''L2TP''), (0, 132, ''SCTP''), (0, 240, ''240'')]"

lemma Services_82_ascend: "port_range 0 0 Services_82"
  unfolding Services_82_def port_range_def
  by (rule ascending_end ascending_same ascending_next, simp)+

end
