(* ===== verification/Rule.thy ===== *)
theory Rule
  imports Service_Table1 Service_Table2 Service_Table3 Go_Net
begin

text \<open>
  \<^verbatim>\<open>pkg/util/rule\<close>: which addresses and autonomous systems count as internal, and the name of the service of a port,
  from custom rules or from the table of \<^verbatim>\<open>pkg/util/service\<close>. The prefix trees of the patricia library are an argument:
  the parser of a prefix, and the tag a tree finds for an address.
\<close>

section \<open>The table of services\<close>

definition Services_ports :: "service_entry list list" where
  "Services_ports =
     [Services_0, Services_1, Services_2, Services_3, Services_4, Services_5, Services_6, Services_7, Services_8,
      Services_9, Services_10, Services_11, Services_12, Services_13, Services_14, Services_15, Services_16,
      Services_17, Services_18, Services_19, Services_20, Services_21, Services_22, Services_23, Services_24,
      Services_25, Services_26, Services_27, Services_28, Services_29, Services_30, Services_31, Services_32,
      Services_33, Services_34, Services_35, Services_36, Services_37, Services_38, Services_39, Services_40,
      Services_41, Services_42, Services_43, Services_44, Services_45, Services_46, Services_47, Services_48,
      Services_49, Services_50, Services_51, Services_52, Services_53, Services_54, Services_55, Services_56,
      Services_57, Services_58, Services_59, Services_60, Services_61, Services_62, Services_63, Services_64,
      Services_65, Services_66, Services_67, Services_68, Services_69, Services_70, Services_71, Services_72,
      Services_73, Services_74, Services_75, Services_76, Services_77, Services_78, Services_79, Services_80,
      Services_81]"

text \<open>The table ends with names for IP protocols, under port zero.\<close>

definition Services :: "service_entry list" where
  "Services = concat Services_ports @ Services_82"

definition Services_lookup :: "u32 \<Rightarrow> u8 \<Rightarrow> string option" where
  "Services_lookup port proto = map_of (map (\<lambda>(p, q, n). ((p, q), n)) Services) (port, proto)"

definition port_ranges :: "(u32 \<times> u32) list" where
  "port_ranges =
     [(0, 0), (1, 87), (88, 162), (163, 260), (261, 383), (384, 457), (458, 531), (532, 605), (606, 680),
      (681, 800), (801, 1051), (1052, 1126), (1127, 1200), (1201, 1275), (1276, 1349), (1350, 1423), (1424, 1497),
      (1498, 1571), (1572, 1646), (1647, 1720), (1721, 1796), (1797, 1869), (1870, 1944), (1945, 2018),
      (2019, 2092), (2093, 2166), (2167, 2244), (2245, 2318), (2319, 2398), (2399, 2472), (2473, 2546),
      (2547, 2621), (2622, 2697), (2698, 2771), (2772, 2847), (2848, 2921), (2922, 2995), (2996, 3070),
      (3071, 3147), (3148, 3221), (3222, 3295), (3296, 3371), (3372, 3447), (3448, 3522), (3523, 3598),
      (3599, 3672), (3673, 3748), (3749, 3823), (3824, 3897), (3898, 3971), (3972, 4046), (4047, 4124),
      (4125, 4209), (4210, 4283), (4284, 4377), (4378, 4566), (4567, 4743), (4744, 4999), (5000, 5100),
      (5101, 5300), (5301, 5436), (5437, 5678), (5679, 5984), (5985, 6063), (6064, 6324), (6325, 6583),
      (6588, 6997), (6998, 7301), (7302, 7428), (7429, 7797), (7798, 8117), (8118, 8555), (8567, 9087),
      (9088, 9402), (9418, 10002), (10003, 11367), (11371, 14154), (14250, 19020), (19150, 23333), (23400, 27960),
      (27999, 36443), (36444, 49150), (49400, 65301)]"

lemma port_ranges_ascend: "ranges_ascend port_ranges"
  by (simp add: port_ranges_def)

lemma Services_ranges: "list_all2 (\<lambda>(lo, hi) xs. port_range lo hi xs) port_ranges (Services_82 # Services_ports)"
  unfolding port_ranges_def Services_ports_def
  by (simp only: list_all2_Cons list.rel_inject prod.case list_all2_Nil simp_thms
    Services_0_ascend Services_1_ascend Services_2_ascend Services_3_ascend Services_4_ascend
    Services_5_ascend Services_6_ascend Services_7_ascend Services_8_ascend Services_9_ascend
    Services_10_ascend Services_11_ascend Services_12_ascend Services_13_ascend Services_14_ascend
    Services_15_ascend Services_16_ascend Services_17_ascend Services_18_ascend Services_19_ascend
    Services_20_ascend Services_21_ascend Services_22_ascend Services_23_ascend Services_24_ascend
    Services_25_ascend Services_26_ascend Services_27_ascend Services_28_ascend Services_29_ascend
    Services_30_ascend Services_31_ascend Services_32_ascend Services_33_ascend Services_34_ascend
    Services_35_ascend Services_36_ascend Services_37_ascend Services_38_ascend Services_39_ascend
    Services_40_ascend Services_41_ascend Services_42_ascend Services_43_ascend Services_44_ascend
    Services_45_ascend Services_46_ascend Services_47_ascend Services_48_ascend Services_49_ascend
    Services_50_ascend Services_51_ascend Services_52_ascend Services_53_ascend Services_54_ascend
    Services_55_ascend Services_56_ascend Services_57_ascend Services_58_ascend Services_59_ascend
    Services_60_ascend Services_61_ascend Services_62_ascend Services_63_ascend Services_64_ascend
    Services_65_ascend Services_66_ascend Services_67_ascend Services_68_ascend Services_69_ascend
    Services_70_ascend Services_71_ascend Services_72_ascend Services_73_ascend Services_74_ascend
    Services_75_ascend Services_76_ascend Services_77_ascend Services_78_ascend Services_79_ascend
    Services_80_ascend Services_81_ascend Services_82_ascend)

lemma Services_distinct: "distinct (map service_key Services)"
proof -
  have "distinct (map service_key (concat (Services_82 # Services_ports)))"
    by (rule ranges_distinct [OF port_ranges_ascend Services_ranges])
  then show ?thesis by (auto simp: Services_def)
qed

text \<open>Each port and protocol has one name, so the lookup finds exactly the entries of the table.\<close>

lemma Services_lookup_iff: "Services_lookup p q = Some n \<longleftrightarrow> (p, q, n) \<in> set Services"
proof -
  have "map fst (map (\<lambda>(p, q, n). ((p, q), n)) Services) = map service_key Services"
    by (simp add: service_key_def case_prod_beta)
  then have "distinct (map fst (map (\<lambda>(p, q, n). ((p, q), n)) Services))" using Services_distinct by (simp only:)
  then show ?thesis unfolding Services_lookup_def by (subst map_of_eq_Some_iff) force+
qed

section \<open>The rules\<close>

definition INTERNAL_IPS :: "string list" where
  "INTERNAL_IPS =
     [''0.0.0.0/8'', ''127.0.0.0/8'', ''100.64.0.0/10'', ''10.0.0.0/8'', ''172.16.0.0/12'', ''192.168.0.0/16'',
      ''169.254.0.0/16'', ''192.0.0.0/24'', ''192.0.2.0/24'', ''192.18.0.0/15'', ''198.51.100.0/24'',
      ''203.0.113.0/24'', ''224.0.0.0/4'', ''192.88.99.0/24'', ''240.0.0.0/4'', ''fc00::/7'', ''fe80::/10'']"

text \<open>A prefix: the bytes of an address, four or sixteen, and the number of bits that count.\<close>

datatype prefix = V4 bytes nat | V6 bytes nat

record patricia =
  ParseIPFromString :: "string \<Rightarrow> prefix option"
  FindDeepestTag :: "((bytes \<times> nat) \<times> u32) list \<Rightarrow> bytes \<Rightarrow> u32 option"

record RuleSet =
  treeV4 :: "((bytes \<times> nat) \<times> u32) list"
  treeV6 :: "((bytes \<times> nat) \<times> u32) list"
  portRules :: "u32 \<Rightarrow> string option"

definition MatchNone :: u32 where
  "MatchNone = 0"

definition MatchPrivateIP :: u32 where
  "MatchPrivateIP = 1"

definition AddIPAddress :: "patricia \<Rightarrow> string \<Rightarrow> u32 \<Rightarrow> RuleSet \<Rightarrow> RuleSet res" where
  "AddIPAddress pt ipAddress matchType r =
     (case ParseIPFromString pt ipAddress of
        None \<Rightarrow> Inl (Errorf ''Error parsing IP address'' [])
      | Some (V4 b n) \<Rightarrow> Inr (r\<lparr>treeV4 := treeV4 r @ [((b, n), matchType)]\<rparr>)
      | Some (V6 b n) \<Rightarrow> Inr (r\<lparr>treeV6 := treeV6 r @ [((b, n), matchType)]\<rparr>))"

definition add_line :: "patricia \<Rightarrow> string \<Rightarrow> RuleSet \<Rightarrow> RuleSet" where
  "add_line pt line r = (case AddIPAddress pt (strings_TrimSpace line) MatchPrivateIP r of Inl _ \<Rightarrow> r | Inr r \<Rightarrow> r)"

definition add_application :: "u32 list \<times> string \<Rightarrow> RuleSet \<Rightarrow> RuleSet" where
  "add_application custom r = (case custom of (ports, name) \<Rightarrow>
     fold (\<lambda>port r. r\<lparr>portRules := (portRules r)(port \<mapsto> name)\<rparr>) ports r)"

text \<open>The custom applications: the ports and the name of each, as read from the file.\<close>

definition NewRuleSet :: "patricia \<Rightarrow> (u32 list \<times> string) list \<Rightarrow> RuleSet" where
  "NewRuleSet pt customs =
     (let r = fold (add_line pt) INTERNAL_IPS \<lparr>treeV4 = [], treeV6 = [], portRules = Map.empty\<rparr>
      in fold add_application customs r)"

definition matchesPrivateASN :: "u32 \<Rightarrow> bool" where
  "matchesPrivateASN as \<longleftrightarrow> (64512 \<le> as \<and> as \<le> 65534) \<or> (4200000000 \<le> as \<and> as \<le> 4294967294)"

text \<open>\<^verbatim>\<open>Check\<close>; a nil address has no sixteen byte form, the tree is then asked for the empty slice.\<close>

definition Rule_Check :: "patricia \<Rightarrow> RuleSet \<Rightarrow> bytes \<Rightarrow> u32" where
  "Rule_Check pt r ip =
     (let ret = (case IP_To4 ip of
          Some ipv4 \<Rightarrow> FindDeepestTag pt (treeV4 r) ipv4
        | None \<Rightarrow> FindDeepestTag pt (treeV6 r) (case IP_To16 ip of Some b \<Rightarrow> b | None \<Rightarrow> []))
      in case ret of Some t \<Rightarrow> t | None \<Rightarrow> MatchNone)"

definition IsInternal :: "patricia \<Rightarrow> RuleSet \<Rightarrow> bytes \<Rightarrow> u32 \<Rightarrow> bool" where
  "IsInternal pt r ip as \<longleftrightarrow> Rule_Check pt r ip = MatchPrivateIP \<or> matchesPrivateASN as"

definition GetService :: "RuleSet \<Rightarrow> bytes \<Rightarrow> u32 \<Rightarrow> u8 \<Rightarrow> string \<times> bool" where
  "GetService r ip port protocol =
     (case portRules r port of
        Some app \<Rightarrow> (app, True)
      | None \<Rightarrow> (case Services_lookup port protocol of Some app \<Rightarrow> (app, True) | None \<Rightarrow> ([], False)))"

section \<open>What the rules decide\<close>

text \<open>
  The service of a port: the name of the custom rule of the port if there is one, and otherwise exactly the name
  that the table lists for the port and the protocol; none when neither has it.
\<close>

lemma service_of_port:
  "(GetService r ip port proto = (n, True) \<longleftrightarrow>
      portRules r port = Some n \<or> portRules r port = None \<and> (port, proto, n) \<in> set Services) \<and>
   ((\<exists>m. GetService r ip port proto = (m, False)) \<longleftrightarrow>
      portRules r port = None \<and> (\<forall>m. (port, proto, m) \<notin> set Services))"
  by (auto simp: GetService_def Services_lookup_iff [symmetric] split: option.splits)

section \<open>Internal addresses\<close>

definition bits_of :: "bytes \<Rightarrow> bool list" where
  "bits_of bs = concat (map (\<lambda>b. map (\<lambda>i. bit b (7 - i)) [0..<8]) bs)"

definition in_prefix :: "bytes \<times> nat \<Rightarrow> bytes \<Rightarrow> bool" where
  "in_prefix p a \<longleftrightarrow> length (fst p) = length a \<and> take (snd p) (bits_of (fst p)) = take (snd p) (bits_of a)"

text \<open>
  The documented behaviour of the library: an address with a number of bits is parsed to that prefix, and a tree finds
  the tag of a prefix that holds the address.
\<close>

definition prefix_of :: "bytes \<Rightarrow> nat \<Rightarrow> prefix" where
  "prefix_of q n = (case IP_To4 q of Some q4 \<Rightarrow> V4 q4 n | None \<Rightarrow> V6 q n)"

definition patricia_ok :: "patricia \<Rightarrow> bool" where
  "patricia_ok pt \<longleftrightarrow>
     (\<forall>s q n. ParseIP s = Some q \<and> n \<le> 32 \<longrightarrow> ParseIPFromString pt (s @ ''/'' @ nat_Itoa n) = Some (prefix_of q n)) \<and>
     (\<forall>ts a. FindDeepestTag pt ts a = None \<longleftrightarrow> (\<forall>p t. (p, t) \<in> set ts \<longrightarrow> \<not> in_prefix p a)) \<and>
     (\<forall>ts a t. FindDeepestTag pt ts a = Some t \<longrightarrow> (\<exists>p. (p, t) \<in> set ts \<and> in_prefix p a))"

definition internal_v4 :: "(string \<times> bytes \<times> nat) list" where
  "internal_v4 =
     [(''0.0.0.0'', [0, 0, 0, 0], 8), (''127.0.0.0'', [127, 0, 0, 0], 8), (''100.64.0.0'', [100, 64, 0, 0], 10),
      (''10.0.0.0'', [10, 0, 0, 0], 8), (''172.16.0.0'', [172, 16, 0, 0], 12), (''192.168.0.0'', [192, 168, 0, 0], 16),
      (''169.254.0.0'', [169, 254, 0, 0], 16), (''192.0.0.0'', [192, 0, 0, 0], 24), (''192.0.2.0'', [192, 0, 2, 0], 24),
      (''192.18.0.0'', [192, 18, 0, 0], 15), (''198.51.100.0'', [198, 51, 100, 0], 24), (''203.0.113.0'', [203, 0, 113, 0], 24),
      (''224.0.0.0'', [224, 0, 0, 0], 4), (''192.88.99.0'', [192, 88, 99, 0], 24), (''240.0.0.0'', [240, 0, 0, 0], 4)]"

definition internal_v6 :: "(string \<times> bytes \<times> nat) list" where
  "internal_v6 = [(''fc00::'', 0xfc # replicate 15 0, 7), (''fe80::'', 0xfe # 0x80 # replicate 14 0, 10)]"

lemma INTERNAL_IPS_parts: "INTERNAL_IPS = map (\<lambda>(s, q, n). s @ ''/'' @ nat_Itoa n) (internal_v4 @ internal_v6)"
  by code_simp

lemma internal_trimmed: "list_all (\<lambda>s. strings_TrimSpace s = s) INTERNAL_IPS"
  by code_simp

lemma internal_v4_parsed: "list_all (\<lambda>(s, q, n). ParseIP s = Some (v4_prefix @ q) \<and> length q = 4 \<and> n \<le> 32) internal_v4"
  by code_simp

lemma internal_v6_groups:
  "hex_prefix ''fc00::'' 0 = (64512, 4, ''::'')" "hex_prefix ''fe80::'' 0 = (65152, 4, ''::'')"
  by (simp_all add: hex_value_def)

lemma internal_v6_loops:
  "parse_groups ''fc00::'' [] None = Some ([0xfc, 0], Some 2)" "parse_groups ''fe80::'' [] None = Some ([0xfe, 0x80], Some 2)"
  by (subst parse_groups.simps, simp add: internal_v6_groups del: hex_prefix.simps)+

lemma internal_v6_parsed:
  "ParseIP ''fc00::'' = Some (0xfc # replicate 15 0)" "ParseIP ''fe80::'' = Some (0xfe # 0x80 # replicate 14 0)"
  by (simp_all add: ParseIP_def parseIPv6_def strings_HasPrefix_def internal_v6_loops numeral_eq_Suc)

lemma IP_To4_not_mapped:
  assumes "a \<noteq> 0" "length r = 15"
  shows "IP_To4 (a # r) = None"
proof -
  have "hd v4_prefix = 0" "hd (take 12 (a # r)) = a" by (simp_all add: v4_prefix_def)
  then have "take 12 (a # r) \<noteq> v4_prefix" using assms(1) by metis
  then show ?thesis using assms(2) by (simp add: IP_To4_def)
qed

lemma internal_parsed:
  "list_all (\<lambda>(s, q, n). ParseIP s = Some (v4_prefix @ q) \<and> prefix_of (v4_prefix @ q) n = V4 q n \<and> n \<le> 32) internal_v4"
  "list_all (\<lambda>(s, q, n). ParseIP s = Some q \<and> prefix_of q n = V6 q n \<and> n \<le> 32) internal_v6"
proof -
  have mapped: "prefix_of (v4_prefix @ q) n = V4 q n" if "length q = 4" for q n
    using that by (simp add: prefix_of_def IP_To4_def v4_prefix_def)
  show "list_all (\<lambda>(s, q, n). ParseIP s = Some (v4_prefix @ q) \<and> prefix_of (v4_prefix @ q) n = V4 q n \<and> n \<le> 32) internal_v4"
    using internal_v4_parsed by (auto simp: list_all_iff mapped)
  have not_mapped: "IP_To4 (0xfc # replicate 15 0) = None" "IP_To4 (0xfe # 0x80 # replicate 14 0) = None"
    by (rule IP_To4_not_mapped; simp)+
  show "list_all (\<lambda>(s, q, n). ParseIP s = Some q \<and> prefix_of q n = V6 q n \<and> n \<le> 32) internal_v6"
    using not_mapped by (simp add: internal_v6_def internal_v6_parsed prefix_of_def)
qed

definition add_prefix :: "prefix \<Rightarrow> RuleSet \<Rightarrow> RuleSet" where
  "add_prefix p r = (case p of V4 b n \<Rightarrow> r\<lparr>treeV4 := treeV4 r @ [((b, n), MatchPrivateIP)]\<rparr>
     | V6 b n \<Rightarrow> r\<lparr>treeV6 := treeV6 r @ [((b, n), MatchPrivateIP)]\<rparr>)"

lemma add_line_prefix:
  assumes "patricia_ok pt" "ParseIP s = Some q" "n \<le> 32" "strings_TrimSpace (s @ ''/'' @ nat_Itoa n) = s @ ''/'' @ nat_Itoa n"
  shows "add_line pt (s @ ''/'' @ nat_Itoa n) r = add_prefix (prefix_of q n) r"
proof -
  have "ParseIPFromString pt (s @ ''/'' @ nat_Itoa n) = Some (prefix_of q n)"
    using assms(1-3) unfolding patricia_ok_def by blast
  then show ?thesis using assms(4) by (simp add: add_line_def AddIPAddress_def add_prefix_def split: prefix.splits)
qed

lemma add_lines:
  assumes "patricia_ok pt" "list_all (\<lambda>s. strings_TrimSpace s = s) (map (\<lambda>(s, q, n). s @ ''/'' @ nat_Itoa n) ps)"
    "list_all (\<lambda>(s, q, n). ParseIP s = Some (f q) \<and> prefix_of (f q) n = g q n \<and> n \<le> 32) ps"
  shows "fold (add_line pt) (map (\<lambda>(s, q, n). s @ ''/'' @ nat_Itoa n) ps) r = fold (\<lambda>(s, q, n). add_prefix (g q n)) ps r"
  using assms(2,3)
proof (induction ps arbitrary: r)
  case (Cons p ps)
  obtain s q n where p: "p = (s, q, n)" by (cases p)
  have "add_line pt (s @ ''/'' @ nat_Itoa n) r = add_prefix (g q n) r"
    using add_line_prefix [OF assms(1), of s "f q" n r] Cons.prems by (simp add: p)
  then show ?case using Cons by (simp add: p)
qed simp

lemma fold_add_prefix:
  "fold (\<lambda>(s, q, n). add_prefix (V4 q n)) ps r = r\<lparr>treeV4 := treeV4 r @ map (\<lambda>(s, p). (p, MatchPrivateIP)) ps\<rparr>"
  "fold (\<lambda>(s, q, n). add_prefix (V6 q n)) ps r = r\<lparr>treeV6 := treeV6 r @ map (\<lambda>(s, p). (p, MatchPrivateIP)) ps\<rparr>"
  for ps :: "(string \<times> bytes \<times> nat) list"
  by (induction ps arbitrary: r) (auto simp: add_prefix_def)

lemma add_application_trees: "treeV4 (add_application c r) = treeV4 r \<and> treeV6 (add_application c r) = treeV6 r"
proof -
  have "treeV4 (fold (\<lambda>port r. r\<lparr>portRules := (portRules r)(port \<mapsto> name)\<rparr>) ps r) = treeV4 r \<and>
      treeV6 (fold (\<lambda>port r. r\<lparr>portRules := (portRules r)(port \<mapsto> name)\<rparr>) ps r) = treeV6 r"
    for ps name and r :: RuleSet
    by (induction ps arbitrary: r) auto
  then show ?thesis by (cases c) (simp add: add_application_def)
qed

lemma custom_rules_trees:
  "treeV4 (fold add_application customs r) = treeV4 r" "treeV6 (fold add_application customs r) = treeV6 r"
  by (induction customs arbitrary: r) (simp_all add: add_application_trees)

lemma NewRuleSet_trees:
  assumes "patricia_ok pt"
  shows "treeV4 (NewRuleSet pt customs) = map (\<lambda>(s, p). (p, MatchPrivateIP)) internal_v4"
    "treeV6 (NewRuleSet pt customs) = map (\<lambda>(s, p). (p, MatchPrivateIP)) internal_v6"
proof -
  have trimmed: "list_all (\<lambda>s. strings_TrimSpace s = s) (map (\<lambda>(s, q, n). s @ ''/'' @ nat_Itoa n) internal_v4)"
      "list_all (\<lambda>s. strings_TrimSpace s = s) (map (\<lambda>(s, q, n). s @ ''/'' @ nat_Itoa n) internal_v6)"
    using internal_trimmed unfolding INTERNAL_IPS_parts by simp_all
  have "fold (add_line pt) INTERNAL_IPS r = r\<lparr>treeV4 := treeV4 r @ map (\<lambda>(s, p). (p, MatchPrivateIP)) internal_v4,
      treeV6 := treeV6 r @ map (\<lambda>(s, p). (p, MatchPrivateIP)) internal_v6\<rparr>" for r
    unfolding INTERNAL_IPS_parts map_append fold_append comp_apply
      add_lines [OF assms trimmed(1), of "\<lambda>q. v4_prefix @ q" V4, OF internal_parsed(1)]
      add_lines [OF assms trimmed(2), of "\<lambda>q. q" V6, OF internal_parsed(2)] fold_add_prefix by simp
  then show "treeV4 (NewRuleSet pt customs) = map (\<lambda>(s, p). (p, MatchPrivateIP)) internal_v4"
    "treeV6 (NewRuleSet pt customs) = map (\<lambda>(s, p). (p, MatchPrivateIP)) internal_v6"
    by (simp_all add: NewRuleSet_def Let_def custom_rules_trees)
qed

text \<open>
  C33. With a library that parses prefixes and finds the prefix of an address as documented, an address counts as
  internal exactly when it is in one of the fifteen IPv4 or two IPv6 prefixes, or its autonomous system is in one of
  the two private ranges; an IPv4 address is classified alike in its four byte and in its sixteen byte form.
\<close>

theorem internal_addresses:
  assumes "patricia_ok pt"
  shows "IsInternal pt (NewRuleSet pt customs) ip as \<longleftrightarrow>
    64512 \<le> as \<and> as \<le> 65534 \<or> 4200000000 \<le> as \<and> as \<le> 4294967294 \<or>
    (case IP_To4 ip of
       Some q \<Rightarrow> list_ex (\<lambda>(s, p). in_prefix p q) internal_v4
     | None \<Rightarrow> list_ex (\<lambda>(s, p). in_prefix p (case IP_To16 ip of Some b \<Rightarrow> b | None \<Rightarrow> [])) internal_v6)"
proof -
  have found: "(case FindDeepestTag pt (map (\<lambda>(s, p). (p, MatchPrivateIP)) ps) a of Some t \<Rightarrow> t | None \<Rightarrow> MatchNone) = MatchPrivateIP \<longleftrightarrow>
      list_ex (\<lambda>(s, p). in_prefix p a) ps" for ps :: "(string \<times> bytes \<times> nat) list" and a
  proof (cases "FindDeepestTag pt (map (\<lambda>(s, p). (p, MatchPrivateIP)) ps) a")
    case None
    then have "\<forall>p t. (p, t) \<in> set (map (\<lambda>(s, p). (p, MatchPrivateIP)) ps) \<longrightarrow> \<not> in_prefix p a"
      using assms unfolding patricia_ok_def by blast
    then have "\<not> list_ex (\<lambda>(s, p). in_prefix p a) ps" by (force simp: list_ex_iff)
    then show ?thesis using None by (simp add: MatchNone_def MatchPrivateIP_def)
  next
    case (Some t)
    then obtain p where "(p, t) \<in> set (map (\<lambda>(s, p). (p, MatchPrivateIP)) ps)" "in_prefix p a"
      using assms unfolding patricia_ok_def by blast
    then show ?thesis using Some by (auto simp: list_ex_iff)
  qed
  show ?thesis
    unfolding IsInternal_def Rule_Check_def Let_def NewRuleSet_trees [OF assms] matchesPrivateASN_def
    by (cases "IP_To4 ip") (auto simp: found)
qed

text \<open>The range for benchmarks, 198.18.0.0/15, is missing; 192.18.0.0/15, which is a public range, is in its place.\<close>

lemma benchmark_range_not_internal:
  "\<not> list_ex (\<lambda>(s, p). in_prefix p [198, 18, 0, 1]) internal_v4" "list_ex (\<lambda>(s, p). in_prefix p [192, 18, 0, 1]) internal_v4"
  by code_simp+

section \<open>Witness\<close>

definition demo_parse :: "string \<Rightarrow> prefix option" where
  "demo_parse s =
     (let d = rev (takeWhile (\<lambda>c. c \<noteq> CHR ''/'') (rev s)); a = take (length s - Suc (length d)) s in
      case ParseIP a of None \<Rightarrow> None | Some q \<Rightarrow> Some (prefix_of q (digits_value d)))"

definition demo_patricia :: patricia where
  "demo_patricia = \<lparr>ParseIPFromString = demo_parse,
     FindDeepestTag = (\<lambda>ts a. map_option snd (List.find (\<lambda>(p, t). in_prefix p a) ts))\<rparr>"

lemma demo_parse_printed:
  assumes "ParseIP s = Some q"
  shows "demo_parse (s @ ''/'' @ nat_Itoa n) = Some (prefix_of q n)"
proof -
  have "c \<noteq> CHR ''/''" if "c \<in> set (rev (nat_Itoa n))" for c
    using that nat_Itoa_props [of n] by (auto simp: list_all_iff is_digit_def)
  then have "takeWhile (\<lambda>c. c \<noteq> CHR ''/'') (rev (nat_Itoa n) @ CHR ''/'' # rev s) = rev (nat_Itoa n)"
    by (subst takeWhile_append2) auto
  then show ?thesis using assms nat_Itoa_props [of n] by (simp add: demo_parse_def Let_def)
qed

lemma demo_patricia_ok: "patricia_ok demo_patricia"
proof -
  have none: "List.find (\<lambda>(p, t). in_prefix p a) ts = None \<longleftrightarrow> (\<forall>p t. (p, t) \<in> set ts \<longrightarrow> \<not> in_prefix p a)"
    for ts :: "((bytes \<times> nat) \<times> u32) list" and a
    by (auto simp: find_None_iff)
  have some: "\<exists>p. (p, t) \<in> set ts \<and> in_prefix p a" if "map_option snd (List.find (\<lambda>(p, t). in_prefix p a) ts) = Some t"
    for ts :: "((bytes \<times> nat) \<times> u32) list" and a t
    using that by (auto simp: find_Some_iff) (metis nth_mem)
  show ?thesis unfolding patricia_ok_def demo_patricia_def using demo_parse_printed none some by simp
qed

theorem internal_addresses_witness: "IsInternal demo_patricia (NewRuleSet demo_patricia []) [10, 1, 2, 3] 1"
proof -
  have "IP_To4 [10, 1, 2, 3] = Some [10, 1, 2, 3]" by (simp add: IP_To4_def)
  moreover have "list_ex (\<lambda>(s, p). in_prefix p [10, 1, 2, 3]) internal_v4" by code_simp
  ultimately show ?thesis unfolding internal_addresses [OF demo_patricia_ok] by simp
qed

end
