(* ===== verification/Kentik_Flow.thy ===== *)
theory Kentik_Flow
  imports Tag_Map Flow_Driver Stitch
begin

text \<open>
  The Kentik flow path of \<^verbatim>\<open>pkg/cat\<close>: the mappers of custom columns of \<^verbatim>\<open>mapping.go\<close>, the names of
  \<^verbatim>\<open>pkg/util/cdn/cdn.go\<close>, and the conversion \<^verbatim>\<open>flowToJCHF\<close> of \<^verbatim>\<open>jchf.go\<close>, which turns a decoded message into a flow record with
  the help of the API tables, the tag mappers and the resolver. The getters of the Cap'n Proto messages are the
  fields of a record; a getter that can fail gives its value and whether it failed.
\<close>

section \<open>Column mappers\<close>

datatype udr_type = UDR_TYPE_INT | UDR_TYPE_STRING | UDR_TYPE_BIGINT

record UDR =
  u_ColumnName :: string
  u_ApplicationName :: string
  u_Type :: udr_type

type_synonym udr_columns = "(string \<times> UDR) list"

record UDRMapper =
  um_UDRs :: "i32 \<Rightarrow> udr_columns option"
  um_Subtypes :: "string \<Rightarrow> udr_columns option"

definition NewCustomMapper :: "(string \<Rightarrow> string) \<Rightarrow> (u32 \<Rightarrow> string option) \<Rightarrow> u32 \<Rightarrow> string option" where
  "NewCustomMapper uni customs = (\<lambda>k. map_option (FixupName uni) (customs k))"

definition line_type :: "string \<Rightarrow> udr_type" where
  "line_type col =
     (let t = (if strings_HasPrefix col ''STR'' \<or> strings_HasPrefix col ''INET_'' then UDR_TYPE_STRING else UDR_TYPE_INT)
      in if strings_HasPrefix col ''INT64_'' then UDR_TYPE_BIGINT else t)"

definition add_column :: "string \<Rightarrow> UDR \<Rightarrow> udr_columns option \<Rightarrow> udr_columns option" where
  "add_column col udr cols = Some (AList.update col udr (case cols of None \<Rightarrow> [] | Some c \<Rightarrow> c))"

text \<open>A line that is not four parts, or whose application is no number, is skipped; the flag says that it was taken.\<close>

definition udr_line :: "(string \<Rightarrow> string) \<Rightarrow> string \<Rightarrow> UDRMapper \<times> nat \<Rightarrow> UDRMapper \<times> nat" where
  "udr_line uni line s =
     (case s of (um, found) \<Rightarrow>
        (case strings_SplitN line '','' 4 of
           [p0, p1, p2, p3] \<Rightarrow>
             (let udr = \<lparr>u_ColumnName = FixupName uni p2, u_ApplicationName = FixupName uni p3, u_Type = line_type p1\<rparr> in
              case strconv_Atoi p0 of
                None \<Rightarrow> (um, found)
              | Some appId \<Rightarrow>
                  let app = (of_int appId :: i32) in
                  (if 0 < sint app
                   then um\<lparr>um_UDRs := (um_UDRs um)(app := add_column (FixupName uni p1) udr (um_UDRs um app))\<rparr>
                   else um\<lparr>um_Subtypes := (um_Subtypes um)(p3 := add_column (FixupName uni p1) udr (um_Subtypes um p3))\<rparr>,
                   Suc found))
         | _ \<Rightarrow> (um, found)))"

definition NewUDRMapper :: "(string \<Rightarrow> string) \<Rightarrow> string list \<Rightarrow> UDRMapper \<times> nat" where
  "NewUDRMapper uni ls = fold (udr_line uni) ls (\<lparr>um_UDRs = Map.empty, um_Subtypes = Map.empty\<rparr>, 0)"

section \<open>Tables\<close>

definition cdn2Name :: "(u32 \<times> string) list" where
  "cdn2Name =
     [(0, ''--''), (1, ''AFXcdn''), (2, ''Akamai''), (3, ''Alibaba Cloud''),
      (4, ''Amazon + AWS''), (5, ''Ananke''), (6, ''Apple''), (7, ''AT&T''),
      (8, ''Azion''), (9, ''BelugaCDN''), (10, ''Blue Hat Network''), (11, ''CacheFly''),
      (12, ''CDN77''), (13, ''CDNetworks''), (14, ''CDNify''), (15, ''ChinaCache''),
      (16, ''Cloudflare''), (17, ''EdgeCast Verizon''), (18, ''Facebook''), (19, ''Fastly''),
      (20, ''G-Core CDN''), (21, ''Google Youtube''), (22, ''Hibernia''), (23, ''Imperva Incapsula''),
      (24, ''Instartlogic''), (25, ''Internap''), (26, ''KeyCDN''), (27, ''LeaseWeb CDN''),
      (28, ''Level3''), (29, ''Limelight''), (30, ''Medianova''), (31, ''Netflix''),
      (32, ''Mirror Image''), (33, ''Ngenix''), (34, ''QUANTIL ChinaNetCenter''), (35, ''Reflected Networks - Swift''),
      (36, ''Alibaba_Cloud''), (37, ''Tata communications''), (38, ''Telefonica''), (39, ''TurboBytes''),
      (40, ''Microsoft Azure''), (41, ''Yahoo''), (42, ''Zenedge''), (43, ''Stackpath MaxCDN NetDNA Highwinds''),
      (44, ''Dropbox''), (45, ''Pandora''), (46, ''Twitch.TV''), (47, ''Comcast CDN''),
      (48, ''BunnyCDN''), (49, ''CDNvideo''), (50, ''cdnnow''), (51, ''SingularCDN''),
      (52, ''Kingsoft Cloud''), (53, ''Tencent Cloud'')]"

definition NameByCDN :: "u32 \<Rightarrow> string" where
  "NameByCDN cdn = (case map_of cdn2Name cdn of Some n \<Rightarrow> n | None \<Rightarrow> [])"

definition NamesByCDNs :: "u32 list \<Rightarrow> string list" where
  "NamesByCDNs cdns = map NameByCDN cdns"

definition synResultTypes :: "(i32 \<times> string) list" where
  "synResultTypes = [(0, ''error''), (1, ''timeout''), (2, ''ping''), (3, ''fetch''), (4, ''trace''), (5, ''knock''), (6, ''query''), (7, ''shake''), (8, ''pageload''), (9, ''transaction''), (10, ''dnssec'')]"

definition remapCustomStrings :: "(string \<times> string) list" where
  "remapCustomStrings =
     [(''kt_aws_dst_acc_id'', ''dest_account''), (''kt_aws_src_acc_id'', ''source_account''),
      (''kt_az_dst_sub_id'', ''dest_account''), (''kt_az_src_sub_id'', ''source_account''),
      (''destination_project_id'', ''dest_account''), (''source_project_id'', ''source_account''),
      (''account'', ''source_account''), (''kt_aws_src_region'', ''source_region''),
      (''kt_aws_dst_region'', ''dest_region''), (''kt_az_src_region'', ''source_region''),
      (''kt_az_dst_region'', ''dest_region''), (''src_region'', ''source_region''),
      (''dst_region'', ''dest_region''), (''source_region'', ''source_region''),
      (''destination_region'', ''dest_region''), (''kt_aws_src_vpc_id'', ''source_vpc''),
      (''kt_aws_dst_vpc_id'', ''dest_vpc''), (''kt_az_dst_rsrc_group'', ''source_vpc''),
      (''kt_az_src_rsrc_group'', ''dest_vpc''), (''source_subnet_name'', ''source_vpc''),
      (''destination_subnet_name'', ''dest_vpc''), (''src_vpc'', ''source_vpc''),
      (''dst_vpc'', ''dest_vpc'')]"

section \<open>Messages\<close>

datatype custom_value =
    Uint16Val u16 | Uint32Val u32 | Uint64Val u64 | StrVal string | AddrVal bytes | Float32Val float32 | Uint8Val u8

type_synonym text_getter = "string \<times> bool"

record CHF =
  DstAs :: u32
  DstGeo :: u32
  DstGeoRegion :: u32
  DstGeoCity :: u32
  HeaderLen :: u32
  InBytes :: u64
  InPkts :: u64
  InputPort :: u32
  IpSize :: u32
  L4DstPort :: u32
  L4SrcPort :: u32
  OutputPort :: u32
  Protocol :: u32
  SampledPacketSize :: u32
  SrcAs :: u32
  SrcGeo :: u32
  SrcGeoRegion :: u32
  SrcGeoCity :: u32
  TcpFlags :: u32
  Tos :: u32
  VlanIn :: u32
  VlanOut :: u32
  MplsType :: u32
  OutBytes :: u64
  OutPkts :: u64
  TcpRetransmit :: u32
  SampleRate :: u32
  DeviceId :: u32
  SrcNextHopAs :: u32
  DstNextHopAs :: u32
  SrcSecondAsn :: u32
  DstSecondAsn :: u32
  SrcThirdAsn :: u32
  DstThirdAsn :: u32
  SrcEthMac :: u64
  DstEthMac :: u64
  SrcFlowTags :: text_getter
  DstFlowTags :: text_getter
  SrcBgpAsPath :: text_getter
  DstBgpAsPath :: text_getter
  SrcBgpCommunity :: text_getter
  DstBgpCommunity :: text_getter
  Ipv4DstAddr :: u32
  Ipv6DstAddr :: bytes
  Ipv4SrcAddr :: u32
  Ipv6SrcAddr :: bytes
  SrcRoutePrefix :: u32
  DstRoutePrefix :: u32
  Ipv4SrcNextHop :: u32
  Ipv6SrcNextHop :: bytes
  Ipv4DstNextHop :: u32
  Ipv6DstNextHop :: bytes
  Custom :: "(u32 \<times> custom_value) list"
  Big :: bool
  SampleAdj :: bool

record Flow =
  f_CompanyId :: int
  f_CHF :: CHF
  f_DeviceName :: string

text \<open>
  The state that the conversion reads and changes: the API tables (a lookup may mark a device as loaded), the tag
  mappers (a lookup may queue a value), the resolver with its cache, the column mappers, and the list of the
  goroutines it has started.
\<close>

datatype background = LoadCustoms u64 u64 | LoadInterfaces u64 u64 | UpdateTests

record flow_env =
  fe_api :: "KentikApi option"
  fe_tagMap :: TagMapper
  fe_tagMapCity :: TagMapper
  fe_tagMapRegion :: TagMapper
  fe_resolver :: "Resolver option"
  fe_Customs :: "u32 \<Rightarrow> string option"
  fe_udrMapr :: "UDRMapper option"
  fe_started :: "background list"

text \<open>
  Arguments: lower case outside ASCII, the DNS, the connectivity names, the getters of sites, the order in which Go
  visits the columns of a mapper, and the keys it visits in a map that changes under the iteration.
\<close>

record flow_args =
  fa_uni :: "string \<Rightarrow> string"
  fa_dns :: "string \<Rightarrow> string list option"
  fa_ct :: connectivity
  fa_GetSiteName :: "address \<Rightarrow> string"
  fa_SiteMarket :: "address \<Rightarrow> string"
  fa_SiteCountry :: "address \<Rightarrow> string"
  fa_order :: "udr_columns \<Rightarrow> udr_columns"
  fa_visits :: "(string \<Rightarrow> string option) \<Rightarrow> string list"

definition APP_PROTOCOL_COL :: string where
  "APP_PROTOCOL_COL = ''app_protocol''"

definition UDR_TYPE :: string where
  "UDR_TYPE = ''application_type''"

definition put_int :: "string \<Rightarrow> i32 \<Rightarrow> JCHF \<Rightarrow> JCHF" where
  "put_int k v j = j\<lparr>j_CustomInt := map_option (\<lambda>m. m(k \<mapsto> v)) (j_CustomInt j)\<rparr>"

definition put_float :: "string \<Rightarrow> float32 \<Rightarrow> JCHF \<Rightarrow> JCHF" where
  "put_float k v j = j\<lparr>j_CustomFloat := map_option (\<lambda>m. m(k \<mapsto> v)) (j_CustomFloat j)\<rparr>"

definition del_str :: "string \<Rightarrow> JCHF \<Rightarrow> JCHF" where
  "del_str k j = j\<lparr>j_CustomStr := map_option (\<lambda>m. m(k := None)) (j_CustomStr j)\<rparr>"

definition del_int :: "string \<Rightarrow> JCHF \<Rightarrow> JCHF" where
  "del_int k j = j\<lparr>j_CustomInt := map_option (\<lambda>m. m(k := None)) (j_CustomInt j)\<rparr>"

definition del_big :: "string \<Rightarrow> JCHF \<Rightarrow> JCHF" where
  "del_big k j = j\<lparr>j_CustomBigInt := map_option (\<lambda>m. m(k := None)) (j_CustomBigInt j)\<rparr>"

section \<open>The type of an event\<close>

definition getEventType :: "JCHF \<Rightarrow> string" where
  "getEventType dst =
     (let app = gm_get 0 (j_CustomInt dst) APP_PROTOCOL_COL in
      if app = 12 then ''KSnmp''
      else if app = 10 then (if gm_get 0 (j_CustomInt dst) ''result_type'' = 4 then ''KTrace'' else ''KSynth'')
      else if app = 18 then ''KSynthgest''
      else ''KFlow'')"

definition defaultProvider :: Provider where
  "defaultProvider = ''kentik-flow-device''"

definition getProviderType :: "JCHF \<Rightarrow> Provider" where
  "getProviderType dst =
     (case gm_lookup (j_CustomStr dst) UDR_TYPE of
        None \<Rightarrow> defaultProvider
      | Some udr \<Rightarrow>
          if udr = ''kprobe'' \<or> udr = ''kappa'' then defaultProvider
          else let app = gm_get 0 (j_CustomInt dst) APP_PROTOCOL_COL in
            if app = 10 \<or> app = 11 then ''kentik-network-synthetic''
            else if strings_HasSuffix udr ''_subnet'' then ''kentik-vpc''
            else defaultProvider)"

section \<open>The fixed fields\<close>

text \<open>\<^verbatim>\<open>%c\<close> of a number: its UTF-8 bytes, those of U+FFFD for a number that is no character.\<close>

definition rune_String :: "nat \<Rightarrow> string" where
  "rune_String n =
     (if n < 128 then [char_of n]
      else if n < 2048 then map char_of [192 + n div 64, 128 + n mod 64]
      else if 55296 \<le> n \<and> n < 57344 \<or> 1114112 \<le> n then map char_of [239 :: nat, 191, 189]
      else if n < 65536 then map char_of [224 + n div 4096, 128 + n div 64 mod 64, 128 + n mod 64]
      else map char_of [240 + n div 262144, 128 + n div 4096 mod 64, 128 + n div 64 mod 64, 128 + n mod 64])"

definition geo_String :: "u32 \<Rightarrow> string" where
  "geo_String g =
     (let s = rune_String (unat g div 256) @ rune_String (unat g mod 256) in if take 1 s = ''-'' then ''--'' else s)"

definition set_geos :: "CHF \<Rightarrow> JCHF \<Rightarrow> JCHF" where
  "set_geos c dst =
     (let dst = (if 0 < DstGeo c then dst\<lparr>j_DstGeo := geo_String (DstGeo c)\<rparr> else dst)
      in if 0 < SrcGeo c then dst\<lparr>j_SrcGeo := geo_String (SrcGeo c)\<rparr> else dst)"

definition copy_counters :: "CHF \<Rightarrow> JCHF \<Rightarrow> JCHF" where
  "copy_counters c dst = dst\<lparr>j_DstAs := DstAs c, j_HeaderLen := HeaderLen c, j_InBytes := InBytes c, j_InPkts := InPkts c,
     j_InputPort := ucast (InputPort c), j_IpSize := IpSize c, j_L4DstPort := L4DstPort c, j_L4SrcPort := L4SrcPort c,
     j_OutputPort := ucast (OutputPort c), j_Protocol := PROTO_NAMES (ucast (Protocol c)),
     j_SampledPacketSize := SampledPacketSize c, j_SrcAs := SrcAs c, j_TcpFlags := TcpFlags c, j_Tos := Tos c,
     j_VlanIn := VlanIn c, j_VlanOut := VlanOut c, j_MplsType := MplsType c, j_OutBytes := OutBytes c, j_OutPkts := OutPkts c,
     j_TcpRetransmit := TcpRetransmit c, j_SampleRate := SampleRate c div 100, j_SrcNextHopAs := SrcNextHopAs c,
     j_DstNextHopAs := DstNextHopAs c, j_SrcSecondAsn := SrcSecondAsn c, j_DstSecondAsn := DstSecondAsn c,
     j_SrcThirdAsn := SrcThirdAsn c, j_DstThirdAsn := DstThirdAsn c\<rparr>"

definition start_record :: "i64 \<Rightarrow> JCHF \<Rightarrow> JCHF" where
  "start_record ts dst = dst\<lparr>j_CustomStr := Some Map.empty, j_CustomInt := Some Map.empty,
     j_CustomBigInt := Some Map.empty, j_CustomFloat := Some Map.empty, j_Timestamp := ts\<rparr>"

definition copy_regions :: "flow_env \<Rightarrow> Flow \<Rightarrow> JCHF \<Rightarrow> JCHF" where
  "copy_regions e src dst = (let c = f_CHF src in
     dst\<lparr>j_DstGeoRegion := LookupKV (fe_tagMapRegion e) (DstGeoRegion c), j_DstGeoCity := LookupKV (fe_tagMapCity e) (DstGeoCity c),
       j_SrcGeoRegion := LookupKV (fe_tagMapRegion e) (SrcGeoRegion c), j_SrcGeoCity := LookupKV (fe_tagMapCity e) (SrcGeoCity c),
       j_DeviceId := ucast (DeviceId c), j_DeviceName := f_DeviceName src, j_CompanyId := of_int (f_CompanyId src)\<rparr>)"

text \<open>A text is copied when its getter reports an error.\<close>

definition on_error :: "text_getter \<Rightarrow> string \<Rightarrow> string" where
  "on_error g old = (if snd g then fst g else old)"

definition copy_texts :: "CHF \<Rightarrow> JCHF \<Rightarrow> JCHF" where
  "copy_texts c dst = dst\<lparr>j_SrcEthMac := HardwareAddr_String (big_endian8 (SrcEthMac c)),
     j_DstEthMac := HardwareAddr_String (big_endian8 (DstEthMac c)),
     j_SrcFlowTags := on_error (SrcFlowTags c) (j_SrcFlowTags dst), j_DstFlowTags := on_error (DstFlowTags c) (j_DstFlowTags dst),
     j_SrcBgpAsPath := on_error (SrcBgpAsPath c) (j_SrcBgpAsPath dst), j_DstBgpAsPath := on_error (DstBgpAsPath c) (j_DstBgpAsPath dst),
     j_SrcBgpCommunity := on_error (SrcBgpCommunity c) (j_SrcBgpCommunity dst),
     j_DstBgpCommunity := on_error (DstBgpCommunity c) (j_DstBgpCommunity dst)\<rparr>"

definition chf_addr :: "u32 \<Rightarrow> bytes \<Rightarrow> string" where
  "chf_addr v4 v6 = (if 0 < v4 then IP_String (Int2ip v4) else IP_String v6)"

section \<open>The device\<close>

definition get_device :: "u64 \<Rightarrow> u64 \<Rightarrow> flow_env \<Rightarrow> Device option \<times> flow_env" where
  "get_device cid did e =
     (case GetDevice (fe_api e) cid did of (d, a, go) \<Rightarrow>
        (d, e\<lparr>fe_api := a, fe_started := fe_started e @ (if go then [LoadCustoms cid did] else [])\<rparr>))"

definition get_interface :: "u64 \<Rightarrow> u64 \<Rightarrow> u64 \<Rightarrow> Device \<Rightarrow> flow_env \<Rightarrow> Interface option \<times> Device \<times> flow_env" where
  "get_interface cid did port d e =
     (case GetInterface (fe_api e) (Some d) port of (i, d', go) \<Rightarrow>
        (i, case d' of None \<Rightarrow> d | Some d' \<Rightarrow> d',
         if go then e\<lparr>fe_api := map_option (update_device cid did (\<lambda>d. snd (LoadedInterfaces d))) (fe_api e),
             fe_started := fe_started e @ [LoadInterfaces cid did]\<rparr>
         else e))"

definition input_interface :: "Interface option \<Rightarrow> JCHF \<Rightarrow> JCHF" where
  "input_interface i dst =
     (case i of
        None \<Rightarrow> dst
      | Some i \<Rightarrow>
          set_str ''input_connectivity_type'' (i_ConnectivityType i)
            (set_str ''input_network_boundary'' (i_NetworkBoundary i)
              (set_str ''input_provider'' (i_Provider i)
                (dst\<lparr>j_InputIntDesc := i_Description i, j_InputIntAlias := i_Alias i,
                   j_InputInterfaceCapacity := i_SnmpSpeedMbps i, j_InputInterfaceIP := i_Address i\<rparr>))))"

definition output_interface :: "Interface option \<Rightarrow> JCHF \<Rightarrow> JCHF" where
  "output_interface i dst =
     (case i of
        None \<Rightarrow> dst
      | Some i \<Rightarrow>
          set_str ''output_connectivity_type'' (i_ConnectivityType i)
            (set_str ''output_network_boundary'' (i_NetworkBoundary i)
              (set_str ''output_provider'' (i_Provider i)
                (dst\<lparr>j_OutputIntDesc := i_Description i, j_OutputIntAlias := i_Alias i,
                   j_OutputInterfaceCapacity := i_SnmpSpeedMbps i, j_OutputInterfaceIP := i_Address i\<rparr>))))"

definition device_strings :: "flow_args \<Rightarrow> Device \<Rightarrow> JCHF \<Rightarrow> JCHF" where
  "device_strings fa d dst =
     (let dst = set_str UDR_TYPE (d_DeviceSubtype d) (dst\<lparr>j_DeviceName := d_Name d\<rparr>);
          dst = (case d_SendingIps d of [] \<Rightarrow> dst | ip # _ \<Rightarrow> set_str ''SamplerAddress'' (IP_String ip) dst)
      in case d_Site d of None \<Rightarrow> dst | Some s \<Rightarrow> set_str ''device_site'' (fa_GetSiteName fa s) dst)"

definition site_strings :: "flow_args \<Rightarrow> Device \<Rightarrow> JCHF \<Rightarrow> JCHF" where
  "site_strings fa d dst =
     (case d_FullSite d of
        None \<Rightarrow> dst
      | Some s \<Rightarrow> set_str ''device_site_country'' (fa_SiteCountry fa s) (set_str ''device_site_market'' (fa_SiteMarket fa s) dst))"

definition column_names :: "Device \<Rightarrow> u32 \<Rightarrow> string option" where
  "column_names d = fold (\<lambda>v m. m(c_ID v \<mapsto> c_Name v)) (d_Customs d) Map.empty"

definition kentik_device :: "flow_args \<Rightarrow> flow_env \<Rightarrow> JCHF \<Rightarrow> JCHF \<times> (u32 \<Rightarrow> string option) \<times> flow_env" where
  "kentik_device fa e dst =
     (let cid = j_CompanyId dst; did = j_DeviceId dst in
      case get_device cid did e of
        (None, e) \<Rightarrow> (dst, Map.empty, e)
      | (Some d, e) \<Rightarrow>
          let dst = device_strings fa d dst in
          (case get_interface cid did (j_InputPort dst) d e of (i, d, e) \<Rightarrow>
             let dst = input_interface i dst in
             case get_interface cid did (j_OutputPort dst) d e of (i, d, e) \<Rightarrow>
               (site_strings fa d (output_interface i dst), column_names d, e)))"

section \<open>Addresses\<close>

definition resolve_to :: "flow_args \<Rightarrow> string \<Rightarrow> string \<Rightarrow> JCHF \<times> flow_env \<Rightarrow> (JCHF \<times> flow_env) res" where
  "resolve_to fa key addr s =
     (case s of (dst, e) \<Rightarrow>
        (case fe_resolver e of
           None \<Rightarrow> Inr (dst, e)
         | Some r \<Rightarrow>
             (case Resolve (fa_uni fa) (fa_dns fa) addr r of
                Inl err \<Rightarrow> Inl err
              | Inr (name, r) \<Rightarrow> Inr (set_str key name dst, e\<lparr>fe_resolver := Some r\<rparr>))))"

definition next_hops :: "CHF \<Rightarrow> JCHF \<Rightarrow> JCHF" where
  "next_hops c dst = dst\<lparr>j_SrcNextHop := chf_addr (Ipv4SrcNextHop c) (Ipv6SrcNextHop c),
     j_DstNextHop := chf_addr (Ipv4DstNextHop c) (Ipv6DstNextHop c)\<rparr>"

definition copy_addresses :: "flow_args \<Rightarrow> CHF \<Rightarrow> JCHF \<times> flow_env \<Rightarrow> (JCHF \<times> flow_env) res" where
  "copy_addresses fa c s =
     (case s of (dst, e) \<Rightarrow>
        let addr = chf_addr (Ipv4DstAddr c) (Ipv6DstAddr c) in
        res_bind (resolve_to fa ''dst_host'' addr (dst\<lparr>j_DstAddr := addr\<rparr>, e)) (\<lambda>(dst, e).
          let addr = chf_addr (Ipv4SrcAddr c) (Ipv6SrcAddr c);
              dst = dst\<lparr>j_SrcAddr := addr, j_SrcRoutePrefix := IP_String (Int2ip (SrcRoutePrefix c)),
                j_DstRoutePrefix := IP_String (Int2ip (DstRoutePrefix c))\<rparr>
          in res_bind (resolve_to fa ''src_host'' addr (dst, e)) (\<lambda>(dst, e). Inr (next_hops c dst, e))))"

section \<open>Custom columns\<close>

definition custom_name :: "flow_env \<Rightarrow> (u32 \<Rightarrow> string option) \<Rightarrow> u32 \<Rightarrow> string \<times> bool" where
  "custom_name e cols k =
     (case fe_Customs e k of
        Some n \<Rightarrow> (n, False)
      | None \<Rightarrow> (case cols k of Some n \<Rightarrow> (n, False) | None \<Rightarrow> (nat_Itoa (unat k), True)))"

definition table_name :: "(u32 \<times> string) list \<Rightarrow> u32 \<Rightarrow> string" where
  "table_name t v = (case map_of t v of Some n \<Rightarrow> n | None \<Rightarrow> [])"

definition rpki_strings :: "u32 \<Rightarrow> JCHF \<Rightarrow> JCHF" where
  "rpki_strings v dst =
     (if 32 < v \<or> v = 4
      then set_str ''i_dst_rpki_min_name'' ''RPKI Invalid - Will be dropped''
        (set_str ''i_dst_rpki_name'' (''RPKI Invalid: incorrect Origin ASN (should be AS'' @ nat_Itoa (unat v) @ '')'') dst)
      else set_str ''i_dst_rpki_min_name'' (table_name RPKI_INT_TO_MIN_NAME v)
        (set_str ''i_dst_rpki_name'' (table_name RPKI_INT_TO_NAME v) dst))"

definition exit_device :: "flow_args \<Rightarrow> u32 \<Rightarrow> JCHF \<times> flow_env \<Rightarrow> JCHF \<times> flow_env" where
  "exit_device fa v s =
     (case s of (dst, e) \<Rightarrow>
        (case get_device (j_CompanyId dst) (ucast v) e of
           (None, e) \<Rightarrow> (dst, e)
         | (Some d, e) \<Rightarrow>
             let dst = set_str ''ult_exit_device'' (d_Name d) dst in
             (case d_Site d of None \<Rightarrow> dst | Some site \<Rightarrow> set_str ''ult_exit_site'' (fa_GetSiteName fa site) dst, e)))"

definition custom_u32 :: "flow_args \<Rightarrow> string \<Rightarrow> bool \<Rightarrow> u32 \<Rightarrow> JCHF \<times> flow_env \<Rightarrow> JCHF \<times> flow_env" where
  "custom_u32 fa name isInt v s =
     (case s of (dst, e) \<Rightarrow>
        if name \<in> {''src_cdn_int'', ''dst_cdn_int''} then (set_str name (NameByCDN v) dst, e)
        else if name \<in> {''trf_origination'', ''trf_termination'', ''host_direction''}
          then (set_str name (table_name NETWORK_CLASS_INT_TO_NAME v) dst, e)
        else if name \<in> {''src_network_bndry'', ''dst_network_bndry'', ''ult_exit_network_bndry''}
          then (set_str name (NameFromNBInt (uint v)) dst, e)
        else if name \<in> {''src_connect_type'', ''dst_connect_type'', ''ult_exit_connect_type''}
          then (set_str name (NameFromCTInt (fa_ct fa) (uint v)) dst, e)
        else if name = ''dst_rpki'' then (rpki_strings v dst, e)
        else if name = ''ult_exit_device_id'' then exit_device fa v (put_int name v dst, e)
        else (case LookupTagValue (j_CompanyId dst) v name (fe_tagMap e) of
                (Some (tk, tv), m) \<Rightarrow> (set_str tk tv dst, e\<lparr>fe_tagMap := m\<rparr>)
              | (None, m) \<Rightarrow> (if \<not> isInt then put_int name v dst else dst, e\<lparr>fe_tagMap := m\<rparr>)))"

definition custom_column ::
  "flow_args \<Rightarrow> (u32 \<Rightarrow> string option) \<Rightarrow> u32 \<times> custom_value \<Rightarrow> JCHF \<times> flow_env \<Rightarrow> JCHF \<times> flow_env" where
  "custom_column fa cols cust s =
     (case s of (dst, e) \<Rightarrow> case custom_name e cols (fst cust) of (name, isInt) \<Rightarrow>
        (case snd cust of
           Uint16Val v \<Rightarrow> (put_int name (ucast v) dst, e)
         | Uint32Val v \<Rightarrow> custom_u32 fa name isInt v (dst, e)
         | Uint64Val v \<Rightarrow>
             (case LookupTagValueBig (j_CompanyId dst) v name (fe_tagMap e) of
                (Some (tk, tv), m) \<Rightarrow> (set_str tk tv dst, e\<lparr>fe_tagMap := m\<rparr>)
              | (None, m) \<Rightarrow> (set_big name v dst, e\<lparr>fe_tagMap := m\<rparr>))
         | StrVal v \<Rightarrow> (set_str name v dst, e)
         | AddrVal sv \<Rightarrow> (if 1 < length sv then set_str name (IP_String (tl sv)) dst else dst, e)
         | Float32Val v \<Rightarrow> (put_float name v dst, e)
         | Uint8Val _ \<Rightarrow> (dst, e)))"

section \<open>Columns of an application\<close>

text \<open>The columns that apply: those of the subtype of the device, or those of the application protocol.\<close>

definition udr_columns_of :: "UDRMapper \<Rightarrow> JCHF \<Rightarrow> udr_columns" where
  "udr_columns_of um dst =
     (let t = gm_get [] (j_CustomStr dst) UDR_TYPE in
      if t \<noteq> [] \<and> um_Subtypes um t \<noteq> None then (case um_Subtypes um t of Some m \<Rightarrow> m | None \<Rightarrow> [])
      else case gm_lookup (j_CustomInt dst) APP_PROTOCOL_COL of
          None \<Rightarrow> []
        | Some ap \<Rightarrow> (case um_UDRs um ap of Some m \<Rightarrow> m | None \<Rightarrow> []))"

definition rename_int :: "string \<Rightarrow> string \<Rightarrow> JCHF \<Rightarrow> JCHF" where
  "rename_int col n dst =
     (case gm_lookup (j_CustomInt dst) col of None \<Rightarrow> dst | Some v \<Rightarrow> del_int col (put_int n v dst))"

definition rename_column :: "string \<Rightarrow> UDR \<Rightarrow> JCHF \<Rightarrow> JCHF" where
  "rename_column col udr dst =
     (let n = u_ColumnName udr in
      case u_Type udr of
        UDR_TYPE_INT \<Rightarrow> rename_int col n dst
      | UDR_TYPE_STRING \<Rightarrow>
          (case gm_lookup (j_CustomStr dst) col of None \<Rightarrow> dst | Some v \<Rightarrow> del_str col (set_str n v dst))
      | UDR_TYPE_BIGINT \<Rightarrow>
          (case gm_lookup (j_CustomBigInt dst) col of None \<Rightarrow> rename_int col n dst | Some v \<Rightarrow> del_big col (set_big n v dst)))"

definition test_strings :: "string \<Rightarrow> JCHF \<times> flow_env \<Rightarrow> JCHF \<times> flow_env" where
  "test_strings n s =
     (case s of (dst, e) \<Rightarrow>
        let tid = gm_get 0 (j_CustomBigInt dst) n;
            dst = set_str ''test_url'' (''https://portal.kentik.com/v4/synthetics/tests/'' @ strconv_Itoa (sint tid) @ ''/results'') dst
        in case GetTest (fe_api e) tid of
            Some t \<Rightarrow> (set_str ''test_type'' (t_GetType t) (set_str ''test_name'' (t_GetName t) dst), e)
          | None \<Rightarrow> (set_str ''test_type'' [] (set_str ''test_name'' [] dst), e\<lparr>fe_started := fe_started e @ [UpdateTests]\<rparr>))"

definition no_address :: "string \<Rightarrow> bool" where
  "no_address a \<longleftrightarrow> a = [] \<or> a = ''<nil>''"

definition agent_source :: "pb_Agent \<Rightarrow> JCHF \<Rightarrow> JCHF" where
  "agent_source a dst =
     set_str ''src_site'' (a_GetSiteName a) (set_str ''src_cloud_provider'' (a_GetCloudProvider a)
       (set_str ''src_cloud_region'' (a_GetCloudRegion a)
         (dst\<lparr>j_SrcAs := a_GetAsn a, j_SrcGeoRegion := a_GetRegion a, j_SrcGeoCity := a_GetCity a, j_SrcGeo := a_GetCountry a\<rparr>)))"

definition agent_target :: "KentikApi option \<Rightarrow> JCHF \<Rightarrow> JCHF" where
  "agent_target api dst =
     (if no_address (j_DstAddr dst) then dst
      else case GetAgentByIP api (j_DstAddr dst) of
          None \<Rightarrow> dst
        | Some da \<Rightarrow>
            set_str ''dst_site'' (a_GetSiteName da) (set_str ''dst_cloud_provider'' (a_GetCloudProvider da)
              (set_str ''dst_cloud_region'' (a_GetCloudRegion da)
                ((set_str ''dst_agent_id'' (a_GetId da) (set_str ''dst_agent_name'' (a_GetAlias da) dst))
                   \<lparr>j_DstAs := a_GetAsn da, j_DstGeoRegion := a_GetRegion da, j_DstGeoCity := a_GetCity da, j_DstGeo := a_GetCountry da\<rparr>))))"

definition agent_strings :: "flow_args \<Rightarrow> string \<Rightarrow> JCHF \<times> flow_env \<Rightarrow> (JCHF \<times> flow_env) res" where
  "agent_strings fa n s =
     (case s of (dst, e) \<Rightarrow>
        (case GetAgent (fe_api e) (gm_get 0 (j_CustomBigInt dst) n) of
           None \<Rightarrow> Inr (set_str ''agent_name'' [] dst, e)
         | Some a \<Rightarrow>
             let dst = set_str ''agent_name'' (a_GetAlias a) dst in
             res_bind
               (if no_address (j_SrcAddr dst)
                then let addr = (if a_GetLocalIp a \<noteq> [] then a_GetLocalIp a else a_GetIp a)
                  in resolve_to fa ''src_host'' addr (dst\<lparr>j_SrcAddr := addr\<rparr>, e)
                else Inr (dst, e))
               (\<lambda>(dst, e). Inr (agent_target (fe_api e) (agent_source a dst), e))))"

definition udr_column :: "flow_args \<Rightarrow> string \<times> UDR \<Rightarrow> JCHF \<times> flow_env \<Rightarrow> (JCHF \<times> flow_env) res" where
  "udr_column fa cu s =
     (case s of (dst, e) \<Rightarrow>
        let udr = snd cu;
            dst = rename_column (fst cu) udr dst;
            dst = (if gm_lookup (j_CustomStr dst) UDR_TYPE = None then set_str UDR_TYPE (u_ApplicationName udr) dst else dst);
            n = u_ColumnName udr
        in if n = ''result_type''
          then Inr (set_str ''result_type_str''
            (case map_of synResultTypes (gm_get 0 (j_CustomInt dst) n) of Some t \<Rightarrow> t | None \<Rightarrow> []) dst, e)
          else if n = ''test_id'' then Inr (test_strings n (dst, e))
          else if n = ''agent_id'' then agent_strings fa n (dst, e)
          else Inr (dst, e))"

fun res_fold :: "('a \<Rightarrow> 's \<Rightarrow> 's res) \<Rightarrow> 'a list \<Rightarrow> 's \<Rightarrow> 's res" where
  "res_fold f [] s = Inr s"
| "res_fold f (x # xs) s = res_bind (f x s) (res_fold f xs)"

definition apply_udrs :: "flow_args \<Rightarrow> JCHF \<times> flow_env \<Rightarrow> (JCHF \<times> flow_env) res" where
  "apply_udrs fa s =
     (case s of (dst, e) \<Rightarrow>
        (case fe_udrMapr e of
           None \<Rightarrow> Inr (dst, e)
         | Some um \<Rightarrow> res_fold (udr_column fa) (fa_order fa (udr_columns_of um dst)) (dst, e)))"

section \<open>Common names of cloud columns\<close>

definition foreign_tag :: "string \<Rightarrow> string \<Rightarrow> bool" where
  "foreign_tag t k =
     (if t = ''gcp_subnet'' \<or> t = ''ibm_subnet'' then strings_HasPrefix k ''kt_aws'' \<or> strings_HasPrefix k ''kt_az''
      else if t = ''aws_subnet'' then strings_HasPrefix k ''kt_az''
      else if t = ''azure_subnet'' then strings_HasPrefix k ''kt_aws''
      else False)"

text \<open>
  The loop over the custom strings deletes and adds entries of the map it ranges over. A key of the visits that is
  no longer there is skipped, as Go does; whether an added key is visited is up to the visits.
\<close>

definition remap_key :: "string \<Rightarrow> JCHF \<Rightarrow> JCHF" where
  "remap_key k dst =
     (case gm_lookup (j_CustomStr dst) k of
        None \<Rightarrow> dst
      | Some v \<Rightarrow>
          if foreign_tag (gm_get [] (j_CustomStr dst) UDR_TYPE) k then del_str k dst
          else case map_of remapCustomStrings k of
              None \<Rightarrow> dst
            | Some n \<Rightarrow> del_str k (set_str n v dst))"

definition remap_strings :: "flow_args \<Rightarrow> JCHF \<Rightarrow> JCHF" where
  "remap_strings fa dst = fold remap_key (case j_CustomStr dst of None \<Rightarrow> [] | Some m \<Rightarrow> fa_visits fa m) dst"

definition finish_record :: "JCHF \<Rightarrow> JCHF" where
  "finish_record dst =
     (let dst = (if gm_lookup (j_CustomStr dst) ''Type'' = None then set_str ''Type'' ''kflow'' dst else dst);
          dst = set_str ''src_endpoint'' (endpoint (j_SrcAddr dst) (j_L4SrcPort dst)) dst;
          dst = set_str ''dst_endpoint'' (endpoint (j_DstAddr dst) (j_L4DstPort dst)) dst;
          dst = dst\<lparr>j_EventType := getEventType dst\<rparr>
      in dst\<lparr>j_Provider := getProviderType dst\<rparr>)"

section \<open>The conversion\<close>

definition flowToJCHF :: "flow_args \<Rightarrow> Flow \<Rightarrow> i64 \<Rightarrow> JCHF \<times> flow_env \<Rightarrow> (JCHF \<times> flow_env) res" where
  "flowToJCHF fa src ts s =
     (case s of (dst, e) \<Rightarrow>
        let c = f_CHF src;
            dst = copy_regions e src (copy_counters c (set_geos c (start_record ts dst)))
        in case kentik_device fa e dst of (dst, cols, e) \<Rightarrow>
          res_bind (copy_addresses fa c (copy_texts c dst, e)) (\<lambda>s.
            res_bind (apply_udrs fa (fold (custom_column fa cols) (Custom c) s)) (\<lambda>(dst, e).
              Inr (finish_record (remap_strings fa dst), e))))"

section \<open>What the stages leave alone\<close>

text \<open>The numbers of a flow that no stage after the first changes, and that the maps of custom columns are made.\<close>

definition flow_numbers :: "JCHF \<Rightarrow> (u64 \<times> u64 \<times> u64 \<times> u64) \<times> (u32 \<times> u32 \<times> u32) \<times> u64 \<times> u64 \<times> u64 \<times> u64 \<times> i64 \<times> string" where
  "flow_numbers j = ((j_InBytes j, j_InPkts j, j_OutBytes j, j_OutPkts j), (j_L4SrcPort j, j_L4DstPort j, j_SampleRate j),
     j_CompanyId j, j_DeviceId j, j_InputPort j, j_OutputPort j, j_Timestamp j, j_DeviceName j)"

definition maps_made :: "JCHF \<Rightarrow> bool" where
  "maps_made j \<longleftrightarrow> j_CustomStr j \<noteq> None \<and> j_CustomInt j \<noteq> None \<and> j_CustomBigInt j \<noteq> None \<and> j_CustomFloat j \<noteq> None"

definition same_flow :: "JCHF \<Rightarrow> JCHF \<Rightarrow> bool" where
  "same_flow j j' \<longleftrightarrow> flow_numbers j' = flow_numbers j \<and> (maps_made j \<longrightarrow> maps_made j')"

lemma same_flow_refl [simp]: "same_flow j j"
  by (simp add: same_flow_def)

lemma same_flow_trans [trans]: "same_flow a b \<Longrightarrow> same_flow b c \<Longrightarrow> same_flow a c"
  by (simp add: same_flow_def)

lemmas same_flow_unfold = same_flow_def flow_numbers_def maps_made_def

lemma same_flow_maps:
  "same_flow j (set_str k v j)" "same_flow j (set_big k w j)" "same_flow j (put_int k x j)" "same_flow j (put_float k y j)"
  "same_flow j (del_str k j)" "same_flow j (del_int k j)" "same_flow j (del_big k j)"
  by (simp_all add: same_flow_unfold set_str_def set_big_def put_int_def put_float_def del_str_def del_int_def del_big_def)

lemma same_flow_then:
  "same_flow j a \<Longrightarrow> same_flow j (set_str k v a)" "same_flow j a \<Longrightarrow> same_flow j (set_big k w a)"
  "same_flow j a \<Longrightarrow> same_flow j (put_int k x a)" "same_flow j a \<Longrightarrow> same_flow j (put_float k y a)"
  "same_flow j a \<Longrightarrow> same_flow j (del_str k a)" "same_flow j a \<Longrightarrow> same_flow j (del_int k a)"
  "same_flow j a \<Longrightarrow> same_flow j (del_big k a)"
  by (blast intro: same_flow_trans same_flow_maps)+

lemma same_flow_updates:
  "same_flow j a \<Longrightarrow> same_flow j (a\<lparr>j_InputIntDesc := s1, j_InputIntAlias := s2, j_InputInterfaceCapacity := c, j_InputInterfaceIP := s3\<rparr>)"
  "same_flow j a \<Longrightarrow> same_flow j (a\<lparr>j_OutputIntDesc := s1, j_OutputIntAlias := s2, j_OutputInterfaceCapacity := c, j_OutputInterfaceIP := s3\<rparr>)"
  "same_flow j a \<Longrightarrow> same_flow j (a\<lparr>j_SrcAddr := s1\<rparr>)"
  "same_flow j a \<Longrightarrow> same_flow j (a\<lparr>j_DstAddr := s1\<rparr>)"
  "same_flow j a \<Longrightarrow> same_flow j (a\<lparr>j_SrcAddr := s1, j_SrcRoutePrefix := s2, j_DstRoutePrefix := s3\<rparr>)"
  "same_flow j a \<Longrightarrow> same_flow j (a\<lparr>j_SrcNextHop := s1, j_DstNextHop := s2\<rparr>)"
  "same_flow j a \<Longrightarrow> same_flow j (a\<lparr>j_SrcAs := as, j_SrcGeoRegion := s1, j_SrcGeoCity := s2, j_SrcGeo := s3\<rparr>)"
  "same_flow j a \<Longrightarrow> same_flow j (a\<lparr>j_DstAs := as, j_DstGeoRegion := s1, j_DstGeoCity := s2, j_DstGeo := s3\<rparr>)"
  "same_flow j a \<Longrightarrow> same_flow j (a\<lparr>j_EventType := s1\<rparr>)"
  "same_flow j a \<Longrightarrow> same_flow j (a\<lparr>j_Provider := s1\<rparr>)"
  by (simp_all add: same_flow_unfold)

lemmas same_flow_sets = same_flow_then same_flow_updates same_flow_refl

lemma same_flow_stages:
  "same_flow j (input_interface i j)" "same_flow j (output_interface i j)"
  "same_flow j (site_strings fa d j)" "same_flow j (copy_texts c j)" "same_flow j (next_hops c j)"
  by (auto simp: input_interface_def output_interface_def site_strings_def Let_def next_hops_def
      intro!: same_flow_sets split: option.splits list.splits)
    (simp add: same_flow_unfold copy_texts_def)

lemmas same_flow_intros = same_flow_then same_flow_updates same_flow_stages [THEN [2] same_flow_trans] same_flow_refl

lemma device_strings_flow: "same_flow (j\<lparr>j_DeviceName := d_Name d\<rparr>) (device_strings fa d j)"
  by (auto simp: device_strings_def Let_def intro!: same_flow_intros split: option.splits list.splits)

lemma kentik_device_flow:
  "kentik_device fa e j = (j', cols, e') \<Longrightarrow>
     same_flow (case fst (get_device (j_CompanyId j) (j_DeviceId j) e) of None \<Rightarrow> j | Some d \<Rightarrow> j\<lparr>j_DeviceName := d_Name d\<rparr>) j'"
  by (auto simp: kentik_device_def Let_def split: prod.splits option.splits intro!: same_flow_intros device_strings_flow)

lemma resolve_to_flow: "resolve_to fa k a (j, e) = Inr (j', e') \<Longrightarrow> same_flow j j'"
  by (auto simp: resolve_to_def split: option.splits sum.splits intro!: same_flow_intros)

lemma res_bind_Inr: "res_bind r f = Inr y \<longleftrightarrow> (\<exists>x. r = Inr x \<and> f x = Inr y)"
  by (cases r) (simp_all add: res_bind_def)

lemma copy_addresses_flow: "copy_addresses fa c (j, e) = Inr (j', e') \<Longrightarrow> same_flow j j'"
  by (auto simp: copy_addresses_def Let_def res_bind_Inr dest!: resolve_to_flow intro!: same_flow_intros
      elim!: same_flow_trans [rotated] intro: same_flow_trans)

lemma exit_device_flow: "exit_device fa v (j, e) = (j', e') \<Longrightarrow> same_flow j j'"
  by (auto simp: exit_device_def Let_def split: prod.splits option.splits intro!: same_flow_intros)

lemma custom_column_flow: "custom_column fa cols c (j, e) = (j', e') \<Longrightarrow> same_flow j j'"
proof -
  have "custom_u32 fa n b v (j, e) = (j', e') \<Longrightarrow> same_flow j j'" for n b v
    by (auto simp: custom_u32_def rpki_strings_def split: if_splits prod.splits option.splits intro!: same_flow_intros
        dest!: exit_device_flow intro: same_flow_trans)
  then show "custom_column fa cols c (j, e) = (j', e') \<Longrightarrow> same_flow j j'"
    by (auto simp: custom_column_def split: prod.splits custom_value.splits option.splits if_splits intro!: same_flow_intros)
qed

lemma custom_columns_flow: "fold (custom_column fa cols) cs (j, e) = (j', e') \<Longrightarrow> same_flow j j'"
proof (induction cs arbitrary: j e)
  case (Cons c cs)
  obtain j1 e1 where c: "custom_column fa cols c (j, e) = (j1, e1)" by fastforce
  with Cons.prems have "fold (custom_column fa cols) cs (j1, e1) = (j', e')" by simp
  from custom_column_flow [OF c] Cons.IH [OF this] show ?case by (rule same_flow_trans)
qed simp

lemma rename_column_flow: "same_flow j (rename_column col udr j)"
  by (auto simp: rename_column_def rename_int_def Let_def split: udr_type.splits option.splits intro!: same_flow_intros)

lemma agent_flow: "same_flow j (agent_target api (agent_source a j))"
  by (auto simp: agent_target_def agent_source_def split: option.splits intro!: same_flow_intros)

lemma agent_strings_flow:
  assumes "agent_strings fa n (j, e) = Inr (j', e')"
  shows "same_flow j j'"
proof (cases "GetAgent (fe_api e) (gm_get 0 (j_CustomBigInt j) n)")
  case None
  with assms have "j' = set_str ''agent_name'' [] j" by (simp add: agent_strings_def)
  then show ?thesis by (simp add: same_flow_maps)
next
  case (Some a)
  define j0 where "j0 = set_str ''agent_name'' (a_GetAlias a) j"
  have j0: "same_flow j j0" unfolding j0_def by (rule same_flow_maps)
  define addr where "addr = (if a_GetLocalIp a \<noteq> [] then a_GetLocalIp a else a_GetIp a)"
  let ?src = "if no_address (j_SrcAddr j0) then resolve_to fa ''src_host'' addr (j0\<lparr>j_SrcAddr := addr\<rparr>, e) else Inr (j0, e)"
  have "res_bind ?src (\<lambda>(dst, e). Inr (agent_target (fe_api e) (agent_source a dst), e)) = Inr (j', e')"
    using assms Some by (simp only: agent_strings_def Let_def prod.case option.case j0_def addr_def)
  then obtain j1 e1 where found: "?src = Inr (j1, e1)" and j': "j' = agent_target (fe_api e1) (agent_source a j1)"
    unfolding res_bind_Inr by auto
  have "same_flow j0 j1"
  proof (cases "no_address (j_SrcAddr j0)")
    case True
    with found have "same_flow (j0\<lparr>j_SrcAddr := addr\<rparr>) j1" by (simp add: resolve_to_flow)
    moreover have "same_flow j0 (j0\<lparr>j_SrcAddr := addr\<rparr>)" by (intro same_flow_intros)
    ultimately show ?thesis by (metis same_flow_trans)
  qed (use found in simp)
  from same_flow_trans [OF j0 this] agent_flow show ?thesis unfolding j' by (rule same_flow_trans)
qed

lemma udr_column_flow:
  assumes "udr_column fa cu (j, e) = Inr (j', e')"
  shows "same_flow j j'"
proof -
  define j0 where "j0 = rename_column (fst cu) (snd cu) j"
  define j1 where "j1 = (if gm_lookup (j_CustomStr j0) UDR_TYPE = None then set_str UDR_TYPE (u_ApplicationName (snd cu)) j0 else j0)"
  have "same_flow j j0" unfolding j0_def by (rule rename_column_flow)
  then have j1: "same_flow j j1" by (simp add: j1_def same_flow_then)
  have test: "same_flow j1 (fst (test_strings n (j1, e)))" for n
    by (auto simp: test_strings_def Let_def split: option.splits intro!: same_flow_intros)
  let ?n = "u_ColumnName (snd cu)"
  let ?r = "\<lambda>t. set_str ''result_type_str'' t j1"
  have "(if ?n = ''result_type'' then Inr (?r (case map_of synResultTypes (gm_get 0 (j_CustomInt j1) ?n) of Some t \<Rightarrow> t | None \<Rightarrow> []), e)
      else if ?n = ''test_id'' then Inr (test_strings ?n (j1, e))
      else if ?n = ''agent_id'' then agent_strings fa ?n (j1, e) else Inr (j1, e)) = Inr (j', e')"
    using assms by (simp only: udr_column_def Let_def prod.case j0_def [symmetric] j1_def [symmetric])
  then have "same_flow j1 j'"
    using test [of ?n] agent_strings_flow [of fa ?n j1 e j' e'] same_flow_maps(1) [of j1]
    by (auto split: if_splits)
  with j1 show ?thesis by (rule same_flow_trans)
qed

lemma res_fold_same_flow:
  assumes "\<And>x j e j' e'. f x (j, e) = Inr (j', e') \<Longrightarrow> same_flow j j'"
  shows "res_fold f xs (j, e) = Inr (j', e') \<Longrightarrow> same_flow j j'"
proof (induction xs arbitrary: j e)
  case (Cons x xs)
  then obtain j1 e1 where "f x (j, e) = Inr (j1, e1)" "res_fold f xs (j1, e1) = Inr (j', e')" by (auto simp: res_bind_Inr)
  from assms [OF this(1)] Cons.IH [OF this(2)] show ?case by (rule same_flow_trans)
qed simp

lemma apply_udrs_flow: "apply_udrs fa (j, e) = Inr (j', e') \<Longrightarrow> same_flow j j'"
  by (auto simp: apply_udrs_def split: option.splits intro: res_fold_same_flow [where f = "udr_column fa"] udr_column_flow)

lemma remap_strings_flow: "same_flow j (remap_strings fa j)"
proof -
  have key: "same_flow j (remap_key k j)" for k j
    by (auto simp: remap_key_def split: option.splits intro!: same_flow_intros)
  have "same_flow j (fold remap_key ks j)" for ks
    by (induction ks arbitrary: j) (auto intro: same_flow_trans [OF key])
  then show ?thesis by (simp add: remap_strings_def)
qed

lemma finish_record_flow: "same_flow j (finish_record j)"
  by (auto simp: finish_record_def Let_def intro!: same_flow_intros)

section \<open>The conversion returns\<close>

definition returns :: "'a res \<Rightarrow> bool" where
  "returns r \<longleftrightarrow> (\<exists>x. r = Inr x)"

lemma returns_Inr [simp]: "returns (Inr x)"
  by (simp add: returns_def)

lemma res_bind_returns: "returns r \<Longrightarrow> (\<And>x. r = Inr x \<Longrightarrow> returns (f x)) \<Longrightarrow> returns (res_bind r f)"
  by (auto simp: res_bind_def returns_def)

lemma resolve_to_returns: "named_answers (fa_dns fa) \<Longrightarrow> returns (resolve_to fa k a s)"
proof -
  assume "named_answers (fa_dns fa)"
  then have "Resolve (fa_uni fa) (fa_dns fa) a r \<noteq> Inl err" for r err
    using Resolve_ok [of "fa_dns fa" "fa_uni fa" a r] by auto
  then show ?thesis by (cases s) (auto simp: resolve_to_def returns_def split: option.splits sum.splits)
qed

lemma copy_addresses_returns: "named_answers (fa_dns fa) \<Longrightarrow> returns (copy_addresses fa c s)"
  unfolding copy_addresses_def Let_def
  by (cases s) (auto intro!: res_bind_returns resolve_to_returns split: prod.splits)

lemma udr_column_returns: "named_answers (fa_dns fa) \<Longrightarrow> returns (udr_column fa cu s)"
proof -
  assume dns: "named_answers (fa_dns fa)"
  have "returns (agent_strings fa n t)" for n t
    unfolding agent_strings_def Let_def
    by (cases t) (auto intro!: res_bind_returns resolve_to_returns [OF dns] split: prod.splits option.splits)
  then show ?thesis by (cases s) (simp add: udr_column_def Let_def)
qed

lemma res_fold_returns: "(\<And>x s. returns (f x s)) \<Longrightarrow> returns (res_fold f xs s)"
  by (induction xs arbitrary: s) (auto intro: res_bind_returns)

lemma apply_udrs_returns: "named_answers (fa_dns fa) \<Longrightarrow> returns (apply_udrs fa s)"
  by (cases s) (auto simp: apply_udrs_def split: option.splits intro: res_fold_returns udr_column_returns)

lemma returns_Pair: "returns r \<longleftrightarrow> (\<exists>j e. r = Inr (j, e))"
  by (auto simp: returns_def)

lemma lookup_written:
  "gm_lookup (map_option (\<lambda>f. f(k \<mapsto> v)) m) k' = (if m = None then None else if k' = k then Some v else gm_lookup m k')"
  by (auto simp: gm_lookup_def split: option.splits)

lemma event_type_str [simp]:
  "getEventType (set_str k v j) = getEventType j" "getEventType (j\<lparr>j_EventType := t\<rparr>) = getEventType j"
  "getEventType (j\<lparr>j_Provider := p\<rparr>) = getEventType j" "getProviderType (j\<lparr>j_EventType := t\<rparr>) = getProviderType j"
  "getProviderType (j\<lparr>j_Provider := p\<rparr>) = getProviderType j"
  by (simp_all add: getEventType_def getProviderType_def set_str_def split: option.splits)

lemma finish_record_strings:
  assumes "maps_made j"
  shows "gm_lookup (j_CustomStr (finish_record j)) ''src_endpoint'' = Some (endpoint (j_SrcAddr (finish_record j)) (j_L4SrcPort (finish_record j)))"
    "gm_lookup (j_CustomStr (finish_record j)) ''dst_endpoint'' = Some (endpoint (j_DstAddr (finish_record j)) (j_L4DstPort (finish_record j)))"
    "gm_lookup (j_CustomStr (finish_record j)) ''Type'' \<noteq> None"
    "j_EventType (finish_record j) = getEventType (finish_record j)" "j_Provider (finish_record j) = getProviderType (finish_record j)"
  using assms by (simp_all add: finish_record_def maps_made_def Let_def lookup_written del: not_None_eq)

text \<open>
  C12. The conversion of a Kentik flow returns, whatever columns, tags and mappers there are. The record carries the counters,
  ports and interfaces of the message, a hundredth of its sample rate, the company and the device it came from, and
  the name of the device that the API lists for them, or the name of the sender when there is none; its endpoints are
  its addresses and ports, and its event type and provider follow from its columns.
\<close>

theorem kentik_flow_converted:
  assumes "named_answers (fa_dns fa)"
  shows "\<exists>j e'. flowToJCHF fa src ts (dst, e) = Inr (j, e') \<and>
    (let c = f_CHF src in
       (j_InBytes j, j_InPkts j, j_OutBytes j, j_OutPkts j) = (InBytes c, InPkts c, OutBytes c, OutPkts c) \<and>
       (j_L4SrcPort j, j_L4DstPort j, j_InputPort j, j_OutputPort j) = (L4SrcPort c, L4DstPort c, ucast (InputPort c), ucast (OutputPort c)) \<and>
       j_SampleRate j = SampleRate c div 100 \<and> j_Timestamp j = ts \<and>
       (j_CompanyId j, j_DeviceId j) = (of_int (f_CompanyId src), ucast (DeviceId c)) \<and>
       j_DeviceName j = (case fst (GetDevice (fe_api e) (of_int (f_CompanyId src)) (ucast (DeviceId c))) of
          None \<Rightarrow> f_DeviceName src | Some d \<Rightarrow> d_Name d)) \<and>
    gm_lookup (j_CustomStr j) ''src_endpoint'' = Some (endpoint (j_SrcAddr j) (j_L4SrcPort j)) \<and>
    gm_lookup (j_CustomStr j) ''dst_endpoint'' = Some (endpoint (j_DstAddr j) (j_L4DstPort j)) \<and>
    gm_lookup (j_CustomStr j) ''Type'' \<noteq> None \<and> j_EventType j = getEventType j \<and> j_Provider j = getProviderType j"
proof -
  let ?c = "f_CHF src"
  define j0 where "j0 = copy_regions e src (copy_counters ?c (set_geos ?c (start_record ts dst)))"
  obtain j1 cols e1 where dev: "kentik_device fa e j0 = (j1, cols, e1)" by (metis prod.exhaust)
  obtain j2 e2 where addr: "copy_addresses fa ?c (copy_texts ?c j1, e1) = Inr (j2, e2)"
    using copy_addresses_returns [OF assms] unfolding returns_Pair by metis
  obtain j3 e3 where cust: "fold (custom_column fa cols) (Custom ?c) (j2, e2) = (j3, e3)" by (metis prod.exhaust)
  obtain j4 e4 where udrs: "apply_udrs fa (j3, e3) = Inr (j4, e4)"
    using apply_udrs_returns [OF assms] unfolding returns_Pair by metis
  define j5 where "j5 = remap_strings fa j4"
  have run: "flowToJCHF fa src ts (dst, e) = Inr (finish_record j5, e4)"
    by (simp add: flowToJCHF_def Let_def j0_def [symmetric] dev addr cust udrs res_bind_def j5_def)
  define k where "k = (case fst (get_device (j_CompanyId j0) (j_DeviceId j0) e) of None \<Rightarrow> j0 | Some d \<Rightarrow> j0\<lparr>j_DeviceName := d_Name d\<rparr>)"
  have "same_flow k j5"
    using same_flow_trans [OF same_flow_trans [OF same_flow_trans [OF same_flow_trans [OF same_flow_trans
        [OF kentik_device_flow [OF dev] same_flow_stages(4)] copy_addresses_flow [OF addr]] custom_columns_flow [OF cust]]
        apply_udrs_flow [OF udrs]] remap_strings_flow]
    unfolding k_def j5_def .
  moreover have "maps_made k" by (simp add: k_def maps_made_def j0_def copy_regions_def copy_counters_def set_geos_def start_record_def Let_def split: option.splits)
  ultimately have made: "maps_made j5" "same_flow k (finish_record j5)"
    using finish_record_flow same_flow_trans by (auto simp: same_flow_def)
  have name: "fst (get_device cid did e) = fst (GetDevice (fe_api e) cid did)" for cid did
    by (simp add: get_device_def split: prod.splits)
  have numbers: "flow_numbers k = ((InBytes ?c, InPkts ?c, OutBytes ?c, OutPkts ?c), (L4SrcPort ?c, L4DstPort ?c, SampleRate ?c div 100),
      of_int (f_CompanyId src), ucast (DeviceId ?c), ucast (InputPort ?c), ucast (OutputPort ?c), ts,
      case fst (GetDevice (fe_api e) (of_int (f_CompanyId src)) (ucast (DeviceId ?c))) of None \<Rightarrow> f_DeviceName src | Some d \<Rightarrow> d_Name d)"
    unfolding k_def name
    by (simp add: flow_numbers_def j0_def copy_regions_def copy_counters_def set_geos_def start_record_def Let_def split: option.splits)
  then show ?thesis
    using made(2) finish_record_strings [OF made(1)] unfolding run by (auto simp: same_flow_def flow_numbers_def Let_def)
qed

section \<open>The common names\<close>

definition remap_at :: "string \<Rightarrow> string \<Rightarrow> (string \<Rightarrow> string option) \<Rightarrow> string \<Rightarrow> string option" where
  "remap_at t k m =
     (case m k of
        None \<Rightarrow> m
      | Some v \<Rightarrow>
          if foreign_tag t k then m(k := None)
          else case map_of remapCustomStrings k of None \<Rightarrow> m | Some n \<Rightarrow> (m(n \<mapsto> v))(k := None))"

definition cloud_keys :: "string list" where
  "cloud_keys = map fst remapCustomStrings"

definition common_names :: "string list" where
  "common_names = [''dest_account'', ''source_account'', ''source_region'', ''dest_region'', ''source_vpc'', ''dest_vpc'']"

lemma remap_targets: "map_of remapCustomStrings k = Some n \<Longrightarrow> k \<in> set cloud_keys \<and> n \<in> set common_names"
proof -
  have "\<forall>p \<in> set remapCustomStrings. snd p \<in> set common_names" by code_simp
  then show "map_of remapCustomStrings k = Some n \<Longrightarrow> k \<in> set cloud_keys \<and> n \<in> set common_names"
    by (force simp: cloud_keys_def dest!: map_of_SomeD)
qed

lemma cloud_key_remapped: "k \<in> set cloud_keys \<Longrightarrow> \<exists>n. map_of remapCustomStrings k = Some n"
  by (auto simp: cloud_keys_def intro: weak_map_of_SomeI)

lemma common_name_stays: "n \<in> set common_names \<Longrightarrow> n \<noteq> ''source_region'' \<Longrightarrow> n \<notin> set cloud_keys"
proof -
  have "list_all (\<lambda>n. n = ''source_region'' \<or> n \<notin> set cloud_keys) common_names" by code_simp
  then show "n \<in> set common_names \<Longrightarrow> n \<noteq> ''source_region'' \<Longrightarrow> n \<notin> set cloud_keys" by (auto simp: list_all_iff)
qed

lemma common_not_foreign: "n \<in> set (UDR_TYPE # common_names) \<Longrightarrow> \<not> foreign_tag t n"
proof -
  have "list_all (\<lambda>n. \<not> strings_HasPrefix n ''kt_aws'' \<and> \<not> strings_HasPrefix n ''kt_az'') (UDR_TYPE # common_names)"
    by (simp add: UDR_TYPE_def common_names_def strings_HasPrefix_def)
  then show "n \<in> set (UDR_TYPE # common_names) \<Longrightarrow> \<not> foreign_tag t n"
    unfolding list_all_iff foreign_tag_def by (metis (full_types))
qed

lemma udr_type_untouched: "UDR_TYPE \<notin> set cloud_keys" "UDR_TYPE \<notin> set common_names"
  by code_simp+

lemma remap_at_other:
  "k' \<noteq> k \<or> k \<notin> set cloud_keys \<and> \<not> foreign_tag t k \<Longrightarrow> k \<notin> set common_names \<Longrightarrow> remap_at t k' m k = m k"
  using remap_targets [of k'] by (auto simp: remap_at_def split: option.splits)

lemma remap_at_self:
  "k \<in> set cloud_keys \<and> k \<noteq> ''source_region'' \<or> foreign_tag t k \<Longrightarrow> remap_at t k m k = None"
  using cloud_key_remapped [of k] by (auto simp: remap_at_def split: option.splits)

lemma remap_at_gone:
  assumes "k \<in> set cloud_keys \<and> k \<noteq> ''source_region'' \<or> foreign_tag t k" "m k = None"
  shows "remap_at t k' m k = None"
proof (cases "k' = k")
  case False
  have "k \<notin> set common_names" using assms(1) common_name_stays common_not_foreign by auto
  with False assms(2) show ?thesis by (simp add: remap_at_other)
qed (use assms(1) in \<open>simp add: remap_at_self\<close>)

lemma remap_at_keeps_common: "n \<in> set common_names \<Longrightarrow> n \<noteq> ''source_region'' \<Longrightarrow> m n \<noteq> None \<Longrightarrow> remap_at t k m n \<noteq> None"
  using common_name_stays [of n] common_not_foreign [of n t] remap_targets [of k] by (auto simp: remap_at_def split: option.splits)

lemma remap_fold:
  fixes m t ks defines "m' \<equiv> fold (remap_at t) ks m"
  shows "k \<in> set cloud_keys \<and> k \<noteq> ''source_region'' \<or> foreign_tag t k \<Longrightarrow> k \<in> set ks \<or> m k = None \<Longrightarrow> m' k = None"
    and "k \<notin> set cloud_keys \<Longrightarrow> k \<notin> set common_names \<Longrightarrow> \<not> foreign_tag t k \<Longrightarrow> m' k = m k"
    and "n \<in> set common_names \<Longrightarrow> n \<noteq> ''source_region'' \<Longrightarrow> m n \<noteq> None \<Longrightarrow> m' n \<noteq> None"
proof -
  show "k \<in> set cloud_keys \<and> k \<noteq> ''source_region'' \<or> foreign_tag t k \<Longrightarrow> k \<in> set ks \<or> m k = None \<Longrightarrow> m' k = None"
    unfolding m'_def by (induction ks arbitrary: m) (auto simp: remap_at_self remap_at_gone)
  show "k \<notin> set cloud_keys \<Longrightarrow> k \<notin> set common_names \<Longrightarrow> \<not> foreign_tag t k \<Longrightarrow> m' k = m k"
    unfolding m'_def by (induction ks arbitrary: m) (simp_all add: remap_at_other)
  show "n \<in> set common_names \<Longrightarrow> n \<noteq> ''source_region'' \<Longrightarrow> m n \<noteq> None \<Longrightarrow> m' n \<noteq> None"
    unfolding m'_def by (induction ks arbitrary: m) (simp_all add: remap_at_keeps_common del: not_None_eq)
qed

lemma region_to_itself: "map_of remapCustomStrings ''source_region'' = Some ''source_region''"
  by (simp add: remapCustomStrings_def)

lemma remap_fold_fills:
  assumes "map_of remapCustomStrings k = Some n" "n \<noteq> ''source_region''" "\<not> foreign_tag t k" "m k \<noteq> None" "k \<in> set ks"
  shows "fold (remap_at t) ks m n \<noteq> None"
  using assms(4,5)
proof (induction ks arbitrary: m)
  case (Cons k' ks)
  note kn = remap_targets [OF assms(1)]
  have k: "k \<notin> set common_names" "n \<noteq> k"
    using kn assms(1,2) common_name_stays [of k] common_name_stays [of n] region_to_itself by (metis option.inject)+
  show ?case
  proof (cases "k' = k")
    case True
    then have "remap_at t k' m n \<noteq> None" using Cons.prems(1) assms(1,3) k(2) by (auto simp: remap_at_def)
    then show ?thesis using remap_fold(3) kn assms(2) by simp
  next
    case False
    then have "remap_at t k' m k = m k" using k(1) by (simp add: remap_at_other)
    then show ?thesis using Cons.IH [of "remap_at t k' m"] Cons.prems False by simp
  qed
qed simp

lemma remap_key_map:
  assumes "j_CustomStr j = Some m"
  shows "j_CustomStr (remap_key k j) = Some (remap_at (case m UDR_TYPE of None \<Rightarrow> [] | Some t \<Rightarrow> t) k m)"
  using assms by (auto simp: remap_key_def remap_at_def gm_get_def gm_lookup_def del_str_def split: option.splits)

lemma remap_keys_map:
  assumes "j_CustomStr j = Some m"
  shows "j_CustomStr (fold remap_key ks j) = Some (fold (remap_at (case m UDR_TYPE of None \<Rightarrow> [] | Some t \<Rightarrow> t)) ks m)"
  using assms
proof (induction ks arbitrary: j m)
  case (Cons k ks)
  let ?t = "case m UDR_TYPE of None \<Rightarrow> [] | Some t \<Rightarrow> t"
  have "remap_at ?t k m UDR_TYPE = m UDR_TYPE"
    using udr_type_untouched common_not_foreign [of UDR_TYPE ?t] by (simp add: remap_at_other)
  with Cons.IH [OF remap_key_map [OF Cons.prems]] show ?case by simp
qed simp

text \<open>
  The loop that gives cloud columns their common names, in whatever order Go visits the map that the loop changes:
  afterwards none of the cloud specific columns is left, nor a column of another cloud than that of the flow; a common
  column is there when one of its specific columns was; and all other columns are as before. The region of the
  source is the one exception, see below.
\<close>

lemma cloud_columns_renamed:
  assumes "j_CustomStr j = Some m" "dom m \<subseteq> set (fa_visits fa m)"
  shows "\<exists>m'. j_CustomStr (remap_strings fa j) = Some m' \<and>
    (let t = gm_get [] (j_CustomStr j) UDR_TYPE in
       (\<forall>k. k \<in> fst ` set remapCustomStrings \<and> k \<noteq> ''source_region'' \<or> foreign_tag t k \<longrightarrow> m' k = None) \<and>
       (\<forall>k n. (k, n) \<in> set remapCustomStrings \<and> n \<noteq> ''source_region'' \<and> \<not> foreign_tag t k \<and> m k \<noteq> None \<longrightarrow> m' n \<noteq> None) \<and>
       (\<forall>k. k \<notin> fst ` set remapCustomStrings \<and> k \<notin> snd ` set remapCustomStrings \<and> \<not> foreign_tag t k \<longrightarrow> m' k = m k))"
proof -
  let ?t = "case m UDR_TYPE of None \<Rightarrow> [] | Some t \<Rightarrow> t"
  let ?m' = "fold (remap_at ?t) (fa_visits fa m) m"
  have keys: "fst ` set remapCustomStrings = set cloud_keys" by (simp add: cloud_keys_def)
  have names: "set common_names \<subseteq> snd ` set remapCustomStrings"
    by (simp add: common_names_def remapCustomStrings_def)
  have "distinct cloud_keys" by code_simp
  then have lookup: "(k, n) \<in> set remapCustomStrings \<Longrightarrow> map_of remapCustomStrings k = Some n" for k n
    by (simp add: cloud_keys_def)
  have t: "gm_get [] (j_CustomStr j) UDR_TYPE = ?t" using assms(1) by (simp add: gm_get_def gm_lookup_def)
  have visited: "m k \<noteq> None \<Longrightarrow> k \<in> set (fa_visits fa m)" for k using assms(2) by blast
  have "j_CustomStr (remap_strings fa j) = Some ?m'"
    unfolding remap_strings_def using remap_keys_map [OF assms(1)] assms(1) by simp
  moreover have "k \<in> set cloud_keys \<and> k \<noteq> ''source_region'' \<or> foreign_tag ?t k \<longrightarrow> ?m' k = None" for k
    using remap_fold(1) [of k ?t "fa_visits fa m" m] visited [of k] by blast
  moreover have "(k, n) \<in> set remapCustomStrings \<and> n \<noteq> ''source_region'' \<and> \<not> foreign_tag ?t k \<and> m k \<noteq> None \<longrightarrow> ?m' n \<noteq> None" for k n
    using remap_fold_fills [of k n ?t m "fa_visits fa m"] lookup visited by blast
  moreover have "k \<notin> set cloud_keys \<and> k \<notin> snd ` set remapCustomStrings \<and> \<not> foreign_tag ?t k \<longrightarrow> ?m' k = m k" for k
    using remap_fold(2) names by blast
  ultimately show ?thesis unfolding t keys Let_def by blast
qed

text \<open>
  The source region is mapped to itself, and the entry is deleted after it is written: a flow that has it loses it. A
  region of a cloud column survives or not with the order of the visits.
\<close>

lemma source_region_lost: "remap_at t ''source_region'' (Map.empty(''source_region'' \<mapsto> r)) ''source_region'' = None"
proof -
  have "\<not> foreign_tag t ''source_region''" using common_not_foreign [of "''source_region''" t] by (simp add: common_names_def)
  then show ?thesis by (simp add: remap_at_def region_to_itself)
qed

lemma region_depends_on_order:
  "fold (remap_at []) [''src_region''] (Map.empty(''src_region'' \<mapsto> r)) ''source_region'' = Some r"
  "fold (remap_at []) [''src_region'', ''source_region''] (Map.empty(''src_region'' \<mapsto> r)) ''source_region'' = None"
  by (simp_all add: remap_at_def remapCustomStrings_def foreign_tag_def)

text \<open>The resource groups of Azure end up on the other side.\<close>

lemma azure_groups_swapped:
  "map_of remapCustomStrings ''kt_az_dst_rsrc_group'' = Some ''source_vpc''"
  "map_of remapCustomStrings ''kt_az_src_rsrc_group'' = Some ''dest_vpc''"
  by (simp_all add: remapCustomStrings_def)

section \<open>Records are used again\<close>

text \<open>
  The record a flow is converted into comes from a pool, and \<^verbatim>\<open>Reset\<close> clears none of its fields. A flow without a
  country, or on an unknown interface, shows what the flow before it left in the record, of whatever company.
\<close>

lemma recycled_record_leaks:
  assumes "fe_api e = None" "fe_resolver e = None" "fe_udrMapr e = None" "Custom (f_CHF src) = []" "DstGeo (f_CHF src) = 0"
    "flowToJCHF fa src ts (JCHF_Reset old, e) = Inr (j, e')"
  shows "j_DstGeo j = j_DstGeo old" "j_InputIntDesc j = j_InputIntDesc old" "j_InputInterfaceIP j = j_InputInterfaceIP old"
proof -
  have key: "j_DstGeo (remap_key k r) = j_DstGeo r" "j_InputIntDesc (remap_key k r) = j_InputIntDesc r"
      "j_InputInterfaceIP (remap_key k r) = j_InputInterfaceIP r" for k r
    by (simp_all add: remap_key_def del_str_def set_str_def split: option.splits)
  have keys: "j_DstGeo (fold remap_key ks r) = j_DstGeo r" "j_InputIntDesc (fold remap_key ks r) = j_InputIntDesc r"
      "j_InputInterfaceIP (fold remap_key ks r) = j_InputInterfaceIP r" for ks r
    by (induction ks arbitrary: r) (simp_all add: key)
  let ?c = "f_CHF src"
  let ?r = "next_hops ?c ((copy_texts ?c (copy_regions e src (copy_counters ?c (set_geos ?c (start_record ts (JCHF_Reset old))))))
     \<lparr>j_DstAddr := chf_addr (Ipv4DstAddr ?c) (Ipv6DstAddr ?c), j_SrcAddr := chf_addr (Ipv4SrcAddr ?c) (Ipv6SrcAddr ?c),
      j_SrcRoutePrefix := IP_String (Int2ip (SrcRoutePrefix ?c)), j_DstRoutePrefix := IP_String (Int2ip (DstRoutePrefix ?c))\<rparr>)"
  have j: "j = finish_record (remap_strings fa ?r)"
    using assms(1-4,6)
    by (simp add: flowToJCHF_def Let_def kentik_device_def get_device_def GetDevice_def copy_addresses_def resolve_to_def
        res_bind_def apply_udrs_def)
  have "j_DstGeo j = j_DstGeo ?r \<and> j_InputIntDesc j = j_InputIntDesc ?r \<and> j_InputInterfaceIP j = j_InputInterfaceIP ?r"
    unfolding j remap_strings_def finish_record_def Let_def set_str_def by (simp add: keys)
  moreover have "j_DstGeo ?r = j_DstGeo old" "j_InputIntDesc ?r = j_InputIntDesc old" "j_InputInterfaceIP ?r = j_InputInterfaceIP old"
    using assms(5) by (simp_all add: next_hops_def copy_texts_def copy_regions_def copy_counters_def set_geos_def start_record_def
        JCHF_Reset_def Let_def)
  ultimately show "j_DstGeo j = j_DstGeo old" "j_InputIntDesc j = j_InputIntDesc old" "j_InputInterfaceIP j = j_InputInterfaceIP old"
    by simp_all
qed

text \<open>A text of the message reaches the record only when reading it failed.\<close>

lemma texts_dropped: "\<not> snd (SrcBgpAsPath c) \<Longrightarrow> j_SrcBgpAsPath (copy_texts c dst) = j_SrcBgpAsPath dst"
  by (simp add: copy_texts_def on_error_def)

text \<open>Ethernet addresses are printed with all eight bytes of the word.\<close>

lemma mac_has_eight_parts: "length (big_endian8 n) = 8"
  by (simp add: big_endian8_def)

section \<open>Witnesses\<close>

definition demo_chf :: CHF where
  "demo_chf = \<lparr>
     DstAs = 0, DstGeo = 0, DstGeoRegion = 0, DstGeoCity = 0, HeaderLen = 0, InBytes = 1500, InPkts = 0,
     InputPort = 0, IpSize = 0, L4DstPort = 0, L4SrcPort = 443, OutputPort = 0, Protocol = 0, SampledPacketSize = 0,
     SrcAs = 0, SrcGeo = 0, SrcGeoRegion = 0, SrcGeoCity = 0, TcpFlags = 0, Tos = 0, VlanIn = 0, VlanOut = 0,
     MplsType = 0, OutBytes = 0, OutPkts = 0, TcpRetransmit = 0, SampleRate = 200, DeviceId = 7, SrcNextHopAs = 0,
     DstNextHopAs = 0, SrcSecondAsn = 0, DstSecondAsn = 0, SrcThirdAsn = 0, DstThirdAsn = 0, SrcEthMac = 0,
     DstEthMac = 0, SrcFlowTags = (''x'', False), DstFlowTags = (''x'', False), SrcBgpAsPath = (''x'', False),
     DstBgpAsPath = (''x'', False), SrcBgpCommunity = (''x'', False), DstBgpCommunity = (''x'', False),
     Ipv4DstAddr = 0, Ipv6DstAddr = [], Ipv4SrcAddr = 167772161, Ipv6SrcAddr = [], SrcRoutePrefix = 0,
     DstRoutePrefix = 0, Ipv4SrcNextHop = 0, Ipv6SrcNextHop = [], Ipv4DstNextHop = 0, Ipv6DstNextHop = [],
     Custom = [], Big = False, SampleAdj = False\<rparr>"

definition demo_kentik_flow :: Flow where
  "demo_kentik_flow = \<lparr>f_CompanyId = 3, f_CHF = demo_chf, f_DeviceName = ''sender''\<rparr>"

definition demo_flow_args :: flow_args where
  "demo_flow_args = \<lparr>fa_uni = id, fa_dns = no_dns, fa_ct = init_connectivity CONNECTIVITY_TYPE_INT_TO_NAME,
     fa_GetSiteName = (\<lambda>_. ''site''), fa_SiteMarket = (\<lambda>_. ''market''), fa_SiteCountry = (\<lambda>_. ''US''),
     fa_order = id, fa_visits = (\<lambda>_. [''src_vpc'', UDR_TYPE])\<rparr>"

definition demo_flow_env :: flow_env where
  "demo_flow_env = \<lparr>fe_api = Some demo_loaded, fe_tagMap = NullType, fe_tagMapCity = NullType, fe_tagMapRegion = NullType,
     fe_resolver = Some (NewResolver None), fe_Customs = Map.empty, fe_udrMapr = None, fe_started = []\<rparr>"

theorem kentik_flow_converted_witness:
  "\<exists>j e'. flowToJCHF demo_flow_args demo_kentik_flow 5 (NewJCHF, demo_flow_env) = Inr (j, e') \<and> j_InBytes j = 1500 \<and>
     j_SampleRate j = 2 \<and> j_DeviceName j = ''edge''"
proof -
  have "named_answers (fa_dns demo_flow_args)" by (simp add: demo_flow_args_def named_answers_def no_dns_def)
  moreover have "fst (GetDevice (Some demo_loaded) 3 7) = Some demo_device"
    by (simp add: GetDevice_def demo_loaded_def demo_api_def empty_api_def)
  moreover have "d_Name demo_device = ''edge''"
    by (simp add: demo_device_def MapDeviceDetailedToDevice_def demo_message_def demo_atoi Let_def)
  ultimately show ?thesis
    using kentik_flow_converted [of demo_flow_args demo_kentik_flow 5 NewJCHF demo_flow_env]
    by (auto simp: demo_kentik_flow_def demo_chf_def demo_flow_env_def Let_def)
qed

end
