(* ===== verification/Kentik_Metrics.thy ===== *)
theory Kentik_Metrics
  imports Kentik_Flow
begin

text \<open>
  \<^verbatim>\<open>pkg/km/km.go\<close>: the definitions of Kentik metrics, read from a file, and their use: the generic columns of a record are
  given the names that the definition has for them, as far as the masks of the record select them. The decoder of
  JSON is an argument; a null in it is a nil pointer.
\<close>

section \<open>Numbers with a base\<close>

text \<open>
  \<^verbatim>\<open>strconv.ParseInt(s, 0, 64)\<close>: the base is that of the prefix, and digits may be separated by underscores, as in Go
  programs. \<open>underscoreOK\<close> keeps the class of the last character: start, digit (or prefix), underscore, other.
\<close>

datatype last_char = At_start | At_digit | At_underscore | At_other

definition lower_char :: "char \<Rightarrow> char" where
  "lower_char c = char_lower c"

definition has_base_prefix :: "string \<Rightarrow> bool" where
  "has_base_prefix s \<longleftrightarrow> 2 \<le> length s \<and> s ! 0 = CHR ''0'' \<and> lower_char (s ! 1) \<in> {CHR ''b'', CHR ''o'', CHR ''x''}"

definition strip_sign :: "string \<Rightarrow> string" where
  "strip_sign s = (case s of c # r \<Rightarrow> if c = CHR ''-'' \<or> c = CHR ''+'' then r else s | [] \<Rightarrow> s)"

fun underscores_follow :: "bool \<Rightarrow> string \<Rightarrow> last_char \<Rightarrow> bool" where
  "underscores_follow hex [] i = (i \<noteq> At_underscore)"
| "underscores_follow hex (c # s) i =
     (if is_digit c \<or> hex \<and> lower_char c \<in> {CHR ''a'', CHR ''b'', CHR ''c'', CHR ''d'', CHR ''e'', CHR ''f''}
      then underscores_follow hex s At_digit
      else if c = CHR ''_'' then i = At_digit \<and> underscores_follow hex s At_underscore
      else i \<noteq> At_underscore \<and> underscores_follow hex s At_other)"

definition underscoreOK :: "string \<Rightarrow> bool" where
  "underscoreOK s =
     (let s = strip_sign s in
      if has_base_prefix s then underscores_follow (lower_char (s ! 1) = CHR ''x'') (drop 2 s) At_digit
      else underscores_follow False s At_start)"

definition digit_of :: "char \<Rightarrow> nat option" where
  "digit_of c =
     (let n = of_char c :: nat; l = of_char (lower_char c) :: nat in
      if is_digit c then Some (n - 48) else if 97 \<le> l \<and> l \<le> 122 then Some (l - 87) else None)"

fun parse_digits :: "nat \<Rightarrow> string \<Rightarrow> nat \<Rightarrow> nat option" where
  "parse_digits base [] n = Some n"
| "parse_digits base (c # s) n =
     (if c = CHR ''_'' then parse_digits base s n
      else case digit_of c of
          None \<Rightarrow> None
        | Some d \<Rightarrow> if base \<le> d then None else parse_digits base s (n * base + d))"

text \<open>A value that does not fit is an error as well, whatever the number returned with it.\<close>

definition ParseUint0 :: "string \<Rightarrow> nat option" where
  "ParseUint0 s =
     (if s = [] then None
      else
        let (base, r) =
          (if s ! 0 = CHR ''0'' then
             (if 3 \<le> length s \<and> lower_char (s ! 1) = CHR ''b'' then (2, drop 2 s)
              else if 3 \<le> length s \<and> lower_char (s ! 1) = CHR ''o'' then (8, drop 2 s)
              else if 3 \<le> length s \<and> lower_char (s ! 1) = CHR ''x'' then (16, drop 2 s)
              else (8, drop 1 s))
           else (10, s))
        in case parse_digits base r 0 of
            None \<Rightarrow> None
          | Some n \<Rightarrow> if 2 ^ 64 \<le> n \<or> CHR ''_'' \<in> set r \<and> \<not> underscoreOK s then None else Some n)"

definition ParseInt0 :: "string \<Rightarrow> i64 option" where
  "ParseInt0 s =
     (case ParseUint0 (strip_sign s) of
        None \<Rightarrow> None
      | Some n \<Rightarrow>
          if take 1 s = ''-'' then (if n \<le> 2 ^ 63 then Some (- of_nat n) else None)
          else if n < 2 ^ 63 then Some (of_nat n) else None)"

section \<open>Definitions\<close>

record KMMetric =
  mm_Mask :: i64
  mm_Type :: string
  mm_Unit :: string
  mm_Label :: string
  mm_Column :: string

record KMDimension =
  md_Mask :: i64
  md_Type :: string
  md_Label :: string
  md_Column :: string

record KMDef =
  kd_Imports :: "string list"
  kd_Metrics :: "(string \<times> KMMetric option) list"
  kd_Dimensions :: "(string \<times> KMDimension option) list"
  kd_Description :: string

record KentikMetric =
  km_Id :: i64
  km_Name :: string
  km_Def :: KMDef

definition nil_panic :: "'a res" where
  "nil_panic = Inl (Panic ''invalid memory address or nil pointer dereference'')"

definition fix_def :: "(string \<Rightarrow> string) \<Rightarrow> KMDef \<Rightarrow> KMDef res" where
  "fix_def uni d =
     (if None \<in> snd ` set (kd_Metrics d) \<or> None \<in> snd ` set (kd_Dimensions d) then nil_panic
      else Inr (d\<lparr>kd_Dimensions := map (\<lambda>(k, x). (k, map_option (\<lambda>x. x\<lparr>md_Column := FixupName uni (md_Column x)\<rparr>) x)) (kd_Dimensions d),
        kd_Metrics := map (\<lambda>(k, x). (k, map_option (\<lambda>x. x\<lparr>mm_Column := FixupName uni (mm_Column x)\<rparr>) x)) (kd_Metrics d)\<rparr>))"

text \<open>A line of the file; \<open>decode\<close> is the JSON decoder. Lines and definitions that cannot be read are skipped.\<close>

definition km_line ::
  "(string \<Rightarrow> string) \<Rightarrow> (string \<Rightarrow> KMDef option) \<Rightarrow> string \<Rightarrow> (i64 \<Rightarrow> KentikMetric option) \<Rightarrow> (i64 \<Rightarrow> KentikMetric option) res" where
  "km_line uni decode line metrics =
     (case strings_SplitN line ''|'' 3 of
        [p0, p1, p2] \<Rightarrow>
          (case strconv_Atoi p0 of
             None \<Rightarrow> Inr metrics
           | Some n \<Rightarrow>
               (case decode p2 of
                  None \<Rightarrow> Inr metrics
                | Some d \<Rightarrow>
                    if kd_Metrics d \<noteq> [] \<and> kd_Dimensions d \<noteq> []
                    then map_sum id (\<lambda>d. metrics(of_int n \<mapsto> \<lparr>km_Id = of_int n, km_Name = p1, km_Def = d\<rparr>)) (fix_def uni d)
                    else Inr metrics))
      | _ \<Rightarrow> Inr metrics)"

definition km_loadFile ::
  "(string \<Rightarrow> string) \<Rightarrow> (string \<Rightarrow> KMDef option) \<Rightarrow> string list \<Rightarrow> (i64 \<Rightarrow> KentikMetric option) res" where
  "km_loadFile uni decode ls = res_fold (km_line uni decode) ls Map.empty"

section \<open>Enrichment\<close>

definition readMask :: "JCHF \<Rightarrow> string \<Rightarrow> i64 option" where
  "readMask msg key =
     (case gm_lookup (j_CustomBigInt msg) key of
        Some v \<Rightarrow> Some v
      | None \<Rightarrow>
          (case gm_lookup (j_CustomInt msg) key of
             Some v \<Rightarrow> Some (scast v)
           | None \<Rightarrow>
               (case gm_lookup (j_CustomStr msg) key of
                  Some raw \<Rightarrow> ParseInt0 (strings_TrimSpace raw)
                | None \<Rightarrow> None)))"

unbundle bit_operations_syntax

definition isFieldPresentForMask :: "i64 \<Rightarrow> i64 option \<Rightarrow> bool" where
  "isFieldPresentForMask fieldMask incomingMask =
     (case incomingMask of None \<Rightarrow> True | Some m \<Rightarrow> fieldMask = 0 \<or> m AND fieldMask \<noteq> 0)"

definition enrich_dimension :: "i64 option \<Rightarrow> KMDimension \<Rightarrow> JCHF \<Rightarrow> JCHF" where
  "enrich_dimension msk d msg =
     (if md_Label d = [] \<or> \<not> isFieldPresentForMask (md_Mask d) msk then msg
      else case gm_lookup (j_CustomStr msg) (md_Column d) of
          None \<Rightarrow> msg
        | Some v \<Rightarrow> del_str (md_Column d) (set_str (md_Label d) v msg))"

definition put_str :: "string \<Rightarrow> string \<Rightarrow> JCHF \<Rightarrow> JCHF res" where
  "put_str k v j = (case gm_set (j_CustomStr j) k v of Inl e \<Rightarrow> Inl e | Inr m \<Rightarrow> Inr (j\<lparr>j_CustomStr := m\<rparr>))"

definition del_float :: "string \<Rightarrow> JCHF \<Rightarrow> JCHF" where
  "del_float k j = j\<lparr>j_CustomFloat := map_option (\<lambda>m. m(k := None)) (j_CustomFloat j)\<rparr>"

definition enrich_metric :: "i64 option \<Rightarrow> KMMetric \<Rightarrow> JCHF \<Rightarrow> JCHF res" where
  "enrich_metric msk x msg =
     (if mm_Label x = [] \<or> \<not> isFieldPresentForMask (mm_Mask x) msk then Inr msg
      else case gm_lookup (j_CustomBigInt msg) (mm_Column x) of
          Some v \<Rightarrow> map_sum id (del_big (mm_Column x)) (put_str ''unit'' (mm_Unit x) (set_big (mm_Label x) v msg))
        | None \<Rightarrow>
            (case gm_lookup (j_CustomInt msg) (mm_Column x) of
               Some v \<Rightarrow> map_sum id (del_int (mm_Column x)) (put_str ''unit'' (mm_Unit x) (put_int (mm_Label x) v msg))
             | None \<Rightarrow>
                 (case gm_lookup (j_CustomFloat msg) (mm_Column x) of
                    Some v \<Rightarrow> map_sum id (del_float (mm_Column x)) (put_str ''unit'' (mm_Unit x) (put_float (mm_Label x) v msg))
                  | None \<Rightarrow> Inr msg)))"

text \<open>The orders in which Go visits the two maps of a definition are arguments.\<close>

record km_args =
  ka_dimensions :: "(string \<times> KMDimension option) list \<Rightarrow> (string \<times> KMDimension option) list"
  ka_metrics :: "(string \<times> KMMetric option) list \<Rightarrow> (string \<times> KMMetric option) list"

definition on_pointer :: "('a \<Rightarrow> 's \<Rightarrow> 's res) \<Rightarrow> string \<times> 'a option \<Rightarrow> 's \<Rightarrow> 's res" where
  "on_pointer f p s = (case snd p of None \<Rightarrow> nil_panic | Some x \<Rightarrow> f x s)"

definition km_Enrich :: "km_args \<Rightarrow> (i64 \<Rightarrow> KentikMetric option) option \<Rightarrow> i64 \<Rightarrow> JCHF \<Rightarrow> JCHF res" where
  "km_Enrich ka km key msg =
     (case km of
        None \<Rightarrow> Inr msg
      | Some metrics \<Rightarrow>
          (case metrics key of
             None \<Rightarrow> Inr msg
           | Some def \<Rightarrow>
               let dimensionMask = readMask msg ''km_dimension_mask'';
                   metricMask = readMask msg ''km_metric_mask''
               in res_bind (res_fold (on_pointer (\<lambda>d msg. Inr (enrich_dimension dimensionMask d msg)))
                    (ka_dimensions ka (kd_Dimensions (km_Def def))) msg)
                  (res_fold (on_pointer (enrich_metric metricMask)) (ka_metrics ka (kd_Metrics (km_Def def))))))"

section \<open>Renaming in any order\<close>

definition move_key :: "string \<times> string \<Rightarrow> (string \<Rightarrow> 'v option) \<Rightarrow> string \<Rightarrow> 'v option" where
  "move_key p m = (case m (fst p) of None \<Rightarrow> m | Some v \<Rightarrow> (m(snd p \<mapsto> v))(fst p := None))"

text \<open>All columns renamed at once: a label has the value of its column, if there is one, and the columns are gone.\<close>

definition renamed :: "(string \<times> string) list \<Rightarrow> (string \<Rightarrow> 'v option) \<Rightarrow> string \<Rightarrow> 'v option" where
  "renamed ps m x =
     (case map_of (map prod.swap ps) x of
        Some c \<Rightarrow> (case m c of Some v \<Rightarrow> Some v | None \<Rightarrow> m x)
      | None \<Rightarrow> if x \<in> fst ` set ps then None else m x)"

lemma moves_at_once: "distinct (map fst ps @ map snd ps) \<Longrightarrow> fold move_key ps m = renamed ps m"
proof (induction ps arbitrary: m)
  case Nil
  then show ?case by (simp add: renamed_def fun_eq_iff)
next
  case (Cons p ps)
  obtain c l where p: "p = (c, l)" by fastforce
  have d: "distinct (map fst ps @ map snd ps)" "c \<notin> fst ` set ps" "c \<notin> snd ` set ps" "l \<notin> fst ` set ps" "l \<notin> snd ` set ps" "c \<noteq> l"
    using Cons.prems by (auto simp: p)
  have origin: "x \<in> snd ` set ps \<and> k \<in> fst ` set ps" if "map_of (map prod.swap ps) x = Some k" for x k
    using that by (force dest!: map_of_SomeD)
  have none: "map_of (map prod.swap ps) c = None" "map_of (map prod.swap ps) l = None"
    using d(3,5) by (simp_all add: map_of_eq_None_iff image_image)
  have "renamed ps (move_key p m) x = renamed (p # ps) m x" for x
  proof (cases "x = l \<or> x = c")
    case True
    then show ?thesis using d none by (auto simp: renamed_def move_key_def p split: option.splits)
  next
    case False
    then show ?thesis using d origin [of x] by (auto simp: renamed_def move_key_def p split: option.splits)
  qed
  then show ?case using Cons.IH [OF d(1), of "move_key p m"] by (simp add: fun_eq_iff)
qed

definition dimension_pairs :: "i64 option \<Rightarrow> KMDimension list \<Rightarrow> (string \<times> string) list" where
  "dimension_pairs msk ds =
     map (\<lambda>d. (md_Column d, md_Label d)) (filter (\<lambda>d. md_Label d \<noteq> [] \<and> isFieldPresentForMask (md_Mask d) msk) ds)"

definition metric_pairs :: "i64 option \<Rightarrow> KMMetric list \<Rightarrow> (string \<times> string) list" where
  "metric_pairs msk ms =
     map (\<lambda>d. (mm_Column d, mm_Label d)) (filter (\<lambda>d. mm_Label d \<noteq> [] \<and> isFieldPresentForMask (mm_Mask d) msk) ms)"

lemma pointers_fold:
  assumes "map snd xs = map Some ds"
  shows "res_fold (on_pointer f) xs s = res_fold f ds s"
  using assms
proof (induction ds arbitrary: xs s)
  case (Cons d ds)
  then obtain k ys where "xs = (k, Some d) # ys" "map snd ys = map Some ds" by (auto simp: map_eq_Cons_conv)
  moreover from this have "res_fold (on_pointer f) ys = res_fold f ds" by (intro ext Cons.IH)
  ultimately show ?case by (simp add: on_pointer_def [of f "(k, Some d)"])
qed simp

lemma enrich_dimensions:
  "j_CustomStr j = Some s \<Longrightarrow>
   res_fold (\<lambda>d msg. Inr (enrich_dimension msk d msg)) ds j = Inr (j\<lparr>j_CustomStr := Some (fold move_key (dimension_pairs msk ds) s)\<rparr>)"
proof (induction ds arbitrary: j s)
  case Nil
  then show ?case by (simp add: dimension_pairs_def)
next
  case (Cons d ds)
  let ?sel = "md_Label d \<noteq> [] \<and> isFieldPresentForMask (md_Mask d) msk"
  let ?s = "if ?sel then move_key (md_Column d, md_Label d) s else s"
  have "enrich_dimension msk d j = j\<lparr>j_CustomStr := Some ?s\<rparr>"
    using Cons.prems by (auto simp: enrich_dimension_def move_key_def gm_lookup_def set_str_def del_str_def split: option.splits)
  with Cons.IH [of "j\<lparr>j_CustomStr := Some ?s\<rparr>" ?s] show ?case by (simp add: res_bind_def dimension_pairs_def)
qed

lemma enrich_metric_maps:
  assumes "maps_made j" "j_CustomBigInt j = Some b"
  shows "\<exists>j'. enrich_metric msk x j = Inr j' \<and> maps_made j' \<and>
     j_CustomBigInt j' = Some (if mm_Label x \<noteq> [] \<and> isFieldPresentForMask (mm_Mask x) msk then move_key (mm_Column x, mm_Label x) b else b) \<and>
     (\<forall>k. k \<noteq> ''unit'' \<longrightarrow> gm_lookup (j_CustomStr j') k = gm_lookup (j_CustomStr j) k)"
  using assms
  by (auto simp: enrich_metric_def maps_made_def put_str_def gm_set_def gm_lookup_def move_key_def set_big_def del_big_def put_int_def
      del_int_def put_float_def del_float_def split: option.splits)

lemma enrich_metrics:
  assumes "maps_made j" "j_CustomBigInt j = Some b"
  shows "\<exists>j'. res_fold (enrich_metric msk) ms j = Inr j' \<and> j_CustomBigInt j' = Some (fold move_key (metric_pairs msk ms) b) \<and>
     (\<forall>k. k \<noteq> ''unit'' \<longrightarrow> gm_lookup (j_CustomStr j') k = gm_lookup (j_CustomStr j) k)"
  using assms
proof (induction ms arbitrary: j b)
  case Nil
  then show ?case by (simp add: metric_pairs_def)
next
  case (Cons x ms)
  let ?b = "if mm_Label x \<noteq> [] \<and> isFieldPresentForMask (mm_Mask x) msk then move_key (mm_Column x, mm_Label x) b else b"
  obtain j1 where j1: "enrich_metric msk x j = Inr j1" "maps_made j1" "j_CustomBigInt j1 = Some ?b"
    "\<forall>k. k \<noteq> ''unit'' \<longrightarrow> gm_lookup (j_CustomStr j1) k = gm_lookup (j_CustomStr j) k"
    using enrich_metric_maps [OF Cons.prems] by blast
  obtain j' where j': "res_fold (enrich_metric msk) ms j1 = Inr j'" "j_CustomBigInt j' = Some (fold move_key (metric_pairs msk ms) ?b)"
    "\<forall>k. k \<noteq> ''unit'' \<longrightarrow> gm_lookup (j_CustomStr j') k = gm_lookup (j_CustomStr j1) k"
    using Cons.IH [OF j1(2,3)] by blast
  have "fold move_key (metric_pairs msk (x # ms)) b = fold move_key (metric_pairs msk ms) ?b"
    by (simp add: metric_pairs_def)
  with j1(1,4) j' show ?case by (simp add: res_bind_def)
qed

text \<open>
  Whatever the orders in which Go visits the dimensions and the metrics of a definition, the enrichment of a record
  renames the selected columns as if all were renamed at once: a label holds the value of its column, the columns are
  gone, and everything else is as before but for the unit. The selected columns and labels are pairwise different.
\<close>

lemma km_enrichment_order:
  assumes "metrics key = Some def" "maps_made msg" "j_CustomStr msg = Some s" "j_CustomBigInt msg = Some b"
    "map snd (ka_dimensions ka (kd_Dimensions (km_Def def))) = map Some ds"
    "map snd (ka_metrics ka (kd_Metrics (km_Def def))) = map Some ms"
    "dps = dimension_pairs (readMask msg ''km_dimension_mask'') ds" "distinct (map fst dps @ map snd dps)"
    "mps = metric_pairs (readMask msg ''km_metric_mask'') ms" "distinct (map fst mps @ map snd mps)"
  shows "\<exists>j. km_Enrich ka (Some metrics) key msg = Inr j \<and>
    (\<forall>x. x \<noteq> ''unit'' \<longrightarrow> gm_lookup (j_CustomStr j) x = renamed dps s x) \<and> j_CustomBigInt j = Some (renamed mps b)"
proof -
  define j1 where "j1 = msg\<lparr>j_CustomStr := Some (renamed dps s)\<rparr>"
  have dims: "res_fold (on_pointer (\<lambda>d msg. Inr (enrich_dimension (readMask msg0 ''km_dimension_mask'') d msg)))
      (ka_dimensions ka (kd_Dimensions (km_Def def))) msg = Inr j1" if "msg0 = msg" for msg0
    unfolding pointers_fold [OF assms(5)] that
    using enrich_dimensions [OF assms(3)] moves_at_once [OF assms(8), of s] by (simp add: j1_def assms(7))
  have "maps_made j1" "j_CustomBigInt j1 = Some b" using assms(2,4) by (simp_all add: j1_def maps_made_def)
  from enrich_metrics [OF this] obtain j where "res_fold (enrich_metric (readMask msg ''km_metric_mask'')) ms j1 = Inr j"
    "j_CustomBigInt j = Some (renamed mps b)" "\<forall>k. k \<noteq> ''unit'' \<longrightarrow> gm_lookup (j_CustomStr j) k = gm_lookup (j_CustomStr j1) k"
    using moves_at_once [OF assms(10), of b] assms(9) by metis
  then show ?thesis
    using dims [OF refl] assms(1) pointers_fold [OF assms(6), of "enrich_metric (readMask msg ''km_metric_mask'')" j1]
    by (simp add: km_Enrich_def Let_def res_bind_def j1_def gm_lookup_def)
qed

definition demo_dimension :: KMDimension where
  "demo_dimension = \<lparr>md_Mask = 2, md_Type = ''string'', md_Label = ''host'', md_Column = ''str00''\<rparr>"

definition demo_metric :: KMMetric where
  "demo_metric = \<lparr>mm_Mask = 1, mm_Type = ''gauge'', mm_Unit = ''ms'', mm_Label = ''latency'', mm_Column = ''int00''\<rparr>"

definition demo_km :: KentikMetric where
  "demo_km = \<lparr>km_Id = 9, km_Name = ''ping'', km_Def = \<lparr>kd_Imports = [], kd_Metrics = [(''latency'', Some demo_metric)],
     kd_Dimensions = [(''host'', Some demo_dimension)], kd_Description = []\<rparr>\<rparr>"

definition demo_km_record :: JCHF where
  "demo_km_record = new_flow\<lparr>j_CustomStr := Some [''str00'' \<mapsto> ''web1''], j_CustomFloat := Some Map.empty,
     j_CustomBigInt := Some [''int00'' \<mapsto> 12, ''km_dimension_mask'' \<mapsto> 3]\<rparr>"

end
