(* ===== verification/Enrichment.thy ===== *)
theory Enrichment
  imports Kentik_Metrics Rule
begin

text \<open>
  \<^verbatim>\<open>doEnrichments\<close> of \<^verbatim>\<open>pkg/cat/jchf.go\<close>: countries, autonomous systems, services, host names, traces of synthetic tests,
  stitching and the names of Kentik metrics, for every flow of a batch. The databases of countries and autonomous systems, the
  JSON decoder and the outside service are arguments. The HAR file that a trace may point to is not part of the
  record; the paths that are fetched are listed.
\<close>

section \<open>Definitions\<close>

text \<open>JSON as Go decodes it: a number is the \<^verbatim>\<open>int64\<close> it is converted to.\<close>

datatype json = JsonStr string | JsonNum i64 | JsonBool bool | JsonNull | JsonArr "json list" | JsonObj "(string \<times> json) list"

record enricher =
  en_uni :: "string \<Rightarrow> string"
  en_dns :: "string \<Rightarrow> string list option"
  en_patricia :: patricia
  en_rule :: RuleSet
  en_geo :: "(bytes \<Rightarrow> string option) option"
  en_asn :: "(bytes \<Rightarrow> (u32 \<times> string) option) option"
  en_protos :: "(u16 \<times> string) list"
  en_json :: "string \<Rightarrow> json list option"
  en_km :: "(i64 \<Rightarrow> KentikMetric option) option"
  en_orders :: km_args
  en_outside :: "(JCHF list \<Rightarrow> JCHF list option) option"

record enrich_state =
  es_resolver :: "Resolver option"
  es_stitcher :: "Stitcher option"
  es_hars :: "string list"

definition PrivateIP :: string where
  "PrivateIP = ''Private IP''"

definition ip_bytes :: "bytes option \<Rightarrow> bytes" where
  "ip_bytes ip = (case ip of None \<Rightarrow> [] | Some b \<Rightarrow> b)"

definition mark_internal :: "enricher \<Rightarrow> JCHF \<Rightarrow> (JCHF \<times> bool \<times> bool) res" where
  "mark_internal en msg =
     (let sip = ParseIP (j_SrcAddr msg); dip = ParseIP (j_DstAddr msg);
          setSip = IsInternal (en_patricia en) (en_rule en) (ip_bytes sip) (j_SrcAs msg)
      in res_bind (if setSip then put_str ''src_as_name'' PrivateIP (msg\<lparr>j_SrcGeo := PrivateIP\<rparr>) else Inr msg) (\<lambda>msg.
         let setDip = IsInternal (en_patricia en) (en_rule en) (ip_bytes dip) (j_DstAs msg)
         in res_bind (if setDip then put_str ''dst_as_name'' PrivateIP (msg\<lparr>j_DstGeo := PrivateIP\<rparr>) else Inr msg) (\<lambda>msg.
            Inr (msg, setSip, setDip))))"

text \<open>\<open>search_db db ip internal\<close>: an answer of a database for an address that parses and is not internal.\<close>

definition search_db :: "(bytes \<Rightarrow> 'a option) option \<Rightarrow> bytes option \<Rightarrow> bool \<Rightarrow> 'a option" where
  "search_db db ip internal =
     (case db of
        None \<Rightarrow> None
      | Some f \<Rightarrow> (case ip of None \<Rightarrow> None | Some b \<Rightarrow> if internal then None else f b))"

definition add_geo :: "enricher \<Rightarrow> bool \<Rightarrow> bool \<Rightarrow> JCHF \<Rightarrow> JCHF" where
  "add_geo en setSip setDip msg =
     (let sip = ParseIP (j_SrcAddr msg); dip = ParseIP (j_DstAddr msg);
          msg = (case search_db (en_geo en) sip setSip of None \<Rightarrow> msg | Some g \<Rightarrow> msg\<lparr>j_SrcGeo := g\<rparr>)
      in case search_db (en_geo en) dip setDip of None \<Rightarrow> msg | Some g \<Rightarrow> msg\<lparr>j_DstGeo := g\<rparr>)"

definition add_asn :: "enricher \<Rightarrow> bool \<Rightarrow> bool \<Rightarrow> JCHF \<Rightarrow> JCHF res" where
  "add_asn en setSip setDip msg =
     (let sip = ParseIP (j_SrcAddr msg); dip = ParseIP (j_DstAddr msg) in
      res_bind (case search_db (en_asn en) sip setSip of
          None \<Rightarrow> Inr msg | Some (asn, name) \<Rightarrow> put_str ''src_as_name'' name (msg\<lparr>j_SrcAs := asn\<rparr>)) (\<lambda>msg.
        case search_db (en_asn en) dip setDip of
          None \<Rightarrow> Inr msg | Some (asn, name) \<Rightarrow> put_str ''dst_as_name'' name (msg\<lparr>j_DstAs := asn\<rparr>)))"

definition add_service :: "enricher \<Rightarrow> JCHF \<Rightarrow> JCHF res" where
  "add_service en msg =
     (if gm_get [] (j_CustomStr msg) ''application'' \<noteq> [] then Inr msg
      else
        let proto = PROTO_NUMS (en_protos en) (j_Protocol msg);
            (ip, port) = (if 0 < j_L4SrcPort msg \<and> j_L4SrcPort msg < j_L4DstPort msg
               then (j_SrcAddr msg, j_L4SrcPort msg) else (j_DstAddr msg, j_L4DstPort msg))
        in case GetService (en_rule en) (ip_bytes (ParseIP ip)) port proto of
            (app, True) \<Rightarrow> put_str ''application'' app msg
          | (_, False) \<Rightarrow> Inr msg)"

definition add_host :: "enricher \<Rightarrow> string \<Rightarrow> string \<Rightarrow> JCHF \<times> enrich_state \<Rightarrow> (JCHF \<times> enrich_state) res" where
  "add_host en key addr s =
     (case s of (msg, es) \<Rightarrow>
        (case es_resolver es of
           None \<Rightarrow> Inr (msg, es)
         | Some r \<Rightarrow>
             res_bind (Resolve (en_uni en) (en_dns en) addr r) (\<lambda>(name, r).
               res_bind (put_str key name msg) (\<lambda>msg. Inr (msg, es\<lparr>es_resolver := Some r\<rparr>)))))"

text \<open>One entry of the first object of a trace; of a nested object only the path of its first HAR file is used.\<close>

definition har_path :: "(string \<times> json) list \<Rightarrow> string option" where
  "har_path tv =
     (case map_of tv ''har'' of
        Some (JsonArr (JsonObj iner # _)) \<Rightarrow> (case map_of iner ''path'' of Some (JsonStr pt) \<Rightarrow> Some pt | _ \<Rightarrow> None)
      | _ \<Rightarrow> None)"

definition trace_entry :: "string \<times> json \<Rightarrow> JCHF \<times> enrich_state \<Rightarrow> (JCHF \<times> enrich_state) res" where
  "trace_entry kv s =
     (case s of (msg, es) \<Rightarrow>
        (case snd kv of
           JsonStr tv \<Rightarrow> map_sum id (\<lambda>msg. (msg, es)) (put_str (fst kv) tv msg)
         | JsonNum n \<Rightarrow> map_sum id (\<lambda>msg. (msg, es)) (set_bigint (fst kv) n msg)
         | JsonObj tv \<Rightarrow> Inr (msg, case har_path tv of None \<Rightarrow> es | Some pt \<Rightarrow> es\<lparr>es_hars := es_hars es @ [pt]\<rparr>)
         | _ \<Rightarrow> Inr (msg, es)))"

definition add_trace :: "enricher \<Rightarrow> JCHF \<times> enrich_state \<Rightarrow> (JCHF \<times> enrich_state) res" where
  "add_trace en s =
     (case s of (msg, es) \<Rightarrow>
        if j_EventType msg \<noteq> ''KSynth'' then Inr (msg, es)
        else case gm_lookup (j_CustomStr msg) ''error_cause/trace_route'' of
            None \<Rightarrow> Inr (msg, es)
          | Some rawStr \<Rightarrow>
              if rawStr = [] then Inr (msg, es)
              else (case en_json en rawStr of
                  Some (JsonObj sd # _) \<Rightarrow>
                    map_sum id (\<lambda>(msg, es). (del_str ''error_cause/trace_route'' msg, es)) (res_fold trace_entry sd (msg, es))
                | _ \<Rightarrow> Inr (msg, es)))"

definition add_stitch :: "JCHF \<times> enrich_state \<Rightarrow> (JCHF \<times> enrich_state) res" where
  "add_stitch s =
     (case s of (msg, es) \<Rightarrow>
        (case es_stitcher es of
           None \<Rightarrow> Inr (msg, es)
         | Some st \<Rightarrow> map_sum id (\<lambda>(_, msg, st). (msg, es\<lparr>es_stitcher := Some st\<rparr>)) (Stitch msg st)))"

definition add_km :: "enricher \<Rightarrow> JCHF \<Rightarrow> JCHF res" where
  "add_km en msg =
     (let key = gm_get 0 (j_CustomBigInt msg) ''km_measurement_id'' in
      if key \<noteq> 0 then km_Enrich (en_orders en) (en_km en) key msg else Inr msg)"

definition enrich_flow :: "enricher \<Rightarrow> JCHF \<Rightarrow> enrich_state \<Rightarrow> (JCHF \<times> enrich_state) res" where
  "enrich_flow en msg es =
     res_bind (mark_internal en msg) (\<lambda>(msg, setSip, setDip).
     res_bind (add_asn en setSip setDip (add_geo en setSip setDip msg)) (\<lambda>msg.
     res_bind (add_service en msg) (\<lambda>msg.
     res_bind (add_host en ''src_host'' (j_SrcAddr msg) (msg, es)) (\<lambda>s.
     res_bind (add_host en ''dst_host'' (j_DstAddr msg) s) (\<lambda>s.
     res_bind (add_trace en s) (\<lambda>s.
     res_bind (add_stitch s) (\<lambda>(msg, es). map_sum id (\<lambda>msg. (msg, es)) (add_km en msg))))))))"

fun enrich_flows :: "enricher \<Rightarrow> JCHF list \<Rightarrow> enrich_state \<Rightarrow> (JCHF list \<times> enrich_state) res" where
  "enrich_flows en [] es = Inr ([], es)"
| "enrich_flows en (m # ms) es =
     res_bind (enrich_flow en m es) (\<lambda>(m, es). map_sum id (\<lambda>(ms, es). (m # ms, es)) (enrich_flows en ms es))"

definition doEnrichments :: "enricher \<Rightarrow> JCHF list \<Rightarrow> enrich_state \<Rightarrow> (JCHF list \<times> enrich_state) res" where
  "doEnrichments en msgs es =
     map_sum id (\<lambda>(ms, es). (case en_outside en of None \<Rightarrow> ms | Some f \<Rightarrow> (case f ms of None \<Rightarrow> ms | Some new \<Rightarrow> new), es))
       (enrich_flows en msgs es)"

section \<open>Enrichment returns and keeps the flow\<close>

definition flow_sides :: "JCHF \<Rightarrow> (string \<times> string \<times> u32 \<times> u32) \<times> (string \<times> string \<times> u32 \<times> u32) \<times> (u64 \<times> u64 \<times> u64 \<times> u64) \<times> u32 \<times> u64 \<times> string" where
  "flow_sides j = ((j_SrcGeo j, j_DstGeo j, j_SrcAs j, j_DstAs j), (j_SrcAddr j, j_DstAddr j, j_L4SrcPort j, j_L4DstPort j),
     (j_InBytes j, j_InPkts j, j_OutBytes j, j_OutPkts j), j_SampleRate j, j_CompanyId j, j_DeviceName j)"

definition same_sides :: "JCHF \<Rightarrow> JCHF \<Rightarrow> bool" where
  "same_sides j j' \<longleftrightarrow> flow_sides j' = flow_sides j \<and> maps_made j'"

lemma same_sides_refl: "maps_made j \<Longrightarrow> same_sides j j"
  by (simp add: same_sides_def)

lemma same_sides_trans: "same_sides a b \<Longrightarrow> same_sides b c \<Longrightarrow> same_sides a c"
  by (simp add: same_sides_def)

lemmas same_sides_unfold = same_sides_def flow_sides_def maps_made_def

lemma put_str_ok: "maps_made j \<Longrightarrow> \<exists>j'. put_str k v j = Inr j' \<and> same_sides j j'"
  by (auto simp: put_str_def gm_set_def same_sides_unfold)

lemma set_bigint_ok: "maps_made j \<Longrightarrow> \<exists>j'. set_bigint k v j = Inr j' \<and> same_sides j j'"
  by (auto simp: set_bigint_def gm_set_def same_sides_unfold)

lemma set_int_ok: "maps_made j \<Longrightarrow> \<exists>j'. set_int k v j = Inr j' \<and> same_sides j j'"
  by (auto simp: set_int_def gm_set_def same_sides_unfold)

text \<open>Steps in sequence: each returns a record with the same sides.\<close>

definition keeps_sides :: "JCHF \<Rightarrow> JCHF res \<Rightarrow> bool" where
  "keeps_sides j r \<longleftrightarrow> (\<exists>j'. r = Inr j' \<and> same_sides j j')"

lemma keeps_sides_bind: "keeps_sides j r \<Longrightarrow> (\<And>j'. same_sides j j' \<Longrightarrow> keeps_sides j' (f j')) \<Longrightarrow> keeps_sides j (res_bind r f)"
  unfolding keeps_sides_def res_bind_def by (fastforce intro: same_sides_trans)

lemma keeps_sides_writes:
  "maps_made j \<Longrightarrow> keeps_sides j (put_str k v j)" "maps_made j \<Longrightarrow> keeps_sides j (set_bigint k w j)" "maps_made j \<Longrightarrow> keeps_sides j (set_int k x j)"
  "maps_made j \<Longrightarrow> keeps_sides j (Inr j)"
  using put_str_ok set_bigint_ok set_int_ok by (auto simp: keeps_sides_def same_sides_refl)

lemma same_sides_made: "same_sides j j' \<Longrightarrow> maps_made j'"
  by (simp add: same_sides_def)

lemma add_pair_sides: "maps_made j \<Longrightarrow> keeps_sides j (add_pair nm j)"
  unfolding add_pair_def by (intro keeps_sides_bind keeps_sides_writes) (auto dest: same_sides_made)

definition stitcher_ok :: "enrich_state \<Rightarrow> bool" where
  "stitcher_ok es \<longleftrightarrow> (case es_stitcher es of None \<Rightarrow> True | Some st \<Rightarrow> rb_inv (st_cache st))"

lemma Stitch_sides:
  assumes "rb_inv (st_cache st)" "maps_made j"
  shows "\<exists>b j' st'. Stitch j st = Inr (b, j', st') \<and> same_sides j j' \<and> rb_inv (st_cache st')"
proof -
  obtain c where c: "rb_GetAndDelete (GetKey j) (st_cache st) = Inr (rb_look (st_cache st) (GetKey j), c)" "rb_inv c"
    using ring.take_ok [OF assms(1)] by blast
  show ?thesis
  proof (cases "rb_look (st_cache st) (GetKey j)")
    case None
    obtain c' where "rb_Put (GetKey j) (snapshot j) c = Inr c'" "rb_inv c'" using ring.put_ok [OF c(2)] by blast
    with None c assms(2) show ?thesis by (auto simp: Stitch_def Let_def res_bind_def same_sides_refl)
  next
    case (Some nm)
    with c add_pair_sides [OF assms(2), of nm] show ?thesis by (auto simp: Stitch_def Let_def res_bind_def keeps_sides_def)
  qed
qed

lemma add_stitch_sides:
  assumes "stitcher_ok es" "maps_made j"
  shows "\<exists>j' es'. add_stitch (j, es) = Inr (j', es') \<and> same_sides j j' \<and> stitcher_ok es'"
proof (cases "es_stitcher es")
  case None
  with assms show ?thesis by (auto simp: add_stitch_def same_sides_refl)
next
  case (Some st)
  with assms(1) have "rb_inv (st_cache st)" by (simp add: stitcher_ok_def)
  from Stitch_sides [OF this assms(2)] Some show ?thesis by (auto simp: add_stitch_def stitcher_ok_def)
qed

lemma add_host_sides:
  assumes "named_answers (en_dns en)" "stitcher_ok es" "maps_made j"
  shows "\<exists>j' es'. add_host en k a (j, es) = Inr (j', es') \<and> same_sides j j' \<and> stitcher_ok es'"
proof (cases "es_resolver es")
  case None
  with assms show ?thesis by (auto simp: add_host_def same_sides_refl)
next
  case (Some r)
  obtain name r' where "Resolve (en_uni en) (en_dns en) a r = Inr (name, r')" using Resolve_ok [OF assms(1)] by blast
  moreover obtain j' where "put_str k name j = Inr j'" "same_sides j j'" using put_str_ok [OF assms(3)] by blast
  ultimately show ?thesis using Some assms(2) by (simp add: add_host_def res_bind_def stitcher_ok_def)
qed

lemma trace_entry_sides:
  assumes "maps_made j" "stitcher_ok es"
  shows "\<exists>j' es'. trace_entry kv (j, es) = Inr (j', es') \<and> same_sides j j' \<and> stitcher_ok es'"
proof (cases "snd kv")
  case (JsonStr tv)
  then show ?thesis using put_str_ok [OF assms(1), of "fst kv" tv] assms(2) by (auto simp: trace_entry_def)
next
  case (JsonNum n)
  then show ?thesis using set_bigint_ok [OF assms(1), of "fst kv" n] assms(2) by (auto simp: trace_entry_def)
qed (use assms in \<open>auto simp: trace_entry_def same_sides_refl stitcher_ok_def split: option.splits\<close>)

lemma trace_entries_sides:
  "maps_made j \<Longrightarrow> stitcher_ok es \<Longrightarrow> \<exists>j' es'. res_fold trace_entry kvs (j, es) = Inr (j', es') \<and> same_sides j j' \<and> stitcher_ok es'"
proof (induction kvs arbitrary: j es)
  case Nil
  then show ?case by (simp add: same_sides_refl)
next
  case (Cons kv kvs)
  obtain j1 es1 where "trace_entry kv (j, es) = Inr (j1, es1)" "same_sides j j1" "stitcher_ok es1"
    using trace_entry_sides [OF Cons.prems] by blast
  with Cons.IH [of j1 es1] same_sides_made show ?case by (force simp: res_bind_def intro: same_sides_trans)
qed

lemma add_trace_sides:
  assumes "maps_made j" "stitcher_ok es"
  shows "\<exists>j' es'. add_trace en (j, es) = Inr (j', es') \<and> same_sides j j' \<and> stitcher_ok es'"
proof (cases "\<exists>raw sd rest. j_EventType j = ''KSynth'' \<and> gm_lookup (j_CustomStr j) ''error_cause/trace_route'' = Some raw \<and> raw \<noteq> [] \<and>
    en_json en raw = Some (JsonObj sd # rest)")
  case True
  then obtain raw sd rest where t: "j_EventType j = ''KSynth''" "gm_lookup (j_CustomStr j) ''error_cause/trace_route'' = Some raw" "raw \<noteq> []"
    "en_json en raw = Some (JsonObj sd # rest)" by blast
  obtain j1 es1 where "res_fold trace_entry sd (j, es) = Inr (j1, es1)" "same_sides j j1" "stitcher_ok es1"
    using trace_entries_sides [OF assms] by blast
  moreover have "same_sides j1 (del_str k j1)" if "same_sides j j1" for k
    using that by (auto simp: same_sides_unfold del_str_def)
  ultimately show ?thesis using t by (auto simp: add_trace_def intro: same_sides_trans)
next
  case False
  then have "add_trace en (j, es) = Inr (j, es)"
    by (auto simp: add_trace_def split: option.splits list.splits json.splits)
  with assms show ?thesis by (simp add: same_sides_refl)
qed

text \<open>Definitions without nil pointers, as the reader of the file leaves them.\<close>

definition km_ok :: "enricher \<Rightarrow> bool" where
  "km_ok en \<longleftrightarrow> (\<forall>metrics key def. en_km en = Some metrics \<longrightarrow> metrics key = Some def \<longrightarrow>
     None \<notin> snd ` set (ka_dimensions (en_orders en) (kd_Dimensions (km_Def def))) \<and>
     None \<notin> snd ` set (ka_metrics (en_orders en) (kd_Metrics (km_Def def))))"

lemma pointer_fold_sides:
  assumes "\<And>x j. maps_made j \<Longrightarrow> keeps_sides j (f x j)" "None \<notin> snd ` set xs" "maps_made j"
  shows "keeps_sides j (res_fold (on_pointer f) xs j)"
  using assms(2,3)
proof (induction xs arbitrary: j)
  case (Cons p xs)
  then obtain x where "snd p = Some x" by (cases "snd p") force+
  then have "keeps_sides j (on_pointer f p j)" using assms(1) Cons.prems(2) by (simp add: on_pointer_def)
  then show ?case using Cons by (auto intro!: keeps_sides_bind dest: same_sides_made)
qed (simp add: keeps_sides_writes)

lemma enrich_dimension_sides: "maps_made j \<Longrightarrow> keeps_sides j (Inr (enrich_dimension msk d j))"
  by (auto simp: keeps_sides_def enrich_dimension_def same_sides_unfold set_str_def del_str_def split: option.splits)

lemma enrich_metric_sides: "maps_made j \<Longrightarrow> keeps_sides j (enrich_metric msk x j)"
  by (auto simp: keeps_sides_def enrich_metric_def same_sides_unfold put_str_def gm_set_def set_big_def del_big_def put_int_def
      del_int_def put_float_def del_float_def split: option.splits)

lemma add_km_sides:
  assumes "km_ok en" "maps_made j"
  shows "keeps_sides j (add_km en j)"
proof (cases "\<exists>metrics def. gm_get 0 (j_CustomBigInt j) ''km_measurement_id'' \<noteq> 0 \<and> en_km en = Some metrics \<and>
    metrics (gm_get 0 (j_CustomBigInt j) ''km_measurement_id'') = Some def")
  case True
  then obtain metrics def where m: "gm_get 0 (j_CustomBigInt j) ''km_measurement_id'' \<noteq> 0" "en_km en = Some metrics"
    "metrics (gm_get 0 (j_CustomBigInt j) ''km_measurement_id'') = Some def" by blast
  have nn: "None \<notin> snd ` set (ka_dimensions (en_orders en) (kd_Dimensions (km_Def def)))"
    "None \<notin> snd ` set (ka_metrics (en_orders en) (kd_Metrics (km_Def def)))"
    using assms(1) m(2,3) unfolding km_ok_def by blast+
  show ?thesis unfolding add_km_def Let_def km_Enrich_def using m
    by (simp only: if_True option.case not_False_eq_True)
      (intro keeps_sides_bind pointer_fold_sides enrich_dimension_sides enrich_metric_sides nn assms(2); simp add: same_sides_made)
next
  case False
  then have "add_km en j = Inr j" by (auto simp: add_km_def Let_def km_Enrich_def split: option.splits)
  with assms(2) show ?thesis by (simp add: keeps_sides_writes)
qed

section \<open>What enrichment sets\<close>

text \<open>
  One side of a flow: an internal address is marked as private and keeps its number, another one has the answers of
  the databases where they have one.
\<close>

definition enriched_geo :: "enricher \<Rightarrow> string \<Rightarrow> u32 \<Rightarrow> string \<Rightarrow> string" where
  "enriched_geo en addr as geo =
     (if IsInternal (en_patricia en) (en_rule en) (ip_bytes (ParseIP addr)) as then PrivateIP
      else case search_db (en_geo en) (ParseIP addr) False of Some g \<Rightarrow> g | None \<Rightarrow> geo)"

definition enriched_as :: "enricher \<Rightarrow> string \<Rightarrow> u32 \<Rightarrow> u32" where
  "enriched_as en addr as =
     (if IsInternal (en_patricia en) (en_rule en) (ip_bytes (ParseIP addr)) as then as
      else case search_db (en_asn en) (ParseIP addr) False of Some (a, _) \<Rightarrow> a | None \<Rightarrow> as)"

definition enriched :: "enricher \<Rightarrow> JCHF \<Rightarrow> JCHF \<Rightarrow> bool" where
  "enriched en m m' \<longleftrightarrow>
     j_SrcGeo m' = enriched_geo en (j_SrcAddr m) (j_SrcAs m) (j_SrcGeo m) \<and> j_DstGeo m' = enriched_geo en (j_DstAddr m) (j_DstAs m) (j_DstGeo m) \<and>
     j_SrcAs m' = enriched_as en (j_SrcAddr m) (j_SrcAs m) \<and> j_DstAs m' = enriched_as en (j_DstAddr m) (j_DstAs m) \<and>
     snd (flow_sides m') = snd (flow_sides m)"

lemma sides_stages:
  assumes "maps_made m"
  shows "\<exists>m1 s d m2. mark_internal en m = Inr (m1, s, d) \<and> add_asn en s d (add_geo en s d m1) = Inr m2 \<and> maps_made m2 \<and> enriched en m m2"
proof -
  let ?s = "IsInternal (en_patricia en) (en_rule en) (ip_bytes (ParseIP (j_SrcAddr m))) (j_SrcAs m)"
  let ?d = "IsInternal (en_patricia en) (en_rule en) (ip_bytes (ParseIP (j_DstAddr m))) (j_DstAs m)"
  obtain cs where cs: "j_CustomStr m = Some cs" using assms by (auto simp: maps_made_def)
  let ?cs1 = "if ?s then cs(''src_as_name'' \<mapsto> PrivateIP) else cs"
  let ?cs2 = "if ?d then ?cs1(''dst_as_name'' \<mapsto> PrivateIP) else ?cs1"
  let ?m1 = "m\<lparr>j_SrcGeo := if ?s then PrivateIP else j_SrcGeo m, j_DstGeo := if ?d then PrivateIP else j_DstGeo m, j_CustomStr := Some ?cs2\<rparr>"
  have m1: "mark_internal en m = Inr (?m1, ?s, ?d)"
    using cs by (simp add: mark_internal_def Let_def put_str_def gm_set_def res_bind_def)
  have "\<exists>m2. add_asn en ?s ?d (add_geo en ?s ?d ?m1) = Inr m2 \<and> maps_made m2 \<and> enriched en m m2"
    using assms
    by (auto simp: add_asn_def add_geo_def Let_def put_str_def gm_set_def res_bind_def search_db_def enriched_def enriched_geo_def
        enriched_as_def flow_sides_def maps_made_def split: option.splits)
  with m1 show ?thesis by blast
qed

lemma add_service_sides: "maps_made j \<Longrightarrow> keeps_sides j (add_service en j)"
  unfolding add_service_def Let_def
  by (simp split: prod.split) (auto intro!: keeps_sides_writes split: bool.splits)

lemma enrich_flow_ok:
  assumes "named_answers (en_dns en)" "km_ok en" "maps_made m" "stitcher_ok es"
  shows "\<exists>m' es'. enrich_flow en m es = Inr (m', es') \<and> maps_made m' \<and> stitcher_ok es' \<and> enriched en m m'"
proof -
  obtain m1 s d m2 where a: "mark_internal en m = Inr (m1, s, d)" "add_asn en s d (add_geo en s d m1) = Inr m2" "maps_made m2" "enriched en m m2"
    using sides_stages [OF assms(3)] by blast
  obtain m3 where b: "add_service en m2 = Inr m3" "same_sides m2 m3" using add_service_sides [OF a(3)] by (auto simp: keeps_sides_def)
  obtain m4 es4 where c: "add_host en ''src_host'' (j_SrcAddr m3) (m3, es) = Inr (m4, es4)" "same_sides m3 m4" "stitcher_ok es4"
    using add_host_sides [OF assms(1,4) same_sides_made [OF b(2)]] by blast
  obtain m5 es5 where e: "add_host en ''dst_host'' (j_DstAddr m3) (m4, es4) = Inr (m5, es5)" "same_sides m4 m5" "stitcher_ok es5"
    using add_host_sides [OF assms(1) c(3) same_sides_made [OF c(2)]] by blast
  obtain m6 es6 where f: "add_trace en (m5, es5) = Inr (m6, es6)" "same_sides m5 m6" "stitcher_ok es6"
    using add_trace_sides [OF same_sides_made [OF e(2)] e(3)] by blast
  obtain m7 es7 where g: "add_stitch (m6, es6) = Inr (m7, es7)" "same_sides m6 m7" "stitcher_ok es7"
    using add_stitch_sides [OF f(3) same_sides_made [OF f(2)]] by blast
  obtain m8 where h: "add_km en m7 = Inr m8" "same_sides m7 m8"
    using add_km_sides [OF assms(2) same_sides_made [OF g(2)]] by (auto simp: keeps_sides_def)
  have "same_sides m2 m8" using b(2) c(2) e(2) f(2) g(2) h(2) by (blast intro: same_sides_trans)
  then have "enriched en m m8" "maps_made m8" using a(4) by (auto simp: enriched_def same_sides_def flow_sides_def)
  moreover have "enrich_flow en m es = Inr (m8, es7)"
    by (simp add: enrich_flow_def res_bind_def a b c e f g h)
  ultimately show ?thesis using g(3) by blast
qed


section \<open>Witnesses\<close>

definition demo_enricher :: enricher where
  "demo_enricher = \<lparr>en_uni = id, en_dns = no_dns, en_patricia = demo_patricia, en_rule = NewRuleSet demo_patricia [],
     en_geo = Some (\<lambda>_. Some ''US''), en_asn = None, en_protos = PROTO_NAMES_list, en_json = (\<lambda>_. None), en_km = Some [9 \<mapsto> demo_km],
     en_orders = \<lparr>ka_dimensions = id, ka_metrics = id\<rparr>, en_outside = None\<rparr>"

definition demo_enrich_state :: enrich_state where
  "demo_enrich_state = \<lparr>es_resolver = Some (NewResolver None), es_stitcher = None, es_hars = []\<rparr>"


end
