(* ===== verification/Kentik_Path.thy ===== *)
theory Kentik_Path
  imports Enrichment Agent
begin

text \<open>
  \<^verbatim>\<open>pkg/cat/kentik.go\<close>: flows that arrive over HTTP. \<^verbatim>\<open>handleFlow\<close> takes a request apart and spreads its flows over the
  processing threads; \<^verbatim>\<open>monitorAlphaChan\<close> is one thread, which converts the flows into records of a pool, filters and
  batches them, and exports a batch by company; \<^verbatim>\<open>handleJson\<close> takes a record of the first pool for a JSON event. The
  decoders of gzip, Cap'n Proto and JSON, the serializer, the rollups and the enrichment are arguments.
\<close>

section \<open>Requests\<close>

text \<open>Channels have a bounded capacity; \<open>CHAN_SLACK\<close> of \<^verbatim>\<open>kkc.go\<close>.\<close>

definition ALPHA_SLACK :: nat where
  "ALPHA_SLACK = 8000"

definition MSG_KEY_PREFIX :: nat where
  "MSG_KEY_PREFIX = 80"

text \<open>
  A request as the server hands it over: whether its body is compressed and the decompression could start, and the bytes
  read from it, none when reading failed.
\<close>

record http_request =
  rq_Post :: bool
  rq_gzip :: bool
  rq_gzip_ok :: bool
  rq_body :: "bytes option"
  rq_sender :: string
  rq_cid :: string
  rq_length :: string
  rq_json :: bool

text \<open>
  What the client reads: a status and a body. Errors that \<^verbatim>\<open>http.Error\<close> reports are followed by the text of the deferred
  function, which sees the outer error only.
\<close>

datatype reply = No_reply | Good | Bad | Server_error_then_good | Server_error_then_bad

record sender =
  sd_cid :: int
  sd_name :: string
  sd_did :: int
  sd_offset :: nat

definition parse_sender :: "string \<Rightarrow> int \<Rightarrow> bytes \<Rightarrow> sender" where
  "parse_sender senderId cid evt =
     (if senderId \<noteq> [] \<and> MSG_KEY_PREFIX < length evt \<and> take 5 evt = [0, 0, 0, 0, 0] then
        (case strings_Split senderId '':'' of
           [p0, p1, p2] \<Rightarrow> \<lparr>sd_cid = atoi_or (strings_TrimSpace p0), sd_name = p1, sd_did = atoi_or (strings_TrimSpace p2), sd_offset = MSG_KEY_PREFIX\<rparr>
         | _ \<Rightarrow> \<lparr>sd_cid = cid, sd_name = [], sd_did = 0, sd_offset = MSG_KEY_PREFIX\<rparr>)
      else \<lparr>sd_cid = cid, sd_name = [], sd_did = 0, sd_offset = 0\<rparr>)"

definition prepare_flow :: "string \<Rightarrow> sender \<Rightarrow> CHF \<Rightarrow> Flow" where
  "prepare_flow senderId sd msg =
     (let msg = (if \<not> SampleAdj msg then msg\<lparr>SampleRate := SampleRate msg * 100\<rparr> else msg);
          msg = (if DeviceId msg = 0 \<and> senderId \<noteq> [] then msg\<lparr>DeviceId := of_int (sd_did sd)\<rparr> else msg)
      in \<lparr>f_CompanyId = sd_cid sd, f_CHF = msg, f_DeviceName = sd_name sd\<rparr>)"

record spread =
  sp_chans :: "Flow list list"
  sp_next :: nat
  sp_sent :: nat
  sp_dropped :: nat

definition spread_flow :: "Flow \<Rightarrow> spread \<Rightarrow> spread res" where
  "spread_flow alpha sp =
     (if length (sp_chans sp) \<le> sp_next sp then Inl (Panic ''index out of range'')
      else
        let q = sp_chans sp ! sp_next sp;
            sp = (if length q < ALPHA_SLACK
              then sp\<lparr>sp_chans := (sp_chans sp)[sp_next sp := q @ [alpha]], sp_sent := sp_sent sp + 1\<rparr>
              else sp\<lparr>sp_dropped := sp_dropped sp + 1\<rparr>);
            next = sp_next sp + 1
        in Inr (sp\<lparr>sp_next := if length (sp_chans sp) \<le> next then 0 else next\<rparr>))"

definition spread_flows :: "string \<Rightarrow> sender \<Rightarrow> CHF list \<Rightarrow> Flow list list \<Rightarrow> spread res" where
  "spread_flows senderId sd msgs chans =
     res_fold (\<lambda>msg sp. if Big msg then Inr sp else spread_flow (prepare_flow senderId sd msg) sp) msgs
       \<lparr>sp_chans = chans, sp_next = 0, sp_sent = 0, sp_dropped = 0\<rparr>"

text \<open>
  \<^verbatim>\<open>handleJson\<close>: strings and numbers up to two levels of objects and one level of arrays become custom columns. Of the types
  that the code distinguishes the decoder yields strings, numbers, objects and arrays.
\<close>

definition json_leaf :: "string \<Rightarrow> json \<Rightarrow> JCHF \<Rightarrow> JCHF" where
  "json_leaf key v j = (case v of JsonStr t \<Rightarrow> set_str key t j | JsonNum n \<Rightarrow> set_big key n j | _ \<Rightarrow> j)"

definition json_inner :: "string \<Rightarrow> string \<times> json \<Rightarrow> JCHF \<Rightarrow> JCHF" where
  "json_inner k kv j =
     (case snd kv of
        JsonObj it \<Rightarrow> fold (\<lambda>(ik, iv). json_leaf (k @ ''_'' @ fst kv @ ''_'' @ ik) iv) it j
      | v \<Rightarrow> json_leaf (k @ ''_'' @ fst kv) v j)"

definition json_element :: "string \<Rightarrow> nat \<times> json \<Rightarrow> JCHF \<Rightarrow> JCHF" where
  "json_element k iv j =
     (case snd iv of
        JsonObj it \<Rightarrow> fold (\<lambda>(ik, v). json_leaf (k @ ''_'' @ nat_Itoa (fst iv) @ ''_'' @ ik) v) it j
      | _ \<Rightarrow> j)"

definition json_field :: "string \<times> json \<Rightarrow> JCHF \<Rightarrow> JCHF" where
  "json_field kv j =
     (case snd kv of
        JsonObj tv \<Rightarrow> fold (json_inner (fst kv)) tv j
      | JsonArr tv \<Rightarrow> fold (json_element (fst kv)) (List.enumerate 0 tv) j
      | v \<Rightarrow> json_leaf (fst kv) v j)"

definition json_record :: "(string \<times> json) list \<Rightarrow> JCHF \<Rightarrow> JCHF" where
  "json_record base jflow =
     fold json_field base (jflow\<lparr>j_CustomStr := Some Map.empty, j_CustomInt := Some Map.empty, j_CustomBigInt := Some Map.empty,
       j_CustomFloat := Some Map.empty, j_Provider := ''kentik-alert'', j_EventType := ''KJson''\<rparr>)"

record handler =
  h_chans :: "Flow list list"
  h_pool :: "JCHF list"
  h_msgsc :: "Output option list"
  h_Flows :: nat
  h_DroppedFlows :: nat
  h_tee :: "bytes list option"

record handler_args =
  ha_json :: "bytes \<Rightarrow> (string \<times> json) list option"
  ha_capnp :: "bytes \<Rightarrow> CHF list option"
  ha_format :: serializer

text \<open>The result says whether there was an error. A record taken for an event that cannot be decoded is not given back.\<close>

definition handleJson :: "handler_args \<Rightarrow> bytes \<Rightarrow> handler \<Rightarrow> bool \<times> handler" where
  "handleJson ha raw h =
     (case h_pool h of
        [] \<Rightarrow> (False, h\<lparr>h_DroppedFlows := h_DroppedFlows h + 1\<rparr>)
      | jflow # free \<Rightarrow>
          let h = h\<lparr>h_pool := free\<rparr> in
          (case ha_json ha raw of
             None \<Rightarrow> (True, h)
           | Some base \<Rightarrow>
               let jflow = json_record base jflow;
                   h = h\<lparr>h_pool := free @ [JCHF_Reset jflow]\<rparr>
               in case ha_format ha [jflow] of
                   Inl _ \<Rightarrow> (True, h)
                 | Inr res \<Rightarrow> (False, h\<lparr>h_msgsc := h_msgsc h @ [res]\<rparr>)))"

definition outcome :: "bool \<Rightarrow> reply" where
  "outcome err = (if err then Bad else Good)"

definition handleFlow :: "handler_args \<Rightarrow> http_request \<Rightarrow> handler \<Rightarrow> (reply \<times> handler) res" where
  "handleFlow ha r h =
     (if \<not> rq_Post r then Inr (No_reply, h)
      else if rq_gzip r \<and> \<not> rq_gzip_ok r then Inr (Server_error_then_good, h)
      else if rq_cid r \<noteq> [] \<and> strconv_Atoi (rq_cid r) = None then Inr (Server_error_then_good, h)
      else if rq_length r \<noteq> [] \<and> strconv_Atoi (rq_length r) = None then Inr (Server_error_then_good, h)
      else case rq_body r of
          None \<Rightarrow> Inr (Server_error_then_bad, h)
        | Some evt \<Rightarrow>
            if rq_json r then Inr (case handleJson ha evt h of (err, h) \<Rightarrow> (outcome err, h))
            else
              let sd = parse_sender (rq_sender r) (case strconv_Atoi (rq_cid r) of Some c \<Rightarrow> c | None \<Rightarrow> 0) evt;
                  flows = drop (sd_offset sd) evt;
                  h = h\<lparr>h_tee := map_option (\<lambda>t. t @ [flows]) (h_tee h)\<rparr>
              in case ha_capnp ha flows of
                  None \<Rightarrow> Inr (Bad, h)
                | Some msgs \<Rightarrow>
                    map_sum id (\<lambda>sp. (Good, h\<lparr>h_chans := sp_chans sp, h_Flows := h_Flows h + sp_sent sp,
                        h_DroppedFlows := h_DroppedFlows h + sp_dropped sp\<rparr>))
                      (spread_flows (rq_sender r) sd msgs (h_chans h)))"

section \<open>A processing thread\<close>

record 'r thread =
  t_alpha :: "Flow list"
  t_pool :: "JCHF list"
  t_msgs :: "JCHF list"
  t_out :: "Output option list"
  t_flow :: flow_env
  t_enrich :: enrich_state
  t_rollups :: "'r list"
  t_time :: i64
  t_dropped :: nat
  t_flowsOut :: nat

record 'r thread_args =
  ta_flow :: flow_args
  ta_enricher :: enricher
  ta_radd :: "flow_map list \<Rightarrow> 'r \<Rightarrow> 'r res"
  ta_seri :: serializer
  ta_shuffle :: "JCHF list \<Rightarrow> JCHF list"
  ta_companies :: "u64 list \<Rightarrow> u64 list"
  ta_filters :: "FilterWrapper list"
  ta_doRollups :: bool
  ta_RollupAndAlpha :: bool
  ta_SampleRate :: int
  ta_SampleMin :: int
  ta_MaxFlowsPerMessage :: int

definition needs_enrichment :: "enricher \<Rightarrow> bool" where
  "needs_enrichment en \<longleftrightarrow> en_geo en \<noteq> None \<or> en_asn en \<noteq> None \<or> en_outside en \<noteq> None"

definition sample_batch :: "'r thread_args \<Rightarrow> JCHF list \<Rightarrow> JCHF list \<times> nat" where
  "sample_batch ta msgs =
     (if 1 < ta_SampleRate ta \<and> ta_SampleMin ta < int (length msgs)
      then (map (scale_rate (ta_SampleRate ta)) (ta_shuffle ta msgs), nat (sample_keep (length msgs) (ta_SampleRate ta)))
      else (msgs, length msgs))"

text \<open>The flows of each company, the companies in the order in which Go visits the map.\<close>

definition split_companies :: "'r thread_args \<Rightarrow> JCHF list \<Rightarrow> JCHF list list" where
  "split_companies ta msgs =
     map (\<lambda>c. filter (\<lambda>m. j_CompanyId m = c) msgs) (ta_companies ta (remdups (map j_CompanyId msgs)))"

definition serialize_all :: "serializer \<Rightarrow> JCHF list list \<Rightarrow> Output option list" where
  "serialize_all seri batches = concat (map (\<lambda>b. case seri b of Inl _ \<Rightarrow> [] | Inr out \<Rightarrow> [out]) batches)"

definition export_batch :: "'r thread_args \<Rightarrow> JCHF list \<Rightarrow> JCHF list \<times> Output option list" where
  "export_batch ta msgs =
     (if \<not> ta_doRollups ta \<or> ta_RollupAndAlpha ta then
        (case sample_batch ta msgs of (msgs, keep) \<Rightarrow> (msgs, serialize_all (ta_seri ta) (split_companies ta (take keep msgs))))
      else (msgs, []))"

text \<open>
  \<^verbatim>\<open>sendBytesOn\<close>. Giving the records back waits while the pool is full, which \<open>None\<close> stands for: apart from JSON events on the
  first pool, the waiting thread is the only one that takes records out.
\<close>

definition sendBytesOn :: "'r thread_args \<Rightarrow> 'r thread \<Rightarrow> 'r thread res option" where
  "sendBytesOn ta t =
     (if t_msgs t = [] then Some (Inr t)
      else case (if needs_enrichment (ta_enricher ta) then doEnrichments (ta_enricher ta) (t_msgs t) (t_enrich t)
          else Inr (t_msgs t, t_enrich t)) of
          Inl e \<Rightarrow> Some (Inl e)
        | Inr (msgs, es) \<Rightarrow>
            (case (if ta_doRollups ta then map_flows msgs else Inr (msgs, [])) of
               Inl e \<Rightarrow> Some (Inl e)
             | Inr (msgs, rv) \<Rightarrow>
                 (case (if ta_doRollups ta then add_rollups (ta_radd ta) rv (t_rollups t) else Inr (t_rollups t)) of
                    Inl e \<Rightarrow> Some (Inl e)
                  | Inr rollups \<Rightarrow>
                      (case export_batch ta msgs of (msgs, out) \<Rightarrow>
                         if ALPHA_SLACK < length (t_pool t) + length msgs then None
                         else Some (Inr (t\<lparr>t_pool := t_pool t @ map JCHF_Reset msgs, t_msgs := [], t_out := t_out t @ out,
                           t_enrich := es, t_rollups := rollups, t_flowsOut := t_flowsOut t + length msgs\<rparr>))))))"

text \<open>The case of the select that receives a flow, and the batch that is full.\<close>

definition take_alpha :: "'r thread_args \<Rightarrow> Flow \<Rightarrow> 'r thread \<Rightarrow> 'r thread res option" where
  "take_alpha ta f t =
     (case t_pool t of
        jflow # free \<Rightarrow>
          (case flowToJCHF (ta_flow ta) f (t_time t) (jflow, t_flow t) of
             Inl e \<Rightarrow> Some (Inl e)
           | Inr (jflow, fe) \<Rightarrow>
               (case keep_flow (ta_filters ta) jflow of
                  Inl e \<Rightarrow> Some (Inl e)
                | Inr (keep, jflow) \<Rightarrow>
                    if keep then
                      (let t = t\<lparr>t_pool := free, t_flow := fe, t_msgs := t_msgs t @ [jflow]\<rparr> in
                       if ta_MaxFlowsPerMessage ta \<le> int (length (t_msgs t)) then sendBytesOn ta t else Some (Inr t))
                    else Some (Inr (t\<lparr>t_pool := free @ [JCHF_Reset jflow], t_flow := fe\<rparr>))))
      | [] \<Rightarrow>
          map_option (map_sum id (\<lambda>t. if length (t_alpha t) < ALPHA_SLACK then t\<lparr>t_alpha := t_alpha t @ [f]\<rparr>
            else t\<lparr>t_dropped := t_dropped t + 1\<rparr>)) (sendBytesOn ta t))"

inductive thread_step :: "'r thread_args \<Rightarrow> 'r thread \<Rightarrow> 'r thread \<Rightarrow> bool" for ta where
  alpha_arrives: "length (t_alpha t) < ALPHA_SLACK \<Longrightarrow> thread_step ta t (t\<lparr>t_alpha := t_alpha t @ [f]\<rparr>)"
| alpha_taken: "t_alpha t = f # fs \<Longrightarrow> take_alpha ta f (t\<lparr>t_alpha := fs\<rparr>) = Some (Inr t') \<Longrightarrow> thread_step ta t t'"
| send_ticked: "sendBytesOn ta t = Some (Inr t') \<Longrightarrow> thread_step ta t (t'\<lparr>t_time := now\<rparr>)"

definition start_thread :: "flow_env \<Rightarrow> enrich_state \<Rightarrow> 'r list \<Rightarrow> i64 \<Rightarrow> 'r thread" where
  "start_thread fe es rollups now = \<lparr>t_alpha = [], t_pool = replicate ALPHA_SLACK NewJCHF, t_msgs = [], t_out = [], t_flow = fe,
     t_enrich = es, t_rollups = rollups, t_time = now, t_dropped = 0, t_flowsOut = 0\<rparr>"

section \<open>The pool\<close>

definition keeps_length :: "('a list \<Rightarrow> 'a list) \<Rightarrow> bool" where
  "keeps_length f \<longleftrightarrow> (\<forall>xs. length (f xs) = length xs)"

text \<open>The shuffle is a permutation, and an outside enrichment service answers with as many flows as it got.\<close>

definition batch_lengths :: "'r thread_args \<Rightarrow> bool" where
  "batch_lengths ta \<longleftrightarrow> keeps_length (ta_shuffle ta) \<and>
     (\<forall>f ms ms'. en_outside (ta_enricher ta) = Some f \<longrightarrow> f ms = Some ms' \<longrightarrow> length ms' = length ms)"

lemma enrich_flows_length: "enrich_flows en msgs es = Inr (ms, es') \<Longrightarrow> length ms = length msgs"
proof (induction msgs arbitrary: es ms es')
  case (Cons m msgs)
  then obtain m1 es1 ms1 es2 where "enrich_flows en msgs es1 = Inr (ms1, es2)" "ms = m1 # ms1"
    by (auto simp: res_bind_Inr map_sum_Inr_iff)
  with Cons.IH show ?case by simp
qed simp

lemma doEnrichments_length:
  "batch_lengths ta \<Longrightarrow> doEnrichments (ta_enricher ta) msgs es = Inr (ms, es') \<Longrightarrow> length ms = length msgs"
  by (auto simp: doEnrichments_def map_sum_Inr_iff batch_lengths_def dest!: enrich_flows_length split: option.splits)

lemma map_flows_length: "map_flows msgs = Inr (ms, rv) \<Longrightarrow> length ms = length msgs"
  by (induction msgs arbitrary: ms rv) (auto split: sum.splits)

lemma export_batch_length: "batch_lengths ta \<Longrightarrow> export_batch ta msgs = (ms, out) \<Longrightarrow> length ms = length msgs"
  by (auto simp: export_batch_def sample_batch_def batch_lengths_def keeps_length_def split: if_splits)

definition pool_inv :: "'r thread \<Rightarrow> bool" where
  "pool_inv t \<longleftrightarrow> length (t_pool t) + length (t_msgs t) = ALPHA_SLACK \<and> length (t_alpha t) \<le> ALPHA_SLACK"

lemma sendBytesOn_pool:
  assumes "batch_lengths ta" "pool_inv t"
  shows "\<exists>r. sendBytesOn ta t = Some r \<and> (\<forall>t'. r = Inr t' \<longrightarrow> pool_inv t' \<and> t_msgs t' = [] \<and> t_alpha t' = t_alpha t)"
proof (cases "t_msgs t = []")
  case True
  with assms(2) show ?thesis by (simp add: sendBytesOn_def)
next
  case False
  let ?en = "if needs_enrichment (ta_enricher ta) then doEnrichments (ta_enricher ta) (t_msgs t) (t_enrich t) else Inr (t_msgs t, t_enrich t)"
  have en: "length ms = length (t_msgs t)" if "?en = Inr (ms, es)" for ms es
    using that doEnrichments_length [OF assms(1)] by (auto split: if_splits)
  have mf: "length ms = length msgs" if "(if ta_doRollups ta then map_flows msgs else Inr (msgs, [])) = Inr (ms, rv)" for msgs ms rv
    using that map_flows_length by (auto split: if_splits)
  have fits: "length ms + length (t_pool t) = ALPHA_SLACK" if "length ms = length (t_msgs t)" for ms :: "JCHF list"
    using that assms(2) by (simp add: pool_inv_def)
  let ?mf = "\<lambda>msgs. if ta_doRollups ta then map_flows msgs else Inr (msgs, [])"
  let ?ar = "\<lambda>rv. if ta_doRollups ta then add_rollups (ta_radd ta) rv (t_rollups t) else Inr (t_rollups t)"
  show ?thesis
  proof (cases ?en)
    case (Inl e)
    with False show ?thesis by (simp only: sendBytesOn_def if_False sum.case) simp
  next
    case (Inr p)
    obtain ms es where enr: "?en = Inr (ms, es)" using Inr by (cases p) blast
    show ?thesis
    proof (cases "?mf ms")
      case (Inl e)
      with False enr show ?thesis by (simp only: sendBytesOn_def if_False sum.case prod.case) simp
    next
      case (Inr q)
      obtain ns rv where mfr: "?mf ms = Inr (ns, rv)" using Inr by (cases q) blast
      obtain os out where ex: "export_batch ta ns = (os, out)" by (cases "export_batch ta ns")
      have "length os + length (t_pool t) = ALPHA_SLACK"
        using fits [of os] export_batch_length [OF assms(1) ex] mf [OF mfr] en [OF enr] by simp
      then show ?thesis using False enr mfr ex assms(2)
        by (cases "?ar rv") (simp_all only: sendBytesOn_def if_False sum.case prod.case, auto simp: pool_inv_def)
    qed
  qed
qed

lemma take_alpha_pool:
  assumes "batch_lengths ta" "pool_inv t"
  shows "\<exists>r. take_alpha ta f t = Some r \<and> (\<forall>t'. r = Inr t' \<longrightarrow> pool_inv t')"
proof (cases "t_pool t")
  case Nil
  obtain r where "sendBytesOn ta t = Some r" "\<forall>t'. r = Inr t' \<longrightarrow> pool_inv t' \<and> t_msgs t' = [] \<and> t_alpha t' = t_alpha t"
    using sendBytesOn_pool [OF assms] by blast
  with Nil assms(2) show ?thesis by (auto simp: take_alpha_def pool_inv_def map_sum_Inr_iff)
next
  case (Cons jflow free)
  have moved: "pool_inv (t\<lparr>t_pool := free, t_flow := fe, t_msgs := t_msgs t @ [j]\<rparr>)" for fe j
    using Cons assms(2) by (simp add: pool_inv_def)
  have "\<exists>r. sendBytesOn ta (t\<lparr>t_pool := free, t_flow := fe, t_msgs := t_msgs t @ [j]\<rparr>) = Some r \<and> (\<forall>t'. r = Inr t' \<longrightarrow> pool_inv t')" for fe j
    using sendBytesOn_pool [OF assms(1) moved] by blast
  moreover have "pool_inv (t\<lparr>t_pool := free @ [j], t_flow := fe\<rparr>)" for fe j
    using Cons assms(2) by (simp add: pool_inv_def)
  ultimately show ?thesis using Cons moved by (auto simp: take_alpha_def Let_def split: sum.splits prod.splits)
qed


section \<open>Requests reach the threads\<close>

text \<open>The flows that the round robin meant for thread \<open>i\<close> of \<open>n\<close>, in the order of the request.\<close>

definition share :: "nat \<Rightarrow> nat \<Rightarrow> 'a list \<Rightarrow> 'a list" where
  "share n i fs = map snd (filter (\<lambda>(k, f). k mod n = i) (List.enumerate 0 fs))"

lemma share_snoc: "share n i (fs @ [f]) = share n i fs @ (if length fs mod n = i then [f] else [])"
  by (simp add: share_def enumerate_append_eq)

lemma share_Nil: "share n i [] = []"
  by (simp add: share_def)

lemma res_fold_append: "res_fold f (xs @ ys) s = res_bind (res_fold f xs s) (res_fold f ys)"
  by (induction xs arbitrary: s) (auto simp: res_bind_def split: sum.splits)

definition filled :: "Flow list list \<Rightarrow> Flow list \<Rightarrow> Flow list list" where
  "filled chans fs = map (\<lambda>i. chans ! i @ take (ALPHA_SLACK - length (chans ! i)) (share (length chans) i fs)) [0..<length chans]"

lemma filled_length: "length (filled chans fs) = length chans"
  by (simp add: filled_def)

lemma filled_room: "i < length chans \<Longrightarrow> length (filled chans fs ! i) \<le> max ALPHA_SLACK (length (chans ! i))"
  by (auto simp: filled_def)

lemma filled_Nil: "filled chans [] = chans"
  by (simp add: filled_def share_Nil map_nth)

lemma take_room: "take (n - length c) (s @ [x]) = take (n - length c) s @ (if length (c @ take (n - length c) s) < n then [x] else [])"
  by (cases "length c < n") auto

lemma filled_snoc:
  assumes "chans \<noteq> []"
  shows "filled chans (fs @ [f]) = (let k = length fs mod length chans; q = filled chans fs ! k in
    if length q < ALPHA_SLACK then (filled chans fs)[k := q @ [f]] else filled chans fs)"
proof (rule nth_equalityI)
  show "length (filled chans (fs @ [f])) = length (let k = length fs mod length chans; q = filled chans fs ! k in
      if length q < ALPHA_SLACK then (filled chans fs)[k := q @ [f]] else filled chans fs)"
    by (simp add: Let_def filled_length)
next
  fix i assume "i < length (filled chans (fs @ [f]))"
  then have i: "i < length chans" by (simp add: filled_length)
  have k: "length fs mod length chans < length chans" using assms by simp
  show "filled chans (fs @ [f]) ! i = (let k = length fs mod length chans; q = filled chans fs ! k in
      if length q < ALPHA_SLACK then (filled chans fs)[k := q @ [f]] else filled chans fs) ! i"
    using i k take_room [of ALPHA_SLACK "chans ! i"] by (auto simp: filled_def Let_def share_snoc nth_list_update)
qed

definition queued :: "'a list list \<Rightarrow> nat" where
  "queued qs = sum_list (map length qs)"

lemma queued_update: "k < length qs \<Longrightarrow> queued (qs[k := qs ! k @ [x]]) = Suc (queued qs)"
  by (simp add: queued_def map_update sum_list_update)

lemma spread_flow_filled:
  assumes "chans \<noteq> []"
  shows "\<exists>sp. spread_flow f \<lparr>sp_chans = filled chans fs, sp_next = length fs mod length chans, sp_sent = s, sp_dropped = length fs - s\<rparr> = Inr sp \<and>
    (s + queued chans = queued (filled chans fs) \<and> s \<le> length fs \<longrightarrow>
     (\<exists>s'. sp = \<lparr>sp_chans = filled chans (fs @ [f]), sp_next = length (fs @ [f]) mod length chans, sp_sent = s', sp_dropped = length (fs @ [f]) - s'\<rparr> \<and>
        s' + queued chans = queued (filled chans (fs @ [f])) \<and> s' \<le> length (fs @ [f])))"
proof -
  let ?k = "length fs mod length chans"
  have k: "?k < length chans" using assms by simp
  have wrap: "(if length chans \<le> Suc ?k then 0 else Suc ?k) = Suc (length fs) mod length chans"
    using k by (auto simp: mod_Suc)
  show ?thesis
    using k wrap queued_update [of ?k "filled chans fs" f]
    by (cases "length (filled chans fs ! ?k) < ALPHA_SLACK")
       (auto simp: spread_flow_def Let_def filled_length filled_snoc [OF assms])
qed

definition usable :: "string \<Rightarrow> sender \<Rightarrow> CHF list \<Rightarrow> Flow list" where
  "usable senderId sd msgs = map (prepare_flow senderId sd) (filter (\<lambda>m. \<not> Big m) msgs)"

lemma spread_flows_filled:
  assumes "chans \<noteq> []"
  shows "\<exists>s. spread_flows senderId sd msgs chans = Inr \<lparr>sp_chans = filled chans (usable senderId sd msgs),
      sp_next = length (usable senderId sd msgs) mod length chans, sp_sent = s, sp_dropped = length (usable senderId sd msgs) - s\<rparr> \<and>
    s + queued chans = queued (filled chans (usable senderId sd msgs)) \<and> s \<le> length (usable senderId sd msgs)"
proof (induction msgs rule: rev_induct)
  case Nil
  then show ?case by (simp add: spread_flows_def usable_def filled_Nil)
next
  case (snoc m msgs)
  then obtain s where run: "spread_flows senderId sd msgs chans = Inr \<lparr>sp_chans = filled chans (usable senderId sd msgs),
      sp_next = length (usable senderId sd msgs) mod length chans, sp_sent = s, sp_dropped = length (usable senderId sd msgs) - s\<rparr>"
    and s: "s + queued chans = queued (filled chans (usable senderId sd msgs))" "s \<le> length (usable senderId sd msgs)" by blast
  show ?case
  proof (cases "Big m")
    case True
    with run s show ?thesis by (simp add: spread_flows_def res_fold_append usable_def res_bind_def)
  next
    case False
    then have "usable senderId sd (msgs @ [m]) = usable senderId sd msgs @ [prepare_flow senderId sd m]" by (simp add: usable_def)
    with spread_flow_filled [OF assms, of "prepare_flow senderId sd m" "usable senderId sd msgs" s] run s False
    show ?thesis unfolding spread_flows_def res_fold_append by (fastforce simp: res_bind_def)
  qed
qed

definition query_cid :: "http_request \<Rightarrow> int" where
  "query_cid r = (case strconv_Atoi (rq_cid r) of Some c \<Rightarrow> c | None \<Rightarrow> 0)"

definition readable :: "http_request \<Rightarrow> bool" where
  "readable r \<longleftrightarrow> rq_Post r \<and> (rq_gzip r \<longrightarrow> rq_gzip_ok r) \<and> (rq_cid r = [] \<or> strconv_Atoi (rq_cid r) \<noteq> None) \<and>
     (rq_length r = [] \<or> strconv_Atoi (rq_length r) \<noteq> None) \<and> \<not> rq_json r"

text \<open>
  C14. A readable request whose body decodes is answered with GOOD. Its flows of full resolution go to the threads in turn, flow
  \<open>k\<close> to thread \<open>k mod n\<close>; each queue takes its share in the order of the request as far as it has room, and nothing else
  changes in it. The flows counted as sent and as dropped are together the flows of the request, and those counted as sent are
  what the queues gained.
\<close>

theorem request_spread:
  assumes "readable r" "rq_body r = Some evt" "h_chans h \<noteq> []"
    and "ha_capnp ha (drop (sd_offset (parse_sender (rq_sender r) (query_cid r) evt)) evt) = Some msgs"
  shows "let n = length (h_chans h); fs = usable (rq_sender r) (parse_sender (rq_sender r) (query_cid r) evt) msgs in
    \<exists>h'. handleFlow ha r h = Inr (Good, h') \<and> length (h_chans h') = n \<and>
      (\<forall>i < n. h_chans h' ! i = h_chans h ! i @ take (8000 - length (h_chans h ! i)) (share n i fs)) \<and>
      h_Flows h' + h_DroppedFlows h' = h_Flows h + h_DroppedFlows h + length fs \<and>
      h_Flows h' + queued (h_chans h) = h_Flows h + queued (h_chans h')"
proof -
  let ?sd = "parse_sender (rq_sender r) (query_cid r) evt"
  obtain s where "spread_flows (rq_sender r) ?sd msgs (h_chans h) = Inr \<lparr>sp_chans = filled (h_chans h) (usable (rq_sender r) ?sd msgs),
      sp_next = length (usable (rq_sender r) ?sd msgs) mod length (h_chans h), sp_sent = s, sp_dropped = length (usable (rq_sender r) ?sd msgs) - s\<rparr>"
    "s + queued (h_chans h) = queued (filled (h_chans h) (usable (rq_sender r) ?sd msgs))" "s \<le> length (usable (rq_sender r) ?sd msgs)"
    using spread_flows_filled [OF assms(3), of "rq_sender r" ?sd msgs] by blast
  moreover have "handleFlow ha r h = map_sum id (\<lambda>sp. (Good, h\<lparr>h_tee := map_option (\<lambda>t. t @ [drop (sd_offset ?sd) evt]) (h_tee h), h_chans := sp_chans sp,
      h_Flows := h_Flows h + sp_sent sp, h_DroppedFlows := h_DroppedFlows h + sp_dropped sp\<rparr>)) (spread_flows (rq_sender r) ?sd msgs (h_chans h))"
    using assms by (auto simp: handleFlow_def readable_def query_cid_def Let_def)
  ultimately show ?thesis by (auto simp: Let_def filled_length filled_def ALPHA_SLACK_def)
qed

text \<open>
  The rate that \<^verbatim>\<open>handleFlow\<close> multiplies by a hundred is the one that the record shows, as long as the product fits into 32
  bits. A rate of 42949673 is shown as zero.
\<close>

lemma resample_shown:
  assumes "\<not> SampleAdj msg" "unat (SampleRate msg) * 100 < 2 ^ 32"
  shows "SampleRate (f_CHF (prepare_flow senderId sd msg)) div 100 = SampleRate msg"
proof -
  have "unat (SampleRate msg * 100) = unat (SampleRate msg) * 100" using assms(2) by (simp add: unat_mult_lem [THEN iffD1])
  then have "unat (SampleRate msg * 100 div 100) = unat (SampleRate msg)" by (simp add: unat_div)
  with assms(1) show ?thesis by (simp add: prepare_flow_def Let_def word_unat_eq_iff)
qed

lemma resample_wraps:
  "\<not> SampleAdj msg \<Longrightarrow> SampleRate msg = 42949673 \<Longrightarrow> SampleRate (f_CHF (prepare_flow senderId sd msg)) div 100 = 0"
  by (simp add: prepare_flow_def Let_def)

section \<open>Batches by company\<close>

lemma mset_split: "distinct cs \<Longrightarrow> set (map f xs) \<subseteq> set cs \<Longrightarrow> mset (concat (map (\<lambda>c. filter (\<lambda>x. f x = c) xs) cs)) = mset xs"
proof (induction cs arbitrary: xs)
  case (Cons c cs)
  let ?rest = "filter (\<lambda>x. f x \<noteq> c) xs"
  have "filter (\<lambda>x. f x = c') xs = filter (\<lambda>x. f x = c') ?rest" if "c' \<in> set cs" for c'
    using that Cons.prems(1) by (auto intro: filter_cong)
  then have "concat (map (\<lambda>c. filter (\<lambda>x. f x = c) xs) cs) = concat (map (\<lambda>c. filter (\<lambda>x. f x = c) ?rest) cs)"
    by (intro arg_cong [where f = concat] map_cong refl)
  also have "mset \<dots> = mset ?rest" using Cons.prems by (intro Cons.IH) auto
  finally have "mset (concat (map (\<lambda>c. filter (\<lambda>x. f x = c) xs) (c # cs))) = {#x \<in># mset xs. f x = c#} + {#x \<in># mset xs. f x \<noteq> c#}"
    by (simp only: list.map concat.simps mset_append mset_filter)
  also have "\<dots> = mset xs" by (rule multiset_partition [symmetric])
  finally show ?case .
qed simp

definition visits_all :: "('a list \<Rightarrow> 'a list) \<Rightarrow> bool" where
  "visits_all f \<longleftrightarrow> (\<forall>xs. mset (f xs) = mset xs)"

definition one_company :: "JCHF list \<Rightarrow> bool" where
  "one_company b \<longleftrightarrow> b \<noteq> [] \<and> (\<forall>m \<in> set b. j_CompanyId m = j_CompanyId (hd b))"

lemma split_companies_parts:
  assumes "visits_all (ta_companies ta)"
  shows "mset (concat (split_companies ta ms)) = mset ms" "list_all one_company (split_companies ta ms)"
    "distinct (map (j_CompanyId \<circ> hd) (split_companies ta ms))"
proof -
  let ?cs = "ta_companies ta (remdups (map j_CompanyId ms))"
  have cs: "distinct ?cs" "set ?cs = j_CompanyId ` set ms"
    using assms mset_eq_imp_distinct_iff [of ?cs "remdups (map j_CompanyId ms)"] mset_eq_setD [of ?cs "remdups (map j_CompanyId ms)"]
    by (auto simp: visits_all_def)
  show "mset (concat (split_companies ta ms)) = mset ms"
    unfolding split_companies_def using cs by (intro mset_split) auto
  have first: "filter (\<lambda>m. j_CompanyId m = c) ms \<noteq> [] \<and> j_CompanyId (hd (filter (\<lambda>m. j_CompanyId m = c) ms)) = c" if "c \<in> set ?cs" for c
  proof -
    have "filter (\<lambda>m. j_CompanyId m = c) ms \<noteq> []" using that cs(2) by (auto simp: filter_empty_conv)
    with hd_in_set show ?thesis by force
  qed
  then show "list_all one_company (split_companies ta ms)" by (auto simp: list_all_iff split_companies_def one_company_def)
  have "map (j_CompanyId \<circ> hd) (split_companies ta ms) = ?cs" using first by (simp add: split_companies_def map_idI)
  with cs(1) show "distinct (map (j_CompanyId \<circ> hd) (split_companies ta ms))" by simp
qed

definition thread_samples :: "'r thread_args \<Rightarrow> JCHF list \<Rightarrow> bool" where
  "thread_samples ta msgs \<longleftrightarrow> 1 < ta_SampleRate ta \<and> ta_SampleMin ta < int (length msgs)"

text \<open>
  C25. A batch that is exported is handed to the serializer company by company, whatever order the map of companies is visited in:
  each message holds the flows of one company, no company has two messages and none is empty. Together the messages hold every
  flow once, or, when the batch is sampled, one in \<open>SampleRate\<close> of them and at least one, their rates multiplied; the whole batch is
  returned for the pool.
\<close>

theorem batches_by_company:
  assumes "visits_all (ta_companies ta)" "visits_all (ta_shuffle ta)" "\<not> ta_doRollups ta \<or> ta_RollupAndAlpha ta" "msgs \<noteq> []"
  shows "\<exists>ms bs. export_batch ta msgs = (ms, serialize_all (ta_seri ta) bs) \<and>
    list_all one_company bs \<and> distinct (map (j_CompanyId \<circ> hd) bs) \<and>
    mset ms = (if thread_samples ta msgs then image_mset (scale_rate (ta_SampleRate ta)) (mset msgs) else mset msgs) \<and>
    mset (concat bs) \<subseteq># mset ms \<and>
    int (length (concat bs)) = (if thread_samples ta msgs then max (int (length msgs) div ta_SampleRate ta) 1 else int (length msgs))"
proof -
  obtain ms keep where sb: "sample_batch ta msgs = (ms, keep)" by (cases "sample_batch ta msgs")
  let ?bs = "split_companies ta (take keep ms)"
  note parts = split_companies_parts [OF assms(1), of "take keep ms"]
  have shuffled: "mset (ta_shuffle ta msgs) = mset msgs" using assms(2) by (simp add: visits_all_def)
  have ms: "mset ms = (if thread_samples ta msgs then image_mset (scale_rate (ta_SampleRate ta)) (mset msgs) else mset msgs)"
    using sb shuffled by (auto simp: sample_batch_def thread_samples_def split: if_splits)
  then have len: "length ms = length msgs" by (metis size_mset size_image_mset)
  have "int (length msgs) div ta_SampleRate ta \<le> int (length msgs)" if "1 < ta_SampleRate ta"
    using that zdiv_mono2 [of "int (length msgs)" 1 "ta_SampleRate ta"] by simp
  moreover have "1 \<le> int (length msgs)" using assms(4) by (cases msgs) auto
  ultimately have keep: "keep \<le> length ms"
    "int keep = (if thread_samples ta msgs then max (int (length msgs) div ta_SampleRate ta) 1 else int (length msgs))"
    using sb len by (auto simp: sample_batch_def thread_samples_def sample_keep_def split: if_splits)
  have "length (concat ?bs) = keep" using keep(1) parts(1) by (metis size_mset length_take min.absorb2)
  moreover have "mset (concat ?bs) \<subseteq># mset ms"
    using parts(1) by (metis append_take_drop_id mset_append mset_subset_eq_add_left)
  moreover have "export_batch ta msgs = (ms, serialize_all (ta_seri ta) ?bs)" using assms(3) sb by (simp add: export_batch_def)
  ultimately show ?thesis using parts(2,3) keep(2) ms by (intro exI [of _ ms] exI [of _ ?bs]) simp
qed

section \<open>Lost records\<close>

text \<open>
  A JSON event that cannot be decoded keeps the record it took: \<open>n\<close> of them leave the first thread \<open>n\<close> records short. With an empty
  pool and nothing in its batch, the thread only puts each flow back at the end of its own queue.
\<close>

lemma bad_events_drain_pool:
  "ha_json ha raw = None \<Longrightarrow> length (h_pool (((\<lambda>h. snd (handleJson ha raw h)) ^^ n) h)) = length (h_pool h) - n"
  by (induction n) (auto simp: handleJson_def Let_def split: list.splits)

lemma drained_thread_requeues:
  "t_pool t = [] \<Longrightarrow> t_msgs t = [] \<Longrightarrow> length (t_alpha t) < ALPHA_SLACK \<Longrightarrow>
   take_alpha ta f t = Some (Inr (t\<lparr>t_alpha := t_alpha t @ [f]\<rparr>))"
  by (simp add: take_alpha_def sendBytesOn_def)

text \<open>An outside service that answers with more flows than it was sent makes the thread wait for itself.\<close>

lemma growing_enrichment_blocks:
  assumes "t_msgs t \<noteq> []" "needs_enrichment (ta_enricher ta)" "\<not> ta_doRollups ta" "ta_SampleRate ta \<le> 1"
    and "doEnrichments (ta_enricher ta) (t_msgs t) (t_enrich t) = Inr (ms, es)" "ALPHA_SLACK < length (t_pool t) + length ms"
  shows "sendBytesOn ta t = None"
  using assms by (simp add: sendBytesOn_def export_batch_def sample_batch_def)

section \<open>Witnesses of the flow path\<close>

definition demo_thread_args :: "unit thread_args" where
  "demo_thread_args = \<lparr>ta_flow = demo_flow_args, ta_enricher = demo_enricher, ta_radd = (\<lambda>_. Inr), ta_seri = (\<lambda>_. Inr None),
     ta_shuffle = rev, ta_companies = rev, ta_filters = [], ta_doRollups = False, ta_RollupAndAlpha = False, ta_SampleRate = 2,
     ta_SampleMin = 1, ta_MaxFlowsPerMessage = 100\<rparr>"

lemma flowToJCHF_returns: "named_answers (fa_dns fa) \<Longrightarrow> returns (flowToJCHF fa src ts s)"
  unfolding flowToJCHF_def Let_def
  by (cases s) (auto intro!: res_bind_returns copy_addresses_returns apply_udrs_returns split: prod.splits)

lemma demo_thread_lengths: "batch_lengths demo_thread_args"
  by (simp add: batch_lengths_def keeps_length_def demo_thread_args_def demo_enricher_def)

lemma take_alpha_batched:
  assumes "t_pool t = jflow # free" "flowToJCHF (ta_flow ta) f (t_time t) (jflow, t_flow t) = Inr (j, fe)" "ta_filters ta = []"
    and "int (Suc (length (t_msgs t))) < ta_MaxFlowsPerMessage ta"
  shows "take_alpha ta f t = Some (Inr (t\<lparr>t_pool := free, t_flow := fe, t_msgs := t_msgs t @ [j]\<rparr>))"
  using assms by (simp add: take_alpha_def Let_def)


definition demo_request :: http_request where
  "demo_request = \<lparr>rq_Post = True, rq_gzip = False, rq_gzip_ok = False, rq_body = Some [1, 2, 3], rq_sender = [], rq_cid = [],
     rq_length = [], rq_json = False\<rparr>"

definition demo_handler :: handler where
  "demo_handler = \<lparr>h_chans = [[], []], h_pool = [], h_msgsc = [], h_Flows = 0, h_DroppedFlows = 0, h_tee = None\<rparr>"

definition demo_handler_args :: handler_args where
  "demo_handler_args = \<lparr>ha_json = (\<lambda>_. None), ha_capnp = (\<lambda>_. Some [demo_chf, demo_chf\<lparr>Big := True\<rparr>, demo_chf, demo_chf]),
     ha_format = (\<lambda>_. Inr None)\<rparr>"

theorem request_spread_witness:
  "\<exists>h'. handleFlow demo_handler_args demo_request demo_handler = Inr (Good, h') \<and> map length (h_chans h') = [2, 1] \<and>
     h_Flows h' + h_DroppedFlows h' = 3"
proof -
  have chf: "\<not> Big demo_chf" by (simp add: demo_chf_def)
  have hyps: "readable demo_request" "rq_body demo_request = Some [1, 2, 3]" "h_chans demo_handler \<noteq> []"
    "ha_capnp demo_handler_args (drop (sd_offset (parse_sender (rq_sender demo_request) (query_cid demo_request) [1, 2, 3])) [1, 2, 3]) =
      Some [demo_chf, demo_chf\<lparr>Big := True\<rparr>, demo_chf, demo_chf]"
    by (simp_all add: readable_def demo_request_def demo_handler_def demo_handler_args_def)
  have fs: "usable [] sd [demo_chf, demo_chf\<lparr>Big := True\<rparr>, demo_chf, demo_chf] = replicate 3 (prepare_flow [] sd demo_chf)" for sd
    using chf by (simp add: usable_def numeral_3_eq_3)
  have shares: "share (Suc (Suc 0)) 0 (replicate 3 f) = [f, f]" "share (Suc (Suc 0)) (Suc 0) (replicate 3 f) = [f]" for f :: Flow
    by (simp_all add: share_def numeral_3_eq_3)
  have start: "h_chans demo_handler = [[], []]" "h_Flows demo_handler = 0" "h_DroppedFlows demo_handler = 0" "rq_sender demo_request = []"
    by (simp_all add: demo_handler_def demo_request_def)
  define f where "f = prepare_flow [] (parse_sender [] (query_cid demo_request) [1, 2, 3]) demo_chf"
  from request_spread [OF hyps, unfolded Let_def start fs, folded f_def] obtain h' where
    h': "handleFlow demo_handler_args demo_request demo_handler = Inr (Good, h')" "length (h_chans h') = 2"
    and queues: "\<forall>i < 2. h_chans h' ! i = [[], []] ! i @ take (8000 - length (([[], []] :: Flow list list) ! i)) (share (Suc (Suc 0)) i (replicate 3 f))"
    and count: "h_Flows h' + h_DroppedFlows h' = 3"
    by (elim exE conjE, intro that) (simp_all add: numeral_2_eq_2)
  have "h_chans h' ! 0 = [f, f]" "h_chans h' ! 1 = [f]"
    using queues [rule_format, of 0] queues [rule_format, of 1] shares by simp_all
  with h'(2) have "map length (h_chans h') = [2, 1]" by (auto simp: numeral_2_eq_2 length_Suc_conv)
  with h'(1) count show ?thesis by (intro exI [of _ h'] conjI)
qed

theorem batches_by_company_witness:
  "\<exists>ms bs. export_batch demo_thread_args [new_flow, new_flow\<lparr>j_CompanyId := 7\<rparr>, new_flow] = (ms, serialize_all (ta_seri demo_thread_args) bs) \<and>
     length (concat bs) = 1 \<and> list_all one_company bs"
  using batches_by_company [of demo_thread_args "[new_flow, new_flow\<lparr>j_CompanyId := 7\<rparr>, new_flow]"]
  by (auto simp: demo_thread_args_def visits_all_def thread_samples_def)

end
