(* ===== verification/Spec2Isabelle.thy ===== *)
theory Spec2Isabelle
  imports Netflow_Format_Correct Stitch Roller Nrm_Correct Snmp_Trap Flow_Driver Tag_Map Rule Kentik_Path
begin

text \<open>
  \<^bold>\<open>The network agent.\<close> The program receives flow records from routers and polls devices by SNMP, filters and
  aggregates what it receives and hands it to an output format and a sink. This development follows a flow from
  the datagram to the output, and a counter from the poll to the metric. All paths below are under \<^verbatim>\<open>src/pkg\<close>.

  \<^bold>\<open>The parts and how they interact.\<close>

  \<^item> \<^verbatim>\<open>util/netflow\<close> decodes datagrams. \<^verbatim>\<open>decoder.go\<close> reads the version word and calls the package of that
    version; the packages for IPFIX and version 9 keep the templates they have seen in a session shared
    by all datagrams of a decoder and use them to cut data sets into fields, which \<^verbatim>\<open>translate\<close> turns into
    values.
  \<^item> \<^verbatim>\<open>api\<close> keeps tables of devices, sites, tests and agents that it loads from the Kentik API; \<^verbatim>\<open>kt/device_types.go\<close>
    makes devices from the messages of the API and \<^verbatim>\<open>util/ic\<close> names the classes of interfaces. \<^verbatim>\<open>maps\<close> finds the names
    of tags in a file or at the API, \<^verbatim>\<open>util/resolv\<close> those of addresses; \<^verbatim>\<open>util/rule\<close> and \<^verbatim>\<open>util/service\<close> tell internal
    addresses and the service of a port.
  \<^item> \<^verbatim>\<open>inputs/flow\<close> turns the messages of the goflow2 library into flow records, which it attributes to the devices of
    the API, and sends them to the agent in batches.
  \<^item> \<^verbatim>\<open>kt/types.go\<close> has the flow record \<^verbatim>\<open>JCHF\<close> with its map view, which filters and rollups read.
  \<^item> \<^verbatim>\<open>stitch\<close> pairs the two directions of a connection with the help of a ring buffer of recent flows.
  \<^item> \<^verbatim>\<open>filter\<close> has the filter language, \<^verbatim>\<open>rollup\<close> the aggregation by key.
  \<^item> \<^verbatim>\<open>inputs/snmp\<close> polls devices: \<^verbatim>\<open>util\<close> walks objects and converts values, \<^verbatim>\<open>metrics/interface_metrics.go\<close> turns
    the counters of interfaces into differences with \<^verbatim>\<open>kt/counters\<close>. \<^verbatim>\<open>mibs\<close> loads the profiles that say which objects
    a device has, and \<^verbatim>\<open>metrics/device_metrics.go\<close> polls these objects; \<^verbatim>\<open>kt/snmp.go\<close> has the configuration of the devices.
    \<^verbatim>\<open>traps\<close> turns the traps of devices into flows.
  \<^item> \<^verbatim>\<open>formats/netflow\<close> writes flows as IPFIX or version 9 again and reads them back with the decoders;
    \<^verbatim>\<open>formats/nrm\<close> turns flows, SNMP metrics, synthetic tests and rollups into the metrics of New Relic, with the
    attributes, metadata and match filters of \<^verbatim>\<open>formats/util\<close>.
  \<^item> \<^verbatim>\<open>cat/kkc.go\<close> is the agent: \<^verbatim>\<open>handleInput\<close> enriches, filters, feeds the rollups, samples, and exports in
    messages of bounded size. \<^verbatim>\<open>cat/kentik.go\<close> is its second path: flows in Cap'n Proto messages and JSON events arrive
    by HTTP and are spread over threads, each of which converts them with \<^verbatim>\<open>cat/jchf.go\<close> into the records of a pool,
    enriches, filters and exports them. \<^verbatim>\<open>cat/mapping.go\<close>, \<^verbatim>\<open>util/cdn\<close> and \<^verbatim>\<open>km\<close> name columns and metrics.

  \<^bold>\<open>Which theory models which part.\<close>

  \<^item> \<^verbatim>\<open>Prelude\<close>: bytes, errors as the left side of a sum (a panic is an error of its own constructor), the
    sequencing of fallible readers, the 64-bit \<^verbatim>\<open>int\<close>, and the interfaces shared by the decoders: \<open>codec\<close> (what
    a writer and a reader of a fixed number of bytes promise), \<open>record_loop\<close> (a loop that reads records until
    its guard fails) and \<open>field_reader\<close> (a reader that takes exactly the bytes its specifier names).
  \<^item> \<^verbatim>\<open>Netflow_Read\<close>, \<^verbatim>\<open>Netflow_Session\<close>, \<^verbatim>\<open>Netflow_Translate\<close>, \<^verbatim>\<open>Netflow_Types\<close>: \<^verbatim>\<open>read/*.go\<close>, \<^verbatim>\<open>session/session.go\<close>,
    \<^verbatim>\<open>translate/translate.go\<close> and the types of the packets. The template store is a map from source and template
    id, with the interface \<open>template_session\<close>.
  \<^item> \<^verbatim>\<open>Netflow_Legacy\<close>: \<^verbatim>\<open>netflow1\<close>, \<^verbatim>\<open>netflow5\<close>, \<^verbatim>\<open>netflow6\<close>, \<^verbatim>\<open>netflow7\<close>, as instances of \<open>counted_packet\<close> (a header
    with a count, then so many records).
  \<^item> \<^verbatim>\<open>Ipfix\<close> and \<^verbatim>\<open>Ipfix_Correct\<close>: \<^verbatim>\<open>ipfix/packet.go\<close>, \<^verbatim>\<open>ipfix/decoder.go\<close>, \<^verbatim>\<open>ipfix/translate.go\<close>, definitions and lemmas.
    \<^verbatim>\<open>Netflow9\<close> and \<^verbatim>\<open>Netflow9_Correct\<close>: the same for \<^verbatim>\<open>netflow9\<close>. \<^verbatim>\<open>Netflow_Decoder\<close>: \<^verbatim>\<open>decoder.go\<close>.
    \<^verbatim>\<open>Element_Tables\<close>: every table of \<^verbatim>\<open>translate\<close> in the order of the initialisation.
  \<^item> \<^verbatim>\<open>Go_Strings\<close>, \<^verbatim>\<open>Go_Net\<close>: what the code uses of \<^verbatim>\<open>strings\<close>, \<^verbatim>\<open>strconv\<close> and \<^verbatim>\<open>net\<close>. \<^verbatim>\<open>Jchf\<close>: \<^verbatim>\<open>kt/types.go\<close>.
    \<^verbatim>\<open>Utf8\<close>: \<^verbatim>\<open>kt/utf8.go\<close>. \<^verbatim>\<open>Proto\<close>: \<^verbatim>\<open>util/ic/proto.go\<close>.
  \<^item> \<^verbatim>\<open>Netflow_Format\<close> and \<^verbatim>\<open>Netflow_Format_Correct\<close>: \<^verbatim>\<open>formats/netflow\<close>. \<^verbatim>\<open>Format_Util\<close> and \<^verbatim>\<open>Format_Util_Correct\<close>:
    \<^verbatim>\<open>formats/util/util.go\<close> and \<^verbatim>\<open>JCHF.Flatten\<close>. \<^verbatim>\<open>Nrm_Format\<close> and \<^verbatim>\<open>Nrm_Correct\<close>: \<^verbatim>\<open>formats/nrm\<close> without its
    demonstration mode.
  \<^item> \<^verbatim>\<open>Snmp_Conv\<close>: \<^verbatim>\<open>inputs/snmp/util\<close>. \<^verbatim>\<open>Snmp_Interface\<close>: \<^verbatim>\<open>kt/counters\<close> and \<^verbatim>\<open>metrics/interface_metrics.go\<close>.
    \<^verbatim>\<open>Snmp_Profile\<close>: \<^verbatim>\<open>mibs/profile.go\<close>, \<^verbatim>\<open>mibs/load.go\<close> and \<^verbatim>\<open>mibs/trap.go\<close>; profiles point to each other, so they
    lie in a list that is the heap. \<^verbatim>\<open>Snmp_Device\<close>: \<^verbatim>\<open>metrics/device_metrics.go\<close> and the configuration of \<^verbatim>\<open>kt/snmp.go\<close>.
    \<^verbatim>\<open>Snmp_Trap\<close>: \<^verbatim>\<open>traps/traps.go\<close>.
  \<^item> \<^verbatim>\<open>Ic\<close>: \<^verbatim>\<open>util/ic/ic.go\<close>. \<^verbatim>\<open>Device_Types\<close>: \<^verbatim>\<open>kt/device_types.go\<close>. \<^verbatim>\<open>Kentik_Api\<close>: \<^verbatim>\<open>api/api.go\<close>, whose reachable tables
    are the relation \<open>api_reach\<close>. \<^verbatim>\<open>Flow_Driver\<close>: \<^verbatim>\<open>inputs/flow\<close> and \<^verbatim>\<open>util/resolv\<close>; the goroutine \<^verbatim>\<open>run\<close> is the relation
    \<open>run_step\<close>. \<^verbatim>\<open>Tag_Map\<close>: \<^verbatim>\<open>maps\<close>, its interface \<^verbatim>\<open>TagMapper\<close> as the locale \<open>tag_mapper\<close>.
  \<^item> \<^verbatim>\<open>Service_Base\<close>, \<^verbatim>\<open>Service_Table1\<close>, \<^verbatim>\<open>Service_Table2\<close>, \<^verbatim>\<open>Service_Table3\<close>: the table of \<^verbatim>\<open>util/service/service.go\<close>,
    all of it, in parts whose ports ascend. \<^verbatim>\<open>Rule\<close>: \<^verbatim>\<open>util/rule\<close>.
  \<^item> \<^verbatim>\<open>Ringbuffer\<close>: \<^verbatim>\<open>stitch/ringbuffer/ringbuffer.go\<close>. \<^verbatim>\<open>Stitch\<close>: \<^verbatim>\<open>stitch/stitch.go\<close>, over the interface
    \<open>pairing_store\<close>, which the ring buffer implements.
  \<^item> \<^verbatim>\<open>Flow_Filter\<close>: \<^verbatim>\<open>filter/*.go\<close>. \<^verbatim>\<open>Rollup\<close> and \<^verbatim>\<open>Rollup_Correct\<close>: \<^verbatim>\<open>rollup/rollup.go\<close> and the sum rollup of
    \<^verbatim>\<open>rollup/stats.go\<close>. \<^verbatim>\<open>Stats_Rollup\<close>: its slow path. \<^verbatim>\<open>Cache_Rollup\<close>: \<^verbatim>\<open>rollup/cache.go\<close>. \<^verbatim>\<open>Unique_Rollup\<close>:
    \<^verbatim>\<open>rollup/unique.go\<close>.
  \<^item> \<^verbatim>\<open>Agent\<close>: the input and export path of \<^verbatim>\<open>cat/kkc.go\<close>. \<^verbatim>\<open>Roller\<close>: the interface \<^verbatim>\<open>Roller\<close> as the locale
    \<open>rollup_contract\<close>, its instances, and the runs of the agent with its rollups.
  \<^item> \<^verbatim>\<open>Kentik_Flow\<close>: \<^verbatim>\<open>flowToJCHF\<close> of \<^verbatim>\<open>cat/jchf.go\<close>, \<^verbatim>\<open>cat/mapping.go\<close> and \<^verbatim>\<open>util/cdn/cdn.go\<close>. \<^verbatim>\<open>Kentik_Metrics\<close>: \<^verbatim>\<open>km/km.go\<close>.
    \<^verbatim>\<open>Enrichment\<close>: \<^verbatim>\<open>doEnrichments\<close> of \<^verbatim>\<open>cat/jchf.go\<close>. \<^verbatim>\<open>Kentik_Path\<close>: \<^verbatim>\<open>cat/kentik.go\<close>; a thread is the relation
    \<open>thread_step\<close>.

  \<^bold>\<open>State and operations.\<close> A buffer or reader is the list of bytes not yet read, and each operation returns
  the rest. A struct is a record, a Go map an association list where its order or its size matters and a
  partial function otherwise; a nil map is told from an empty one. Words keep their width; a Go \<^verbatim>\<open>int\<close> is an
  integer with the wrap-around written out where the code can overflow. Goroutines and channels are step
  relations: the channel is a list of bounded length and the steps interleave freely.

  \<^bold>\<open>What the lemmas show.\<close>

  \<^item> Decoders: the session maps an id only to a template that carries it and a datagram touches templates of
    its own source only; template sets round trip; numbers are translated exactly; which data sets are
    decoded in finitely many steps and which make the decoder loop; no panics; the layout of version 5
    packets and of version 9 data sets; the counts the old versions refuse.
  \<^item> Tables of the API: whatever is loaded, refreshed and completed lazily, a lookup by company and id finds the
    device with that company and id; a refresh without error leaves exactly the devices listed, one with an
    error those of before. The function that names a traffic profile agrees with the table of profiles.
  \<^item> Flow input: what a message becomes, field by field, with its counters on the side of its direction; a flow of
    a device that the API lists carries this device; the batches are the flows in order, none empty and none
    above the limit, and everything received can be sent.
  \<^item> Names: tags written to a file are found again; the tag service stays within its limits and knows only what
    the API answered; the service of a port is the one the table lists; which addresses are internal.
  \<^item> Stitching: the ring buffer refines a list of slots, and a matched flow carries the counters of the most
    recent earlier unmatched flow of its key.
  \<^item> Filters: when evaluation panics, and that written filters are parsed back.
  \<^item> Rollups: sums, counts and extrema of a batch; conservation between channel, accumulator and exports in
    every interleaving; the largest values are exported; the limits of the cache, its memory estimate and
    what an emergency cleanup keeps; the unique rollup equals one pass over the flows, however batched.
  \<^item> Output: flows written as IPFIX or version 9 are read back in order, and which fields survive unchanged;
    New Relic metrics carry the scaled counters and exactly the attributes of the flow, whatever the order in
    which Go visits the maps; the labels of a rollup are the dimensions of its flows; SNMP metrics stay within
    the limit of attributes; the reserved attributes and the metadata of a device are kept over any batches;
    strings are valid UTF-8; what the match filters of a device decide.
  \<^item> SNMP: the differences of a counter add up to its increases over any polls; the status of a power supply;
    engine ids and addresses as text; the bounds of polling times and the order of the retries of a walk; loading
    profiles ends, also when they extend each other in circles; a device gets the profile of the longest prefix of
    its id, and of objects with one name the best one is kept; every number a device answers reaches the flow of its
    index; tags are marked with the provider they come from; which traps are dropped, and that the flow of a trap
    carries exactly its numbers.
  \<^item> Agent: the spans of a batch partition it, every kept flow is exported once in a message within the
    limit, \<^verbatim>\<open>reduce\<close> keeps the flows that pass, a batch the receiver finds too big shrinks to single flows, and
    all rollups keep their contracts in every run.
  \<^item> Kentik flows: a request is spread over the threads in turn and counted exactly; the conversion returns and
    carries the numbers, the device and the names of the message; cloud columns get their common names and metrics
    theirs in any order of the iteration; enrichment marks internal sides and fills in the others; batches are
    exported by company; the records of the pool are conserved, so that a thread never waits for itself.
  \<^item> Some lemmas state what the code does where it probably means something else: decoder loops on templates
    of size zero, options templates after the first, the stale slots of the ring buffer, the minimum after
    an export, a second upper case OR, entries of equal age in a cleanup, the 16 bit length of an IPFIX
    message, the padding of statistics, rollup keys that hold the join token, negated match filters, local
    devices that lose their interfaces, tests that are not implemented and so hide the devices, a sampling rate
    that wraps to zero, 64-bit tags cut to 32 bits, a mistyped range of internal addresses,
    recycled records that show the data of earlier flows, swapped and lost cloud columns, inverted error tests,
    events that drain the pool, the last and not the shortest polling time, trap variables after a leading dot,
    conditions on texts, traps of version 1.

  \<^bold>\<open>Loops, fuel and bounds.\<close> Loops over lists are structural recursions. The loops that read records from a
  buffer may run forever and are \<^verbatim>\<open>partial_function (option)\<close>, where \<open>None\<close> is not returning; no fuel is used,
  and termination is a theorem about these functions. The loop of \<^verbatim>\<open>jchfExportSliceBounds\<close> is of that kind, too.
  Floating point occurs in three places: \<^verbatim>\<open>int(float64(n) * 0.5)\<close>, \<^verbatim>\<open>* 0.75\<close> and quotients of counts, modelled
  by integer division, which is exact below \<open>2 ^ 51\<close>, and \<^verbatim>\<open>float64\<close> of a 64-bit sum, modelled with its rounding.

  \<^bold>\<open>Parameters.\<close> The table of information elements of a decoder (the format uses the built-in one), the parser of
  addresses of the filters, the shuffle of \<^verbatim>\<open>math/rand\<close> (a permutation), \<^verbatim>\<open>sort.Sort\<close> (an ordered permutation), the
  order in which Go visits a map where it matters, the cardinality sketch of the unique rollup, the float
  statistics, the answers of the services of the API and of the DNS, the wire format of protocol buffers, the prefix
  trees of the patricia library, lower case outside ASCII, regular expressions, scripts, the decoders of YAML and XML,
  the SNMP client, percentages in floating point, the JSON and gzip coders, the getters of Cap'n
  Proto messages, the databases of countries and AS numbers, the outside enrichment service, the clock and, for the agent, the
  enrichment and the serializer are arguments.

  \<^bold>\<open>Not modelled.\<close> Logging and debug output; of SNMP the discovery, the metadata, the schedule of the polls and
  the vendor extensions; the other inputs (syslog, HTTP, cloud logs) and the sinks, which are input and output
  around libraries; the other serializers of \<^verbatim>\<open>formats\<close>; the demonstration mode of \<^verbatim>\<open>formats/nrm\<close>; the file that
  \<^verbatim>\<open>getHar\<close> of \<^verbatim>\<open>cat/jchf.go\<close> fetches; configuration and start-up.
\<close>

end
